(* ===== verification/Prelude.thy ===== *)
theory Prelude
  imports Main "HOL-Library.Word"
begin

text \<open>
  What the components share: the machine types of the C sources, the bit-field lemmas for
  memory-mapped registers, the faults by which a definition says that the C code leaves the
  defined part of the language, byte-order helpers, and the interface of a register file.
\<close>

unbundle bit_operations_syntax

section \<open>Machine types\<close>

type_synonym u8 = "8 word"
type_synonym u16 = "16 word"
type_synonym u32 = "32 word"
type_synonym u64 = "64 word"

text \<open>A C \<open>int\<close> is kept as its 32 bits; a signed comparison reads it with \<open>sint\<close>.\<close>

type_synonym s32 = "32 word"

text \<open>
  A definition that would index an array out of its bounds, follow a null pointer, divide by
  zero, shift by the width of the operand or run a loop forever returns one of these instead
  of a value.
\<close>

datatype fault = OutOfBounds | NullPointer | DivisionByZero | BadShift | Diverges | DanglingPointer

type_synonym 'a checked = "fault + 'a"

section \<open>Error numbers\<close>

abbreviation (input) ENOENT :: int where "ENOENT \<equiv> 2"
abbreviation (input) ENOMEM :: int where "ENOMEM \<equiv> 12"
abbreviation (input) EFAULT :: int where "EFAULT \<equiv> 14"
abbreviation (input) EEXIST :: int where "EEXIST \<equiv> 17"
abbreviation (input) ENODEV :: int where "ENODEV \<equiv> 19"
abbreviation (input) EINVAL :: int where "EINVAL \<equiv> 22"
abbreviation (input) EOPNOTSUPP :: int where "EOPNOTSUPP \<equiv> 95"
abbreviation (input) EALREADY :: int where "EALREADY \<equiv> 114"

section \<open>Bit fields of a register\<close>

text \<open>The field of \<open>w\<close> bits at bit \<open>s\<close>: its value, and the register with it replaced.\<close>

definition get_field :: "nat \<Rightarrow> nat \<Rightarrow> 'a::len word \<Rightarrow> 'a word" where
  "get_field w s r = drop_bit s r AND mask w"

definition set_field :: "nat \<Rightarrow> nat \<Rightarrow> 'a::len word \<Rightarrow> 'a word \<Rightarrow> 'a word" where
  "set_field w s v r = (r AND NOT (push_bit s (mask w))) OR push_bit s (v AND mask w)"

text \<open>
  A single bit and a run of bits, kept folded: the simplifier would turn \<open>push_bit 31 1\<close>
  into a numeral, and the value of a bit of a numeral at an unknown position is opaque.
\<close>

definition BIT :: "nat \<Rightarrow> 'a::len word" where
  "BIT n = push_bit n 1"

definition field_mask :: "nat \<Rightarrow> nat \<Rightarrow> 'a::len word" where
  "field_mask w s = push_bit s (mask w)"

lemma bit_BIT [bit_simps]: "bit (BIT n :: 'a::len word) i \<longleftrightarrow> i = n \<and> n < LENGTH('a)"
  by (auto simp: BIT_def bit_simps)

lemma bit_field_mask [bit_simps]:
  "bit (field_mask w s :: 'a::len word) i \<longleftrightarrow> s \<le> i \<and> i < s + w \<and> i < LENGTH('a)"
  by (auto simp: field_mask_def bit_simps)

lemma bit_get_field [bit_simps]:
  "bit (get_field w s r) i \<longleftrightarrow> i < w \<and> bit r (s + i)" for r :: "'a::len word"
  by (auto simp: get_field_def bit_simps dest: bit_imp_le_length)

lemma and_bit_zero: "(gs AND BIT n = 0) \<longleftrightarrow> \<not> bit gs n" for gs :: "'a::len word"
proof -
  have "gs AND BIT n \<noteq> 0" if "bit gs n"
  proof
    assume "gs AND BIT n = 0"
    then have "\<not> bit (gs AND BIT n) n" by simp
    then show False using that by (auto simp: bit_simps dest: bit_imp_le_length)
  qed
  moreover have "gs AND BIT n = 0" if "\<not> bit gs n"
    using that by (intro bit_word_eqI) (auto simp: bit_simps)
  ultimately show ?thesis by blast
qed

lemma unat_get_field_less: "unat (get_field w s r) < 2 ^ w" for r :: "'a::len word"
proof -
  have "get_field w s r = take_bit w (drop_bit s r)"
    by (simp add: get_field_def take_bit_eq_mask)
  then show ?thesis by (simp add: unsigned_take_bit_eq take_bit_nat_less_exp)
qed

lemma get_field_set_field_same:
  "s + w \<le> LENGTH('a) \<Longrightarrow> get_field w s (set_field w s v r) = v AND mask w"
  for v r :: "'a::len word"
  by (rule bit_word_eqI) (auto simp: get_field_def set_field_def bit_simps)

lemma get_field_set_field_other:
  "s + w \<le> s' \<or> s' + w' \<le> s \<Longrightarrow> get_field w s (set_field w' s' v r) = get_field w s r"
  for v r :: "'a::len word"
  by (rule bit_word_eqI)
    (auto simp: get_field_def set_field_def bit_simps dest: bit_imp_le_length)

lemma get_field_or:
  "get_field w s (a OR b) = get_field w s a OR get_field w s b"
  by (simp add: get_field_def bit.conj_disj_distrib2)

lemma get_field_push_same:
  "s + w \<le> LENGTH('a) \<Longrightarrow> get_field w s (push_bit s v) = v AND mask w" for v :: "'a::len word"
  by (rule bit_word_eqI) (auto simp: get_field_def bit_simps)

lemma get_field_push_masked_other:
  "s' + w' \<le> s \<or> s + w \<le> s' \<Longrightarrow> get_field w s (push_bit s' (v AND mask w')) = 0"
  for v :: "'a::len word"
  by (rule bit_word_eqI) (auto simp: get_field_def bit_simps)

lemma and_mask_idem [simp]: "(v AND mask w) AND mask w = v AND mask w"
  for v :: "'a::len word"
  by (simp add: and.assoc)

lemma and_mask_id: "unat v < 2 ^ w \<Longrightarrow> v AND mask w = v" for v :: "'a::len word"
proof -
  assume a: "unat v < 2 ^ w"
  have "unat (take_bit w v) = take_bit w (unat v)"
    by (rule unsigned_take_bit_eq)
  also have "\<dots> = unat v"
    using a by (simp add: take_bit_nat_eq_self_iff)
  finally have "take_bit w v = v" by (simp only: word_unat_eq_iff)
  then show ?thesis by (simp only: take_bit_eq_mask)
qed

lemma field_mask_1: "field_mask 1 0 = (BIT 0 :: 'a::len word)"
  by (rule bit_word_eqI) (auto simp: bit_simps)

lemma bit_ucast_less: "unat v < 2 ^ k \<Longrightarrow> bit v i \<Longrightarrow> i < k" for v :: "'a::len word"
proof (rule ccontr)
  assume a: "unat v < 2 ^ k" "bit v i" "\<not> i < k"
  have "v AND mask k = v" by (rule and_mask_id [OF a(1)])
  then have "bit (v AND mask k) i" using a(2) by simp
  then show False using a(3) by (simp add: bit_simps)
qed

lemma ucast_ucast_u8 [simp]: "ucast (ucast v :: u32) = v" for v :: u8
  by (rule bit_word_eqI) (auto simp: bit_simps)

lemma ucast_ucast_u16 [simp]: "ucast (ucast v :: u32) = v" for v :: u16
  by (rule bit_word_eqI) (auto simp: bit_simps)

section \<open>Byte order\<close>

text \<open>
  The value of a byte list read in big-endian (network) and in little-endian order. The
  kernel and the applications of the repository run on a little-endian ARM core.
\<close>

fun be_val :: "u8 list \<Rightarrow> nat" where
  "be_val [] = 0"
| "be_val (b # bs) = unat b * 256 ^ length bs + be_val bs"

definition ntohl :: "u8 list \<Rightarrow> u32" where
  "ntohl bs = of_nat (be_val (take 4 bs))"

definition load_le64 :: "u8 list \<Rightarrow> u64" where
  "load_le64 bs = of_nat (be_val (rev (take 8 bs)))"

definition htonl :: "u32 \<Rightarrow> u8 list" where
  "htonl w = [ucast (drop_bit 24 w), ucast (drop_bit 16 w), ucast (drop_bit 8 w), ucast w]"

text \<open>The bytes of a word in the order of the shifts the sources write out by hand.\<close>

definition le_bytes32 :: "u32 \<Rightarrow> u8 list" where
  "le_bytes32 w = [ucast w, ucast (drop_bit 8 w), ucast (drop_bit 16 w), ucast (drop_bit 24 w)]"

lemma length_le_bytes32 [simp]: "length (le_bytes32 w) = 4"
  by (simp add: le_bytes32_def)

lemma length_htonl [simp]: "length (htonl w) = 4"
  by (simp add: htonl_def)

lemma unat_u32_less: "unat w < 4294967296" for w :: u32
proof -
  have "unat w < 2 ^ LENGTH(32)" by (rule unsigned_less)
  then show ?thesis by simp
qed

lemma unat_add_small: "unat a + unat b < 4294967296 \<Longrightarrow> unat (a + b) = unat a + unat b"
  for a b :: u32
  by (simp add: unat_word_ariths)

lemma unat_mult_small: "unat a * unat b < 4294967296 \<Longrightarrow> unat (a * b) = unat a * unat b"
  for a b :: u32
  by (simp add: unat_word_ariths)

lemma unat_ucast_drop8: "unat (ucast (drop_bit n w) :: u8) = unat w div 2 ^ n mod 256"
  for w :: u32
  using unat_u32_less [of w]
  by (simp add: unsigned_ucast_eq unsigned_drop_bit_eq take_bit_eq_mod) (simp add: drop_bit_eq_div)

lemma nat_bytes_sum:
  "x < 4294967296 \<Longrightarrow> x div 16777216 mod 256 * 16777216 + (x div 65536 mod 256 * 65536 +
     (x div 256 mod 256 * 256 + x mod 256)) = (x::nat)"
proof -
  assume x: "x < 4294967296"
  define a b c where "a = x div 256" and "b = a div 256" and "c = b div 256"
  note abc = a_def b_def c_def
  have "x div 65536 = b" "x div 16777216 = c"
    by (simp_all add: abc flip: div_mult2_eq)
  moreover have "c < 256" using x by (simp add: abc less_mult_imp_div_less flip: div_mult2_eq)
  moreover have "x = a * 256 + x mod 256" "a = b * 256 + a mod 256" "b = c * 256 + b mod 256"
    by (simp_all add: abc)
  ultimately show ?thesis unfolding a_def [symmetric] by simp
qed

lemma be_val_htonl: "be_val (htonl w) = unat w"
proof -
  have u: "unat (ucast w :: u8) = unat w mod 256"
    by (simp add: unsigned_ucast_eq take_bit_eq_mod)
  have "be_val (htonl w) = unat w div 16777216 mod 256 * 16777216 +
      (unat w div 65536 mod 256 * 65536 + (unat w div 256 mod 256 * 256 + unat w mod 256))"
    by (simp add: htonl_def unat_ucast_drop8 u)
  also have "\<dots> = unat w"
    by (rule nat_bytes_sum [OF unat_u32_less])
  finally show ?thesis .
qed

lemma ntohl_htonl [simp]: "ntohl (htonl w) = w"
  using be_val_htonl [of w] by (simp add: ntohl_def htonl_def)

lemma le_bytes32_inj: "le_bytes32 v = le_bytes32 w \<longleftrightarrow> v = w"
proof
  assume "le_bytes32 v = le_bytes32 w"
  then have "htonl v = htonl w" by (simp add: le_bytes32_def htonl_def)
  then have "ntohl (htonl v) = ntohl (htonl w)" by simp
  then show "v = w" by simp
qed simp

section \<open>Signed readings\<close>

lemma sint_small: "unat x < 2147483648 \<Longrightarrow> sint x = int (unat x)" for x :: u32
proof -
  assume "unat x < 2147483648"
  then have "uint x < 2147483648" by (simp add: uint_nat del: of_nat_unat)
  moreover have "- (2 ^ 31) \<le> uint x" by (rule order_trans [OF _ uint_ge_0]) simp
  ultimately have "signed_take_bit 31 (uint x) = uint x"
    by (intro signed_take_bit_int_eq_self) simp_all
  then show ?thesis by (simp add: sint_uint)
qed

lemma sint_neg_iff: "sint x < 0 \<longleftrightarrow> 2147483648 \<le> unat x" for x :: u32
proof -
  have "sint x < 0 \<longleftrightarrow> odd (uint x div 2147483648)"
    by (simp add: sint_uint bit_iff_odd)
  also have "\<dots> \<longleftrightarrow> 2147483648 \<le> uint x"
  proof (cases "2147483648 \<le> uint x")
    case True
    moreover have "uint x < 2 ^ LENGTH(32)" by (rule uint_lt2p)
    ultimately have "uint x div 2147483648 = 1" by (intro int_div_pos_eq [where r = "uint x - 2147483648"]) auto
    with True show ?thesis by simp
  qed simp
  finally show ?thesis by (simp add: uint_nat del: of_nat_unat)
qed

section \<open>Register files\<close>

text \<open>
  The interface of a block of memory-mapped registers as the drivers see it between two
  steps of the hardware: a read returns the last value written to that offset.
\<close>

locale register_file =
  fixes ior :: "'r \<Rightarrow> u32 \<Rightarrow> u32"
    and iow :: "'r \<Rightarrow> u32 \<Rightarrow> u32 \<Rightarrow> 'r"
  assumes ior_iow_same: "ior (iow r a v) a = v"
    and ior_iow_other: "a \<noteq> b \<Longrightarrow> ior (iow r a v) b = ior r b"
begin

lemma ior_iow: "ior (iow r a v) b = (if a = b then v else ior r b)"
  by (simp add: ior_iow_same ior_iow_other)

text \<open>A sequence of writes: the last write to an offset is the one a read sees.\<close>

lemma ior_foldl_notin:
  "b \<notin> fst ` set ws \<Longrightarrow> ior (foldl (\<lambda>r (a, v). iow r a v) r ws) b = ior r b"
  by (induction ws arbitrary: r) (auto simp: ior_iow)

lemma ior_foldl_in:
  "distinct (map fst ws) \<Longrightarrow> (b, v) \<in> set ws \<Longrightarrow>
     ior (foldl (\<lambda>r (a, v). iow r a v) r ws) b = v"
proof (induction ws arbitrary: r)
  case (Cons w ws)
  show ?case
  proof (cases "w = (b, v)")
    case True
    with Cons.prems(1) have "b \<notin> fst ` set ws" by simp
    with True show ?thesis by (simp add: ior_foldl_notin ior_iow_same)
  next
    case False
    with Cons show ?thesis by auto
  qed
qed simp

end

section \<open>Lists\<close>

lemma all_less_4: "(\<forall>i<4. P i) \<longleftrightarrow> P 0 \<and> P (Suc 0) \<and> P 2 \<and> P 3"
proof -
  have "(\<forall>i<4. P i) \<longleftrightarrow> (\<forall>i\<in>set [0..<4]. P i)" by auto
  also have "\<dots> \<longleftrightarrow> P 0 \<and> P (Suc 0) \<and> P 2 \<and> P 3" by (simp add: upt_rec numeral_eq_Suc)
  finally show ?thesis .
qed

lemma foldl_invariant:
  "(\<And>s x. x \<in> set xs \<Longrightarrow> P s \<Longrightarrow> P (f s x)) \<Longrightarrow> P s \<Longrightarrow> P (foldl f s xs)"
  by (induction xs arbitrary: s) auto

lemma foldl_frame:
  "(\<And>s x. g (f s x) = g s) \<Longrightarrow> g (foldl f s xs) = g s"
  by (induction xs arbitrary: s) auto

end
