(* ===== verification/Tadma.thy ===== *)
theory Tadma
  imports Prelude
begin

text \<open>
  The time-aware DMA driver, \<^verbatim>\<open>driver/xilinx/xilinx_tsn_tadma.c\<close> and its header: the stream
  table that maps a TRDP packet to a stream, the stream fetch memory (SFM) that the schedule
  is programmed into, the transmit path with its descriptor ring, and the interrupt that
  reclaims descriptors.

  The fields of \<open>struct axienet_local\<close> that belong to the TADMA, the file's static variables
  and the effects on the kernel (buffers freed, mappings released, queue state) are one
  record. The registers are the driver's view of them between two steps of the hardware.
  The kernel's \<open>hash_64\<close> is an argument \<open>h\<close>; a build for 64 bit DMA addresses is the
  argument \<open>dma64\<close>.
\<close>

section \<open>Registers and data (xilinx_tsn_tadma.h)\<close>

abbreviation (input) XTADMA_USFM_OFFSET :: u32 where "XTADMA_USFM_OFFSET \<equiv> 0x1000"
abbreviation (input) XTADMA_LSFM_OFFSET :: u32 where "XTADMA_LSFM_OFFSET \<equiv> 0x2000"
abbreviation (input) XTADMA_PM_OFFSET :: u32 where "XTADMA_PM_OFFSET \<equiv> 0x3000"
abbreviation (input) XTADMA_PM_RD_MASK :: u32 where "XTADMA_PM_RD_MASK \<equiv> 0xFF"
abbreviation (input) XTADMA_PM_WR_MASK :: u32 where "XTADMA_PM_WR_MASK \<equiv> 0xFF0000"
abbreviation (input) XTADMA_ALM_OFFSET :: u32 where "XTADMA_ALM_OFFSET \<equiv> 0x40000"
abbreviation (input) XTADMA_CR_OFFSET :: u32 where "XTADMA_CR_OFFSET \<equiv> 0x0"
abbreviation (input) XTADMA_INT_EN_OFFSET :: u32 where "XTADMA_INT_EN_OFFSET \<equiv> 0x10"
abbreviation (input) XTADMA_INT_STA_OFFSET :: u32 where "XTADMA_INT_STA_OFFSET \<equiv> 0x14"
abbreviation (input) XTADMA_INT_CLR_OFFSET :: u32 where "XTADMA_INT_CLR_OFFSET \<equiv> 0x18"
abbreviation (input) XTADMA_SCHED_ENABLE :: u32 where "XTADMA_SCHED_ENABLE \<equiv> 0x10"
abbreviation (input) XTADMA_CFG_DONE :: u32 where "XTADMA_CFG_DONE \<equiv> 0x1"
abbreviation (input) XTADMA_IE_INT_EN :: u32 where "XTADMA_IE_INT_EN \<equiv> 0x800"
abbreviation (input) XTADMA_FFI_INT_EN :: u32 where "XTADMA_FFI_INT_EN \<equiv> 0x1"
abbreviation (input) XTADMA_STR_ID_MASK :: u32 where "XTADMA_STR_ID_MASK \<equiv> 0xFF"
abbreviation (input) XTADMA_STR_NUM_FRM_MASK :: u32 where "XTADMA_STR_NUM_FRM_MASK \<equiv> 0x30000"
abbreviation (input) XTADMA_STR_QUE_TYPE_MASK :: u32 where "XTADMA_STR_QUE_TYPE_MASK \<equiv> 0x300000"
abbreviation (input) XTADMA_STR_CONT_FETCH_EN :: u32 where "XTADMA_STR_CONT_FETCH_EN \<equiv> 0x400000"
abbreviation (input) XTADMA_STR_ENTRY_VALID :: u32 where "XTADMA_STR_ENTRY_VALID \<equiv> 0x80000000"
abbreviation (input) XTADMA_ALM_TOT_PKT_SZ_BY8_MASK :: u32
  where "XTADMA_ALM_TOT_PKT_SZ_BY8_MASK \<equiv> 0xFF00"
abbreviation (input) XTADMA_ALM_FETCH_SZ_MASK :: u32 where "XTADMA_ALM_FETCH_SZ_MASK \<equiv> 0xFFF0000"
abbreviation (input) XTADMA_ALM_UFF :: u32 where "XTADMA_ALM_UFF \<equiv> 0x10000000"
abbreviation (input) XTADMA_ALM_SOP :: u32 where "XTADMA_ALM_SOP \<equiv> 0x40000000"
abbreviation (input) XTADMA_ALM_EOP :: u32 where "XTADMA_ALM_EOP \<equiv> 0x80000000"

abbreviation (input) SFM_UPPER :: s32 where "SFM_UPPER \<equiv> 0"
abbreviation (input) MAX_TRIG_COUNT :: u32 where "MAX_TRIG_COUNT \<equiv> 4"
abbreviation (input) STRID_BE :: s32 where "STRID_BE \<equiv> 0"
abbreviation (input) NSEC_PER_MSEC :: u32 where "NSEC_PER_MSEC \<equiv> 1000000"
abbreviation (input) TADMA_MAX_NO_STREAM :: nat where "TADMA_MAX_NO_STREAM \<equiv> 128"

datatype qtype = qt_st | qt_res | qt_be | qt_resbe

definition qtype_code :: "qtype \<Rightarrow> u32" where
  "qtype_code q = (case q of qt_st \<Rightarrow> 0 | qt_res \<Rightarrow> 1 | qt_be \<Rightarrow> 2 | qt_resbe \<Rightarrow> 3)"

text \<open>\<open>struct tadma_stream\<close>: what the configuration application hands to the driver.\<close>

record tadma_stream =
  ip :: "u8 list"
  comid :: u32
  trigger :: u32
  ts_count :: u32
  start :: u8

text \<open>\<open>struct tadma_stream_entry\<close>; the hash link is the entry's place in its bucket.\<close>

record tadma_stream_entry =
  hashtag :: "u8 list"
  tticks :: u32
  sid :: s32
  sfm :: s32
  te_count :: s32

datatype desc_mapping = DESC_DMA_MAP_SINGLE | DESC_DMA_MAP_PAGE

text \<open>\<open>struct axitadma_bd\<close>: \<open>phys\<close> has 32 bits, whatever the width of a DMA address.\<close>

record axitadma_bd =
  phys :: u32
  tx_skb :: u64
  tx_desc_mapping :: desc_mapping
  num_frag :: u32
  len :: u32

text \<open>
  A packet: its address as the driver keeps it, its length without fragments, the DMA address
  the kernel maps its head to (\<open>None\<close> when mapping fails), each fragment's size and DMA
  address, the bytes of the destination address in the IP header and of the ComId in the
  TRDP header.
\<close>

record sk_buff =
  skb_addr :: u64
  skb_headlen :: u32
  skb_dma :: "u64 option"
  skb_frags :: "(u32 \<times> u64) list"
  skb_daddr :: "u8 list"
  skb_comId :: "u8 list"

datatype tadma_event =
    UnmapPage u32 u32
  | UnmapSingle u32 u32
  | KfreeSkb u64
  | KfreeRing u32
  | KfreeRingArray
  | FreeIrq

datatype netdev_tx = NETDEV_TX_OK | NETDEV_TX_BUSY

record tadma_local =
  tadma_regs :: "u32 \<Rightarrow> u32"
  t_cb :: "tadma_stream_entry list list option"
  active_sfm :: s32
  num_tadma_buffers :: s32
  num_streams :: s32
  num_entries :: s32
  tx_bd :: "u32 \<Rightarrow> u32 \<Rightarrow> axitadma_bd"
  tx_bd_head :: "u32 \<Rightarrow> u32"
  tx_bd_tail :: "u32 \<Rightarrow> u32"
  tx_bd_rd :: "u32 \<Rightarrow> u32"
  tadma_hash_bits :: u8
  get_sid :: u32
  get_sfm :: u32
  chk_ptr :: bool
  subqueue_stopped :: "u16 \<Rightarrow> bool"
  tx_packets :: u64
  tx_bytes :: u64
  kernel_log :: "tadma_event list"

definition tadma_ior :: "tadma_local \<Rightarrow> u32 \<Rightarrow> u32" where
  "tadma_ior d off = tadma_regs d off"

definition tadma_iow :: "tadma_local \<Rightarrow> u32 \<Rightarrow> u32 \<Rightarrow> tadma_local" where
  "tadma_iow d off v = d\<lparr>tadma_regs := (tadma_regs d)(off := v)\<rparr>"

interpretation tadma_reg: register_file tadma_ior tadma_iow
  by unfold_locales (simp_all add: tadma_ior_def tadma_iow_def)

section \<open>The stream table\<close>

definition tadma_hashtag_hash :: "(u64 \<Rightarrow> u8 \<Rightarrow> u32) \<Rightarrow> tadma_local \<Rightarrow> u8 list \<Rightarrow> u32" where
  "tadma_hashtag_hash h d addr = h (load_le64 addr) (tadma_hash_bits d)"

definition u16_at :: "u8 list \<Rightarrow> nat \<Rightarrow> u16" where
  "u16_at a i = ucast (a ! (2 * i)) OR push_bit 8 (ucast (a ! (2 * i + 1)))"

text \<open>The fourth term compares \<open>addr1\<close> with itself, as the source does.\<close>

definition hash_tag_equal :: "u8 list \<Rightarrow> u8 list \<Rightarrow> bool" where
  "hash_tag_equal addr1 addr2 \<longleftrightarrow>
     (let a = u16_at addr1; b = u16_at addr2 in
      \<not> ((a 0 XOR b 0) OR (a 1 XOR b 1) OR (a 2 XOR b 2) OR (a 3 XOR a 3) \<noteq> 0))"

fun tadma_hash_lookup_stream ::
  "tadma_stream_entry list \<Rightarrow> u8 list \<Rightarrow> tadma_stream_entry option" where
  "tadma_hash_lookup_stream [] hash_tag = None"
| "tadma_hash_lookup_stream (e # es) hash_tag =
     (if hash_tag_equal (hashtag e) hash_tag then Some e
      else tadma_hash_lookup_stream es hash_tag)"

text \<open>The eight byte tag: four bytes of IP address, then the ComId, lowest byte first.\<close>

definition mk_hash_tag :: "u8 list \<Rightarrow> u32 \<Rightarrow> u8 list" where
  "mk_hash_tag addr cid =
     take 4 addr @ [ucast (cid AND 0xff), ucast (drop_bit 8 cid AND 0xff),
                    ucast (drop_bit 16 cid AND 0xff), ucast (drop_bit 24 cid AND 0xff)]"

text \<open>The bucket of a hash: the array of list heads has \<open>num_entries\<close> elements.\<close>

definition bucket_at :: "tadma_local \<Rightarrow> u32 \<Rightarrow> tadma_stream_entry list checked" where
  "bucket_at d idx =
     (case t_cb d of
        None \<Rightarrow> Inl NullPointer
      | Some hs \<Rightarrow> if unat idx < length hs then Inr (hs ! unat idx) else Inl OutOfBounds)"

definition hlist_add_head :: "tadma_local \<Rightarrow> u32 \<Rightarrow> tadma_stream_entry \<Rightarrow> tadma_local" where
  "hlist_add_head d idx e =
     d\<lparr>t_cb := map_option (\<lambda>hs. hs[unat idx := e # hs ! unat idx]) (t_cb d)\<rparr>"

text \<open>\<open>kzalloc\<close> and \<open>kcalloc\<close> succeed or not, as the two flags say.\<close>

definition tadma_sfm_hash_init :: "bool \<Rightarrow> bool \<Rightarrow> tadma_local \<Rightarrow> int \<times> tadma_local" where
  "tadma_sfm_hash_init kzalloc_ok kcalloc_ok d =
     (if \<not> kzalloc_ok then (- ENOMEM, d)
      else if \<not> kcalloc_ok then (- ENOMEM, d)
      else (0, d\<lparr>t_cb := Some (replicate (unat (num_entries d)) [])\<rparr>))"

definition axienet_tadma_add_stream ::
  "(u64 \<Rightarrow> u8 \<Rightarrow> u32) \<Rightarrow> tadma_stream option \<Rightarrow> bool \<Rightarrow> tadma_local \<Rightarrow> (int \<times> tadma_local) checked"
where
  "axienet_tadma_add_stream h useraddr kzalloc_ok d =
     (case useraddr of
        None \<Rightarrow> Inr (- EFAULT, d)
      | Some stream \<Rightarrow>
          if ts_count stream > MAX_TRIG_COUNT then Inr (- EINVAL, d)
          else
            let d = (if start stream \<noteq> 0 then d\<lparr>get_sid := 0, get_sfm := 0\<rparr> else d);
                hash_tag = mk_hash_tag (ip stream) (comid stream);
                idx = tadma_hashtag_hash h d hash_tag
            in case bucket_at d idx of
                 Inl f \<Rightarrow> Inl f
               | Inr bucket \<Rightarrow>
                   let entry = tadma_hash_lookup_stream bucket hash_tag;
                       same = (case entry of None \<Rightarrow> False
                               | Some e \<Rightarrow> te_count e = ts_count stream \<and> tticks e = trigger stream)
                   in if same then Inr (- EEXIST, d)
                      else
                        let (s, d) = (case entry of
                               Some e \<Rightarrow> (sid e, d)
                             | None \<Rightarrow> (get_sid d, d\<lparr>get_sid := get_sid d + 1\<rparr>))
                        in if s \<ge> num_streams d then Inr (- EINVAL, d)
                           else if get_sfm d \<ge> num_entries d then Inr (- EINVAL, d)
                           else if \<not> kzalloc_ok then Inr (- ENOMEM, d)
                           else
                             let e = \<lparr>hashtag = hash_tag, tticks = trigger stream, sid = s,
                                      sfm = get_sfm d, te_count = ts_count stream\<rparr>;
                                 d = d\<lparr>get_sfm := get_sfm d + 1\<rparr>
                             in Inr (0, hlist_add_head d idx e))"

text \<open>The stream of a packet: \<open>-1\<close> when no entry matches, \<open>0\<close> before any stream is added.\<close>

definition tadma_get_strid ::
  "(u64 \<Rightarrow> u8 \<Rightarrow> u32) \<Rightarrow> sk_buff \<Rightarrow> tadma_local \<Rightarrow> s32 checked" where
  "tadma_get_strid h skb d =
     (if get_sid d = 0 then Inr 0
      else
        let cid = ntohl (skb_comId skb);
            hash_tag = mk_hash_tag (skb_daddr skb) cid;
            idx = tadma_hashtag_hash h d hash_tag
        in case bucket_at d idx of
             Inl f \<Rightarrow> Inl f
           | Inr bucket \<Rightarrow>
               (case tadma_hash_lookup_stream bucket hash_tag of
                  Some e \<Rightarrow> Inr (sid e)
                | None \<Rightarrow> Inr (- 1)))"

section \<open>Programming the stream fetch memory\<close>

definition sfm_entry_offset :: "tadma_local \<Rightarrow> s32 \<Rightarrow> u32" where
  "sfm_entry_offset d s =
     (if active_sfm d = SFM_UPPER then XTADMA_USFM_OFFSET + s * 8 else XTADMA_LSFM_OFFSET + s * 8)"

definition sfm_cfg :: "s32 \<Rightarrow> u32 \<Rightarrow> u32" where
  "sfm_cfg s cnt =
     (let cfg = 0 AND NOT (XTADMA_STR_ID_MASK OR XTADMA_STR_QUE_TYPE_MASK);
          cfg = cfg OR (push_bit 0 s AND XTADMA_STR_ID_MASK);
          cfg = cfg OR (push_bit 20 (qtype_code qt_st) AND XTADMA_STR_QUE_TYPE_MASK);
          cfg = (if cnt \<noteq> 0 then cfg AND NOT XTADMA_STR_CONT_FETCH_EN
                 else cfg OR XTADMA_STR_CONT_FETCH_EN);
          cfg = cfg OR XTADMA_STR_ENTRY_VALID;
          cnt = (if cnt > 0 then cnt - 1 else cnt)
      in cfg OR (push_bit 16 cnt AND XTADMA_STR_NUM_FRM_MASK))"

definition tadma_sfm_program :: "tadma_local \<Rightarrow> s32 \<Rightarrow> u32 \<Rightarrow> u32 \<Rightarrow> tadma_local" where
  "tadma_sfm_program d s ticks cnt =
     (let offset = sfm_entry_offset d s;
          d = tadma_iow d offset (ticks div 8)
      in tadma_iow d (offset + 4) (sfm_cfg s cnt))"

definition tadma_sfm_init :: "tadma_local \<Rightarrow> int \<times> tadma_local" where
  "tadma_sfm_init d =
     (let d = d\<lparr>active_sfm := SFM_UPPER\<rparr>
      in (0, tadma_sfm_program d STRID_BE NSEC_PER_MSEC 0))"

text \<open>Each entry is programmed at, and under the identity of, its \<open>sfm\<close> number.\<close>

definition program_bucket :: "tadma_local \<Rightarrow> tadma_stream_entry list \<Rightarrow> tadma_local" where
  "program_bucket d es =
     foldl (\<lambda>d e. tadma_sfm_program d (sfm e) (tticks e) (te_count e)) d es"

definition axienet_tadma_program :: "tadma_local \<Rightarrow> (int \<times> tadma_local) checked" where
  "axienet_tadma_program d =
     (case t_cb d of
        None \<Rightarrow> if num_entries d = 0
                then Inr (0, tadma_iow (tadma_iow d XTADMA_INT_EN_OFFSET
                               (XTADMA_FFI_INT_EN OR XTADMA_IE_INT_EN)) XTADMA_CR_OFFSET
                               (XTADMA_CFG_DONE OR XTADMA_SCHED_ENABLE))
                else Inl NullPointer
      | Some hs \<Rightarrow>
          if length hs < unat (num_entries d) then Inl OutOfBounds
          else
            let d = foldl program_bucket d (take (unat (num_entries d)) hs);
                d = tadma_iow d XTADMA_INT_EN_OFFSET (XTADMA_FFI_INT_EN OR XTADMA_IE_INT_EN);
                cr = XTADMA_CFG_DONE OR XTADMA_SCHED_ENABLE
            in Inr (0, tadma_iow d XTADMA_CR_OFFSET cr))"

definition axienet_tadma_off :: "tadma_local \<Rightarrow> int \<times> tadma_local" where
  "axienet_tadma_off d =
     (let d = tadma_iow d XTADMA_INT_EN_OFFSET (XTADMA_FFI_INT_EN OR XTADMA_IE_INT_EN);
          d = tadma_sfm_program d STRID_BE NSEC_PER_MSEC 0;
          d = tadma_iow d XTADMA_CR_OFFSET XTADMA_CFG_DONE
      in (0, d\<lparr>get_sid := 0\<rparr>))"

definition flush_slot :: "tadma_local \<Rightarrow> nat \<Rightarrow> tadma_local" where
  "flush_slot d hash =
     (let offset = sfm_entry_offset d (of_nat hash);
          d = tadma_iow d offset 0;
          d = tadma_iow d (offset + 4) 0
      in d\<lparr>t_cb := map_option (\<lambda>hs. hs[hash := []]) (t_cb d)\<rparr>)"

definition axienet_tadma_flush_stream :: "tadma_local \<Rightarrow> (int \<times> tadma_local) checked" where
  "axienet_tadma_flush_stream d =
     (let n = nat (sint (num_entries d));
          d = tadma_iow d XTADMA_CR_OFFSET 0
      in case t_cb d of
           None \<Rightarrow> if n = 0 then Inr (0, d) else Inl NullPointer
         | Some hs \<Rightarrow> if length hs < n then Inl OutOfBounds
                      else Inr (0, foldl flush_slot d [0..<n]))"

end
