(* ===== verification/Tadma_Xmit.thy ===== *)
theory Tadma_Xmit
  imports Tadma
begin

text \<open>
  The transmit side of the TADMA driver: bringing the device up, queueing a packet and its
  fragments on the descriptor ring and in the address/length memory (ALM), and the interrupt
  that reclaims the descriptors the hardware has fetched.
\<close>

section \<open>Probe, open and stop\<close>

text \<open>
  The loop \<open>while (!((num_streams >> count) & 1)) count++\<close>. A shift by the width of the
  operand is not defined in C; the definition returns \<open>BadShift\<close> there, which is where a
  count of zero streams leads.
\<close>

function count_zeros_from :: "u32 \<Rightarrow> nat \<Rightarrow> nat checked" where
  "count_zeros_from n c =
     (if 32 \<le> c then Inl BadShift
      else if drop_bit c n AND 1 = 0 then count_zeros_from n (Suc c)
      else Inr c)"
  by pat_completeness auto
termination
  by (relation "measure (\<lambda>(n, c). 32 - c)") auto

declare count_zeros_from.simps [simp del]

text \<open>
  What the device tree says: whether the TADMA node and its address resource are there, and
  the three optional numbers.
\<close>

record tadma_dt =
  dt_node :: bool
  dt_resource_ok :: bool
  dt_num_buffers :: "u32 option"
  dt_num_streams :: "u32 option"
  dt_num_entries :: "u32 option"

definition axienet_tadma_probe :: "tadma_dt \<Rightarrow> tadma_local \<Rightarrow> (int \<times> tadma_local) checked" where
  "axienet_tadma_probe dt d =
     (if \<not> dt_node dt then Inr (- ENODEV, d)
      else if \<not> dt_resource_ok dt then Inr (- ENODEV, d)
      else
        let d = d\<lparr>num_tadma_buffers := case_option 64 id (dt_num_buffers dt),
                  num_streams := case_option 8 id (dt_num_streams dt),
                  num_entries := case_option 8 id (dt_num_entries dt)\<rparr>
        in case count_zeros_from (num_streams d) 0 of
             Inl f \<Rightarrow> Inl f
           | Inr c \<Rightarrow> Inr (0, d\<lparr>tadma_hash_bits := of_nat c\<rparr>))"

text \<open>
  \<open>axienet_tadma_open\<close>: the return value of \<open>request_irq\<close> (\<open>None\<close> without an
  interrupt line), then which allocations succeed: the two of the stream table, the array of
  rings and the ring of each stream.
\<close>

definition open_ring :: "(u32 \<Rightarrow> bool) \<Rightarrow> u32 \<Rightarrow> tadma_local \<Rightarrow> bool \<times> tadma_local" where
  "open_ring ring_ok i d =
     (let d = d\<lparr>tx_bd_head := (tx_bd_head d)(i := 0), tx_bd_tail := (tx_bd_tail d)(i := 0),
                tx_bd_rd := (tx_bd_rd d)(i := 0)\<rparr>
      in (ring_ok i, d))"

fun open_rings :: "(u32 \<Rightarrow> bool) \<Rightarrow> u32 list \<Rightarrow> tadma_local \<Rightarrow> int \<times> tadma_local" where
  "open_rings ring_ok [] d = (0, d)"
| "open_rings ring_ok (i # is) d =
     (let (ok, d) = open_ring ring_ok i d
      in if \<not> ok then (- ENOMEM, d) else open_rings ring_ok is d)"

definition axienet_tadma_open ::
  "int option \<Rightarrow> bool \<Rightarrow> bool \<Rightarrow> bool \<Rightarrow> (u32 \<Rightarrow> bool) \<Rightarrow> tadma_local \<Rightarrow> (int \<times> tadma_local) checked"
where
  "axienet_tadma_open irq_ret kzalloc_ok kcalloc_ok array_ok ring_ok d =
     (if irq_ret \<noteq> None \<and> irq_ret \<noteq> Some 0 then Inr (the irq_ret, d)
      else
        let d = tadma_iow d XTADMA_INT_EN_OFFSET (XTADMA_FFI_INT_EN OR XTADMA_IE_INT_EN);
            (_, d) = tadma_sfm_init d;
            (_, d) = tadma_sfm_hash_init kzalloc_ok kcalloc_ok d;
            d = tadma_iow d XTADMA_CR_OFFSET XTADMA_CFG_DONE
        in if \<not> array_ok then Inr (- ENOMEM, d)
           else if TADMA_MAX_NO_STREAM < nat (sint (num_streams d)) then Inl OutOfBounds
           else Inr (open_rings ring_ok (map of_nat [0..<nat (sint (num_streams d))]) d))"

text \<open>
  \<open>axienet_tadma_stop\<close>: which ring pointers and whether the array pointer are not null. The
  loop counter has eight bits, so from 256 streams on the loop does not end.
\<close>

definition axienet_tadma_stop ::
  "(u32 \<Rightarrow> bool) \<Rightarrow> bool \<Rightarrow> tadma_local \<Rightarrow> (int \<times> tadma_local) checked" where
  "axienet_tadma_stop ring_ptr array_ptr d =
     (let n = nat (sint (num_streams d))
      in if n \<noteq> 0 \<and> \<not> array_ptr then Inl NullPointer
         else if 256 \<le> n then Inl Diverges
         else
           let rings = filter ring_ptr (map of_nat [0..<n]);
               log = map KfreeRing rings @ (if array_ptr then [KfreeRingArray] else []) @ [FreeIrq]
           in Inr (0, d\<lparr>kernel_log := kernel_log d @ log\<rparr>))"

section \<open>Queueing a packet\<close>

definition axienet_check_pm_space :: "s32 \<Rightarrow> u32 \<Rightarrow> u32 \<Rightarrow> s32 \<Rightarrow> bool" where
  "axienet_check_pm_space nfrag wr rd tot =
     (let avail = rd - wr;
          avail = (if sint avail < 0 then tot + avail else avail)
      in sint nfrag \<le> sint avail)"

definition tadma_pm_inc :: "s32 \<Rightarrow> tadma_local \<Rightarrow> tadma_local" where
  "tadma_pm_inc s d =
     (let offset = XTADMA_PM_OFFSET + s * 4;
          pm = tadma_ior d offset;
          wr = ucast (drop_bit 16 (pm AND XTADMA_PM_WR_MASK)) :: u8;
          wr = ucast ((ucast wr + 1 :: u32) mod num_tadma_buffers d) :: u8;
          pm = pm AND NOT XTADMA_PM_WR_MASK;
          pm = pm OR push_bit 16 (ucast wr)
      in tadma_iow d offset pm)"

definition tadma_stream_alm_offset :: "s32 \<Rightarrow> u32 \<Rightarrow> tadma_local \<Rightarrow> u32" where
  "tadma_stream_alm_offset s wr d =
     (let alm_offset = XTADMA_ALM_OFFSET + s * 8 * num_tadma_buffers d;
          wr = (wr + num_tadma_buffers d - 1) AND (num_tadma_buffers d - 1)
      in alm_offset + wr * 8)"

definition tadma_stream_alm_offset_irq :: "s32 \<Rightarrow> u32 \<Rightarrow> tadma_local \<Rightarrow> u32" where
  "tadma_stream_alm_offset_irq s rd d =
     (let alm_offset = XTADMA_ALM_OFFSET + s * 8 * num_tadma_buffers d
      in alm_offset + rd * 8)"

text \<open>Write the descriptor at the head of stream \<open>s\<close> and advance the head.\<close>

definition push_bd :: "u32 \<Rightarrow> axitadma_bd \<Rightarrow> tadma_local \<Rightarrow> tadma_local" where
  "push_bd s bd d =
     d\<lparr>tx_bd := (tx_bd d)(s := (tx_bd d s)(tx_bd_head d s := bd)),
       tx_bd_head := (tx_bd_head d)(s := (tx_bd_head d s + 1) mod num_tadma_buffers d)\<rparr>"

definition dma_msb :: "bool \<Rightarrow> u64 \<Rightarrow> u32" where
  "dma_msb dma64 a = (if dma64 then ucast (drop_bit 32 a) else 0)"

definition alm_frag_cfg :: "bool \<Rightarrow> u64 \<Rightarrow> u32 \<Rightarrow> bool \<Rightarrow> u32" where
  "alm_frag_cfg dma64 a l islast =
     (let cfg = 0 OR dma_msb dma64 a;
          cfg = (if islast then cfg OR XTADMA_ALM_EOP else cfg);
          cfg = cfg AND NOT XTADMA_ALM_FETCH_SZ_MASK;
          cfg = cfg OR (push_bit 16 l AND XTADMA_ALM_FETCH_SZ_MASK)
      in cfg OR XTADMA_ALM_UFF)"

text \<open>The loop over the fragments; the last one carries the packet's address and EOP.\<close>

fun xmit_frags ::
  "bool \<Rightarrow> u64 \<Rightarrow> s32 \<Rightarrow> (u32 \<times> u64) list \<Rightarrow> u32 \<Rightarrow> u32 \<Rightarrow> tadma_local \<Rightarrow> u32 \<times> u32 \<times> tadma_local"
where
  "xmit_frags dma64 skb s [] write_p tot_len d = (write_p, tot_len, d)"
| "xmit_frags dma64 skb s ((l, a) # fs) write_p tot_len d =
     (let islast = (fs = []);
          d = push_bd s \<lparr>phys = ucast a, tx_skb = (if islast then skb else 0),
                         tx_desc_mapping = DESC_DMA_MAP_PAGE, num_frag = 0, len = l\<rparr> d;
          write_p = (write_p + 1) AND (num_tadma_buffers d - 1);
          alm_offset = tadma_stream_alm_offset s write_p d;
          d = tadma_iow d alm_offset (ucast a);
          d = tadma_iow d (alm_offset + 4) (alm_frag_cfg dma64 a l islast)
      in xmit_frags dma64 skb s fs write_p (tot_len + l) d)"

definition alm_fframe_cfg :: "bool \<Rightarrow> u64 \<Rightarrow> u32 \<Rightarrow> bool \<Rightarrow> u32 \<Rightarrow> u32" where
  "alm_fframe_cfg dma64 a l single tot_len =
     (let cfg = 0 OR dma_msb dma64 a;
          cfg = (if single then cfg OR (XTADMA_ALM_SOP OR XTADMA_ALM_EOP) else cfg OR XTADMA_ALM_SOP);
          cfg = cfg AND NOT XTADMA_ALM_FETCH_SZ_MASK;
          cfg = cfg OR (push_bit 16 l AND XTADMA_ALM_FETCH_SZ_MASK);
          tot_sz8 = tot_len div 8 + 1;
          cfg = cfg AND NOT XTADMA_ALM_TOT_PKT_SZ_BY8_MASK;
          cfg = cfg OR (push_bit 8 tot_sz8 AND XTADMA_ALM_TOT_PKT_SZ_BY8_MASK)
      in cfg OR XTADMA_ALM_UFF)"

text \<open>
  The part of \<open>axienet_tadma_xmit\<close> after its checks: \<open>pm\<close> is the pointer word that was
  read, \<open>write_p\<close> its write pointer, \<open>a\<close> the DMA address of the packet's head.
\<close>

definition tadma_xmit_queue ::
  "bool \<Rightarrow> sk_buff \<Rightarrow> s32 \<Rightarrow> u32 \<Rightarrow> u32 \<Rightarrow> u64 \<Rightarrow> tadma_local \<Rightarrow> tadma_local" where
  "tadma_xmit_queue dma64 skb s pm write_p a d =
     (let nfrag = of_nat (length (skb_frags skb)) :: u32;
          single = (nfrag = 0);
          alm_offset_fframe = tadma_stream_alm_offset s write_p d;
          l = skb_headlen skb;
          d = push_bd s \<lparr>phys = ucast a, tx_skb = (if single then skb_addr skb else 0),
                         tx_desc_mapping = DESC_DMA_MAP_SINGLE, num_frag = nfrag + 1, len = l\<rparr> d;
          (write_p, tot_len, d) = xmit_frags dma64 (skb_addr skb) s (skb_frags skb) write_p l d;
          d = tadma_iow d alm_offset_fframe (ucast a);
          d = tadma_iow d (alm_offset_fframe + 4) (alm_fframe_cfg dma64 a l single tot_len);
          write_p = (write_p + 1) AND (num_tadma_buffers d - 1);
          pm = pm AND NOT XTADMA_PM_WR_MASK;
          pm = pm OR push_bit 16 write_p
      in tadma_iow d (XTADMA_PM_OFFSET + s * 4) pm)"

definition axienet_tadma_xmit ::
  "(u64 \<Rightarrow> u8 \<Rightarrow> u32) \<Rightarrow> bool \<Rightarrow> sk_buff \<Rightarrow> u16 \<Rightarrow> tadma_local \<Rightarrow> (netdev_tx \<times> tadma_local) checked"
where
  "axienet_tadma_xmit h dma64 skb queue_type d =
     (case tadma_get_strid h skb d of
        Inl f \<Rightarrow> Inl f
      | Inr s \<Rightarrow>
          if sint s < 0
          then Inr (NETDEV_TX_OK, d\<lparr>kernel_log := kernel_log d @ [KfreeSkb (skb_addr skb)]\<rparr>)
          else
            let nfrag = of_nat (length (skb_frags skb)) :: u32;
                pm = tadma_ior d (XTADMA_PM_OFFSET + s * 4);
                read_p = pm AND XTADMA_PM_RD_MASK;
                write_p = drop_bit 16 (pm AND XTADMA_PM_WR_MASK)
            in if \<not> axienet_check_pm_space (nfrag + 1) write_p read_p (num_tadma_buffers d)
               then Inr (NETDEV_TX_BUSY, d\<lparr>chk_ptr := True\<rparr>)
               else if unat (num_streams d) \<le> unat s \<or> TADMA_MAX_NO_STREAM \<le> unat s
               then Inl OutOfBounds
               else if num_tadma_buffers d = 0 then Inl DivisionByZero
               else if (tx_bd_head d s + (nfrag + 1)) mod num_tadma_buffers d = tx_bd_tail d s
               then Inr (NETDEV_TX_BUSY,
                         d\<lparr>subqueue_stopped := (subqueue_stopped d)(queue_type := True)\<rparr>)
               else case skb_dma skb of
                      None \<Rightarrow> Inr (NETDEV_TX_BUSY, d)
                    | Some a \<Rightarrow>
                        if num_tadma_buffers d \<le> tx_bd_head d s then Inl OutOfBounds
                        else Inr (NETDEV_TX_OK, tadma_xmit_queue dma64 skb s pm write_p a d))"

section \<open>Reclaiming descriptors\<close>

definition unmap_bd :: "axitadma_bd \<Rightarrow> tadma_event list" where
  "unmap_bd bd =
     (case tx_desc_mapping bd of
        DESC_DMA_MAP_PAGE \<Rightarrow> [UnmapPage (phys bd) (len bd)]
      | DESC_DMA_MAP_SINGLE \<Rightarrow> [UnmapSingle (phys bd) (len bd)])
     @ (if tx_skb bd \<noteq> 0 then [KfreeSkb (tx_skb bd)] else [])"

text \<open>Release the descriptor at the tail of stream \<open>s\<close> and advance the tail.\<close>

definition reclaim_bd :: "u32 \<Rightarrow> tadma_local \<Rightarrow> tadma_local" where
  "reclaim_bd s d =
     d\<lparr>kernel_log := kernel_log d @ unmap_bd (tx_bd d s (tx_bd_tail d s)),
       tx_bd_tail := (tx_bd_tail d)(s := (tx_bd_tail d s + 1) mod num_tadma_buffers d)\<rparr>"

fun xmit_done_loop :: "nat \<Rightarrow> u32 \<Rightarrow> u32 \<Rightarrow> u32 \<Rightarrow> tadma_local \<Rightarrow> u32 \<times> u32 \<times> tadma_local" where
  "xmit_done_loop 0 s sz packets d = (sz, packets, d)"
| "xmit_done_loop (Suc cnt) s sz packets d =
     (if tx_bd_head d s = tx_bd_tail d s then (sz, packets, d)
      else xmit_done_loop cnt s (sz + len (tx_bd d s (tx_bd_tail d s))) (packets + 1)
             (reclaim_bd s d))"

definition tadma_xmit_done :: "u8 \<Rightarrow> u32 \<Rightarrow> tadma_local \<Rightarrow> tadma_local" where
  "tadma_xmit_done s8 cnt d =
     (let s = ucast s8 :: u32
      in if tx_bd_head d s = tx_bd_tail d s then d
         else
           let (sz, packets, d) = xmit_done_loop (unat cnt) s 0 0 d
           in d\<lparr>tx_packets := tx_packets d + ucast packets, tx_bytes := tx_bytes d + ucast sz\<rparr>)"

text \<open>
  The scan of the interrupt handler over one stream: at most \<open>k\<close> descriptors, from the read
  index on, whose ALM entry the hardware has released and that the driver has queued.
\<close>

fun irq_scan :: "nat \<Rightarrow> u32 \<Rightarrow> tadma_local \<Rightarrow> nat \<times> tadma_local" where
  "irq_scan 0 s d = (0, d)"
| "irq_scan (Suc k) s d =
     (let cfg = tadma_ior d (tadma_stream_alm_offset_irq s (tx_bd_rd d s) d + 4)
      in if cfg AND XTADMA_ALM_UFF = 0 \<and> tx_bd_rd d s \<noteq> tx_bd_head d s
         then let (cnt, d) = irq_scan k s
                 (d\<lparr>tx_bd_rd := (tx_bd_rd d)(s := (tx_bd_rd d s + 1) mod num_tadma_buffers d)\<rparr>)
              in (Suc cnt, d)
         else (0, d))"

definition irq_stream :: "tadma_local \<Rightarrow> u32 \<Rightarrow> tadma_local" where
  "irq_stream d s =
     (let (cnt, d) = irq_scan (nat (sint (num_tadma_buffers d))) s d
      in if cnt \<noteq> 0 then tadma_xmit_done (ucast s) (of_nat cnt) d else d)"

definition tadma_irq :: "tadma_local \<Rightarrow> tadma_local checked" where
  "tadma_irq d =
     (let status = tadma_ior d XTADMA_INT_STA_OFFSET;
          d = tadma_iow d XTADMA_INT_CLR_OFFSET status
      in if status AND XTADMA_FFI_INT_EN \<noteq> 0
         then if TADMA_MAX_NO_STREAM < unat (num_streams d) then Inl OutOfBounds
              else Inr ((foldl irq_stream d (map of_nat [0..<unat (num_streams d)]))
                          \<lparr>subqueue_stopped := (\<lambda>_. False)\<rparr>)
         else Inr (d\<lparr>subqueue_stopped := (\<lambda>_. False)\<rparr>))"

end
