(* ===== verification/Tadma_Table.thy ===== *)
theory Tadma_Table
  imports Tadma_Xmit "HOL-Library.Multiset"
begin

text \<open>
  The stream table and the fetch memory of the TADMA driver: what a tag comparison decides,
  the invariant of the hash table, classification after an addition, which slots a schedule
  occupies and what is programmed into them.
\<close>

section \<open>Tags and lookups\<close>

lemma two_bytes_eq_iff:
  "(ucast x OR push_bit 8 (ucast y) :: u16) = ucast x' OR push_bit 8 (ucast y')
     \<longleftrightarrow> x = x' \<and> y = y'" for x y x' y' :: u8
proof
  assume eq: "(ucast x OR push_bit 8 (ucast y) :: u16) = ucast x' OR push_bit 8 (ucast y')"
  have lo: "ucast (ucast x OR push_bit 8 (ucast y) :: u16) = x" for x y :: u8
    by (rule bit_word_eqI) (auto simp: bit_simps)
  have hi: "ucast (drop_bit 8 (ucast x OR push_bit 8 (ucast y) :: u16)) = y" for x y :: u8
    by (rule bit_word_eqI) (auto simp: bit_simps dest: bit_imp_le_length)
  from eq lo [of x y] lo [of x' y'] hi [of x y] hi [of x' y'] show "x = x' \<and> y = y'" by simp
qed simp

lemma u16_at_eq_iff:
  "u16_at a i = u16_at b j \<longleftrightarrow> a ! (2 * i) = b ! (2 * j) \<and> a ! (2 * i + 1) = b ! (2 * j + 1)"
  unfolding u16_at_def by (rule two_bytes_eq_iff)

lemma or_eq_zero_iff: "x OR y = 0 \<longleftrightarrow> x = 0 \<and> y = 0" for x y :: "'a::len word"
  by (auto simp: bit_eq_iff bit_simps)

lemma xor_eq_zero_iff: "x XOR y = 0 \<longleftrightarrow> x = y" for x y :: "'a::len word"
  by (auto simp: bit_eq_iff bit_simps)

lemma all_less_6: "(\<forall>i<6. P i) \<longleftrightarrow> P 0 \<and> P (1::nat) \<and> P 2 \<and> P 3 \<and> P 4 \<and> P 5"
proof -
  have "(\<forall>i<6. P i) \<longleftrightarrow> (\<forall>i\<in>set [0..<6]. P i)" by auto
  also have "\<dots> \<longleftrightarrow> P 0 \<and> P 1 \<and> P 2 \<and> P 3 \<and> P 4 \<and> P 5" by (simp add: upt_rec numeral_eq_Suc)
  finally show ?thesis .
qed

lemma take6_eq_iff:
  assumes "length a = 8" and "length b = 8"
  shows "take 6 a = take 6 b \<longleftrightarrow> (\<forall>i<6. a ! i = b ! i)"
  using assms by (auto simp: list_eq_iff_nth_eq)

text \<open>Two tags are taken for equal exactly when their first six bytes are.\<close>

lemma hash_tag_equal_take6:
  assumes "length a = 8" and "length b = 8"
  shows "hash_tag_equal a b \<longleftrightarrow> take 6 a = take 6 b"
proof -
  have "(\<forall>i<6. a ! i = b ! i) \<longleftrightarrow>
      (a ! 0 = b ! 0 \<and> a ! 1 = b ! 1) \<and> (a ! 2 = b ! 2 \<and> a ! 3 = b ! 3) \<and>
      (a ! 4 = b ! 4 \<and> a ! 5 = b ! 5)"
    by (simp add: all_less_6)
  then show ?thesis
    by (simp add: hash_tag_equal_def Let_def or_eq_zero_iff xor_eq_zero_iff u16_at_eq_iff
        take6_eq_iff [OF assms] conj_ac)
qed

lemma mk_hash_tag_le: "mk_hash_tag addr cid = take 4 addr @ le_bytes32 cid"
proof -
  have m: "(255 :: u32) = mask 8" by (simp add: mask_eq_exp_minus_1)
  have "ucast (w AND 255) = (ucast w :: u8)" for w :: u32
    unfolding m by (rule bit_word_eqI) (simp add: bit_simps del: mask_numeral)
  then show ?thesis by (simp add: mk_hash_tag_def le_bytes32_def)
qed

lemma length_mk_hash_tag [simp]: "length addr = 4 \<Longrightarrow> length (mk_hash_tag addr cid) = 8"
  by (simp add: mk_hash_tag_def)

lemma hash_tag_equal_refl [simp]: "hash_tag_equal a a"
  by (simp add: hash_tag_equal_def)

lemma lookup_Some_in:
  "tadma_hash_lookup_stream es tag = Some e \<Longrightarrow> e \<in> set es \<and> hash_tag_equal (hashtag e) tag"
  by (induction es) (auto split: if_splits)

lemma lookup_None_iff:
  "tadma_hash_lookup_stream es tag = None \<longleftrightarrow> (\<forall>e\<in>set es. \<not> hash_tag_equal (hashtag e) tag)"
  by (induction es) auto

section \<open>The table invariant\<close>

text \<open>An entry of bucket \<open>i\<close>: an eight byte tag that hashes to \<open>i\<close>, numbers in range.\<close>

definition entry_ok ::
  "(u64 \<Rightarrow> u8 \<Rightarrow> u32) \<Rightarrow> tadma_local \<Rightarrow> nat \<Rightarrow> tadma_stream_entry \<Rightarrow> bool" where
  "entry_ok h d i e \<longleftrightarrow>
     length (hashtag e) = 8 \<and> sid e < num_streams d \<and> sfm e < num_entries d \<and> te_count e \<le> 4 \<and>
     unat (tadma_hashtag_hash h d (hashtag e)) = i"

definition stream_table_ok :: "(u64 \<Rightarrow> u8 \<Rightarrow> u32) \<Rightarrow> tadma_local \<Rightarrow> bool" where
  "stream_table_ok h d \<longleftrightarrow>
     (case t_cb d of
        None \<Rightarrow> True
      | Some hs \<Rightarrow> length hs = unat (num_entries d) \<and>
                   (\<forall>i<length hs. \<forall>e\<in>set (hs ! i). entry_ok h d i e))"

text \<open>The device after the \<open>start\<close> flag of a stream has been looked at.\<close>

abbreviation started :: "tadma_stream \<Rightarrow> tadma_local \<Rightarrow> tadma_local" where
  "started st d \<equiv> (if start st \<noteq> 0 then d\<lparr>get_sid := 0, get_sfm := 0\<rparr> else d)"

abbreviation stream_tag :: "tadma_stream \<Rightarrow> u8 list" where
  "stream_tag st \<equiv> mk_hash_tag (ip st) (comid st)"

lemma hash_started [simp]:
  "tadma_hashtag_hash h (d\<lparr>get_sid := a\<rparr>) t = tadma_hashtag_hash h d t"
  "tadma_hashtag_hash h (d\<lparr>get_sfm := a\<rparr>) t = tadma_hashtag_hash h d t"
  "tadma_hashtag_hash h (d\<lparr>t_cb := c\<rparr>) t = tadma_hashtag_hash h d t"
  by (simp_all add: tadma_hashtag_hash_def)

lemma bucket_at_started [simp]:
  "bucket_at (d\<lparr>get_sid := a\<rparr>) i = bucket_at d i" "bucket_at (d\<lparr>get_sfm := a\<rparr>) i = bucket_at d i"
  by (simp_all add: bucket_at_def)

text \<open>The entry already in the table for a tag, if there is one.\<close>

definition old_entry ::
  "(u64 \<Rightarrow> u8 \<Rightarrow> u32) \<Rightarrow> tadma_local \<Rightarrow> u8 list \<Rightarrow> tadma_stream_entry option" where
  "old_entry h d tag =
     (case bucket_at d (tadma_hashtag_hash h d tag) of
        Inl _ \<Rightarrow> None | Inr b \<Rightarrow> tadma_hash_lookup_stream b tag)"

text \<open>What a successful addition does, in one equation.\<close>

lemma add_stream_success:
  assumes "axienet_tadma_add_stream h (Some st) ok d = Inr (0, d')"
  shows "\<exists>b s gs. ts_count st \<le> 4 \<and> bucket_at d (tadma_hashtag_hash h d (stream_tag st)) = Inr b \<and>
     (case tadma_hash_lookup_stream b (stream_tag st) of
        Some e \<Rightarrow> s = sid e \<and> gs = get_sid (started st d)
      | None \<Rightarrow> s = get_sid (started st d) \<and> gs = s + 1) \<and>
     s < num_streams d \<and> get_sfm (started st d) < num_entries d \<and>
     d' = hlist_add_head (d\<lparr>get_sid := gs, get_sfm := get_sfm (started st d) + 1\<rparr>)
            (tadma_hashtag_hash h d (stream_tag st))
            \<lparr>hashtag = stream_tag st, tticks = trigger st, sid = s,
             sfm = get_sfm (started st d), te_count = ts_count st\<rparr>"
  using assms unfolding axienet_tadma_add_stream_def Let_def
  by (auto split: if_splits sum.splits option.splits simp: not_less not_le word_gt_0)

lemma add_stream_error:
  assumes "axienet_tadma_add_stream h (Some st) ok d = Inr (r, d')" and "r \<noteq> 0"
  shows "d' = d\<lparr>get_sid := get_sid d', get_sfm := get_sfm d'\<rparr>"
  using assms unfolding axienet_tadma_add_stream_def Let_def
  by (auto split: if_splits sum.splits option.splits)

lemma stream_table_ok_frame [simp]:
  "stream_table_ok h (d\<lparr>get_sid := a\<rparr>) = stream_table_ok h d"
  "stream_table_ok h (d\<lparr>get_sfm := a\<rparr>) = stream_table_ok h d"
  by (simp_all add: stream_table_ok_def entry_ok_def split: option.split)

lemma hlist_add_head_ok:
  assumes "stream_table_ok h d" and "entry_ok h d (unat idx) e"
    and "bucket_at d idx = Inr b"
  shows "stream_table_ok h (hlist_add_head d idx e)"
  using assms
  by (auto simp: stream_table_ok_def entry_ok_def hlist_add_head_def bucket_at_def nth_list_update
      split: option.splits if_splits)

lemma add_stream_table_ok:
  assumes "stream_table_ok h d" and "length (ip st) = 4"
    and "axienet_tadma_add_stream h (Some st) ok d = Inr (r, d')"
  shows "stream_table_ok h d'"
proof (cases "r = 0")
  case True
  with assms(3) obtain b s gs where
      c: "ts_count st \<le> 4" and b: "bucket_at d (tadma_hashtag_hash h d (stream_tag st)) = Inr b"
      and s: "s < num_streams d" and g: "get_sfm (started st d) < num_entries d"
      and d': "d' = hlist_add_head (d\<lparr>get_sid := gs, get_sfm := get_sfm (started st d) + 1\<rparr>)
            (tadma_hashtag_hash h d (stream_tag st))
            \<lparr>hashtag = stream_tag st, tticks = trigger st, sid = s,
             sfm = get_sfm (started st d), te_count = ts_count st\<rparr>"
    using add_stream_success [of h st ok d d'] by blast
  show ?thesis
    unfolding d' using assms(1,2) c b s g
    by (intro hlist_add_head_ok [where b = b]) (auto simp: entry_ok_def)
next
  case False
  with assms(3) have "d' = d\<lparr>get_sid := get_sid d', get_sfm := get_sfm d'\<rparr>"
    by (rule add_stream_error)
  with assms(1) show ?thesis by (metis stream_table_ok_frame)
qed

lemma bucket_at_add_head:
  assumes "bucket_at d idx = Inr b"
  shows "bucket_at (hlist_add_head d idx e) j =
           (if j = idx then Inr (e # b) else bucket_at d j)"
  using assms
  by (auto simp: bucket_at_def hlist_add_head_def nth_list_update word_unat_eq_iff
      split: option.splits if_splits)

lemma hlist_add_head_frame [simp]:
  "get_sid (hlist_add_head d i e) = get_sid d" "get_sfm (hlist_add_head d i e) = get_sfm d"
  "num_streams (hlist_add_head d i e) = num_streams d"
  "tadma_hashtag_hash h (hlist_add_head d i e) t = tadma_hashtag_hash h d t"
  by (simp_all add: hlist_add_head_def)

lemma tadma_get_strid_classify:
  assumes "get_sid d \<noteq> 0" and "skb_comId skb = htonl c"
    and "bucket_at d (tadma_hashtag_hash h d (mk_hash_tag (skb_daddr skb) c)) = Inr b"
  shows "tadma_get_strid h skb d =
     Inr (case tadma_hash_lookup_stream b (mk_hash_tag (skb_daddr skb) c) of
            Some e \<Rightarrow> sid e | None \<Rightarrow> - 1)"
  using assms by (simp add: tadma_get_strid_def split: option.splits)

lemma add_then_classify:
  assumes add: "axienet_tadma_add_stream h (Some st) ok d = Inr (0, d')"
    and skb: "skb_daddr skb = ip st" "skb_comId skb = htonl (comid st)"
    and sid: "get_sid d' \<noteq> 0"
  shows "tadma_get_strid h skb d' =
     Inr (case old_entry h d (stream_tag st) of
            Some e \<Rightarrow> sid e | None \<Rightarrow> get_sid (started st d))"
proof -
  from add_stream_success [OF add] obtain b s gs where
      b: "bucket_at d (tadma_hashtag_hash h d (stream_tag st)) = Inr b"
      and s: "case tadma_hash_lookup_stream b (stream_tag st) of
        Some e \<Rightarrow> s = sid e \<and> gs = get_sid (started st d)
      | None \<Rightarrow> s = get_sid (started st d) \<and> gs = s + 1"
      and d': "d' = hlist_add_head (d\<lparr>get_sid := gs, get_sfm := get_sfm (started st d) + 1\<rparr>)
            (tadma_hashtag_hash h d (stream_tag st))
            \<lparr>hashtag = stream_tag st, tticks = trigger st, sid = s,
             sfm = get_sfm (started st d), te_count = ts_count st\<rparr>" (is "_ = hlist_add_head _ _ ?e")
    by blast
  have "bucket_at d' (tadma_hashtag_hash h d' (stream_tag st)) = Inr (?e # b)"
    using b by (simp add: d' bucket_at_add_head)
  with sid skb have "tadma_get_strid h skb d' = Inr s"
    by (subst tadma_get_strid_classify) auto
  with s b show ?thesis by (simp add: old_entry_def split: option.splits)
qed

lemma add_keeps_others:
  assumes add: "axienet_tadma_add_stream h (Some st) ok d = Inr (0, d')"
    and st: "start st = 0" "get_sid d \<noteq> 0" "get_sid d' \<noteq> 0"
    and skb: "skb_comId skb = htonl c"
    and ne: "\<not> hash_tag_equal (stream_tag st) (mk_hash_tag (skb_daddr skb) c)"
  shows "tadma_get_strid h skb d' = tadma_get_strid h skb d"
proof -
  let ?e = "\<lambda>s. \<lparr>hashtag = stream_tag st, tticks = trigger st, sid = s,
             sfm = get_sfm (started st d), te_count = ts_count st\<rparr>"
  from add_stream_success [OF add] obtain b s gs where
      b: "bucket_at d (tadma_hashtag_hash h d (stream_tag st)) = Inr b"
      and d': "d' = hlist_add_head (d\<lparr>get_sid := gs, get_sfm := get_sfm (started st d) + 1\<rparr>)
            (tadma_hashtag_hash h d (stream_tag st)) (?e s)"
    by blast
  then show ?thesis
    using st(2,3) skb ne
    by (auto simp: tadma_get_strid_def Let_def bucket_at_add_head split: sum.splits option.splits)
qed

section \<open>Slots of the fetch memory\<close>

definition table_entries :: "tadma_local \<Rightarrow> tadma_stream_entry list" where
  "table_entries d = (case t_cb d of None \<Rightarrow> [] | Some hs \<Rightarrow> concat hs)"

text \<open>No two entries share a slot, and the next slot is free.\<close>

definition sfm_alloc_ok :: "tadma_local \<Rightarrow> bool" where
  "sfm_alloc_ok d \<longleftrightarrow>
     distinct (map sfm (table_entries d)) \<and> (\<forall>e\<in>set (table_entries d). sfm e < get_sfm d)"

lemma mset_concat_upd:
  "i < length hs \<Longrightarrow> mset (concat (hs[i := e # hs ! i])) = add_mset e (mset (concat hs))"
  by (induction hs arbitrary: i) (auto split: nat.splits)

lemma mset_table_add_head:
  assumes "bucket_at d idx = Inr b"
  shows "mset (table_entries (hlist_add_head d idx e)) = add_mset e (mset (table_entries d))"
  using assms
  by (auto simp: table_entries_def hlist_add_head_def bucket_at_def mset_concat_upd
      split: option.splits if_splits)

lemma sfm_alloc_ok_mset:
  assumes "mset (table_entries d') = add_mset e (mset (table_entries d))"
  shows "sfm_alloc_ok d' \<longleftrightarrow> sfm e < get_sfm d' \<and> sfm e \<notin> sfm ` set (table_entries d) \<and>
     distinct (map sfm (table_entries d)) \<and> (\<forall>x\<in>set (table_entries d). sfm x < get_sfm d')"
proof -
  have m: "mset (table_entries d') = mset (e # table_entries d)" using assms by simp
  then have "mset (map sfm (table_entries d')) = mset (map sfm (e # table_entries d))"
    by (simp only: mset_map)
  then have "distinct (map sfm (table_entries d')) \<longleftrightarrow> distinct (map sfm (e # table_entries d))"
    by (rule mset_eq_imp_distinct_iff)
  moreover have "set (table_entries d') = set (e # table_entries d)"
    using m by (rule mset_eq_setD)
  ultimately show ?thesis by (auto simp: sfm_alloc_ok_def)
qed

lemma word_less_Suc_lt: "x < y \<Longrightarrow> y < z \<Longrightarrow> x < y + (1 :: 'a::len word)"
  by uint_arith

lemma word_Suc_lt: "y < z \<Longrightarrow> y < y + (1 :: 'a::len word)"
  by uint_arith

lemma table_entries_frame [simp]:
  "table_entries (d\<lparr>get_sid := a\<rparr>) = table_entries d"
  "table_entries (d\<lparr>get_sfm := a\<rparr>) = table_entries d"
  by (simp_all add: table_entries_def split: option.split)

lemma add_stream_get_sfm:
  assumes "axienet_tadma_add_stream h (Some st) ok d = Inr (r, d')" and "r \<noteq> 0"
  shows "get_sfm d' = get_sfm d \<or> get_sfm d' = get_sfm (started st d)"
  using assms unfolding axienet_tadma_add_stream_def Let_def
  by (auto split: if_splits sum.splits option.splits)

text \<open>
  An addition keeps the slots apart, when it does not restart the numbering or the table is
  empty.
\<close>

lemma add_stream_sfm_alloc_ok:
  assumes inv: "sfm_alloc_ok d" and st: "start st = 0 \<or> table_entries d = []"
    and add: "axienet_tadma_add_stream h (Some st) ok d = Inr (r, d')"
  shows "sfm_alloc_ok d'"
proof (cases "r = 0")
  case True
  let ?e = "\<lambda>s. \<lparr>hashtag = stream_tag st, tticks = trigger st, sid = s,
             sfm = get_sfm (started st d), te_count = ts_count st\<rparr>"
  from add True obtain b s gs where
      b: "bucket_at d (tadma_hashtag_hash h d (stream_tag st)) = Inr b"
      and g: "get_sfm (started st d) < num_entries d"
      and d': "d' = hlist_add_head (d\<lparr>get_sid := gs, get_sfm := get_sfm (started st d) + 1\<rparr>)
            (tadma_hashtag_hash h d (stream_tag st)) (?e s)"
    using add_stream_success [of h st ok d d'] by blast
  have m: "mset (table_entries d') = add_mset (?e s) (mset (table_entries d))"
    using mset_table_add_head [of "d\<lparr>get_sid := gs, get_sfm := get_sfm (started st d) + 1\<rparr>"] b
    by (simp add: d')
  have gs: "get_sfm d' = get_sfm (started st d) + 1" by (simp add: d')
  show ?thesis
    unfolding sfm_alloc_ok_mset [OF m] gs using inv st g
    by (auto simp: sfm_alloc_ok_def intro: word_less_Suc_lt word_Suc_lt split: if_splits)
next
  case False
  with add have "table_entries d' = table_entries d"
    by (metis add_stream_error table_entries_frame)
  with add_stream_get_sfm [OF add False] inv st show ?thesis
    by (auto simp: sfm_alloc_ok_def)
qed

section \<open>What is programmed\<close>

abbreviation sfm_writes :: "tadma_local \<Rightarrow> tadma_stream_entry \<Rightarrow> (u32 \<times> u32) list" where
  "sfm_writes d e \<equiv> [(sfm_entry_offset d (sfm e), tticks e div 8),
                     (sfm_entry_offset d (sfm e) + 4, sfm_cfg (sfm e) (te_count e))]"

abbreviation iow_all :: "tadma_local \<Rightarrow> (u32 \<times> u32) list \<Rightarrow> tadma_local" where
  "iow_all d ws \<equiv> foldl (\<lambda>r (a, v). tadma_iow r a v) d ws"

lemma iow_frame [simp]:
  "sfm_entry_offset (tadma_iow d a v) s = sfm_entry_offset d s"
  "t_cb (tadma_iow d a v) = t_cb d" "num_entries (tadma_iow d a v) = num_entries d"
  "num_streams (tadma_iow d a v) = num_streams d" "active_sfm (tadma_iow d a v) = active_sfm d"
  by (simp_all add: sfm_entry_offset_def tadma_iow_def)

lemma iow_all_offset [simp]: "sfm_entry_offset (iow_all d ws) s = sfm_entry_offset d s"
  by (rule foldl_frame) (auto split: prod.splits)

lemma program_bucket_writes: "program_bucket d es = iow_all d (concat (map (sfm_writes d) es))"
proof (induction es rule: rev_induct)
  case (snoc e es)
  then show ?case by (simp add: program_bucket_def tadma_sfm_program_def Let_def)
qed (simp add: program_bucket_def)

lemma program_buckets_writes:
  "foldl program_bucket d hs = iow_all d (concat (map (sfm_writes d) (concat hs)))"
  by (induction hs rule: rev_induct) (simp_all add: program_bucket_writes)

definition slot_base :: "tadma_local \<Rightarrow> nat" where
  "slot_base d = (if active_sfm d = 0 then 0x1000 else 0x2000)"

lemma unat_sfm_entry_offset:
  assumes "unat s < 512"
  shows "unat (sfm_entry_offset d s) = slot_base d + 8 * unat s"
    and "unat (sfm_entry_offset d s + 4) = slot_base d + 8 * unat s + 4"
  using assms
  by (simp_all add: sfm_entry_offset_def slot_base_def unat_word_ariths)

lemma distinct_writes:
  assumes "distinct (map sfm es)" and "\<forall>e\<in>set es. unat (sfm e) < 512"
  shows "distinct (map fst (concat (map (sfm_writes d) es)))"
  using assms
proof (induction es)
  case (Cons e es)
  have "sfm_entry_offset d (sfm e) \<noteq> sfm_entry_offset d (sfm e) + 4" by simp
  moreover have "a \<notin> fst ` set (concat (map (sfm_writes d) es))"
    if a: "a = sfm_entry_offset d (sfm e) \<or> a = sfm_entry_offset d (sfm e) + 4" for a
  proof
    assume "a \<in> fst ` set (concat (map (sfm_writes d) es))"
    then obtain x where x: "x \<in> set es"
      and ax: "a = sfm_entry_offset d (sfm x) \<or> a = sfm_entry_offset d (sfm x) + 4" by auto
    have u: "unat (sfm e) < 512" "unat (sfm x) < 512" using Cons.prems(2) x by auto
    from a ax have "8 * unat (sfm e) = 8 * unat (sfm x) \<or> 8 * unat (sfm e) = 8 * unat (sfm x) + 4 \<or>
        8 * unat (sfm e) + 4 = 8 * unat (sfm x)"
      by (auto dest!: arg_cong [where f = unat] simp: unat_sfm_entry_offset u)
    then have "unat (sfm e) = unat (sfm x)" by presburger
    then have "sfm e = sfm x" by (simp add: word_unat_eq_iff)
    with Cons.prems(1) x show False by auto
  qed
  ultimately show ?case using Cons by simp
qed simp

lemma sfm_entry_offset_not_ctrl:
  assumes "unat s < 512"
  shows "sfm_entry_offset d s \<noteq> 0" "sfm_entry_offset d s + 4 \<noteq> 0"
    "sfm_entry_offset d s \<noteq> 0x10" "sfm_entry_offset d s + 4 \<noteq> 0x10"
  using unat_sfm_entry_offset [OF assms, of d]
  by (auto dest!: arg_cong [where f = unat] simp: slot_base_def split: if_splits)

lemma program_all_slots:
  assumes t: "t_cb d = Some hs" and ok: "stream_table_ok h d" and al: "sfm_alloc_ok d"
    and n: "unat (num_entries d) \<le> 512"
  shows "\<exists>d'. axienet_tadma_program d = Inr (0, d') \<and>
     tadma_ior d' XTADMA_CR_OFFSET = XTADMA_CFG_DONE OR XTADMA_SCHED_ENABLE \<and>
     (\<forall>e\<in>set (table_entries d).
        tadma_ior d' (sfm_entry_offset d (sfm e)) = tticks e div 8 \<and>
        tadma_ior d' (sfm_entry_offset d (sfm e) + 4) = sfm_cfg (sfm e) (te_count e))"
proof -
  let ?es = "concat hs"
  let ?ws = "concat (map (sfm_writes d) ?es)"
  let ?d' = "tadma_iow (tadma_iow (iow_all d ?ws) 0x10 (1 OR 0x800)) 0 (1 OR 0x10)"
  have len: "length hs = unat (num_entries d)" using ok t by (simp add: stream_table_ok_def)
  then have p: "axienet_tadma_program d = Inr (0, ?d')"
    using t by (simp add: axienet_tadma_program_def Let_def program_buckets_writes)
  have es: "table_entries d = ?es" using t by (simp add: table_entries_def)
  have lt: "\<forall>e\<in>set ?es. unat (sfm e) < 512"
  proof
    fix e assume "e \<in> set ?es"
    then obtain i where "i < length hs" "e \<in> set (hs ! i)"
      by (metis UN_E in_set_conv_nth set_concat)
    with ok t have "sfm e < num_entries d" by (auto simp: stream_table_ok_def entry_ok_def)
    with n show "unat (sfm e) < 512" by (simp add: word_less_nat_alt)
  qed
  have dist: "distinct (map fst ?ws)"
    using al es lt by (intro distinct_writes) (auto simp: sfm_alloc_ok_def)
  have "tadma_ior ?d' (sfm_entry_offset d (sfm e)) = tticks e div 8 \<and>
        tadma_ior ?d' (sfm_entry_offset d (sfm e) + 4) = sfm_cfg (sfm e) (te_count e)"
    if e: "e \<in> set ?es" for e
  proof -
    have u: "unat (sfm e) < 512" using lt e by auto
    have w: "(sfm_entry_offset d (sfm e), tticks e div 8) \<in> set ?ws"
      "(sfm_entry_offset d (sfm e) + 4, sfm_cfg (sfm e) (te_count e)) \<in> set ?ws"
      using e by auto
    note r = tadma_reg.ior_foldl_in [OF dist w(1)] tadma_reg.ior_foldl_in [OF dist w(2)]
    note nc = sfm_entry_offset_not_ctrl [OF u, of d]
    show ?thesis
      using nc nc [symmetric] by (simp only: tadma_reg.ior_iow r if_False refl simp_thms)
  qed
  then have "(\<forall>e\<in>set (table_entries d).
        tadma_ior ?d' (sfm_entry_offset d (sfm e)) = tticks e div 8 \<and>
        tadma_ior ?d' (sfm_entry_offset d (sfm e) + 4) = sfm_cfg (sfm e) (te_count e))"
    by (simp only: es) blast
  moreover have "tadma_ior ?d' 0 = 1 OR 0x10"
    by (simp only: tadma_reg.ior_iow refl if_True)
  ultimately show ?thesis using p by blast
qed

lemma sfm_consts:
  "(0xFF :: u32) = field_mask 8 0" "(0x30000 :: u32) = field_mask 2 16"
  "(0x300000 :: u32) = field_mask 2 20"
  "(0x80000000 :: u32) = BIT 31" "(0x400000 :: u32) = BIT 22"
  by (simp_all add: field_mask_def BIT_def mask_eq_exp_minus_1)

lemma sfm_cfg_fields:
  "get_field 8 0 (sfm_cfg s c) = s AND field_mask 8 0"
  "get_field 2 16 (sfm_cfg s c) = (if c > 0 then c - 1 else c) AND field_mask 2 0"
  "bit (sfm_cfg s c) 31" "bit (sfm_cfg s c) 22 \<longleftrightarrow> c = 0"
  unfolding sfm_cfg_def Let_def sfm_consts
  subgoal by (rule bit_word_eqI) (auto simp: bit_simps qtype_code_def)
  subgoal by (rule bit_word_eqI) (auto simp: bit_simps qtype_code_def)
  subgoal by (simp add: bit_simps)
  subgoal by (auto simp: bit_simps qtype_code_def)
  done

section \<open>Flushing\<close>

abbreviation flush_writes :: "tadma_local \<Rightarrow> nat \<Rightarrow> (u32 \<times> u32) list" where
  "flush_writes d n \<equiv> concat (map (\<lambda>i. [(sfm_entry_offset d (of_nat i), 0),
                                       (sfm_entry_offset d (of_nat i) + 4, 0)]) [0..<n])"

lemma flush_slots:
  "foldl flush_slot d [0..<n] =
     (iow_all d (flush_writes d n))\<lparr>t_cb := map_option (\<lambda>hs. foldl (\<lambda>hs i. hs[i := []]) hs [0..<n]) (t_cb d)\<rparr>"
proof (induction n)
  case 0
  then show ?case by (cases "t_cb d") auto
next
  case (Suc n)
  have o: "sfm_entry_offset (x\<lparr>t_cb := c\<rparr>) s = sfm_entry_offset x s" for x c s
    by (simp add: sfm_entry_offset_def)
  have w: "tadma_iow (x\<lparr>t_cb := c\<rparr>) a v = (tadma_iow x a v)\<lparr>t_cb := c\<rparr>" for x c a v
    by (simp add: tadma_iow_def)
  show ?case
    unfolding upt_Suc_append [OF le0] foldl_append foldl_Cons foldl_Nil Suc
    by (simp add: flush_slot_def Let_def o w comp_def option.map_comp)
qed

lemma length_foldl_upd: "length (foldl (\<lambda>hs i. hs[i := []]) hs is) = length hs"
  by (induction "is" arbitrary: hs) auto

lemma foldl_clear: "n \<le> length hs \<Longrightarrow> i < n \<Longrightarrow> foldl (\<lambda>hs i. hs[i := []]) hs [0..<n] ! i = []"
  by (induction n) (auto simp: less_Suc_eq nth_list_update length_foldl_upd)

lemma foldl_clear_all: "foldl (\<lambda>hs i. hs[i := []]) hs [0..<length hs] = replicate (length hs) []"
  by (rule nth_equalityI) (auto simp: length_foldl_upd foldl_clear)

lemma flush_stream_eq:
  assumes "t_cb d = Some hs" and "length hs = nat (sint (num_entries d))"
  shows "axienet_tadma_flush_stream d =
     Inr (0, (iow_all (tadma_iow d 0 0) (flush_writes d (length hs)))\<lparr>t_cb := Some (replicate (length hs) [])\<rparr>)"
  using assms(1)
  by (simp add: axienet_tadma_flush_stream_def Let_def flush_slots foldl_clear_all assms(2) [symmetric])

lemma ior_t_cb [simp]: "tadma_ior (x\<lparr>t_cb := c\<rparr>) a = tadma_ior x a"
  by (simp add: tadma_ior_def)

lemma ior_iow_all_zero:
  assumes "\<forall>w\<in>set ws. snd w = 0" and "tadma_ior d a = 0 \<or> a \<in> fst ` set ws"
  shows "tadma_ior (iow_all d ws) a = 0"
  using assms
proof (induction ws arbitrary: d)
  case (Cons w ws)
  obtain b where w: "w = (b, 0)" using Cons.prems(1) by (cases w) auto
  show ?case
    unfolding foldl_Cons
    by (rule Cons.IH) (use Cons.prems in \<open>auto simp: w tadma_reg.ior_iow\<close>)
qed simp

lemma flush_stream_clears:
  assumes t: "t_cb d = Some hs" and n: "length hs = nat (sint (num_entries d))"
  shows "\<exists>d'. axienet_tadma_flush_stream d = Inr (0, d') \<and> table_entries d' = [] \<and>
     tadma_ior d' XTADMA_CR_OFFSET = 0 \<and>
     (\<forall>i<length hs. tadma_ior d' (sfm_entry_offset d (of_nat i)) = 0 \<and>
                    tadma_ior d' (sfm_entry_offset d (of_nat i) + 4) = 0)"
proof -
  let ?ws = "flush_writes d (length hs)"
  let ?d' = "(iow_all (tadma_iow d 0 0) ?ws)\<lparr>t_cb := Some (replicate (length hs) [])\<rparr>"
  have z: "\<forall>w\<in>set ?ws. snd w = 0" by auto
  have "tadma_ior ?d' a = 0" if "a = 0 \<or> a \<in> fst ` set ?ws" for a
    using that ior_iow_all_zero [OF z, of "tadma_iow d 0 0" a]
    by (auto simp: tadma_reg.ior_iow)
  moreover have "sfm_entry_offset d (of_nat i) \<in> fst ` set ?ws"
      "sfm_entry_offset d (of_nat i) + 4 \<in> fst ` set ?ws" if "i < length hs" for i
    using that by (force simp: image_iff)+
  moreover have "table_entries ?d' = []" by (simp add: table_entries_def)
  ultimately show ?thesis using flush_stream_eq [OF t n] by blast
qed

lemma hash_tag_equal_streams:
  assumes "length a = 4" and "length b = 4"
  shows "hash_tag_equal (mk_hash_tag a c) (mk_hash_tag b c') \<longleftrightarrow> a = b \<and> take_bit 16 c = take_bit 16 c'"
proof -
  have two: "ucast c = (ucast c' :: u8) \<and> ucast (drop_bit 8 c) = (ucast (drop_bit 8 c') :: u8)
      \<longleftrightarrow> take_bit 16 c = take_bit 16 c'" (is "?L \<longleftrightarrow> ?R")
  proof
    assume l: ?L
    show ?R
    proof (rule bit_word_eqI)
      fix n :: nat
      have "bit (ucast c :: u8) n = bit (ucast c' :: u8) n"
        "bit (ucast (drop_bit 8 c) :: u8) (n - 8) = bit (ucast (drop_bit 8 c') :: u8) (n - 8)"
        using l by simp_all
      then show "bit (take_bit 16 c) n = bit (take_bit 16 c') n"
        by (cases "n < 8") (auto simp: bit_simps)
    qed
  next
    assume r: ?R
    have "bit c n = bit c' n" if "n < 16" for n
      using arg_cong [OF r, of "\<lambda>x. bit x n"] that by (simp add: bit_simps)
    then show ?L
      by (auto intro!: bit_word_eqI simp: bit_simps)
  qed
  have "take 6 (take 4 x @ le_bytes32 y) = x @ [ucast y, ucast (drop_bit 8 y)]" if "length x = 4" for x y
    using that by (simp add: le_bytes32_def)
  then show ?thesis
    using assms two by (simp add: hash_tag_equal_take6 mk_hash_tag_le [symmetric])
      (simp add: mk_hash_tag_le)
qed

lemma count_zeros_pow2:
  "c \<le> k \<Longrightarrow> k < 32 \<Longrightarrow> count_zeros_from (2 ^ k) c = Inr k"
proof (induction "k - c" arbitrary: c)
  case 0
  then have "c = k" by simp
  moreover have "odd (drop_bit k (2 ^ k :: u32))"
    using bit_iff_odd_drop_bit [of "2 ^ k :: u32" k] 0 by (auto simp: bit_exp_iff)
  then have "drop_bit k (2 ^ k :: u32) AND 1 \<noteq> 0" by (simp add: and_one_eq odd_iff_mod_2_eq_one)
  ultimately show ?case using 0 by (subst count_zeros_from.simps) simp
next
  case (Suc x)
  then have "c < k" by simp
  then have "even (drop_bit c (2 ^ k :: u32))"
    using bit_iff_odd_drop_bit [of "2 ^ k :: u32" c] by (auto simp: bit_exp_iff)
  then have "drop_bit c (2 ^ k :: u32) AND 1 = 0" by (simp add: and_one_eq even_iff_mod_2_eq_zero)
  with Suc \<open>c < k\<close> show ?case by (subst count_zeros_from.simps) simp
qed

lemma count_zeros_zero: "count_zeros_from 0 c = Inl BadShift"
  by (induction "0 :: u32" c rule: count_zeros_from.induct) (subst count_zeros_from.simps, simp)

lemma open_rings_frame:
  "t_cb (snd (open_rings ok is d)) = t_cb d \<and>
   tadma_hash_bits (snd (open_rings ok is d)) = tadma_hash_bits d"
  by (induction "is" arbitrary: d) (auto simp: open_ring_def Let_def)

lemma tadma_sfm_init_frame [simp]:
  "t_cb (snd (tadma_sfm_init d)) = t_cb d" "num_entries (snd (tadma_sfm_init d)) = num_entries d"
  "num_streams (snd (tadma_sfm_init d)) = num_streams d"
  "tadma_hash_bits (snd (tadma_sfm_init d)) = tadma_hash_bits d"
  by (simp_all add: tadma_sfm_init_def tadma_sfm_program_def Let_def tadma_iow_def)

lemma open_table:
  assumes "axienet_tadma_open irq True True arr ring d = Inr (0, d')"
  shows "t_cb d' = Some (replicate (unat (num_entries d)) []) \<and> tadma_hash_bits d' = tadma_hash_bits d"
proof -
  have h: "t_cb (snd (open_rings ring is x)) = t_cb x"
    "tadma_hash_bits (snd (open_rings ring is x)) = tadma_hash_bits x" for "is" x
    using open_rings_frame by auto
  show ?thesis
    using assms h
    by (auto simp: axienet_tadma_open_def Let_def tadma_sfm_hash_init_def case_prod_beta tadma_iow_def
        split: if_splits dest!: arg_cong [where f = snd])
qed

section \<open>A small device\<close>

text \<open>Four streams, four fetch entries, eight descriptors per stream, for the instances below.\<close>

definition demo_dev :: tadma_local where
  "demo_dev =
     \<lparr>tadma_regs = (\<lambda>_. 0), t_cb = Some [[], [], [], []], active_sfm = 0, num_tadma_buffers = 8,
      num_streams = 4, num_entries = 4, tx_bd = (\<lambda>_ _. \<lparr>phys = 0, tx_skb = 0,
        tx_desc_mapping = DESC_DMA_MAP_SINGLE, num_frag = 0, len = 0\<rparr>),
      tx_bd_head = (\<lambda>_. 0), tx_bd_tail = (\<lambda>_. 0), tx_bd_rd = (\<lambda>_. 0), tadma_hash_bits = 2,
      get_sid = 0, get_sfm = 0, chk_ptr = False, subqueue_stopped = (\<lambda>_. False), tx_packets = 0,
      tx_bytes = 0, kernel_log = []\<rparr>"

definition demo_hash :: "u64 \<Rightarrow> u8 \<Rightarrow> u32" where
  "demo_hash v b = 0"

definition demo_stream :: "u32 \<Rightarrow> u8 \<Rightarrow> tadma_stream" where
  "demo_stream c st = \<lparr>ip = [10, 0, 0, 1], comid = c, trigger = 8000, ts_count = 1, start = st\<rparr>"

definition demo_skb :: "u32 \<Rightarrow> sk_buff" where
  "demo_skb c = \<lparr>skb_addr = 7, skb_headlen = 64, skb_dma = Some 0x1000, skb_frags = [(32, 0x2000)],
     skb_daddr = [10, 0, 0, 1], skb_comId = htonl c\<rparr>"

text \<open>The device after one stream, ComId 1000, has been added to it.\<close>

definition demo_added :: tadma_local where
  "demo_added = demo_dev\<lparr>get_sid := 1, get_sfm := 1,
     t_cb := Some [[\<lparr>hashtag = mk_hash_tag [10, 0, 0, 1] 1000, tticks = 8000, sid = 0, sfm = 0,
                     te_count = 1\<rparr>], [], [], []]\<rparr>"

lemma demo_add: "axienet_tadma_add_stream demo_hash (Some (demo_stream 1000 1)) True demo_dev = Inr (0, demo_added)"
  by (simp add: axienet_tadma_add_stream_def demo_stream_def demo_dev_def demo_added_def demo_hash_def
      tadma_hashtag_hash_def bucket_at_def hlist_add_head_def)

lemma demo_table_ok: "stream_table_ok demo_hash demo_dev" "stream_table_ok demo_hash demo_added"
  by (simp_all add: stream_table_ok_def demo_dev_def demo_added_def entry_ok_def demo_hash_def
      tadma_hashtag_hash_def All_less_Suc)

lemma demo_alloc_ok: "sfm_alloc_ok demo_dev" "sfm_alloc_ok demo_added"
  by (simp_all add: sfm_alloc_ok_def demo_dev_def demo_added_def table_entries_def)

section \<open>Properties\<close>

text \<open>
  Two streams are taken for the same stream exactly when their IP
  addresses and the low 16 bits of their ComIds agree; the upper half of the ComId is not
  compared.
\<close>

theorem tags_ignore_high_comid:
  assumes "length a = 4" and "length b = 4"
  shows "hash_tag_equal (mk_hash_tag a c) (mk_hash_tag b c') \<longleftrightarrow>
           a = b \<and> take_bit 16 c = take_bit 16 c'"
  by (rule hash_tag_equal_streams [OF assms])

theorem tags_ignore_high_comid_witness:
  "hash_tag_equal (mk_hash_tag [10, 0, 0, 1] 0x000103E8) (mk_hash_tag [10, 0, 0, 1] 0x000203E8)"
  using tags_ignore_high_comid [of "[10, 0, 0, 1]" "[10, 0, 0, 1]" "0x000103E8" "0x000203E8"] by simp

text \<open>
  C2 (add_stream_keeps_table): an addition, whatever it returns, keeps every entry in the bucket
  its tag hashes to, with its stream, slot and frame count in range.
\<close>

theorem add_stream_keeps_table:
  assumes "stream_table_ok h d" and "length (ip st) = 4"
    and "axienet_tadma_add_stream h (Some st) ok d = Inr (r, d')"
  shows "stream_table_ok h d'"
  by (rule add_stream_table_ok [OF assms])

theorem add_stream_keeps_table_witness: "stream_table_ok demo_hash demo_added"
  by (rule add_stream_keeps_table [OF demo_table_ok(1) _ demo_add]) (simp add: demo_stream_def)

text \<open>
  C1 (add_then_classified): after an addition that returns 0, a packet to the stream's address
  with the stream's ComId is given the stream that was allotted: the next free number, or the
  number of the entry that already matched. The one exception is a numbering that still stands at 0,
  which is so when an addition that restarts it finds an entry of the tag: then every packet is given stream 0.
\<close>

theorem add_then_classified:
  assumes "axienet_tadma_add_stream h (Some st) ok d = Inr (0, d')"
    and "skb_daddr skb = ip st" and "skb_comId skb = htonl (comid st)"
  shows "tadma_get_strid h skb d' =
     Inr (if get_sid d' = 0 then 0
          else case old_entry h d (mk_hash_tag (ip st) (comid st)) of
            Some e \<Rightarrow> sid e
          | None \<Rightarrow> (if start st \<noteq> 0 then 0 else get_sid d))"
proof (cases "get_sid d' = 0")
  case True
  then show ?thesis by (simp add: tadma_get_strid_def)
next
  case False
  then show ?thesis using add_then_classify [OF assms False] by (simp split: option.split)
qed

theorem add_then_classified_witness: "tadma_get_strid demo_hash (demo_skb 1000) demo_added = Inr 0"
  using add_then_classified [OF demo_add, of "demo_skb 1000"]
  by (simp add: demo_skb_def demo_stream_def demo_added_def demo_dev_def old_entry_def bucket_at_def
      tadma_hashtag_hash_def demo_hash_def)

text \<open>
  A later addition does not change the stream of a packet whose tag is
  not taken for the new stream's.
\<close>

theorem add_leaves_others:
  assumes "axienet_tadma_add_stream h (Some st) ok d = Inr (0, d')"
    and "start st = 0" and "get_sid d \<noteq> 0" and "get_sid d' \<noteq> 0"
    and "skb_comId skb = htonl c"
    and "\<not> hash_tag_equal (mk_hash_tag (ip st) (comid st)) (mk_hash_tag (skb_daddr skb) c)"
  shows "tadma_get_strid h skb d' = tadma_get_strid h skb d"
  by (rule add_keeps_others [OF assms])

theorem add_leaves_others_witness:
  "\<exists>d'. axienet_tadma_add_stream demo_hash (Some (demo_stream 2000 0)) True demo_added = Inr (0, d') \<and>
     tadma_get_strid demo_hash (demo_skb 1000) d' = tadma_get_strid demo_hash (demo_skb 1000) demo_added"
proof -
  have ne: "\<not> hash_tag_equal (mk_hash_tag [10, 0, 0, 1] 1000) (mk_hash_tag [10, 0, 0, 1] 2000)"
    "\<not> hash_tag_equal (mk_hash_tag [10, 0, 0, 1] 2000) (mk_hash_tag [10, 0, 0, 1] 1000)"
    by (simp_all add: hash_tag_equal_streams)
  let ?d = "hlist_add_head (demo_added\<lparr>get_sid := 2, get_sfm := 2\<rparr>) 0
      \<lparr>hashtag = mk_hash_tag [10, 0, 0, 1] 2000, tticks = 8000, sid = 1, sfm = 1, te_count = 1\<rparr>"
  have a: "axienet_tadma_add_stream demo_hash (Some (demo_stream 2000 0)) True demo_added = Inr (0, ?d)"
    using ne by (simp add: axienet_tadma_add_stream_def demo_stream_def demo_added_def demo_dev_def
        demo_hash_def tadma_hashtag_hash_def bucket_at_def word_le_nat_alt)
  have "tadma_get_strid demo_hash (demo_skb 1000) ?d = tadma_get_strid demo_hash (demo_skb 1000) demo_added"
    by (rule add_leaves_others [OF a, where c = 1000])
      (use ne in \<open>simp_all add: demo_stream_def demo_added_def demo_dev_def demo_skb_def\<close>)
  with a show ?thesis by blast
qed

text \<open>
  C3 (slots_stay_apart): as long as the numbering is only restarted on an empty table, no two
  entries of the schedule share a slot of the fetch memory.
\<close>

theorem slots_stay_apart:
  assumes "sfm_alloc_ok d" and "start st = 0 \<or> table_entries d = []"
    and "axienet_tadma_add_stream h (Some st) ok d = Inr (r, d')"
  shows "sfm_alloc_ok d'"
  by (rule add_stream_sfm_alloc_ok [OF assms])

theorem slots_stay_apart_witness: "sfm_alloc_ok demo_added"
  by (rule slots_stay_apart [OF demo_alloc_ok(1) _ demo_add]) (simp add: table_entries_def demo_dev_def)

text \<open>
  C4 (program_writes_schedule): programming succeeds, enables the scheduler and leaves in the
  slot of every entry its trigger time in ticks of 8 ns and a valid configuration word: a frame
  count that is one less than asked for (the hardware sends one more), or continuous fetch for a
  count of zero. The stream number in that word is the entry's slot number, not its stream.
\<close>

theorem program_writes_schedule:
  assumes "t_cb d = Some hs" and "stream_table_ok h d" and "sfm_alloc_ok d"
    and "unat (num_entries d) \<le> 512"
  shows "\<exists>d'. axienet_tadma_program d = Inr (0, d') \<and>
     tadma_ior d' XTADMA_CR_OFFSET = XTADMA_CFG_DONE OR XTADMA_SCHED_ENABLE \<and>
     (\<forall>e\<in>set (table_entries d).
        tadma_ior d' (sfm_entry_offset d (sfm e)) = tticks e div 8 \<and>
        (let cfg = tadma_ior d' (sfm_entry_offset d (sfm e) + 4) in
           bit cfg 31 \<and> (bit cfg 22 \<longleftrightarrow> te_count e = 0) \<and>
           get_field 8 0 cfg = sfm e AND field_mask 8 0 \<and>
           get_field 2 16 cfg = (if te_count e > 0 then te_count e - 1 else 0) AND field_mask 2 0))"
proof -
  from program_all_slots [OF assms] obtain d' where
    "axienet_tadma_program d = Inr (0, d')"
    "tadma_ior d' XTADMA_CR_OFFSET = XTADMA_CFG_DONE OR XTADMA_SCHED_ENABLE"
    "\<forall>e\<in>set (table_entries d).
        tadma_ior d' (sfm_entry_offset d (sfm e)) = tticks e div 8 \<and>
        tadma_ior d' (sfm_entry_offset d (sfm e) + 4) = sfm_cfg (sfm e) (te_count e)" by blast
  then show ?thesis
    by (intro exI [of _ d']) (auto simp: sfm_cfg_fields Let_def word_gt_0)
qed

theorem program_writes_schedule_witness:
  "\<exists>d'. axienet_tadma_program demo_added = Inr (0, d') \<and>
     tadma_ior d' XTADMA_CR_OFFSET = 0x11 \<and> tadma_ior d' 0x1000 = 1000"
proof -
  have "t_cb demo_added = Some [[\<lparr>hashtag = mk_hash_tag [10, 0, 0, 1] 1000, tticks = 8000, sid = 0,
      sfm = 0, te_count = 1\<rparr>], [], [], []]" "unat (num_entries demo_added) \<le> 512"
    by (simp_all add: demo_added_def demo_dev_def)
  from program_writes_schedule [OF this(1) demo_table_ok(2) demo_alloc_ok(2) this(2)] show ?thesis
    by (auto simp: table_entries_def demo_added_def demo_dev_def sfm_entry_offset_def)
qed

text \<open>
  A flush returns 0, empties the table, zeroes both words of every slot
  and takes the configuration-done bit back.
\<close>

theorem flush_clears_all:
  assumes "t_cb d = Some hs" and "length hs = nat (sint (num_entries d))"
  shows "\<exists>d'. axienet_tadma_flush_stream d = Inr (0, d') \<and> table_entries d' = [] \<and>
     tadma_ior d' XTADMA_CR_OFFSET = 0 \<and>
     (\<forall>i<length hs. tadma_ior d' (sfm_entry_offset d (of_nat i)) = 0 \<and>
                    tadma_ior d' (sfm_entry_offset d (of_nat i) + 4) = 0)"
  by (rule flush_stream_clears [OF assms])

theorem flush_clears_all_witness:
  "\<exists>d'. axienet_tadma_flush_stream demo_added = Inr (0, d') \<and> table_entries d' = []"
proof -
  have "t_cb demo_added = Some [[\<lparr>hashtag = mk_hash_tag [10, 0, 0, 1] 1000, tticks = 8000, sid = 0,
      sfm = 0, te_count = 1\<rparr>], [], [], []]" "num_entries demo_added = 4"
    by (simp_all add: demo_added_def demo_dev_def)
  with flush_clears_all [OF this(1)] show ?thesis by auto
qed

text \<open>
  After a probe that finds \<open>2 ^ k\<close> streams and at least as many fetch
  entries, and an open whose allocations succeed, every tag hashes to an existing, empty bucket.
  The kernel's \<open>hash_64\<close> is only assumed to return a value of the number of bits asked for.
\<close>

theorem buckets_in_range:
  assumes hash: "\<And>v b. unat (h v b) < 2 ^ unat b"
    and dt: "dt_num_streams dt = Some (2 ^ k)" "dt_num_entries dt = Some e" "2 ^ k \<le> unat e" "k < 32"
    and probe: "axienet_tadma_probe dt d = Inr (0, d1)"
    and "open": "axienet_tadma_open irq True True arr ring d1 = Inr (0, d2)"
  shows "bucket_at d2 (tadma_hashtag_hash h d2 tag) = Inr []"
proof -
  have d1: "tadma_hash_bits d1 = of_nat k" "num_entries d1 = e"
    using probe dt by (auto simp: axienet_tadma_probe_def count_zeros_pow2 split: if_splits)
  have d2: "t_cb d2 = Some (replicate (unat e) [])" "tadma_hash_bits d2 = of_nat k"
    using open_table [OF "open"] d1 by auto
  have "unat (of_nat k :: u8) = k" using dt(4) by (simp add: unat_of_nat)
  then have "unat (tadma_hashtag_hash h d2 tag) < unat e"
    using hash [of "load_le64 tag" "of_nat k"] dt(3) d2(2) by (simp add: tadma_hashtag_hash_def)
  then show ?thesis by (simp add: bucket_at_def d2)
qed

theorem buckets_in_range_witness:
  "\<exists>d1 d2. axienet_tadma_probe \<lparr>dt_node = True, dt_resource_ok = True, dt_num_buffers = None,
       dt_num_streams = Some 8, dt_num_entries = Some 8\<rparr> demo_dev = Inr (0, d1) \<and>
     axienet_tadma_open None True True True (\<lambda>_. True) d1 = Inr (0, d2) \<and>
     bucket_at d2 (tadma_hashtag_hash demo_hash d2 [1, 2, 3, 4, 5, 6, 7, 8]) = Inr []"
proof -
  let ?dt = "\<lparr>dt_node = True, dt_resource_ok = True, dt_num_buffers = None,
       dt_num_streams = Some (2 ^ 3), dt_num_entries = Some 8\<rparr>"
  have "count_zeros_from (2 ^ 3) 0 = Inr 3" by (rule count_zeros_pow2) simp_all
  then obtain d1 where p: "axienet_tadma_probe ?dt demo_dev = Inr (0, d1)" "num_streams d1 = 8"
    by (simp add: axienet_tadma_probe_def)
  have all: "fst (open_rings (\<lambda>_. True) is x) = 0" for "is" x
    by (induction "is" arbitrary: x) (auto simp: open_ring_def Let_def)
  from p(2) obtain r d2 where o: "axienet_tadma_open None True True True (\<lambda>_. True) d1 = Inr (r, d2)"
    by (simp add: axienet_tadma_open_def Let_def tadma_sfm_hash_init_def case_prod_beta tadma_iow_def)
      (metis surj_pair)
  then have "r = 0"
    using all by (auto simp: axienet_tadma_open_def Let_def case_prod_beta split: if_splits
        dest!: arg_cong [where f = fst])
  with o have "bucket_at d2 (tadma_hashtag_hash demo_hash d2 [1, 2, 3, 4, 5, 6, 7, 8]) = Inr []"
    by (intro buckets_in_range [where k = 3 and e = 8, OF _ _ _ _ _ p(1)]) (simp_all add: demo_hash_def)
  with p(1) o \<open>r = 0\<close> show ?thesis by auto
qed

end
