(* ===== verification/Ring.thy ===== *)
theory Ring
  imports Prelude
begin

text \<open>
  Rings of descriptors, independent of any driver: the contract of a bounded queue as a
  locale, and the index arithmetic of a circular buffer in which one slot stays free.
\<close>

section \<open>Bounded queues\<close>

text \<open>
  The contract of a ring of descriptors: its contents as a list, oldest first, and room for
  one element less than its size.
\<close>

locale bounded_queue =
  fixes contents :: "'d \<Rightarrow> 'a list"
    and invar :: "'d \<Rightarrow> bool"
    and cap :: "'d \<Rightarrow> nat"
    and enq :: "'a \<Rightarrow> 'd \<Rightarrow> 'd"
    and deq :: "'d \<Rightarrow> 'd"
  assumes contents_enq:
      "invar d \<Longrightarrow> Suc (length (contents d)) < cap d \<Longrightarrow> contents (enq x d) = contents d @ [x]"
    and contents_deq: "invar d \<Longrightarrow> contents d \<noteq> [] \<Longrightarrow> contents (deq d) = tl (contents d)"
    and contents_bound: "invar d \<Longrightarrow> length (contents d) < cap d"
    and invar_enq: "invar d \<Longrightarrow> invar (enq x d)"
    and invar_deq: "invar d \<Longrightarrow> invar (deq d)"
    and cap_enq: "cap (enq x d) = cap d"
    and cap_deq: "cap (deq d) = cap d"
begin

lemma enq_all:
  "invar d \<Longrightarrow> length (contents d) + length xs < cap d \<Longrightarrow>
     contents (foldl (\<lambda>d x. enq x d) d xs) = contents d @ xs \<and> invar (foldl (\<lambda>d x. enq x d) d xs)"
proof (induction xs arbitrary: d)
  case (Cons x xs)
  from Cons.prems have "contents (enq x d) = contents d @ [x]" by (simp add: contents_enq)
  with Cons.prems Cons.IH [of "enq x d"] show ?case by (simp add: invar_enq cap_enq)
qed simp

lemma deq_n:
  "invar d \<Longrightarrow> k \<le> length (contents d) \<Longrightarrow>
     contents ((deq ^^ k) d) = drop k (contents d) \<and> invar ((deq ^^ k) d)"
proof (induction k)
  case (Suc k)
  then have IH: "contents ((deq ^^ k) d) = drop k (contents d)" "invar ((deq ^^ k) d)" by auto
  moreover have "drop k (contents d) \<noteq> []" using Suc.prems(2) by simp
  ultimately show ?case
    by (simp add: contents_deq invar_deq drop_Suc tl_drop)
qed simp

end

section \<open>Index arithmetic of a ring\<close>

definition ring_idx :: "nat \<Rightarrow> nat \<Rightarrow> nat \<Rightarrow> nat list" where
  "ring_idx t h n = map (\<lambda>i. (t + i) mod n) [0..<(h + n - t) mod n]"

lemma ring_used:
  fixes t n h :: nat
  assumes "t < n" "h < n"
  shows "(h + n - t) mod n = (if t \<le> h then h - t else h + n - t)"
proof (cases "t \<le> h")
  case True
  then have "h + n - t = (h - t) + n" by arith
  then have "(h + n - t) mod n = (h - t) mod n" by (simp only: mod_add_self2)
  then show ?thesis using True assms by simp
qed (use assms in simp)

lemma ring_used_push:
  fixes t n h :: nat
  assumes "t < n" "h < n" "(h + 1) mod n \<noteq> t"
  shows "((h + 1) mod n + n - t) mod n = Suc ((h + n - t) mod n)"
proof (cases "h + 1 = n")
  case True
  then have h0: "(h + 1) mod n = 0" by simp
  with assms have "t \<noteq> 0" by simp
  then have "(0 + n - t) mod n = n - t" using assms by simp
  moreover have "(h + n - t) mod n = h - t" using True assms by (subst ring_used) auto
  ultimately show ?thesis using True assms h0 by simp
next
  case False
  then have h1: "(h + 1) mod n = h + 1" "h + 1 < n" using assms by auto
  then show ?thesis
    unfolding h1 ring_used [OF assms(1,2)] ring_used [OF assms(1) h1(2)]
    using assms by auto
qed

lemma ring_idx_push:
  assumes "t < n" "h < n" "(h + 1) mod n \<noteq> t"
  shows "ring_idx t ((h + 1) mod n) n = ring_idx t h n @ [h]"
proof -
  have "(t + (h + n - t) mod n) mod n = h"
    using assms by (auto simp: ring_used)
  then show ?thesis
    unfolding ring_idx_def ring_used_push [OF assms] by simp
qed

lemma ring_idx_empty_iff: "t < n \<Longrightarrow> h < n \<Longrightarrow> ring_idx t h n = [] \<longleftrightarrow> h = t"
  by (auto simp: ring_idx_def ring_used)

lemma ring_used_pop:
  fixes t n h :: nat
  assumes "t < n" "h < n" "h \<noteq> t"
  shows "(h + n - t) mod n = Suc ((h + n - (t + 1) mod n) mod n)"
proof (cases "t + 1 = n")
  case True
  then show ?thesis using assms by (auto simp: ring_used)
next
  case False
  then have "t + 1 < n" "(t + 1) mod n = t + 1" using assms by auto
  then show ?thesis using assms by (auto simp: ring_used ring_used [of "t + 1"])
qed

lemma ring_idx_pop:
  assumes "t < n" "h < n" "h \<noteq> t"
  shows "ring_idx t h n = t # ring_idx ((t + 1) mod n) h n"
  unfolding ring_idx_def ring_used_pop [OF assms] upt_conv_Cons [OF zero_less_Suc]
  using assms(1) by (simp add: map_Suc_upt [symmetric] comp_def mod_simps del: upt_Suc)

lemma ring_idx_notin:
  assumes "t < n" "h < n"
  shows "h \<notin> set (ring_idx t h n)"
proof
  assume "h \<in> set (ring_idx t h n)"
  then obtain i where i: "i < (h + n - t) mod n" "h = (t + i) mod n" by (auto simp: ring_idx_def)
  show False
  proof (cases "t \<le> h")
    case True
    with i(1) assms have "i < h - t" by (simp add: ring_used)
    moreover from this assms have "(t + i) mod n = t + i" by simp
    ultimately show False using i(2) by simp
  next
    case False
    with i assms have il: "i < h + n - t" by (simp add: ring_used)
    show False
    proof (cases "t + i < n")
      case True
      with i(2) False show False by simp
    next
      case ge: False
      then have "(t + i) mod n = t + i - n" using il assms by (simp add: mod_if)
      with i(2) il False ge show False by simp
    qed
  qed
qed

lemma length_ring_idx: "t < n \<Longrightarrow> length (ring_idx t h n) < n"
  by (simp add: ring_idx_def)

end
