(* ===== verification/Tadma_Ring.thy ===== *)
theory Tadma_Ring
  imports Tadma_Xmit Ring
begin

text \<open>
  The transmit ring of the TADMA driver refines a bounded queue of descriptors: queueing a
  packet appends its descriptors, the interrupt removes the released ones from the front, and
  the address/length memory holds at every queued index the words of that descriptor.
\<close>

section \<open>The descriptor ring of a stream\<close>

definition ring_ok :: "u32 \<Rightarrow> tadma_local \<Rightarrow> bool" where
  "ring_ok s d \<longleftrightarrow>
     tx_bd_head d s < num_tadma_buffers d \<and> tx_bd_tail d s < num_tadma_buffers d \<and>
     tx_bd_rd d s < num_tadma_buffers d"

abbreviation nbuf :: "tadma_local \<Rightarrow> nat" where
  "nbuf d \<equiv> unat (num_tadma_buffers d)"

definition queued_idx :: "u32 \<Rightarrow> tadma_local \<Rightarrow> nat list" where
  "queued_idx s d = ring_idx (unat (tx_bd_tail d s)) (unat (tx_bd_head d s)) (nbuf d)"

text \<open>The descriptors between tail and head, oldest first.\<close>

definition queued :: "u32 \<Rightarrow> tadma_local \<Rightarrow> axitadma_bd list" where
  "queued s d = map (\<lambda>i. tx_bd d s (of_nat i)) (queued_idx s d)"

lemma ring_ok_nat:
  "ring_ok s d \<Longrightarrow> unat (tx_bd_head d s) < nbuf d \<and> unat (tx_bd_tail d s) < nbuf d \<and>
     unat (tx_bd_rd d s) < nbuf d"
  by (simp add: ring_ok_def word_less_nat_alt)

lemma unat_ring_inc:
  fixes x n :: u32
  assumes "x < n"
  shows "unat ((x + 1) mod n) = (unat x + 1) mod unat n"
proof -
  have "unat (x + 1) = unat x + 1" using assms by unat_arith
  then show ?thesis by (simp add: unat_mod_distrib)
qed

lemma ring_inc_less: "x < n \<Longrightarrow> (y + 1) mod n < n" for x y n :: u32
  by (metis word_gt_0 word_mod_less_divisor word_not_simps(1))

lemma length_queued: "length (queued s d) = length (queued_idx s d)"
  by (simp add: queued_def)

lemma queued_empty_iff:
  "ring_ok s d \<Longrightarrow> queued s d = [] \<longleftrightarrow> tx_bd_head d s = tx_bd_tail d s"
  using ring_ok_nat [of s d] by (simp add: queued_def queued_idx_def ring_idx_empty_iff word_unat_eq_iff)

lemma ring_idx_full:
  assumes "t < n" "h < n" "(h + 1) mod n = t"
  shows "Suc (length (ring_idx t h n)) = n"
proof (cases "h + 1 = n")
  case False
  then have "(h + 1) mod n = h + 1" using assms by simp
  then have "t = h + 1" using assms by simp
  then show ?thesis using assms by (simp add: ring_idx_def)
qed (use assms in \<open>auto simp: ring_idx_def ring_used\<close>)

lemma queued_idx_push:
  assumes "ring_ok s d" and "Suc (length (queued_idx s d)) < nbuf d"
  shows "queued_idx s (push_bd s bd d) = queued_idx s d @ [unat (tx_bd_head d s)]"
proof -
  have r: "unat (tx_bd_head d s) < nbuf d" "unat (tx_bd_tail d s) < nbuf d"
    using ring_ok_nat [OF assms(1)] by auto
  then have "(unat (tx_bd_head d s) + 1) mod nbuf d \<noteq> unat (tx_bd_tail d s)"
    using ring_idx_full [of "unat (tx_bd_tail d s)" "nbuf d" "unat (tx_bd_head d s)"] assms(2)
    by (auto simp: queued_idx_def)
  then show ?thesis
    using r assms(1)
    by (simp add: queued_idx_def push_bd_def unat_ring_inc ring_ok_def ring_idx_push [symmetric])
qed

lemma queued_idx_less: "ring_ok s d \<Longrightarrow> i \<in> set (queued_idx s d) \<Longrightarrow> i < nbuf d"
  using ring_ok_nat [of s d] by (auto simp: queued_idx_def ring_idx_def)

lemma queued_push:
  assumes "ring_ok s d" and "Suc (length (queued s d)) < nbuf d"
  shows "queued s (push_bd s bd d) = queued s d @ [bd]"
proof -
  have "unat (tx_bd_head d s) \<notin> set (queued_idx s d)"
    using ring_ok_nat [OF assms(1)] by (simp add: queued_idx_def ring_idx_notin)
  moreover have "unat (of_nat i :: u32) = i" if "i \<in> set (queued_idx s d)" for i
    using that unat_u32_less [of "num_tadma_buffers d"] queued_idx_less [OF assms(1) that]
    by (simp add: unat_of_nat)
  ultimately have "of_nat i \<noteq> tx_bd_head d s" if "i \<in> set (queued_idx s d)" for i
    using that by metis
  then have "map (\<lambda>i. tx_bd (push_bd s bd d) s (of_nat i)) (queued_idx s d) = queued s d"
    by (simp add: queued_def push_bd_def)
  then show ?thesis
    using queued_idx_push [OF assms(1), of bd] assms(2)
    by (simp add: queued_def push_bd_def length_queued)
qed

lemma queued_idx_reclaim:
  assumes "ring_ok s d" and "queued s d \<noteq> []"
  shows "queued_idx s d = unat (tx_bd_tail d s) # queued_idx s (reclaim_bd s d)"
proof -
  have "unat (tx_bd_head d s) \<noteq> unat (tx_bd_tail d s)"
    using assms queued_empty_iff by (simp add: word_unat_eq_iff)
  moreover have "unat (tx_bd_head d s) < nbuf d" "unat (tx_bd_tail d s) < nbuf d"
    using ring_ok_nat [OF assms(1)] by auto
  ultimately show ?thesis
    using assms(1) ring_idx_pop [of "unat (tx_bd_tail d s)" "nbuf d" "unat (tx_bd_head d s)"]
    by (simp add: queued_idx_def reclaim_bd_def unat_ring_inc ring_ok_def)
qed

lemma queued_reclaim:
  assumes "ring_ok s d" and "queued s d \<noteq> []"
  shows "queued s d = tx_bd d s (tx_bd_tail d s) # queued s (reclaim_bd s d)"
  using queued_idx_reclaim [OF assms] by (simp add: queued_def reclaim_bd_def)

lemma ring_ok_push: "ring_ok s d \<Longrightarrow> ring_ok s (push_bd s bd d)"
  by (auto simp: ring_ok_def push_bd_def intro: ring_inc_less)

lemma ring_ok_reclaim: "ring_ok s d \<Longrightarrow> ring_ok s (reclaim_bd s d)"
  by (auto simp: ring_ok_def reclaim_bd_def intro: ring_inc_less)

interpretation tx_ring: bounded_queue "queued s" "ring_ok s" nbuf "push_bd s" "reclaim_bd s" for s
proof
  fix d :: tadma_local and x
  show "ring_ok s d \<Longrightarrow> Suc (length (queued s d)) < nbuf d \<Longrightarrow>
      queued s (push_bd s x d) = queued s d @ [x]"
    by (rule queued_push)
  show "ring_ok s d \<Longrightarrow> queued s d \<noteq> [] \<Longrightarrow> queued s (reclaim_bd s d) = tl (queued s d)"
    by (simp add: queued_reclaim)
  show "ring_ok s d \<Longrightarrow> length (queued s d) < nbuf d"
    using ring_ok_nat [of s d] by (simp add: length_queued queued_idx_def length_ring_idx)
  show "ring_ok s d \<Longrightarrow> ring_ok s (push_bd s x d)" by (rule ring_ok_push)
  show "ring_ok s d \<Longrightarrow> ring_ok s (reclaim_bd s d)" by (rule ring_ok_reclaim)
  show "nbuf (push_bd s x d) = nbuf d" by (simp add: push_bd_def)
  show "nbuf (reclaim_bd s d) = nbuf d" by (simp add: reclaim_bd_def)
qed

section \<open>Reclaiming\<close>

lemma reclaim_frame [simp]:
  "tx_bd (reclaim_bd s d) = tx_bd d" "tx_bd_head (reclaim_bd s d) = tx_bd_head d"
  "tx_bd_rd (reclaim_bd s d) = tx_bd_rd d" "tadma_regs (reclaim_bd s d) = tadma_regs d"
  "num_tadma_buffers (reclaim_bd s d) = num_tadma_buffers d"
  "num_streams (reclaim_bd s d) = num_streams d"
  "tx_packets (reclaim_bd s d) = tx_packets d" "tx_bytes (reclaim_bd s d) = tx_bytes d"
  "s' \<noteq> s \<Longrightarrow> tx_bd_tail (reclaim_bd s d) s' = tx_bd_tail d s'"
  by (simp_all add: reclaim_bd_def)

lemma reclaim_log:
  "kernel_log (reclaim_bd s d) = kernel_log d @ unmap_bd (tx_bd d s (tx_bd_tail d s))"
  by (simp add: reclaim_bd_def)

lemma reclaim_tail:
  "tx_bd_tail (reclaim_bd s d) s = (tx_bd_tail d s + 1) mod num_tadma_buffers d"
  by (simp add: reclaim_bd_def)

lemma reclaim_n_frame:
  "tx_bd ((reclaim_bd s ^^ k) d) = tx_bd d" "tx_bd_head ((reclaim_bd s ^^ k) d) = tx_bd_head d"
  "tx_bd_rd ((reclaim_bd s ^^ k) d) = tx_bd_rd d" "tadma_regs ((reclaim_bd s ^^ k) d) = tadma_regs d"
  "num_tadma_buffers ((reclaim_bd s ^^ k) d) = num_tadma_buffers d"
  "num_streams ((reclaim_bd s ^^ k) d) = num_streams d"
  "tx_packets ((reclaim_bd s ^^ k) d) = tx_packets d" "tx_bytes ((reclaim_bd s ^^ k) d) = tx_bytes d"
  "s' \<noteq> s \<Longrightarrow> tx_bd_tail ((reclaim_bd s ^^ k) d) s' = tx_bd_tail d s'"
  by (induction k) simp_all

lemma xmit_done_loop_eq:
  "ring_ok s d \<Longrightarrow>
     xmit_done_loop k s sz p d =
       (sz + sum_list (map len (take k (queued s d))),
        p + of_nat (min k (length (queued s d))),
        (reclaim_bd s ^^ min k (length (queued s d))) d)"
proof (induction k arbitrary: sz p d)
  case (Suc k)
  show ?case
  proof (cases "queued s d = []")
    case True
    with Suc.prems have "tx_bd_head d s = tx_bd_tail d s" using queued_empty_iff by blast
    with True show ?thesis by simp
  next
    case False
    then have ne: "tx_bd_head d s \<noteq> tx_bd_tail d s" using Suc.prems queued_empty_iff by simp
    have q: "queued s d = tx_bd d s (tx_bd_tail d s) # queued s (reclaim_bd s d)"
      by (rule queued_reclaim [OF Suc.prems False])
    have "(reclaim_bd s ^^ min (Suc k) (length (queued s d))) d =
        (reclaim_bd s ^^ min k (length (queued s (reclaim_bd s d)))) (reclaim_bd s d)"
      by (simp add: q funpow_swap1)
    then show ?thesis
      using ne q Suc.IH [OF ring_ok_reclaim [OF Suc.prems]] by (simp add: add_ac)
  qed
qed simp

lemma reclaim_n_log:
  "ring_ok s d \<Longrightarrow> k \<le> length (queued s d) \<Longrightarrow>
     kernel_log ((reclaim_bd s ^^ k) d) =
       kernel_log d @ concat (map unmap_bd (take k (queued s d)))"
proof (induction k arbitrary: d)
  case (Suc k)
  then have ne: "queued s d \<noteq> []" by auto
  have q: "queued s d = tx_bd d s (tx_bd_tail d s) # queued s (reclaim_bd s d)"
    by (rule queued_reclaim [OF Suc.prems(1) ne])
  have "kernel_log ((reclaim_bd s ^^ Suc k) d) = kernel_log ((reclaim_bd s ^^ k) (reclaim_bd s d))"
    by (simp add: funpow_swap1)
  also have "\<dots> = kernel_log (reclaim_bd s d) @
      concat (map unmap_bd (take k (queued s (reclaim_bd s d))))"
    using Suc.prems q by (intro Suc.IH) (auto simp: ring_ok_reclaim)
  also have "\<dots> = kernel_log d @ concat (map unmap_bd (take (Suc k) (queued s d)))"
    unfolding q [THEN arg_cong, of "take (Suc k)"] by (simp add: reclaim_log)
  finally show ?case .
qed simp

lemma reclaim_n_tail:
  "ring_ok s d \<Longrightarrow>
     unat (tx_bd_tail ((reclaim_bd s ^^ k) d) s) = (unat (tx_bd_tail d s) + k) mod nbuf d"
proof (induction k)
  case 0
  then show ?case using ring_ok_nat [of s d] by simp
next
  case (Suc k)
  have "ring_ok s ((reclaim_bd s ^^ k) d)"
    using Suc.prems by (induction k) (auto simp: ring_ok_reclaim)
  then have lt: "tx_bd_tail ((reclaim_bd s ^^ k) d) s < num_tadma_buffers d"
    by (simp add: ring_ok_def reclaim_n_frame)
  then show ?case
    using Suc by (simp add: reclaim_tail unat_ring_inc reclaim_n_frame mod_Suc_eq)
qed

section \<open>The scan of the interrupt handler\<close>

text \<open>The hardware has fetched the frame of slot \<open>i\<close>: it has cleared the UFF bit.\<close>

definition alm_released :: "u32 \<Rightarrow> tadma_local \<Rightarrow> nat \<Rightarrow> bool" where
  "alm_released s d i \<longleftrightarrow>
     tadma_ior d (tadma_stream_alm_offset_irq s (of_nat i) d + 4) AND XTADMA_ALM_UFF = 0"

definition reclaimable :: "u32 \<Rightarrow> tadma_local \<Rightarrow> nat" where
  "reclaimable s d = length (takeWhile (alm_released s d) (queued_idx s d))"

lemma alm_released_rd [simp]: "alm_released s (d\<lparr>tx_bd_rd := f\<rparr>) = alm_released s d"
  by (rule ext) (simp add: alm_released_def tadma_stream_alm_offset_irq_def tadma_ior_def)

lemma irq_scan_eq:
  assumes "ring_ok s d"
    and "c = length (takeWhile (alm_released s d)
               (take k (ring_idx (unat (tx_bd_rd d s)) (unat (tx_bd_head d s)) (nbuf d))))"
  shows "irq_scan k s d =
     (c, d\<lparr>tx_bd_rd := (tx_bd_rd d)(s := of_nat ((unat (tx_bd_rd d s) + c) mod nbuf d))\<rparr>)"
  using assms
proof (induction k arbitrary: d c)
  case 0
  then show ?case using ring_ok_nat [of s d] by simp
next
  case (Suc k)
  let ?r = "unat (tx_bd_rd d s)" and ?h = "unat (tx_bd_head d s)" and ?n = "nbuf d"
  have r: "?r < ?n" "?h < ?n" using ring_ok_nat [OF Suc.prems(1)] by auto
  show ?case
  proof (cases "alm_released s d ?r \<and> tx_bd_rd d s \<noteq> tx_bd_head d s")
    case True
    let ?d = "d\<lparr>tx_bd_rd := (tx_bd_rd d)(s := (tx_bd_rd d s + 1) mod num_tadma_buffers d)\<rparr>"
    have lt: "tx_bd_rd d s < num_tadma_buffers d" using Suc.prems(1) by (simp add: ring_ok_def)
    have ok: "ring_ok s ?d" using Suc.prems(1) by (auto simp: ring_ok_def intro: ring_inc_less)
    have "ring_idx ?r ?h ?n = ?r # ring_idx ((?r + 1) mod ?n) ?h ?n"
      using r True by (intro ring_idx_pop) (auto simp: word_unat_eq_iff)
    then obtain c' where c': "c = Suc c'" "c' = length (takeWhile (alm_released s d)
          (take k (ring_idx ((?r + 1) mod ?n) ?h ?n)))"
      using True Suc.prems(2) by simp
    have "irq_scan k s ?d = (c', ?d\<lparr>tx_bd_rd := (tx_bd_rd ?d)
        (s := of_nat ((unat (tx_bd_rd ?d s) + c') mod nbuf ?d))\<rparr>)"
      using ok c'(2) unat_ring_inc [OF lt] by (intro Suc.IH) simp_all
    moreover have "((?r + 1) mod ?n + c') mod ?n = (?r + c) mod ?n"
      unfolding c'(1) by (metis mod_add_left_eq add.assoc plus_1_eq_Suc)
    ultimately have "irq_scan k s ?d = (c', d\<lparr>tx_bd_rd := (tx_bd_rd d)
        (s := of_nat ((?r + c) mod ?n))\<rparr>)"
      using unat_ring_inc [OF lt] by (simp del: One_nat_def)
    then show ?thesis
      using True c'(1) by (simp add: alm_released_def fun_upd_def)
  next
    case False
    then have "c = 0"
    proof (cases "tx_bd_rd d s = tx_bd_head d s")
      case True
      then show ?thesis using Suc.prems(2) r by (simp add: ring_idx_empty_iff [THEN iffD2])
    next
      case ne: False
      then have "ring_idx ?r ?h ?n = ?r # ring_idx ((?r + 1) mod ?n) ?h ?n"
        using r by (intro ring_idx_pop) (auto simp: word_unat_eq_iff)
      then show ?thesis using Suc.prems(2) False ne by simp
    qed
    then show ?thesis using False r by (auto simp: alm_released_def)
  qed
qed

lemma queued_idx_frame:
  "tx_bd_tail d' s = tx_bd_tail d s \<Longrightarrow> tx_bd_head d' s = tx_bd_head d s \<Longrightarrow>
   num_tadma_buffers d' = num_tadma_buffers d \<Longrightarrow> queued_idx s d' = queued_idx s d"
  by (simp add: queued_idx_def)

lemma queued_rd [simp]:
  "queued s (d\<lparr>tx_bd_rd := f\<rparr>) = queued s d" "queued_idx s (d\<lparr>tx_bd_rd := f\<rparr>) = queued_idx s d"
  by (simp_all add: queued_def queued_idx_def)

lemma queued_stats [simp]:
  "queued s (d\<lparr>tx_packets := a, tx_bytes := b\<rparr>) = queued s d"
  "ring_ok s (d\<lparr>tx_packets := a, tx_bytes := b\<rparr>) = ring_ok s d"
  by (simp_all add: queued_def queued_idx_def ring_ok_def)

lemma xmit_done_eq:
  assumes "ring_ok s d" and "unat s < 256" and "unat cnt \<le> length (queued s d)"
  shows "tadma_xmit_done (ucast s) cnt d =
     ((reclaim_bd s ^^ unat cnt) d)
       \<lparr>tx_packets := tx_packets d + of_nat (unat cnt),
        tx_bytes := tx_bytes d + ucast (sum_list (map len (take (unat cnt) (queued s d))))\<rparr>"
proof -
  have "ucast (ucast s :: u8) = s"
    using assms(2) by (simp add: word_unat_eq_iff unsigned_ucast_eq unsigned_take_bit_eq take_bit_nat_eq_self_iff)
  moreover have "ucast (0 + of_nat (unat cnt) :: u32) = (of_nat (unat cnt) :: u64)"
    by simp
  ultimately have u: "ucast (ucast s :: u8) = s"
    "ucast (of_nat (unat cnt) :: u32) = (of_nat (unat cnt) :: u64)" by simp_all
  have l: "xmit_done_loop (unat cnt) s 0 0 d = (sum_list (map len (take (unat cnt) (queued s d))),
      of_nat (unat cnt), (reclaim_bd s ^^ unat cnt) d)"
    using assms(1,3) by (simp add: xmit_done_loop_eq min_absorb1)
  show ?thesis
  proof (cases "tx_bd_head d s = tx_bd_tail d s")
    case True
    then have "queued s d = []" using assms(1) queued_empty_iff by blast
    with assms(3) have "unat cnt = 0" by simp
    with True show ?thesis by (simp add: tadma_xmit_done_def u)
  next
    case False
    then show ?thesis by (simp add: tadma_xmit_done_def u l reclaim_n_frame)
  qed
qed

lemma queued_other_stream:
  "s' \<noteq> s \<Longrightarrow> queued s' ((reclaim_bd s ^^ k) d) = queued s' d"
  by (simp add: queued_def queued_idx_def reclaim_n_frame)

definition in_sync :: "u32 \<Rightarrow> tadma_local \<Rightarrow> bool" where
  "in_sync s d \<longleftrightarrow> ring_ok s d \<and> tx_bd_tail d s = tx_bd_rd d s"

lemma reclaimable_le: "reclaimable s d \<le> length (queued s d)"
  by (simp add: reclaimable_def length_queued length_takeWhile_le)

lemma irq_stream_eq:
  assumes ok: "in_sync s d" and s: "unat s < 256" and n: "nbuf d < 2 ^ 31"
  shows "\<exists>b. irq_stream d s =
     ((reclaim_bd s ^^ reclaimable s d)
       (d\<lparr>tx_bd_rd := (tx_bd_rd d)(s := of_nat ((unat (tx_bd_rd d s) + reclaimable s d) mod nbuf d))\<rparr>))
       \<lparr>tx_packets := tx_packets d + of_nat (reclaimable s d), tx_bytes := b\<rparr>"
proof -
  let ?k = "reclaimable s d"
  let ?d = "d\<lparr>tx_bd_rd := (tx_bd_rd d)(s := of_nat ((unat (tx_bd_rd d s) + ?k) mod nbuf d))\<rparr>"
  have r: "ring_ok s d" "tx_bd_tail d s = tx_bd_rd d s" using ok by (auto simp: in_sync_def)
  have si: "nat (sint (num_tadma_buffers d)) = nbuf d"
    using n by (simp add: sint_small)
  have "length (queued_idx s d) \<le> nbuf d"
    using tx_ring.contents_bound [OF r(1)] by (simp add: length_queued)
  then have "irq_scan (nbuf d) s d = (?k, ?d)"
    using r by (intro irq_scan_eq) (simp_all add: reclaimable_def queued_idx_def)
  moreover have "unat (of_nat ?k :: u32) = ?k"
    using reclaimable_le [of s d] tx_ring.contents_bound [OF r(1)] unat_u32_less [of "num_tadma_buffers d"]
    by (simp add: unat_of_nat)
  moreover have "ring_ok s ?d"
  proof -
    have "(unat (tx_bd_rd d s) + ?k) mod nbuf d < nbuf d"
      using ring_ok_nat [OF r(1)] by simp
    then show ?thesis
      using r(1) unat_u32_less [of "num_tadma_buffers d"]
      by (auto simp: ring_ok_def word_less_nat_alt unat_of_nat
          intro: le_less_trans [OF mod_less_eq_dividend])
  qed
  ultimately have "irq_stream d s =
     ((reclaim_bd s ^^ ?k) ?d)
       \<lparr>tx_packets := tx_packets d + of_nat ?k,
        tx_bytes := tx_bytes d + ucast (sum_list (map len (take ?k (queued s d))))\<rparr>"
    using xmit_done_eq [of s ?d "of_nat ?k"] s reclaimable_le [of s d] si
    by (cases "?k = 0") (auto simp: irq_stream_def)
  then show ?thesis by blast
qed

lemma reclaim_n_ring_ok: "ring_ok s d \<Longrightarrow> ring_ok s ((reclaim_bd s ^^ k) d)"
  by (induction k) (auto simp: ring_ok_reclaim)

lemma reclaimable_stats [simp]:
  "reclaimable s (d\<lparr>tx_packets := a, tx_bytes := b\<rparr>) = reclaimable s d"
  by (simp add: reclaimable_def queued_idx_def alm_released_def [abs_def] tadma_ior_def
      tadma_stream_alm_offset_irq_def)

lemma in_sync_stats [simp]:
  "in_sync s (d\<lparr>tx_packets := a, tx_bytes := b\<rparr>) = in_sync s d"
  by (simp add: in_sync_def)

text \<open>What the interrupt does to the stream it looks at.\<close>

lemma irq_stream_reclaims:
  assumes ok: "in_sync s d" and s: "unat s < 256" and n: "nbuf d < 2 ^ 31"
  defines "k \<equiv> reclaimable s d"
  shows "queued s (irq_stream d s) = drop k (queued s d)"
    and "in_sync s (irq_stream d s)"
    and "kernel_log (irq_stream d s) = kernel_log d @ concat (map unmap_bd (take k (queued s d)))"
    and "tx_packets (irq_stream d s) = tx_packets d + of_nat k"
proof -
  let ?d = "d\<lparr>tx_bd_rd := (tx_bd_rd d)(s := of_nat ((unat (tx_bd_rd d s) + k) mod nbuf d))\<rparr>"
  obtain b where e: "irq_stream d s =
      ((reclaim_bd s ^^ k) ?d)\<lparr>tx_packets := tx_packets d + of_nat k, tx_bytes := b\<rparr>"
    using irq_stream_eq [OF ok s n] unfolding k_def by blast
  have r: "ring_ok s d" "tx_bd_tail d s = tx_bd_rd d s" using ok by (auto simp: in_sync_def)
  have lt: "(unat (tx_bd_rd d s) + k) mod nbuf d < nbuf d" using ring_ok_nat [OF r(1)] by simp
  then have u: "unat (of_nat ((unat (tx_bd_rd d s) + k) mod nbuf d) :: u32) =
      (unat (tx_bd_rd d s) + k) mod nbuf d"
    using unat_u32_less [of "num_tadma_buffers d"] by (simp add: unat_of_nat)
  have okd: "ring_ok s ?d" using r(1) lt u by (simp add: ring_ok_def word_less_nat_alt)
  have kl: "k \<le> length (queued s ?d)" using reclaimable_le [of s d] by (simp add: k_def)
  from tx_ring.deq_n [OF okd kl] show "queued s (irq_stream d s) = drop k (queued s d)"
    by (simp add: e)
  from reclaim_n_log [OF okd kl]
  show "kernel_log (irq_stream d s) = kernel_log d @ concat (map unmap_bd (take k (queued s d)))"
    by (simp add: e)
  show "tx_packets (irq_stream d s) = tx_packets d + of_nat k" by (simp add: e)
  have "unat (tx_bd_tail ((reclaim_bd s ^^ k) ?d) s) = (unat (tx_bd_rd d s) + k) mod nbuf d"
    using reclaim_n_tail [OF okd, of k] r(2) by simp
  then have "tx_bd_tail ((reclaim_bd s ^^ k) ?d) s = tx_bd_rd ((reclaim_bd s ^^ k) ?d) s"
    using u by (simp add: word_unat_eq_iff reclaim_n_frame)
  then show "in_sync s (irq_stream d s)"
    using reclaim_n_ring_ok [OF okd] by (simp add: e in_sync_def)
qed

text \<open>The other streams are left alone.\<close>

lemma irq_stream_frame:
  assumes ok: "in_sync s d" and s: "unat s < 256" and n: "nbuf d < 2 ^ 31"
  shows "num_tadma_buffers (irq_stream d s) = num_tadma_buffers d"
    and "s' \<noteq> s \<Longrightarrow> queued s' (irq_stream d s) = queued s' d"
    and "s' \<noteq> s \<Longrightarrow> in_sync s' (irq_stream d s) = in_sync s' d"
    and "s' \<noteq> s \<Longrightarrow> reclaimable s' (irq_stream d s) = reclaimable s' d"
proof -
  obtain k v b where e: "irq_stream d s = ((reclaim_bd s ^^ k) (d\<lparr>tx_bd_rd := (tx_bd_rd d)(s := v)\<rparr>))
      \<lparr>tx_packets := tx_packets d + of_nat k, tx_bytes := b\<rparr>"
    using irq_stream_eq [OF ok s n] by blast
  show "num_tadma_buffers (irq_stream d s) = num_tadma_buffers d" by (simp add: e reclaim_n_frame)
  assume ne: "s' \<noteq> s"
  show "queued s' (irq_stream d s) = queued s' d" by (simp add: e queued_other_stream [OF ne])
  show "in_sync s' (irq_stream d s) = in_sync s' d"
    using ne by (simp add: e in_sync_def ring_ok_def reclaim_n_frame)
  show "reclaimable s' (irq_stream d s) = reclaimable s' d"
    using ne by (simp add: e reclaimable_def queued_idx_def alm_released_def [abs_def] tadma_ior_def
        tadma_stream_alm_offset_irq_def reclaim_n_frame)
qed

lemma irq_streams:
  assumes "distinct ss" and "\<forall>s\<in>set ss. unat s < 256" and "\<forall>s. s \<in> A \<longrightarrow> in_sync s d"
    and "set ss \<subseteq> A" and "nbuf d < 2 ^ 31"
  shows "\<forall>s\<in>A. in_sync s (foldl irq_stream d ss) \<and>
     queued s (foldl irq_stream d ss) =
       (if s \<in> set ss then drop (reclaimable s d) (queued s d) else queued s d)"
  using assms
proof (induction ss arbitrary: d)
  case (Cons x ss)
  then have x: "in_sync x d" "unat x < 256" "x \<notin> set ss" by auto
  let ?d = "irq_stream d x"
  note fr = irq_stream_frame [OF x(1,2) Cons.prems(5)]
  note rc = irq_stream_reclaims [OF x(1,2) Cons.prems(5)]
  have A: "\<forall>s. s \<in> A \<longrightarrow> in_sync s ?d" using Cons.prems(3) fr(3) rc(2) by metis
  have IH: "\<forall>s\<in>A. in_sync s (foldl irq_stream ?d ss) \<and>
     queued s (foldl irq_stream ?d ss) =
       (if s \<in> set ss then drop (reclaimable s ?d) (queued s ?d) else queued s ?d)"
    using Cons.prems A fr(1) by (intro Cons.IH) auto
  show ?case
  proof
    fix s assume "s \<in> A"
    with IH x(3) fr(2,4) [of s] rc(1)
    show "in_sync s (foldl irq_stream d (x # ss)) \<and> queued s (foldl irq_stream d (x # ss)) =
       (if s \<in> set (x # ss) then drop (reclaimable s d) (queued s d) else queued s d)"
      by (cases "s = x") auto
  qed
qed auto

section \<open>Queueing\<close>

lemma iow_ring_frame [simp]:
  "queued s (tadma_iow d a v) = queued s d" "ring_ok s (tadma_iow d a v) = ring_ok s d"
  "queued_idx s (tadma_iow d a v) = queued_idx s d"
  "num_tadma_buffers (tadma_iow d a v) = num_tadma_buffers d"
  "tx_bd_head (tadma_iow d a v) = tx_bd_head d" "tx_bd_tail (tadma_iow d a v) = tx_bd_tail d"
  "tx_bd_rd (tadma_iow d a v) = tx_bd_rd d"
  by (simp_all add: queued_def queued_idx_def ring_ok_def tadma_iow_def)

lemma push_frame [simp]:
  "num_tadma_buffers (push_bd s bd d) = num_tadma_buffers d"
  "tx_bd_tail (push_bd s bd d) = tx_bd_tail d" "tx_bd_rd (push_bd s bd d) = tx_bd_rd d"
  "tadma_regs (push_bd s bd d) = tadma_regs d"
  "tx_bd_head (push_bd s bd d) s = (tx_bd_head d s + 1) mod num_tadma_buffers d"
  by (simp_all add: push_bd_def)

text \<open>The descriptors of a packet's fragments and of the whole packet.\<close>

fun frag_bds :: "u64 \<Rightarrow> (u32 \<times> u64) list \<Rightarrow> axitadma_bd list" where
  "frag_bds skb [] = []"
| "frag_bds skb ((l, a) # fs) =
     \<lparr>phys = ucast a, tx_skb = (if fs = [] then skb else 0), tx_desc_mapping = DESC_DMA_MAP_PAGE,
      num_frag = 0, len = l\<rparr> # frag_bds skb fs"

definition packet_bds :: "sk_buff \<Rightarrow> u64 \<Rightarrow> axitadma_bd list" where
  "packet_bds skb a =
     \<lparr>phys = ucast a, tx_skb = (if skb_frags skb = [] then skb_addr skb else 0),
      tx_desc_mapping = DESC_DMA_MAP_SINGLE,
      num_frag = of_nat (length (skb_frags skb)) + 1, len = skb_headlen skb\<rparr>
     # frag_bds (skb_addr skb) (skb_frags skb)"

lemma length_frag_bds [simp]: "length (frag_bds skb fs) = length fs"
  by (induction skb fs rule: frag_bds.induct) auto

lemma xmit_frags_ring:
  assumes "ring_ok s d" and "length (queued s d) + length fs < nbuf d"
    and "xmit_frags dma64 skb s fs wp tot d = (wp', tot', d')"
  shows "ring_ok s d' \<and> queued s d' = queued s d @ frag_bds skb fs \<and>
     tot' = tot + sum_list (map fst fs) \<and> num_tadma_buffers d' = num_tadma_buffers d \<and>
     tx_bd_tail d' = tx_bd_tail d \<and> tx_bd_rd d' = tx_bd_rd d"
  using assms
proof (induction fs arbitrary: d wp tot)
  case (Cons f fs)
  obtain l a where f: "f = (l, a)" by (cases f)
  let ?bd = "\<lparr>phys = ucast a, tx_skb = (if fs = [] then skb else 0),
      tx_desc_mapping = DESC_DMA_MAP_PAGE, num_frag = 0, len = l\<rparr>"
  have q: "queued s (push_bd s ?bd d) = queued s d @ [?bd]"
    using Cons.prems(1,2) by (intro queued_push) auto
  have "ring_ok s d' \<and> queued s d' = (queued s d @ [?bd]) @ frag_bds skb fs \<and>
     tot' = tot + l + sum_list (map fst fs) \<and> num_tadma_buffers d' = num_tadma_buffers d \<and>
     tx_bd_tail d' = tx_bd_tail d \<and> tx_bd_rd d' = tx_bd_rd d"
    using Cons.IH [OF _ _ Cons.prems(3) [unfolded f xmit_frags.simps Let_def]] Cons.prems(1,2) q
    by (simp add: ring_ok_push)
  then show ?case by (simp add: f add.assoc)
qed simp

text \<open>Without the room the indices still move on modulo the size of the ring.\<close>

lemma queued_length_mod:
  assumes "ring_ok s d"
  shows "length (queued s d) = (unat (tx_bd_head d s) + (nbuf d - unat (tx_bd_tail d s))) mod nbuf d" "length (queued s d) < nbuf d"
proof -
  have "unat (tx_bd_tail d s) < nbuf d" using ring_ok_nat [OF assms] by simp
  then show "length (queued s d) = (unat (tx_bd_head d s) + (nbuf d - unat (tx_bd_tail d s))) mod nbuf d" "length (queued s d) < nbuf d"
    by (simp_all add: length_queued queued_idx_def ring_idx_def)
qed

lemma push_moves:
  assumes "ring_ok s d"
  shows "length (queued s (push_bd s bd d)) = Suc (length (queued s d)) mod nbuf d"
proof -
  have h: "unat (tx_bd_head (push_bd s bd d) s) = (unat (tx_bd_head d s) + 1) mod nbuf d"
    "tx_bd_tail (push_bd s bd d) = tx_bd_tail d" "num_tadma_buffers (push_bd s bd d) = num_tadma_buffers d"
    using assms by (simp_all add: push_bd_def unat_ring_inc ring_ok_def)
  have "((unat (tx_bd_head d s) + 1) mod nbuf d + k) mod nbuf d = Suc ((unat (tx_bd_head d s) + k) mod nbuf d) mod nbuf d" for k
    by (simp add: mod_add_left_eq mod_Suc_eq)
  then show ?thesis
    using queued_length_mod(1) [OF assms] queued_length_mod(1) [OF ring_ok_push [OF assms], of bd] h by simp
qed

lemma xmit_frags_moves:
  assumes "ring_ok s d" and "xmit_frags dma64 skb s fs wp tot d = (wp', tot', d')"
  shows "ring_ok s d' \<and> length (queued s d') = (length (queued s d) + length fs) mod nbuf d \<and> num_tadma_buffers d' = num_tadma_buffers d"
  using assms
proof (induction fs arbitrary: d wp tot)
  case Nil
  then show ?case using queued_length_mod(2) [OF Nil.prems(1)] by simp
next
  case (Cons f fs)
  obtain l a where f: "f = (l, a)" by (cases f)
  let ?bd = "\<lparr>phys = ucast a, tx_skb = (if fs = [] then skb else 0),
      tx_desc_mapping = DESC_DMA_MAP_PAGE, num_frag = 0, len = l\<rparr>"
  have "ring_ok s d' \<and> length (queued s d') = (length (queued s (push_bd s ?bd d)) + length fs) mod nbuf d \<and>
     num_tadma_buffers d' = num_tadma_buffers d"
    using Cons.IH [OF _ Cons.prems(2) [unfolded f xmit_frags.simps Let_def]] Cons.prems(1)
    by (simp add: ring_ok_push)
  then show ?case using push_moves [OF Cons.prems(1)] by (simp add: mod_add_left_eq)
qed

lemma xmit_queue_moves:
  assumes "ring_ok s d"
  shows "ring_ok s (tadma_xmit_queue dma64 skb s pm wp a d)"
    and "length (queued s (tadma_xmit_queue dma64 skb s pm wp a d)) = (length (queued s d) + Suc (length (skb_frags skb))) mod nbuf d"
proof -
  let ?bd = "\<lparr>phys = ucast a, tx_skb = (if (of_nat (length (skb_frags skb)) :: u32) = 0 then skb_addr skb else 0),
      tx_desc_mapping = DESC_DMA_MAP_SINGLE, num_frag = of_nat (length (skb_frags skb)) + 1, len = skb_headlen skb\<rparr>"
  obtain wp' tot' d' where x: "xmit_frags dma64 (skb_addr skb) s (skb_frags skb) wp (skb_headlen skb)
      (push_bd s ?bd d) = (wp', tot', d')" by (metis prod_cases3)
  from xmit_frags_moves [OF ring_ok_push [OF assms] x] push_moves [OF assms, of ?bd]
  show "ring_ok s (tadma_xmit_queue dma64 skb s pm wp a d)"
    and "length (queued s (tadma_xmit_queue dma64 skb s pm wp a d)) = (length (queued s d) + Suc (length (skb_frags skb))) mod nbuf d"
    using x by (simp_all add: tadma_xmit_queue_def Let_def mod_add_left_eq push_bd_def)
qed

lemma xmit_queue_ring:
  assumes ok: "ring_ok s d" and fits: "length (queued s d) + Suc (length (skb_frags skb)) < nbuf d"
    and small: "length (skb_frags skb) < 2 ^ 32"
  shows "ring_ok s (tadma_xmit_queue dma64 skb s pm wp a d)"
    and "queued s (tadma_xmit_queue dma64 skb s pm wp a d) = queued s d @ packet_bds skb a"
    and "tx_bd_tail (tadma_xmit_queue dma64 skb s pm wp a d) = tx_bd_tail d"
    and "tx_bd_rd (tadma_xmit_queue dma64 skb s pm wp a d) = tx_bd_rd d"
proof -
  have single: "(of_nat (length (skb_frags skb)) :: u32) = 0 \<longleftrightarrow> skb_frags skb = []"
    using small by (auto simp: word_unat_eq_iff unat_of_nat take_bit_eq_mod)
  let ?bd = "hd (packet_bds skb a)"
  have q: "queued s (push_bd s ?bd d) = queued s d @ [?bd]" "ring_ok s (push_bd s ?bd d)"
    using ok fits by (auto intro: queued_push ring_ok_push)
  obtain wp' tot' d' where x: "xmit_frags dma64 (skb_addr skb) s (skb_frags skb) wp (skb_headlen skb)
      (push_bd s ?bd d) = (wp', tot', d')" by (metis prod_cases3)
  have "ring_ok s d' \<and> queued s d' = queued s (push_bd s ?bd d) @ frag_bds (skb_addr skb) (skb_frags skb) \<and>
     tx_bd_tail d' = tx_bd_tail d \<and> tx_bd_rd d' = tx_bd_rd d"
    using xmit_frags_ring [OF q(2) _ x] q fits by simp
  then show "ring_ok s (tadma_xmit_queue dma64 skb s pm wp a d)"
    and "queued s (tadma_xmit_queue dma64 skb s pm wp a d) = queued s d @ packet_bds skb a"
    and "tx_bd_tail (tadma_xmit_queue dma64 skb s pm wp a d) = tx_bd_tail d"
    and "tx_bd_rd (tadma_xmit_queue dma64 skb s pm wp a d) = tx_bd_rd d"
    using x q by (simp_all add: tadma_xmit_queue_def Let_def single packet_bds_def)
qed

section \<open>The address/length memory\<close>

text \<open>
  The driver keeps two counters for one ring: the index of its next descriptor and the write
  pointer of the hardware. They are in step when the write pointer is one ahead.
\<close>

definition in_step :: "u32 \<Rightarrow> u32 \<Rightarrow> tadma_local \<Rightarrow> bool" where
  "in_step s wp d \<longleftrightarrow> wp = (tx_bd_head d s + 1) mod num_tadma_buffers d"

definition pow2_ring :: "tadma_local \<Rightarrow> bool" where
  "pow2_ring d \<longleftrightarrow> (\<exists>b<32. num_tadma_buffers d = 2 ^ b)"

lemma and_pow2_mod: "n = 2 ^ b \<Longrightarrow> x AND (n - 1) = x mod n" for x n :: u32
  by (metis mask_eq_exp_minus_1 take_bit_eq_mask take_bit_eq_mod)

lemma pow2_ring_and: "pow2_ring d \<Longrightarrow> x AND (num_tadma_buffers d - 1) = x mod num_tadma_buffers d"
  by (auto simp: pow2_ring_def and_pow2_mod)

lemma pow2_ring_le: "pow2_ring d \<Longrightarrow> nbuf d \<le> 2147483648"
proof -
  assume "pow2_ring d"
  then obtain b where b: "b < 32" "num_tadma_buffers d = 2 ^ b" by (auto simp: pow2_ring_def)
  have "nbuf d = unat (of_nat (2 ^ b) :: u32)" using b by simp
  also have "\<dots> = 2 ^ b"
    unfolding unat_of_nat using b(1) power_strict_increasing [of b 32 "2::nat"] by simp
  finally have "nbuf d = 2 ^ b" .
  then show ?thesis using b(1) power_increasing [of b 31 "2::nat"] by simp
qed

text \<open>One slot back from the successor of \<open>x\<close> is \<open>x\<close>.\<close>

lemma slot_back:
  assumes "pow2_ring d" and "x < num_tadma_buffers d"
  shows "((x + 1) mod num_tadma_buffers d + num_tadma_buffers d - 1) AND (num_tadma_buffers d - 1) = x"
proof -
  let ?n = "num_tadma_buffers d"
  have x: "unat x < unat ?n" using assms(2) by (simp add: word_less_nat_alt)
  let ?w = "(x + 1) mod ?n"
  have w: "unat ?w = (unat x + 1) mod unat ?n" by (rule unat_ring_inc [OF assms(2)])
  have wl: "unat ?w < unat ?n" unfolding w using x by simp
  have "unat (?w + ?n) = unat ?w + unat ?n"
    using wl pow2_ring_le [OF assms(1)] by (simp add: unat_word_ariths)
  then have "unat (?w + ?n - 1) = unat ?w + unat ?n - 1"
    using x by (subst unat_sub) (auto simp: word_le_nat_alt)
  then have "unat ((?w + ?n - 1) AND (?n - 1)) = (unat ?w + unat ?n - 1) mod unat ?n"
    by (simp add: pow2_ring_and [OF assms(1)] unat_mod_distrib)
  also have "\<dots> = unat x"
    using w x by (cases "unat x + 1 = unat ?n") (auto simp: mod_if)
  finally show ?thesis by (simp add: word_unat_eq_iff)
qed

lemma alm_offset_back:
  assumes "pow2_ring d" and "x < num_tadma_buffers d"
  shows "tadma_stream_alm_offset s ((x + 1) mod num_tadma_buffers d) d = tadma_stream_alm_offset_irq s x d"
  using slot_back [OF assms]
  by (simp add: tadma_stream_alm_offset_def tadma_stream_alm_offset_irq_def Let_def)

text \<open>A packet as the list of its chunks, and the two words each gets in the ALM.\<close>

fun frag_alm :: "bool \<Rightarrow> (u32 \<times> u64) list \<Rightarrow> (u32 \<times> u32) list" where
  "frag_alm dma64 [] = []"
| "frag_alm dma64 ((l, a) # fs) = (ucast a, alm_frag_cfg dma64 a l (fs = [])) # frag_alm dma64 fs"

abbreviation alm_slot :: "u32 \<Rightarrow> tadma_local \<Rightarrow> nat \<Rightarrow> u32" where
  "alm_slot s d i \<equiv> tadma_stream_alm_offset_irq s (of_nat (i mod nbuf d)) d"

text \<open>The writes for the chunks \<open>cs\<close> at the ring indices from \<open>i\<close> on.\<close>

fun alm_writes :: "u32 \<Rightarrow> tadma_local \<Rightarrow> nat \<Rightarrow> (u32 \<times> u32) list \<Rightarrow> (u32 \<times> u32) list" where
  "alm_writes s d i [] = []"
| "alm_writes s d i ((a, c) # cs) =
     (alm_slot s d i, a) # (alm_slot s d i + 4, c) # alm_writes s d (Suc i) cs"

lemma alm_offset_frame [simp]:
  "tadma_stream_alm_offset_irq s i (push_bd s bd d) = tadma_stream_alm_offset_irq s i d"
  "tadma_stream_alm_offset_irq s i (tadma_iow d a v) = tadma_stream_alm_offset_irq s i d"
  by (simp_all add: tadma_stream_alm_offset_irq_def)

lemma alm_writes_frame:
  "num_tadma_buffers d' = num_tadma_buffers d \<Longrightarrow> alm_writes s d' i cs = alm_writes s d i cs"
  by (induction s d i cs rule: alm_writes.induct) (simp_all add: tadma_stream_alm_offset_irq_def)

lemma alm_writes_mod: "i mod nbuf d = j mod nbuf d \<Longrightarrow> alm_writes s d i cs = alm_writes s d j cs"
proof (induction cs arbitrary: i j)
  case (Cons c cs)
  have "Suc (i mod nbuf d) mod nbuf d = Suc (j mod nbuf d) mod nbuf d" by (simp only: Cons.prems)
  then have "Suc i mod nbuf d = Suc j mod nbuf d" by (simp only: mod_Suc_eq)
  then have "alm_writes s d (Suc i) cs = alm_writes s d (Suc j) cs" by (rule Cons.IH)
  with Cons.prems show ?case by (cases c) simp
qed simp

abbreviation regs_all :: "(u32 \<Rightarrow> u32) \<Rightarrow> (u32 \<times> u32) list \<Rightarrow> (u32 \<Rightarrow> u32)" where
  "regs_all r ws \<equiv> foldl (\<lambda>r (a, v). r(a := v)) r ws"

lemma alm_offset_push: "tadma_stream_alm_offset s wp (push_bd s bd d) = tadma_stream_alm_offset s wp d"
  by (simp add: tadma_stream_alm_offset_def)

lemma tadma_regs_iow: "tadma_regs (tadma_iow d a v) = (tadma_regs d)(a := v)"
  by (simp add: tadma_iow_def)

lemma xmit_frags_alm:
  assumes "pow2_ring d" "ring_ok s d"
    and "xmit_frags dma64 skb s fs (tx_bd_head d s) tot d = (wp', tot', d')"
  shows "tadma_regs d' = regs_all (tadma_regs d)
           (alm_writes s d (unat (tx_bd_head d s)) (frag_alm dma64 fs)) \<and>
     wp' = tx_bd_head d' s \<and> num_tadma_buffers d' = num_tadma_buffers d"
  using assms
proof (induction fs arbitrary: d tot)
  case (Cons f fs)
  obtain l a where f: "f = (l, a)" by (cases f)
  let ?bd = "\<lparr>phys = ucast a, tx_skb = (if fs = [] then skb else 0),
      tx_desc_mapping = DESC_DMA_MAP_PAGE, num_frag = 0, len = l\<rparr>"
  let ?h = "tx_bd_head d s" and ?n = "num_tadma_buffers d"
  let ?p = "push_bd s ?bd d"
  let ?o = "tadma_stream_alm_offset_irq s ?h d"
  let ?q = "tadma_iow (tadma_iow ?p ?o (ucast a)) (?o + 4) (alm_frag_cfg dma64 a l (fs = []))"
  have lt: "?h < ?n" using Cons.prems(2) by (simp add: ring_ok_def)
  have q: "pow2_ring ?q" "ring_ok s ?q" "tx_bd_head ?q s = (?h + 1) mod ?n"
      "num_tadma_buffers ?q = ?n"
    using Cons.prems(1) ring_ok_push [OF Cons.prems(2)] by (simp_all add: pow2_ring_def)
  have "xmit_frags dma64 skb s fs (tx_bd_head ?q s) (tot + l) ?q = (wp', tot', d')"
    using Cons.prems(3) q(3)
    by (simp add: f Let_def pow2_ring_and [OF Cons.prems(1)] alm_offset_push
        alm_offset_back [OF Cons.prems(1) lt])
  note IH = Cons.IH [OF q(1,2) this]
  have m: "alm_writes s ?q (unat (tx_bd_head ?q s)) cs = alm_writes s d (Suc (unat ?h)) cs" for cs
    unfolding alm_writes_frame [OF q(4)] q(3) unat_ring_inc [OF lt]
    by (rule alm_writes_mod) simp
  have sl: "alm_slot s d (unat ?h) = ?o"
    using lt by (simp add: word_less_nat_alt)
  have "regs_all (tadma_regs ?q) ws =
      regs_all (tadma_regs d) ((?o, ucast a) # (?o + 4, alm_frag_cfg dma64 a l (fs = [])) # ws)" for ws
    by (simp add: tadma_regs_iow)
  then have "tadma_regs d' = regs_all (tadma_regs d)
      (alm_writes s d (unat ?h) (frag_alm dma64 ((l, a) # fs)))"
    unfolding frag_alm.simps alm_writes.simps sl IH [THEN conjunct1] m .
  then show ?case using IH q(4) by (simp only: f simp_thms)
qed simp

interpretation map_reg: register_file "\<lambda>r a. r a" "\<lambda>r a v. r(a := v)"
  by unfold_locales simp_all

definition packet_alm :: "bool \<Rightarrow> sk_buff \<Rightarrow> u64 \<Rightarrow> (u32 \<times> u32) list" where
  "packet_alm dma64 skb a =
     (ucast a, alm_fframe_cfg dma64 a (skb_headlen skb) (skb_frags skb = [])
                 (skb_headlen skb + sum_list (map fst (skb_frags skb))))
     # frag_alm dma64 (skb_frags skb)"

lemma length_frag_alm [simp]: "length (frag_alm dma64 fs) = length fs"
  by (induction dma64 fs rule: frag_alm.induct) auto

lemma alm_writes_mem:
  "j < length cs \<Longrightarrow> (alm_slot s d (i + j), fst (cs ! j)) \<in> set (alm_writes s d i cs) \<and>
     (alm_slot s d (i + j) + 4, snd (cs ! j)) \<in> set (alm_writes s d i cs)"
proof (induction cs arbitrary: i j)
  case (Cons c cs)
  obtain a v where c: "c = (a, v)" by (cases c)
  show ?case
  proof (cases j)
    case (Suc k)
    with Cons.prems Cons.IH [of k "Suc i"] show ?thesis by (simp add: c)
  qed (simp add: c)
qed simp

lemma alm_writes_addr:
  "x \<in> fst ` set (alm_writes s d i cs) \<Longrightarrow>
     \<exists>j<length cs. x = alm_slot s d (i + j) \<or> x = alm_slot s d (i + j) + 4"
proof (induction cs arbitrary: i)
  case (Cons c cs)
  obtain a v where c: "c = (a, v)" by (cases c)
  from Cons.prems consider "x = alm_slot s d i \<or> x = alm_slot s d i + 4"
    | "x \<in> fst ` set (alm_writes s d (Suc i) cs)" by (auto simp: c)
  then show ?case
  proof cases
    case 1
    then show ?thesis by (intro exI [of _ 0]) simp
  next
    case 2
    then obtain j where "j < length cs"
      "x = alm_slot s d (Suc i + j) \<or> x = alm_slot s d (Suc i + j) + 4" using Cons.IH by blast
    then show ?thesis by (intro exI [of _ "Suc j"]) simp
  qed
qed simp

lemma unat_alm_slot:
  assumes "unat s < 128" and "nbuf d \<le> 256" and "0 < nbuf d"
  shows "unat (alm_slot s d i) = 0x40000 + 8 * (unat s * nbuf d + i mod nbuf d)"
    and "unat (alm_slot s d i + 4) = 0x40000 + 8 * (unat s * nbuf d + i mod nbuf d) + 4"
proof -
  have m: "i mod nbuf d < nbuf d" using assms(3) by simp
  have p: "unat s * nbuf d \<le> 127 * 256" using assms(1,2) by (intro mult_le_mono) auto
  have i: "unat (of_nat (i mod nbuf d) :: u32) = i mod nbuf d"
    using m assms(2) by (simp add: unat_of_nat)
  let ?A = "s * 8 * num_tadma_buffers d" and ?B = "of_nat (i mod nbuf d) * (8 :: u32)"
  have s8: "unat (s * 8) = unat s * 8" using assms(1) by (simp add: unat_mult_small)
  have A: "unat ?A = 8 * (unat s * nbuf d)"
    using p s8 by (subst unat_mult_small) simp_all
  have B: "unat ?B = 8 * (i mod nbuf d)"
    using m assms(2) i by (subst unat_mult_small) simp_all
  have A': "unat (0x40000 + ?A) = 0x40000 + 8 * (unat s * nbuf d)"
    using A p by (subst unat_add_small) simp_all
  have "unat (0x40000 + ?A + ?B) = 0x40000 + 8 * (unat s * nbuf d) + 8 * (i mod nbuf d)"
    using A' B p m assms(2) by (subst unat_add_small) linarith+
  then show *: "unat (alm_slot s d i) = 0x40000 + 8 * (unat s * nbuf d + i mod nbuf d)"
    unfolding tadma_stream_alm_offset_irq_def Let_def by (simp only: distrib_left add.assoc)
  show "unat (alm_slot s d i + 4) = 0x40000 + 8 * (unat s * nbuf d + i mod nbuf d) + 4"
    using * p m assms(2) by (subst unat_add_small) simp_all
qed

lemma alm_slot_neq:
  assumes "unat s < 128" and "nbuf d \<le> 256" and "0 < nbuf d" and "j < nbuf d" and "k < j"
  shows "alm_slot s d (i + j) \<noteq> alm_slot s d (i + k)"
    and "alm_slot s d (i + j) + 4 \<noteq> alm_slot s d (i + k)"
    and "alm_slot s d (i + j) \<noteq> alm_slot s d (i + k) + 4"
    and "alm_slot s d (i + j) + 4 \<noteq> alm_slot s d (i + k) + 4"
proof -
  have ne: "(i + j) mod nbuf d \<noteq> (i + k) mod nbuf d"
  proof
    assume "(i + j) mod nbuf d = (i + k) mod nbuf d"
    then have "nbuf d dvd (i + j) - (i + k)" using assms(5) by (intro mod_eq_dvd_iff_nat [THEN iffD1]) auto
    then have "nbuf d dvd j - k" by simp
    with assms(4,5) show False by (auto dest: dvd_imp_le)
  qed
  define a b where "a = unat s * nbuf d + (i + j) mod nbuf d"
    and "b = unat s * nbuf d + (i + k) mod nbuf d"
  then have "a \<noteq> b" using ne by simp
  then have "unat (alm_slot s d (i + j)) \<noteq> unat (alm_slot s d (i + k))"
    "unat (alm_slot s d (i + j) + 4) \<noteq> unat (alm_slot s d (i + k))"
    "unat (alm_slot s d (i + j)) \<noteq> unat (alm_slot s d (i + k) + 4)"
    "unat (alm_slot s d (i + j) + 4) \<noteq> unat (alm_slot s d (i + k) + 4)"
    unfolding unat_alm_slot [OF assms(1-3)] a_def [symmetric] b_def [symmetric] by arith+
  then show "alm_slot s d (i + j) \<noteq> alm_slot s d (i + k)"
    "alm_slot s d (i + j) + 4 \<noteq> alm_slot s d (i + k)"
    "alm_slot s d (i + j) \<noteq> alm_slot s d (i + k) + 4"
    "alm_slot s d (i + j) + 4 \<noteq> alm_slot s d (i + k) + 4" by auto
qed

lemma alm_writes_distinct:
  assumes "unat s < 128" and "nbuf d \<le> 256" and "0 < nbuf d" and "length cs \<le> nbuf d"
  shows "distinct (map fst (alm_writes s d i cs))"
  using assms(4)
proof (induction cs arbitrary: i)
  case (Cons c cs)
  obtain a v where c: "c = (a, v)" by (cases c)
  have "x \<notin> fst ` set (alm_writes s d (Suc i) cs)" if "x = alm_slot s d i \<or> x = alm_slot s d i + 4" for x
  proof
    assume "x \<in> fst ` set (alm_writes s d (Suc i) cs)"
    then obtain j where j: "j < length cs"
      "x = alm_slot s d (Suc i + j) \<or> x = alm_slot s d (Suc i + j) + 4"
      using alm_writes_addr by blast
    have "Suc j < nbuf d" using j(1) Cons.prems by simp
    from alm_slot_neq [OF assms(1-3) this, of 0 i] j(2) that show False by auto
  qed
  then show ?case using Cons by (auto simp: c)
qed simp

lemma pm_not_alm:
  assumes "unat s < 128" and "nbuf d \<le> 256" and "0 < nbuf d"
  shows "0x3000 + s * 4 \<noteq> alm_slot s d i" and "0x3000 + s * 4 \<noteq> alm_slot s d i + 4"
proof -
  have "unat (s * 4) = unat s * 4" using assms(1) by (simp add: unat_mult_small)
  then have "unat (0x3000 + s * 4) = 0x3000 + unat s * 4"
    using assms(1) by (simp add: unat_add_small)
  then have "unat (0x3000 + s * 4) < 0x40000" using assms(1) by simp
  then have "unat (0x3000 + s * 4) \<noteq> unat (alm_slot s d i)"
    "unat (0x3000 + s * 4) \<noteq> unat (alm_slot s d i + 4)"
    unfolding unat_alm_slot [OF assms] by linarith+
  then show "0x3000 + s * 4 \<noteq> alm_slot s d i" "0x3000 + s * 4 \<noteq> alm_slot s d i + 4" by metis+
qed

lemma pm_wr_field:
  assumes "unat w < 256"
  shows "get_field 8 16 ((pm AND NOT 0xFF0000) OR push_bit 16 w) = (w :: u32)"
proof -
  have c: "(0xFF0000 :: u32) = field_mask 8 16"
    by (simp add: field_mask_def mask_eq_exp_minus_1)
  have "w AND mask 8 = w" using assms by (intro and_mask_id) simp
  then have b: "bit w i \<Longrightarrow> i < 8" for i by (metis bit_and_iff bit_mask_iff)
  show ?thesis
    unfolding c by (intro bit_word_eqI) (auto simp: bit_simps dest: b)
qed

text \<open>
  The writes of \<open>tadma_xmit_queue\<close>, all of them: the chunks after the first, the first chunk,
  the write pointer.
\<close>

lemma xmit_queue_writes:
  fixes pm :: u32 and a :: u64 and dma64 :: bool
  assumes "pow2_ring d" and ok: "ring_ok s d" and st: "in_step s wp d"
    and fits: "length (queued s d) + Suc (length (skb_frags skb)) < nbuf d"
  defines "d' \<equiv> tadma_xmit_queue dma64 skb s pm wp a d"
    and "h \<equiv> unat (tx_bd_head d s)"
  shows "\<exists>w. tadma_regs d' = regs_all (tadma_regs d)
      (alm_writes s d (Suc h) (frag_alm dma64 (skb_frags skb)) @
       alm_writes s d h [hd (packet_alm dma64 skb a)] @
       [(0x3000 + s * 4, (pm AND NOT 0xFF0000) OR push_bit 16 w)]) \<and>
     in_step s w d' \<and> num_tadma_buffers d' = num_tadma_buffers d"
proof -
  have small: "length (skb_frags skb) < 4294967296"
    using fits unat_u32_less [of "num_tadma_buffers d"] by simp
  have single: "(of_nat (length (skb_frags skb)) :: u32) = 0 \<longleftrightarrow> skb_frags skb = []"
    using small by (auto simp: word_unat_eq_iff unat_of_nat)
  have lt: "tx_bd_head d s < num_tadma_buffers d" using ok by (simp add: ring_ok_def)
  let ?bd = "hd (packet_bds skb a)"
  let ?p = "push_bd s ?bd d"
  have p: "pow2_ring ?p" "ring_ok s ?p" "tx_bd_head ?p s = wp" "num_tadma_buffers ?p = num_tadma_buffers d"
    using assms(1) ring_ok_push [OF ok] st by (simp_all add: pow2_ring_def in_step_def)
  have q: "length (queued s ?p) + length (skb_frags skb) < nbuf ?p"
    using queued_push [OF ok] fits by simp
  obtain wp' tot' x where x: "xmit_frags dma64 (skb_addr skb) s (skb_frags skb) wp (skb_headlen skb)
      ?p = (wp', tot', x)" by (metis prod_cases3)
  have xr: "tadma_regs x = regs_all (tadma_regs d)
        (alm_writes s ?p (unat wp) (frag_alm dma64 (skb_frags skb)))" "wp' = tx_bd_head x s"
      "num_tadma_buffers x = num_tadma_buffers d"
    using xmit_frags_alm [OF p(1,2), unfolded p(3), OF x] by auto
  have t: "tot' = skb_headlen skb + sum_list (map fst (skb_frags skb))"
    using xmit_frags_ring [OF p(2) q x] by simp
  have wpn: "alm_writes s ?p (unat wp) cs = alm_writes s d (Suc h) cs" for cs
    unfolding alm_writes_frame [OF p(4)] using st unat_ring_inc [OF lt]
    by (intro alm_writes_mod) (simp add: in_step_def h_def)
  have off: "tadma_stream_alm_offset s wp d = alm_slot s d h"
    using alm_offset_back [OF assms(1) lt, of s] st lt
    by (simp add: in_step_def h_def word_less_nat_alt)
  let ?w = "(wp' + 1) AND (num_tadma_buffers x - 1)"
  have w: "?w = (tx_bd_head x s + 1) mod num_tadma_buffers d"
    using pow2_ring_and [OF assms(1)] xr(2,3) by simp
  have d': "d' = tadma_iow (tadma_iow (tadma_iow x (alm_slot s d h) (ucast a)) (alm_slot s d h + 4)
      (alm_fframe_cfg dma64 a (skb_headlen skb) (skb_frags skb = []) tot'))
      (0x3000 + s * 4) ((pm AND NOT 0xFF0000) OR push_bit 16 ?w)"
    using x by (simp add: d'_def tadma_xmit_queue_def Let_def single packet_bds_def off)
  have "tadma_regs d' = regs_all (tadma_regs d)
      (alm_writes s d (Suc h) (frag_alm dma64 (skb_frags skb)) @
       alm_writes s d h [hd (packet_alm dma64 skb a)] @
       [(0x3000 + s * 4, (pm AND NOT 0xFF0000) OR push_bit 16 ?w)])"
    unfolding d' by (simp add: tadma_regs_iow xr(1) wpn packet_alm_def t)
  moreover have "in_step s ?w d'" "num_tadma_buffers d' = num_tadma_buffers d"
    unfolding in_step_def w d' by (simp_all add: xr(3))
  ultimately show ?thesis by blast
qed

lemma xmit_queue_alm:
  assumes "pow2_ring d" and ok: "ring_ok s d" and st: "in_step s wp d"
    and fits: "length (queued s d) + Suc (length (skb_frags skb)) < nbuf d"
    and s: "unat s < 128" and n: "nbuf d \<le> 256"
    and j: "j < Suc (length (skb_frags skb))"
  shows "tadma_ior (tadma_xmit_queue dma64 skb s pm wp a d) (alm_slot s d (unat (tx_bd_head d s) + j)) =
           fst (packet_alm dma64 skb a ! j) \<and>
         tadma_ior (tadma_xmit_queue dma64 skb s pm wp a d) (alm_slot s d (unat (tx_bd_head d s) + j) + 4) =
           snd (packet_alm dma64 skb a ! j) \<and>
         in_step s (get_field 8 16 (tadma_ior (tadma_xmit_queue dma64 skb s pm wp a d) (0x3000 + s * 4)))
           (tadma_xmit_queue dma64 skb s pm wp a d)"
proof -
  let ?d' = "tadma_xmit_queue dma64 skb s pm wp a d" and ?h = "unat (tx_bd_head d s)"
  let ?P = "packet_alm dma64 skb a" and ?F = "frag_alm dma64 (skb_frags skb)"
  have n0: "0 < nbuf d" using fits by simp
  have lenP: "length ?P = Suc (length (skb_frags skb))" by (simp add: packet_alm_def)
  from xmit_queue_writes [OF assms(1) ok st fits, of dma64 pm a] obtain w where
    r: "tadma_regs ?d' = regs_all (tadma_regs d) (alm_writes s d (Suc ?h) ?F @
       alm_writes s d ?h [hd ?P] @ [(0x3000 + s * 4, (pm AND NOT 0xFF0000) OR push_bit 16 w)])"
    and w: "in_step s w ?d'" "num_tadma_buffers ?d' = num_tadma_buffers d" by blast
  let ?C = "(0x3000 + s * 4, (pm AND NOT 0xFF0000) OR push_bit 16 w)"
  let ?ws = "alm_writes s d (Suc ?h) ?F @ alm_writes s d ?h [hd ?P] @ [?C]"
  obtain c0 where P: "?P = c0 # ?F" by (simp add: packet_alm_def)
  have split: "alm_writes s d ?h ?P = alm_writes s d ?h [hd ?P] @ alm_writes s d (Suc ?h) ?F"
    unfolding P by (cases c0) simp
  have "distinct (map fst (alm_writes s d ?h ?P))"
    using lenP fits by (intro alm_writes_distinct [OF s n n0]) simp
  moreover have "fst ?C \<notin> fst ` set (alm_writes s d ?h ?P)"
    using alm_writes_addr [of "fst ?C" s d ?h ?P] pm_not_alm [OF s n n0] by auto
  ultimately have dist: "distinct (map fst ?ws)"
    unfolding split by (auto simp: image_Un)
  have mem: "x \<in> set (alm_writes s d ?h ?P) \<Longrightarrow> x \<in> set ?ws" for x
    unfolding split by auto
  have "j < length ?P" using j lenP by simp
  note am = alm_writes_mem [OF this, of s ?h d]
  have wm: "(alm_slot s d (?h + j), fst (?P ! j)) \<in> set ?ws"
      "(alm_slot s d (?h + j) + 4, snd (?P ! j)) \<in> set ?ws" "?C \<in> set ?ws"
    using mem [OF am [THEN conjunct1]] mem [OF am [THEN conjunct2]] by (simp_all only:) simp
  have rd: "tadma_ior ?d' b = v" if "(b, v) \<in> set ?ws" for b v
    using map_reg.ior_foldl_in [OF dist that, of "tadma_regs d"] r by (simp add: tadma_ior_def)
  have "unat w < 256"
  proof -
    have "w < num_tadma_buffers d"
      using w ok ring_inc_less [of "tx_bd_head d s" "num_tadma_buffers d"]
      by (simp add: in_step_def ring_ok_def)
    then show ?thesis using n by (simp add: word_less_nat_alt)
  qed
  then have "in_step s (get_field 8 16 (tadma_ior ?d' (0x3000 + s * 4))) ?d'"
    using w(1) rd [OF wm(3)] by (simp only: pm_wr_field)
  then show ?thesis using rd wm(1,2) by blast
qed

lemma alm_consts:
  "(0xFF00 :: u32) = field_mask 8 8" "(0xFFF0000 :: u32) = field_mask 12 16"
  "(0x10000000 :: u32) = BIT 28" "(0x40000000 :: u32) = BIT 30" "(0x80000000 :: u32) = BIT 31"
  by (simp_all add: field_mask_def BIT_def mask_eq_exp_minus_1)

lemma small_msb_bits: "unat m < 256 \<Longrightarrow> bit m i \<Longrightarrow> i < 8" for m :: u32
proof -
  assume a: "unat m < 256" "bit m i"
  then have "m AND mask 8 = m" by (intro and_mask_id) simp
  with a(2) show "i < 8" by (metis bit_and_iff bit_mask_iff)
qed

text \<open>The flags and the size of an ALM entry, for DMA addresses below \<open>2 ^ 40\<close>.\<close>

lemma alm_frag_cfg_fields:
  assumes "unat (dma_msb dma64 a) < 256"
  shows "bit (alm_frag_cfg dma64 a l lst) 28" "\<not> bit (alm_frag_cfg dma64 a l lst) 30"
    "bit (alm_frag_cfg dma64 a l lst) 31 \<longleftrightarrow> lst"
    "get_field 12 16 (alm_frag_cfg dma64 a l lst) = l AND field_mask 12 0"
    "get_field 8 0 (alm_frag_cfg dma64 a l lst) = dma_msb dma64 a"
  unfolding alm_frag_cfg_def Let_def alm_consts
  subgoal by (simp add: bit_simps)
  subgoal using small_msb_bits [OF assms, of 30] by (auto simp: bit_simps)
  subgoal using small_msb_bits [OF assms, of 31] by (auto simp: bit_simps)
  subgoal by (rule bit_word_eqI) (auto simp: bit_simps dest: small_msb_bits [OF assms])
  subgoal by (rule bit_word_eqI) (auto simp: bit_simps dest: small_msb_bits [OF assms])
  done

lemma alm_fframe_cfg_fields:
  assumes "unat (dma_msb dma64 a) < 256"
  shows "bit (alm_fframe_cfg dma64 a l single tot) 28" "bit (alm_fframe_cfg dma64 a l single tot) 30"
    "bit (alm_fframe_cfg dma64 a l single tot) 31 \<longleftrightarrow> single"
    "get_field 12 16 (alm_fframe_cfg dma64 a l single tot) = l AND field_mask 12 0"
    "get_field 8 8 (alm_fframe_cfg dma64 a l single tot) = (tot div 8 + 1) AND field_mask 8 0"
    "get_field 8 0 (alm_fframe_cfg dma64 a l single tot) = dma_msb dma64 a"
  unfolding alm_fframe_cfg_def Let_def alm_consts
  subgoal by (simp add: bit_simps)
  subgoal by (simp add: bit_simps)
  subgoal using small_msb_bits [OF assms, of 31] by (auto simp: bit_simps)
  subgoal by (rule bit_word_eqI) (auto simp: bit_simps dest: small_msb_bits [OF assms])
  subgoal by (rule bit_word_eqI) (auto simp: bit_simps dest: small_msb_bits [OF assms])
  subgoal by (rule bit_word_eqI) (auto simp: bit_simps dest: small_msb_bits [OF assms])
  done

end
