(* ===== verification/Tadma_Transmit.thy ===== *)
theory Tadma_Transmit
  imports Tadma_Ring Tadma_Table
begin

text \<open>
  What the transmit path and the frame-fetched interrupt of the TADMA driver guarantee, stated
  over the descriptor ring and the address/length memory: a packet is appended in order with
  its start and end marks, a refused packet leaves nothing behind, and the interrupt reclaims
  exactly the released prefix. The last section shows that the ring-full test is not enough.
\<close>

section \<open>Properties of the transmit path\<close>

text \<open>The write pointer in the hardware's pointer memory is in step with the ring.\<close>

definition pm_in_step :: "u32 \<Rightarrow> tadma_local \<Rightarrow> bool" where
  "pm_in_step s d \<longleftrightarrow> in_step s (get_field 8 16 (tadma_ior d (XTADMA_PM_OFFSET + s * 4))) d"

lemma write_p_field: "drop_bit 16 (pm AND 0xFF0000) = get_field 8 16 pm" for pm :: u32
proof -
  have c: "(0xFF0000 :: u32) = field_mask 8 16"
    by (simp add: field_mask_def mask_eq_exp_minus_1)
  show ?thesis unfolding c by (rule bit_word_eqI) (auto simp: bit_simps)
qed

text \<open>What a packet that is accepted for stream \<open>s\<close> leads to.\<close>

lemma xmit_ok_queue:
  assumes "tadma_get_strid h skb d = Inr s" and "\<not> sint s < 0"
    and "axienet_tadma_xmit h dma64 skb q d = Inr (NETDEV_TX_OK, d')"
  shows "\<exists>a. skb_dma skb = Some a \<and> unat s < 128 \<and>
     d' = tadma_xmit_queue dma64 skb s (tadma_ior d (0x3000 + s * 4))
            (get_field 8 16 (tadma_ior d (0x3000 + s * 4))) a d"
  using assms(1,2) assms(3) [unfolded axienet_tadma_xmit_def Let_def write_p_field]
  by (auto simp: not_le not_less split: if_splits option.splits)

lemma xmit_busy_frame:
  assumes "axienet_tadma_xmit h dma64 skb q d = Inr (NETDEV_TX_BUSY, d')"
  shows "d' = d\<lparr>chk_ptr := chk_ptr d', subqueue_stopped := subqueue_stopped d'\<rparr>"
  using assms
  by (auto simp: axienet_tadma_xmit_def Let_def split: if_splits option.splits sum.splits)

lemma frag_alm_nth:
  "j < length fs \<Longrightarrow> frag_alm dma64 fs ! j =
     (ucast (snd (fs ! j)), alm_frag_cfg dma64 (snd (fs ! j)) (fst (fs ! j)) (Suc j = length fs))"
  by (induction dma64 fs arbitrary: j rule: frag_alm.induct) (auto simp: nth_Cons split: nat.splits)

definition chunks :: "sk_buff \<Rightarrow> u64 \<Rightarrow> (u32 \<times> u64) list" where
  "chunks skb a = (skb_headlen skb, a) # skb_frags skb"

lemma packet_alm_flags:
  assumes "j < length (chunks skb a)" and "\<forall>c\<in>set (chunks skb a). unat (dma_msb dma64 (snd c)) < 256"
  defines "w \<equiv> packet_alm dma64 skb a ! j"
  shows "fst w = ucast (snd (chunks skb a ! j)) \<and> bit (snd w) 28 \<and> (bit (snd w) 30 \<longleftrightarrow> j = 0) \<and>
     (bit (snd w) 31 \<longleftrightarrow> j = length (skb_frags skb)) \<and>
     get_field 12 16 (snd w) = fst (chunks skb a ! j) AND field_mask 12 0"
proof (cases j)
  case 0
  have "unat (dma_msb dma64 a) < 256" using assms(2) by (simp add: chunks_def)
  then show ?thesis
    using 0 by (auto simp: w_def packet_alm_def chunks_def alm_fframe_cfg_fields)
next
  case (Suc k)
  then have k: "k < length (skb_frags skb)" using assms(1) by (simp add: chunks_def)
  then have "unat (dma_msb dma64 (snd (skb_frags skb ! k))) < 256"
    using assms(2) by (simp add: chunks_def)
  then show ?thesis
    using Suc k by (auto simp: w_def packet_alm_def chunks_def frag_alm_nth alm_frag_cfg_fields)
qed

text \<open>
  A device before any stream is added, so that every packet goes to stream 0: eight buffers,
  hardware pointers at read 0 and write 1.
\<close>

definition ring_dev :: tadma_local where
  "ring_dev = demo_dev\<lparr>tadma_regs := (\<lambda>_. 0)(0x3000 := 0x10000)\<rparr>"

definition sent_dev :: tadma_local where
  "sent_dev = tadma_xmit_queue True (demo_skb 1000) 0 0x10000 1 0x1000 ring_dev"

lemmas ring_dev_defs = ring_dev_def demo_dev_def demo_skb_def

lemma ring_dev_strid: "tadma_get_strid demo_hash skb ring_dev = Inr 0"
  by (simp add: tadma_get_strid_def ring_dev_defs)

lemma ring_dev_xmit:
  "axienet_tadma_xmit demo_hash True (demo_skb 1000) 0 ring_dev = Inr (NETDEV_TX_OK, sent_dev)"
  by (simp add: axienet_tadma_xmit_def ring_dev_strid sent_dev_def)
    (simp add: ring_dev_defs Let_def tadma_ior_def axienet_check_pm_space_def word_le_nat_alt)

lemma ring_dev_ok: "in_sync 0 ring_dev" "ring_ok 0 ring_dev" "queued 0 ring_dev = []" "nbuf ring_dev = 8"
  by (simp_all add: in_sync_def ring_ok_def queued_def queued_idx_def ring_idx_def ring_dev_defs)

lemma ring_dev_step: "pow2_ring ring_dev" "pm_in_step 0 ring_dev"
  by (auto simp: pow2_ring_def pm_in_step_def in_step_def ring_dev_defs tadma_ior_def get_field_def
      mask_eq_exp_minus_1
      intro!: exI [of _ 3])

text \<open>
  C5 (xmit_appends_packet): a packet accepted for a stream moves its ring on by the number of its
  descriptors, modulo the size of the ring. The code does not check that there is room for them:
  as long as what is queued with them stays below the size of the ring, exactly its descriptors are
  appended, head first, to what the stream has queued, with the packet on the last one only, so it
  is freed once; otherwise queued descriptors are lost (ring_overrun_possible).
\<close>

theorem xmit_appends_packet:
  assumes "tadma_get_strid h skb d = Inr s" and "\<not> sint s < 0"
    and "axienet_tadma_xmit h dma64 skb q d = Inr (NETDEV_TX_OK, d')" and "ring_ok s d"
  shows "\<exists>a. skb_dma skb = Some a \<and> ring_ok s d' \<and>
     length (queued s d') = (length (queued s d) + Suc (length (skb_frags skb))) mod nbuf d \<and>
     (length (queued s d) + Suc (length (skb_frags skb)) < nbuf d \<longrightarrow>
        queued s d' = queued s d @ packet_bds skb a \<and> (in_sync s d \<longrightarrow> in_sync s d'))"
proof -
  from xmit_ok_queue [OF assms(1-3)] obtain a where a: "skb_dma skb = Some a"
    "d' = tadma_xmit_queue dma64 skb s (tadma_ior d (0x3000 + s * 4))
            (get_field 8 16 (tadma_ior d (0x3000 + s * 4))) a d" by blast
  have "queued s d' = queued s d @ packet_bds skb a \<and> (in_sync s d \<longrightarrow> in_sync s d')"
    if room: "length (queued s d) + Suc (length (skb_frags skb)) < nbuf d"
  proof -
    have "length (skb_frags skb) < 2 ^ 32"
      using room unat_u32_less [of "num_tadma_buffers d"] by simp
    from xmit_queue_ring [OF assms(4) room this] show ?thesis using a by (simp add: in_sync_def)
  qed
  then show ?thesis using a xmit_queue_moves [OF assms(4)] by blast
qed

theorem xmit_appends_packet_witness:
  "queued 0 sent_dev = packet_bds (demo_skb 1000) 0x1000 \<and> length (queued 0 sent_dev) = 2"
  using xmit_appends_packet [OF ring_dev_strid _ ring_dev_xmit ring_dev_ok(2)]
  by (simp add: ring_dev_ok) (simp add: demo_skb_def packet_bds_def)

text \<open>
  C6 (xmit_writes_alm): the same transmission writes one entry of the address/length memory per
  chunk, at the ring index of the chunk's descriptor: address, length, start of packet on the
  first, end of packet on the last, and the bit that the hardware clears when it has fetched the
  frame on all of them; the write pointer stays in step with the ring.
\<close>

theorem xmit_writes_alm:
  assumes "tadma_get_strid h skb d = Inr s" and "\<not> sint s < 0"
    and "axienet_tadma_xmit h dma64 skb q d = Inr (NETDEV_TX_OK, d')" and "skb_dma skb = Some a"
    and "ring_ok s d" and "length (queued s d) + Suc (length (skb_frags skb)) < nbuf d"
    and "pow2_ring d" and "nbuf d \<le> 256" and "pm_in_step s d"
    and "\<forall>c\<in>set (chunks skb a). unat (dma_msb dma64 (snd c)) < 256"
  shows "pm_in_step s d' \<and>
     (\<forall>j<length (chunks skb a).
        let i = tadma_stream_alm_offset_irq s (of_nat ((unat (tx_bd_head d s) + j) mod nbuf d)) d;
            cfg = tadma_ior d' (i + 4)
        in tadma_ior d' i = ucast (snd (chunks skb a ! j)) \<and> bit cfg 28 \<and> (bit cfg 30 \<longleftrightarrow> j = 0) \<and>
           (bit cfg 31 \<longleftrightarrow> j = length (skb_frags skb)) \<and>
           get_field 12 16 cfg = fst (chunks skb a ! j) AND field_mask 12 0)"
proof -
  from xmit_ok_queue [OF assms(1-3)] assms(4) have s: "unat s < 128"
    and d': "d' = tadma_xmit_queue dma64 skb s (tadma_ior d (0x3000 + s * 4))
            (get_field 8 16 (tadma_ior d (0x3000 + s * 4))) a d" by auto
  have c: "length (chunks skb a) = Suc (length (skb_frags skb))" by (simp add: chunks_def)
  note x = xmit_queue_alm [OF assms(7,5) _ assms(6) s assms(8), of
      "get_field 8 16 (tadma_ior d (0x3000 + s * 4))" _ dma64 "tadma_ior d (0x3000 + s * 4)" a,
      folded d' pm_in_step_def, OF assms(9)]
  show ?thesis
    using x [of 0] x packet_alm_flags [OF _ assms(10)] unfolding c Let_def by auto
qed

theorem xmit_writes_alm_witness:
  "pm_in_step 0 sent_dev \<and> tadma_ior sent_dev 0x40008 = 0x2000 \<and> bit (tadma_ior sent_dev 0x4000C) 31"
proof -
  have "\<forall>c\<in>set (chunks (demo_skb 1000) 0x1000). unat (dma_msb True (snd c)) < 256"
    by (simp add: chunks_def demo_skb_def dma_msb_def)
  then have "pm_in_step 0 sent_dev \<and> (\<forall>j<length (chunks (demo_skb 1000) 0x1000).
        let i = tadma_stream_alm_offset_irq 0 (of_nat ((unat (tx_bd_head ring_dev 0) + j) mod nbuf ring_dev)) ring_dev;
            cfg = tadma_ior sent_dev (i + 4)
        in tadma_ior sent_dev i = ucast (snd (chunks (demo_skb 1000) 0x1000 ! j)) \<and> bit cfg 28 \<and>
           (bit cfg 30 \<longleftrightarrow> j = 0) \<and> (bit cfg 31 \<longleftrightarrow> j = length (skb_frags (demo_skb 1000))) \<and>
           get_field 12 16 cfg = fst (chunks (demo_skb 1000) 0x1000 ! j) AND field_mask 12 0)"
    by (intro xmit_writes_alm [OF ring_dev_strid _ ring_dev_xmit _ ring_dev_ok(2)])
      (simp_all add: ring_dev_ok ring_dev_step, simp_all add: demo_skb_def)
  then show ?thesis
    by (simp add: chunks_def All_less_Suc Let_def tadma_stream_alm_offset_irq_def)
      (simp add: ring_dev_defs)
qed

text \<open>
  A transmission that asks the kernel to try again has queued
  nothing, freed nothing and written no register.
\<close>

theorem xmit_busy_is_harmless:
  assumes "axienet_tadma_xmit h dma64 skb q d = Inr (NETDEV_TX_BUSY, d')"
  shows "tadma_regs d' = tadma_regs d \<and> queued s d' = queued s d \<and> kernel_log d' = kernel_log d"
proof -
  obtain c f where "d' = d\<lparr>chk_ptr := c, subqueue_stopped := f\<rparr>"
    using xmit_busy_frame [OF assms] by blast
  then show ?thesis by (simp add: queued_def queued_idx_def)
qed

theorem xmit_busy_is_harmless_witness:
  "queued 0 (ring_dev\<lparr>chk_ptr := True\<rparr>) = queued 0 ring_dev \<and>
   axienet_tadma_xmit demo_hash True (demo_skb 1000\<lparr>skb_frags := replicate 7 (32, 0x2000)\<rparr>) 0 ring_dev =
     Inr (NETDEV_TX_BUSY, ring_dev\<lparr>chk_ptr := True\<rparr>)"
proof -
  have "axienet_tadma_xmit demo_hash True (demo_skb 1000\<lparr>skb_frags := replicate 7 (32, 0x2000)\<rparr>) 0 ring_dev =
     Inr (NETDEV_TX_BUSY, ring_dev\<lparr>chk_ptr := True\<rparr>)"
    by (simp add: axienet_tadma_xmit_def ring_dev_strid)
      (simp add: ring_dev_defs Let_def tadma_ior_def axienet_check_pm_space_def)
  then show ?thesis using xmit_busy_is_harmless by blast
qed

lemma irq_clear_frame:
  assumes "unat s < 128" and "nbuf d \<le> 256" and "in_sync s d"
  shows "in_sync s (tadma_iow d 0x18 v)" and "reclaimable s (tadma_iow d 0x18 v) = reclaimable s d"
proof -
  show "in_sync s (tadma_iow d 0x18 v)" using assms(3) by (simp add: in_sync_def)
  have ok: "ring_ok s d" using assms(3) by (simp add: in_sync_def)
  then have n0: "0 < nbuf d" using ring_ok_nat [OF ok] by simp
  have "alm_released s (tadma_iow d 0x18 v) i = alm_released s d i" if "i \<in> set (queued_idx s d)" for i
  proof -
    have i: "i mod nbuf d = i" using queued_idx_less [OF ok that] by simp
    have "unat (0x18 :: u32) \<noteq> unat (alm_slot s d i + 4)"
      unfolding unat_alm_slot [OF assms(1,2) n0] by simp
    then have "0x18 \<noteq> tadma_stream_alm_offset_irq s (of_nat i) d + 4" unfolding i by metis
    then show ?thesis by (simp add: alm_released_def tadma_reg.ior_iow)
  qed
  then show "reclaimable s (tadma_iow d 0x18 v) = reclaimable s d"
    unfolding reclaimable_def iow_ring_frame by (simp cong: takeWhile_cong)
qed

text \<open>
  Two descriptors queued on stream 0 of a device with a pending frame-fetched interrupt; the
  hardware has released the first one, the second one's word is \<open>w\<close>.
\<close>

definition irq_dev :: "u32 \<Rightarrow> tadma_local" where
  "irq_dev w = demo_dev\<lparr>tadma_regs := (\<lambda>_. 0)(0x14 := 1, 0x4000C := w),
     tx_bd_head := (\<lambda>_. 0)(0 := 2)\<rparr>"

lemmas irq_dev_defs = irq_dev_def demo_dev_def queued_idx_def ring_idx_def tadma_ior_def
  tadma_stream_alm_offset_irq_def upt_rec

text \<open>
  C7 (irq_reclaims_released): a frame-fetched interrupt takes from the front of every stream's
  queue the longest run of descriptors whose entries the hardware has released, and nothing
  else; tail and read index meet again on every stream.
\<close>

theorem irq_reclaims_released:
  assumes "tadma_ior d XTADMA_INT_STA_OFFSET AND XTADMA_FFI_INT_EN \<noteq> 0"
    and "unat (num_streams d) \<le> 128" and "nbuf d \<le> 256"
    and "\<forall>s<num_streams d. in_sync s d"
  shows "\<exists>d'. tadma_irq d = Inr d' \<and>
     (\<forall>s<num_streams d. in_sync s d' \<and> queued s d' = drop (reclaimable s d) (queued s d))"
proof -
  let ?d = "tadma_iow d 0x18 (tadma_ior d 0x14)"
  let ?ss = "map of_nat [0..<unat (num_streams d)] :: u32 list"
  let ?x = "foldl irq_stream ?d ?ss"
  have ss: "set ?ss = {s. s < num_streams d}" (is "?L = ?R")
  proof
    show "?L \<subseteq> ?R"
      using assms(2) by (auto simp: word_less_nat_alt unat_of_nat)
    show "?R \<subseteq> ?L"
    proof
      fix s assume "s \<in> ?R"
      then have "unat s \<in> set [0..<unat (num_streams d)]" by (simp add: word_less_nat_alt)
      moreover have "s = of_nat (unat s)" by simp
      ultimately show "s \<in> ?L" unfolding set_map by blast
    qed
  qed
  have lt: "unat s < 128" if "s < num_streams d" for s
    using that assms(2) by (simp add: word_less_nat_alt)
  have fr: "in_sync s ?d" "reclaimable s ?d = reclaimable s d" if "s < num_streams d" for s
    using irq_clear_frame [OF lt [OF that] assms(3)] assms(4) that by auto
  have "inj_on (of_nat :: nat \<Rightarrow> u32) {0..<unat (num_streams d)}"
    using assms(2) by (auto intro!: inj_onI simp: word_unat_eq_iff unat_of_nat)
  then have dist: "distinct ?ss" by (simp add: distinct_map)
  have "\<forall>s\<in>{s. s < num_streams d}. in_sync s ?x \<and> queued s ?x =
      (if s \<in> set ?ss then drop (reclaimable s ?d) (queued s ?d) else queued s ?d)"
    using fr(1) lt assms(3) ss by (intro irq_streams [OF dist]) (auto, fastforce)
  then have "\<forall>s<num_streams d. in_sync s ?x \<and> queued s ?x = drop (reclaimable s d) (queued s d)"
    using fr(2) ss by simp
  moreover have "tadma_irq d = Inr (?x\<lparr>subqueue_stopped := (\<lambda>_. False)\<rparr>)"
    using assms(1,2) by (simp add: tadma_irq_def Let_def tadma_iow_def)
  moreover have "in_sync s (y\<lparr>subqueue_stopped := f\<rparr>) = in_sync s y"
    "queued s (y\<lparr>subqueue_stopped := f\<rparr>) = queued s y" for s y f
    by (simp_all add: in_sync_def ring_ok_def queued_def queued_idx_def)
  ultimately show ?thesis by auto
qed

theorem irq_reclaims_released_witness:
  "\<exists>d'. tadma_irq (irq_dev 0x10000000) = Inr d' \<and> queued 0 d' = drop 1 (queued 0 (irq_dev 0x10000000)) \<and>
     length (queued 0 (irq_dev 0x10000000)) = 2"
proof -
  let ?d = "irq_dev 0x10000000"
  have r: "reclaimable 0 ?d = 1"
    by (simp add: reclaimable_def irq_dev_defs alm_released_def)
  have "\<exists>d'. tadma_irq ?d = Inr d' \<and>
     (\<forall>s<num_streams ?d. in_sync s d' \<and> queued s d' = drop (reclaimable s ?d) (queued s ?d))"
    by (rule irq_reclaims_released) (simp_all add: irq_dev_defs in_sync_def ring_ok_def)
  moreover have "0 < num_streams ?d" "length (queued 0 ?d) = 2"
    by (simp_all add: irq_dev_defs queued_def)
  ultimately show ?thesis using r by metis
qed

section \<open>The ring-full test\<close>

text \<open>
  the test for a full ring only asks whether the head would land on
  the tail. With six of eight buffers queued a packet of three chunks passes it and the hardware
  pointer test, and the head overtakes the tail: the ring afterwards holds one descriptor, and
  the six that were queued are lost.
\<close>

theorem ring_overrun_possible:
  "\<exists>h dma64 skb q d d'. in_sync 0 d \<and> pow2_ring d \<and> pm_in_step 0 d \<and> length (queued 0 d) = 6 \<and>
     tadma_get_strid h skb d = Inr 0 \<and>
     axienet_tadma_xmit h dma64 skb q d = Inr (NETDEV_TX_OK, d') \<and> length (queued 0 d') = 1"
proof (intro exI conjI)
  let ?d = "demo_dev\<lparr>tx_bd_head := (\<lambda>_. 0)(0 := 6), tadma_regs := (\<lambda>_. 0)(0x3000 := 0x70004)\<rparr>"
  let ?skb = "demo_skb 1000\<lparr>skb_frags := [(32, 0x2000), (32, 0x3000)]\<rparr>"
  let ?d' = "tadma_xmit_queue True ?skb 0 0x70004 7 0x1000 ?d"
  show "in_sync 0 ?d" by (simp add: in_sync_def ring_ok_def demo_dev_def)
  show "pow2_ring ?d" by (auto simp: pow2_ring_def demo_dev_def intro!: exI [of _ 3])
  show "pm_in_step 0 ?d"
    by (simp add: pm_in_step_def in_step_def demo_dev_def tadma_ior_def get_field_def
        mask_eq_exp_minus_1)
  show "length (queued 0 ?d) = 6" by (simp add: queued_def queued_idx_def ring_idx_def demo_dev_def)
  show "tadma_get_strid demo_hash ?skb ?d = Inr 0" by (simp add: tadma_get_strid_def demo_dev_def)
  then show "axienet_tadma_xmit demo_hash True ?skb 0 ?d = Inr (NETDEV_TX_OK, ?d')"
    by (simp add: axienet_tadma_xmit_def)
      (simp add: demo_dev_def demo_skb_def Let_def tadma_ior_def axienet_check_pm_space_def word_le_nat_alt)
  show "length (queued 0 ?d') = 1"
    by (simp add: queued_def queued_idx_def ring_idx_def tadma_xmit_queue_def demo_skb_def push_bd_def
        Let_def demo_dev_def tadma_iow_def tadma_stream_alm_offset_def)
qed

end
