(* ===== verification/Axienet.thy ===== *)
theory Axienet
  imports Prelude
begin

text \<open>
  The device state that the shaper, preemption, policing (QCI), redundancy (CB) and switch
  parts of the driver share, \<open>struct axienet_local\<close> of \<^verbatim>\<open>driver/xilinx/xilinx_axienet.h\<close> as
  far as they use it: two windows of memory-mapped registers and the number of traffic
  classes. A register that the driver polls is read through a sequence of answers, since the
  hardware may change it between two reads.
\<close>

record axienet_local =
  num_tc :: u16
  regs :: "u32 \<Rightarrow> u32"
  qbv_regs :: "u32 \<Rightarrow> u32"

definition axienet_ior :: "axienet_local \<Rightarrow> u32 \<Rightarrow> u32" where
  "axienet_ior lp off = regs lp off"

definition axienet_iow :: "axienet_local \<Rightarrow> u32 \<Rightarrow> u32 \<Rightarrow> axienet_local" where
  "axienet_iow lp off v = lp\<lparr>regs := (regs lp)(off := v)\<rparr>"

definition axienet_qbv_ior :: "axienet_local \<Rightarrow> u32 \<Rightarrow> u32" where
  "axienet_qbv_ior lp off = qbv_regs lp off"

definition axienet_qbv_iow :: "axienet_local \<Rightarrow> u32 \<Rightarrow> u32 \<Rightarrow> axienet_local" where
  "axienet_qbv_iow lp off v = lp\<lparr>qbv_regs := (qbv_regs lp)(off := v)\<rparr>"

interpretation mac_reg: register_file axienet_ior axienet_iow
  by unfold_locales (simp_all add: axienet_ior_def axienet_iow_def)

interpretation qbv_reg: register_file axienet_qbv_ior axienet_qbv_iow
  by unfold_locales (simp_all add: axienet_qbv_ior_def axienet_qbv_iow_def)

lemma axienet_iow_frame [simp]:
  "num_tc (axienet_iow lp a v) = num_tc lp" "axienet_qbv_ior (axienet_iow lp a v) = axienet_qbv_ior lp"
  "num_tc (axienet_qbv_iow lp a v) = num_tc lp" "axienet_ior (axienet_qbv_iow lp a v) = axienet_ior lp"
  by (simp_all add: axienet_iow_def axienet_qbv_iow_def axienet_ior_def axienet_qbv_ior_def fun_eq_iff)

section \<open>Polling\<close>

text \<open>
  \<open>while (busy(v = read()) && timeout) timeout--\<close>: \<open>rd i\<close> is what the \<open>i\<close>-th read of the
  register returns. The result is the last value read and what is left of the timeout.
\<close>

fun poll_while :: "(u32 \<Rightarrow> bool) \<Rightarrow> (nat \<Rightarrow> u32) \<Rightarrow> nat \<Rightarrow> nat \<Rightarrow> u32 \<times> nat" where
  "poll_while busy rd i 0 = (rd i, 0)"
| "poll_while busy rd i (Suc timeout) =
     (if busy (rd i) then poll_while busy rd (Suc i) timeout else (rd i, Suc timeout))"

text \<open>The loop ends with time left exactly when the register is released in time.\<close>

lemma poll_while_released:
  "(\<exists>k<timeout. \<not> busy (rd (i + k))) \<longleftrightarrow> snd (poll_while busy rd i timeout) \<noteq> 0"
proof (induction timeout arbitrary: i)
  case (Suc t)
  have "(\<exists>k<Suc t. \<not> busy (rd (i + k))) \<longleftrightarrow>
      \<not> busy (rd i) \<or> (\<exists>k<t. \<not> busy (rd (Suc i + k)))"
    by (simp add: Ex_less_Suc2)
  then show ?case using Suc [of "Suc i"] by auto
qed simp

lemma poll_while_value:
  "snd (poll_while busy rd i timeout) \<noteq> 0 \<Longrightarrow> \<not> busy (fst (poll_while busy rd i timeout))"
  by (induction timeout arbitrary: i) auto

lemma poll_while_first: "\<not> busy (rd i) \<Longrightarrow> poll_while busy rd i timeout = (rd i, timeout)"
  by (cases timeout) simp_all

end
