(* ===== verification/Shaper.thy ===== *)
theory Shaper
  imports Axienet
begin

text \<open>
  The 802.1Qbv gate scheduler, \<^verbatim>\<open>driver/xilinx/xilinx_tsn_shaper.c\<close>: programming a gate
  control list into the administrative registers and reading the operational one back.
\<close>

section \<open>Definitions\<close>

abbreviation (input) CONFIG_CHANGE :: u32 where "CONFIG_CHANGE \<equiv> 0x0"
abbreviation (input) CC_ADMIN_GATE_STATE_SHIFT :: u32 where "CC_ADMIN_GATE_STATE_SHIFT \<equiv> 0x7"
abbreviation (input) CC_ADMIN_CTRL_LIST_LENGTH_MASK :: u32
  where "CC_ADMIN_CTRL_LIST_LENGTH_MASK \<equiv> 0x1FF"
abbreviation (input) CC_ADMIN_CONFIG_CHANGE_BIT :: u32 where "CC_ADMIN_CONFIG_CHANGE_BIT \<equiv> 0x40000000"
abbreviation (input) CC_ADMIN_GATE_ENABLE_BIT :: u32 where "CC_ADMIN_GATE_ENABLE_BIT \<equiv> 0x80000000"
abbreviation (input) GATE_STATE :: u32 where "GATE_STATE \<equiv> 0x8"
abbreviation (input) ADMIN_CYCLE_TIME_DENOMINATOR :: u32 where "ADMIN_CYCLE_TIME_DENOMINATOR \<equiv> 0x18"
abbreviation (input) ADMIN_BASE_TIME_NS :: u32 where "ADMIN_BASE_TIME_NS \<equiv> 0x20"
abbreviation (input) ADMIN_BASE_TIME_SEC :: u32 where "ADMIN_BASE_TIME_SEC \<equiv> 0x24"
abbreviation (input) ADMIN_BASE_TIME_SECS :: u32 where "ADMIN_BASE_TIME_SECS \<equiv> 0x28"
abbreviation (input) INT_STATUS :: u32 where "INT_STATUS \<equiv> 0x30"
abbreviation (input) INT_CLEAR :: u32 where "INT_CLEAR \<equiv> 0x38"
abbreviation (input) PORT_STATUS :: u32 where "PORT_STATUS \<equiv> 0x3c"
abbreviation (input) OPER_CYCLE_TIME_DENOMINATOR :: u32 where "OPER_CYCLE_TIME_DENOMINATOR \<equiv> 0x58"
abbreviation (input) CYCLE_TIME_DENOMINATOR_MASK :: u32 where "CYCLE_TIME_DENOMINATOR_MASK \<equiv> 0x3FFFFFFF"
abbreviation (input) OPER_BASE_TIME_NS :: u32 where "OPER_BASE_TIME_NS \<equiv> 0x60"
abbreviation (input) OPER_BASE_TIME_NS_MASK :: u32 where "OPER_BASE_TIME_NS_MASK \<equiv> 0x3FFFFFFF"
abbreviation (input) OPER_BASE_TIME_SEC :: u32 where "OPER_BASE_TIME_SEC \<equiv> 0x64"
abbreviation (input) OPER_BASE_TIME_SECS :: u32 where "OPER_BASE_TIME_SECS \<equiv> 0x68"
abbreviation (input) ACL_GATE_STATE_MASK :: u32 where "ACL_GATE_STATE_MASK \<equiv> 0x7"
abbreviation (input) CTRL_LIST_TIME_INTERVAL_MASK :: u32 where "CTRL_LIST_TIME_INTERVAL_MASK \<equiv> 0xFFFFF"
abbreviation (input) GS_BE_OPEN :: u32 where "GS_BE_OPEN \<equiv> 0x1"
abbreviation (input) GS_RE_OPEN :: u32 where "GS_RE_OPEN \<equiv> 0x2"
abbreviation (input) GS_ST_OPEN :: u32 where "GS_ST_OPEN \<equiv> 0x4"
abbreviation (input) QBV_MAX_ENTRIES :: nat where "QBV_MAX_ENTRIES \<equiv> 256"

definition ADMIN_CTRL_LIST :: "nat \<Rightarrow> u32" where
  "ADMIN_CTRL_LIST n = 0x1000 + of_nat n * 8"

definition ADMIN_CTRL_LIST_TIME :: "nat \<Rightarrow> u32" where
  "ADMIN_CTRL_LIST_TIME n = ADMIN_CTRL_LIST n + 4"

definition OPER_CTRL_LIST :: "nat \<Rightarrow> u32" where
  "OPER_CTRL_LIST n = 0x1000 + 0x800 + of_nat n * 8"

definition OPER_CTRL_LIST_TIME :: "nat \<Rightarrow> u32" where
  "OPER_CTRL_LIST_TIME n = OPER_CTRL_LIST n + 4"

text \<open>
  \<open>struct qbv_info\<close>. The two arrays have \<open>QBV_MAX_ENTRIES\<close> elements; an access beyond that
  is a fault of the operations below.
\<close>

record qbv_info =
  qbv_port :: u8
  force :: u8
  cycle_time :: u32
  ptp_time_sec :: u64
  ptp_time_ns :: u32
  list_length :: u32
  acl_gate_state :: "nat \<Rightarrow> u32"
  acl_gate_time :: "nat \<Rightarrow> u32"

definition axienet_map_gs_to_hw :: "axienet_local \<Rightarrow> u32 \<Rightarrow> u32" where
  "axienet_map_gs_to_hw lp gs =
     (let be_queue = 0; re_queue = 1; st_queue = (if num_tc lp = 2 then 1 else 2);
          acl_bit_map = (if gs AND GS_BE_OPEN \<noteq> 0 then 0 OR push_bit be_queue 1 else 0);
          acl_bit_map = (if gs AND GS_ST_OPEN \<noteq> 0 then acl_bit_map OR push_bit st_queue 1
                         else acl_bit_map);
          acl_bit_map = (if num_tc lp = 3 \<and> gs AND GS_RE_OPEN \<noteq> 0
                         then acl_bit_map OR push_bit re_queue 1 else acl_bit_map)
      in acl_bit_map)"

text \<open>The loop over the list from entry \<open>i\<close> on, \<open>n\<close> entries to go.\<close>

fun set_list :: "qbv_info \<Rightarrow> nat \<Rightarrow> nat \<Rightarrow> axienet_local \<Rightarrow> axienet_local checked" where
  "set_list qbv i 0 lp = Inr lp"
| "set_list qbv i (Suc n) lp =
     (if QBV_MAX_ENTRIES \<le> i then Inl OutOfBounds
      else
        let acl_bit_map = axienet_map_gs_to_hw lp (acl_gate_state qbv i);
            lp = axienet_qbv_iow lp (ADMIN_CTRL_LIST i) (push_bit 8 (acl_bit_map AND ACL_GATE_STATE_MASK));
            lp = axienet_qbv_iow lp (ADMIN_CTRL_LIST_TIME i)
                   (acl_gate_time qbv i AND CTRL_LIST_TIME_INTERVAL_MASK)
        in set_list qbv (Suc i) n lp)"

definition set_admin_times :: "qbv_info \<Rightarrow> axienet_local \<Rightarrow> axienet_local" where
  "set_admin_times qbv lp =
     (let lp = axienet_qbv_iow lp ADMIN_CYCLE_TIME_DENOMINATOR
                 (cycle_time qbv AND CYCLE_TIME_DENOMINATOR_MASK);
          lp = axienet_qbv_iow lp ADMIN_BASE_TIME_NS (ptp_time_ns qbv);
          lp = axienet_qbv_iow lp ADMIN_BASE_TIME_SEC (ucast (ptp_time_sec qbv AND 0xFFFFFFFF))
      in axienet_qbv_iow lp ADMIN_BASE_TIME_SECS (ucast (drop_bit 32 (ptp_time_sec qbv) AND 0xFFFF)))"

definition axienet_set_schedule_body ::
  "qbv_info \<Rightarrow> axienet_local \<Rightarrow> (int \<times> axienet_local) checked" where
  "axienet_set_schedule_body qbv lp =
     (if cycle_time qbv = 0
      then Inr (0, axienet_qbv_iow lp CONFIG_CHANGE
                     ((0 AND NOT CC_ADMIN_GATE_ENABLE_BIT) OR CC_ADMIN_GATE_STATE_SHIFT))
      else
        let busy = (axienet_qbv_ior lp PORT_STATUS AND 1 \<noteq> 0)
        in if busy \<and> force qbv = 0 then Inr (- EALREADY, lp)
           else
             let lp = (if busy
                       then axienet_qbv_iow lp CONFIG_CHANGE (0 AND NOT CC_ADMIN_GATE_ENABLE_BIT)
                       else lp);
                 lp = set_admin_times qbv lp;
                 cc = axienet_qbv_ior lp CONFIG_CHANGE;
                 cc = cc AND NOT (push_bit 8 CC_ADMIN_CTRL_LIST_LENGTH_MASK);
                 cc = cc OR push_bit 8 (list_length qbv AND CC_ADMIN_CTRL_LIST_LENGTH_MASK)
             in case set_list qbv 0 (unat (list_length qbv)) lp of
                  Inl f \<Rightarrow> Inl f
                | Inr lp \<Rightarrow>
                    let lp = axienet_qbv_iow lp INT_STATUS 0;
                        cc = cc OR CC_ADMIN_CONFIG_CHANGE_BIT;
                        cc = cc OR CC_ADMIN_GATE_ENABLE_BIT
                    in Inr (0, axienet_qbv_iow lp CONFIG_CHANGE cc))"

text \<open>\<open>config\<close> is \<open>None\<close> when the copy from user space fails.\<close>

definition axienet_set_schedule ::
  "bool \<Rightarrow> qbv_info option \<Rightarrow> axienet_local \<Rightarrow> (int \<times> axienet_local) checked" where
  "axienet_set_schedule kmalloc_ok config lp =
     (if \<not> kmalloc_ok then Inr (- ENOMEM, lp)
      else case config of
             None \<Rightarrow> Inr (- EFAULT, lp)
           | Some qbv \<Rightarrow> axienet_set_schedule_body qbv lp)"

fun get_list :: "axienet_local \<Rightarrow> nat \<Rightarrow> nat \<Rightarrow> qbv_info \<Rightarrow> qbv_info checked" where
  "get_list lp i 0 qbv = Inr qbv"
| "get_list lp i (Suc n) qbv =
     (if QBV_MAX_ENTRIES \<le> i then Inl OutOfBounds
      else
        let gs = drop_bit 8 (axienet_qbv_ior lp (OPER_CTRL_LIST i)) AND ACL_GATE_STATE_MASK;
            gs = (if num_tc lp = 2 \<and> gs = 2 then 4 else gs);
            t = axienet_qbv_ior lp (OPER_CTRL_LIST_TIME i) AND CTRL_LIST_TIME_INTERVAL_MASK
        in get_list lp (Suc i) n
             (qbv\<lparr>acl_gate_state := (acl_gate_state qbv)(i := gs),
                  acl_gate_time := (acl_gate_time qbv)(i := t)\<rparr>))"

definition axienet_get_schedule_body :: "axienet_local \<Rightarrow> qbv_info \<Rightarrow> qbv_info checked" where
  "axienet_get_schedule_body lp qbv =
     (if axienet_qbv_ior lp CONFIG_CHANGE AND CC_ADMIN_GATE_ENABLE_BIT = 0
      then Inr (qbv\<lparr>cycle_time := 0\<rparr>)
      else
        let n = drop_bit 8 (axienet_qbv_ior lp GATE_STATE) AND CC_ADMIN_CTRL_LIST_LENGTH_MASK;
            sec = ucast (axienet_qbv_ior lp OPER_BASE_TIME_SEC) :: u64;
            secs = axienet_qbv_ior lp OPER_BASE_TIME_SECS AND 0xFFFF
        in get_list lp 0 (unat n)
             (qbv\<lparr>list_length := n,
                  cycle_time := axienet_qbv_ior lp OPER_CYCLE_TIME_DENOMINATOR AND CYCLE_TIME_DENOMINATOR_MASK,
                  ptp_time_ns := axienet_qbv_ior lp OPER_BASE_TIME_NS AND OPER_BASE_TIME_NS_MASK,
                  ptp_time_sec := sec OR push_bit 32 (ucast secs)\<rparr>))"

text \<open>The result and what is copied back to the user, if anything.\<close>

definition axienet_get_schedule ::
  "bool \<Rightarrow> qbv_info option \<Rightarrow> bool \<Rightarrow> axienet_local \<Rightarrow> (int \<times> qbv_info option) checked" where
  "axienet_get_schedule kmalloc_ok user copy_to_ok lp =
     (if \<not> kmalloc_ok then Inr (- ENOMEM, None)
      else case user of
             None \<Rightarrow> Inr (- EFAULT, None)
           | Some qbv \<Rightarrow>
               (case axienet_get_schedule_body lp qbv of
                  Inl f \<Rightarrow> Inl f
                | Inr qbv \<Rightarrow> if copy_to_ok then Inr (0, Some qbv) else Inr (- EFAULT, None)))"

definition axienet_qbv_irq :: "axienet_local \<Rightarrow> axienet_local" where
  "axienet_qbv_irq lp = axienet_qbv_iow lp INT_CLEAR 0"

text \<open>\<open>request_irq\<close> is called for a positive interrupt number; its result is the function's.\<close>

definition axienet_qbv_init :: "int \<Rightarrow> int \<Rightarrow> int" where
  "axienet_qbv_init qbv_irq request_irq_ret = (if qbv_irq > 0 then request_irq_ret else 0)"

end
