(* ===== verification/Qci_Cb.thy ===== *)
theory Qci_Cb
  imports Axienet
begin

text \<open>
  Per-stream filtering and policing (802.1Qci), \<^verbatim>\<open>driver/xilinx/xilinx_tsn_qci.c\<close>, and frame
  replication and elimination (802.1CB), \<^verbatim>\<open>driver/xilinx/xilinx_tsn_cb.c\<close>: the register words
  their functions write and read. The two control functions start a hardware operation and
  poll for its end; the answers of the control register are an argument.
\<close>

section \<open>Policing (xilinx_tsn_qci.c)\<close>

abbreviation (input) PSFP_CONTROL_OFFSET :: u32 where "PSFP_CONTROL_OFFSET \<equiv> 0x1200"
abbreviation (input) STREAM_FILTER_CONFIG_OFFSET :: u32 where "STREAM_FILTER_CONFIG_OFFSET \<equiv> 0x1204"
abbreviation (input) STREAM_METER_CIR_OFFSET :: u32 where "STREAM_METER_CIR_OFFSET \<equiv> 0x1208"
abbreviation (input) STREAM_METER_EIR_OFFSET :: u32 where "STREAM_METER_EIR_OFFSET \<equiv> 0x120C"
abbreviation (input) STREAM_METER_CBR_OFFSET :: u32 where "STREAM_METER_CBR_OFFSET \<equiv> 0x1210"
abbreviation (input) STREAM_METER_EBR_OFFSET :: u32 where "STREAM_METER_EBR_OFFSET \<equiv> 0x1214"
abbreviation (input) TOTAL_PSFP_FRAMES_OFFSET :: u32 where "TOTAL_PSFP_FRAMES_OFFSET \<equiv> 0x2000"
abbreviation (input) FLTR_INGS_PORT_ERR_OFFSET :: u32 where "FLTR_INGS_PORT_ERR_OFFSET \<equiv> 0x2800"
abbreviation (input) FLTR_STDU_ERR_OFFSET :: u32 where "FLTR_STDU_ERR_OFFSET \<equiv> 0x3000"
abbreviation (input) METER_ERR_OFFSET :: u32 where "METER_ERR_OFFSET \<equiv> 0x3800"

record static_cntr =
  msb :: u32
  lsb :: u32

record psfp_config =
  gate_id :: u8
  meter_id :: u8
  en_meter :: bool
  allow_stream :: bool
  en_psfp :: bool
  wr_op_type :: u8
  op_type :: bool

record meter_config =
  cir :: u32
  eir :: u32
  cbr :: u32
  ebr :: u32
  mode :: u8

record stream_filter =
  in_pid :: u8
  max_fr_size :: u16

record psfp_static_counter =
  psfp_fr_count :: static_cntr
  err_filter_ins_port :: static_cntr
  err_filtr_sdu :: static_cntr
  err_meter :: static_cntr

definition psfp_control_word :: "psfp_config \<Rightarrow> u32" where
  "psfp_control_word data =
     (let m = push_bit 24 (ucast (gate_id data));
          m = m OR push_bit 8 (ucast (meter_id data));
          m = m OR push_bit 6 (of_bool (en_meter data));
          m = m OR push_bit 5 (of_bool (allow_stream data));
          m = m OR push_bit 4 (of_bool (en_psfp data));
          m = m OR push_bit 2 (ucast (wr_op_type data) AND 0x3);
          m = m OR push_bit 1 (of_bool (op_type data))
      in m OR 0x1)"

text \<open>The device and whether the warning about a slow write is printed.\<close>

definition psfp_control :: "psfp_config \<Rightarrow> (nat \<Rightarrow> u32) \<Rightarrow> axienet_local \<Rightarrow> bool \<times> axienet_local" where
  "psfp_control data rd lp =
     (let lp = axienet_iow lp PSFP_CONTROL_OFFSET (psfp_control_word data);
          (v, timeout) = poll_while (\<lambda>v. v AND 0x1 \<noteq> 0) rd 0 20000
      in (timeout = 0, lp))"

definition get_stream_filter_config :: "axienet_local \<Rightarrow> stream_filter" where
  "get_stream_filter_config lp =
     (let reg_val = axienet_ior lp STREAM_FILTER_CONFIG_OFFSET
      in \<lparr>in_pid = ucast (drop_bit 14 reg_val AND 0x3), max_fr_size = ucast (reg_val AND 0xFFF)\<rparr>)"

definition config_stream_filter :: "stream_filter \<Rightarrow> axienet_local \<Rightarrow> axienet_local" where
  "config_stream_filter data lp =
     (let m = push_bit 14 (ucast (in_pid data) AND 0x3) OR (ucast (max_fr_size data) AND 0xFFF)
      in axienet_iow lp STREAM_FILTER_CONFIG_OFFSET m)"

definition get_meter_reg :: "axienet_local \<Rightarrow> meter_config" where
  "get_meter_reg lp =
     (let conf_r4 = axienet_ior lp STREAM_METER_EBR_OFFSET
      in \<lparr>cir = axienet_ior lp STREAM_METER_CIR_OFFSET, eir = axienet_ior lp STREAM_METER_EIR_OFFSET,
          cbr = axienet_ior lp STREAM_METER_CBR_OFFSET AND 0xFFFFFF, ebr = conf_r4 AND 0xFFFFFF,
          mode = ucast (drop_bit 28 (conf_r4 AND 0xF0000000))\<rparr>)"

definition program_meter_reg :: "meter_config \<Rightarrow> axienet_local \<Rightarrow> axienet_local" where
  "program_meter_reg data lp =
     (let lp = axienet_iow lp STREAM_METER_CIR_OFFSET (cir data);
          lp = axienet_iow lp STREAM_METER_EIR_OFFSET (eir data);
          lp = axienet_iow lp STREAM_METER_CBR_OFFSET (cbr data AND 0xFFFFFF);
          conf_r4 = (ebr data AND 0xFFFFFF) OR push_bit 28 (ucast (mode data))
      in axienet_iow lp STREAM_METER_EBR_OFFSET conf_r4)"

text \<open>A 64 bit counter as two words, low word first.\<close>

definition read_cntr :: "axienet_local \<Rightarrow> u32 \<Rightarrow> static_cntr" where
  "read_cntr lp a = \<lparr>msb = axienet_ior lp (a + 0x4), lsb = axienet_ior lp a\<rparr>"

definition get_psfp_static_counter :: "axienet_local \<Rightarrow> u8 \<Rightarrow> psfp_static_counter" where
  "get_psfp_static_counter lp num =
     (let offset = ucast num * 8
      in \<lparr>psfp_fr_count = read_cntr lp (TOTAL_PSFP_FRAMES_OFFSET + offset),
          err_filter_ins_port = read_cntr lp (FLTR_INGS_PORT_ERR_OFFSET + offset),
          err_filtr_sdu = read_cntr lp (FLTR_STDU_ERR_OFFSET + offset),
          err_meter = read_cntr lp (METER_ERR_OFFSET + offset)\<rparr>)"

section \<open>Replication and elimination (xilinx_tsn_cb.c)\<close>

abbreviation (input) FRER_CONTROL_OFFSET :: u32 where "FRER_CONTROL_OFFSET \<equiv> 0x1300"
abbreviation (input) INGRESS_FILTER_OFFSET :: u32 where "INGRESS_FILTER_OFFSET \<equiv> 0x1304"
abbreviation (input) FRER_CONFIG_REG1 :: u32 where "FRER_CONFIG_REG1 \<equiv> 0x1308"
abbreviation (input) FRER_CONFIG_REG2 :: u32 where "FRER_CONFIG_REG2 \<equiv> 0x130C"

record frer_ctrl =
  fc_gate_id :: u8
  memb_id :: u8
  seq_reset :: bool
  gate_state :: bool
  rcvry_tmout :: bool
  frer_valid :: bool
  fc_wr_op_type :: u8
  fc_op_type :: bool

record in_fltr =
  in_port_id :: u8
  max_seq_id :: u16

record frer_memb_config =
  seq_rec_hist_len :: u8
  split_strm_egport_id :: u8
  split_strm_vlan_id :: u16
  rem_ticks :: u16

record frer_static_counter =
  frer_fr_count :: static_cntr
  disc_frames_in_portid :: static_cntr
  pass_frames_seq_recv :: static_cntr
  disc_frames_seq_recv :: static_cntr
  rogue_frames_seq_recv :: static_cntr
  pass_frames_ind_recv :: static_cntr
  disc_frames_ind_recv :: static_cntr
  seq_recv_rst :: static_cntr

record cb_data =
  in_fltr_data :: in_fltr
  frer_memb_config_data :: frer_memb_config

definition frer_control_word :: "frer_ctrl \<Rightarrow> u32" where
  "frer_control_word data =
     (let m = push_bit 24 (ucast (fc_gate_id data));
          m = m OR push_bit 8 (ucast (memb_id data));
          m = m OR push_bit 7 (of_bool (seq_reset data));
          m = m OR push_bit 5 (of_bool (gate_state data));
          m = m OR push_bit 6 (of_bool (rcvry_tmout data));
          m = m OR push_bit 4 (of_bool (frer_valid data));
          m = m OR push_bit 2 (ucast (fc_wr_op_type data) AND 0x3);
          m = m OR push_bit 1 (of_bool (fc_op_type data))
      in m OR 0x1)"

text \<open>
  The wait for the end of the write has no timeout: it is the least partial function, and
  \<open>None\<close> when the hardware never releases the register.
\<close>

partial_function (option) frer_wait :: "(nat \<Rightarrow> u32) \<Rightarrow> nat \<Rightarrow> nat option" where
  "frer_wait rd i = (if rd i AND 0x1 \<noteq> 0 then frer_wait rd (Suc i) else Some i)"

definition frer_control :: "frer_ctrl \<Rightarrow> (nat \<Rightarrow> u32) \<Rightarrow> axienet_local \<Rightarrow> axienet_local option" where
  "frer_control data rd lp =
     (let lp = axienet_iow lp FRER_CONTROL_OFFSET (frer_control_word data)
      in case frer_wait rd 0 of None \<Rightarrow> None | Some _ \<Rightarrow> Some lp)"

definition get_ingress_filter_config :: "axienet_local \<Rightarrow> in_fltr" where
  "get_ingress_filter_config lp =
     (let reg_val = axienet_ior lp INGRESS_FILTER_OFFSET
      in \<lparr>in_port_id = ucast (drop_bit 24 reg_val AND 0x3), max_seq_id = ucast (reg_val AND 0xFFFF)\<rparr>)"

definition config_ingress_filter :: "cb_data \<Rightarrow> axienet_local \<Rightarrow> axienet_local" where
  "config_ingress_filter data lp =
     (let r = axienet_ior lp INGRESS_FILTER_OFFSET;
          r = r AND NOT (push_bit 24 0x3);
          r = r OR push_bit 24 (ucast (in_port_id (in_fltr_data data)) AND 0x3);
          lp = axienet_iow lp INGRESS_FILTER_OFFSET r;
          r = axienet_ior lp FRER_CONFIG_REG1;
          r = r AND NOT (push_bit 16 0xFF);
          r = r OR push_bit 16 (ucast (seq_rec_hist_len (frer_memb_config_data data)) AND 0xFF);
          lp = axienet_iow lp FRER_CONFIG_REG1 r;
          r = axienet_ior lp FRER_CONFIG_REG2;
          r = r AND NOT 0xFFFF;
          r = r OR ucast (rem_ticks (frer_memb_config_data data))
      in axienet_iow lp FRER_CONFIG_REG2 r)"

definition get_member_reg :: "axienet_local \<Rightarrow> frer_memb_config" where
  "get_member_reg lp =
     (let r = axienet_ior lp FRER_CONFIG_REG1
      in \<lparr>seq_rec_hist_len = ucast (drop_bit 16 r AND 0xFF),
          split_strm_egport_id = ucast (drop_bit 12 r AND 0x3),
          split_strm_vlan_id = ucast (r AND 0xFFF),
          rem_ticks = ucast (axienet_ior lp FRER_CONFIG_REG2)\<rparr>)"

definition program_member_reg :: "cb_data \<Rightarrow> axienet_local \<Rightarrow> axienet_local" where
  "program_member_reg data lp =
     (let m = frer_memb_config_data data;
          r = axienet_ior lp FRER_CONFIG_REG1;
          r = r AND NOT (push_bit 12 0x3);
          r = r AND NOT 0xFFF;
          r = r OR push_bit 12 (ucast (split_strm_egport_id m) AND 0x3);
          r = r OR (ucast (split_strm_vlan_id m) AND 0xFFF);
          lp = axienet_iow lp FRER_CONFIG_REG1 r;
          lp = axienet_iow lp FRER_CONFIG_REG2 (ucast (rem_ticks m));
          r = axienet_ior lp INGRESS_FILTER_OFFSET;
          r = r AND NOT 0xFFFF;
          r = r OR (ucast (max_seq_id (in_fltr_data data)) AND 0xFFFF)
      in axienet_iow lp INGRESS_FILTER_OFFSET r)"

definition get_frer_static_counter :: "axienet_local \<Rightarrow> u8 \<Rightarrow> frer_static_counter" where
  "get_frer_static_counter lp num =
     (let offset = ucast num * 8
      in \<lparr>frer_fr_count = read_cntr lp (0x4000 + offset),
          disc_frames_in_portid = read_cntr lp (0x4800 + offset),
          pass_frames_seq_recv = read_cntr lp (0x6000 + offset),
          disc_frames_seq_recv = read_cntr lp (0x6800 + offset),
          rogue_frames_seq_recv = read_cntr lp (0x7000 + offset),
          pass_frames_ind_recv = read_cntr lp (0x5000 + offset),
          disc_frames_ind_recv = read_cntr lp (0x5800 + offset),
          seq_recv_rst = read_cntr lp (0x7800 + offset)\<rparr>)"

section \<open>Properties\<close>

lemma cb_masks:
  "(3::u32) = field_mask 2 0" "(0xFFF::u32) = field_mask 12 0" "(0xFFFF::u32) = field_mask 16 0"
  "(0xFF::u32) = field_mask 8 0" "(0xFFFFFF::u32) = field_mask 24 0" "(0xF0000000::u32) = field_mask 4 28"
  "(1::u32) = BIT 0"
  by (simp_all add: BIT_def field_mask_def mask_eq_exp_minus_1)

lemma bit_of_bool_word [bit_simps]: "bit (of_bool b :: 'a::len word) n \<longleftrightarrow> b \<and> n = 0"
  by (cases b) (auto simp: bit_simps)

text \<open>
  a programmed meter and stream filter are read back as they were given, up
  to the widths of the fields, and programming one does not disturb the other.
\<close>

theorem psfp_roundtrip:
  fixes m :: meter_config and f :: stream_filter and lp :: axienet_local
  assumes "unat (mode m) < 16"
  defines "lp' \<equiv> config_stream_filter f (program_meter_reg m lp)"
    and "lp'' \<equiv> program_meter_reg m (config_stream_filter f lp)"
  shows "get_meter_reg lp' = m\<lparr>cbr := cbr m AND 0xFFFFFF, ebr := ebr m AND 0xFFFFFF\<rparr> \<and>
     get_stream_filter_config lp' = \<lparr>in_pid = in_pid f AND 3, max_fr_size = max_fr_size f AND 0xFFF\<rparr> \<and>
     get_meter_reg lp'' = get_meter_reg lp' \<and> get_stream_filter_config lp'' = get_stream_filter_config lp'"
proof -
  define w where "w = (ucast (mode m) :: u32)"
  have w: "ucast w = mode m" by (simp add: w_def)
  have b: "bit w i \<Longrightarrow> i < 4" for i
    using assms(1) bit_ucast_less [of "mode m" 4 i] by (auto simp: w_def bit_simps)
  have m: "drop_bit 28 (((ebr m AND 0xFFFFFF) OR push_bit 28 w) AND 0xF0000000) = w"
    "((ebr m AND 0xFFFFFF) OR push_bit 28 w) AND 0xFFFFFF = ebr m AND 0xFFFFFF"
    unfolding cb_masks by (rule bit_word_eqI; auto simp: bit_simps dest: b)+
  have s8: "(3 :: u8) = field_mask 2 0" "(0xFFF :: u16) = field_mask 12 0"
    by (simp_all add: field_mask_def mask_eq_exp_minus_1)
  let ?f = "push_bit 14 (ucast (in_pid f) AND 0x3) OR (ucast (max_fr_size f) AND 0xFFF) :: u32"
  have f: "ucast (drop_bit 14 ?f AND 0x3) = in_pid f AND 3" "ucast (?f AND 0xFFF) = max_fr_size f AND 0xFFF"
    unfolding cb_masks s8 by (rule bit_word_eqI; auto simp: bit_simps)+
  show ?thesis
    using f m w
    by (simp add: lp'_def lp''_def get_meter_reg_def program_meter_reg_def config_stream_filter_def
        get_stream_filter_config_def Let_def mac_reg.ior_iow w_def [symmetric] and.assoc)
qed


text \<open>
  C10 (frer_config_roundtrip): the member registers and the ingress filter of a redundancy entry,
  programmed one after the other in either order, are both read back as they were given up to
  the widths of the fields, although the two functions share all three registers.
\<close>

theorem frer_config_roundtrip:
  fixes c :: cb_data and lp :: axienet_local
  defines "lp' \<equiv> config_ingress_filter c (program_member_reg c lp)"
    and "lp'' \<equiv> program_member_reg c (config_ingress_filter c lp)"
    and "m \<equiv> frer_memb_config_data c" and "f \<equiv> in_fltr_data c"
  shows "get_member_reg lp' = m\<lparr>split_strm_egport_id := split_strm_egport_id m AND 3,
       split_strm_vlan_id := split_strm_vlan_id m AND 0xFFF\<rparr> \<and>
     get_ingress_filter_config lp' = f\<lparr>in_port_id := in_port_id f AND 3\<rparr> \<and>
     get_member_reg lp'' = get_member_reg lp' \<and> get_ingress_filter_config lp'' = get_ingress_filter_config lp'"
proof -
  have s8: "(3 :: u8) = field_mask 2 0" "(0xFFF :: u16) = field_mask 12 0"
    by (simp_all add: field_mask_def mask_eq_exp_minus_1)
  let ?e = "ucast (split_strm_egport_id m) :: u32" and ?v = "ucast (split_strm_vlan_id m) :: u32"
    and ?h = "ucast (seq_rec_hist_len m) :: u32" and ?p = "ucast (in_port_id f) :: u32"
    and ?q = "ucast (max_seq_id f) :: u32" and ?t = "ucast (rem_ticks m) :: u32"
  define g where "g r = (((r AND NOT (push_bit 12 0x3)) AND NOT 0xFFF) OR push_bit 12 (?e AND 0x3)) OR (?v AND 0xFFF)"
    for r :: u32
  define h where "h r = (r AND NOT (push_bit 16 0xFF)) OR push_bit 16 (?h AND 0xFF)" for r :: u32
  define a where "a r = (r AND NOT (push_bit 24 0x3)) OR push_bit 24 (?p AND 0x3)" for r :: u32
  define b where "b r = (r AND NOT 0xFFFF) OR (?q AND 0xFFFF)" for r :: u32
  define t where "t r = (r AND NOT 0xFFFF) OR ?t" for r :: u32
  note defs = g_def h_def a_def b_def t_def
  have gh: "ucast (drop_bit 16 x AND 0xFF) = seq_rec_hist_len m \<and>
      ucast (drop_bit 12 x AND 0x3) = split_strm_egport_id m AND 3 \<and>
      ucast (x AND 0xFFF) = split_strm_vlan_id m AND 0xFFF"
    if "x = h (g r) \<or> x = g (h r)" for x r
    using that unfolding defs cb_masks s8 by (auto intro!: bit_word_eqI simp: bit_simps)
  have ab: "ucast (drop_bit 24 x AND 0x3) = in_port_id f AND 3 \<and> ucast (x AND 0xFFFF) = max_seq_id f"
    if "x = a (b r) \<or> x = b (a r)" for x r
    using that unfolding defs cb_masks s8 by (auto intro!: bit_word_eqI simp: bit_simps)
  have t: "ucast (t r) = rem_ticks m" for r
    unfolding defs cb_masks by (rule bit_word_eqI) (auto simp: bit_simps)
  have r: "axienet_ior lp' 0x1308 = h (g (axienet_ior lp 0x1308))" "axienet_ior lp'' 0x1308 = g (h (axienet_ior lp 0x1308))"
    "axienet_ior lp' 0x1304 = a (b (axienet_ior lp 0x1304))" "axienet_ior lp'' 0x1304 = b (a (axienet_ior lp 0x1304))"
    "axienet_ior lp' 0x130C = t ?t" "axienet_ior lp'' 0x130C = ?t"
    unfolding lp'_def lp''_def program_member_reg_def config_ingress_filter_def Let_def defs m_def f_def
    by (simp_all only: mac_reg.ior_iow) simp_all
  show ?thesis
    using gh [of _ "axienet_ior lp 0x1308"] ab [of _ "axienet_ior lp 0x1304"] t
    by (simp add: get_member_reg_def get_ingress_filter_config_def Let_def r)
qed

lemma frer_wait_some: "rd (i + k) AND 0x1 = 0 \<Longrightarrow> frer_wait rd i \<noteq> None"
proof (induction k arbitrary: i)
  case 0
  then show ?case by (simp add: frer_wait.simps)
next
  case (Suc k)
  then show ?case using Suc.IH [of "Suc i"] by (simp add: frer_wait.simps [of rd i])
qed

lemma frer_wait_released: "frer_wait rd i = Some k \<Longrightarrow> rd k AND 0x1 = 0"
proof (rule frer_wait.raw_induct [where P = "\<lambda>rd i k. rd k AND 0x1 = 0"])
  fix f :: "(nat \<Rightarrow> u32) \<Rightarrow> nat \<Rightarrow> nat option" and rd :: "nat \<Rightarrow> u32" and i k
  assume "\<And>rd i k. f rd i = Some k \<Longrightarrow> rd k AND 0x1 = 0"
    and "(if rd i AND 0x1 \<noteq> 0 then f rd (Suc i) else Some i) = Some k"
  then show "rd k AND 0x1 = 0" by (auto split: if_splits)
qed

text \<open>
  C11 (control_writes_wait): both control functions write their word; the policing one always
  returns and warns exactly when the hardware keeps the register busy for 20000 reads, the
  redundancy one returns exactly when the hardware releases the register some time, since its
  wait has no timeout.
\<close>

theorem control_writes_wait:
  "psfp_control p rd lp =
     (\<not> (\<exists>k<20000. rd k AND 1 = 0), axienet_iow lp PSFP_CONTROL_OFFSET (psfp_control_word p)) \<and>
   frer_control d rd lp =
     (if \<exists>k. rd k AND 1 = 0 then Some (axienet_iow lp FRER_CONTROL_OFFSET (frer_control_word d)) else None)"
proof
  show "psfp_control p rd lp =
     (\<not> (\<exists>k<20000. rd k AND 1 = 0), axienet_iow lp PSFP_CONTROL_OFFSET (psfp_control_word p))"
    using poll_while_released [of 20000 "\<lambda>v. v AND 1 \<noteq> 0" rd 0]
    by (auto simp: psfp_control_def Let_def split: prod.splits)
  have "frer_wait rd 0 \<noteq> None \<longleftrightarrow> (\<exists>k. rd k AND 1 = 0)"
    using frer_wait_some [of rd 0] frer_wait_released [of rd 0] by (metis add_0 not_None_eq)
  then show "frer_control d rd lp =
     (if \<exists>k. rd k AND 1 = 0 then Some (axienet_iow lp FRER_CONTROL_OFFSET (frer_control_word d)) else None)"
    by (auto simp: frer_control_def Let_def split: option.splits)
qed

lemma bit_u8_less: "bit v i \<Longrightarrow> i < 8" for v :: u8
  using bit_imp_le_length [of v i] by simp

lemma bit_control_words:
  "bit (psfp_control_word p) i \<longleftrightarrow> 24 \<le> i \<and> i < 32 \<and> bit (gate_id p) (i - 24) \<or>
     8 \<le> i \<and> i < 16 \<and> bit (meter_id p) (i - 8) \<or> i = 6 \<and> en_meter p \<or> i = 5 \<and> allow_stream p \<or>
     i = 4 \<and> en_psfp p \<or> (i = 2 \<or> i = 3) \<and> bit (wr_op_type p) (i - 2) \<or> i = 1 \<and> op_type p \<or> i = 0"
  "bit (frer_control_word d) i \<longleftrightarrow> 24 \<le> i \<and> i < 32 \<and> bit (fc_gate_id d) (i - 24) \<or>
     8 \<le> i \<and> i < 16 \<and> bit (memb_id d) (i - 8) \<or> i = 7 \<and> seq_reset d \<or> i = 6 \<and> rcvry_tmout d \<or>
     i = 5 \<and> gate_state d \<or> i = 4 \<and> frer_valid d \<or> (i = 2 \<or> i = 3) \<and> bit (fc_wr_op_type d) (i - 2) \<or>
     i = 1 \<and> fc_op_type d \<or> i = 0"
proof -
  have u: "bit (push_bit k (ucast x :: u32)) i \<longleftrightarrow> k \<le> i \<and> i < k + 8 \<and> i < 32 \<and> bit x (i - k)" for x :: u8 and k
    by (auto simp: bit_simps dest: bit_u8_less)
  have t: "bit (push_bit 2 (ucast x AND 3 :: u32)) i \<longleftrightarrow> (i = 2 \<or> i = 3) \<and> bit x (i - 2)" for x :: u8
    unfolding cb_masks by (auto simp: bit_simps)
  have o: "bit (push_bit k (of_bool b :: u32)) i \<longleftrightarrow> i = k \<and> k < 32 \<and> b" for b k
    by (auto simp: bit_simps)
  have one: "bit (0x1 :: u32) i \<longleftrightarrow> i = 0" by (simp add: bit_simps)
  show "bit (psfp_control_word p) i \<longleftrightarrow> 24 \<le> i \<and> i < 32 \<and> bit (gate_id p) (i - 24) \<or>
     8 \<le> i \<and> i < 16 \<and> bit (meter_id p) (i - 8) \<or> i = 6 \<and> en_meter p \<or> i = 5 \<and> allow_stream p \<or>
     i = 4 \<and> en_psfp p \<or> (i = 2 \<or> i = 3) \<and> bit (wr_op_type p) (i - 2) \<or> i = 1 \<and> op_type p \<or> i = 0"
    unfolding psfp_control_word_def Let_def bit_or_iff u t o one by auto
  show "bit (frer_control_word d) i \<longleftrightarrow> 24 \<le> i \<and> i < 32 \<and> bit (fc_gate_id d) (i - 24) \<or>
     8 \<le> i \<and> i < 16 \<and> bit (memb_id d) (i - 8) \<or> i = 7 \<and> seq_reset d \<or> i = 6 \<and> rcvry_tmout d \<or>
     i = 5 \<and> gate_state d \<or> i = 4 \<and> frer_valid d \<or> (i = 2 \<or> i = 3) \<and> bit (fc_wr_op_type d) (i - 2) \<or>
     i = 1 \<and> fc_op_type d \<or> i = 0"
    unfolding frer_control_word_def Let_def bit_or_iff u t o one by auto
qed

text \<open>
  The fields of the two control words do not overlap: each is found
  again at its place, with the start bit set.
\<close>

theorem control_words_decode:
  "let w = psfp_control_word p; v = frer_control_word d
   in get_field 8 24 w = ucast (gate_id p) \<and> get_field 8 8 w = ucast (meter_id p) \<and>
      (bit w 6 \<longleftrightarrow> en_meter p) \<and> (bit w 5 \<longleftrightarrow> allow_stream p) \<and> (bit w 4 \<longleftrightarrow> en_psfp p) \<and>
      get_field 2 2 w = ucast (wr_op_type p) AND 3 \<and> (bit w 1 \<longleftrightarrow> op_type p) \<and> bit w 0 \<and>
      get_field 8 24 v = ucast (fc_gate_id d) \<and> get_field 8 8 v = ucast (memb_id d) \<and>
      (bit v 7 \<longleftrightarrow> seq_reset d) \<and> (bit v 6 \<longleftrightarrow> rcvry_tmout d) \<and> (bit v 5 \<longleftrightarrow> gate_state d) \<and>
      (bit v 4 \<longleftrightarrow> frer_valid d) \<and> get_field 2 2 v = ucast (fc_wr_op_type d) AND 3 \<and>
      (bit v 1 \<longleftrightarrow> fc_op_type d) \<and> bit v 0"
proof -
  let ?w = "psfp_control_word p" and ?v = "frer_control_word d"
  have f: "get_field 8 24 ?w = ucast (gate_id p)" "get_field 8 8 ?w = ucast (meter_id p)"
    "get_field 2 2 ?w = ucast (wr_op_type p) AND 3" "get_field 8 24 ?v = ucast (fc_gate_id d)"
    "get_field 8 8 ?v = ucast (memb_id d)" "get_field 2 2 ?v = ucast (fc_wr_op_type d) AND 3"
    unfolding cb_masks by (rule bit_word_eqI; auto simp: bit_simps bit_control_words dest: bit_u8_less)+
  show ?thesis unfolding Let_def f by (simp add: bit_control_words)
qed

theorem psfp_roundtrip_witness:
  "get_meter_reg (config_stream_filter \<lparr>in_pid = 2, max_fr_size = 1500\<rparr>
     (program_meter_reg \<lparr>cir = 1, eir = 2, cbr = 3, ebr = 0x1000004, mode = 5\<rparr>
       \<lparr>num_tc = 2, regs = (\<lambda>_. 0), qbv_regs = (\<lambda>_. 0)\<rparr>)) = \<lparr>cir = 1, eir = 2, cbr = 3, ebr = 4, mode = 5\<rparr>"
  using psfp_roundtrip [of "\<lparr>cir = 1, eir = 2, cbr = 3, ebr = 0x1000004, mode = 5\<rparr>"
      "\<lparr>in_pid = 2, max_fr_size = 1500\<rparr>" "\<lparr>num_tc = 2, regs = (\<lambda>_. 0), qbv_regs = (\<lambda>_. 0)\<rparr>"]
  by simp

end
