(* ===== verification/Switch.thy ===== *)
theory Switch
  imports Qci_Cb
begin

text \<open>
  The TSN switch driver, \<^verbatim>\<open>driver/xilinx/xilinx_tsn_switch.c\<close>: the status and threshold
  registers, the forwarding CAM, address learning, port states, VLAN membership and native
  VLANs, and the ioctl that dispatches to them and to the functions of \<^verbatim>\<open>Qci_Cb\<close>.

  The device is the global \<open>lp\<close>. What the hardware does is an argument: the answers of the
  registers that are polled (the \<open>k\<close>-th polling loop of a call sees \<open>rd k 0, rd k 1, \<dots>\<close>)
  and the effect of a command written to the CAM or to the VLAN membership memory.
\<close>

section \<open>Data (xilinx_tsn_switch.h)\<close>

abbreviation (input) EPERM :: int where "EPERM \<equiv> 1"

abbreviation (input) XAS_STATUS_OFFSET :: u32 where "XAS_STATUS_OFFSET \<equiv> 0x0"
abbreviation (input) XAS_CONTROL_OFFSET :: u32 where "XAS_CONTROL_OFFSET \<equiv> 0x4"
abbreviation (input) XAS_PMAP_OFFSET :: u32 where "XAS_PMAP_OFFSET \<equiv> 0x8"
abbreviation (input) XAS_MAC_LSB_OFFSET :: u32 where "XAS_MAC_LSB_OFFSET \<equiv> 0xC"
abbreviation (input) XAS_MAC_MSB_OFFSET :: u32 where "XAS_MAC_MSB_OFFSET \<equiv> 0x10"
abbreviation (input) XAS_EP2MAC_ST_FIFOT_OFFSET :: u32 where "XAS_EP2MAC_ST_FIFOT_OFFSET \<equiv> 0x20"
abbreviation (input) XAS_EP2MAC_RE_FIFOT_OFFSET :: u32 where "XAS_EP2MAC_RE_FIFOT_OFFSET \<equiv> 0x24"
abbreviation (input) XAS_EP2MAC_BE_FIFOT_OFFSET :: u32 where "XAS_EP2MAC_BE_FIFOT_OFFSET \<equiv> 0x28"
abbreviation (input) XAS_MAC2MAC_ST_FIFOT_OFFSET :: u32 where "XAS_MAC2MAC_ST_FIFOT_OFFSET \<equiv> 0x30"
abbreviation (input) XAS_MAC2MAC_RE_FIFOT_OFFSET :: u32 where "XAS_MAC2MAC_RE_FIFOT_OFFSET \<equiv> 0x34"
abbreviation (input) XAS_MAC2MAC_BE_FIFOT_OFFSET :: u32 where "XAS_MAC2MAC_BE_FIFOT_OFFSET \<equiv> 0x38"
abbreviation (input) XAS_EP_PORT_VLAN_OFFSET :: u32 where "XAS_EP_PORT_VLAN_OFFSET \<equiv> 0x40"
abbreviation (input) XAS_MAC_PORT_VLAN_OFFSET :: u32 where "XAS_MAC_PORT_VLAN_OFFSET \<equiv> 0x44"
abbreviation (input) XAS_HW_ADDR_LEARN_CTRL_OFFSET :: u32 where "XAS_HW_ADDR_LEARN_CTRL_OFFSET \<equiv> 0x48"
abbreviation (input) XAS_PORT_STATE_CTRL_OFFSET :: u32 where "XAS_PORT_STATE_CTRL_OFFSET \<equiv> 0x4c"
abbreviation (input) XAS_FRM_FLTR_TYPE_FIELD_OPT_OFFSET :: u32
  where "XAS_FRM_FLTR_TYPE_FIELD_OPT_OFFSET \<equiv> 0x50"
abbreviation (input) XAS_MNG_Q_CTRL_OFFSET :: u32 where "XAS_MNG_Q_CTRL_OFFSET \<equiv> 0x54"
abbreviation (input) XAS_MAC1_MNG_Q_OPTION_OFFSET :: u32 where "XAS_MAC1_MNG_Q_OPTION_OFFSET \<equiv> 0x58"
abbreviation (input) XAS_ST_MAX_FRAME_SIZE_OFFSET :: u32 where "XAS_ST_MAX_FRAME_SIZE_OFFSET \<equiv> 0x60"
abbreviation (input) XAS_RE_MAX_FRAME_SIZE_OFFSET :: u32 where "XAS_RE_MAX_FRAME_SIZE_OFFSET \<equiv> 0x64"
abbreviation (input) XAS_BE_MAX_FRAME_SIZE_OFFSET :: u32 where "XAS_BE_MAX_FRAME_SIZE_OFFSET \<equiv> 0x68"
abbreviation (input) XAS_SDL_CAM_CTRL_OFFSET :: u32 where "XAS_SDL_CAM_CTRL_OFFSET \<equiv> 0x1000"
abbreviation (input) XAS_SDL_CAM_KEY1_OFFSET :: u32 where "XAS_SDL_CAM_KEY1_OFFSET \<equiv> 0x1008"
abbreviation (input) XAS_SDL_CAM_KEY2_OFFSET :: u32 where "XAS_SDL_CAM_KEY2_OFFSET \<equiv> 0x100C"
abbreviation (input) XAS_SDL_CAM_TV1_OFFSET :: u32 where "XAS_SDL_CAM_TV1_OFFSET \<equiv> 0x1010"
abbreviation (input) XAS_SDL_CAM_TV2_OFFSET :: u32 where "XAS_SDL_CAM_TV2_OFFSET \<equiv> 0x1014"
abbreviation (input) XAS_SDL_CAM_PORT_ACT_OFFSET :: u32 where "XAS_SDL_CAM_PORT_ACT_OFFSET \<equiv> 0x1018"
abbreviation (input) XAS_VLAN_MEMB_CTRL_REG :: u32 where "XAS_VLAN_MEMB_CTRL_REG \<equiv> 0x1100"
abbreviation (input) XAS_VLAN_MEMB_DATA_REG :: u32 where "XAS_VLAN_MEMB_DATA_REG \<equiv> 0x1104"

abbreviation (input) PORT_EP :: u8 where "PORT_EP \<equiv> 1"
abbreviation (input) PORT_MAC1 :: u8 where "PORT_MAC1 \<equiv> 2"
abbreviation (input) PORT_MAC2 :: u8 where "PORT_MAC2 \<equiv> 4"
abbreviation (input) PORT_EX_ONLY :: u8 where "PORT_EX_ONLY \<equiv> 8"
abbreviation (input) PORT_EX_EP :: u8 where "PORT_EX_EP \<equiv> 16"

record cam_struct =
  src_addr :: "u8 list"
  dest_addr :: "u8 list"
  vlanid :: u16
  tv_vlanid :: u16
  fwd_port :: u8
  cam_gate_id :: u8
  ipv :: u8
  flags :: u32
  ep_port_act :: u8
  mac_port_act :: u8

record mac_addr_learn =
  aging :: bool
  is_age :: bool
  learning :: bool
  is_learn :: bool
  learn_untag :: bool
  is_untag :: bool
  aging_time :: u32

record mac_learnt =
  mac_addr :: "u8 list"
  learnt_vlan_id :: u16

record mac_addr_list =
  list_port_num :: u8
  num_list :: u16
  learnt_list :: "mac_learnt list"

record port_status =
  ps_port_num :: u8
  ps_port_status :: u8

record port_vlan =
  pv_aging :: bool
  pv_is_age :: bool
  pv_learning :: bool
  pv_is_learn :: bool
  pv_en_ipv :: bool
  pv_en_port_status :: bool
  pv_port_num :: u8
  pv_ipv :: u8
  pv_port_status :: u8
  pv_vlan_id :: u16
  pv_aging_time :: u32

record native_vlan =
  nv_en_ipv :: bool
  nv_port_num :: u8
  nv_ipv :: u8
  nv_vlan_id :: u16

text \<open>A pair of thresholds is \<open>(t1, t2)\<close>; the two arrays are indexed 0 to 2.\<close>

record switch_data =
  switch_status :: u32
  switch_ctrl :: u32
  switch_prt :: u32
  sw_mac_addr :: "u8 list"
  thld_ep_mac :: "nat \<Rightarrow> u16 \<times> u16"
  thld_mac_mac :: "nat \<Rightarrow> u16 \<times> u16"
  ep_vlan :: u32
  mac_vlan :: u32
  max_frame_sc_que :: u32
  max_frame_res_que :: u32
  max_frame_be_que :: u32
  type1 :: u16
  type2 :: u16
  mac1_config :: u32
  mac2_config :: u32
  port_vlan_mem_ctrl_val :: u32
  port_vlan_mem_data :: u8

text \<open>What the endpoint's driver says about the design.\<close>

record ep_local =
  ex_ep :: bool
  packet_switch :: bool

record switch_hw =
  status_rd :: "nat \<Rightarrow> u32"
  cam_status_rd :: "nat \<Rightarrow> nat \<Rightarrow> u32"
  cam_ctrl_rd :: "nat \<Rightarrow> nat \<Rightarrow> u32"
  port_state_rd :: "nat \<Rightarrow> u32"
  vlan_ctrl_rd :: "nat \<Rightarrow> nat \<Rightarrow> u32"
  psfp_rd :: "nat \<Rightarrow> u32"
  frer_rd :: "nat \<Rightarrow> u32"
  cam_exec :: "axienet_local \<Rightarrow> axienet_local"
  vlan_exec :: "axienet_local \<Rightarrow> axienet_local"

section \<open>Status, thresholds and management queues\<close>

text \<open>Four bytes as a word, first byte highest, and the two remaining bytes of an address.\<close>

definition word4 :: "u8 \<Rightarrow> u8 \<Rightarrow> u8 \<Rightarrow> u8 \<Rightarrow> u32" where
  "word4 a b c d = push_bit 24 (ucast a) OR push_bit 16 (ucast b) OR push_bit 8 (ucast c) OR ucast d"

definition word2 :: "u8 \<Rightarrow> u8 \<Rightarrow> u32" where
  "word2 a b = push_bit 8 (ucast a) OR ucast b"

definition set_frame_filter_opt :: "u16 \<Rightarrow> u16 \<Rightarrow> axienet_local \<Rightarrow> axienet_local" where
  "set_frame_filter_opt t1 t2 lp =
     (let t = axienet_ior lp XAS_FRM_FLTR_TYPE_FIELD_OPT_OFFSET;
          t = (if t1 \<noteq> 0 then (t AND 0x0000FFFF) OR push_bit 16 (ucast t1) else t);
          t = (if t2 \<noteq> 0 then (t AND 0xFFFF0000) OR ucast t2 else t)
      in axienet_iow lp XAS_FRM_FLTR_TYPE_FIELD_OPT_OFFSET t)"

definition set_mac1_mngmntq :: "u32 \<Rightarrow> axienet_local \<Rightarrow> axienet_local" where
  "set_mac1_mngmntq config lp = axienet_iow lp XAS_MAC1_MNG_Q_OPTION_OFFSET config"

definition set_mac2_mngmntq :: "u32 \<Rightarrow> axienet_local \<Rightarrow> axienet_local" where
  "set_mac2_mngmntq config lp = axienet_iow lp XAS_MNG_Q_CTRL_OFFSET config"

definition thld_word :: "u16 \<times> u16 \<Rightarrow> u32" where
  "thld_word t = push_bit 16 (ucast (fst t)) OR ucast (snd t)"

definition set_switch_regs :: "switch_data \<Rightarrow> axienet_local \<Rightarrow> axienet_local" where
  "set_switch_regs data lp =
     (let m = sw_mac_addr data;
          lp = axienet_iow lp XAS_CONTROL_OFFSET (switch_ctrl data);
          lp = axienet_iow lp XAS_PMAP_OFFSET (switch_prt data);
          lp = axienet_iow lp XAS_MAC_LSB_OFFSET (word4 (m ! 0) (m ! 1) (m ! 2) (m ! 3));
          lp = axienet_iow lp XAS_MAC_MSB_OFFSET (word2 (m ! 4) (m ! 5));
          lp = axienet_iow lp XAS_EP2MAC_ST_FIFOT_OFFSET (thld_word (thld_ep_mac data 0));
          lp = axienet_iow lp XAS_EP2MAC_RE_FIFOT_OFFSET (thld_word (thld_ep_mac data 1));
          lp = axienet_iow lp XAS_EP2MAC_BE_FIFOT_OFFSET (thld_word (thld_ep_mac data 2));
          lp = axienet_iow lp XAS_MAC2MAC_ST_FIFOT_OFFSET (thld_word (thld_mac_mac data 0));
          lp = axienet_iow lp XAS_MAC2MAC_RE_FIFOT_OFFSET (thld_word (thld_mac_mac data 1));
          lp = axienet_iow lp XAS_MAC2MAC_BE_FIFOT_OFFSET (thld_word (thld_mac_mac data 2));
          lp = axienet_iow lp XAS_EP_PORT_VLAN_OFFSET (ep_vlan data);
          lp = axienet_iow lp XAS_MAC_PORT_VLAN_OFFSET (mac_vlan data);
          lp = axienet_iow lp XAS_ST_MAX_FRAME_SIZE_OFFSET (max_frame_sc_que data);
          lp = axienet_iow lp XAS_RE_MAX_FRAME_SIZE_OFFSET (max_frame_res_que data)
      in axienet_iow lp XAS_BE_MAX_FRAME_SIZE_OFFSET (max_frame_be_que data))"

definition word_thld :: "u32 \<Rightarrow> u16 \<times> u16" where
  "word_thld w = (ucast (drop_bit 16 w AND 0xFFFF), ucast (w AND 0xFFFF))"

text \<open>
  The structure is filled in place; \<open>type1\<close> keeps its old value, since the source assigns
  \<open>type2\<close> twice.
\<close>

definition get_switch_regs :: "axienet_local \<Rightarrow> switch_data \<Rightarrow> switch_data" where
  "get_switch_regs lp data =
     (let l = axienet_ior lp XAS_MAC_LSB_OFFSET;
          h = axienet_ior lp XAS_MAC_MSB_OFFSET;
          t = axienet_ior lp XAS_FRM_FLTR_TYPE_FIELD_OPT_OFFSET
      in data
        \<lparr>switch_status := axienet_ior lp XAS_STATUS_OFFSET,
         switch_ctrl := axienet_ior lp XAS_CONTROL_OFFSET,
         switch_prt := axienet_ior lp XAS_PMAP_OFFSET,
         sw_mac_addr := [ucast (drop_bit 24 (l AND 0xFF000000)), ucast (drop_bit 16 (l AND 0xFF0000)),
                         ucast (drop_bit 8 (l AND 0xFF00)), ucast (l AND 0xFF),
                         ucast (drop_bit 8 (h AND 0xFF00)), ucast (h AND 0xFF)],
         thld_ep_mac := (thld_ep_mac data)
           (0 := word_thld (axienet_ior lp XAS_EP2MAC_ST_FIFOT_OFFSET),
            1 := word_thld (axienet_ior lp XAS_EP2MAC_RE_FIFOT_OFFSET),
            2 := word_thld (axienet_ior lp XAS_EP2MAC_BE_FIFOT_OFFSET)),
         thld_mac_mac := (thld_mac_mac data)
           (0 := word_thld (axienet_ior lp XAS_MAC2MAC_ST_FIFOT_OFFSET),
            1 := word_thld (axienet_ior lp XAS_MAC2MAC_RE_FIFOT_OFFSET),
            2 := word_thld (axienet_ior lp XAS_MAC2MAC_BE_FIFOT_OFFSET)),
         ep_vlan := axienet_ior lp XAS_EP_PORT_VLAN_OFFSET,
         mac_vlan := axienet_ior lp XAS_MAC_PORT_VLAN_OFFSET,
         max_frame_sc_que := axienet_ior lp XAS_ST_MAX_FRAME_SIZE_OFFSET AND 0xFFFF,
         max_frame_res_que := axienet_ior lp XAS_RE_MAX_FRAME_SIZE_OFFSET AND 0xFFFF,
         max_frame_be_que := axienet_ior lp XAS_BE_MAX_FRAME_SIZE_OFFSET AND 0xFFFF,
         type2 := ucast (t AND 0x0000FFFF),
         mac1_config := axienet_ior lp XAS_MAC1_MNG_Q_OPTION_OFFSET,
         mac2_config := axienet_ior lp XAS_MNG_Q_CTRL_OFFSET,
         port_vlan_mem_ctrl_val := axienet_ior lp XAS_VLAN_MEMB_CTRL_REG,
         port_vlan_mem_data := ucast (axienet_ior lp XAS_VLAN_MEMB_DATA_REG)\<rparr>)"

text \<open>The statistics counters by name, in the order of \<open>struct mem_static_arr_cntr\<close>.\<close>

datatype mem_cntr =
    cam_lookup | multicast_fr | err_mac1 | err_mac2
  | sc_mac1_ep | res_mac1_ep | be_mac1_ep | err_sc_mac1_ep | err_res_mac1_ep | err_be_mac1_ep
  | sc_mac2_ep | res_mac2_ep | be_mac2_ep | err_sc_mac2_ep | err_res_mac2_ep | err_be_mac2_ep
  | sc_ep_mac1 | res_ep_mac1 | be_ep_mac1 | err_sc_ep_mac1 | err_res_ep_mac1 | err_be_ep_mac1
  | sc_mac2_mac1 | res_mac2_mac1 | be_mac2_mac1 | err_sc_mac2_mac1 | err_res_mac2_mac1 | err_be_mac2_mac1
  | sc_ep_mac2 | res_ep_mac2 | be_ep_mac2 | err_sc_ep_mac2 | err_res_ep_mac2 | err_be_ep_mac2
  | sc_mac1_mac2 | res_mac1_mac2 | be_mac1_mac2 | err_sc_mac1_mac2 | err_res_mac1_mac2 | err_be_mac1_mac2

definition mem_cntr_offset :: "mem_cntr \<Rightarrow> u32" where
  "mem_cntr_offset c = (case c of
     cam_lookup \<Rightarrow> 0x400 | multicast_fr \<Rightarrow> 0x408 | err_mac1 \<Rightarrow> 0x410 | err_mac2 \<Rightarrow> 0x418
   | sc_mac1_ep \<Rightarrow> 0x420 | res_mac1_ep \<Rightarrow> 0x428 | be_mac1_ep \<Rightarrow> 0x430
   | err_sc_mac1_ep \<Rightarrow> 0x438 | err_res_mac1_ep \<Rightarrow> 0x440 | err_be_mac1_ep \<Rightarrow> 0x448
   | sc_mac2_ep \<Rightarrow> 0x458 | res_mac2_ep \<Rightarrow> 0x460 | be_mac2_ep \<Rightarrow> 0x468
   | err_sc_mac2_ep \<Rightarrow> 0x470 | err_res_mac2_ep \<Rightarrow> 0x478 | err_be_mac2_ep \<Rightarrow> 0x480
   | sc_ep_mac1 \<Rightarrow> 0x490 | res_ep_mac1 \<Rightarrow> 0x498 | be_ep_mac1 \<Rightarrow> 0x4A0
   | err_sc_ep_mac1 \<Rightarrow> 0x4A8 | err_res_ep_mac1 \<Rightarrow> 0x4B0 | err_be_ep_mac1 \<Rightarrow> 0x4B8
   | sc_mac2_mac1 \<Rightarrow> 0x4C0 | res_mac2_mac1 \<Rightarrow> 0x4C8 | be_mac2_mac1 \<Rightarrow> 0x4D0
   | err_sc_mac2_mac1 \<Rightarrow> 0x4D8 | err_res_mac2_mac1 \<Rightarrow> 0x4E0 | err_be_mac2_mac1 \<Rightarrow> 0x4E8
   | sc_ep_mac2 \<Rightarrow> 0x4F0 | res_ep_mac2 \<Rightarrow> 0x4F8 | be_ep_mac2 \<Rightarrow> 0x500
   | err_sc_ep_mac2 \<Rightarrow> 0x508 | err_res_ep_mac2 \<Rightarrow> 0x510 | err_be_ep_mac2 \<Rightarrow> 0x518
   | sc_mac1_mac2 \<Rightarrow> 0x520 | res_mac1_mac2 \<Rightarrow> 0x528 | be_mac1_mac2 \<Rightarrow> 0x530
   | err_sc_mac1_mac2 \<Rightarrow> 0x538 | err_res_mac1_mac2 \<Rightarrow> 0x540 | err_be_mac1_mac2 \<Rightarrow> 0x548)"

definition get_memory_static_counter :: "axienet_local \<Rightarrow> mem_cntr \<Rightarrow> static_cntr" where
  "get_memory_static_counter lp c = read_cntr lp (mem_cntr_offset c)"

section \<open>The forwarding CAM\<close>

definition cam_ready :: "(nat \<Rightarrow> u32) \<Rightarrow> u32 \<times> nat" where
  "cam_ready rd = poll_while (\<lambda>v. v AND 0x1 = 0) rd 0 20000"

definition cam_done :: "(nat \<Rightarrow> u32) \<Rightarrow> u32 \<times> nat" where
  "cam_done rd = poll_while (\<lambda>v. v AND 0x1 \<noteq> 0) rd 0 20000"

definition cam_set_key :: "cam_struct \<Rightarrow> axienet_local \<Rightarrow> axienet_local" where
  "cam_set_key data lp =
     (let a = dest_addr data;
          lp = axienet_iow lp XAS_SDL_CAM_KEY1_OFFSET (word4 (a ! 0) (a ! 1) (a ! 2) (a ! 3))
      in axienet_iow lp XAS_SDL_CAM_KEY2_OFFSET
           (word2 (a ! 4) (a ! 5) OR push_bit 16 (ucast (vlanid data) AND 0xFFF)))"

definition cam_tv2 :: "cam_struct \<Rightarrow> u32" where
  "cam_tv2 data =
     (let a = src_addr data;
          tv2 = word2 (a ! 4) (a ! 5) OR push_bit 16 (ucast (tv_vlanid data) AND 0xFFF);
          en_ipv = (if flags data AND 0x1 \<noteq> 0 then 1 else 0)
      in tv2 OR push_bit 29 (ucast (ipv data) AND 0x7) OR push_bit 28 en_ipv)"

definition cam_port_action :: "bool \<Rightarrow> cam_struct \<Rightarrow> u32" where
  "cam_port_action qci_or_cb data =
     (let pa = (if fwd_port data AND PORT_EP \<noteq> 0 then push_bit 0 (ucast (ep_port_act data)) else 0);
          pa = (if fwd_port data AND PORT_MAC1 \<noteq> 0 \<or> fwd_port data AND PORT_MAC2 \<noteq> 0
                then pa OR push_bit 4 (ucast (mac_port_act data)) else pa);
          pa = (if flags data AND 0x2 \<noteq> 0 then pa OR 0x8000 else pa);
          pa = pa OR push_bit 8 (ucast (fwd_port data))
      in if qci_or_cb then pa OR push_bit 16 (ucast (cam_gate_id data)) else pa)"

text \<open>
  \<open>ep\<close> is \<open>None\<close> until the probe has found the endpoint's device. The test for the extended
  endpoint reads, with the precedence of C, \<open>(add and EX_ONLY) or EX_EP\<close>.
\<close>

definition tsn_switch_cam_set ::
  "bool \<Rightarrow> ep_local option \<Rightarrow> switch_hw \<Rightarrow> cam_struct \<Rightarrow> bool \<Rightarrow> axienet_local \<Rightarrow> (int \<times> axienet_local) checked"
where
  "tsn_switch_cam_set qci_or_cb ep hw data add lp =
     (if snd (cam_ready (cam_status_rd hw 0)) = 0 then Inr (- EINVAL, lp)
      else
        let ex_only = (fwd_port data AND PORT_EX_ONLY \<noteq> 0);
            ex_and_ep = (fwd_port data AND PORT_EX_EP \<noteq> 0);
            run = (let lp = cam_set_key data lp;
                       a = src_addr data;
                       lp = axienet_iow lp XAS_SDL_CAM_TV1_OFFSET (word4 (a ! 0) (a ! 1) (a ! 2) (a ! 3));
                       lp = axienet_iow lp XAS_SDL_CAM_TV2_OFFSET (cam_tv2 data);
                       lp = axienet_iow lp XAS_SDL_CAM_PORT_ACT_OFFSET (cam_port_action qci_or_cb data);
                       lp = axienet_iow lp XAS_SDL_CAM_CTRL_OFFSET (if add then 0x3 else 0x5);
                       lp = cam_exec hw lp
                   in if snd (cam_done (cam_ctrl_rd hw 0)) = 0 then (- EINVAL, lp) else (0, lp))
        in if (add \<and> ex_only) \<or> ex_and_ep
           then (case ep of
                   None \<Rightarrow> Inl NullPointer
                 | Some e \<Rightarrow>
                     if \<not> ex_ep e then Inr (- EINVAL, lp)
                     else if ex_only \<and> ex_and_ep \<and> \<not> packet_switch e then Inr (- EINVAL, lp)
                     else Inr run)
           else Inr run)"

definition port_vlan_mem_ctrl :: "u32 \<Rightarrow> axienet_local \<Rightarrow> axienet_local" where
  "port_vlan_mem_ctrl v lp = axienet_iow lp XAS_VLAN_MEMB_CTRL_REG v"

definition byte_at :: "nat \<Rightarrow> u32 \<Rightarrow> u8" where
  "byte_at n w = ucast (drop_bit n w AND 0xFF)"

text \<open>What a found entry makes of the structure that was asked for.\<close>

definition cam_entry_found :: "bool \<Rightarrow> axienet_local \<Rightarrow> cam_struct \<Rightarrow> cam_struct" where
  "cam_entry_found ex lp data =
     (let tv1 = axienet_ior lp XAS_SDL_CAM_TV1_OFFSET;
          tv2 = axienet_ior lp XAS_SDL_CAM_TV2_OFFSET;
          pa = axienet_ior lp XAS_SDL_CAM_PORT_ACT_OFFSET;
          fl = (if drop_bit 28 tv2 AND 0x1 \<noteq> 0 then flags data OR 0x1 else flags data)
      in data\<lparr>src_addr := [byte_at 24 tv1, byte_at 16 tv1, byte_at 8 tv1, byte_at 0 tv1,
                           byte_at 8 tv2, byte_at 0 tv2],
              tv_vlanid := ucast (drop_bit 16 tv2 AND 0xFFF),
              ipv := ucast (drop_bit 29 tv2 AND 0x7),
              fwd_port := (if ex then ucast (drop_bit 8 pa AND 0x1F) else ucast (drop_bit 8 pa AND 0x7)),
              ep_port_act := ucast (drop_bit 0 pa AND 0xF),
              mac_port_act := ucast (drop_bit 4 pa AND 0xF),
              cam_gate_id := ucast (drop_bit 16 pa AND 0xFF),
              flags := fl OR 0x4\<rparr>)"

text \<open>The entry copied to the user, when the copy succeeds. A timeout only prints a warning.\<close>

definition read_cam_entry ::
  "ep_local \<Rightarrow> switch_hw \<Rightarrow> bool \<Rightarrow> cam_struct \<Rightarrow> axienet_local \<Rightarrow> (int \<times> cam_struct option) \<times> axienet_local"
where
  "read_cam_entry ep hw copy_ok data lp =
     (let lp = cam_set_key data lp;
          lp = axienet_iow lp XAS_SDL_CAM_CTRL_OFFSET 0x7;
          lp = cam_exec hw lp;
          u_value = fst (cam_done (cam_ctrl_rd hw 0));
          data = (if u_value AND 0x80 \<noteq> 0 then cam_entry_found (ex_ep ep) lp data
                  else data\<lparr>flags := flags data AND NOT 0x4\<rparr>)
      in (if copy_ok then (0, Some data) else (- EINVAL, None), lp))"

section \<open>Address learning\<close>

definition set_mac_addr_learn :: "mac_addr_learn option \<Rightarrow> axienet_local \<Rightarrow> int \<times> axienet_local" where
  "set_mac_addr_learn arg lp =
     (case arg of
        None \<Rightarrow> (- EINVAL, lp)
      | Some m \<Rightarrow>
          let u = axienet_ior lp XAS_HW_ADDR_LEARN_CTRL_OFFSET;
              u = (if aging_time m \<noteq> 0
                   then (u AND NOT (push_bit 8 0xFFFFF)) OR push_bit 8 (aging_time m) else u);
              u = (if is_age m then (if \<not> aging m then u OR 0x4 else u AND NOT 0x4) else u);
              u = (if is_learn m then (if \<not> learning m then u OR 0x1 else u AND NOT 0x1) else u);
              u = (if is_untag m then (if learn_untag m then u OR 0x2 else u AND NOT 0x2) else u)
          in (0, axienet_iow lp XAS_HW_ADDR_LEARN_CTRL_OFFSET u))"

text \<open>The flags \<open>is_age\<close>, \<open>is_learn\<close> and \<open>is_untag\<close> of the copied structure are never written.\<close>

definition get_mac_addr_learn ::
  "bool \<Rightarrow> axienet_local \<Rightarrow> int \<times> (u32 \<times> bool \<times> bool \<times> bool) option" where
  "get_mac_addr_learn copy_ok lp =
     (let u = axienet_ior lp XAS_HW_ADDR_LEARN_CTRL_OFFSET
      in if copy_ok
         then (0, Some (drop_bit 8 u AND 0xFFFFF, u AND 0x4 \<noteq> 0, u AND 0x1 \<noteq> 0, u AND 0x2 \<noteq> 0))
         else (- EINVAL, None))"

definition learnt_entry :: "axienet_local \<Rightarrow> mac_learnt" where
  "learnt_entry lp =
     (let k1 = axienet_ior lp XAS_SDL_CAM_KEY1_OFFSET; k2 = axienet_ior lp XAS_SDL_CAM_KEY2_OFFSET
      in \<lparr>mac_addr = [byte_at 24 k1, byte_at 16 k1, byte_at 8 k1, byte_at 0 k1, byte_at 8 k2, byte_at 0 k2],
          learnt_vlan_id = ucast (drop_bit 16 k2 AND 0xFFF)\<rparr>)"

definition no_entry :: mac_learnt where
  "no_entry = \<lparr>mac_addr = [0, 0, 0, 0, 0, 0], learnt_vlan_id = 0\<rparr>"

text \<open>One key after the other from number \<open>i\<close> on; an entry that is not found stays zero.\<close>

fun learnt_loop :: "switch_hw \<Rightarrow> u32 \<Rightarrow> nat \<Rightarrow> nat \<Rightarrow> axienet_local \<Rightarrow> mac_learnt list \<times> axienet_local" where
  "learnt_loop hw base i 0 lp = ([], lp)"
| "learnt_loop hw base i (Suc n) lp =
     (let lp = axienet_iow lp XAS_SDL_CAM_CTRL_OFFSET (push_bit 8 (base + of_nat i) OR 0x1);
          lp = cam_exec hw lp;
          u_value = fst (cam_done (cam_ctrl_rd hw i));
          e = (if u_value AND 0x80 \<noteq> 0 then learnt_entry lp else no_entry);
          (es, lp) = learnt_loop hw base (Suc i) n lp
      in (e # es, lp))"

definition get_mac_addr_learnt_list ::
  "switch_hw \<Rightarrow> bool \<Rightarrow> u8 option \<Rightarrow> bool \<Rightarrow> axienet_local \<Rightarrow> (int \<times> mac_addr_list option) \<times> axienet_local"
where
  "get_mac_addr_learnt_list hw kzalloc_ok arg copy_ok lp =
     (if \<not> kzalloc_ok then ((- ENOMEM, None), lp)
      else case arg of
             None \<Rightarrow> ((- EINVAL, None), lp)
           | Some port \<Rightarrow>
               let u_value = fst (cam_ready (cam_status_rd hw 0));
                   n = (if port = PORT_MAC1 then ucast (drop_bit 8 u_value AND 0xFFF)
                        else ucast (drop_bit 20 u_value AND 0xFFF));
                   base = (if port = PORT_MAC1 then 0 else 0x800);
                   (es, lp) = learnt_loop hw base 0 2048 lp
               in (if copy_ok
                   then (0, Some \<lparr>list_port_num = port, num_list = n, learnt_list = es\<rparr>)
                   else (- EINVAL, None), lp))"

section \<open>Port state\<close>

text \<open>
  The bit number at which a port's state starts; its change bit is the one below. The wait for
  the change bit at the end of the setter only decides about a warning.
\<close>

definition status_shift :: "u8 \<Rightarrow> nat option" where
  "status_shift port =
     (if port = PORT_EP then Some 1 else if port = PORT_MAC1 then Some 9
      else if port = PORT_MAC2 then Some 17 else if port = PORT_EX_ONLY then Some 25 else None)"

definition tsn_switch_set_stp_state ::
  "ep_local \<Rightarrow> port_status \<Rightarrow> axienet_local \<Rightarrow> int \<times> axienet_local" where
  "tsn_switch_set_stp_state ep port lp =
     (let u = axienet_ior lp XAS_PORT_STATE_CTRL_OFFSET
      in if ps_port_num port = PORT_EX_ONLY \<and> \<not> ex_ep ep then (- EINVAL, lp)
         else
           let (u, chg) =
             (case status_shift (ps_port_num port) of
                None \<Rightarrow> (u, 1)
              | Some s \<Rightarrow>
                  if u AND push_bit (s - 1) 1 = 0
                  then ((u AND NOT (push_bit s 0x7)) OR push_bit s (ucast (ps_port_status port)),
                        push_bit (s - 1) 1)
                  else (u, 1))
           in (0, axienet_iow lp XAS_PORT_STATE_CTRL_OFFSET (u OR chg)))"

definition set_port_status :: "ep_local \<Rightarrow> port_status option \<Rightarrow> axienet_local \<Rightarrow> int \<times> axienet_local" where
  "set_port_status ep arg lp =
     (case arg of None \<Rightarrow> (- EINVAL, lp) | Some port \<Rightarrow> tsn_switch_set_stp_state ep port lp)"

definition get_port_status ::
  "ep_local \<Rightarrow> port_status option \<Rightarrow> bool \<Rightarrow> axienet_local \<Rightarrow> int \<times> port_status option" where
  "get_port_status ep arg copy_ok lp =
     (case arg of
        None \<Rightarrow> (- EINVAL, None)
      | Some port \<Rightarrow>
          let u = axienet_ior lp XAS_PORT_STATE_CTRL_OFFSET
          in if ps_port_num port = PORT_EX_ONLY \<and> \<not> ex_ep ep then (- EINVAL, None)
             else
               let port = (case status_shift (ps_port_num port) of
                             None \<Rightarrow> port
                           | Some s \<Rightarrow> port\<lparr>ps_port_status := ucast (drop_bit s u AND 0x7)\<rparr>)
               in if copy_ok then (0, Some port) else (- EINVAL, None))"

section \<open>VLAN membership and native VLANs\<close>

text \<open>
  A command for the membership memory of a VLAN: the hardware executes it, then the driver
  polls for its end with what is left of its timeout.
\<close>

definition vlan_command :: "switch_hw \<Rightarrow> u32 \<Rightarrow> axienet_local \<Rightarrow> axienet_local" where
  "vlan_command hw v lp = vlan_exec hw (axienet_iow lp XAS_VLAN_MEMB_CTRL_REG v)"

definition vlan_wait :: "switch_hw \<Rightarrow> nat \<Rightarrow> nat \<Rightarrow> u32 \<times> nat" where
  "vlan_wait hw k timeout = poll_while (\<lambda>v. v AND 0x1 \<noteq> 0) (vlan_ctrl_rd hw k) 0 timeout"

definition vlan_sel :: "u16 \<Rightarrow> u32" where
  "vlan_sel vid = push_bit 16 (ucast vid AND 0xFFF)"

text \<open>The data register is read before the read command for the VLAN is issued.\<close>

definition tsn_switch_vlan_add ::
  "switch_hw \<Rightarrow> port_vlan \<Rightarrow> bool \<Rightarrow> axienet_local \<Rightarrow> int \<times> axienet_local" where
  "tsn_switch_vlan_add hw port add lp =
     (let d = axienet_ior lp XAS_VLAN_MEMB_DATA_REG;
          learn = (d AND 0x200 = 0)
      in if learn \<and> pv_en_ipv port then (- EPERM, lp)
         else if \<not> learn \<and> pv_en_port_status port then (- EPERM, lp)
         else
           let lp = vlan_command hw (vlan_sel (pv_vlan_id port) OR 0x1) lp;
               d = (if add then d OR (0x8 OR ucast (pv_port_num port))
                    else d AND NOT (ucast (pv_port_num port)));
               lp = axienet_iow lp XAS_VLAN_MEMB_DATA_REG d;
               u = vlan_sel (pv_vlan_id port) OR 0x3;
               u = (if pv_en_port_status port
                    then u OR (push_bit 13 (ucast (pv_port_status port) AND 0x7) OR push_bit 12 1) else u);
               u = (if pv_en_ipv port
                    then u OR (push_bit 13 (ucast (pv_ipv port) AND 0x7) OR push_bit 12 1) else u)
           in (0, vlan_command hw u lp))"

definition add_del_port_vlan ::
  "switch_hw \<Rightarrow> port_vlan option \<Rightarrow> bool \<Rightarrow> axienet_local \<Rightarrow> int \<times> axienet_local" where
  "add_del_port_vlan hw arg add lp =
     (case arg of None \<Rightarrow> (- EINVAL, lp) | Some port \<Rightarrow> tsn_switch_vlan_add hw port add lp)"

definition vlan_learn_word :: "port_vlan \<Rightarrow> u32 \<Rightarrow> u32" where
  "vlan_learn_word port d =
     (let d = (if pv_aging_time port \<noteq> 0
               then (d AND NOT (push_bit 12 0xFFFFF)) OR push_bit 12 (pv_aging_time port) else d);
          d = (if pv_is_age port then (if pv_aging port then d OR 0x800 else d AND NOT 0x800) else d)
      in if pv_is_learn port then (if pv_learning port then d AND NOT 0x200 else d OR 0x200) else d)"

definition set_vlan_mac_addr_learn ::
  "switch_hw \<Rightarrow> port_vlan option \<Rightarrow> axienet_local \<Rightarrow> int \<times> axienet_local" where
  "set_vlan_mac_addr_learn hw arg lp =
     (case arg of
        None \<Rightarrow> (- EINVAL, lp)
      | Some port \<Rightarrow>
          let lp = vlan_command hw (vlan_sel (pv_vlan_id port) OR 0x1) lp;
              u = fst (vlan_wait hw 0 20000);
              d = axienet_ior lp XAS_VLAN_MEMB_DATA_REG;
              lp = axienet_iow lp XAS_VLAN_MEMB_DATA_REG (vlan_learn_word port d)
          in (0, vlan_command hw (u OR 0x3) lp))"

definition get_vlan_mac_addr_learn ::
  "bool \<Rightarrow> switch_hw \<Rightarrow> port_vlan option \<Rightarrow> bool \<Rightarrow> axienet_local \<Rightarrow> (int \<times> port_vlan option) \<times> axienet_local"
where
  "get_vlan_mac_addr_learn qci hw arg copy_ok lp =
     (case arg of
        None \<Rightarrow> ((- EINVAL, None), lp)
      | Some port \<Rightarrow>
          let lp = vlan_command hw (vlan_sel (pv_vlan_id port) OR 0x1) lp;
              c = fst (vlan_wait hw 0 20000);
              u = axienet_ior lp XAS_VLAN_MEMB_DATA_REG;
              port = port\<lparr>pv_aging_time := drop_bit 12 u AND 0xFFFFF, pv_aging := (u AND 0x800 \<noteq> 0),
                          pv_learning := (u AND 0x200 = 0), pv_port_num := ucast (u AND 0x7)\<rparr>;
              prio = ucast (drop_bit 13 c AND 0x7);
              en = (drop_bit 12 c AND 0x1 \<noteq> 0);
              port = (if \<not> qci then port
                      else if pv_learning port
                      then port\<lparr>pv_port_status := prio, pv_en_port_status := en\<rparr>
                      else port\<lparr>pv_ipv := prio, pv_en_ipv := en\<rparr>)
          in (if copy_ok then (0, Some port) else (- EINVAL, None), lp))"

definition pvid_word :: "nat \<Rightarrow> nat \<Rightarrow> native_vlan \<Rightarrow> u32 \<Rightarrow> u32" where
  "pvid_word vshift pshift port u =
     (let u = u AND NOT (push_bit vshift 0xFFF);
          u = u OR push_bit vshift (ucast (nv_vlan_id port))
      in if nv_en_ipv port
         then (u AND NOT (push_bit pshift 0x7)) OR push_bit pshift (ucast (nv_ipv port)) else u)"

text \<open>Register, position of the VLAN and position of the priority for each port.\<close>

definition pvid_place :: "u8 \<Rightarrow> (u32 \<times> nat \<times> nat) option" where
  "pvid_place port =
     (if port = PORT_EP then Some (XAS_EP_PORT_VLAN_OFFSET, 0, 13)
      else if port = PORT_MAC1 then Some (XAS_MAC_PORT_VLAN_OFFSET, 0, 13)
      else if port = PORT_MAC2 then Some (XAS_MAC_PORT_VLAN_OFFSET, 16, 29)
      else None)"

definition tsn_switch_pvid_add :: "native_vlan \<Rightarrow> axienet_local \<Rightarrow> int \<times> axienet_local" where
  "tsn_switch_pvid_add port lp =
     (case pvid_place (nv_port_num port) of
        None \<Rightarrow> (0, lp)
      | Some (r, v, p) \<Rightarrow> (0, axienet_iow lp r (pvid_word v p port (axienet_ior lp r))))"

definition set_native_vlan :: "native_vlan option \<Rightarrow> axienet_local \<Rightarrow> int \<times> axienet_local" where
  "set_native_vlan arg lp = (case arg of None \<Rightarrow> (- EINVAL, lp) | Some port \<Rightarrow> tsn_switch_pvid_add port lp)"

definition tsn_switch_pvid_get :: "native_vlan \<Rightarrow> axienet_local \<Rightarrow> int \<times> native_vlan" where
  "tsn_switch_pvid_get port lp =
     (case pvid_place (nv_port_num port) of
        None \<Rightarrow> (0, port)
      | Some (r, v, p) \<Rightarrow>
          let u = axienet_ior lp r
          in (0, port\<lparr>nv_vlan_id := ucast (drop_bit v u AND 0xFFF), nv_ipv := ucast (drop_bit p u AND 0x7)\<rparr>))"

definition get_native_vlan :: "native_vlan option \<Rightarrow> bool \<Rightarrow> axienet_local \<Rightarrow> int \<times> native_vlan option" where
  "get_native_vlan arg copy_ok lp =
     (case arg of
        None \<Rightarrow> (- EINVAL, None)
      | Some port \<Rightarrow> if copy_ok then (0, Some (snd (tsn_switch_pvid_get port lp))) else (- EINVAL, None))"

section \<open>Start-up\<close>

text \<open>The priority map: a nibble per priority code point, the egress queue.\<close>

fun pmap_loop :: "bool \<Rightarrow> u8 \<Rightarrow> u8 \<Rightarrow> nat \<Rightarrow> nat \<Rightarrow> u32 \<Rightarrow> u32" where
  "pmap_loop three st res i 0 pmap = pmap"
| "pmap_loop three st res i (Suc n) pmap =
     (let pmap = (if st AND push_bit i 1 \<noteq> 0
                  then pmap OR push_bit (4 * i) (if three then 0x2 else 0x1)
                  else if three \<and> res AND push_bit i 1 \<noteq> 0 then pmap OR push_bit (4 * i) 0x1
                  else pmap)
      in pmap_loop three st res (Suc i) n pmap)"

definition tsn_switch_cam_init :: "u8 \<Rightarrow> u8 \<Rightarrow> u16 \<Rightarrow> axienet_local \<Rightarrow> int \<times> axienet_local" where
  "tsn_switch_cam_init st_pcp res_pcp num_q lp =
     (0, axienet_iow lp XAS_PMAP_OFFSET (pmap_loop (num_q = 3) st_pcp res_pcp 0 8 0))"

definition tsn_switch_set_src_mac_filter :: "u8 list \<Rightarrow> nat \<Rightarrow> axienet_local \<Rightarrow> axienet_local" where
  "tsn_switch_set_src_mac_filter mac port lp =
     (let shift = (if port = 1 then 12 else 20);
          val = axienet_ior lp XAS_PORT_STATE_CTRL_OFFSET;
          val = val AND NOT (push_bit shift 0xF);
          val = val OR push_bit shift (ucast (mac ! 5) AND 0xF)
      in axienet_iow lp XAS_PORT_STATE_CTRL_OFFSET val)"

fun src_mac_filters :: "(nat \<Rightarrow> u8 list option) \<Rightarrow> nat list \<Rightarrow> axienet_local \<Rightarrow> bool \<times> axienet_local" where
  "src_mac_filters macs [] lp = (True, lp)"
| "src_mac_filters macs (p # ps) lp =
     (case macs p of
        None \<Rightarrow> (False, lp)
      | Some m \<Rightarrow> src_mac_filters macs ps (tsn_switch_set_src_mac_filter m p lp))"

text \<open>The entry for management frames to a destination; only the destination changes.\<close>

definition mgmt_cam :: "u8 list \<Rightarrow> cam_struct" where
  "mgmt_cam dest =
     \<lparr>src_addr = [0, 0, 0, 0, 0, 0], dest_addr = dest, vlanid = 1, tv_vlanid = 0, fwd_port = 7,
      cam_gate_id = 0, ipv = 0, flags = 0 OR 0x2, ep_port_act = 0, mac_port_act = 0\<rparr>"

definition mgmt_dests :: "u8 list list" where
  "mgmt_dests =
     [[0x01, 0x80, 0xc2, 0x00, 0x00, 0x00], [0x01, 0x80, 0xc2, 0x00, 0x00, 0x0e],
      [0x01, 0x00, 0x0c, 0xcc, 0xcc, 0xcc], [0x01, 0x00, 0x5e, 0x00, 0x01, 0x81],
      [0x01, 0x00, 0x5e, 0x00, 0x00, 0x6b]]"

text \<open>A failed entry is only reported; \<open>hws k\<close> answers the \<open>k\<close>-th of the calls.\<close>

fun add_mgmt_cams ::
  "bool \<Rightarrow> ep_local option \<Rightarrow> (nat \<Rightarrow> switch_hw) \<Rightarrow> nat \<Rightarrow> u8 list list \<Rightarrow> axienet_local \<Rightarrow> axienet_local checked"
where
  "add_mgmt_cams qc ep hws k [] lp = Inr lp"
| "add_mgmt_cams qc ep hws k (d # ds) lp =
     (case tsn_switch_cam_set qc ep (hws k) (mgmt_cam d) True lp of
        Inl f \<Rightarrow> Inl f
      | Inr (r, lp) \<Rightarrow> add_mgmt_cams qc ep hws (Suc k) ds lp)"

text \<open>
  \<open>num_ports\<close> and the addresses of the network ports come from the device tree. With fewer
  than two ports the loop does not run and the address pointer is still null.
\<close>

definition tsn_switch_fdb_init ::
  "bool \<Rightarrow> ep_local option \<Rightarrow> (nat \<Rightarrow> switch_hw) \<Rightarrow> u16 option \<Rightarrow> (nat \<Rightarrow> u8 list option) \<Rightarrow>
   axienet_local \<Rightarrow> (int \<times> axienet_local) checked"
where
  "tsn_switch_fdb_init qc ep hws num_ports macs lp =
     (case num_ports of
        None \<Rightarrow> Inr (- 1, lp)
      | Some n \<Rightarrow>
          let lp = axienet_iow lp XAS_MNG_Q_CTRL_OFFSET (axienet_ior lp XAS_MNG_Q_CTRL_OFFSET OR push_bit 4 1);
              (ok, lp) = src_mac_filters macs [1..<unat n] lp
          in if \<not> ok then Inr (- 1, lp)
             else if unat n < 2 then Inl NullPointer
             else
               let m = the (macs (unat n - 1));
                   lp = axienet_iow lp XAS_MAC_LSB_OFFSET (word4 (m ! 2) (m ! 3) (m ! 4) (m ! 5));
                   lp = axienet_iow lp XAS_MAC_MSB_OFFSET (push_bit 16 0xF OR word2 (m ! 0) (m ! 1))
               in case add_mgmt_cams qc ep hws 0 mgmt_dests lp of
                    Inl f \<Rightarrow> Inl f
                  | Inr lp \<Rightarrow>
                      Inr (0, axienet_iow lp XAS_MNG_Q_CTRL_OFFSET
                                (axienet_ior lp XAS_MNG_Q_CTRL_OFFSET OR push_bit 3 1)))"

section \<open>The ioctl\<close>

text \<open>
  A command with the structure its handler copies from user space, \<open>None\<close> when that copy
  fails; and the structures copied back.
\<close>

datatype switch_cmd =
    GET_STATUS_SWITCH switch_data
  | SET_STATUS_SWITCH "switch_data option"
  | ADD_CAM_ENTRY "cam_struct option"
  | DELETE_CAM_ENTRY "cam_struct option"
  | PORT_VLAN_MEM_CTRL "switch_data option"
  | SET_FRAME_TYPE_FIELD "switch_data option"
  | SET_MAC1_MNGMNT_Q_CONFIG "switch_data option"
  | SET_MAC2_MNGMNT_Q_CONFIG "switch_data option"
  | READ_CAM_ENTRY "cam_struct option"
  | SET_MAC_ADDR_LEARN_CONFIG "mac_addr_learn option"
  | GET_MAC_ADDR_LEARN_CONFIG
  | GET_MAC_ADDR_LEARNT_LIST bool "u8 option"
  | SET_PORT_STATUS "port_status option"
  | GET_PORT_STATUS "port_status option"
  | ADD_PORT_VLAN "port_vlan option"
  | DEL_PORT_VLAN "port_vlan option"
  | SET_VLAN_MAC_ADDR_LEARN_CONFIG "port_vlan option"
  | GET_VLAN_MAC_ADDR_LEARN_CONFIG "port_vlan option"
  | GET_VLAN_MAC_ADDR_LEARN_CONFIG_VLANM "port_vlan option"
  | SET_PORT_NATIVE_VLAN "native_vlan option"
  | GET_PORT_NATIVE_VLAN "native_vlan option"
  | CONFIG_METER_MEM "meter_config option"
  | CONFIG_GATE_MEM "stream_filter option"
  | PSFP_CONTROL "psfp_config option"
  | GET_STATIC_PSFP_COUNTER "u8 option"
  | GET_METER_REG
  | GET_STREAM_FLTR_CONFIG
  | CONFIG_MEMBER_MEM "cb_data option"
  | CONFIG_INGRESS_FLTR "cb_data option"
  | FRER_CONTROL "frer_ctrl option"
  | GET_STATIC_FRER_COUNTER "u8 option"
  | GET_MEMBER_REG
  | GET_INGRESS_FLTR

datatype switch_reply =
    NoReply
  | StatusReply switch_data "mem_cntr \<Rightarrow> static_cntr"
  | CamReply cam_struct
  | LearnReply "u32 \<times> bool \<times> bool \<times> bool"
  | LearntReply mac_addr_list
  | PortReply port_status
  | VlanReply port_vlan
  | NativeReply native_vlan
  | PsfpCounterReply psfp_static_counter
  | MeterReply meter_config
  | FilterReply stream_filter
  | FrerCounterReply frer_static_counter
  | MemberReply frer_memb_config
  | IngressReply in_fltr

record switch_cfg =
  qci_on :: bool
  cb_on :: bool
  en_hw_addr_learning :: bool

text \<open>A handler's result: return value, reply and device, or a fault, or no return at all.\<close>

type_synonym ioctl_result = "((int \<times> switch_reply) \<times> axienet_local) checked option"

definition io_done :: "int \<Rightarrow> axienet_local \<Rightarrow> ioctl_result" where
  "io_done r lp = Some (Inr ((r, NoReply), lp))"

definition io_with :: "'a option \<Rightarrow> ('a \<Rightarrow> axienet_local \<Rightarrow> axienet_local) \<Rightarrow> axienet_local \<Rightarrow> ioctl_result" where
  "io_with arg f lp = (case arg of None \<Rightarrow> io_done (- EINVAL) lp | Some x \<Rightarrow> io_done 0 (f x lp))"

definition io_reply :: "('a \<Rightarrow> switch_reply) \<Rightarrow> int \<times> 'a option \<Rightarrow> axienet_local \<Rightarrow> ioctl_result" where
  "io_reply f r lp = Some (Inr ((fst r, case snd r of None \<Rightarrow> NoReply | Some x \<Rightarrow> f x), lp))"

definition io_copy :: "bool \<Rightarrow> switch_reply \<Rightarrow> axienet_local \<Rightarrow> ioctl_result" where
  "io_copy copy_ok x lp = (if copy_ok then Some (Inr ((0, x), lp)) else io_done (- EINVAL) lp)"

definition io_cam ::
  "switch_cfg \<Rightarrow> ep_local \<Rightarrow> switch_hw \<Rightarrow> cam_struct option \<Rightarrow> bool \<Rightarrow> axienet_local \<Rightarrow> ioctl_result" where
  "io_cam cfg ep hw arg add lp =
     (case arg of
        None \<Rightarrow> io_done (- EINVAL) lp
      | Some data \<Rightarrow>
          (case tsn_switch_cam_set (qci_on cfg \<or> cb_on cfg) (Some ep) hw data add lp of
             Inl f \<Rightarrow> Some (Inl f)
           | Inr (r, lp) \<Rightarrow> io_done (if r \<noteq> 0 then - EINVAL else 0) lp))"

definition io_vlan :: "int \<times> axienet_local \<Rightarrow> ioctl_result" where
  "io_vlan x = (case x of (r, lp) \<Rightarrow> io_done (if r < 0 then - EPERM else 0) lp)"

definition io_learn :: "switch_cfg \<Rightarrow> axienet_local \<Rightarrow> ioctl_result \<Rightarrow> ioctl_result" where
  "io_learn cfg lp x = (if \<not> en_hw_addr_learning cfg then io_done (- EPERM) lp else x)"

text \<open>The commands of the policing and redundancy cores; without the core a command does nothing.\<close>

definition switch_ioctl_tsn ::
  "switch_cfg \<Rightarrow> switch_hw \<Rightarrow> bool \<Rightarrow> switch_cmd \<Rightarrow> axienet_local \<Rightarrow> ioctl_result" where
  "switch_ioctl_tsn cfg hw copy_ok cmd lp =
     (case cmd of
        CONFIG_METER_MEM arg \<Rightarrow>
          if qci_on cfg then io_with arg program_meter_reg lp else io_done 0 lp
      | CONFIG_GATE_MEM arg \<Rightarrow>
          if qci_on cfg then io_with arg config_stream_filter lp else io_done 0 lp
      | PSFP_CONTROL arg \<Rightarrow>
          if qci_on cfg then io_with arg (\<lambda>d lp. snd (psfp_control d (psfp_rd hw) lp)) lp else io_done 0 lp
      | GET_STATIC_PSFP_COUNTER arg \<Rightarrow>
          if qci_on cfg
          then (case arg of
                  None \<Rightarrow> io_done (- EINVAL) lp
                | Some num \<Rightarrow> io_copy copy_ok (PsfpCounterReply (get_psfp_static_counter lp num)) lp)
          else io_done 0 lp
      | GET_METER_REG \<Rightarrow>
          if qci_on cfg then io_copy copy_ok (MeterReply (get_meter_reg lp)) lp else io_done 0 lp
      | GET_STREAM_FLTR_CONFIG \<Rightarrow>
          if qci_on cfg then io_copy copy_ok (FilterReply (get_stream_filter_config lp)) lp else io_done 0 lp
      | CONFIG_MEMBER_MEM arg \<Rightarrow>
          if cb_on cfg then io_with arg program_member_reg lp else io_done 0 lp
      | CONFIG_INGRESS_FLTR arg \<Rightarrow>
          if cb_on cfg then io_with arg config_ingress_filter lp else io_done 0 lp
      | FRER_CONTROL arg \<Rightarrow>
          if cb_on cfg
          then (case arg of
                  None \<Rightarrow> io_done (- EINVAL) lp
                | Some d \<Rightarrow> (case frer_control d (frer_rd hw) lp of None \<Rightarrow> None | Some lp \<Rightarrow> io_done 0 lp))
          else io_done 0 lp
      | GET_STATIC_FRER_COUNTER arg \<Rightarrow>
          if cb_on cfg
          then (case arg of
                  None \<Rightarrow> io_done (- EINVAL) lp
                | Some num \<Rightarrow> io_copy copy_ok (FrerCounterReply (get_frer_static_counter lp num)) lp)
          else io_done 0 lp
      | GET_MEMBER_REG \<Rightarrow>
          if cb_on cfg then io_copy copy_ok (MemberReply (get_member_reg lp)) lp else io_done 0 lp
      | GET_INGRESS_FLTR \<Rightarrow>
          if cb_on cfg then io_copy copy_ok (IngressReply (get_ingress_filter_config lp)) lp
          else io_done 0 lp
      | _ \<Rightarrow> io_done 0 lp)"

definition switch_ioctl ::
  "switch_cfg \<Rightarrow> ep_local \<Rightarrow> switch_hw \<Rightarrow> bool \<Rightarrow> switch_cmd \<Rightarrow> axienet_local \<Rightarrow> ioctl_result" where
  "switch_ioctl cfg ep hw copy_ok cmd lp =
     (case cmd of
        GET_STATUS_SWITCH data \<Rightarrow>
          io_copy copy_ok (StatusReply (get_switch_regs lp data) (get_memory_static_counter lp)) lp
      | SET_STATUS_SWITCH arg \<Rightarrow> io_with arg set_switch_regs lp
      | ADD_CAM_ENTRY arg \<Rightarrow> io_cam cfg ep hw arg True lp
      | DELETE_CAM_ENTRY arg \<Rightarrow> io_cam cfg ep hw arg False lp
      | PORT_VLAN_MEM_CTRL arg \<Rightarrow> io_with arg (\<lambda>d. port_vlan_mem_ctrl (port_vlan_mem_ctrl_val d)) lp
      | SET_FRAME_TYPE_FIELD arg \<Rightarrow> io_with arg (\<lambda>d. set_frame_filter_opt (type1 d) (type2 d)) lp
      | SET_MAC1_MNGMNT_Q_CONFIG arg \<Rightarrow> io_with arg (\<lambda>d. set_mac1_mngmntq (mac1_config d)) lp
      | SET_MAC2_MNGMNT_Q_CONFIG arg \<Rightarrow> io_with arg (\<lambda>d. set_mac2_mngmntq (mac2_config d)) lp
      | READ_CAM_ENTRY arg \<Rightarrow>
          (case arg of
             None \<Rightarrow> io_done (- EINVAL) lp
           | Some data \<Rightarrow> (case read_cam_entry ep hw copy_ok data lp of (r, lp) \<Rightarrow> io_reply CamReply r lp))
      | SET_MAC_ADDR_LEARN_CONFIG arg \<Rightarrow>
          io_learn cfg lp (case set_mac_addr_learn arg lp of (r, lp) \<Rightarrow> io_done r lp)
      | GET_MAC_ADDR_LEARN_CONFIG \<Rightarrow> io_learn cfg lp (io_reply LearnReply (get_mac_addr_learn copy_ok lp) lp)
      | GET_MAC_ADDR_LEARNT_LIST kzalloc_ok arg \<Rightarrow>
          io_learn cfg lp
            (case get_mac_addr_learnt_list hw kzalloc_ok arg copy_ok lp of (r, lp) \<Rightarrow> io_reply LearntReply r lp)
      | SET_PORT_STATUS arg \<Rightarrow> io_learn cfg lp (case set_port_status ep arg lp of (r, lp) \<Rightarrow> io_done r lp)
      | GET_PORT_STATUS arg \<Rightarrow> io_learn cfg lp (io_reply PortReply (get_port_status ep arg copy_ok lp) lp)
      | ADD_PORT_VLAN arg \<Rightarrow> io_vlan (add_del_port_vlan hw arg True lp)
      | DEL_PORT_VLAN arg \<Rightarrow> io_vlan (add_del_port_vlan hw arg False lp)
      | SET_VLAN_MAC_ADDR_LEARN_CONFIG arg \<Rightarrow>
          io_learn cfg lp (case set_vlan_mac_addr_learn hw arg lp of (r, lp) \<Rightarrow> io_done r lp)
      | GET_VLAN_MAC_ADDR_LEARN_CONFIG arg \<Rightarrow>
          io_learn cfg lp
            (case get_vlan_mac_addr_learn (qci_on cfg) hw arg copy_ok lp of (r, lp) \<Rightarrow> io_reply VlanReply r lp)
      | GET_VLAN_MAC_ADDR_LEARN_CONFIG_VLANM arg \<Rightarrow>
          (case get_vlan_mac_addr_learn (qci_on cfg) hw arg copy_ok lp of (r, lp) \<Rightarrow> io_reply VlanReply r lp)
      | SET_PORT_NATIVE_VLAN arg \<Rightarrow> (case set_native_vlan arg lp of (r, lp) \<Rightarrow> io_done r lp)
      | GET_PORT_NATIVE_VLAN arg \<Rightarrow> io_reply NativeReply (get_native_vlan arg copy_ok lp) lp
      | _ \<Rightarrow> switch_ioctl_tsn cfg hw copy_ok cmd lp)"

end
