(* ===== verification/Endpoint.thy ===== *)
theory Endpoint
  imports Tadma_Xmit Shaper Switch
begin

text \<open>
  The endpoint driver, \<^verbatim>\<open>driver/xilinx/xilinx_tsn_ep.c\<close>, as far as it decides where a packet
  or a request goes: the queue of a packet, the masks of priority code points that the module
  parameters give, the transmit routine and the ioctl. Its probe, open and close routines set
  up DMA channels and are not modelled.
\<close>

abbreviation (input) BE_QUEUE_NUMBER :: u16 where "BE_QUEUE_NUMBER \<equiv> 0"
abbreviation (input) RES_QUEUE_NUMBER :: u16 where "RES_QUEUE_NUMBER \<equiv> 1"
abbreviation (input) ST_QUEUE_NUMBER :: u16 where "ST_QUEUE_NUMBER \<equiv> 2"

section \<open>Priority code points\<close>

text \<open>The loop over a parameter array: the mask so far, and whether a value was out of range.\<close>

fun pcp_mask :: "u8 list \<Rightarrow> u8 \<Rightarrow> u8 \<times> bool" where
  "pcp_mask [] m = (m, False)"
| "pcp_mask (p # ps) m = (if p \<ge> 8 then (m, True) else pcp_mask ps (m OR push_bit (unat p) 1))"

definition pcp_param :: "u8 list \<Rightarrow> u8 \<Rightarrow> u8" where
  "pcp_param ps def =
     (if length ps = 0 \<or> length ps > 8 then def
      else let (m, invalid_pcp) = pcp_mask ps 0 in if invalid_pcp then def else m)"

text \<open>The masks for scheduled and for reserved traffic, from the two module parameters.\<close>

definition axienet_get_pcp_mask :: "u8 list \<Rightarrow> u8 list \<Rightarrow> u16 \<Rightarrow> u8 \<times> u8" where
  "axienet_get_pcp_mask st_pcp res_pcp tc =
     (pcp_param st_pcp (push_bit 4 1),
      if tc = 3 then pcp_param res_pcp (push_bit 2 1 OR push_bit 3 1) else 0)"

section \<open>Queue selection and transmission\<close>

text \<open>The headers the driver looks at: the Ethernet type and the protocol of an IP header.\<close>

record frame_hdr =
  ether_type :: u16
  ip_protocol :: u8

definition axienet_tsn_pcp_to_queue :: "bool \<Rightarrow> frame_hdr \<Rightarrow> u16" where
  "axienet_tsn_pcp_to_queue has_tadma hdr =
     (if ether_type hdr = 0x0800
      then if has_tadma \<and> ip_protocol hdr = 17 then ST_QUEUE_NUMBER else RES_QUEUE_NUMBER
      else BE_QUEUE_NUMBER)"

text \<open>
  \<open>axienet_queue_xmit\<close> drives the multi-channel DMA, which is not modelled: it is the argument
  \<open>queue_xmit\<close>, on a device state of its own.
\<close>

definition tsn_ep_xmit ::
  "(u64 \<Rightarrow> u8 \<Rightarrow> u32) \<Rightarrow> bool \<Rightarrow> bool \<Rightarrow> (sk_buff \<Rightarrow> u16 \<Rightarrow> 'm \<Rightarrow> netdev_tx \<times> 'm) \<Rightarrow> sk_buff \<Rightarrow> u16 \<Rightarrow>
   tadma_local \<times> 'm \<Rightarrow> (netdev_tx \<times> tadma_local \<times> 'm) checked"
where
  "tsn_ep_xmit h dma64 tadma_on queue_xmit skb q s =
     (case s of (d, m) \<Rightarrow>
        if tadma_on \<and> q = ST_QUEUE_NUMBER
        then (case axienet_tadma_xmit h dma64 skb q d of
                Inl f \<Rightarrow> Inl f
              | Inr (r, d) \<Rightarrow> Inr (r, d, m))
        else let (r, m) = queue_xmit skb q m in Inr (r, d, m))"

section \<open>The ioctl\<close>

datatype ep_cmd =
    SIOCCHIOCTL "qbv_info option"
  | SIOC_GET_SCHED "qbv_info option" bool
  | SIOC_TADMA_OFF
  | SIOC_TADMA_STR_ADD "tadma_stream option"
  | SIOC_TADMA_PROG_ALL
  | SIOC_TADMA_STR_FLUSH
  | SIOC_OTHER u32

record ep_dev =
  ep_qbv :: axienet_local
  ep_tadma :: tadma_local

record ep_cfg =
  has_qbv :: bool
  has_tadma :: bool

text \<open>The return value, the schedule copied to the user if any, and the device.\<close>

type_synonym ep_result = "(int \<times> qbv_info option \<times> ep_dev) checked"

definition on_tadma :: "ep_dev \<Rightarrow> (int \<times> tadma_local) checked \<Rightarrow> ep_result" where
  "on_tadma e r = (case r of Inl f \<Rightarrow> Inl f | Inr (v, d) \<Rightarrow> Inr (v, None, e\<lparr>ep_tadma := d\<rparr>))"

definition tsn_ep_ioctl ::
  "(u64 \<Rightarrow> u8 \<Rightarrow> u32) \<Rightarrow> ep_cfg \<Rightarrow> bool \<Rightarrow> ep_cmd \<Rightarrow> ep_dev \<Rightarrow> ep_result" where
  "tsn_ep_ioctl h cfg alloc_ok cmd e =
     (let unsupported = Inr (- EOPNOTSUPP, None, e)
      in case cmd of
           SIOCCHIOCTL arg \<Rightarrow>
             if has_qbv cfg
             then (case axienet_set_schedule alloc_ok arg (ep_qbv e) of
                     Inl f \<Rightarrow> Inl f
                   | Inr (v, lp) \<Rightarrow> Inr (v, None, e\<lparr>ep_qbv := lp\<rparr>))
             else unsupported
         | SIOC_GET_SCHED arg copy_ok \<Rightarrow>
             if has_qbv cfg
             then (case axienet_get_schedule alloc_ok arg copy_ok (ep_qbv e) of
                     Inl f \<Rightarrow> Inl f
                   | Inr (v, q) \<Rightarrow> Inr (v, q, e))
             else unsupported
         | SIOC_TADMA_OFF \<Rightarrow>
             if has_tadma cfg then on_tadma e (Inr (axienet_tadma_off (ep_tadma e))) else unsupported
         | SIOC_TADMA_STR_ADD arg \<Rightarrow>
             if has_tadma cfg then on_tadma e (axienet_tadma_add_stream h arg alloc_ok (ep_tadma e))
             else unsupported
         | SIOC_TADMA_PROG_ALL \<Rightarrow>
             if has_tadma cfg then on_tadma e (axienet_tadma_program (ep_tadma e)) else unsupported
         | SIOC_TADMA_STR_FLUSH \<Rightarrow>
             if has_tadma cfg then on_tadma e (axienet_tadma_flush_stream (ep_tadma e)) else unsupported
         | SIOC_OTHER n \<Rightarrow> unsupported)"

section \<open>Lemmas\<close>

lemma pcp_mask_bits:
  "pcp_mask ps m = (r, False) \<Longrightarrow> bit r k \<longleftrightarrow> bit m k \<or> (\<exists>p\<in>set ps. unat p = k)"
proof (induction ps arbitrary: m)
  case (Cons p ps)
  then have p: "\<not> p \<ge> 8" "pcp_mask ps (m OR push_bit (unat p) 1) = (r, False)" by (auto split: if_splits)
  then have "unat p < 8" by (simp add: word_le_nat_alt)
  then have "bit (push_bit (unat p) 1 :: u8) k \<longleftrightarrow> unat p = k" by (auto simp: bit_simps)
  then show ?case using Cons.IH [OF p(2)] by (auto simp: bit_or_iff)
qed simp

lemma pcp_mask_valid: "(\<forall>p\<in>set ps. p < 8) \<longleftrightarrow> \<not> snd (pcp_mask ps m)"
  by (induction ps arbitrary: m) (auto simp: not_le)

end
