(* ===== verification/Tadma_Prog.thy ===== *)
theory Tadma_Prog
  imports Endpoint "HOL-Library.Multiset"
begin

text \<open>
  The configuration tool of the time-aware DMA, \<^verbatim>\<open>app/misc-utils/tadma_prog.c\<close>: its command
  line, and the step from a list of configured streams to the requests it makes of the
  endpoint driver. Reading the configuration file (libconfig) is not modelled: the list of
  settings is an argument. So is the C library's \<open>qsort\<close>, with its contract as a predicate. What
  the tool prints is left out.
\<close>

section \<open>Command line\<close>

datatype prog_action =
    Usage
  | Off string
  | Configure string string

definition get_interface :: "string \<Rightarrow> int" where
  "get_interface a = (if a = ''eth1'' then 1 else if a = ''ep'' then 0 else - 1)"

text \<open>The arguments after the program's name.\<close>

definition parse_args :: "string list \<Rightarrow> prog_action" where
  "parse_args args =
     (let argc = length args + 1
      in if argc < 2 \<or> argc > 4 then Usage
         else if argc = 4 \<and> args ! 0 = ''-c''
         then if get_interface (args ! 1) < 0 then Usage else Configure (args ! 1) (args ! 2)
         else if argc = 3 \<and> args ! 1 = ''off''
         then if get_interface (args ! 0) < 0 then Usage else Off (args ! 0)
         else if argc = 3 \<or> argc = 4 then Usage
         else if get_interface (args ! 0) < 0 then Usage
         else Configure (args ! 0) ''/etc/streams.cfg'')"

section \<open>Requests to the driver\<close>

text \<open>A failed request is only reported; the tool goes on.\<close>

definition app_ioctl ::
  "(u64 \<Rightarrow> u8 \<Rightarrow> u32) \<Rightarrow> ep_cfg \<Rightarrow> bool \<Rightarrow> ep_cmd \<Rightarrow> ep_dev \<Rightarrow> ep_dev checked" where
  "app_ioctl h cfg alloc_ok cmd e =
     (case tsn_ep_ioctl h cfg alloc_ok cmd e of Inl f \<Rightarrow> Inl f | Inr (r, q, e) \<Rightarrow> Inr e)"

definition change_to_continuous :: "(u64 \<Rightarrow> u8 \<Rightarrow> u32) \<Rightarrow> ep_cfg \<Rightarrow> ep_dev \<Rightarrow> ep_dev checked" where
  "change_to_continuous h cfg e = app_ioctl h cfg True SIOC_TADMA_OFF e"

definition flush_stream :: "(u64 \<Rightarrow> u8 \<Rightarrow> u32) \<Rightarrow> ep_cfg \<Rightarrow> ep_dev \<Rightarrow> ep_dev checked" where
  "flush_stream h cfg e = app_ioctl h cfg True SIOC_TADMA_STR_FLUSH e"

definition add_stream ::
  "(u64 \<Rightarrow> u8 \<Rightarrow> u32) \<Rightarrow> ep_cfg \<Rightarrow> bool \<Rightarrow> tadma_stream \<Rightarrow> ep_dev \<Rightarrow> ep_dev checked" where
  "add_stream h cfg alloc_ok st e = app_ioctl h cfg alloc_ok (SIOC_TADMA_STR_ADD (Some st)) e"

definition program_all_streams :: "(u64 \<Rightarrow> u8 \<Rightarrow> u32) \<Rightarrow> ep_cfg \<Rightarrow> ep_dev \<Rightarrow> ep_dev checked" where
  "program_all_streams h cfg e = app_ioctl h cfg True SIOC_TADMA_PROG_ALL e"

section \<open>Programming the configured streams\<close>

text \<open>
  A setting of the list \<open>streams\<close>: the numbers that \<open>sscanf\<close> converts from its address (\<open>None\<close>
  when the setting has none), and what its other variables hold after the lookups.
\<close>

record stream_setting =
  set_ip :: "s32 list option"
  set_comid :: u32
  set_trigger :: u32
  set_count :: u32

text \<open>
  \<open>sscanf(ip_buf, "%d.%d.%d.%d", &ip[0], &ip[1], &ip[2], &ip[3])\<close>: each conversion stores a whole
  \<open>int\<close> at the address it is given, low byte first. The array has four bytes, so every
  conversion but the first writes past its end.
\<close>

definition int_bytes :: "s32 \<Rightarrow> u8 list" where
  "int_bytes v = [ucast v, ucast (drop_bit 8 v), ucast (drop_bit 16 v), ucast (drop_bit 24 v)]"

fun scan_ip :: "nat \<Rightarrow> s32 list \<Rightarrow> u8 list \<Rightarrow> u8 list checked" where
  "scan_ip k [] a = Inr a"
| "scan_ip k (v # vs) a =
     (if k + 4 \<le> length a then scan_ip (Suc k) vs (take k a @ int_bytes v @ drop (k + 4) a)
      else Inl OutOfBounds)"

text \<open>
  The \<open>i\<close>-th stream. Without an address the entry keeps what \<open>malloc\<close> left in it, which is
  the argument \<open>junk\<close>; \<open>frame\<close> is what the array \<open>ip\<close> holds before the address is read. The
  \<open>start\<close> flag tests the low eight bits of the index.
\<close>

definition build_stream ::
  "(nat \<Rightarrow> tadma_stream) \<Rightarrow> (nat \<Rightarrow> u8 list) \<Rightarrow> nat \<Rightarrow> stream_setting \<Rightarrow> tadma_stream checked" where
  "build_stream junk frame i c =
     (case set_ip c of
        None \<Rightarrow> Inr (junk i)
      | Some ns \<Rightarrow>
          (case scan_ip 0 (take 4 ns) (frame i) of
             Inl f \<Rightarrow> Inl f
           | Inr a \<Rightarrow> Inr \<lparr>ip = a, comid = set_comid c, trigger = set_trigger c, ts_count = set_count c,
                          start = (if (of_nat i :: u8) \<noteq> 0 then 0 else 1)\<rparr>))"

text \<open>The loop over the settings; a count above 4 ends the program before anything is sent.\<close>

fun build_streams ::
  "(nat \<Rightarrow> tadma_stream) \<Rightarrow> (nat \<Rightarrow> u8 list) \<Rightarrow> nat \<Rightarrow> stream_setting list \<Rightarrow> tadma_stream list option checked"
where
  "build_streams junk frame i [] = Inr (Some [])"
| "build_streams junk frame i (c # cs) =
     (case build_stream junk frame i c of
        Inl f \<Rightarrow> Inl f
      | Inr s \<Rightarrow>
          if set_ip c \<noteq> None \<and> set_count c > 4 then Inr None
          else case build_streams junk frame (Suc i) cs of
                 Inl f \<Rightarrow> Inl f
               | Inr None \<Rightarrow> Inr None
               | Inr (Some ss) \<Rightarrow> Inr (Some (s # ss)))"

definition sortbytrigger :: "tadma_stream \<Rightarrow> tadma_stream \<Rightarrow> s32" where
  "sortbytrigger a b = trigger a - trigger b"

text \<open>What \<open>qsort\<close> promises for a comparison function on an array.\<close>

definition qsort_ok :: "(('a \<Rightarrow> 'a \<Rightarrow> s32) \<Rightarrow> 'a list \<Rightarrow> 'a list) \<Rightarrow> ('a \<Rightarrow> 'a \<Rightarrow> s32) \<Rightarrow> 'a list \<Rightarrow> bool" where
  "qsort_ok qs cmp xs \<longleftrightarrow> mset (qs cmp xs) = mset xs \<and> sorted_wrt (\<lambda>a b. sint (cmp a b) \<le> 0) (qs cmp xs)"

fun add_streams ::
  "(u64 \<Rightarrow> u8 \<Rightarrow> u32) \<Rightarrow> ep_cfg \<Rightarrow> (nat \<Rightarrow> bool) \<Rightarrow> nat \<Rightarrow> tadma_stream list \<Rightarrow> ep_dev \<Rightarrow> ep_dev checked" where
  "add_streams h cfg alloc i [] e = Inr e"
| "add_streams h cfg alloc i (st # sts) e =
     (case add_stream h cfg (alloc i) st e of
        Inl f \<Rightarrow> Inl f
      | Inr e \<Rightarrow> add_streams h cfg alloc (Suc i) sts e)"

definition send_streams ::
  "(u64 \<Rightarrow> u8 \<Rightarrow> u32) \<Rightarrow> ep_cfg \<Rightarrow> (nat \<Rightarrow> bool) \<Rightarrow> tadma_stream list \<Rightarrow> ep_dev \<Rightarrow> ep_dev checked" where
  "send_streams h cfg alloc sts e =
     (case flush_stream h cfg e of
        Inl f \<Rightarrow> Inl f
      | Inr e \<Rightarrow>
          (case add_streams h cfg alloc 0 sts e of
             Inl f \<Rightarrow> Inl f
           | Inr e \<Rightarrow> program_all_streams h cfg e))"

text \<open>
  \<open>main\<close>: the settings are \<open>None\<close> when the file cannot be read, \<open>Some None\<close> when it has no
  list of streams. Whatever interface the command line names, streams are sent to \<open>ep\<close>.
\<close>

definition tadma_prog_main ::
  "(u64 \<Rightarrow> u8 \<Rightarrow> u32) \<Rightarrow> ep_cfg \<Rightarrow> (nat \<Rightarrow> bool) \<Rightarrow>
   ((tadma_stream \<Rightarrow> tadma_stream \<Rightarrow> s32) \<Rightarrow> tadma_stream list \<Rightarrow> tadma_stream list) \<Rightarrow>
   (nat \<Rightarrow> tadma_stream) \<Rightarrow> (nat \<Rightarrow> u8 list) \<Rightarrow> (string \<Rightarrow> stream_setting list option option) \<Rightarrow> string list \<Rightarrow>
   ep_dev \<Rightarrow> ep_dev checked"
where
  "tadma_prog_main h cfg alloc qs junk frame read_file args e =
     (case parse_args args of
        Usage \<Rightarrow> Inr e
      | Off ifname \<Rightarrow>
          if ifname = ''ep''
          then (case flush_stream h cfg e of Inl f \<Rightarrow> Inl f | Inr e \<Rightarrow> change_to_continuous h cfg e)
          else Inr e
      | Configure ifname path \<Rightarrow>
          (case read_file path of
             None \<Rightarrow> Inr e
           | Some None \<Rightarrow> Inr e
           | Some (Some settings) \<Rightarrow>
               if settings = [] then Inr e
               else case build_streams junk frame 0 settings of
                      Inl f \<Rightarrow> Inl f
                    | Inr None \<Rightarrow> Inr e
                    | Inr (Some sts) \<Rightarrow> send_streams h cfg alloc (qs sortbytrigger sts) e))"

end
