(* ===== verification/Tadma_Config.thy ===== *)
theory Tadma_Config
  imports Tadma_Prog Tadma_Table
begin

text \<open>
  What the configuration tool and the endpoint driver achieve together: the streams of a
  configuration file are added one after the other and programmed. The device \<open>holds\<close> a list
  of streams when its table is well formed and contains exactly their entries, numbered in
  order; adding one more stream extends the list by it.
\<close>


section \<open>Adding a list of streams\<close>

definition stream_entry :: "nat \<Rightarrow> tadma_stream \<Rightarrow> tadma_stream_entry" where
  "stream_entry k st = \<lparr>hashtag = stream_tag st, tticks = trigger st, sid = of_nat k, sfm = of_nat k,
     te_count = ts_count st\<rparr>"

text \<open>The device holds exactly the streams \<open>p\<close>, numbered in order.\<close>

definition holds_streams :: "(u64 \<Rightarrow> u8 \<Rightarrow> u32) \<Rightarrow> tadma_stream list \<Rightarrow> tadma_local \<Rightarrow> bool" where
  "holds_streams h p d \<longleftrightarrow> t_cb d \<noteq> None \<and> stream_table_ok h d \<and> sfm_alloc_ok d \<and>
     (\<forall>tag. unat (tadma_hashtag_hash h d tag) < unat (num_entries d)) \<and>
     mset (table_entries d) = mset (map (\<lambda>k. stream_entry k (p ! k)) [0..<length p])"

text \<open>Streams that the table can tell apart: the high half of a ComId does not count.\<close>

definition apart :: "tadma_stream list \<Rightarrow> bool" where
  "apart p \<longleftrightarrow> distinct (map (\<lambda>s. (ip s, take_bit 16 (comid s))) p)"

lemma apart_tags:
  assumes "apart p" and "\<forall>s\<in>set p. length (ip s) = 4" and "i < length p" and "j < length p"
    and "hash_tag_equal (stream_tag (p ! i)) (stream_tag (p ! j))"
  shows "i = j"
proof -
  have "ip (p ! i) = ip (p ! j) \<and> take_bit 16 (comid (p ! i)) = take_bit 16 (comid (p ! j))"
    using assms(2-5) hash_tag_equal_streams by auto
  then show ?thesis using assms(1,3,4) nth_eq_iff_index_eq [of "map (\<lambda>s. (ip s, take_bit 16 (comid s))) p" i j]
    by (simp add: apart_def)
qed

lemma holds_entry_iff:
  assumes "holds_streams h p d"
  shows "e \<in> set (table_entries d) \<longleftrightarrow> (\<exists>k<length p. e = stream_entry k (p ! k))"
proof -
  have "set (table_entries d) = set (map (\<lambda>k. stream_entry k (p ! k)) [0..<length p])"
    using assms unfolding holds_streams_def by (metis mset_eq_setD)
  then show ?thesis by auto
qed

lemma holds_bucket:
  assumes "holds_streams h p d"
  shows "\<exists>b. bucket_at d (tadma_hashtag_hash h d tag) = Inr b \<and> set b \<subseteq> set (table_entries d) \<and>
     (\<forall>e\<in>set (table_entries d). hashtag e = tag \<longrightarrow> e \<in> set b)"
proof -
  obtain hs where hs: "t_cb d = Some hs" using assms by (auto simp: holds_streams_def)
  let ?i = "unat (tadma_hashtag_hash h d tag)"
  have ok: "length hs = unat (num_entries d)" "\<And>i e. i < length hs \<Longrightarrow> e \<in> set (hs ! i) \<Longrightarrow> entry_ok h d i e"
    using assms hs by (auto simp: holds_streams_def stream_table_ok_def)
  have i: "?i < length hs" using assms ok(1) by (simp add: holds_streams_def)
  have "e \<in> set (hs ! ?i)" if "e \<in> set (concat hs)" "hashtag e = tag" for e
  proof -
    from that(1) obtain x where "x \<in> set hs" "e \<in> set x" by auto
    then obtain j where j: "j < length hs" "e \<in> set (hs ! j)" by (metis in_set_conv_nth)
    then have "unat (tadma_hashtag_hash h d (hashtag e)) = j" using ok(2) by (simp add: entry_ok_def)
    then show ?thesis using j that(2) by simp
  qed
  moreover have "set (hs ! ?i) \<subseteq> set (concat hs)" using i nth_mem by auto
  moreover have "bucket_at d (tadma_hashtag_hash h d tag) = Inr (hs ! ?i)" "table_entries d = concat hs"
    using i hs by (simp_all add: bucket_at_def table_entries_def)
  ultimately show ?thesis by (intro exI [of _ "hs ! ?i"]) (simp del: set_concat)
qed

lemma holds_lookup_new:
  assumes "holds_streams h p d" and "\<forall>s\<in>set p. \<not> hash_tag_equal (stream_tag s) tag"
  shows "\<exists>b. bucket_at d (tadma_hashtag_hash h d tag) = Inr b \<and> tadma_hash_lookup_stream b tag = None"
proof -
  obtain b where b: "bucket_at d (tadma_hashtag_hash h d tag) = Inr b" "set b \<subseteq> set (table_entries d)"
    using holds_bucket [OF assms(1)] by blast
  have "\<not> hash_tag_equal (hashtag e) tag" if "e \<in> set b" for e
  proof -
    have "e \<in> set (table_entries d)" using that b(2) by blast
    then obtain k where "k < length p" "e = stream_entry k (p ! k)"
      using holds_entry_iff [OF assms(1)] by blast
    then show ?thesis using assms(2) by (simp add: stream_entry_def)
  qed
  then show ?thesis using b(1) by (auto simp: lookup_None_iff)
qed

text \<open>Packets of a stream that is held are given the stream's position.\<close>

lemma holds_classifies:
  assumes "holds_streams h p d" and "apart p" and "k < length p" and "get_sid d \<noteq> 0"
    and "\<forall>s\<in>set p. length (ip s) = 4"
    and "skb_daddr skb = ip (p ! k)" and "skb_comId skb = htonl (comid (p ! k))"
  shows "tadma_get_strid h skb d = Inr (of_nat k)"
proof -
  let ?tag = "stream_tag (p ! k)"
  obtain b where b: "bucket_at d (tadma_hashtag_hash h d ?tag) = Inr b" "set b \<subseteq> set (table_entries d)"
    "\<And>e. e \<in> set (table_entries d) \<Longrightarrow> hashtag e = ?tag \<Longrightarrow> e \<in> set b"
    using holds_bucket [OF assms(1), of ?tag] by blast
  have "stream_entry k (p ! k) \<in> set (table_entries d)"
    using assms(3) holds_entry_iff [OF assms(1)] by blast
  then have "stream_entry k (p ! k) \<in> set b" by (rule b(3)) (simp add: stream_entry_def)
  then obtain e where e: "tadma_hash_lookup_stream b ?tag = Some e"
    using lookup_None_iff [of b ?tag] by (cases "tadma_hash_lookup_stream b ?tag") (auto simp: stream_entry_def)
  then have "e \<in> set b" "hash_tag_equal (hashtag e) ?tag" using lookup_Some_in by blast+
  then have "e \<in> set (table_entries d)" using b(2) by blast
  then obtain j where "j < length p" "e = stream_entry j (p ! j)"
    using holds_entry_iff [OF assms(1)] by blast
  then have "e = stream_entry k (p ! k)"
    using \<open>hash_tag_equal (hashtag e) ?tag\<close> apart_tags [OF assms(2,5) _ assms(3)] by (auto simp: stream_entry_def)
  then show ?thesis
    using tadma_get_strid_classify [OF assms(4,7)] b(1) e assms(6) by (simp add: stream_entry_def)
qed

lemma add_one:
  assumes "holds_streams h p d" and "\<forall>s\<in>set p. \<not> hash_tag_equal (stream_tag s) (stream_tag st)"
    and "length (ip st) = 4" and "ts_count st \<le> 4" and "start st = 0 \<or> p = []"
    and "get_sid (started st d) = of_nat (length p)" and "get_sfm (started st d) = of_nat (length p)"
    and "length p < unat (num_streams d)" and "length p < unat (num_entries d)"
  shows "\<exists>d'. axienet_tadma_add_stream h (Some st) True d = Inr (0, d') \<and> holds_streams h (p @ [st]) d' \<and>
     get_sid d' = of_nat (Suc (length p)) \<and> get_sfm d' = of_nat (Suc (length p)) \<and>
     d' = d\<lparr>t_cb := t_cb d', get_sid := get_sid d', get_sfm := get_sfm d'\<rparr>"
proof -
  let ?tag = "stream_tag st" and ?n = "of_nat (length p) :: u32"
  let ?i = "tadma_hashtag_hash h d ?tag"
  obtain b where b: "bucket_at d ?i = Inr b" "tadma_hash_lookup_stream b ?tag = None"
    using holds_lookup_new [OF assms(1,2)] by blast
  have n: "?n < num_streams d" "?n < num_entries d"
    using assms(8,9) unat_u32_less [of "num_streams d"] unat_u32_less [of "num_entries d"]
    by (simp_all add: word_less_nat_alt unat_of_nat)
  let ?d' = "hlist_add_head (d\<lparr>get_sid := ?n + 1, get_sfm := ?n + 1\<rparr>) ?i (stream_entry (length p) st)"
  have add: "axienet_tadma_add_stream h (Some st) True d = Inr (0, ?d')"
    using b n assms(4,6,7) unfolding axienet_tadma_add_stream_def Let_def
    by (auto simp: stream_entry_def not_less not_le split: if_splits)
  have te: "table_entries (d\<lparr>get_sid := x, get_sfm := y\<rparr>) = table_entries d" for x y
    by (simp add: table_entries_def)
  have "bucket_at (d\<lparr>get_sid := ?n + 1, get_sfm := ?n + 1\<rparr>) ?i = Inr b" using b(1) by (simp add: bucket_at_def)
  from mset_table_add_head [OF this]
  have "mset (table_entries ?d') = add_mset (stream_entry (length p) st) (mset (table_entries d))"
    by (simp add: te)
  moreover have "mset (table_entries d) = mset (map (\<lambda>k. stream_entry k (p ! k)) [0..<length p])"
    using assms(1) by (simp add: holds_streams_def)
  moreover have "map (\<lambda>k. stream_entry k ((p @ [st]) ! k)) [0..<length (p @ [st])] =
      map (\<lambda>k. stream_entry k (p ! k)) [0..<length p] @ [stream_entry (length p) st]"
    by (auto simp: nth_append)
  ultimately have m: "mset (table_entries ?d') = mset (map (\<lambda>k. stream_entry k ((p @ [st]) ! k)) [0..<length (p @ [st])])"
    by (simp only: mset_append mset.simps) simp
  have "table_entries d = []" if "p = []" using assms(1) that by (simp add: holds_streams_def)
  then have "start st = 0 \<or> table_entries d = []" using assms(5) by auto
  then have "stream_table_ok h ?d'" "sfm_alloc_ok ?d'"
    using add_stream_table_ok [OF _ assms(3) add] add_stream_sfm_alloc_ok [OF _ _ add] assms(1)
    by (auto simp: holds_streams_def)
  then have "holds_streams h (p @ [st]) ?d'"
    using assms(1) m by (auto simp: holds_streams_def hlist_add_head_def)
  then show ?thesis
    using add by (intro exI [of _ ?d']) (simp add: hlist_add_head_def add.commute)
qed


section \<open>Running the tool\<close>

text \<open>What all streams of a list need to satisfy to be accepted one after the other.\<close>

definition addable :: "tadma_stream list \<Rightarrow> tadma_local \<Rightarrow> bool" where
  "addable sts d \<longleftrightarrow> apart sts \<and> (\<forall>s\<in>set sts. length (ip s) = 4 \<and> ts_count s \<le> 4) \<and>
     length sts \<le> unat (num_streams d) \<and> length sts \<le> unat (num_entries d)"

lemma add_rest:
  assumes "addable (p @ sts) (ep_tadma e)" and "\<forall>s\<in>set sts. start s = 0" and "has_tadma cfg"
    and "holds_streams h p (ep_tadma e)" and "get_sid (ep_tadma e) = of_nat (length p)"
    and "get_sfm (ep_tadma e) = of_nat (length p)"
  shows "\<exists>e'. add_streams h cfg (\<lambda>_. True) i sts e = Inr e' \<and> holds_streams h (p @ sts) (ep_tadma e') \<and>
     get_sid (ep_tadma e') = of_nat (length (p @ sts)) \<and>
     num_entries (ep_tadma e') = num_entries (ep_tadma e) \<and> active_sfm (ep_tadma e') = active_sfm (ep_tadma e) \<and>
     tadma_regs (ep_tadma e') = tadma_regs (ep_tadma e)"
  using assms
proof (induction sts arbitrary: p e i)
  case (Cons st sts)
  let ?d = "ep_tadma e"
  have ap: "apart (p @ st # sts)" and le: "length p < unat (num_streams ?d)" "length p < unat (num_entries ?d)"
    and st: "length (ip st) = 4" "ts_count st \<le> 4" "start st = 0"
    and l4: "\<forall>s\<in>set (p @ st # sts). length (ip s) = 4"
    using Cons.prems(1,2) by (auto simp: addable_def)
  have "\<not> hash_tag_equal (stream_tag s) (stream_tag st)" if "s \<in> set p" for s
  proof -
    from that obtain i where i: "i < length p" "s = p ! i" by (metis in_set_conv_nth)
    then have "i < length (p @ st # sts)" "length p < length (p @ st # sts)" "i \<noteq> length p" by auto
    then have "\<not> hash_tag_equal (stream_tag ((p @ st # sts) ! i)) (stream_tag ((p @ st # sts) ! length p))"
      using apart_tags [OF ap l4] by blast
    then show ?thesis using i by (simp add: nth_append)
  qed
  then obtain d' where d': "axienet_tadma_add_stream h (Some st) True ?d = Inr (0, d')"
      "holds_streams h (p @ [st]) d'" "get_sid d' = of_nat (Suc (length p))" "get_sfm d' = of_nat (Suc (length p))"
      "d' = ?d\<lparr>t_cb := t_cb d', get_sid := get_sid d', get_sfm := get_sfm d'\<rparr>"
    using add_one [OF Cons.prems(4) _ st(1,2) _ _ _ le] st(3) Cons.prems(5,6) by auto
  let ?e = "e\<lparr>ep_tadma := d'\<rparr>"
  have f: "num_entries d' = num_entries ?d" "num_streams d' = num_streams ?d" "active_sfm d' = active_sfm ?d"
    "tadma_regs d' = tadma_regs ?d"
    by (subst d'(5), simp)+
  have a: "add_stream h cfg True st e = Inr ?e"
    using d'(1) Cons.prems(3) by (simp add: add_stream_def app_ioctl_def tsn_ep_ioctl_def on_tadma_def)
  have "addable ((p @ [st]) @ sts) (ep_tadma ?e)" using Cons.prems(1) f by (simp add: addable_def)
  from Cons.IH [of "p @ [st]" ?e "Suc i", OF this] Cons.prems(2,3) d'(2-4) a f show ?case by simp
qed simp

lemma iow_all_regs: "\<exists>r. iow_all x ws = x\<lparr>tadma_regs := r\<rparr>"
proof (induction ws arbitrary: x)
  case Nil
  have "x = x\<lparr>tadma_regs := tadma_regs x\<rparr>" by simp
  then show ?case by (metis foldl_Nil)
next
  case (Cons w ws)
  from Cons [of "tadma_iow x (fst w) (snd w)"] show ?case by (cases w) (auto simp: tadma_iow_def)
qed

lemma flushed_holds:
  assumes "t_cb d = Some hs" and "length hs = unat (num_entries d)" and "unat (num_entries d) < 2 ^ 31"
    and "\<forall>tag. unat (tadma_hashtag_hash h d tag) < unat (num_entries d)"
  shows "\<exists>d'. axienet_tadma_flush_stream d = Inr (0, d') \<and> holds_streams h [] d' \<and>
     d' = d\<lparr>tadma_regs := tadma_regs d', t_cb := t_cb d'\<rparr>"
proof -
  have "length hs = nat (sint (num_entries d))" using assms(2,3) by (simp add: sint_small)
  note f = flush_stream_eq [OF assms(1) this]
  let ?d' = "(iow_all (tadma_iow d 0 0) (flush_writes d (length hs)))\<lparr>t_cb := Some (replicate (length hs) [])\<rparr>"
  obtain r where "iow_all (tadma_iow d 0 0) (flush_writes d (length hs)) = (tadma_iow d 0 0)\<lparr>tadma_regs := r\<rparr>"
    using iow_all_regs by blast
  then have "?d' = d\<lparr>tadma_regs := r, t_cb := Some (replicate (length hs) [])\<rparr>" by (simp add: tadma_iow_def)
  then have "holds_streams h [] ?d' \<and> ?d' = d\<lparr>tadma_regs := tadma_regs ?d', t_cb := t_cb ?d'\<rparr>"
    using assms by (auto simp: holds_streams_def stream_table_ok_def sfm_alloc_ok_def table_entries_def tadma_hashtag_hash_def)
  then show ?thesis using f by blast
qed

lemma program_regs: "axienet_tadma_program d = Inr (r, d') \<Longrightarrow> d' = d\<lparr>tadma_regs := tadma_regs d'\<rparr>"
proof -
  assume p: "axienet_tadma_program d = Inr (r, d')"
  have "\<exists>q. d' = d\<lparr>tadma_regs := q\<rparr>"
  proof (cases "t_cb d")
    case None
    then show ?thesis using p by (auto simp: axienet_tadma_program_def tadma_iow_def split: if_splits)
  next
    case (Some hs)
    obtain q where "foldl program_bucket d (take (unat (num_entries d)) hs) = d\<lparr>tadma_regs := q\<rparr>"
      using iow_all_regs [of d "concat (map (sfm_writes d) (concat (take (unat (num_entries d)) hs)))"]
      unfolding program_buckets_writes by blast
    then show ?thesis using p Some by (auto simp: axienet_tadma_program_def Let_def tadma_iow_def split: if_splits)
  qed
  then show ?thesis by auto
qed

text \<open>The device a configuration is sent to: an allocated table every hash falls into.\<close>

definition ready :: "(u64 \<Rightarrow> u8 \<Rightarrow> u32) \<Rightarrow> tadma_local \<Rightarrow> bool" where
  "ready h d \<longleftrightarrow> (\<exists>hs. t_cb d = Some hs \<and> length hs = unat (num_entries d)) \<and>
     unat (num_entries d) \<le> 512 \<and> (\<forall>tag. unat (tadma_hashtag_hash h d tag) < unat (num_entries d))"

text \<open>
  The device carries exactly the streams \<open>sts\<close>: stream \<open>k\<close> is known and scheduled as \<open>k\<close>, the
  table has no other entry, no other slot is scheduled, and packets of no stream are given none.
  A packet is of a stream when address and low half of the ComId agree.
\<close>

definition carries :: "(u64 \<Rightarrow> u8 \<Rightarrow> u32) \<Rightarrow> tadma_stream list \<Rightarrow> tadma_local \<Rightarrow> bool" where
  "carries h sts d \<longleftrightarrow>
     tadma_ior d XTADMA_CR_OFFSET = XTADMA_CFG_DONE OR XTADMA_SCHED_ENABLE \<and>
     (\<forall>k<length sts.
        (\<forall>skb. skb_daddr skb = ip (sts ! k) \<and> skb_comId skb = htonl (comid (sts ! k)) \<longrightarrow>
           tadma_get_strid h skb d = Inr (of_nat k)) \<and>
        tadma_ior d (sfm_entry_offset d (of_nat k)) = trigger (sts ! k) div 8 \<and>
        tadma_ior d (sfm_entry_offset d (of_nat k) + 4) = sfm_cfg (of_nat k) (ts_count (sts ! k))) \<and>
     mset (table_entries d) = mset (map (\<lambda>k. stream_entry k (sts ! k)) [0..<length sts]) \<and>
     (\<forall>k. length sts \<le> k \<and> k < unat (num_entries d) \<longrightarrow>
        tadma_ior d (sfm_entry_offset d (of_nat k)) = 0 \<and> tadma_ior d (sfm_entry_offset d (of_nat k) + 4) = 0) \<and>
     (\<forall>skb c. length (skb_daddr skb) = 4 \<and> skb_comId skb = htonl c \<and>
        (skb_daddr skb, take_bit 16 c) \<notin> set (map (\<lambda>s. (ip s, take_bit 16 (comid s))) sts) \<longrightarrow>
        tadma_get_strid h skb d = Inr (- 1))"

lemma same_slot:
  assumes "unat s < 512" and "unat s' < 512"
    and "a = sfm_entry_offset d s \<or> a = sfm_entry_offset d s + 4"
    and "a = sfm_entry_offset d s' \<or> a = sfm_entry_offset d s' + 4"
  shows "s = s'"
proof -
  have "8 * unat s = 8 * unat s' \<or> 8 * unat s = 8 * unat s' + 4 \<or> 8 * unat s + 4 = 8 * unat s'"
    using assms(3,4) by (auto dest!: arg_cong [where f = unat] simp: unat_sfm_entry_offset assms(1,2))
  then have "unat s = unat s'" by presburger
  then show ?thesis by (simp add: word_unat_eq_iff)
qed

text \<open>Programming leaves the slots alone that no entry of the table names.\<close>

lemma program_keeps_slots:
  assumes "axienet_tadma_program d = Inr (r, d')" and "t_cb d = Some hs" and "length hs = unat (num_entries d)"
    and "unat s < 512" and "\<forall>e\<in>set (table_entries d). unat (sfm e) < 512 \<and> sfm e \<noteq> s"
    and "a = sfm_entry_offset d s \<or> a = sfm_entry_offset d s + 4"
  shows "tadma_ior d' a = tadma_ior d a"
proof -
  let ?ws = "concat (map (sfm_writes d) (table_entries d))"
  have "d' = tadma_iow (tadma_iow (iow_all d ?ws) 0x10 (1 OR 0x800)) 0 (1 OR 0x10)"
    using assms(1-3) by (simp add: axienet_tadma_program_def Let_def program_buckets_writes table_entries_def)
  moreover have "a \<noteq> 0" "a \<noteq> 0x10" using sfm_entry_offset_not_ctrl [OF assms(4), of d] assms(6) by auto
  moreover have "a \<notin> fst ` set ?ws"
  proof
    assume "a \<in> fst ` set ?ws"
    then obtain e where e: "e \<in> set (table_entries d)"
        "a = sfm_entry_offset d (sfm e) \<or> a = sfm_entry_offset d (sfm e) + 4"
      by auto
    then show False using same_slot [OF _ assms(4) e(2) assms(6)] assms(5) by auto
  qed
  ultimately show ?thesis by (simp add: tadma_reg.ior_iow tadma_reg.ior_foldl_notin)
qed

text \<open>Packets of none of the streams that are held are given no stream.\<close>

lemma holds_no_stream:
  assumes "holds_streams h p d" and "get_sid d \<noteq> 0" and "\<forall>s\<in>set p. length (ip s) = 4"
    and "length (skb_daddr skb) = 4" and "skb_comId skb = htonl c"
    and "(skb_daddr skb, take_bit 16 c) \<notin> set (map (\<lambda>s. (ip s, take_bit 16 (comid s))) p)"
  shows "tadma_get_strid h skb d = Inr (- 1)"
proof -
  let ?tag = "mk_hash_tag (skb_daddr skb) c"
  have "\<forall>s\<in>set p. \<not> hash_tag_equal (stream_tag s) ?tag"
    using assms(3,4,6) by (force simp: hash_tag_equal_streams)
  then obtain b where "bucket_at d (tadma_hashtag_hash h d ?tag) = Inr b" "tadma_hash_lookup_stream b ?tag = None"
    using holds_lookup_new [OF assms(1)] by blast
  then show ?thesis using tadma_get_strid_classify [OF assms(2,5)] by simp
qed

text \<open>No slot of the stream fetch memory is in use, as after flushing.\<close>

definition slots_clear :: "tadma_local \<Rightarrow> bool" where
  "slots_clear d \<longleftrightarrow> (\<forall>k<unat (num_entries d). tadma_ior d (sfm_entry_offset d (of_nat k)) = 0 \<and>
     tadma_ior d (sfm_entry_offset d (of_nat k) + 4) = 0)"

lemma program_carries:
  assumes "holds_streams h sts d" and "apart sts" and "\<forall>s\<in>set sts. length (ip s) = 4"
    and "get_sid d \<noteq> 0" and "unat (num_entries d) \<le> 512" and "slots_clear d"
    and "length sts \<le> unat (num_entries d)"
  shows "\<exists>d'. axienet_tadma_program d = Inr (0, d') \<and> carries h sts d'"
proof -
  obtain hs where hs: "t_cb d = Some hs" "stream_table_ok h d" "sfm_alloc_ok d"
    using assms(1) by (auto simp: holds_streams_def)
  from program_all_slots [OF hs assms(5)] obtain d' where
    p: "axienet_tadma_program d = Inr (0, d')"
    and cr: "tadma_ior d' XTADMA_CR_OFFSET = XTADMA_CFG_DONE OR XTADMA_SCHED_ENABLE"
    and slots: "\<And>e. e \<in> set (table_entries d) \<Longrightarrow>
        tadma_ior d' (sfm_entry_offset d (sfm e)) = tticks e div 8 \<and>
        tadma_ior d' (sfm_entry_offset d (sfm e) + 4) = sfm_cfg (sfm e) (te_count e)" by blast
  note r = program_regs [OF p]
  have same: "sfm_entry_offset d' x = sfm_entry_offset d x" "num_entries d' = num_entries d"
    "table_entries d' = table_entries d" for x
    by (subst r, simp add: sfm_entry_offset_def table_entries_def)+
  have gs: "tadma_get_strid h skb d' = tadma_get_strid h skb d" for skb
    by (subst r) (simp add: tadma_get_strid_def bucket_at_def tadma_hashtag_hash_def)
  have "tadma_get_strid h skb d' = Inr (of_nat k)"
    if "k < length sts" "skb_daddr skb = ip (sts ! k)" "skb_comId skb = htonl (comid (sts ! k))" for k skb
    using holds_classifies [OF assms(1,2) that(1) assms(4,3) that(2,3)] gs by simp
  moreover have "tadma_get_strid h skb d' = Inr (- 1)" if "length (skb_daddr skb) = 4" "skb_comId skb = htonl c"
      "(skb_daddr skb, take_bit 16 c) \<notin> set (map (\<lambda>s. (ip s, take_bit 16 (comid s))) sts)" for skb c
    using holds_no_stream [OF assms(1,4,3) that] gs by simp
  moreover have "tadma_ior d' (sfm_entry_offset d' (of_nat k)) = trigger (sts ! k) div 8 \<and>
      tadma_ior d' (sfm_entry_offset d' (of_nat k) + 4) = sfm_cfg (of_nat k) (ts_count (sts ! k))"
    if "k < length sts" for k
    using slots [of "stream_entry k (sts ! k)"] that holds_entry_iff [OF assms(1)]
    by (auto simp: same stream_entry_def)
  moreover have "tadma_ior d' (sfm_entry_offset d' (of_nat k)) = 0 \<and> tadma_ior d' (sfm_entry_offset d' (of_nat k) + 4) = 0"
    if k: "length sts \<le> k" "k < unat (num_entries d')" for k
  proof -
    have u: "unat (of_nat i :: s32) = i" if "i < 512" for i using that by (simp add: unat_of_nat)
    have k5: "k < 512" using k(2) assms(5) same(2) by simp
    have "\<forall>e\<in>set (table_entries d). unat (sfm e) < 512 \<and> sfm e \<noteq> of_nat k"
    proof
      fix e assume "e \<in> set (table_entries d)"
      then obtain j where j: "j < length sts" "sfm e = of_nat j"
        using holds_entry_iff [OF assms(1)] by (auto simp: stream_entry_def)
      then have "unat (sfm e) = j" "j < 512" using u [of j] k(1) k5 by auto
      then show "unat (sfm e) < 512 \<and> sfm e \<noteq> of_nat k" using u [OF k5] j(1) k(1) by auto
    qed
    moreover have "length hs = unat (num_entries d)" using hs(1,2) by (simp add: stream_table_ok_def)
    ultimately have "tadma_ior d' a = tadma_ior d a"
      if "a = sfm_entry_offset d (of_nat k) \<or> a = sfm_entry_offset d (of_nat k) + 4" for a
      using program_keeps_slots [OF p hs(1) _ _ _ that] u [OF k5] k5 by simp
    then show ?thesis using assms(6) k(2) by (simp add: same slots_clear_def)
  qed
  moreover have "mset (table_entries d') = mset (map (\<lambda>k. stream_entry k (sts ! k)) [0..<length sts])"
    using assms(1) by (simp only: same holds_streams_def)
  ultimately show ?thesis using p cr unfolding carries_def by blast
qed

lemma flush_slots_clear:
  assumes "t_cb d = Some hs" and "length hs = unat (num_entries d)" and "unat (num_entries d) < 2 ^ 31"
    and "axienet_tadma_flush_stream d = Inr (0, d')"
  shows "slots_clear d'"
proof -
  have "length hs = nat (sint (num_entries d))" using assms(2,3) by (simp add: sint_small)
  note f = flush_stream_clears [OF assms(1) this] flush_stream_eq [OF assms(1) this]
  obtain r where "iow_all (tadma_iow d 0 0) (flush_writes d (length hs)) = (tadma_iow d 0 0)\<lparr>tadma_regs := r\<rparr>"
    using iow_all_regs by blast
  then have "num_entries d' = num_entries d" "sfm_entry_offset d' s = sfm_entry_offset d s" for s
    using f(2) assms(4) by (auto simp: sfm_entry_offset_def tadma_iow_def)
  then show ?thesis using f(1) assms(2,4) by (auto simp: slots_clear_def)
qed

lemma slots_clear_cong:
  "tadma_regs d' = tadma_regs d \<Longrightarrow> num_entries d' = num_entries d \<Longrightarrow> active_sfm d' = active_sfm d \<Longrightarrow>
     slots_clear d \<Longrightarrow> slots_clear d'"
  by (simp add: slots_clear_def tadma_ior_def sfm_entry_offset_def)

lemma send_carries:
  assumes "ready h (ep_tadma e)" and "addable (s0 # rest) (ep_tadma e)" and "has_tadma cfg"
    and "start s0 \<noteq> 0" and "\<forall>s\<in>set rest. start s = 0"
  shows "\<exists>e'. send_streams h cfg (\<lambda>_. True) (s0 # rest) e = Inr e' \<and> carries h (s0 # rest) (ep_tadma e')"
proof -
  let ?d = "ep_tadma e"
  obtain hs where hs: "t_cb ?d = Some hs" "length hs = unat (num_entries ?d)"
    and n: "unat (num_entries ?d) \<le> 512" and hash: "\<forall>tag. unat (tadma_hashtag_hash h ?d tag) < unat (num_entries ?d)"
    using assms(1) by (auto simp: ready_def)
  obtain d1 where d1: "axienet_tadma_flush_stream ?d = Inr (0, d1)" "holds_streams h [] d1"
    "d1 = ?d\<lparr>tadma_regs := tadma_regs d1, t_cb := t_cb d1\<rparr>"
    using flushed_holds [OF hs _ hash] n by auto
  have f1: "num_entries d1 = num_entries ?d" "num_streams d1 = num_streams ?d" by (subst d1(3), simp)+
  have c1: "slots_clear d1" using flush_slots_clear [OF hs _ d1(1)] n by simp
  have s0: "length (ip s0) = 4" "ts_count s0 \<le> 4" "0 < unat (num_streams d1)" "0 < unat (num_entries d1)"
    using assms(2) f1 by (auto simp: addable_def)
  obtain d2 where d2: "axienet_tadma_add_stream h (Some s0) True d1 = Inr (0, d2)" "holds_streams h [s0] d2"
    "get_sid d2 = 1" "get_sfm d2 = 1" "d2 = d1\<lparr>t_cb := t_cb d2, get_sid := get_sid d2, get_sfm := get_sfm d2\<rparr>"
    using add_one [OF d1(2) _ s0(1,2), simplified] s0(3,4) assms(4) by auto
  have f2: "num_entries d2 = num_entries ?d" "num_streams d2 = num_streams ?d" by (subst d2(5), simp add: f1)+
  have "tadma_regs d2 = tadma_regs d1" "num_entries d2 = num_entries d1" "active_sfm d2 = active_sfm d1"
    by (subst d2(5), simp)+
  note c2 = slots_clear_cong [OF this c1]
  let ?e1 = "e\<lparr>ep_tadma := d1\<rparr>" and ?e2 = "e\<lparr>ep_tadma := d2\<rparr>"
  have a2: "add_stream h cfg True s0 ?e1 = Inr ?e2"
    using d2(1) assms(3) by (simp add: add_stream_def app_ioctl_def tsn_ep_ioctl_def on_tadma_def)
  have ad: "addable ([s0] @ rest) (ep_tadma ?e2)" using assms(2) f2 by (simp add: addable_def)
  obtain e3 where e3: "add_streams h cfg (\<lambda>_. True) (Suc 0) rest ?e2 = Inr e3"
    "holds_streams h (s0 # rest) (ep_tadma e3)" "get_sid (ep_tadma e3) = of_nat (length (s0 # rest))"
    "num_entries (ep_tadma e3) = num_entries d2" "active_sfm (ep_tadma e3) = active_sfm d2"
    "tadma_regs (ep_tadma e3) = tadma_regs d2"
    using add_rest [OF ad assms(5,3), of h "Suc 0"] d2 f2 by auto
  note c3 = slots_clear_cong [OF e3(6,4,5) c2]
  have "length (s0 # rest) < 2 ^ 32" using assms(2) unat_u32_less [of "num_streams ?d"] by (simp add: addable_def)
  then have "unat (of_nat (length (s0 # rest)) :: u32) = length (s0 # rest)"
    by (simp only: unat_of_nat) simp
  then have "get_sid (ep_tadma e3) \<noteq> 0" using e3(3) by (metis length_greater_0_conv list.discI not_less0 unat_0)
  then obtain d4 where d4: "axienet_tadma_program (ep_tadma e3) = Inr (0, d4)" "carries h (s0 # rest) d4"
    using program_carries [OF e3(2) _ _ _ _ c3] assms(2) n e3(4) f2 by (auto simp: addable_def)
  have "send_streams h cfg (\<lambda>_. True) (s0 # rest) e = Inr (e3\<lparr>ep_tadma := d4\<rparr>)"
    using d1(1) a2 e3(1) d4(1) assms(3)
    by (simp add: send_streams_def flush_stream_def program_all_streams_def app_ioctl_def tsn_ep_ioctl_def on_tadma_def)
  then show ?thesis using d4(2) by (intro exI [of _ "e3\<lparr>ep_tadma := d4\<rparr>"]) simp
qed

section \<open>The sorted streams\<close>

text \<open>For triggers below \<open>2 ^ 31\<close> the difference of two of them, read as an \<open>int\<close>, has the sign it should.\<close>

lemma sortbytrigger_le:
  assumes "unat (trigger a) < 2147483648" and "unat (trigger b) < 2147483648"
  shows "sint (sortbytrigger a b) \<le> 0 \<longleftrightarrow> trigger a \<le> trigger b"
proof (cases "trigger b \<le> trigger a")
  case True
  then have "unat (sortbytrigger a b) = unat (trigger a) - unat (trigger b)"
    by (simp add: sortbytrigger_def unat_sub word_le_nat_alt)
  then show ?thesis using assms(1) by (simp add: sint_small word_le_nat_alt [of "trigger a"])
next
  case False
  then have "unat (sortbytrigger a b) = unat (trigger a) + 4294967296 - unat (trigger b)" "unat (trigger a) < unat (trigger b)"
    by (simp_all add: sortbytrigger_def unat_sub_if_size word_size word_le_nat_alt)
  then have "sint (sortbytrigger a b) < 0" using assms by (simp only: sint_neg_iff)
  then show ?thesis using False by simp
qed

lemma sorted_first:
  assumes "qsort_ok qs sortbytrigger (s0 # rest)" and "\<forall>s\<in>set rest. trigger s0 < trigger s"
    and "\<forall>s\<in>set (s0 # rest). unat (trigger s) < 2147483648"
  shows "\<exists>rest'. qs sortbytrigger (s0 # rest) = s0 # rest' \<and> mset rest' = mset rest"
proof -
  let ?q = "qs sortbytrigger (s0 # rest)"
  have m: "mset ?q = mset (s0 # rest)" and srt: "sorted_wrt (\<lambda>a b. sint (sortbytrigger a b) \<le> 0) ?q"
    using assms(1) by (auto simp: qsort_ok_def)
  obtain x xs where q: "?q = x # xs" using m by (cases ?q) auto
  have inset: "set (x # xs) = set (s0 # rest)" using m q by (metis mset_eq_setD)
  have "x = s0"
  proof (rule ccontr)
    assume "x \<noteq> s0"
    then have "s0 \<in> set xs" "x \<in> set rest" using inset by auto
    then have "sint (sortbytrigger x s0) \<le> 0" using srt q by auto
    moreover have "unat (trigger x) < 2147483648" "unat (trigger s0) < 2147483648"
      using assms(3) \<open>x \<in> set rest\<close> by auto
    ultimately have "trigger x \<le> trigger s0" by (simp add: sortbytrigger_le)
    with assms(2) \<open>x \<in> set rest\<close> show False by (auto simp: not_less [symmetric])
  qed
  then show ?thesis using m q by auto
qed

lemma addable_mset: "mset p = mset q \<Longrightarrow> addable p d \<Longrightarrow> addable q d"
proof -
  assume m: "mset p = mset q" and a: "addable p d"
  have "mset (map f p) = mset (map f q)" for f :: "tadma_stream \<Rightarrow> u8 list \<times> u32" using m by (simp add: mset_map)
  then have "apart p \<longleftrightarrow> apart q" unfolding apart_def by (rule mset_eq_imp_distinct_iff)
  moreover have "set p = set q" "length p = length q" using m by (metis mset_eq_setD, metis size_mset)
  ultimately show ?thesis using a by (simp add: addable_def)
qed

text \<open>Sorting keeps the first stream first and puts the triggers in order.\<close>

lemma sorted_triggers:
  assumes "qsort_ok qs sortbytrigger sts" and "\<forall>s\<in>set sts. unat (trigger s) < 2147483648"
  shows "sorted (map trigger (qs sortbytrigger sts))"
proof -
  have srt: "sorted_wrt (\<lambda>x y. sint (sortbytrigger x y) \<le> 0) (qs sortbytrigger sts)"
    and "set (qs sortbytrigger sts) = set sts"
    using assms(1) by (auto simp: qsort_ok_def dest: mset_eq_setD)
  then show ?thesis unfolding sorted_map
    by (intro sorted_wrt_mono_rel [OF _ srt]) (use assms(2) sortbytrigger_le in \<open>auto\<close>)
qed

lemma sent_carried:
  assumes r: "ready h (ep_tadma e)" and cfg: "has_tadma cfg" and a: "addable (s0 # rest) (ep_tadma e)"
    and st: "start s0 \<noteq> 0" "\<forall>s\<in>set rest. start s = 0 \<and> trigger s0 < trigger s"
    and small: "\<forall>s\<in>set (s0 # rest). trigger s < 2147483648"
    and q: "qsort_ok qs sortbytrigger (s0 # rest)"
  shows "\<exists>e'. send_streams h cfg (\<lambda>_. True) (qs sortbytrigger (s0 # rest)) e = Inr e' \<and>
     carries h (qs sortbytrigger (s0 # rest)) (ep_tadma e') \<and>
     mset (qs sortbytrigger (s0 # rest)) = mset (s0 # rest) \<and> sorted (map trigger (qs sortbytrigger (s0 # rest)))"
proof -
  have small': "\<forall>s\<in>set (s0 # rest). unat (trigger s) < 2147483648"
    using small by (simp add: word_less_nat_alt)
  then obtain rest' where s: "qs sortbytrigger (s0 # rest) = s0 # rest'" "mset rest' = mset rest"
    using sorted_first [OF q] st(2) by blast
  have "addable (s0 # rest') (ep_tadma e)" using a by (rule addable_mset [rotated]) (simp add: s(2))
  moreover have "\<forall>s\<in>set rest'. start s = 0" using st(2) s(2) by (metis mset_eq_setD)
  ultimately obtain e' where "send_streams h cfg (\<lambda>_. True) (s0 # rest') e = Inr e'" "carries h (s0 # rest') (ep_tadma e')"
    using send_carries [OF r _ cfg st(1)] by blast
  then show ?thesis using s q sorted_triggers [OF q small'] by (simp add: qsort_ok_def)
qed

section \<open>Reading an address\<close>

text \<open>
  The first conversion fits into the array, any other does not: a run of the tool whose first
  setting has an address of two numbers or more writes out of bounds before anything is sent.
\<close>

lemma scan_one: "length a = 4 \<Longrightarrow> scan_ip 0 [n] a = Inr (int_bytes n)"
  by simp

lemma address_overruns:
  assumes "parse_args args = Configure ifname path" and "read_file path = Some (Some (c # cs))"
    and "set_ip c = Some (m # n # ns)" and "length (frame 0) = 4"
  shows "tadma_prog_main h cfg alloc qs junk frame read_file args e = Inl OutOfBounds"
proof -
  have "take 4 (m # n # ns) = m # n # take 2 ns" by (simp add: numeral_eq_Suc)
  then have "build_stream junk frame 0 c = Inl OutOfBounds"
    using assms(3,4) by (simp add: build_stream_def int_bytes_def)
  then show ?thesis using assms(1,2) by (simp add: tadma_prog_main_def)
qed

section \<open>A small configuration\<close>

definition demo_ep :: ep_dev where
  "demo_ep = \<lparr>ep_qbv = \<lparr>num_tc = 3, regs = (\<lambda>_. 0), qbv_regs = (\<lambda>_. 0)\<rparr>, ep_tadma = demo_dev\<rparr>"

definition demo_cfg :: ep_cfg where
  "demo_cfg = \<lparr>has_qbv = True, has_tadma = True\<rparr>"

definition demo_sent :: "u8 \<Rightarrow> u32 \<Rightarrow> u8 \<Rightarrow> tadma_stream" where
  "demo_sent a t s = \<lparr>ip = [10, 0, 0, a], comid = 1000, trigger = t, ts_count = 1, start = s\<rparr>"

definition demo_qsort :: "(tadma_stream \<Rightarrow> tadma_stream \<Rightarrow> s32) \<Rightarrow> tadma_stream list \<Rightarrow> tadma_stream list" where
  "demo_qsort cmp xs = sort_key trigger xs"

lemma demo_qsort_ok: "(\<forall>s\<in>set xs. trigger s < 2147483648) \<longrightarrow> qsort_ok demo_qsort sortbytrigger xs"
proof
  assume small: "\<forall>s\<in>set xs. trigger s < 2147483648"
  have "sorted_wrt (\<lambda>a b. trigger a \<le> trigger b) (sort_key trigger xs)"
    using sorted_sort_key [of trigger xs] by (simp only: sorted_map)
  then have "sorted_wrt (\<lambda>a b. sint (sortbytrigger a b) \<le> 0) (sort_key trigger xs)"
    by (rule sorted_wrt_mono_rel [rotated]) (use small in \<open>simp add: sortbytrigger_le word_less_nat_alt\<close>)
  then show "qsort_ok demo_qsort sortbytrigger xs" by (simp add: qsort_ok_def demo_qsort_def)
qed

lemma demo_ready: "ready demo_hash (ep_tadma demo_ep)"
  by (simp add: ready_def demo_ep_def demo_dev_def demo_hash_def tadma_hashtag_hash_def)

section \<open>Properties\<close>

text \<open>
  C13 (streams_take_effect): what the configuration tool sends to the endpoint driver, once the
  settings are read, takes effect. If the first stream is the one with the start flag and has
  the strictly smallest trigger time, all counts are at most 4 and all triggers below \<open>2 ^ 31\<close>,
  the streams can be told apart and fit into the device, and the C library's \<open>qsort\<close> sorts, then
  the requests succeed and the device carries exactly these streams in order of their triggers:
  packets of the \<open>k\<close>-th one are given stream number \<open>k\<close>, fetch slot \<open>k\<close> holds its trigger time
  and frame count, the table has no other entry, every other slot is empty, packets of none of
  the streams are given none, and the scheduler is enabled. Reading the addresses, which
  overruns an array, comes before and is not part of this.
\<close>

theorem streams_take_effect:
  assumes "ready h (ep_tadma e)" and "has_tadma cfg" and "addable (s0 # rest) (ep_tadma e)"
    and "start s0 \<noteq> 0" and "\<forall>s\<in>set rest. start s = 0 \<and> trigger s0 < trigger s"
    and "\<forall>s\<in>set (s0 # rest). trigger s < 2147483648"
    and "qsort_ok qs sortbytrigger (s0 # rest)"
  shows "\<exists>e'. send_streams h cfg (\<lambda>_. True) (qs sortbytrigger (s0 # rest)) e = Inr e' \<and>
     carries h (qs sortbytrigger (s0 # rest)) (ep_tadma e') \<and>
     mset (qs sortbytrigger (s0 # rest)) = mset (s0 # rest) \<and> sorted (map trigger (qs sortbytrigger (s0 # rest)))"
  using assms by (rule sent_carried)

theorem streams_take_effect_witness:
  "\<exists>e'. send_streams demo_hash demo_cfg (\<lambda>_. True)
       (demo_qsort sortbytrigger [demo_sent 1 8000 1, demo_sent 2 24000 0, demo_sent 3 16000 0]) demo_ep = Inr e' \<and>
     carries demo_hash [demo_sent 1 8000 1, demo_sent 3 16000 0, demo_sent 2 24000 0] (ep_tadma e')"
proof -
  let ?r = "[demo_sent 2 24000 0, demo_sent 3 16000 0]"
  have 1: "addable (demo_sent 1 8000 1 # ?r) (ep_tadma demo_ep)"
    by (simp add: addable_def apart_def demo_sent_def demo_ep_def demo_dev_def)
  have 2: "\<forall>s\<in>set (demo_sent 1 8000 1 # ?r). trigger s < 2147483648"
    "\<forall>s\<in>set ?r. start s = 0 \<and> trigger (demo_sent 1 8000 1) < trigger s" "start (demo_sent 1 8000 1) \<noteq> 0"
    "has_tadma demo_cfg"
    by (simp_all add: demo_sent_def demo_cfg_def)
  have "demo_qsort sortbytrigger (demo_sent 1 8000 1 # ?r) = [demo_sent 1 8000 1, demo_sent 3 16000 0, demo_sent 2 24000 0]"
    by (simp add: demo_qsort_def demo_sent_def)
  then show ?thesis
    using streams_take_effect [OF demo_ready 2(4) 1 2(3,2,1) demo_qsort_ok [rule_format, OF 2(1) [rule_format]]] by auto
qed

text \<open>The same streams with the later one first: after sorting, the start flag is on the second.\<close>

abbreviation demo_entry :: "u8 \<Rightarrow> u32 \<Rightarrow> tadma_stream_entry" where
  "demo_entry a t \<equiv> \<lparr>hashtag = mk_hash_tag [10, 0, 0, a] 1000, tticks = t, sid = 0, sfm = 0, te_count = 1\<rparr>"

lemma demo_flush: "axienet_tadma_flush_stream demo_dev = Inr (0, demo_dev)"
proof -
  have z: "(\<lambda>_. 0)(a := 0) = (\<lambda>_. 0 :: u32)" for a :: u32 by auto
  have "[0..<4] = [0, 1, 2, 3 :: nat]" by (simp add: upt_rec)
  then show ?thesis
    by (simp add: axienet_tadma_flush_stream_def demo_dev_def flush_slot_def tadma_iow_def z Let_def)
qed

lemma demo_misordered_add:
  "add_streams demo_hash demo_cfg (\<lambda>_. True) 0
     [demo_sent 2 8000 0, demo_sent 1 16000 1] demo_ep =
   Inr (demo_ep\<lparr>ep_tadma := demo_dev\<lparr>get_sid := 1, get_sfm := 1,
     t_cb := Some [[demo_entry 1 16000, demo_entry 2 8000], [], [], []]\<rparr>\<rparr>)"
proof -
  have "\<not> hash_tag_equal (mk_hash_tag [10, 0, 0, 2] 1000) (mk_hash_tag [10, 0, 0, 1] 1000)"
    by (simp add: hash_tag_equal_streams)
  then show ?thesis
    by (simp add: add_stream_def app_ioctl_def tsn_ep_ioctl_def on_tadma_def demo_sent_def demo_cfg_def
        demo_ep_def demo_dev_def axienet_tadma_add_stream_def Let_def tadma_hashtag_hash_def demo_hash_def bucket_at_def
        hlist_add_head_def)
qed

lemma demo_misordered_program:
  "\<exists>d. axienet_tadma_program (demo_dev\<lparr>get_sid := 1, get_sfm := 1,
     t_cb := Some [[demo_entry 1 16000, demo_entry 2 8000], [], [], []]\<rparr>) = Inr (0, d) \<and>
     tadma_ior d 0x1000 = 1000 \<and> tadma_ior d 0x1008 = 0 \<and> tadma_ior d 0x100C = 0"
  by (simp add: axienet_tadma_program_def demo_dev_def Let_def program_bucket_def tadma_sfm_program_def
      sfm_entry_offset_def tadma_reg.ior_iow tadma_ior_def tadma_iow_def)

text \<open>
  The order of the settings matters. The start flag is given to
  the first setting before the list is sorted, so a configuration that lists a later trigger
  first restarts the numbering in the middle: both streams become stream 0 in slot 0, only the
  first trigger in the list is scheduled, and slot 1 stays empty.
\<close>

theorem misordered_config_collides:
  "\<exists>e'. send_streams demo_hash demo_cfg (\<lambda>_. True)
       (demo_qsort sortbytrigger [demo_sent 1 16000 1, demo_sent 2 8000 0]) demo_ep = Inr e' \<and>
     table_entries (ep_tadma e') = [demo_entry 1 16000, demo_entry 2 8000] \<and>
     tadma_get_strid demo_hash ((demo_skb 1000)\<lparr>skb_daddr := [10, 0, 0, 1]\<rparr>) (ep_tadma e') = Inr 0 \<and>
     tadma_get_strid demo_hash ((demo_skb 1000)\<lparr>skb_daddr := [10, 0, 0, 2]\<rparr>) (ep_tadma e') = Inr 0 \<and>
     tadma_ior (ep_tadma e') 0x1000 = 1000 \<and>
     tadma_ior (ep_tadma e') 0x1008 = 0 \<and> tadma_ior (ep_tadma e') 0x100C = 0"
proof -
  let ?d = "demo_dev\<lparr>get_sid := 1, get_sfm := 1, t_cb := Some [[demo_entry 1 16000, demo_entry 2 8000], [], [], []]\<rparr>"
  obtain d where d: "axienet_tadma_program ?d = Inr (0, d)" "tadma_ior d 0x1000 = 1000"
      "tadma_ior d 0x1008 = 0" "tadma_ior d 0x100C = 0"
    using demo_misordered_program by blast
  let ?e = "demo_ep\<lparr>ep_tadma := d\<rparr>"
  have "demo_qsort sortbytrigger [demo_sent 1 16000 1, demo_sent 2 8000 0] = [demo_sent 2 8000 0, demo_sent 1 16000 1]"
    by (simp add: demo_qsort_def demo_sent_def)
  moreover have "send_streams demo_hash demo_cfg (\<lambda>_. True) [demo_sent 2 8000 0, demo_sent 1 16000 1] demo_ep = Inr ?e"
  proof -
    have "flush_stream demo_hash demo_cfg demo_ep = Inr demo_ep"
      by (simp add: flush_stream_def app_ioctl_def tsn_ep_ioctl_def on_tadma_def demo_flush demo_cfg_def demo_ep_def)
    then show ?thesis using d(1)
      by (simp only: send_streams_def demo_misordered_add sum.case)
         (simp add: program_all_streams_def app_ioctl_def tsn_ep_ioctl_def on_tadma_def demo_cfg_def)
  qed
  ultimately have m: "send_streams demo_hash demo_cfg (\<lambda>_. True)
      (demo_qsort sortbytrigger [demo_sent 1 16000 1, demo_sent 2 8000 0]) demo_ep = Inr ?e" by simp
  have r: "d = ?d\<lparr>tadma_regs := tadma_regs d\<rparr>" by (rule program_regs [OF d(1)])
  have h: "\<not> hash_tag_equal (mk_hash_tag [10, 0, 0, 1] 1000) (mk_hash_tag [10, 0, 0, 2] 1000)"
    by (simp add: hash_tag_equal_streams)
  have "table_entries d = [demo_entry 1 16000, demo_entry 2 8000]" by (subst r) (simp add: table_entries_def)
  moreover have "tadma_get_strid demo_hash ((demo_skb 1000)\<lparr>skb_daddr := [10, 0, 0, 1]\<rparr>) d = Inr 0"
    "tadma_get_strid demo_hash ((demo_skb 1000)\<lparr>skb_daddr := [10, 0, 0, 2]\<rparr>) d = Inr 0"
    by (subst r, use h in \<open>simp add: tadma_get_strid_def bucket_at_def tadma_hashtag_hash_def demo_hash_def demo_skb_def\<close>)+
  ultimately show ?thesis using m d(2-4) by (intro exI [of _ ?e]) simp
qed

end
