(* ===== verification/Shaper_Schedule.thy ===== *)
theory Shaper_Schedule
  imports Shaper
begin

text \<open>
  What the gate scheduler guarantees: an accepted schedule is in the administrative registers,
  reading it back after the hardware has taken it over gives it again, and every refused call
  leaves the device as it was.
\<close>


section \<open>Addresses and fields\<close>

lemma unat_admin: "i < 512 \<Longrightarrow> unat (ADMIN_CTRL_LIST i) = 4096 + 8 * i \<and> unat (ADMIN_CTRL_LIST_TIME i) = 4100 + 8 * i"
  by (simp add: ADMIN_CTRL_LIST_def ADMIN_CTRL_LIST_TIME_def unat_word_ariths unat_of_nat)

lemma admin_addr:
  assumes "i < 512" and "j < 512"
  shows "ADMIN_CTRL_LIST i = ADMIN_CTRL_LIST j \<longleftrightarrow> i = j"
    and "ADMIN_CTRL_LIST_TIME i = ADMIN_CTRL_LIST_TIME j \<longleftrightarrow> i = j"
    and "ADMIN_CTRL_LIST i \<noteq> ADMIN_CTRL_LIST_TIME j"
    and "ADMIN_CTRL_LIST_TIME j \<noteq> ADMIN_CTRL_LIST i"
  using unat_admin [OF assms(1)] unat_admin [OF assms(2)] by (auto simp: word_unat_eq_iff) presburger+

lemma admin_high:
  assumes "i < 512" and "unat a < 4096"
  shows "a \<noteq> ADMIN_CTRL_LIST i" and "a \<noteq> ADMIN_CTRL_LIST_TIME i"
  using unat_admin [OF assms(1)] assms(2) by auto

lemma qbv_masks:
  "(1::u32) = BIT 0" "(2::u32) = BIT 1" "(4::u32) = BIT 2" "(7::u32) = field_mask 3 0"
  "(0x1FF::u32) = field_mask 9 0" "(0x40000000::u32) = BIT 30" "(0x80000000::u32) = BIT 31"
  "(0xFFFFF::u32) = field_mask 20 0"
  by (simp_all add: BIT_def field_mask_def mask_eq_exp_minus_1)

lemmas gs_open = and_bit_zero [of _ 0, where 'a = 32, folded qbv_masks(1)]
  and_bit_zero [of _ 1, where 'a = 32, folded qbv_masks(2)] and_bit_zero [of _ 2, where 'a = 32, folded qbv_masks(3)]

text \<open>The gate bits of the hardware: queue 0 is BE; ST is queue 2 of three or queue 1 of two.\<close>

lemma bit_map_gs:
  "bit (axienet_map_gs_to_hw lp gs) n \<longleftrightarrow>
     n = 0 \<and> bit gs 0 \<or> num_tc lp = 2 \<and> n = 1 \<and> bit gs 2 \<or> num_tc lp \<noteq> 2 \<and> n = 2 \<and> bit gs 2 \<or>
     num_tc lp = 3 \<and> n = 1 \<and> bit gs 1"
  unfolding axienet_map_gs_to_hw_def Let_def BIT_def [symmetric] gs_open
  by (auto simp: bit_simps)

lemma map_gs_cong: "num_tc lp = num_tc lp' \<Longrightarrow> axienet_map_gs_to_hw lp gs = axienet_map_gs_to_hw lp' gs"
  by (simp add: axienet_map_gs_to_hw_def)

text \<open>What reading the operational list makes of an entry that was written for gate state \<open>gs\<close>.\<close>

definition read_back_gs :: "u16 \<Rightarrow> u32 \<Rightarrow> u32" where
  "read_back_gs tc gs =
     (if tc = 3 then gs AND 7
      else if tc = 2 then (if gs AND 5 = 5 then 3 else gs AND 5)
      else gs AND 5)"

lemma bit_word_8: "(\<And>n. n < 3 \<Longrightarrow> bit v n = bit w n) \<Longrightarrow> v AND 7 = w AND 7" for v w :: u32
  unfolding qbv_masks by (rule bit_word_eqI) (auto simp: bit_simps)

lemma and7_cases: "bit v 0 = a \<Longrightarrow> bit v 1 = b \<Longrightarrow> bit v 2 = c \<Longrightarrow>
    v AND 7 = (if a then 1 else 0) + (if b then 2 else 0) + (if c then 4 else 0)" for v :: u32
proof -
  assume *: "bit v 0 = a" "bit v 1 = b" "bit v 2 = c"
  let ?w = "(if a then 1 else 0) + (if b then 2 else 0) + (if c then 4 else 0) :: u32"
  have "v AND 7 = ?w AND 7"
  proof (rule bit_word_8)
    fix n :: nat assume "n < 3"
    then consider "n = 0" | "n = 1" | "n = 2" by linarith
    then show "bit v n = bit ?w n" using * by cases (auto split: if_splits)
  qed
  also have "\<dots> = ?w" by auto
  finally show ?thesis .
qed

lemma gs_read_back:
  fixes gs :: u32
  assumes "num_tc lp = 2 \<or> num_tc lp = 3"
  defines "hw \<equiv> drop_bit 8 (push_bit 8 (axienet_map_gs_to_hw lp gs AND 7)) AND 7"
  shows "(if num_tc lp = 2 \<and> hw = 2 then 4 else hw) = read_back_gs (num_tc lp) gs"
proof -
  have "hw = axienet_map_gs_to_hw lp gs AND 7"
    unfolding hw_def qbv_masks by (rule bit_word_eqI) (auto simp: bit_simps)
  moreover have "gs AND 5 = (gs AND 7) AND 5" by (simp add: and.assoc)
  moreover have "gs AND 7 = (if bit gs 0 then 1 else 0) + (if bit gs 1 then 2 else 0) + (if bit gs 2 then 4 else 0)"
    by (rule and7_cases) auto
  moreover have "axienet_map_gs_to_hw lp gs AND 7 = (if bit gs 0 then 1 else 0) +
      (if num_tc lp = 2 \<and> bit gs 2 \<or> num_tc lp = 3 \<and> bit gs 1 then 2 else 0) +
      (if num_tc lp \<noteq> 2 \<and> bit gs 2 then 4 else 0)"
    by (rule and7_cases) (auto simp: bit_map_gs)
  ultimately show ?thesis using assms(1) by (auto simp: read_back_gs_def)
qed


section \<open>Writing and reading the list\<close>

lemma set_list_ok:
  assumes "i + n \<le> 256"
  shows "\<exists>lp'. set_list qbv i n lp = Inr lp' \<and> num_tc lp' = num_tc lp \<and> regs lp' = regs lp \<and>
     (\<forall>j. i \<le> j \<and> j < i + n \<longrightarrow>
        axienet_qbv_ior lp' (ADMIN_CTRL_LIST j) =
          push_bit 8 (axienet_map_gs_to_hw lp (acl_gate_state qbv j) AND 7) \<and>
        axienet_qbv_ior lp' (ADMIN_CTRL_LIST_TIME j) = acl_gate_time qbv j AND 0xFFFFF) \<and>
     (\<forall>a. (\<forall>j. i \<le> j \<and> j < i + n \<longrightarrow> a \<noteq> ADMIN_CTRL_LIST j \<and> a \<noteq> ADMIN_CTRL_LIST_TIME j) \<longrightarrow>
        axienet_qbv_ior lp' a = axienet_qbv_ior lp a)"
  using assms
proof (induction n arbitrary: i lp)
  case (Suc n)
  let ?x = "axienet_qbv_iow (axienet_qbv_iow lp (ADMIN_CTRL_LIST i)
      (push_bit 8 (axienet_map_gs_to_hw lp (acl_gate_state qbv i) AND 7))) (ADMIN_CTRL_LIST_TIME i)
      (acl_gate_time qbv i AND 0xFFFFF)"
  have m: "axienet_map_gs_to_hw ?x = axienet_map_gs_to_hw lp"
    by (rule ext, rule map_gs_cong) simp
  have r: "regs ?x = regs lp" by (simp add: axienet_qbv_iow_def)
  from Suc.IH [of "Suc i" ?x] Suc.prems obtain y where y: "set_list qbv (Suc i) n ?x = Inr y"
      "num_tc y = num_tc lp" "regs y = regs lp"
    and l: "\<And>j. Suc i \<le> j \<Longrightarrow> j < Suc i + n \<Longrightarrow>
        axienet_qbv_ior y (ADMIN_CTRL_LIST j) =
          push_bit 8 (axienet_map_gs_to_hw lp (acl_gate_state qbv j) AND 7) \<and>
        axienet_qbv_ior y (ADMIN_CTRL_LIST_TIME j) = acl_gate_time qbv j AND 0xFFFFF"
    and f: "\<And>a. (\<forall>j. Suc i \<le> j \<and> j < Suc i + n \<longrightarrow> a \<noteq> ADMIN_CTRL_LIST j \<and> a \<noteq> ADMIN_CTRL_LIST_TIME j)
        \<Longrightarrow> axienet_qbv_ior y a = axienet_qbv_ior ?x a"
    unfolding m r by auto
  have fi: "axienet_qbv_ior y (ADMIN_CTRL_LIST i) = axienet_qbv_ior ?x (ADMIN_CTRL_LIST i)"
    "axienet_qbv_ior y (ADMIN_CTRL_LIST_TIME i) = axienet_qbv_ior ?x (ADMIN_CTRL_LIST_TIME i)"
    using Suc.prems by (intro f allI impI; simp add: admin_addr)+
  have "\<not> 256 \<le> i" using Suc.prems by simp
  then have "set_list qbv i (Suc n) lp = Inr y" using y(1) by (simp add: Let_def)
  moreover have "axienet_qbv_ior y (ADMIN_CTRL_LIST j) =
          push_bit 8 (axienet_map_gs_to_hw lp (acl_gate_state qbv j) AND 7) \<and>
        axienet_qbv_ior y (ADMIN_CTRL_LIST_TIME j) = acl_gate_time qbv j AND 0xFFFFF"
    if "i \<le> j" "j < i + Suc n" for j
  proof (cases "j = i")
    case True
    then show ?thesis using fi Suc.prems by (simp add: qbv_reg.ior_iow admin_addr)
  qed (use that l in simp)
  moreover have "axienet_qbv_ior y a = axienet_qbv_ior lp a"
    if "\<forall>j. i \<le> j \<and> j < i + Suc n \<longrightarrow> a \<noteq> ADMIN_CTRL_LIST j \<and> a \<noteq> ADMIN_CTRL_LIST_TIME j" for a
  proof -
    have "axienet_qbv_ior y a = axienet_qbv_ior ?x a" using that by (intro f) auto
    also have "\<dots> = axienet_qbv_ior lp a"
      using that [rule_format, of i] by (auto simp: qbv_reg.ior_iow)
    finally show ?thesis .
  qed
  ultimately show ?case using y(2,3) by blast
qed auto

lemma set_list_over: "i \<le> 256 \<Longrightarrow> 256 < i + n \<Longrightarrow> set_list qbv i n lp = Inl OutOfBounds"
  by (induction n arbitrary: i lp) (auto simp: Let_def)

lemma get_list_ok:
  assumes "i + n \<le> 256"
  shows "\<exists>q'. get_list lp i n q = Inr q' \<and>
     q' = q\<lparr>acl_gate_state := acl_gate_state q', acl_gate_time := acl_gate_time q'\<rparr> \<and>
     (\<forall>j. i \<le> j \<and> j < i + n \<longrightarrow>
        acl_gate_state q' j = (let gs = drop_bit 8 (axienet_qbv_ior lp (OPER_CTRL_LIST j)) AND 7
          in if num_tc lp = 2 \<and> gs = 2 then 4 else gs) \<and>
        acl_gate_time q' j = axienet_qbv_ior lp (OPER_CTRL_LIST_TIME j) AND 0xFFFFF) \<and>
     (\<forall>j<i. acl_gate_state q' j = acl_gate_state q j \<and> acl_gate_time q' j = acl_gate_time q j)"
  using assms
proof (induction n arbitrary: i q)
  case (Suc n)
  let ?gs = "let gs = drop_bit 8 (axienet_qbv_ior lp (OPER_CTRL_LIST i)) AND 7
          in if num_tc lp = 2 \<and> gs = 2 then 4 else gs"
  let ?x = "q\<lparr>acl_gate_state := (acl_gate_state q)(i := ?gs),
      acl_gate_time := (acl_gate_time q)(i := axienet_qbv_ior lp (OPER_CTRL_LIST_TIME i) AND 0xFFFFF)\<rparr>"
  from Suc.prems have "\<not> 256 \<le> i" by simp
  then have g: "get_list lp i (Suc n) q = get_list lp (Suc i) n ?x" by (simp add: Let_def)
  from Suc.IH [of "Suc i" ?x] Suc.prems obtain y where y: "get_list lp (Suc i) n ?x = Inr y"
      "y = ?x\<lparr>acl_gate_state := acl_gate_state y, acl_gate_time := acl_gate_time y\<rparr>"
    and l: "\<forall>j. Suc i \<le> j \<and> j < Suc i + n \<longrightarrow>
        acl_gate_state y j = (let gs = drop_bit 8 (axienet_qbv_ior lp (OPER_CTRL_LIST j)) AND 7
          in if num_tc lp = 2 \<and> gs = 2 then 4 else gs) \<and>
        acl_gate_time y j = axienet_qbv_ior lp (OPER_CTRL_LIST_TIME j) AND 0xFFFFF"
    and b: "\<forall>j<Suc i. acl_gate_state y j = acl_gate_state ?x j \<and> acl_gate_time y j = acl_gate_time ?x j"
    by auto
  have bi: "acl_gate_state y i = ?gs \<and> acl_gate_time y i = axienet_qbv_ior lp (OPER_CTRL_LIST_TIME i) AND 0xFFFFF"
    using b by simp
  have bl: "\<forall>j<i. acl_gate_state y j = acl_gate_state q j \<and> acl_gate_time y j = acl_gate_time q j"
    using b by simp
  have "y = q\<lparr>acl_gate_state := acl_gate_state y, acl_gate_time := acl_gate_time y\<rparr>"
    using y(2) by simp
  moreover have "\<forall>j. i \<le> j \<and> j < i + Suc n \<longrightarrow>
        acl_gate_state y j = (let gs = drop_bit 8 (axienet_qbv_ior lp (OPER_CTRL_LIST j)) AND 7
          in if num_tc lp = 2 \<and> gs = 2 then 4 else gs) \<and>
        acl_gate_time y j = axienet_qbv_ior lp (OPER_CTRL_LIST_TIME j) AND 0xFFFFF"
    using l bi by (metis Suc_leI add_Suc add_Suc_right le_neq_implies_less)
  ultimately show ?case using g y(1) bl by metis
qed auto


section \<open>Properties\<close>

text \<open>The configuration word that starts a schedule of \<open>n\<close> entries.\<close>

definition sched_started :: "u32 \<Rightarrow> u32 \<Rightarrow> bool" where
  "sched_started cc n \<longleftrightarrow> bit cc 30 \<and> bit cc 31 \<and> get_field 9 8 cc = n AND 0x1FF"

lemma sched_started_word:
  "sched_started (((x AND NOT (push_bit 8 0x1FF)) OR push_bit 8 (n AND 0x1FF)) OR 0x40000000 OR 0x80000000) n"
proof -
  have "bit (((x AND NOT (push_bit 8 0x1FF)) OR push_bit 8 (n AND 0x1FF)) OR 0x40000000 OR 0x80000000) i"
    if "i = 30 \<or> i = 31" for i
    unfolding qbv_masks using that by (auto simp: bit_simps)
  moreover have "get_field 9 8 (((x AND NOT (push_bit 8 0x1FF)) OR push_bit 8 (n AND 0x1FF)) OR 0x40000000 OR 0x80000000)
      = n AND 0x1FF"
    unfolding qbv_masks by (rule bit_word_eqI) (auto simp: bit_simps)
  ultimately show ?thesis by (simp add: sched_started_def)
qed

definition runnable :: "qbv_info \<Rightarrow> axienet_local \<Rightarrow> bool" where
  "runnable q lp \<longleftrightarrow> cycle_time q \<noteq> 0 \<and> (axienet_qbv_ior lp PORT_STATUS AND 1 = 0 \<or> force q \<noteq> 0) \<and>
     list_length q \<le> 256"

lemma programs:
  assumes "runnable q lp"
  shows "\<exists>lp'. axienet_set_schedule True (Some q) lp = Inr (0, lp') \<and> num_tc lp' = num_tc lp \<and>
     sched_started (axienet_qbv_ior lp' CONFIG_CHANGE) (list_length q) \<and>
     axienet_qbv_ior lp' ADMIN_CYCLE_TIME_DENOMINATOR = cycle_time q AND CYCLE_TIME_DENOMINATOR_MASK \<and>
     axienet_qbv_ior lp' ADMIN_BASE_TIME_NS = ptp_time_ns q \<and>
     axienet_qbv_ior lp' ADMIN_BASE_TIME_SEC = ucast (ptp_time_sec q) \<and>
     axienet_qbv_ior lp' ADMIN_BASE_TIME_SECS = ucast (drop_bit 32 (ptp_time_sec q) AND 0xFFFF) \<and>
     (\<forall>i<unat (list_length q).
        axienet_qbv_ior lp' (ADMIN_CTRL_LIST i) =
          push_bit 8 (axienet_map_gs_to_hw lp (acl_gate_state q i) AND 7) \<and>
        axienet_qbv_ior lp' (ADMIN_CTRL_LIST_TIME i) = acl_gate_time q i AND CTRL_LIST_TIME_INTERVAL_MASK)"
proof -
  let ?lp1 = "if axienet_qbv_ior lp 0x3c AND 1 \<noteq> 0 then axienet_qbv_iow lp 0 (0 AND NOT 0x80000000) else lp"
  let ?lp2 = "set_admin_times q ?lp1"
  let ?n = "unat (list_length q)"
  have n: "0 + ?n \<le> 256" using assms by (simp add: runnable_def word_le_nat_alt)
  have tc: "num_tc ?lp2 = num_tc lp" by (simp add: set_admin_times_def Let_def)
  have m: "axienet_map_gs_to_hw ?lp2 = axienet_map_gs_to_hw lp" by (rule ext, rule map_gs_cong, rule tc)
  from set_list_ok [OF n, of q ?lp2] obtain y where y: "set_list q 0 ?n ?lp2 = Inr y" "num_tc y = num_tc lp"
    and l: "\<And>j. j < ?n \<Longrightarrow> axienet_qbv_ior y (ADMIN_CTRL_LIST j) =
          push_bit 8 (axienet_map_gs_to_hw lp (acl_gate_state q j) AND 7) \<and>
        axienet_qbv_ior y (ADMIN_CTRL_LIST_TIME j) = acl_gate_time q j AND 0xFFFFF"
    and f: "\<And>a. (\<forall>j<?n. a \<noteq> ADMIN_CTRL_LIST j \<and> a \<noteq> ADMIN_CTRL_LIST_TIME j) \<Longrightarrow>
        axienet_qbv_ior y a = axienet_qbv_ior ?lp2 a"
    unfolding m tc by auto
  have low: "axienet_qbv_ior y a = axienet_qbv_ior ?lp2 a" if "unat a < 4096" for a
    using that n by (intro f) (auto simp: admin_high)
  let ?cc = "((axienet_qbv_ior ?lp2 0 AND NOT (push_bit 8 0x1FF)) OR push_bit 8 (list_length q AND 0x1FF))
      OR 0x40000000 OR 0x80000000"
  let ?lp' = "axienet_qbv_iow (axienet_qbv_iow y 0x30 0) 0 ?cc"
  have "axienet_set_schedule True (Some q) lp = Inr (0, ?lp')"
    using assms y(1) by (auto simp: axienet_set_schedule_def axienet_set_schedule_body_def Let_def runnable_def or.assoc)
  moreover have "sched_started (axienet_qbv_ior ?lp' 0) (list_length q)"
    using sched_started_word by (simp add: qbv_reg.ior_iow)
  moreover have "axienet_qbv_ior ?lp' (ADMIN_CTRL_LIST j) = axienet_qbv_ior y (ADMIN_CTRL_LIST j)"
    "axienet_qbv_ior ?lp' (ADMIN_CTRL_LIST_TIME j) = axienet_qbv_ior y (ADMIN_CTRL_LIST_TIME j)"
    if "j < ?n" for j
    using that n admin_high [of j 0] admin_high [of j "0x30"] by (auto simp: qbv_reg.ior_iow)
  moreover have "ucast (x AND 0xFFFFFFFF) = (ucast x :: u32)" for x :: u64
  proof -
    have m: "(0xFFFFFFFF :: u64) = field_mask 32 0" by (simp add: field_mask_def mask_eq_exp_minus_1)
    show ?thesis unfolding m by (rule bit_word_eqI) (auto simp: bit_simps)
  qed
  ultimately show ?thesis
    using l y(2) by (intro exI [of _ ?lp']) (simp add: qbv_reg.ior_iow low, simp add: set_admin_times_def Let_def qbv_reg.ior_iow)
qed


text \<open>
  a schedule with a cycle time, at most 256 entries, on a port that
  is not changing its schedule (or forced) is accepted, and the administrative registers hold
  it: cycle time, base time split over three words, every entry's gate mask and interval, and a
  control word with the list's length that enables the gates and requests the change.
\<close>

theorem set_schedule_programs:
  assumes "runnable q lp"
  shows "\<exists>lp'. axienet_set_schedule True (Some q) lp = Inr (0, lp') \<and> num_tc lp' = num_tc lp \<and>
     sched_started (axienet_qbv_ior lp' CONFIG_CHANGE) (list_length q) \<and>
     axienet_qbv_ior lp' ADMIN_CYCLE_TIME_DENOMINATOR = cycle_time q AND CYCLE_TIME_DENOMINATOR_MASK \<and>
     axienet_qbv_ior lp' ADMIN_BASE_TIME_NS = ptp_time_ns q \<and>
     axienet_qbv_ior lp' ADMIN_BASE_TIME_SEC = ucast (ptp_time_sec q) \<and>
     axienet_qbv_ior lp' ADMIN_BASE_TIME_SECS = ucast (drop_bit 32 (ptp_time_sec q) AND 0xFFFF) \<and>
     (\<forall>i<unat (list_length q).
        axienet_qbv_ior lp' (ADMIN_CTRL_LIST i) =
          push_bit 8 (axienet_map_gs_to_hw lp (acl_gate_state q i) AND 7) \<and>
        axienet_qbv_ior lp' (ADMIN_CTRL_LIST_TIME i) = acl_gate_time q i AND CTRL_LIST_TIME_INTERVAL_MASK)"
  by (rule programs [OF assms])

text \<open>
  The hardware's step from the administrative to the operational schedule: it has taken over
  cycle time, base time, list length and list, and the gates are still enabled.
\<close>

definition latched :: "axienet_local \<Rightarrow> axienet_local \<Rightarrow> bool" where
  "latched lp lp' \<longleftrightarrow> num_tc lp' = num_tc lp \<and> bit (axienet_qbv_ior lp' CONFIG_CHANGE) 31 \<and>
     get_field 9 8 (axienet_qbv_ior lp' GATE_STATE) = get_field 9 8 (axienet_qbv_ior lp CONFIG_CHANGE) \<and>
     axienet_qbv_ior lp' OPER_CYCLE_TIME_DENOMINATOR = axienet_qbv_ior lp ADMIN_CYCLE_TIME_DENOMINATOR \<and>
     axienet_qbv_ior lp' OPER_BASE_TIME_NS = axienet_qbv_ior lp ADMIN_BASE_TIME_NS \<and>
     axienet_qbv_ior lp' OPER_BASE_TIME_SEC = axienet_qbv_ior lp ADMIN_BASE_TIME_SEC \<and>
     axienet_qbv_ior lp' OPER_BASE_TIME_SECS = axienet_qbv_ior lp ADMIN_BASE_TIME_SECS \<and>
     (\<forall>i<256. axienet_qbv_ior lp' (OPER_CTRL_LIST i) = axienet_qbv_ior lp (ADMIN_CTRL_LIST i) \<and>
        axienet_qbv_ior lp' (OPER_CTRL_LIST_TIME i) = axienet_qbv_ior lp (ADMIN_CTRL_LIST_TIME i))"

lemma base_time_join:
  "ucast (ucast x :: u32) OR push_bit 32 (ucast ((ucast (drop_bit 32 x AND 0xFFFF) :: u32) AND 0xFFFF)) =
     take_bit 48 x" for x :: u64
proof -
  have m: "(0xFFFF :: u64) = field_mask 16 0" "(0xFFFF :: u32) = field_mask 16 0"
    by (simp_all add: field_mask_def mask_eq_exp_minus_1)
  show ?thesis unfolding m by (rule bit_word_eqI) (auto simp: bit_simps)
qed

lemma drop_field: "drop_bit 8 x AND 0x1FF = get_field 9 8 x" for x :: u32
  unfolding qbv_masks by (rule bit_word_eqI) (auto simp: bit_simps)

lemma latched_header:
  assumes "latched lp1 lp2" and "sched_started (axienet_qbv_ior lp1 0) n" and "unat n \<le> 256"
  shows "drop_bit 8 (axienet_qbv_ior lp2 8) AND 0x1FF = n" and "axienet_qbv_ior lp2 0 AND 0x80000000 \<noteq> 0"
proof -
  have "n AND 0x1FF = n"
    using and_mask_id [of n 9] assms(3) by (simp add: mask_eq_exp_minus_1)
  then show "drop_bit 8 (axienet_qbv_ior lp2 8) AND 0x1FF = n"
    using assms(1,2) unfolding drop_field by (simp add: latched_def sched_started_def)
  show "axienet_qbv_ior lp2 0 AND 0x80000000 \<noteq> 0"
    using assms(1) and_bit_zero [of "axienet_qbv_ior lp2 0" 31, folded qbv_masks] by (simp add: latched_def)
qed

lemma latched_entry:
  assumes "latched lp1 lp2" and "i < 256" and "num_tc lp1 = num_tc lp" and "num_tc lp = 2 \<or> num_tc lp = 3"
    and "axienet_qbv_ior lp1 (ADMIN_CTRL_LIST i) = push_bit 8 (axienet_map_gs_to_hw lp gs AND 7)"
    and "axienet_qbv_ior lp1 (ADMIN_CTRL_LIST_TIME i) = t AND 0xFFFFF"
  shows "(let g = drop_bit 8 (axienet_qbv_ior lp2 (OPER_CTRL_LIST i)) AND 7
      in if num_tc lp2 = 2 \<and> g = 2 then 4 else g) = read_back_gs (num_tc lp) gs"
    and "axienet_qbv_ior lp2 (OPER_CTRL_LIST_TIME i) AND 0xFFFFF = t AND 0xFFFFF"
proof -
  have o: "axienet_qbv_ior lp2 (OPER_CTRL_LIST i) = axienet_qbv_ior lp1 (ADMIN_CTRL_LIST i)"
    "axienet_qbv_ior lp2 (OPER_CTRL_LIST_TIME i) = axienet_qbv_ior lp1 (ADMIN_CTRL_LIST_TIME i)"
    "num_tc lp2 = num_tc lp"
    using assms(1-3) by (auto simp: latched_def)
  show "(let g = drop_bit 8 (axienet_qbv_ior lp2 (OPER_CTRL_LIST i)) AND 7
      in if num_tc lp2 = 2 \<and> g = 2 then 4 else g) = read_back_gs (num_tc lp) gs"
    unfolding o assms(5) Let_def by (rule gs_read_back [OF assms(4)])
  show "axienet_qbv_ior lp2 (OPER_CTRL_LIST_TIME i) AND 0xFFFFF = t AND 0xFFFFF"
    unfolding o assms(6) by (simp only: and.assoc and.idem)
qed

lemma read_back:
  assumes "runnable q lp" and "num_tc lp = 2 \<or> num_tc lp = 3"
    and "axienet_set_schedule True (Some q) lp = Inr (0, lp1)" and "latched lp1 lp2"
  shows "\<exists>q'. axienet_get_schedule True (Some u) True lp2 = Inr (0, Some q') \<and>
     list_length q' = list_length q \<and> cycle_time q' = cycle_time q AND CYCLE_TIME_DENOMINATOR_MASK \<and>
     ptp_time_ns q' = ptp_time_ns q AND OPER_BASE_TIME_NS_MASK \<and>
     ptp_time_sec q' = take_bit 48 (ptp_time_sec q) \<and>
     (\<forall>i<unat (list_length q).
        acl_gate_state q' i = read_back_gs (num_tc lp) (acl_gate_state q i) \<and>
        acl_gate_time q' i = acl_gate_time q i AND CTRL_LIST_TIME_INTERVAL_MASK)"
proof -
  let ?n = "list_length q"
  from programs [OF assms(1)] assms(3) have tc: "num_tc lp1 = num_tc lp"
    and st: "sched_started (axienet_qbv_ior lp1 0) ?n"
    and t: "axienet_qbv_ior lp1 0x18 = cycle_time q AND 0x3FFFFFFF"
      "axienet_qbv_ior lp1 0x20 = ptp_time_ns q" "axienet_qbv_ior lp1 0x24 = ucast (ptp_time_sec q)"
      "axienet_qbv_ior lp1 0x28 = ucast (drop_bit 32 (ptp_time_sec q) AND 0xFFFF)"
    and l: "\<And>i. i < unat ?n \<Longrightarrow> axienet_qbv_ior lp1 (ADMIN_CTRL_LIST i) =
          push_bit 8 (axienet_map_gs_to_hw lp (acl_gate_state q i) AND 7) \<and>
        axienet_qbv_ior lp1 (ADMIN_CTRL_LIST_TIME i) = acl_gate_time q i AND 0xFFFFF"
    by auto
  have n: "unat ?n \<le> 256" using assms(1) by (simp add: runnable_def word_le_nat_alt)
  note hd = latched_header [OF assms(4) st n]
  have n0: "0 + unat ?n \<le> 256" using n by simp
  let ?q0 = "u\<lparr>list_length := ?n, cycle_time := axienet_qbv_ior lp2 0x58 AND 0x3FFFFFFF,
      ptp_time_ns := axienet_qbv_ior lp2 0x60 AND 0x3FFFFFFF,
      ptp_time_sec := ucast (axienet_qbv_ior lp2 0x64) OR push_bit 32 (ucast (axienet_qbv_ior lp2 0x68 AND 0xFFFF))\<rparr>"
  from get_list_ok [OF n0, of lp2 ?q0] obtain q' where q': "get_list lp2 0 (unat ?n) ?q0 = Inr q'"
      "q' = ?q0\<lparr>acl_gate_state := acl_gate_state q', acl_gate_time := acl_gate_time q'\<rparr>"
    and g: "\<And>j. j < unat ?n \<Longrightarrow>
        acl_gate_state q' j = (let gs = drop_bit 8 (axienet_qbv_ior lp2 (OPER_CTRL_LIST j)) AND 7
          in if num_tc lp2 = 2 \<and> gs = 2 then 4 else gs) \<and>
        acl_gate_time q' j = axienet_qbv_ior lp2 (OPER_CTRL_LIST_TIME j) AND 0xFFFFF" by auto
  have "axienet_get_schedule True (Some u) True lp2 = Inr (0, Some q')"
    using hd q'(1) by (simp add: axienet_get_schedule_def axienet_get_schedule_body_def Let_def)
  moreover have "list_length q' = ?n" "cycle_time q' = cycle_time ?q0" "ptp_time_ns q' = ptp_time_ns ?q0"
    "ptp_time_sec q' = ptp_time_sec ?q0"
    by (subst q'(2), simp)+
  moreover have "cycle_time ?q0 = cycle_time q AND 0x3FFFFFFF" "ptp_time_ns ?q0 = ptp_time_ns q AND 0x3FFFFFFF"
    "ptp_time_sec ?q0 = take_bit 48 (ptp_time_sec q)"
    using assms(4) t base_time_join by (simp_all add: latched_def and.assoc)
  moreover have "acl_gate_state q' i = read_back_gs (num_tc lp) (acl_gate_state q i) \<and>
        acl_gate_time q' i = acl_gate_time q i AND 0xFFFFF" if i: "i < unat ?n" for i
    using g [OF i] latched_entry [OF assms(4) _ tc assms(2)] l [OF i] i n by simp
  ultimately show ?thesis by auto
qed

text \<open>
  C8 (schedule_roundtrip): what \<open>axienet_get_schedule\<close> reports once the hardware has taken over
  a schedule set with \<open>axienet_set_schedule\<close> is that schedule, up to the widths of the registers
  (30 bits of cycle time and nanoseconds, 48 bits of seconds, 20 bits of interval). Gate states
  come back as they were given, except that on a two-queue port an entry that opens both queues
  (5) comes back as 3.
\<close>

theorem schedule_roundtrip:
  assumes "runnable q lp" and "num_tc lp = 2 \<or> num_tc lp = 3"
    and "axienet_set_schedule True (Some q) lp = Inr (0, lp1)" and "latched lp1 lp2"
  shows "\<exists>q'. axienet_get_schedule True (Some u) True lp2 = Inr (0, Some q') \<and>
     list_length q' = list_length q \<and> cycle_time q' = cycle_time q AND CYCLE_TIME_DENOMINATOR_MASK \<and>
     ptp_time_ns q' = ptp_time_ns q AND OPER_BASE_TIME_NS_MASK \<and>
     ptp_time_sec q' = take_bit 48 (ptp_time_sec q) \<and>
     (\<forall>i<unat (list_length q).
        acl_gate_state q' i = read_back_gs (num_tc lp) (acl_gate_state q i) \<and>
        acl_gate_time q' i = acl_gate_time q i AND CTRL_LIST_TIME_INTERVAL_MASK)"
  by (rule read_back [OF assms])

text \<open>
  C9 (set_schedule_refusals): every other call, case by case: a failed allocation or user copy
  gives its error and a port that is changing its schedule and is not forced \<open>EALREADY\<close>, all
  without touching a register; a cycle time of zero only stops the schedule and opens all
  gates. A list of more than 256 entries is not refused: it is read past the end of its arrays.
\<close>

theorem set_schedule_refusals:
  "axienet_set_schedule False c lp = Inr (- ENOMEM, lp) \<and>
   axienet_set_schedule True None lp = Inr (- EFAULT, lp) \<and>
   (cycle_time q \<noteq> 0 \<and> axienet_qbv_ior lp PORT_STATUS AND 1 \<noteq> 0 \<and> force q = 0 \<longrightarrow>
      axienet_set_schedule True (Some q) lp = Inr (- EALREADY, lp)) \<and>
   (cycle_time q = 0 \<longrightarrow>
      axienet_set_schedule True (Some q) lp = Inr (0, axienet_qbv_iow lp CONFIG_CHANGE 7)) \<and>
   (cycle_time q \<noteq> 0 \<and> (axienet_qbv_ior lp PORT_STATUS AND 1 = 0 \<or> force q \<noteq> 0) \<and> 256 < list_length q \<longrightarrow>
      axienet_set_schedule True (Some q) lp = Inl OutOfBounds)"
  using set_list_over [of 0 "unat (list_length q)"]
  by (auto simp: axienet_set_schedule_def axienet_set_schedule_body_def Let_def word_less_nat_alt)

section \<open>Witnesses\<close>

definition demo_qbv :: qbv_info where
  "demo_qbv = \<lparr>qbv_port = 0, force = 0, cycle_time = 2000, ptp_time_sec = 0x100000005, ptp_time_ns = 7,
     list_length = 2, acl_gate_state = (\<lambda>_. 1)(0 := 4), acl_gate_time = (\<lambda>_. 1000)\<rparr>"

definition demo_lp :: axienet_local where
  "demo_lp = \<lparr>num_tc = 2, regs = (\<lambda>_. 0), qbv_regs = (\<lambda>_. 0)\<rparr>"

text \<open>A device whose operational registers are copies of another's administrative ones.\<close>

definition oper_copy :: "axienet_local \<Rightarrow> axienet_local" where
  "oper_copy lp = lp\<lparr>qbv_regs := (\<lambda>a.
     if a = GATE_STATE then qbv_regs lp CONFIG_CHANGE
     else if a = OPER_CYCLE_TIME_DENOMINATOR then qbv_regs lp ADMIN_CYCLE_TIME_DENOMINATOR
     else if a = OPER_BASE_TIME_NS then qbv_regs lp ADMIN_BASE_TIME_NS
     else if a = OPER_BASE_TIME_SEC then qbv_regs lp ADMIN_BASE_TIME_SEC
     else if a = OPER_BASE_TIME_SECS then qbv_regs lp ADMIN_BASE_TIME_SECS
     else if 0x1800 \<le> a then qbv_regs lp (a - 0x800) else qbv_regs lp a)\<rparr>"

lemma unat_oper:
  "i < 256 \<Longrightarrow> unat (OPER_CTRL_LIST i) = 6144 + 8 * i \<and> unat (OPER_CTRL_LIST_TIME i) = 6148 + 8 * i"
  by (simp add: OPER_CTRL_LIST_def OPER_CTRL_LIST_TIME_def unat_word_ariths unat_of_nat)

lemma latched_oper_copy:
  assumes "bit (axienet_qbv_ior lp 0) 31"
  shows "latched lp (oper_copy lp)"
proof -
  have "axienet_qbv_ior (oper_copy lp) (OPER_CTRL_LIST i) = axienet_qbv_ior lp (ADMIN_CTRL_LIST i) \<and>
        axienet_qbv_ior (oper_copy lp) (OPER_CTRL_LIST_TIME i) = axienet_qbv_ior lp (ADMIN_CTRL_LIST_TIME i)"
    if i: "i < 256" for i
  proof -
    have r: "axienet_qbv_ior (oper_copy lp) a = axienet_qbv_ior lp (a - 0x800)" if "6144 \<le> unat a" for a
      using that by (auto simp: oper_copy_def axienet_qbv_ior_def word_le_nat_alt)
    have "OPER_CTRL_LIST i - 0x800 = ADMIN_CTRL_LIST i" "OPER_CTRL_LIST_TIME i - 0x800 = ADMIN_CTRL_LIST_TIME i"
      by (simp_all add: OPER_CTRL_LIST_def OPER_CTRL_LIST_TIME_def ADMIN_CTRL_LIST_def ADMIN_CTRL_LIST_TIME_def)
    then show ?thesis using unat_oper [OF i] r by simp
  qed
  then show ?thesis
    using assms by (simp add: latched_def) (simp add: oper_copy_def axienet_qbv_ior_def word_le_nat_alt)
qed

lemma demo_runnable: "runnable demo_qbv demo_lp"
  by (simp add: runnable_def demo_qbv_def demo_lp_def axienet_qbv_ior_def word_le_nat_alt)

theorem set_schedule_programs_witness:
  "\<exists>lp'. axienet_set_schedule True (Some demo_qbv) demo_lp = Inr (0, lp') \<and>
     axienet_qbv_ior lp' 0x1000 = 0x200 \<and> axienet_qbv_ior lp' 0x28 = 1"
proof -
  have a: "ADMIN_CTRL_LIST 0 = 0x1000" by (simp add: ADMIN_CTRL_LIST_def)
  have h: "push_bit 8 (axienet_map_gs_to_hw demo_lp (acl_gate_state demo_qbv 0) AND 7) = 0x200"
    by (simp add: axienet_map_gs_to_hw_def demo_lp_def demo_qbv_def)
  have t: "ucast (drop_bit 32 (ptp_time_sec demo_qbv) AND 0xFFFF) = (1 :: u32)"
    by (simp add: demo_qbv_def)
  have n: "0 < unat (list_length demo_qbv)" by (simp add: demo_qbv_def)
  obtain lp' where lp': "axienet_set_schedule True (Some demo_qbv) demo_lp = Inr (0, lp')"
    "axienet_qbv_ior lp' 0x28 = ucast (drop_bit 32 (ptp_time_sec demo_qbv) AND 0xFFFF)"
    "axienet_qbv_ior lp' (ADMIN_CTRL_LIST 0) = push_bit 8 (axienet_map_gs_to_hw demo_lp (acl_gate_state demo_qbv 0) AND 7)"
    using set_schedule_programs [OF demo_runnable] n by blast
  show ?thesis using lp' unfolding a h t by blast
qed

theorem schedule_roundtrip_witness:
  "\<exists>lp1 q'. axienet_set_schedule True (Some demo_qbv) demo_lp = Inr (0, lp1) \<and>
     axienet_get_schedule True (Some demo_qbv) True (oper_copy lp1) = Inr (0, Some q') \<and>
     acl_gate_state q' 0 = 4 \<and> ptp_time_sec q' = 0x100000005"
proof -
  obtain lp1 where s: "axienet_set_schedule True (Some demo_qbv) demo_lp = Inr (0, lp1)"
    "sched_started (axienet_qbv_ior lp1 0) (list_length demo_qbv)"
    using programs [OF demo_runnable] by auto
  then have "latched lp1 (oper_copy lp1)" by (intro latched_oper_copy) (simp add: sched_started_def)
  moreover have "num_tc demo_lp = 2 \<or> num_tc demo_lp = 3" by (simp add: demo_lp_def)
  ultimately obtain q' where q': "axienet_get_schedule True (Some demo_qbv) True (oper_copy lp1) = Inr (0, Some q')"
    "ptp_time_sec q' = take_bit 48 (ptp_time_sec demo_qbv)"
    "\<forall>i<unat (list_length demo_qbv). acl_gate_state q' i = read_back_gs (num_tc demo_lp) (acl_gate_state demo_qbv i)"
    using schedule_roundtrip [OF demo_runnable _ s(1)] by blast
  have "acl_gate_state q' 0 = 4"
    using q'(3) by (simp add: demo_qbv_def demo_lp_def read_back_gs_def)
  moreover have "ptp_time_sec q' = 0x100000005" using q'(2) by (simp add: demo_qbv_def)
  ultimately show ?thesis using s(1) q'(1) by blast
qed

theorem set_schedule_refusals_witness:
  "axienet_set_schedule True (Some (demo_qbv\<lparr>list_length := 300\<rparr>)) demo_lp = Inl OutOfBounds \<and>
   axienet_set_schedule True (Some demo_qbv) (axienet_qbv_iow demo_lp 0x3c 1) = Inr (- 114, axienet_qbv_iow demo_lp 0x3c 1)"
  using set_schedule_refusals [of None demo_lp "demo_qbv\<lparr>list_length := 300\<rparr>"]
    set_schedule_refusals [of None "axienet_qbv_iow demo_lp 0x3c 1" demo_qbv]
  by (simp add: demo_qbv_def demo_lp_def axienet_qbv_ior_def axienet_qbv_iow_def word_less_nat_alt)

end
