(* ===== verification/Preemption.thy ===== *)
theory Preemption
  imports Axienet
begin

text \<open>
  Frame preemption (802.1Qbu), \<^verbatim>\<open>driver/xilinx/xilinx_tsn_preemption.c\<close>: the ioctl handlers that
  enable it, configure verification and the hold/release overrides, and report status and
  counters. A user structure is \<open>None\<close> when the copy from user space fails; a handler that
  copies to user space returns what it copies.
\<close>

section \<open>Definitions\<close>

abbreviation (input) PREEMPTION_ENABLE_REG :: u32 where "PREEMPTION_ENABLE_REG \<equiv> 0x440"
abbreviation (input) PREEMPTION_CTRL_STS_REG :: u32 where "PREEMPTION_CTRL_STS_REG \<equiv> 0x444"
abbreviation (input) QBU_USER_OVERRIDE_REG :: u32 where "QBU_USER_OVERRIDE_REG \<equiv> 0x448"
abbreviation (input) QBU_CORE_STS_REG :: u32 where "QBU_CORE_STS_REG \<equiv> 0x44c"
abbreviation (input) XAE_TSN_ABL_OFFSET :: u32 where "XAE_TSN_ABL_OFFSET \<equiv> 0x4FC"
abbreviation (input) TX_HOLD_REG :: u32 where "TX_HOLD_REG \<equiv> 0x910"
abbreviation (input) RX_BYTES_EMAC_REG :: u32 where "RX_BYTES_EMAC_REG \<equiv> 0x200"
abbreviation (input) RX_BYTES_PMAC_REG :: u32 where "RX_BYTES_PMAC_REG \<equiv> 0x800"
abbreviation (input) PREEMPTION_SUPPORT :: u32 where "PREEMPTION_SUPPORT \<equiv> 0x8000"
abbreviation (input) BIT31 :: u32 where "BIT31 \<equiv> 0x80000000"

record preempt_ctrl_sts =
  tx_preemp_sts :: u8
  mac_tx_verify_sts :: u8
  verify_timer_value :: u8
  additional_frag_size :: u8
  disable_preemp_verify :: u8

record preempt_status =
  preemp_en :: u8
  preemp_sup :: u8
  ctrl :: preempt_ctrl_sts

text \<open>The bit fields of \<open>struct qbu_prog_override\<close> hold 9, 6 and one bit each.\<close>

record qbu_prog_override =
  user_hold_time :: u16
  user_rel_time :: u8
  guard_band :: bool
  hold_rel_window :: bool
  hold_time_override :: bool
  rel_time_override :: bool

record qbu_core_status =
  hold_time :: u16
  rel_time :: u8
  hold_rel_en :: bool
  pmac_hold_req :: bool

definition axienet_preemption :: "u8 option \<Rightarrow> axienet_local \<Rightarrow> int \<times> axienet_local" where
  "axienet_preemption user lp =
     (case user of
        None \<Rightarrow> (- EFAULT, lp)
      | Some preemp \<Rightarrow> (0, axienet_iow lp PREEMPTION_ENABLE_REG (ucast preemp AND 1)))"

definition axienet_preemption_ctrl :: "preempt_ctrl_sts option \<Rightarrow> axienet_local \<Rightarrow> int \<times> axienet_local" where
  "axienet_preemption_ctrl user lp =
     (case user of
        None \<Rightarrow> (- EFAULT, lp)
      | Some data \<Rightarrow>
          let v = axienet_ior lp PREEMPTION_CTRL_STS_REG;
              v = v AND NOT (push_bit 8 0x7F);
              v = v OR push_bit 8 (ucast (verify_timer_value data));
              v = v AND NOT (push_bit 4 0x3);
              v = v OR push_bit 4 (ucast (additional_frag_size data));
              v = v AND NOT 1;
              v = v OR ucast (disable_preemp_verify data)
          in (0, axienet_iow lp PREEMPTION_CTRL_STS_REG v))"

definition axienet_preemption_sts :: "bool \<Rightarrow> axienet_local \<Rightarrow> int \<times> preempt_status option" where
  "axienet_preemption_sts copy_ok lp =
     (let en = axienet_ior lp PREEMPTION_ENABLE_REG;
          abl = axienet_ior lp XAE_TSN_ABL_OFFSET;
          v = axienet_ior lp PREEMPTION_CTRL_STS_REG;
          status = \<lparr>preemp_en = ucast (en AND 1),
                    preemp_sup = (if abl AND PREEMPTION_SUPPORT \<noteq> 0 then 1 else 0),
                    ctrl = \<lparr>tx_preemp_sts = (if v AND BIT31 \<noteq> 0 then 1 else 0),
                            mac_tx_verify_sts = ucast (drop_bit 24 v AND 0x7),
                            verify_timer_value = ucast (drop_bit 8 v AND 0x7F),
                            additional_frag_size = ucast (drop_bit 4 v AND 0x3),
                            disable_preemp_verify = ucast (v AND 1)\<rparr>\<rparr>
      in if copy_ok then (0, Some status) else (- EFAULT, None))"

definition axienet_preemption_receive :: "axienet_local \<Rightarrow> int \<times> axienet_local" where
  "axienet_preemption_receive lp =
     (let v = axienet_ior lp XAE_TSN_ABL_OFFSET;
          preemption_support = (if v AND PREEMPTION_SUPPORT \<noteq> 0 then 1 else 0 :: u8)
      in if preemption_support = 1
         then (0, axienet_iow lp PREEMPTION_ENABLE_REG (axienet_ior lp PREEMPTION_ENABLE_REG OR 1))
         else (0, lp))"

text \<open>Successive words from \<open>addr_off\<close> on.\<close>

fun statistic_cnts :: "axienet_local \<Rightarrow> nat \<Rightarrow> u32 \<Rightarrow> u32 list" where
  "statistic_cnts lp 0 addr_off = []"
| "statistic_cnts lp (Suc count) addr_off = axienet_ior lp addr_off # statistic_cnts lp count (addr_off + 4)"

text \<open>
  34 counters of 64 bits for a MAC, 6 for the merge sublayer. With preemption off the second
  half of the structure is copied to the user without having been written: \<open>None\<close>.
\<close>

record emac_pmac_stats =
  st_preemp_en :: u8
  st_emac :: "u32 list"
  st_pmac :: "(u32 list \<times> u32 list) option"

definition axienet_preemption_cnt :: "bool \<Rightarrow> axienet_local \<Rightarrow> int \<times> emac_pmac_stats option" where
  "axienet_preemption_cnt copy_ok lp =
     (let emac = statistic_cnts lp 68 RX_BYTES_EMAC_REG;
          en = ucast (axienet_ior lp PREEMPTION_ENABLE_REG) :: u8;
          pmac = (if en \<noteq> 0
                  then Some (statistic_cnts lp 68 RX_BYTES_PMAC_REG, statistic_cnts lp 12 TX_HOLD_REG)
                  else None)
      in if copy_ok then (0, Some \<lparr>st_preemp_en = en, st_emac = emac, st_pmac = pmac\<rparr>)
         else (- EFAULT, None))"

text \<open>One step per group of override bits; \<open>sel\<close> says which groups the user sets.\<close>

definition qbu_window :: "qbu_prog_override \<Rightarrow> u32 \<Rightarrow> u32" where
  "qbu_window u v = (if hold_rel_window u then (v OR BIT31) OR 0x4 else (v AND NOT BIT31) AND NOT 0x4)"

definition qbu_guard_band :: "qbu_prog_override \<Rightarrow> u32 \<Rightarrow> u32" where
  "qbu_guard_band u v = (if guard_band u then v OR 0x8 else v AND NOT 0x8)"

definition qbu_hold_time :: "qbu_prog_override \<Rightarrow> u32 \<Rightarrow> u32" where
  "qbu_hold_time u v =
     (if hold_time_override u
      then ((v OR 0x2) AND NOT (push_bit 16 0x1FF)) OR push_bit 16 (ucast (user_hold_time u))
      else (v AND NOT 0x2) AND NOT (push_bit 16 0x1FF))"

definition qbu_rel_time :: "qbu_prog_override \<Rightarrow> u32 \<Rightarrow> u32" where
  "qbu_rel_time u v =
     (if rel_time_override u
      then ((v OR 0x1) AND NOT (push_bit 8 0x3F)) OR push_bit 8 (ucast (user_rel_time u))
      else (v AND NOT 0x1) AND NOT (push_bit 8 0x3F))"

definition axienet_qbu_user_override ::
  "(qbu_prog_override \<times> u8) option \<Rightarrow> axienet_local \<Rightarrow> int \<times> axienet_local" where
  "axienet_qbu_user_override user lp =
     (case user of
        None \<Rightarrow> (- EFAULT, lp)
      | Some (u, sel) \<Rightarrow>
          let v = axienet_ior lp QBU_USER_OVERRIDE_REG;
              v = (if bit sel 0 then qbu_window u v else v);
              v = (if bit sel 1 then qbu_guard_band u v else v);
              v = (if bit sel 2 then qbu_hold_time u v else v);
              v = (if bit sel 3 then qbu_rel_time u v else v)
          in (0, axienet_iow lp QBU_USER_OVERRIDE_REG v))"

text \<open>
  The four fields of the override that the status reports, and the core's status. The other
  fields of the structure copied to the user are not written.
\<close>

definition axienet_qbu_sts ::
  "bool \<Rightarrow> axienet_local \<Rightarrow> int \<times> ((bool \<times> bool \<times> u16 \<times> u8) \<times> qbu_core_status) option" where
  "axienet_qbu_sts copy_ok lp =
     (let v = axienet_ior lp QBU_USER_OVERRIDE_REG;
          prog = (v AND BIT31 \<noteq> 0, v AND 0x8 \<noteq> 0, ucast (drop_bit 16 v AND 0x1FF),
                  ucast (drop_bit 8 v AND 0x3F));
          c = axienet_ior lp QBU_CORE_STS_REG;
          core = \<lparr>hold_time = ucast (drop_bit 16 c AND 0x1FF), rel_time = ucast (drop_bit 8 c AND 0x3F),
                  hold_rel_en = (c AND BIT31 \<noteq> 0), pmac_hold_req = (c AND 1 \<noteq> 0)\<rparr>
      in if copy_ok then (0, Some (prog, core)) else (- EFAULT, None))"

section \<open>Properties\<close>

lemma pre_masks:
  "(1::u32) = field_mask 1 0" "(3::u32) = field_mask 2 0" "(0x7F::u32) = field_mask 7 0" "(7::u32) = field_mask 3 0"
  "(0x1FF::u32) = field_mask 9 0" "(0x3F::u32) = field_mask 6 0" "(0x80000000::u32) = BIT 31" "(8::u32) = BIT 3"
  "(4::u32) = BIT 2" "(2::u32) = BIT 1"
  by (simp_all add: BIT_def field_mask_def mask_eq_exp_minus_1)

definition ctrl_in_range :: "preempt_ctrl_sts \<Rightarrow> bool" where
  "ctrl_in_range c \<longleftrightarrow> unat (verify_timer_value c) < 2 ^ 7 \<and> unat (additional_frag_size c) < 2 ^ 2 \<and>
     unat (disable_preemp_verify c) < 2 ^ 1"

lemma ctrl_word:
  fixes v t f d :: u32
  assumes "\<And>i. bit t i \<Longrightarrow> i < 7" and "\<And>i. bit f i \<Longrightarrow> i < 2" and "\<And>i. bit d i \<Longrightarrow> i < 1"
  defines "w \<equiv> ((((((v AND NOT (push_bit 8 0x7F)) OR push_bit 8 t) AND NOT (push_bit 4 0x3)) OR push_bit 4 f) AND NOT 1) OR d)"
  shows "drop_bit 8 w AND 0x7F = t" and "drop_bit 4 w AND 0x3 = f" and "w AND 1 = d"
    and "drop_bit 24 w AND 0x7 = drop_bit 24 v AND 0x7" and "(w AND BIT31 = 0) = (v AND BIT31 = 0)"
proof -
  have b: "bit w i \<longleftrightarrow> i < 32 \<and> (if 8 \<le> i \<and> i < 15 then bit t (i - 8) else if 4 \<le> i \<and> i < 6 then bit f (i - 4)
      else if i = 0 then bit d 0 else bit v i)" for i
    unfolding w_def pre_masks
    by (auto simp: bit_simps dest: assms(1-3) bit_imp_le_length)
  show "drop_bit 8 w AND 0x7F = t" "drop_bit 4 w AND 0x3 = f" "w AND 1 = d"
    "drop_bit 24 w AND 0x7 = drop_bit 24 v AND 0x7"
    unfolding pre_masks
    by (rule bit_word_eqI; auto simp: bit_simps b dest: assms(1-3))+
  show "(w AND BIT31 = 0) = (v AND BIT31 = 0)"
    unfolding pre_masks and_bit_zero by (auto simp: b dest: bit_imp_le_length)
qed

text \<open>
  control values that fit their fields are reported by the
  status handler as they were set; everything else it reports, the hardware's status bits in
  the same register included, is unchanged.
\<close>

theorem preemption_ctrl_roundtrip:
  assumes "ctrl_in_range c" and "axienet_preemption_sts True lp = (0, Some st)"
  shows "axienet_preemption_sts True (snd (axienet_preemption_ctrl (Some c) lp)) =
     (0, Some (st\<lparr>ctrl := (ctrl st)\<lparr>verify_timer_value := verify_timer_value c,
        additional_frag_size := additional_frag_size c, disable_preemp_verify := disable_preemp_verify c\<rparr>\<rparr>))"
proof -
  have r: "bit (ucast (verify_timer_value c) :: u32) i \<Longrightarrow> i < 7"
    "bit (ucast (additional_frag_size c) :: u32) i \<Longrightarrow> i < 2"
    "bit (ucast (disable_preemp_verify c) :: u32) i \<Longrightarrow> i < 1" for i
    using assms(1) bit_ucast_less [of "verify_timer_value c" 7 i] bit_ucast_less [of "additional_frag_size c" 2 i]
      bit_ucast_less [of "disable_preemp_verify c" 1 i]
    by (auto simp: ctrl_in_range_def bit_simps)
  define v where "v = axienet_ior lp 0x444"
  define W where "W = ((((((v AND NOT (push_bit 8 0x7F)) OR push_bit 8 (ucast (verify_timer_value c)))
      AND NOT (push_bit 4 0x3)) OR push_bit 4 (ucast (additional_frag_size c))) AND NOT 1)
      OR ucast (disable_preemp_verify c))"
  note w = ctrl_word [of "ucast (verify_timer_value c)" "ucast (additional_frag_size c)"
      "ucast (disable_preemp_verify c)" v, OF r, folded W_def]
  have "snd (axienet_preemption_ctrl (Some c) lp) = axienet_iow lp 0x444 W"
    unfolding axienet_preemption_ctrl_def Let_def option.case snd_conv v_def [symmetric] W_def [symmetric] ..
  then show ?thesis
    using assms(2) w by (auto simp: axienet_preemption_sts_def Let_def mac_reg.ior_iow v_def)
qed

text \<open>The fields of the override register that the status handler reports.\<close>

definition qbu_view :: "u32 \<Rightarrow> bool \<times> bool \<times> u16 \<times> u8" where
  "qbu_view v = (bit v 31, bit v 3, ucast (get_field 9 16 v), ucast (get_field 6 8 v))"

lemma qbu_sts_view:
  "(v AND BIT31 \<noteq> 0, v AND 0x8 \<noteq> 0, ucast (drop_bit 16 v AND 0x1FF), ucast (drop_bit 8 v AND 0x3F)) = qbu_view v"
proof -
  have "drop_bit 16 v AND 0x1FF = get_field 9 16 v" "drop_bit 8 v AND 0x3F = get_field 6 8 v"
    unfolding pre_masks by (rule bit_word_eqI; auto simp: bit_simps)+
  moreover have "v AND BIT31 \<noteq> 0 \<longleftrightarrow> bit v 31" "v AND 0x8 \<noteq> 0 \<longleftrightarrow> bit v 3"
    unfolding pre_masks and_bit_zero by simp_all
  ultimately show ?thesis by (simp add: qbu_view_def)
qed

definition qbu_in_range :: "qbu_prog_override \<Rightarrow> bool" where
  "qbu_in_range u \<longleftrightarrow> unat (user_hold_time u) < 2 ^ 9 \<and> unat (user_rel_time u) < 2 ^ 6"

lemma qbu_view_steps:
  assumes "qbu_in_range u" and "qbu_view v = (w, g, h, r)"
  shows "qbu_view (qbu_window u v) = (hold_rel_window u, g, h, r)"
    and "qbu_view (qbu_guard_band u v) = (w, guard_band u, h, r)"
    and "qbu_view (qbu_hold_time u v) = (w, g, if hold_time_override u then user_hold_time u else 0, r)"
    and "qbu_view (qbu_rel_time u v) = (w, g, h, if rel_time_override u then user_rel_time u else 0)"
proof -
  define ht rt where t: "ht = (ucast (user_hold_time u) :: u32)" "rt = (ucast (user_rel_time u) :: u32)"
  have b: "bit ht i \<Longrightarrow> i < 9" "bit rt i \<Longrightarrow> i < 6" for i
    using assms(1) bit_ucast_less [of "user_hold_time u" 9 i] bit_ucast_less [of "user_rel_time u" 6 i]
    by (auto simp: t qbu_in_range_def bit_simps)
  have u: "ucast ht = user_hold_time u" "ucast rt = user_rel_time u" by (simp_all add: t)
  have v: "w = bit v 31" "g = bit v 3" "h = ucast (get_field 9 16 v)" "r = ucast (get_field 6 8 v)"
    using assms(2) by (auto simp: qbu_view_def)
  have f: "get_field 9 16 (qbu_window u v) = get_field 9 16 v" "get_field 6 8 (qbu_window u v) = get_field 6 8 v"
    "get_field 9 16 (qbu_guard_band u v) = get_field 9 16 v" "get_field 6 8 (qbu_guard_band u v) = get_field 6 8 v"
    "get_field 9 16 (qbu_hold_time u v) = (if hold_time_override u then ht else 0)"
    "get_field 6 8 (qbu_hold_time u v) = get_field 6 8 v"
    "get_field 9 16 (qbu_rel_time u v) = get_field 9 16 v"
    "get_field 6 8 (qbu_rel_time u v) = (if rel_time_override u then rt else 0)"
    unfolding qbu_window_def qbu_guard_band_def qbu_hold_time_def qbu_rel_time_def pre_masks field_mask_1
      t [symmetric]
    by (rule bit_word_eqI; auto simp: bit_simps dest: b)+
  have n: "bit (qbu_window u v) 31 = hold_rel_window u" "bit (qbu_window u v) 3 = bit v 3"
    "bit (qbu_guard_band u v) 31 = bit v 31" "bit (qbu_guard_band u v) 3 = guard_band u"
    "bit (qbu_hold_time u v) 31 = bit v 31" "bit (qbu_hold_time u v) 3 = bit v 3"
    "bit (qbu_rel_time u v) 31 = bit v 31" "bit (qbu_rel_time u v) 3 = bit v 3"
    unfolding qbu_window_def qbu_guard_band_def qbu_hold_time_def qbu_rel_time_def pre_masks
      field_mask_1 t [symmetric]
    by (auto simp: bit_simps dest: b)
  show "qbu_view (qbu_window u v) = (hold_rel_window u, g, h, r)"
    "qbu_view (qbu_guard_band u v) = (w, guard_band u, h, r)"
    "qbu_view (qbu_hold_time u v) = (w, g, if hold_time_override u then user_hold_time u else 0, r)"
    "qbu_view (qbu_rel_time u v) = (w, g, h, if rel_time_override u then user_rel_time u else 0)"
    unfolding qbu_view_def f v n by (simp_all add: u)
qed

text \<open>
  the override handler changes exactly the groups of settings the
  user selects, and each selected group is reported as it was set: an override that is switched
  off clears its time.
\<close>

theorem qbu_override_selective:
  assumes "qbu_in_range u" and "axienet_qbu_sts True lp = (0, Some ((w, g, h, r), core))"
  shows "axienet_qbu_sts True (snd (axienet_qbu_user_override (Some (u, sel)) lp)) =
     (0, Some ((if bit sel 0 then hold_rel_window u else w, if bit sel 1 then guard_band u else g,
                if bit sel 2 then (if hold_time_override u then user_hold_time u else 0) else h,
                if bit sel 3 then (if rel_time_override u then user_rel_time u else 0) else r), core))"
proof -
  let ?v = "axienet_ior lp 0x448"
  let ?a = "if bit sel 0 then qbu_window u ?v else ?v"
  let ?b = "if bit sel 1 then qbu_guard_band u ?a else ?a"
  let ?c = "if bit sel 2 then qbu_hold_time u ?b else ?b"
  let ?d = "if bit sel 3 then qbu_rel_time u ?c else ?c"
  have v: "qbu_view ?v = (w, g, h, r)"
    using assms(2) unfolding axienet_qbu_sts_def Let_def qbu_sts_view by simp
  have x1: "qbu_view ?a = (if bit sel 0 then hold_rel_window u else w, g, h, r)"
    using v qbu_view_steps(1) [OF assms(1) v] by (cases "bit sel 0") simp_all
  have x2: "qbu_view ?b = (if bit sel 0 then hold_rel_window u else w, if bit sel 1 then guard_band u else g, h, r)"
    using x1 qbu_view_steps(2) [OF assms(1) x1] by (cases "bit sel 1") simp_all
  have x3: "qbu_view ?c = (if bit sel 0 then hold_rel_window u else w, if bit sel 1 then guard_band u else g,
      if bit sel 2 then (if hold_time_override u then user_hold_time u else 0) else h, r)"
    using x2 qbu_view_steps(3) [OF assms(1) x2] by (cases "bit sel 2") simp_all
  have x4: "qbu_view ?d = (if bit sel 0 then hold_rel_window u else w, if bit sel 1 then guard_band u else g,
      if bit sel 2 then (if hold_time_override u then user_hold_time u else 0) else h,
      if bit sel 3 then (if rel_time_override u then user_rel_time u else 0) else r)"
    using x3 qbu_view_steps(4) [OF assms(1) x3] by (cases "bit sel 3") simp_all
  show ?thesis
    using assms(2) x4
    unfolding axienet_qbu_sts_def axienet_qbu_user_override_def Let_def option.case prod.case snd_conv
      mac_reg.ior_iow qbu_sts_view
    by simp
qed


section \<open>Witnesses\<close>

definition pre_lp :: axienet_local where
  "pre_lp = \<lparr>num_tc = 2, regs = (\<lambda>_. 0)(0x444 := 0x80000000, 0x448 := 0x8), qbv_regs = (\<lambda>_. 0)\<rparr>"

definition demo_ctrl :: preempt_ctrl_sts where
  "demo_ctrl = \<lparr>tx_preemp_sts = 0, mac_tx_verify_sts = 0, verify_timer_value = 10, additional_frag_size = 2,
     disable_preemp_verify = 1\<rparr>"

definition demo_override :: qbu_prog_override where
  "demo_override = \<lparr>user_hold_time = 300, user_rel_time = 40, guard_band = False, hold_rel_window = True,
     hold_time_override = True, rel_time_override = True\<rparr>"

theorem preemption_ctrl_roundtrip_witness:
  "\<exists>st. axienet_preemption_sts True (snd (axienet_preemption_ctrl (Some demo_ctrl) pre_lp)) = (0, Some st) \<and>
     verify_timer_value (ctrl st) = 10 \<and> tx_preemp_sts (ctrl st) = 1"
proof -
  obtain st where st: "axienet_preemption_sts True pre_lp = (0, Some st)" "tx_preemp_sts (ctrl st) = 1"
    by (simp add: axienet_preemption_sts_def Let_def pre_lp_def axienet_ior_def)
  have "ctrl_in_range demo_ctrl" by (simp add: ctrl_in_range_def demo_ctrl_def)
  then show ?thesis
    using preemption_ctrl_roundtrip [OF _ st(1), of demo_ctrl] st(2) by (simp add: demo_ctrl_def)
qed

theorem qbu_override_selective_witness:
  "\<exists>core. axienet_qbu_sts True (snd (axienet_qbu_user_override (Some (demo_override, 4)) pre_lp)) =
     (0, Some ((False, True, 300, 0), core))"
proof -
  obtain core where st: "axienet_qbu_sts True pre_lp = (0, Some ((False, True, 0, 0), core))"
    by (simp add: axienet_qbu_sts_def Let_def pre_lp_def axienet_ior_def)
  have "qbu_in_range demo_override" by (simp add: qbu_in_range_def demo_override_def)
  then show ?thesis
    using qbu_override_selective [OF _ st, of demo_override 4] by (simp add: demo_override_def)
qed

end
