(* ===== verification/Switch_Config.thy ===== *)
theory Switch_Config
  imports Switch
begin

text \<open>
  What the switch driver guarantees: entries, registers, port states and native VLANs are read
  back as they were set, refused calls leave the device alone, the start-up priority map; and
  two places where the driver does not do what its names say.
\<close>


section \<open>Words\<close>

lemma sw_masks:
  "(1::u32) = BIT 0" "(2::u32) = BIT 1" "(4::u32) = BIT 2" "(0x80::u32) = BIT 7" "(0x8000::u32) = BIT 15"
  "(7::u32) = field_mask 3 0" "(0xF::u32) = field_mask 4 0" "(0x1F::u32) = field_mask 5 0"
  "(0xFF::u32) = field_mask 8 0" "(0xFFF::u32) = field_mask 12 0" "(0xFFFF::u32) = field_mask 16 0"
  "(0xFFFFF::u32) = field_mask 20 0" "(0xFF00::u32) = field_mask 8 8" "(0xFF0000::u32) = field_mask 8 16"
  "(0xFF000000::u32) = field_mask 8 24"
  by (simp_all add: BIT_def field_mask_def mask_eq_exp_minus_1)

lemma bit_word4 [bit_simps]:
  "bit (word4 a b c d) i \<longleftrightarrow> (if i < 8 then bit d i else if i < 16 then bit c (i - 8)
     else if i < 24 then bit b (i - 16) else i < 32 \<and> bit a (i - 24))"
  by (auto simp: word4_def bit_simps dest: bit_u8_less)

lemma bit_word2 [bit_simps]:
  "bit (word2 a b) i \<longleftrightarrow> (if i < 8 then bit b i else i < 16 \<and> bit a (i - 8))"
  by (auto simp: word2_def bit_simps dest: bit_u8_less)

lemma bit_byte_at [bit_simps]: "bit (byte_at n w) i \<longleftrightarrow> i < 8 \<and> bit w (n + i)"
  unfolding byte_at_def sw_masks by (auto simp: bit_simps dest: bit_imp_le_length)

lemma word4_bytes [simp]:
  "byte_at 24 (word4 a b c d) = a" "byte_at 16 (word4 a b c d) = b" "byte_at 8 (word4 a b c d) = c"
  "byte_at 0 (word4 a b c d) = d"
  by (rule bit_word_eqI; simp add: bit_simps)+

lemma list6: "length xs = 6 \<Longrightarrow> [xs ! 0, xs ! 1, xs ! 2, xs ! 3, xs ! 4, xs ! 5] = xs"
  by (auto simp: length_Suc_conv numeral_eq_Suc)

section \<open>The CAM\<close>

lemma flag_bits: "(w AND 1 = 0) = (\<not> bit w 0)" "(w AND 2 = 0) = (\<not> bit w 1)" "(w AND 4 = 0) = (\<not> bit w 2)"
    "(w AND 0x80 = 0) = (\<not> bit w 7)" "(w AND 0x200 = 0) = (\<not> bit w 9)" "(w AND 0x800 = 0) = (\<not> bit w 11)"
  for w :: u32
proof -
  have m: "(0x200::u32) = BIT 9" "(0x800::u32) = BIT 11" by (simp_all add: BIT_def)
  show "(w AND 1 = 0) = (\<not> bit w 0)" "(w AND 2 = 0) = (\<not> bit w 1)" "(w AND 4 = 0) = (\<not> bit w 2)"
    "(w AND 0x80 = 0) = (\<not> bit w 7)" "(w AND 0x200 = 0) = (\<not> bit w 9)" "(w AND 0x800 = 0) = (\<not> bit w 11)"
    unfolding sw_masks m and_bit_zero by simp_all
qed

lemma bit_u16_less: "bit v i \<Longrightarrow> i < 16" for v :: u16
  using bit_imp_le_length [of v i] by simp

lemma bit_cam_tv2:
  "bit (cam_tv2 data) i \<longleftrightarrow> (if i < 8 then bit (src_addr data ! 5) i else if i < 16 then bit (src_addr data ! 4) (i - 8)
     else if i < 28 then bit (tv_vlanid data) (i - 16) else if i = 28 then bit (flags data) 0
     else i < 32 \<and> bit (ipv data) (i - 29))"
proof -
  have e: "push_bit 28 (if P then 1 else 0) = (if P then BIT 28 else (0 :: u32))" for P
    by (simp add: BIT_def)
  show ?thesis
    unfolding cam_tv2_def Let_def flag_bits sw_masks(6,10) e
    by (cases "bit (flags data) 0") (auto simp: bit_simps)
qed

lemma tv2_fields:
  shows "byte_at 8 (cam_tv2 data) = src_addr data ! 4" and "byte_at 0 (cam_tv2 data) = src_addr data ! 5"
    and "ucast (drop_bit 16 (cam_tv2 data) AND 0xFFF) = tv_vlanid data AND 0xFFF"
    and "ucast (drop_bit 29 (cam_tv2 data) AND 0x7) = ipv data AND 7"
    and "drop_bit 28 (cam_tv2 data) AND 0x1 = 0 \<longleftrightarrow> \<not> bit (flags data) 0"
proof -
  have m: "(0xFFF :: u16) = field_mask 12 0" "(7 :: u8) = field_mask 3 0"
    by (simp_all add: field_mask_def mask_eq_exp_minus_1)
  show "byte_at 8 (cam_tv2 data) = src_addr data ! 4" "byte_at 0 (cam_tv2 data) = src_addr data ! 5"
    by (rule bit_word_eqI; simp add: bit_simps bit_cam_tv2)+
  show "ucast (drop_bit 16 (cam_tv2 data) AND 0xFFF) = tv_vlanid data AND 0xFFF"
    "ucast (drop_bit 29 (cam_tv2 data) AND 0x7) = ipv data AND 7"
    unfolding sw_masks m by (rule bit_word_eqI; auto simp: bit_simps bit_cam_tv2)+
  show "drop_bit 28 (cam_tv2 data) AND 0x1 = 0 \<longleftrightarrow> \<not> bit (flags data) 0"
    unfolding flag_bits by (simp add: bit_simps bit_cam_tv2)
qed

definition cam_in_range :: "cam_struct \<Rightarrow> bool" where
  "cam_in_range c \<longleftrightarrow> length (src_addr c) = 6 \<and> unat (tv_vlanid c) < 4096 \<and> unat (ipv c) < 8 \<and>
     unat (fwd_port c) < 8 \<and> unat (ep_port_act c) < 16 \<and> unat (mac_port_act c) < 16"

lemma port_bits: "(w AND 1 = 0) = (\<not> bit w 0)" "(w AND 2 = 0) = (\<not> bit w 1)" "(w AND 4 = 0) = (\<not> bit w 2)"
    "(w AND 8 = 0) = (\<not> bit w 3)" "(w AND 16 = 0) = (\<not> bit w 4)" for w :: u8
proof -
  have m: "(1::u8) = BIT 0" "(2::u8) = BIT 1" "(4::u8) = BIT 2" "(8::u8) = BIT 3" "(16::u8) = BIT 4"
    by (simp_all add: BIT_def)
  show "(w AND 1 = 0) = (\<not> bit w 0)" "(w AND 2 = 0) = (\<not> bit w 1)" "(w AND 4 = 0) = (\<not> bit w 2)"
    "(w AND 8 = 0) = (\<not> bit w 3)" "(w AND 16 = 0) = (\<not> bit w 4)"
    unfolding m and_bit_zero by simp_all
qed

text \<open>An action is recorded for the endpoint, or for the network ports, if the frame goes there.\<close>

lemma bit_cam_port_action:
  assumes "cam_in_range c"
  shows "bit (cam_port_action qc c) i \<longleftrightarrow>
     (if i < 4 then bit (fwd_port c) 0 \<and> bit (ep_port_act c) i
      else if i < 8 then (bit (fwd_port c) 1 \<or> bit (fwd_port c) 2) \<and> bit (mac_port_act c) (i - 4)
      else if i < 16 then bit (fwd_port c) (i - 8) \<or> i = 15 \<and> bit (flags c) 1
      else i < 24 \<and> qc \<and> bit (cam_gate_id c) (i - 16))"
proof -
  have b: "bit (ep_port_act c) j \<Longrightarrow> j < 4" "bit (mac_port_act c) j \<Longrightarrow> j < 4" for j
    using assms bit_ucast_less [of "ep_port_act c" 4 j] bit_ucast_less [of "mac_port_act c" 4 j]
    by (auto simp: cam_in_range_def)
  have u: "bit (push_bit k (ucast x :: u32)) i \<longleftrightarrow> k \<le> i \<and> i < k + 8 \<and> i < 32 \<and> bit x (i - k)" for x :: u8 and k
    by (auto simp: bit_simps dest: bit_u8_less)
  have z: "bit (0x8000 :: u32) i \<longleftrightarrow> i = 15" unfolding sw_masks by (simp add: bit_simps)
  have e: "bit (ep_port_act c) i \<and> i < 8 \<longleftrightarrow> i < 4 \<and> bit (ep_port_act c) i"
    "4 \<le> i \<and> i < 12 \<and> bit (mac_port_act c) (i - 4) \<longleftrightarrow> 4 \<le> i \<and> i < 8 \<and> bit (mac_port_act c) (i - 4)"
    using b [of i] b [of "i - 4"] by auto
  have o: "cam_port_action qc c =
      (if bit (fwd_port c) 0 then push_bit 0 (ucast (ep_port_act c)) else 0) OR
      ((if bit (fwd_port c) 1 \<or> bit (fwd_port c) 2 then push_bit 4 (ucast (mac_port_act c)) else 0) OR
      ((if bit (flags c) 1 then 0x8000 else 0) OR (push_bit 8 (ucast (fwd_port c)) OR
      (if qc then push_bit 16 (ucast (cam_gate_id c)) else 0))))"
    unfolding cam_port_action_def Let_def flag_bits port_bits by (simp add: or.assoc)
  have f: "bit (if P then x else 0) i \<longleftrightarrow> P \<and> bit x i" for P and x :: u32 by simp
  consider "i < 4" | "4 \<le> i" "i < 8" | "8 \<le> i" "i < 16" | "16 \<le> i" by linarith
  then show ?thesis
    unfolding o bit_or_iff f u z using e
    by cases auto
qed


lemma port_action_fields:
  assumes "cam_in_range c"
  shows "ucast (drop_bit 8 (cam_port_action qc c) AND 0x7) = fwd_port c"
    and "ucast (drop_bit 0 (cam_port_action qc c) AND 0xF) = (if bit (fwd_port c) 0 then ep_port_act c else 0)"
    and "ucast (drop_bit 4 (cam_port_action qc c) AND 0xF) =
      (if bit (fwd_port c) 1 \<or> bit (fwd_port c) 2 then mac_port_act c else 0)"
    and "ucast (drop_bit 16 (cam_port_action qc c) AND 0xFF) = (if qc then cam_gate_id c else 0)"
proof -
  have b: "bit (ep_port_act c) j \<Longrightarrow> j < 4" "bit (mac_port_act c) j \<Longrightarrow> j < 4" "bit (fwd_port c) j \<Longrightarrow> j < 3" for j
    using assms bit_ucast_less [of "ep_port_act c" 4 j] bit_ucast_less [of "mac_port_act c" 4 j]
      bit_ucast_less [of "fwd_port c" 3 j]
    by (auto simp: cam_in_range_def)
  show "ucast (drop_bit 8 (cam_port_action qc c) AND 0x7) = fwd_port c"
    "ucast (drop_bit 0 (cam_port_action qc c) AND 0xF) = (if bit (fwd_port c) 0 then ep_port_act c else 0)"
    "ucast (drop_bit 4 (cam_port_action qc c) AND 0xF) =
      (if bit (fwd_port c) 1 \<or> bit (fwd_port c) 2 then mac_port_act c else 0)"
    "ucast (drop_bit 16 (cam_port_action qc c) AND 0xFF) = (if qc then cam_gate_id c else 0)"
    unfolding sw_masks
    by (rule bit_word_eqI; auto simp: bit_simps bit_cam_port_action [OF assms] dest: b)+
qed

text \<open>The device as the command that ends \<open>tsn_switch_cam_set\<close> finds it.\<close>

definition cam_words :: "bool \<Rightarrow> cam_struct \<Rightarrow> axienet_local \<Rightarrow> bool" where
  "cam_words qc c lp \<longleftrightarrow>
     axienet_ior lp XAS_SDL_CAM_TV1_OFFSET =
       word4 (src_addr c ! 0) (src_addr c ! 1) (src_addr c ! 2) (src_addr c ! 3) \<and>
     axienet_ior lp XAS_SDL_CAM_TV2_OFFSET = cam_tv2 c \<and>
     axienet_ior lp XAS_SDL_CAM_PORT_ACT_OFFSET = cam_port_action qc c"

lemma entry_found_words:
  assumes "cam_words qc c lp" and "cam_in_range c"
  shows "cam_entry_found False lp d = d\<lparr>src_addr := src_addr c, tv_vlanid := tv_vlanid c, ipv := ipv c,
     fwd_port := fwd_port c, ep_port_act := (if bit (fwd_port c) 0 then ep_port_act c else 0),
     mac_port_act := (if bit (fwd_port c) 1 \<or> bit (fwd_port c) 2 then mac_port_act c else 0),
     cam_gate_id := (if qc then cam_gate_id c else 0),
     flags := (if bit (flags c) 0 then flags d OR 1 else flags d) OR 4\<rparr>"
proof -
  have m: "tv_vlanid c AND 0xFFF = tv_vlanid c" "ipv c AND 7 = ipv c"
    using assms(2) and_mask_id [of "tv_vlanid c" 12] and_mask_id [of "ipv c" 3]
    by (simp_all add: cam_in_range_def mask_eq_exp_minus_1)
  have l: "[src_addr c ! 0, src_addr c ! 1, src_addr c ! 2, src_addr c ! 3, src_addr c ! 4, src_addr c ! 5] = src_addr c"
    using assms(2) by (intro list6) (simp add: cam_in_range_def)
  show ?thesis
    using assms(1) l
    unfolding cam_words_def cam_entry_found_def Let_def
    by (elim conjE) (simp only: tv2_fields port_action_fields [OF assms(2)] m word4_bytes if_False not_not)
qed


text \<open>The registers of the CAM: its two key words and the three words of an entry.\<close>

definition cam_regs :: "u32 set" where
  "cam_regs = {XAS_SDL_CAM_KEY1_OFFSET, XAS_SDL_CAM_KEY2_OFFSET, XAS_SDL_CAM_TV1_OFFSET,
     XAS_SDL_CAM_TV2_OFFSET, XAS_SDL_CAM_PORT_ACT_OFFSET}"

text \<open>
  The hardware's side: the CAM holds entries under keys, and \<open>held\<close> says which ones it holds in a
  state of the device. What a command does depends on its code: adding stores the words of the
  entry under the key, deleting removes what is stored there, looking up loads the words of the
  entry it finds. Writing a register of the CAM issues nothing by itself.
\<close>

type_synonym cam_store = "u32 \<times> u32 \<Rightarrow> (u32 \<times> u32 \<times> u32) option"

definition key_words :: "axienet_local \<Rightarrow> u32 \<times> u32" where
  "key_words lp = (axienet_ior lp XAS_SDL_CAM_KEY1_OFFSET, axienet_ior lp XAS_SDL_CAM_KEY2_OFFSET)"

definition entry_words :: "axienet_local \<Rightarrow> u32 \<times> u32 \<times> u32" where
  "entry_words lp = (axienet_ior lp XAS_SDL_CAM_TV1_OFFSET, axienet_ior lp XAS_SDL_CAM_TV2_OFFSET,
     axienet_ior lp XAS_SDL_CAM_PORT_ACT_OFFSET)"

definition obeys_commands :: "(axienet_local \<Rightarrow> cam_store) \<Rightarrow> (axienet_local \<Rightarrow> axienet_local) \<Rightarrow> bool" where
  "obeys_commands held exec \<longleftrightarrow> (\<forall>x. let cmd = axienet_ior x XAS_SDL_CAM_CTRL_OFFSET; k = key_words x in
     (cmd = 0x3 \<longrightarrow> held (exec x) k = Some (entry_words x)) \<and>
     (cmd = 0x5 \<longrightarrow> held (exec x) k = None) \<and>
     (cmd = 0x7 \<longrightarrow> (\<forall>w. held x k = Some w \<longrightarrow> entry_words (exec x) = w)))"

definition writes_keep_entries :: "(axienet_local \<Rightarrow> cam_store) \<Rightarrow> bool" where
  "writes_keep_entries held \<longleftrightarrow> (\<forall>x v. \<forall>a\<in>insert XAS_SDL_CAM_CTRL_OFFSET cam_regs.
     held (axienet_iow x a v) = held x)"

text \<open>The key of an entry: its destination and VLAN, as \<open>cam_set_key\<close> writes them.\<close>

definition cam_key :: "cam_struct \<Rightarrow> u32 \<times> u32" where
  "cam_key c = (word4 (dest_addr c ! 0) (dest_addr c ! 1) (dest_addr c ! 2) (dest_addr c ! 3),
     word2 (dest_addr c ! 4) (dest_addr c ! 5) OR push_bit 16 (ucast (vlanid c) AND 0xFFF))"

definition cam_entry :: "bool \<Rightarrow> cam_struct \<Rightarrow> u32 \<times> u32 \<times> u32" where
  "cam_entry qc c = (word4 (src_addr c ! 0) (src_addr c ! 1) (src_addr c ! 2) (src_addr c ! 3), cam_tv2 c,
     cam_port_action qc c)"

lemma key_words_set: "key_words (cam_set_key c lp) = cam_key c"
  by (simp add: key_words_def cam_key_def cam_set_key_def Let_def mac_reg.ior_iow)

lemma held_set_key: "writes_keep_entries held \<Longrightarrow> held (cam_set_key c lp) = held lp"
  by (simp add: writes_keep_entries_def cam_regs_def cam_set_key_def Let_def)

text \<open>After an entry was added the CAM holds its words; after a deletion, nothing under its key.\<close>

lemma cam_set_result:
  assumes "tsn_switch_cam_set qc ep hw c add lp = Inr (0, lp1)" and "obeys_commands held (cam_exec hw)"
  shows "held lp1 (cam_key c) = (if add then Some (cam_entry qc c) else None)"
proof -
  let ?a = "src_addr c"
  let ?x = "axienet_iow (axienet_iow (axienet_iow (axienet_iow (cam_set_key c lp) 0x1010
      (word4 (?a ! 0) (?a ! 1) (?a ! 2) (?a ! 3))) 0x1014 (cam_tv2 c)) 0x1018 (cam_port_action qc c)) 0x1000
      (if add then 0x3 else 0x5)"
  have "lp1 = cam_exec hw ?x"
    using assms(1) by (auto simp: tsn_switch_cam_set_def Let_def split: if_splits option.splits)
  moreover have "key_words ?x = cam_key c" "entry_words ?x = cam_entry qc c"
    using key_words_set [of c lp]
    by (simp_all add: key_words_def entry_words_def cam_entry_def mac_reg.ior_iow)
  moreover have "axienet_ior ?x XAS_SDL_CAM_CTRL_OFFSET = (if add then 0x3 else 0x5)"
    by (simp add: mac_reg.ior_iow)
  ultimately show ?thesis
    using assms(2) by (auto simp: obeys_commands_def Let_def)
qed

text \<open>
  C12 (cam_roundtrip): on a design without endpoint extension, a forwarding entry that was added
  and is still held is read back by its destination and VLAN: its source address, VLAN and
  priority translation, its ports, whether the VLAN is translated, and of its actions those of
  the ports it is forwarded to; the gate number only in a build with per-stream filtering or
  redundancy. The flag for the management queue (bit 1 of \<open>flags\<close>) is written to the device and
  not read back. The hardware is assumed to store on the code for adding, to remove on the code
  for deleting and to load on the code for looking up.
\<close>

theorem cam_roundtrip:
  assumes "tsn_switch_cam_set qc (Some ep) hw c True lp = Inr (0, lp1)" and "cam_in_range c"
    and "obeys_commands held (cam_exec hw)" and "obeys_commands held (cam_exec hw')" and "writes_keep_entries held"
    and "held lp2 (cam_key c) = held lp1 (cam_key c)"
    and "held lp2 (cam_key c) \<noteq> None \<longrightarrow> bit (fst (cam_done (cam_ctrl_rd hw' 0))) 7" and "\<not> ex_ep ep"
    and "dest_addr d = dest_addr c" and "vlanid d = vlanid c"
  shows "fst (read_cam_entry ep hw' True d lp2) =
     (0, Some (d\<lparr>src_addr := src_addr c, tv_vlanid := tv_vlanid c, ipv := ipv c, fwd_port := fwd_port c,
        ep_port_act := (if bit (fwd_port c) 0 then ep_port_act c else 0),
        mac_port_act := (if bit (fwd_port c) 1 \<or> bit (fwd_port c) 2 then mac_port_act c else 0),
        cam_gate_id := (if qc then cam_gate_id c else 0),
        flags := (if bit (flags c) 0 then flags d OR 1 else flags d) OR 4\<rparr>))"
proof -
  have h: "held lp2 (cam_key c) = Some (cam_entry qc c)"
    using cam_set_result [OF assms(1,3)] assms(6) by simp
  let ?x = "axienet_iow (cam_set_key d lp2) 0x1000 0x7"
  have "cam_key d = cam_key c" using assms(9,10) by (simp add: cam_key_def)
  then have "key_words ?x = cam_key c" "axienet_ior ?x XAS_SDL_CAM_CTRL_OFFSET = 0x7"
    using key_words_set [of d lp2] by (simp_all add: key_words_def mac_reg.ior_iow)
  moreover have "held ?x = held lp2"
    using assms(5) held_set_key [OF assms(5)] by (simp add: writes_keep_entries_def)
  ultimately have "entry_words (cam_exec hw' ?x) = cam_entry qc c"
    using assms(4) [unfolded obeys_commands_def Let_def, THEN spec, of ?x] h by simp
  then have "cam_words qc c (cam_exec hw' ?x)"
    by (simp add: cam_words_def entry_words_def cam_entry_def)
  note e = entry_found_words [OF this assms(2), of d]
  have "fst (cam_done (cam_ctrl_rd hw' 0)) AND 0x80 \<noteq> 0"
    unfolding flag_bits using assms(7) h by simp
  then show ?thesis
    using assms(8) unfolding read_cam_entry_def Let_def by (simp add: e)
qed

text \<open>
  An entry for the endpoint extension is refused, with no register written,
  when the design has no extension, or no switching between the two endpoints when it names
  both; so is any entry while the CAM is not ready.
\<close>

theorem cam_refusals:
  assumes "(\<forall>k<20000. \<not> bit (cam_status_rd hw 0 k) 0) \<or>
     (bit (fwd_port c) 4 \<or> add \<and> bit (fwd_port c) 3) \<and>
       (\<not> ex_ep ep \<or> bit (fwd_port c) 3 \<and> bit (fwd_port c) 4 \<and> \<not> packet_switch ep)"
  shows "tsn_switch_cam_set qc (Some ep) hw c add lp = Inr (- EINVAL, lp)"
proof (cases "snd (cam_ready (cam_status_rd hw 0)) = 0")
  case False
  then have "\<exists>k<20000. bit (cam_status_rd hw 0 k) 0"
    using poll_while_released [of 20000 "\<lambda>v. v AND 1 = 0" "cam_status_rd hw 0" 0]
    by (auto simp: cam_ready_def flag_bits)
  with assms False show ?thesis
    by (auto simp: tsn_switch_cam_set_def Let_def port_bits)
qed (simp add: tsn_switch_cam_set_def)


section \<open>Registers, learning, port states, native VLANs\<close>

lemma thld_roundtrip: "word_thld (thld_word t) = t"
proof -
  have "ucast (drop_bit 16 (thld_word t) AND 0xFFFF) = fst t" "ucast (thld_word t AND 0xFFFF) = snd t"
    unfolding thld_word_def sw_masks
    by (rule bit_word_eqI; auto simp: bit_simps dest: bit_u16_less)+
  then show ?thesis by (simp add: word_thld_def)
qed

lemma mac_words:
  "ucast (drop_bit 24 (word4 a b c d AND 0xFF000000)) = a" "ucast (drop_bit 16 (word4 a b c d AND 0xFF0000)) = b"
  "ucast (drop_bit 8 (word4 a b c d AND 0xFF00)) = c" "ucast (word4 a b c d AND 0xFF) = d"
  "ucast (drop_bit 8 (word2 a b AND 0xFF00)) = a" "ucast (word2 a b AND 0xFF) = b"
  unfolding sw_masks by (rule bit_word_eqI; simp add: bit_simps)+

text \<open>
  The switch configuration that was set is what is read back: control
  and priority map, the switch's address, all six thresholds, the port VLANs and the maximum
  frame sizes.
\<close>

theorem switch_regs_roundtrip:
  fixes lp :: axienet_local and s d :: switch_data
  assumes "length (sw_mac_addr s) = 6" and "unat (max_frame_sc_que s) < 2 ^ 16"
    and "unat (max_frame_res_que s) < 2 ^ 16" and "unat (max_frame_be_que s) < 2 ^ 16"
  defines "g \<equiv> get_switch_regs (set_switch_regs s lp) d"
  shows "switch_ctrl g = switch_ctrl s \<and> switch_prt g = switch_prt s \<and> sw_mac_addr g = sw_mac_addr s \<and>
     (\<forall>i<3. thld_ep_mac g i = thld_ep_mac s i \<and> thld_mac_mac g i = thld_mac_mac s i) \<and>
     ep_vlan g = ep_vlan s \<and> mac_vlan g = mac_vlan s \<and> max_frame_sc_que g = max_frame_sc_que s \<and>
     max_frame_res_que g = max_frame_res_que s \<and> max_frame_be_que g = max_frame_be_que s"
proof -
  have m: "v AND 0xFFFF = v" if "unat v < 2 ^ 16" for v :: u32
    using and_mask_id [OF that] by (simp add: mask_eq_exp_minus_1)
  let ?lp = "set_switch_regs s lp" and ?a = "sw_mac_addr s"
  have r: "axienet_ior ?lp 0x4 = switch_ctrl s" "axienet_ior ?lp 0x8 = switch_prt s"
    "axienet_ior ?lp 0xC = word4 (?a ! 0) (?a ! 1) (?a ! 2) (?a ! 3)" "axienet_ior ?lp 0x10 = word2 (?a ! 4) (?a ! 5)"
    "axienet_ior ?lp 0x20 = thld_word (thld_ep_mac s 0)" "axienet_ior ?lp 0x24 = thld_word (thld_ep_mac s 1)"
    "axienet_ior ?lp 0x28 = thld_word (thld_ep_mac s 2)" "axienet_ior ?lp 0x30 = thld_word (thld_mac_mac s 0)"
    "axienet_ior ?lp 0x34 = thld_word (thld_mac_mac s 1)" "axienet_ior ?lp 0x38 = thld_word (thld_mac_mac s 2)"
    "axienet_ior ?lp 0x40 = ep_vlan s" "axienet_ior ?lp 0x44 = mac_vlan s" "axienet_ior ?lp 0x60 = max_frame_sc_que s"
    "axienet_ior ?lp 0x64 = max_frame_res_que s" "axienet_ior ?lp 0x68 = max_frame_be_que s"
    by (simp_all add: set_switch_regs_def Let_def mac_reg.ior_iow)
  have "sw_mac_addr g = [?a ! 0, ?a ! 1, ?a ! 2, ?a ! 3, ?a ! 4, ?a ! 5]"
    unfolding g_def get_switch_regs_def Let_def r mac_words by simp
  then have "sw_mac_addr g = ?a" using list6 [OF assms(1)] by simp
  moreover have "\<forall>i<3. thld_ep_mac g i = thld_ep_mac s i \<and> thld_mac_mac g i = thld_mac_mac s i"
    unfolding g_def get_switch_regs_def Let_def r thld_roundtrip
    by (auto simp: numeral_eq_Suc less_Suc_eq)
  ultimately show ?thesis
    unfolding g_def get_switch_regs_def Let_def r using m assms(2-4) by simp
qed

text \<open>
  The switch-wide learning configuration is not reported as it was set:
  aging and learning come back negated, while the aging time and the handling of untagged
  frames come back as set.
\<close>

theorem mac_learn_inverted:
  assumes "is_age m" and "is_learn m" and "is_untag m" and "aging_time m \<noteq> 0" and "unat (aging_time m) < 2 ^ 20"
  shows "get_mac_addr_learn True (snd (set_mac_addr_learn (Some m) lp)) =
     (0, Some (aging_time m, \<not> aging m, \<not> learning m, learn_untag m))"
proof -
  have b: "bit (aging_time m) i \<Longrightarrow> i < 20" for i
    using assms(5) bit_ucast_less [of "aging_time m" 20 i] by auto
  define W where "W = axienet_ior (snd (set_mac_addr_learn (Some m) lp)) 0x48"
  have w: "W = (let u = (axienet_ior lp 0x48 AND NOT (push_bit 8 0xFFFFF)) OR push_bit 8 (aging_time m);
      u = (if \<not> aging m then u OR 0x4 else u AND NOT 0x4); u = (if \<not> learning m then u OR 0x1 else u AND NOT 0x1)
      in if learn_untag m then u OR 0x2 else u AND NOT 0x2)"
    using assms(1-4) unfolding W_def set_mac_addr_learn_def Let_def by (simp only: option.case snd_conv mac_reg.ior_iow) simp
  have "bit W 2 = (\<not> aging m)" "bit W 0 = (\<not> learning m)" "bit W 1 = learn_untag m"
    unfolding w Let_def sw_masks by (auto simp: bit_simps)
  moreover have "drop_bit 8 W AND 0xFFFFF = aging_time m"
    unfolding w Let_def sw_masks by (rule bit_word_eqI) (auto simp: bit_simps dest: b)
  ultimately show ?thesis
    unfolding get_mac_addr_learn_def Let_def W_def [symmetric] flag_bits by simp
qed

lemma status_shift_cases:
  "status_shift p = Some s \<Longrightarrow> (p = 1 \<and> s = 1) \<or> (p = 2 \<and> s = 9) \<or> (p = 4 \<and> s = 17) \<or> (p = 8 \<and> s = 25)"
  by (auto simp: status_shift_def split: if_splits)

text \<open>
  setting a port's state, while no change of it is pending, is
  reported by the getter, and the state of every other port is reported as before.
\<close>

theorem port_state_roundtrip:
  fixes lp :: axienet_local and ep :: ep_local
  assumes "status_shift p = Some s" and "p = PORT_EX_ONLY \<longrightarrow> ex_ep ep"
    and "\<not> bit (axienet_ior lp XAS_PORT_STATE_CTRL_OFFSET) (s - 1)" and "unat v < 8"
  defines "lp' \<equiv> snd (set_port_status ep (Some \<lparr>ps_port_num = p, ps_port_status = v\<rparr>) lp)"
  shows "get_port_status ep (Some \<lparr>ps_port_num = q, ps_port_status = x\<rparr>) True lp' =
     (if q = p then (0, Some \<lparr>ps_port_num = p, ps_port_status = v\<rparr>)
      else get_port_status ep (Some \<lparr>ps_port_num = q, ps_port_status = x\<rparr>) True lp)"
proof -
  let ?u = "axienet_ior lp 0x4c"
  define W where "W = ((?u AND NOT (push_bit s (field_mask 3 0))) OR push_bit s (ucast v)) OR BIT (s - 1)"
  have s: "s = 1 \<or> s = 9 \<or> s = 17 \<or> s = 25" using status_shift_cases [OF assms(1)] by auto
  have bv: "bit (ucast v :: u32) i \<Longrightarrow> i < 3" for i
    using assms(4) bit_ucast_less [of v 3 i] by (auto simp: bit_simps)
  have z: "?u AND push_bit (s - 1) 1 = 0"
    using assms(3) and_bit_zero [of ?u "s - 1"] by (simp add: BIT_def)
  have "lp' = axienet_iow lp 0x4c W"
    using assms(1,2) z
    unfolding lp'_def set_port_status_def tsn_switch_set_stp_state_def W_def sw_masks(6) [symmetric] BIT_def Let_def
    by auto
  then have r: "axienet_ior lp' 0x4c = W" by (simp add: mac_reg.ior_iow)
  define y where "y = (ucast v :: u32)"
  have y: "bit y i \<Longrightarrow> i < 3" for i unfolding y_def by (rule bv)
  have same: "drop_bit s W AND 0x7 = y"
    unfolding W_def y_def [symmetric] sw_masks using s by (intro bit_word_eqI) (auto simp: bit_simps dest: y)
  have other: "drop_bit t W AND 0x7 = drop_bit t ?u AND 0x7" if "t \<noteq> s" "t = 1 \<or> t = 9 \<or> t = 17 \<or> t = 25" for t
    unfolding W_def y_def [symmetric] sw_masks using s that by (intro bit_word_eqI) (auto simp: bit_simps dest: y)
  have "ucast y = v" by (simp add: y_def)
  show ?thesis
  proof (cases "q = p")
    case True
    then show ?thesis using assms(1,2) same \<open>ucast y = v\<close> by (simp add: get_port_status_def r)
  next
    case False
    have "status_shift q \<noteq> Some s"
      using False assms(1) status_shift_cases [of p s] status_shift_cases [of q s] by auto
    then have "drop_bit t W AND 0x7 = drop_bit t ?u AND 0x7" if "status_shift q = Some t" for t
      using status_shift_cases [OF that] that by (intro other) auto
    then show ?thesis using False by (simp add: get_port_status_def r split: option.splits)
  qed
qed


lemma pvid_place_cases:
  "pvid_place p = Some (r, v, t) \<Longrightarrow>
     p = 1 \<and> r = 0x40 \<and> v = 0 \<and> t = 13 \<or> p = 2 \<and> r = 0x44 \<and> v = 0 \<and> t = 13 \<or> p = 4 \<and> r = 0x44 \<and> v = 16 \<and> t = 29"
  by (auto simp: pvid_place_def split: if_splits)

lemma pvid_word_fields:
  assumes "nv_en_ipv n" and "unat (nv_vlan_id n) < 4096" and "unat (nv_ipv n) < 8"
    and "v = 0 \<and> t = 13 \<or> v = 16 \<and> t = 29"
  shows "drop_bit v (pvid_word v t n u) AND 0xFFF = ucast (nv_vlan_id n)"
    and "drop_bit t (pvid_word v t n u) AND 0x7 = ucast (nv_ipv n)"
    and "v' \<noteq> v \<Longrightarrow> v' = 0 \<and> t' = 13 \<or> v' = 16 \<and> t' = 29 \<Longrightarrow>
      drop_bit v' (pvid_word v t n u) AND 0xFFF = drop_bit v' u AND 0xFFF \<and>
      drop_bit t' (pvid_word v t n u) AND 0x7 = drop_bit t' u AND 0x7"
proof -
  define x y where xy: "x = (ucast (nv_vlan_id n) :: u32)" "y = (ucast (nv_ipv n) :: u32)"
  have b: "bit x i \<Longrightarrow> i < 12" "bit y i \<Longrightarrow> i < 3" for i
    using assms(2,3) bit_ucast_less [of "nv_vlan_id n" 12 i] bit_ucast_less [of "nv_ipv n" 3 i]
    by (auto simp: xy bit_simps)
  have w: "pvid_word v t n u = (((u AND NOT (push_bit v 0xFFF)) OR push_bit v x) AND NOT (push_bit t 0x7)) OR push_bit t y"
    using assms(1) unfolding pvid_word_def Let_def xy by simp
  have p: "bit (pvid_word v t n u) i \<longleftrightarrow> i < 32 \<and> (if v \<le> i \<and> i < v + 12 then bit x (i - v)
      else if t \<le> i \<and> i < t + 3 then bit y (i - t) else bit u i)" for i
    unfolding w sw_masks using assms(4) by (auto simp: bit_simps dest: b bit_imp_le_length)
  show "drop_bit v (pvid_word v t n u) AND 0xFFF = ucast (nv_vlan_id n)"
    "drop_bit t (pvid_word v t n u) AND 0x7 = ucast (nv_ipv n)"
    unfolding xy [symmetric] sw_masks
    using assms(4) by (intro bit_word_eqI; auto simp: bit_simps p dest: b)+
  show "drop_bit v' (pvid_word v t n u) AND 0xFFF = drop_bit v' u AND 0xFFF \<and>
      drop_bit t' (pvid_word v t n u) AND 0x7 = drop_bit t' u AND 0x7"
    if "v' \<noteq> v" "v' = 0 \<and> t' = 13 \<or> v' = 16 \<and> t' = 29"
    unfolding sw_masks
    using assms(4) that by (intro conjI bit_word_eqI; auto simp: bit_simps p dest: bit_imp_le_length)
qed

text \<open>
  The native VLAN and priority set for a port are reported for that
  port, and those of the other ports, which share registers with it, are reported as before.
\<close>

theorem native_vlan_roundtrip:
  assumes "nv_port_num n \<in> {PORT_EP, PORT_MAC1, PORT_MAC2}" and "nv_en_ipv n"
    and "unat (nv_vlan_id n) < 4096" and "unat (nv_ipv n) < 8"
  shows "get_native_vlan (Some m) True (snd (set_native_vlan (Some n) lp)) =
     (if nv_port_num m = nv_port_num n
      then (0, Some (m\<lparr>nv_vlan_id := nv_vlan_id n, nv_ipv := nv_ipv n\<rparr>))
      else get_native_vlan (Some m) True lp)"
proof -
  obtain r v t where p: "pvid_place (nv_port_num n) = Some (r, v, t)"
    using assms(1) by (auto simp: pvid_place_def)
  note pc = pvid_place_cases [OF p]
  then have vt: "v = 0 \<and> t = 13 \<or> v = 16 \<and> t = 29" by auto
  note f = pvid_word_fields [OF assms(2-4) vt]
  have lp': "snd (set_native_vlan (Some n) lp) = axienet_iow lp r (pvid_word v t n (axienet_ior lp r))"
    by (simp add: set_native_vlan_def tsn_switch_pvid_add_def p)
  show ?thesis
  proof (cases "nv_port_num m = nv_port_num n")
    case True
    then show ?thesis
      using f(1,2) [of "axienet_ior lp r"]
      by (simp add: lp' get_native_vlan_def tsn_switch_pvid_get_def p Let_def mac_reg.ior_iow)
  next
    case False
    show ?thesis
    proof (cases "pvid_place (nv_port_num m)")
      case None
      then show ?thesis using False by (simp add: get_native_vlan_def tsn_switch_pvid_get_def)
    next
      case (Some x)
      then obtain r' v' t' where x: "pvid_place (nv_port_num m) = Some (r', v', t')" by (cases x) auto
      note xc = pvid_place_cases [OF x]
      have "r' \<noteq> r \<or> v' \<noteq> v" using False pc xc by auto
      moreover have "v' = 0 \<and> t' = 13 \<or> v' = 16 \<and> t' = 29" using xc by auto
      ultimately have "drop_bit v' (axienet_ior (axienet_iow lp r (pvid_word v t n (axienet_ior lp r))) r') AND 0xFFF =
            drop_bit v' (axienet_ior lp r') AND 0xFFF \<and>
          drop_bit t' (axienet_ior (axienet_iow lp r (pvid_word v t n (axienet_ior lp r))) r') AND 0x7 =
            drop_bit t' (axienet_ior lp r') AND 0x7"
        using f(3) [of v' t' "axienet_ior lp r"] by (auto simp: mac_reg.ior_iow)
      then show ?thesis
        using False by (simp add: lp' get_native_vlan_def tsn_switch_pvid_get_def x Let_def)
    qed
  qed
qed

text \<open>
  adding a port to a VLAN never looks at that VLAN's membership:
  whatever the read command loads, the word written back is the content the data register had
  before the command, with the port added. Two devices that agree on that register, whose
  memories differ, get the same membership.
\<close>

theorem vlan_add_uses_stale_data:
  assumes "tsn_switch_vlan_add hw port True lp = (0, lp')"
  shows "\<exists>u x. lp' = vlan_command hw u x \<and>
     axienet_ior x XAS_VLAN_MEMB_DATA_REG =
       axienet_ior lp XAS_VLAN_MEMB_DATA_REG OR (0x8 OR ucast (pv_port_num port))"
  using assms
  unfolding tsn_switch_vlan_add_def Let_def
  by (auto split: if_splits simp: mac_reg.ior_iow_same intro!: exI)

definition pcp_queue :: "bool \<Rightarrow> u8 \<Rightarrow> u8 \<Rightarrow> nat \<Rightarrow> u32" where
  "pcp_queue three st res k =
     (if bit st k then (if three then 2 else 1) else if three \<and> bit res k then 1 else 0)"

lemma nibble_push:
  assumes "i < 8" and "k < 8"
  shows "get_field 4 (4 * k) (push_bit (4 * i) (pcp_queue three st res i)) = (if k = i then pcp_queue three st res i else 0)"
proof -
  have q: "pcp_queue three st res i \<in> {0, BIT 0, BIT 1}"
    by (auto simp: pcp_queue_def BIT_def)
  have "get_field 4 (4 * k) (push_bit (4 * i) (BIT j)) = (if k = i then BIT j else (0 :: u32))" if "j < 2" for j
    using that assms by (intro bit_word_eqI) (auto simp: bit_simps; presburger)
  from this [of 0] this [of 1] q show ?thesis by (auto simp: get_field_def)
qed

lemma pmap_loop_nibble:
  assumes "i + n \<le> 8" and "k < 8"
  shows "get_field 4 (4 * k) (pmap_loop three st res i n pm) =
     get_field 4 (4 * k) pm OR (if i \<le> k \<and> k < i + n then pcp_queue three st res k else 0)"
  using assms
proof (induction n arbitrary: i pm)
  case (Suc n)
  have b: "(x AND push_bit i 1 = 0) \<longleftrightarrow> \<not> bit x i" for x :: u8
    using and_bit_zero [of x i] by (simp add: BIT_def)
  have "pmap_loop three st res i (Suc n) pm =
      pmap_loop three st res (Suc i) n (pm OR push_bit (4 * i) (pcp_queue three st res i))"
    unfolding pmap_loop.simps Let_def b pcp_queue_def by simp
  then show ?case
    using Suc.IH [of "Suc i"] Suc.prems nibble_push [of i k three st res]
    by (auto simp: get_field_or or.assoc)
qed auto

text \<open>
  At start-up every priority code point is mapped to its egress queue: with
  three queues scheduled traffic to queue 2 and reserved traffic to queue 1, with two queues
  scheduled traffic to queue 1, everything else to queue 0. A code point in both masks counts as
  scheduled.
\<close>

theorem priority_map:
  assumes "pcp < 8"
  shows "get_field 4 (4 * pcp) (axienet_ior (snd (tsn_switch_cam_init st res num_q lp)) XAS_PMAP_OFFSET) =
     (if bit st pcp then (if num_q = 3 then 2 else 1) else if num_q = 3 \<and> bit res pcp then 1 else 0)"
  using pmap_loop_nibble [of 0 8 pcp "num_q = 3" st res 0] assms
  by (simp add: tsn_switch_cam_init_def mac_reg.ior_iow_same pcp_queue_def) (simp add: get_field_def)


definition needs_learning :: "switch_cmd \<Rightarrow> bool" where
  "needs_learning cmd = (case cmd of
     SET_MAC_ADDR_LEARN_CONFIG _ \<Rightarrow> True | GET_MAC_ADDR_LEARN_CONFIG \<Rightarrow> True
   | GET_MAC_ADDR_LEARNT_LIST _ _ \<Rightarrow> True | SET_PORT_STATUS _ \<Rightarrow> True | GET_PORT_STATUS _ \<Rightarrow> True
   | SET_VLAN_MAC_ADDR_LEARN_CONFIG _ \<Rightarrow> True | GET_VLAN_MAC_ADDR_LEARN_CONFIG _ \<Rightarrow> True | _ \<Rightarrow> False)"

text \<open>
  On a design without address learning every learning and port-state command
  is refused with \<open>EPERM\<close> and the device is left alone; and the only command that may not
  return is the redundancy control, when the hardware never releases its register.
\<close>

theorem ioctl_guards:
  "(needs_learning cmd \<and> \<not> en_hw_addr_learning cfg \<longrightarrow>
      switch_ioctl cfg ep hw copy_ok cmd lp = Some (Inr ((- EPERM, NoReply), lp))) \<and>
   (switch_ioctl cfg ep hw copy_ok cmd lp = None \<longrightarrow>
      (\<exists>d. cmd = FRER_CONTROL (Some d)) \<and> cb_on cfg \<and> (\<forall>k. bit (frer_rd hw k) 0))"
proof -
  note io = io_done_def io_with_def io_reply_def io_copy_def io_learn_def io_cam_def io_vlan_def
  have "frer_wait rd 0 = None \<Longrightarrow> bit (rd k) 0" for rd k
    using frer_wait_some [of rd 0 k] by (auto simp: flag_bits)
  then show ?thesis
    by (cases cmd)
      (auto simp: switch_ioctl_def switch_ioctl_tsn_def needs_learning_def io frer_control_def Let_def
        split: option.splits prod.splits sum.splits if_splits)
qed

section \<open>Witnesses\<close>

definition sw_lp :: axienet_local where
  "sw_lp = \<lparr>num_tc = 3, regs = (\<lambda>_. 0), qbv_regs = (\<lambda>_. 0)\<rparr>"

definition plain_ep :: ep_local where
  "plain_ep = \<lparr>ex_ep = False, packet_switch = False\<rparr>"

definition demo_cam :: cam_struct where
  "demo_cam = \<lparr>src_addr = [1, 2, 3, 4, 5, 6], dest_addr = [10, 11, 12, 13, 14, 15], vlanid = 10, tv_vlanid = 20,
     fwd_port = 6, cam_gate_id = 9, ipv = 4, flags = 1, ep_port_act = 0, mac_port_act = 3\<rparr>"

text \<open>Hardware that is ready at once, finds every entry and does what \<open>f\<close> says with the registers.\<close>

definition quick_hw :: "(axienet_local \<Rightarrow> axienet_local) \<Rightarrow> switch_hw" where
  "quick_hw f = \<lparr>status_rd = (\<lambda>_. 1), cam_status_rd = (\<lambda>_ _. 1), cam_ctrl_rd = (\<lambda>_ _. 0x80),
     port_state_rd = (\<lambda>_. 0), vlan_ctrl_rd = (\<lambda>_ _. 0), psfp_rd = (\<lambda>_. 0), frer_rd = (\<lambda>_. 1),
     cam_exec = f, vlan_exec = f\<rparr>"

lemma quick_ready: "cam_ready (cam_status_rd (quick_hw f) 0) = (1, 20000)" "cam_done (cam_ctrl_rd (quick_hw f) 0) = (0x80, 20000)"
  by (simp_all add: cam_ready_def cam_done_def quick_hw_def poll_while_first)

lemma demo_cam_set:
  "\<exists>lp1. tsn_switch_cam_set True (Some plain_ep) (quick_hw f) demo_cam True sw_lp = Inr (0, lp1)"
  by (simp add: tsn_switch_cam_set_def quick_ready Let_def demo_cam_def)

text \<open>
  A CAM of one entry, kept beside the registers the driver uses: a valid flag, the two words of
  the key and the three of the entry.
\<close>

definition one_held :: "axienet_local \<Rightarrow> cam_store" where
  "one_held lp k = (if regs lp 0xF000 = 1 \<and> k = (regs lp 0xF001, regs lp 0xF002)
     then Some (regs lp 0xF003, regs lp 0xF004, regs lp 0xF005) else None)"

definition one_cam :: "axienet_local \<Rightarrow> axienet_local" where
  "one_cam lp =
     (case axienet_ior lp XAS_SDL_CAM_CTRL_OFFSET of cmd \<Rightarrow>
        (case key_words lp of (k1, k2) \<Rightarrow>
        (case entry_words lp of (w1, w2, w3) \<Rightarrow>
           if cmd = 0x3 then lp\<lparr>regs := (regs lp)(0xF000 := 1, 0xF001 := k1, 0xF002 := k2, 0xF003 := w1,
             0xF004 := w2, 0xF005 := w3)\<rparr>
           else if cmd = 0x5 \<and> one_held lp (k1, k2) \<noteq> None then lp\<lparr>regs := (regs lp)(0xF000 := 0)\<rparr>
           else if cmd = 0x7
           then (case one_held lp (k1, k2) of
                   None \<Rightarrow> lp
                 | Some (w1, w2, w3) \<Rightarrow>
                     axienet_iow (axienet_iow (axienet_iow lp XAS_SDL_CAM_TV1_OFFSET w1) XAS_SDL_CAM_TV2_OFFSET w2)
                       XAS_SDL_CAM_PORT_ACT_OFFSET w3)
           else lp)))"

lemma one_cam_obeys: "obeys_commands one_held one_cam"
  by (auto simp: obeys_commands_def Let_def one_cam_def one_held_def key_words_def entry_words_def
      axienet_ior_def axienet_iow_def)

lemma one_held_writes: "writes_keep_entries one_held"
  by (auto simp: writes_keep_entries_def one_held_def axienet_iow_def cam_regs_def fun_eq_iff)

theorem cam_roundtrip_witness:
  "\<exists>lp1 e. tsn_switch_cam_set True (Some plain_ep) (quick_hw one_cam) demo_cam True sw_lp = Inr (0, lp1) \<and>
     fst (read_cam_entry plain_ep (quick_hw one_cam) True (demo_cam\<lparr>src_addr := []\<rparr>) lp1) = (0, Some e) \<and>
     src_addr e = [1, 2, 3, 4, 5, 6] \<and> mac_port_act e = 3"
proof -
  obtain lp1 where s: "tsn_switch_cam_set True (Some plain_ep) (quick_hw one_cam) demo_cam True sw_lp = Inr (0, lp1)"
    using demo_cam_set by blast
  have f6: "bit (6::u8) 1" by simp
  have c: "cam_exec (quick_hw one_cam) = one_cam" by (simp add: quick_hw_def)
  have "cam_in_range demo_cam" by (simp add: cam_in_range_def demo_cam_def)
  moreover have "obeys_commands one_held (cam_exec (quick_hw one_cam))" using one_cam_obeys c by simp
  ultimately show ?thesis
    using s one_held_writes quick_ready
      cam_roundtrip [OF s, of one_held "quick_hw one_cam" lp1 "demo_cam\<lparr>src_addr := []\<rparr>"]
    by (simp add: plain_ep_def) (simp add: demo_cam_def f6)
qed

theorem cam_refusals_witness:
  "tsn_switch_cam_set True (Some plain_ep) (quick_hw id) (demo_cam\<lparr>fwd_port := 8\<rparr>) True sw_lp = Inr (- 22, sw_lp)"
  by (rule cam_refusals) (simp add: plain_ep_def)

definition demo_sw :: switch_data where
  "demo_sw = \<lparr>switch_status = 0, switch_ctrl = 1, switch_prt = 2, sw_mac_addr = [1, 2, 3, 4, 5, 6],
     thld_ep_mac = (\<lambda>_. (1, 2)), thld_mac_mac = (\<lambda>_. (3, 4)), ep_vlan = 1, mac_vlan = 1, max_frame_sc_que = 1500,
     max_frame_res_que = 1500, max_frame_be_que = 1500, type1 = 0, type2 = 0, mac1_config = 0, mac2_config = 0,
     port_vlan_mem_ctrl_val = 0, port_vlan_mem_data = 0\<rparr>"

theorem switch_regs_roundtrip_witness:
  "sw_mac_addr (get_switch_regs (set_switch_regs demo_sw sw_lp) demo_sw) = [1, 2, 3, 4, 5, 6]"
  using switch_regs_roundtrip [of demo_sw sw_lp demo_sw] by (simp add: demo_sw_def)

theorem mac_learn_inverted_witness:
  "get_mac_addr_learn True (snd (set_mac_addr_learn (Some \<lparr>aging = True, is_age = True, learning = True,
      is_learn = True, learn_untag = False, is_untag = True, aging_time = 300\<rparr>) sw_lp)) =
     (0, Some (300, False, False, False))"
  by (subst mac_learn_inverted) simp_all

theorem port_state_roundtrip_witness:
  "get_port_status plain_ep (Some \<lparr>ps_port_num = 4, ps_port_status = 0\<rparr>) True
     (snd (set_port_status plain_ep (Some \<lparr>ps_port_num = 4, ps_port_status = 3\<rparr>) sw_lp)) =
     (0, Some \<lparr>ps_port_num = 4, ps_port_status = 3\<rparr>)"
  by (subst port_state_roundtrip [where s = 17]) (simp_all add: status_shift_def sw_lp_def axienet_ior_def)

theorem native_vlan_roundtrip_witness:
  "get_native_vlan (Some \<lparr>nv_en_ipv = False, nv_port_num = 4, nv_ipv = 0, nv_vlan_id = 0\<rparr>) True
     (snd (set_native_vlan (Some \<lparr>nv_en_ipv = True, nv_port_num = 4, nv_ipv = 5, nv_vlan_id = 100\<rparr>) sw_lp)) =
     (0, Some \<lparr>nv_en_ipv = False, nv_port_num = 4, nv_ipv = 5, nv_vlan_id = 100\<rparr>)"
  by (subst native_vlan_roundtrip) simp_all

theorem vlan_add_uses_stale_data_witness:
  "\<exists>lp' u x. tsn_switch_vlan_add (quick_hw (\<lambda>lp. axienet_iow lp 0x1104 0x2)) \<lparr>pv_aging = False, pv_is_age = False,
      pv_learning = False, pv_is_learn = False, pv_en_ipv = False, pv_en_port_status = False, pv_port_num = 4,
      pv_ipv = 0, pv_port_status = 0, pv_vlan_id = 10, pv_aging_time = 0\<rparr> True sw_lp = (0, lp') \<and>
     lp' = vlan_command (quick_hw (\<lambda>lp. axienet_iow lp 0x1104 0x2)) u x \<and> axienet_ior x 0x1104 = 0xC"
proof -
  let ?p = "\<lparr>pv_aging = False, pv_is_age = False, pv_learning = False, pv_is_learn = False, pv_en_ipv = False,
      pv_en_port_status = False, pv_port_num = 4, pv_ipv = 0, pv_port_status = 0, pv_vlan_id = 10, pv_aging_time = 0\<rparr>"
  let ?hw = "quick_hw (\<lambda>lp. axienet_iow lp 0x1104 0x2)"
  obtain lp' where s: "tsn_switch_vlan_add ?hw ?p True sw_lp = (0, lp')"
    by (simp add: tsn_switch_vlan_add_def Let_def)
  have "axienet_ior sw_lp 0x1104 OR (0x8 OR ucast (pv_port_num ?p)) = 0xC" by (simp add: sw_lp_def axienet_ior_def)
  then show ?thesis using vlan_add_uses_stale_data [OF s] s by auto
qed

theorem priority_map_witness:
  "get_field 4 16 (axienet_ior (snd (tsn_switch_cam_init 0x10 0x0C 3 sw_lp)) 0x8) = 2"
  using priority_map [of 4 "0x10" "0x0C" 3 sw_lp] by simp

theorem ioctl_guards_witness:
  "switch_ioctl \<lparr>qci_on = True, cb_on = True, en_hw_addr_learning = False\<rparr> plain_ep (quick_hw id) True
     GET_MAC_ADDR_LEARN_CONFIG sw_lp = Some (Inr ((- 1, NoReply), sw_lp))"
  using ioctl_guards [of GET_MAC_ADDR_LEARN_CONFIG "\<lparr>qci_on = True, cb_on = True, en_hw_addr_learning = False\<rparr>"]
  by (simp add: needs_learning_def)

end
