(* ===== verification/Vos_Time.thy ===== *)
theory Vos_Time
  imports Prelude "HOL-Library.Signed_Division"
begin

text \<open>
  Time values of the TRDP stack, \<^verbatim>\<open>app/trdp/tcnopen/vos_thread.c\<close> (and the \<open>timer...\<close> macros of
  \<^verbatim>\<open>vos_thread.h\<close>): seconds and microseconds, both \<open>long\<close>. A \<open>long\<close> has 64 bits and is an
  integer here; the 32 bit arithmetic inside \<open>vos_divTime\<close> is written out. Calls with a null
  pointer only log and are not modelled.
\<close>

record vos_timeval =
  tv_sec :: int
  tv_usec :: int

definition timerisset :: "vos_timeval \<Rightarrow> bool" where
  "timerisset t \<longleftrightarrow> tv_sec t \<noteq> 0 \<or> tv_usec t \<noteq> 0"

definition timer_gt :: "vos_timeval \<Rightarrow> vos_timeval \<Rightarrow> bool" where
  "timer_gt a b \<longleftrightarrow> (if tv_sec a = tv_sec b then tv_usec a > tv_usec b else tv_sec a > tv_sec b)"

definition timer_lt :: "vos_timeval \<Rightarrow> vos_timeval \<Rightarrow> bool" where
  "timer_lt a b \<longleftrightarrow> (if tv_sec a = tv_sec b then tv_usec a < tv_usec b else tv_sec a < tv_sec b)"

definition vos_clearTime :: vos_timeval where
  "vos_clearTime = \<lparr>tv_sec = 0, tv_usec = 0\<rparr>"

definition vos_addTime :: "vos_timeval \<Rightarrow> vos_timeval \<Rightarrow> vos_timeval" where
  "vos_addTime t a =
     (let s = tv_sec t + tv_sec a; u = tv_usec t + tv_usec a
      in if u \<ge> 1000000 then \<lparr>tv_sec = s + 1, tv_usec = u - 1000000\<rparr> else \<lparr>tv_sec = s, tv_usec = u\<rparr>)"

definition vos_subTime :: "vos_timeval \<Rightarrow> vos_timeval \<Rightarrow> vos_timeval" where
  "vos_subTime t b =
     (let s = tv_sec t - tv_sec b; u = tv_usec t - tv_usec b
      in if u < 0 then \<lparr>tv_sec = s - 1, tv_usec = u + 1000000\<rparr> else \<lparr>tv_sec = s, tv_usec = u\<rparr>)"

text \<open>The remainder and its product with a million are computed in 32 bits.\<close>

definition vos_divTime :: "vos_timeval \<Rightarrow> u32 \<Rightarrow> vos_timeval" where
  "vos_divTime t divisor =
     (if divisor = 0 then t
      else
        let temp = word_of_int (tv_sec t) mod divisor;
            s = tv_sec t sdiv uint divisor;
            u = (if temp > 0 then tv_usec t + uint (temp * 1000000) else tv_usec t)
        in \<lparr>tv_sec = s, tv_usec = u sdiv uint divisor\<rparr>)"

function carry_usec :: "int \<Rightarrow> int \<Rightarrow> vos_timeval" where
  "carry_usec s u = (if u \<ge> 1000000 then carry_usec (s + 1) (u - 1000000) else \<lparr>tv_sec = s, tv_usec = u\<rparr>)"
  by auto
termination by (relation "measure (\<lambda>(s, u). nat u)") auto

declare carry_usec.simps [simp del]

definition vos_mulTime :: "vos_timeval \<Rightarrow> u32 \<Rightarrow> vos_timeval" where
  "vos_mulTime t m = carry_usec (tv_sec t * uint m) (tv_usec t * uint m)"

definition vos_cmpTime :: "vos_timeval \<Rightarrow> vos_timeval \<Rightarrow> int" where
  "vos_cmpTime t c = (if timer_gt t c then 1 else if timer_lt t c then - 1 else 0)"

section \<open>Time in microseconds\<close>

definition usecs :: "vos_timeval \<Rightarrow> int" where
  "usecs t = tv_sec t * 1000000 + tv_usec t"

definition time_ok :: "vos_timeval \<Rightarrow> bool" where
  "time_ok t \<longleftrightarrow> 0 \<le> tv_usec t \<and> tv_usec t < 1000000"

text \<open>
  What a representation of times promises: values with an order and sums. Callers only rely
  on these laws.
\<close>

locale time_arith =
  fixes val :: "'t \<Rightarrow> int" and ok :: "'t \<Rightarrow> bool" and add sub :: "'t \<Rightarrow> 't \<Rightarrow> 't" and cmp :: "'t \<Rightarrow> 't \<Rightarrow> int"
  assumes add_ok: "ok a \<Longrightarrow> ok b \<Longrightarrow> ok (add a b)"
    and add_val: "val (add a b) = val a + val b"
    and sub_ok: "ok a \<Longrightarrow> ok b \<Longrightarrow> ok (sub a b)"
    and sub_val: "val (sub a b) = val a - val b"
    and cmp_val: "ok a \<Longrightarrow> ok b \<Longrightarrow> cmp a b = sgn (val a - val b)"
    and val_inj: "ok a \<Longrightarrow> ok b \<Longrightarrow> val a = val b \<Longrightarrow> a = b"
begin

lemma add_sub_cancel: "ok a \<Longrightarrow> ok b \<Longrightarrow> sub (add a b) b = a"
  by (intro val_inj add_ok sub_ok) (simp_all add: add_val sub_val)

lemma sub_add_cancel: "ok a \<Longrightarrow> ok b \<Longrightarrow> add (sub a b) b = a"
  by (intro val_inj add_ok sub_ok) (simp_all add: add_val sub_val)

lemma add_assoc: "ok a \<Longrightarrow> ok b \<Longrightarrow> ok c \<Longrightarrow> add (add a b) c = add a (add b c)"
  by (intro val_inj add_ok) (simp_all add: add_val)

lemma add_commute: "ok a \<Longrightarrow> ok b \<Longrightarrow> add a b = add b a"
  by (intro val_inj add_ok) (simp_all add: add_val)

lemma cmp_add: "ok a \<Longrightarrow> ok b \<Longrightarrow> ok c \<Longrightarrow> cmp (add a c) (add b c) = cmp a b"
  by (simp add: cmp_val add_ok add_val)

lemma cmp_le_iff: "ok a \<Longrightarrow> ok b \<Longrightarrow> cmp a b \<le> 0 \<longleftrightarrow> val a \<le> val b"
  by (simp add: cmp_val sgn_if)

lemma cmp_gt_iff: "ok a \<Longrightarrow> ok b \<Longrightarrow> cmp a b > 0 \<longleftrightarrow> val b < val a"
  by (simp add: cmp_val sgn_if)

lemma cmp_eq_iff: "ok a \<Longrightarrow> ok b \<Longrightarrow> cmp a b = 0 \<longleftrightarrow> a = b"
  using val_inj [of a b] by (auto simp: cmp_val sgn_if)

lemma cmp_trans: "ok a \<Longrightarrow> ok b \<Longrightarrow> ok c \<Longrightarrow> cmp a b \<le> 0 \<Longrightarrow> cmp b c \<le> 0 \<Longrightarrow> cmp a c \<le> 0"
  by (simp add: cmp_le_iff)

end

lemma timer_lt_val: "time_ok a \<Longrightarrow> time_ok b \<Longrightarrow> timer_lt a b \<longleftrightarrow> usecs a < usecs b"
  by (auto simp: timer_lt_def time_ok_def usecs_def)

lemma timer_gt_lt: "timer_gt a b \<longleftrightarrow> timer_lt b a"
  by (auto simp: timer_lt_def timer_gt_def)

lemma usecs_inj:
  assumes "time_ok a" and "time_ok b" and "usecs a = usecs b"
  shows "a = b"
proof -
  have "\<not> timer_lt a b" "\<not> timer_lt b a" using assms by (simp_all add: timer_lt_val)
  then show ?thesis by (intro vos_timeval.equality) (auto simp: timer_lt_def split: if_splits)
qed

interpretation vos: time_arith usecs time_ok vos_addTime vos_subTime vos_cmpTime
proof
  show "time_ok a \<Longrightarrow> time_ok b \<Longrightarrow> vos_cmpTime a b = sgn (usecs a - usecs b)" for a b
    by (simp add: vos_cmpTime_def timer_gt_lt timer_lt_val sgn_if)
qed (auto simp: vos_addTime_def vos_subTime_def usecs_def time_ok_def Let_def intro: usecs_inj [unfolded usecs_def time_ok_def])

lemma clear_ok [simp]: "time_ok vos_clearTime" "usecs vos_clearTime = 0" "\<not> timerisset vos_clearTime"
  by (simp_all add: vos_clearTime_def time_ok_def usecs_def timerisset_def)

lemma timerisset_val: "time_ok t \<Longrightarrow> timerisset t \<longleftrightarrow> usecs t \<noteq> 0"
  using usecs_inj [of t vos_clearTime] by (auto simp: timerisset_def vos_clearTime_def usecs_def time_ok_def)

lemma carry_usec_val: "usecs (carry_usec s u) = s * 1000000 + u \<and> (0 \<le> u \<longrightarrow> time_ok (carry_usec s u))"
proof (induction s u rule: carry_usec.induct)
  case (1 s u)
  then show ?case by (subst (1 2) carry_usec.simps) (auto simp: usecs_def time_ok_def)
qed

lemma mulTime_val: "usecs (vos_mulTime t m) = usecs t * uint m"
  using carry_usec_val [of "tv_sec t * uint m" "tv_usec t * uint m"]
  by (simp add: vos_mulTime_def usecs_def algebra_simps)

lemma mulTime_ok: "time_ok t \<Longrightarrow> time_ok (vos_mulTime t m)"
  using carry_usec_val [of "tv_sec t * uint m" "tv_usec t * uint m"]
  by (simp add: vos_mulTime_def time_ok_def)

lemma sdiv_nonneg: "0 \<le> a \<Longrightarrow> 0 < d \<Longrightarrow> a sdiv d = a div d" for a d :: int
  by (auto simp: signed_divide_int_def sgn_if)

text \<open>The quotient is exact as long as the remainder in microseconds fits in 32 bits.\<close>

lemma divTime_val:
  assumes t: "time_ok t" "0 \<le> tv_sec t" "tv_sec t < 4294967296" and d: "divisor \<noteq> 0"
    and small: "tv_sec t \<le> 4294 \<or> uint divisor \<le> 4295"
  shows "time_ok (vos_divTime t divisor)" "usecs (vos_divTime t divisor) = usecs t div uint divisor"
proof -
  let ?d = "uint divisor" and ?s = "tv_sec t" and ?u = "tv_usec t"
  have dp: "0 < ?d" using d by (simp add: word_neq_0_conv word_less_def)
  let ?temp = "word_of_int ?s mod divisor :: u32"
  have temp: "uint ?temp = ?s mod ?d" using t by (simp add: uint_mod uint_word_of_int_eq take_bit_int_eq_self)
  have "?s mod ?d \<le> 4294"
    using small dp t(2) pos_mod_bound [OF dp, of ?s] zmod_le_nonneg_dividend [of ?s ?d] by linarith
  then have wide: "uint (?temp * 1000000) = (?s mod ?d) * 1000000"
    using dp by (simp add: uint_mult_lem [THEN iffD1] uint_word_ariths temp take_bit_int_eq_self)
  define U where "U = ?u + (?s mod ?d) * 1000000"
  have u0: "0 \<le> ?u" "?u < 1000000" using t(1) by (auto simp: time_ok_def)
  have U: "0 \<le> U" "U < ?d * 1000000"
  proof -
    have "0 \<le> ?s mod ?d" "?s mod ?d \<le> ?d - 1" using dp pos_mod_bound [of ?d ?s] by (auto simp: pos_mod_sign)
    then show "0 \<le> U" "U < ?d * 1000000" using u0 unfolding U_def by linarith+
  qed
  have "?temp > 0 \<longleftrightarrow> ?s mod ?d \<noteq> 0" using temp dp by (metis uint_0_iff word_gt_0)
  then have "(if ?temp > 0 then ?u + uint (?temp * 1000000) else ?u) = U"
    unfolding U_def wide by simp
  then have v: "vos_divTime t divisor = \<lparr>tv_sec = ?s div ?d, tv_usec = U div ?d\<rparr>"
    using d dp t(2) U(1) by (simp add: vos_divTime_def Let_def sdiv_nonneg)
  have "U div ?d < 1000000"
  proof (rule ccontr)
    assume "\<not> U div ?d < 1000000"
    then have "?d * 1000000 \<le> ?d * (U div ?d)" using dp by (intro mult_left_mono) auto
    also have "\<dots> \<le> U" using dp mult_div_mod_eq [of ?d U] pos_mod_sign [of ?d U] by linarith
    finally show False using U(2) by simp
  qed
  then show "time_ok (vos_divTime t divisor)" using U(1) dp v by (simp add: time_ok_def pos_imp_zdiv_nonneg_iff)
  have "usecs t = U + ?d * ((?s div ?d) * 1000000)"
  proof -
    have "?s * 1000000 = (?d * (?s div ?d) + ?s mod ?d) * 1000000" by simp
    also have "\<dots> = ?d * ((?s div ?d) * 1000000) + (?s mod ?d) * 1000000" by (simp only: distrib_right mult.assoc)
    finally show ?thesis unfolding usecs_def U_def by linarith
  qed
  then have "usecs t div ?d = (?s div ?d) * 1000000 + U div ?d" using dp by simp
  then show "usecs (vos_divTime t divisor) = usecs t div ?d" using v by (simp add: usecs_def)
qed

end
