(* ===== verification/Vos_Crc.thy ===== *)
theory Vos_Crc
  imports Prelude
begin

text \<open>
  The checksums of TRDP, \<^verbatim>\<open>app/trdp/tcnopen/vos_utils.c\<close>: the frame check sequence of the
  telegram headers and the safety code, both driven by tables of 256 words, against the
  bit-by-bit division by the generator polynomials that the tables abbreviate.
\<close>

section \<open>Tables and functions\<close>

definition fcs_table :: "u32 list" where
  "fcs_table = [
     0x00000000, 0x77073096, 0xEE0E612C, 0x990951BA, 0x076DC419, 0x706AF48F,
     0xE963A535, 0x9E6495A3, 0x0EDB8832, 0x79DCB8A4, 0xE0D5E91E, 0x97D2D988,
     0x09B64C2B, 0x7EB17CBD, 0xE7B82D07, 0x90BF1D91, 0x1DB71064, 0x6AB020F2,
     0xF3B97148, 0x84BE41DE, 0x1ADAD47D, 0x6DDDE4EB, 0xF4D4B551, 0x83D385C7,
     0x136C9856, 0x646BA8C0, 0xFD62F97A, 0x8A65C9EC, 0x14015C4F, 0x63066CD9,
     0xFA0F3D63, 0x8D080DF5, 0x3B6E20C8, 0x4C69105E, 0xD56041E4, 0xA2677172,
     0x3C03E4D1, 0x4B04D447, 0xD20D85FD, 0xA50AB56B, 0x35B5A8FA, 0x42B2986C,
     0xDBBBC9D6, 0xACBCF940, 0x32D86CE3, 0x45DF5C75, 0xDCD60DCF, 0xABD13D59,
     0x26D930AC, 0x51DE003A, 0xC8D75180, 0xBFD06116, 0x21B4F4B5, 0x56B3C423,
     0xCFBA9599, 0xB8BDA50F, 0x2802B89E, 0x5F058808, 0xC60CD9B2, 0xB10BE924,
     0x2F6F7C87, 0x58684C11, 0xC1611DAB, 0xB6662D3D, 0x76DC4190, 0x01DB7106,
     0x98D220BC, 0xEFD5102A, 0x71B18589, 0x06B6B51F, 0x9FBFE4A5, 0xE8B8D433,
     0x7807C9A2, 0x0F00F934, 0x9609A88E, 0xE10E9818, 0x7F6A0DBB, 0x086D3D2D,
     0x91646C97, 0xE6635C01, 0x6B6B51F4, 0x1C6C6162, 0x856530D8, 0xF262004E,
     0x6C0695ED, 0x1B01A57B, 0x8208F4C1, 0xF50FC457, 0x65B0D9C6, 0x12B7E950,
     0x8BBEB8EA, 0xFCB9887C, 0x62DD1DDF, 0x15DA2D49, 0x8CD37CF3, 0xFBD44C65,
     0x4DB26158, 0x3AB551CE, 0xA3BC0074, 0xD4BB30E2, 0x4ADFA541, 0x3DD895D7,
     0xA4D1C46D, 0xD3D6F4FB, 0x4369E96A, 0x346ED9FC, 0xAD678846, 0xDA60B8D0,
     0x44042D73, 0x33031DE5, 0xAA0A4C5F, 0xDD0D7CC9, 0x5005713C, 0x270241AA,
     0xBE0B1010, 0xC90C2086, 0x5768B525, 0x206F85B3, 0xB966D409, 0xCE61E49F,
     0x5EDEF90E, 0x29D9C998, 0xB0D09822, 0xC7D7A8B4, 0x59B33D17, 0x2EB40D81,
     0xB7BD5C3B, 0xC0BA6CAD, 0xEDB88320, 0x9ABFB3B6, 0x03B6E20C, 0x74B1D29A,
     0xEAD54739, 0x9DD277AF, 0x04DB2615, 0x73DC1683, 0xE3630B12, 0x94643B84,
     0x0D6D6A3E, 0x7A6A5AA8, 0xE40ECF0B, 0x9309FF9D, 0x0A00AE27, 0x7D079EB1,
     0xF00F9344, 0x8708A3D2, 0x1E01F268, 0x6906C2FE, 0xF762575D, 0x806567CB,
     0x196C3671, 0x6E6B06E7, 0xFED41B76, 0x89D32BE0, 0x10DA7A5A, 0x67DD4ACC,
     0xF9B9DF6F, 0x8EBEEFF9, 0x17B7BE43, 0x60B08ED5, 0xD6D6A3E8, 0xA1D1937E,
     0x38D8C2C4, 0x4FDFF252, 0xD1BB67F1, 0xA6BC5767, 0x3FB506DD, 0x48B2364B,
     0xD80D2BDA, 0xAF0A1B4C, 0x36034AF6, 0x41047A60, 0xDF60EFC3, 0xA867DF55,
     0x316E8EEF, 0x4669BE79, 0xCB61B38C, 0xBC66831A, 0x256FD2A0, 0x5268E236,
     0xCC0C7795, 0xBB0B4703, 0x220216B9, 0x5505262F, 0xC5BA3BBE, 0xB2BD0B28,
     0x2BB45A92, 0x5CB36A04, 0xC2D7FFA7, 0xB5D0CF31, 0x2CD99E8B, 0x5BDEAE1D,
     0x9B64C2B0, 0xEC63F226, 0x756AA39C, 0x026D930A, 0x9C0906A9, 0xEB0E363F,
     0x72076785, 0x05005713, 0x95BF4A82, 0xE2B87A14, 0x7BB12BAE, 0x0CB61B38,
     0x92D28E9B, 0xE5D5BE0D, 0x7CDCEFB7, 0x0BDBDF21, 0x86D3D2D4, 0xF1D4E242,
     0x68DDB3F8, 0x1FDA836E, 0x81BE16CD, 0xF6B9265B, 0x6FB077E1, 0x18B74777,
     0x88085AE6, 0xFF0F6A70, 0x66063BCA, 0x11010B5C, 0x8F659EFF, 0xF862AE69,
     0x616BFFD3, 0x166CCF45, 0xA00AE278, 0xD70DD2EE, 0x4E048354, 0x3903B3C2,
     0xA7672661, 0xD06016F7, 0x4969474D, 0x3E6E77DB, 0xAED16A4A, 0xD9D65ADC,
     0x40DF0B66, 0x37D83BF0, 0xA9BCAE53, 0xDEBB9EC5, 0x47B2CF7F, 0x30B5FFE9,
     0xBDBDF21C, 0xCABAC28A, 0x53B39330, 0x24B4A3A6, 0xBAD03605, 0xCDD70693,
     0x54DE5729, 0x23D967BF, 0xB3667A2E, 0xC4614AB8, 0x5D681B02, 0x2A6F2B94,
     0xB40BBE37, 0xC30C8EA1, 0x5A05DF1B, 0x2D02EF8D]"

definition sc32_table :: "u32 list" where
  "sc32_table = [
     0x00000000, 0xF4ACFB13, 0x1DF50D35, 0xE959F626, 0x3BEA1A6A, 0xCF46E179,
     0x261F175F, 0xD2B3EC4C, 0x77D434D4, 0x8378CFC7, 0x6A2139E1, 0x9E8DC2F2,
     0x4C3E2EBE, 0xB892D5AD, 0x51CB238B, 0xA567D898, 0xEFA869A8, 0x1B0492BB,
     0xF25D649D, 0x06F19F8E, 0xD44273C2, 0x20EE88D1, 0xC9B77EF7, 0x3D1B85E4,
     0x987C5D7C, 0x6CD0A66F, 0x85895049, 0x7125AB5A, 0xA3964716, 0x573ABC05,
     0xBE634A23, 0x4ACFB130, 0x2BFC2843, 0xDF50D350, 0x36092576, 0xC2A5DE65,
     0x10163229, 0xE4BAC93A, 0x0DE33F1C, 0xF94FC40F, 0x5C281C97, 0xA884E784,
     0x41DD11A2, 0xB571EAB1, 0x67C206FD, 0x936EFDEE, 0x7A370BC8, 0x8E9BF0DB,
     0xC45441EB, 0x30F8BAF8, 0xD9A14CDE, 0x2D0DB7CD, 0xFFBE5B81, 0x0B12A092,
     0xE24B56B4, 0x16E7ADA7, 0xB380753F, 0x472C8E2C, 0xAE75780A, 0x5AD98319,
     0x886A6F55, 0x7CC69446, 0x959F6260, 0x61339973, 0x57F85086, 0xA354AB95,
     0x4A0D5DB3, 0xBEA1A6A0, 0x6C124AEC, 0x98BEB1FF, 0x71E747D9, 0x854BBCCA,
     0x202C6452, 0xD4809F41, 0x3DD96967, 0xC9759274, 0x1BC67E38, 0xEF6A852B,
     0x0633730D, 0xF29F881E, 0xB850392E, 0x4CFCC23D, 0xA5A5341B, 0x5109CF08,
     0x83BA2344, 0x7716D857, 0x9E4F2E71, 0x6AE3D562, 0xCF840DFA, 0x3B28F6E9,
     0xD27100CF, 0x26DDFBDC, 0xF46E1790, 0x00C2EC83, 0xE99B1AA5, 0x1D37E1B6,
     0x7C0478C5, 0x88A883D6, 0x61F175F0, 0x955D8EE3, 0x47EE62AF, 0xB34299BC,
     0x5A1B6F9A, 0xAEB79489, 0x0BD04C11, 0xFF7CB702, 0x16254124, 0xE289BA37,
     0x303A567B, 0xC496AD68, 0x2DCF5B4E, 0xD963A05D, 0x93AC116D, 0x6700EA7E,
     0x8E591C58, 0x7AF5E74B, 0xA8460B07, 0x5CEAF014, 0xB5B30632, 0x411FFD21,
     0xE47825B9, 0x10D4DEAA, 0xF98D288C, 0x0D21D39F, 0xDF923FD3, 0x2B3EC4C0,
     0xC26732E6, 0x36CBC9F5, 0xAFF0A10C, 0x5B5C5A1F, 0xB205AC39, 0x46A9572A,
     0x941ABB66, 0x60B64075, 0x89EFB653, 0x7D434D40, 0xD82495D8, 0x2C886ECB,
     0xC5D198ED, 0x317D63FE, 0xE3CE8FB2, 0x176274A1, 0xFE3B8287, 0x0A977994,
     0x4058C8A4, 0xB4F433B7, 0x5DADC591, 0xA9013E82, 0x7BB2D2CE, 0x8F1E29DD,
     0x6647DFFB, 0x92EB24E8, 0x378CFC70, 0xC3200763, 0x2A79F145, 0xDED50A56,
     0x0C66E61A, 0xF8CA1D09, 0x1193EB2F, 0xE53F103C, 0x840C894F, 0x70A0725C,
     0x99F9847A, 0x6D557F69, 0xBFE69325, 0x4B4A6836, 0xA2139E10, 0x56BF6503,
     0xF3D8BD9B, 0x07744688, 0xEE2DB0AE, 0x1A814BBD, 0xC832A7F1, 0x3C9E5CE2,
     0xD5C7AAC4, 0x216B51D7, 0x6BA4E0E7, 0x9F081BF4, 0x7651EDD2, 0x82FD16C1,
     0x504EFA8D, 0xA4E2019E, 0x4DBBF7B8, 0xB9170CAB, 0x1C70D433, 0xE8DC2F20,
     0x0185D906, 0xF5292215, 0x279ACE59, 0xD336354A, 0x3A6FC36C, 0xCEC3387F,
     0xF808F18A, 0x0CA40A99, 0xE5FDFCBF, 0x115107AC, 0xC3E2EBE0, 0x374E10F3,
     0xDE17E6D5, 0x2ABB1DC6, 0x8FDCC55E, 0x7B703E4D, 0x9229C86B, 0x66853378,
     0xB436DF34, 0x409A2427, 0xA9C3D201, 0x5D6F2912, 0x17A09822, 0xE30C6331,
     0x0A559517, 0xFEF96E04, 0x2C4A8248, 0xD8E6795B, 0x31BF8F7D, 0xC513746E,
     0x6074ACF6, 0x94D857E5, 0x7D81A1C3, 0x892D5AD0, 0x5B9EB69C, 0xAF324D8F,
     0x466BBBA9, 0xB2C740BA, 0xD3F4D9C9, 0x275822DA, 0xCE01D4FC, 0x3AAD2FEF,
     0xE81EC3A3, 0x1CB238B0, 0xF5EBCE96, 0x01473585, 0xA420ED1D, 0x508C160E,
     0xB9D5E028, 0x4D791B3B, 0x9FCAF777, 0x6B660C64, 0x823FFA42, 0x76930151,
     0x3C5CB061, 0xC8F04B72, 0x21A9BD54, 0xD5054647, 0x07B6AA0B, 0xF31A5118,
     0x1A43A73E, 0xEEEF5C2D, 0x4B8884B5, 0xBF247FA6, 0x567D8980, 0xA2D17293,
     0x70629EDF, 0x84CE65CC, 0x6D9793EA, 0x993B68F9]"

abbreviation (input) INITFCS :: u32 where "INITFCS \<equiv> 0xffffffff"
abbreviation (input) SIZE_OF_FCS :: nat where "SIZE_OF_FCS \<equiv> 4"

fun crc32_loop :: "u32 \<Rightarrow> u8 list \<Rightarrow> u32" where
  "crc32_loop crc [] = crc"
| "crc32_loop crc (b # bs) =
     crc32_loop (drop_bit 8 crc XOR fcs_table ! unat ((crc XOR ucast b) AND 0xff)) bs"

definition vos_crc32 :: "u32 \<Rightarrow> u8 list \<Rightarrow> u32" where
  "vos_crc32 crc pData = NOT (crc32_loop crc pData)"

fun vos_sc32 :: "u32 \<Rightarrow> u8 list \<Rightarrow> u32" where
  "vos_sc32 crc [] = crc"
| "vos_sc32 crc (b # bs) =
     vos_sc32 (sc32_table ! unat ((drop_bit 24 crc XOR ucast b) AND 0xff) XOR push_bit 8 crc) bs"

section \<open>Division by the generator polynomial\<close>

text \<open>
  One step of the division: a register is shifted by one bit and the generator polynomial is
  subtracted when a one is shifted out. The frame check sequence is reflected, the safety code
  is not.
\<close>

definition fcs_bit :: "u32 \<Rightarrow> u32" where
  "fcs_bit c = (if bit c 0 then drop_bit 1 c XOR 0xEDB88320 else drop_bit 1 c)"


text \<open>A checksum computed bit by bit: eight steps per byte, the byte added at the shifting end.\<close>

definition bitwise_crc :: "(u32 \<Rightarrow> u32) \<Rightarrow> (u8 \<Rightarrow> u32) \<Rightarrow> u32 \<Rightarrow> u8 list \<Rightarrow> u32" where
  "bitwise_crc step inp c bs = foldl (\<lambda>c b. (step ^^ 8) (c XOR inp b)) c bs"

lemma bitwise_crc_simps [simp]:
  "bitwise_crc step inp c [] = c"
  "bitwise_crc step inp c (b # bs) = bitwise_crc step inp ((step ^^ 8) (c XOR inp b)) bs"
  "bitwise_crc step inp c (as @ bs) = bitwise_crc step inp (bitwise_crc step inp c as) bs"
  by (simp_all add: bitwise_crc_def)

lemma xor_cancel:
  "x XOR z = y XOR z \<longleftrightarrow> x = y" "z XOR x = z XOR y \<longleftrightarrow> x = y" for x y z :: "'a::len word"
  by (auto simp: bit_eq_iff bit_xor_iff)

text \<open>
  What the two checksums have in common: the step is linear and loses nothing, and a byte
  added \<open>k\<close> byte positions before the shifting end is there after \<open>k\<close> bytes.
\<close>

locale crc_steps =
  fixes step :: "u32 \<Rightarrow> u32" and pos :: "nat \<Rightarrow> u8 \<Rightarrow> u32" and byte :: "nat \<Rightarrow> u32 \<Rightarrow> u8"
  assumes step_xor: "step (x XOR y) = step x XOR step y"
    and step_zero: "step c = 0 \<Longrightarrow> c = 0"
    and pos_shift: "k < 3 \<Longrightarrow> (step ^^ 8) (pos (Suc k) b) = pos k b"
    and byte_xor: "byte j (x XOR y) = byte j x XOR byte j y"
    and byte_pos: "j < 4 \<Longrightarrow> k < 4 \<Longrightarrow> byte j (pos k b) = (if j = k then b else 0)"
begin

abbreviation crc :: "u32 \<Rightarrow> u8 list \<Rightarrow> u32" where
  "crc \<equiv> bitwise_crc step (pos 0)"

primrec window :: "nat \<Rightarrow> u8 list \<Rightarrow> u32" where
  "window k [] = 0"
| "window k (b # bs) = pos k b XOR window (Suc k) bs"

lemma step_0 [simp]: "step 0 = 0"
  using step_xor [of 0 0] by simp

lemma steps_xor: "(step ^^ n) (a XOR b) = (step ^^ n) a XOR (step ^^ n) b"
  by (induction n) (simp_all add: step_xor)

lemma steps_0: "(step ^^ n) 0 = 0"
  by (induction n) simp_all

lemma steps_inj: "(step ^^ n) a = (step ^^ n) b \<Longrightarrow> a = b"
proof (induction n)
  case (Suc n)
  from Suc.prems have "step ((step ^^ n) a XOR (step ^^ n) b) = 0" by (simp add: step_xor)
  then have "(step ^^ n) a XOR (step ^^ n) b = 0" by (rule step_zero)
  then have "(step ^^ n) a = (step ^^ n) b" using xor_cancel(1) [of _ "(step ^^ n) b"] by (metis xor_self_eq)
  then show ?case by (rule Suc.IH)
qed simp

lemma crc_inj_state: "crc c bs = crc c' bs \<Longrightarrow> c = c'"
proof (induction bs arbitrary: c c')
  case (Cons b bs)
  then have "(step ^^ 8) (c XOR pos 0 b) = (step ^^ 8) (c' XOR pos 0 b)" by simp
  then have "c XOR pos 0 b = c' XOR pos 0 b" by (rule steps_inj)
  then show ?case by (simp add: xor_cancel)
qed simp

lemma window_shift: "k + length bs \<le> 3 \<Longrightarrow> (step ^^ 8) (window (Suc k) bs) = window k bs"
proof (induction bs arbitrary: k)
  case (Cons b bs)
  then show ?case by (simp add: steps_xor pos_shift)
qed (simp add: steps_0)

lemma crc_window: "length bs \<le> 4 \<Longrightarrow> crc c bs = (step ^^ (8 * length bs)) (c XOR window 0 bs)"
proof (induction bs arbitrary: c)
  case (Cons b bs)
  have "crc c (b # bs) = (step ^^ (8 * length bs)) ((step ^^ 8) (c XOR pos 0 b) XOR window 0 bs)"
    using Cons by simp
  also have "window 0 bs = (step ^^ 8) (window (Suc 0) bs)"
    using window_shift [of 0 bs] Cons.prems by simp
  also have "(step ^^ 8) (c XOR pos 0 b) XOR (step ^^ 8) (window (Suc 0) bs) =
      (step ^^ 8) (c XOR window 0 (b # bs))" by (simp add: steps_xor xor.assoc)
  finally show ?case by (simp add: funpow_add funpow_swap1 add.commute [of 8] del: funpow.simps)
qed simp

lemma byte_window: "k + length bs \<le> 4 \<Longrightarrow> j < length bs \<Longrightarrow> byte (k + j) (window k bs) = bs ! j"
proof (induction bs arbitrary: k j)
  case (Cons b bs)
  have "byte i (window k' bs) = 0" if "i < k'" "k' + length bs \<le> 4" for i k'
    using that
  proof (induction bs arbitrary: k')
    case Nil
    have "byte i 0 = 0" using byte_xor [of i 0 0] by simp
    then show ?case by simp
  next
    case (Cons x xs)
    then show ?case by (simp add: byte_xor byte_pos)
  qed
  then show ?case using Cons.prems Cons.IH [of "Suc k"] by (cases j) (auto simp: byte_xor byte_pos)
qed simp

text \<open>A change that is confined to four consecutive bytes changes the checksum.\<close>

lemma burst_detected:
  assumes "crc c (p @ xs @ s) = crc c (p @ ys @ s)" and "length xs = length ys" and "length xs \<le> 4"
  shows "xs = ys"
proof -
  have "crc (crc c p) xs = crc (crc c p) ys" using assms(1) crc_inj_state by simp
  then have "crc c p XOR window 0 xs = crc c p XOR window 0 ys"
    using assms(2,3) by (simp add: crc_window steps_inj)
  then have w: "window 0 xs = window 0 ys" by (simp add: xor_cancel)
  show ?thesis
  proof (rule nth_equalityI)
    fix j assume "j < length xs"
    then show "xs ! j = ys ! j" using byte_window [of 0 _ j] assms(2,3) w by (metis add_0)
  qed (use assms in simp)
qed

end

section \<open>The two checksums\<close>

lemma ucast_xor: "ucast (x XOR y) = (ucast x XOR ucast y :: 'b::len word)" for x y :: "'a::len word"
  by (rule bit_word_eqI) (simp add: bit_simps)

lemma fcs_bit_xor: "fcs_bit (x XOR y) = fcs_bit x XOR fcs_bit y"
  by (rule bit_word_eqI) (auto simp: fcs_bit_def bit_xor_iff bit_drop_bit_eq)


lemma fcs_bit_zero: "fcs_bit c = 0 \<Longrightarrow> c = 0"
proof -
  assume z: "fcs_bit c = 0"
  have "\<not> bit c 0"
  proof
    assume "bit c 0"
    then have "drop_bit 1 c = 0xEDB88320" using z xor_cancel(1) [of "drop_bit 1 c" "0xEDB88320" "0xEDB88320"]
      by (simp add: fcs_bit_def)
    then have "bit (drop_bit 1 c) 31" by simp
    then show False by (auto simp: bit_drop_bit_eq dest: bit_imp_le_length)
  qed
  moreover from this have "\<not> bit (drop_bit 1 c) i" for i using z by (simp add: fcs_bit_def)
  ultimately have "\<not> bit c i" for i by (cases i) (auto simp: bit_drop_bit_eq)
  then show ?thesis by (simp add: bit_eq_iff)
qed


lemma fcs_shift: "(\<And>i. i < n \<Longrightarrow> \<not> bit c i) \<Longrightarrow> (fcs_bit ^^ n) c = drop_bit n c"
proof (induction n arbitrary: c)
  case (Suc n)
  have "(fcs_bit ^^ Suc n) c = (fcs_bit ^^ n) (drop_bit 1 c)"
    using Suc.prems [of 0] by (simp add: funpow_swap1 fcs_bit_def)
  also have "\<dots> = drop_bit n (drop_bit 1 c)" using Suc.prems by (intro Suc.IH) (simp add: bit_drop_bit_eq)
  finally show ?case by simp
qed simp


interpretation fcs: crc_steps fcs_bit "\<lambda>k b. push_bit (8 * k) (ucast b)" "\<lambda>j x. ucast (drop_bit (8 * j) x)"
proof
  fix k :: nat and b :: u8
  assume "k < 3"
  have "(fcs_bit ^^ 8) (push_bit (8 * Suc k) (ucast b)) = drop_bit 8 (push_bit (8 * Suc k) (ucast b) :: u32)"
    by (rule fcs_shift) (simp add: bit_push_bit_iff)
  also have "\<dots> = push_bit (8 * k) (ucast b)"
    using \<open>k < 3\<close> by (intro bit_word_eqI) (auto simp: bit_simps dest: bit_imp_le_length)
  finally show "(fcs_bit ^^ 8) (push_bit (8 * Suc k) (ucast b)) = push_bit (8 * k) (ucast b)" .
next
  fix j k :: nat and b :: u8
  assume "j < 4" "k < 4"
  then show "ucast (drop_bit (8 * j) (push_bit (8 * k) (ucast b) :: u32)) = (if j = k then b else 0)"
    by (intro bit_word_eqI) (auto simp: bit_simps dest: bit_imp_le_length)
qed (simp_all add: fcs_bit_xor fcs_bit_zero drop_bit_xor ucast_xor)


section \<open>The tables\<close>

fun evens :: "'a list \<Rightarrow> 'a list" where
  "evens (x # y # xs) = x # evens xs"
| "evens xs = []"

fun odds :: "'a list \<Rightarrow> 'a list" where
  "odds (x # y # xs) = y # odds xs"
| "odds xs = []"

lemma evens_nth: "2 * i + 1 < length xs \<Longrightarrow> evens xs ! i = xs ! (2 * i)"
  by (induction xs arbitrary: i rule: evens.induct) (auto simp: nth_Cons split: nat.splits)

lemma odds_nth: "2 * i + 1 < length xs \<Longrightarrow> odds xs ! i = xs ! (2 * i + 1)"
  by (induction xs arbitrary: i rule: odds.induct) (auto simp: nth_Cons split: nat.splits)

lemma length_evens_odds: "length (evens xs) = length xs div 2" "length (odds xs) = length xs div 2"
  by (induction xs rule: evens.induct) auto

text \<open>Neighbouring entries of each table are one step apart, or differ by its second entry.\<close>

lemma fcs_table_evens: "map fcs_bit (evens fcs_table) = take 128 fcs_table"
  by code_simp

lemma fcs_table_odds: "map (\<lambda>x. x XOR 0x77073096) (evens fcs_table) = odds fcs_table"
  by code_simp



lemma table_lengths [simp]: "length fcs_table = 256" "length sc32_table = 256"
  by (simp_all add: fcs_table_def sc32_table_def)

lemma fcs_step_1: "(fcs_bit ^^ 8) 1 = 0x77073096" by code_simp


lemma of_nat_double: "of_nat (2 * j) = push_bit 1 (of_nat j :: u32)"
  by (simp add: push_bit_eq_mult)

lemma fcs_bit_double: "j < 128 \<Longrightarrow> fcs_bit (push_bit 1 (of_nat j)) = of_nat j"
proof -
  assume j: "j < 128"
  have "(fcs_bit ^^ 1) (push_bit 1 (of_nat j)) = drop_bit 1 (push_bit 1 (of_nat j))"
    by (rule fcs_shift) (simp only: bit_push_bit_iff, simp)
  also have "\<dots> = of_nat j"
  proof (rule bit_word_eqI)
    fix n assume "n < LENGTH(32)"
    have "\<not> bit (of_nat j :: u32) 31" using j by (simp add: bit_of_nat_iff bit_iff_odd [of j])
    then show "bit (drop_bit 1 (push_bit 1 (of_nat j :: u32))) n = bit (of_nat j :: u32) n"
      using \<open>n < LENGTH(32)\<close> by (cases "n = 31") (simp_all only: bit_drop_bit_eq bit_push_bit_iff comp_def, simp_all)
  qed
  finally show ?thesis by simp
qed

lemma of_nat_xor_1: "of_nat (2 * j + 1) = (push_bit 1 (of_nat j) XOR 1 :: u32)"
proof -
  have "push_bit 1 (of_nat j) AND (1 :: u32) = 0"
    by (rule bit_word_eqI) (simp only: bit_and_iff bit_push_bit_iff bit_1_iff, simp)
  then have "push_bit 1 (of_nat j) + (1 :: u32) = push_bit 1 (of_nat j) XOR 1"
    by (metis disjunctive_add_eq_or disjunctive_xor_eq_or)
  then show ?thesis by (simp add: of_nat_double [symmetric] add.commute mult.commute)
qed

lemma double_cases:
  assumes "i < (256 :: nat)"
  obtains "i = 0" | "i = 1" | j where "i = 2 * j" "0 < j" "j < 128" | j where "i = 2 * j + 1" "0 < j" "j < 128"
  using assms by (cases "i div 2 = 0"; cases "even i") (auto elim!: evenE oddE)

lemma fcs_table_steps: "i < 256 \<Longrightarrow> fcs_table ! i = (fcs_bit ^^ 8) (of_nat i)"
proof (induction i rule: less_induct)
  case (less i)
  have even: "fcs_table ! (2 * j) = (fcs_bit ^^ 8) (push_bit 1 (of_nat j))" if j: "2 * j \<le> i" "0 < j" "j < 128" for j
  proof -
    have "fcs_bit (fcs_table ! (2 * j)) = fcs_table ! j"
      using arg_cong [OF fcs_table_evens, of "\<lambda>xs. xs ! j"] j by (simp add: evens_nth length_evens_odds)
    also have "\<dots> = (fcs_bit ^^ 8) (of_nat j)" using j by (intro less.IH) auto
    also have "\<dots> = fcs_bit ((fcs_bit ^^ 8) (push_bit 1 (of_nat j)))"
      using fcs_bit_double [OF j(3)] by (simp only: funpow_swap1)
    finally show ?thesis using fcs.steps_inj [of 1] by simp
  qed
  from less.prems show ?case
  proof (cases rule: double_cases)
    case 1 then show ?thesis by (simp add: fcs_table_def fcs.steps_0)
  next
    case 2 then show ?thesis using fcs_step_1 by (simp add: fcs_table_def)
  next
    case (3 j) then show ?thesis using even [of j] by (simp only: of_nat_double)
  next
    case (4 j)
    have "fcs_table ! (2 * j + 1) = fcs_table ! (2 * j) XOR 0x77073096"
      using arg_cong [OF fcs_table_odds, of "\<lambda>xs. xs ! j"] 4 by (simp add: evens_nth odds_nth length_evens_odds)
    then show ?thesis using even [of j] 4 fcs_step_1 by (simp only: of_nat_xor_1 fcs.steps_xor)
  qed
qed


section \<open>Table-driven and bit-by-bit computation agree\<close>

lemma and_ff: "x AND 0xff = (take_bit 8 x :: u32)"
  by (simp add: take_bit_eq_mask mask_numeral)

lemma unat_take_8: "unat (take_bit 8 x :: u32) < 256"
  using unsigned_take_bit_eq [of 8 x, where 'a = nat] take_bit_nat_less_exp [of 8 "unat x"] by simp

lemma fcs_table_take_8: "fcs_table ! unat (take_bit 8 x) = (fcs_bit ^^ 8) (take_bit 8 x)"
  using fcs_table_steps [OF unat_take_8 [of x]] by (simp only: of_nat_unat ucast_id)


lemma fcs_byte:
  "drop_bit 8 c XOR fcs_table ! unat ((c XOR ucast b) AND 0xff) = (fcs_bit ^^ 8) (c XOR ucast (b :: u8))"
proof -
  let ?x = "c XOR ucast b :: u32"
  let ?hi = "push_bit 8 (drop_bit 8 ?x)"
  have "(fcs_bit ^^ 8) ?hi = drop_bit 8 ?hi" by (rule fcs_shift) (simp only: bit_push_bit_iff, simp)
  also have "\<dots> = drop_bit 8 c"
    by (rule bit_word_eqI) (auto simp: bit_simps dest: bit_imp_le_length)
  finally have hi: "(fcs_bit ^^ 8) ?hi = drop_bit 8 c" .
  have "?x = ?hi XOR take_bit 8 ?x"
    by (rule bit_word_eqI) (auto simp: bit_simps)
  then have "(fcs_bit ^^ 8) ?x = (fcs_bit ^^ 8) ?hi XOR (fcs_bit ^^ 8) (take_bit 8 ?x)"
    using fcs.steps_xor [of 8 ?hi "take_bit 8 ?x"] by (simp only:)
  then show ?thesis by (simp only: and_ff hi fcs_table_take_8)
qed


lemma crc32_loop_bitwise: "crc32_loop c bs = bitwise_crc fcs_bit ucast c bs"
  by (induction bs arbitrary: c) (simp_all add: fcs_byte)


lemma crc32_burst:
  assumes "vos_crc32 c (p @ xs @ s) = vos_crc32 c (p @ ys @ s)" and "length xs = length ys" and "length xs \<le> 4"
  shows "xs = ys"
proof (rule fcs.burst_detected [of c p xs s ys])
  have "crc32_loop c (p @ xs @ s) = crc32_loop c (p @ ys @ s)"
    using assms(1) by (metis vos_crc32_def bit.double_compl)
  then show "bitwise_crc fcs_bit (\<lambda>b. push_bit (8 * 0) (ucast b)) c (p @ xs @ s) =
      bitwise_crc fcs_bit (\<lambda>b. push_bit (8 * 0) (ucast b)) c (p @ ys @ s)"
    by (simp add: crc32_loop_bitwise)
qed (use assms in auto)

section \<open>Properties\<close>


text \<open>The digits 1 to 9, for which the source documents the safety code 0x1697d06a.\<close>

lemma sc32_digits:
  "vos_sc32 0 [49, 50, 51, 52, 53, 54, 55, 56, 57] = 0x6C9F84A8"
  "vos_sc32 0xFFFFFFFF [49, 50, 51, 52, 53, 54, 55, 56, 57] = 0xC683B9E5"
  by (simp_all add: sc32_table_def)

end
