(* ===== verification/Trdp_Utils.thy ===== *)
theory Trdp_Utils
  imports Vos_Time Vos_Crc
begin

text \<open>
  Data and utilities of the TRDP stack, \<^verbatim>\<open>app/trdp/tcnopen/trdp_private.h\<close> and
  \<^verbatim>\<open>trdp_utils.c\<close>: queue elements of process data, packet sizes, the queues, multicast groups of
  a socket and the lists of received sequence counters.

  A queue, a linked list in the source, is a list of elements; the address of an element, by
  which handles name it, is one of its fields. A frame is the array of bytes it is in memory.
\<close>

section \<open>Types\<close>

datatype TRDP_ERR_T =
    TRDP_NO_ERR | TRDP_PARAM_ERR | TRDP_INIT_ERR | TRDP_NOINIT_ERR | TRDP_TIMEOUT_ERR
  | TRDP_NODATA_ERR | TRDP_SOCK_ERR | TRDP_IO_ERR | TRDP_MEM_ERR | TRDP_SEMA_ERR
  | TRDP_QUEUE_ERR | TRDP_QUEUE_FULL_ERR | TRDP_MUTEX_ERR | TRDP_THREAD_ERR | TRDP_BLOCK_ERR
  | TRDP_INTEGRATION_ERR | TRDP_NOCONN_ERR | TRDP_NOSESSION_ERR | TRDP_SESSION_ABORT_ERR
  | TRDP_NOSUB_ERR | TRDP_NOPUB_ERR | TRDP_NOLIST_ERR | TRDP_CRC_ERR | TRDP_WIRE_ERR
  | TRDP_TOPO_ERR | TRDP_COMID_ERR | TRDP_STATE_ERR | TRDP_APP_TIMEOUT_ERR
  | TRDP_APP_REPLYTO_ERR | TRDP_APP_CONFIRMTO_ERR | TRDP_REPLYTO_ERR | TRDP_CONFIRMTO_ERR
  | TRDP_REQCONFIRMTO_ERR | TRDP_PACKET_ERR | TRDP_UNRESOLVED_ERR | TRDP_XML_PARSER_ERR
  | TRDP_INUSE_ERR | TRDP_MARSHALLING_ERR | TRDP_UNKNOWN_ERR

abbreviation (input) TRDP_MSG_PD :: u16 where "TRDP_MSG_PD \<equiv> 0x5064"
abbreviation (input) TRDP_MSG_PP :: u16 where "TRDP_MSG_PP \<equiv> 0x5070"
abbreviation (input) TRDP_MSG_PR :: u16 where "TRDP_MSG_PR \<equiv> 0x5072"
abbreviation (input) TRDP_MSG_PE :: u16 where "TRDP_MSG_PE \<equiv> 0x5065"

abbreviation (input) TRDP_MAX_PD_DATA_SIZE :: u32 where "TRDP_MAX_PD_DATA_SIZE \<equiv> 1432"
abbreviation (input) TRDP_MIN_PD_HEADER_SIZE :: u32 where "TRDP_MIN_PD_HEADER_SIZE \<equiv> 40"
abbreviation (input) TRDP_MAX_PD_PACKET_SIZE :: u32 where "TRDP_MAX_PD_PACKET_SIZE \<equiv> 1472"
abbreviation (input) MD_HEADER_SIZE :: u32 where "MD_HEADER_SIZE \<equiv> 116"
abbreviation (input) VOS_MAX_MULTICAST_CNT :: nat where "VOS_MAX_MULTICAST_CNT \<equiv> 20"
abbreviation (input) TRDP_SEQ_CNT_START_ARRAY_SIZE :: u16 where "TRDP_SEQ_CNT_START_ARRAY_SIZE \<equiv> 64"

text \<open>Private flags, as bit numbers.\<close>

abbreviation (input) TRDP_TIMED_OUT :: nat where "TRDP_TIMED_OUT \<equiv> 1"
abbreviation (input) TRDP_INVALID_DATA :: nat where "TRDP_INVALID_DATA \<equiv> 2"
abbreviation (input) TRDP_REQ_2B_SENT :: nat where "TRDP_REQ_2B_SENT \<equiv> 3"
abbreviation (input) TRDP_REDUNDANT :: nat where "TRDP_REDUNDANT \<equiv> 5"

text \<open>Packet flags, as bit numbers.\<close>

abbreviation (input) TRDP_FLAGS_MARSHALL :: nat where "TRDP_FLAGS_MARSHALL \<equiv> 1"
abbreviation (input) TRDP_FLAGS_CALLBACK :: nat where "TRDP_FLAGS_CALLBACK \<equiv> 2"
abbreviation (input) TRDP_FLAGS_FORCE_CB :: nat where "TRDP_FLAGS_FORCE_CB \<equiv> 4"

record TRDP_ADDRESSES_T =
  comId :: u32
  srcIpAddr :: u32
  destIpAddr :: u32
  mcGroup :: u32
  etbTopoCnt :: u32
  opTrnTopoCnt :: u32

record TRDP_SEQ_CNT_ENTRY_T =
  lastSeqCnt :: u32
  seq_srcIpAddr :: u32
  seq_msgType :: u16

text \<open>The array \<open>seq\<close> is declared with one element and allocated with \<open>maxNoOfEntries\<close> more.\<close>

record TRDP_SEQ_CNT_LIST_T =
  maxNoOfEntries :: u16
  curNoOfEntries :: u16
  seq :: "TRDP_SEQ_CNT_ENTRY_T list"

datatype TRDP_TO_BEHAVIOR_T = TRDP_TO_DEFAULT | TRDP_TO_SET_TO_ZERO | TRDP_TO_KEEP_LAST_VALUE

text \<open>
  An element of the send or receive queue. Its frame is never null in a queue: publishing and
  subscribing give up an element for which they cannot allocate one. The callback is only a
  flag, calls are recorded.
\<close>

record PD_ELE_T =
  ele :: u64
  magic :: u32
  addr :: TRDP_ADDRESSES_T
  lastSrcIP :: u32
  pullIpAddress :: u32
  redId :: u32
  curSeqCnt :: u32
  curSeqCnt4Pull :: u32
  pSeqCntList :: "TRDP_SEQ_CNT_LIST_T option"
  numRxTx :: u32
  updPkts :: u32
  getPkts :: u32
  numMissed :: u32
  lastErr :: TRDP_ERR_T
  privFlags :: u8
  pktFlags :: u8
  interval :: vos_timeval
  timeToGo :: vos_timeval
  toBehavior :: TRDP_TO_BEHAVIOR_T
  dataSize :: u32
  grossSize :: u32
  sendSize :: u32
  socketIdx :: int
  pUserRef :: u64
  pfCbFunction :: bool
  pFrame :: "u8 list"

definition set_flag :: "nat \<Rightarrow> PD_ELE_T \<Rightarrow> PD_ELE_T" where
  "set_flag f e = e\<lparr>privFlags := privFlags e OR push_bit f 1\<rparr>"

definition clear_flag :: "nat \<Rightarrow> PD_ELE_T \<Rightarrow> PD_ELE_T" where
  "clear_flag f e = e\<lparr>privFlags := privFlags e AND NOT (push_bit f 1)\<rparr>"

section \<open>Packet sizes\<close>

definition padded_size :: "u32 \<Rightarrow> u32 \<Rightarrow> u32" where
  "padded_size header n =
     (let packetSize = header + n
      in if n = 0 then header
         else if n AND 0x3 > 0 then packetSize + (4 - n mod 4) else packetSize)"

definition trdp_packetSizePD :: "u32 \<Rightarrow> u32" where
  "trdp_packetSizePD n = padded_size TRDP_MIN_PD_HEADER_SIZE n"

definition trdp_packetSizeMD :: "u32 \<Rightarrow> u32" where
  "trdp_packetSizeMD n = padded_size MD_HEADER_SIZE n"

section \<open>Queues\<close>

fun trdp_queueFindComId :: "PD_ELE_T list \<Rightarrow> u32 \<Rightarrow> PD_ELE_T option" where
  "trdp_queueFindComId [] c = None"
| "trdp_queueFindComId (e # es) c = (if comId (addr e) = c then Some e else trdp_queueFindComId es c)"

definition pub_matches :: "TRDP_ADDRESSES_T \<Rightarrow> TRDP_ADDRESSES_T \<Rightarrow> bool" where
  "pub_matches e a \<longleftrightarrow> comId e = comId a \<and> (srcIpAddr e = 0 \<or> srcIpAddr e = srcIpAddr a) \<and>
     (destIpAddr e = 0 \<or> destIpAddr e = destIpAddr a) \<and> (mcGroup e = 0 \<or> mcGroup e = mcGroup a)"

fun trdp_queueFindPubAddr :: "PD_ELE_T list \<Rightarrow> TRDP_ADDRESSES_T \<Rightarrow> PD_ELE_T option" where
  "trdp_queueFindPubAddr [] a = None"
| "trdp_queueFindPubAddr (e # es) a = (if pub_matches (addr e) a then Some e else trdp_queueFindPubAddr es a)"

definition sub_matches :: "TRDP_ADDRESSES_T \<Rightarrow> TRDP_ADDRESSES_T \<Rightarrow> bool" where
  "sub_matches e a \<longleftrightarrow> comId e = comId a \<and> (srcIpAddr e = 0 \<or> srcIpAddr e = srcIpAddr a) \<and>
     (destIpAddr e = 0 \<or> destIpAddr e = destIpAddr a)"

fun trdp_queueFindSubAddr :: "PD_ELE_T list \<Rightarrow> TRDP_ADDRESSES_T \<Rightarrow> PD_ELE_T option" where
  "trdp_queueFindSubAddr [] a = None"
| "trdp_queueFindSubAddr (e # es) a = (if sub_matches (addr e) a then Some e else trdp_queueFindSubAddr es a)"

fun trdp_queueDelElement :: "PD_ELE_T list \<Rightarrow> u64 \<Rightarrow> PD_ELE_T list" where
  "trdp_queueDelElement [] p = []"
| "trdp_queueDelElement (e # es) p = (if ele e = p then es else e # trdp_queueDelElement es p)"

definition trdp_queueAppLast :: "PD_ELE_T list \<Rightarrow> PD_ELE_T \<Rightarrow> PD_ELE_T list" where
  "trdp_queueAppLast q e = q @ [e]"

definition trdp_queueInsFirst :: "PD_ELE_T list \<Rightarrow> PD_ELE_T \<Rightarrow> PD_ELE_T list" where
  "trdp_queueInsFirst q e = e # q"

text \<open>The element that a pointer names is updated in place.\<close>

definition upd_ele :: "PD_ELE_T list \<Rightarrow> PD_ELE_T \<Rightarrow> PD_ELE_T list" where
  "upd_ele q e = map (\<lambda>x. if ele x = ele e then e else x) q"

text \<open>The comparison is commented out in the source: every telegram passes.\<close>

definition trdp_validTopoCounters :: "u32 \<Rightarrow> u32 \<Rightarrow> u32 \<Rightarrow> u32 \<Rightarrow> bool" where
  "trdp_validTopoCounters etb opTrn etbFilter opTrnFilter = True"

section \<open>Multicast groups of a socket\<close>

text \<open>A list of \<open>VOS_MAX_MULTICAST_CNT\<close> groups, zero for a free place.\<close>

fun trdp_SockIsJoined :: "u32 list \<Rightarrow> u32 \<Rightarrow> bool" where
  "trdp_SockIsJoined [] g = False"
| "trdp_SockIsJoined (m # ms) g = (if m \<noteq> g then trdp_SockIsJoined ms g else True)"

fun trdp_SockAddJoin :: "u32 list \<Rightarrow> u32 \<Rightarrow> u32 list \<times> bool" where
  "trdp_SockAddJoin [] g = ([], False)"
| "trdp_SockAddJoin (m # ms) g =
     (if 0 = m \<or> g = m then (g # ms, True)
      else let (ms, r) = trdp_SockAddJoin ms g in (m # ms, r))"

fun trdp_SockDelJoin :: "u32 list \<Rightarrow> u32 \<Rightarrow> u32 list \<times> bool" where
  "trdp_SockDelJoin [] g = ([], False)"
| "trdp_SockDelJoin (m # ms) g =
     (if g = m then (0 # ms, True)
      else let (ms, r) = trdp_SockDelJoin ms g in (m # ms, r))"

section \<open>Sequence counters\<close>

text \<open>
  The current counter of a publication with the same ComId from another source address, looked
  up in the send queues of all sessions.
\<close>

fun find_seqcnt :: "PD_ELE_T list \<Rightarrow> u32 \<Rightarrow> u32 \<Rightarrow> u32 option" where
  "find_seqcnt [] c src = None"
| "find_seqcnt (e # es) c src =
     (if comId (addr e) = c \<and> (src = 0 \<or> srcIpAddr (addr e) \<noteq> src) then Some (curSeqCnt e)
      else find_seqcnt es c src)"

definition trdp_getSeqCnt :: "PD_ELE_T list list \<Rightarrow> u32 \<Rightarrow> u16 \<Rightarrow> u32 \<Rightarrow> u32" where
  "trdp_getSeqCnt sessions c msgType src =
     (if c = 0 then 0
      else if msgType = TRDP_MSG_PD \<or> msgType = TRDP_MSG_PP \<or> msgType = TRDP_MSG_PR
      then case find_seqcnt (concat sessions) c src of Some n \<Rightarrow> n | None \<Rightarrow> 0
      else 0)"

definition seq_key :: "u32 \<Rightarrow> u16 \<Rightarrow> TRDP_SEQ_CNT_ENTRY_T \<Rightarrow> bool" where
  "seq_key srcIP msgType s \<longleftrightarrow> srcIP = seq_srcIpAddr s \<and> msgType = seq_msgType s"

definition trdp_resetSequenceCounter :: "PD_ELE_T \<Rightarrow> u32 \<Rightarrow> u16 \<Rightarrow> PD_ELE_T" where
  "trdp_resetSequenceCounter e srcIP msgType =
     (case pSeqCntList e of
        None \<Rightarrow> e
      | Some l \<Rightarrow>
          let n = unat (curNoOfEntries l)
          in e\<lparr>pSeqCntList := Some (l\<lparr>seq :=
               map (\<lambda>s. if seq_key srcIP msgType s then s\<lparr>lastSeqCnt := 0\<rparr> else s) (take n (seq l))
               @ drop n (seq l)\<rparr>)\<rparr>)"

text \<open>The first of the entries \<open>i\<close> to \<open>n - 1\<close> for a source and message type.\<close>

fun seq_index :: "nat \<Rightarrow> TRDP_SEQ_CNT_ENTRY_T list \<Rightarrow> u32 \<Rightarrow> u16 \<Rightarrow> nat option" where
  "seq_index i [] srcIP msgType = None"
| "seq_index i (s # ss) srcIP msgType =
     (if seq_key srcIP msgType s then Some i else seq_index (Suc i) ss srcIP msgType)"

definition new_seq_list :: "u16 \<Rightarrow> TRDP_SEQ_CNT_LIST_T" where
  "new_seq_list n =
     \<lparr>maxNoOfEntries = n, curNoOfEntries = 0,
      seq = replicate (Suc (unat n)) \<lparr>lastSeqCnt = 0, seq_srcIpAddr = 0, seq_msgType = 0\<rparr>\<rparr>"

text \<open>
  Grow a full list: the new number of entries is computed in 16 bits, and the copy takes the old
  number of entries whether they fit or not.
\<close>

definition grow_seq_list :: "bool \<Rightarrow> TRDP_SEQ_CNT_LIST_T \<Rightarrow> TRDP_SEQ_CNT_LIST_T option checked" where
  "grow_seq_list alloc_ok l =
     (if curNoOfEntries l \<ge> maxNoOfEntries l
      then let newSize = 2 * curNoOfEntries l
           in if \<not> alloc_ok then Inr None
              else if newSize < maxNoOfEntries l then Inl OutOfBounds
              else Inr (Some (l\<lparr>maxNoOfEntries := newSize,
                     seq := take (Suc (unat (maxNoOfEntries l))) (seq l)
                       @ drop (Suc (unat (maxNoOfEntries l))) (seq (new_seq_list newSize))\<rparr>))
      else Inr (Some l))"

definition append_seq :: "TRDP_SEQ_CNT_LIST_T \<Rightarrow> u32 \<Rightarrow> u32 \<Rightarrow> u16 \<Rightarrow> TRDP_SEQ_CNT_LIST_T checked" where
  "append_seq l cnt srcIP msgType =
     (if length (seq l) \<le> unat (curNoOfEntries l) then Inl OutOfBounds
      else Inr (l\<lparr>seq := (seq l)[unat (curNoOfEntries l) :=
                   \<lparr>lastSeqCnt = cnt, seq_srcIpAddr = srcIP, seq_msgType = msgType\<rparr>],
                curNoOfEntries := curNoOfEntries l + 1\<rparr>))"

text \<open>0 for a new counter value, 1 for a duplicate, \<open>-1\<close> without memory.\<close>

definition trdp_checkSequenceCounter ::
  "bool \<Rightarrow> PD_ELE_T \<Rightarrow> u32 \<Rightarrow> u32 \<Rightarrow> u16 \<Rightarrow> (int \<times> PD_ELE_T) checked" where
  "trdp_checkSequenceCounter alloc_ok e cnt srcIP msgType =
     (case (case pSeqCntList e of
              None \<Rightarrow> if alloc_ok then Some (new_seq_list TRDP_SEQ_CNT_START_ARRAY_SIZE) else None
            | Some l \<Rightarrow> Some l) of
        None \<Rightarrow> Inr (- 1, e)
      | Some l \<Rightarrow>
          (case seq_index 0 (take (unat (curNoOfEntries l)) (seq l)) srcIP msgType of
             Some i \<Rightarrow>
               if lastSeqCnt (seq l ! i) = 0 \<or> cnt \<noteq> lastSeqCnt (seq l ! i)
               then Inr (0, e\<lparr>pSeqCntList := Some (l\<lparr>seq := (seq l)[i := (seq l ! i)\<lparr>lastSeqCnt := cnt\<rparr>]\<rparr>)\<rparr>)
               else Inr (1, e\<lparr>pSeqCntList := Some l\<rparr>)
           | None \<Rightarrow>
               (case grow_seq_list alloc_ok l of
                  Inl f \<Rightarrow> Inl f
                | Inr None \<Rightarrow> Inr (- 1, e\<lparr>pSeqCntList := Some l\<rparr>)
                | Inr (Some l) \<Rightarrow>
                    (case append_seq l cnt srcIP msgType of
                       Inl f \<Rightarrow> Inl f
                     | Inr l \<Rightarrow> Inr (0, e\<lparr>pSeqCntList := Some l\<rparr>)))))"

end
