(* ===== verification/Trdp_Sockets.thy ===== *)
theory Trdp_Sockets
  imports Trdp_Utils
begin

text \<open>
  The socket pool of a TRDP session, \<^verbatim>\<open>app/trdp/tcnopen/trdp_utils.c\<close>: sockets with the same
  parameters are shared and counted. The operating system's socket calls are an argument that
  says what each of them answers; the descriptors that are closed are recorded.
\<close>

section \<open>Types\<close>

datatype TRDP_SOCK_TYPE_T = TRDP_SOCK_PD | TRDP_SOCK_MD_UDP | TRDP_SOCK_MD_TCP

abbreviation (input) VOS_INVALID_SOCKET :: int where "VOS_INVALID_SOCKET \<equiv> - 1"
abbreviation (input) TRDP_INVALID_SOCKET_INDEX :: int where "TRDP_INVALID_SOCKET_INDEX \<equiv> - 1"
abbreviation (input) VOS_MAX_SOCKET_CNT :: nat where "VOS_MAX_SOCKET_CNT \<equiv> 80"
abbreviation (input) TRDP_OPTION_BLOCK :: nat where "TRDP_OPTION_BLOCK \<equiv> 0"
abbreviation (input) TRDP_OPTION_TRAFFIC_SHAPING :: nat where "TRDP_OPTION_TRAFFIC_SHAPING \<equiv> 1"
abbreviation (input) TRDP_OPTION_NO_REUSE_ADDR :: nat where "TRDP_OPTION_NO_REUSE_ADDR \<equiv> 2"
abbreviation (input) TRDP_OPTION_NO_MC_LOOP_BACK :: nat where "TRDP_OPTION_NO_MC_LOOP_BACK \<equiv> 3"
abbreviation (input) TRDP_OPTION_NO_UDP_CHK :: nat where "TRDP_OPTION_NO_UDP_CHK \<equiv> 4"

record TRDP_SOCKETS_T =
  sock :: int
  bindAddr :: u32
  qos :: u8
  ttl :: u8
  sock_type :: TRDP_SOCK_TYPE_T
  rcvMostly :: bool
  usage :: "16 word"
  cornerIp :: u32
  notSend :: bool
  connectionTimeout :: vos_timeval
  sendNotOk :: bool
  sendingTimeout :: vos_timeval
  addFileDesc :: bool
  morituri :: bool
  mcGroups :: "u32 list"

record sock_options =
  opt_qos :: u8
  opt_ttl :: u8
  reuseAddrPort :: bool
  nonBlocking :: bool
  ttl_multicast :: u8
  no_mc_loop :: bool
  no_udp_crc :: bool

text \<open>The answers of the operating system, by descriptor where a call has one.\<close>

record sock_io =
  io_openUDP :: "sock_options \<Rightarrow> TRDP_ERR_T \<times> int"
  io_openTCP :: "sock_options \<Rightarrow> TRDP_ERR_T \<times> int"
  io_bind :: "int \<Rightarrow> u32 \<Rightarrow> u16 \<Rightarrow> TRDP_ERR_T"
  io_joinMC :: "int \<Rightarrow> u32 \<Rightarrow> u32 \<Rightarrow> TRDP_ERR_T"
  io_setMulticastIf :: "int \<Rightarrow> u32 \<Rightarrow> TRDP_ERR_T"

text \<open>
  A pool of 80 places and how many of them were ever in use. In the program that number is one
  static counter for all sessions of a process; here it belongs to the pool, which is the same for
  a process with one session.
\<close>

record sock_pool =
  iface :: "TRDP_SOCKETS_T list"
  sCurrentMaxSocketCnt :: nat
  closed_fds :: "int list"

text \<open>The arguments of a request.\<close>

record sock_request =
  req_port :: u16
  req_qos :: u8
  req_ttl :: u8
  req_srcIP :: u32
  req_mcGroup :: u32
  req_usage :: TRDP_SOCK_TYPE_T
  req_options :: u8
  req_rcvMostly :: bool
  req_useSocket :: int
  req_cornerIp :: u32

definition vos_isMulticast :: "u32 \<Rightarrow> bool" where
  "vos_isMulticast a \<longleftrightarrow> a AND 0xf0000000 = 0xe0000000"

definition vos_determineBindAddr :: "u32 \<Rightarrow> u32 \<Rightarrow> bool \<Rightarrow> u32" where
  "vos_determineBindAddr srcIP grp rcv = (if vos_isMulticast grp \<and> rcv then 0 else srcIP)"

definition upd_sock :: "nat \<Rightarrow> TRDP_SOCKETS_T \<Rightarrow> sock_pool \<Rightarrow> sock_pool" where
  "upd_sock i s p = p\<lparr>iface := (iface p)[i := s]\<rparr>"

definition trdp_initSockets :: "TRDP_SOCKETS_T list \<Rightarrow> TRDP_SOCKETS_T list" where
  "trdp_initSockets ss = map (\<lambda>s. s\<lparr>sock := VOS_INVALID_SOCKET\<rparr>) (take VOS_MAX_SOCKET_CNT ss)"

section \<open>Releasing a socket\<close>

text \<open>Close a TCP socket that is about to die.\<close>

definition close_morituri :: "sock_pool \<Rightarrow> nat \<Rightarrow> sock_pool" where
  "close_morituri p i =
     (let s = iface p ! i
      in if morituri s
         then (upd_sock i (s\<lparr>sock := TRDP_INVALID_SOCKET_INDEX, qos := 0, ttl := 0, usage := 0, bindAddr := 0,
                  sock_type := TRDP_SOCK_PD, rcvMostly := False, cornerIp := 0,
                  connectionTimeout := vos_clearTime, addFileDesc := False, morituri := False\<rparr>) p)
               \<lparr>closed_fds := closed_fds p @ [sock s]\<rparr>
         else p)"

text \<open>
  With \<open>checkAll\<close>, which only the build with message data uses, the TCP sockets that are about to
  die are closed.
\<close>

definition trdp_releaseSocket :: "vos_timeval \<Rightarrow> nat \<Rightarrow> u32 \<Rightarrow> bool \<Rightarrow> sock_pool \<Rightarrow> sock_pool" where
  "trdp_releaseSocket now lIndex connectTimeout checkAll p =
     (if checkAll then foldl close_morituri p [0..<VOS_MAX_SOCKET_CNT]
      else
        let s = iface p ! lIndex
        in if sock s \<noteq> VOS_INVALID_SOCKET \<and> (sock_type s = TRDP_SOCK_MD_UDP \<or> sock_type s = TRDP_SOCK_PD)
           then let s' = s\<lparr>usage := usage s - 1\<rparr>
                in if sint (usage s') \<le> 0
                   then (upd_sock lIndex (s'\<lparr>sock := VOS_INVALID_SOCKET\<rparr>) p)
                          \<lparr>closed_fds := closed_fds p @ [sock s]\<rparr>
                   else upd_sock lIndex s' p
           else if sock s \<noteq> VOS_INVALID_SOCKET \<and> \<not> rcvMostly s
           then let s' = s\<lparr>usage := usage s - 1\<rparr>
                in if sint (usage s') \<le> 0
                   then upd_sock lIndex (s'\<lparr>usage := 0,
                          connectionTimeout := vos_addTime now
                            \<lparr>tv_sec = uint (connectTimeout div 1000000), tv_usec = uint (connectTimeout mod 1000000)\<rparr>\<rparr>) p
                   else upd_sock lIndex s' p
           else p)"

section \<open>Requesting a socket\<close>

definition sock_fits :: "sock_request \<Rightarrow> TRDP_SOCKETS_T \<Rightarrow> bool" where
  "sock_fits r s \<longleftrightarrow>
     sock s \<noteq> VOS_INVALID_SOCKET \<and>
     bindAddr s = vos_determineBindAddr (req_srcIP r) (req_mcGroup r) (req_rcvMostly r) \<and>
     sock_type s = req_usage r \<and> qos s = req_qos r \<and> ttl s = req_ttl r \<and> rcvMostly s = req_rcvMostly r \<and>
     (req_usage r \<noteq> TRDP_SOCK_MD_TCP \<or> cornerIp s = req_cornerIp r)"

text \<open>Join the group on a socket that fits; the flag says whether the socket can be used.\<close>

definition join_group :: "sock_io \<Rightarrow> sock_request \<Rightarrow> TRDP_SOCKETS_T \<Rightarrow> TRDP_SOCKETS_T \<times> bool" where
  "join_group io r s =
     (if req_mcGroup r \<noteq> 0 \<and> \<not> trdp_SockIsJoined (mcGroups s) (req_mcGroup r)
      then let (ms, added) = trdp_SockAddJoin (mcGroups s) (req_mcGroup r)
           in if \<not> added then (s, False)
              else if io_joinMC io (sock s) (req_mcGroup r) (req_srcIP r) \<noteq> TRDP_NO_ERR
              then (s\<lparr>mcGroups := fst (trdp_SockDelJoin ms (req_mcGroup r))\<rparr>, False)
              else (s\<lparr>mcGroups := ms\<rparr>, True)
      else (s, True))"

definition share_socket :: "sock_io \<Rightarrow> sock_request \<Rightarrow> TRDP_SOCKETS_T \<Rightarrow> TRDP_ERR_T \<times> TRDP_SOCKETS_T" where
  "share_socket io r s =
     (let err = (if req_usage r \<noteq> TRDP_SOCK_MD_TCP \<and> bindAddr s \<noteq> 0 \<and> \<not> vos_isMulticast (bindAddr s)
                 then io_setMulticastIf io (sock s) (bindAddr s) else TRDP_NO_ERR)
      in (err, if err = TRDP_NO_ERR then s\<lparr>usage := usage s + 1\<rparr> else s))"

text \<open>
  The loop over the sockets in use: the error and index when one can be shared, else the first
  empty place.
\<close>

fun scan_sockets ::
  "sock_io \<Rightarrow> sock_request \<Rightarrow> nat list \<Rightarrow> nat option \<Rightarrow> sock_pool \<Rightarrow> (TRDP_ERR_T \<times> nat) option \<times> nat option \<times> sock_pool"
where
  "scan_sockets io r [] emptySock p = (None, emptySock, p)"
| "scan_sockets io r (i # is) emptySock p =
     (let s = iface p ! i
      in if req_useSocket r \<noteq> VOS_INVALID_SOCKET \<and> req_useSocket r = sock s
         then (Some (TRDP_NO_ERR, i), emptySock, upd_sock i (s\<lparr>usage := usage s + 1\<rparr>) p)
         else if sock_fits r s
         then let (s, usable) = join_group io r s
              in if usable
                 then let (err, s) = share_socket io r s in (Some (err, i), emptySock, upd_sock i s p)
                 else scan_sockets io r is emptySock (upd_sock i s p)
         else if sock s = VOS_INVALID_SOCKET \<and> emptySock = None
         then scan_sockets io r is (Some i) p
         else scan_sockets io r is emptySock p)"

definition new_socket :: "sock_request \<Rightarrow> TRDP_SOCKETS_T \<Rightarrow> TRDP_SOCKETS_T" where
  "new_socket r s =
     s\<lparr>sock := VOS_INVALID_SOCKET,
       bindAddr := vos_determineBindAddr (req_srcIP r) (req_mcGroup r) (req_rcvMostly r),
       sock_type := req_usage r, qos := req_qos r, ttl := req_ttl r, rcvMostly := req_rcvMostly r,
       connectionTimeout := vos_clearTime, cornerIp := req_cornerIp r, sendNotOk := False, usage := 0,
       notSend := False, morituri := False, sendingTimeout := vos_clearTime,
       addFileDesc := req_rcvMostly r, mcGroups := replicate VOS_MAX_MULTICAST_CNT 0\<rparr>"

definition sock_opts :: "sock_request \<Rightarrow> sock_options" where
  "sock_opts r =
     (let tcp = (req_usage r = TRDP_SOCK_MD_TCP)
      in \<lparr>opt_qos = req_qos r, opt_ttl = req_ttl r,
          reuseAddrPort = (\<not> bit (req_options r) TRDP_OPTION_NO_REUSE_ADDR),
          nonBlocking = (req_usage r = TRDP_SOCK_MD_UDP \<or> \<not> bit (req_options r) TRDP_OPTION_BLOCK),
          ttl_multicast = (if tcp then 0 else req_ttl r),
          no_mc_loop = (\<not> tcp \<and> bit (req_options r) TRDP_OPTION_NO_MC_LOOP_BACK),
          no_udp_crc = (\<not> tcp \<and> bit (req_options r) TRDP_OPTION_NO_UDP_CHK)\<rparr>)"

text \<open>Bind a new UDP socket that listens, and join its group.\<close>

definition listen_udp :: "sock_io \<Rightarrow> sock_request \<Rightarrow> TRDP_SOCKETS_T \<Rightarrow> TRDP_ERR_T \<times> TRDP_SOCKETS_T" where
  "listen_udp io r s =
     (let err = io_bind io (sock s) (if req_mcGroup r = 0 then bindAddr s else 0) (req_port r)
      in if err \<noteq> TRDP_NO_ERR then (err, s)
         else if req_mcGroup r \<noteq> 0
         then let err = io_joinMC io (sock s) (req_mcGroup r) (req_srcIP r)
              in if err \<noteq> TRDP_NO_ERR then (err, s)
                 else (TRDP_NO_ERR, s\<lparr>mcGroups := fst (trdp_SockAddJoin (mcGroups s) (req_mcGroup r))\<rparr>)
         else (TRDP_NO_ERR, s))"

definition open_udp :: "sock_io \<Rightarrow> sock_request \<Rightarrow> TRDP_SOCKETS_T \<Rightarrow> TRDP_ERR_T \<times> TRDP_SOCKETS_T" where
  "open_udp io r s =
     (case io_openUDP io (sock_opts r) of
        (err, fd) \<Rightarrow>
          if err \<noteq> TRDP_NO_ERR then (err, s)
          else
            let s = s\<lparr>sock := fd, usage := 1\<rparr>;
                (err, s) = (if req_rcvMostly r then listen_udp io r s else (TRDP_NO_ERR, s))
            in if err \<noteq> TRDP_NO_ERR then (err, s)
               else if bindAddr s \<noteq> 0 \<and> \<not> vos_isMulticast (bindAddr s)
               then (io_setMulticastIf io (sock s) (bindAddr s), s)
               else (TRDP_NO_ERR, s))"

definition open_tcp :: "sock_io \<Rightarrow> sock_request \<Rightarrow> TRDP_SOCKETS_T \<Rightarrow> TRDP_ERR_T \<times> TRDP_SOCKETS_T" where
  "open_tcp io r s =
     (case io_openTCP io (sock_opts r) of
        (err, fd) \<Rightarrow> if err \<noteq> TRDP_NO_ERR then (err, s) else (TRDP_NO_ERR, s\<lparr>sock := fd, usage := 1\<rparr>))"

text \<open>The result code, the index (\<open>-1\<close> for none) and the pool.\<close>

definition trdp_requestSocket ::
  "sock_io \<Rightarrow> vos_timeval \<Rightarrow> sock_request \<Rightarrow> int \<Rightarrow> sock_pool \<Rightarrow> TRDP_ERR_T \<times> int \<times> sock_pool" where
  "trdp_requestSocket io now r pIndex p =
     (case scan_sockets io r [0..<sCurrentMaxSocketCnt p] None p of
        (Some (err, i), _, p) \<Rightarrow> (err, int i, p)
      | (None, emptySock, p) \<Rightarrow>
          if sCurrentMaxSocketCnt p < VOS_MAX_SOCKET_CNT
          then
            let (i, p) = (case emptySock of
                            Some e \<Rightarrow> (e, p)
                          | None \<Rightarrow> (sCurrentMaxSocketCnt p, p\<lparr>sCurrentMaxSocketCnt := Suc (sCurrentMaxSocketCnt p)\<rparr>));
                s = new_socket r (iface p ! i)
            in if req_useSocket r \<noteq> VOS_INVALID_SOCKET
               then (TRDP_NO_ERR, int i, upd_sock i (s\<lparr>sock := req_useSocket r, usage := 1\<rparr>) p)
               else
                 let (err, s) = (case req_usage r of
                                   TRDP_SOCK_MD_TCP \<Rightarrow> open_tcp io r s
                                 | _ \<Rightarrow> open_udp io r s)
                 in if err = TRDP_NO_ERR then (TRDP_NO_ERR, int i, upd_sock i s p)
                    else (err, TRDP_INVALID_SOCKET_INDEX, trdp_releaseSocket now i 0 False (upd_sock i s p))
          else (TRDP_MEM_ERR, pIndex, p))"

end
