(* ===== verification/Trdp_Session.thy ===== *)
theory Trdp_Session
  imports Trdp_Sockets
begin

text \<open>
  Frames and sessions of the TRDP stack: reading and writing the fields of a telegram in memory,
  and the data a session keeps (\<^verbatim>\<open>app/trdp/tcnopen/trdp_private.h\<close>, \<^verbatim>\<open>trdp_types.h\<close>).

  The session record holds what the modelled files use of \<open>TRDP_SESSION_T\<close>, and what they do to
  the outside: the datagrams handed to the operating system and the calls of the user's
  callback. The outside is a record of answers: the \<open>n\<close>-th reading of the clock, whether and how
  much the \<open>n\<close>-th datagram was sent, and what the memory manager reports at a time.
\<close>

section \<open>Frames\<close>

text \<open>Reading \<open>n\<close> bytes at an offset, and writing bytes there.\<close>

definition slice :: "nat \<Rightarrow> nat \<Rightarrow> 'a list \<Rightarrow> 'a list" where
  "slice off n fr = take n (drop off fr)"

definition overwrite :: "nat \<Rightarrow> 'a list \<Rightarrow> 'a list \<Rightarrow> 'a list" where
  "overwrite off bs fr = take off fr @ bs @ drop (off + length bs) fr"

definition htons :: "u16 \<Rightarrow> u8 list" where
  "htons v = [ucast (drop_bit 8 v), ucast v]"

definition get32 :: "nat \<Rightarrow> u8 list \<Rightarrow> u32" where
  "get32 off fr = ntohl (slice off 4 fr)"

definition put32 :: "nat \<Rightarrow> u32 \<Rightarrow> u8 list \<Rightarrow> u8 list" where
  "put32 off v fr = overwrite off (htonl v) fr"

definition get16 :: "nat \<Rightarrow> u8 list \<Rightarrow> u16" where
  "get16 off fr = of_nat (be_val (slice off 2 fr))"

definition put16 :: "nat \<Rightarrow> u16 \<Rightarrow> u8 list \<Rightarrow> u8 list" where
  "put16 off v fr = overwrite off (htons v) fr"

text \<open>The check sum is stored with its lowest byte first.\<close>

definition get_fcs :: "u8 list \<Rightarrow> u8 list" where
  "get_fcs fr = slice 36 4 fr"

definition put_fcs :: "u32 \<Rightarrow> u8 list \<Rightarrow> u8 list" where
  "put_fcs v fr = overwrite 36 (le_bytes32 v) fr"

text \<open>The fields of \<open>PD_HEADER_T\<close> by their offsets.\<close>

abbreviation "hdr_sequenceCounter \<equiv> get32 0"
abbreviation "hdr_protocolVersion \<equiv> get16 4"
abbreviation "hdr_msgType \<equiv> get16 6"
abbreviation "hdr_comId \<equiv> get32 8"
abbreviation "hdr_etbTopoCnt \<equiv> get32 12"
abbreviation "hdr_opTrnTopoCnt \<equiv> get32 16"
abbreviation "hdr_datasetLength \<equiv> get32 20"
abbreviation "hdr_replyComId \<equiv> get32 28"
abbreviation "hdr_replyIpAddress \<equiv> get32 32"
abbreviation "frame_data \<equiv> drop 40"

abbreviation (input) TRDP_PROTO_VER :: u16 where "TRDP_PROTO_VER \<equiv> 0x0100"
abbreviation (input) TRDP_STATISTICS_PULL_COMID :: u32 where "TRDP_STATISTICS_PULL_COMID \<equiv> 31"
abbreviation (input) TRDP_GLOBAL_STATISTICS_COMID :: u32 where "TRDP_GLOBAL_STATISTICS_COMID \<equiv> 35"

section \<open>Statistics\<close>

record TRDP_MEM_STATISTICS_T =
  mem_total :: u32
  mem_free :: u32
  mem_minFree :: u32
  numAllocBlocks :: u32
  numAllocErr :: u32
  numFreeErr :: u32
  blockSize :: "u32 list"
  usedBlockSize :: "u32 list"

record TRDP_PD_STATISTICS_T =
  defQos :: u32
  defTtl :: u32
  defTimeout :: u32
  numSubs :: u32
  numPub :: u32
  numRcv :: u32
  numCrcErr :: u32
  numProtErr :: u32
  numTopoErr :: u32
  numNoSubs :: u32
  numNoPub :: u32
  numTimeout :: u32
  numSend :: u32
  pd_numMissed :: u32

record TRDP_MD_STATISTICS_T =
  md_defQos :: u32
  md_defTtl :: u32
  defReplyTimeout :: u32
  defConfirmTimeout :: u32
  numList :: u32
  md_numRcv :: u32
  md_numCrcErr :: u32
  md_numProtErr :: u32
  md_numTopoErr :: u32
  numNoListener :: u32
  numReplyTimeout :: u32
  numConfirmTimeout :: u32
  md_numSend :: u32

text \<open>The time stamp is a pair of seconds and microseconds; names are arrays of 16 bytes.\<close>

record TRDP_STATISTICS_T =
  version :: u32
  timeStamp :: "u32 \<times> u32"
  upTime :: u32
  statisticTime :: u32
  hostName :: "u8 list"
  leaderName :: "u8 list"
  ownIpAddr :: u32
  leaderIpAddr :: u32
  processPrio :: u32
  processCycle :: u32
  numJoin :: u32
  numRed :: u32
  mem :: TRDP_MEM_STATISTICS_T
  pd :: TRDP_PD_STATISTICS_T
  udpMd :: TRDP_MD_STATISTICS_T
  tcpMd :: TRDP_MD_STATISTICS_T

section \<open>Sessions\<close>

record TRDP_PD_INFO_T =
  info_srcIpAddr :: u32
  info_destIpAddr :: u32
  info_seqCount :: u32
  info_protVersion :: u16
  info_msgType :: u16
  info_comId :: u32
  info_etbTopoCnt :: u32
  info_opTrnTopoCnt :: u32
  info_replyComId :: u32
  info_replyIpAddr :: u32
  info_pUserRef :: u64
  info_resultCode :: TRDP_ERR_T

record datagram =
  dg_fd :: int
  dg_dest :: u32
  dg_port :: u16
  dg_bytes :: "u8 list"

record world =
  clock :: "nat \<Rightarrow> vos_timeval"
  udp_send :: "nat \<Rightarrow> bool \<times> u32"
  mem_count :: "nat \<Rightarrow> TRDP_MEM_STATISTICS_T"

record TRDP_PD_CONFIG_T =
  def_pfCbFunction :: bool
  def_flags :: u8
  def_timeout :: u32
  def_toBehavior :: TRDP_TO_BEHAVIOR_T
  def_port :: u16
  def_qos :: u8
  def_ttl :: u8

record TRDP_SESSION_T =
  realIP :: u32
  virtualIP :: u32
  redID :: u32
  sess_etbTopoCnt :: u32
  sess_opTrnTopoCnt :: u32
  nextJob :: vos_timeval
  pdDefault :: TRDP_PD_CONFIG_T
  sess_option :: u8
  socks :: sock_pool
  pSndQueue :: "PD_ELE_T list"
  pRcvQueue :: "PD_ELE_T list"
  pNewFrame :: "u8 list"
  initTime :: vos_timeval
  stats :: TRDP_STATISTICS_T
  seqcnt :: "u32 \<Rightarrow> u32"
  time_reads :: nat
  sent :: "datagram list"
  calls :: "(TRDP_PD_INFO_T \<times> u8 list \<times> u32) list"

abbreviation pd_port :: "TRDP_SESSION_T \<Rightarrow> u16" where
  "pd_port s \<equiv> def_port (pdDefault s)"

text \<open>Changing a counter of process data.\<close>

abbreviation upd_pd :: "(TRDP_PD_STATISTICS_T \<Rightarrow> TRDP_PD_STATISTICS_T) \<Rightarrow> TRDP_SESSION_T \<Rightarrow> TRDP_SESSION_T" where
  "upd_pd f s \<equiv> s\<lparr>stats := (stats s)\<lparr>pd := f (pd (stats s))\<rparr>\<rparr>"

definition vos_getTime :: "world \<Rightarrow> TRDP_SESSION_T \<Rightarrow> vos_timeval \<times> TRDP_SESSION_T" where
  "vos_getTime w s = (clock w (time_reads s), s\<lparr>time_reads := Suc (time_reads s)\<rparr>)"

end
