(* ===== verification/Trdp_Stats.thy ===== *)
theory Trdp_Stats
  imports Trdp_Session
begin

text \<open>
  Statistics of a TRDP session, \<^verbatim>\<open>app/trdp/tcnopen/trdp_stats.c\<close>: clearing and updating them, the
  tables of subscriptions, publications, redundancy groups and joins, and the statistics
  telegram. A call with a handle that is no session is one with \<open>None\<close>, a null pointer of an
  output is \<open>None\<close> as well.
\<close>

section \<open>Clearing\<close>

definition zero_md :: TRDP_MD_STATISTICS_T where
  "zero_md = \<lparr>md_defQos = 0, md_defTtl = 0, defReplyTimeout = 0, defConfirmTimeout = 0, numList = 0, md_numRcv = 0,
     md_numCrcErr = 0, md_numProtErr = 0, md_numTopoErr = 0, numNoListener = 0, numReplyTimeout = 0, numConfirmTimeout = 0,
     md_numSend = 0\<rparr>"

definition zero_stats :: TRDP_STATISTICS_T where
  "zero_stats = \<lparr>version = 0, timeStamp = (0, 0), upTime = 0, statisticTime = 0, hostName = replicate 16 0,
     leaderName = replicate 16 0, ownIpAddr = 0, leaderIpAddr = 0, processPrio = 0, processCycle = 0, numJoin = 0, numRed = 0,
     mem = \<lparr>mem_total = 0, mem_free = 0, mem_minFree = 0, numAllocBlocks = 0, numAllocErr = 0, numFreeErr = 0,
       blockSize = replicate 15 0, usedBlockSize = replicate 15 0\<rparr>,
     pd = \<lparr>defQos = 0, defTtl = 0, defTimeout = 0, numSubs = 0, numPub = 0, numRcv = 0, numCrcErr = 0, numProtErr = 0,
       numTopoErr = 0, numNoSubs = 0, numNoPub = 0, numTimeout = 0, numSend = 0, pd_numMissed = 0\<rparr>,
     udpMd = zero_md, tcpMd = zero_md\<rparr>"

text \<open>The C function: at most \<open>n\<close> characters up to the terminator, padded with zeros to \<open>n\<close>.\<close>

definition vos_strncpy :: "u8 list \<Rightarrow> u8 list \<Rightarrow> nat \<Rightarrow> u8 list" where
  "vos_strncpy dst src n = overwrite 0 (take n (takeWhile (\<lambda>c. c \<noteq> 0) src @ replicate n 0)) dst"

definition unknown_name :: "u8 list" where
  "unknown_name = [0x75, 0x6e, 0x6b, 0x6e, 0x6f, 0x77, 0x6e, 0]"

text \<open>The version is the one of \<open>tlc_getVersion\<close>, four bytes.\<close>

definition trdp_initStats :: "u8 \<times> u8 \<times> u8 \<times> u8 \<Rightarrow> TRDP_SESSION_T \<Rightarrow> TRDP_SESSION_T" where
  "trdp_initStats v s =
     (case v of (ver, rel, upd, evo) \<Rightarrow>
        let st = zero_stats\<lparr>version := push_bit 24 (ucast ver) OR push_bit 16 (ucast rel) OR push_bit 8 (ucast upd) OR ucast evo\<rparr>;
            st = (if hostName st ! 0 = 0 then st\<lparr>hostName := vos_strncpy (hostName st) unknown_name 15\<rparr> else st);
            st = (if leaderName st ! 0 = 0 then st\<lparr>leaderName := vos_strncpy (leaderName st) unknown_name 15\<rparr> else st)
        in s\<lparr>stats := st\<rparr>)"

definition tlc_resetStatistics :: "TRDP_SESSION_T option \<Rightarrow> TRDP_ERR_T \<times> TRDP_SESSION_T option" where
  "tlc_resetStatistics h =
     (case h of
        None \<Rightarrow> (TRDP_NOINIT_ERR, None)
      | Some s \<Rightarrow> (TRDP_NO_ERR, Some (s\<lparr>stats := zero_stats\<lparr>upTime := upTime (stats s)\<rparr>\<rparr>)))"

section \<open>Updating\<close>

text \<open>Queue lengths are counted in 16 bits.\<close>

definition trdp_UpdateStats :: "world \<Rightarrow> TRDP_SESSION_T \<Rightarrow> TRDP_SESSION_T" where
  "trdp_UpdateStats w s =
     (let n = time_reads s;
          (temp2, s) = vos_getTime w s;
          temp = vos_subTime temp2 (initTime s);
          diff = upTime (stats s) - word_of_int (tv_sec temp2);
          st = (stats s)\<lparr>upTime := word_of_int (tv_sec temp), statisticTime := word_of_int (tv_sec temp) - diff,
                  mem := mem_count w n,
                  numJoin := of_nat (length (filter (\<lambda>g. g \<noteq> 0)
                    (concat (map (take VOS_MAX_MULTICAST_CNT \<circ> mcGroups) (take VOS_MAX_SOCKET_CNT (iface (socks s)))))))\<rparr>;
          st = st\<lparr>pd := (pd st)\<lparr>pd_numMissed := sum_list (map numMissed (pRcvQueue s)),
                  numSubs := ucast (of_nat (length (pRcvQueue s)) :: u16), numPub := ucast (of_nat (length (pSndQueue s)) :: u16)\<rparr>\<rparr>
      in s\<lparr>stats := st\<rparr>)"

definition tlc_getStatistics ::
  "world \<Rightarrow> TRDP_SESSION_T option \<Rightarrow> bool \<Rightarrow> TRDP_ERR_T \<times> TRDP_STATISTICS_T option \<times> TRDP_SESSION_T option" where
  "tlc_getStatistics w h out =
     (if \<not> out then (TRDP_PARAM_ERR, None, h)
      else case h of
        None \<Rightarrow> (TRDP_NOINIT_ERR, None, None)
      | Some s \<Rightarrow> let s = trdp_UpdateStats w s in (TRDP_NO_ERR, Some (stats s), Some s))"

section \<open>Tables\<close>

record TRDP_SUBS_STATISTICS_T =
  ss_comId :: u32
  joinedAddr :: u32
  filterAddr :: u32
  callBack :: bool
  userRef :: u32
  timeout :: u32
  toBehav :: TRDP_TO_BEHAVIOR_T
  numRecv :: u32
  ss_numMissed :: u32
  status :: TRDP_ERR_T

record TRDP_PUB_STATISTICS_T =
  ps_comId :: u32
  destAddr :: u32
  ps_redId :: u32
  redState :: u32
  cycle :: u32
  ps_numSend :: u32
  numPut :: u32

definition time_us :: "vos_timeval \<Rightarrow> u32" where
  "time_us t = word_of_int (tv_usec t) + word_of_int (tv_sec t) * 1000000"

definition subs_entry :: "PD_ELE_T \<Rightarrow> TRDP_SUBS_STATISTICS_T" where
  "subs_entry e = \<lparr>ss_comId = comId (addr e), joinedAddr = mcGroup (addr e), filterAddr = srcIpAddr (addr e),
     callBack = pfCbFunction e, userRef = ucast (pUserRef e), timeout = time_us (interval e), toBehav = toBehavior e,
     numRecv = numRxTx e, ss_numMissed = numMissed e, status = lastErr e\<rparr>"

text \<open>
  Fill a table of the user's: the result code, the entries and their number. \<open>n\<close> is the number of
  places, \<open>None\<close> when a pointer is null.
\<close>

definition fill_table :: "('a \<Rightarrow> 'b) \<Rightarrow> u16 option \<Rightarrow> (TRDP_SESSION_T \<Rightarrow> 'a list) \<Rightarrow> TRDP_SESSION_T option \<Rightarrow> TRDP_ERR_T \<times> 'b list \<times> u16 option" where
  "fill_table f n q h =
     (case h of
        None \<Rightarrow> (TRDP_NOINIT_ERR, [], n)
      | Some s \<Rightarrow>
          (case n of
             None \<Rightarrow> (TRDP_PARAM_ERR, [], n)
           | Some k \<Rightarrow>
               if k = 0 then (TRDP_PARAM_ERR, [], n)
               else let es = map f (take (unat k) (q s))
                    in (if length (q s) > unat k then TRDP_MEM_ERR else TRDP_NO_ERR, es, Some (of_nat (length es)))))"

definition tlc_getSubsStatistics ::
  "TRDP_SESSION_T option \<Rightarrow> u16 option \<Rightarrow> TRDP_ERR_T \<times> TRDP_SUBS_STATISTICS_T list \<times> u16 option" where
  "tlc_getSubsStatistics h n = fill_table subs_entry n pRcvQueue h"

text \<open>The redundancy group of a publication is taken from the session.\<close>

definition pub_entry :: "u32 \<Rightarrow> PD_ELE_T \<Rightarrow> TRDP_PUB_STATISTICS_T" where
  "pub_entry red e = \<lparr>ps_comId = comId (addr e), destAddr = destIpAddr (addr e), ps_redId = red,
     redState = (if bit (privFlags e) TRDP_REDUNDANT then 1 else 0), cycle = time_us (interval e), ps_numSend = numRxTx e,
     numPut = updPkts e\<rparr>"

definition tlc_getPubStatistics ::
  "TRDP_SESSION_T option \<Rightarrow> u16 option \<Rightarrow> TRDP_ERR_T \<times> TRDP_PUB_STATISTICS_T list \<times> u16 option" where
  "tlc_getPubStatistics h n = fill_table (case_prod pub_entry) n (\<lambda>s. map (Pair (redID s)) (pSndQueue s)) h"

definition tlc_getJoinStatistics :: "TRDP_SESSION_T option \<Rightarrow> u16 option \<Rightarrow> TRDP_ERR_T \<times> u32 list \<times> u16 option" where
  "tlc_getJoinStatistics h n = fill_table (mcGroup \<circ> addr) n pRcvQueue h"

text \<open>Pairs of redundancy group and state, 1 for the leader; the pointers are not checked.\<close>

definition tlc_getRedStatistics :: "TRDP_SESSION_T option \<Rightarrow> u16 \<Rightarrow> TRDP_ERR_T \<times> (u32 \<times> u32) list \<times> u16" where
  "tlc_getRedStatistics h n =
     (case h of
        None \<Rightarrow> (TRDP_NOINIT_ERR, [], n)
      | Some s \<Rightarrow>
          let es = take (unat n) (map (\<lambda>e. (redId e, if bit (privFlags e) TRDP_REDUNDANT then 0 else 1))
                     (filter (\<lambda>e. redId e \<noteq> 0) (pSndQueue s)))
          in (TRDP_NO_ERR, es, of_nat (length es)))"

section \<open>The statistics telegram\<close>

definition mem_words :: "TRDP_MEM_STATISTICS_T \<Rightarrow> u32 list" where
  "mem_words m = [mem_total m, mem_free m, mem_minFree m, numAllocBlocks m, numAllocErr m, numFreeErr m]
     @ take 15 (blockSize m) @ take 15 (usedBlockSize m)"

definition pd_words :: "TRDP_PD_STATISTICS_T \<Rightarrow> u32 list" where
  "pd_words p = [defQos p, defTtl p, defTimeout p, numSubs p, numPub p, numRcv p, numCrcErr p, numProtErr p, numTopoErr p,
     numNoSubs p, numNoPub p, numTimeout p, numSend p, pd_numMissed p]"

definition md_words :: "TRDP_MD_STATISTICS_T \<Rightarrow> u32 list" where
  "md_words m = [md_defQos m, md_defTtl m, defReplyTimeout m, defConfirmTimeout m, numList m, md_numRcv m, md_numCrcErr m,
     md_numProtErr m, md_numTopoErr m, numNoListener m, numReplyTimeout m, numConfirmTimeout m, md_numSend m]"

definition put_words :: "nat \<Rightarrow> u32 list \<Rightarrow> u8 list \<Rightarrow> u8 list" where
  "put_words off ws bs = overwrite off (concat (map htonl ws)) bs"

text \<open>The size of \<open>TRDP_STATISTICS_T\<close>: all its members are naturally aligned.\<close>

abbreviation (input) STATISTICS_SIZE :: nat where "STATISTICS_SIZE \<equiv> 380"

text \<open>The members are written at their offsets; the numbers of joins and of redundancy groups are not.\<close>

definition fill_stats :: "TRDP_STATISTICS_T \<Rightarrow> u8 list \<Rightarrow> u8 list" where
  "fill_stats st bs =
     (let bs = put_words 0 [version st, fst (timeStamp st), snd (timeStamp st), upTime st, statisticTime st] bs;
          bs = put_words 52 [ownIpAddr st, leaderIpAddr st, processPrio st, processCycle st] bs;
          bs = overwrite 20 (vos_strncpy (slice 20 15 bs) (hostName st) 15) bs;
          bs = overwrite 36 (vos_strncpy (slice 36 15 bs) (leaderName st) 15) bs;
          bs = put_words 76 (mem_words (mem st)) bs;
          bs = put_words 220 (pd_words (pd st)) bs;
          bs = put_words 276 (md_words (udpMd st)) bs
      in put_words 328 (md_words (tcpMd st)) bs)"

definition trdp_pdPrepareStats :: "world \<Rightarrow> PD_ELE_T \<Rightarrow> TRDP_SESSION_T \<Rightarrow> (PD_ELE_T \<times> TRDP_SESSION_T) checked" where
  "trdp_pdPrepareStats w e s =
     (let s = trdp_UpdateStats w s
      in if length (pFrame e) < 40 + STATISTICS_SIZE then Inl OutOfBounds
         else Inr (clear_flag TRDP_INVALID_DATA
                     (e\<lparr>pFrame := take 40 (pFrame e) @ fill_stats (stats s) (frame_data (pFrame e)),
                        dataSize := of_nat STATISTICS_SIZE\<rparr>), s))"

end
