(* ===== verification/Trdp_Pd.thy ===== *)
theory Trdp_Pd
  imports Trdp_Stats
begin

text \<open>
  Process data communication, \<^verbatim>\<open>app/trdp/tcnopen/trdp_pdcom.c\<close>: building, updating and checking
  telegrams, sending the due ones, receiving, time-outs and the distribution of send times.
\<close>

section \<open>Telegrams\<close>

definition trdp_pdInit :: "PD_ELE_T \<Rightarrow> u16 \<Rightarrow> u32 \<Rightarrow> u32 \<Rightarrow> u32 \<Rightarrow> u32 \<Rightarrow> PD_ELE_T" where
  "trdp_pdInit e type etb opTrn replyComId replyIp =
     (let fr = put16 4 TRDP_PROTO_VER (pFrame e);
          fr = put32 12 etb fr;
          fr = put32 16 opTrn fr;
          fr = put32 8 (comId (addr e)) fr;
          fr = put16 6 type fr;
          fr = put32 20 (dataSize e) fr;
          fr = put32 24 0 fr;
          fr = put32 28 replyComId fr;
          fr = put32 32 replyIp fr
      in e\<lparr>pFrame := fr\<rparr>)"

text \<open>Writing \<open>bs\<close> to the data of a frame; the frame has no room for more than it was allocated with.\<close>

definition put_data :: "u8 list \<Rightarrow> u8 list \<Rightarrow> u8 list checked" where
  "put_data bs fr =
     (if length fr < 40 + length bs then Inl OutOfBounds
      else Inr (overwrite 40 bs fr))"

text \<open>
  A marshalling function: ComId, source buffer, the size it is given and destination buffer to a
  result, the new contents of the destination and the number of bytes it has.
\<close>

type_synonym marshall = "u32 \<Rightarrow> u8 list \<Rightarrow> u32 \<Rightarrow> u8 list \<Rightarrow> TRDP_ERR_T \<times> u8 list \<times> u32"

definition pd_valid :: "PD_ELE_T \<Rightarrow> PD_ELE_T" where
  "pd_valid e = (clear_flag TRDP_INVALID_DATA e)\<lparr>updPkts := updPkts e + 1\<rparr>"

text \<open>Late data: a frame for the data is allocated and the header taken over.\<close>

definition pd_enlarge :: "u32 \<Rightarrow> PD_ELE_T \<Rightarrow> PD_ELE_T" where
  "pd_enlarge n e =
     e\<lparr>dataSize := n, grossSize := trdp_packetSizePD n,
       pFrame := put32 20 n (take 40 (pFrame e) @ drop 40 (replicate (unat (trdp_packetSizePD n)) 0))\<rparr>"

definition trdp_pdPut ::
  "bool \<Rightarrow> marshall option \<Rightarrow> PD_ELE_T \<Rightarrow> u8 list option \<Rightarrow> u32 \<Rightarrow> (TRDP_ERR_T \<times> PD_ELE_T) checked" where
  "trdp_pdPut alloc_ok marshall e pData n =
     (if dataSize e = 0 \<and> n = 0 then Inr (TRDP_NO_ERR, pd_valid e)
      else case pData of
        None \<Rightarrow> Inr (TRDP_NO_ERR, e)
      | Some src \<Rightarrow>
          if n = 0 then Inr (TRDP_NO_ERR, e)
          else if dataSize e = 0 \<and> \<not> alloc_ok
          then Inr (TRDP_MEM_ERR, e\<lparr>dataSize := n, grossSize := trdp_packetSizePD n\<rparr>)
          else
            let e = (if dataSize e = 0 then pd_enlarge n e else e)
            in case (if bit (pktFlags e) TRDP_FLAGS_MARSHALL then marshall else None) of
                 None \<Rightarrow>
                   if n > TRDP_MAX_PD_DATA_SIZE then Inr (TRDP_PARAM_ERR, e)
                   else if length src < unat n then Inl OutOfBounds
                   else (case put_data (take (unat n) src) (pFrame e) of
                           Inl f \<Rightarrow> Inl f
                         | Inr fr \<Rightarrow> Inr (TRDP_NO_ERR, pd_valid (e\<lparr>pFrame := fr\<rparr>)))
               | Some m \<Rightarrow>
                   (case m (comId (addr e)) src n (frame_data (pFrame e)) of
                      (ret, bs, n) \<Rightarrow>
                        (case put_data bs (pFrame e) of
                           Inl f \<Rightarrow> Inl f
                         | Inr fr \<Rightarrow>
                             if n > TRDP_MAX_PD_DATA_SIZE then Inr (TRDP_PARAM_ERR, e\<lparr>pFrame := fr\<rparr>)
                             else
                               let e = e\<lparr>dataSize := n, grossSize := trdp_packetSizePD n, pFrame := put32 20 n fr\<rparr>
                               in Inr (ret, if ret = TRDP_NO_ERR then pd_valid e else e))))"

text \<open>
  The result, the bytes copied to the user (\<open>None\<close> when nothing is copied) and the element.
  \<open>room\<close> is the size of the user's buffer, \<open>None\<close> when a pointer is null.
\<close>

definition trdp_pdGet ::
  "(u32 \<Rightarrow> u8 list \<Rightarrow> u32 \<Rightarrow> TRDP_ERR_T \<times> u8 list) option \<Rightarrow> PD_ELE_T \<Rightarrow> u32 option \<Rightarrow>
   TRDP_ERR_T \<times> u8 list option \<times> PD_ELE_T" where
  "trdp_pdGet unmarshall e room =
     (let e = e\<lparr>getPkts := getPkts e + 1\<rparr>
      in if bit (privFlags e) TRDP_INVALID_DATA then (TRDP_NODATA_ERR, None, e)
         else if bit (privFlags e) TRDP_TIMED_OUT then (TRDP_TIMEOUT_ERR, None, e)
         else case room of
           None \<Rightarrow> (TRDP_NO_ERR, None, e)
         | Some n \<Rightarrow>
             (case (if bit (pktFlags e) TRDP_FLAGS_MARSHALL then unmarshall else None) of
                None \<Rightarrow>
                  if n \<ge> dataSize e
                  then (TRDP_NO_ERR, Some (take (unat (dataSize e)) (frame_data (pFrame e))), e)
                  else (TRDP_PARAM_ERR, None, e)
              | Some u \<Rightarrow>
                  (case u (comId (addr e)) (frame_data (pFrame e)) (hdr_datasetLength (pFrame e)) of
                     (ret, bs) \<Rightarrow> (ret, Some bs, e))))"

definition trdp_pdUpdate :: "PD_ELE_T \<Rightarrow> PD_ELE_T" where
  "trdp_pdUpdate e =
     (let e = (if hdr_msgType (pFrame e) = TRDP_MSG_PP
               then e\<lparr>curSeqCnt4Pull := curSeqCnt4Pull e + 1, pFrame := put32 0 (curSeqCnt4Pull e + 1) (pFrame e)\<rparr>
               else e\<lparr>curSeqCnt := curSeqCnt e + 1, pFrame := put32 0 (curSeqCnt e + 1) (pFrame e)\<rparr>)
      in e\<lparr>pFrame := put_fcs (vos_crc32 INITFCS (take 36 (pFrame e))) (pFrame e)\<rparr>)"

definition trdp_pdCheck :: "u8 list \<Rightarrow> u32 \<Rightarrow> TRDP_ERR_T" where
  "trdp_pdCheck fr packetSize =
     (if packetSize < TRDP_MIN_PD_HEADER_SIZE \<or> packetSize > TRDP_MAX_PD_PACKET_SIZE then TRDP_WIRE_ERR
      else if get_fcs fr \<noteq> le_bytes32 (vos_crc32 INITFCS (take 36 fr)) then TRDP_CRC_ERR
      else if hdr_protocolVersion fr AND 0xFF00 \<noteq> TRDP_PROTO_VER AND 0xFF00 \<or>
              hdr_datasetLength fr > TRDP_MAX_PD_DATA_SIZE then TRDP_WIRE_ERR
      else if hdr_msgType fr \<noteq> TRDP_MSG_PD \<and> hdr_msgType fr \<noteq> TRDP_MSG_PP \<and>
              hdr_msgType fr \<noteq> TRDP_MSG_PR \<and> hdr_msgType fr \<noteq> TRDP_MSG_PE then TRDP_WIRE_ERR
      else TRDP_NO_ERR)"

section \<open>Sending\<close>

text \<open>An incomplete or failed transmission is an I/O error.\<close>

definition trdp_pdSend :: "world \<Rightarrow> int \<Rightarrow> PD_ELE_T \<Rightarrow> u16 \<Rightarrow> TRDP_SESSION_T \<Rightarrow> TRDP_ERR_T \<times> PD_ELE_T \<times> TRDP_SESSION_T" where
  "trdp_pdSend w fd e port s =
     (let destIp = (if pullIpAddress e \<noteq> 0 then pullIpAddress e else destIpAddr (addr e));
          (done, n) = udp_send w (length (sent s));
          e = e\<lparr>pullIpAddress := 0, sendSize := n\<rparr>;
          s = s\<lparr>sent := sent s @ [\<lparr>dg_fd = fd, dg_dest = destIp, dg_port = port,
                  dg_bytes = take (unat (grossSize e)) (pFrame e)\<rparr>]\<rparr>
      in (if done \<and> n = grossSize e then TRDP_NO_ERR else TRDP_IO_ERR, e, s))"

text \<open>The socket of an index of the pool.\<close>

definition sock_at :: "TRDP_SESSION_T \<Rightarrow> int \<Rightarrow> int checked" where
  "sock_at s i =
     (if 0 \<le> i \<and> nat i < length (iface (socks s)) then Inr (sock (iface (socks s) ! nat i)) else Inl OutOfBounds)"

definition is_due :: "vos_timeval \<Rightarrow> PD_ELE_T \<Rightarrow> bool" where
  "is_due now e \<longleftrightarrow> timerisset (interval e) \<and> \<not> timer_gt (timeToGo e) now \<or> bit (privFlags e) TRDP_REQ_2B_SENT"

text \<open>Transmit a due element that has valid data: update its counter and check sum, and send.\<close>

definition pd_transmit ::
  "world \<Rightarrow> PD_ELE_T \<Rightarrow> TRDP_ERR_T \<Rightarrow> TRDP_SESSION_T \<Rightarrow> (TRDP_ERR_T \<times> PD_ELE_T \<times> TRDP_SESSION_T) checked" where
  "pd_transmit w e err s =
     (let e = (if bit (privFlags e) TRDP_REQ_2B_SENT \<and> hdr_msgType (pFrame e) = TRDP_MSG_PD
               then e\<lparr>pFrame := put16 6 TRDP_MSG_PP (pFrame e)\<rparr> else e);
          e = trdp_pdUpdate e
      in if \<not> trdp_validTopoCounters (sess_etbTopoCnt s) (sess_opTrnTopoCnt s)
                (hdr_etbTopoCnt (pFrame e)) (hdr_opTrnTopoCnt (pFrame e))
         then Inr (TRDP_TOPO_ERR, e, s)
         else if socketIdx e = TRDP_INVALID_SOCKET_INDEX then Inr (err, e, s)
         else if \<not> bit (privFlags e) TRDP_REDUNDANT
         then (case sock_at s (socketIdx e) of
                 Inl f \<Rightarrow> Inl f
               | Inr fd \<Rightarrow>
                   (case trdp_pdSend w fd e (pd_port s) s of
                      (result, e, s) \<Rightarrow>
                        if result = TRDP_NO_ERR
                        then Inr (err, e\<lparr>numRxTx := numRxTx e + 1\<rparr>, upd_pd (\<lambda>p. p\<lparr>numSend := numSend p + 1\<rparr>) s)
                        else Inr (result, e, s)))
         else Inr (err, e, s))"

text \<open>The next time to send: one interval later, or, when that is past, one from now on a multiple of 10 ms.\<close>

definition next_time :: "vos_timeval \<Rightarrow> PD_ELE_T \<Rightarrow> vos_timeval" where
  "next_time now e =
     (let t = vos_addTime (timeToGo e) (interval e)
      in if vos_cmpTime t now \<le> 0
         then let t = vos_addTime now (interval e) in t\<lparr>tv_usec := tv_usec t - tv_usec t mod 10000\<rparr>
         else t)"

definition pd_rearm :: "vos_timeval \<Rightarrow> PD_ELE_T \<Rightarrow> PD_ELE_T" where
  "pd_rearm now e =
     clear_flag TRDP_REQ_2B_SENT
       (if bit (privFlags e) TRDP_REQ_2B_SENT \<and> hdr_msgType (pFrame e) = TRDP_MSG_PP
        then e\<lparr>pFrame := put16 6 TRDP_MSG_PD (pFrame e)\<rparr>
        else if timerisset (interval e) then e\<lparr>timeToGo := next_time now e\<rparr>
        else e)"

text \<open>The loop over the queue: the last error, the elements that stay, and the session.\<close>

fun send_queue ::
  "world \<Rightarrow> PD_ELE_T list \<Rightarrow> TRDP_ERR_T \<Rightarrow> TRDP_SESSION_T \<Rightarrow> (TRDP_ERR_T \<times> PD_ELE_T list \<times> TRDP_SESSION_T) checked"
where
  "send_queue w [] err s = Inr (err, [], s)"
| "send_queue w (e # es) err s =
     (let (now, s) = vos_getTime w s
      in if is_due now e
         then case (if bit (privFlags e) TRDP_INVALID_DATA then Inr (err, e, s) else pd_transmit w e err s) of
                Inl f \<Rightarrow> Inl f
              | Inr (err, e, s) \<Rightarrow>
                  let e = pd_rearm now e
                  in if hdr_msgType (pFrame e) = TRDP_MSG_PR
                     then if socketIdx e < 0 \<or> length (iface (socks s)) \<le> nat (socketIdx e) then Inl OutOfBounds
                          else send_queue w es err
                                 (s\<lparr>socks := trdp_releaseSocket now (nat (socketIdx e)) 0 False (socks s)\<rparr>)
                     else (case send_queue w es err s of
                             Inl f \<Rightarrow> Inl f
                           | Inr (err, es, s) \<Rightarrow> Inr (err, e # es, s))
         else (case send_queue w es err s of
                 Inl f \<Rightarrow> Inl f
               | Inr (err, es, s) \<Rightarrow> Inr (err, e # es, s)))"

definition trdp_pdSendQueued :: "world \<Rightarrow> TRDP_SESSION_T \<Rightarrow> (TRDP_ERR_T \<times> TRDP_SESSION_T) checked" where
  "trdp_pdSendQueued w s =
     (case send_queue w (pSndQueue s) TRDP_NO_ERR (s\<lparr>nextJob := vos_clearTime\<rparr>) of
        Inl f \<Rightarrow> Inl f
      | Inr (err, q, s) \<Rightarrow> Inr (err, s\<lparr>pSndQueue := q\<rparr>))"

section \<open>Receiving\<close>

text \<open>
  The element of the send queue that a pull request asks for, prepared for sending; a request for
  statistics updates those of the session.
\<close>

definition pulled_element :: "world \<Rightarrow> TRDP_SESSION_T \<Rightarrow> (PD_ELE_T option \<times> TRDP_SESSION_T) checked" where
  "pulled_element w s =
     (let fr = pNewFrame s
      in if hdr_comId fr = TRDP_STATISTICS_PULL_COMID
         then (case trdp_queueFindComId (pSndQueue s) TRDP_GLOBAL_STATISTICS_COMID of
                 None \<Rightarrow> Inr (None, s)
               | Some e \<Rightarrow>
                   let e = e\<lparr>addr := (addr e)\<lparr>comId := TRDP_GLOBAL_STATISTICS_COMID, destIpAddr := hdr_replyIpAddress fr\<rparr>\<rparr>;
                       e = trdp_pdInit e TRDP_MSG_PP (sess_etbTopoCnt s) (sess_opTrnTopoCnt s) 0 0
                   in (case trdp_pdPrepareStats w e s of Inl f \<Rightarrow> Inl f | Inr (e, s) \<Rightarrow> Inr (Some e, s)))
         else Inr (trdp_queueFindComId (pSndQueue s)
                (if hdr_replyComId fr = 0 then hdr_comId fr else hdr_replyComId fr), s))"

text \<open>Answer a pull request: whether the user is to be informed, and the session.\<close>

definition pd_pull ::
  "world \<Rightarrow> u32 \<Rightarrow> TRDP_SESSION_T \<Rightarrow> (bool \<times> TRDP_SESSION_T) checked" where
  "pd_pull w src s =
     (if hdr_msgType (pNewFrame s) = TRDP_MSG_PR
      then case pulled_element w s of
             Inl f \<Rightarrow> Inl f
           | Inr (None, s) \<Rightarrow> Inr (False, s)
           | Inr (Some e, s) \<Rightarrow>
               let reply = hdr_replyIpAddress (pNewFrame s);
                   e = set_flag TRDP_REQ_2B_SENT (e\<lparr>pullIpAddress := (if reply \<noteq> 0 then reply else src)\<rparr>)
               in (case trdp_pdSendQueued w (s\<lparr>pSndQueue := upd_ele (pSndQueue s) e\<rparr>) of
                     Inl f \<Rightarrow> Inl f
                   | Inr (_, s) \<Rightarrow> Inr (True, s))
      else Inr (False, s))"

text \<open>Telegrams the sender must have sent between the last one received and this one.\<close>

definition missed_count :: "u32 \<Rightarrow> PD_ELE_T \<Rightarrow> u32" where
  "missed_count new e =
     (if new > 0 \<and> new > curSeqCnt e + 1 then numMissed e + (new - curSeqCnt e - 1)
      else if curSeqCnt e > new then numMissed e + (0xFFFFFFFF - curSeqCnt e + new)
      else numMissed e)"

definition data_changed :: "u8 list \<Rightarrow> PD_ELE_T \<Rightarrow> bool" where
  "data_changed fr e \<longleftrightarrow>
     take (unat (dataSize e)) (frame_data fr) \<noteq> take (unat (dataSize e)) (frame_data (pFrame e))"

text \<open>Take over a telegram with a new sequence counter; the frames are swapped.\<close>

definition pd_accept :: "world \<Rightarrow> PD_ELE_T \<Rightarrow> bool \<Rightarrow> TRDP_SESSION_T \<Rightarrow> bool \<times> PD_ELE_T \<times> TRDP_SESSION_T" where
  "pd_accept w e inform s =
     (let fr = pNewFrame s;
          new = hdr_sequenceCounter fr;
          e = e\<lparr>numMissed := missed_count new e, curSeqCnt := new, dataSize := hdr_datasetLength fr,
                grossSize := trdp_packetSizePD (hdr_datasetLength fr)\<rparr>;
          inform = (inform \<or> bit (pktFlags e) TRDP_FLAGS_CALLBACK \<and>
            (bit (pktFlags e) TRDP_FLAGS_FORCE_CB \<or> bit (privFlags e) TRDP_TIMED_OUT \<or> data_changed fr e));
          (now, s) = vos_getTime w s;
          e = e\<lparr>timeToGo := vos_addTime now (interval e), numRxTx := numRxTx e + 1, lastErr := TRDP_NO_ERR\<rparr>;
          e = clear_flag TRDP_INVALID_DATA (clear_flag TRDP_TIMED_OUT e)
      in (inform, e\<lparr>pFrame := fr\<rparr>, s\<lparr>pNewFrame := pFrame e\<rparr>))"

definition pd_info :: "PD_ELE_T \<Rightarrow> u32 \<Rightarrow> u32 \<Rightarrow> u32 \<Rightarrow> TRDP_ERR_T \<Rightarrow> TRDP_PD_INFO_T" where
  "pd_info e src dest cnt err =
     (let fr = pFrame e
      in \<lparr>info_srcIpAddr = src, info_destIpAddr = dest, info_seqCount = cnt,
          info_protVersion = hdr_protocolVersion fr, info_msgType = hdr_msgType fr, info_comId = comId (addr e),
          info_etbTopoCnt = hdr_etbTopoCnt fr, info_opTrnTopoCnt = hdr_opTrnTopoCnt fr,
          info_replyComId = hdr_replyComId fr, info_replyIpAddr = hdr_replyIpAddress fr,
          info_pUserRef = pUserRef e, info_resultCode = err\<rparr>)"

definition pd_callback :: "bool \<Rightarrow> PD_ELE_T \<Rightarrow> u32 \<Rightarrow> TRDP_ERR_T \<Rightarrow> TRDP_SESSION_T \<Rightarrow> TRDP_SESSION_T" where
  "pd_callback inform e dest err s =
     (if inform \<and> bit (pktFlags e) TRDP_FLAGS_CALLBACK \<and> pfCbFunction e
      then s\<lparr>calls := calls s @ [(pd_info e (lastSrcIP e) dest (curSeqCnt e) err,
                                 frame_data (pFrame e), hdr_datasetLength (pFrame e))]\<rparr>
      else s)"

text \<open>What becomes of a telegram for which there is a subscription.\<close>

definition pd_subscribed ::
  "world \<Rightarrow> bool \<Rightarrow> TRDP_ADDRESSES_T \<Rightarrow> PD_ELE_T \<Rightarrow> bool \<Rightarrow> TRDP_SESSION_T \<Rightarrow> (TRDP_ERR_T \<times> TRDP_SESSION_T) checked" where
  "pd_subscribed w alloc_ok a e inform s =
     (let fr = pNewFrame s
      in if etbTopoCnt a = 0 \<and> opTrnTopoCnt a = 0 \<or>
            trdp_validTopoCounters (etbTopoCnt a) (opTrnTopoCnt a) (etbTopoCnt (addr e)) (opTrnTopoCnt (addr e))
         then
           let new = hdr_sequenceCounter fr;
               e = e\<lparr>lastSrcIP := srcIpAddr a, addr := (addr e)\<lparr>destIpAddr := destIpAddr a\<rparr>\<rparr>;
               s = s\<lparr>seqcnt := (seqcnt s)(comId a mod 128 := new)\<rparr>;
               e = (if new = 0 then trdp_resetSequenceCounter e (srcIpAddr a) (hdr_msgType fr) else e)
           in case trdp_checkSequenceCounter alloc_ok e new (srcIpAddr a) (hdr_msgType fr) of
                Inl f \<Rightarrow> Inl f
              | Inr (r, e) \<Rightarrow>
                  if r = - 1 then Inr (TRDP_MEM_ERR, s\<lparr>pRcvQueue := upd_ele (pRcvQueue s) e\<rparr>)
                  else if r = 1 then Inr (TRDP_NO_ERR, s\<lparr>pRcvQueue := upd_ele (pRcvQueue s) e\<rparr>)
                  else
                    let (inform, e, s) = pd_accept w e inform s
                    in Inr (TRDP_NO_ERR, pd_callback inform e (destIpAddr a) TRDP_NO_ERR
                              (s\<lparr>pRcvQueue := upd_ele (pRcvQueue s) e\<rparr>))
         else
           let e = e\<lparr>lastErr := TRDP_TOPO_ERR\<rparr>
           in Inr (TRDP_TOPO_ERR, pd_callback True e (destIpAddr a) TRDP_TOPO_ERR
                     (upd_pd (\<lambda>p. p\<lparr>numTopoErr := numTopoErr p + 1\<rparr>) (s\<lparr>pRcvQueue := upd_ele (pRcvQueue s) e\<rparr>))))"

text \<open>
  \<open>rx\<close> is the answer of the socket: an error, or the bytes of a datagram (at most
  \<open>TRDP_MAX_PD_PACKET_SIZE\<close>, the rest of the buffer keeps what it had) with its source and
  destination address.
\<close>

record received =
  rx_err :: TRDP_ERR_T
  rx_bytes :: "u8 list"
  rx_src :: u32
  rx_dest :: u32

definition trdp_pdReceive ::
  "world \<Rightarrow> bool \<Rightarrow> received \<Rightarrow> TRDP_SESSION_T \<Rightarrow> (TRDP_ERR_T \<times> TRDP_SESSION_T) checked"
where
  "trdp_pdReceive w alloc_ok rx s =
     (if rx_err rx \<noteq> TRDP_NO_ERR then Inr (rx_err rx, s)
      else
        let bs = take (unat TRDP_MAX_PD_PACKET_SIZE) (rx_bytes rx);
            s = s\<lparr>pNewFrame := bs @ drop (length bs) (pNewFrame s)\<rparr>;
            err = trdp_pdCheck (pNewFrame s) (of_nat (length bs))
        in case err of
             TRDP_NO_ERR \<Rightarrow>
               let s = upd_pd (\<lambda>p. p\<lparr>numRcv := numRcv p + 1\<rparr>) s; fr = pNewFrame s
               in if \<not> trdp_validTopoCounters (sess_etbTopoCnt s) (sess_opTrnTopoCnt s) (hdr_etbTopoCnt fr) (hdr_opTrnTopoCnt fr)
                  then Inr (TRDP_TOPO_ERR, upd_pd (\<lambda>p. p\<lparr>numTopoErr := numTopoErr p + 1\<rparr>) s)
                  else
                    let a = \<lparr>comId = hdr_comId fr, srcIpAddr = rx_src rx, destIpAddr = rx_dest rx, mcGroup = 0,
                             etbTopoCnt = hdr_etbTopoCnt fr, opTrnTopoCnt = hdr_opTrnTopoCnt fr\<rparr>
                    in (case pd_pull w (rx_src rx) s of
                          Inl f \<Rightarrow> Inl f
                        | Inr (inform, s) \<Rightarrow>
                            (case trdp_queueFindSubAddr (pRcvQueue s) a of
                               None \<Rightarrow> Inr (TRDP_NOSUB_ERR, s)
                             | Some e \<Rightarrow> pd_subscribed w alloc_ok a e inform s))
           | TRDP_CRC_ERR \<Rightarrow> Inr (err, upd_pd (\<lambda>p. p\<lparr>numCrcErr := numCrcErr p + 1\<rparr>) s)
           | TRDP_WIRE_ERR \<Rightarrow> Inr (err, upd_pd (\<lambda>p. p\<lparr>numProtErr := numProtErr p + 1\<rparr>) s)
           | _ \<Rightarrow> Inr (err, s))"

section \<open>Time-outs and pending packets\<close>

definition is_late :: "vos_timeval \<Rightarrow> PD_ELE_T \<Rightarrow> bool" where
  "is_late now e \<longleftrightarrow> timerisset (interval e) \<and> timerisset (timeToGo e) \<and> \<not> timer_gt (timeToGo e) now \<and>
     \<not> bit (privFlags e) TRDP_TIMED_OUT \<and> comId (addr e) \<noteq> TRDP_STATISTICS_PULL_COMID"

definition pd_timed_out :: "PD_ELE_T \<Rightarrow> PD_ELE_T" where
  "pd_timed_out e = set_flag TRDP_TIMED_OUT (e\<lparr>lastErr := TRDP_TIMEOUT_ERR\<rparr>)"

fun timeout_queue :: "vos_timeval \<Rightarrow> PD_ELE_T list \<Rightarrow> TRDP_SESSION_T \<Rightarrow> PD_ELE_T list \<times> TRDP_SESSION_T" where
  "timeout_queue now [] s = ([], s)"
| "timeout_queue now (e # es) s =
     (if is_late now e
      then let s = upd_pd (\<lambda>p. p\<lparr>numTimeout := numTimeout p + 1\<rparr>) s;
               s = (if pfCbFunction e
                    then s\<lparr>calls := calls s @ [(pd_info e (srcIpAddr (addr e)) (destIpAddr (addr e))
                             (hdr_sequenceCounter (pFrame e)) TRDP_TIMEOUT_ERR, frame_data (pFrame e), dataSize e)]\<rparr>
                    else s);
               (es, s) = timeout_queue now es s
           in (pd_timed_out e # es, s)
      else let (es, s) = timeout_queue now es s in (e # es, s))"

definition trdp_pdHandleTimeOuts :: "world \<Rightarrow> TRDP_SESSION_T \<Rightarrow> TRDP_SESSION_T" where
  "trdp_pdHandleTimeOuts w s =
     (let (now, s) = vos_getTime w s;
          (q, s) = timeout_queue now (pRcvQueue s) s
      in s\<lparr>pRcvQueue := q\<rparr>)"

definition earlier :: "vos_timeval \<Rightarrow> vos_timeval \<Rightarrow> vos_timeval" where
  "earlier t job = (if timer_lt t job \<or> \<not> timerisset job then t else job)"

text \<open>The next time to become active, the descriptors to wait for, and the highest of them.\<close>

fun pending_rcv ::
  "sock_pool \<Rightarrow> PD_ELE_T list \<Rightarrow> vos_timeval \<Rightarrow> int list \<Rightarrow> int \<Rightarrow> (vos_timeval \<times> int list \<times> int) checked" where
  "pending_rcv p [] job fds noDesc = Inr (job, fds, noDesc)"
| "pending_rcv p (e # es) job fds noDesc =
     (let job = (if \<not> bit (privFlags e) TRDP_TIMED_OUT \<and> timerisset (interval e) then earlier (timeToGo e) job else job)
      in if socketIdx e = - 1 then pending_rcv p es job fds noDesc
         else if socketIdx e < 0 \<or> length (iface p) \<le> nat (socketIdx e) then Inl OutOfBounds
         else let fd = sock (iface p ! nat (socketIdx e))
              in if fd \<noteq> - 1 \<and> fd \<notin> set fds then pending_rcv p es job (fds @ [fd]) (max noDesc fd)
                 else pending_rcv p es job fds noDesc)"

definition pending_snd :: "PD_ELE_T list \<Rightarrow> vos_timeval \<Rightarrow> vos_timeval" where
  "pending_snd es job = foldl (\<lambda>job e. if timerisset (interval e) then earlier (timeToGo e) job else job) job es"

definition trdp_pdCheckPending ::
  "int list \<Rightarrow> int \<Rightarrow> TRDP_SESSION_T \<Rightarrow> (int list \<times> int \<times> TRDP_SESSION_T) checked" where
  "trdp_pdCheckPending fds noDesc s =
     (case pending_rcv (socks s) (pRcvQueue s) vos_clearTime fds noDesc of
        Inl f \<Rightarrow> Inl f
      | Inr (job, fds, noDesc) \<Rightarrow> Inr (fds, noDesc, s\<lparr>nextJob := pending_snd (pSndQueue s) job\<rparr>))"

text \<open>
  Read a socket as long as it gives telegrams that are processed without an error. \<open>rxs\<close> are the
  datagrams that are waiting; after them a non-blocking socket has no data.
\<close>

fun receive_all ::
  "world \<Rightarrow> bool \<Rightarrow> bool \<Rightarrow> received list \<Rightarrow> TRDP_SESSION_T \<Rightarrow>
   (TRDP_ERR_T \<times> TRDP_SESSION_T) checked" where
  "receive_all w alloc_ok nonblock [] s = Inr (TRDP_NODATA_ERR, s)"
| "receive_all w alloc_ok nonblock (rx # rxs) s =
     (case trdp_pdReceive w alloc_ok rx s of
        Inl f \<Rightarrow> Inl f
      | Inr (err, s) \<Rightarrow>
          if err = TRDP_NO_ERR \<and> nonblock then receive_all w alloc_ok nonblock rxs s
          else Inr (err, s))"

text \<open>The sockets of the receive queue that are ready, each read once.\<close>

fun check_socks ::
  "world \<Rightarrow> bool \<Rightarrow> (int \<Rightarrow> received list) \<Rightarrow> int list \<Rightarrow> int set \<Rightarrow> int \<Rightarrow>
   TRDP_ERR_T \<Rightarrow> TRDP_SESSION_T \<Rightarrow> (TRDP_ERR_T \<times> int set \<times> int \<times> TRDP_SESSION_T) checked" where
  "check_socks w alloc_ok rxs [] ready n result s = Inr (result, ready, n, s)"
| "check_socks w alloc_ok rxs (i # is) ready n result s =
     (if i = - 1 then check_socks w alloc_ok rxs is ready n result s
      else case sock_at s i of
        Inl f \<Rightarrow> Inl f
      | Inr fd \<Rightarrow>
          if fd \<in> ready
          then (case receive_all w alloc_ok (\<not> bit (sess_option s) TRDP_OPTION_BLOCK) (rxs fd) s of
                  Inl f \<Rightarrow> Inl f
                | Inr (err, s) \<Rightarrow>
                    check_socks w alloc_ok rxs is (ready - {fd}) (n - 1)
                      (if err = TRDP_NO_ERR then result else err) s)
          else check_socks w alloc_ok rxs is ready n result s)"

definition trdp_pdCheckListenSocks ::
  "world \<Rightarrow> bool \<Rightarrow> (int \<Rightarrow> received list) \<Rightarrow> int set option \<Rightarrow> int option \<Rightarrow>
   TRDP_SESSION_T \<Rightarrow> (TRDP_ERR_T \<times> TRDP_SESSION_T) checked" where
  "trdp_pdCheckListenSocks w alloc_ok rxs pRfds pCount s =
     (case (pRfds, pCount) of
        (Some ready, Some n) \<Rightarrow>
          if n > 0
          then (case check_socks w alloc_ok rxs (map socketIdx (pRcvQueue s)) ready n TRDP_NO_ERR s of
                  Inl f \<Rightarrow> Inl f
                | Inr (result, _, _, s) \<Rightarrow> Inr (result, s))
          else Inr (TRDP_NO_ERR, s)
      | _ \<Rightarrow> Inr (TRDP_NO_ERR, s))"

section \<open>Distributing send times\<close>

definition is_cyclic :: "PD_ELE_T \<Rightarrow> bool" where
  "is_cyclic e \<longleftrightarrow> tv_sec (interval e) \<noteq> 0 \<or> tv_usec (interval e) \<noteq> 0"

text \<open>The smallest interval, the latest time to send and the number of cyclic packets.\<close>

fun distribute_scan :: "PD_ELE_T list \<Rightarrow> vos_timeval \<Rightarrow> vos_timeval \<Rightarrow> u32 \<Rightarrow> vos_timeval \<times> vos_timeval \<times> u32" where
  "distribute_scan [] deltaTmax tNull n = (deltaTmax, tNull, n)"
| "distribute_scan (e # es) deltaTmax tNull n =
     (if is_cyclic e
      then distribute_scan es
             (if vos_cmpTime deltaTmax (interval e) > 0 then interval e else deltaTmax)
             (if vos_cmpTime tNull (timeToGo e) < 0 then timeToGo e else tNull) (n + 1)
      else distribute_scan es deltaTmax tNull n)"

fun distribute_set :: "PD_ELE_T list \<Rightarrow> vos_timeval \<Rightarrow> vos_timeval \<Rightarrow> u32 \<Rightarrow> u32 \<Rightarrow> PD_ELE_T list" where
  "distribute_set [] deltaTmax tNull n i = []"
| "distribute_set (e # es) deltaTmax tNull n i =
     (if i < n
      then if is_cyclic e
           then let temp = vos_mulTime deltaTmax i;
                    nextTime2Go = vos_addTime tNull temp;
                    e = (if vos_cmpTime (vos_mulTime temp 2) (interval e) > 0 then e else e\<lparr>timeToGo := nextTime2Go\<rparr>)
                in e # distribute_set es deltaTmax tNull n (i + 1)
           else e # distribute_set es deltaTmax tNull n i
      else e # es)"

definition trdp_pdDistribute :: "PD_ELE_T list \<Rightarrow> TRDP_ERR_T \<times> PD_ELE_T list" where
  "trdp_pdDistribute q =
     (if q = [] then (TRDP_PARAM_ERR, q)
      else if length q = 1 then (TRDP_NO_ERR, q)
      else
        let (deltaTmax, tNull, n) = distribute_scan q \<lparr>tv_sec = 1000, tv_usec = 0\<rparr> vos_clearTime 0
        in if vos_cmpTime deltaTmax vos_clearTime = 0 \<or> n = 0 then (TRDP_NO_ERR, q)
           else (TRDP_NO_ERR, distribute_set q (vos_divTime deltaTmax n) tNull n 0))"

end
