(* ===== verification/Trdp_Frames.thy ===== *)
theory Trdp_Frames
  imports Trdp_Pd
begin

text \<open>
  Facts about telegrams: what is read at one offset of a frame after bytes were written at another,
  the check sum of a header, and what the functions that build a telegram leave in it.
\<close>

section \<open>Reading and writing frames\<close>

lemma length_overwrite [simp]: "off + length bs \<le> length fr \<Longrightarrow> length (overwrite off bs fr) = length fr"
  by (simp add: overwrite_def)

lemma slice_overwrite_same: "off \<le> length fr \<Longrightarrow> n = length bs \<Longrightarrow> slice off n (overwrite off bs fr) = bs"
  by (simp add: slice_def overwrite_def)

lemma slice_overwrite_other:
  assumes "off + length bs \<le> length fr" and "off' + n \<le> off \<or> off + length bs \<le> off'"
  shows "slice off' n (overwrite off bs fr) = slice off' n fr"
  using assms
proof (elim disjE)
  assume "off' + n \<le> off" "off + length bs \<le> length fr"
  then show ?thesis by (simp add: slice_def overwrite_def take_drop)
next
  assume *: "off + length bs \<le> length fr" "off + length bs \<le> off'"
  then have "drop off' (overwrite off bs fr) = drop off' fr"
    by (simp add: overwrite_def)
  then show ?thesis by (simp add: slice_def)
qed

lemma take_overwrite: "n \<le> off \<Longrightarrow> off + length bs \<le> length fr \<Longrightarrow> take n (overwrite off bs fr) = take n fr"
  by (simp add: overwrite_def)

lemma drop_overwrite: "off + length bs \<le> n \<Longrightarrow> off + length bs \<le> length fr \<Longrightarrow> drop n (overwrite off bs fr) = drop n fr"
  by (simp add: overwrite_def)

lemma slice_take: "off + n \<le> m \<Longrightarrow> slice off n (take m fr) = slice off n fr"
  by (simp add: slice_def take_drop min_def)

lemma slice_append: "off + n \<le> length xs \<Longrightarrow> slice off n (xs @ ys) = slice off n xs"
  by (simp add: slice_def)

lemma take_split:
  assumes "k + m \<le> n"
  shows "take n fr = take k fr @ slice k m fr @ slice (k + m) (n - (k + m)) fr"
proof -
  have "take n fr = take (k + (m + (n - (k + m)))) fr" using assms by simp
  also have "\<dots> = take k fr @ slice k m fr @ slice (k + m) (n - (k + m)) fr"
    by (simp only: take_add slice_def drop_drop add.commute [of m k])
  finally show ?thesis .
qed

lemma length_htons [simp]: "length (htons v) = 2"
  by (simp add: htons_def)

lemma be_val_htons: "of_nat (be_val (htons v)) = v"
proof -
  have "unat v < 2 ^ LENGTH(16)" by (rule unsigned_less)
  then have v: "unat v < 65536" by simp
  have "unat (ucast (drop_bit 8 v) :: u8) = unat v div 256" "unat (ucast v :: u8) = unat v mod 256"
    using v by (simp_all add: unsigned_ucast_eq unsigned_drop_bit_eq take_bit_eq_mod) (simp_all add: drop_bit_eq_div)
  then have "be_val (htons v) = unat v" by (simp add: htons_def)
  then show ?thesis by simp
qed

lemma length_put [simp]:
  "off + 4 \<le> length fr \<Longrightarrow> length (put32 off v fr) = length fr"
  "off + 2 \<le> length fr \<Longrightarrow> length (put16 off u fr) = length fr"
  "40 \<le> length fr \<Longrightarrow> length (put_fcs v fr) = length fr"
  by (simp_all add: put32_def put16_def put_fcs_def)

lemma get_put_same [simp]:
  "off + 4 \<le> length fr \<Longrightarrow> get32 off (put32 off v fr) = v"
  "off + 2 \<le> length fr \<Longrightarrow> get16 off (put16 off u fr) = u"
  "40 \<le> length fr \<Longrightarrow> get_fcs (put_fcs v fr) = le_bytes32 v"
  by (simp_all add: get32_def put32_def get16_def put16_def get_fcs_def put_fcs_def slice_overwrite_same be_val_htons)

lemma get_put_other [simp]:
  "off + 4 \<le> length fr \<Longrightarrow> off' + 4 \<le> off \<or> off + 4 \<le> off' \<Longrightarrow> get32 off' (put32 off v fr) = get32 off' fr"
  "off + 2 \<le> length fr \<Longrightarrow> off' + 4 \<le> off \<or> off + 2 \<le> off' \<Longrightarrow> get32 off' (put16 off u fr) = get32 off' fr"
  "off + 4 \<le> length fr \<Longrightarrow> off' + 2 \<le> off \<or> off + 4 \<le> off' \<Longrightarrow> get16 off' (put32 off v fr) = get16 off' fr"
  "off + 2 \<le> length fr \<Longrightarrow> off' + 2 \<le> off \<or> off + 2 \<le> off' \<Longrightarrow> get16 off' (put16 off u fr) = get16 off' fr"
  "40 \<le> length fr \<Longrightarrow> off' + 4 \<le> 36 \<Longrightarrow> get32 off' (put_fcs v fr) = get32 off' fr"
  "40 \<le> length fr \<Longrightarrow> off' + 2 \<le> 36 \<Longrightarrow> get16 off' (put_fcs v fr) = get16 off' fr"
  by (simp_all add: get32_def put32_def get16_def put16_def put_fcs_def slice_overwrite_other)

lemma data_put [simp]:
  "off + 4 \<le> 40 \<Longrightarrow> 40 \<le> length fr \<Longrightarrow> frame_data (put32 off v fr) = frame_data fr"
  "off + 2 \<le> 40 \<Longrightarrow> 40 \<le> length fr \<Longrightarrow> frame_data (put16 off u fr) = frame_data fr"
  "40 \<le> length fr \<Longrightarrow> frame_data (put_fcs v fr) = frame_data fr"
  by (simp_all add: put32_def put16_def put_fcs_def drop_overwrite)

lemma get_overwrite_data [simp]:
  "40 + length bs \<le> length fr \<Longrightarrow> off + 4 \<le> 40 \<Longrightarrow> get32 off (overwrite 40 bs fr) = get32 off fr"
  "40 + length bs \<le> length fr \<Longrightarrow> off + 2 \<le> 40 \<Longrightarrow> get16 off (overwrite 40 bs fr) = get16 off fr"
  by (simp_all add: get32_def get16_def slice_overwrite_other)

section \<open>The check sum of a header\<close>

lemma take_put_fcs [simp]: "40 \<le> length fr \<Longrightarrow> take 36 (put_fcs v fr) = take 36 fr"
  by (simp add: put_fcs_def take_overwrite)

lemma pdUpdate_frame:
  assumes "40 \<le> length (pFrame e)"
  shows "length (pFrame (trdp_pdUpdate e)) = length (pFrame e)"
    and "frame_data (pFrame (trdp_pdUpdate e)) = frame_data (pFrame e)"
    and "get_fcs (pFrame (trdp_pdUpdate e)) = le_bytes32 (vos_crc32 INITFCS (take 36 (pFrame (trdp_pdUpdate e))))"
    and "4 \<le> off \<Longrightarrow> off + 4 \<le> 36 \<Longrightarrow> get32 off (pFrame (trdp_pdUpdate e)) = get32 off (pFrame e)"
    and "4 \<le> off \<Longrightarrow> off + 2 \<le> 36 \<Longrightarrow> get16 off (pFrame (trdp_pdUpdate e)) = get16 off (pFrame e)"
  using assms by (auto simp: trdp_pdUpdate_def Let_def)

text \<open>The sequence counter of the updated frame is the one the element keeps for its kind of telegram.\<close>

lemma pdUpdate_counter:
  assumes "40 \<le> length (pFrame e)"
  shows "hdr_sequenceCounter (pFrame (trdp_pdUpdate e)) =
     (if hdr_msgType (pFrame e) = TRDP_MSG_PP then curSeqCnt4Pull e else curSeqCnt e) + 1"
  using assms by (auto simp: trdp_pdUpdate_def Let_def)

text \<open>A header is well formed: version, type and length are what a receiver accepts.\<close>

definition header_ok :: "u8 list \<Rightarrow> bool" where
  "header_ok fr \<longleftrightarrow> 40 \<le> length fr \<and> hdr_protocolVersion fr AND 0xFF00 = 0x0100 \<and>
     hdr_datasetLength fr \<le> TRDP_MAX_PD_DATA_SIZE \<and>
     hdr_msgType fr \<in> {TRDP_MSG_PD, TRDP_MSG_PP, TRDP_MSG_PR, TRDP_MSG_PE}"

lemma pdCheck_iff:
  "40 \<le> length fr \<Longrightarrow> trdp_pdCheck fr n = TRDP_NO_ERR \<longleftrightarrow>
     40 \<le> n \<and> n \<le> 1472 \<and> get_fcs fr = le_bytes32 (vos_crc32 INITFCS (take 36 fr)) \<and> header_ok fr"
  by (auto simp: trdp_pdCheck_def header_ok_def not_less)

lemma updated_frame_accepted:
  assumes "header_ok (pFrame e)" and "40 \<le> n" and "n \<le> 1472"
  shows "trdp_pdCheck (pFrame (trdp_pdUpdate e)) n = TRDP_NO_ERR"
  using assms pdUpdate_frame [of e] by (auto simp: header_ok_def pdCheck_iff)

lemma corrupted_header:
  assumes "trdp_pdCheck fr n = TRDP_NO_ERR" and "40 \<le> length fr"
    and "fr' = overwrite k xs fr" and "fr' \<noteq> fr" and "length xs \<le> 4" and "k + length xs \<le> 36 \<or> 36 \<le> k \<and> k + length xs \<le> 40"
  shows "trdp_pdCheck fr' n = TRDP_CRC_ERR"
proof -
  have n: "40 \<le> n" "n \<le> 1472" and fcs: "get_fcs fr = le_bytes32 (vos_crc32 INITFCS (take 36 fr))"
    using assms(1,2) by (simp_all add: pdCheck_iff)
  have "get_fcs fr' \<noteq> le_bytes32 (vos_crc32 INITFCS (take 36 fr'))"
    using assms(6)
  proof
    assume k: "k + length xs \<le> 36"
    then have "get_fcs fr' = get_fcs fr" using assms(2,3) by (simp add: get_fcs_def slice_overwrite_other)
    moreover have "vos_crc32 INITFCS (take 36 fr') \<noteq> vos_crc32 INITFCS (take 36 fr)"
    proof
      let ?ys = "slice k (length xs) fr"
      have 1: "take 36 fr' = take k fr @ xs @ slice (k + length xs) (36 - (k + length xs)) fr"
        using k assms(2,3) by (simp add: overwrite_def slice_def)
      have 2: "take 36 fr = take k fr @ ?ys @ slice (k + length xs) (36 - (k + length xs)) fr"
        using k by (rule take_split)
      assume "vos_crc32 INITFCS (take 36 fr') = vos_crc32 INITFCS (take 36 fr)"
      then have "xs = ?ys"
        using crc32_burst [of INITFCS "take k fr" xs _ ?ys] 1 2 assms(2,5) k by (simp add: slice_def)
      then have "fr' = fr" using assms(3) by (simp add: overwrite_def slice_def) (metis append_take_drop_id drop_drop add.commute)
      then show False using assms(4) by simp
    qed
    ultimately show ?thesis using fcs by (simp add: le_bytes32_inj)
  next
    assume k: "36 \<le> k \<and> k + length xs \<le> 40"
    then have t: "take 36 fr' = take 36 fr" "drop 40 fr' = drop 40 fr" "length fr' = length fr"
      using assms(2,3) by (simp_all add: take_overwrite drop_overwrite)
    have "get_fcs fr' \<noteq> get_fcs fr"
    proof
      assume "get_fcs fr' = get_fcs fr"
      moreover have "x = take 36 x @ get_fcs x @ drop 40 x" for x
        using take_split [of 36 4 40 x] append_take_drop_id [of 40 x] by (simp add: get_fcs_def slice_def)
      ultimately have "fr' = fr" using t by metis
      then show False using assms(4) by simp
    qed
    then show ?thesis using fcs t(1) by simp
  qed
  then show ?thesis using n by (simp add: trdp_pdCheck_def not_less)
qed

end
