(* ===== verification/Trdp_Seq.thy ===== *)
theory Trdp_Seq
  imports Trdp_Utils
begin

text \<open>
  What the lists of sequence counters of \<^verbatim>\<open>trdp_utils.c\<close> stand for: a map from a sender and
  message type to the last counter received. The array operations, growth included, implement
  updates of that map.
\<close>

section \<open>The map of a list\<close>

definition seq_pairs :: "TRDP_SEQ_CNT_ENTRY_T list \<Rightarrow> ((u32 \<times> u16) \<times> u32) list" where
  "seq_pairs ss = map (\<lambda>s. ((seq_srcIpAddr s, seq_msgType s), lastSeqCnt s)) ss"

definition seq_used :: "TRDP_SEQ_CNT_LIST_T \<Rightarrow> TRDP_SEQ_CNT_ENTRY_T list" where
  "seq_used l = take (unat (curNoOfEntries l)) (seq l)"

text \<open>The last counter seen by a subscription, per sender and message type.\<close>

definition last_seen :: "PD_ELE_T \<Rightarrow> u32 \<times> u16 \<Rightarrow> u32 option" where
  "last_seen e = (case pSeqCntList e of None \<Rightarrow> Map.empty | Some l \<Rightarrow> map_of (seq_pairs (seq_used l)))"

definition seq_list_ok :: "TRDP_SEQ_CNT_LIST_T \<Rightarrow> bool" where
  "seq_list_ok l \<longleftrightarrow> length (seq l) = Suc (unat (maxNoOfEntries l)) \<and> curNoOfEntries l \<le> maxNoOfEntries l \<and>
     0 < maxNoOfEntries l"

definition seq_ok :: "PD_ELE_T \<Rightarrow> bool" where
  "seq_ok e \<longleftrightarrow> (\<forall>l. pSeqCntList e = Some l \<longrightarrow> seq_list_ok l)"

text \<open>The senders known to a subscription.\<close>

definition seq_count :: "PD_ELE_T \<Rightarrow> nat" where
  "seq_count e = (case pSeqCntList e of None \<Rightarrow> 0 | Some l \<Rightarrow> unat (curNoOfEntries l))"

text \<open>The specification: a counter is a duplicate if it is not zero and was the last one seen.\<close>

definition seen_check :: "(u32 \<times> u16 \<Rightarrow> u32 option) \<Rightarrow> u32 \<times> u16 \<Rightarrow> u32 \<Rightarrow> int \<times> (u32 \<times> u16 \<Rightarrow> u32 option)" where
  "seen_check m k cnt = (if m k = Some cnt \<and> cnt \<noteq> 0 then (1, m) else (0, m(k \<mapsto> cnt)))"

section \<open>Array operations as map operations\<close>

lemma seq_index_Some:
  "seq_index i ss src ty = Some j \<Longrightarrow> i \<le> j \<and> j < i + length ss \<and> seq_key src ty (ss ! (j - i)) \<and>
     map_of (seq_pairs ss) (src, ty) = Some (lastSeqCnt (ss ! (j - i)))"
  by (induction i ss src ty rule: seq_index.induct)
     (auto simp: seq_pairs_def seq_key_def Suc_diff_le nth_Cons' split: if_splits)

lemma seq_index_None: "seq_index i ss src ty = None \<longleftrightarrow> map_of (seq_pairs ss) (src, ty) = None"
  by (induction i ss src ty rule: seq_index.induct) (auto simp: seq_pairs_def seq_key_def)

lemma seq_index_upd:
  "seq_index i ss src ty = Some j \<Longrightarrow>
   map_of (seq_pairs (ss[j - i := (ss ! (j - i))\<lparr>lastSeqCnt := c\<rparr>])) = (map_of (seq_pairs ss))((src, ty) \<mapsto> c)"
proof (induction i ss src ty rule: seq_index.induct)
  case (2 i s ss src ty)
  show ?case
  proof (cases "seq_key src ty s")
    case True
    then show ?thesis using "2.prems" by (auto simp: seq_pairs_def seq_key_def)
  next
    case False
    then have "seq_index (Suc i) ss src ty = Some j" using "2.prems" by simp
    moreover from seq_index_Some [OF this] have "j - i = Suc (j - Suc i)" by linarith
    ultimately show ?thesis using "2.IH" [OF False] False by (auto simp: seq_pairs_def seq_key_def fun_eq_iff)
  qed
qed simp

lemma map_of_append_new:
  "map_of (seq_pairs ss) (src, ty) = None \<Longrightarrow>
   map_of (seq_pairs (ss @ [\<lparr>lastSeqCnt = c, seq_srcIpAddr = src, seq_msgType = ty\<rparr>])) =
   (map_of (seq_pairs ss))((src, ty) \<mapsto> c)"
  by (auto simp: seq_pairs_def map_add_def fun_eq_iff split: option.splits)

lemma used_le: "seq_list_ok l \<Longrightarrow> unat (curNoOfEntries l) \<le> unat (maxNoOfEntries l)"
  by (simp add: seq_list_ok_def word_le_nat_alt)

lemma append_seq_eq:
  assumes "length (seq l) > unat (curNoOfEntries l)" and "unat (curNoOfEntries l) < 65535"
  shows "\<exists>l'. append_seq l c src ty = Inr l' \<and> maxNoOfEntries l' = maxNoOfEntries l \<and> length (seq l') = length (seq l) \<and>
     unat (curNoOfEntries l') = Suc (unat (curNoOfEntries l)) \<and>
     seq_used l' = seq_used l @ [\<lparr>lastSeqCnt = c, seq_srcIpAddr = src, seq_msgType = ty\<rparr>]"
proof -
  have u: "unat (curNoOfEntries l + 1) = Suc (unat (curNoOfEntries l))"
    using assms(2) by (simp add: unat_word_ariths)
  show ?thesis
    using assms u by (auto simp: append_seq_def seq_used_def take_Suc_conv_app_nth)
qed

lemma grow_seq_list_ok:
  assumes ok: "seq_list_ok l" and few: "unat (curNoOfEntries l) < 32768"
  shows "\<exists>l'. grow_seq_list True l = Inr (Some l') \<and> seq_list_ok l' \<and> seq_used l' = seq_used l \<and>
     curNoOfEntries l' = curNoOfEntries l \<and> unat (curNoOfEntries l) < unat (maxNoOfEntries l')"
proof (cases "curNoOfEntries l \<ge> maxNoOfEntries l")
  case True
  then have eq: "curNoOfEntries l = maxNoOfEntries l" using ok by (simp add: seq_list_ok_def)
  have d: "unat (2 * curNoOfEntries l) = 2 * unat (curNoOfEntries l)" using few by (simp add: unat_word_ariths)
  have pos: "0 < unat (curNoOfEntries l)" using ok eq by (simp add: seq_list_ok_def word_less_nat_alt)
  have "\<not> 2 * curNoOfEntries l < maxNoOfEntries l" using d eq by (simp add: word_less_nat_alt)
  then show ?thesis
    using True eq d pos ok
    by (auto simp: grow_seq_list_def Let_def seq_list_ok_def seq_used_def new_seq_list_def word_le_nat_alt word_less_nat_alt)
next
  case False
  then show ?thesis using ok by (auto simp: grow_seq_list_def word_le_nat_alt)
qed

section \<open>Refinement\<close>

lemma new_list_ok: "seq_list_ok (new_seq_list 64)" "seq_used (new_seq_list 64) = []"
  by (simp_all add: seq_list_ok_def seq_used_def new_seq_list_def)

lemma check_list:
  assumes ok: "seq_list_ok l" and few: "unat (curNoOfEntries l) < 32768" and l: "pSeqCntList e = Some l"
  shows "\<exists>e'. trdp_checkSequenceCounter True e cnt src ty = Inr (fst (seen_check (last_seen e) (src, ty) cnt), e') \<and>
     last_seen e' = snd (seen_check (last_seen e) (src, ty) cnt) \<and> seq_ok e' \<and>
     e' = e\<lparr>pSeqCntList := pSeqCntList e'\<rparr>"
proof (cases "seq_index 0 (seq_used l) src ty")
  case (Some i)
  note si = seq_index_Some [OF Some] and up = seq_index_upd [OF Some]
  have i: "i < unat (curNoOfEntries l)" "i < length (seq l)" "seq_used l ! i = seq l ! i"
    using si used_le [OF ok] ok by (auto simp: seq_used_def seq_list_ok_def)
  have m: "last_seen e (src, ty) = Some (lastSeqCnt (seq l ! i))" using si i l by (simp add: last_seen_def)
  have u: "seq_used (l\<lparr>seq := (seq l)[i := s]\<rparr>) = (seq_used l)[i := s]" for s
    by (simp add: seq_used_def take_update_swap)
  show ?thesis
    using Some l m i up ok unfolding trdp_checkSequenceCounter_def seq_used_def [symmetric]
    by (auto simp: seen_check_def last_seen_def u seq_ok_def seq_list_ok_def fun_upd_idem_iff)
next
  case None
  then have m: "last_seen e (src, ty) = None" using l by (simp add: seq_index_None last_seen_def)
  obtain l1 where l1: "grow_seq_list True l = Inr (Some l1)" "seq_list_ok l1" "seq_used l1 = seq_used l"
      "curNoOfEntries l1 = curNoOfEntries l" "unat (curNoOfEntries l) < unat (maxNoOfEntries l1)"
    using grow_seq_list_ok [OF ok few] by blast
  have "unat (curNoOfEntries l1) < length (seq l1)" "unat (curNoOfEntries l1) < 65535"
    using l1(2,4,5) few by (auto simp: seq_list_ok_def)
  from append_seq_eq [OF this, of cnt src ty] obtain l2 where
    l2: "append_seq l1 cnt src ty = Inr l2" "maxNoOfEntries l2 = maxNoOfEntries l1" "length (seq l2) = length (seq l1)"
      "unat (curNoOfEntries l2) = Suc (unat (curNoOfEntries l1))"
      "seq_used l2 = seq_used l1 @ [\<lparr>lastSeqCnt = cnt, seq_srcIpAddr = src, seq_msgType = ty\<rparr>]" by blast
  have "seq_list_ok l2" using l2 l1 by (auto simp: seq_list_ok_def word_le_nat_alt)
  moreover have "map_of (seq_pairs (seq_used l2)) = (last_seen e)((src, ty) \<mapsto> cnt)"
    using m l l1(3) l2(5) map_of_append_new by (simp add: last_seen_def)
  ultimately show ?thesis
    using None l l1(1) l2(1) m unfolding trdp_checkSequenceCounter_def seq_used_def [symmetric]
    by (auto simp: seen_check_def last_seen_def seq_ok_def)
qed

lemma check_refines:
  assumes "seq_ok e" and "seq_count e < 32768"
  shows "\<exists>e'. trdp_checkSequenceCounter True e cnt src ty = Inr (fst (seen_check (last_seen e) (src, ty) cnt), e') \<and>
     last_seen e' = snd (seen_check (last_seen e) (src, ty) cnt) \<and> seq_ok e' \<and>
     e' = e\<lparr>pSeqCntList := pSeqCntList e'\<rparr>"
proof (cases "pSeqCntList e")
  case None
  let ?e = "e\<lparr>pSeqCntList := Some (new_seq_list 64)\<rparr>"
  have ls: "last_seen ?e = last_seen e" using None by (simp add: last_seen_def new_list_ok seq_pairs_def)
  have eq: "trdp_checkSequenceCounter True e cnt src ty = trdp_checkSequenceCounter True ?e cnt src ty"
    using None by (simp add: trdp_checkSequenceCounter_def split: option.splits sum.splits)
  have "\<exists>e'. trdp_checkSequenceCounter True ?e cnt src ty = Inr (fst (seen_check (last_seen ?e) (src, ty) cnt), e') \<and>
     last_seen e' = snd (seen_check (last_seen ?e) (src, ty) cnt) \<and> seq_ok e' \<and> e' = ?e\<lparr>pSeqCntList := pSeqCntList e'\<rparr>"
    by (rule check_list [where l = "new_seq_list 64"]) (simp_all add: new_list_ok, simp add: new_seq_list_def)
  then show ?thesis unfolding ls eq by auto
next
  case (Some l)
  then show ?thesis using assms check_list [of l e] by (simp add: seq_ok_def seq_count_def)
qed

text \<open>After a time-out or a restart of the sender the next counter is accepted, whatever it is.\<close>

lemma reset_last_seen:
  assumes "seq_ok e"
  shows "last_seen (trdp_resetSequenceCounter e src ty) =
     (case last_seen e (src, ty) of None \<Rightarrow> last_seen e | Some _ \<Rightarrow> (last_seen e)((src, ty) \<mapsto> 0))"
    and "seq_ok (trdp_resetSequenceCounter e src ty)"
    and "seq_count (trdp_resetSequenceCounter e src ty) = seq_count e"
proof -
  have r: "map_of (seq_pairs (map (\<lambda>s. if seq_key src ty s then s\<lparr>lastSeqCnt := 0\<rparr> else s) ss)) =
      (case map_of (seq_pairs ss) (src, ty) of None \<Rightarrow> map_of (seq_pairs ss) | Some _ \<Rightarrow> (map_of (seq_pairs ss))((src, ty) \<mapsto> 0))" for ss
  proof (induction ss)
    case (Cons s ss)
    then show ?case
      by (cases "map_of (seq_pairs ss) (src, ty)") (auto simp: seq_pairs_def seq_key_def fun_eq_iff)
  qed (simp add: seq_pairs_def)
  show "last_seen (trdp_resetSequenceCounter e src ty) =
     (case last_seen e (src, ty) of None \<Rightarrow> last_seen e | Some _ \<Rightarrow> (last_seen e)((src, ty) \<mapsto> 0))"
    using assms used_le
    by (cases "pSeqCntList e") (auto simp: trdp_resetSequenceCounter_def last_seen_def Let_def seq_used_def r seq_ok_def seq_list_ok_def min_def split: option.splits)
  show "seq_ok (trdp_resetSequenceCounter e src ty)" "seq_count (trdp_resetSequenceCounter e src ty) = seq_count e"
    using assms by (auto simp: trdp_resetSequenceCounter_def seq_ok_def seq_list_ok_def Let_def seq_count_def word_le_nat_alt split: option.splits)
qed

text \<open>A check adds at most one sender.\<close>

lemma unat_Suc_le: "unat (x + 1) \<le> Suc (unat x)" for x :: u16
  by (simp add: unat_word_ariths)

lemma check_count:
  "trdp_checkSequenceCounter a e cnt src ty = Inr (r, e') \<Longrightarrow> seq_count e' \<le> Suc (seq_count e)"
  unfolding trdp_checkSequenceCounter_def grow_seq_list_def append_seq_def
  by (auto simp: seq_count_def new_seq_list_def Let_def unat_Suc_le split: option.splits if_splits sum.splits)

end
