(* ===== verification/Trdp_Link.thy ===== *)
theory Trdp_Link
  imports Trdp_Frames Trdp_Seq
begin

text \<open>
  A telegram from its publisher to its subscriber: what putting data, updating and sending leave on
  the wire, and what receiving it does to the subscription.
\<close>

section \<open>Flags\<close>

lemma flag_simps [simp]:
  "f < 8 \<Longrightarrow> bit (privFlags (set_flag f e)) g \<longleftrightarrow> g = f \<or> bit (privFlags e) g"
  "f < 8 \<Longrightarrow> bit (privFlags (clear_flag f e)) g \<longleftrightarrow> g \<noteq> f \<and> bit (privFlags e) g"
  by (auto simp: set_flag_def clear_flag_def bit_simps dest: bit_imp_le_length)

lemma flag_frame [simp]:
  "pFrame (clear_flag f e) = pFrame e" "dataSize (clear_flag f e) = dataSize e" "addr (clear_flag f e) = addr e"
  "pktFlags (clear_flag f e) = pktFlags e" "ele (clear_flag f e) = ele e" "curSeqCnt (clear_flag f e) = curSeqCnt e"
  "pSeqCntList (clear_flag f e) = pSeqCntList e" "timeToGo (clear_flag f e) = timeToGo e" "grossSize (clear_flag f e) = grossSize e"
  "interval (clear_flag f e) = interval e" "socketIdx (clear_flag f e) = socketIdx e" "pullIpAddress (clear_flag f e) = pullIpAddress e" "curSeqCnt4Pull (clear_flag f e) = curSeqCnt4Pull e"
  by (simp_all add: clear_flag_def)

section \<open>Packet sizes\<close>

lemma unat_padded_size:
  assumes "unat h + unat n + 3 < 4294967296"
  shows "unat (padded_size h n) = unat h + (unat n + 3) div 4 * 4"
proof -
  have a: "n AND 3 = n mod 4" using take_bit_eq_mask [of 2 n] by (simp add: take_bit_eq_mod mask_numeral)
  have m: "unat (n mod 4) = unat n mod 4" by (simp add: unat_mod)
  have z: "n mod 4 > 0 \<longleftrightarrow> unat n mod 4 \<noteq> 0" using m by (metis word_gt_0 unat_eq_zero)
  have z': "n = 0 \<longleftrightarrow> unat n = 0" by (simp add: unat_eq_zero)
  have d: "unat (4 - n mod 4) = 4 - unat n mod 4"
    using m by (subst unat_sub) (auto simp: word_le_nat_alt)
  have c: "unat (h + n) = unat h + unat n" using assms by (simp add: unat_word_ariths)
  have "unat (h + n + (4 - n mod 4)) = (unat h + unat n + (4 - unat n mod 4)) mod 2 ^ 32"
    unfolding unat_word_ariths(1) [of "h + n"] d c by simp
  moreover have "unat n mod 4 \<noteq> 0 \<Longrightarrow> unat h + unat n + (4 - unat n mod 4) < 2 ^ 32" using assms by simp
  ultimately have e: "unat n mod 4 \<noteq> 0 \<Longrightarrow> unat (h + n + (4 - n mod 4)) = unat h + unat n + (4 - unat n mod 4)" by simp
  have "(unat n + 3) div 4 * 4 = (if unat n mod 4 = 0 then unat n else unat n + (4 - unat n mod 4))" by presburger
  then show ?thesis
    unfolding padded_size_def Let_def a z z' using e c by (simp only: if_split) (auto split: if_splits simp: add.assoc)
qed

lemma unat_packetSizePD:
  assumes "n \<le> 1432"
  shows "unat (trdp_packetSizePD n) = 40 + (unat n + 3) div 4 * 4"
  using assms by (simp add: trdp_packetSizePD_def unat_padded_size word_le_nat_alt)

lemma packetSizePD_room:
  assumes "n \<le> 1432"
  shows "40 + unat n \<le> unat (trdp_packetSizePD n)" "unat (trdp_packetSizePD n) \<le> 1472"
proof -
  have "unat n \<le> 1432" using assms by (simp add: word_le_nat_alt)
  then show "40 + unat n \<le> unat (trdp_packetSizePD n)" "unat (trdp_packetSizePD n) \<le> 1472"
    unfolding unat_packetSizePD [OF assms] by presburger+
qed

section \<open>Publishing\<close>

text \<open>An element of the send queue whose frame and header agree with its fields.\<close>

definition pub_ok :: "PD_ELE_T \<Rightarrow> bool" where
  "pub_ok e \<longleftrightarrow> dataSize e \<le> 1432 \<and> grossSize e = trdp_packetSizePD (dataSize e) \<and>
     length (pFrame e) = unat (grossSize e) \<and> header_ok (pFrame e) \<and>
     hdr_comId (pFrame e) = comId (addr e) \<and> hdr_datasetLength (pFrame e) = dataSize e"

lemma pub_ok_room: "pub_ok e \<Longrightarrow> 40 + unat (dataSize e) \<le> length (pFrame e) \<and> length (pFrame e) \<le> 1472"
  using packetSizePD_room [of "dataSize e"] by (simp add: pub_ok_def)

text \<open>A new element, as publishing prepares it.\<close>

lemma pdInit_pub_ok:
  assumes "dataSize e \<le> 1432" and "grossSize e = trdp_packetSizePD (dataSize e)" and "length (pFrame e) = unat (grossSize e)"
    and "type \<in> {TRDP_MSG_PD, TRDP_MSG_PP, TRDP_MSG_PR, TRDP_MSG_PE}"
  shows "pub_ok (trdp_pdInit e type etb opTrn replyComId replyIp)"
proof -
  have "40 \<le> length (pFrame e)" using assms packetSizePD_room [OF assms(1)] by simp
  then show ?thesis using assms by (auto simp: pub_ok_def header_ok_def trdp_pdInit_def Let_def)
qed

definition with_data :: "u8 list \<Rightarrow> PD_ELE_T \<Rightarrow> PD_ELE_T" where
  "with_data bs e = pd_valid (e\<lparr>pFrame := overwrite 40 bs (pFrame e)\<rparr>)"

lemma with_data_fields [simp]:
  "pFrame (with_data bs e) = overwrite 40 bs (pFrame e)" "dataSize (with_data bs e) = dataSize e"
  "grossSize (with_data bs e) = grossSize e" "addr (with_data bs e) = addr e" "curSeqCnt (with_data bs e) = curSeqCnt e"
  "pktFlags (with_data bs e) = pktFlags e" "interval (with_data bs e) = interval e" "timeToGo (with_data bs e) = timeToGo e"
  "socketIdx (with_data bs e) = socketIdx e" "pullIpAddress (with_data bs e) = pullIpAddress e"
  "bit (privFlags (with_data bs e)) f \<longleftrightarrow> f \<noteq> TRDP_INVALID_DATA \<and> bit (privFlags e) f"
  using flag_simps(2) [of TRDP_INVALID_DATA "e\<lparr>pFrame := overwrite 40 bs (pFrame e)\<rparr>" f]
  by (simp_all add: with_data_def pd_valid_def)

lemma with_data_pub_ok: "pub_ok e \<Longrightarrow> 40 + length bs \<le> length (pFrame e) \<Longrightarrow> pub_ok (with_data bs e)"
  by (simp add: pub_ok_def header_ok_def)

lemma pdPut_ok:
  assumes "pub_ok e" and "dataSize e \<noteq> 0" and "length bs = unat n" and "n \<noteq> 0" and "n \<le> dataSize e"
    and "\<not> bit (pktFlags e) TRDP_FLAGS_MARSHALL \<or> m = None"
  shows "trdp_pdPut alloc_ok m e (Some bs) n = Inr (TRDP_NO_ERR, with_data bs e)"
    and "40 + length bs \<le> length (pFrame e)"
proof -
  show room: "40 + length bs \<le> length (pFrame e)"
    using pub_ok_room [OF assms(1)] assms(3,5) by (simp add: word_le_nat_alt)
  have n: "\<not> n > 1432" using assms(1,5) by (auto simp: pub_ok_def not_less intro: order_trans)
  show "trdp_pdPut alloc_ok m e (Some bs) n = Inr (TRDP_NO_ERR, with_data bs e)"
    using assms(2,3,4,6) n room by (auto simp: trdp_pdPut_def put_data_def Let_def with_data_def split: option.splits)
qed

text \<open>More data than the frame was allocated for is written past its end.\<close>

lemma pdPut_overflow:
  assumes "pub_ok e" and "dataSize e \<noteq> 0" and "length bs = unat n" and "n \<le> 1432"
    and "unat n > length (pFrame e) - 40" and "\<not> bit (pktFlags e) TRDP_FLAGS_MARSHALL"
  shows "trdp_pdPut alloc_ok m e (Some bs) n = Inl OutOfBounds"
  using assms pub_ok_room [OF assms(1)]
  by (auto simp: trdp_pdPut_def put_data_def Let_def not_less split: option.splits)

section \<open>Transmission\<close>

lemma pdUpdate_fields [simp]:
  "privFlags (trdp_pdUpdate e) = privFlags e" "socketIdx (trdp_pdUpdate e) = socketIdx e"
  "pktFlags (trdp_pdUpdate e) = pktFlags e" "interval (trdp_pdUpdate e) = interval e" "timeToGo (trdp_pdUpdate e) = timeToGo e"
  "dataSize (trdp_pdUpdate e) = dataSize e" "grossSize (trdp_pdUpdate e) = grossSize e" "addr (trdp_pdUpdate e) = addr e"
  "pullIpAddress (trdp_pdUpdate e) = pullIpAddress e" "ele (trdp_pdUpdate e) = ele e" "numRxTx (trdp_pdUpdate e) = numRxTx e"
  by (simp_all add: trdp_pdUpdate_def Let_def)

lemma pdUpdate_pub_ok:
  assumes "pub_ok e" shows "pub_ok (trdp_pdUpdate e)"
proof -
  have l: "40 \<le> length (pFrame e)" using assms unfolding pub_ok_def header_ok_def by blast
  show ?thesis using assms pdUpdate_frame [OF l] l unfolding pub_ok_def header_ok_def by simp
qed

text \<open>A publication that is transmitted leaves its whole updated frame on the wire.\<close>

lemma transmit_frame:
  assumes "pub_ok e" and "\<not> bit (privFlags e) TRDP_REQ_2B_SENT" and "\<not> bit (privFlags e) TRDP_REDUNDANT"
    and "sock_at s (socketIdx e) = Inr fd" and "udp_send w (length (sent s)) = (True, grossSize e)"
  shows "\<exists>e'. pd_transmit w e err s = Inr (err, e', (upd_pd (\<lambda>p. p\<lparr>numSend := numSend p + 1\<rparr>) s)\<lparr>sent := sent s @
       [\<lparr>dg_fd = fd, dg_dest = (if pullIpAddress e \<noteq> 0 then pullIpAddress e else destIpAddr (addr e)), dg_port = pd_port s,
         dg_bytes = pFrame (trdp_pdUpdate e)\<rparr>]\<rparr>) \<and>
     pFrame e' = pFrame (trdp_pdUpdate e) \<and> curSeqCnt e' = curSeqCnt (trdp_pdUpdate e)"
proof -
  have "length (pFrame (trdp_pdUpdate e)) = unat (grossSize e)"
    using pdUpdate_pub_ok [OF assms(1)] by (simp add: pub_ok_def)
  moreover have "socketIdx e \<noteq> - 1" using assms(4) by (auto simp: sock_at_def split: if_splits)
  ultimately show ?thesis
    using assms(2-5) by (simp add: pd_transmit_def trdp_validTopoCounters_def trdp_pdSend_def Let_def)
qed

section \<open>Reception\<close>

lemma frame_prefix:
  assumes "40 \<le> length bs"
  shows "off + 4 \<le> 40 \<Longrightarrow> get32 off (bs @ r) = get32 off bs" "off + 2 \<le> 40 \<Longrightarrow> get16 off (bs @ r) = get16 off bs"
    "get_fcs (bs @ r) = get_fcs bs" "take 36 (bs @ r) = take 36 bs" "header_ok (bs @ r) = header_ok bs"
  using assms by (simp_all add: get32_def get16_def get_fcs_def slice_append header_ok_def)

text \<open>The address a received telegram is looked up with.\<close>

definition rx_addr :: "received \<Rightarrow> TRDP_ADDRESSES_T" where
  "rx_addr rx = \<lparr>comId = hdr_comId (rx_bytes rx), srcIpAddr = rx_src rx, destIpAddr = rx_dest rx, mcGroup = 0,
     etbTopoCnt = hdr_etbTopoCnt (rx_bytes rx), opTrnTopoCnt = hdr_opTrnTopoCnt (rx_bytes rx)\<rparr>"

definition rx_ok :: "received \<Rightarrow> bool" where
  "rx_ok rx \<longleftrightarrow> rx_err rx = TRDP_NO_ERR \<and> 40 \<le> length (rx_bytes rx) \<and> length (rx_bytes rx) \<le> 1472 \<and>
     header_ok (rx_bytes rx) \<and> get_fcs (rx_bytes rx) = le_bytes32 (vos_crc32 INITFCS (take 36 (rx_bytes rx)))"

lemma rx_ok_check:
  assumes "rx_ok rx"
  shows "trdp_pdCheck (rx_bytes rx @ r) (of_nat (length (rx_bytes rx))) = TRDP_NO_ERR"
proof -
  let ?n = "length (rx_bytes rx)"
  have "unat (of_nat ?n :: u32) = ?n" using assms by (simp add: rx_ok_def unat_of_nat)
  then have "40 \<le> (of_nat ?n :: u32)" "(of_nat ?n :: u32) \<le> 1472" using assms by (simp_all add: rx_ok_def word_le_nat_alt)
  then show ?thesis using assms by (simp add: rx_ok_def pdCheck_iff frame_prefix)
qed

lemma receive_found:
  assumes "rx_ok rx" and "hdr_msgType (rx_bytes rx) \<noteq> TRDP_MSG_PR"
  shows "trdp_pdReceive w alloc_ok rx s =
     (let s' = upd_pd (\<lambda>p. p\<lparr>numRcv := numRcv p + 1\<rparr>) (s\<lparr>pNewFrame := rx_bytes rx @ drop (length (rx_bytes rx)) (pNewFrame s)\<rparr>)
      in case trdp_queueFindSubAddr (pRcvQueue s) (rx_addr rx) of
           None \<Rightarrow> Inr (TRDP_NOSUB_ERR, s')
         | Some e \<Rightarrow> pd_subscribed w alloc_ok (rx_addr rx) e False s')"
proof -
  have l: "40 \<le> length (rx_bytes rx)" "length (rx_bytes rx) \<le> 1472" "rx_err rx = TRDP_NO_ERR" using assms(1) by (simp_all add: rx_ok_def)
  then have t: "take 1472 (rx_bytes rx) = rx_bytes rx" by simp
  show ?thesis
    using assms(2) l rx_ok_check [OF assms(1)]
    by (simp add: trdp_pdReceive_def Let_def t trdp_validTopoCounters_def pd_pull_def frame_prefix rx_addr_def split: option.splits)
qed

text \<open>What a subscription becomes when it takes over a telegram.\<close>

definition taken_over :: "received \<Rightarrow> u8 list \<Rightarrow> PD_ELE_T \<Rightarrow> PD_ELE_T \<Rightarrow> bool" where
  "taken_over rx fr e e' \<longleftrightarrow> ele e' = ele e \<and> pFrame e' = fr \<and> dataSize e' = hdr_datasetLength (rx_bytes rx) \<and>
     \<not> bit (privFlags e') TRDP_INVALID_DATA \<and> \<not> bit (privFlags e') TRDP_TIMED_OUT \<and> pktFlags e' = pktFlags e \<and>
     curSeqCnt e' = hdr_sequenceCounter (rx_bytes rx) \<and> addr e' = (addr e)\<lparr>destIpAddr := rx_dest rx\<rparr> \<and>
     last_seen e' = (last_seen e)((rx_src rx, hdr_msgType (rx_bytes rx)) \<mapsto> hdr_sequenceCounter (rx_bytes rx)) \<and> seq_ok e'"

lemma callback_session [simp]:
  "pRcvQueue (pd_callback i e d r s) = pRcvQueue s" "pNewFrame (pd_callback i e d r s) = pNewFrame s"
  by (simp_all add: pd_callback_def)

lemma seen_upd [simp]:
  "last_seen (e\<lparr>lastSrcIP := a, addr := b\<rparr>) = last_seen e" "seq_ok (e\<lparr>lastSrcIP := a, addr := b\<rparr>) = seq_ok e"
  "seq_count (e\<lparr>lastSrcIP := a, addr := b\<rparr>) = seq_count e"
  by (simp_all add: last_seen_def seq_ok_def seq_count_def)

lemma reset_fields:
  "trdp_resetSequenceCounter e src ty = e\<lparr>pSeqCntList := pSeqCntList (trdp_resetSequenceCounter e src ty)\<rparr>"
  by (simp add: trdp_resetSequenceCounter_def Let_def split: option.splits)

text \<open>The check of the counter when a telegram is new, with the reset that a zero counter causes.\<close>

lemma fresh_check:
  assumes "seq_ok e" and "seq_count e < 32768" and "last_seen e (src, ty) \<noteq> Some cnt \<or> cnt = 0"
  shows "\<exists>l. trdp_checkSequenceCounter True (if cnt = 0 then trdp_resetSequenceCounter e src ty else e) cnt src ty =
       Inr (0, e\<lparr>pSeqCntList := l\<rparr>) \<and>
     last_seen (e\<lparr>pSeqCntList := l\<rparr>) = (last_seen e)((src, ty) \<mapsto> cnt) \<and> seq_ok (e\<lparr>pSeqCntList := l\<rparr>)"
proof -
  let ?e = "if cnt = 0 then trdp_resetSequenceCounter e src ty else e"
  have ok: "seq_ok ?e" "seq_count ?e < 32768" using assms reset_last_seen [OF assms(1)] by simp_all
  have seen: "seen_check (last_seen ?e) (src, ty) cnt = (0, (last_seen e)((src, ty) \<mapsto> cnt))"
  proof (cases "cnt = 0")
    case True
    then show ?thesis
      by (cases "last_seen e (src, ty)") (simp_all add: seen_check_def reset_last_seen(1) [OF assms(1)])
  next
    case False
    then show ?thesis using assms(3) by (simp add: seen_check_def)
  qed
  from check_refines [OF ok, of cnt src ty] obtain e' where
    e': "trdp_checkSequenceCounter True ?e cnt src ty = Inr (0, e')" "last_seen e' = (last_seen e)((src, ty) \<mapsto> cnt)"
      "seq_ok e'" "e' = ?e\<lparr>pSeqCntList := pSeqCntList e'\<rparr>"
    unfolding seen fst_conv snd_conv by blast
  have "?e\<lparr>pSeqCntList := q\<rparr> = e\<lparr>pSeqCntList := q\<rparr>" for q
    by (cases "cnt = 0") (simp, subst reset_fields, simp_all)
  then have "e\<lparr>pSeqCntList := pSeqCntList e'\<rparr> = e'" using e'(4) by simp
  then show ?thesis using e'(1-3) by (intro exI [of _ "pSeqCntList e'"]) simp
qed

text \<open>Receiving a well-formed telegram that is new to its subscription.\<close>

lemma receive_fresh:
  assumes "rx_ok rx" and "hdr_msgType (rx_bytes rx) \<noteq> TRDP_MSG_PR"
    and "trdp_queueFindSubAddr (pRcvQueue s) (rx_addr rx) = Some e"
    and "seq_ok e" and "seq_count e < 32768"
    and "last_seen e (rx_src rx, hdr_msgType (rx_bytes rx)) \<noteq> Some (hdr_sequenceCounter (rx_bytes rx)) \<or>
         hdr_sequenceCounter (rx_bytes rx) = 0"
  shows "\<exists>e' s'. trdp_pdReceive w True rx s = Inr (TRDP_NO_ERR, s') \<and>
     pRcvQueue s' = upd_ele (pRcvQueue s) e' \<and>
     taken_over rx (rx_bytes rx @ drop (length (rx_bytes rx)) (pNewFrame s)) e e' \<and> pNewFrame s' = pFrame e"
proof -
  let ?b = "rx_bytes rx" let ?fr = "?b @ drop (length ?b) (pNewFrame s)"
  let ?a = "(addr e)\<lparr>destIpAddr := rx_dest rx\<rparr>"
  let ?e = "e\<lparr>lastSrcIP := rx_src rx, addr := ?a\<rparr>"
  have l: "40 \<le> length ?b" using assms(1) by (simp add: rx_ok_def)
  note fr = frame_prefix [OF l]
  from fresh_check [of ?e "rx_src rx" "hdr_msgType ?b" "hdr_sequenceCounter ?b"] assms(4-6) obtain q where
    q: "trdp_checkSequenceCounter True (if hdr_sequenceCounter ?b = 0 then trdp_resetSequenceCounter ?e (rx_src rx) (hdr_msgType ?b) else ?e)
          (hdr_sequenceCounter ?b) (rx_src rx) (hdr_msgType ?b) = Inr (0, ?e\<lparr>pSeqCntList := q\<rparr>)"
       "last_seen (?e\<lparr>pSeqCntList := q\<rparr>) = (last_seen e)((rx_src rx, hdr_msgType ?b) \<mapsto> hdr_sequenceCounter ?b)"
       "seq_ok (?e\<lparr>pSeqCntList := q\<rparr>)"
    by auto
  obtain i e' t where acc: "pd_accept w (?e\<lparr>pSeqCntList := q\<rparr>) False
      ((upd_pd (\<lambda>p. p\<lparr>numRcv := numRcv p + 1\<rparr>) (s\<lparr>pNewFrame := ?fr\<rparr>))\<lparr>seqcnt := (seqcnt s)(hdr_comId ?b mod 128 := hdr_sequenceCounter ?b)\<rparr>) = (i, e', t)"
    by (metis prod_cases3)
  have "taken_over rx ?fr e e'" "pRcvQueue t = pRcvQueue s" "pNewFrame t = pFrame e"
    using acc q(2,3)
    by (auto simp: pd_accept_def Let_def vos_getTime_def taken_over_def fr last_seen_def seq_ok_def clear_flag_def bit_simps)
  moreover have "trdp_pdReceive w True rx s =
      Inr (TRDP_NO_ERR, pd_callback i e' (rx_dest rx) TRDP_NO_ERR (t\<lparr>pRcvQueue := upd_ele (pRcvQueue t) e'\<rparr>))"
    using q(1) acc assms(3)
    by (cases "hdr_sequenceCounter ?b = 0")
       (simp_all add: receive_found [OF assms(1,2)] pd_subscribed_def trdp_validTopoCounters_def Let_def fr rx_addr_def)
  ultimately show ?thesis by (intro exI [of _ e']) simp
qed

text \<open>A telegram that repeats the last counter of its sender changes neither data nor flags.\<close>

lemma receive_duplicate:
  assumes "rx_ok rx" and "hdr_msgType (rx_bytes rx) \<noteq> TRDP_MSG_PR"
    and "trdp_queueFindSubAddr (pRcvQueue s) (rx_addr rx) = Some e"
    and "seq_ok e" and "seq_count e < 32768"
    and "last_seen e (rx_src rx, hdr_msgType (rx_bytes rx)) = Some (hdr_sequenceCounter (rx_bytes rx))"
    and "hdr_sequenceCounter (rx_bytes rx) \<noteq> 0"
  shows "\<exists>e' s'. trdp_pdReceive w True rx s = Inr (TRDP_NO_ERR, s') \<and> pRcvQueue s' = upd_ele (pRcvQueue s) e' \<and>
     pFrame e' = pFrame e \<and> dataSize e' = dataSize e \<and> privFlags e' = privFlags e \<and> timeToGo e' = timeToGo e \<and>
     last_seen e' = last_seen e \<and> calls s' = calls s"
proof -
  let ?b = "rx_bytes rx"
  let ?e = "e\<lparr>lastSrcIP := rx_src rx, addr := (addr e)\<lparr>destIpAddr := rx_dest rx\<rparr>\<rparr>"
  have l: "40 \<le> length ?b" using assms(1) by (simp add: rx_ok_def)
  note fr = frame_prefix [OF l]
  have "seen_check (last_seen ?e) (rx_src rx, hdr_msgType ?b) (hdr_sequenceCounter ?b) = (1, last_seen e)"
    using assms(6,7) by (simp add: seen_check_def)
  with check_refines [of ?e "hdr_sequenceCounter ?b" "rx_src rx" "hdr_msgType ?b"] assms(4,5) obtain e' where
    e': "trdp_checkSequenceCounter True ?e (hdr_sequenceCounter ?b) (rx_src rx) (hdr_msgType ?b) = Inr (1, e')"
      "last_seen e' = last_seen e" "e' = ?e\<lparr>pSeqCntList := pSeqCntList e'\<rparr>"
    by auto
  have "pFrame e' = pFrame e" "dataSize e' = dataSize e" "privFlags e' = privFlags e" "timeToGo e' = timeToGo e"
    by (subst e'(3), simp)+
  then show ?thesis
    using e'(1,2) assms(3,7)
    by (intro exI [of _ e'])
       (simp add: receive_found [OF assms(1,2)] pd_subscribed_def trdp_validTopoCounters_def Let_def fr rx_addr_def)
qed

end
