(* ===== verification/Trdp_Delivery.thy ===== *)
theory Trdp_Delivery
  imports Trdp_Link
begin

text \<open>
  Process data from publisher to subscriber, over \<^verbatim>\<open>trdp_pdcom.c\<close> as a whole: data that is put is
  what the subscriber gets, what a damaged, short or repeated telegram does, and which
  subscriptions later telegrams still reach.
\<close>

section \<open>Concrete publications and subscriptions\<close>

definition demo_addr :: TRDP_ADDRESSES_T where
  "demo_addr = \<lparr>comId = 1000, srcIpAddr = 0, destIpAddr = 0xEF000001, mcGroup = 0, etbTopoCnt = 0, opTrnTopoCnt = 0\<rparr>"

definition demo_ele :: "TRDP_ADDRESSES_T \<Rightarrow> u32 \<Rightarrow> nat \<Rightarrow> PD_ELE_T" where
  "demo_ele a n len =
     \<lparr>ele = 1, magic = 0, addr = a, lastSrcIP = 0, pullIpAddress = 0, redId = 0, curSeqCnt = 0, curSeqCnt4Pull = 0,
      pSeqCntList = None, numRxTx = 0, updPkts = 0, getPkts = 0, numMissed = 0, lastErr = TRDP_NO_ERR, privFlags = 4,
      pktFlags = 0, interval = \<lparr>tv_sec = 0, tv_usec = 100000\<rparr>, timeToGo = \<lparr>tv_sec = 5, tv_usec = 0\<rparr>,
      toBehavior = TRDP_TO_DEFAULT, dataSize = n, grossSize = trdp_packetSizePD n, sendSize = 0, socketIdx = 0,
      pUserRef = 0, pfCbFunction = False, pFrame = replicate len 0\<rparr>"

definition demo_pub :: PD_ELE_T where
  "demo_pub = trdp_pdInit (demo_ele demo_addr 4 44) TRDP_MSG_PD 0 0 0 0"

definition demo_sub :: PD_ELE_T where
  "demo_sub = demo_ele (demo_addr\<lparr>destIpAddr := 0\<rparr>) 0 1472"

definition demo_sock :: TRDP_SOCKETS_T where
  "demo_sock = \<lparr>sock = 7, bindAddr = 0, qos = 5, ttl = 64, sock_type = TRDP_SOCK_PD, rcvMostly = False, usage = 1,
     cornerIp = 0, notSend = False, connectionTimeout = vos_clearTime, sendNotOk = False, sendingTimeout = vos_clearTime,
     addFileDesc = False, morituri = False, mcGroups = replicate 20 0\<rparr>"

definition demo_session :: "PD_ELE_T list \<Rightarrow> PD_ELE_T list \<Rightarrow> TRDP_SESSION_T" where
  "demo_session sq rq =
     \<lparr>realIP = 0x0A000001, virtualIP = 0, redID = 0, sess_etbTopoCnt = 0, sess_opTrnTopoCnt = 0, nextJob = vos_clearTime,
      pdDefault = \<lparr>def_pfCbFunction = False, def_flags = 0, def_timeout = 100000, def_toBehavior = TRDP_TO_SET_TO_ZERO,
        def_port = 17224, def_qos = 5, def_ttl = 64\<rparr>, sess_option = 0,
      socks = \<lparr>iface = replicate 80 demo_sock, sCurrentMaxSocketCnt = 1, closed_fds = []\<rparr>, pSndQueue = sq, pRcvQueue = rq,
      pNewFrame = replicate 1472 0, initTime = vos_clearTime, stats = zero_stats, seqcnt = \<lambda>_. 0, time_reads = 0, sent = [],
      calls = []\<rparr>"

definition demo_world :: world where
  "demo_world = \<lparr>clock = \<lambda>_. \<lparr>tv_sec = 6, tv_usec = 0\<rparr>, udp_send = \<lambda>_. (True, 44), mem_count = \<lambda>_. mem zero_stats\<rparr>"

lemma demo_pub_ok: "pub_ok demo_pub"
  unfolding demo_pub_def
  by (rule pdInit_pub_ok) (simp_all add: demo_ele_def trdp_packetSizePD_def padded_size_def)

section \<open>Delivery\<close>

lemma find_sub_cong:
  "comId a = comId b \<Longrightarrow> srcIpAddr a = srcIpAddr b \<Longrightarrow> destIpAddr a = destIpAddr b \<Longrightarrow>
   trdp_queueFindSubAddr q a = trdp_queueFindSubAddr q b"
  by (induction q) (auto simp: sub_matches_def)

lemma find_sub_member: "trdp_queueFindSubAddr q a = Some e \<Longrightarrow> e \<in> set q"
  by (induction q) (auto split: if_splits)

lemma upd_ele_member: "e \<in> set q \<Longrightarrow> ele e' = ele e \<Longrightarrow> e' \<in> set (upd_ele q e')"
  by (force simp: upd_ele_def)

text \<open>Sending a queue of one due publication puts its updated frame on the wire.\<close>

lemma send_single:
  assumes "pub_ok e" and "\<not> bit (privFlags e) TRDP_REQ_2B_SENT" and "\<not> bit (privFlags e) TRDP_REDUNDANT"
    and "\<not> bit (privFlags e) TRDP_INVALID_DATA" and "pullIpAddress e = 0" and "hdr_msgType (pFrame e) \<noteq> TRDP_MSG_PR"
    and "is_due (clock w (time_reads s)) e"
    and "sock_at s (socketIdx e) = Inr fd" and "udp_send w (length (sent s)) = (True, grossSize e)"
  shows "\<exists>s'. trdp_pdSendQueued w (s\<lparr>pSndQueue := [e]\<rparr>) = Inr (TRDP_NO_ERR, s') \<and>
     sent s' = sent s @ [\<lparr>dg_fd = fd, dg_dest = destIpAddr (addr e), dg_port = pd_port s, dg_bytes = pFrame (trdp_pdUpdate e)\<rparr>]"
proof -
  let ?s = "s\<lparr>pSndQueue := [e], nextJob := vos_clearTime, time_reads := Suc (time_reads s)\<rparr>"
  have "sock_at ?s (socketIdx e) = Inr fd" "udp_send w (length (sent ?s)) = (True, grossSize e)"
    using assms(8,9) by (simp_all add: sock_at_def split: if_splits)
  from transmit_frame [OF assms(1-3) this, of TRDP_NO_ERR] assms(5) obtain e' where
    t: "pd_transmit w e TRDP_NO_ERR ?s = Inr (TRDP_NO_ERR, e', (upd_pd (\<lambda>p. p\<lparr>numSend := numSend p + 1\<rparr>) ?s)\<lparr>sent := sent s @
         [\<lparr>dg_fd = fd, dg_dest = destIpAddr (addr e), dg_port = pd_port s, dg_bytes = pFrame (trdp_pdUpdate e)\<rparr>]\<rparr>)"
    and e': "pFrame e' = pFrame (trdp_pdUpdate e)"
    by auto
  have l: "40 \<le> length (pFrame e)" using pub_ok_room [OF assms(1)] by simp
  have "hdr_msgType (pFrame (pd_rearm n e')) \<noteq> TRDP_MSG_PR" for n
    using e' assms(6) l pdUpdate_frame [OF l] by (auto simp: pd_rearm_def)
  then show ?thesis
    using assms(4,7) t by (simp add: trdp_pdSendQueued_def vos_getTime_def Let_def)
qed

lemma pub_frame_rx_ok:
  assumes "pub_ok e"
  shows "rx_ok \<lparr>rx_err = TRDP_NO_ERR, rx_bytes = pFrame (trdp_pdUpdate e), rx_src = src, rx_dest = dest\<rparr>"
  using pub_ok_room [OF assms] assms pdUpdate_frame [of e] by (simp add: rx_ok_def pub_ok_def header_ok_def)

text \<open>
  C17 (published_data_delivered): a subscriber gets what the publisher put. The bytes given to
  \<open>trdp_pdPut\<close> for a cyclic publication are sent when it is due, and the session that receives
  the datagram accepts it, and \<open>trdp_pdGet\<close> on the subscription that matches returns exactly
  those bytes, provided the telegram's counter is not the last one seen from that sender.
\<close>

theorem published_data_delivered:
  assumes "pub_ok e" and "dataSize e \<noteq> 0" and "length bs = unat (dataSize e)"
    and "\<not> bit (pktFlags e) TRDP_FLAGS_MARSHALL" and "hdr_msgType (pFrame e) = TRDP_MSG_PD"
    and "\<not> bit (privFlags e) TRDP_REQ_2B_SENT" and "\<not> bit (privFlags e) TRDP_REDUNDANT" and "pullIpAddress e = 0"
    and "is_due (clock w (time_reads s)) e"
    and "sock_at s (socketIdx e) = Inr fd" and "udp_send w (length (sent s)) = (True, grossSize e)"
    and "trdp_queueFindSubAddr (pRcvQueue r) ((addr e)\<lparr>srcIpAddr := src\<rparr>) = Some sub"
    and "seq_ok sub" and "seq_count sub < 32768" and "last_seen sub (src, TRDP_MSG_PD) \<noteq> Some (curSeqCnt e + 1)"
    and "\<not> bit (pktFlags sub) TRDP_FLAGS_MARSHALL" and "dataSize e \<le> room"
  shows "\<exists>e' s' d r' sub' sub''.
     trdp_pdPut True None e (Some bs) (dataSize e) = Inr (TRDP_NO_ERR, e') \<and>
     trdp_pdSendQueued w (s\<lparr>pSndQueue := [e']\<rparr>) = Inr (TRDP_NO_ERR, s') \<and> sent s' = sent s @ [d] \<and>
     trdp_pdReceive w' True \<lparr>rx_err = TRDP_NO_ERR, rx_bytes = dg_bytes d, rx_src = src, rx_dest = dg_dest d\<rparr> r =
       Inr (TRDP_NO_ERR, r') \<and>
     sub' \<in> set (pRcvQueue r') \<and> ele sub' = ele sub \<and>
     trdp_pdGet None sub' (Some room) = (TRDP_NO_ERR, Some bs, sub'')"
proof -
  let ?e = "with_data bs e" let ?f = "pFrame (trdp_pdUpdate ?e)"
  have "\<not> bit (pktFlags e) TRDP_FLAGS_MARSHALL \<or> None = None" by simp
  note put = pdPut_ok [OF assms(1,2,3,2) order.refl this]
  have l: "40 \<le> length (pFrame e)" using put(2) by simp
  have ok: "pub_ok ?e" using with_data_pub_ok [OF assms(1) put(2)] .
  have "\<exists>s'. trdp_pdSendQueued w (s\<lparr>pSndQueue := [?e]\<rparr>) = Inr (TRDP_NO_ERR, s') \<and>
     sent s' = sent s @ [\<lparr>dg_fd = fd, dg_dest = destIpAddr (addr ?e), dg_port = pd_port s, dg_bytes = ?f\<rparr>]"
    using assms(5-11) put(2) ok l by (intro send_single) (auto simp: is_due_def)
  then obtain s' where send: "trdp_pdSendQueued w (s\<lparr>pSndQueue := [?e]\<rparr>) = Inr (TRDP_NO_ERR, s')"
     "sent s' = sent s @ [\<lparr>dg_fd = fd, dg_dest = destIpAddr (addr e), dg_port = pd_port s, dg_bytes = ?f\<rparr>]" by auto
  let ?rx = "\<lparr>rx_err = TRDP_NO_ERR, rx_bytes = ?f, rx_src = src, rx_dest = destIpAddr (addr e)\<rparr>"
  have f: "hdr_msgType ?f = TRDP_MSG_PD" "hdr_comId ?f = comId (addr e)" "hdr_datasetLength ?f = dataSize e"
      "hdr_sequenceCounter ?f = curSeqCnt e + 1" "frame_data ?f = frame_data (overwrite 40 bs (pFrame e))" "length ?f = length (pFrame e)"
    using pdUpdate_frame [of ?e] pdUpdate_counter [of ?e] ok assms(1,5) put(2) l by (simp_all add: pub_ok_def)
  have "trdp_queueFindSubAddr (pRcvQueue r) (rx_addr ?rx) = Some sub"
    using assms(12) f(2) by (subst find_sub_cong [of _ "(addr e)\<lparr>srcIpAddr := src\<rparr>"]) (simp_all add: rx_addr_def)
  from receive_fresh [OF pub_frame_rx_ok [OF ok] _ this assms(13,14), of w'] f assms(15) obtain sub' r' where
    rcv: "trdp_pdReceive w' True ?rx r = Inr (TRDP_NO_ERR, r')" "pRcvQueue r' = upd_ele (pRcvQueue r) sub'"
      "taken_over ?rx (?f @ drop (length ?f) (pNewFrame r)) sub sub'" by auto
  have "sub' \<in> set (pRcvQueue r')"
    using rcv(2,3) assms(12) by (auto intro: upd_ele_member find_sub_member simp: taken_over_def)
  moreover have "\<exists>sub''. trdp_pdGet None sub' (Some room) = (TRDP_NO_ERR, Some bs, sub'')"
    using rcv(3) f(3,5,6) assms(3,17) put(2) by (auto simp: taken_over_def trdp_pdGet_def overwrite_def Let_def)
  ultimately show ?thesis using put(1) send rcv by (fastforce simp: taken_over_def)
qed

theorem published_data_delivered_witness:
  "\<exists>e' s' d r' sub' sub''.
     trdp_pdPut True None demo_pub (Some [1, 2, 3, 4]) 4 = Inr (TRDP_NO_ERR, e') \<and>
     trdp_pdSendQueued demo_world ((demo_session [] [])\<lparr>pSndQueue := [e']\<rparr>) = Inr (TRDP_NO_ERR, s') \<and> sent s' = [d] \<and>
     trdp_pdReceive demo_world True
       \<lparr>rx_err = TRDP_NO_ERR, rx_bytes = dg_bytes d, rx_src = 0x0A000001, rx_dest = dg_dest d\<rparr> (demo_session [] [demo_sub]) =
       Inr (TRDP_NO_ERR, r') \<and>
     sub' \<in> set (pRcvQueue r') \<and> ele sub' = ele demo_sub \<and>
     trdp_pdGet None sub' (Some 16) = (TRDP_NO_ERR, Some [1, 2, 3, 4], sub'')"
proof -
  have p: "dataSize demo_pub = 4" "pktFlags demo_pub = 0" "privFlags demo_pub = 4" "pullIpAddress demo_pub = 0"
    "socketIdx demo_pub = 0" "grossSize demo_pub = 44" "addr demo_pub = demo_addr" "curSeqCnt demo_pub = 0"
    "hdr_msgType (pFrame demo_pub) = TRDP_MSG_PD" "interval demo_pub = \<lparr>tv_sec = 0, tv_usec = 100000\<rparr>"
    "timeToGo demo_pub = \<lparr>tv_sec = 5, tv_usec = 0\<rparr>"
    by code_simp+
  show ?thesis
    using published_data_delivered [of demo_pub "[1, 2, 3, 4]" demo_world "demo_session [] []" 7 "demo_session [] [demo_sub]"
        "0x0A000001" demo_sub 16 demo_world] demo_pub_ok
    by (simp add: p is_due_def demo_world_def demo_session_def sock_at_def demo_sock_def timerisset_def timer_gt_def
        demo_sub_def demo_ele_def demo_addr_def sub_matches_def seq_ok_def seq_count_def last_seen_def)
qed

section \<open>Damaged and repeated telegrams\<close>

text \<open>
  C18 (damaged_header_rejected): a telegram that \<open>trdp_pdCheck\<close> accepts is answered with a CRC
  error once up to four consecutive bytes of its header, or of its check sum, are changed in any
  way; the receiving session only counts it.
\<close>

theorem damaged_header_rejected:
  assumes "rx_ok rx" and "length xs \<le> 4" and "k + length xs \<le> 36 \<or> 36 \<le> k \<and> k + length xs \<le> 40"
    and "overwrite k xs (rx_bytes rx) \<noteq> rx_bytes rx"
  shows "\<exists>fr. trdp_pdReceive w alloc_ok (rx\<lparr>rx_bytes := overwrite k xs (rx_bytes rx)\<rparr>) s =
     Inr (TRDP_CRC_ERR, upd_pd (\<lambda>p. p\<lparr>numCrcErr := numCrcErr p + 1\<rparr>) (s\<lparr>pNewFrame := fr\<rparr>))"
proof -
  let ?b = "rx_bytes rx" let ?r = "drop (length ?b) (pNewFrame s)"
  have l: "40 \<le> length ?b" "length ?b \<le> 1472" "rx_err rx = TRDP_NO_ERR" using assms(1) by (simp_all add: rx_ok_def)
  have k: "k + length xs \<le> length ?b" using assms(3) l by auto
  have o: "overwrite k xs (?b @ ?r) = overwrite k xs ?b @ ?r" using k by (simp add: overwrite_def)
  have "trdp_pdCheck (overwrite k xs ?b @ ?r) (of_nat (length ?b)) = TRDP_CRC_ERR"
    unfolding o [symmetric]
    by (rule corrupted_header [OF rx_ok_check [OF assms(1), of ?r]]) (use l assms k o in auto)
  then show ?thesis
    using l k by (intro exI [of _ "overwrite k xs ?b @ ?r"]) (simp add: trdp_pdReceive_def Let_def)
qed

definition demo_rx :: "u32 \<Rightarrow> received" where
  "demo_rx dest = \<lparr>rx_err = TRDP_NO_ERR, rx_bytes = pFrame (trdp_pdUpdate demo_pub), rx_src = 0x0A000001, rx_dest = dest\<rparr>"

lemma demo_rx_ok: "rx_ok (demo_rx dest)"
  unfolding demo_rx_def by (rule pub_frame_rx_ok [OF demo_pub_ok])

theorem damaged_header_rejected_witness:
  "overwrite 8 [0, 0, 4] (rx_bytes (demo_rx 0)) \<noteq> rx_bytes (demo_rx 0) \<and>
   (\<exists>fr. trdp_pdReceive demo_world True ((demo_rx 0)\<lparr>rx_bytes := overwrite 8 [0, 0, 4] (rx_bytes (demo_rx 0))\<rparr>)
       (demo_session [] [demo_sub]) =
     Inr (TRDP_CRC_ERR, upd_pd (\<lambda>p. p\<lparr>numCrcErr := 1\<rparr>) ((demo_session [] [demo_sub])\<lparr>pNewFrame := fr\<rparr>)))"
proof -
  let ?b = "pFrame (trdp_pdUpdate demo_pub)"
  have "overwrite 8 [0, 0, 4] ?b \<noteq> ?b" by code_simp
  moreover have "numCrcErr (pd (stats (demo_session [] [demo_sub]))) = 0" by (simp add: demo_session_def zero_stats_def)
  ultimately show ?thesis
    using damaged_header_rejected [of "demo_rx 0" "[0, 0, 4]" 8 demo_world True "demo_session [] [demo_sub]"] demo_rx_ok [of 0]
    by (simp add: demo_rx_def)
qed

text \<open>
  A telegram with the counter that was last received from the same sender, other than 0, leaves
  data, flags, time-out and counters of its subscription as they were, and the user is not called.
  Its source and destination addresses are taken over nevertheless.
\<close>

theorem repeated_telegram_ignored:
  assumes "rx_ok rx" and "hdr_msgType (rx_bytes rx) \<noteq> TRDP_MSG_PR"
    and "trdp_queueFindSubAddr (pRcvQueue s) (rx_addr rx) = Some e"
    and "seq_ok e" and "seq_count e < 32768"
    and "last_seen e (rx_src rx, hdr_msgType (rx_bytes rx)) = Some (hdr_sequenceCounter (rx_bytes rx))"
    and "hdr_sequenceCounter (rx_bytes rx) \<noteq> 0"
  shows "\<exists>e' s'. trdp_pdReceive w True rx s = Inr (TRDP_NO_ERR, s') \<and> pRcvQueue s' = upd_ele (pRcvQueue s) e' \<and>
     pFrame e' = pFrame e \<and> dataSize e' = dataSize e \<and> privFlags e' = privFlags e \<and> timeToGo e' = timeToGo e \<and>
     last_seen e' = last_seen e \<and> calls s' = calls s"
  using assms by (rule receive_duplicate)

definition seen_sub :: PD_ELE_T where
  "seen_sub = demo_sub\<lparr>pSeqCntList := Some \<lparr>maxNoOfEntries = 1, curNoOfEntries = 1,
     seq = [\<lparr>lastSeqCnt = 1, seq_srcIpAddr = 0x0A000001, seq_msgType = TRDP_MSG_PD\<rparr>,
            \<lparr>lastSeqCnt = 0, seq_srcIpAddr = 0, seq_msgType = 0\<rparr>]\<rparr>\<rparr>"

lemma demo_rx_fields:
  "hdr_msgType (rx_bytes (demo_rx d)) = TRDP_MSG_PD" "hdr_sequenceCounter (rx_bytes (demo_rx d)) = 1"
  "hdr_comId (rx_bytes (demo_rx d)) = 1000" "rx_src (demo_rx d) = 0x0A000001" "rx_dest (demo_rx d) = d"
  "hdr_datasetLength (rx_bytes (demo_rx d)) = 4" "length (rx_bytes (demo_rx d)) = 44"
proof -
  have "length (pFrame demo_pub) = 44" "hdr_msgType (pFrame demo_pub) = TRDP_MSG_PD" "curSeqCnt demo_pub = 0"
    by code_simp+
  moreover have "hdr_comId (pFrame demo_pub) = 1000" "hdr_datasetLength (pFrame demo_pub) = 4"
    using demo_pub_ok by (simp_all add: pub_ok_def) (simp_all add: demo_pub_def trdp_pdInit_def demo_ele_def demo_addr_def Let_def)
  ultimately have "hdr_msgType (pFrame (trdp_pdUpdate demo_pub)) = TRDP_MSG_PD" "hdr_sequenceCounter (pFrame (trdp_pdUpdate demo_pub)) = 1"
    "hdr_comId (pFrame (trdp_pdUpdate demo_pub)) = 1000" "hdr_datasetLength (pFrame (trdp_pdUpdate demo_pub)) = 4"
    "length (pFrame (trdp_pdUpdate demo_pub)) = 44"
    using pdUpdate_frame [of demo_pub] pdUpdate_counter [of demo_pub] by simp_all
  then show "hdr_msgType (rx_bytes (demo_rx d)) = TRDP_MSG_PD" "hdr_sequenceCounter (rx_bytes (demo_rx d)) = 1"
    "hdr_comId (rx_bytes (demo_rx d)) = 1000" "rx_src (demo_rx d) = 0x0A000001" "rx_dest (demo_rx d) = d"
    "hdr_datasetLength (rx_bytes (demo_rx d)) = 4" "length (rx_bytes (demo_rx d)) = 44"
    by (simp_all add: demo_rx_def)
qed

lemma demo_found:
  "comId (addr e) = 1000 \<Longrightarrow> srcIpAddr (addr e) = 0 \<Longrightarrow> destIpAddr (addr e) = 0 \<Longrightarrow>
   trdp_queueFindSubAddr [e] (rx_addr (demo_rx d)) = Some e"
  by (simp add: sub_matches_def rx_addr_def demo_rx_fields)

lemma demo_sub_addr [simp]:
  "comId (addr demo_sub) = 1000" "srcIpAddr (addr demo_sub) = 0" "destIpAddr (addr demo_sub) = 0"
  "comId (addr seen_sub) = 1000" "srcIpAddr (addr seen_sub) = 0" "destIpAddr (addr seen_sub) = 0"
  by (simp_all add: demo_sub_def seen_sub_def demo_ele_def demo_addr_def)

lemma demo_queue [simp]: "pRcvQueue (demo_session sq rq) = rq" "calls (demo_session sq rq) = []"
  by (simp_all add: demo_session_def)

lemma demo_seq [simp]:
  "seq_ok demo_sub" "seq_count demo_sub = 0" "last_seen demo_sub k = None"
  "seq_ok seen_sub" "seq_count seen_sub = 1" "last_seen seen_sub (0x0A000001, TRDP_MSG_PD) = Some 1"
  by (simp_all add: demo_sub_def seen_sub_def demo_ele_def seq_ok_def seq_count_def last_seen_def seq_list_ok_def seq_used_def seq_pairs_def)

theorem repeated_telegram_ignored_witness:
  "\<exists>e' s'. trdp_pdReceive demo_world True (demo_rx 5) (demo_session [] [seen_sub]) = Inr (TRDP_NO_ERR, s') \<and>
     pRcvQueue s' = upd_ele [seen_sub] e' \<and> pFrame e' = pFrame seen_sub \<and> dataSize e' = dataSize seen_sub \<and>
     privFlags e' = privFlags seen_sub \<and> timeToGo e' = timeToGo seen_sub \<and> last_seen e' = last_seen seen_sub \<and> calls s' = []"
  using repeated_telegram_ignored [OF demo_rx_ok [of 5], of "demo_session [] [seen_sub]" seen_sub demo_world]
    demo_found [of seen_sub 5]
  by (simp add: demo_rx_fields)

section \<open>Short telegrams and wildcards\<close>

text \<open>
  \<open>trdp_pdCheck\<close> does not compare the data length of the
  header with the number of bytes received. A telegram that ends before its announced data is
  taken over, and the user gets the bytes that the receive buffer held before in their place.
\<close>

theorem short_telegram_exposes_old_bytes:
  assumes "rx_ok rx" and "hdr_msgType (rx_bytes rx) \<noteq> TRDP_MSG_PR"
    and "trdp_queueFindSubAddr (pRcvQueue s) (rx_addr rx) = Some e"
    and "seq_ok e" and "seq_count e < 32768"
    and "last_seen e (rx_src rx, hdr_msgType (rx_bytes rx)) \<noteq> Some (hdr_sequenceCounter (rx_bytes rx))"
    and "length (rx_bytes rx) = 40" and "\<not> bit (pktFlags e) TRDP_FLAGS_MARSHALL"
    and "hdr_datasetLength (rx_bytes rx) \<le> room"
  shows "\<exists>s' e' e''. trdp_pdReceive w True rx s = Inr (TRDP_NO_ERR, s') \<and> pRcvQueue s' = upd_ele (pRcvQueue s) e' \<and>
     trdp_pdGet None e' (Some room) =
       (TRDP_NO_ERR, Some (take (unat (hdr_datasetLength (rx_bytes rx))) (drop 40 (pNewFrame s))), e'')"
proof -
  from receive_fresh [OF assms(1-5), of w] assms(6) obtain e' s' where
    r: "trdp_pdReceive w True rx s = Inr (TRDP_NO_ERR, s')" "pRcvQueue s' = upd_ele (pRcvQueue s) e'"
      "taken_over rx (rx_bytes rx @ drop (length (rx_bytes rx)) (pNewFrame s)) e e'"
    by blast
  moreover have "\<exists>e''. trdp_pdGet None e' (Some room) =
       (TRDP_NO_ERR, Some (take (unat (hdr_datasetLength (rx_bytes rx))) (drop 40 (pNewFrame s))), e'')"
    using r(3) assms(7-9) by (simp add: taken_over_def trdp_pdGet_def Let_def)
  ultimately show ?thesis by blast
qed

definition short_rx :: received where
  "short_rx = (demo_rx 5)\<lparr>rx_bytes := take 40 (rx_bytes (demo_rx 5))\<rparr>"

definition old_session :: TRDP_SESSION_T where
  "old_session = (demo_session [] [demo_sub])\<lparr>pNewFrame := replicate 1472 0xAA\<rparr>"

lemma short_rx_ok: "rx_ok short_rx" "length (rx_bytes short_rx) = 40"
  using demo_rx_ok [of 5] frame_prefix [where bs = "take 40 (rx_bytes (demo_rx 5))" and r = "drop 40 (rx_bytes (demo_rx 5))"] demo_rx_fields(7) [of 5]
  by (simp_all add: rx_ok_def short_rx_def)

lemma short_rx_fields:
  "hdr_msgType (rx_bytes short_rx) = TRDP_MSG_PD" "hdr_sequenceCounter (rx_bytes short_rx) = 1"
  "hdr_comId (rx_bytes short_rx) = 1000" "rx_src short_rx = 0x0A000001" "rx_dest short_rx = 5" "hdr_datasetLength (rx_bytes short_rx) = 4"
  using frame_prefix [where bs = "take 40 (rx_bytes (demo_rx 5))" and r = "drop 40 (rx_bytes (demo_rx 5))"] demo_rx_fields [of 5]
  by (simp_all add: short_rx_def)

theorem short_telegram_exposes_old_bytes_witness:
  "length (rx_bytes short_rx) = 40 \<and>
   (\<exists>s' e' e''. trdp_pdReceive demo_world True short_rx old_session = Inr (TRDP_NO_ERR, s') \<and>
     pRcvQueue s' = upd_ele [demo_sub] e' \<and>
     trdp_pdGet None e' (Some 16) = (TRDP_NO_ERR, Some [0xAA, 0xAA, 0xAA, 0xAA], e''))"
proof -
  have q: "pRcvQueue old_session = [demo_sub]" "pNewFrame old_session = replicate 1472 0xAA"
    by (simp_all add: old_session_def)
  have "replicate 4 (0xAA :: u8) = [0xAA, 0xAA, 0xAA, 0xAA]" by (simp add: numeral_eq_Suc)
  moreover have "trdp_queueFindSubAddr [demo_sub] (rx_addr short_rx) = Some demo_sub"
    by (simp add: sub_matches_def rx_addr_def short_rx_fields)
  moreover have "pktFlags demo_sub = 0" by (simp add: demo_sub_def demo_ele_def)
  ultimately show ?thesis
    using short_telegram_exposes_old_bytes [OF short_rx_ok(1), of old_session demo_sub 16 demo_world] short_rx_ok(2)
    by (simp add: q short_rx_fields)
qed

text \<open>
  A subscription for every destination address receives its
  first telegram and is then one for the destination of that telegram only: \<open>trdp_pdReceive\<close>
  stores the address in the field that \<open>trdp_queueFindSubAddr\<close> compares, and a telegram to
  another of the device's addresses finds no subscription.
\<close>

theorem wildcard_subscription_narrows:
  assumes "rx_ok rx" and "hdr_msgType (rx_bytes rx) \<noteq> TRDP_MSG_PR"
    and "pRcvQueue s = [e]" and "sub_matches (addr e) (rx_addr rx)" and "destIpAddr (addr e) = 0"
    and "seq_ok e" and "seq_count e < 32768"
    and "last_seen e (rx_src rx, hdr_msgType (rx_bytes rx)) \<noteq> Some (hdr_sequenceCounter (rx_bytes rx))"
    and "rx_ok rx'" and "hdr_msgType (rx_bytes rx') \<noteq> TRDP_MSG_PR"
    and "rx_dest rx \<noteq> 0" and "rx_dest rx' \<noteq> rx_dest rx"
  shows "\<exists>s' s''. trdp_pdReceive w True rx s = Inr (TRDP_NO_ERR, s') \<and>
     trdp_pdReceive w True rx' s' = Inr (TRDP_NOSUB_ERR, s'')"
proof -
  have "trdp_queueFindSubAddr (pRcvQueue s) (rx_addr rx) = Some e" using assms(3,4) by simp
  from receive_fresh [OF assms(1,2) this assms(6,7), of w] assms(8) obtain e' s' where
    r: "trdp_pdReceive w True rx s = Inr (TRDP_NO_ERR, s')" "pRcvQueue s' = upd_ele (pRcvQueue s) e'"
      "taken_over rx (rx_bytes rx @ drop (length (rx_bytes rx)) (pNewFrame s)) e e'"
    by blast
  then have "pRcvQueue s' = [e']" "destIpAddr (addr e') = rx_dest rx"
    using assms(3) by (simp_all add: upd_ele_def taken_over_def)
  then have "trdp_queueFindSubAddr (pRcvQueue s') (rx_addr rx') = None"
    using assms(11,12) by (simp add: sub_matches_def rx_addr_def)
  then show ?thesis using r(1) receive_found [OF assms(9,10), of w True s'] by simp
qed

theorem wildcard_subscription_narrows_witness:
  "\<exists>s' s''. trdp_pdReceive demo_world True (demo_rx 5) (demo_session [] [demo_sub]) = Inr (TRDP_NO_ERR, s') \<and>
     trdp_pdReceive demo_world True (demo_rx 6) s' = Inr (TRDP_NOSUB_ERR, s'')"
  using wildcard_subscription_narrows [OF demo_rx_ok [of 5] _ _ _ _ _ _ _ demo_rx_ok [of 6],
      of "demo_session [] [demo_sub]" demo_sub demo_world]
  by (simp add: demo_rx_fields sub_matches_def rx_addr_def)

text \<open>
  \<open>trdp_pdPut\<close> checks the size of the data against the largest
  telegram but not against the frame that was allocated when the publication was made. More data
  than that frame has room for is written past its end.
\<close>

theorem oversized_put_overflows:
  assumes "pub_ok e" and "dataSize e \<noteq> 0" and "length bs = unat n" and "n \<le> 1432"
    and "unat n > length (pFrame e) - 40" and "\<not> bit (pktFlags e) TRDP_FLAGS_MARSHALL"
  shows "trdp_pdPut alloc_ok m e (Some bs) n = Inl OutOfBounds"
  using assms by (rule pdPut_overflow)

theorem oversized_put_overflows_witness:
  "trdp_pdPut True None demo_pub (Some [1, 2, 3, 4, 5]) 5 = Inl OutOfBounds"
proof -
  have "dataSize demo_pub = 4" "pktFlags demo_pub = 0" "length (pFrame demo_pub) = 44" by code_simp+
  then show ?thesis using oversized_put_overflows [of demo_pub "[1, 2, 3, 4, 5]" 5 True None] demo_pub_ok by simp
qed

section \<open>Duplicates as a map\<close>

text \<open>
  C20 (counter_check_refines_map): the growing array of \<open>trdp_checkSequenceCounter\<close> implements a map
  from sender and message type to the last counter. A counter is reported as a duplicate exactly
  if it is the last one of that sender and not zero, and the map is updated otherwise; nothing
  else of the subscription changes.
\<close>

theorem counter_check_refines_map:
  assumes "seq_ok e" and "seq_count e < 32768"
  shows "\<exists>e'. trdp_checkSequenceCounter True e cnt src ty = Inr (fst (seen_check (last_seen e) (src, ty) cnt), e') \<and>
     last_seen e' = snd (seen_check (last_seen e) (src, ty) cnt) \<and> seq_ok e' \<and> e' = e\<lparr>pSeqCntList := pSeqCntList e'\<rparr>"
  using assms by (rule check_refines)

theorem counter_check_refines_map_witness:
  "\<exists>e'. trdp_checkSequenceCounter True seen_sub 1 0x0A000001 TRDP_MSG_PD = Inr (1, e') \<and> last_seen e' = last_seen seen_sub"
  using counter_check_refines_map [of seen_sub 1 "0x0A000001" TRDP_MSG_PD] by (auto simp: seen_check_def)

end
