(* ===== verification/Trdp_Timing.thy ===== *)
theory Trdp_Timing
  imports Trdp_Delivery
begin

text \<open>
  Time in \<^verbatim>\<open>trdp_pdcom.c\<close>: when a cyclic publication is sent next, when a subscription times
  out, and how long the caller may sleep.
\<close>

section \<open>The next time to send\<close>

lemma clock_rounding:
  assumes "time_ok t"
  shows "time_ok (t\<lparr>tv_usec := tv_usec t - tv_usec t mod 10000\<rparr>)"
    and "usecs (t\<lparr>tv_usec := tv_usec t - tv_usec t mod 10000\<rparr>) \<le> usecs t"
    and "usecs t < usecs (t\<lparr>tv_usec := tv_usec t - tv_usec t mod 10000\<rparr>) + 10000"
proof -
  let ?u = "tv_usec t"
  define r where "r = ?u mod 10000"
  have "0 \<le> r" "r < 10000" "r \<le> ?u"
    using assms zmod_le_nonneg_dividend [of ?u 10000] unfolding r_def by (simp_all add: time_ok_def)
  then show "time_ok (t\<lparr>tv_usec := ?u - ?u mod 10000\<rparr>)"
      "usecs (t\<lparr>tv_usec := ?u - ?u mod 10000\<rparr>) \<le> usecs t" "usecs t < usecs (t\<lparr>tv_usec := ?u - ?u mod 10000\<rparr>) + 10000"
    using assms unfolding r_def [symmetric] by (simp_all add: time_ok_def usecs_def)
qed

lemma next_time_cases:
  assumes "time_ok now" and "time_ok (timeToGo e)" and "time_ok (interval e)"
  shows "usecs now < usecs (timeToGo e) + usecs (interval e) \<Longrightarrow>
      usecs (next_time now e) = usecs (timeToGo e) + usecs (interval e)"
    and "usecs (timeToGo e) + usecs (interval e) \<le> usecs now \<Longrightarrow>
      usecs (next_time now e) \<le> usecs now + usecs (interval e) \<and> usecs now + usecs (interval e) < usecs (next_time now e) + 10000"
    and "time_ok (next_time now e)"
proof -
  let ?t = "vos_addTime (timeToGo e) (interval e)" and ?n = "vos_addTime now (interval e)"
  have t: "time_ok ?t" "usecs ?t = usecs (timeToGo e) + usecs (interval e)" using assms by (simp_all add: vos.add_ok vos.add_val)
  have n: "time_ok ?n" "usecs ?n = usecs now + usecs (interval e)" using assms by (simp_all add: vos.add_ok vos.add_val)
  have c: "vos_cmpTime ?t now \<le> 0 \<longleftrightarrow> usecs ?t \<le> usecs now" using t assms(1) by (rule_tac vos.cmp_le_iff)
  note r = clock_rounding [OF n(1)]
  show "usecs now < usecs (timeToGo e) + usecs (interval e) \<Longrightarrow> usecs (next_time now e) = usecs (timeToGo e) + usecs (interval e)"
    using c t by (simp add: next_time_def Let_def)
  show "usecs (timeToGo e) + usecs (interval e) \<le> usecs now \<Longrightarrow>
      usecs (next_time now e) \<le> usecs now + usecs (interval e) \<and> usecs now + usecs (interval e) < usecs (next_time now e) + 10000"
    using c t r(2,3) n(2) by (simp add: next_time_def Let_def)
  show "time_ok (next_time now e)" using t n r(1) by (simp add: next_time_def Let_def)
qed

text \<open>
  C21 (cyclic_publication_rearmed): a cyclic publication that was due and has been sent is due
  again within one interval, and not at once, if the interval is at least 10 ms. One that is
  less than an interval late keeps its phase.
\<close>

theorem cyclic_publication_rearmed:
  assumes "time_ok now" and "time_ok (timeToGo e)" and "time_ok (interval e)" and "10000 \<le> usecs (interval e)"
    and "is_due now e" and "\<not> bit (privFlags e) TRDP_REQ_2B_SENT"
  defines "e' \<equiv> pd_rearm now e"
  shows "usecs now < usecs (timeToGo e') \<and> usecs (timeToGo e') \<le> usecs now + usecs (interval e) \<and> \<not> is_due now e' \<and>
     (usecs now < usecs (timeToGo e) + usecs (interval e) \<longrightarrow> usecs (timeToGo e') = usecs (timeToGo e) + usecs (interval e))"
proof -
  have i: "timerisset (interval e)" using assms(3,4) by (auto simp: timerisset_val)
  then have e': "timeToGo e' = next_time now e" "interval e' = interval e" "\<not> bit (privFlags e') TRDP_REQ_2B_SENT"
    using assms(6) flag_simps(2) [of TRDP_REQ_2B_SENT "e\<lparr>timeToGo := next_time now e\<rparr>"] by (simp_all add: e'_def pd_rearm_def)
  have d: "usecs (timeToGo e) \<le> usecs now"
    using assms(1,2,5,6) by (auto simp: is_due_def timer_gt_lt timer_lt_val)
  note n = next_time_cases [OF assms(1-3)]
  have w: "usecs now < usecs (timeToGo e')" "usecs (timeToGo e') \<le> usecs now + usecs (interval e)"
    unfolding e' using n(1,2) d assms(4) by (cases "usecs now < usecs (timeToGo e) + usecs (interval e)"; simp)+
  then have "\<not> is_due now e'"
    using e' n(3) assms(1) by (simp add: is_due_def timer_gt_lt timer_lt_val)
  then show ?thesis using w n(1) e'(1) by simp
qed

theorem cyclic_publication_rearmed_witness:
  "usecs (timeToGo (pd_rearm \<lparr>tv_sec = 5, tv_usec = 30000\<rparr> demo_pub)) = 5100000"
proof -
  have p: "interval demo_pub = \<lparr>tv_sec = 0, tv_usec = 100000\<rparr>" "timeToGo demo_pub = \<lparr>tv_sec = 5, tv_usec = 0\<rparr>"
    "\<not> bit (privFlags demo_pub) TRDP_REQ_2B_SENT"
    by code_simp+
  show ?thesis
    using cyclic_publication_rearmed [of "\<lparr>tv_sec = 5, tv_usec = 30000\<rparr>" demo_pub]
    by (simp add: p time_ok_def usecs_def is_due_def timer_gt_def timerisset_def)
qed

section \<open>Time-outs\<close>

lemma timeout_queue_eq:
  "fst (timeout_queue now q s) = map (\<lambda>e. if is_late now e then pd_timed_out e else e) q \<and>
   numTimeout (pd (stats (snd (timeout_queue now q s)))) = numTimeout (pd (stats s)) + of_nat (length (filter (is_late now) q)) \<and>
   pRcvQueue (snd (timeout_queue now q s)) = pRcvQueue s"
  by (induction now q s rule: timeout_queue.induct) (auto simp: Let_def case_prod_beta)

lemma timed_out_not_late: "\<not> is_late now' (pd_timed_out e)"
  by (simp add: is_late_def pd_timed_out_def)

text \<open>
  C22 (timeouts_flagged_once): a run of \<open>trdp_pdHandleTimeOuts\<close> marks exactly the subscriptions
  that are late at the time it reads, counts them, and leaves none that is still late then: no
  time-out is reported twice. A marked subscription gives its user a time-out error instead of
  data unless it has none.
\<close>

theorem timeouts_flagged_once:
  fixes w s
  defines "now \<equiv> clock w (time_reads s)" and "s' \<equiv> trdp_pdHandleTimeOuts w s"
  shows "pRcvQueue s' = map (\<lambda>e. if is_late now e then pd_timed_out e else e) (pRcvQueue s) \<and>
     numTimeout (pd (stats s')) = numTimeout (pd (stats s)) + of_nat (length (filter (is_late now) (pRcvQueue s))) \<and>
     filter (is_late now) (pRcvQueue s') = [] \<and>
     (case trdp_pdGet u (pd_timed_out e) room of (err, d, _) \<Rightarrow> err \<in> {TRDP_NODATA_ERR, TRDP_TIMEOUT_ERR} \<and> d = None)"
proof -
  have q: "pRcvQueue s' = map (\<lambda>e. if is_late now e then pd_timed_out e else e) (pRcvQueue s)"
    "numTimeout (pd (stats s')) = numTimeout (pd (stats s)) + of_nat (length (filter (is_late now) (pRcvQueue s)))"
    using timeout_queue_eq [of now "pRcvQueue s" "s\<lparr>time_reads := Suc (time_reads s)\<rparr>"]
    by (simp_all add: s'_def now_def trdp_pdHandleTimeOuts_def vos_getTime_def case_prod_beta)
  have "filter (is_late now) (pRcvQueue s') = []"
    unfolding q(1) by (auto simp: filter_empty_conv timed_out_not_late)
  moreover have "bit (privFlags (pd_timed_out e)) TRDP_TIMED_OUT" by (simp add: pd_timed_out_def)
  then have "case trdp_pdGet u (pd_timed_out e) room of (err, d, _) \<Rightarrow> err \<in> {TRDP_NODATA_ERR, TRDP_TIMEOUT_ERR} \<and> d = None"
    by (simp add: trdp_pdGet_def Let_def)
  ultimately show ?thesis using q by blast
qed

section \<open>The next job\<close>

lemma earlier_least:
  assumes "time_ok t" and "time_ok job" and "timerisset t"
  shows "earlier t job \<in> {t, job}" "timerisset (earlier t job)" "usecs (earlier t job) \<le> usecs t"
    "timerisset job \<Longrightarrow> usecs (earlier t job) \<le> usecs job" "time_ok (earlier t job)"
  using assms by (auto simp: earlier_def timer_lt_val)

text \<open>The earliest of a list of times, or the job time there was.\<close>

lemma foldl_earlier:
  assumes "\<forall>t \<in> set ts. time_ok t \<and> timerisset t" and "time_ok job"
  defines "j \<equiv> foldl (\<lambda>job t. earlier t job) job ts"
  shows "time_ok j \<and> (j \<in> set ts \<or> j = job) \<and> (\<forall>t \<in> set ts. usecs j \<le> usecs t) \<and> (timerisset job \<longrightarrow> timerisset j \<and> usecs j \<le> usecs job) \<and>
     (ts \<noteq> [] \<longrightarrow> timerisset j)"
  using assms(1,2) unfolding j_def
proof (induction ts arbitrary: job)
  case (Cons t ts)
  note e = earlier_least [of t job]
  have "time_ok (earlier t job)" "timerisset (earlier t job)" using Cons.prems e by auto
  with Cons.IH [of "earlier t job"] Cons.prems e show ?case by (auto intro: order_trans)
qed simp

text \<open>The times at which a session has something to do.\<close>

definition pending_times :: "TRDP_SESSION_T \<Rightarrow> vos_timeval list" where
  "pending_times s =
     map timeToGo (filter (\<lambda>e. \<not> bit (privFlags e) TRDP_TIMED_OUT \<and> timerisset (interval e)) (pRcvQueue s)) @
     map timeToGo (filter (\<lambda>e. timerisset (interval e)) (pSndQueue s))"

lemma pending_snd_eq:
  "pending_snd q job = foldl (\<lambda>job t. earlier t job) job (map timeToGo (filter (\<lambda>e. timerisset (interval e)) q))"
  by (induction q arbitrary: job) (simp_all add: pending_snd_def)

lemma pending_rcv_step:
  assumes "pending_rcv p (e # es) job fds n = Inr r"
  defines "fd \<equiv> sock (iface p ! nat (socketIdx e))"
  shows "\<exists>fds' n'. pending_rcv p es (if \<not> bit (privFlags e) TRDP_TIMED_OUT \<and> timerisset (interval e) then earlier (timeToGo e) job else job)
      fds' n' = Inr r \<and> set fds' = (if socketIdx e = - 1 \<or> fd = - 1 then set fds else insert fd (set fds))"
proof -
  consider "socketIdx e = - 1" | "socketIdx e \<noteq> - 1" "fd \<noteq> - 1" "fd \<notin> set fds" | "socketIdx e \<noteq> - 1" "fd = - 1 \<or> fd \<in> set fds" by blast
  then show ?thesis
  proof cases
    case 1
    then show ?thesis using assms(1) by (intro exI [of _ fds] exI [of _ n]) (simp add: Let_def)
  next
    case 2
    then show ?thesis
      using assms(1) unfolding fd_def
      by (intro exI [of _ "fds @ [fd]"] exI [of _ "max n fd"]) (auto simp: Let_def fd_def split: if_split_asm)
  next
    case 3
    then show ?thesis
      using assms(1) unfolding fd_def
      by (intro exI [of _ fds] exI [of _ n]) (auto simp: Let_def split: if_split_asm)
  qed
qed

lemma pending_rcv_result:
  "pending_rcv p q job fds n = Inr (job', fds', n') \<Longrightarrow>
   job' = foldl (\<lambda>job t. earlier t job) job
     (map timeToGo (filter (\<lambda>e. \<not> bit (privFlags e) TRDP_TIMED_OUT \<and> timerisset (interval e)) q)) \<and>
   set fds' = set fds \<union> {fd. fd \<noteq> - 1 \<and> (\<exists>e \<in> set q. socketIdx e \<noteq> - 1 \<and> fd = sock (iface p ! nat (socketIdx e)))}"
proof (induction q arbitrary: job fds n)
  case (Cons e q)
  from pending_rcv_step [OF Cons.prems] obtain fds1 n1 where
    r: "pending_rcv p q (if \<not> bit (privFlags e) TRDP_TIMED_OUT \<and> timerisset (interval e) then earlier (timeToGo e) job else job)
      fds1 n1 = Inr (job', fds', n')"
    and f: "set fds1 = (if socketIdx e = - 1 \<or> sock (iface p ! nat (socketIdx e)) = - 1 then set fds
       else insert (sock (iface p ! nat (socketIdx e))) (set fds))" by blast
  from Cons.IH [OF r] f show ?case by (cases "socketIdx e = - 1 \<or> sock (iface p ! nat (socketIdx e)) = - 1") auto
qed simp

text \<open>
  C23 (next_job_is_earliest): \<open>trdp_pdCheckPending\<close> tells the caller to be back at the earliest
  time at which a publication is to be sent or a subscription times out, and at none if there
  is nothing to do, and to wait on exactly the open sockets of the subscriptions besides those it
  was given.
\<close>

theorem next_job_is_earliest:
  assumes "trdp_pdCheckPending fds n s = Inr (fds', n', s')" and "\<forall>t \<in> set (pending_times s). time_ok t \<and> timerisset t"
  shows "(if pending_times s = [] then nextJob s' = vos_clearTime
          else nextJob s' \<in> set (pending_times s) \<and> (\<forall>t \<in> set (pending_times s). usecs (nextJob s') \<le> usecs t)) \<and>
     set fds' = set fds \<union> {fd. fd \<noteq> - 1 \<and> (\<exists>e \<in> set (pRcvQueue s). socketIdx e \<noteq> - 1 \<and> fd = sock (iface (socks s) ! nat (socketIdx e)))}"
proof -
  obtain job where r: "pending_rcv (socks s) (pRcvQueue s) vos_clearTime fds n = Inr (job, fds', n')"
    and j: "nextJob s' = pending_snd (pSndQueue s) job"
    using assms(1) by (auto simp: trdp_pdCheckPending_def split: sum.splits)
  have j: "nextJob s' = foldl (\<lambda>job t. earlier t job) vos_clearTime (pending_times s)"
    using j pending_rcv_result [OF r] by (simp add: pending_times_def pending_snd_eq)
  have "nextJob s' \<in> set (pending_times s) \<and> (\<forall>t \<in> set (pending_times s). usecs (nextJob s') \<le> usecs t)"
    if "pending_times s \<noteq> []"
    using that foldl_earlier [OF assms(2), of vos_clearTime] unfolding j [symmetric] by auto
  then show ?thesis using j pending_rcv_result [OF r] by simp
qed

theorem next_job_is_earliest_witness:
  "\<exists>fds n s'. trdp_pdCheckPending [] 0 (demo_session [demo_pub] [demo_sub]) = Inr (fds, n, s') \<and>
     nextJob s' = \<lparr>tv_sec = 5, tv_usec = 0\<rparr> \<and> set fds = {7}"
proof -
  have p: "interval demo_pub = \<lparr>tv_sec = 0, tv_usec = 100000\<rparr>" "timeToGo demo_pub = \<lparr>tv_sec = 5, tv_usec = 0\<rparr>" by code_simp+
  have t: "pending_times (demo_session [demo_pub] [demo_sub]) = [\<lparr>tv_sec = 5, tv_usec = 0\<rparr>, \<lparr>tv_sec = 5, tv_usec = 0\<rparr>]"
    by (simp add: pending_times_def demo_session_def p demo_sub_def demo_ele_def timerisset_def)
  have s: "socketIdx demo_sub = 0" "iface (socks (demo_session [demo_pub] [demo_sub])) = replicate 80 demo_sock" "sock demo_sock = 7"
    by (simp_all add: demo_sub_def demo_ele_def demo_session_def demo_sock_def)
  obtain fds n s' where c: "trdp_pdCheckPending [] 0 (demo_session [demo_pub] [demo_sub]) = Inr (fds, n, s')"
    by (simp add: trdp_pdCheckPending_def s Let_def)
  have "\<forall>t \<in> set (pending_times (demo_session [demo_pub] [demo_sub])). time_ok t \<and> timerisset t"
    by (simp add: t time_ok_def timerisset_def)
  from next_job_is_earliest [OF c this] have "nextJob s' = \<lparr>tv_sec = 5, tv_usec = 0\<rparr>" "set fds = {fd. fd = 7 \<and> fd \<noteq> - 1}"
    by (simp_all add: t s)
  moreover have "{fd :: int. fd = 7 \<and> fd \<noteq> - 1} = {7}" by auto
  ultimately show ?thesis using c by auto
qed

end
