(* ===== verification/Trdp_If.thy ===== *)
theory Trdp_If
  imports Trdp_Pd
begin

text \<open>
  The process data interface of the stack, \<^verbatim>\<open>app/trdp/tcnopen/trdp_if.c\<close>: opening a session,
  publishing, subscribing, requesting, and the calls that drive a session.

  A handle of a session is \<open>None\<close> when \<open>trdp_isValidSession\<close> does not find it. A publication or
  subscription is named by the address of its element; an address that is in no queue is one
  whose magic number was cleared when it was freed. The session mutex is not modelled: a call is
  one step. The functions that serve message data as well are here those of a build with
  \<open>MD_SUPPORT=0\<close>, which the Makefile offers; \<open>Trdp_Md_If\<close> has what the other build adds to them.
  Topography counters that the source leaves uninitialised are zero, and the handles to return
  are always asked for.
\<close>

abbreviation (input) TRDP_MAGIC_PUB_HNDL_VALUE :: u32 where "TRDP_MAGIC_PUB_HNDL_VALUE \<equiv> 0xCAFEBABE"
abbreviation (input) TRDP_MAGIC_SUB_HNDL_VALUE :: u32 where "TRDP_MAGIC_SUB_HNDL_VALUE \<equiv> 0xBABECAFE"
abbreviation (input) TRDP_TIMER_GRANULARITY :: u32 where "TRDP_TIMER_GRANULARITY \<equiv> 10000"
abbreviation (input) TRDP_TIMER_FOREVER :: u32 where "TRDP_TIMER_FOREVER \<equiv> 0xffffffff"
abbreviation (input) TRDP_FLAGS_DEFAULT :: u8 where "TRDP_FLAGS_DEFAULT \<equiv> 0"
abbreviation (input) TRDP_FLAGS_NONE :: nat where "TRDP_FLAGS_NONE \<equiv> 0"
abbreviation (input) TRDP_MC_JOINT :: nat where "TRDP_MC_JOINT \<equiv> 0"
abbreviation (input) TRDP_PD_DEFAULT_TIMEOUT :: u32 where "TRDP_PD_DEFAULT_TIMEOUT \<equiv> 100000"
abbreviation (input) TRDP_PD_UDP_PORT :: u16 where "TRDP_PD_UDP_PORT \<equiv> 17224"
abbreviation (input) TRDP_PD_DEFAULT_QOS :: u8 where "TRDP_PD_DEFAULT_QOS \<equiv> 5"
abbreviation (input) TRDP_PD_DEFAULT_TTL :: u8 where "TRDP_PD_DEFAULT_TTL \<equiv> 64"

section \<open>Sessions\<close>

record TRDP_PROCESS_CONFIG_T =
  pc_hostName :: "u8 list"
  pc_leaderName :: "u8 list"
  cycleTime :: u32
  priority :: u32
  options :: u8

text \<open>A default is taken over where the session still has the built-in value.\<close>

definition config_pd :: "TRDP_PD_CONFIG_T \<Rightarrow> TRDP_PD_CONFIG_T \<Rightarrow> TRDP_PD_CONFIG_T" where
  "config_pd c d =
     (let d = (if \<not> def_pfCbFunction d \<and> def_pfCbFunction c then d\<lparr>def_pfCbFunction := True\<rparr> else d);
          d = (if def_flags c \<noteq> TRDP_FLAGS_DEFAULT \<and> \<not> bit (def_flags c) TRDP_FLAGS_NONE
               then d\<lparr>def_flags := def_flags d OR def_flags c\<rparr> else d);
          d = (if def_port d = TRDP_PD_UDP_PORT \<and> def_port c \<noteq> 0 then d\<lparr>def_port := def_port c\<rparr> else d);
          d = (if def_timeout d = TRDP_PD_DEFAULT_TIMEOUT \<and> def_timeout c \<noteq> 0 then d\<lparr>def_timeout := def_timeout c\<rparr> else d);
          d = (if def_toBehavior d = TRDP_TO_DEFAULT \<and> def_toBehavior c \<noteq> TRDP_TO_DEFAULT
               then d\<lparr>def_toBehavior := def_toBehavior c\<rparr> else d);
          d = (if def_qos d = TRDP_PD_DEFAULT_QOS \<and> def_qos c \<noteq> TRDP_PD_DEFAULT_QOS \<and> def_qos c \<noteq> 0
               then d\<lparr>def_qos := def_qos c\<rparr> else d)
      in if def_ttl d = TRDP_PD_DEFAULT_TTL \<and> def_ttl c \<noteq> TRDP_PD_DEFAULT_TTL \<and> def_ttl c \<noteq> 0
         then d\<lparr>def_ttl := def_ttl c\<rparr> else d)"

definition tlc_configSession ::
  "TRDP_PROCESS_CONFIG_T option \<Rightarrow> TRDP_PD_CONFIG_T option \<Rightarrow> TRDP_SESSION_T \<Rightarrow> TRDP_SESSION_T" where
  "tlc_configSession proc pdc s =
     (let s = (case proc of
                 None \<Rightarrow> s
               | Some c \<Rightarrow> s\<lparr>sess_option := options c,
                    stats := (stats s)\<lparr>processCycle := cycleTime c, processPrio := priority c,
                      hostName := vos_strncpy (hostName (stats s)) (pc_hostName c) 15,
                      leaderName := vos_strncpy (leaderName (stats s)) (pc_leaderName c) 15\<rparr>\<rparr>)
      in case pdc of None \<Rightarrow> s | Some c \<Rightarrow> s\<lparr>pdDefault := config_pd c (pdDefault s)\<rparr>)"

text \<open>A session as \<open>tlc_openSession\<close> finds it after clearing its memory; the pool has the static high-water mark.\<close>

definition zero_socket :: TRDP_SOCKETS_T where
  "zero_socket = \<lparr>sock = 0, bindAddr = 0, qos = 0, ttl = 0, sock_type = TRDP_SOCK_PD, rcvMostly = False, usage = 0,
     cornerIp = 0, notSend = False, connectionTimeout = vos_clearTime, sendNotOk = False, sendingTimeout = vos_clearTime,
     addFileDesc = False, morituri = False, mcGroups = replicate VOS_MAX_MULTICAST_CNT 0\<rparr>"

definition zero_session :: "nat \<Rightarrow> TRDP_SESSION_T" where
  "zero_session cnt =
     \<lparr>realIP = 0, virtualIP = 0, redID = 0, sess_etbTopoCnt = 0, sess_opTrnTopoCnt = 0, nextJob = vos_clearTime,
      pdDefault = \<lparr>def_pfCbFunction = False, def_flags = 0, def_timeout = 0, def_toBehavior = TRDP_TO_DEFAULT,
        def_port = 0, def_qos = 0, def_ttl = 0\<rparr>, sess_option = 0,
      socks = \<lparr>iface = replicate VOS_MAX_SOCKET_CNT zero_socket, sCurrentMaxSocketCnt = cnt, closed_fds = []\<rparr>,
      pSndQueue = [], pRcvQueue = [], pNewFrame = [], initTime = vos_clearTime, stats = zero_stats,
      seqcnt = \<lambda>_. 0, time_reads = 0, sent = [], calls = []\<rparr>"

text \<open>\<open>inited\<close> is the state of the stack; the two flags are the allocation of the session and of its buffer.\<close>

definition tlc_openSession ::
  "world \<Rightarrow> u8 \<times> u8 \<times> u8 \<times> u8 \<Rightarrow> bool \<Rightarrow> bool \<Rightarrow> bool \<Rightarrow> nat \<Rightarrow> u32 \<Rightarrow> u32 \<Rightarrow> TRDP_PD_CONFIG_T option \<Rightarrow>
   TRDP_PROCESS_CONFIG_T option \<Rightarrow> TRDP_ERR_T \<times> TRDP_SESSION_T option" where
  "tlc_openSession w v inited alloc_s alloc_f cnt ownIp leaderIp pdc proc =
     (if \<not> inited then (TRDP_INIT_ERR, None)
      else if \<not> alloc_s then (TRDP_MEM_ERR, None)
      else
        let s = (zero_session cnt)\<lparr>realIP := ownIp, virtualIP := leaderIp,
                  pdDefault := \<lparr>def_pfCbFunction = False, def_flags = 1, def_timeout = TRDP_PD_DEFAULT_TIMEOUT,
                    def_toBehavior = TRDP_TO_SET_TO_ZERO, def_port = TRDP_PD_UDP_PORT, def_qos = TRDP_PD_DEFAULT_QOS,
                    def_ttl = TRDP_PD_DEFAULT_TTL\<rparr>\<rparr>;
            s = tlc_configSession proc pdc s;
            (now, s) = vos_getTime w s;
            s = s\<lparr>nextJob := vos_clearTime, initTime := now, socks := (socks s)\<lparr>iface := trdp_initSockets (iface (socks s))\<rparr>\<rparr>;
            s = trdp_initStats v s;
            s = s\<lparr>stats := (stats s)\<lparr>ownIpAddr := ownIp, leaderIpAddr := leaderIp\<rparr>\<rparr>
        in if \<not> alloc_f then (TRDP_MEM_ERR, None)
           else (TRDP_NO_ERR, Some (s\<lparr>pNewFrame := replicate (unat TRDP_MAX_PD_PACKET_SIZE) 0\<rparr>)))"

definition tlc_setETBTopoCount :: "u32 \<Rightarrow> TRDP_SESSION_T option \<Rightarrow> TRDP_ERR_T \<times> TRDP_SESSION_T option" where
  "tlc_setETBTopoCount n h =
     (case h of None \<Rightarrow> (TRDP_NOINIT_ERR, None) | Some s \<Rightarrow> (TRDP_NO_ERR, Some (s\<lparr>sess_etbTopoCnt := n\<rparr>)))"

definition tlc_setOpTrainTopoCount :: "u32 \<Rightarrow> TRDP_SESSION_T option \<Rightarrow> TRDP_ERR_T \<times> TRDP_SESSION_T option" where
  "tlc_setOpTrainTopoCount n h =
     (case h of None \<Rightarrow> (TRDP_NOINIT_ERR, None) | Some s \<Rightarrow> (TRDP_NO_ERR, Some (s\<lparr>sess_opTrnTopoCnt := n\<rparr>)))"

definition tlc_getETBTopoCount :: "TRDP_SESSION_T option \<Rightarrow> u32" where
  "tlc_getETBTopoCount h = (case h of None \<Rightarrow> 0 | Some s \<Rightarrow> sess_etbTopoCnt s)"

definition tlc_getOpTrainTopoCount :: "TRDP_SESSION_T option \<Rightarrow> u32" where
  "tlc_getOpTrainTopoCount h = (case h of None \<Rightarrow> 0 | Some s \<Rightarrow> sess_opTrnTopoCnt s)"

section \<open>Redundancy\<close>

definition red_matches :: "u32 \<Rightarrow> PD_ELE_T \<Rightarrow> bool" where
  "red_matches r e \<longleftrightarrow> redId e = r \<or> redId e \<noteq> 0 \<and> r = 0"

definition tlp_setRedundant :: "u32 \<Rightarrow> bool \<Rightarrow> TRDP_SESSION_T option \<Rightarrow> TRDP_ERR_T \<times> TRDP_SESSION_T option" where
  "tlp_setRedundant r leader h =
     (case h of
        None \<Rightarrow> (TRDP_NOINIT_ERR, None)
      | Some s \<Rightarrow>
          (if list_ex (red_matches r) (pSndQueue s) then TRDP_NO_ERR else TRDP_PARAM_ERR,
           Some (s\<lparr>pSndQueue := map (\<lambda>e. if red_matches r e
                     then if leader then clear_flag TRDP_REDUNDANT e else set_flag TRDP_REDUNDANT e else e) (pSndQueue s)\<rparr>)))"

text \<open>The result and what becomes of the caller's flag, which keeps its value when no publication matches.\<close>

fun red_leader :: "PD_ELE_T list \<Rightarrow> u32 \<Rightarrow> bool \<Rightarrow> bool" where
  "red_leader [] r leader = leader"
| "red_leader (e # es) r leader = (if redId e = r then \<not> bit (privFlags e) TRDP_REDUNDANT else red_leader es r leader)"

definition tlp_getRedundant :: "TRDP_SESSION_T option \<Rightarrow> u32 \<Rightarrow> bool option \<Rightarrow> TRDP_ERR_T \<times> bool option" where
  "tlp_getRedundant h r pLeader =
     (case pLeader of
        None \<Rightarrow> (TRDP_PARAM_ERR, None)
      | Some l \<Rightarrow> (case h of None \<Rightarrow> (TRDP_NOINIT_ERR, pLeader) | Some s \<Rightarrow> (TRDP_NO_ERR, Some (red_leader (pSndQueue s) r l))))"

section \<open>Publishing\<close>

fun find_ele :: "PD_ELE_T list \<Rightarrow> u64 \<Rightarrow> PD_ELE_T option" where
  "find_ele [] h = None"
| "find_ele (e # es) h = (if ele e = h then Some e else find_ele es h)"

text \<open>The element a publication handle names, if it has the magic number of one.\<close>

definition the_pub :: "TRDP_SESSION_T \<Rightarrow> u64 \<Rightarrow> PD_ELE_T option" where
  "the_pub s h =
     (case find_ele (pSndQueue s) h of
        None \<Rightarrow> None
      | Some e \<Rightarrow> if magic e = TRDP_MAGIC_PUB_HNDL_VALUE then Some e else None)"

definition the_sub :: "TRDP_SESSION_T \<Rightarrow> u64 \<Rightarrow> PD_ELE_T option" where
  "the_sub s h =
     (case find_ele (pRcvQueue s) h of
        None \<Rightarrow> None
      | Some e \<Rightarrow> if magic e = TRDP_MAGIC_SUB_HNDL_VALUE then Some e else None)"

text \<open>A handle is a pointer, null or the address of an element.\<close>

definition tlp_put ::
  "bool \<Rightarrow> marshall option \<Rightarrow> u64 option \<Rightarrow> u8 list option \<Rightarrow> u32 \<Rightarrow> TRDP_SESSION_T \<Rightarrow> (TRDP_ERR_T \<times> TRDP_SESSION_T) checked" where
  "tlp_put alloc_ok m h pData n s =
     (case h of
        None \<Rightarrow> Inr (TRDP_PARAM_ERR, s)
      | Some h \<Rightarrow>
          (case the_pub s h of
             None \<Rightarrow> Inr (TRDP_NOPUB_ERR, s)
           | Some e \<Rightarrow>
               (case trdp_pdPut alloc_ok m e pData n of
                  Inl f \<Rightarrow> Inl f
                | Inr (ret, e) \<Rightarrow> Inr (ret, s\<lparr>pSndQueue := upd_ele (pSndQueue s) e\<rparr>))))"

record pub_args =
  pub_comId :: u32
  pub_etb :: u32
  pub_opTrn :: u32
  pub_src :: u32
  pub_dest :: u32
  pub_interval :: u32
  pub_redId :: u32
  pub_flags :: u8
  pub_sendParam :: "(u8 \<times> u8) option"
  pub_data :: "u8 list option"
  pub_size :: u32

text \<open>Memory from \<open>vos_memAlloc\<close> is cleared.\<close>

definition zero_ele :: "u64 \<Rightarrow> PD_ELE_T" where
  "zero_ele a =
     \<lparr>ele = a, magic = 0, addr = \<lparr>comId = 0, srcIpAddr = 0, destIpAddr = 0, mcGroup = 0, etbTopoCnt = 0, opTrnTopoCnt = 0\<rparr>,
      lastSrcIP = 0, pullIpAddress = 0, redId = 0, curSeqCnt = 0, curSeqCnt4Pull = 0, pSeqCntList = None, numRxTx = 0,
      updPkts = 0, getPkts = 0, numMissed = 0, lastErr = TRDP_NO_ERR, privFlags = 0, pktFlags = 0,
      interval = vos_clearTime, timeToGo = vos_clearTime, toBehavior = TRDP_TO_DEFAULT, dataSize = 0, grossSize = 0,
      sendSize = 0, socketIdx = 0, pUserRef = 0, pfCbFunction = False, pFrame = []\<rparr>"

definition mc_group :: "u32 \<Rightarrow> u32" where
  "mc_group a = (if vos_isMulticast a then a else 0)"

definition pd_request :: "TRDP_SESSION_T \<Rightarrow> (u8 \<times> u8) option \<Rightarrow> u32 \<Rightarrow> u32 \<Rightarrow> bool \<Rightarrow> sock_request" where
  "pd_request s param src grp rcv =
     (let (q, t) = (case param of None \<Rightarrow> (def_qos (pdDefault s), def_ttl (pdDefault s)) | Some p \<Rightarrow> p)
      in \<lparr>req_port = def_port (pdDefault s), req_qos = q, req_ttl = t, req_srcIP = src, req_mcGroup = grp,
          req_usage = TRDP_SOCK_PD, req_options = sess_option s, req_rcvMostly = rcv, req_useSocket = - 1, req_cornerIp = 0\<rparr>)"

text \<open>The times of a new publication; cyclic ones are spread by their ComId.\<close>

definition first_time :: "vos_timeval \<Rightarrow> u32 \<Rightarrow> vos_timeval" where
  "first_time now c = \<lparr>tv_sec = tv_sec now + uint (2 + c mod 128 div 100), tv_usec = uint (c mod 100 * 10000)\<rparr>"

definition us_time :: "u32 \<Rightarrow> vos_timeval" where
  "us_time n = \<lparr>tv_sec = uint (n div 1000000), tv_usec = uint (n mod 1000000)\<rparr>"

text \<open>
  The element of a publication, complete but for its data. \<open>qs\<close> are the send queues of all
  sessions, as \<open>trdp_sessionQueue\<close> gives them.
\<close>

definition new_pub :: "PD_ELE_T list list \<Rightarrow> pub_args \<Rightarrow> u64 \<Rightarrow> u32 \<Rightarrow> int \<Rightarrow> vos_timeval \<times> vos_timeval \<Rightarrow> TRDP_SESSION_T \<Rightarrow> PD_ELE_T" where
  "new_pub qs a adr src idx tt s =
     (let e = set_flag TRDP_INVALID_DATA ((zero_ele adr)\<lparr>dataSize := pub_size a, grossSize := trdp_packetSizePD (pub_size a)\<rparr>);
          e = e\<lparr>socketIdx := idx, pFrame := replicate (unat (grossSize e)) 0, interval := fst tt, timeToGo := snd tt,
                addr := \<lparr>comId = pub_comId a, srcIpAddr = src, destIpAddr = pub_dest a, mcGroup = mc_group (pub_dest a),
                  etbTopoCnt = 0, opTrnTopoCnt = 0\<rparr>,
                pktFlags := (if pub_flags a = TRDP_FLAGS_DEFAULT then def_flags (pdDefault s) else pub_flags a),
                pullIpAddress := 0, redId := pub_redId a, magic := TRDP_MAGIC_PUB_HNDL_VALUE,
                curSeqCnt := trdp_getSeqCnt qs (pub_comId a) TRDP_MSG_PD src - 1,
                curSeqCnt4Pull := trdp_getSeqCnt qs (pub_comId a) TRDP_MSG_PP src - 1\<rparr>;
          e = (if pub_redId a \<noteq> 0 \<and> \<not> red_leader (pSndQueue s) (pub_redId a) True then set_flag TRDP_REDUNDANT e else e)
      in trdp_pdInit e TRDP_MSG_PD (pub_etb a) (pub_opTrn a) 0 0)"

text \<open>
  \<open>alloc\<close> says whether the allocations succeed: of the element, of its frame, and of a later one.
  When the frame cannot be allocated nothing is published, and no error is returned.
\<close>

definition tlp_publish ::
  "world \<Rightarrow> sock_io \<Rightarrow> bool \<times> bool \<times> bool \<Rightarrow> marshall option \<Rightarrow> PD_ELE_T list list \<Rightarrow> u64 \<Rightarrow> pub_args \<Rightarrow>
   TRDP_SESSION_T option \<Rightarrow> (TRDP_ERR_T \<times> u64 option \<times> TRDP_SESSION_T option) checked" where
  "tlp_publish w io alloc m qs adr a h =
     (if pub_interval a \<noteq> 0 \<and> pub_interval a < TRDP_TIMER_GRANULARITY then Inr (TRDP_PARAM_ERR, None, h)
      else case h of
        None \<Rightarrow> Inr (TRDP_NOINIT_ERR, None, None)
      | Some s \<Rightarrow>
          let src = (if pub_src a = 0 then realIP s else pub_src a);
              key = \<lparr>comId = pub_comId a, srcIpAddr = src, destIpAddr = pub_dest a, mcGroup = mc_group (pub_dest a),
                     etbTopoCnt = 0, opTrnTopoCnt = 0\<rparr>
          in if trdp_queueFindPubAddr (pSndQueue s) key \<noteq> None then Inr (TRDP_NOPUB_ERR, None, Some s)
             else if \<not> fst alloc then Inr (TRDP_MEM_ERR, None, Some s)
             else
               (case trdp_requestSocket io (clock w (time_reads s)) (pd_request s (pub_sendParam a) src 0 False) 0 (socks s) of
                  (ret, idx, p) \<Rightarrow>
                    let s = s\<lparr>socks := p\<rparr>
                    in if ret \<noteq> TRDP_NO_ERR then Inr (ret, None, Some s)
                       else if \<not> fst (snd alloc) then Inr (TRDP_NO_ERR, None, Some s)
                       else
                         let (tt, s) = (if pub_interval a = 0 then ((vos_clearTime, vos_clearTime), s)
                                           else let (now, s) = vos_getTime w s
                                                in ((us_time (pub_interval a), first_time now (pub_comId a)), s));
                             s = s\<lparr>pSndQueue := trdp_queueAppLast (pSndQueue s) (new_pub qs a adr src idx tt s)\<rparr>
                         in (case (if pub_size a \<noteq> 0 then tlp_put (snd (snd alloc)) m (Some adr) (pub_data a) (pub_size a) s
                                   else Inr (TRDP_NO_ERR, s)) of
                               Inl f \<Rightarrow> Inl f
                             | Inr (ret, s) \<Rightarrow>
                                 if ret = TRDP_NO_ERR \<and> bit (sess_option s) TRDP_OPTION_TRAFFIC_SHAPING
                                 then let (ret, q) = trdp_pdDistribute (pSndQueue s) in Inr (ret, Some adr, Some (s\<lparr>pSndQueue := q\<rparr>))
                                 else Inr (ret, Some adr, Some s))))"

definition tlp_republish ::
  "u32 \<Rightarrow> u32 \<Rightarrow> u32 \<Rightarrow> u32 \<Rightarrow> u64 \<Rightarrow> TRDP_SESSION_T option \<Rightarrow> TRDP_ERR_T \<times> TRDP_SESSION_T option" where
  "tlp_republish etb opTrn src dest p h =
     (case h of
        None \<Rightarrow> (TRDP_NOINIT_ERR, None)
      | Some s \<Rightarrow>
          (case the_pub s p of
             None \<Rightarrow> (TRDP_NOSUB_ERR, Some s)
           | Some e \<Rightarrow>
               let e = e\<lparr>addr := \<lparr>comId = comId (addr e), srcIpAddr = src, destIpAddr = dest, mcGroup = mc_group dest,
                               etbTopoCnt = etb, opTrnTopoCnt = opTrn\<rparr>\<rparr>;
                   e = trdp_pdInit e TRDP_MSG_PD etb opTrn 0 0
               in (TRDP_NO_ERR, Some (s\<lparr>pSndQueue := upd_ele (pSndQueue s) e\<rparr>))))"

text \<open>Release the socket of an element; an index out of range is an access past the pool.\<close>

definition release_ele :: "world \<Rightarrow> PD_ELE_T \<Rightarrow> TRDP_SESSION_T \<Rightarrow> TRDP_SESSION_T checked" where
  "release_ele w e s =
     (if socketIdx e < 0 \<or> length (iface (socks s)) \<le> nat (socketIdx e) then Inl OutOfBounds
      else Inr (s\<lparr>socks := trdp_releaseSocket (clock w (time_reads s)) (nat (socketIdx e)) 0 False (socks s)\<rparr>))"

definition tlp_unpublish ::
  "world \<Rightarrow> u64 option \<Rightarrow> TRDP_SESSION_T \<Rightarrow> (TRDP_ERR_T \<times> TRDP_SESSION_T) checked" where
  "tlp_unpublish w h s =
     (case h of
        None \<Rightarrow> Inr (TRDP_PARAM_ERR, s)
      | Some p \<Rightarrow>
          (case the_pub s p of
             None \<Rightarrow> Inr (TRDP_NOPUB_ERR, s)
           | Some e \<Rightarrow>
               (case release_ele w e (s\<lparr>pSndQueue := trdp_queueDelElement (pSndQueue s) p\<rparr>) of
                  Inl f \<Rightarrow> Inl f
                | Inr s \<Rightarrow>
                    if bit (sess_option s) TRDP_OPTION_TRAFFIC_SHAPING
                    then let (ret, q) = trdp_pdDistribute (pSndQueue s) in Inr (ret, s\<lparr>pSndQueue := q\<rparr>)
                    else Inr (TRDP_NO_ERR, s))))"

section \<open>Subscribing\<close>

record sub_args =
  sub_userRef :: u64
  sub_callback :: bool
  sub_comId :: u32
  sub_src :: u32
  sub_dest :: u32
  sub_flags :: u8
  sub_timeout :: u32
  sub_behavior :: TRDP_TO_BEHAVIOR_T

definition eff_timeout :: "TRDP_SESSION_T \<Rightarrow> u32 \<Rightarrow> u32" where
  "eff_timeout s t = (if t = 0 then def_timeout (pdDefault s) else if t < TRDP_TIMER_GRANULARITY then TRDP_TIMER_GRANULARITY else t)"

definition new_sub :: "world \<Rightarrow> sub_args \<Rightarrow> u64 \<Rightarrow> int \<Rightarrow> TRDP_SESSION_T \<Rightarrow> PD_ELE_T \<times> TRDP_SESSION_T" where
  "new_sub w a adr idx s =
     (let t = eff_timeout s (sub_timeout a);
          e = (zero_ele adr)\<lparr>pFrame := replicate (unat TRDP_MAX_PD_PACKET_SIZE) 0\<rparr>;
          e = (if vos_isMulticast (sub_dest a) then set_flag TRDP_MC_JOINT e else e);
          e = set_flag TRDP_INVALID_DATA (e\<lparr>
                addr := (addr e)\<lparr>comId := sub_comId a, srcIpAddr := sub_src a, destIpAddr := sub_dest a, mcGroup := mc_group (sub_dest a)\<rparr>,
                interval := us_time t,
                toBehavior := (if sub_behavior a = TRDP_TO_DEFAULT then def_toBehavior (pdDefault s) else sub_behavior a),
                grossSize := TRDP_MAX_PD_PACKET_SIZE, pUserRef := sub_userRef a, socketIdx := idx,
                pktFlags := (if sub_flags a = TRDP_FLAGS_DEFAULT then def_flags (pdDefault s) else sub_flags a),
                pfCbFunction := (sub_callback a \<or> def_pfCbFunction (pdDefault s)), magic := TRDP_MAGIC_SUB_HNDL_VALUE\<rparr>)
      in if t = TRDP_TIMER_FOREVER then (e\<lparr>timeToGo := vos_clearTime, interval := vos_clearTime\<rparr>, s)
         else let (now, s) = vos_getTime w s in (e\<lparr>timeToGo := vos_addTime now (interval e)\<rparr>, s))"

text \<open>The topography counters given are stored in the search key only and do not reach the subscription.\<close>

definition tlp_subscribe ::
  "world \<Rightarrow> sock_io \<Rightarrow> bool \<times> bool \<Rightarrow> u64 \<Rightarrow> sub_args \<Rightarrow> TRDP_SESSION_T option \<Rightarrow>
   (TRDP_ERR_T \<times> u64 option \<times> TRDP_SESSION_T option) checked" where
  "tlp_subscribe w io alloc adr a h =
     (case h of
        None \<Rightarrow> Inr (TRDP_NOINIT_ERR, None, None)
      | Some s \<Rightarrow>
          let (_, s) = vos_getTime w s;
              key = \<lparr>comId = sub_comId a, srcIpAddr = sub_src a, destIpAddr = sub_dest a, mcGroup = mc_group (sub_dest a),
                     etbTopoCnt = 0, opTrnTopoCnt = 0\<rparr>
          in if trdp_queueFindSubAddr (pRcvQueue s) key \<noteq> None then Inr (TRDP_NOSUB_ERR, None, Some s)
             else
               (case trdp_requestSocket io (clock w (time_reads s)) (pd_request s None (realIP s) (mcGroup key) True) 0 (socks s) of
                  (ret, idx, p) \<Rightarrow>
                    let s = s\<lparr>socks := p\<rparr>
                    in if ret \<noteq> TRDP_NO_ERR then Inr (ret, None, Some s)
                       else if \<not> fst alloc
                       then Inr (TRDP_MEM_ERR, None, Some (s\<lparr>socks := trdp_releaseSocket (clock w (time_reads s)) (nat idx) 0 False p\<rparr>))
                       else if \<not> snd alloc then Inr (TRDP_MEM_ERR, None, Some s)
                       else let (e, s) = new_sub w a adr idx s
                            in Inr (TRDP_NO_ERR, Some adr, Some (s\<lparr>pRcvQueue := trdp_queueAppLast (pRcvQueue s) e\<rparr>))))"

definition tlp_unsubscribe ::
  "world \<Rightarrow> u64 option \<Rightarrow> TRDP_SESSION_T \<Rightarrow> (TRDP_ERR_T \<times> TRDP_SESSION_T) checked" where
  "tlp_unsubscribe w h s =
     (case h of
        None \<Rightarrow> Inr (TRDP_PARAM_ERR, s)
      | Some p \<Rightarrow>
          (case the_sub s p of
             None \<Rightarrow> Inr (TRDP_NOSUB_ERR, s)
           | Some e \<Rightarrow>
               (case release_ele w e (s\<lparr>pRcvQueue := trdp_queueDelElement (pRcvQueue s) p\<rparr>) of
                  Inl f \<Rightarrow> Inl f
                | Inr s \<Rightarrow> Inr (TRDP_NO_ERR, s))))"

text \<open>A subscription whose new group cannot be joined is given up, its socket already released.\<close>

definition tlp_resubscribe ::
  "world \<Rightarrow> sock_io \<Rightarrow> u32 \<Rightarrow> u32 \<Rightarrow> u32 \<Rightarrow> u32 \<Rightarrow> u64 \<Rightarrow> TRDP_SESSION_T option \<Rightarrow>
   (TRDP_ERR_T \<times> TRDP_SESSION_T option) checked" where
  "tlp_resubscribe w io etb opTrn src dest p h =
     (case h of
        None \<Rightarrow> Inr (TRDP_NOINIT_ERR, None)
      | Some s \<Rightarrow>
          (case the_sub s p of
             None \<Rightarrow> Inr (TRDP_NOSUB_ERR, Some s)
           | Some e \<Rightarrow>
               let e = e\<lparr>addr := (addr e)\<lparr>srcIpAddr := src, destIpAddr := dest, etbTopoCnt := etb, opTrnTopoCnt := opTrn\<rparr>\<rparr>;
                   set_group = (\<lambda>e g. e\<lparr>addr := (addr e)\<lparr>mcGroup := g\<rparr>\<rparr>)
               in if vos_isMulticast dest \<and> mcGroup (addr e) \<noteq> dest
                  then (case release_ele w e s of
                          Inl f \<Rightarrow> Inl f
                        | Inr s \<Rightarrow>
                            (case trdp_requestSocket io (clock w (time_reads s)) (pd_request s None (realIP s) dest True) (socketIdx e) (socks s) of
                               (ret, idx, q) \<Rightarrow>
                                 let e = e\<lparr>socketIdx := idx\<rparr>
                                 in if ret \<noteq> TRDP_NO_ERR
                                    then (case tlp_unsubscribe w (Some p) (s\<lparr>socks := q, pRcvQueue := upd_ele (pRcvQueue s) e\<rparr>) of
                                            Inl f \<Rightarrow> Inl f | Inr (_, s) \<Rightarrow> Inr (ret, Some s))
                                    else Inr (TRDP_NO_ERR, Some (s\<lparr>socks := q, pRcvQueue := upd_ele (pRcvQueue s) (set_group e dest)\<rparr>))))
                  else Inr (TRDP_NO_ERR, Some (s\<lparr>pRcvQueue := upd_ele (pRcvQueue s) (set_group e (mc_group dest))\<rparr>))))"

section \<open>Getting data\<close>

text \<open>The loop that reads the socket of a subscription until a receive does not succeed.\<close>

fun drain :: "world \<Rightarrow> bool \<Rightarrow> received list \<Rightarrow> TRDP_SESSION_T \<Rightarrow> TRDP_SESSION_T checked" where
  "drain w alloc_ok [] s = Inr s"
| "drain w alloc_ok (rx # rxs) s =
     (case trdp_pdReceive w alloc_ok rx s of
        Inl f \<Rightarrow> Inl f
      | Inr (err, s) \<Rightarrow> if err = TRDP_NO_ERR then drain w alloc_ok rxs s else Inr s)"

text \<open>
  The result, the bytes written to the user's buffer and the information on the telegram; \<open>rxs\<close>
  are the datagrams that wait on the socket of the subscription.
\<close>

definition tlp_get ::
  "world \<Rightarrow> bool \<Rightarrow> (u32 \<Rightarrow> u8 list \<Rightarrow> u32 \<Rightarrow> TRDP_ERR_T \<times> u8 list) option \<Rightarrow> received list \<Rightarrow> u64 option \<Rightarrow> u32 option \<Rightarrow>
   TRDP_SESSION_T \<Rightarrow> (TRDP_ERR_T \<times> u8 list option \<times> TRDP_PD_INFO_T option \<times> TRDP_SESSION_T) checked" where
  "tlp_get w alloc_ok um rxs h room s =
     (case h of
        None \<Rightarrow> Inr (TRDP_PARAM_ERR, None, None, s)
      | Some p \<Rightarrow>
          (case the_sub s p of
             None \<Rightarrow> Inr (TRDP_NOSUB_ERR, None, None, s)
           | Some _ \<Rightarrow>
               (case (if bit (sess_option s) TRDP_OPTION_BLOCK then Inr s else drain w alloc_ok rxs s) of
                  Inl f \<Rightarrow> Inl f
                | Inr s \<Rightarrow>
                    (case find_ele (pRcvQueue s) p of
                       None \<Rightarrow> Inl OutOfBounds
                     | Some e \<Rightarrow>
                         let (now, s) = vos_getTime w s;
                             (ret, out, e) =
                               (if timerisset (interval e) \<and> timer_lt (timeToGo e) now
                                then (TRDP_TIMEOUT_ERR,
                                      if toBehavior e = TRDP_TO_SET_TO_ZERO then map_option (\<lambda>n. replicate (unat n) 0) room else None, e)
                                else trdp_pdGet um e room)
                         in Inr (ret, out, Some (pd_info e (lastSrcIP e) (destIpAddr (addr e)) (curSeqCnt e) ret),
                                 s\<lparr>pRcvQueue := upd_ele (pRcvQueue s) e\<rparr>)))))"

section \<open>Requesting\<close>

record req_args =
  req_comId :: u32
  req_etb :: u32
  req_opTrn :: u32
  req_src :: u32
  req_dest :: u32
  req_flags :: u8
  req_sendParam :: "(u8 \<times> u8) option"
  req_data :: "u8 list option"
  req_size :: u32
  req_replyComId :: u32
  req_replyIp :: u32

definition new_req :: "PD_ELE_T list list \<Rightarrow> req_args \<Rightarrow> u64 \<Rightarrow> u32 \<Rightarrow> int \<Rightarrow> u32 \<Rightarrow> TRDP_SESSION_T \<Rightarrow> PD_ELE_T" where
  "new_req qs a adr src idx reply s =
     (let e = (zero_ele adr)\<lparr>dataSize := req_size a, grossSize := trdp_packetSizePD (req_size a)\<rparr>;
          e = e\<lparr>pFrame := replicate (unat (grossSize e)) 0, socketIdx := idx, interval := vos_clearTime, timeToGo := vos_clearTime,
                addr := (addr e)\<lparr>comId := req_comId a, srcIpAddr := src, destIpAddr := req_dest a, mcGroup := mc_group (req_dest a)\<rparr>,
                pktFlags := (if req_flags a = TRDP_FLAGS_DEFAULT then def_flags (pdDefault s) else req_flags a),
                magic := TRDP_MAGIC_PUB_HNDL_VALUE, curSeqCnt := trdp_getSeqCnt qs (req_comId a) TRDP_MSG_PR src - 1\<rparr>
      in trdp_pdInit e TRDP_MSG_PR (req_etb a) (req_opTrn a) reply (req_replyIp a))"

definition restart_timeout :: "world \<Rightarrow> u64 \<Rightarrow> TRDP_SESSION_T \<Rightarrow> TRDP_SESSION_T" where
  "restart_timeout w p s =
     (case find_ele (pRcvQueue s) p of
        None \<Rightarrow> s
      | Some e \<Rightarrow>
          if timerisset (interval e)
          then let (now, s) = vos_getTime w s
               in s\<lparr>pRcvQueue := upd_ele (pRcvQueue s) (clear_flag TRDP_TIMED_OUT (e\<lparr>timeToGo := vos_addTime now (interval e)\<rparr>))\<rparr>
          else s)"

definition tlp_request ::
  "world \<Rightarrow> sock_io \<Rightarrow> bool \<times> bool \<times> bool \<Rightarrow> marshall option \<Rightarrow> PD_ELE_T list list \<Rightarrow> u64 \<Rightarrow> u64 option \<Rightarrow> req_args \<Rightarrow>
   TRDP_SESSION_T \<Rightarrow> (TRDP_ERR_T \<times> TRDP_SESSION_T) checked" where
  "tlp_request w io alloc m qs adr h a s =
     (case h of
        None \<Rightarrow> Inr (TRDP_PARAM_ERR, s)
      | Some p \<Rightarrow>
          if req_comId a = 0 \<and> req_replyComId a = 0 \<or> req_dest a = 0 then Inr (TRDP_PARAM_ERR, s)
          else (case the_sub s p of
             None \<Rightarrow> Inr (TRDP_NOSUB_ERR, s)
           | Some sub \<Rightarrow>
               let src = (if req_src a = 0 then realIP s else req_src a)
               in if \<not> fst alloc then Inr (TRDP_MEM_ERR, s)
                  else if \<not> fst (snd alloc) then Inr (TRDP_NO_ERR, s)
                  else
                    (case trdp_requestSocket io (clock w (time_reads s)) (pd_request s (req_sendParam a) src 0 False) 0 (socks s) of
                       (ret, idx, q) \<Rightarrow>
                         let s = s\<lparr>socks := q\<rparr>
                         in if ret \<noteq> TRDP_NO_ERR then Inr (ret, s)
                            else
                              let reply = (if req_replyComId a = 0 then comId (addr sub) else req_replyComId a);
                                  e = new_req qs a adr src idx reply s;
                                  s = s\<lparr>pSndQueue := trdp_queueInsFirst (pSndQueue s) e\<rparr>
                              in (case (if req_data a \<noteq> None \<and> 0 < req_size a
                                        then tlp_put (snd (snd alloc)) m (Some adr) (req_data a) (req_size a) s
                                        else Inr (TRDP_NO_ERR, s)) of
                                    Inl f \<Rightarrow> Inl f
                                  | Inr (ret, s) \<Rightarrow>
                                      let s = s\<lparr>pSndQueue := map (\<lambda>x. if ele x = adr then set_flag TRDP_REQ_2B_SENT x else x) (pSndQueue s)\<rparr>
                                      in Inr (ret, restart_timeout w p s)))))"

section \<open>Driving a session\<close>

text \<open>How long the caller may wait.\<close>

definition wait_time :: "vos_timeval \<Rightarrow> vos_timeval \<Rightarrow> vos_timeval" where
  "wait_time now job =
     (if timerisset job \<and> timer_lt now job then vos_subTime job now
      else if timerisset job then vos_clearTime
      else \<lparr>tv_sec = 1000, tv_usec = 0\<rparr>)"

definition tlc_getInterval ::
  "world \<Rightarrow> int list \<Rightarrow> int \<Rightarrow> TRDP_SESSION_T option \<Rightarrow> (TRDP_ERR_T \<times> vos_timeval \<times> int list \<times> int \<times> TRDP_SESSION_T option) checked" where
  "tlc_getInterval w fds noDesc h =
     (case h of
        None \<Rightarrow> Inr (TRDP_NOINIT_ERR, vos_clearTime, fds, noDesc, None)
      | Some s \<Rightarrow>
          let (now, s) = vos_getTime w s
          in (case trdp_pdCheckPending fds noDesc (s\<lparr>nextJob := vos_clearTime\<rparr>) of
                Inl f \<Rightarrow> Inl f
              | Inr (fds, noDesc, s) \<Rightarrow>
                  let job = nextJob s;
                      s = (if timerisset job \<and> timer_lt now job then s\<lparr>nextJob := vos_subTime job now\<rparr> else s)
                  in Inr (TRDP_NO_ERR, wait_time now job, fds, noDesc, Some s)))"

definition tlc_process_send :: "world \<Rightarrow> TRDP_SESSION_T option \<Rightarrow> (TRDP_ERR_T \<times> TRDP_SESSION_T option) checked" where
  "tlc_process_send w h =
     (case h of
        None \<Rightarrow> Inr (TRDP_NOINIT_ERR, None)
      | Some s \<Rightarrow>
          (case trdp_pdSendQueued w (s\<lparr>nextJob := vos_clearTime\<rparr>) of
             Inl f \<Rightarrow> Inl f
           | Inr (err, s) \<Rightarrow> Inr (err, Some s)))"

definition tlc_process_recv ::
  "world \<Rightarrow> bool \<Rightarrow> (int \<Rightarrow> received list) \<Rightarrow> int set option \<Rightarrow> int option \<Rightarrow> TRDP_SESSION_T option \<Rightarrow>
   (TRDP_ERR_T \<times> TRDP_SESSION_T option) checked" where
  "tlc_process_recv w alloc_ok rxs pRfds pCount h =
     (case h of
        None \<Rightarrow> Inr (TRDP_NOINIT_ERR, None)
      | Some s \<Rightarrow>
          (case trdp_pdCheckListenSocks w alloc_ok rxs pRfds pCount (trdp_pdHandleTimeOuts w (s\<lparr>nextJob := vos_clearTime\<rparr>)) of
             Inl f \<Rightarrow> Inl f
           | Inr (err, s) \<Rightarrow> Inr (err, Some s)))"

definition tlc_process ::
  "world \<Rightarrow> bool \<Rightarrow> (int \<Rightarrow> received list) \<Rightarrow> int set option \<Rightarrow> int option \<Rightarrow> TRDP_SESSION_T option \<Rightarrow>
   (TRDP_ERR_T \<times> TRDP_SESSION_T option) checked" where
  "tlc_process w alloc_ok rxs pRfds pCount h =
     (case h of
        None \<Rightarrow> Inr (TRDP_NOINIT_ERR, None)
      | Some s \<Rightarrow>
          (case trdp_pdSendQueued w (s\<lparr>nextJob := vos_clearTime\<rparr>) of
             Inl f \<Rightarrow> Inl f
           | Inr (result, s) \<Rightarrow>
               (case trdp_pdCheckListenSocks w alloc_ok rxs pRfds pCount (trdp_pdHandleTimeOuts w s) of
                  Inl f \<Rightarrow> Inl f
                | Inr (err, s) \<Rightarrow> Inr (if err \<noteq> TRDP_NO_ERR then err else result, Some s))))"

section \<open>Closing\<close>

text \<open>The socket of every publication is released twice.\<close>

fun close_pubs :: "world \<Rightarrow> PD_ELE_T list \<Rightarrow> TRDP_SESSION_T \<Rightarrow> TRDP_SESSION_T checked" where
  "close_pubs w [] s = Inr s"
| "close_pubs w (e # es) s =
     (case release_ele w e s of
        Inl f \<Rightarrow> Inl f
      | Inr s \<Rightarrow> (case release_ele w e s of Inl f \<Rightarrow> Inl f | Inr s \<Rightarrow> close_pubs w es s))"

fun close_subs :: "world \<Rightarrow> PD_ELE_T list \<Rightarrow> TRDP_SESSION_T \<Rightarrow> TRDP_SESSION_T checked" where
  "close_subs w [] s = Inr s"
| "close_subs w (e # es) s = (case release_ele w e s of Inl f \<Rightarrow> Inl f | Inr s \<Rightarrow> close_subs w es s)"

text \<open>The session with its sockets as they are when its memory is freed.\<close>

definition tlc_closeSession :: "world \<Rightarrow> TRDP_SESSION_T \<Rightarrow> TRDP_SESSION_T checked" where
  "tlc_closeSession w s =
     (case close_pubs w (pSndQueue s) s of
        Inl f \<Rightarrow> Inl f
      | Inr s \<Rightarrow> close_subs w (pRcvQueue s) (s\<lparr>pSndQueue := [], pRcvQueue := []\<rparr>))"

end
