(* ===== verification/Trdp_Pool.thy ===== *)
theory Trdp_Pool
  imports Trdp_Sockets
begin

text \<open>
  The socket pool of \<^verbatim>\<open>trdp_utils.c\<close> counts references: every request that succeeds takes one on a
  socket that fits, every release gives one back, and the socket is closed with the last.
\<close>

section \<open>References\<close>

text \<open>The references on a place of the pool; a place without a socket has none.\<close>

definition refs :: "sock_pool \<Rightarrow> nat \<Rightarrow> int" where
  "refs p i = (if sock (iface p ! i) = VOS_INVALID_SOCKET then 0 else sint (usage (iface p ! i)))"

definition pool_ok :: "sock_pool \<Rightarrow> bool" where
  "pool_ok p \<longleftrightarrow> length (iface p) = VOS_MAX_SOCKET_CNT \<and> sCurrentMaxSocketCnt p \<le> VOS_MAX_SOCKET_CNT \<and>
     (\<forall>i < VOS_MAX_SOCKET_CNT. sock (iface p ! i) \<noteq> VOS_INVALID_SOCKET \<longrightarrow> 1 \<le> refs p i \<and> refs p i < 32767) \<and>
     (\<forall>i < VOS_MAX_SOCKET_CNT. sCurrentMaxSocketCnt p \<le> i \<longrightarrow> sock (iface p ! i) = VOS_INVALID_SOCKET)"

lemma upd_sock_simps [simp]:
  "iface (upd_sock i s p) = (iface p)[i := s]" "sCurrentMaxSocketCnt (upd_sock i s p) = sCurrentMaxSocketCnt p"
  "closed_fds (upd_sock i s p) = closed_fds p"
  by (simp_all add: upd_sock_def)

lemma sint_step:
  fixes u :: "16 word"
  shows "sint u < 32767 \<Longrightarrow> sint (u + 1) = sint u + 1" "- 32768 < sint u \<Longrightarrow> sint (u - 1) = sint u - 1"
proof -
  have "- 32768 \<le> sint u" "sint u < 32768" using sint_range_size [of u] by (simp_all add: word_size)
  then show "sint u < 32767 \<Longrightarrow> sint (u + 1) = sint u + 1" "- 32768 < sint u \<Longrightarrow> sint (u - 1) = sint u - 1"
    by (simp_all add: sint_word_ariths signed_take_bit_int_eq_self)
qed

section \<open>Looking for a socket to share\<close>

text \<open>What of a place decides about references.\<close>

type_synonym core = "int \<times> TRDP_SOCK_TYPE_T \<times> 16 word"

definition core_of :: "TRDP_SOCKETS_T \<Rightarrow> core" where
  "core_of s = (sock s, sock_type s, usage s)"

definition cores :: "sock_pool \<Rightarrow> core list" where
  "cores p = map core_of (iface p)"

definition bump :: "core \<Rightarrow> core" where
  "bump c = (fst c, fst (snd c), snd (snd c) + 1)"

lemma cores_upd: "cores (upd_sock i s p) = (cores p)[i := core_of s]"
  by (simp add: cores_def map_update)

lemma cores_nth: "i < length (iface p) \<Longrightarrow> cores p ! i = core_of (iface p ! i)"
  by (simp add: cores_def)

lemma refs_core: "i < length (iface p) \<Longrightarrow> refs p i = (if fst (cores p ! i) = VOS_INVALID_SOCKET then 0 else sint (snd (snd (cores p ! i))))"
  by (simp add: refs_def cores_nth core_of_def)

lemma join_group_core: "join_group io r s = (s', b) \<Longrightarrow> core_of s' = core_of s"
  by (auto simp: join_group_def core_of_def Let_def split: if_splits prod.splits)

lemma share_core: "share_socket io r s = (err, s') \<Longrightarrow> core_of s' = (if err = TRDP_NO_ERR then bump (core_of s) else core_of s)"
  by (auto simp: share_socket_def core_of_def bump_def Let_def split: if_splits)

text \<open>What a scan finds: a place that is taken and whose reference count went up, or a free place.\<close>

definition scanned :: "sock_request \<Rightarrow> nat list \<Rightarrow> nat option \<Rightarrow> core list \<Rightarrow> (TRDP_ERR_T \<times> nat) option \<Rightarrow> nat option \<Rightarrow> core list \<Rightarrow> bool" where
  "scanned r is e cs res e' cs' \<longleftrightarrow>
     (case res of
        None \<Rightarrow> cs' = cs \<and> (e' = e \<or> (\<exists>i \<in> set is. e' = Some i \<and> fst (cs ! i) = VOS_INVALID_SOCKET))
      | Some (err, i) \<Rightarrow> i \<in> set is \<and> fst (cs ! i) \<noteq> VOS_INVALID_SOCKET \<and> fst (snd (cs ! i)) = req_usage r \<and>
          cs' = (if err = TRDP_NO_ERR then cs[i := bump (cs ! i)] else cs))"

lemma scanned_Cons: "scanned r is e cs res e' cs' \<Longrightarrow> scanned r (i # is) e cs res e' cs'"
  by (auto simp: scanned_def split: option.splits)

lemma scanned_free: "scanned r is (Some i) cs res e' cs' \<Longrightarrow> fst (cs ! i) = VOS_INVALID_SOCKET \<Longrightarrow> scanned r (i # is) e cs res e' cs'"
  by (auto simp: scanned_def split: option.splits)

lemma scan_spec:
  "scan_sockets io r is e p = (res, e', p') \<Longrightarrow> \<forall>i \<in> set is. i < length (iface p) \<Longrightarrow> req_useSocket r = VOS_INVALID_SOCKET \<Longrightarrow>
   sCurrentMaxSocketCnt p' = sCurrentMaxSocketCnt p \<and> closed_fds p' = closed_fds p \<and> scanned r is e (cores p) res e' (cores p')"
proof (induction "is" arbitrary: e p)
  case (Cons i "is")
  let ?s = "iface p ! i"
  have i: "cores p ! i = core_of ?s" "i < length (cores p)" using Cons.prems by (simp_all add: cores_def)
  show ?case
  proof (cases "sock_fits r ?s")
    case fits: True
    obtain s1 b where j: "join_group io r ?s = (s1, b)" by fastforce
    have jc: "core_of s1 = core_of ?s" by (rule join_group_core [OF j])
    show ?thesis
    proof (cases b)
      case True
      obtain err s2 where sh: "share_socket io r s1 = (err, s2)" by fastforce
      then have "res = Some (err, i)" "p' = upd_sock i s2 p" using Cons.prems fits j True by auto
      moreover have "fst (core_of ?s) \<noteq> VOS_INVALID_SOCKET" "fst (snd (core_of ?s)) = req_usage r"
        using fits by (simp_all add: sock_fits_def core_of_def)
      ultimately show ?thesis using share_core [OF sh] jc i by (auto simp: scanned_def cores_upd list_update_same_conv)
    next
      case False
      then have "scan_sockets io r is e (upd_sock i s1 p) = (res, e', p')" using Cons.prems fits j by simp
      moreover have "cores (upd_sock i s1 p) = cores p" using jc i by (simp add: cores_upd list_update_same_conv)
      ultimately show ?thesis using Cons.IH [of e "upd_sock i s1 p"] Cons.prems by (auto intro: scanned_Cons)
    qed
  next
    case no: False
    show ?thesis
    proof (cases "sock ?s = VOS_INVALID_SOCKET \<and> e = None")
      case True
      then have "scan_sockets io r is (Some i) p = (res, e', p')" using Cons.prems no by simp
      then show ?thesis using Cons.IH [of "Some i" p] Cons.prems True i by (auto intro: scanned_free simp: core_of_def)
    next
      case False
      then have "scan_sockets io r is e p = (res, e', p')" using Cons.prems no by auto
      then show ?thesis using Cons.IH [of e p] Cons.prems by (auto intro: scanned_Cons)
    qed
  qed
qed (simp add: scanned_def)

section \<open>Taking and giving back a reference\<close>

lemma release_udp:
  fixes now t
  assumes "i < length (iface p)" and "sock (iface p ! i) \<noteq> VOS_INVALID_SOCKET" and "sock_type (iface p ! i) \<noteq> TRDP_SOCK_MD_TCP"
    and "1 \<le> sint (usage (iface p ! i))"
  defines "p' \<equiv> trdp_releaseSocket now i t False p"
  shows "length (iface p') = length (iface p)" "j < length (iface p) \<Longrightarrow> refs p' j = (if j = i then refs p j - 1 else refs p j)"
    "closed_fds p' = closed_fds p @ (if refs p i = 1 then [sock (iface p ! i)] else [])"
proof -
  have u: "sint (usage (iface p ! i) - 1) = sint (usage (iface p ! i)) - 1" using assms(4) by (intro sint_step) simp
  have ty: "sock_type (iface p ! i) = TRDP_SOCK_MD_UDP \<or> sock_type (iface p ! i) = TRDP_SOCK_PD"
    using assms(3) by (cases "sock_type (iface p ! i)") auto
  show "length (iface p') = length (iface p)" "j < length (iface p) \<Longrightarrow> refs p' j = (if j = i then refs p j - 1 else refs p j)"
    "closed_fds p' = closed_fds p @ (if refs p i = 1 then [sock (iface p ! i)] else [])"
    using assms(1,2,4) ty u by (auto simp: p'_def trdp_releaseSocket_def Let_def refs_def nth_list_update)
qed

text \<open>The operating system gives a descriptor when it reports no error.\<close>

definition opens :: "sock_io \<Rightarrow> bool" where
  "opens io \<longleftrightarrow> (\<forall>opts fd. io_openUDP io opts = (TRDP_NO_ERR, fd) \<longrightarrow> fd \<noteq> VOS_INVALID_SOCKET)"

text \<open>What opening leaves in a new place: the descriptor with one reference, or nothing on an error before that.\<close>

lemma open_udp_core:
  assumes "open_udp io r s = (err, s')" and "sock s = VOS_INVALID_SOCKET"
    and "opens io"
  shows "sock_type s' = sock_type s" "sock s' \<noteq> VOS_INVALID_SOCKET \<and> usage s' = 1 \<or> err \<noteq> TRDP_NO_ERR \<and> sock s' = VOS_INVALID_SOCKET"
  using assms by (auto simp: opens_def open_udp_def listen_udp_def Let_def split: if_splits prod.splits)

lemma new_socket_fields [simp]: "sock (new_socket r s) = VOS_INVALID_SOCKET" "sock_type (new_socket r s) = req_usage r"
  by (simp_all add: new_socket_def)

definition new_place :: "nat option \<Rightarrow> sock_pool \<Rightarrow> nat \<times> sock_pool" where
  "new_place e p = (case e of Some i \<Rightarrow> (i, p) | None \<Rightarrow> (sCurrentMaxSocketCnt p, p\<lparr>sCurrentMaxSocketCnt := Suc (sCurrentMaxSocketCnt p)\<rparr>))"

lemma request_cases:
  assumes "trdp_requestSocket io now r k p = (err, x, p')" and "req_useSocket r = VOS_INVALID_SOCKET" and "req_usage r \<noteq> TRDP_SOCK_MD_TCP"
    and "scan_sockets io r [0..<sCurrentMaxSocketCnt p] None p = (res, e, q)"
  obtains (shared) i where "res = Some (err, i)" "x = int i" "p' = q"
    | (full) "res = None" "err = TRDP_MEM_ERR" "p' = q" "\<not> sCurrentMaxSocketCnt q < VOS_MAX_SOCKET_CNT"
    | (opened) i q' s where "res = None" "new_place e q = (i, q')" "sCurrentMaxSocketCnt q < VOS_MAX_SOCKET_CNT"
        "open_udp io r (new_socket r (iface q' ! i)) = (err, s)"
        "if err = TRDP_NO_ERR then x = int i \<and> p' = upd_sock i s q'
         else p' = trdp_releaseSocket now i 0 False (upd_sock i s q')"
proof (cases res)
  case None
  show ?thesis
  proof (cases "sCurrentMaxSocketCnt q < VOS_MAX_SOCKET_CNT")
    case True
    obtain i q' where np: "new_place e q = (i, q')" by fastforce
    obtain err' s where op: "open_udp io r (new_socket r (iface q' ! i)) = (err', s)" by fastforce
    have "trdp_requestSocket io now r k p =
       (if err' = TRDP_NO_ERR then (TRDP_NO_ERR, int i, upd_sock i s q')
        else (err', TRDP_INVALID_SOCKET_INDEX, trdp_releaseSocket now i 0 False (upd_sock i s q')))"
      using None True assms(2,3,4) np op
      by (cases "req_usage r") (simp_all add: trdp_requestSocket_def new_place_def)
    then show ?thesis using assms(1) opened [OF None np True] op by (auto split: if_splits)
  next
    case False
    then show ?thesis using None assms(1,4) full by (simp add: trdp_requestSocket_def)
  qed
next
  case (Some a)
  then obtain err' i where "res = Some (err', i)" by (cases a) auto
  then show ?thesis using assms(1,4) shared [of i] by (simp add: trdp_requestSocket_def)
qed

lemma new_place_free:
  assumes "pool_ok p" and "sCurrentMaxSocketCnt q = sCurrentMaxSocketCnt p" and "cores q = cores p" and "sCurrentMaxSocketCnt p < VOS_MAX_SOCKET_CNT"
    and "scanned r [0..<sCurrentMaxSocketCnt p] None (cores p) None e (cores q)" and "new_place e q = (i, q')"
  shows "i < VOS_MAX_SOCKET_CNT" "refs p i = 0" "cores q' = cores p" "closed_fds q' = closed_fds q"
proof -
  have l: "length (iface p) = VOS_MAX_SOCKET_CNT" using assms(1) by (simp add: pool_ok_def)
  have "i < VOS_MAX_SOCKET_CNT \<and> fst (cores p ! i) = VOS_INVALID_SOCKET \<and> iface q' = iface q \<and> closed_fds q' = closed_fds q"
    using assms l by (auto simp: scanned_def new_place_def pool_ok_def cores_nth core_of_def split: option.splits)
  then show "i < VOS_MAX_SOCKET_CNT" "refs p i = 0" "cores q' = cores p" "closed_fds q' = closed_fds q"
    using assms(3) l by (simp_all add: refs_core, simp add: cores_def)
qed

lemma cores_refs:
  "cores p' = cores p \<Longrightarrow> j < length (iface p) \<Longrightarrow> refs p' j = refs p j"
  by (metis cores_def length_map refs_core)

lemma cores_length: "cores p' = cores p \<Longrightarrow> length (iface p') = length (iface p)"
  by (metis cores_def length_map)

text \<open>
  The references a request leaves: one more on the place it returns, of a socket of the wanted
  kind, and none elsewhere or on an error.
\<close>

lemma request_refs:
  assumes ok: "pool_ok p" and r: "trdp_requestSocket io now r k p = (err, x, p')"
    and u: "req_useSocket r = VOS_INVALID_SOCKET" and t: "req_usage r \<noteq> TRDP_SOCK_MD_TCP"
    and fd: "opens io"
  shows "length (iface p') = VOS_MAX_SOCKET_CNT"
    and "\<forall>j < VOS_MAX_SOCKET_CNT. refs p' j = refs p j + (if err = TRDP_NO_ERR \<and> int j = x then 1 else 0)"
    and "err = TRDP_NO_ERR \<longrightarrow> (\<exists>i < VOS_MAX_SOCKET_CNT. x = int i \<and> sock (iface p' ! i) \<noteq> VOS_INVALID_SOCKET \<and> sock_type (iface p' ! i) = req_usage r)"
proof -
  have l: "length (iface p) = VOS_MAX_SOCKET_CNT" "sCurrentMaxSocketCnt p \<le> VOS_MAX_SOCKET_CNT" using ok by (simp_all add: pool_ok_def)
  obtain res e q where sc: "scan_sockets io r [0..<sCurrentMaxSocketCnt p] None p = (res, e, q)" by (metis prod_cases3)
  from scan_spec [OF this _ u] l have
    q: "sCurrentMaxSocketCnt q = sCurrentMaxSocketCnt p" "scanned r [0..<sCurrentMaxSocketCnt p] None (cores p) res e (cores q)" by auto
  have "length (iface p') = VOS_MAX_SOCKET_CNT \<and>
    (\<forall>j < VOS_MAX_SOCKET_CNT. refs p' j = refs p j + (if err = TRDP_NO_ERR \<and> int j = x then 1 else 0)) \<and>
    (err = TRDP_NO_ERR \<longrightarrow> (\<exists>i < VOS_MAX_SOCKET_CNT. x = int i \<and> sock (iface p' ! i) \<noteq> VOS_INVALID_SOCKET \<and> sock_type (iface p' ! i) = req_usage r))"
    using r u t sc
  proof (cases rule: request_cases)
    case (shared i)
    have i: "i < VOS_MAX_SOCKET_CNT" "fst (cores p ! i) \<noteq> VOS_INVALID_SOCKET" "fst (snd (cores p ! i)) = req_usage r"
      and c: "cores p' = (if err = TRDP_NO_ERR then (cores p)[i := bump (cores p ! i)] else cores p)"
      using q(2) shared l by (auto simp: scanned_def)
    have "length (cores p') = length (cores p)" unfolding c by simp
    then have len: "length (iface p') = VOS_MAX_SOCKET_CNT" "length (cores p) = VOS_MAX_SOCKET_CNT" using l by (simp_all add: cores_def)
    have "sint (snd (snd (cores p ! i))) < 32767"
      using ok i l by (auto simp: pool_ok_def refs_core cores_nth core_of_def)
    note st = sint_step(1) [OF this]
    have "refs p' j = refs p j + (if err = TRDP_NO_ERR \<and> int j = x then 1 else 0)" if "j < VOS_MAX_SOCKET_CNT" for j
      using that i c l len st shared(2) by (auto simp: refs_core bump_def nth_list_update)
    moreover have "core_of (iface p' ! i) = bump (cores p ! i)" if "err = TRDP_NO_ERR"
      using that c i(1) len cores_nth [of i p'] l by (simp add: cores_def [of p])
    ultimately show ?thesis using len shared(2) i by (auto simp: core_of_def bump_def)
  next
    case full
    then have c: "cores p' = cores p" using q(2) by (simp add: scanned_def)
    show ?thesis using full cores_refs [OF c] cores_length [OF c] l by simp
  next
    case (opened i q' s)
    have c: "cores q = cores p" using q(2) opened(1) by (simp add: scanned_def)
    note np = new_place_free [OF ok q(1) c _ q(2) [unfolded opened(1)] opened(2)]
    have np: "i < VOS_MAX_SOCKET_CNT" "refs p i = 0" "cores q' = cores p" using np opened(3) q(1) by auto
    have lq: "length (iface q') = VOS_MAX_SOCKET_CNT" using cores_length [OF np(3)] l by simp
    have s: "sock_type s = req_usage r" "sock s \<noteq> VOS_INVALID_SOCKET \<and> usage s = 1 \<or> err \<noteq> TRDP_NO_ERR \<and> sock s = VOS_INVALID_SOCKET"
      using open_udp_core [OF opened(4) _ fd] by auto
    have o: "refs (upd_sock i s q') j = (if j = i \<and> sock s \<noteq> VOS_INVALID_SOCKET then 1 else refs p j)" if "j < VOS_MAX_SOCKET_CNT" for j
    proof -
      have "refs (upd_sock i s q') j = (if j = i then (if sock s = VOS_INVALID_SOCKET then 0 else sint (usage s)) else refs q' j)"
        using lq that by (simp add: refs_def nth_list_update)
      then show ?thesis using s(2) np(2) cores_refs [OF np(3), of j] that l by auto
    qed
    show ?thesis
    proof (cases "err = TRDP_NO_ERR")
      case True
      then show ?thesis using opened(5) o s np lq by auto
    next
      case err: False
      let ?q = "upd_sock i s q'"
      show ?thesis
      proof (cases "sock s = VOS_INVALID_SOCKET")
        case True
        then have "p' = ?q" using opened(5) err lq np(1) by (simp add: trdp_releaseSocket_def Let_def)
        then show ?thesis using o True err lq by simp
      next
        case False
        have "length (iface p') = length (iface ?q)" "j < length (iface ?q) \<Longrightarrow> refs p' j = (if j = i then refs ?q j - 1 else refs ?q j)" for j
          using release_udp [where p = ?q and i = i and now = now and t = 0] opened(5) err False s t np(1) lq by auto
        then show ?thesis using o False err lq np by simp
      qed
    qed
  qed
  then show "length (iface p') = VOS_MAX_SOCKET_CNT"
    and "\<forall>j < VOS_MAX_SOCKET_CNT. refs p' j = refs p j + (if err = TRDP_NO_ERR \<and> int j = x then 1 else 0)"
    and "err = TRDP_NO_ERR \<longrightarrow> (\<exists>i < VOS_MAX_SOCKET_CNT. x = int i \<and> sock (iface p' ! i) \<noteq> VOS_INVALID_SOCKET \<and> sock_type (iface p' ! i) = req_usage r)"
    by blast+
qed

text \<open>
  C24 (socket_references_counted): a request for a new UDP socket (one that brings no descriptor of
  its own), with an operating system that gives a descriptor when it reports no error, takes
  exactly one reference, on the
  place whose index it returns, and none if it fails; giving it back leaves the reference counts
  of the whole pool as they were, and closes the socket exactly if nobody else used that place.
  The rest of the pool is not restored: the number of places in use stays, and so do the groups
  that were joined.
\<close>

theorem socket_references_counted:
  assumes "pool_ok p" and "trdp_requestSocket io now r k p = (err, x, p')"
    and "req_useSocket r = VOS_INVALID_SOCKET" and "req_usage r \<noteq> TRDP_SOCK_MD_TCP"
    and "opens io"
  defines "p'' \<equiv> trdp_releaseSocket now (nat x) 0 False p'"
  shows "(\<forall>j < VOS_MAX_SOCKET_CNT. refs p' j = refs p j + (if err = TRDP_NO_ERR \<and> int j = x then 1 else 0)) \<and>
     (err = TRDP_NO_ERR \<longrightarrow> (\<forall>j < VOS_MAX_SOCKET_CNT. refs p'' j = refs p j) \<and>
        closed_fds p'' = closed_fds p' @ (if refs p (nat x) = 0 then [sock (iface p' ! nat x)] else []))"
proof -
  note req = request_refs [OF assms(1-5)]
  have "(\<forall>j < VOS_MAX_SOCKET_CNT. refs p'' j = refs p j) \<and>
        closed_fds p'' = closed_fds p' @ (if refs p (nat x) = 0 then [sock (iface p' ! nat x)] else [])" if err: "err = TRDP_NO_ERR"
  proof -
    from req(3) err obtain i where i: "i < VOS_MAX_SOCKET_CNT" "x = int i" "sock (iface p' ! i) \<noteq> VOS_INVALID_SOCKET"
        "sock_type (iface p' ! i) = req_usage r" by blast
    have ri: "refs p' i = refs p i + 1" using req(2) i err by simp
    have "0 \<le> refs p i" using assms(1) i(1) by (cases "sock (iface p ! i) = VOS_INVALID_SOCKET") (force simp: pool_ok_def refs_def)+
    then have "1 \<le> sint (usage (iface p' ! i))" using ri i(3) by (simp add: refs_def)
    from release_udp [where p = p' and i = i and now = now and t = 0, OF _ i(3) _ this] i assms(4) req(1) have
      "refs p'' j = (if j = i then refs p' j - 1 else refs p' j)" "closed_fds p'' = closed_fds p' @ (if refs p' i = 1 then [sock (iface p' ! i)] else [])"
      if "j < VOS_MAX_SOCKET_CNT" for j using that by (simp_all add: p''_def)
    then show ?thesis using req(2) i err ri by auto
  qed
  then show ?thesis using req(2) by blast
qed

definition demo_place :: "int \<Rightarrow> 16 word \<Rightarrow> TRDP_SOCKETS_T" where
  "demo_place fd n = \<lparr>sock = fd, bindAddr = 0, qos = 5, ttl = 64, sock_type = TRDP_SOCK_PD, rcvMostly = False, usage = n,
     cornerIp = 0, notSend = False, connectionTimeout = vos_clearTime, sendNotOk = False, sendingTimeout = vos_clearTime,
     addFileDesc = False, morituri = False, mcGroups = replicate 20 0\<rparr>"

definition demo_pool :: "nat \<Rightarrow> sock_pool" where
  "demo_pool n = \<lparr>iface = demo_place 7 2 # replicate 79 (demo_place (- 1) 0), sCurrentMaxSocketCnt = n, closed_fds = []\<rparr>"

definition demo_io :: sock_io where
  "demo_io = \<lparr>io_openUDP = \<lambda>_. (TRDP_NO_ERR, 8), io_openTCP = \<lambda>_. (TRDP_NO_ERR, 8), io_bind = \<lambda>_ _ _. TRDP_NO_ERR,
     io_joinMC = \<lambda>_ _ _. TRDP_NO_ERR, io_setMulticastIf = \<lambda>_ _. TRDP_NO_ERR\<rparr>"

definition demo_request :: "u8 \<Rightarrow> sock_request" where
  "demo_request q = \<lparr>req_port = 17224, req_qos = q, req_ttl = 64, req_srcIP = 0, req_mcGroup = 0, req_usage = TRDP_SOCK_PD,
     req_options = 0, req_rcvMostly = False, req_useSocket = - 1, req_cornerIp = 0\<rparr>"

lemma demo_pool_nth: "i < 80 \<Longrightarrow> iface (demo_pool n) ! i = (if i = 0 then demo_place 7 2 else demo_place (- 1) 0)"
  by (simp add: demo_pool_def nth_Cons')

lemma demo_pool_ok: "1 \<le> n \<Longrightarrow> n \<le> 80 \<Longrightarrow> pool_ok (demo_pool n)"
  unfolding pool_ok_def
  by (auto simp: demo_pool_nth refs_def demo_place_def) (simp_all add: demo_pool_def demo_place_def)

text \<open>A second user of a socket with the same parameters, and a user of a new one.\<close>

theorem socket_references_counted_witness:
  "(case trdp_requestSocket demo_io vos_clearTime (demo_request 5) (- 1) (demo_pool 1) of
      (err, x, p) \<Rightarrow> err = TRDP_NO_ERR \<and> x = 0 \<and> refs p 0 = 3 \<and> closed_fds (trdp_releaseSocket vos_clearTime 0 0 False p) = []) \<and>
   (case trdp_requestSocket demo_io vos_clearTime (demo_request 6) (- 1) (demo_pool 1) of
      (err, x, p) \<Rightarrow> err = TRDP_NO_ERR \<and> x = 1 \<and> refs p 1 = 1 \<and> closed_fds (trdp_releaseSocket vos_clearTime 1 0 False p) = [8])"
proof -
  have io: "opens demo_io" by (simp add: opens_def demo_io_def)
  have d: "req_useSocket (demo_request q) = - 1" "req_usage (demo_request q) \<noteq> TRDP_SOCK_MD_TCP" for q
    by (simp_all add: demo_request_def)
  have r0: "refs (demo_pool 1) 0 = 2" "refs (demo_pool 1) 1 = 0" by (simp_all add: refs_def demo_pool_nth demo_place_def)
  note S = scan_sockets.simps Let_def demo_pool_nth
  obtain p where p: "trdp_requestSocket demo_io vos_clearTime (demo_request 5) (- 1) (demo_pool 1) = (TRDP_NO_ERR, 0, p)" "closed_fds p = []"
    by (simp add: trdp_requestSocket_def) (simp add: demo_pool_def demo_request_def demo_place_def demo_io_def
        sock_fits_def join_group_def share_socket_def vos_determineBindAddr_def vos_isMulticast_def)
  obtain q where q: "trdp_requestSocket demo_io vos_clearTime (demo_request 6) (- 1) (demo_pool 1) = (TRDP_NO_ERR, 1, q)"
      "closed_fds q = []" "sock (iface q ! 1) = 8"
    by (simp add: trdp_requestSocket_def) (simp add: demo_pool_def demo_request_def demo_place_def demo_io_def
        sock_fits_def vos_determineBindAddr_def vos_isMulticast_def open_udp_def new_socket_def)
  show ?thesis
    using socket_references_counted [OF demo_pool_ok [of 1] p(1) d io] socket_references_counted [OF demo_pool_ok [of 1] q(1) d io] p q r0
    by simp
qed

section \<open>Exhaustion\<close>

text \<open>
  the high-water mark of the pool never goes down. Once all places
  have been used, a request that no open socket fits fails for want of memory, even when sockets
  have been closed since and their places are free.
\<close>

theorem pool_does_not_recover:
  assumes "pool_ok p" and "sCurrentMaxSocketCnt p = VOS_MAX_SOCKET_CNT" and "req_useSocket r = VOS_INVALID_SOCKET"
    and "\<forall>i < VOS_MAX_SOCKET_CNT. \<not> sock_fits r (iface p ! i)"
  shows "trdp_requestSocket io now r k p = (TRDP_MEM_ERR, k, p) \<and>
     sCurrentMaxSocketCnt (trdp_releaseSocket now' i t b p) = VOS_MAX_SOCKET_CNT"
proof -
  have none: "\<forall>i \<in> set is. \<not> sock_fits r (iface p ! i) \<Longrightarrow> \<exists>e'. scan_sockets io r is e p = (None, e', p)" for "is" e
    using assms(3) by (induction "is" arbitrary: e) auto
  obtain e' where "scan_sockets io r [0..<sCurrentMaxSocketCnt p] None p = (None, e', p)"
    using none [of "[0..<sCurrentMaxSocketCnt p]" None] assms(2,4) by auto
  moreover have "sCurrentMaxSocketCnt (foldl close_morituri q is) = sCurrentMaxSocketCnt q" for q "is"
    by (induction "is" arbitrary: q) (simp_all add: close_morituri_def Let_def)
  ultimately show ?thesis
    using assms(2) by (simp add: trdp_requestSocket_def trdp_releaseSocket_def Let_def)
qed

theorem pool_does_not_recover_witness:
  "sock (iface (demo_pool 80) ! 1) = VOS_INVALID_SOCKET \<and>
   trdp_requestSocket demo_io vos_clearTime (demo_request 6) (- 1) (demo_pool 80) = (TRDP_MEM_ERR, - 1, demo_pool 80)"
proof -
  have "\<forall>i < 80. \<not> sock_fits (demo_request 6) (iface (demo_pool 80) ! i)"
    by (simp add: demo_pool_nth sock_fits_def demo_place_def demo_request_def)
  moreover have "sCurrentMaxSocketCnt (demo_pool 80) = 80" "req_useSocket (demo_request 6) = - 1"
    by (simp_all add: demo_pool_def demo_request_def)
  ultimately show ?thesis
    using pool_does_not_recover [OF demo_pool_ok [of 80], of "demo_request 6" demo_io vos_clearTime "- 1"]
    by (simp add: demo_pool_nth) (simp add: demo_place_def)
qed

end
