(* ===== verification/Trdp_Safety.thy ===== *)
theory Trdp_Safety
  imports Trdp_If Trdp_Delivery Trdp_Pool
begin

text \<open>
  Memory safety of the process data interface: an invariant of sessions that every call of
  \<^verbatim>\<open>trdp_if.c\<close> keeps when it is given sizes that fit its publications, and under which no call
  reads or writes outside a frame, the receive buffer, a list of counters or the socket pool.
\<close>

section \<open>The invariant\<close>

definition idx_ok :: "PD_ELE_T \<Rightarrow> bool" where
  "idx_ok e \<longleftrightarrow> 0 \<le> socketIdx e \<and> socketIdx e < 80"

definition snd_ok :: "PD_ELE_T \<Rightarrow> bool" where
  "snd_ok e \<longleftrightarrow> pub_ok e \<and> magic e = TRDP_MAGIC_PUB_HNDL_VALUE \<and> idx_ok e \<and>
     (comId (addr e) = TRDP_GLOBAL_STATISTICS_COMID \<longrightarrow> dataSize e = 380)"

definition rcv_ok :: "PD_ELE_T \<Rightarrow> bool" where
  "rcv_ok e \<longleftrightarrow> length (pFrame e) = 1472 \<and> dataSize e \<le> 1432 \<and> seq_ok e \<and> magic e = TRDP_MAGIC_SUB_HNDL_VALUE \<and> idx_ok e"

definition pool_len :: "sock_pool \<Rightarrow> bool" where
  "pool_len p \<longleftrightarrow> length (iface p) = VOS_MAX_SOCKET_CNT \<and> sCurrentMaxSocketCnt p \<le> VOS_MAX_SOCKET_CNT"

definition session_ok :: "TRDP_SESSION_T \<Rightarrow> bool" where
  "session_ok s \<longleftrightarrow> pool_len (socks s) \<and> length (pNewFrame s) = 1472 \<and>
     (\<forall>e \<in> set (pSndQueue s). snd_ok e) \<and> (\<forall>e \<in> set (pRcvQueue s). rcv_ok e) \<and> distinct (map ele (pSndQueue s))"

section \<open>The socket pool\<close>

lemma release_pool_len: "pool_len p \<Longrightarrow> pool_len (trdp_releaseSocket now i t False p)"
  by (simp add: pool_len_def trdp_releaseSocket_def Let_def)

lemma request_pool_len:
  assumes p: "pool_len p" and r: "trdp_requestSocket io now r k p = (ret, x, p')"
    and u: "req_useSocket r = VOS_INVALID_SOCKET" and t: "req_usage r \<noteq> TRDP_SOCK_MD_TCP"
  shows "pool_len p'" "ret = TRDP_NO_ERR \<Longrightarrow> 0 \<le> x \<and> x < 80"
proof -
  obtain res e q where sc: "scan_sockets io r [0..<sCurrentMaxSocketCnt p] None p = (res, e, q)" by (metis prod_cases3)
  from scan_spec [OF this _ u] p have
    q: "sCurrentMaxSocketCnt q = sCurrentMaxSocketCnt p" "scanned r [0..<sCurrentMaxSocketCnt p] None (cores p) res e (cores q)"
    by (auto simp: pool_len_def)
  have "length (cores q) = length (cores p)" using q(2) by (auto simp: scanned_def split: option.splits prod.splits)
  then have l: "pool_len q" using q(1) p by (simp add: pool_len_def cores_def)
  have e: "\<forall>i. e = Some i \<longrightarrow> i < 80" if "res = None" using q(2) p that by (auto simp: scanned_def pool_len_def)
  have "pool_len p' \<and> (ret = TRDP_NO_ERR \<longrightarrow> 0 \<le> x \<and> x < 80)"
    using r u t sc
  proof (cases rule: request_cases)
    case (shared i)
    then show ?thesis using l q(2) p by (auto simp: scanned_def pool_len_def)
  next
    case full
    then show ?thesis using l by simp
  next
    case (opened i q' s)
    then have "pool_len q'" "i < 80" using l e by (auto simp: new_place_def pool_len_def split: option.splits)
    then have "pool_len (upd_sock i s q')" by (simp add: pool_len_def)
    then show ?thesis using opened(5) \<open>i < 80\<close> release_pool_len by (auto split: if_splits)
  qed
  then show "pool_len p'" "ret = TRDP_NO_ERR \<Longrightarrow> 0 \<le> x \<and> x < 80" by auto
qed

lemma pd_request_fields [simp]: "req_useSocket (pd_request s q src g b) = - 1" "req_usage (pd_request s q src g b) = TRDP_SOCK_PD"
  by (simp_all add: pd_request_def split: prod.splits)

lemma sock_at_ok: "pool_len (socks s) \<Longrightarrow> idx_ok e \<Longrightarrow> \<exists>fd. sock_at s (socketIdx e) = Inr fd"
  by (auto simp: sock_at_def pool_len_def idx_ok_def nat_less_iff)

section \<open>Sending\<close>

lemma put_type_pub_ok:
  assumes "pub_ok e" and "ty \<in> {TRDP_MSG_PD, TRDP_MSG_PP}"
  shows "pub_ok (e\<lparr>pFrame := put16 6 ty (pFrame e)\<rparr>)"
  using assms pub_ok_room [OF assms(1)] by (auto simp: pub_ok_def header_ok_def)

text \<open>What an operation may change of an element of the send queue.\<close>

definition same_pub :: "PD_ELE_T \<Rightarrow> PD_ELE_T \<Rightarrow> bool" where
  "same_pub e e' \<longleftrightarrow> ele e' = ele e \<and> magic e' = magic e \<and> addr e' = addr e \<and> socketIdx e' = socketIdx e \<and> dataSize e' = dataSize e"

lemma same_pub_snd_ok: "snd_ok e \<Longrightarrow> same_pub e e' \<Longrightarrow> pub_ok e' \<Longrightarrow> snd_ok e'"
  by (auto simp: snd_ok_def same_pub_def idx_ok_def)

lemma pdUpdate_same: "same_pub e (trdp_pdUpdate e)" "magic (trdp_pdUpdate e) = magic e"
  by (simp_all add: same_pub_def trdp_pdUpdate_def Let_def)

lemma pub_ok_cong:
  "pub_ok e \<Longrightarrow> pFrame e' = pFrame e \<Longrightarrow> dataSize e' = dataSize e \<Longrightarrow> grossSize e' = grossSize e \<Longrightarrow> addr e' = addr e \<Longrightarrow> pub_ok e'"
  by (simp add: pub_ok_def)

text \<open>The parts of a session that sending does not touch.\<close>

definition same_rcv :: "TRDP_SESSION_T \<Rightarrow> TRDP_SESSION_T \<Rightarrow> bool" where
  "same_rcv s s' \<longleftrightarrow> pRcvQueue s' = pRcvQueue s \<and> pNewFrame s' = pNewFrame s \<and> (pool_len (socks s) \<longrightarrow> pool_len (socks s'))"

lemma same_rcv_trans: "same_rcv s s' \<Longrightarrow> same_rcv s' s'' \<Longrightarrow> same_rcv s s''"
  by (simp add: same_rcv_def)

lemma transmit_ok:
  assumes "snd_ok e" and "pool_len (socks s)"
  shows "\<exists>err' e' s'. pd_transmit w e err s = Inr (err', e', s') \<and> pub_ok e' \<and> same_pub e e' \<and> same_rcv s s'"
proof -
  define d where "d = (if bit (privFlags e) TRDP_REQ_2B_SENT \<and> hdr_msgType (pFrame e) = TRDP_MSG_PD
               then e\<lparr>pFrame := put16 6 TRDP_MSG_PP (pFrame e)\<rparr> else e)"
  have d: "pub_ok d" "same_pub e d" using assms(1) put_type_pub_ok [of e TRDP_MSG_PP] by (auto simp: d_def snd_ok_def same_pub_def)
  let ?u = "trdp_pdUpdate d"
  have u: "pub_ok ?u" "same_pub e ?u" using pdUpdate_pub_ok [OF d(1)] d(2) pdUpdate_same [of d] by (auto simp: same_pub_def)
  have "idx_ok ?u" using assms(1) u(2) by (simp add: snd_ok_def same_pub_def idx_ok_def)
  then obtain fd where fd: "sock_at s (socketIdx ?u) = Inr fd" and ni: "socketIdx ?u \<noteq> - 1"
    using sock_at_ok [OF assms(2)] by (metis idx_ok_def neg_0_le_iff_le not_one_le_zero)
  have t: "pd_transmit w e err s =
      (if \<not> bit (privFlags ?u) TRDP_REDUNDANT
       then case trdp_pdSend w fd ?u (pd_port s) s of
              (result, e, s) \<Rightarrow> if result = TRDP_NO_ERR
                then Inr (err, e\<lparr>numRxTx := numRxTx e + 1\<rparr>, upd_pd (\<lambda>p. p\<lparr>numSend := numSend p + 1\<rparr>) s) else Inr (result, e, s)
       else Inr (err, ?u, s))"
    using fd ni unfolding pd_transmit_def d_def [symmetric] by (simp add: trdp_validTopoCounters_def Let_def split: prod.splits)
  show ?thesis
  proof (cases "bit (privFlags ?u) TRDP_REDUNDANT")
    case True
    then show ?thesis using t u by (auto simp: same_rcv_def)
  next
    case False
    obtain b n where "udp_send w (length (sent s)) = (b, n)" by fastforce
    then show ?thesis
      using t False u by (auto simp: trdp_pdSend_def Let_def same_rcv_def same_pub_def intro: pub_ok_cong)
  qed
qed

lemma rearm_ok:
  assumes "pub_ok e"
  shows "pub_ok (pd_rearm now e)" "same_pub e (pd_rearm now e)"
  using assms put_type_pub_ok [OF assms, of TRDP_MSG_PD]
  by (auto simp: pd_rearm_def same_pub_def clear_flag_def pub_ok_def header_ok_def)

lemma send_queue_ok:
  assumes "\<forall>e \<in> set q. snd_ok e" and "pool_len (socks s)"
  shows "\<exists>err' q' s'. send_queue w q err s = Inr (err', q', s') \<and> (\<forall>e \<in> set q'. snd_ok e) \<and> same_rcv s s' \<and>
     set (map ele q') \<subseteq> set (map ele q) \<and> (distinct (map ele q) \<longrightarrow> distinct (map ele q'))"
  using assms
proof (induction q arbitrary: err s)
  case (Cons e q)
  define now where "now = clock w (time_reads s)"
  let ?s = "s\<lparr>time_reads := Suc (time_reads s)\<rparr>"
  have e: "snd_ok e" and q: "\<forall>e \<in> set q. snd_ok e" and pl: "pool_len (socks ?s)" using Cons.prems by simp_all
  have sub: ?case if "send_queue w (e # q) err s = (case send_queue w q err1 s1 of Inl f \<Rightarrow> Inl f | Inr (err, es, s) \<Rightarrow> Inr (err, e1 # es, s))"
    and "same_rcv s s1" and "snd_ok e1" and "ele e1 = ele e" for err1 s1 e1
  proof -
    have "pool_len (socks s1)" using that(2) Cons.prems(2) by (simp add: same_rcv_def)
    from Cons.IH [OF q this, of err1] that show ?thesis by (auto intro: same_rcv_trans) (use that(2) same_rcv_trans in blast)+
  qed
  show ?case
  proof (cases "is_due now e")
    case False
    then show ?thesis
      using e by (intro sub [where ?err1.0 = err and ?s1.0 = ?s and ?e1.0 = e]) (simp_all add: vos_getTime_def now_def same_rcv_def)
  next
    case due: True
    have "\<exists>err1 e1 s1. (if bit (privFlags e) TRDP_INVALID_DATA then Inr (err, e, ?s) else pd_transmit w e err ?s) = Inr (err1, e1, s1) \<and>
        pub_ok e1 \<and> same_pub e e1 \<and> same_rcv ?s s1"
      using transmit_ok [OF e pl, of w err] e by (auto simp: snd_ok_def same_pub_def same_rcv_def)
    then obtain err1 e1 s1 where t: "(if bit (privFlags e) TRDP_INVALID_DATA then Inr (err, e, ?s) else pd_transmit w e err ?s) = Inr (err1, e1, s1)"
        "pub_ok e1" "same_pub e e1" "same_rcv ?s s1" by blast
    let ?r = "pd_rearm now e1"
    have r: "pub_ok ?r" "same_pub e ?r" using rearm_ok [OF t(2)] t(3) by (auto simp: same_pub_def)
    then have rok: "snd_ok ?r" using same_pub_snd_ok e by blast
    have pl1: "pool_len (socks s1)" "same_rcv s s1" using t(4) pl by (auto simp: same_rcv_def)
    have ix: "\<not> (socketIdx ?r < 0 \<or> length (iface (socks s1)) \<le> nat (socketIdx ?r))"
      using rok pl1(1) by (auto simp: snd_ok_def idx_ok_def pool_len_def)
    have eq: "send_queue w (e # q) err s =
       (if hdr_msgType (pFrame ?r) = TRDP_MSG_PR
        then send_queue w q err1 (s1\<lparr>socks := trdp_releaseSocket now (nat (socketIdx ?r)) 0 False (socks s1)\<rparr>)
        else (case send_queue w q err1 s1 of Inl f \<Rightarrow> Inl f | Inr (err, es, s) \<Rightarrow> Inr (err, ?r # es, s)))"
      using due t(1) ix by (simp add: vos_getTime_def now_def [symmetric] Let_def)
    show ?thesis
    proof (cases "hdr_msgType (pFrame ?r) = TRDP_MSG_PR")
      case False
      then show ?thesis using eq pl1(2) rok r(2) by (intro sub [where ?err1.0 = err1 and ?s1.0 = s1 and ?e1.0 = ?r]) (simp_all add: same_pub_def)
    next
      case True
      let ?s2 = "s1\<lparr>socks := trdp_releaseSocket now (nat (socketIdx ?r)) 0 False (socks s1)\<rparr>"
      have s2: "pool_len (socks ?s2)" "same_rcv s ?s2" using pl1 release_pool_len by (auto simp: same_rcv_def)
      from Cons.IH [OF q s2(1), of err1] obtain err' q' s' where
        "send_queue w q err1 ?s2 = Inr (err', q', s')" "\<forall>e \<in> set q'. snd_ok e" "same_rcv ?s2 s'"
        "set (map ele q') \<subseteq> set (map ele q)" "distinct (map ele q) \<longrightarrow> distinct (map ele q')" by blast
      then show ?thesis using eq True s2(2) same_rcv_trans by (intro exI [of _ err'] exI [of _ q'] exI [of _ s']) auto
    qed
  qed
qed (simp add: same_rcv_def)

lemma sendQueued_ok:
  assumes "session_ok s"
  shows "\<exists>err s'. trdp_pdSendQueued w s = Inr (err, s') \<and> session_ok s' \<and> pRcvQueue s' = pRcvQueue s \<and> pNewFrame s' = pNewFrame s"
proof -
  let ?s = "s\<lparr>nextJob := vos_clearTime\<rparr>"
  have "\<forall>e \<in> set (pSndQueue s). snd_ok e" "pool_len (socks ?s)" using assms by (simp_all add: session_ok_def)
  from send_queue_ok [OF this, of w TRDP_NO_ERR] obtain err q s' where
    "send_queue w (pSndQueue s) TRDP_NO_ERR ?s = Inr (err, q, s')" "\<forall>e \<in> set q. snd_ok e" "same_rcv ?s s'"
    "distinct (map ele (pSndQueue s)) \<longrightarrow> distinct (map ele q)" by blast
  then show ?thesis using assms by (auto simp: trdp_pdSendQueued_def session_ok_def same_rcv_def)
qed

section \<open>Receiving\<close>

lemma check_total:
  assumes "seq_ok e" and "seq_count e < 32768"
  shows "\<exists>r q. trdp_checkSequenceCounter a e cnt src ty = Inr (r, e\<lparr>pSeqCntList := q\<rparr>) \<and> seq_ok (e\<lparr>pSeqCntList := q\<rparr>)"
proof (cases a)
  case True
  from check_refines [OF assms, of cnt src ty] obtain e' where
    e': "trdp_checkSequenceCounter True e cnt src ty = Inr (fst (seen_check (last_seen e) (src, ty) cnt), e')" "seq_ok e'"
      "e' = e\<lparr>pSeqCntList := pSeqCntList e'\<rparr>" by blast
  have "e\<lparr>pSeqCntList := pSeqCntList e'\<rparr> = e'" using e'(3) by (rule sym)
  then show ?thesis using e'(1,2) True by (intro exI [of _ "pSeqCntList e'"] exI) simp
next
  case False
  show ?thesis
  proof (cases "pSeqCntList e")
    case None
    then have "e\<lparr>pSeqCntList := None\<rparr> = e" by simp
    then show ?thesis using False None assms(1) by (intro exI [of _ "- 1"] exI [of _ None]) (simp add: trdp_checkSequenceCounter_def seq_ok_def)
  next
    case (Some l)
    have ok: "seq_list_ok l" using assms(1) Some by (simp add: seq_ok_def)
    show ?thesis
    proof (cases "seq_index 0 (take (unat (curNoOfEntries l)) (seq l)) src ty")
      case (Some i)
      then show ?thesis
        using \<open>pSeqCntList e = Some l\<close> ok
        by (cases "lastSeqCnt (seq l ! i) = 0 \<or> cnt \<noteq> lastSeqCnt (seq l ! i)")
           (force simp: trdp_checkSequenceCounter_def seq_ok_def seq_list_ok_def)+
    next
      case None
      show ?thesis
      proof (cases "curNoOfEntries l \<ge> maxNoOfEntries l")
        case True
        then show ?thesis
          using None Some False ok
          by (intro exI [of _ "- 1"] exI [of _ "Some l"]) (simp add: trdp_checkSequenceCounter_def grow_seq_list_def seq_ok_def)
      next
        case few: False
        then have lt: "unat (curNoOfEntries l) < unat (maxNoOfEntries l)" by (simp add: word_le_nat_alt not_le)
        moreover have "unat (maxNoOfEntries l) < 2 ^ LENGTH(16)" by (rule unsigned_less)
        ultimately have "unat (curNoOfEntries l) < length (seq l)" "unat (curNoOfEntries l) < 65535" using ok by (auto simp: seq_list_ok_def)
        from append_seq_eq [OF this, of cnt src ty] obtain l' where
          l': "append_seq l cnt src ty = Inr l'" "maxNoOfEntries l' = maxNoOfEntries l" "length (seq l') = length (seq l)"
            "unat (curNoOfEntries l') = Suc (unat (curNoOfEntries l))" by blast
        have "seq_list_ok l'" using l' ok lt by (simp add: seq_list_ok_def word_le_nat_alt)
        then show ?thesis
          using None Some few l'(1)
          by (intro exI [of _ 0] exI [of _ "Some l'"]) (simp add: trdp_checkSequenceCounter_def grow_seq_list_def seq_ok_def)
      qed
    qed
  qed
qed

lemma length_htonl_words: "length (concat (map htonl ws)) = 4 * length ws"
  by (induction ws) simp_all

lemma length_put_words [simp]: "off + 4 * length ws \<le> length bs \<Longrightarrow> length (put_words off ws bs) = length bs"
  by (simp add: put_words_def length_htonl_words)

lemma length_strncpy [simp]: "length (vos_strncpy (slice off n bs) src n) = n"
  by (simp add: vos_strncpy_def overwrite_def slice_def)

lemma length_words: "length (mem_words m) \<le> 36" "length (pd_words p) = 14" "length (md_words d) = 13"
  by (simp_all add: mem_words_def pd_words_def md_words_def)

lemma length_fill_stats: "380 \<le> length bs \<Longrightarrow> length (fill_stats st bs) = length bs"
  using length_words(1) [of "mem st"] by (simp add: fill_stats_def Let_def length_words(2,3))

lemma UpdateStats_fields [simp]:
  "pRcvQueue (trdp_UpdateStats w s) = pRcvQueue s" "pSndQueue (trdp_UpdateStats w s) = pSndQueue s"
  "pNewFrame (trdp_UpdateStats w s) = pNewFrame s" "socks (trdp_UpdateStats w s) = socks s"
  by (simp_all add: trdp_UpdateStats_def vos_getTime_def Let_def)

lemma flag_pub_ok [simp]: "pub_ok (set_flag f e) = pub_ok e" "pub_ok (clear_flag f e) = pub_ok e"
  by (simp_all add: pub_ok_def set_flag_def clear_flag_def)

text \<open>A statistics publication keeps its shape when it is filled.\<close>

lemma prepare_stats_ok:
  assumes "pub_ok e" and "dataSize e = 380"
  shows "\<exists>e' s'. trdp_pdPrepareStats w e s = Inr (e', s') \<and> pub_ok e' \<and> same_pub e e' \<and> s' = trdp_UpdateStats w s"
proof -
  have g420: "unat (trdp_packetSizePD 380) = 420" by (subst unat_packetSizePD) simp_all
  then have l: "length (pFrame e) = 420" using assms by (simp add: pub_ok_def)
  let ?fr = "take 40 (pFrame e) @ fill_stats (stats (trdp_UpdateStats w s)) (frame_data (pFrame e))"
  have lf: "length ?fr = 420" using l by (simp add: length_fill_stats)
  have g: "off + 4 \<le> 40 \<Longrightarrow> get32 off ?fr = get32 off (pFrame e)" "off + 2 \<le> 40 \<Longrightarrow> get16 off ?fr = get16 off (pFrame e)" for off
    using l by (simp_all add: get32_def get16_def slice_append slice_take)
  have "pub_ok (e\<lparr>pFrame := ?fr, dataSize := 380\<rparr>)"
    using assms l lf g g420 by (simp add: pub_ok_def header_ok_def)
  then show ?thesis using l assms(2) by (simp add: trdp_pdPrepareStats_def Let_def same_pub_def clear_flag_def pub_ok_def)
qed

lemma find_comId_member: "trdp_queueFindComId q c = Some e \<Longrightarrow> e \<in> set q \<and> comId (addr e) = c"
  by (induction q) (auto split: if_splits)

lemma upd_ele_queue:
  assumes "\<forall>x \<in> set q. P x" and "P e"
  shows "\<forall>x \<in> set (upd_ele q e). P x" "map ele (upd_ele q e) = map ele q"
  using assms by (auto simp: upd_ele_def)

lemma pull_ok:
  assumes "session_ok s"
  shows "\<exists>b s'. pd_pull w src s = Inr (b, s') \<and> session_ok s' \<and> pRcvQueue s' = pRcvQueue s \<and> pNewFrame s' = pNewFrame s"
proof -
  have snd: "\<forall>e \<in> set (pSndQueue s). snd_ok e" using assms by (simp add: session_ok_def)
  have "\<exists>x s1. pulled_element w s = Inr (x, s1) \<and> (\<forall>e. x = Some e \<longrightarrow> snd_ok e) \<and> pRcvQueue s1 = pRcvQueue s \<and>
      pSndQueue s1 = pSndQueue s \<and> pNewFrame s1 = pNewFrame s \<and> socks s1 = socks s"
  proof (cases "hdr_comId (pNewFrame s) = TRDP_STATISTICS_PULL_COMID")
    case False
    then show ?thesis using snd find_comId_member by (auto simp: pulled_element_def Let_def)
  next
    case True
    show ?thesis
    proof (cases "trdp_queueFindComId (pSndQueue s) TRDP_GLOBAL_STATISTICS_COMID")
      case None
      then show ?thesis using True by (simp add: pulled_element_def Let_def)
    next
      case (Some e)
      then have e: "snd_ok e" "comId (addr e) = 35" using snd find_comId_member by auto
      let ?e = "e\<lparr>addr := (addr e)\<lparr>comId := 35, destIpAddr := hdr_replyIpAddress (pNewFrame s)\<rparr>\<rparr>"
      let ?i = "trdp_pdInit ?e TRDP_MSG_PP (sess_etbTopoCnt s) (sess_opTrnTopoCnt s) 0 0"
      have "pub_ok ?i" using e by (intro pdInit_pub_ok) (simp_all add: snd_ok_def pub_ok_def)
      moreover have "dataSize ?i = 380" "magic ?i = magic e" "socketIdx ?i = socketIdx e"
        using e by (simp_all add: snd_ok_def trdp_pdInit_def Let_def)
      ultimately have i: "pub_ok ?i" "dataSize ?i = 380" "magic ?i = magic e" "socketIdx ?i = socketIdx e" by blast+
      from prepare_stats_ok [OF i(1,2), of w s] obtain e' where
        "trdp_pdPrepareStats w ?i s = Inr (e', trdp_UpdateStats w s)" "pub_ok e'" "same_pub ?i e'" by blast
      then show ?thesis
        using True Some i e by (auto simp: pulled_element_def Let_def snd_ok_def same_pub_def idx_ok_def)
    qed
  qed
  then obtain x s1 where x: "pulled_element w s = Inr (x, s1)" "\<forall>e. x = Some e \<longrightarrow> snd_ok e" "pRcvQueue s1 = pRcvQueue s"
      "pSndQueue s1 = pSndQueue s" "pNewFrame s1 = pNewFrame s" "socks s1 = socks s" by blast
  show ?thesis
  proof (cases "hdr_msgType (pNewFrame s) = TRDP_MSG_PR")
    case False
    then show ?thesis using assms by (auto simp: pd_pull_def)
  next
    case pr: True
    show ?thesis
    proof (cases x)
      case None
      then show ?thesis using pr x assms by (auto simp: pd_pull_def session_ok_def)
    next
      case (Some e)
      define e1 where "e1 = set_flag TRDP_REQ_2B_SENT (e\<lparr>pullIpAddress := (if hdr_replyIpAddress (pNewFrame s1) \<noteq> 0 then hdr_replyIpAddress (pNewFrame s1) else src)\<rparr>)"
      have "snd_ok e1" using x(2) Some by (simp add: e1_def snd_ok_def idx_ok_def set_flag_def pub_ok_def)
      then have "session_ok (s1\<lparr>pSndQueue := upd_ele (pSndQueue s1) e1\<rparr>)"
        using assms x upd_ele_queue [of "pSndQueue s" snd_ok e1] by (simp add: session_ok_def)
      from sendQueued_ok [OF this, of w] obtain err s' where
        "trdp_pdSendQueued w (s1\<lparr>pSndQueue := upd_ele (pSndQueue s1) e1\<rparr>) = Inr (err, s')" "session_ok s'"
        "pRcvQueue s' = pRcvQueue s1" "pNewFrame s' = pNewFrame s1" by auto
      then show ?thesis using pr x Some by (auto simp: pd_pull_def e1_def Let_def)
    qed
  qed
qed

lemma rcv_ok_upd [simp]:
  "rcv_ok (e\<lparr>lastSrcIP := a, addr := b\<rparr>) = rcv_ok e" "rcv_ok (e\<lparr>lastErr := c\<rparr>) = rcv_ok e"
  "rcv_ok (set_flag f e) = rcv_ok e" "rcv_ok (clear_flag f e) = rcv_ok e"
  by (simp_all add: rcv_ok_def idx_ok_def seq_ok_def set_flag_def clear_flag_def)

text \<open>Room for \<open>n\<close> more senders in every subscription.\<close>

definition seq_space :: "nat \<Rightarrow> TRDP_SESSION_T \<Rightarrow> bool" where
  "seq_space n s \<longleftrightarrow> (\<forall>e \<in> set (pRcvQueue s). seq_count e + n \<le> 32768)"

lemma subscribed_ok:
  assumes "session_ok s" and "e \<in> set (pRcvQueue s)" and sp: "seq_space (Suc n) s" and "hdr_datasetLength (pNewFrame s) \<le> 1432"
  shows "\<exists>err s'. pd_subscribed w a adr e inform s = Inr (err, s') \<and> session_ok s' \<and> seq_space n s'"
proof -
  have few: "seq_count e + Suc n \<le> 32768" using sp assms(2) by (simp add: seq_space_def)
  have e: "rcv_ok e" and rcv: "\<forall>x \<in> set (pRcvQueue s). rcv_ok x" using assms(1,2) by (simp_all add: session_ok_def)
  let ?fr = "pNewFrame s" let ?cnt = "hdr_sequenceCounter ?fr" let ?ty = "hdr_msgType ?fr"
  let ?e = "e\<lparr>lastSrcIP := srcIpAddr adr, addr := (addr e)\<lparr>destIpAddr := destIpAddr adr\<rparr>\<rparr>"
  define d where "d = (if ?cnt = 0 then trdp_resetSequenceCounter ?e (srcIpAddr adr) ?ty else ?e)"
  have so: "seq_ok ?e" using e by (simp add: rcv_ok_def seq_ok_def)
  have d: "rcv_ok d" "seq_count d = seq_count e" "ele d = ele e"
    using e reset_last_seen(2,3) [OF so] reset_fields [of ?e "srcIpAddr adr" ?ty]
    by (auto simp: d_def rcv_ok_def idx_ok_def seq_count_def trdp_resetSequenceCounter_def Let_def split: option.splits)
  have ds: "seq_ok d" using d(1) by (simp add: rcv_ok_def)
  have "seq_count d < 32768" using d(2) few by simp
  from check_total [OF ds this, of a ?cnt "srcIpAddr adr" ?ty] obtain r q where
    q: "trdp_checkSequenceCounter a d ?cnt (srcIpAddr adr) ?ty = Inr (r, d\<lparr>pSeqCntList := q\<rparr>)" "seq_ok (d\<lparr>pSeqCntList := q\<rparr>)" by blast
  let ?d = "d\<lparr>pSeqCntList := q\<rparr>"
  have dq: "rcv_ok ?d" using d(1) q(2) by (simp add: rcv_ok_def idx_ok_def)
  have dn: "seq_count ?d + n \<le> 32768" using check_count [OF q(1)] d(2) few by simp
  have old: "\<forall>x \<in> set (pRcvQueue s). seq_count x + n \<le> 32768" using sp by (auto simp: seq_space_def)
  define t where "t = s\<lparr>seqcnt := (seqcnt s)(comId adr mod 128 := ?cnt)\<rparr>"
  have t: "session_ok (t\<lparr>pRcvQueue := upd_ele (pRcvQueue t) ?d\<rparr>)" "seq_space n (t\<lparr>pRcvQueue := upd_ele (pRcvQueue t) ?d\<rparr>)"
    using assms(1) dq rcv dn old by (auto simp: session_ok_def seq_space_def t_def upd_ele_def)
  obtain i x u where acc: "pd_accept w ?d inform t = (i, x, u)" by (metis prod_cases3)
  have x: "rcv_ok x" "seq_count x = seq_count ?d" "pNewFrame u = pFrame ?d" "pRcvQueue u = pRcvQueue s" "pSndQueue u = pSndQueue s" "socks u = socks s"
    using acc dq assms(1,4) by (auto simp: pd_accept_def Let_def vos_getTime_def t_def rcv_ok_def idx_ok_def seq_ok_def seq_count_def session_ok_def clear_flag_def)
  have "session_ok (u\<lparr>pRcvQueue := upd_ele (pRcvQueue u) x\<rparr>)" "seq_space n (u\<lparr>pRcvQueue := upd_ele (pRcvQueue u) x\<rparr>)"
    using assms(1) x dq rcv dn old by (auto simp: session_ok_def seq_space_def upd_ele_def rcv_ok_def)
  then have "session_ok (pd_callback i x (destIpAddr adr) TRDP_NO_ERR (u\<lparr>pRcvQueue := upd_ele (pRcvQueue u) x\<rparr>))"
      "seq_space n (pd_callback i x (destIpAddr adr) TRDP_NO_ERR (u\<lparr>pRcvQueue := upd_ele (pRcvQueue u) x\<rparr>))"
    by (simp_all add: pd_callback_def session_ok_def seq_space_def)
  then show ?thesis
    using t q(1) acc unfolding pd_subscribed_def d_def t_def
    by (auto simp: trdp_validTopoCounters_def Let_def)
qed

lemma receive_ok:
  assumes "session_ok s" and sp: "seq_space (Suc n) s"
  shows "\<exists>err s'. trdp_pdReceive w a rx s = Inr (err, s') \<and> session_ok s' \<and> seq_space n s'"
proof (cases "rx_err rx = TRDP_NO_ERR")
  case False
  then show ?thesis using assms by (auto simp: trdp_pdReceive_def seq_space_def)
next
  case True
  let ?b = "take 1472 (rx_bytes rx)"
  let ?s = "s\<lparr>pNewFrame := ?b @ drop (length ?b) (pNewFrame s)\<rparr>"
  have s: "session_ok ?s" using assms(1) by (simp add: session_ok_def)
  have keeps: "session_ok (upd_pd f ?s)" for f using s by (simp add: session_ok_def)
  have sn: "seq_space n t" if "pRcvQueue t = pRcvQueue s" for t using sp that by (auto simp: seq_space_def)
  show ?thesis
  proof (cases "trdp_pdCheck (pNewFrame ?s) (of_nat (length ?b)) = TRDP_NO_ERR")
    case ok: True
    have l: "length (pNewFrame ?s) = 1472" using s by (simp add: session_ok_def)
    have d: "hdr_datasetLength (pNewFrame ?s) \<le> 1432"
      using ok l pdCheck_iff [of "pNewFrame ?s"] by (auto simp: header_ok_def)
    let ?t = "upd_pd (\<lambda>p. p\<lparr>numRcv := numRcv p + 1\<rparr>) ?s"
    from pull_ok [OF keeps, of w "rx_src rx" "\<lambda>p. p\<lparr>numRcv := numRcv p + 1\<rparr>"] obtain b u where
      u: "pd_pull w (rx_src rx) ?t = Inr (b, u)" "session_ok u" "pRcvQueue u = pRcvQueue s" "pNewFrame u = pNewFrame ?s" by auto
    let ?a = "\<lparr>comId = hdr_comId (pNewFrame ?s), srcIpAddr = rx_src rx, destIpAddr = rx_dest rx, mcGroup = 0,
        etbTopoCnt = hdr_etbTopoCnt (pNewFrame ?s), opTrnTopoCnt = hdr_opTrnTopoCnt (pNewFrame ?s)\<rparr>"
    have eq: "trdp_pdReceive w a rx s = (case trdp_queueFindSubAddr (pRcvQueue u) ?a of
        None \<Rightarrow> Inr (TRDP_NOSUB_ERR, u) | Some e \<Rightarrow> pd_subscribed w a ?a e b u)"
      using True ok u(1) by (simp add: trdp_pdReceive_def Let_def trdp_validTopoCounters_def split: option.splits)
    show ?thesis
    proof (cases "trdp_queueFindSubAddr (pRcvQueue u) ?a")
      case None
      then show ?thesis using eq u(2,3) sn by simp
    next
      case (Some e)
      then have "e \<in> set (pRcvQueue u)" by (rule find_sub_member)
      moreover have "seq_space (Suc n) u" using sp u(3) by (simp add: seq_space_def)
      ultimately show ?thesis using subscribed_ok [OF u(2), of e n w a ?a b] d u(4) eq Some by simp
    qed
  next
    case False
    then show ?thesis
      using True keeps s sn by (auto simp: trdp_pdReceive_def Let_def split: TRDP_ERR_T.splits)
  qed
qed

section \<open>Time-outs, pending jobs and listening\<close>

lemma timeouts_ok:
  assumes "session_ok s"
  shows "session_ok (trdp_pdHandleTimeOuts w s)" "map seq_count (pRcvQueue (trdp_pdHandleTimeOuts w s)) = map seq_count (pRcvQueue s)"
proof -
  have t: "\<forall>e \<in> set q. rcv_ok e \<Longrightarrow> (\<forall>e \<in> set (fst (timeout_queue now q s)). rcv_ok e) \<and>
      map seq_count (fst (timeout_queue now q s)) = map seq_count q \<and> pSndQueue (snd (timeout_queue now q s)) = pSndQueue s \<and>
      pNewFrame (snd (timeout_queue now q s)) = pNewFrame s \<and> socks (snd (timeout_queue now q s)) = socks s" for now q s
  proof (induction now q s rule: timeout_queue.induct)
    case (2 now e es s)
    have "rcv_ok (pd_timed_out e) = rcv_ok e" "seq_count (pd_timed_out e) = seq_count e"
      by (simp_all add: pd_timed_out_def) (simp add: set_flag_def seq_count_def)
    then show ?case using "2.IH" "2.prems" by (auto simp: Let_def case_prod_beta)
  qed simp
  show "session_ok (trdp_pdHandleTimeOuts w s)" "map seq_count (pRcvQueue (trdp_pdHandleTimeOuts w s)) = map seq_count (pRcvQueue s)"
    using assms t [of "pRcvQueue s" "clock w (time_reads s)" "s\<lparr>time_reads := Suc (time_reads s)\<rparr>"]
    by (simp_all add: trdp_pdHandleTimeOuts_def vos_getTime_def case_prod_beta session_ok_def)
qed

lemma pending_ok:
  assumes "session_ok s"
  shows "\<exists>fds' n' s'. trdp_pdCheckPending fds n s = Inr (fds', n', s') \<and> session_ok s'"
proof -
  have p: "pool_len p \<Longrightarrow> \<forall>e \<in> set q. rcv_ok e \<Longrightarrow> \<exists>r. pending_rcv p q job fds n = Inr r" for p q job fds n
  proof (induction p q job fds n rule: pending_rcv.induct)
    case (2 p e es job fds n)
    have ix: "\<not> (socketIdx e < 0 \<or> length (iface p) \<le> nat (socketIdx e))"
      using "2.prems" by (auto simp: rcv_ok_def idx_ok_def pool_len_def)
    show ?case using "2.IH" "2.prems" ix by (simp add: Let_def)
  qed simp
  have "\<exists>r. pending_rcv (socks s) (pRcvQueue s) vos_clearTime fds n = Inr r"
    using p assms by (simp add: session_ok_def)
  then show ?thesis using assms by (auto simp: trdp_pdCheckPending_def session_ok_def split: prod.splits)
qed

end
