(* ===== verification/Trdp_Calls.thy ===== *)
theory Trdp_Calls
  imports Trdp_Safety
begin

text \<open>
  Sequences of calls of the process data interface: every call keeps the invariant of sessions,
  so that no sequence of admissible calls faults.
\<close>

section \<open>Reading sockets\<close>

lemma seq_space_mono: "seq_space n s \<Longrightarrow> m \<le> n \<Longrightarrow> seq_space m s"
  by (auto simp: seq_space_def)

lemma receive_all_ok:
  assumes "session_ok s" and "seq_space (length rxs + n) s"
  shows "\<exists>err s'. receive_all w a nb rxs s = Inr (err, s') \<and> session_ok s' \<and> seq_space n s'"
  using assms
proof (induction rxs arbitrary: s)
  case (Cons rx rxs)
  from receive_ok [OF Cons.prems(1), of "length rxs + n" w a rx] Cons.prems(2) obtain err s1 where
    s1: "trdp_pdReceive w a rx s = Inr (err, s1)" "session_ok s1" "seq_space (length rxs + n) s1" by auto
  then show ?case using Cons.IH [OF s1(2,3)] seq_space_mono [OF s1(3), of n] by auto
qed auto

lemma drain_ok:
  assumes "session_ok s" and "seq_space (length rxs) s"
  shows "\<exists>s'. drain w a rxs s = Inr s' \<and> session_ok s'"
  using assms
proof (induction rxs arbitrary: s)
  case (Cons rx rxs)
  from receive_ok [OF Cons.prems(1), of "length rxs" w a rx] Cons.prems(2) obtain err s1 where
    s1: "trdp_pdReceive w a rx s = Inr (err, s1)" "session_ok s1" "seq_space (length rxs) s1" by auto
  then show ?case using Cons.IH [OF s1(2,3)] by auto
qed auto

lemma sock_at_index: "pool_len (socks s) \<Longrightarrow> 0 \<le> i \<Longrightarrow> i < 80 \<Longrightarrow> \<exists>fd. sock_at s i = Inr fd"
  by (auto simp: sock_at_def pool_len_def nat_less_iff)

lemma check_socks_ok:
  assumes "session_ok s" and "\<forall>i \<in> set js. 0 \<le> i \<and> i < 80" and "\<forall>fd. length (rxs fd) \<le> k" and "seq_space (k * length js) s"
  shows "\<exists>r. \<exists>s'. check_socks w a rxs js ready n result s = Inr (fst r, fst (snd r), snd (snd r), s') \<and> session_ok s'"
  using assms
proof (induction js arbitrary: ready n result s)
  case (Cons i js)
  have pl: "pool_len (socks s)" using Cons.prems(1) by (simp add: session_ok_def)
  then obtain fd where fd: "sock_at s i = Inr fd" using sock_at_index Cons.prems(2) by (metis list.set_intros(1))
  have i: "i \<noteq> - 1" using Cons.prems(2) by auto
  show ?case
  proof (cases "fd \<in> ready")
    case True
    have "seq_space (length (rxs fd) + k * length js) s"
      using Cons.prems(3,4) by (intro seq_space_mono [OF Cons.prems(4)]) simp
    from receive_all_ok [OF Cons.prems(1) this, of w a "\<not> bit (sess_option s) TRDP_OPTION_BLOCK"] obtain err s1 where
      s1: "receive_all w a (\<not> bit (sess_option s) TRDP_OPTION_BLOCK) (rxs fd) s = Inr (err, s1)" "session_ok s1" "seq_space (k * length js) s1" by blast
    show ?thesis using Cons.IH [OF s1(2) _ Cons.prems(3) s1(3)] Cons.prems(2) True fd i s1(1) by simp
  next
    case False
    have "seq_space (k * length js) s" by (rule seq_space_mono [OF Cons.prems(4)]) simp
    then show ?thesis using Cons.IH [OF Cons.prems(1) _ Cons.prems(3)] Cons.prems(2) False fd i by simp
  qed
qed auto

text \<open>Room in the lists of counters for \<open>k\<close> datagrams on each socket that a session reads.\<close>

definition room_for :: "nat \<Rightarrow> TRDP_SESSION_T \<Rightarrow> bool" where
  "room_for k s \<longleftrightarrow> seq_space (k * length (pRcvQueue s)) s"

lemma listen_ok:
  assumes "session_ok s" and "\<forall>fd. length (rxs fd) \<le> k" and "room_for k s"
  shows "\<exists>err s'. trdp_pdCheckListenSocks w a rxs pR pC s = Inr (err, s') \<and> session_ok s'"
proof -
  have i: "\<forall>i \<in> set (map socketIdx (pRcvQueue s)). 0 \<le> i \<and> i < 80" using assms(1) by (auto simp: session_ok_def rcv_ok_def idx_ok_def)
  have "seq_space (k * length (map socketIdx (pRcvQueue s))) s" using assms(3) by (simp add: room_for_def)
  from check_socks_ok [OF assms(1) i assms(2) this] have
    "\<exists>err x y s'. check_socks w a rxs (map socketIdx (pRcvQueue s)) ready n TRDP_NO_ERR s = Inr (err, x, y, s') \<and> session_ok s'" for ready n
    by blast
  then show ?thesis using assms(1)
    by (cases pR; cases pC) (simp_all add: trdp_pdCheckListenSocks_def, metis (no_types, lifting) case_prod_conv sum.case(2))
qed

section \<open>Publications\<close>

lemma find_ele_member: "find_ele q h = Some e \<Longrightarrow> e \<in> set q \<and> ele e = h"
  by (induction q) (auto split: if_splits)

lemma find_ele_none: "find_ele q h = None \<longleftrightarrow> h \<notin> ele ` set q"
  by (induction q) auto

lemma the_pub_member: "the_pub s h = Some e \<Longrightarrow> e \<in> set (pSndQueue s) \<and> ele e = h"
  by (auto simp: the_pub_def find_ele_member split: option.splits if_splits)

lemma the_sub_member: "the_sub s h = Some e \<Longrightarrow> e \<in> set (pRcvQueue s) \<and> ele e = h"
  by (auto simp: the_sub_def find_ele_member split: option.splits if_splits)

text \<open>
  Data that a publication has room for: the caller's buffer holds the bytes it announces, and they
  are not more than were published, or, when nothing was, not more than a telegram can carry and
  there is memory for the frame.
\<close>

definition put_fits :: "bool \<Rightarrow> PD_ELE_T \<Rightarrow> u8 list option \<Rightarrow> u32 \<Rightarrow> bool" where
  "put_fits alloc e pData n \<longleftrightarrow>
     (case pData of None \<Rightarrow> True | Some bs \<Rightarrow> unat n \<le> length bs) \<and>
     (if dataSize e = 0 then n \<le> 1432 \<and> alloc else n \<le> dataSize e)"

lemma valid_snd_ok: "snd_ok e \<Longrightarrow> snd_ok (pd_valid e) \<and> ele (pd_valid e) = ele e"
  by (simp add: snd_ok_def pd_valid_def clear_flag_def idx_ok_def pub_ok_def)

lemma get_take:
  "off + 4 \<le> m \<Longrightarrow> get32 off (take m fr) = get32 off fr" "off + 2 \<le> m \<Longrightarrow> get16 off (take m fr) = get16 off fr"
  by (simp_all add: get32_def get16_def slice_take)

lemma enlarge_snd_ok:
  assumes "snd_ok e" and "dataSize e = 0" and "n \<le> 1432"
  shows "snd_ok (pd_enlarge n e)" "ele (pd_enlarge n e) = ele e" "40 + unat n \<le> length (pFrame (pd_enlarge n e))"
    "pktFlags (pd_enlarge n e) = pktFlags e"
proof -
  have c: "comId (addr e) \<noteq> 35" using assms(1,2) by (auto simp: snd_ok_def)
  have l: "40 \<le> length (pFrame e)" using assms(1) pub_ok_room [of e] by (simp add: snd_ok_def)
  have r: "40 + unat n \<le> unat (trdp_packetSizePD n)" using packetSizePD_room(1) [OF assms(3)] .
  have "pub_ok (pd_enlarge n e)"
    using assms l r by (simp add: snd_ok_def pub_ok_def pd_enlarge_def header_ok_def frame_prefix get_take)
  then show "snd_ok (pd_enlarge n e)" using assms(1) c by (simp add: snd_ok_def pd_enlarge_def idx_ok_def)
  show "ele (pd_enlarge n e) = ele e" "40 + unat n \<le> length (pFrame (pd_enlarge n e))" "pktFlags (pd_enlarge n e) = pktFlags e"
    using l r by (simp_all add: pd_enlarge_def)
qed

lemma data_snd_ok:
  assumes "snd_ok e" and "40 + length bs \<le> length (pFrame e)"
  shows "snd_ok (with_data bs e)" "ele (with_data bs e) = ele e"
  using assms with_data_pub_ok [of e bs] by (simp_all add: snd_ok_def idx_ok_def) (simp_all add: with_data_def pd_valid_def clear_flag_def)

lemma pdPut_total:
  assumes e: "snd_ok e" and fit: "put_fits alloc e pData n"
  shows "\<exists>ret e'. trdp_pdPut alloc None e pData n = Inr (ret, e') \<and> snd_ok e' \<and> ele e' = ele e"
proof (cases "\<exists>bs. pData = Some bs \<and> n \<noteq> 0")
  case False
  then show ?thesis using e valid_snd_ok by (auto simp: trdp_pdPut_def split: option.splits)
next
  case True
  then obtain bs where bs: "pData = Some bs" "unat n \<le> length bs" and n0: "n \<noteq> 0" using fit by (auto simp: put_fits_def)
  define d where "d = (if dataSize e = 0 then pd_enlarge n e else e)"
  have n: "n \<le> 1432" and al: "\<not> (dataSize e = 0 \<and> \<not> alloc)"
    using fit e order_trans [of n "dataSize e" 1432] by (auto simp: put_fits_def snd_ok_def pub_ok_def split: if_splits)
  have room: "40 + unat n \<le> length (pFrame e)" if "dataSize e \<noteq> 0"
    using fit that e pub_ok_room [of e] by (auto simp: put_fits_def snd_ok_def word_le_nat_alt)
  have d: "snd_ok d" "ele d = ele e" "40 + unat n \<le> length (pFrame d)"
    using enlarge_snd_ok [OF e _ n] e room by (auto simp: d_def)
  have "trdp_pdPut alloc None e pData n = Inr (TRDP_NO_ERR, with_data (take (unat n) bs) d)"
    using bs n0 n al d(3) unfolding trdp_pdPut_def d_def [symmetric]
    by (simp add: put_data_def with_data_def Let_def not_less [symmetric])
  then show ?thesis using data_snd_ok [OF d(1), of "take (unat n) bs"] d(2,3) bs(2) by simp
qed

lemma upd_snd_ok:
  assumes "session_ok s" and "snd_ok e"
  shows "session_ok (s\<lparr>pSndQueue := upd_ele (pSndQueue s) e\<rparr>)"
  using assms upd_ele_queue [of "pSndQueue s" snd_ok e] by (simp add: session_ok_def)

text \<open>A publication handle that is admissible for data.\<close>

definition put_admissible :: "bool \<Rightarrow> u64 option \<Rightarrow> u8 list option \<Rightarrow> u32 \<Rightarrow> TRDP_SESSION_T \<Rightarrow> bool" where
  "put_admissible alloc h pData n s \<longleftrightarrow>
     (case h of None \<Rightarrow> True
      | Some p \<Rightarrow> (case the_pub s p of None \<Rightarrow> True | Some e \<Rightarrow> put_fits alloc e pData n))"

lemma put_ok:
  assumes "session_ok s" and "put_admissible alloc h pData n s"
  shows "\<exists>ret s'. tlp_put alloc None h pData n s = Inr (ret, s') \<and> session_ok s'"
proof (cases "\<exists>p e. h = Some p \<and> the_pub s p = Some e")
  case True
  then obtain p e where e: "h = Some p" "the_pub s p = Some e" by blast
  then have "snd_ok e" "put_fits alloc e pData n"
    using assms the_pub_member [OF e(2)] by (auto simp: session_ok_def put_admissible_def)
  from pdPut_total [OF this] show ?thesis using e upd_snd_ok [OF assms(1)] by (auto simp: tlp_put_def)
next
  case False
  then show ?thesis using assms(1) by (auto simp: tlp_put_def split: option.splits)
qed

lemma snd_ok_time [simp]: "snd_ok (e\<lparr>timeToGo := t\<rparr>) = snd_ok e"
  by (simp add: snd_ok_def pub_ok_def idx_ok_def)

lemma distribute_set_ok:
  "(\<forall>e \<in> set q. snd_ok e) \<longrightarrow> (\<forall>e \<in> set (distribute_set q d t n i). snd_ok e)"
  "map ele (distribute_set q d t n i) = map ele q"
  by (induction q d t n i rule: distribute_set.induct) (simp_all add: Let_def)

lemma distribute_ok:
  assumes "session_ok s" shows "session_ok (s\<lparr>pSndQueue := snd (trdp_pdDistribute (pSndQueue s))\<rparr>)"
  using assms distribute_set_ok
  by (auto simp: session_ok_def trdp_pdDistribute_def Let_def split: prod.splits)

lemma new_pub_ok:
  assumes "pub_size a \<le> 1432" and "pub_comId a = 35 \<longrightarrow> pub_size a = 380" and "0 \<le> idx" and "idx < 80"
  shows "snd_ok (new_pub qs a adr src idx tt s)" "ele (new_pub qs a adr src idx tt s) = adr"
    "dataSize (new_pub qs a adr src idx tt s) = pub_size a" "magic (new_pub qs a adr src idx tt s) = TRDP_MAGIC_PUB_HNDL_VALUE"
proof -
  show f: "ele (new_pub qs a adr src idx tt s) = adr" "dataSize (new_pub qs a adr src idx tt s) = pub_size a"
      "magic (new_pub qs a adr src idx tt s) = TRDP_MAGIC_PUB_HNDL_VALUE"
    by (simp_all add: new_pub_def trdp_pdInit_def Let_def set_flag_def zero_ele_def)
  have "pub_ok (new_pub qs a adr src idx tt s)"
    unfolding new_pub_def Let_def by (rule pdInit_pub_ok) (use assms(1) in \<open>simp_all add: set_flag_def\<close>)
  moreover have "comId (addr (new_pub qs a adr src idx tt s)) = pub_comId a" "socketIdx (new_pub qs a adr src idx tt s) = idx"
    by (simp_all add: new_pub_def trdp_pdInit_def Let_def set_flag_def zero_ele_def)
  ultimately show "snd_ok (new_pub qs a adr src idx tt s)" using assms f by (simp add: snd_ok_def idx_ok_def)
qed

lemma find_ele_append: "h \<notin> ele ` set q \<Longrightarrow> find_ele (q @ [e]) h = (if ele e = h then Some e else None)"
  by (induction q) auto

text \<open>The arguments of a publication that the stack can hold.\<close>

definition publish_admissible :: "u64 \<Rightarrow> pub_args \<Rightarrow> TRDP_SESSION_T \<Rightarrow> bool" where
  "publish_admissible adr a s \<longleftrightarrow>
     adr \<notin> ele ` set (pSndQueue s) \<and> pub_size a \<le> 1432 \<and>
     (pub_comId a = TRDP_GLOBAL_STATISTICS_COMID \<longrightarrow> pub_size a = 380) \<and>
     (case pub_data a of None \<Rightarrow> True | Some bs \<Rightarrow> unat (pub_size a) \<le> length bs)"

lemma publish_ok:
  assumes s: "session_ok s" and adm: "publish_admissible adr a s"
  shows "\<exists>ret h s'. tlp_publish w io alloc None qs adr a (Some s) = Inr (ret, h, Some s') \<and> session_ok s'"
proof -
  define src where "src = (if pub_src a = 0 then realIP s else pub_src a)"
  obtain ret idx p where r: "trdp_requestSocket io (clock w (time_reads s)) (pd_request s (pub_sendParam a) src 0 False) 0 (socks s) = (ret, idx, p)"
    by (metis prod_cases3)
  have p: "pool_len p" "ret = TRDP_NO_ERR \<Longrightarrow> 0 \<le> idx \<and> idx < 80"
    using request_pool_len [OF _ r] s by (simp_all add: session_ok_def)
  define t where "t = s\<lparr>socks := p\<rparr>"
  define tt u where "tt = (if pub_interval a = 0 then (vos_clearTime, vos_clearTime)
      else (us_time (pub_interval a), first_time (clock w (time_reads t)) (pub_comId a)))"
    and "u = (if pub_interval a = 0 then t else t\<lparr>time_reads := Suc (time_reads t)\<rparr>)"
  define e where "e = new_pub qs a adr src idx tt u"
  define v where "v = u\<lparr>pSndQueue := pSndQueue u @ [e]\<rparr>"
  have t: "session_ok t" using s p(1) by (simp add: t_def session_ok_def)
  then have u: "session_ok u" "pSndQueue u = pSndQueue s" by (simp_all add: u_def session_ok_def t_def)
  show ?thesis
  proof (cases "(pub_interval a \<noteq> 0 \<and> pub_interval a < TRDP_TIMER_GRANULARITY) \<or> ret \<noteq> TRDP_NO_ERR \<or> \<not> fst alloc \<or> \<not> fst (snd alloc) \<or>
       trdp_queueFindPubAddr (pSndQueue s) \<lparr>comId = pub_comId a, srcIpAddr = src, destIpAddr = pub_dest a,
         mcGroup = mc_group (pub_dest a), etbTopoCnt = 0, opTrnTopoCnt = 0\<rparr> \<noteq> None")
    case True
    then show ?thesis using s t r by (auto simp: tlp_publish_def src_def Let_def t_def)
  next
    case False
    then have e: "snd_ok e" "ele e = adr" "dataSize e = pub_size a" "magic e = TRDP_MAGIC_PUB_HNDL_VALUE"
      using new_pub_ok [of a idx] adm p(2) by (simp_all add: e_def publish_admissible_def)
    have v: "session_ok v" using u e adm by (auto simp: v_def session_ok_def publish_admissible_def)
    have pub: "the_pub v adr = Some e"
      using adm u e by (simp add: the_pub_def v_def find_ele_append publish_admissible_def)
    have "\<exists>ret x. (if pub_size a \<noteq> 0 then tlp_put (snd (snd alloc)) None (Some adr) (pub_data a) (pub_size a) v else Inr (TRDP_NO_ERR, v)) = Inr (ret, x) \<and> session_ok x"
    proof (cases "pub_size a = 0")
      case False
      then have "put_admissible (snd (snd alloc)) (Some adr) (pub_data a) (pub_size a) v"
        using pub adm e by (simp add: put_admissible_def put_fits_def publish_admissible_def)
      then show ?thesis using put_ok [OF v] False by simp
    qed (simp add: v)
    then obtain ret' x where x: "(if pub_size a \<noteq> 0 then tlp_put (snd (snd alloc)) None (Some adr) (pub_data a) (pub_size a) v else Inr (TRDP_NO_ERR, v)) = Inr (ret', x)"
      "session_ok x" by blast
    have "tlp_publish w io alloc None qs adr a (Some s) =
      (case (if pub_size a \<noteq> 0 then tlp_put (snd (snd alloc)) None (Some adr) (pub_data a) (pub_size a) v else Inr (TRDP_NO_ERR, v)) of
         Inl f \<Rightarrow> Inl f
       | Inr (ret, s) \<Rightarrow>
           if ret = TRDP_NO_ERR \<and> bit (sess_option s) TRDP_OPTION_TRAFFIC_SHAPING
           then let (ret, q) = trdp_pdDistribute (pSndQueue s) in Inr (ret, Some adr, Some (s\<lparr>pSndQueue := q\<rparr>))
           else Inr (ret, Some adr, Some s))"
      using False r unfolding v_def e_def tt_def u_def t_def
      by (cases "pub_interval a = 0") (simp_all add: tlp_publish_def src_def [symmetric] vos_getTime_def trdp_queueAppLast_def Let_def)
    also have "\<dots> = (if ret' = TRDP_NO_ERR \<and> bit (sess_option x) TRDP_OPTION_TRAFFIC_SHAPING
       then Inr (fst (trdp_pdDistribute (pSndQueue x)), Some adr, Some (x\<lparr>pSndQueue := snd (trdp_pdDistribute (pSndQueue x))\<rparr>))
       else Inr (ret', Some adr, Some x))"
      unfolding x(1) by (simp add: case_prod_beta)
    finally show ?thesis using x(2) distribute_ok [OF x(2)] by auto
  qed
qed

lemma release_ele_ok:
  assumes "session_ok s" and "idx_ok e"
  shows "\<exists>p. release_ele w e s = Inr (s\<lparr>socks := p\<rparr>) \<and> pool_len p"
  using assms release_pool_len by (auto simp: release_ele_def session_ok_def pool_len_def idx_ok_def nat_less_iff)

lemma del_element_sub: "set (trdp_queueDelElement q p) \<subseteq> set q" "distinct (map ele q) \<Longrightarrow> distinct (map ele (trdp_queueDelElement q p))"
proof -
  show sub: "set (trdp_queueDelElement q p) \<subseteq> set q" for q by (induction q) auto
  show "distinct (map ele q) \<Longrightarrow> distinct (map ele (trdp_queueDelElement q p))"
    by (induction q) (use sub in auto)
qed

lemma unpublish_ok:
  assumes s: "session_ok s"
  shows "\<exists>ret s'. tlp_unpublish w h s = Inr (ret, s') \<and> session_ok s'"
proof (cases "\<exists>p e. h = Some p \<and> the_pub s p = Some e")
  case True
  then obtain p e where e: "h = Some p" "the_pub s p = Some e" by blast
  let ?s = "s\<lparr>pSndQueue := trdp_queueDelElement (pSndQueue s) p\<rparr>"
  have "session_ok ?s" "idx_ok e"
    using s del_element_sub [of "pSndQueue s" p] the_pub_member [OF e(2)] by (auto simp: session_ok_def snd_ok_def)
  moreover from release_ele_ok [OF this] obtain q where "release_ele w e ?s = Inr (?s\<lparr>socks := q\<rparr>)" "pool_len q" by blast
  moreover from this have t: "session_ok (?s\<lparr>socks := q\<rparr>)" using \<open>session_ok ?s\<close> by (simp add: session_ok_def)
  ultimately show ?thesis using e distribute_ok [OF t] by (auto simp: tlp_unpublish_def Let_def split: prod.splits)
next
  case False
  then show ?thesis using s by (auto simp: tlp_unpublish_def split: option.splits)
qed

lemma republish_ok:
  assumes s: "session_ok s"
  shows "\<exists>ret s'. tlp_republish etb opTrn src dest p (Some s) = (ret, Some s') \<and> session_ok s'"
proof (cases "the_pub s p")
  case (Some e)
  let ?a = "e\<lparr>addr := \<lparr>comId = comId (addr e), srcIpAddr = src, destIpAddr = dest, mcGroup = mc_group dest, etbTopoCnt = etb, opTrnTopoCnt = opTrn\<rparr>\<rparr>"
  let ?e = "trdp_pdInit ?a TRDP_MSG_PD etb opTrn 0 0"
  have e: "snd_ok e" using s the_pub_member [OF Some] by (simp add: session_ok_def)
  have "pub_ok ?e" by (rule pdInit_pub_ok) (use e in \<open>simp_all add: snd_ok_def pub_ok_def\<close>)
  moreover have "magic ?e = magic e" "socketIdx ?e = socketIdx e" "comId (addr ?e) = comId (addr e)" "dataSize ?e = dataSize e"
    by (simp_all add: trdp_pdInit_def Let_def)
  ultimately have "snd_ok ?e" using e unfolding snd_ok_def idx_ok_def by metis
  then show ?thesis using Some upd_snd_ok [OF s] by (simp add: tlp_republish_def Let_def)
qed (use s in \<open>simp add: tlp_republish_def\<close>)

lemma flag_snd_ok [simp]: "snd_ok (set_flag f e) = snd_ok e" "snd_ok (clear_flag f e) = snd_ok e"
  by (simp_all add: snd_ok_def) (simp_all add: set_flag_def clear_flag_def idx_ok_def)

lemma flag_ele [simp]: "ele (set_flag f e) = ele e"
  by (simp add: set_flag_def)

lemma redundant_ok:
  assumes "session_ok s"
  shows "\<exists>ret s'. tlp_setRedundant r l (Some s) = (ret, Some s') \<and> session_ok s'"
proof -
  define g where "g = (\<lambda>e. if red_matches r e then if l then clear_flag TRDP_REDUNDANT e else set_flag TRDP_REDUNDANT e else e)"
  have g: "snd_ok (g e) = snd_ok e" "ele (g e) = ele e" for e by (simp_all add: g_def)
  then have "ele \<circ> g = ele" by (simp add: fun_eq_iff)
  then show ?thesis using assms g(1) by (simp add: tlp_setRedundant_def session_ok_def flip: g_def)
qed

section \<open>Subscriptions\<close>

lemma new_sub_ok:
  assumes "0 \<le> idx" and "idx < 80" and "new_sub w a adr idx s = (e, s')"
  shows "rcv_ok e" "\<exists>n. s' = s\<lparr>time_reads := n\<rparr>"
proof -
  have t: "s = s\<lparr>time_reads := time_reads s\<rparr>" by simp
  show "rcv_ok e" using assms by (auto simp: new_sub_def Let_def vos_getTime_def rcv_ok_def idx_ok_def set_flag_def zero_ele_def seq_ok_def split: if_splits)
  have "s' = s \<or> s' = s\<lparr>time_reads := Suc (time_reads s)\<rparr>"
    using assms(3) by (auto simp: new_sub_def Let_def vos_getTime_def split: if_splits)
  then show "\<exists>n. s' = s\<lparr>time_reads := n\<rparr>" using t by blast
qed

lemma subscribe_ok:
  assumes s: "session_ok s"
  shows "\<exists>ret h s'. tlp_subscribe w io alloc adr a (Some s) = Inr (ret, h, Some s') \<and> session_ok s'"
proof -
  define t where "t = s\<lparr>time_reads := Suc (time_reads s)\<rparr>"
  define key where "key = \<lparr>comId = sub_comId a, srcIpAddr = sub_src a, destIpAddr = sub_dest a, mcGroup = mc_group (sub_dest a), etbTopoCnt = 0, opTrnTopoCnt = 0\<rparr>"
  have t: "session_ok t" using s by (simp add: t_def session_ok_def)
  obtain ret idx p where r: "trdp_requestSocket io (clock w (time_reads t)) (pd_request t None (realIP t) (mcGroup key) True) 0 (socks t) = (ret, idx, p)"
    by (metis prod_cases3)
  have p: "pool_len p" "ret = TRDP_NO_ERR \<Longrightarrow> 0 \<le> idx \<and> idx < 80" using request_pool_len [OF _ r] t by (simp_all add: session_ok_def)
  obtain e u where e: "new_sub w a adr idx (t\<lparr>socks := p\<rparr>) = (e, u)" by fastforce
  have tp: "session_ok (t\<lparr>socks := q\<rparr>)" if "pool_len q" for q using t that by (simp add: session_ok_def)
  have n: "session_ok (u\<lparr>pRcvQueue := pRcvQueue u @ [e]\<rparr>)" if "ret = TRDP_NO_ERR"
    using new_sub_ok [OF _ _ e] p(2) [OF that] tp [OF p(1)] by (auto simp: session_ok_def)
  have "tlp_subscribe w io alloc adr a (Some s) =
     (if trdp_queueFindSubAddr (pRcvQueue t) key \<noteq> None then Inr (TRDP_NOSUB_ERR, None, Some t)
      else if ret \<noteq> TRDP_NO_ERR then Inr (ret, None, Some (t\<lparr>socks := p\<rparr>))
      else if \<not> fst alloc then Inr (TRDP_MEM_ERR, None, Some (t\<lparr>socks := trdp_releaseSocket (clock w (time_reads t)) (nat idx) 0 False p\<rparr>))
      else if \<not> snd alloc then Inr (TRDP_MEM_ERR, None, Some (t\<lparr>socks := p\<rparr>))
      else Inr (TRDP_NO_ERR, Some adr, Some (u\<lparr>pRcvQueue := pRcvQueue u @ [e]\<rparr>)))"
    using r e by (simp add: tlp_subscribe_def vos_getTime_def t_def key_def trdp_queueAppLast_def Let_def)
  then show ?thesis using t n tp [OF p(1)] tp [OF release_pool_len [OF p(1)]] by auto
qed

lemma unsubscribe_ok:
  assumes s: "session_ok s"
  shows "\<exists>ret s'. tlp_unsubscribe w h s = Inr (ret, s') \<and> session_ok s'"
proof (cases "\<exists>p e. h = Some p \<and> the_sub s p = Some e")
  case True
  then obtain p e where e: "h = Some p" "the_sub s p = Some e" by blast
  let ?s = "s\<lparr>pRcvQueue := trdp_queueDelElement (pRcvQueue s) p\<rparr>"
  have "session_ok ?s" "idx_ok e"
    using s del_element_sub(1) [of "pRcvQueue s" p] the_sub_member [OF e(2)] by (auto simp: session_ok_def rcv_ok_def)
  moreover from release_ele_ok [OF this] obtain q where "release_ele w e ?s = Inr (?s\<lparr>socks := q\<rparr>)" "pool_len q" by blast
  ultimately show ?thesis using e by (auto simp: tlp_unsubscribe_def session_ok_def)
next
  case False
  then show ?thesis using s by (auto simp: tlp_unsubscribe_def split: option.splits)
qed

text \<open>
  Moving a subscription to another multicast group: the socket it is given after its own was
  released. When none can be given, the index of the element is \<open>-1\<close> and the unsubscription that
  follows releases the socket at that index.
\<close>

definition rejoin :: "world \<Rightarrow> sock_io \<Rightarrow> PD_ELE_T \<Rightarrow> u32 \<Rightarrow> TRDP_SESSION_T \<Rightarrow> TRDP_ERR_T \<times> int \<times> sock_pool" where
  "rejoin w io e dest s =
     trdp_requestSocket io (clock w (time_reads s)) (pd_request s None (realIP s) dest True) (socketIdx e)
       (trdp_releaseSocket (clock w (time_reads s)) (nat (socketIdx e)) 0 False (socks s))"

definition rejoin_admissible :: "world \<Rightarrow> sock_io \<Rightarrow> u32 \<Rightarrow> u64 \<Rightarrow> TRDP_SESSION_T \<Rightarrow> bool" where
  "rejoin_admissible w io dest p s \<longleftrightarrow>
     (case the_sub s p of None \<Rightarrow> True
      | Some e \<Rightarrow> vos_isMulticast dest \<and> mcGroup (addr e) \<noteq> dest \<longrightarrow> fst (rejoin w io e dest s) = TRDP_NO_ERR)"

lemma upd_rcv_ok:
  assumes "session_ok s" and "rcv_ok e"
  shows "session_ok (s\<lparr>pRcvQueue := upd_ele (pRcvQueue s) e\<rparr>)"
  using assms upd_ele_queue [of "pRcvQueue s" rcv_ok e] by (simp add: session_ok_def)

lemma rcv_ok_addr [simp]: "rcv_ok (e\<lparr>addr := a\<rparr>) = rcv_ok e"
  by (simp add: rcv_ok_def idx_ok_def seq_ok_def)

lemma resubscribe_ok:
  assumes s: "session_ok s" and adm: "rejoin_admissible w io dest p s"
  shows "\<exists>ret s'. tlp_resubscribe w io etb opTrn src dest p (Some s) = Inr (ret, Some s') \<and> session_ok s'"
proof (cases "the_sub s p")
  case (Some e)
  have e: "rcv_ok e" using s the_sub_member [OF Some] by (simp add: session_ok_def)
  show ?thesis
  proof (cases "vos_isMulticast dest \<and> mcGroup (addr e) \<noteq> dest")
    case False
    then show ?thesis using Some upd_rcv_ok [OF s] e by (auto simp: tlp_resubscribe_def Let_def)
  next
    case True
    obtain ret idx q where r: "rejoin w io e dest s = (ret, idx, q)" by (metis prod_cases3)
    have ret: "ret = TRDP_NO_ERR" using adm Some True r by (simp add: rejoin_admissible_def)
    have ix: "\<not> (socketIdx e < 0 \<or> length (iface (socks s)) \<le> nat (socketIdx e))"
      using e s by (auto simp: rcv_ok_def idx_ok_def session_ok_def pool_len_def)
    have q: "pool_len q" "0 \<le> idx" "idx < 80"
      using request_pool_len [OF release_pool_len r [unfolded rejoin_def]] s ret by (simp_all add: session_ok_def)
    have sq: "session_ok (s\<lparr>socks := q\<rparr>)" using s q(1) by (simp add: session_ok_def)
    let ?e = "e\<lparr>socketIdx := idx, addr := (addr e)\<lparr>srcIpAddr := src, destIpAddr := dest, etbTopoCnt := etb, opTrnTopoCnt := opTrn, mcGroup := dest\<rparr>\<rparr>"
    have "rcv_ok ?e" using e q by (simp add: rcv_ok_def idx_ok_def seq_ok_def)
    from upd_rcv_ok [OF sq this] show ?thesis
      using Some True r ret ix by (simp add: tlp_resubscribe_def rejoin_def release_ele_def Let_def pd_request_def)
  qed
qed (use s in \<open>simp add: tlp_resubscribe_def\<close>)

lemma subscribed_handles:
  "pd_subscribed w a adr e i s = Inr (err, s') \<Longrightarrow> map ele (pRcvQueue s') = map ele (pRcvQueue s)"
  by (auto simp: pd_subscribed_def pd_accept_def vos_getTime_def Let_def upd_ele_def pd_callback_def split: if_splits sum.splits)

lemma receive_handles:
  assumes "session_ok s" and "trdp_pdReceive w a rx s = Inr (err, s')"
  shows "map ele (pRcvQueue s') = map ele (pRcvQueue s)"
proof -
  have pull: "pRcvQueue s2 = pRcvQueue s" if "pd_pull w src s1 = Inr (b, s2)" and "pRcvQueue s1 = pRcvQueue s" and "pSndQueue s1 = pSndQueue s"
    and "socks s1 = socks s" and "length (pNewFrame s1) = 1472" for src s1 s2 b
  proof -
    have "session_ok s1" using assms(1) that by (simp add: session_ok_def)
    from pull_ok [OF this, of w src] that(1,2) show ?thesis by auto
  qed
  let ?b = "take 1472 (rx_bytes rx)"
  have "length (?b @ drop (length ?b) (pNewFrame s)) = 1472" using assms(1) by (simp add: session_ok_def)
  then show ?thesis
    using assms(2) pull subscribed_handles
    by (fastforce simp: trdp_pdReceive_def Let_def split: if_splits sum.splits option.splits TRDP_ERR_T.splits)
qed

lemma drain_handles:
  assumes "session_ok s" and "seq_space (length rxs) s" and "drain w a rxs s = Inr s'"
  shows "map ele (pRcvQueue s') = map ele (pRcvQueue s)"
  using assms
proof (induction rxs arbitrary: s)
  case (Cons rx rxs)
  from receive_ok [OF Cons.prems(1), of "length rxs" w a rx] Cons.prems(2) obtain err s1 where
    s1: "trdp_pdReceive w a rx s = Inr (err, s1)" "session_ok s1" "seq_space (length rxs) s1" by auto
  show ?case
    using Cons.IH [OF s1(2,3)] receive_handles [OF Cons.prems(1) s1(1)] Cons.prems(3) s1(1) by (auto split: if_splits)
qed auto

lemma get_ok:
  assumes s: "session_ok s" and sp: "seq_space (length rxs) s"
  shows "\<exists>ret out info s'. tlp_get w a um rxs h room s = Inr (ret, out, info, s') \<and> session_ok s'"
proof (cases "\<exists>p e. h = Some p \<and> the_sub s p = Some e")
  case True
  then obtain p e where e: "h = Some p" "the_sub s p = Some e" by blast
  have "\<exists>t. (if bit (sess_option s) TRDP_OPTION_BLOCK then Inr s else drain w a rxs s) = Inr t \<and> session_ok t \<and> map ele (pRcvQueue t) = map ele (pRcvQueue s)"
    using drain_ok [OF s sp, of w a] drain_handles [OF s sp, of w a] s by auto
  then obtain t where t: "(if bit (sess_option s) TRDP_OPTION_BLOCK then Inr s else drain w a rxs s) = Inr t" "session_ok t"
    "map ele (pRcvQueue t) = map ele (pRcvQueue s)" by blast
  have "ele ` set (pRcvQueue t) = ele ` set (pRcvQueue s)" using t(3) by (metis list.set_map)
  then have "p \<in> ele ` set (pRcvQueue t)" using the_sub_member [OF e(2)] by auto
  then obtain d where d: "find_ele (pRcvQueue t) p = Some d" using find_ele_none [of "pRcvQueue t" p] by auto
  have dok: "rcv_ok d" using t(2) find_ele_member [OF d] by (simp add: session_ok_def)
  have up: "session_ok (t\<lparr>time_reads := n, pRcvQueue := upd_ele (pRcvQueue t) x\<rparr>)" if "rcv_ok x" for n x
    using upd_rcv_ok [OF t(2) that] by (simp add: session_ok_def)
  have g: "rcv_ok (snd (snd (trdp_pdGet um d room)))"
  proof -
    have "snd (snd (trdp_pdGet um d room)) = d\<lparr>getPkts := getPkts d + 1\<rparr>"
      by (simp add: trdp_pdGet_def Let_def split: option.splits prod.splits)
    then show ?thesis using dok by (simp add: rcv_ok_def idx_ok_def seq_ok_def)
  qed
  show ?thesis
    using e t(1) d up [OF dok] up [OF g] unfolding tlp_get_def
    by (simp add: vos_getTime_def Let_def case_prod_beta del: if_split)
next
  case False
  then show ?thesis using s by (auto simp: tlp_get_def split: option.splits)
qed

section \<open>Requests\<close>

definition request_admissible :: "u64 \<Rightarrow> req_args \<Rightarrow> TRDP_SESSION_T \<Rightarrow> bool" where
  "request_admissible adr a s \<longleftrightarrow>
     adr \<notin> ele ` set (pSndQueue s) \<and> req_size a \<le> 1432 \<and>
     (req_comId a = TRDP_GLOBAL_STATISTICS_COMID \<longrightarrow> req_size a = 380) \<and>
     (case req_data a of None \<Rightarrow> True | Some bs \<Rightarrow> unat (req_size a) \<le> length bs)"

lemma new_req_ok:
  assumes "req_size a \<le> 1432" and "req_comId a = 35 \<longrightarrow> req_size a = 380" and "0 \<le> idx" and "idx < 80"
  shows "snd_ok (new_req qs a adr src idx reply s)" "ele (new_req qs a adr src idx reply s) = adr"
    "dataSize (new_req qs a adr src idx reply s) = req_size a" "magic (new_req qs a adr src idx reply s) = TRDP_MAGIC_PUB_HNDL_VALUE"
proof -
  show f: "ele (new_req qs a adr src idx reply s) = adr" "dataSize (new_req qs a adr src idx reply s) = req_size a"
      "magic (new_req qs a adr src idx reply s) = TRDP_MAGIC_PUB_HNDL_VALUE"
    by (simp_all add: new_req_def trdp_pdInit_def Let_def zero_ele_def)
  have "pub_ok (new_req qs a adr src idx reply s)"
    unfolding new_req_def Let_def by (rule pdInit_pub_ok) (use assms(1) in simp_all)
  moreover have "comId (addr (new_req qs a adr src idx reply s)) = req_comId a" "socketIdx (new_req qs a adr src idx reply s) = idx"
    by (simp_all add: new_req_def trdp_pdInit_def Let_def zero_ele_def)
  ultimately show "snd_ok (new_req qs a adr src idx reply s)" using assms f by (simp add: snd_ok_def idx_ok_def)
qed

lemma restart_ok: "session_ok s \<Longrightarrow> session_ok (restart_timeout w p s)"
proof -
  assume s: "session_ok s"
  have "rcv_ok (clear_flag f (e\<lparr>timeToGo := t\<rparr>))" if "find_ele (pRcvQueue s) p = Some e" for e f t
    using s find_ele_member [OF that] by (auto simp: session_ok_def) (simp add: rcv_ok_def idx_ok_def seq_ok_def)
  moreover have "session_ok (s\<lparr>time_reads := n, pRcvQueue := upd_ele (pRcvQueue s) x\<rparr>)" if "rcv_ok x" for n x
    using upd_rcv_ok [OF s that] by (simp add: session_ok_def)
  ultimately show ?thesis using s by (simp add: restart_timeout_def vos_getTime_def split: option.splits)
qed

lemma flag_one_ok:
  assumes "session_ok s"
  shows "session_ok (s\<lparr>pSndQueue := map (\<lambda>x. if ele x = adr then set_flag f x else x) (pSndQueue s)\<rparr>)"
proof -
  have "ele \<circ> (\<lambda>x. if ele x = adr then set_flag f x else x) = ele" by (simp add: fun_eq_iff)
  then show ?thesis using assms by (auto simp: session_ok_def)
qed

lemma request_ok:
  assumes s: "session_ok s" and adm: "request_admissible adr a s"
  shows "\<exists>ret s'. tlp_request w io alloc None qs adr h a s = Inr (ret, s') \<and> session_ok s'"
proof (cases "\<exists>p e. h = Some p \<and> the_sub s p = Some e \<and> \<not> (req_comId a = 0 \<and> req_replyComId a = 0 \<or> req_dest a = 0) \<and> fst alloc \<and> fst (snd alloc)")
  case False
  then show ?thesis using s by (auto simp: tlp_request_def Let_def split: option.splits)
next
  case True
  then obtain p sub where h: "h = Some p" "the_sub s p = Some sub" "\<not> (req_comId a = 0 \<and> req_replyComId a = 0 \<or> req_dest a = 0)"
    "fst alloc" "fst (snd alloc)" by blast
  define src where "src = (if req_src a = 0 then realIP s else req_src a)"
  obtain ret idx q where r: "trdp_requestSocket io (clock w (time_reads s)) (pd_request s (req_sendParam a) src 0 False) 0 (socks s) = (ret, idx, q)"
    by (metis prod_cases3)
  have q: "pool_len q" "ret = TRDP_NO_ERR \<Longrightarrow> 0 \<le> idx \<and> idx < 80" using request_pool_len [OF _ r] s by (simp_all add: session_ok_def)
  define t where "t = s\<lparr>socks := q\<rparr>"
  have t: "session_ok t" using s q(1) by (simp add: t_def session_ok_def)
  define e where "e = new_req qs a adr src idx (if req_replyComId a = 0 then comId (addr sub) else req_replyComId a) t"
  define v where "v = t\<lparr>pSndQueue := e # pSndQueue t\<rparr>"
  show ?thesis
  proof (cases "ret = TRDP_NO_ERR")
    case False
    then show ?thesis using h r t s by (simp add: tlp_request_def Let_def src_def t_def)
  next
    case True
    have e: "snd_ok e" "ele e = adr" "dataSize e = req_size a" "magic e = TRDP_MAGIC_PUB_HNDL_VALUE"
      using new_req_ok [of a idx] adm q(2) [OF True] by (simp_all add: e_def request_admissible_def)
    have v: "session_ok v" using t e adm by (auto simp: v_def session_ok_def request_admissible_def t_def)
    have pub: "the_pub v adr = Some e" using e by (simp add: the_pub_def v_def)
    let ?c = "req_data a \<noteq> None \<and> 0 < req_size a"
    have "\<exists>ret x. (if ?c then tlp_put (snd (snd alloc)) None (Some adr) (req_data a) (req_size a) v else Inr (TRDP_NO_ERR, v)) = Inr (ret, x) \<and> session_ok x"
    proof (cases ?c)
      case c: True
      then have "put_admissible (snd (snd alloc)) (Some adr) (req_data a) (req_size a) v"
        using pub adm e by (auto simp: put_admissible_def put_fits_def request_admissible_def)
      from put_ok [OF v this] c show ?thesis by simp
    next
      case False
      show ?thesis unfolding if_not_P [OF False] using v by simp
    qed
    then obtain ret' x where x: "(if ?c then tlp_put (snd (snd alloc)) None (Some adr) (req_data a) (req_size a) v else Inr (TRDP_NO_ERR, v)) = Inr (ret', x)"
      "session_ok x" by blast
    have "tlp_request w io alloc None qs adr h a s =
      (case (if ?c then tlp_put (snd (snd alloc)) None (Some adr) (req_data a) (req_size a) v else Inr (TRDP_NO_ERR, v)) of
         Inl f \<Rightarrow> Inl f
       | Inr (ret, s) \<Rightarrow> Inr (ret, restart_timeout w p (s\<lparr>pSndQueue := map (\<lambda>x. if ele x = adr then set_flag TRDP_REQ_2B_SENT x else x) (pSndQueue s)\<rparr>)))"
      using h r True unfolding v_def e_def t_def tlp_request_def Let_def
      by (simp add: src_def [symmetric] trdp_queueInsFirst_def) blast
    also have "\<dots> = Inr (ret', restart_timeout w p (x\<lparr>pSndQueue := map (\<lambda>y. if ele y = adr then set_flag TRDP_REQ_2B_SENT y else y) (pSndQueue x)\<rparr>))"
      unfolding x(1) by simp
    finally show ?thesis using restart_ok [OF flag_one_ok [OF x(2)]] by blast
  qed
qed

section \<open>Driving, opening and closing a session\<close>

lemma session_ok_job [simp]: "session_ok (s\<lparr>nextJob := t\<rparr>) = session_ok s" "session_ok (s\<lparr>time_reads := n\<rparr>) = session_ok s"
  by (simp_all add: session_ok_def)

lemma interval_ok:
  assumes "session_ok s"
  shows "\<exists>ret t fds' n' s'. tlc_getInterval w fds n (Some s) = Inr (ret, t, fds', n', Some s') \<and> session_ok s'"
proof -
  have "session_ok (s\<lparr>time_reads := Suc (time_reads s), nextJob := vos_clearTime\<rparr>)" using assms by (simp add: session_ok_def)
  from pending_ok [OF this, of fds n] show ?thesis by (auto simp: tlc_getInterval_def vos_getTime_def Let_def)
qed

lemma process_send_ok:
  assumes "session_ok s"
  shows "\<exists>err s'. tlc_process_send w (Some s) = Inr (err, Some s') \<and> session_ok s'"
  using sendQueued_ok [of "s\<lparr>nextJob := vos_clearTime\<rparr>" w] assms by (auto simp: tlc_process_send_def)

lemma timeouts_room:
  assumes "session_ok s" and "room_for k s"
  shows "room_for k (trdp_pdHandleTimeOuts w s)"
proof -
  have m: "map seq_count (pRcvQueue (trdp_pdHandleTimeOuts w s)) = map seq_count (pRcvQueue s)" by (rule timeouts_ok(2) [OF assms(1)])
  then have l: "length (pRcvQueue (trdp_pdHandleTimeOuts w s)) = length (pRcvQueue s)" by (metis length_map)
  from m have "seq_count ` set (pRcvQueue (trdp_pdHandleTimeOuts w s)) = seq_count ` set (pRcvQueue s)" by (metis list.set_map)
  moreover have "seq_space n t \<longleftrightarrow> (\<forall>c \<in> seq_count ` set (pRcvQueue t). c + n \<le> 32768)" for n t by (simp add: seq_space_def)
  ultimately show ?thesis using assms(2) l unfolding room_for_def by (simp only:)
qed

lemma recv_ok:
  assumes "session_ok s" and "\<forall>fd. length (rxs fd) \<le> k" and "room_for k s"
  shows "\<exists>err s'. trdp_pdCheckListenSocks w a rxs pR pC (trdp_pdHandleTimeOuts w s) = Inr (err, s') \<and> session_ok s'"
  by (rule listen_ok [OF timeouts_ok(1) [OF assms(1)] assms(2) timeouts_room [OF assms(1,3)]])

lemma room_job [simp]: "room_for k (s\<lparr>nextJob := t\<rparr>) = room_for k s"
  by (simp add: room_for_def seq_space_def)

lemma process_recv_ok:
  assumes "session_ok s" and "\<forall>fd. length (rxs fd) \<le> k" and "room_for k s"
  shows "\<exists>err s'. tlc_process_recv w a rxs pR pC (Some s) = Inr (err, Some s') \<and> session_ok s'"
  using recv_ok [of "s\<lparr>nextJob := vos_clearTime\<rparr>" rxs k w a pR pC] assms by (auto simp: tlc_process_recv_def)

lemma process_ok:
  assumes "session_ok s" and rx: "\<forall>fd. length (rxs fd) \<le> k" and room: "room_for k s"
  shows "\<exists>err s'. tlc_process w a rxs pR pC (Some s) = Inr (err, Some s') \<and> session_ok s'"
proof -
  have s: "session_ok (s\<lparr>nextJob := vos_clearTime\<rparr>)" using assms(1) by simp
  from sendQueued_ok [OF s, of w] obtain err t where t: "trdp_pdSendQueued w (s\<lparr>nextJob := vos_clearTime\<rparr>) = Inr (err, t)" "session_ok t"
    "pRcvQueue t = pRcvQueue s" by auto
  have "room_for k t" using room t(3) by (simp add: room_for_def seq_space_def)
  from recv_ok [OF t(2) rx this, of w a pR pC] t(1) show ?thesis by (auto simp: tlc_process_def)
qed

lemma config_fields:
  "pSndQueue (tlc_configSession c d s) = pSndQueue s" "pRcvQueue (tlc_configSession c d s) = pRcvQueue s"
  "socks (tlc_configSession c d s) = socks s"
  by (simp_all add: tlc_configSession_def Let_def split: option.splits)

lemma initStats_fields:
  "pSndQueue (trdp_initStats v s) = pSndQueue s" "pRcvQueue (trdp_initStats v s) = pRcvQueue s" "socks (trdp_initStats v s) = socks s"
  by (simp_all add: trdp_initStats_def Let_def split: prod.splits)

lemma open_ok:
  assumes "tlc_openSession w v i a b cnt ip lip pdc proc = (TRDP_NO_ERR, Some s)" and "cnt \<le> 80"
  shows "session_ok s"
proof -
  have f: "pSndQueue s = []" "pRcvQueue s = []" "length (pNewFrame s) = 1472" "length (iface (socks s)) = 80" "sCurrentMaxSocketCnt (socks s) = cnt"
    using assms(1)
    by (auto simp: tlc_openSession_def Let_def vos_getTime_def config_fields initStats_fields zero_session_def trdp_initSockets_def split: if_splits)
  then show ?thesis using assms(2) by (simp add: session_ok_def pool_len_def)
qed

lemma close_subs_ok:
  assumes "session_ok s" and "\<forall>e \<in> set q. idx_ok e"
  shows "\<exists>s'. close_subs w q s = Inr s'"
  using assms
proof (induction q arbitrary: s)
  case (Cons e q)
  from release_ele_ok [OF Cons.prems(1), of e w] Cons.prems(2) obtain p where p: "release_ele w e s = Inr (s\<lparr>socks := p\<rparr>)" "pool_len p" by auto
  have "session_ok (s\<lparr>socks := p\<rparr>)" using Cons.prems(1) p(2) by (simp add: session_ok_def)
  from Cons.IH [OF this] Cons.prems(2) p(1) show ?case by simp
qed simp

lemma close_pubs_ok:
  assumes "session_ok s" and "\<forall>e \<in> set q. idx_ok e"
  shows "\<exists>s'. close_pubs w q s = Inr s' \<and> session_ok s' \<and> pRcvQueue s' = pRcvQueue s"
  using assms
proof (induction q arbitrary: s)
  case (Cons e q)
  have e: "idx_ok e" using Cons.prems(2) by simp
  from release_ele_ok [OF Cons.prems(1) e, of w] obtain p where p: "release_ele w e s = Inr (s\<lparr>socks := p\<rparr>)" "pool_len p" by auto
  have t: "session_ok (s\<lparr>socks := p\<rparr>)" using Cons.prems(1) p(2) by (simp add: session_ok_def)
  from release_ele_ok [OF t e, of w] obtain p' where p': "release_ele w e (s\<lparr>socks := p\<rparr>) = Inr (s\<lparr>socks := p'\<rparr>)" "pool_len p'" by auto
  have "session_ok (s\<lparr>socks := p'\<rparr>)" using Cons.prems(1) p'(2) by (simp add: session_ok_def)
  from Cons.IH [OF this] Cons.prems(2) p(1) p'(1) show ?case by auto
qed simp

lemma close_ok:
  assumes "session_ok s" shows "\<exists>s'. tlc_closeSession w s = Inr s'"
proof -
  have "\<forall>e \<in> set (pSndQueue s). idx_ok e" "\<forall>e \<in> set (pRcvQueue s). idx_ok e"
    using assms by (auto simp: session_ok_def snd_ok_def rcv_ok_def)
  from close_pubs_ok [OF assms this(1), of w] obtain t where t: "close_pubs w (pSndQueue s) s = Inr t" "session_ok t" "pRcvQueue t = pRcvQueue s" by blast
  have "session_ok (t\<lparr>pSndQueue := [], pRcvQueue := []\<rparr>)" using t(2) by (simp add: session_ok_def)
  from close_subs_ok [OF this \<open>\<forall>e \<in> set (pRcvQueue s). idx_ok e\<close>, of w] t show ?thesis by (simp add: tlc_closeSession_def)
qed

section \<open>Sequences of calls\<close>

text \<open>
  The calls an application makes on a session, each with what the outside answers it: whether
  memory is allocated, the address of a new element, the sockets and the datagrams that wait
  on them (by descriptor).
\<close>

datatype pd_call =
    Publish sock_io "bool \<times> bool \<times> bool" "PD_ELE_T list list" u64 pub_args
  | Republish u32 u32 u32 u32 u64
  | Unpublish "u64 option"
  | Put bool "u64 option" "u8 list option" u32
  | SetRedundant u32 bool
  | SetTopoCounts u32 u32
  | Subscribe sock_io "bool \<times> bool" u64 sub_args
  | Resubscribe sock_io u32 u32 u32 u32 u64
  | Unsubscribe "u64 option"
  | Get bool "received list" "u64 option" "u32 option"
  | Request sock_io "bool \<times> bool \<times> bool" "PD_ELE_T list list" u64 "u64 option" req_args
  | GetInterval "int list" int
  | ProcessSend
  | ProcessRecv bool "(int \<times> received list) list" "int set option" "int option"
  | Process bool "(int \<times> received list) list" "int set option" "int option"

text \<open>The datagrams on a socket, and how many there are at most.\<close>

definition waiting :: "(int \<times> received list) list \<Rightarrow> int \<Rightarrow> received list" where
  "waiting m fd = (case map_of m fd of None \<Rightarrow> [] | Some rxs \<Rightarrow> rxs)"

definition most_waiting :: "(int \<times> received list) list \<Rightarrow> nat" where
  "most_waiting m = sum_list (map (length \<circ> snd) m)"

lemma waiting_most: "length (waiting m fd) \<le> most_waiting m"
proof (cases "map_of m fd")
  case (Some rxs)
  then have "length rxs \<in> set (map (length \<circ> snd) m)" by (force dest: map_of_SomeD)
  then show ?thesis using Some by (simp add: waiting_def most_waiting_def member_le_sum_list)
qed (simp add: waiting_def)

text \<open>The result code of a call and the session it leaves.\<close>

fun run_call :: "world \<Rightarrow> pd_call \<Rightarrow> TRDP_SESSION_T \<Rightarrow> (TRDP_ERR_T \<times> TRDP_SESSION_T option) checked" where
  "run_call w (Publish io alloc qs adr a) s =
     (case tlp_publish w io alloc None qs adr a (Some s) of Inl f \<Rightarrow> Inl f | Inr (ret, h, s) \<Rightarrow> Inr (ret, s))"
| "run_call w (Republish etb opTrn src dest p) s = Inr (tlp_republish etb opTrn src dest p (Some s))"
| "run_call w (Unpublish h) s = map_sum id (map_prod id Some) (tlp_unpublish w h s)"
| "run_call w (Put alloc h pData n) s = map_sum id (map_prod id Some) (tlp_put alloc None h pData n s)"
| "run_call w (SetRedundant r leader) s = Inr (tlp_setRedundant r leader (Some s))"
| "run_call w (SetTopoCounts etb opTrn) s = Inr (tlc_setOpTrainTopoCount opTrn (snd (tlc_setETBTopoCount etb (Some s))))"
| "run_call w (Subscribe io alloc adr a) s =
     (case tlp_subscribe w io alloc adr a (Some s) of Inl f \<Rightarrow> Inl f | Inr (ret, h, s) \<Rightarrow> Inr (ret, s))"
| "run_call w (Resubscribe io etb opTrn src dest p) s = tlp_resubscribe w io etb opTrn src dest p (Some s)"
| "run_call w (Unsubscribe h) s = map_sum id (map_prod id Some) (tlp_unsubscribe w h s)"
| "run_call w (Get alloc rxs h room) s =
     (case tlp_get w alloc None rxs h room s of Inl f \<Rightarrow> Inl f | Inr (ret, out, info, s) \<Rightarrow> Inr (ret, Some s))"
| "run_call w (Request io alloc qs adr h a) s = map_sum id (map_prod id Some) (tlp_request w io alloc None qs adr h a s)"
| "run_call w (GetInterval fds n) s =
     (case tlc_getInterval w fds n (Some s) of Inl f \<Rightarrow> Inl f | Inr (ret, t, fds, n, s) \<Rightarrow> Inr (ret, s))"
| "run_call w ProcessSend s = tlc_process_send w (Some s)"
| "run_call w (ProcessRecv alloc m pR pC) s = tlc_process_recv w alloc (waiting m) pR pC (Some s)"
| "run_call w (Process alloc m pR pC) s = tlc_process w alloc (waiting m) pR pC (Some s)"

text \<open>What the caller has to see to, given the session.\<close>

fun call_ok :: "world \<Rightarrow> pd_call \<Rightarrow> TRDP_SESSION_T \<Rightarrow> bool" where
  "call_ok w (Publish io alloc qs adr a) s = publish_admissible adr a s"
| "call_ok w (Put alloc h pData n) s = put_admissible alloc h pData n s"
| "call_ok w (Resubscribe io etb opTrn src dest p) s = rejoin_admissible w io dest p s"
| "call_ok w (Get alloc rxs h room) s = seq_space (length rxs) s"
| "call_ok w (Request io alloc qs adr h a) s = request_admissible adr a s"
| "call_ok w (ProcessRecv alloc m pR pC) s = room_for (most_waiting m) s"
| "call_ok w (Process alloc m pR pC) s = room_for (most_waiting m) s"
| "call_ok w _ s = True"

lemma run_call_ok:
  assumes s: "session_ok s" and "call_ok w c s"
  shows "\<exists>ret s'. run_call w c s = Inr (ret, Some s') \<and> session_ok s'"
proof (cases c)
  case (Publish io alloc qs adr a)
  then show ?thesis using publish_ok [OF s, of adr a w io alloc qs] assms(2) by auto
next
  case (Republish etb opTrn src dest p)
  then show ?thesis using republish_ok [OF s] by simp
next
  case (Unpublish h)
  then show ?thesis using unpublish_ok [OF s, of w h] by auto
next
  case (Put alloc h pData n)
  then show ?thesis using put_ok [OF s, of alloc h pData n] assms(2) by auto
next
  case (SetRedundant r l)
  then show ?thesis using redundant_ok [OF s] by simp
next
  case (SetTopoCounts etb opTrn)
  then show ?thesis using s by (simp add: tlc_setOpTrainTopoCount_def tlc_setETBTopoCount_def session_ok_def)
next
  case (Subscribe io alloc adr a)
  then show ?thesis using subscribe_ok [OF s, of w io alloc adr a] by auto
next
  case (Resubscribe io etb opTrn src dest p)
  then show ?thesis using resubscribe_ok [OF s] assms(2) by simp
next
  case (Unsubscribe h)
  then show ?thesis using unsubscribe_ok [OF s, of w h] by auto
next
  case (Get alloc rxs h room)
  then show ?thesis using get_ok [OF s, of rxs w alloc None h room] assms(2) by auto
next
  case (Request io alloc qs adr h a)
  then show ?thesis using request_ok [OF s, of adr a w io alloc qs h] assms(2) by auto
next
  case (GetInterval fds n)
  then show ?thesis using interval_ok [OF s, of w fds n] by auto
next
  case ProcessSend
  then show ?thesis using process_send_ok [OF s] by simp
next
  case (ProcessRecv alloc m pR pC)
  then show ?thesis using process_recv_ok [OF s, of "waiting m" "most_waiting m"] assms(2) waiting_most by simp
next
  case (Process alloc m pR pC)
  then show ?thesis using process_ok [OF s, of "waiting m" "most_waiting m"] assms(2) waiting_most by simp
qed

text \<open>One call as a step of a session, and the sessions an application can get to.\<close>

definition apply_call :: "world \<Rightarrow> pd_call \<Rightarrow> TRDP_SESSION_T \<Rightarrow> TRDP_SESSION_T checked" where
  "apply_call w c s =
     (case run_call w c s of
        Inl f \<Rightarrow> Inl f
      | Inr (ret, None) \<Rightarrow> Inr s
      | Inr (ret, Some s') \<Rightarrow> Inr s')"

inductive pd_reach :: "world \<Rightarrow> TRDP_SESSION_T \<Rightarrow> TRDP_SESSION_T \<Rightarrow> bool" for w s0 where
  start: "pd_reach w s0 s0"
| call: "pd_reach w s0 s \<Longrightarrow> call_ok w c s \<Longrightarrow> apply_call w c s = Inr s' \<Longrightarrow> pd_reach w s0 s'"

lemma reach_ok: "pd_reach w s0 s \<Longrightarrow> session_ok s0 \<Longrightarrow> session_ok s"
proof (induction rule: pd_reach.induct)
  case (call s c s')
  from run_call_ok [OF call.IH [OF call.prems] call.hyps(2)] call.hyps(3) show ?case by (auto simp: apply_call_def)
qed

text \<open>
  C14 (calls_never_fault): from a session as it is opened, through every sequence of calls of the
  process data interface that are admissible (\<open>call_ok\<close>), every further admissible call returns: none
  reads or writes outside a frame, the receive buffer, a list of sequence counters or the socket
  pool, whatever datagrams arrive, and the session it leaves is well formed and can be closed.
  Admissible are: published and requested data of at most 1432 bytes that are there as announced,
  380 bytes for the statistics; data put that are there and not more than was published, or, for a
  publication without data so far, at most 1432 bytes with memory for the frame; a change of the
  multicast group of a subscription only if the socket for the new group can be had (without one the
  call accesses the pool out of bounds: \<open>failed_rejoin_faults\<close>); and reading while the lists of
  sequence counters stay below 32768 entries. Failures of other sockets, allocations and
  transmissions are allowed.
\<close>

theorem calls_never_fault:
  assumes "tlc_openSession w v inited alloc_s alloc_f cnt ownIp leaderIp pdc proc = (TRDP_NO_ERR, Some s0)"
    and "cnt \<le> VOS_MAX_SOCKET_CNT" and "pd_reach w s0 s" and "call_ok w c s"
  shows "\<exists>ret s'. run_call w c s = Inr (ret, Some s') \<and> pd_reach w s0 s' \<and> session_ok s' \<and> (\<exists>s''. tlc_closeSession w s' = Inr s'')"
proof -
  have s: "session_ok s" using reach_ok [OF assms(3)] open_ok [OF assms(1)] assms(2) by simp
  from run_call_ok [OF s assms(4)] obtain ret s' where r: "run_call w c s = Inr (ret, Some s')" "session_ok s'" by blast
  have "pd_reach w s0 s'" using assms(3,4) by (rule pd_reach.call) (simp add: apply_call_def r(1))
  then show ?thesis using r close_ok [OF r(2)] by blast
qed

definition demo_opened :: TRDP_SESSION_T where
  "demo_opened = the (snd (tlc_openSession demo_world (1, 4, 0, 0) True True True 0 0x0A000001 0 None None))"

definition demo_pub_args :: pub_args where
  "demo_pub_args = \<lparr>pub_comId = 1000, pub_etb = 0, pub_opTrn = 0, pub_src = 0, pub_dest = 0xEF000001, pub_interval = 100000,
     pub_redId = 0, pub_flags = 0, pub_sendParam = None, pub_data = Some [1, 2, 3, 4], pub_size = 4\<rparr>"

theorem calls_never_fault_witness:
  "tlc_openSession demo_world (1, 4, 0, 0) True True True 0 0x0A000001 0 None None = (TRDP_NO_ERR, Some demo_opened) \<and>
   (\<exists>ret s'. run_call demo_world (Publish demo_io (True, True, True) [] 1 demo_pub_args) demo_opened = Inr (ret, Some s') \<and>
      pd_reach demo_world demo_opened s' \<and> session_ok s' \<and> (\<exists>s''. tlc_closeSession demo_world s' = Inr s''))"
proof
  show o: "tlc_openSession demo_world (1, 4, 0, 0) True True True 0 0x0A000001 0 None None = (TRDP_NO_ERR, Some demo_opened)"
    by (simp add: demo_opened_def tlc_openSession_def Let_def vos_getTime_def)
  have "pSndQueue demo_opened = []"
    by (simp add: demo_opened_def tlc_openSession_def Let_def vos_getTime_def config_fields initStats_fields zero_session_def)
  then have "call_ok demo_world (Publish demo_io (True, True, True) [] 1 demo_pub_args) demo_opened"
    by (simp add: publish_admissible_def demo_pub_args_def)
  from calls_never_fault [OF o _ pd_reach.start this]
  show "\<exists>ret s'. run_call demo_world (Publish demo_io (True, True, True) [] 1 demo_pub_args) demo_opened = Inr (ret, Some s') \<and>
      pd_reach demo_world demo_opened s' \<and> session_ok s' \<and> (\<exists>s''. tlc_closeSession demo_world s' = Inr s'')" by simp
qed

lemma find_upd_ele: "find_ele q p = Some e \<Longrightarrow> ele e' = p \<Longrightarrow> find_ele (upd_ele q e') p = Some e'"
  by (induction q) (auto simp: upd_ele_def split: if_splits)

text \<open>
  a subscription that is moved to another multicast group when no
  socket can be opened for it is released with the index \<open>-1\<close>: the error path of
  \<open>tlp_resubscribe\<close> accesses memory before the socket pool.
\<close>

theorem failed_rejoin_faults:
  assumes "session_ok s" and "the_sub s p = Some e" and "vos_isMulticast dest" and "mcGroup (addr e) \<noteq> dest"
    and "rejoin w io e dest s = (ret, TRDP_INVALID_SOCKET_INDEX, q)" and "ret \<noteq> TRDP_NO_ERR"
  shows "tlp_resubscribe w io etb opTrn src dest p (Some s) = Inl OutOfBounds"
proof -
  have e: "rcv_ok e" "ele e = p" using assms(1) the_sub_member [OF assms(2)] by (auto simp: session_ok_def)
  have ix: "\<not> (socketIdx e < 0 \<or> length (iface (socks s)) \<le> nat (socketIdx e))"
    using e(1) assms(1) by (auto simp: rcv_ok_def idx_ok_def session_ok_def pool_len_def)
  have f: "find_ele (pRcvQueue s) p = Some e" "magic e = TRDP_MAGIC_SUB_HNDL_VALUE"
    using assms(2) by (auto simp: the_sub_def split: option.splits if_splits)
  show ?thesis
    using assms(2-6) ix find_upd_ele [OF f(1)] f(2) e(2)
    by (simp add: tlp_resubscribe_def rejoin_def release_ele_def Let_def tlp_unsubscribe_def the_sub_def pd_request_def)
qed

definition demo_dark :: sock_io where
  "demo_dark = demo_io\<lparr>io_openUDP := \<lambda>_. (TRDP_SOCK_ERR, - 1)\<rparr>"

definition demo_member :: PD_ELE_T where
  "demo_member = demo_sub\<lparr>magic := TRDP_MAGIC_SUB_HNDL_VALUE, socketIdx := 0\<rparr>"

definition demo_joined :: TRDP_SESSION_T where
  "demo_joined = (demo_session [] [demo_member])\<lparr>socks := demo_pool 1\<rparr>"

theorem failed_rejoin_faults_witness:
  "session_ok demo_joined \<and> tlp_resubscribe demo_world demo_dark 0 0 0 0xEF000002 1 (Some demo_joined) = Inl OutOfBounds"
proof
  show s: "session_ok demo_joined"
    by (simp add: demo_joined_def session_ok_def demo_session_def demo_member_def demo_sub_def demo_ele_def rcv_ok_def idx_ok_def seq_ok_def
        pool_len_def demo_pool_def)
  have m: "the_sub demo_joined 1 = Some demo_member"
    by (simp add: the_sub_def demo_joined_def demo_session_def demo_member_def demo_sub_def demo_ele_def)
  have "fst (rejoin demo_world demo_dark demo_member 0xEF000002 demo_joined) = TRDP_SOCK_ERR \<and>
      fst (snd (rejoin demo_world demo_dark demo_member 0xEF000002 demo_joined)) = - 1"
    by code_simp
  then have "\<exists>ret q. rejoin demo_world demo_dark demo_member 0xEF000002 demo_joined = (ret, - 1, q) \<and> ret \<noteq> TRDP_NO_ERR"
    by (cases "rejoin demo_world demo_dark demo_member 0xEF000002 demo_joined") auto
  then show "tlp_resubscribe demo_world demo_dark 0 0 0 0xEF000002 1 (Some demo_joined) = Inl OutOfBounds"
    using failed_rejoin_faults [OF s m] by (auto simp: demo_member_def demo_sub_def demo_ele_def demo_addr_def vos_isMulticast_def)
qed

end
