(* ===== verification/Trdp_Md.thy ===== *)
theory Trdp_Md
  imports Trdp_If
begin

text \<open>
  Message data of the TRDP stack, \<^verbatim>\<open>app/trdp/tcnopen/trdp_mdcom.c\<close>: the data, the sockets it uses, and
  the side that sends: requests, replies and confirmations are queued, sent, repeated and
  closed.

  The session extends that of the process data. A fault is recorded in the session: once it is
  set the C code has left the defined part of the language, and nothing is claimed about the
  rest. What comes from outside is part of the session as well: the answers of the kernel that
  have not been used yet, in their order.
\<close>

section \<open>Types\<close>

datatype TRDP_MD_ELE_ST_T =
    TRDP_ST_NONE | TRDP_ST_TX_NOTIFY_ARM | TRDP_ST_TX_REQUEST_ARM | TRDP_ST_TX_REPLY_ARM
  | TRDP_ST_TX_REPLYQUERY_ARM | TRDP_ST_TX_CONFIRM_ARM | TRDP_ST_RX_READY | TRDP_ST_TX_REQUEST_W4REPLY
  | TRDP_ST_RX_REPLYQUERY_W4C | TRDP_ST_RX_REQ_W4AP_REPLY | TRDP_ST_TX_REQ_W4AP_CONFIRM
  | TRDP_ST_RX_REPLY_SENT | TRDP_ST_RX_NOTIFY_RECEIVED | TRDP_ST_TX_REPLY_RECEIVED | TRDP_ST_RX_CONF_RECEIVED

abbreviation (input) TRDP_MSG_MN :: u16 where "TRDP_MSG_MN \<equiv> 0x4D6E"
abbreviation (input) TRDP_MSG_MR :: u16 where "TRDP_MSG_MR \<equiv> 0x4D72"
abbreviation (input) TRDP_MSG_MP :: u16 where "TRDP_MSG_MP \<equiv> 0x4D70"
abbreviation (input) TRDP_MSG_MQ :: u16 where "TRDP_MSG_MQ \<equiv> 0x4D71"
abbreviation (input) TRDP_MSG_MC :: u16 where "TRDP_MSG_MC \<equiv> 0x4D63"
abbreviation (input) TRDP_MSG_ME :: u16 where "TRDP_MSG_ME \<equiv> 0x4D65"

abbreviation (input) TRDP_FLAGS_TCP :: nat where "TRDP_FLAGS_TCP \<equiv> 3"
abbreviation (input) TDRP_MD_INFINITE_TIME :: u32 where "TDRP_MD_INFINITE_TIME \<equiv> 0"
abbreviation (input) TRDP_MAX_MD_DATA_SIZE :: u32 where "TRDP_MAX_MD_DATA_SIZE \<equiv> 65388"
abbreviation (input) TRDP_MAX_MD_PACKET_SIZE :: u32 where "TRDP_MAX_MD_PACKET_SIZE \<equiv> 65504"
abbreviation (input) TRDP_MAX_MD_RETRIES :: u8 where "TRDP_MAX_MD_RETRIES \<equiv> 2"
abbreviation (input) TRDP_MAX_URI_USER_LEN :: nat where "TRDP_MAX_URI_USER_LEN \<equiv> 32"
abbreviation (input) cMinimumMDSize :: u32 where "cMinimumMDSize \<equiv> 1480"

text \<open>Reply statuses of \<open>TRDP_REPLY_STATUS_T\<close>.\<close>

abbreviation (input) TRDP_REPLY_OK :: "s32" where "TRDP_REPLY_OK \<equiv> 0"
abbreviation (input) TRDP_REPLY_NO_REPLIER_INST :: "s32" where "TRDP_REPLY_NO_REPLIER_INST \<equiv> - 3"
abbreviation (input) TRDP_REPLY_NO_MEM_REPL :: "s32" where "TRDP_REPLY_NO_MEM_REPL \<equiv> - 4"
abbreviation (input) TRDP_REPLY_UNSPECIFIED_ERROR :: "s32" where "TRDP_REPLY_UNSPECIFIED_ERROR \<equiv> - 99"

text \<open>A session of message data. A URI has room for 33 characters, \<open>pPacket\<close> is \<open>None\<close> for a null pointer.\<close>

record MD_ELE_T =
  m_addr :: TRDP_ADDRESSES_T
  m_privFlags :: u8
  m_pktFlags :: u8
  m_morituri :: bool
  m_interval :: vos_timeval
  m_timeToGo :: vos_timeval
  m_dataSize :: u32
  m_grossSize :: u32
  m_sendSize :: u32
  m_socketIdx :: int
  replyPort :: u16
  stateEle :: TRDP_MD_ELE_ST_T
  sessionID :: "u8 list"
  numExpReplies :: u32
  numReplies :: u32
  numRetriesMax :: u32
  numRetries :: u32
  numRepliesQuery :: u32
  numConfirmSent :: u32
  m_numConfirmTimeout :: u32
  m_pUserRef :: u64
  m_destURI :: "u8 list"
  m_srcURI :: "u8 list"
  doConnect :: bool
  msgUncomplete :: bool
  m_pfCbFunction :: bool
  pPacket :: "u8 list option"

definition zero_addr :: TRDP_ADDRESSES_T where
  "zero_addr = \<lparr>comId = 0, srcIpAddr = 0, destIpAddr = 0, mcGroup = 0, etbTopoCnt = 0, opTrnTopoCnt = 0\<rparr>"

text \<open>Memory from \<open>vos_memAlloc\<close> is cleared.\<close>

definition zero_md_ele :: MD_ELE_T where
  "zero_md_ele =
     \<lparr>m_addr = zero_addr, m_privFlags = 0, m_pktFlags = 0, m_morituri = False, m_interval = vos_clearTime,
      m_timeToGo = vos_clearTime, m_dataSize = 0, m_grossSize = 0, m_sendSize = 0, m_socketIdx = 0, replyPort = 0,
      stateEle = TRDP_ST_NONE, sessionID = replicate 16 0, numExpReplies = 0, numReplies = 0, numRetriesMax = 0,
      numRetries = 0, numRepliesQuery = 0, numConfirmSent = 0, m_numConfirmTimeout = 0, m_pUserRef = 0,
      m_destURI = replicate 33 0, m_srcURI = replicate 33 0, doConnect = False, msgUncomplete = False,
      m_pfCbFunction = False, pPacket = None\<rparr>"

text \<open>A listener is named by its address.\<close>

record MD_LIS_ELE_T =
  l_id :: u64
  l_addr :: TRDP_ADDRESSES_T
  l_privFlags :: u8
  l_pktFlags :: u8
  l_pUserRef :: u64
  l_destURI :: "u8 list"
  l_socketIdx :: int
  l_pfCbFunction :: bool
  numSessions :: u32

record TRDP_SEND_PARAM_T =
  sp_qos :: u8
  sp_ttl :: u8
  retries :: u8

record TRDP_MD_CONFIG_T =
  md_pfCbFunction :: bool
  md_sendParam :: TRDP_SEND_PARAM_T
  md_flags :: u8
  replyTimeout :: u32
  confirmTimeout :: u32
  connectTimeout :: u32
  md_sendingTimeout :: u32
  udpPort :: u16
  tcpPort :: u16
  maxNumSessions :: u32

record TRDP_MD_INFO_T =
  i_srcIpAddr :: u32
  i_destIpAddr :: u32
  i_seqCount :: u32
  i_protVersion :: u16
  i_msgType :: u16
  i_comId :: u32
  i_etbTopoCnt :: u32
  i_opTrnTopoCnt :: u32
  i_aboutToDie :: bool
  i_numRepliesQuery :: u32
  i_numConfirmSent :: u32
  i_numConfirmTimeout :: u32
  i_userStatus :: u16
  i_replyStatus :: "s32"
  i_sessionId :: "u8 list"
  i_replyTimeout :: u32
  i_srcUserURI :: "u8 list"
  i_destUserURI :: "u8 list"
  i_numExpReplies :: u32
  i_numReplies :: u32
  i_pUserRef :: u64
  i_resultCode :: TRDP_ERR_T

text \<open>What the kernel answers: an error number or a result.\<close>

datatype errno =
    E_WOULDBLOCK | E_INTR | E_CONNRESET | E_MSGSIZE | E_NOTCONN | E_CONNREFUSED | E_HOSTUNREACH | E_INPROGRESS
  | E_ALREADY | E_ISCONN | E_CONNABORTED | E_PROTO | E_OTHER

record in_datagram =
  in_bytes :: "u8 list"
  in_src :: u32
  in_port :: u16
  in_dest :: "u32 option"

text \<open>A message that left through a socket; the destination of a TCP segment is that of its connection.\<close>

record md_frame =
  out_fd :: int
  out_dest :: "(u32 \<times> u16) option"
  out_bytes :: "u8 list"

record MD_SESSION_T = TRDP_SESSION_T +
  listen_sd :: int
  mdDefault :: TRDP_MD_CONFIG_T
  pMDListenQueue :: "MD_LIS_ELE_T list"
  pMDSndQueue :: "MD_ELE_T list"
  pMDRcvQueue :: "MD_ELE_T list"
  pMDRcvEle :: "MD_ELE_T option"
  uncompletedTCP :: "MD_ELE_T option list"
  md_fault :: "fault option"
  md_allocs :: nat
  md_uuids :: nat
  md_out :: "md_frame list"
  md_calls :: "(TRDP_MD_INFO_T \<times> u8 list option \<times> u32) list"
  net_write :: "(errno + nat) list"
  net_sendto :: "(errno + nat) list"
  net_connect :: "errno option list"
  net_accept :: "(errno + int \<times> u32 \<times> u16) list"
  net_select :: "(int \<times> int list) list"
  net_tcp :: "int \<Rightarrow> (errno + u8 list) list"
  net_udp :: "int \<Rightarrow> (errno + in_datagram) list"

text \<open>The rest of the surroundings: the clock, whether the \<open>n\<close>-th allocation succeeds, the \<open>n\<close>-th UUID, sockets and marshalling.\<close>

record md_env =
  env_clock :: "nat \<Rightarrow> vos_timeval"
  env_alloc :: "nat \<Rightarrow> bool"
  env_uuid :: "nat \<Rightarrow> u8 list"
  env_io :: sock_io
  env_setOptions :: "int \<Rightarrow> TRDP_ERR_T"
  env_listen :: "int \<Rightarrow> TRDP_ERR_T"
  env_marshall :: "marshall option"

definition md_getTime :: "md_env \<Rightarrow> MD_SESSION_T \<Rightarrow> vos_timeval \<times> MD_SESSION_T" where
  "md_getTime w s = (env_clock w (time_reads s), s\<lparr>time_reads := Suc (time_reads s)\<rparr>)"

definition md_malloc :: "md_env \<Rightarrow> MD_SESSION_T \<Rightarrow> bool \<times> MD_SESSION_T" where
  "md_malloc w s = (env_alloc w (md_allocs s), s\<lparr>md_allocs := Suc (md_allocs s)\<rparr>)"

definition md_fail :: "fault \<Rightarrow> MD_SESSION_T \<Rightarrow> MD_SESSION_T" where
  "md_fail f s = (if md_fault s = None then s\<lparr>md_fault := Some f\<rparr> else s)"

text \<open>The socket of an index, and the change of one; an index outside of the pool is a fault.\<close>

definition md_sock :: "MD_SESSION_T \<Rightarrow> int \<Rightarrow> TRDP_SOCKETS_T" where
  "md_sock s i = iface (socks s) ! nat i"

definition sock_index_ok :: "MD_SESSION_T \<Rightarrow> int \<Rightarrow> bool" where
  "sock_index_ok s i \<longleftrightarrow> 0 \<le> i \<and> nat i < length (iface (socks s))"

definition upd_md_sock :: "int \<Rightarrow> (TRDP_SOCKETS_T \<Rightarrow> TRDP_SOCKETS_T) \<Rightarrow> MD_SESSION_T \<Rightarrow> MD_SESSION_T" where
  "upd_md_sock i f s =
     (if sock_index_ok s i then s\<lparr>socks := upd_sock (nat i) (f (md_sock s i)) (socks s)\<rparr> else md_fail OutOfBounds s)"

definition md_release :: "md_env \<Rightarrow> int \<Rightarrow> u32 \<Rightarrow> MD_SESSION_T \<Rightarrow> MD_SESSION_T" where
  "md_release w i tmo s =
     (if sock_index_ok s i
      then let (now, s) = md_getTime w s in s\<lparr>socks := trdp_releaseSocket now (nat i) tmo False (socks s)\<rparr>
      else md_fail OutOfBounds s)"

definition upd_udpMd :: "(TRDP_MD_STATISTICS_T \<Rightarrow> TRDP_MD_STATISTICS_T) \<Rightarrow> MD_SESSION_T \<Rightarrow> MD_SESSION_T" where
  "upd_udpMd f s = s\<lparr>stats := (stats s)\<lparr>udpMd := f (udpMd (stats s))\<rparr>\<rparr>"

definition upd_tcpMd :: "(TRDP_MD_STATISTICS_T \<Rightarrow> TRDP_MD_STATISTICS_T) \<Rightarrow> MD_SESSION_T \<Rightarrow> MD_SESSION_T" where
  "upd_tcpMd f s = s\<lparr>stats := (stats s)\<lparr>tcpMd := f (tcpMd (stats s))\<rparr>\<rparr>"

definition upd_md_stats :: "bool \<Rightarrow> (TRDP_MD_STATISTICS_T \<Rightarrow> TRDP_MD_STATISTICS_T) \<Rightarrow> MD_SESSION_T \<Rightarrow> MD_SESSION_T" where
  "upd_md_stats tcp f s = (if tcp then upd_tcpMd f s else upd_udpMd f s)"

text \<open>The two queues, and the element at a place of one.\<close>

datatype md_queue = SndQ | RcvQ

definition md_q :: "md_queue \<Rightarrow> MD_SESSION_T \<Rightarrow> MD_ELE_T list" where
  "md_q q s = (case q of SndQ \<Rightarrow> pMDSndQueue s | RcvQ \<Rightarrow> pMDRcvQueue s)"

definition upd_q :: "md_queue \<Rightarrow> (MD_ELE_T list \<Rightarrow> MD_ELE_T list) \<Rightarrow> MD_SESSION_T \<Rightarrow> MD_SESSION_T" where
  "upd_q q f s =
     (case q of SndQ \<Rightarrow> s\<lparr>pMDSndQueue := f (pMDSndQueue s)\<rparr> | RcvQ \<Rightarrow> s\<lparr>pMDRcvQueue := f (pMDRcvQueue s)\<rparr>)"

definition upd_at :: "md_queue \<Rightarrow> nat \<Rightarrow> (MD_ELE_T \<Rightarrow> MD_ELE_T) \<Rightarrow> MD_SESSION_T \<Rightarrow> MD_SESSION_T" where
  "upd_at q i f = upd_q q (\<lambda>es. es[i := f (es ! i)])"

abbreviation is_tcp :: "MD_ELE_T \<Rightarrow> bool" where
  "is_tcp e \<equiv> bit (m_pktFlags e) TRDP_FLAGS_TCP"

section \<open>Headers\<close>

text \<open>The fields of \<open>MD_HEADER_T\<close> that are not at the place they have in \<open>PD_HEADER_T\<close>.\<close>

abbreviation "md_replyStatus \<equiv> get32 24"
abbreviation "md_sessionID \<equiv> slice 28 16"
abbreviation "md_replyTimeout \<equiv> get32 44"
abbreviation "md_sourceURI \<equiv> slice 48 32"
abbreviation "md_destinationURI \<equiv> slice 80 32"
abbreviation "md_frameCheckSum \<equiv> slice 112 4"
abbreviation "md_data \<equiv> drop 116"

definition trdp_mdUpdatePacket :: "u8 list \<Rightarrow> u8 list" where
  "trdp_mdUpdatePacket fr = overwrite 112 (le_bytes32 (vos_crc32 INITFCS (take 112 fr))) fr"

definition trdp_mdCheck :: "MD_SESSION_T \<Rightarrow> u8 list \<Rightarrow> u32 \<Rightarrow> bool \<Rightarrow> TRDP_ERR_T" where
  "trdp_mdCheck s fr packetSize checkHeaderOnly =
     (let len = hdr_datasetLength fr; type = hdr_msgType fr
      in if packetSize < MD_HEADER_SIZE \<or> packetSize > TRDP_MAX_MD_PACKET_SIZE \<or> len > TRDP_MAX_MD_PACKET_SIZE
         then TRDP_WIRE_ERR
         else if md_frameCheckSum fr \<noteq> le_bytes32 (vos_crc32 INITFCS (take 112 fr)) then TRDP_CRC_ERR
         else if hdr_protocolVersion fr AND 0xFF00 \<noteq> TRDP_PROTO_VER AND 0xFF00 then TRDP_WIRE_ERR
         else if type \<noteq> TRDP_MSG_MN \<and> type \<noteq> TRDP_MSG_MR \<and> type \<noteq> TRDP_MSG_MP \<and> type \<noteq> TRDP_MSG_MQ \<and>
                 type \<noteq> TRDP_MSG_MC \<and> type \<noteq> TRDP_MSG_ME then TRDP_WIRE_ERR
         else if \<not> checkHeaderOnly \<and> packetSize < (if len > 0 then MD_HEADER_SIZE + len else MD_HEADER_SIZE)
         then TRDP_WIRE_ERR
         else if \<not> trdp_validTopoCounters (sess_etbTopoCnt s) (sess_opTrnTopoCnt s) (hdr_etbTopoCnt fr) (hdr_opTrnTopoCnt fr)
         then TRDP_TOPO_ERR
         else TRDP_NO_ERR)"

section \<open>Elements\<close>

definition trdp_mdFillStateElement :: "u16 \<Rightarrow> MD_ELE_T \<Rightarrow> MD_ELE_T" where
  "trdp_mdFillStateElement msgType e =
     e\<lparr>stateEle :=
       (if msgType = TRDP_MSG_MN then TRDP_ST_TX_NOTIFY_ARM
        else if msgType = TRDP_MSG_MR then TRDP_ST_TX_REQUEST_ARM
        else if msgType = TRDP_MSG_MP then TRDP_ST_TX_REPLY_ARM
        else if msgType = TRDP_MSG_MQ then TRDP_ST_TX_REPLYQUERY_ARM
        else if msgType = TRDP_MSG_MC then TRDP_ST_TX_CONFIRM_ARM
        else if msgType = TRDP_MSG_ME then TRDP_ST_TX_REPLY_ARM
        else TRDP_ST_TX_NOTIFY_ARM)\<rparr>"

definition trdp_mdManageSessionId :: "md_env \<Rightarrow> MD_ELE_T \<Rightarrow> MD_SESSION_T \<Rightarrow> MD_ELE_T \<times> MD_SESSION_T" where
  "trdp_mdManageSessionId w e s =
     (if sessionID e \<noteq> replicate 16 0 then (e, s)
      else (e\<lparr>sessionID := env_uuid w (md_uuids s)\<rparr>, s\<lparr>md_uuids := Suc (md_uuids s)\<rparr>))"

text \<open>The place of the first element in a state with a session ID.\<close>

fun trdp_mdLookupElement :: "nat \<Rightarrow> MD_ELE_T list \<Rightarrow> TRDP_MD_ELE_ST_T \<Rightarrow> u8 list \<Rightarrow> nat option" where
  "trdp_mdLookupElement i [] st sid = None"
| "trdp_mdLookupElement i (e # es) st sid =
     (if stateEle e = st \<and> sessionID e = sid then Some i else trdp_mdLookupElement (Suc i) es st sid)"

definition trdp_mdSetSessionTimeout :: "md_env \<Rightarrow> MD_ELE_T \<Rightarrow> MD_SESSION_T \<Rightarrow> MD_ELE_T \<times> MD_SESSION_T" where
  "trdp_mdSetSessionTimeout w e s =
     (let (now, s) = md_getTime w s
      in if m_interval e = vos_clearTime then (e\<lparr>m_timeToGo := m_interval e\<rparr>, s)
         else (e\<lparr>m_timeToGo := vos_addTime now (m_interval e)\<rparr>, s))"

definition usec_interval :: "u32 \<Rightarrow> vos_timeval" where
  "usec_interval t = \<lparr>tv_sec = uint (t div 1000000), tv_usec = uint (t mod 1000000)\<rparr>"

text \<open>The callback gets the message, its data (a null pointer when there is an error) and its size.\<close>

definition trdp_mdInvokeCallback :: "MD_ELE_T \<Rightarrow> TRDP_ERR_T \<Rightarrow> MD_SESSION_T \<Rightarrow> MD_SESSION_T" where
  "trdp_mdInvokeCallback e resultCode s =
     (let st = (case pPacket e of Some fr \<Rightarrow> md_replyStatus fr | None \<Rightarrow> TRDP_REPLY_UNSPECIFIED_ERROR);
          fr = (case pPacket e of Some fr \<Rightarrow> fr | None \<Rightarrow> replicate 116 0);
          ok = (resultCode = TRDP_NO_ERR \<and> pPacket e \<noteq> None);
          m = \<lparr>i_srcIpAddr = (if ok then srcIpAddr (m_addr e) else 0), i_destIpAddr = destIpAddr (m_addr e),
               i_seqCount = hdr_sequenceCounter fr, i_protVersion = hdr_protocolVersion fr, i_msgType = hdr_msgType fr,
               i_comId = (if ok then hdr_comId fr else comId (m_addr e)),
               i_etbTopoCnt = (if ok then hdr_etbTopoCnt fr else etbTopoCnt (m_addr e)),
               i_opTrnTopoCnt = (if ok then hdr_opTrnTopoCnt fr else opTrnTopoCnt (m_addr e)),
               i_aboutToDie = m_morituri e, i_numRepliesQuery = numRepliesQuery e, i_numConfirmSent = numConfirmSent e,
               i_numConfirmTimeout = m_numConfirmTimeout e, i_userStatus = (if 0 \<le> sint st then ucast st else 0),
               i_replyStatus = (if 0 \<le> sint st then TRDP_REPLY_OK else st), i_sessionId = md_sessionID fr,
               i_replyTimeout = md_replyTimeout fr,
               i_srcUserURI = vos_strncpy (replicate 33 0) (md_sourceURI fr) TRDP_MAX_URI_USER_LEN,
               i_destUserURI = vos_strncpy (replicate 33 0) (md_destinationURI fr) TRDP_MAX_URI_USER_LEN,
               i_numExpReplies = numExpReplies e, i_numReplies = numReplies e, i_pUserRef = m_pUserRef e,
               i_resultCode = resultCode\<rparr>
      in s\<lparr>md_calls := md_calls s @ [(m, if ok then Some (md_data fr) else None, if ok then hdr_datasetLength fr else 0)]\<rparr>)"

section \<open>Closing sessions\<close>

definition trdp_MDqueueInsFirst :: "MD_ELE_T list \<Rightarrow> MD_ELE_T \<Rightarrow> MD_ELE_T list" where
  "trdp_MDqueueInsFirst q e = e # q"

definition trdp_MDqueueAppLast :: "MD_ELE_T list \<Rightarrow> MD_ELE_T \<Rightarrow> MD_ELE_T list" where
  "trdp_MDqueueAppLast q e = q @ [e]"

text \<open>
  Elements about to die leave their queue, front to back; after each the source starts again at the head,
  where only elements it has passed already are. A replier's socket is released only for TCP.
\<close>

fun close_queue :: "md_env \<Rightarrow> (MD_ELE_T \<Rightarrow> bool) \<Rightarrow> MD_ELE_T list \<Rightarrow> MD_SESSION_T \<Rightarrow> MD_ELE_T list \<times> MD_SESSION_T" where
  "close_queue w rel [] s = ([], s)"
| "close_queue w rel (e # es) s =
     (if m_morituri e
      then close_queue w rel es (if rel e then md_release w (m_socketIdx e) (connectTimeout (mdDefault s)) s else s)
      else let (es, s) = close_queue w rel es s in (e # es, s))"

definition trdp_mdCloseSessions :: "md_env \<Rightarrow> int \<Rightarrow> int \<Rightarrow> bool \<Rightarrow> MD_SESSION_T \<Rightarrow> MD_SESSION_T" where
  "trdp_mdCloseSessions w socketIndex newSocket checkAllSockets s =
     (let s = (if checkAllSockets then s\<lparr>socks := trdp_releaseSocket vos_clearTime 0 0 True (socks s)\<rparr> else s);
          (q, s) = close_queue w (\<lambda>e. True) (pMDSndQueue s) s;
          s = s\<lparr>pMDSndQueue := q\<rparr>;
          (q, s) = close_queue w is_tcp (pMDRcvQueue s) s;
          s = s\<lparr>pMDRcvQueue := q\<rparr>
      in if socketIndex > TRDP_INVALID_SOCKET_INDEX \<and> newSocket > VOS_INVALID_SOCKET
         then upd_md_sock socketIndex (\<lambda>k. k\<lparr>sock := newSocket, rcvMostly := True, notSend := False,
                sock_type := TRDP_SOCK_MD_TCP, usage := 0, sendNotOk := False, addFileDesc := True,
                connectionTimeout := vos_clearTime\<rparr>) s
         else s)"

section \<open>Sockets\<close>

definition md_request ::
  "MD_SESSION_T \<Rightarrow> TRDP_SEND_PARAM_T \<Rightarrow> u16 \<Rightarrow> u32 \<Rightarrow> u32 \<Rightarrow> TRDP_SOCK_TYPE_T \<Rightarrow> u8 \<Rightarrow> bool \<Rightarrow> int \<Rightarrow> u32 \<Rightarrow> sock_request" where
  "md_request s sp port src mc type opts rcv use corner =
     \<lparr>req_port = port, req_qos = sp_qos sp, req_ttl = sp_ttl sp, req_srcIP = src, req_mcGroup = mc, req_usage = type,
      req_options = opts, req_rcvMostly = rcv, req_useSocket = use, req_cornerIp = corner\<rparr>"

definition md_requestSocket :: "md_env \<Rightarrow> sock_request \<Rightarrow> int \<Rightarrow> MD_SESSION_T \<Rightarrow> TRDP_ERR_T \<times> int \<times> MD_SESSION_T" where
  "md_requestSocket w r idx s =
     (let (now, s) = md_getTime w s; (err, i, p) = trdp_requestSocket (env_io w) now r idx (socks s)
      in (err, i, s\<lparr>socks := p\<rparr>))"

definition trdp_mdConnectSocket ::
  "md_env \<Rightarrow> TRDP_SEND_PARAM_T option \<Rightarrow> u32 \<Rightarrow> u32 \<Rightarrow> bool \<Rightarrow> MD_ELE_T \<Rightarrow> MD_SESSION_T \<Rightarrow> TRDP_ERR_T \<times> MD_ELE_T \<times> MD_SESSION_T" where
  "trdp_mdConnectSocket w pSendParam srcIp destIp newSession e s =
     (let sp = (case pSendParam of Some p \<Rightarrow> p | None \<Rightarrow> md_sendParam (mdDefault s))
      in if is_tcp e
         then
           let (err, e, s) =
             (if m_socketIdx e = TRDP_INVALID_SOCKET_INDEX
              then let (err, i, s) = md_requestSocket w
                         (md_request s sp (tcpPort (mdDefault s)) srcIp 0 TRDP_SOCK_MD_TCP 0 False VOS_INVALID_SOCKET destIp)
                         (m_socketIdx e) s
                   in (err, e\<lparr>m_socketIdx := i\<rparr>, s)
              else (TRDP_NO_ERR, e, s))
           in if err \<noteq> TRDP_NO_ERR then (err, e, s)
              else if \<not> sock_index_ok s (m_socketIdx e) then (err, e, md_fail OutOfBounds s)
              else (err, e\<lparr>doConnect := \<not> sint (usage (md_sock s (m_socketIdx e))) > 1\<rparr>, s)
         else if newSession \<and> m_socketIdx e = TRDP_INVALID_SOCKET_INDEX
         then let (err, i, s) = md_requestSocket w
                    (md_request s sp (udpPort (mdDefault s)) srcIp (if vos_isMulticast destIp then destIp else 0)
                       TRDP_SOCK_MD_UDP (sess_option s) False VOS_INVALID_SOCKET 0)
                    (m_socketIdx e) s
              in (err, e\<lparr>m_socketIdx := i\<rparr>, s)
         else (TRDP_NO_ERR, e, s))"

section \<open>Building messages\<close>

text \<open>A URI is copied up to its terminator over 32 cleared bytes.\<close>

definition put_uri :: "nat \<Rightarrow> u8 list option \<Rightarrow> u8 list \<Rightarrow> u8 list" where
  "put_uri off uri fr =
     (case uri of
        None \<Rightarrow> fr
      | Some u \<Rightarrow> overwrite off (takeWhile (\<lambda>c. c \<noteq> 0) u) (overwrite off (replicate TRDP_MAX_URI_USER_LEN 0) fr))"

definition uri_fits :: "u8 list option \<Rightarrow> bool" where
  "uri_fits uri \<longleftrightarrow> (case uri of None \<Rightarrow> True | Some u \<Rightarrow> length (takeWhile (\<lambda>c. c \<noteq> 0) u) \<le> 32)"

definition md_header ::
  "u16 \<Rightarrow> s32 \<Rightarrow> u32 \<Rightarrow> u32 \<Rightarrow> u8 list option \<Rightarrow> u8 list option \<Rightarrow> MD_ELE_T \<Rightarrow> u8 list \<Rightarrow> u8 list" where
  "md_header msgType replyStatus mdTimeOut seqCnt srcURI destURI e fr =
     (let fr = put32 0 seqCnt fr;
          fr = put16 4 TRDP_PROTO_VER fr;
          fr = put16 6 msgType fr;
          fr = put32 8 (comId (m_addr e)) fr;
          fr = put32 12 (etbTopoCnt (m_addr e)) fr;
          fr = put32 16 (opTrnTopoCnt (m_addr e)) fr;
          fr = put32 20 (m_dataSize e) fr;
          fr = put32 24 replyStatus fr;
          fr = overwrite 28 (if msgType = TRDP_MSG_MN then replicate 16 0 else sessionID e) fr;
          fr = put32 44 mdTimeOut fr;
          fr = put_uri 48 srcURI fr
      in put_uri 80 destURI fr)"

definition trdp_mdDetailSenderPacket ::
  "md_env \<Rightarrow> u16 \<Rightarrow> s32 \<Rightarrow> u32 \<Rightarrow> u32 \<Rightarrow> u8 list option \<Rightarrow> u32 \<Rightarrow> u8 list option \<Rightarrow> u8 list option \<Rightarrow> MD_ELE_T \<Rightarrow>
   fault option \<times> MD_ELE_T" where
  "trdp_mdDetailSenderPacket w msgType replyStatus mdTimeOut seqCnt pData n srcURI destURI e =
     (case pPacket e of
        None \<Rightarrow> (Some NullPointer, e)
      | Some fr \<Rightarrow>
          let fr = md_header msgType replyStatus mdTimeOut seqCnt srcURI destURI e fr
          in if \<not> uri_fits srcURI \<or> \<not> uri_fits destURI then (Some OutOfBounds, e)
             else case pData of
               None \<Rightarrow> (None, e\<lparr>pPacket := Some fr\<rparr>)
             | Some src \<Rightarrow>
                 (case (if bit (m_pktFlags e) TRDP_FLAGS_MARSHALL then env_marshall w else None) of
                    Some m \<Rightarrow>
                      (case m (comId (m_addr e)) src n (md_data fr) of
                         (err, bs, destSize) \<Rightarrow>
                           if length fr < 116 + length bs then (Some OutOfBounds, e)
                           else (None, e\<lparr>pPacket := Some (put32 20 destSize (overwrite 116 bs fr))\<rparr>))
                  | None \<Rightarrow>
                      if length src < unat n \<or> length fr < 116 + unat n then (Some OutOfBounds, e)
                      else (None, e\<lparr>pPacket := Some (overwrite 116 (take (unat n) src) fr)\<rparr>)))"

text \<open>The last step of it, entering the element in the queue of senders.\<close>

definition enqueue_sender :: "MD_ELE_T \<Rightarrow> MD_SESSION_T \<Rightarrow> MD_SESSION_T" where
  "enqueue_sender e s =
     s\<lparr>pMDSndQueue := (if is_tcp e then trdp_MDqueueAppLast else trdp_MDqueueInsFirst) (pMDSndQueue s) e\<rparr>"

definition note_fault :: "fault option \<Rightarrow> MD_SESSION_T \<Rightarrow> MD_SESSION_T" where
  "note_fault f s = (case f of None \<Rightarrow> s | Some f \<Rightarrow> md_fail f s)"

section \<open>Calling\<close>

record md_call_args =
  a_pUserRef :: "u64 option"
  a_callback :: bool
  a_comId :: u32
  a_etbTopoCnt :: u32
  a_opTrnTopoCnt :: u32
  a_srcIpAddr :: u32
  a_destIpAddr :: u32
  a_pktFlags :: u8
  a_numExpReplies :: u32
  a_replyTimeout :: u32
  a_sendParam :: "TRDP_SEND_PARAM_T option"
  a_data :: "u8 list option"
  a_dataSize :: u32
  a_srcURI :: "u8 list option"
  a_destURI :: "u8 list option"

definition md_mcGroup :: "u32 \<Rightarrow> u32" where
  "md_mcGroup a = (if vos_isMulticast a then a else 0)"

definition new_call :: "u16 \<Rightarrow> md_call_args \<Rightarrow> u32 \<Rightarrow> MD_SESSION_T \<Rightarrow> MD_ELE_T" where
  "new_call msgType a srcIp s =
     (let dest = a_destIpAddr a;
          e = zero_md_ele\<lparr>m_dataSize := a_dataSize a, m_grossSize := trdp_packetSizeMD (a_dataSize a),
                m_socketIdx := TRDP_INVALID_SOCKET_INDEX,
                m_pktFlags := (if a_pktFlags a = TRDP_FLAGS_DEFAULT then md_flags (mdDefault s) else a_pktFlags a),
                m_pfCbFunction := (if a_callback a then True else md_pfCbFunction (mdDefault s)),
                m_pUserRef := (case a_pUserRef a of Some r \<Rightarrow> r | None \<Rightarrow> 0)\<rparr>;
          e = (if \<not> bit (a_pktFlags a) TRDP_FLAGS_TCP \<and> a_numExpReplies a = 1 \<and> \<not> vos_isMulticast dest
               then e\<lparr>numRetriesMax := ucast (case a_sendParam a of Some p \<Rightarrow> retries p
                                               | None \<Rightarrow> retries (md_sendParam (mdDefault s)))\<rparr> else e);
          e = e\<lparr>m_addr := \<lparr>comId = a_comId a, srcIpAddr = srcIp, destIpAddr = dest, mcGroup = md_mcGroup dest,
                 etbTopoCnt = a_etbTopoCnt a, opTrnTopoCnt = a_opTrnTopoCnt a\<rparr>\<rparr>
      in if msgType = TRDP_MSG_MR
         then e\<lparr>numExpReplies := (if vos_isMulticast dest then a_numExpReplies a else 1)\<rparr> else e)"

definition trdp_mdCall ::
  "md_env \<Rightarrow> u16 \<Rightarrow> s32 \<Rightarrow> md_call_args \<Rightarrow> MD_SESSION_T \<Rightarrow> TRDP_ERR_T \<times> u8 list option \<times> MD_SESSION_T" where
  "trdp_mdCall w msgType replyStatus a s =
     (if msgType \<noteq> TRDP_MSG_MR \<and> msgType \<noteq> TRDP_MSG_MN \<or>
         (case a_sendParam a of Some p \<Rightarrow> retries p > TRDP_MAX_MD_RETRIES | None \<Rightarrow> False)
      then (TRDP_PARAM_ERR, None, s)
      else
        let srcIp = (if a_srcIpAddr a = 0 then realIP s else a_srcIpAddr a);
            (ok, s) = md_malloc w s
        in if \<not> ok then (TRDP_MEM_ERR, None, s)
           else
             let e = new_call msgType a srcIp s;
                 infinite = (msgType = TRDP_MSG_MR \<and> a_replyTimeout a = TDRP_MD_INFINITE_TIME);
                 e = e\<lparr>m_interval := (if infinite then vos_clearTime else usec_interval (a_replyTimeout a))\<rparr>;
                 timeoutWire = (if infinite then 0 else a_replyTimeout a);
                 (e, s) = trdp_mdSetSessionTimeout w e s;
                 (err, e, s) = trdp_mdConnectSocket w (a_sendParam a) srcIp (a_destIpAddr a) True e s
             in if err \<noteq> TRDP_NO_ERR then (err, None, s)
                else
                  let e = trdp_mdFillStateElement msgType e;
                      (e, s) = trdp_mdManageSessionId w e s;
                      (ok, s) = md_malloc w s
                  in if \<not> ok then (TRDP_MEM_ERR, Some (sessionID e), s)
                     else
                       let (f, e) = trdp_mdDetailSenderPacket w msgType replyStatus timeoutWire 0 (a_data a) (a_dataSize a)
                             (a_srcURI a) (a_destURI a) (e\<lparr>pPacket := Some (replicate (unat (m_grossSize e)) 0)\<rparr>)
                       in (TRDP_NO_ERR, Some (sessionID e), note_fault f (enqueue_sender e s)))"

section \<open>Replying and confirming\<close>

text \<open>
  Without memory for the packet the element is freed and stays in its queue: what follows reads freed
  memory, which is recorded as a fault at once.
\<close>

record md_reply_args =
  r_comId :: u32
  r_timeout :: u32
  r_status :: "s32"
  r_sendParam :: "TRDP_SEND_PARAM_T option"
  r_data :: "u8 list option"
  r_dataSize :: u32

definition cross_over :: "TRDP_ADDRESSES_T \<Rightarrow> u32 \<Rightarrow> TRDP_ADDRESSES_T" where
  "cross_over a c = a\<lparr>comId := c, srcIpAddr := destIpAddr a, destIpAddr := srcIpAddr a, mcGroup := md_mcGroup (srcIpAddr a)\<rparr>"

definition send_again ::
  "md_env \<Rightarrow> md_queue \<Rightarrow> nat \<Rightarrow> u16 \<Rightarrow> s32 \<Rightarrow> u32 \<Rightarrow> u32 \<Rightarrow> u8 list option \<Rightarrow> u32 \<Rightarrow> MD_ELE_T \<Rightarrow> MD_SESSION_T \<Rightarrow>
   TRDP_ERR_T \<times> MD_SESSION_T" where
  "send_again w q i msgType replyStatus tmo seqCnt pData n e s =
     (let (ok, s) = md_malloc w s
      in if \<not> ok then (TRDP_MEM_ERR, md_fail DanglingPointer s)
         else
           let (f, e) = trdp_mdDetailSenderPacket w msgType replyStatus tmo seqCnt pData n (Some (m_destURI e)) (Some (m_srcURI e))
                 (e\<lparr>pPacket := Some (replicate (unat (m_grossSize e)) 0)\<rparr>)
           in (TRDP_NO_ERR, note_fault f (upd_at q i (\<lambda>_. e) s)))"

definition trdp_mdReply ::
  "md_env \<Rightarrow> u16 \<Rightarrow> u8 list option \<Rightarrow> md_reply_args \<Rightarrow> MD_SESSION_T \<Rightarrow> TRDP_ERR_T \<times> MD_SESSION_T" where
  "trdp_mdReply w msgType pSessionId a s =
     (if msgType \<noteq> TRDP_MSG_MP \<and> msgType \<noteq> TRDP_MSG_MQ then (TRDP_PARAM_ERR, s)
      else case pSessionId of
        None \<Rightarrow> (TRDP_PARAM_ERR, s)
      | Some sid \<Rightarrow>
          (case trdp_mdLookupElement 0 (pMDRcvQueue s) TRDP_ST_RX_REQ_W4AP_REPLY sid of
             None \<Rightarrow> (TRDP_NOLIST_ERR, s)
           | Some i \<Rightarrow>
               let e = pMDRcvQueue s ! i
               in case pPacket e of
                    None \<Rightarrow> (TRDP_NO_ERR, s)
                  | Some fr \<Rightarrow>
                      let e = e\<lparr>m_addr := cross_over (m_addr e) (r_comId a), m_privFlags := 0, m_dataSize := r_dataSize a,
                                m_grossSize := trdp_packetSizeMD (r_dataSize a), m_sendSize := 0, numReplies := 0,
                                m_morituri := False\<rparr>;
                          e = trdp_mdFillStateElement msgType e;
                          (e, s) = trdp_mdManageSessionId w e s;
                          (e, s) = (if msgType = TRDP_MSG_MQ
                                    then trdp_mdSetSessionTimeout w (e\<lparr>m_interval := usec_interval (r_timeout a)\<rparr>) s
                                    else (e, s));
                          (err, e, s) = trdp_mdConnectSocket w (r_sendParam a) (srcIpAddr (m_addr e)) (destIpAddr (m_addr e))
                                          False e s
                      in if err \<noteq> TRDP_NO_ERR then (err, upd_at RcvQ i (\<lambda>_. e) s)
                         else send_again w RcvQ i msgType (r_status a) (r_timeout a) (hdr_sequenceCounter fr)
                                (r_data a) (r_dataSize a) e s))"

definition trdp_mdConfirm ::
  "md_env \<Rightarrow> u8 list option \<Rightarrow> u16 \<Rightarrow> TRDP_SEND_PARAM_T option \<Rightarrow> MD_SESSION_T \<Rightarrow> TRDP_ERR_T \<times> MD_SESSION_T" where
  "trdp_mdConfirm w pSessionId userStatus pSendParam s =
     (case pSessionId of
        None \<Rightarrow> (TRDP_PARAM_ERR, s)
      | Some sid \<Rightarrow>
          (case trdp_mdLookupElement 0 (pMDSndQueue s) TRDP_ST_TX_REQ_W4AP_CONFIRM sid of
             None \<Rightarrow> (TRDP_NOLIST_ERR, s)
           | Some i \<Rightarrow>
               let e = pMDSndQueue s ! i;
                   e = e\<lparr>m_dataSize := 0, m_grossSize := trdp_packetSizeMD 0, m_addr := cross_over (m_addr e) 0,
                         m_privFlags := 0, m_sendSize := 0, numReplies := 0, m_morituri := False\<rparr>;
                   (err, e, s) = trdp_mdConnectSocket w pSendParam (srcIpAddr (m_addr e)) (destIpAddr (m_addr e)) False e s
               in if err \<noteq> TRDP_NO_ERR then (err, upd_at SndQ i (\<lambda>_. e) s)
                  else send_again w SndQ i TRDP_MSG_MC (ucast userStatus) 0 0 None 0
                         (trdp_mdFillStateElement TRDP_MSG_MC e) s))"

end
