(* ===== verification/Trdp_Md_Send.thy ===== *)
theory Trdp_Md_Send
  imports Trdp_Md
begin

text \<open>
  The socket calls of \<^verbatim>\<open>app/trdp/tcnopen/vos_sock.c\<close> that message data uses, over what the kernel answers,
  and sending the queued messages (\<^verbatim>\<open>trdp_mdcom.c\<close>).

  An answer that has run out is the one of a call that would block. A stream keeps what a call
  leaves unread, and it stays closed once it is.
\<close>

section \<open>Socket calls\<close>

fun write_loop :: "(errno + nat) list \<Rightarrow> u8 list \<Rightarrow> u8 list \<Rightarrow> TRDP_ERR_T \<times> u8 list \<times> (errno + nat) list" where
  "write_loop [] bs done = (TRDP_BLOCK_ERR, done, [])"
| "write_loop (Inl e # as) bs done =
     (if e = E_WOULDBLOCK then (TRDP_BLOCK_ERR, done, as)
      else if e = E_INTR then write_loop as bs done
      else if e = E_NOTCONN \<or> e = E_CONNREFUSED \<or> e = E_HOSTUNREACH then (TRDP_NOCONN_ERR, done, as)
      else (TRDP_IO_ERR, done, as))"
| "write_loop (Inr k # as) bs done =
     (if drop k bs = [] then (TRDP_NO_ERR, done @ take k bs, as)
      else write_loop as (drop k bs) (done @ take k bs))"

definition vos_sockSendTCP :: "int \<Rightarrow> u8 list \<Rightarrow> MD_SESSION_T \<Rightarrow> TRDP_ERR_T \<times> u32 \<times> MD_SESSION_T" where
  "vos_sockSendTCP fd bs s =
     (if fd = VOS_INVALID_SOCKET then (TRDP_PARAM_ERR, of_nat (length bs), s)
      else let (err, done, as) = write_loop (net_write s) bs []
           in (err, of_nat (length done),
               s\<lparr>net_write := as, md_out := md_out s @ [\<lparr>out_fd = fd, out_dest = None, out_bytes = done\<rparr>]\<rparr>))"

fun sendto_loop :: "(errno + nat) list \<Rightarrow> nat \<Rightarrow> TRDP_ERR_T \<times> nat \<times> (errno + nat) list" where
  "sendto_loop [] n = (TRDP_BLOCK_ERR, 0, [])"
| "sendto_loop (Inl e # as) n =
     (if e = E_WOULDBLOCK then (TRDP_BLOCK_ERR, 0, as)
      else if e = E_INTR then sendto_loop as n
      else (TRDP_IO_ERR, 0, as))"
| "sendto_loop (Inr k # as) n = (TRDP_NO_ERR, min k n, as)"

definition vos_sockSendUDP :: "int \<Rightarrow> u8 list \<Rightarrow> u32 \<Rightarrow> u16 \<Rightarrow> MD_SESSION_T \<Rightarrow> TRDP_ERR_T \<times> u32 \<times> MD_SESSION_T" where
  "vos_sockSendUDP fd bs ip port s =
     (if fd = VOS_INVALID_SOCKET then (TRDP_PARAM_ERR, of_nat (length bs), s)
      else let (err, n, as) = sendto_loop (net_sendto s) (length bs);
               s = s\<lparr>net_sendto := as\<rparr>
           in (err, of_nat n,
               if err = TRDP_NO_ERR
               then s\<lparr>md_out := md_out s @ [\<lparr>out_fd = fd, out_dest = Some (ip, port), out_bytes = take n bs\<rparr>]\<rparr>
               else s))"

text \<open>Reading a stream; nothing is asked for with no room. A stale error number is taken to be none.\<close>

fun read_loop :: "(errno + u8 list) list \<Rightarrow> nat \<Rightarrow> u8 list \<Rightarrow> TRDP_ERR_T \<times> u8 list \<times> (errno + u8 list) list" where
  "read_loop [] n got = (if got = [] then TRDP_BLOCK_ERR else TRDP_NO_ERR, got, [])"
| "read_loop (Inl e # as) n got =
     (if e = E_WOULDBLOCK then (if got = [] then TRDP_BLOCK_ERR else TRDP_NO_ERR, got, as)
      else if e = E_INTR then read_loop as n got
      else if e = E_MSGSIZE then (if got = [] then TRDP_MEM_ERR else TRDP_NO_ERR, got, as)
      else if e = E_CONNRESET then (TRDP_NODATA_ERR, got, as)
      else (TRDP_IO_ERR, got, as))"
| "read_loop (Inr bs # as) n got =
     (if bs = [] then (if got = [] then TRDP_NODATA_ERR else TRDP_NO_ERR, got, Inr bs # as)
      else if n \<le> length bs
      then (TRDP_NO_ERR, got @ take n bs, if drop n bs = [] then as else Inr (drop n bs) # as)
      else read_loop as (n - length bs) (got @ bs))"

definition vos_sockReceiveTCP :: "int \<Rightarrow> u32 \<Rightarrow> MD_SESSION_T \<Rightarrow> TRDP_ERR_T \<times> u8 list \<times> MD_SESSION_T" where
  "vos_sockReceiveTCP fd n s =
     (if fd = VOS_INVALID_SOCKET then (TRDP_PARAM_ERR, [], s)
      else let (err, bs, as) = read_loop (net_tcp s fd) (unat n) []
           in (err, bs, s\<lparr>net_tcp := (net_tcp s)(fd := as)\<rparr>))"

text \<open>Receiving a datagram; peeking leaves it there, an error is gone. The rest of a longer one is lost.\<close>

fun recvmsg_loop :: "bool \<Rightarrow> (errno + in_datagram) list \<Rightarrow> TRDP_ERR_T \<times> in_datagram option \<times> (errno + in_datagram) list" where
  "recvmsg_loop peek [] = (TRDP_BLOCK_ERR, None, [])"
| "recvmsg_loop peek (Inl e # as) =
     (if e = E_WOULDBLOCK then (TRDP_BLOCK_ERR, None, as)
      else if e = E_INTR then recvmsg_loop peek as
      else if e = E_CONNRESET then (TRDP_NO_ERR, None, as)
      else (TRDP_IO_ERR, None, as))"
| "recvmsg_loop peek (Inr d # as) =
     (if in_bytes d = [] then TRDP_NODATA_ERR else TRDP_NO_ERR, Some d, if peek then Inr d # as else as)"

definition vos_sockReceiveUDP :: "int \<Rightarrow> bool \<Rightarrow> MD_SESSION_T \<Rightarrow> TRDP_ERR_T \<times> in_datagram option \<times> MD_SESSION_T" where
  "vos_sockReceiveUDP fd peek s =
     (if fd = VOS_INVALID_SOCKET then (TRDP_PARAM_ERR, None, s)
      else let (err, d, as) = recvmsg_loop peek (net_udp s fd)
           in (err, d, s\<lparr>net_udp := (net_udp s)(fd := as)\<rparr>))"

definition vos_sockConnect :: "int \<Rightarrow> MD_SESSION_T \<Rightarrow> TRDP_ERR_T \<times> MD_SESSION_T" where
  "vos_sockConnect fd s =
     (if fd = VOS_INVALID_SOCKET then (TRDP_PARAM_ERR, s)
      else case net_connect s of
        [] \<Rightarrow> (TRDP_BLOCK_ERR, s)
      | None # as \<Rightarrow> (TRDP_NO_ERR, s\<lparr>net_connect := as\<rparr>)
      | Some e # as \<Rightarrow>
          (if e = E_INPROGRESS \<or> e = E_WOULDBLOCK \<or> e = E_ALREADY then TRDP_BLOCK_ERR
           else if e \<noteq> E_ISCONN then TRDP_IO_ERR else TRDP_NO_ERR, s\<lparr>net_connect := as\<rparr>))"

section \<open>Sending one message\<close>

definition trdp_mdSendPacket :: "int \<Rightarrow> u16 \<Rightarrow> MD_ELE_T \<Rightarrow> MD_SESSION_T \<Rightarrow> TRDP_ERR_T \<times> MD_ELE_T \<times> MD_SESSION_T" where
  "trdp_mdSendPacket mdSock port e s =
     (let fr = (case pPacket e of Some fr \<Rightarrow> fr | None \<Rightarrow> []);
          s = (if length fr < unat (m_grossSize e) then md_fail OutOfBounds s else s);
          (err, n, s) =
            (if is_tcp e
             then let (err, n, s) = vos_sockSendTCP mdSock (drop (unat (m_sendSize e)) (take (unat (m_grossSize e)) fr)) s
                  in (err, m_sendSize e + n, s)
             else vos_sockSendUDP mdSock (take (unat (m_grossSize e)) fr) (destIpAddr (m_addr e)) port s);
          e = e\<lparr>m_sendSize := n\<rparr>
      in if err \<noteq> TRDP_NO_ERR
         then (if err = TRDP_NOCONN_ERR \<or> err = TRDP_IO_ERR then err else TRDP_BLOCK_ERR, e, s)
         else (if m_sendSize e \<noteq> m_grossSize e then TRDP_IO_ERR else TRDP_NO_ERR, e, s))"

section \<open>Sending what is queued\<close>

definition start_sending_timeout :: "md_env \<Rightarrow> int \<Rightarrow> MD_SESSION_T \<Rightarrow> MD_SESSION_T" where
  "start_sending_timeout w i s =
     (if sendNotOk (md_sock s i) then s
      else let (now, s) = md_getTime w s
           in upd_md_sock i (\<lambda>k. k\<lparr>sendingTimeout := vos_addTime now (usec_interval (md_sendingTimeout (mdDefault s))),
                                   sendNotOk := True\<rparr>) s)"

text \<open>Connect before the first message; the flag says whether to go on.\<close>

definition md_connect :: "md_env \<Rightarrow> md_queue \<Rightarrow> nat \<Rightarrow> MD_SESSION_T \<Rightarrow> bool \<times> MD_SESSION_T" where
  "md_connect w q i s =
     (let e = md_q q s ! i
      in if \<not> is_tcp e \<or> \<not> doConnect e then (True, s)
         else
           let (err, s) = vos_sockConnect (sock (md_sock s (m_socketIdx e))) s
           in if err = TRDP_NO_ERR then (True, upd_at q i (\<lambda>e. e\<lparr>doConnect := False\<rparr>) s)
              else if err = TRDP_BLOCK_ERR then (False, upd_at q i (\<lambda>e. e\<lparr>doConnect := False\<rparr>) s)
              else (False, upd_at q i (\<lambda>e. e\<lparr>m_morituri := True\<rparr>) (start_sending_timeout w (m_socketIdx e) s)))"

text \<open>What becomes of an element that was sent.\<close>

definition after_send :: "TRDP_MD_ELE_ST_T \<Rightarrow> MD_ELE_T \<Rightarrow> MD_ELE_T" where
  "after_send nextstate e =
     (case stateEle e of
        TRDP_ST_TX_CONFIRM_ARM \<Rightarrow>
          let e = e\<lparr>numConfirmSent := numConfirmSent e + 1\<rparr>
          in if numExpReplies e \<noteq> 0 \<and> numRepliesQuery e + numReplies e \<ge> numExpReplies e \<and>
                numConfirmSent e \<ge> numRepliesQuery e
             then e\<lparr>m_morituri := True, stateEle := nextstate\<rparr>
             else e\<lparr>stateEle := (if numConfirmSent e < numRepliesQuery e then TRDP_ST_TX_REQ_W4AP_CONFIRM
                                 else TRDP_ST_TX_REQUEST_W4REPLY)\<rparr>
      | TRDP_ST_TX_NOTIFY_ARM \<Rightarrow> e\<lparr>m_morituri := True, stateEle := nextstate\<rparr>
      | TRDP_ST_TX_REPLY_ARM \<Rightarrow> e\<lparr>m_morituri := True, stateEle := nextstate\<rparr>
      | _ \<Rightarrow> e\<lparr>stateEle := nextstate\<rparr>)"

text \<open>All callers on a socket are told that it failed and closed; callbacks see the state they find.\<close>

fun abort_callers :: "int \<Rightarrow> MD_ELE_T list \<Rightarrow> MD_SESSION_T \<Rightarrow> MD_ELE_T list \<times> MD_SESSION_T" where
  "abort_callers idx [] s = ([], s)"
| "abort_callers idx (e # es) s =
     (if m_socketIdx e = idx
      then let e = e\<lparr>m_morituri := True\<rparr>;
               s = (if m_pfCbFunction e then trdp_mdInvokeCallback e TRDP_TIMEOUT_ERR s else s);
               (es, s) = abort_callers idx es s
           in (e # es, s)
      else let (es, s) = abort_callers idx es s in (e # es, s))"

definition close_callers :: "int \<Rightarrow> MD_SESSION_T \<Rightarrow> MD_SESSION_T" where
  "close_callers idx s =
     (let (es, s) = abort_callers idx (pMDSndQueue s) s
      in upd_md_sock idx (\<lambda>k. k\<lparr>morituri := True\<rparr>) (s\<lparr>pMDSndQueue := es\<rparr>))"

definition md_transmit :: "md_env \<Rightarrow> md_queue \<Rightarrow> nat \<Rightarrow> TRDP_MD_ELE_ST_T \<Rightarrow> MD_SESSION_T \<Rightarrow> TRDP_ERR_T \<times> MD_SESSION_T" where
  "md_transmit w q i nextstate s =
     (let e = md_q q s ! i; idx = m_socketIdx e; tcp = is_tcp e;
          type = (case pPacket e of Some fr \<Rightarrow> hdr_msgType fr | None \<Rightarrow> 0);
          port = (if replyPort e \<noteq> 0 \<and> (type = TRDP_MSG_MP \<or> type = TRDP_MSG_MQ) then replyPort e
                  else udpPort (mdDefault s));
          (result, e, s) = trdp_mdSendPacket (sock (md_sock s idx)) port e s;
          s = upd_at q i (\<lambda>_. e) s
      in if result = TRDP_NO_ERR
         then
           let s = (if tcp
                    then upd_tcpMd (\<lambda>t. t\<lparr>md_numSend := md_numSend t + 1\<rparr>)
                           (upd_md_sock idx (\<lambda>k. k\<lparr>notSend := False, sendNotOk := False, addFileDesc := True\<rparr>)
                             (upd_at q i (\<lambda>e. e\<lparr>msgUncomplete := False\<rparr>) s))
                    else upd_udpMd (\<lambda>t. t\<lparr>md_numSend := md_numSend t + 1\<rparr>) s);
               s = (if nextstate = TRDP_ST_RX_REPLYQUERY_W4C
                    then let (now, s) = md_getTime w s
                         in upd_at q i (\<lambda>e. e\<lparr>m_timeToGo := vos_addTime now (m_interval e)\<rparr>) s
                    else s)
           in (result, upd_at q i (after_send nextstate) s)
         else if result = TRDP_IO_ERR
         then (result,
               if tcp
               then start_sending_timeout w idx
                      (upd_md_sock idx (\<lambda>k. k\<lparr>notSend := True\<rparr>) (upd_at q i (\<lambda>e. e\<lparr>msgUncomplete := True\<rparr>) s))
               else s)
         else (result, close_callers idx s))"

definition tx_state :: "TRDP_MD_ELE_ST_T \<Rightarrow> TRDP_MD_ELE_ST_T option" where
  "tx_state st =
     (case st of
        TRDP_ST_TX_NOTIFY_ARM \<Rightarrow> Some TRDP_ST_NONE
      | TRDP_ST_TX_REQUEST_ARM \<Rightarrow> Some TRDP_ST_TX_REQUEST_W4REPLY
      | TRDP_ST_TX_REPLY_ARM \<Rightarrow> Some TRDP_ST_NONE
      | TRDP_ST_TX_REPLYQUERY_ARM \<Rightarrow> Some TRDP_ST_RX_REPLYQUERY_W4C
      | TRDP_ST_TX_CONFIRM_ARM \<Rightarrow> Some TRDP_ST_NONE
      | _ \<Rightarrow> None)"

definition md_send_one :: "md_env \<Rightarrow> md_queue \<Rightarrow> nat \<Rightarrow> TRDP_ERR_T \<Rightarrow> MD_SESSION_T \<Rightarrow> TRDP_ERR_T \<times> MD_SESSION_T" where
  "md_send_one w q i result s =
     (let e = md_q q s ! i
      in case tx_state (stateEle e) of
           None \<Rightarrow> (result, s)
         | Some nextstate \<Rightarrow>
             if m_socketIdx e = TRDP_INVALID_SOCKET_INDEX \<or> bit (m_privFlags e) TRDP_REDUNDANT then (result, s)
             else if \<not> sock_index_ok s (m_socketIdx e) then (result, md_fail OutOfBounds s)
             else case pPacket e of
               None \<Rightarrow> (result, md_fail NullPointer s)
             | Some fr \<Rightarrow>
                 let s = upd_at q i (\<lambda>e. e\<lparr>pPacket := Some (trdp_mdUpdatePacket fr)\<rparr>) s;
                     (go, s) = md_connect w q i s
                 in if go \<and> (\<not> is_tcp e \<or> \<not> notSend (md_sock s (m_socketIdx e)) \<or> msgUncomplete e)
                    then md_transmit w q i nextstate s
                    else (result, s))"

text \<open>The elements of the send queue and then those of the receive queue; neither gets longer or shorter.\<close>

definition trdp_mdSend :: "md_env \<Rightarrow> MD_SESSION_T \<Rightarrow> TRDP_ERR_T \<times> MD_SESSION_T" where
  "trdp_mdSend w s =
     (let (result, s) = foldl (\<lambda>(r, s) i. md_send_one w SndQ i r s) (TRDP_NO_ERR, s) [0..<length (pMDSndQueue s)];
          (result, s) = foldl (\<lambda>(r, s) i. md_send_one w RcvQ i r s) (result, s) [0..<length (pMDRcvQueue s)]
      in (result, trdp_mdCloseSessions w TRDP_INVALID_SOCKET_INDEX VOS_INVALID_SOCKET True s))"

end
