(* ===== verification/Trdp_Md_Recv.thy ===== *)
theory Trdp_Md_Recv
  imports Trdp_Md_Send
begin

text \<open>
  Receiving message data (\<^verbatim>\<open>app/trdp/tcnopen/trdp_mdcom.c\<close>): datagrams, the pieces of a stream, requests for a
  listener, replies for a caller, and what happens when time is over.
\<close>

section \<open>Datagrams\<close>

definition rcv_ele :: "MD_SESSION_T \<Rightarrow> MD_ELE_T" where
  "rcv_ele s = (case pMDRcvEle s of Some e \<Rightarrow> e | None \<Rightarrow> zero_md_ele)"

definition upd_rcv :: "(MD_ELE_T \<Rightarrow> MD_ELE_T) \<Rightarrow> MD_SESSION_T \<Rightarrow> MD_SESSION_T" where
  "upd_rcv f s = s\<lparr>pMDRcvEle := Some (f (rcv_ele s))\<rparr>"

definition rcv_buf :: "MD_SESSION_T \<Rightarrow> u8 list" where
  "rcv_buf s = (case pPacket (rcv_ele s) of Some b \<Rightarrow> b | None \<Rightarrow> [])"

text \<open>Bytes arrive in the receive buffer at an offset.\<close>

definition fill_buf :: "nat \<Rightarrow> u8 list \<Rightarrow> MD_SESSION_T \<Rightarrow> MD_SESSION_T" where
  "fill_buf off bs s =
     (if length (rcv_buf s) < off + length bs then md_fail OutOfBounds s
      else upd_rcv (\<lambda>e. e\<lparr>pPacket := Some (overwrite off bs (rcv_buf s))\<rparr>) s)"

definition take_datagram :: "u32 \<Rightarrow> in_datagram option \<Rightarrow> MD_SESSION_T \<Rightarrow> u32 \<times> MD_SESSION_T" where
  "take_datagram n d s =
     (case d of
        None \<Rightarrow> (0, s)
      | Some d \<Rightarrow>
          let bs = take (unat n) (in_bytes d);
              s = upd_rcv (\<lambda>e. e\<lparr>m_addr := (m_addr e)\<lparr>srcIpAddr := in_src d,
                    destIpAddr := (case in_dest d of Some a \<Rightarrow> a | None \<Rightarrow> destIpAddr (m_addr e))\<rparr>, replyPort := in_port d\<rparr>) s
          in (of_nat (length bs), fill_buf 0 bs s))"

definition trdp_mdRecvUDPPacket :: "md_env \<Rightarrow> int \<Rightarrow> MD_SESSION_T \<Rightarrow> TRDP_ERR_T \<times> MD_SESSION_T" where
  "trdp_mdRecvUDPPacket w mdSock s =
     (let s = upd_rcv (\<lambda>e. e\<lparr>m_addr := (m_addr e)\<lparr>srcIpAddr := 0, destIpAddr := realIP s\<rparr>\<rparr>) s;
          (err, d, s) = vos_sockReceiveUDP mdSock True s;
          (sz, s) = take_datagram MD_HEADER_SIZE d s
      in if err \<noteq> TRDP_NO_ERR
         then (err, s)
         else if sz = MD_HEADER_SIZE \<and> trdp_mdCheck s (rcv_buf s) sz True = TRDP_NO_ERR
         then
           let n = hdr_datasetLength (rcv_buf s); gross = trdp_packetSizeMD n;
               s = upd_rcv (\<lambda>e. e\<lparr>m_dataSize := n, m_grossSize := gross\<rparr>) s;
               (ok, s) = (if gross > cMinimumMDSize then md_malloc w s else (True, s))
           in if \<not> ok then (TRDP_MEM_ERR, s)
              else
                let s = (if gross > cMinimumMDSize
                         then upd_rcv (\<lambda>e. e\<lparr>pPacket := Some (replicate (unat gross) 0)\<rparr>) s else s);
                    (err, d, s) = vos_sockReceiveUDP mdSock False s;
                    (_, s) = take_datagram gross d s
                in (err, s)
         else
           let (_, d, s) = vos_sockReceiveUDP mdSock False s;
               (_, s) = take_datagram MD_HEADER_SIZE d s
           in (TRDP_NODATA_ERR, s))"

section \<open>Streams\<close>

text \<open>The message of a connection that is not complete, and its buffer.\<close>

definition unc_at :: "MD_SESSION_T \<Rightarrow> nat \<Rightarrow> MD_ELE_T option" where
  "unc_at s k = uncompletedTCP s ! k"

definition set_unc :: "nat \<Rightarrow> MD_ELE_T option \<Rightarrow> MD_SESSION_T \<Rightarrow> MD_SESSION_T" where
  "set_unc k u s = s\<lparr>uncompletedTCP := (uncompletedTCP s)[k := u]\<rparr>"

definition unc_size :: "MD_SESSION_T \<Rightarrow> nat \<Rightarrow> u32" where
  "unc_size s k = (case unc_at s k of Some u \<Rightarrow> m_grossSize u | None \<Rightarrow> 0)"

definition unc_buf :: "MD_SESSION_T \<Rightarrow> nat \<Rightarrow> u8 list option" where
  "unc_buf s k = Option.bind (unc_at s k) pPacket"

text \<open>Copy \<open>bs\<close> into the buffer of the incomplete message.\<close>

definition fill_unc :: "nat \<Rightarrow> nat \<Rightarrow> u8 list \<Rightarrow> MD_SESSION_T \<Rightarrow> MD_SESSION_T" where
  "fill_unc k off bs s =
     (case unc_at s k of
        None \<Rightarrow> md_fail NullPointer s
      | Some u \<Rightarrow>
          (case pPacket u of
             None \<Rightarrow> md_fail NullPointer s
           | Some b \<Rightarrow>
               if length b < off + length bs then md_fail OutOfBounds s
               else set_unc k (Some (u\<lparr>pPacket := Some (overwrite off bs b)\<rparr>)) s))"

text \<open>The place of a descriptor in the pool.\<close>

definition find_socket :: "int \<Rightarrow> MD_SESSION_T \<Rightarrow> nat option" where
  "find_socket fd s = List.find (\<lambda>k. sock (iface (socks s) ! k) = fd) [0..<VOS_MAX_SOCKET_CNT]"

text \<open>
  Reading the header: an error that ends the call, the error of reading, the size so far, what was
  read and where the header continues.
\<close>

definition tcp_header :: "nat \<Rightarrow> int \<Rightarrow> MD_SESSION_T \<Rightarrow> TRDP_ERR_T option \<times> TRDP_ERR_T \<times> u32 \<times> u32 \<times> u32 \<times> MD_SESSION_T" where
  "tcp_header k fd s =
     (if unc_at s k = None \<or> unc_size s k < MD_HEADER_SIZE
      then
        let stored = unc_size s k;
            (err, bs, s) = vos_sockReceiveTCP fd (MD_HEADER_SIZE - stored) s;
            s = fill_buf (unat stored) bs s;
            readSize = of_nat (length bs); sz = stored + readSize
        in if err = TRDP_NO_ERR \<and> unc_at s k \<noteq> None \<and> sz \<ge> MD_HEADER_SIZE \<and> unc_buf s k \<noteq> None
           then if trdp_mdCheck s (rcv_buf s) sz True = TRDP_NO_ERR
                then (None, err, sz, readSize, stored,
                      fill_unc k 20 (slice 20 4 (rcv_buf s)) (fill_unc k 112 (slice 112 4 (rcv_buf s)) s))
                else (Some TRDP_NODATA_ERR, err, sz, readSize, stored, s)
           else (None, err, sz, readSize, stored, s)
      else (None, TRDP_NO_ERR, 0, 0, 0, s))"

text \<open>
  Reading the data: the error, the sizes of all that is there and of what was read, the length of the rest of the
  data and how much of it was read.
\<close>

definition tcp_data ::
  "md_env \<Rightarrow> nat \<Rightarrow> int \<Rightarrow> TRDP_ERR_T \<Rightarrow> u32 \<Rightarrow> u32 \<Rightarrow> u32 \<Rightarrow> MD_SESSION_T \<Rightarrow>
   TRDP_ERR_T option \<times> TRDP_ERR_T \<times> u32 \<times> u32 \<times> u32 \<times> u32 \<times> MD_SESSION_T" where
  "tcp_data w k fd err sz readSize stored s =
     (if sz \<ge> MD_HEADER_SIZE \<or> unc_at s k \<noteq> None \<and> unc_size s k \<ge> MD_HEADER_SIZE
      then
        let (sz, total, rest) =
              (case unc_buf s k of
                 None \<Rightarrow> (sz, hdr_datasetLength (rcv_buf s), hdr_datasetLength (rcv_buf s))
               | Some b \<Rightarrow>
                   let sz = unc_size s k + readSize
                   in (sz, hdr_datasetLength b, hdr_datasetLength b - (sz - MD_HEADER_SIZE)));
            s = upd_rcv (\<lambda>e. e\<lparr>m_dataSize := total\<rparr>) s;
            big = (sz \<ge> MD_HEADER_SIZE \<and> trdp_packetSizeMD total > cMinimumMDSize);
            (ok, s) = (if big then md_malloc w s else (True, s))
        in if \<not> ok then (Some TRDP_MEM_ERR, err, sz, readSize, rest, rest, s)
           else
             let s = (if big
                      then let old = rcv_buf s;
                               new = replicate (unat (trdp_packetSizeMD total)) 0;
                               bs = slice (unat stored) (unat readSize) old
                           in upd_rcv (\<lambda>e. e\<lparr>pPacket := Some (overwrite (unat stored) bs new)\<rparr>) s
                      else s)
             in if rest > 0
                then let (err, bs, s) = vos_sockReceiveTCP fd rest s;
                         s = fill_buf (unat sz) bs s;
                         n = of_nat (length bs)
                     in (None, err, sz + n, readSize + n, rest, n, s)
                else (None, err, sz, readSize, rest, rest, s)
      else (None, err, sz, readSize, 0, 0, s))"

text \<open>The message is not complete: keep what was read.\<close>

definition tcp_keep :: "md_env \<Rightarrow> nat \<Rightarrow> u32 \<Rightarrow> u32 \<Rightarrow> MD_SESSION_T \<Rightarrow> TRDP_ERR_T \<times> MD_SESSION_T" where
  "tcp_keep w k readSize readDataSize s =
     (let total = m_dataSize (rcv_ele s); gross = m_grossSize (rcv_ele s); psize = trdp_packetSizeMD total;
          (err, storedSize, s) =
            (case unc_at s k of
               None \<Rightarrow>
                 let (ok, s) = md_malloc w s
                 in if \<not> ok then (TRDP_MEM_ERR, 0, s)
                    else let (ok, s) = md_malloc w s
                         in if \<not> ok then (TRDP_MEM_ERR, 0, set_unc k (Some zero_md_ele) s)
                            else (TRDP_NO_ERR, 0, set_unc k (Some (zero_md_ele\<lparr>pPacket :=
                                   Some (replicate (unat (if psize < cMinimumMDSize then cMinimumMDSize else psize)) 0)\<rparr>)) s)
             | Some u \<Rightarrow>
                 if m_grossSize u < MD_HEADER_SIZE \<and> gross > MD_HEADER_SIZE \<and> psize > cMinimumMDSize
                 then let (ok, s) = md_malloc w s
                      in if \<not> ok then (TRDP_MEM_ERR, 0, s)
                         else (TRDP_NO_ERR, m_grossSize u, set_unc k (Some (u\<lparr>pPacket :=
                                Some (overwrite 0 (take (unat (m_grossSize u)) (rcv_buf s)) (replicate (unat psize) 0))\<rparr>)) s)
                 else (TRDP_NO_ERR, m_grossSize u, s))
      in if err \<noteq> TRDP_NO_ERR then (err, s)
         else if readSize > 0
         then
           let s = fill_unc k (unat storedSize) (slice (unat storedSize) (unat readSize) (rcv_buf s)) s
           in (TRDP_PACKET_ERR,
               set_unc k (map_option (\<lambda>u. u\<lparr>m_grossSize := gross, m_dataSize := readDataSize\<rparr>) (unc_at s k)) s)
         else (TRDP_PARAM_ERR, s))"

text \<open>The message is complete: what was kept and what was read become one.\<close>

definition tcp_complete :: "nat \<Rightarrow> u32 \<Rightarrow> MD_SESSION_T \<Rightarrow> TRDP_ERR_T \<times> MD_SESSION_T" where
  "tcp_complete k readSize s =
     (if unc_at s k = None then (TRDP_NO_ERR, s)
      else if readSize > 0 \<and> unc_buf s k \<noteq> None
      then
        let stored = unat (unc_size s k);
            s = fill_unc k stored (slice stored (unat readSize) (rcv_buf s)) s;
            b = (case unc_buf s k of Some b \<Rightarrow> b | None \<Rightarrow> []);
            gross = unat (m_grossSize (rcv_ele s));
            s = (if length b < gross then md_fail OutOfBounds s else fill_buf 0 (take gross b) s)
        in (TRDP_NO_ERR, set_unc k None s)
      else (TRDP_PARAM_ERR, s))"

definition trdp_mdRecvTCPPacket :: "md_env \<Rightarrow> int \<Rightarrow> MD_SESSION_T \<Rightarrow> TRDP_ERR_T \<times> MD_SESSION_T" where
  "trdp_mdRecvTCPPacket w mdSock s =
     (let s = upd_rcv (\<lambda>e. e\<lparr>m_dataSize := 0, m_addr := (m_addr e)\<lparr>destIpAddr := realIP s\<rparr>\<rparr>) s
      in case find_socket mdSock s of
        None \<Rightarrow> (TRDP_UNKNOWN_ERR, s)
      | Some k \<Rightarrow>
          (case tcp_header k mdSock s of
             (Some stop, _, _, _, _, s) \<Rightarrow> (stop, s)
           | (None, err, sz, readSize, stored, s) \<Rightarrow>
               (case tcp_data w k mdSock err sz readSize stored s of
                  (Some stop, _, _, _, _, _, s) \<Rightarrow> (stop, s)
                | (None, err, sz, readSize, rest, readDataSize, s) \<Rightarrow>
                    let s = upd_rcv (\<lambda>e. e\<lparr>m_grossSize := sz\<rparr>) s
                    in if err = TRDP_NODATA_ERR then (TRDP_NODATA_ERR, s)
                       else if err = TRDP_BLOCK_ERR \<and> is_tcp (rcv_ele s) \<and> readSize = 0 then (TRDP_BLOCK_ERR, s)
                       else if err \<noteq> TRDP_BLOCK_ERR \<and> err \<noteq> TRDP_NO_ERR then (err, s)
                       else
                         let noDataToRead = (sz = MD_HEADER_SIZE \<and> rest = 0)
                         in if sz < MD_HEADER_SIZE \<and> readDataSize = 0 \<or> \<not> noDataToRead \<and> readDataSize \<noteq> rest
                            then tcp_keep w k readSize readDataSize s
                            else tcp_complete k readSize s)))"

section \<open>One packet\<close>

definition trdp_mdRecvPacket :: "md_env \<Rightarrow> int \<Rightarrow> MD_SESSION_T \<Rightarrow> TRDP_ERR_T \<times> MD_SESSION_T" where
  "trdp_mdRecvPacket w mdSock s =
     (let tcp = is_tcp (rcv_ele s);
          (err, s) = (if tcp then trdp_mdRecvTCPPacket w mdSock s else trdp_mdRecvUDPPacket w mdSock s)
      in if err \<noteq> TRDP_NO_ERR then (err, s)
         else
           let err = trdp_mdCheck s (rcv_buf s) (m_grossSize (rcv_ele s)) False
           in (err, upd_md_stats tcp (\<lambda>t.
                 if err = TRDP_NO_ERR then t\<lparr>md_numRcv := md_numRcv t + 1\<rparr>
                 else if err = TRDP_CRC_ERR then t\<lparr>md_numCrcErr := md_numCrcErr t + 1\<rparr>
                 else if err = TRDP_WIRE_ERR then t\<lparr>md_numProtErr := md_numProtErr t + 1\<rparr>
                 else if err = TRDP_TOPO_ERR then t\<lparr>md_numTopoErr := md_numTopoErr t + 1\<rparr>
                 else t) s))"

end
