(* ===== verification/Trdp_Md_Proc.thy ===== *)
theory Trdp_Md_Proc
  imports Trdp_Md_Recv
begin

text \<open>
  The protocol of message data (\<^verbatim>\<open>app/trdp/tcnopen/trdp_mdcom.c\<close>): requests find a listener, replies and confirmations
  their session; connections are accepted, ready sockets are read, and sessions time out.
\<close>

section \<open>Errors to the caller\<close>

definition me_element :: "MD_ELE_T \<Rightarrow> MD_SESSION_T \<Rightarrow> MD_ELE_T" where
  "me_element r s =
     zero_md_ele\<lparr>m_addr := zero_addr\<lparr>srcIpAddr := destIpAddr (m_addr r), destIpAddr := srcIpAddr (m_addr r)\<rparr>,
       m_grossSize := trdp_packetSizeMD 0, m_socketIdx := TRDP_INVALID_SOCKET_INDEX, m_pktFlags := md_flags (mdDefault s),
       m_pfCbFunction := m_pfCbFunction r\<rparr>"

definition trdp_mdSendME :: "md_env \<Rightarrow> u8 list \<Rightarrow> s32 \<Rightarrow> MD_SESSION_T \<Rightarrow> TRDP_ERR_T \<times> MD_SESSION_T" where
  "trdp_mdSendME w pH replyStatus s =
     (if replyStatus \<noteq> TRDP_REPLY_NO_REPLIER_INST \<and> replyStatus \<noteq> TRDP_REPLY_NO_MEM_REPL then (TRDP_PARAM_ERR, s)
      else case pMDRcvEle s of
        None \<Rightarrow> (TRDP_NO_ERR, s)
      | Some r \<Rightarrow>
          let (ok, s) = md_malloc w s
          in if \<not> ok then (TRDP_MEM_ERR, s)
             else
               let (e, s) = trdp_mdSetSessionTimeout w (me_element r s) s;
                   (err, e, s) = trdp_mdConnectSocket w (Some (md_sendParam (mdDefault s))) (srcIpAddr (m_addr e))
                                   (destIpAddr (m_addr e)) True e s
               in if err \<noteq> TRDP_NO_ERR then (err, s)
                  else
                    let e = (trdp_mdFillStateElement TRDP_MSG_ME e)\<lparr>sessionID := md_sessionID pH\<rparr>;
                        (ok, s) = md_malloc w s
                    in if \<not> ok then (TRDP_MEM_ERR, s)
                       else
                         let (f, e) = trdp_mdDetailSenderPacket w TRDP_MSG_ME replyStatus 0 0 None 0
                               (Some (m_destURI r)) (Some (m_srcURI r))
                               (e\<lparr>pPacket := Some (replicate (unat (m_grossSize e)) 0)\<rparr>)
                         in (TRDP_NO_ERR, note_fault f (enqueue_sender e s)))"

section \<open>Requests\<close>

text \<open>The first session with the ID of a header, with the number of sessions looked at.\<close>

fun find_session :: "nat \<Rightarrow> u8 list \<Rightarrow> MD_ELE_T list \<Rightarrow> nat option checked" where
  "find_session i sid [] = Inr None"
| "find_session i sid (e # es) =
     (case pPacket e of
        None \<Rightarrow> Inl NullPointer
      | Some fr \<Rightarrow> if md_sessionID fr = sid then Inr (Some i) else find_session (Suc i) sid es)"

text \<open>No local communication, and the train has changed.\<close>

definition outdated :: "u8 list \<Rightarrow> TRDP_ADDRESSES_T \<Rightarrow> bool" where
  "outdated pH a \<longleftrightarrow> (hdr_etbTopoCnt pH \<noteq> 0 \<or> hdr_opTrnTopoCnt pH \<noteq> 0) \<and>
     \<not> trdp_validTopoCounters (hdr_etbTopoCnt pH) (hdr_opTrnTopoCnt pH) (etbTopoCnt a) (opTrnTopoCnt a)"

text \<open>A session that is there already: \<open>None\<close> when the request is to be treated as a new one.\<close>

definition repeated_request :: "bool \<Rightarrow> u8 list \<Rightarrow> nat \<Rightarrow> MD_SESSION_T \<Rightarrow> MD_SESSION_T option" where
  "repeated_request isTCP pH i s =
     (let e = pMDRcvQueue s ! i; fr = (case pPacket e of Some fr \<Rightarrow> fr | None \<Rightarrow> [])
      in if hdr_sequenceCounter pH = hdr_sequenceCounter fr \<or> isTCP \<or> mcGroup (m_addr e) \<noteq> 0 then Some s
         else if stateEle e \<noteq> TRDP_ST_RX_REPLYQUERY_W4C then Some s
         else if outdated pH (m_addr e) then None
         else Some (upd_at RcvQ i (\<lambda>e. e\<lparr>stateEle := TRDP_ST_TX_REPLYQUERY_ARM, numRetries := numRetries e + 1,
                      m_timeToGo := vos_addTime (m_timeToGo e) (m_interval e),
                      pPacket := Some (trdp_mdUpdatePacket (put32 0 (hdr_sequenceCounter pH) fr))\<rparr>) s))"

definition to_lower :: "u8 \<Rightarrow> u8" where
  "to_lower c = (if 0x41 \<le> c \<and> c \<le> 0x5a then c + 0x20 else c)"

definition vos_strnicmp :: "u8 list \<Rightarrow> u8 list \<Rightarrow> nat \<Rightarrow> bool" where
  "vos_strnicmp a b n \<longleftrightarrow>
     map to_lower (takeWhile (\<lambda>c. c \<noteq> 0) (take n a)) = map to_lower (takeWhile (\<lambda>c. c \<noteq> 0) (take n b))"

definition listens :: "bool \<Rightarrow> u8 list \<Rightarrow> u32 \<Rightarrow> MD_LIS_ELE_T \<Rightarrow> bool" where
  "listens isTCP pH destIp l \<longleftrightarrow>
     \<not> (l_socketIdx l \<noteq> TRDP_INVALID_SOCKET_INDEX \<and> isTCP) \<and>
     \<not> (mcGroup (l_addr l) \<noteq> 0 \<and> mcGroup (l_addr l) \<noteq> destIp) \<and>
     (if hd (l_destURI l) = 0 then hdr_comId pH = comId (l_addr l)
      else vos_strnicmp (l_destURI l) (md_destinationURI pH) 32) \<and>
     \<not> outdated pH (l_addr l)"

fun find_listener :: "nat \<Rightarrow> (MD_LIS_ELE_T \<Rightarrow> bool) \<Rightarrow> MD_LIS_ELE_T list \<Rightarrow> nat option" where
  "find_listener i P [] = None"
| "find_listener i P (l # ls) = (if P l then Some i else find_listener (Suc i) P ls)"

text \<open>The new session of a listener; the receive element becomes the first of the queue.\<close>

definition new_session ::
  "md_env \<Rightarrow> nat \<Rightarrow> u8 list \<Rightarrow> TRDP_MD_ELE_ST_T \<Rightarrow> nat \<Rightarrow> MD_SESSION_T \<Rightarrow> MD_SESSION_T" where
  "new_session w sockIndex pH state j s =
     (let l = pMDListenQueue s ! j;
          s = s\<lparr>pMDListenQueue := (pMDListenQueue s)[j := l\<lparr>numSessions := numSessions l + 1\<rparr>]\<rparr>;
          e = (rcv_ele s)\<lparr>m_pUserRef := l_pUserRef l, m_pfCbFunction := l_pfCbFunction l, stateEle := state,
                m_addr := (m_addr (rcv_ele s))\<lparr>etbTopoCnt := etbTopoCnt (l_addr l), opTrnTopoCnt := opTrnTopoCnt (l_addr l)\<rparr>,
                m_pktFlags := l_pktFlags l,
                m_socketIdx := (if l_socketIdx l = TRDP_INVALID_SOCKET_INDEX then int sockIndex else l_socketIdx l)\<rparr>;
          (now, s) = md_getTime w s;
          tmo = md_replyTimeout pH;
          e = (if tmo = 0 \<and> hdr_msgType pH = TRDP_MSG_MR
               then e\<lparr>m_interval := vos_clearTime, m_timeToGo := vos_clearTime\<rparr>
               else e\<lparr>m_interval := usec_interval tmo, m_timeToGo := vos_addTime now (usec_interval tmo)\<rparr>);
          e = e\<lparr>sessionID := md_sessionID pH,
                m_srcURI := vos_strncpy (m_srcURI e) (md_sourceURI pH) TRDP_MAX_URI_USER_LEN\<rparr>
      in s\<lparr>pMDRcvQueue := trdp_MDqueueInsFirst (pMDRcvQueue s) e, pMDRcvEle := None\<rparr>)"

text \<open>The result, and whether there is a new session (the first of the queue).\<close>

definition trdp_mdHandleRequest ::
  "md_env \<Rightarrow> bool \<Rightarrow> nat \<Rightarrow> u8 list \<Rightarrow> TRDP_MD_ELE_ST_T \<Rightarrow> MD_SESSION_T \<Rightarrow> TRDP_ERR_T \<times> bool \<times> MD_SESSION_T" where
  "trdp_mdHandleRequest w isTCP sockIndex pH state s =
     (case find_session 0 (md_sessionID pH) (pMDRcvQueue s) of
        Inl f \<Rightarrow> (TRDP_NO_ERR, False, md_fail f s)
      | Inr found \<Rightarrow>
          let counted = (case found of Some i \<Rightarrow> Suc i | None \<Rightarrow> length (pMDRcvQueue s))
          in case Option.bind found (\<lambda>i. repeated_request isTCP pH i s) of
               Some s \<Rightarrow> (TRDP_NO_ERR, False, s)
             | None \<Rightarrow>
                 if unat (maxNumSessions (mdDefault s)) \<le> counted
                 then (TRDP_NO_ERR, False, snd (trdp_mdSendME w pH TRDP_REPLY_NO_MEM_REPL s))
                 else
                   (case find_listener 0 (listens isTCP pH (destIpAddr (m_addr (rcv_ele s)))) (pMDListenQueue s) of
                      Some j \<Rightarrow> (TRDP_NO_ERR, True, new_session w sockIndex pH state j s)
                    | None \<Rightarrow>
                        let s = upd_md_stats isTCP (\<lambda>t. t\<lparr>numNoListener := numNoListener t + 1\<rparr>) s
                        in (TRDP_NOLIST_ERR, False, snd (trdp_mdSendME w pH TRDP_REPLY_NO_REPLIER_INST s))))"

section \<open>Replies and confirmations\<close>

text \<open>The session of a message, in the queue that its type belongs to.\<close>

fun match_session :: "nat \<Rightarrow> u8 list \<Rightarrow> MD_ELE_T list \<Rightarrow> nat option checked" where
  "match_session i pH [] = Inr None"
| "match_session i pH (e # es) =
     (if outdated pH (m_addr e) then match_session (Suc i) pH es
      else case pPacket e of
        None \<Rightarrow> Inl NullPointer
      | Some fr \<Rightarrow> if md_sessionID fr = md_sessionID pH then Inr (Some i) else match_session (Suc i) pH es)"

definition reply_queue :: "u16 \<Rightarrow> md_queue option" where
  "reply_queue type =
     (if type = TRDP_MSG_MC then Some RcvQ
      else if type = TRDP_MSG_MQ \<or> type = TRDP_MSG_MP \<or> type = TRDP_MSG_ME then Some SndQ else None)"

definition replies_complete :: "MD_ELE_T \<Rightarrow> bool" where
  "replies_complete e \<longleftrightarrow> numExpReplies e = 1 \<or>
     numExpReplies e \<noteq> 0 \<and> numReplies e + numRepliesQuery e \<ge> numExpReplies e \<and>
     numConfirmSent e + m_numConfirmTimeout e \<ge> numRepliesQuery e"

definition accept_reply :: "vos_timeval \<Rightarrow> u8 list \<Rightarrow> MD_ELE_T \<Rightarrow> MD_ELE_T \<Rightarrow> MD_ELE_T" where
  "accept_reply now pH r e =
     (let type = hdr_msgType pH;
          e = e\<lparr>pPacket := pPacket r, m_dataSize := hdr_datasetLength pH, m_grossSize := m_grossSize r,
                m_addr := (m_addr e)\<lparr>comId := (if type \<noteq> TRDP_MSG_ME then hdr_comId pH else comId (m_addr e)),
                  srcIpAddr := srcIpAddr (m_addr r), destIpAddr := destIpAddr (m_addr r)\<rparr>\<rparr>
      in if type = TRDP_MSG_MC then e\<lparr>stateEle := TRDP_ST_RX_CONF_RECEIVED, m_morituri := True\<rparr>
         else
           let e = e\<lparr>m_srcURI := vos_strncpy (m_srcURI e) (md_sourceURI pH) TRDP_MAX_URI_USER_LEN,
                     m_destURI := vos_strncpy (m_destURI e) (md_destinationURI pH) TRDP_MAX_URI_USER_LEN\<rparr>
           in if type = TRDP_MSG_MQ
              then e\<lparr>numRepliesQuery := numRepliesQuery e + 1, stateEle := TRDP_ST_TX_REQ_W4AP_CONFIRM,
                     m_interval := usec_interval (md_replyTimeout pH),
                     m_timeToGo := vos_addTime now (usec_interval (md_replyTimeout pH))\<rparr>
              else
                let e = e\<lparr>stateEle := TRDP_ST_TX_REPLY_RECEIVED, numReplies := numReplies e + 1\<rparr>
                in if replies_complete e then e\<lparr>m_morituri := True\<rparr> else e)"

definition trdp_mdHandleConfirmReply :: "md_env \<Rightarrow> u8 list \<Rightarrow> MD_SESSION_T \<Rightarrow> (md_queue \<times> nat) option \<times> MD_SESSION_T" where
  "trdp_mdHandleConfirmReply w pH s =
     (case reply_queue (hdr_msgType pH) of
        None \<Rightarrow> (None, s)
      | Some q \<Rightarrow>
          (case match_session 0 pH (md_q q s) of
             Inl f \<Rightarrow> (None, md_fail f s)
           | Inr None \<Rightarrow> (None, s)
           | Inr (Some i) \<Rightarrow>
               let (now, s) = (if hdr_msgType pH = TRDP_MSG_MQ then md_getTime w s else (vos_clearTime, s));
                   r = rcv_ele s
               in (Some (q, i), upd_rcv (\<lambda>e. e\<lparr>pPacket := None\<rparr>) (upd_at q i (accept_reply now pH r) s))))"

section \<open>Receiving\<close>

text \<open>Get a receive buffer: the element, then a packet of minimal size.\<close>

definition get_buffer :: "md_env \<Rightarrow> nat \<Rightarrow> MD_SESSION_T \<Rightarrow> bool \<times> MD_SESSION_T" where
  "get_buffer w sockIndex s =
     (let (ok, s) = (if pMDRcvEle s = None then md_malloc w s else (True, s))
      in if \<not> ok then (False, s)
         else
           let e = (case pMDRcvEle s of Some e \<Rightarrow> e | None \<Rightarrow> zero_md_ele\<lparr>m_pktFlags := md_flags (mdDefault s)\<rparr>);
               tcp = (sock_type (iface (socks s) ! sockIndex) = TRDP_SOCK_MD_TCP);
               e = e\<lparr>m_pktFlags := (if tcp then m_pktFlags e OR push_bit TRDP_FLAGS_TCP 1
                                   else m_pktFlags e AND NOT (push_bit TRDP_FLAGS_TCP 1))\<rparr>;
               s = s\<lparr>pMDRcvEle := Some e\<rparr>
           in if pPacket e \<noteq> None then (True, s)
              else let (ok, s) = md_malloc w s
                   in if ok then (True, s\<lparr>pMDRcvEle := Some (e\<lparr>pPacket := Some (replicate (unat cMinimumMDSize) 0)\<rparr>)\<rparr>)
                      else (False, s\<lparr>pMDRcvEle := None\<rparr>))"

definition inform_user :: "u8 list \<Rightarrow> (md_queue \<times> nat) option \<Rightarrow> MD_SESSION_T \<Rightarrow> MD_SESSION_T" where
  "inform_user pH found s =
     (case found of
        None \<Rightarrow> s
      | Some (q, i) \<Rightarrow>
          let e = md_q q s ! i;
              s = (if m_pfCbFunction e
                   then trdp_mdInvokeCallback e (if hdr_msgType pH = TRDP_MSG_ME then TRDP_NOLIST_ERR else TRDP_NO_ERR) s
                   else s)
          in if stateEle e = TRDP_ST_RX_NOTIFY_RECEIVED then upd_at q i (\<lambda>e. e\<lparr>m_morituri := True\<rparr>) s else s)"

definition trdp_mdRecv :: "md_env \<Rightarrow> nat \<Rightarrow> MD_SESSION_T \<Rightarrow> TRDP_ERR_T \<times> MD_SESSION_T" where
  "trdp_mdRecv w sockIndex s =
     (let isTCP = (sock_type (iface (socks s) ! sockIndex) = TRDP_SOCK_MD_TCP);
          (ok, s) = get_buffer w sockIndex s
      in if \<not> ok then (TRDP_MEM_ERR, s)
         else
           let (result, s) = trdp_mdRecvPacket w (sock (iface (socks s) ! sockIndex)) s
           in if result \<noteq> TRDP_NO_ERR then (result, s)
              else
                let pH = rcv_buf s; type = hdr_msgType pH;
                    s = (if isTCP
                         then upd_rcv (\<lambda>e. e\<lparr>m_addr := (m_addr e)\<lparr>srcIpAddr := cornerIp (iface (socks s) ! sockIndex)\<rparr>\<rparr>) s
                         else s)
                in if type = TRDP_MSG_MN \<or> type = TRDP_MSG_MR
                   then let (result, new, s) = trdp_mdHandleRequest w isTCP sockIndex pH
                              (if type = TRDP_MSG_MN then TRDP_ST_RX_NOTIFY_RECEIVED else TRDP_ST_RX_REQ_W4AP_REPLY) s
                        in (result, if new then inform_user pH (Some (RcvQ, 0)) s else s)
                   else let (found, s) = trdp_mdHandleConfirmReply w pH s
                        in (TRDP_NO_ERR, inform_user pH found s))"

end
