(* ===== verification/Trdp_Md_Check.thy ===== *)
theory Trdp_Md_Check
  imports Trdp_Md_Proc
begin

text \<open>
  What drives the sessions of message data (\<^verbatim>\<open>app/trdp/tcnopen/trdp_mdcom.c\<close>): time-outs, connections, and sockets
  that are ready. A set of descriptors is the list of those in it.
\<close>

section \<open>Time-outs\<close>

text \<open>Whether the user is to be told, with which result, and what becomes of the element.\<close>

definition restart_request :: "u8 list \<Rightarrow> MD_ELE_T \<Rightarrow> MD_ELE_T" where
  "restart_request fr e =
     e\<lparr>stateEle := TRDP_ST_TX_REQUEST_ARM, numRetries := numRetries e + 1,
       m_timeToGo := vos_addTime (m_timeToGo e) (m_interval e),
       pPacket := Some (trdp_mdUpdatePacket (put32 0 (hdr_sequenceCounter fr + 1) fr))\<rparr>"

definition wait_reply_timeout :: "MD_ELE_T \<Rightarrow> bool \<times> TRDP_ERR_T \<times> MD_ELE_T" where
  "wait_reply_timeout e =
     (let (timedOut, code, e) =
        (if m_morituri e then (False, TRDP_UNKNOWN_ERR, e)
         else case pPacket e of
           Some fr \<Rightarrow>
             if numExpReplies e = 1 \<and> numRetries e < numRetriesMax e then (False, TRDP_UNKNOWN_ERR, restart_request fr e)
             else (True, TRDP_REPLYTO_ERR, e\<lparr>m_morituri := True\<rparr>)
         | None \<Rightarrow> (True, TRDP_REPLYTO_ERR, e\<lparr>m_morituri := True\<rparr>))
      in if stateEle e = TRDP_ST_TX_REQUEST_ARM then (timedOut, code, e)
         else if numRepliesQuery e = 0 \<or> numRepliesQuery e \<le> numConfirmSent e
         then (timedOut, code, e\<lparr>m_morituri := True\<rparr>)
         else if numRepliesQuery e \<le> numConfirmSent e + m_numConfirmTimeout e
         then (True, TRDP_REQCONFIRMTO_ERR, e\<lparr>m_morituri := True\<rparr>)
         else (timedOut, code, e))"

definition trdp_mdTimeOutStateHandler :: "MD_ELE_T \<Rightarrow> MD_SESSION_T \<Rightarrow> bool \<times> TRDP_ERR_T \<times> MD_ELE_T \<times> MD_SESSION_T" where
  "trdp_mdTimeOutStateHandler e s =
     (case stateEle e of
        TRDP_ST_RX_REQ_W4AP_REPLY \<Rightarrow> (True, TRDP_APP_REPLYTO_ERR, e\<lparr>m_morituri := True\<rparr>, s)
      | TRDP_ST_TX_REQ_W4AP_CONFIRM \<Rightarrow> (True, TRDP_APP_CONFIRMTO_ERR, e\<lparr>m_morituri := True\<rparr>, s)
      | TRDP_ST_TX_REQUEST_W4REPLY \<Rightarrow>
          if is_tcp e
          then (True, TRDP_REPLYTO_ERR, e\<lparr>m_morituri := True\<rparr>, upd_tcpMd (\<lambda>t. t\<lparr>numReplyTimeout := numReplyTimeout t + 1\<rparr>) s)
          else let (timedOut, code, e') = wait_reply_timeout e
               in (timedOut, code, e',
                   if m_morituri e then s else upd_udpMd (\<lambda>t. t\<lparr>numReplyTimeout := numReplyTimeout t + 1\<rparr>) s)
      | TRDP_ST_RX_REPLYQUERY_W4C \<Rightarrow>
          (True, TRDP_CONFIRMTO_ERR, e\<lparr>m_morituri := True\<rparr>,
           upd_md_stats (is_tcp e) (\<lambda>t. t\<lparr>numConfirmTimeout := numConfirmTimeout t + 1\<rparr>) s)
      | TRDP_ST_TX_REPLY_RECEIVED \<Rightarrow>
          if is_tcp e then (False, TRDP_UNKNOWN_ERR, e\<lparr>m_morituri := True\<rparr>, s)
          else if numExpReplies e = 0 \<or> numReplies e < numExpReplies e
          then (True, TRDP_REPLYTO_ERR, e\<lparr>m_morituri := True\<rparr>, s)
          else (False, TRDP_UNKNOWN_ERR, e\<lparr>m_morituri := True\<rparr>, s)
      | _ \<Rightarrow> (False, TRDP_UNKNOWN_ERR, e, s))"

text \<open>One turn of the loop; the flag keeps the value of the turn before when the element is not late.\<close>

definition md_check_one :: "md_env \<Rightarrow> md_queue \<Rightarrow> nat \<Rightarrow> bool \<Rightarrow> MD_SESSION_T \<Rightarrow> bool \<times> MD_SESSION_T" where
  "md_check_one w q i timeOut s =
     (let (now, s) = md_getTime w s;
          (timeOut, code, s) =
            (if vos_cmpTime (m_timeToGo (md_q q s ! i)) now < 0
             then let (timedOut, code, e, s) = trdp_mdTimeOutStateHandler (md_q q s ! i) s
                  in (timedOut, code, upd_at q i (\<lambda>_. e) s)
             else (timeOut, TRDP_UNKNOWN_ERR, s))
      in (timeOut,
          if timeOut \<and> m_pfCbFunction (md_q q s ! i) then trdp_mdInvokeCallback (md_q q s ! i) code s else s))"

text \<open>Connections nobody uses any more, and those on which sending takes too long.\<close>

definition connection_timeout :: "vos_timeval \<Rightarrow> MD_SESSION_T \<Rightarrow> nat \<Rightarrow> MD_SESSION_T" where
  "connection_timeout now s k =
     (let c = iface (socks s) ! k
      in if sock c \<noteq> VOS_INVALID_SOCKET \<and> sock_type c = TRDP_SOCK_MD_TCP \<and> usage c = 0 \<and> \<not> rcvMostly c \<and>
            (tv_sec (connectionTimeout c) > 0 \<or> tv_usec (connectionTimeout c) > 0) \<and>
            vos_cmpTime (connectionTimeout c) now < 0
         then upd_md_sock (int k) (\<lambda>c. c\<lparr>morituri := True\<rparr>) s else s)"

definition sending_timeout :: "vos_timeval \<Rightarrow> MD_SESSION_T \<Rightarrow> nat \<Rightarrow> MD_SESSION_T" where
  "sending_timeout now s k =
     (let c = iface (socks s) ! k
      in if sock c \<noteq> VOS_INVALID_SOCKET \<and> sock_type c = TRDP_SOCK_MD_TCP \<and> \<not> rcvMostly c \<and> sendNotOk c \<and>
            vos_cmpTime (sendingTimeout c) now < 0
         then close_callers (int k) s else s)"

definition trdp_mdCheckTimeouts :: "md_env \<Rightarrow> MD_SESSION_T \<Rightarrow> MD_SESSION_T" where
  "trdp_mdCheckTimeouts w s =
     (let (t, s) = foldl (\<lambda>(t, s) i. md_check_one w SndQ i t s) (False, s) [0..<length (pMDSndQueue s)];
          (t, s) = foldl (\<lambda>(t, s) i. md_check_one w RcvQ i t s) (t, s) [0..<length (pMDRcvQueue s)];
          (now, s) = md_getTime w s;
          s = foldl (connection_timeout now) s [0..<VOS_MAX_SOCKET_CNT];
          s = foldl (sending_timeout now) s [0..<VOS_MAX_SOCKET_CNT]
      in trdp_mdCloseSessions w TRDP_INVALID_SOCKET_INDEX VOS_INVALID_SOCKET True s)"

section \<open>Connections\<close>

definition trdp_mdGetTCPSocket :: "md_env \<Rightarrow> MD_SESSION_T \<Rightarrow> TRDP_ERR_T \<times> MD_SESSION_T" where
  "trdp_mdGetTCPSocket w s =
     (if listen_sd s \<noteq> VOS_INVALID_SOCKET then (TRDP_NO_ERR, s)
      else
        let c = mdDefault s;
            opts = \<lparr>opt_qos = sp_qos (md_sendParam c), opt_ttl = sp_ttl (md_sendParam c), reuseAddrPort = True,
                    nonBlocking = True, ttl_multicast = 0, no_mc_loop = False, no_udp_crc = False\<rparr>
        in case io_openTCP (env_io w) opts of
             (err, fd) \<Rightarrow>
               if err \<noteq> TRDP_NO_ERR then (err, s)
               else
                 let s = s\<lparr>listen_sd := fd\<rparr>; err = io_bind (env_io w) fd (realIP s) (tcpPort c)
                 in if err \<noteq> TRDP_NO_ERR then (err, s) else (env_listen w fd, s))"

text \<open>The place of a connection from the same device.\<close>

definition same_corner :: "u32 \<Rightarrow> MD_SESSION_T \<Rightarrow> nat option" where
  "same_corner ip s =
     List.find (\<lambda>k. let c = iface (socks s) ! k
                    in sock c \<noteq> VOS_INVALID_SOCKET \<and> sock_type c = TRDP_SOCK_MD_TCP \<and> cornerIp c = ip \<and> rcvMostly c)
       [0..<VOS_MAX_SOCKET_CNT]"

definition new_connection :: "md_env \<Rightarrow> int \<Rightarrow> u32 \<Rightarrow> int list \<Rightarrow> int \<Rightarrow> MD_SESSION_T \<Rightarrow> int list \<times> int \<times> MD_SESSION_T" where
  "new_connection w fd ip rfds count s =
     (if env_setOptions w fd \<noteq> TRDP_NO_ERR then (rfds, count, s)
      else case same_corner ip s of
        Some k \<Rightarrow>
          let c = iface (socks s) ! k
          in if sint (usage c) > 0 then (rfds, count, s)
             else
               let (rfds, count) = (if sock c \<in> set rfds then (removeAll (sock c) rfds, count - 1) else (rfds, count));
                   s = upd_md_sock (int k) (\<lambda>c. c\<lparr>morituri := True\<rparr>) s
               in (rfds, count, trdp_mdCloseSessions w (int k) fd True s)
      | None \<Rightarrow>
          let (err, i, s) = md_requestSocket w (md_request s (md_sendParam (mdDefault s)) (tcpPort (mdDefault s)) (realIP s) 0
                              TRDP_SOCK_MD_TCP 0 True fd ip) (int VOS_MAX_SOCKET_CNT) s
          in (rfds, count, s))"

definition zero_info :: TRDP_MD_INFO_T where
  "zero_info =
     \<lparr>i_srcIpAddr = 0, i_destIpAddr = 0, i_seqCount = 0, i_protVersion = 0, i_msgType = 0, i_comId = 0,
      i_etbTopoCnt = 0, i_opTrnTopoCnt = 0, i_aboutToDie = False, i_numRepliesQuery = 0, i_numConfirmSent = 0,
      i_numConfirmTimeout = 0, i_userStatus = 0, i_replyStatus = 0, i_sessionId = replicate 16 0, i_replyTimeout = 0,
      i_srcUserURI = replicate 33 0, i_destUserURI = replicate 33 0, i_numExpReplies = 0, i_numReplies = 0,
      i_pUserRef = 0, i_resultCode = TRDP_NO_ERR\<rparr>"

definition accept_failed :: "MD_SESSION_T \<Rightarrow> MD_SESSION_T" where
  "accept_failed s =
     (if md_pfCbFunction (mdDefault s)
      then s\<lparr>md_calls := md_calls s @ [(zero_info\<lparr>i_etbTopoCnt := sess_etbTopoCnt s, i_opTrnTopoCnt := sess_opTrnTopoCnt s,
             i_resultCode := TRDP_SOCK_ERR, i_srcIpAddr := realIP s\<rparr>, None, 0)]\<rparr>
      else s)"

text \<open>
  Accepting connections: \<open>vos_sockAccept\<close> skips what was interrupted or aborted, and an error leaves
  the descriptor at the value of the connection before.
\<close>

fun accept_loop ::
  "md_env \<Rightarrow> int \<Rightarrow> (errno + int \<times> u32 \<times> u16) list \<Rightarrow> int list \<Rightarrow> int \<Rightarrow> MD_SESSION_T \<Rightarrow>
   (errno + int \<times> u32 \<times> u16) list \<times> int list \<times> int \<times> MD_SESSION_T"
where
  "accept_loop w new_sd [] rfds count s = ([], rfds, count, s)"
| "accept_loop w new_sd (Inl e # as) rfds count s =
     (if e = E_WOULDBLOCK then (as, rfds, count, s)
      else if e = E_INTR \<or> e = E_CONNABORTED \<or> e = E_PROTO then accept_loop w new_sd as rfds count s
      else if new_sd < 0 then (as, rfds, count, accept_failed s)
      else let (rfds, count, s) = new_connection w new_sd (realIP s) rfds count s in accept_loop w new_sd as rfds count s)"
| "accept_loop w new_sd (Inr (fd, ip, port) # as) rfds count s =
     (let (rfds, count, s) = new_connection w fd ip rfds count s in accept_loop w fd as rfds count s)"

definition md_accept :: "md_env \<Rightarrow> int list \<Rightarrow> int \<Rightarrow> MD_SESSION_T \<Rightarrow> int list \<times> int \<times> MD_SESSION_T" where
  "md_accept w rfds count s =
     (if count > 0 \<and> listen_sd s \<noteq> VOS_INVALID_SOCKET \<and> listen_sd s \<in> set rfds
      then let (as, rfds, count, s) = accept_loop w VOS_INVALID_SOCKET (net_accept s) rfds (count - 1) s
           in (rfds, count, s\<lparr>net_accept := as\<rparr>)
      else (rfds, count, s))"

section \<open>Ready sockets\<close>

text \<open>Each ready socket is read once. A connection that is over or out of step is closed.\<close>

definition md_receive_one :: "md_env \<Rightarrow> nat \<Rightarrow> MD_SESSION_T \<Rightarrow> MD_SESSION_T" where
  "md_receive_one w k s =
     (let (err, s) = trdp_mdRecv w k s
      in if sock_type (iface (socks s) ! k) = TRDP_SOCK_MD_TCP \<and>
            (err = TRDP_NODATA_ERR \<or> err = TRDP_CRC_ERR \<or> err = TRDP_WIRE_ERR \<or> err = TRDP_TOPO_ERR)
         then trdp_mdCloseSessions w TRDP_INVALID_SOCKET_INDEX VOS_INVALID_SOCKET True
                (upd_md_sock (int k) (\<lambda>c. c\<lparr>morituri := True\<rparr>) s)
         else s)"

fun receive_loop :: "md_env \<Rightarrow> nat list \<Rightarrow> int list \<Rightarrow> int option \<Rightarrow> MD_SESSION_T \<Rightarrow> int list \<times> int option \<times> MD_SESSION_T" where
  "receive_loop w [] rfds count s = (rfds, count, s)"
| "receive_loop w (k # ks) rfds count s =
     (let c = iface (socks s) ! k
      in if sock c \<noteq> VOS_INVALID_SOCKET \<and> sock_type c \<noteq> TRDP_SOCK_PD \<and> sock c \<in> set rfds
         then let count = map_option (\<lambda>n. n - 1) count
              in if (case count of Some n \<Rightarrow> n < 0 | None \<Rightarrow> False) then (rfds, count, s)
                 else receive_loop w ks (removeAll (sock c) rfds) count (md_receive_one w k s)
         else receive_loop w ks rfds count s)"

text \<open>Without a set of descriptors the stack polls those that are its own.\<close>

definition own_descriptors :: "MD_SESSION_T \<Rightarrow> int list" where
  "own_descriptors s =
     (if listen_sd s \<noteq> VOS_INVALID_SOCKET then [listen_sd s] else []) @
     map sock (filter (\<lambda>c. sock c \<noteq> VOS_INVALID_SOCKET \<and> sock_type c \<noteq> TRDP_SOCK_PD \<and>
       (sock_type c = TRDP_SOCK_MD_TCP \<longrightarrow> addFileDesc c)) (take VOS_MAX_SOCKET_CNT (iface (socks s))))"

definition trdp_mdCheckListenSocks ::
  "md_env \<Rightarrow> (int list \<times> int option) option \<Rightarrow> MD_SESSION_T \<Rightarrow> int list \<times> int option \<times> MD_SESSION_T" where
  "trdp_mdCheckListenSocks w ready s =
     (let go = (\<lambda>rfds count s.
            case count of
              Some n \<Rightarrow> let (rfds, n, s) = md_accept w rfds n s in receive_loop w [0..<VOS_MAX_SOCKET_CNT] rfds (Some n) s
            | None \<Rightarrow> receive_loop w [0..<VOS_MAX_SOCKET_CNT] rfds None s)
      in case ready of
           Some (rfds, count) \<Rightarrow> go rfds count s
         | None \<Rightarrow>
             if own_descriptors s = [] then ([], None, s)
             else (case net_select s of
                [] \<Rightarrow> go [] (Some 0) s
              | (n, fds) # as \<Rightarrow>
                  let s = s\<lparr>net_select := as\<rparr>
                  in if n = - 1 then ([], None, s)
                     else go (filter (\<lambda>fd. fd \<in> set (own_descriptors s)) fds) (Some n) s))"

section \<open>Descriptors to wait for\<close>

definition add_fd :: "int \<Rightarrow> int list \<times> int \<Rightarrow> int list \<times> int" where
  "add_fd fd p = (if fd \<in> set (fst p) then fst p else fst p @ [fd], max (snd p) fd)"

definition waits_on :: "MD_SESSION_T \<Rightarrow> int \<Rightarrow> bool" where
  "waits_on s i \<longleftrightarrow> i \<noteq> TRDP_INVALID_SOCKET_INDEX \<and> sock (md_sock s i) \<noteq> VOS_INVALID_SOCKET \<and>
     (sock_type (md_sock s i) \<noteq> TRDP_SOCK_MD_TCP \<or> addFileDesc (md_sock s i))"

text \<open>A descriptor that is already in the set does not raise the highest one.\<close>

definition add_new_fd :: "int \<Rightarrow> int list \<times> int \<Rightarrow> int list \<times> int" where
  "add_new_fd fd p = (if fd \<in> set (fst p) then p else add_fd fd p)"

definition trdp_mdCheckPending :: "MD_SESSION_T \<Rightarrow> int list \<times> int \<Rightarrow> int list \<times> int" where
  "trdp_mdCheckPending s p =
     (let p = (if listen_sd s \<noteq> VOS_INVALID_SOCKET then add_fd (listen_sd s) p else p);
          p = foldl (\<lambda>p c. if sock c \<noteq> VOS_INVALID_SOCKET \<and> sock_type c = TRDP_SOCK_MD_TCP \<and> addFileDesc c
                           then add_fd (sock c) p else p) p (take VOS_MAX_SOCKET_CNT (iface (socks s)));
          idxs = map l_socketIdx (pMDListenQueue s) @ map m_socketIdx (pMDRcvQueue s) @ map m_socketIdx (pMDSndQueue s)
      in foldl (\<lambda>p i. if waits_on s i then add_new_fd (sock (md_sock s i)) p else p) p idxs)"

end
