(* ===== verification/Trdp_Md_If.thy ===== *)
theory Trdp_Md_If
  imports Trdp_Md_Check
begin

text \<open>
  The interface of message data, the \<open>tlm_\<close> functions of \<^verbatim>\<open>app/trdp/tcnopen/trdp_if.c\<close>, and the parts of the session
  calls there that message data adds. A handle of a session that is not valid is \<open>None\<close>.
\<close>

section \<open>Sessions\<close>

definition md_defaults :: TRDP_MD_CONFIG_T where
  "md_defaults =
     \<lparr>md_pfCbFunction = False, md_sendParam = \<lparr>sp_qos = 3, sp_ttl = 64, retries = 2\<rparr>, md_flags = 1,
      replyTimeout = 5000000, confirmTimeout = 1000000, connectTimeout = 60000000, md_sendingTimeout = 0,
      udpPort = 17225, tcpPort = 17225, maxNumSessions = 1000\<rparr>"

text \<open>The part of \<open>tlc_configSession\<close> for message data.\<close>

definition config_md :: "TRDP_MD_CONFIG_T \<Rightarrow> TRDP_MD_CONFIG_T \<Rightarrow> TRDP_MD_CONFIG_T" where
  "config_md c d =
     (let d = (if \<not> md_pfCbFunction d \<and> md_pfCbFunction c then d\<lparr>md_pfCbFunction := True\<rparr> else d);
          p = md_sendParam d; q = md_sendParam c;
          p = (if sp_qos p = 3 \<and> sp_qos q \<noteq> 3 \<and> sp_qos q \<noteq> 0 then p\<lparr>sp_qos := sp_qos q\<rparr> else p);
          p = (if sp_ttl p = 64 \<and> sp_ttl q \<noteq> 64 \<and> sp_ttl q \<noteq> 0 then p\<lparr>sp_ttl := sp_ttl q\<rparr> else p);
          p = (if retries p = 2 \<and> retries q \<noteq> 2 \<and> retries q \<le> TRDP_MAX_MD_RETRIES then p\<lparr>retries := retries q\<rparr> else p);
          d = d\<lparr>md_sendParam := p\<rparr>;
          d = (if md_flags c \<noteq> TRDP_FLAGS_DEFAULT \<and> \<not> bit (md_flags c) TRDP_FLAGS_NONE
               then d\<lparr>md_flags := md_flags d OR md_flags c\<rparr> else d);
          d = (if tcpPort d = 17225 \<and> tcpPort c \<noteq> 0 then d\<lparr>tcpPort := tcpPort c\<rparr> else d);
          d = (if udpPort d = 17225 \<and> udpPort c \<noteq> 0 then d\<lparr>udpPort := udpPort c\<rparr> else d);
          d = (if confirmTimeout d = 1000000 \<and> confirmTimeout c \<noteq> 0 then d\<lparr>confirmTimeout := confirmTimeout c\<rparr> else d);
          d = (if connectTimeout d = 60000000 \<and> connectTimeout c \<noteq> 0 then d\<lparr>connectTimeout := connectTimeout c\<rparr> else d);
          d = (if md_sendingTimeout d = 5000000 \<and> md_sendingTimeout c \<noteq> 0
               then d\<lparr>md_sendingTimeout := md_sendingTimeout c\<rparr> else d);
          d = (if replyTimeout d = 5000000 \<and> replyTimeout c \<noteq> 0 then d\<lparr>replyTimeout := replyTimeout c\<rparr> else d)
      in if maxNumSessions d = 1000 \<and> maxNumSessions c \<noteq> 0 then d\<lparr>maxNumSessions := maxNumSessions c\<rparr> else d)"

text \<open>A session as \<open>tlc_openSession\<close> leaves it, over one of process data.\<close>

definition trdp_initUncompletedTCP :: "MD_SESSION_T \<Rightarrow> MD_SESSION_T" where
  "trdp_initUncompletedTCP s = s\<lparr>uncompletedTCP := replicate VOS_MAX_SOCKET_CNT None\<rparr>"

definition md_openSession :: "TRDP_MD_CONFIG_T option \<Rightarrow> MD_SESSION_T \<Rightarrow> MD_SESSION_T" where
  "md_openSession pMdDefault s =
     trdp_initUncompletedTCP (s\<lparr>listen_sd := VOS_INVALID_SOCKET,
       mdDefault := (case pMdDefault of None \<Rightarrow> md_defaults | Some c \<Rightarrow> config_md c md_defaults),
       pMDListenQueue := [], pMDSndQueue := [], pMDRcvQueue := [], pMDRcvEle := None\<rparr>)"

fun release_all :: "md_env \<Rightarrow> int list \<Rightarrow> MD_SESSION_T \<Rightarrow> MD_SESSION_T" where
  "release_all w [] s = s"
| "release_all w (i # is) s = release_all w is (md_release w i (connectTimeout (mdDefault s)) s)"

definition md_closeSession :: "md_env \<Rightarrow> MD_SESSION_T \<Rightarrow> MD_SESSION_T" where
  "md_closeSession w s =
     (let s = s\<lparr>pMDRcvEle := None\<rparr>;
          s = release_all w (map m_socketIdx (pMDSndQueue s)) s;
          s = release_all w (map m_socketIdx (pMDRcvQueue s)) s;
          s = release_all w (filter (\<lambda>i. i \<noteq> - 1) (map l_socketIdx (pMDListenQueue s))) s;
          s = s\<lparr>pMDSndQueue := [], pMDRcvQueue := [], pMDListenQueue := []\<rparr>
      in if listen_sd s \<noteq> VOS_INVALID_SOCKET
         then s\<lparr>socks := (socks s)\<lparr>closed_fds := closed_fds (socks s) @ [listen_sd s]\<rparr>, listen_sd := VOS_INVALID_SOCKET\<rparr>
         else s)"

text \<open>The steps of \<open>tlc_process\<close> for message data.\<close>

definition md_process ::
  "md_env \<Rightarrow> (int list \<times> int option) option \<Rightarrow> MD_SESSION_T \<Rightarrow> TRDP_ERR_T \<times> int list \<times> int option \<times> MD_SESSION_T" where
  "md_process w ready s =
     (let (err, s) = trdp_mdSend w s;
          (rfds, count, s) = trdp_mdCheckListenSocks w ready s
      in (if err = TRDP_IO_ERR then TRDP_NO_ERR else err, rfds, count, trdp_mdCheckTimeouts w s))"

section \<open>Calls\<close>

definition data_refused :: "u8 list option \<Rightarrow> u32 \<Rightarrow> bool" where
  "data_refused d n \<longleftrightarrow> d = None \<and> n \<noteq> 0 \<or> n > TRDP_MAX_MD_DATA_SIZE"

definition tlm_notify :: "md_env \<Rightarrow> md_call_args \<Rightarrow> MD_SESSION_T option \<Rightarrow> TRDP_ERR_T \<times> MD_SESSION_T option" where
  "tlm_notify w a s =
     (case s of
        None \<Rightarrow> (TRDP_NOINIT_ERR, None)
      | Some s \<Rightarrow>
          if data_refused (a_data a) (a_dataSize a) then (TRDP_PARAM_ERR, Some s)
          else let (err, _, s) = trdp_mdCall w TRDP_MSG_MN TRDP_REPLY_OK
                     (a\<lparr>a_callback := False, a_numExpReplies := 0, a_replyTimeout := 0\<rparr>) s
               in (err, Some s))"

definition tlm_request ::
  "md_env \<Rightarrow> md_call_args \<Rightarrow> MD_SESSION_T option \<Rightarrow> TRDP_ERR_T \<times> u8 list option \<times> MD_SESSION_T option" where
  "tlm_request w a s =
     (case s of
        None \<Rightarrow> (TRDP_NOINIT_ERR, None, None)
      | Some s \<Rightarrow>
          if data_refused (a_data a) (a_dataSize a) then (TRDP_PARAM_ERR, None, Some s)
          else if \<not> trdp_validTopoCounters (sess_etbTopoCnt s) (sess_opTrnTopoCnt s) (a_etbTopoCnt a) (a_opTrnTopoCnt a)
          then (TRDP_TOPO_ERR, None, Some s)
          else let mdTimeOut = (if a_replyTimeout a = 0 then confirmTimeout (mdDefault s)
                                else if a_replyTimeout a = 0xffffffff then 0 else a_replyTimeout a);
                   (err, sid, s) = trdp_mdCall w TRDP_MSG_MR TRDP_REPLY_OK (a\<lparr>a_replyTimeout := mdTimeOut\<rparr>) s
               in (err, sid, Some s))"

definition tlm_reply ::
  "md_env \<Rightarrow> u8 list option \<Rightarrow> md_reply_args \<Rightarrow> MD_SESSION_T option \<Rightarrow> TRDP_ERR_T \<times> MD_SESSION_T option" where
  "tlm_reply w sid a s =
     (case s of
        None \<Rightarrow> (TRDP_NOINIT_ERR, None)
      | Some s \<Rightarrow>
          if data_refused (r_data a) (r_dataSize a) then (TRDP_PARAM_ERR, Some s)
          else let (err, s) = trdp_mdReply w TRDP_MSG_MP sid (a\<lparr>r_timeout := 0\<rparr>) s in (err, Some s))"

definition tlm_replyQuery ::
  "md_env \<Rightarrow> u8 list option \<Rightarrow> md_reply_args \<Rightarrow> MD_SESSION_T option \<Rightarrow> TRDP_ERR_T \<times> MD_SESSION_T option" where
  "tlm_replyQuery w sid a s =
     (case s of
        None \<Rightarrow> (TRDP_NOINIT_ERR, None)
      | Some s \<Rightarrow>
          if data_refused (r_data a) (r_dataSize a) then (TRDP_PARAM_ERR, Some s)
          else let tmo = (if r_timeout a \<noteq> 0 then r_timeout a else confirmTimeout (mdDefault s));
                   (err, s) = trdp_mdReply w TRDP_MSG_MQ sid (a\<lparr>r_timeout := tmo\<rparr>) s
               in (err, Some s))"

definition tlm_confirm ::
  "md_env \<Rightarrow> u8 list option \<Rightarrow> u16 \<Rightarrow> TRDP_SEND_PARAM_T option \<Rightarrow> MD_SESSION_T option \<Rightarrow> TRDP_ERR_T \<times> MD_SESSION_T option" where
  "tlm_confirm w sid userStatus sp s =
     (case s of
        None \<Rightarrow> (TRDP_NOINIT_ERR, None)
      | Some s \<Rightarrow> let (err, s) = trdp_mdConfirm w sid userStatus sp s in (err, Some s))"

text \<open>The loop ends with the send queue when that has an element, before it looks at the receive queue.\<close>

definition abort_in :: "u8 list \<Rightarrow> MD_ELE_T list \<Rightarrow> MD_ELE_T list" where
  "abort_in sid es = map (\<lambda>e. if sessionID e = sid then e\<lparr>m_morituri := True\<rparr> else e) es"

definition tlm_abortSession :: "u8 list option \<Rightarrow> MD_SESSION_T option \<Rightarrow> TRDP_ERR_T \<times> MD_SESSION_T option" where
  "tlm_abortSession pSessionId s =
     (case s of
        None \<Rightarrow> (TRDP_NOINIT_ERR, None)
      | Some s \<Rightarrow>
          (case pSessionId of
             None \<Rightarrow> (TRDP_PARAM_ERR, Some s)
           | Some sid \<Rightarrow>
               let q = (if pMDSndQueue s = [] then RcvQ else SndQ)
               in (if \<exists>e\<in>set (md_q q s). sessionID e = sid then TRDP_NO_ERR else TRDP_NOSESSION_ERR,
                   Some (upd_q q (abort_in sid) s))))"

section \<open>Listeners\<close>

record md_listen_args =
  la_pUserRef :: u64
  la_callback :: bool
  la_comId :: u32
  la_etbTopoCnt :: u32
  la_opTrnTopoCnt :: u32
  la_mcDestIpAddr :: u32
  la_pktFlags :: u8
  la_destURI :: "u8 list option"

definition new_listener :: "u64 \<Rightarrow> md_listen_args \<Rightarrow> MD_SESSION_T \<Rightarrow> MD_LIS_ELE_T" where
  "new_listener adr a s =
     \<lparr>l_id = adr, l_addr = zero_addr\<lparr>comId := la_comId a, etbTopoCnt := la_etbTopoCnt a, opTrnTopoCnt := la_opTrnTopoCnt a,
        mcGroup := md_mcGroup (la_mcDestIpAddr a)\<rparr>,
      l_privFlags = (if vos_isMulticast (la_mcDestIpAddr a) then 1 else 0), l_pktFlags = la_pktFlags a,
      l_pUserRef = la_pUserRef a,
      l_destURI = (case la_destURI a of None \<Rightarrow> replicate 33 0
                   | Some u \<Rightarrow> vos_strncpy (replicate 33 0) u TRDP_MAX_URI_USER_LEN),
      l_socketIdx = 0, l_pfCbFunction = (if la_callback a then True else md_pfCbFunction (mdDefault s)), numSessions = 0\<rparr>"

definition listen_socket :: "md_env \<Rightarrow> u32 \<Rightarrow> int \<Rightarrow> MD_SESSION_T \<Rightarrow> TRDP_ERR_T \<times> int \<times> MD_SESSION_T" where
  "listen_socket w mc idx s =
     md_requestSocket w (md_request s (md_sendParam (mdDefault s)) (udpPort (mdDefault s)) (realIP s) mc TRDP_SOCK_MD_UDP
       (sess_option s) True VOS_INVALID_SOCKET 0) idx s"

text \<open>\<open>adr\<close> is the address the allocation gives. The handle is the address, or none.\<close>

definition tlm_addListener ::
  "md_env \<Rightarrow> u64 \<Rightarrow> md_listen_args \<Rightarrow> MD_SESSION_T option \<Rightarrow> TRDP_ERR_T \<times> u64 option \<times> MD_SESSION_T option" where
  "tlm_addListener w adr a s =
     (case s of
        None \<Rightarrow> (TRDP_NOINIT_ERR, None, None)
      | Some s \<Rightarrow>
          let tcp = bit (la_pktFlags a) TRDP_FLAGS_TCP;
              (err, s) = (if tcp then trdp_mdGetTCPSocket w s else (TRDP_NO_ERR, s))
          in if err \<noteq> TRDP_NO_ERR then (err, None, Some s)
             else
               let (ok, s) = md_malloc w s
               in if \<not> ok then (TRDP_MEM_ERR, None, Some s)
                  else
                    let l = new_listener adr a s;
                        (err, i, s) = (if tcp then (TRDP_NO_ERR, - 1, s) else listen_socket w (mcGroup (l_addr l)) 0 s)
                    in if err \<noteq> TRDP_NO_ERR then (err, None, Some s)
                       else (TRDP_NO_ERR, Some adr,
                             Some (upd_md_stats tcp (\<lambda>t. t\<lparr>numList := numList t + 1\<rparr>)
                               (s\<lparr>pMDListenQueue := l\<lparr>l_socketIdx := i\<rparr> # pMDListenQueue s\<rparr>))))"

text \<open>A listener is looked for by its address; the statistics count down by the flags of the session.\<close>

definition remove_listener :: "md_env \<Rightarrow> u64 \<Rightarrow> MD_SESSION_T \<Rightarrow> MD_SESSION_T" where
  "remove_listener w h s =
     (case List.find (\<lambda>l. l_id l = h) (pMDListenQueue s) of
        None \<Rightarrow> s
      | Some l \<Rightarrow>
          let s = s\<lparr>pMDListenQueue := filter (\<lambda>l. l_id l \<noteq> h) (pMDListenQueue s)\<rparr>
          in if l_socketIdx l \<noteq> - 1 then md_release w (l_socketIdx l) (connectTimeout (mdDefault s)) s else s)"

definition tlm_delListener :: "md_env \<Rightarrow> u64 option \<Rightarrow> MD_SESSION_T option \<Rightarrow> TRDP_ERR_T \<times> MD_SESSION_T option" where
  "tlm_delListener w h s =
     (case s of
        None \<Rightarrow> (TRDP_NOINIT_ERR, None)
      | Some s \<Rightarrow>
          let s = (case h of None \<Rightarrow> s | Some h \<Rightarrow> remove_listener w h s)
          in (TRDP_NO_ERR, Some (upd_md_stats (bit (md_flags (mdDefault s)) TRDP_FLAGS_TCP) (\<lambda>t. t\<lparr>numList := numList t - 1\<rparr>) s)))"

definition upd_listener :: "u64 \<Rightarrow> (MD_LIS_ELE_T \<Rightarrow> MD_LIS_ELE_T) \<Rightarrow> MD_SESSION_T \<Rightarrow> MD_SESSION_T" where
  "upd_listener h f s = s\<lparr>pMDListenQueue := map (\<lambda>l. if l_id l = h then f l else l) (pMDListenQueue s)\<rparr>"

text \<open>A handle that is in no queue is one of freed memory.\<close>

definition tlm_readdListener ::
  "md_env \<Rightarrow> u64 option \<Rightarrow> u32 \<Rightarrow> u32 \<Rightarrow> u32 \<Rightarrow> MD_SESSION_T option \<Rightarrow> TRDP_ERR_T \<times> MD_SESSION_T option" where
  "tlm_readdListener w listenHandle etb opTrn mcDest s =
     (case s of
        None \<Rightarrow> (TRDP_NOINIT_ERR, None)
      | Some s \<Rightarrow>
          (case listenHandle of
             None \<Rightarrow> (TRDP_PARAM_ERR, Some s)
           | Some h \<Rightarrow>
               (case List.find (\<lambda>l. l_id l = h) (pMDListenQueue s) of
                  None \<Rightarrow> (TRDP_NO_ERR, Some (md_fail DanglingPointer s))
                | Some l \<Rightarrow>
                    let move = (\<not> bit (l_pktFlags l) TRDP_FLAGS_TCP \<and> vos_isMulticast mcDest \<and> mcGroup (l_addr l) \<noteq> mcDest);
                        (ret, i, s) = (if move then listen_socket w mcDest (l_socketIdx l) (md_release w (l_socketIdx l) 0 s)
                                       else (TRDP_NO_ERR, l_socketIdx l, s));
                        s = upd_listener h (\<lambda>l. l\<lparr>l_socketIdx := i\<rparr>) s
                    in if ret \<noteq> TRDP_NO_ERR then (ret, snd (tlm_delListener w (Some h) (Some s)))
                       else (TRDP_NO_ERR,
                             Some (upd_listener h (\<lambda>l. l\<lparr>l_addr := (l_addr l)\<lparr>etbTopoCnt := etb, opTrnTopoCnt := opTrn,
                               mcGroup := mcDest\<rparr>\<rparr>) s)))))"

end
