(* ===== verification/Trdp_Md_Frames.thy ===== *)
theory Trdp_Md_Frames
  imports Trdp_Md Trdp_Delivery Trdp_Pool
begin

text \<open>
  Facts about the messages of \<^verbatim>\<open>app/trdp/tcnopen/trdp_mdcom.c\<close>: their sizes, the fields the functions that build
  one leave in it, and when a receiver accepts it; and sessions the examples start from.
\<close>

section \<open>Sizes\<close>

lemma unat_packetSizeMD:
  assumes "n \<le> 65388"
  shows "unat (trdp_packetSizeMD n) = 116 + (unat n + 3) div 4 * 4"
  using assms by (simp add: trdp_packetSizeMD_def unat_padded_size word_le_nat_alt)

lemma packetSizeMD_room:
  assumes "n \<le> 65388"
  shows "116 + unat n \<le> unat (trdp_packetSizeMD n)" "unat (trdp_packetSizeMD n) \<le> 65504"
proof -
  have "unat n \<le> 65388" using assms by (simp add: word_le_nat_alt)
  then show "116 + unat n \<le> unat (trdp_packetSizeMD n)" "unat (trdp_packetSizeMD n) \<le> 65504"
    unfolding unat_packetSizeMD [OF assms] by presburger+
qed

lemma packetSizeMD_0: "trdp_packetSizeMD 0 = 116"
  by (simp add: trdp_packetSizeMD_def padded_size_def)

section \<open>Fields\<close>

lemma get_overwrite_other:
  "off + length bs \<le> length fr \<Longrightarrow> off' + 4 \<le> off \<or> off + length bs \<le> off' \<Longrightarrow> get32 off' (overwrite off bs fr) = get32 off' fr"
  "off + length bs \<le> length fr \<Longrightarrow> off' + 2 \<le> off \<or> off + length bs \<le> off' \<Longrightarrow> get16 off' (overwrite off bs fr) = get16 off' fr"
  by (simp_all add: get32_def get16_def slice_overwrite_other)

lemma slice_put_other:
  "off + 4 \<le> length fr \<Longrightarrow> off' + n \<le> off \<or> off + 4 \<le> off' \<Longrightarrow> slice off' n (put32 off v fr) = slice off' n fr"
  "off + 2 \<le> length fr \<Longrightarrow> off' + n \<le> off \<or> off + 2 \<le> off' \<Longrightarrow> slice off' n (put16 off u fr) = slice off' n fr"
  by (simp_all add: put32_def put16_def slice_overwrite_other)

lemma drop_put_other:
  "off + 4 \<le> length fr \<Longrightarrow> off + 4 \<le> m \<Longrightarrow> drop m (put32 off v fr) = drop m fr"
  "off + 2 \<le> length fr \<Longrightarrow> off + 2 \<le> m \<Longrightarrow> drop m (put16 off u fr) = drop m fr"
  by (simp_all add: put32_def put16_def drop_overwrite)

lemma md_get_take [simp]:
  "off + 4 \<le> n \<Longrightarrow> get32 off (take n fr) = get32 off fr" "off + 2 \<le> n \<Longrightarrow> get16 off (take n fr) = get16 off fr"
  by (simp_all add: get32_def get16_def slice_take)

lemma slice_cong: "take m b = take m fr \<Longrightarrow> off + n \<le> m \<Longrightarrow> slice off n b = slice off n fr"
  by (metis slice_take)

lemma get32_cong: "take m b = take m fr \<Longrightarrow> off + 4 \<le> m \<Longrightarrow> get32 off b = get32 off fr"
  by (metis md_get_take(1))

lemma get16_cong: "take m b = take m fr \<Longrightarrow> off + 2 \<le> m \<Longrightarrow> get16 off b = get16 off fr"
  by (metis md_get_take(2))

lemma length_slice [simp]: "n + m \<le> length fr \<Longrightarrow> length (slice n m fr) = m"
  by (simp add: slice_def)

text \<open>The update of the check sum changes nothing else.\<close>

lemma mdUpdate_frame:
  assumes "116 \<le> length fr"
  shows "length (trdp_mdUpdatePacket fr) = length fr" "take 112 (trdp_mdUpdatePacket fr) = take 112 fr"
    "md_data (trdp_mdUpdatePacket fr) = md_data fr"
    "md_frameCheckSum (trdp_mdUpdatePacket fr) = le_bytes32 (vos_crc32 INITFCS (take 112 (trdp_mdUpdatePacket fr)))"
    "off + 4 \<le> 112 \<Longrightarrow> get32 off (trdp_mdUpdatePacket fr) = get32 off fr"
    "off + 2 \<le> 112 \<Longrightarrow> get16 off (trdp_mdUpdatePacket fr) = get16 off fr"
    "off + n \<le> 112 \<Longrightarrow> slice off n (trdp_mdUpdatePacket fr) = slice off n fr"
  using assms
  by (simp_all add: trdp_mdUpdatePacket_def take_overwrite drop_overwrite slice_overwrite_same slice_overwrite_other get_overwrite_other)

text \<open>A header is well formed: version, type and length are what a receiver accepts.\<close>

definition md_header_ok :: "u8 list \<Rightarrow> bool" where
  "md_header_ok fr \<longleftrightarrow> 116 \<le> length fr \<and> hdr_protocolVersion fr AND 0xFF00 = 0x0100 \<and>
     hdr_datasetLength fr \<le> TRDP_MAX_MD_DATA_SIZE \<and>
     hdr_msgType fr \<in> {TRDP_MSG_MN, TRDP_MSG_MR, TRDP_MSG_MP, TRDP_MSG_MQ, TRDP_MSG_MC, TRDP_MSG_ME}"

lemma mdCheck_header:
  assumes "take 116 b = take 116 fr"
  shows "trdp_mdCheck s b n h = trdp_mdCheck s fr n h"
proof -
  have g: "off + 4 \<le> 116 \<Longrightarrow> get32 off b = get32 off fr" "off' + 2 \<le> 116 \<Longrightarrow> get16 off' b = get16 off' fr"
    "off + 4 \<le> 116 \<Longrightarrow> slice off 4 b = slice off 4 fr" for off off'
    using get32_cong [OF assms] get16_cong [OF assms] slice_cong [OF assms] by blast+
  have "take 112 b = take 112 fr" using arg_cong [OF assms, of "take 112"] by simp
  then show ?thesis unfolding trdp_mdCheck_def Let_def by (simp add: g)
qed

lemma updated_header_accepted:
  assumes "md_header_ok fr" and "116 \<le> n" and "n \<le> 65504" and "h \<or> 116 + hdr_datasetLength fr \<le> n"
  shows "trdp_mdCheck s (trdp_mdUpdatePacket fr) n h = TRDP_NO_ERR"
proof -
  have l: "116 \<le> length fr" using assms(1) by (simp add: md_header_ok_def)
  have len: "hdr_datasetLength fr \<le> 65388" using assms(1) by (simp add: md_header_ok_def)
  then have "hdr_datasetLength fr \<le> 65504" by (rule order_trans) simp
  then have c1: "\<not> (n < 116 \<or> n > 65504 \<or> hdr_datasetLength fr > 65504)" using assms(2,3) by (simp add: not_less)
  have c2: "hdr_protocolVersion fr AND 0xFF00 = 0x0100"
    "hdr_msgType fr \<in> {TRDP_MSG_MN, TRDP_MSG_MR, TRDP_MSG_MP, TRDP_MSG_MQ, TRDP_MSG_MC, TRDP_MSG_ME}"
    using assms(1) by (simp_all add: md_header_ok_def)
  have c3: "\<not> (\<not> h \<and> n < (if hdr_datasetLength fr > 0 then 116 + hdr_datasetLength fr else 116))"
    using assms(2,4) by (simp add: not_less)
  have u: "get32 20 (trdp_mdUpdatePacket fr) = get32 20 fr" "get16 6 (trdp_mdUpdatePacket fr) = get16 6 fr"
    "get16 4 (trdp_mdUpdatePacket fr) = get16 4 fr"
    using mdUpdate_frame(5,6) [OF l] by simp_all
  show ?thesis
    unfolding trdp_mdCheck_def Let_def u if_not_P [OF c1] if_not_P [OF c3] mdUpdate_frame(4) [OF l]
    using c2 by (auto simp: trdp_validTopoCounters_def)
qed

section \<open>Examples\<close>

definition md_sock_of :: "int \<Rightarrow> TRDP_SOCK_TYPE_T \<Rightarrow> 16 word \<Rightarrow> TRDP_SOCKETS_T" where
  "md_sock_of fd type n = (demo_place fd n)\<lparr>sock_type := type\<rparr>"

text \<open>A session with one socket, of the given kind, and nothing else.\<close>

definition md_demo :: "TRDP_SOCK_TYPE_T \<Rightarrow> MD_SESSION_T" where
  "md_demo type = TRDP_SESSION_T.extend
     ((demo_session [] [])\<lparr>socks := \<lparr>iface = md_sock_of 7 type 1 # replicate 79 (demo_place (- 1) 0), sCurrentMaxSocketCnt = 1,
        closed_fds = []\<rparr>\<rparr>)
     (MD_SESSION_T.fields (- 1)
        \<lparr>md_pfCbFunction = False, md_sendParam = \<lparr>sp_qos = 5, sp_ttl = 64, retries = 2\<rparr>, md_flags = 1, replyTimeout = 5000000,
         confirmTimeout = 1000000, connectTimeout = 60000000, md_sendingTimeout = 0, udpPort = 17225, tcpPort = 17225,
         maxNumSessions = 1000\<rparr>
        [] [] [] None (replicate 80 None) None 0 0 [] [] [] [] [] [] [] (\<lambda>_. []) (\<lambda>_. []))"

definition md_demo_env :: md_env where
  "md_demo_env = \<lparr>env_clock = \<lambda>_. \<lparr>tv_sec = 6, tv_usec = 0\<rparr>, env_alloc = \<lambda>_. True, env_uuid = \<lambda>n. replicate 15 7 @ [of_nat n],
     env_io = demo_io, env_setOptions = \<lambda>_. TRDP_NO_ERR, env_listen = \<lambda>_. TRDP_NO_ERR, env_marshall = None\<rparr>"

text \<open>A notification with four bytes of data.\<close>

definition md_demo_frame :: "u8 list" where
  "md_demo_frame = trdp_mdUpdatePacket
     ([0, 0, 0, 0, 1, 0, 0x4D, 0x6E, 0, 0, 0x03, 0xE8, 0, 0, 0, 0, 0, 0, 0, 0, 0, 0, 0, 4] @ replicate 92 0 @ [1, 2, 3, 4])"

end
