(* ===== verification/Trdp_Md_Stream.thy ===== *)
theory Trdp_Md_Stream
  imports Trdp_Md_Recv Trdp_Md_Frames
begin

text \<open>
  A message that arrives on a connection in pieces is put together again
  (\<^verbatim>\<open>trdp_mdRecvTCPPacket\<close> of \<^verbatim>\<open>app/trdp/tcnopen/trdp_mdcom.c\<close>), and the limits of it.
\<close>

section \<open>What the kernel holds of a stream\<close>

text \<open>The answers of a socket that has some bytes for the reader and would block after them.\<close>

inductive stream :: "(errno + u8 list) list \<Rightarrow> u8 list \<Rightarrow> bool" where
  stream_end: "stream [] []"
| stream_block: "stream [Inl E_WOULDBLOCK] []"
| stream_intr: "stream as bs \<Longrightarrow> stream (Inl E_INTR # as) bs"
| stream_data: "stream as bs \<Longrightarrow> p \<noteq> [] \<Longrightarrow> stream (Inr p # as) (p @ bs)"

lemma read_stream:
  assumes "stream as bs" and "0 < n"
  shows "\<exists>as'. stream as' (drop n bs) \<and>
     read_loop as n got = (if got @ take n bs = [] then TRDP_BLOCK_ERR else TRDP_NO_ERR, got @ take n bs, as')"
  using assms
proof (induction arbitrary: n got rule: stream.induct)
  case (stream_data as bs p)
  show ?case
  proof (cases "n \<le> length p")
    case True
    have "stream (if drop n p = [] then as else Inr (drop n p) # as) (drop n p @ bs)"
      using stream_data.hyps(1) by (auto intro: stream.intros)
    then show ?thesis using True stream_data.hyps(2) stream_data.prems by auto
  next
    case False
    then show ?thesis
      using stream_data.IH [of "n - length p" "got @ p"] stream_data.hyps(2) by auto
  qed
qed (auto intro: stream.intros)

lemma receive_stream:
  assumes "stream (net_tcp s fd) bs" and "0 < n" and "fd \<noteq> VOS_INVALID_SOCKET"
  shows "\<exists>as'. stream as' (drop (unat n) bs) \<and>
     vos_sockReceiveTCP fd n s =
       (if take (unat n) bs = [] then TRDP_BLOCK_ERR else TRDP_NO_ERR, take (unat n) bs, s\<lparr>net_tcp := (net_tcp s)(fd := as')\<rparr>)"
proof -
  have "0 < unat n" using assms(2) by (simp add: word_less_nat_alt)
  from read_stream [OF assms(1) this, of "[]"] obtain as' where
    "stream as' (drop (unat n) bs)"
    "read_loop (net_tcp s fd) (unat n) [] =
       (if take (unat n) bs = [] then TRDP_BLOCK_ERR else TRDP_NO_ERR, take (unat n) bs, as')"
    by auto
  then show ?thesis using assms(3) by (intro exI [of _ as']) (simp add: vos_sockReceiveTCP_def)
qed

section \<open>The parts of the receiver\<close>

lemma rcv_upd [simp]:
  "rcv_ele (upd_rcv f s) = f (rcv_ele s)" "unc_at (upd_rcv f s) k = unc_at s k" "net_tcp (upd_rcv f s) = net_tcp s"
  "rcv_buf (s\<lparr>net_tcp := x\<rparr>) = rcv_buf s" "rcv_ele (s\<lparr>net_tcp := x\<rparr>) = rcv_ele s" "unc_at (s\<lparr>net_tcp := x\<rparr>) k = unc_at s k"
  "rcv_buf (s\<lparr>uncompletedTCP := us\<rparr>) = rcv_buf s" "rcv_ele (s\<lparr>uncompletedTCP := us\<rparr>) = rcv_ele s"
  "rcv_buf (s\<lparr>md_allocs := m\<rparr>) = rcv_buf s" "rcv_ele (s\<lparr>md_allocs := m\<rparr>) = rcv_ele s" "unc_at (s\<lparr>md_allocs := m\<rparr>) k = unc_at s k"
  "rcv_buf (set_unc k u s) = rcv_buf s" "rcv_ele (set_unc k u s) = rcv_ele s"
  by (simp_all add: rcv_ele_def rcv_buf_def upd_rcv_def unc_at_def set_unc_def)

lemma rcv_buf_upd: "rcv_buf (upd_rcv f s) = (case pPacket (f (rcv_ele s)) of Some b \<Rightarrow> b | None \<Rightarrow> [])"
  by (simp add: rcv_buf_def)

lemma unat_small: "x < 4294967296 \<Longrightarrow> unat (of_nat x :: u32) = x"
  by (simp add: unsigned_of_nat take_bit_nat_eq_self)

lemma nth_overwrite:
  assumes "off + length bs \<le> length b" and "i < length b"
  shows "overwrite off bs b ! i = (if off \<le> i \<and> i < off + length bs then bs ! (i - off) else b ! i)"
  using assms by (auto simp: overwrite_def nth_append)

text \<open>Writing bytes of a message over a buffer that begins with some of it.\<close>

lemma take_overwrite_part:
  assumes "take n b = take n fr" and "off + m \<le> length b" and "off + m \<le> length fr"
  shows "take n (overwrite off (slice off m fr) b) = take n fr"
proof (rule nth_equalityI)
  have l: "length (slice off m fr) = m" using assms(3) by (simp add: slice_def)
  have n: "min n (length b) = min n (length fr)" using arg_cong [OF assms(1), of length] by simp
  then show "length (take n (overwrite off (slice off m fr) b)) = length (take n fr)" using assms(2) l by simp
  fix i assume "i < length (take n (overwrite off (slice off m fr) b))"
  then have i: "i < n" "i < length b" using assms(2) l by simp_all
  then have "b ! i = fr ! i" using assms(1) n by (metis min_less_iff_conj nth_take)
  then show "take n (overwrite off (slice off m fr) b) ! i = take n fr ! i"
    using i assms(2,3) l by (auto simp: nth_overwrite slice_def)
qed

lemma take_overwrite_next:
  assumes "take n b = take n fr" and "n + m \<le> length b" and "n + m \<le> length fr"
  shows "take (n + m) (overwrite n (slice n m fr) b) = take (n + m) fr"
  using assms by (simp add: overwrite_def slice_def take_add min_absorb2)

section \<open>One call\<close>

text \<open>What a call on one connection may change.\<close>

definition outside :: "nat \<Rightarrow> int \<Rightarrow> MD_SESSION_T \<Rightarrow> MD_SESSION_T" where
  "outside k fd s = s\<lparr>pMDRcvEle := None, net_tcp := (net_tcp s)(fd := []), md_allocs := 0, uncompletedTCP := (uncompletedTCP s)[k := None]\<rparr>"

lemma outside_steps [simp]:
  "outside k fd (upd_rcv f s) = outside k fd s" "outside k fd (set_unc k u s) = outside k fd s"
  "outside k fd (s\<lparr>net_tcp := (net_tcp s)(fd := t)\<rparr>) = outside k fd s" "outside k fd (s\<lparr>md_allocs := m\<rparr>) = outside k fd s"
  by (simp_all add: outside_def upd_rcv_def set_unc_def)

lemma fill_buf_ok:
  "off + length bs \<le> length (rcv_buf s) \<Longrightarrow>
   fill_buf off bs s = upd_rcv (\<lambda>e. e\<lparr>pPacket := Some (overwrite off bs (rcv_buf s))\<rparr>) s"
  by (simp add: fill_buf_def)

lemma fill_unc_ok:
  "unc_at s k = Some u \<Longrightarrow> pPacket u = Some b \<Longrightarrow> off + length bs \<le> length b \<Longrightarrow>
   fill_unc k off bs s = set_unc k (Some (u\<lparr>pPacket := Some (overwrite off bs b)\<rparr>)) s"
  by (simp add: fill_unc_def)

lemma unc_set [simp]:
  "k < length (uncompletedTCP s) \<Longrightarrow> unc_at (set_unc k u s) k = u"
  "length (uncompletedTCP (set_unc k u s)) = length (uncompletedTCP s)" "uncompletedTCP (upd_rcv f s) = uncompletedTCP s"
  "net_tcp (set_unc k u s) = net_tcp s"
  by (simp_all add: unc_at_def set_unc_def upd_rcv_def)

text \<open>
  What is kept after \<open>n\<close> bytes of a message; the receive buffer has the header as long as it is not
  complete.
\<close>

definition kept :: "nat \<Rightarrow> u8 list \<Rightarrow> nat \<Rightarrow> MD_SESSION_T \<Rightarrow> bool" where
  "kept k fr n s \<longleftrightarrow> k < length (uncompletedTCP s) \<and>
     (if n = 0 then unc_at s k = None
      else \<exists>u b. unc_at s k = Some u \<and> pPacket u = Some b \<and> m_grossSize u = of_nat n \<and> take n b = take n fr \<and>
             1480 \<le> length b \<and> (116 \<le> n \<longrightarrow> length fr \<le> length b))"

definition reading :: "nat \<Rightarrow> u8 list \<Rightarrow> nat \<Rightarrow> MD_SESSION_T \<Rightarrow> bool" where
  "reading k fr n s \<longleftrightarrow> kept k fr n s \<and> is_tcp (rcv_ele s) \<and> 1480 \<le> length (rcv_buf s) \<and>
     (n < 116 \<longrightarrow> take n (rcv_buf s) = take n fr)"

text \<open>A call has read \<open>m\<close> bytes after those.\<close>

definition has_read :: "nat \<Rightarrow> u8 list \<Rightarrow> nat \<Rightarrow> nat \<Rightarrow> MD_SESSION_T \<Rightarrow> bool" where
  "has_read k fr n m s \<longleftrightarrow> kept k fr n s \<and> is_tcp (rcv_ele s) \<and> 1480 \<le> length (rcv_buf s) \<and>
     (116 \<le> n + m \<longrightarrow> length fr \<le> length (rcv_buf s)) \<and>
     slice n m (rcv_buf s) = slice n m fr \<and> (n < 116 \<longrightarrow> take n (rcv_buf s) = take n fr) \<and>
     m_dataSize (rcv_ele s) = (if 116 \<le> n + m then hdr_datasetLength fr else 0)"

text \<open>A message the receiver accepts; the second case is that of a header that comes in pieces.\<close>

definition tcp_message :: "MD_SESSION_T \<Rightarrow> u8 list \<Rightarrow> bool" where
  "tcp_message s fr \<longleftrightarrow> length fr = 116 + unat (hdr_datasetLength fr) \<and> hdr_datasetLength fr \<le> TRDP_MAX_MD_DATA_SIZE \<and>
     trdp_mdCheck s fr MD_HEADER_SIZE True = TRDP_NO_ERR"

definition small_message :: "u8 list \<Rightarrow> bool" where
  "small_message fr \<longleftrightarrow> trdp_packetSizeMD (hdr_datasetLength fr) \<le> cMinimumMDSize"

lemma mdCheck_outside:
  "outside k fd s = outside k fd s' \<Longrightarrow> trdp_mdCheck s fr n h = trdp_mdCheck s' fr n h"
  by (drule arg_cong [of _ _ "\<lambda>s. (sess_etbTopoCnt s, sess_opTrnTopoCnt s)"]) (simp add: outside_def trdp_mdCheck_def)

lemma kept_size:
  assumes "kept k fr n s"
  shows "unc_size s k = of_nat n" and "unc_at s k = None \<longleftrightarrow> n = 0" and "n \<noteq> 0 \<Longrightarrow> unc_buf s k \<noteq> None"
  using assms by (auto simp: kept_def unc_size_def unc_buf_def split: if_splits)

lemma kept_cong:
  "unc_at s' k = unc_at s k \<Longrightarrow> length (uncompletedTCP s') = length (uncompletedTCP s) \<Longrightarrow> kept k fr n s' = kept k fr n s"
  by (simp add: kept_def)

lemma word_of_nat_less_116: "n < 4294967296 \<Longrightarrow> (of_nat n :: u32) < 116 \<longleftrightarrow> n < 116"
  by (simp add: word_less_nat_alt unat_small)

text \<open>The header is not complete after the call.\<close>

lemma header_partial:
  assumes "reading k fr n s" and "n + m < 116" and "0 < m" and "n + m \<le> length fr"
    and "stream (net_tcp s fd) (slice n m fr)" and "fd \<noteq> VOS_INVALID_SOCKET" and "m_dataSize (rcv_ele s) = 0"
  shows "\<exists>s'. tcp_header k fd s = (None, TRDP_NO_ERR, of_nat (n + m), of_nat m, of_nat n, s') \<and> outside k fd s' = outside k fd s \<and>
     has_read k fr n m s'"
proof -
  note r = assms(1) [unfolded reading_def]
  note k = kept_size [OF r [THEN conjunct1]]
  have l: "length (slice n m fr) = m" using assms(4) by (simp add: slice_def)
  have sub: "116 - (of_nat n :: u32) = of_nat (116 - n)" using assms(2) by (simp add: of_nat_diff)
  have u: "unat (116 - (of_nat n :: u32)) = 116 - n" "unat (of_nat n :: u32) = n"
    using assms(2) unat_small [of "116 - n"] unat_small [of n] unfolding sub by linarith+
  have pos: "0 < 116 - (of_nat n :: u32)" using assms(2) u(1) by (simp add: word_less_nat_alt)
  have t: "take (116 - n) (slice n m fr) = slice n m fr" "slice n m fr \<noteq> []" using assms(2,3) l by auto
  obtain as' where r1: "vos_sockReceiveTCP fd (116 - of_nat n) s = (TRDP_NO_ERR, slice n m fr, s\<lparr>net_tcp := (net_tcp s)(fd := as')\<rparr>)"
    using receive_stream [OF assms(5) pos assms(6)] t by (auto simp: u)
  have lt: "unc_size s k < 116" using assms(2) by (simp add: k(1) word_of_nat_less_116)
  let ?s = "upd_rcv (\<lambda>e. e\<lparr>pPacket := Some (overwrite n (slice n m fr) (rcv_buf s))\<rparr>) (s\<lparr>net_tcp := (net_tcp s)(fd := as')\<rparr>)"
  have f: "fill_buf n (slice n m fr) (s\<lparr>net_tcp := (net_tcp s)(fd := as')\<rparr>) = ?s"
    using r assms(2) l by (subst fill_buf_ok) auto
  have nc: "\<not> 116 \<le> (of_nat n + of_nat m :: u32)"
    using assms(2) word_of_nat_less_116 [of "n + m"] by (simp add: not_le)
  have "tcp_header k fd s = (None, TRDP_NO_ERR, of_nat (n + m), of_nat m, of_nat n, ?s)"
    unfolding tcp_header_def Let_def using lt r1 f nc by (simp add: k(1) u(2) l)
  moreover have "kept k fr n ?s" using r by (subst kept_cong [of _ k s]) simp_all
  then have "has_read k fr n m ?s"
    unfolding has_read_def using r assms(2,7) l by (simp add: rcv_buf_upd slice_overwrite_same take_overwrite)
  ultimately show ?thesis by (intro exI [of _ ?s]) simp
qed

text \<open>The call completes the header; its rest is checked and put with what was kept.\<close>

lemma take_slice: "take j (slice n m fr) = slice n (min j m) fr"
  by (simp add: slice_def min.commute)

lemma drop_slice: "j \<le> m \<Longrightarrow> drop j (slice n m fr) = slice (n + j) (m - j) fr"
  by (simp add: slice_def drop_take add.commute)

lemma header_patch:
  assumes "kept k fr n s" and "n \<noteq> 0" and "116 \<le> length fr" and "take 116 b = take 116 fr"
  shows "\<exists>s'. fill_unc k 20 (slice 20 4 b) (fill_unc k 112 (slice 112 4 b) s) = s' \<and>
     kept k fr n s' \<and> outside k fd s' = outside k fd s \<and> rcv_ele s' = rcv_ele s \<and> rcv_buf s' = rcv_buf s \<and>
     net_tcp s' = net_tcp s \<and> (\<exists>c. unc_buf s' k = Some c \<and> hdr_datasetLength c = hdr_datasetLength fr)"
proof -
  obtain u c where u: "unc_at s k = Some u" "pPacket u = Some c" "m_grossSize u = of_nat n" "take n c = take n fr"
      "1480 \<le> length c" "116 \<le> n \<longrightarrow> length fr \<le> length c" and k: "k < length (uncompletedTCP s)"
    using assms(1,2) by (auto simp: kept_def)
  have b: "slice 20 4 b = slice 20 4 fr" "slice 112 4 b = slice 112 4 fr"
    by (rule slice_cong [OF assms(4)], simp)+
  let ?c = "overwrite 20 (slice 20 4 fr) (overwrite 112 (slice 112 4 fr) c)"
  have t: "take n ?c = take n fr" using u(4,5) assms(3) by (intro take_overwrite_part) auto
  have "fill_unc k 20 (slice 20 4 b) (fill_unc k 112 (slice 112 4 b) s) =
      set_unc k (Some (u\<lparr>pPacket := Some ?c\<rparr>)) (set_unc k (Some (u\<lparr>pPacket := Some (overwrite 112 (slice 112 4 fr) c)\<rparr>)) s)"
    unfolding b using u(1,2,5) k assms(3)
    by (simp add: fill_unc_ok [of s k u c 112] fill_unc_ok [of _ k "u\<lparr>pPacket := Some (overwrite 112 (slice 112 4 fr) c)\<rparr>" _ 20])
  moreover have "hdr_datasetLength ?c = hdr_datasetLength fr"
    using u(5) assms(3) by (simp add: get32_def slice_overwrite_same)
  ultimately show ?thesis
    using u(3,5,6) t k assms(2,3) by (simp add: kept_def unc_buf_def)
qed

text \<open>Where a call stands when it goes on to the data: \<open>j\<close> bytes of the message are there, up to \<open>n\<close> kept before.\<close>

definition at_data :: "nat \<Rightarrow> int \<Rightarrow> u8 list \<Rightarrow> nat \<Rightarrow> nat \<Rightarrow> u8 list \<Rightarrow> MD_SESSION_T \<Rightarrow> bool" where
  "at_data k fd fr n j bs s \<longleftrightarrow> kept k fr n s \<and> is_tcp (rcv_ele s) \<and> 1480 \<le> length (rcv_buf s) \<and> 116 \<le> j \<and>
     stream (net_tcp s fd) bs \<and> (n < 116 \<longrightarrow> take 116 (rcv_buf s) = take 116 fr) \<and>
     (n \<noteq> 0 \<longrightarrow> (\<exists>c. unc_buf s k = Some c \<and> hdr_datasetLength c = hdr_datasetLength fr)) \<and> j = max n 116"

lemma header_complete:
  assumes "reading k fr n s" and "n < 116" and "116 \<le> n + m" and "n + m \<le> length fr"
    and "stream (net_tcp s fd) (slice n m fr)" and "fd \<noteq> VOS_INVALID_SOCKET" and "trdp_mdCheck s fr MD_HEADER_SIZE True = TRDP_NO_ERR"
  shows "\<exists>s'. tcp_header k fd s = (None, TRDP_NO_ERR, 116, of_nat (116 - n), of_nat n, s') \<and> outside k fd s' = outside k fd s \<and>
     at_data k fd fr n 116 (slice 116 (n + m - 116) fr) s'"
proof -
  note r = assms(1) [unfolded reading_def]
  note k = kept_size [OF r [THEN conjunct1]]
  let ?h = "slice n (116 - n) fr"
  have l: "length ?h = 116 - n" using assms(2-4) by simp
  have sub: "116 - (of_nat n :: u32) = of_nat (116 - n)" using assms(2) by (simp add: of_nat_diff)
  have u: "unat (116 - (of_nat n :: u32)) = 116 - n" "unat (of_nat n :: u32) = n"
    using assms(2) unat_small [of "116 - n"] unat_small [of n] unfolding sub by linarith+
  have pos: "0 < 116 - (of_nat n :: u32)" using assms(2) u(1) by (simp add: word_less_nat_alt)
  have t: "take (116 - n) (slice n m fr) = ?h" "?h \<noteq> []"
    "drop (116 - n) (slice n m fr) = slice 116 (n + m - 116) fr"
    using assms(2,3) l by (auto simp: take_slice drop_slice min_def add.commute [of m n])
  obtain as' where as': "stream as' (slice 116 (n + m - 116) fr)"
    and r1: "vos_sockReceiveTCP fd (116 - of_nat n) s = (TRDP_NO_ERR, ?h, s\<lparr>net_tcp := (net_tcp s)(fd := as')\<rparr>)"
    using receive_stream [OF assms(5) pos assms(6)] t by (auto simp: u)
  have lt: "unc_size s k < 116" using assms(2) by (simp add: k(1) word_of_nat_less_116)
  let ?b = "overwrite n ?h (rcv_buf s)"
  let ?s = "upd_rcv (\<lambda>e. e\<lparr>pPacket := Some ?b\<rparr>) (s\<lparr>net_tcp := (net_tcp s)(fd := as')\<rparr>)"
  have f: "fill_buf n ?h (s\<lparr>net_tcp := (net_tcp s)(fd := as')\<rparr>) = ?s"
    using r assms(2) l by (subst fill_buf_ok) auto
  have c: "(of_nat n :: u32) + of_nat (116 - n) = 116" using assms(2) by (simp add: of_nat_diff)
  have tb: "take 116 ?b = take 116 fr"
    using take_overwrite_next [of n "rcv_buf s" fr "116 - n"] r assms(2-4) by simp
  have b: "rcv_buf ?s = ?b" "116 + 0 \<le> length ?b" "1480 \<le> length ?b" using r l assms(2) by (simp_all add: rcv_buf_upd)
  have kept: "kept k fr n ?s" using r by (subst kept_cong [of _ k s]) simp_all
  have chk: "trdp_mdCheck ?s ?b 116 True = TRDP_NO_ERR"
    using assms(7) mdCheck_header [OF tb] mdCheck_outside [of k fd ?s s] by simp
  show ?thesis
  proof (cases "n = 0")
    case True
    then have "unc_at ?s k = None" using k by simp
    then have "tcp_header k fd s = (None, TRDP_NO_ERR, 116, of_nat (116 - n), of_nat n, ?s)"
      unfolding tcp_header_def Let_def using lt r1 f c True assms(3,4) by (simp add: k(1) u(2) l)
    moreover have "at_data k fd fr n 116 (slice 116 (n + m - 116) fr) ?s"
      unfolding at_data_def using kept r b tb as' True by simp
    ultimately show ?thesis by (intro exI [of _ ?s]) simp
  next
    case False
    have l': "116 \<le> length fr" using assms(3,4) by simp
    from header_patch [OF kept False l' tb] obtain s' where s': "fill_unc k 20 (slice 20 4 ?b) (fill_unc k 112 (slice 112 4 ?b) ?s) = s'"
      "kept k fr n s'" "outside k fd s' = outside k fd ?s" "rcv_ele s' = rcv_ele ?s" "rcv_buf s' = rcv_buf ?s"
      "net_tcp s' = net_tcp ?s" "\<exists>c. unc_buf s' k = Some c \<and> hdr_datasetLength c = hdr_datasetLength fr"
      by blast
    have "unc_at ?s k \<noteq> None" "unc_buf ?s k \<noteq> None" using kept_size(2,3) [OF kept] False by simp_all
    then have "tcp_header k fd s = (None, TRDP_NO_ERR, 116, of_nat (116 - n), of_nat n, s')"
      unfolding tcp_header_def Let_def k(1) u(2) r1 prod.case f l c using lt s'(1) chk b(1) by (simp add: k(1))
    moreover have "at_data k fd fr n 116 (slice 116 (n + m - 116) fr) s'"
      unfolding at_data_def using s'(2-7) r b tb as' assms(2) by (simp add: max_def)
    ultimately show ?thesis using s'(3) by (intro exI [of _ s']) simp
  qed
qed

text \<open>The receive buffer of the data: the one there is, or a bigger one with the header in it.\<close>

definition data_buf :: "u8 list \<Rightarrow> nat \<Rightarrow> u32 \<Rightarrow> u32 \<Rightarrow> MD_SESSION_T \<Rightarrow> u8 list" where
  "data_buf fr n stored readSize s =
     (if trdp_packetSizeMD (hdr_datasetLength fr) > cMinimumMDSize
      then overwrite (unat stored) (slice (unat stored) (unat readSize) (rcv_buf s))
             (replicate (unat (trdp_packetSizeMD (hdr_datasetLength fr))) 0)
      else rcv_buf s)"

definition whole_header :: "u8 list \<Rightarrow> nat \<Rightarrow> bool" where
  "whole_header fr n \<longleftrightarrow> small_message fr \<or> n = 0 \<or> 116 \<le> n"

text \<open>Where a call begins with the data: with the header just read, or with one kept from a call before.\<close>

definition data_start :: "nat \<Rightarrow> u32 \<Rightarrow> u32 \<Rightarrow> u32 \<Rightarrow> bool" where
  "data_start n sz readSize stored \<longleftrightarrow>
     (if n < 116 then sz = 116 \<and> readSize = of_nat (116 - n) \<and> stored = of_nat n else sz = 0 \<and> readSize = 0 \<and> stored = 0)"

lemma data_buf_ok:
  assumes "at_data k fd fr n j bs s" and "whole_header fr n" and "data_start n sz readSize stored" and "tcp_message s' fr"
  shows "1480 \<le> length (data_buf fr n stored readSize s)" "length fr \<le> length (data_buf fr n stored readSize s)"
    and "n < 116 \<longrightarrow> take 116 (data_buf fr n stored readSize s) = take 116 fr"
proof -
  let ?p = "trdp_packetSizeMD (hdr_datasetLength fr)"
  have L: "length fr \<le> unat ?p" using packetSizeMD_room(1) assms(4) by (simp add: tcp_message_def)
  have a: "1480 \<le> length (rcv_buf s)" "n < 116 \<longrightarrow> take 116 (rcv_buf s) = take 116 fr" using assms(1) by (simp_all add: at_data_def)
  have h: "116 \<le> length fr" using assms(4) by (simp add: tcp_message_def)
  show "1480 \<le> length (data_buf fr n stored readSize s)" "length fr \<le> length (data_buf fr n stored readSize s)"
    "n < 116 \<longrightarrow> take 116 (data_buf fr n stored readSize s) = take 116 fr"
  proof (atomize (full), cases "?p > cMinimumMDSize")
    case False
    then have "unat ?p \<le> 1480" by (simp add: word_less_nat_alt)
    then show "1480 \<le> length (data_buf fr n stored readSize s) \<and> length fr \<le> length (data_buf fr n stored readSize s) \<and>
      (n < 116 \<longrightarrow> take 116 (data_buf fr n stored readSize s) = take 116 fr)"
      using False a L by (simp add: data_buf_def)
  next
    case True
    then have p: "1480 < unat ?p" by (simp add: word_less_nat_alt)
    have n: "n = 0 \<or> 116 \<le> n" using assms(2) True by (auto simp: whole_header_def small_message_def)
    then have st: "stored = 0" "readSize = (if n = 0 then 116 else 0)" using assms(3) by (auto simp: data_start_def)
    have m: "min 116 (length (rcv_buf s)) = 116" using a by simp
    have e: "data_buf fr n stored readSize s =
        take (unat readSize) (rcv_buf s) @ replicate (unat ?p - unat readSize) 0"
      using True p st a by (auto simp: data_buf_def overwrite_def slice_def m)
    then show "1480 \<le> length (data_buf fr n stored readSize s) \<and> length fr \<le> length (data_buf fr n stored readSize s) \<and>
      (n < 116 \<longrightarrow> take 116 (data_buf fr n stored readSize s) = take 116 fr)"
      using p L st a n m h by auto
  qed
qed

lemma sizes_at_data:
  assumes "at_data k fd fr n j bs s" and "whole_header fr n" and "data_start n sz readSize stored" and "tcp_message s' fr" and "n \<le> length fr"
  shows "sz \<ge> MD_HEADER_SIZE \<or> unc_at s k \<noteq> None \<and> unc_size s k \<ge> MD_HEADER_SIZE"
    and "(case unc_buf s k of None \<Rightarrow> (sz, hdr_datasetLength (rcv_buf s), hdr_datasetLength (rcv_buf s))
          | Some b \<Rightarrow> let sz = unc_size s k + readSize in (sz, hdr_datasetLength b, hdr_datasetLength b - (sz - MD_HEADER_SIZE))) =
         (of_nat j, hdr_datasetLength fr, of_nat (length fr - j))"
    and "116 \<le> j" "j \<le> length fr" "length fr \<le> 65504" "readSize = of_nat (j - n)" "n \<le> j"
proof -
  have k: "kept k fr n s" and j: "j = max n 116" using assms(1) by (simp_all add: at_data_def)
  have L: "length fr = 116 + unat (hdr_datasetLength fr)" and d: "unat (hdr_datasetLength fr) \<le> 65388"
    using assms(4) by (simp_all add: tcp_message_def word_le_nat_alt)
  then show "116 \<le> j" "j \<le> length fr" "length fr \<le> 65504" "readSize = of_nat (j - n)" "n \<le> j"
    using j assms(3,5) by (auto simp: data_start_def max_def split: if_splits)
  note jl = \<open>j \<le> length fr\<close> \<open>length fr \<le> 65504\<close>
  have len: "hdr_datasetLength fr = of_nat (length fr - 116)" using L by simp
  show "sz \<ge> MD_HEADER_SIZE \<or> unc_at s k \<noteq> None \<and> unc_size s k \<ge> MD_HEADER_SIZE"
  proof (cases "n < 116")
    case False
    then have "\<not> (of_nat n :: u32) < 116" using assms(5) jl by (subst word_of_nat_less_116) auto
    then show ?thesis using False kept_size [OF k] by (simp add: not_less)
  qed (use assms(3) in \<open>simp add: data_start_def\<close>)
  show "(case unc_buf s k of None \<Rightarrow> (sz, hdr_datasetLength (rcv_buf s), hdr_datasetLength (rcv_buf s))
          | Some b \<Rightarrow> let sz = unc_size s k + readSize in (sz, hdr_datasetLength b, hdr_datasetLength b - (sz - MD_HEADER_SIZE))) =
         (of_nat j, hdr_datasetLength fr, of_nat (length fr - j))"
  proof (cases "n = 0")
    case True
    then have "unc_buf s k = None" using kept_size [OF k] by (simp add: unc_buf_def)
    moreover have "hdr_datasetLength (rcv_buf s) = hdr_datasetLength fr"
      using assms(1) True by (intro get32_cong [of 116]) (simp_all add: at_data_def)
    moreover have "j = 116" "sz = 116" using True j assms(3) by (simp_all add: data_start_def)
    ultimately show ?thesis using len by simp
  next
    case False
    then obtain c where c: "unc_buf s k = Some c" "hdr_datasetLength c = hdr_datasetLength fr" using assms(1) by (auto simp: at_data_def)
    have sz: "unc_size s k + readSize = of_nat j"
      using kept_size(1) [OF k] \<open>readSize = of_nat (j - n)\<close> \<open>n \<le> j\<close> by (simp add: of_nat_diff)
    have "(of_nat j :: u32) - 116 = of_nat (j - 116)" using \<open>116 \<le> j\<close> by (simp add: of_nat_diff)
    moreover have "(of_nat (length fr - 116) :: u32) - of_nat (j - 116) = of_nat (length fr - j)"
      using \<open>116 \<le> j\<close> jl by (simp add: of_nat_diff)
    ultimately have "of_nat (length fr - 116) - ((of_nat j :: u32) - 116) = of_nat (length fr - j)" by simp
    then show ?thesis using c sz len by simp
  qed
qed

lemma data_call:
  assumes a: "at_data k fd fr n j (slice j (n + m - j) fr) s" and "whole_header fr n" and "data_start n sz readSize stored" and "tcp_message s fr"
    and "n + m \<le> length fr" and "j \<le> n + m" and "fd \<noteq> VOS_INVALID_SOCKET" and alloc: "\<forall>i. env_alloc w i"
  shows "\<exists>err rest rds s'. tcp_data w k fd TRDP_NO_ERR sz readSize stored s = (None, err, of_nat (n + m), of_nat m, rest, rds, s') \<and>
     (err = TRDP_NO_ERR \<or> err = TRDP_BLOCK_ERR) \<and> outside k fd s' = outside k fd s \<and> has_read k fr n m s' \<and>
     (rds \<noteq> rest \<longleftrightarrow> n + m < length fr) \<and> (rest = 0 \<longrightarrow> rds = 0)"
proof -
  have "n \<le> length fr" using assms(5) by simp
  note z = sizes_at_data [OF a assms(2-4) this]
  note b = data_buf_ok [OF a assms(2-4)]
  note at = a [unfolded at_data_def]
  let ?b = "data_buf fr n stored readSize s"
  let ?len = "hdr_datasetLength fr" let ?big = "cMinimumMDSize < trdp_packetSizeMD ?len"
  have jw: "(116::u32) \<le> of_nat j" using word_of_nat_less_116 [of j] z(3-5) by (simp add: not_less flip: not_le)
  define s1 where "s1 = upd_rcv (\<lambda>e. e\<lparr>m_dataSize := ?len\<rparr>) s"
  define s2 where "s2 = (if ?big then upd_rcv (\<lambda>e. e\<lparr>pPacket := Some ?b\<rparr>) (s1\<lparr>md_allocs := Suc (md_allocs s1)\<rparr>) else s1)"
  have s2: "rcv_buf s2 = ?b" "outside k fd s2 = outside k fd s" "kept k fr n s2" "is_tcp (rcv_ele s2)"
    "m_dataSize (rcv_ele s2) = ?len" "net_tcp s2 = net_tcp s"
    using at kept_cong [of s2 k s fr n] by (simp_all add: s2_def s1_def rcv_buf_upd data_buf_def split: option.splits) (simp add: rcv_buf_def)
  have d: "tcp_data w k fd TRDP_NO_ERR sz readSize stored s =
      (if (of_nat (length fr - j) :: u32) > 0
       then let (err, bs, s) = vos_sockReceiveTCP fd (of_nat (length fr - j)) s2; s = fill_buf (unat (of_nat j :: u32)) bs s; i = of_nat (length bs)
            in (None, err, of_nat j + i, readSize + i, of_nat (length fr - j), i, s)
       else (None, TRDP_NO_ERR, of_nat j, readSize, of_nat (length fr - j), of_nat (length fr - j), s2))"
    unfolding tcp_data_def if_P [OF z(1)] z(2) prod.case using alloc jw
    by (simp add: md_malloc_def s2_def s1_def data_buf_def Let_def rcv_buf_upd split: option.splits) (simp add: rcv_buf_def)
  show ?thesis
  proof (cases "j = length fr")
    case True
    then have m: "n + m = length fr" "m = j - n" using assms(5,6) by simp_all
    have "slice n m ?b = slice n m fr"
      using b(3) m at slice_cong [of 116 ?b fr n m] by (cases "n < 116") (simp_all add: max_def, simp add: slice_def)
    moreover have "n < 116 \<Longrightarrow> take n ?b = take n fr" using b(3) by (metis min.absorb1 less_imp_le take_take)
    ultimately have "has_read k fr n m s2" using s2 b z(3-6) m True by (simp add: has_read_def)
    moreover have "tcp_data w k fd TRDP_NO_ERR sz readSize stored s = (None, TRDP_NO_ERR, of_nat (n + m), of_nat m, 0, 0, s2)"
      using d True m z(6) by simp
    ultimately show ?thesis using s2(2) m(1) by (intro exI [of _ TRDP_NO_ERR] exI [of _ 0] exI [of _ s2]) (simp del: of_nat_add)
  next
    case False
    let ?r = "length fr - j" let ?q = "n + m - j" let ?d = "slice j ?q fr"
    have small: "?r < 4294967296" "?q < 4294967296" "j < 4294967296" using z(4,5) assms(5) by simp_all
    have u: "unat (of_nat ?r :: u32) = ?r" "unat (of_nat j :: u32) = j" "unat (of_nat ?q :: u32) = ?q" using small unat_small by blast+
    have pos: "0 < (of_nat ?r :: u32)" using False z(4) u(1) by (simp add: word_less_nat_alt)
    have q: "length ?d = ?q" "?q \<le> ?r" using assms(5,6) by simp_all
    have str: "stream (net_tcp s2 fd) ?d" unfolding s2(6) using at by blast
    obtain as' where rc: "vos_sockReceiveTCP fd (of_nat ?r) s2 =
        (if ?d = [] then TRDP_BLOCK_ERR else TRDP_NO_ERR, ?d, s2\<lparr>net_tcp := (net_tcp s2)(fd := as')\<rparr>)"
      using receive_stream [OF str pos assms(7)] q unfolding u(1) by auto
    let ?n = "overwrite j ?d ?b"
    let ?s = "upd_rcv (\<lambda>e. e\<lparr>pPacket := Some ?n\<rparr>) (s2\<lparr>net_tcp := (net_tcp s2)(fd := as')\<rparr>)"
    have f: "fill_buf j ?d (s2\<lparr>net_tcp := (net_tcp s2)(fd := as')\<rparr>) = ?s"
      using b(2) q z(4) s2(1) by (subst fill_buf_ok) auto
    have tk: "n < 116 \<Longrightarrow> take (n + m) ?n = take (n + m) fr"
      using take_overwrite_next [of 116 ?b fr "n + m - 116"] at b(2,3) assms(5,6) by (simp add: max_def)
    have "slice n m ?n = slice n m fr"
    proof (cases "n < 116")
      case True then show ?thesis using tk by (intro slice_cong [of "n + m"]) simp_all
    next
      case False then show ?thesis using at b(2) z(4) q by (simp add: max_def slice_overwrite_same)
    qed
    moreover have "n < 116 \<Longrightarrow> take n ?n = take n fr" using tk by (metis le_add1 min.absorb1 take_take)
    moreover have "length ?n = length ?b" using b(2) q z(4) by simp
    moreover have "kept k fr n ?s" using s2(3) by (subst kept_cong [of _ k s2]) simp_all
    ultimately have "has_read k fr n m ?s" using s2 b(1,2) z(3) assms(6) by (simp add: has_read_def rcv_buf_upd)
    moreover have "tcp_data w k fd TRDP_NO_ERR sz readSize stored s =
        (None, if ?d = [] then TRDP_BLOCK_ERR else TRDP_NO_ERR, of_nat (n + m), of_nat m, of_nat ?r, of_nat ?q, ?s)"
      using pos rc f z(6,7) assms(6) unfolding d by (simp add: u q of_nat_diff Let_def)
    moreover have "(of_nat ?q :: u32) \<noteq> of_nat ?r \<longleftrightarrow> ?q \<noteq> ?r" using u(1,3) by metis
    then have "(of_nat ?q :: u32) \<noteq> of_nat ?r \<longleftrightarrow> n + m < length fr" using assms(5,6) z(4) by linarith
    moreover have "(of_nat ?r :: u32) \<noteq> 0" using pos by simp
    ultimately show ?thesis using s2(2)
      by (intro exI [of _ "if ?d = [] then TRDP_BLOCK_ERR else TRDP_NO_ERR"] exI [of _ "of_nat ?r"] exI [of _ "of_nat ?q"] exI [of _ ?s])
         (simp del: of_nat_add)
  qed
qed

text \<open>The end of a call: what was read is kept, or the message is complete.\<close>

lemma store_more:
  assumes "unc_at s k = Some u" and "pPacket u = Some b" and "k < length (uncompletedTCP s)" and "take n b = take n fr"
    and "n + m \<le> length b" and "n + m \<le> length fr" and "1480 \<le> length b" and "116 \<le> n + m \<longrightarrow> length fr \<le> length b" and "0 < m"
  shows "kept k fr (n + m) (set_unc k (map_option (\<lambda>u. u\<lparr>m_grossSize := of_nat (n + m), m_dataSize := d\<rparr>)
           (unc_at (fill_unc k n (slice n m fr) s) k)) (fill_unc k n (slice n m fr) s))"
proof -
  have l: "n + length (slice n m fr) \<le> length b" using assms(5,6) by simp
  show ?thesis
    using assms take_overwrite_next [of n b fr m] by (simp add: fill_unc_ok [OF assms(1,2) l] kept_def)
qed

lemma keep_call:
  assumes h: "has_read k fr n m s" and "m_grossSize (rcv_ele s) = of_nat (n + m)" and "0 < m" and "n + m < length fr"
    and "tcp_message s0 fr" and "whole_header fr n" and alloc: "\<forall>i. env_alloc w i"
  shows "\<exists>s'. tcp_keep w k (of_nat m) rds s = (TRDP_PACKET_ERR, s') \<and> kept k fr (n + m) s' \<and>
     outside k fd s' = outside k fd s \<and> rcv_ele s' = rcv_ele s"
proof -
  let ?len = "hdr_datasetLength fr"
  have L: "length fr = 116 + unat ?len" and d: "?len \<le> 65388" and d': "unat ?len \<le> 65388"
    using assms(5) by (simp_all add: tcp_message_def word_le_nat_alt)
  note room = packetSizeMD_room(1) [OF d]
  have u: "unat (of_nat m :: u32) = m" "unat (of_nat n :: u32) = n" using assms(4) L d' by (simp_all add: unat_small)
  have pos: "(of_nat m :: u32) > 0" using assms(3) u(1) by (simp add: word_less_nat_alt)
  note hr = h [unfolded has_read_def]
  let ?p = "trdp_packetSizeMD (m_dataSize (rcv_ele s))"
  let ?fin = "\<lambda>s. set_unc k (map_option (\<lambda>u. u\<lparr>m_grossSize := of_nat (n + m), m_dataSize := rds\<rparr>)
           (unc_at (fill_unc k n (slice n m fr) s) k)) (fill_unc k n (slice n m fr) s)"
  have k: "k < length (uncompletedTCP s)" using hr by (simp add: kept_def)
  show ?thesis
  proof (cases "n = 0")
    case True
    define b where "b = replicate (unat (if ?p < cMinimumMDSize then cMinimumMDSize else ?p)) (0 :: u8)"
    let ?s = "set_unc k (Some (zero_md_ele\<lparr>pPacket := Some b\<rparr>)) (s\<lparr>md_allocs := Suc (Suc (md_allocs s))\<rparr>)"
    have b: "1480 \<le> length b" "116 \<le> n + m \<longrightarrow> length fr \<le> length b"
      using hr room L True by (auto simp: b_def word_less_nat_alt)
    then have nb: "n + length (slice n m fr) \<le> length b" using assms(4) by (cases "116 \<le> n + m") auto
    have uk: "unc_at ?s k = Some (zero_md_ele\<lparr>pPacket := Some b\<rparr>)" using k by simp
    note f = fill_unc_ok [OF uk _ nb, simplified]
    have "unc_at s k = None" using hr True by (simp add: kept_def)
    then have "tcp_keep w k (of_nat m) rds s = (TRDP_PACKET_ERR, ?fin ?s)"
      unfolding tcp_keep_def Let_def rcv_upd b_def [symmetric] using alloc pos u True hr k assms(2) by (simp add: md_malloc_def b_def)
    moreover have "kept k fr (n + m) (?fin ?s)"
      by (rule store_more [OF uk _ _ _ _ _ b assms(3)]) (use nb k assms(4) True in simp_all)
    moreover have "outside k fd (?fin ?s) = outside k fd s" "rcv_ele (?fin ?s) = rcv_ele s"
      by (simp_all only: f outside_steps rcv_upd)
    ultimately show ?thesis by blast
  next
    case False
    then obtain v b where v: "unc_at s k = Some v" "pPacket v = Some b" "m_grossSize v = of_nat n" "take n b = take n fr"
        "1480 \<le> length b" "116 \<le> n \<longrightarrow> length fr \<le> length b"
      using hr by (auto simp: kept_def)
    have nb: "\<not> (m_grossSize v < 116 \<and> m_grossSize (rcv_ele s) > 116 \<and> ?p > 1480)"
    proof
      assume c: "m_grossSize v < 116 \<and> m_grossSize (rcv_ele s) > 116 \<and> ?p > 1480"
      then have "n < 116" using v(3) word_of_nat_less_116 [of n] assms(4) L d' by simp
      then have "small_message fr" using assms(6) False by (simp add: whole_header_def)
      then have "?p \<le> 1480" using hr packetSizeMD_0 by (simp add: small_message_def)
      then show False using c by (simp add: leD)
    qed
    have b: "116 \<le> n + m \<longrightarrow> length fr \<le> length b"
      using v(5,6) assms(6) False room L by (auto simp: whole_header_def small_message_def word_le_nat_alt)
    have nm: "n + m \<le> length b" using b v(5) assms(4) by (cases "116 \<le> n + m") auto
    have "tcp_keep w k (of_nat m) rds s = (TRDP_PACKET_ERR, ?fin s)"
      unfolding tcp_keep_def Let_def v(1) option.case if_not_P [OF nb] using v(3) pos u hr assms(2) by simp
    moreover have "kept k fr (n + m) (?fin s)"
      by (rule store_more [OF v(1,2) k v(4) nm _ v(5) b assms(3)]) (use assms(4) in simp)
    moreover have "outside k fd (?fin s) = outside k fd s" "rcv_ele (?fin s) = rcv_ele s"
      using nm assms(4) by (simp_all add: fill_unc_ok [OF v(1,2)])
    ultimately show ?thesis by blast
  qed
qed

lemma complete_call:
  assumes h: "has_read k fr n m s" and "m_grossSize (rcv_ele s) = of_nat (n + m)" and "0 < m" and "n + m = length fr"
    and "116 \<le> length fr" and "length fr \<le> 65504" and "whole_header fr n" and d: "length fr \<le> unat (trdp_packetSizeMD (hdr_datasetLength fr))"
  shows "\<exists>s'. tcp_complete k (of_nat m) s = (TRDP_NO_ERR, s') \<and> unc_at s' k = None \<and> outside k fd s' = outside k fd s \<and>
     take (length fr) (rcv_buf s') = fr \<and> m_grossSize (rcv_ele s') = of_nat (length fr) \<and>
     length fr \<le> length (rcv_buf s') \<and> 1480 \<le> length (rcv_buf s') \<and> is_tcp (rcv_ele s')"
proof (cases "n = 0")
  case True
  then have "unc_at s k = None" using h by (simp add: has_read_def kept_def)
  moreover have "take (length fr) (rcv_buf s) = fr" using h assms(4) True by (simp add: has_read_def slice_def)
  moreover have "length fr \<le> length (rcv_buf s)" using h assms(4,5) by (simp add: has_read_def)
  ultimately show ?thesis using h assms(2,4) True by (simp add: tcp_complete_def has_read_def)
next
  case False
  note hr = h [unfolded has_read_def]
  from False obtain v b where v: "unc_at s k = Some v" "pPacket v = Some b" "m_grossSize v = of_nat n" "take n b = take n fr"
      "1480 \<le> length b" "116 \<le> n \<longrightarrow> length fr \<le> length b" and k: "k < length (uncompletedTCP s)"
    using hr by (auto simp: kept_def)
  have b: "length fr \<le> length b"
    using v(5,6) assms(7) False d by (auto simp: whole_header_def small_message_def word_le_nat_alt)
  have u: "unat (of_nat m :: u32) = m" "unat (of_nat n :: u32) = n" "unat (of_nat (length fr) :: u32) = length fr"
    using assms(4,6) by (simp_all add: unat_small)
  have pos: "(of_nat m :: u32) > 0" using assms(3) u(1) by (simp add: word_less_nat_alt)
  let ?b = "overwrite n (slice n m fr) b"
  let ?s = "set_unc k (Some (v\<lparr>pPacket := Some ?b\<rparr>)) s"
  have t: "take (length fr) ?b = fr"
    using take_overwrite_next [of n b fr m] v(4) b assms(4) by simp
  have f: "fill_unc k n (slice n m fr) s = ?s" using v b assms(4) by (intro fill_unc_ok) simp_all
  have lb: "length ?b = length b" "length fr \<le> length (rcv_buf s)" using b hr assms(4,5) by simp_all
  let ?s' = "set_unc k None (upd_rcv (\<lambda>e. e\<lparr>pPacket := Some (overwrite 0 fr (rcv_buf s))\<rparr>) ?s)"
  have f': "fill_buf 0 fr ?s = upd_rcv (\<lambda>e. e\<lparr>pPacket := Some (overwrite 0 fr (rcv_buf s))\<rparr>) ?s"
    using lb by (subst fill_buf_ok) simp_all
  have "tcp_complete k (of_nat m) s = (TRDP_NO_ERR, ?s')"
    unfolding tcp_complete_def Let_def using v(1-3) pos u f f' lb b k t assms(2,4) hr
    by (simp add: unc_buf_def unc_size_def)
  moreover have "take (length fr) (overwrite 0 fr (rcv_buf s)) = fr" by (simp add: overwrite_def)
  ultimately show ?thesis using hr k lb assms(2,4) by (simp add: rcv_buf_upd)
qed

lemma read_part:
  assumes r: "reading k fr n s" and "m_dataSize (rcv_ele s) = 0" and "0 < m" and "n + m \<le> length fr"
    and st: "stream (net_tcp s fd) (slice n m fr)" and fd: "fd \<noteq> VOS_INVALID_SOCKET" and w: "whole_header fr n"
    and msg: "tcp_message s fr" and alloc: "\<forall>i. env_alloc w i"
  shows "\<exists>e sz rs st s1 err rest rds s2. tcp_header k fd s = (None, e, sz, rs, st, s1) \<and>
     tcp_data w k fd e sz rs st s1 = (None, err, of_nat (n + m), of_nat m, rest, rds, s2) \<and>
     (err = TRDP_NO_ERR \<or> err = TRDP_BLOCK_ERR) \<and> outside k fd s2 = outside k fd s \<and> has_read k fr n m s2 \<and>
     ((of_nat (n + m) :: u32) < 116 \<and> rds = 0 \<or> \<not> ((of_nat (n + m) :: u32) = 116 \<and> rest = 0) \<and> rds \<noteq> rest \<longleftrightarrow> n + m < length fr)"
proof -
  have L: "116 \<le> length fr" "length fr \<le> 65504" using msg by (simp_all add: tcp_message_def word_le_nat_alt)
  have lt: "(of_nat (n + m) :: u32) < 116 \<longleftrightarrow> n + m < 116" using L assms(4) by (intro word_of_nat_less_116) simp
  show ?thesis
  proof (cases "n + m < 116")
    case True
    from header_partial [OF r True assms(3,4) st fd assms(2)] obtain s' where
      h: "tcp_header k fd s = (None, TRDP_NO_ERR, of_nat (n + m), of_nat m, of_nat n, s')" and s': "outside k fd s' = outside k fd s" "has_read k fr n m s'"
      by blast
    have "kept k fr n s'" using s'(2) by (simp add: has_read_def)
    then have "unc_at s' k = None \<or> unc_size s' k < 116" using kept_size True word_of_nat_less_116 [of n] by simp
    then have "tcp_data w k fd TRDP_NO_ERR (of_nat (n + m)) (of_nat m) (of_nat n) s' = (None, TRDP_NO_ERR, of_nat (n + m), of_nat m, 0, 0, s')"
      using True lt unfolding tcp_data_def by (auto simp: not_le simp del: of_nat_add)
    then show ?thesis using h s' True L lt by (auto simp del: of_nat_add)
  next
    case big: False
    have "\<exists>sz rs st s1. tcp_header k fd s = (None, TRDP_NO_ERR, sz, rs, st, s1) \<and> outside k fd s1 = outside k fd s \<and>
       at_data k fd fr n (max n 116) (slice (max n 116) (n + m - max n 116) fr) s1 \<and> data_start n sz rs st"
    proof (cases "n < 116")
      case True
      with header_complete [OF r True _ assms(4) st fd, of] big msg show ?thesis
        by (fastforce simp: tcp_message_def data_start_def max_def)
    next
      case False
      note rr = r [unfolded reading_def]
      have "unc_at s k \<noteq> None" "\<not> unc_size s k < 116"
        using kept_size [OF rr [THEN conjunct1]] False word_of_nat_less_116 [of n] assms(4) L by simp_all
      then have "tcp_header k fd s = (None, TRDP_NO_ERR, 0, 0, 0, s)" unfolding tcp_header_def by (subst if_not_P) auto
      moreover have "\<exists>c. unc_buf s k = Some c \<and> hdr_datasetLength c = hdr_datasetLength fr"
      proof -
        obtain u c where c: "unc_at s k = Some u" "pPacket u = Some c" "take n c = take n fr"
          using rr False by (auto simp: kept_def split: if_splits)
        have "20 + 4 \<le> n" using False by simp
        from get32_cong [OF c(3) this] c(1,2) show ?thesis by (simp add: unc_buf_def)
      qed
      ultimately show ?thesis using False rr st by (simp add: at_data_def data_start_def max_def)
    qed
    then obtain sz rs st s1 where h: "tcp_header k fd s = (None, TRDP_NO_ERR, sz, rs, st, s1)" "outside k fd s1 = outside k fd s"
      "at_data k fd fr n (max n 116) (slice (max n 116) (n + m - max n 116) fr) s1" "data_start n sz rs st"
      by blast
    have "tcp_message s1 fr" using msg mdCheck_outside [OF h(2)] by (simp add: tcp_message_def)
    from data_call [OF h(3) w h(4) this assms(4) _ fd alloc] big obtain err rest rds s' where
      d: "tcp_data w k fd TRDP_NO_ERR sz rs st s1 = (None, err, of_nat (n + m), of_nat m, rest, rds, s')" and
      d': "err = TRDP_NO_ERR \<or> err = TRDP_BLOCK_ERR" "outside k fd s' = outside k fd s1" "has_read k fr n m s'"
        "rds \<noteq> rest \<longleftrightarrow> n + m < length fr" "rest = 0 \<longrightarrow> rds = 0"
      by fastforce
    then show ?thesis using h(1,2) big lt by (intro exI [of _ TRDP_NO_ERR] exI conjI) (auto simp del: of_nat_add)
  qed
qed

section \<open>Messages in pieces\<close>

lemma find_socket_outside: "outside k fd s = outside k fd s' \<Longrightarrow> find_socket a s = find_socket a s'"
  by (drule arg_cong [of _ _ socks]) (simp add: outside_def find_socket_def)

text \<open>The receiver has the message, and nothing is kept any more.\<close>

definition message_read :: "nat \<Rightarrow> u8 list \<Rightarrow> MD_SESSION_T \<Rightarrow> bool" where
  "message_read k fr s \<longleftrightarrow> unc_at s k = None \<and> take (length fr) (rcv_buf s) = fr \<and> m_grossSize (rcv_ele s) = of_nat (length fr)"

lemma one_call:
  assumes r: "reading k fr n s" and "0 < m" and "n + m \<le> length fr" and st: "stream (net_tcp s fd) (slice n m fr)"
    and fd: "fd \<noteq> VOS_INVALID_SOCKET" "find_socket fd s = Some k" and w: "whole_header fr n" and msg: "tcp_message s fr"
    and alloc: "\<forall>i. env_alloc w i"
  shows "\<exists>err s'. trdp_mdRecvTCPPacket w fd s = (err, s') \<and> outside k fd s' = outside k fd s \<and>
     (if n + m < length fr then err = TRDP_PACKET_ERR \<and> reading k fr (n + m) s' else err = TRDP_NO_ERR \<and> message_read k fr s')"
proof -
  define s1 where "s1 = upd_rcv (\<lambda>e. e\<lparr>m_dataSize := 0, m_addr := (m_addr e)\<lparr>destIpAddr := realIP s\<rparr>\<rparr>) s"
  have s1: "outside k fd s1 = outside k fd s" "net_tcp s1 = net_tcp s" "m_dataSize (rcv_ele s1) = 0" by (simp_all add: s1_def)
  have "kept k fr n s1 = kept k fr n s" by (rule kept_cong) (simp_all add: s1_def)
  moreover have "rcv_buf s1 = rcv_buf s" by (simp add: s1_def rcv_buf_upd) (simp add: rcv_buf_def)
  moreover have "is_tcp (rcv_ele s1) = is_tcp (rcv_ele s)" by (simp add: s1_def)
  ultimately have r1: "reading k fr n s1" using r by (simp add: reading_def)
  have m1: "tcp_message s1 fr" using msg mdCheck_outside [OF s1(1)] by (simp add: tcp_message_def)
  have st1: "stream (net_tcp s1 fd) (slice n m fr)" using st s1(2) by simp
  from read_part [OF r1 s1(3) assms(2,3) st1 fd(1) w m1 alloc] obtain e sz rs st0 s2 err rest rds s3 where
    h: "tcp_header k fd s1 = (None, e, sz, rs, st0, s2)"
      "tcp_data w k fd e sz rs st0 s2 = (None, err, of_nat (n + m), of_nat m, rest, rds, s3)" and
    s3: "err = TRDP_NO_ERR \<or> err = TRDP_BLOCK_ERR" "outside k fd s3 = outside k fd s1" "has_read k fr n m s3" and
    dec: "(of_nat (n + m) :: u32) < 116 \<and> rds = 0 \<or> \<not> ((of_nat (n + m) :: u32) = 116 \<and> rest = 0) \<and> rds \<noteq> rest \<longleftrightarrow> n + m < length fr"
    by (elim exE conjE) blast
  define s4 where "s4 = upd_rcv (\<lambda>e. e\<lparr>m_grossSize := of_nat (n + m)\<rparr>) s3"
  have b4: "rcv_buf s4 = rcv_buf s3" by (simp add: s4_def rcv_buf_upd) (simp add: rcv_buf_def)
  have "kept k fr n s4 = kept k fr n s3" by (rule kept_cong) (simp_all add: s4_def)
  then have s4: "has_read k fr n m s4" "m_grossSize (rcv_ele s4) = of_nat (n + m)" "outside k fd s4 = outside k fd s3"
    using s3(3) b4 by (simp_all add: has_read_def s4_def)
  have L: "116 \<le> length fr" "length fr \<le> 65504" "length fr = 116 + unat (hdr_datasetLength fr)" "hdr_datasetLength fr \<le> 65388"
    using msg by (simp_all add: tcp_message_def word_le_nat_alt)
  have pos: "(of_nat m :: u32) \<noteq> 0"
  proof -
    have "unat (of_nat m :: u32) = m" using assms(3) L(2) by (intro unat_small) simp
    then show ?thesis using assms(2) by (metis less_irrefl unat_0)
  qed
  have call: "trdp_mdRecvTCPPacket w fd s =
      (if n + m < length fr then tcp_keep w k (of_nat m) rds s4 else tcp_complete k (of_nat m) s4)"
    unfolding trdp_mdRecvTCPPacket_def Let_def s1_def [symmetric] find_socket_outside [OF s1(1)] fd(2) option.case h prod.case
      s4_def [symmetric] dec
    using s3(1) pos by auto
  show ?thesis
  proof (cases "n + m < length fr")
    case True
    from keep_call [OF s4(1,2) assms(2) True msg w alloc, of rds fd] obtain s5 where
      s5: "tcp_keep w k (of_nat m) rds s4 = (TRDP_PACKET_ERR, s5)" "kept k fr (n + m) s5" "outside k fd s5 = outside k fd s4"
        "rcv_ele s5 = rcv_ele s4" by blast
    have b5: "rcv_buf s5 = rcv_buf s4" using s5(4) by (simp add: rcv_buf_def)
    have "reading k fr (n + m) s5"
      using s5(2,4) b5 s4(1) by (auto simp: reading_def has_read_def slice_def take_add)
    then show ?thesis using True call s5 s4(3) s3(2) s1(1) by simp
  next
    case False
    then have e: "n + m = length fr" using assms(3) by simp
    have d: "length fr \<le> unat (trdp_packetSizeMD (hdr_datasetLength fr))" using packetSizeMD_room(1) [OF L(4)] L(3) by simp
    from complete_call [OF s4(1,2) assms(2) e L(1,2) w d, of fd] show ?thesis
      using call False s4(3) s3(2) s1(1) by (auto simp: message_read_def)
  qed
qed

text \<open>One call after each arrival of bytes on the connection, with the results in order.\<close>

fun md_pieces :: "md_env \<Rightarrow> int \<Rightarrow> (errno + u8 list) list list \<Rightarrow> MD_SESSION_T \<Rightarrow> TRDP_ERR_T list \<times> MD_SESSION_T" where
  "md_pieces w fd [] s = ([], s)"
| "md_pieces w fd (a # as) s =
     (let (err, s) = trdp_mdRecvTCPPacket w fd (s\<lparr>net_tcp := (net_tcp s)(fd := a)\<rparr>);
          (errs, s) = md_pieces w fd as s
      in (err # errs, s))"

lemma pieces_steps:
  assumes "list_all2 stream as ps" and "[] \<notin> set ps" and "concat ps = drop n fr" and "n < length fr" and "reading k fr n s"
    and "find_socket fd s = Some k" and "tcp_message s fr" and "small_message fr \<or> 116 \<le> n \<or> n = 0 \<and> 116 \<le> length (hd ps)"
    and fd: "fd \<noteq> VOS_INVALID_SOCKET" and alloc: "\<forall>i. env_alloc w i"
  shows "\<exists>s'. md_pieces w fd as s = (replicate (length as - 1) TRDP_PACKET_ERR @ [TRDP_NO_ERR], s') \<and>
     outside k fd s' = outside k fd s \<and> message_read k fr s'"
  using assms(1-8)
proof (induction as arbitrary: ps n s)
  case Nil
  then show ?case by simp
next
  case (Cons a as)
  then obtain p ps' where ps: "ps = p # ps'" "stream a p" "list_all2 stream as ps'" by (auto simp: list_all2_Cons1)
  let ?s = "s\<lparr>net_tcp := (net_tcp s)(fd := a)\<rparr>"
  have p: "0 < length p" "p = slice n (length p) fr" "concat ps' = drop (n + length p) fr" "[] \<notin> set ps'"
    using Cons.prems(2,3) ps(1) by (auto simp: slice_def add.commute) (metis append_eq_conv_conj, metis append_eq_conv_conj drop_drop add.commute)
  have le: "n + length p \<le> length fr" using arg_cong [OF Cons.prems(3), of length] Cons.prems(4) ps(1) by simp
  have "kept k fr n ?s = kept k fr n s" by (rule kept_cong) simp_all
  then have r: "reading k fr n ?s" using Cons.prems(5) by (simp add: reading_def)
  have o: "outside k fd ?s = outside k fd s" by simp
  have st: "stream (net_tcp ?s fd) (slice n (length p) fr)" using ps(2) p(2) by simp
  have w: "whole_header fr n" using Cons.prems(8) by (auto simp: whole_header_def)
  have f: "find_socket fd ?s = Some k" using Cons.prems(6) find_socket_outside [OF o] by simp
  have m: "tcp_message ?s fr" using Cons.prems(7) mdCheck_outside [OF o] by (simp add: tcp_message_def)
  from one_call [OF r p(1) le st fd f w m alloc] obtain err s1 where
    c: "trdp_mdRecvTCPPacket w fd ?s = (err, s1)" "outside k fd s1 = outside k fd ?s" and
    d: "if n + length p < length fr then err = TRDP_PACKET_ERR \<and> reading k fr (n + length p) s1 else err = TRDP_NO_ERR \<and> message_read k fr s1"
    by blast
  show ?case
  proof (cases "n + length p < length fr")
    case False
    then have "concat ps' = []" using p(3) by simp
    then have "ps' = []" using p(4) by (cases ps') auto
    then have "as = []" using ps(3) by simp
    then show ?thesis using c d False by simp
  next
    case True
    have f1: "find_socket fd s1 = Some k" using f find_socket_outside [OF c(2)] by simp
    have m1: "tcp_message s1 fr" using m mdCheck_outside [OF c(2)] by (simp add: tcp_message_def)
    have h: "small_message fr \<or> 116 \<le> n + length p \<or> n + length p = 0 \<and> 116 \<le> length (hd ps')"
      using Cons.prems(8) ps(1) by auto
    have "reading k fr (n + length p) s1" using d True by simp
    from Cons.IH [OF ps(3) p(4,3) True this f1 m1 h] obtain s' where
      s': "md_pieces w fd as s1 = (replicate (length as - 1) TRDP_PACKET_ERR @ [TRDP_NO_ERR], s')"
        "outside k fd s' = outside k fd s1" "message_read k fr s'" by blast
    have "as \<noteq> []" using True p(3) ps(3) by auto
    then have "replicate (length as) TRDP_PACKET_ERR = TRDP_PACKET_ERR # replicate (length as - 1) TRDP_PACKET_ERR"
      by (cases as) simp_all
    then show ?thesis using c d True s' by simp
  qed
qed

text \<open>
  C38 (tcp_message_reassembled): a message that arrives on a TCP connection in pieces is put
  together again. However the kernel splits what it hands over of each piece, every call before
  the last piece answers that the packet is not complete, the last one delivers exactly the bytes
  of the message and leaves nothing behind, and no other part of the session changes. This holds
  for a message of header and data without padding whose check passes, whose padded size fits the
  first receive buffer of 1480 bytes or whose header comes with the first piece, on a connection
  that the session knows and that holds no unfinished message, while memory can be allocated; the
  header pieces share the receive buffer, so nothing else is received in between.
\<close>

theorem tcp_message_reassembled:
  assumes "tcp_message s fr" and "list_all2 stream arrivals pieces" and "[] \<notin> set pieces" and "concat pieces = fr"
    and "trdp_packetSizeMD (hdr_datasetLength fr) \<le> cMinimumMDSize \<or> 116 \<le> length (hd pieces)"
    and "fd \<noteq> VOS_INVALID_SOCKET" and "find_socket fd s = Some k" and "k < length (uncompletedTCP s)" and "unc_at s k = None"
    and "is_tcp (rcv_ele s)" and "1480 \<le> length (rcv_buf s)" and "\<forall>i. env_alloc w i"
  shows "\<exists>s'. md_pieces w fd arrivals s = (replicate (length arrivals - 1) TRDP_PACKET_ERR @ [TRDP_NO_ERR], s') \<and>
     take (length fr) (rcv_buf s') = fr \<and> m_grossSize (rcv_ele s') = of_nat (length fr) \<and> unc_at s' k = None \<and>
     outside k fd s' = outside k fd s"
proof -
  have "reading k fr 0 s" using assms(8-11) by (simp add: reading_def kept_def)
  moreover have "0 < length fr" using assms(1) by (simp add: tcp_message_def)
  ultimately show ?thesis
    using pieces_steps [of arrivals pieces 0 fr k s fd w] assms by (auto simp: small_message_def message_read_def)
qed

text \<open>A notification in three pieces, the first of which ends in the header.\<close>

definition demo_reader :: MD_SESSION_T where
  "demo_reader = (md_demo TRDP_SOCK_MD_TCP)\<lparr>pMDRcvEle := Some (zero_md_ele\<lparr>m_pktFlags := 8, pPacket := Some (replicate 1480 0)\<rparr>)\<rparr>"

definition demo_arrivals :: "(errno + u8 list) list list" where
  "demo_arrivals = [[Inr (take 50 md_demo_frame), Inl E_WOULDBLOCK], [Inl E_INTR, Inr (slice 50 68 md_demo_frame)],
     [Inr (drop 118 md_demo_frame)]]"

lemma demo_frame_message: "length md_demo_frame = 120" "hdr_datasetLength md_demo_frame = 4" "tcp_message s md_demo_frame"
proof -
  let ?h = "[0, 0, 0, 0, 1, 0, 0x4D, 0x6E, 0, 0, 0x03, 0xE8, 0, 0, 0, 0, 0, 0, 0, 0, 0, 0, 0, 4] @ replicate 92 0 @ [1, 2, 3, 4 :: u8]"
  have h: "get32 20 ?h = 4" "get16 4 ?h = 0x0100" "get16 6 ?h = TRDP_MSG_MN"
    by (simp_all add: get32_def get16_def slice_def ntohl_def)
  have l: "length ?h = 120" by simp
  note u = mdUpdate_frame [of ?h]
  show 1: "length md_demo_frame = 120" "hdr_datasetLength md_demo_frame = 4"
    using u(1) u(5) [of 20] h(1) by (simp_all add: md_demo_frame_def)
  have "md_header_ok ?h" unfolding md_header_ok_def h by simp
  from updated_header_accepted [OF this, of 116 True s] show "tcp_message s md_demo_frame"
    using 1 by (simp add: tcp_message_def md_demo_frame_def)
qed

theorem tcp_message_reassembled_witness:
  "\<exists>s'. md_pieces md_demo_env 7 demo_arrivals demo_reader = ([TRDP_PACKET_ERR, TRDP_PACKET_ERR, TRDP_NO_ERR], s') \<and>
     take 120 (rcv_buf s') = md_demo_frame"
proof -
  let ?ps = "[take 50 md_demo_frame, slice 50 68 md_demo_frame, drop 118 md_demo_frame]"
  have l: "length md_demo_frame = 120" by (rule demo_frame_message)
  have ne: "take 50 md_demo_frame \<noteq> []" "slice 50 68 md_demo_frame \<noteq> []" "drop 118 md_demo_frame \<noteq> []"
    using l by (auto simp flip: length_greater_0_conv simp: slice_def)
  have c: "concat ?ps = md_demo_frame"
    using append_take_drop_id [of 68 "drop 50 md_demo_frame"] by (simp add: slice_def)
  have st: "list_all2 stream demo_arrivals ?ps"
    using ne stream_data [OF stream_block ne(1)] stream_intr [OF stream_data [OF stream_end ne(2)]] stream_data [OF stream_end ne(3)]
    by (simp add: demo_arrivals_def)
  have small: "trdp_packetSizeMD (hdr_datasetLength md_demo_frame) \<le> cMinimumMDSize"
    by (simp add: demo_frame_message trdp_packetSizeMD_def padded_size_def)
  have f: "find_socket 7 demo_reader = Some 0"
    by (simp add: find_socket_def demo_reader_def md_demo_def TRDP_SESSION_T.defs MD_SESSION_T.defs md_sock_of_def demo_place_def
      demo_session_def upt_conv_Cons)
  have r: "0 < length (uncompletedTCP demo_reader)" "unc_at demo_reader 0 = None" "is_tcp (rcv_ele demo_reader)" "1480 \<le> length (rcv_buf demo_reader)"
    by (simp_all add: demo_reader_def md_demo_def TRDP_SESSION_T.defs MD_SESSION_T.defs unc_at_def rcv_ele_def rcv_buf_def demo_session_def)
  have alloc: "\<forall>i. env_alloc md_demo_env i" by (simp add: md_demo_env_def)
  have "\<exists>s'. md_pieces md_demo_env 7 demo_arrivals demo_reader =
       (replicate (length demo_arrivals - 1) TRDP_PACKET_ERR @ [TRDP_NO_ERR], s') \<and> take (length md_demo_frame) (rcv_buf s') = md_demo_frame"
    using tcp_message_reassembled [OF demo_frame_message(3) st _ c _ _ f r, of md_demo_env] ne small alloc by auto
  then show ?thesis using l by (simp add: demo_arrivals_def numeral_2_eq_2)
qed

end
