(* ===== verification/Trdp_Md_Delivery.thy ===== *)
theory Trdp_Md_Delivery
  imports Trdp_Md_If Trdp_Md_Stream
begin

text \<open>
  Requests and replies from end to end, over \<^verbatim>\<open>app/trdp/tcnopen/trdp_mdcom.c\<close> as a whole: what a caller asks is
  what the listener is told, and what the replier answers reaches the caller.
\<close>

section \<open>Building a message\<close>

lemma length_put_uri [simp]:
  "uri_fits u \<Longrightarrow> off + 32 \<le> length fr \<Longrightarrow> length (put_uri off u fr) = length fr"
  by (cases u) (simp_all add: put_uri_def uri_fits_def)

lemma get_put_uri [simp]:
  assumes "uri_fits u" and "off + 32 \<le> length fr"
  shows "off' + 4 \<le> off \<or> off + 32 \<le> off' \<Longrightarrow> get32 off' (put_uri off u fr) = get32 off' fr"
    "off' + 2 \<le> off \<or> off + 32 \<le> off' \<Longrightarrow> get16 off' (put_uri off u fr) = get16 off' fr"
    "off' + n \<le> off \<or> off + 32 \<le> off' \<Longrightarrow> slice off' n (put_uri off u fr) = slice off' n fr"
    "off + 32 \<le> m \<Longrightarrow> drop m (put_uri off u fr) = drop m fr"
  using assms
  by (cases u; auto simp: put_uri_def uri_fits_def get_overwrite_other slice_overwrite_other drop_overwrite)+

text \<open>The bytes of a URI field over cleared memory, as a receiver reads them.\<close>

definition uri_text :: "u8 list option \<Rightarrow> u8 list" where
  "uri_text u = (case u of None \<Rightarrow> [] | Some u \<Rightarrow> takeWhile (\<lambda>c. c \<noteq> 0) u)"

lemma uri_field:
  assumes "uri_fits u" and "off + 32 \<le> length fr" and "slice off 32 fr = replicate 32 0"
  shows "slice off 32 (put_uri off u fr) = uri_text u @ replicate (32 - length (uri_text u)) 0"
proof (cases u)
  case None
  then show ?thesis using assms(3) by (simp add: put_uri_def uri_text_def)
next
  case (Some v)
  let ?t = "takeWhile (\<lambda>c. c \<noteq> 0) v"
  have l: "length ?t \<le> 32" using assms(1) Some by (simp add: uri_fits_def)
  have "drop off (overwrite off ?t (overwrite off (replicate 32 0) fr)) =
      ?t @ replicate (32 - length ?t) 0 @ drop (off + 32) fr"
    using assms(2) l by (simp add: overwrite_def)
  then show ?thesis using Some l by (simp add: slice_def put_uri_def uri_text_def)
qed

text \<open>A header is a series of writes; a field is read from the last one that covers it.\<close>

fun writes :: "(nat \<times> u8 list) list \<Rightarrow> u8 list \<Rightarrow> u8 list" where
  "writes [] fr = fr"
| "writes ((off, bs) # ws) fr = writes ws (overwrite off bs fr)"

definition fits :: "nat \<Rightarrow> (nat \<times> u8 list) list \<Rightarrow> bool" where
  "fits n ws \<longleftrightarrow> (\<forall>(off, bs) \<in> set ws. off + length bs \<le> n)"

definition clear_of :: "nat \<Rightarrow> nat \<Rightarrow> (nat \<times> u8 list) list \<Rightarrow> bool" where
  "clear_of off n ws \<longleftrightarrow> (\<forall>(o', bs) \<in> set ws. off + n \<le> o' \<or> o' + length bs \<le> off)"

lemma fits_simps [simp]: "fits n []" "fits n ((off, bs) # ws) \<longleftrightarrow> off + length bs \<le> n \<and> fits n ws" "fits n (vs @ ws) \<longleftrightarrow> fits n vs \<and> fits n ws"
  by (auto simp: fits_def)

lemma clear_simps [simp]:
  "clear_of off n []" "clear_of off n ((o', bs) # ws) \<longleftrightarrow> (off + n \<le> o' \<or> o' + length bs \<le> off) \<and> clear_of off n ws"
  "clear_of off n (vs @ ws) \<longleftrightarrow> clear_of off n vs \<and> clear_of off n ws"
  by (auto simp: clear_of_def)

lemma writes_append: "writes (vs @ ws) fr = writes ws (writes vs fr)"
  by (induction vs arbitrary: fr) auto

lemma length_writes: "fits (length fr) ws \<Longrightarrow> length (writes ws fr) = length fr"
  by (induction ws arbitrary: fr) auto

lemma slice_writes_other: "fits (length fr) ws \<Longrightarrow> clear_of off n ws \<Longrightarrow> slice off n (writes ws fr) = slice off n fr"
  by (induction ws arbitrary: fr) (auto simp: slice_overwrite_other)

lemma slice_writes:
  assumes "fits (length fr) (vs @ (off, bs) # ws)" and "clear_of off (length bs) ws"
  shows "slice off (length bs) (writes (vs @ (off, bs) # ws) fr) = bs"
proof -
  have "length (writes vs fr) = length fr" using assms(1) by (intro length_writes) simp
  then show ?thesis using assms
    by (simp add: writes_append slice_writes_other slice_overwrite_same)
qed

lemma drop_writes: "fits (length fr) ws \<Longrightarrow> fits n ws \<Longrightarrow> drop n (writes ws fr) = drop n fr"
  by (induction ws arbitrary: fr) (auto simp: drop_overwrite)

definition uri_writes :: "nat \<Rightarrow> u8 list option \<Rightarrow> (nat \<times> u8 list) list" where
  "uri_writes off u = (case u of None \<Rightarrow> [] | Some v \<Rightarrow> [(off, replicate 32 0), (off, uri_text u)])"

lemma put_uri_writes: "put_uri off u fr = writes (uri_writes off u) fr"
  by (simp add: put_uri_def uri_writes_def uri_text_def split: option.splits)

lemma uri_writes_ok [simp]:
  "uri_fits u \<Longrightarrow> off + 32 \<le> n \<Longrightarrow> fits n (uri_writes off u)"
  "uri_fits u \<Longrightarrow> o' + n \<le> off \<or> off + 32 \<le> o' \<Longrightarrow> clear_of o' n (uri_writes off u)"
  by (auto simp: uri_writes_def uri_fits_def uri_text_def split: option.splits)

definition header_writes :: "u16 \<Rightarrow> s32 \<Rightarrow> u32 \<Rightarrow> u32 \<Rightarrow> MD_ELE_T \<Rightarrow> (nat \<times> u8 list) list" where
  "header_writes mt rs tmo n e =
     [(0, htonl n), (4, htons TRDP_PROTO_VER), (6, htons mt), (8, htonl (comId (m_addr e))), (12, htonl (etbTopoCnt (m_addr e))),
      (16, htonl (opTrnTopoCnt (m_addr e))), (20, htonl (m_dataSize e)), (24, htonl rs),
      (28, if mt = TRDP_MSG_MN then replicate 16 0 else sessionID e), (44, htonl tmo)]"

lemma header_writes_eq:
  "md_header mt rs tmo n su du e fr = writes (header_writes mt rs tmo n e @ uri_writes 48 su @ uri_writes 80 du) fr"
  by (simp add: md_header_def header_writes_def put_uri_writes writes_append put32_def put16_def)

lemma slice_nth_write:
  assumes "k < length ws" and "fits (length fr) ws" and "clear_of (fst (ws ! k)) (length (snd (ws ! k))) (drop (Suc k) ws)"
  shows "slice (fst (ws ! k)) (length (snd (ws ! k))) (writes ws fr) = snd (ws ! k)"
proof -
  obtain o' bs where k: "ws ! k = (o', bs)" by fastforce
  have "ws = take k ws @ (o', bs) # drop (Suc k) ws" using id_take_nth_drop [OF assms(1)] k by simp
  with slice_writes [of fr "take k ws" o' bs "drop (Suc k) ws"] show ?thesis using assms k by simp
qed

lemma header_fields:
  fixes n tmo :: u32 and rs :: s32 and mt :: u16
  assumes "116 \<le> length fr" and "length (sessionID e) = 16" and "uri_fits su" and "uri_fits du"
  defines "h \<equiv> md_header mt rs tmo n su du e fr"
  shows "length h = length fr" "hdr_sequenceCounter h = n" "hdr_protocolVersion h = TRDP_PROTO_VER" "hdr_msgType h = mt"
    "hdr_comId h = comId (m_addr e)" "hdr_etbTopoCnt h = etbTopoCnt (m_addr e)" "hdr_opTrnTopoCnt h = opTrnTopoCnt (m_addr e)"
    "hdr_datasetLength h = m_dataSize e" "md_replyStatus h = rs" "md_replyTimeout h = tmo"
    "md_sessionID h = (if mt = TRDP_MSG_MN then replicate 16 0 else sessionID e)" "md_data h = md_data fr"
    "slice 80 32 fr = replicate 32 0 \<Longrightarrow> md_destinationURI h = uri_text du @ replicate (32 - length (uri_text du)) 0"
proof -
  let ?ws = "header_writes mt rs tmo n e @ uri_writes 48 su @ uri_writes 80 du"
  have fit: "fits (length fr) ?ws" "fits 116 ?ws" using assms(1-4) by (simp_all add: header_writes_def)
  have h: "h = writes ?ws fr" by (simp add: h_def header_writes_eq)
  have len: "length (header_writes mt rs tmo n e) = 10" by (simp add: header_writes_def)
  have w: "k < 10 \<Longrightarrow> clear_of (fst (header_writes mt rs tmo n e ! k)) (length (snd (header_writes mt rs tmo n e ! k)))
      (drop (Suc k) (header_writes mt rs tmo n e) @ uri_writes 48 su @ uri_writes 80 du) \<Longrightarrow>
      slice (fst (header_writes mt rs tmo n e ! k)) (length (snd (header_writes mt rs tmo n e ! k))) h = snd (header_writes mt rs tmo n e ! k)" for k
    using slice_nth_write [OF _ fit(1), of k] len unfolding h [symmetric] by (simp add: nth_append)
  note f = w [unfolded header_writes_def]
  show "length h = length fr" "md_data h = md_data fr" using fit h by (simp_all add: length_writes drop_writes)
  show "hdr_sequenceCounter h = n" using f [of 0] assms(3,4) by (simp add: get32_def)
  show "hdr_protocolVersion h = TRDP_PROTO_VER" using f [of 1] assms(3,4) by (simp add: get16_def) (simp add: htons_def)
  show "hdr_msgType h = mt" using f [of 2] assms(3,4) by (simp add: get16_def be_val_htons)
  show "hdr_comId h = comId (m_addr e)" using f [of 3] assms(3,4) by (simp add: get32_def)
  show "hdr_etbTopoCnt h = etbTopoCnt (m_addr e)" using f [of 4] assms(3,4) by (simp add: get32_def)
  show "hdr_opTrnTopoCnt h = opTrnTopoCnt (m_addr e)" using f [of 5] assms(3,4) by (simp add: get32_def)
  show "hdr_datasetLength h = m_dataSize e" using f [of 6] assms(3,4) by (simp add: get32_def)
  show "md_replyStatus h = rs" using f [of 7] assms(3,4) by (simp add: get32_def)
  show "md_sessionID h = (if mt = TRDP_MSG_MN then replicate 16 0 else sessionID e)" using f [of 8] assms(2-4) by (cases "mt = TRDP_MSG_MN") simp_all
  show "md_replyTimeout h = tmo" using f [of 9] assms(3,4) by (simp add: get32_def)
  have l: "length (writes (header_writes mt rs tmo n e @ uri_writes 48 su) fr) = length fr"
    using fit(1) by (intro length_writes) simp
  assume "slice 80 32 fr = replicate 32 0"
  moreover have "slice 80 32 (writes (header_writes mt rs tmo n e @ uri_writes 48 su) fr) = slice 80 32 fr"
    using fit(1) assms(2,3) by (intro slice_writes_other) (simp_all add: header_writes_def)
  ultimately show "md_destinationURI h = uri_text du @ replicate (32 - length (uri_text du)) 0"
    using uri_field [OF assms(4), of 80] l assms(1) h by (simp add: put_uri_writes writes_append)
qed

text \<open>What a message says: its kind, session, parameters and data; the URI of the receiver as text.\<close>

record md_content =
  c_type :: u16
  c_seq :: u32
  c_comId :: u32
  c_status :: s32
  c_timeout :: u32
  c_session :: "u8 list"
  c_destURI :: "u8 list"
  c_data :: "u8 list"

definition says :: "u8 list \<Rightarrow> md_content \<Rightarrow> bool" where
  "says fr c \<longleftrightarrow> md_header_ok fr \<and> hdr_msgType fr = c_type c \<and> hdr_sequenceCounter fr = c_seq c \<and> hdr_comId fr = c_comId c \<and>
     md_replyStatus fr = c_status c \<and> md_replyTimeout fr = c_timeout c \<and> md_sessionID fr = c_session c \<and>
     takeWhile (\<lambda>x. x \<noteq> 0) (md_destinationURI fr) = c_destURI c \<and>
     unat (hdr_datasetLength fr) = length (c_data c) \<and> slice 116 (length (c_data c)) fr = c_data c \<and>
     length fr = unat (trdp_packetSizeMD (hdr_datasetLength fr))"

lemma says_cong:
  assumes "says fr c" and "take 112 b = take 112 fr" and "md_data b = md_data fr" and "length b = length fr"
  shows "says b c"
proof -
  have "slice 116 m b = slice 116 m fr" for m using assms(3) by (simp add: slice_def)
  then show ?thesis
    using assms(1) get32_cong [OF assms(2)] get16_cong [OF assms(2)] slice_cong [OF assms(2)] assms(4)
    by (auto simp: says_def md_header_ok_def)
qed

lemma says_update: "says fr c \<Longrightarrow> says (trdp_mdUpdatePacket fr) c"
  by (rule says_cong) (auto simp: says_def md_header_ok_def mdUpdate_frame)

definition md_type_ok :: "u16 \<Rightarrow> bool" where
  "md_type_ok mt \<longleftrightarrow> mt \<in> {TRDP_MSG_MN, TRDP_MSG_MR, TRDP_MSG_MP, TRDP_MSG_MQ, TRDP_MSG_MC, TRDP_MSG_ME}"

lemma takeWhile_text: "takeWhile (\<lambda>x. x \<noteq> 0) (uri_text u @ replicate n 0) = uri_text u"
  by (cases n; cases u) (auto simp: uri_text_def takeWhile_append takeWhile_takeWhile split: if_splits dest: set_takeWhileD)

text \<open>A message built over cleared memory, without marshalling, says what its arguments are.\<close>

lemma detail_says:
  assumes "trdp_mdDetailSenderPacket w mt rs tmo n pData (m_dataSize e) su du e = (None, e')"
    and "pPacket e = Some (replicate (unat (trdp_packetSizeMD (m_dataSize e))) 0)" and "m_dataSize e \<le> TRDP_MAX_MD_DATA_SIZE"
    and "length (sessionID e) = 16" and "md_type_ok mt" and "bit (m_pktFlags e) TRDP_FLAGS_MARSHALL \<longrightarrow> env_marshall w = None"
    and "pData = None \<longrightarrow> m_dataSize e = 0"
  shows "\<exists>fr. e' = e\<lparr>pPacket := Some fr\<rparr> \<and>
     says fr \<lparr>c_type = mt, c_seq = n, c_comId = comId (m_addr e), c_status = rs, c_timeout = tmo,
       c_session = (if mt = TRDP_MSG_MN then replicate 16 0 else sessionID e), c_destURI = uri_text du,
       c_data = (case pData of None \<Rightarrow> [] | Some d \<Rightarrow> take (unat (m_dataSize e)) d)\<rparr>"
proof -
  let ?z = "replicate (unat (trdp_packetSizeMD (m_dataSize e))) (0 :: u8)"
  let ?h = "md_header mt rs tmo n su du e ?z"
  let ?d = "case pData of None \<Rightarrow> [] | Some d \<Rightarrow> take (unat (m_dataSize e)) d"
  have L: "116 + unat (m_dataSize e) \<le> length ?z" using packetSizeMD_room(1) [OF assms(3)] by simp
  have u: "uri_fits su" "uri_fits du" using assms(1,2) by (auto simp: trdp_mdDetailSenderPacket_def Let_def split: if_splits)
  have "slice 80 32 ?z = replicate 32 0" using L by (simp add: slice_def min_def)
  note f = header_fields [OF _ assms(4) u, of ?z mt rs tmo n] and f13 = header_fields(13) [OF _ assms(4) u this]
  have d: "length ?d = unat (m_dataSize e)" "e' = e\<lparr>pPacket := Some (overwrite 116 ?d ?h)\<rparr>"
    using assms(1,2,6,7) L f(1) u
    by (auto simp: trdp_mdDetailSenderPacket_def overwrite_def Let_def split: if_splits option.splits)
  let ?m = "overwrite 116 ?d ?h"
  have o: "off + 4 \<le> 116 \<Longrightarrow> get32 off ?m = get32 off ?h" "off' + 2 \<le> 116 \<Longrightarrow> get16 off' ?m = get16 off' ?h"
    "off + n' \<le> 116 \<Longrightarrow> slice off n' ?m = slice off n' ?h" for off off' n'
    using L f(1) d(1) by (simp_all add: get_overwrite_other slice_overwrite_other)
  have "slice 116 (length ?d) ?m = ?d" using L f(1) by (simp add: slice_overwrite_same)
  moreover have "length ?m = length ?z" using L f(1) d(1) by simp
  ultimately have "says ?m \<lparr>c_type = mt, c_seq = n, c_comId = comId (m_addr e), c_status = rs, c_timeout = tmo,
       c_session = (if mt = TRDP_MSG_MN then replicate 16 0 else sessionID e), c_destURI = uri_text du, c_data = ?d\<rparr>"
    using L f f13 d(1) assms(3,5) o
    by (simp add: says_def md_header_ok_def md_type_ok_def takeWhile_text)
  then show ?thesis using d(2) by blast
qed

section \<open>Calling\<close>

lemma set_timeout:
  "\<exists>t. trdp_mdSetSessionTimeout w e s = (e\<lparr>m_timeToGo := t\<rparr>, s\<lparr>time_reads := Suc (time_reads s)\<rparr>)"
  by (simp add: trdp_mdSetSessionTimeout_def md_getTime_def Let_def) blast

text \<open>A datagram session gets a socket of the pool.\<close>

lemma connect_udp:
  assumes "trdp_mdConnectSocket w sp src dest True e s = (TRDP_NO_ERR, e', s')" and "\<not> is_tcp e"
    and "m_socketIdx e = TRDP_INVALID_SOCKET_INDEX" and "pool_ok (socks s)" and "opens (env_io w)"
  shows "\<exists>i p. i < VOS_MAX_SOCKET_CNT \<and> e' = e\<lparr>m_socketIdx := int i\<rparr> \<and> s' = s\<lparr>socks := p, time_reads := Suc (time_reads s)\<rparr> \<and>
     sock (iface p ! i) \<noteq> VOS_INVALID_SOCKET \<and> sock_type (iface p ! i) = TRDP_SOCK_MD_UDP \<and> length (iface p) = VOS_MAX_SOCKET_CNT"
proof -
  obtain r x p where r: "trdp_requestSocket (env_io w) (env_clock w (time_reads s)) r (m_socketIdx e) (socks s) = (TRDP_NO_ERR, x, p)"
    and q: "req_useSocket r = VOS_INVALID_SOCKET" "req_usage r = TRDP_SOCK_MD_UDP"
    and e': "e' = e\<lparr>m_socketIdx := x\<rparr>" "s' = s\<lparr>socks := p, time_reads := Suc (time_reads s)\<rparr>"
    using assms(1-3)
    by (auto simp: trdp_mdConnectSocket_def md_requestSocket_def md_getTime_def md_request_def Let_def split: prod.splits option.splits)
  have "req_usage r \<noteq> TRDP_SOCK_MD_TCP" using q(2) by simp
  from request_refs(1,3) [OF assms(4) r q(1) this assms(5)] q(2) e' show ?thesis by auto
qed

text \<open>What the caller asks for, as the message says it.\<close>

definition call_content :: "u16 \<Rightarrow> s32 \<Rightarrow> md_call_args \<Rightarrow> u8 list \<Rightarrow> md_content" where
  "call_content mt rs a sid =
     \<lparr>c_type = mt, c_seq = 0, c_comId = a_comId a, c_status = rs, c_timeout = a_replyTimeout a,
      c_session = (if mt = TRDP_MSG_MN then replicate 16 0 else sid), c_destURI = uri_text (a_destURI a),
      c_data = (case a_data a of None \<Rightarrow> [] | Some d \<Rightarrow> take (unat (a_dataSize a)) d)\<rparr>"

definition call_flags :: "md_call_args \<Rightarrow> MD_SESSION_T \<Rightarrow> u8" where
  "call_flags a s = (if a_pktFlags a = TRDP_FLAGS_DEFAULT then md_flags (mdDefault s) else a_pktFlags a)"

text \<open>An element ready to be sent, on a socket of its session.\<close>

definition armed :: "MD_ELE_T \<Rightarrow> MD_SESSION_T \<Rightarrow> bool" where
  "armed e s \<longleftrightarrow> \<not> is_tcp e \<and> m_privFlags e = 0 \<and> \<not> m_morituri e \<and> sock_index_ok s (m_socketIdx e) \<and>
     sock (md_sock s (m_socketIdx e)) \<noteq> VOS_INVALID_SOCKET \<and> m_socketIdx e \<noteq> TRDP_INVALID_SOCKET_INDEX \<and>
     (\<exists>fr. pPacket e = Some fr \<and> length fr = unat (m_grossSize e))"

lemma new_call_fields [simp]:
  "m_socketIdx (new_call mt a src s) = TRDP_INVALID_SOCKET_INDEX" "m_pktFlags (new_call mt a src s) = call_flags a s"
  "m_dataSize (new_call mt a src s) = a_dataSize a" "m_grossSize (new_call mt a src s) = trdp_packetSizeMD (a_dataSize a)"
  "comId (m_addr (new_call mt a src s)) = a_comId a" "destIpAddr (m_addr (new_call mt a src s)) = a_destIpAddr a"
  "m_privFlags (new_call mt a src s) = 0" "m_morituri (new_call mt a src s) = False" "replyPort (new_call mt a src s) = 0"
  "sessionID (new_call mt a src s) = replicate 16 0" "pPacket (new_call mt a src s) = None"
  "m_pfCbFunction (new_call mt a src s) = (a_callback a \<or> md_pfCbFunction (mdDefault s))"
  "numExpReplies (new_call mt a src s) = (if mt = TRDP_MSG_MR then (if vos_isMulticast (a_destIpAddr a) then a_numExpReplies a else 1) else 0)"
  "numReplies (new_call mt a src s) = 0" "numRepliesQuery (new_call mt a src s) = 0"
  by (simp_all add: new_call_def call_flags_def zero_md_ele_def Let_def)

lemma fill_state: "trdp_mdFillStateElement mt e = e\<lparr>stateEle := stateEle (trdp_mdFillStateElement mt e)\<rparr>"
  by (simp add: trdp_mdFillStateElement_def)

lemma mdDefault_allocs: "mdDefault (s\<lparr>md_allocs := n\<rparr>) = mdDefault s"
  by simp

lemma call_queues:
  assumes c: "trdp_mdCall w mt rs a s = (TRDP_NO_ERR, Some sid, s')" and f: "md_fault s' = None"
    and "\<not> bit (call_flags a s) TRDP_FLAGS_TCP" and "bit (call_flags a s) TRDP_FLAGS_MARSHALL \<longrightarrow> env_marshall w = None"
    and "\<forall>n. length (env_uuid w n) = 16" and "\<not> data_refused (a_data a) (a_dataSize a)" and "pool_ok (socks s)" and "opens (env_io w)"
  shows "\<exists>e fr p t m u. s' = s\<lparr>socks := p, time_reads := t, md_allocs := m, md_uuids := u, pMDSndQueue := e # pMDSndQueue s\<rparr> \<and>
     armed e s' \<and> pPacket e = Some fr \<and> says fr (call_content mt rs a sid) \<and> sessionID e = sid \<and> md_fault s = None \<and>
     stateEle e = stateEle (trdp_mdFillStateElement mt e) \<and> destIpAddr (m_addr e) = a_destIpAddr a \<and> replyPort e = 0 \<and>
     numExpReplies e = (if mt = TRDP_MSG_MR then (if vos_isMulticast (a_destIpAddr a) then a_numExpReplies a else 1) else 0) \<and>
     m_pfCbFunction e = (a_callback a \<or> md_pfCbFunction (mdDefault s)) \<and> numReplies e = 0 \<and> numRepliesQuery e = 0 \<and>
     hdr_datasetLength fr = a_dataSize a"
proof -
  let ?src = "if a_srcIpAddr a = 0 then realIP s else a_srcIpAddr a"
  let ?inf = "mt = TRDP_MSG_MR \<and> a_replyTimeout a = TDRP_MD_INFINITE_TIME"
  define e0 where "e0 = (new_call mt a ?src s)\<lparr>m_interval := (if ?inf then vos_clearTime else usec_interval (a_replyTimeout a))\<rparr>"
  have mt: "mt = TRDP_MSG_MR \<or> mt = TRDP_MSG_MN" by (rule ccontr) (use c in \<open>simp add: trdp_mdCall_def\<close>)
  have e00: "new_call mt a ?src (s\<lparr>md_allocs := Suc (md_allocs s)\<rparr>) = new_call mt a ?src s"
    unfolding new_call_def by (simp only: mdDefault_allocs)
  obtain t where t: "trdp_mdSetSessionTimeout w e0 (s\<lparr>md_allocs := Suc (md_allocs s)\<rparr>) =
      (e0\<lparr>m_timeToGo := t\<rparr>, s\<lparr>md_allocs := Suc (md_allocs s), time_reads := Suc (time_reads s)\<rparr>)"
    using set_timeout [of w e0 "s\<lparr>md_allocs := Suc (md_allocs s)\<rparr>"] by auto
  let ?s1 = "s\<lparr>md_allocs := Suc (md_allocs s), time_reads := Suc (time_reads s)\<rparr>"
  obtain err e2 s2 where cs: "trdp_mdConnectSocket w (a_sendParam a) ?src (a_destIpAddr a) True (e0\<lparr>m_timeToGo := t\<rparr>) ?s1 = (err, e2, s2)"
    by (metis prod_cases3)
  let ?tmo = "if ?inf then 0 else a_replyTimeout a"
  have tmo: "?tmo = a_replyTimeout a" by auto
  note call = c [unfolded trdp_mdCall_def Let_def md_malloc_def prod.case e00 e0_def [symmetric] t cs tmo]
  have err: "err = TRDP_NO_ERR" using call by (auto split: if_splits)
  have "\<not> is_tcp (e0\<lparr>m_timeToGo := t\<rparr>)" "m_socketIdx (e0\<lparr>m_timeToGo := t\<rparr>) = TRDP_INVALID_SOCKET_INDEX" "pool_ok (socks ?s1)"
    using assms(3,7) by (simp_all add: e0_def)
  from connect_udp [OF cs [unfolded err] this assms(8)] obtain i p where
    i: "i < 80" "e2 = e0\<lparr>m_timeToGo := t, m_socketIdx := int i\<rparr>" "s2 = ?s1\<lparr>socks := p, time_reads := Suc (Suc (time_reads s))\<rparr>"
      "sock (iface p ! i) \<noteq> VOS_INVALID_SOCKET" "length (iface p) = 80" by auto
  define e3 where "e3 = (trdp_mdFillStateElement mt e2)\<lparr>sessionID := env_uuid w (md_uuids s)\<rparr>"
  have ms: "trdp_mdManageSessionId w (trdp_mdFillStateElement mt e2) s2 = (e3, s2\<lparr>md_uuids := Suc (md_uuids s)\<rparr>)"
    using i(2,3) by (simp add: trdp_mdManageSessionId_def trdp_mdFillStateElement_def e0_def e3_def)
  let ?e = "e3\<lparr>pPacket := Some (replicate (unat (m_grossSize e3)) 0)\<rparr>"
  obtain g e4 where d: "trdp_mdDetailSenderPacket w mt rs (a_replyTimeout a) 0 (a_data a) (a_dataSize a) (a_srcURI a) (a_destURI a) ?e = (g, e4)"
    by fastforce
  note call2 = call [unfolded err ms prod.case d]
  have sid4: "sid = sessionID e4" and s': "s' = note_fault g (enqueue_sender e4 (s2\<lparr>md_uuids := Suc (md_uuids s), md_allocs := Suc (md_allocs s2)\<rparr>))"
    using call2 by (auto split: if_splits)
  have g: "g = None"
    using f s' by (cases g) (auto simp: note_fault_def md_fail_def split: if_splits)
  have fld: "m_dataSize ?e = a_dataSize a" "length (sessionID ?e) = 16" "m_pktFlags ?e = call_flags a s" "m_grossSize e3 = trdp_packetSizeMD (a_dataSize a)"
    using i(2) assms(5) by (simp_all add: e3_def e0_def trdp_mdFillStateElement_def)
  have prem: "pPacket ?e = Some (replicate (unat (trdp_packetSizeMD (m_dataSize ?e))) 0)" "m_dataSize ?e \<le> TRDP_MAX_MD_DATA_SIZE"
    "md_type_ok mt" "bit (m_pktFlags ?e) TRDP_FLAGS_MARSHALL \<longrightarrow> env_marshall w = None" "a_data a = None \<longrightarrow> m_dataSize ?e = 0"
    "comId (m_addr ?e) = a_comId a" "sessionID ?e = sessionID e3"
    using fld mt assms(4,6) i(2) by (auto simp: md_type_ok_def data_refused_def not_less e3_def e0_def trdp_mdFillStateElement_def)
  have dd: "trdp_mdDetailSenderPacket w mt rs (a_replyTimeout a) 0 (a_data a) (m_dataSize ?e) (a_srcURI a) (a_destURI a) ?e = (None, e4)"
    unfolding fld(1) using d g by simp
  obtain fr where fr': "e4 = ?e\<lparr>pPacket := Some fr\<rparr>" "says fr (call_content mt rs a (sessionID e3))"
    using detail_says [OF dd prem(1,2) fld(2) prem(3-5)] unfolding prem(6,7) fld(1) call_content_def by blast
  then have sid: "sid = sessionID e3" using sid4 by simp
  note fr = fr' [folded sid]
  have len: "hdr_datasetLength fr = a_dataSize a" "length fr = unat (trdp_packetSizeMD (a_dataSize a))"
  proof -
    have "unat (hdr_datasetLength fr) = length (c_data (call_content mt rs a sid))" using fr(2) by (simp add: says_def)
    also have "\<dots> = unat (a_dataSize a)"
      using d g fld(1) prem(5) assms(4) fld(3)
      by (auto simp: call_content_def trdp_mdDetailSenderPacket_def Let_def split: option.splits if_splits)
    finally show "hdr_datasetLength fr = a_dataSize a" by (rule unsigned_word_eqI)
    then show "length fr = unat (trdp_packetSizeMD (a_dataSize a))" using fr(2) by (simp add: says_def)
  qed
  have e4: "is_tcp e4 = bit (call_flags a s) 3" "m_socketIdx e4 = int i" "m_grossSize e4 = trdp_packetSizeMD (a_dataSize a)"
    "m_privFlags e4 = 0" "\<not> m_morituri e4" "pPacket e4 = Some fr" "sessionID e4 = sid" "stateEle e4 = stateEle (trdp_mdFillStateElement mt e4)"
    "destIpAddr (m_addr e4) = a_destIpAddr a" "replyPort e4 = 0" "m_pfCbFunction e4 = (a_callback a \<or> md_pfCbFunction (mdDefault s))"
    "numExpReplies e4 = (if mt = TRDP_MSG_MR then (if vos_isMulticast (a_destIpAddr a) then a_numExpReplies a else 1) else 0)"
    "numReplies e4 = 0" "numRepliesQuery e4 = 0"
    using fr(1) i(2) fld(4) sid by (simp_all add: e3_def e0_def trdp_mdFillStateElement_def)
  have s'': "s' = s\<lparr>socks := p, time_reads := Suc (Suc (time_reads s)), md_allocs := Suc (Suc (md_allocs s)), md_uuids := Suc (md_uuids s),
      pMDSndQueue := e4 # pMDSndQueue s\<rparr>"
    using s' g i(3) e4(1) assms(3) by (simp add: note_fault_def enqueue_sender_def trdp_MDqueueInsFirst_def)
  moreover have "armed e4 s'" using e4 i len assms(3) s'' by (simp add: armed_def sock_index_ok_def md_sock_def)
  moreover have "md_fault s = None" using f s'' by simp
  ultimately show ?thesis using e4 fr(2) len(1) by blast
qed

section \<open>Sending\<close>

text \<open>Nothing that was sent is taken back.\<close>

lemma md_out_same [simp]:
  "md_out (upd_q q f s) = md_out s" "md_out (upd_at q i g s) = md_out s" "md_out (md_fail x s) = md_out s"
  "md_out (upd_udpMd h s) = md_out s" "md_out (upd_tcpMd h s) = md_out s" "md_out (upd_md_stats b h s) = md_out s"
  "md_out (upd_md_sock j k s) = md_out s" "md_out (trdp_mdInvokeCallback e r s) = md_out s"
  by (simp_all add: upd_q_def upd_at_def md_fail_def upd_udpMd_def upd_tcpMd_def upd_md_stats_def upd_md_sock_def
      trdp_mdInvokeCallback_def Let_def split: md_queue.splits)

lemma md_out_time [simp]: "md_out (snd (md_getTime w s)) = md_out s"
  by (simp add: md_getTime_def)

lemma md_out_release [simp]: "md_out (md_release w i t s) = md_out s"
  by (auto simp: md_release_def md_getTime_def Let_def)

lemma md_out_sending [simp]: "md_out (start_sending_timeout w i s) = md_out s"
  by (simp add: start_sending_timeout_def md_getTime_def)

lemma md_out_abort: "md_out (snd (abort_callers idx es s)) = md_out s"
  by (induction idx es s rule: abort_callers.induct) (simp_all add: Let_def split_beta)

lemma md_out_close [simp]: "md_out (close_callers idx s) = md_out s"
  by (simp add: close_callers_def md_out_abort split_beta)

lemma md_out_connect: "md_connect w q i s = (go, s') \<Longrightarrow> md_out s' = md_out s"
  by (auto simp: md_connect_def vos_sockConnect_def Let_def split: if_splits list.splits option.splits prod.splits)

definition sent_more :: "MD_SESSION_T \<Rightarrow> MD_SESSION_T \<Rightarrow> bool" where
  "sent_more s s' \<longleftrightarrow> (\<exists>xs. md_out s' = md_out s @ xs)"

lemma sent_more_trans: "sent_more a b \<Longrightarrow> sent_more b c \<Longrightarrow> sent_more a c"
  by (auto simp: sent_more_def)

lemma sent_more_packet: "trdp_mdSendPacket fd port e s = (r, e', s') \<Longrightarrow> sent_more s s'"
  by (auto simp: trdp_mdSendPacket_def vos_sockSendTCP_def vos_sockSendUDP_def sent_more_def Let_def split: if_splits prod.splits)

lemma sent_more_transmit: "md_transmit w q i st s = (r, s') \<Longrightarrow> sent_more s s'"
proof -
  assume t: "md_transmit w q i st s = (r, s')"
  let ?e = "md_q q s ! i"
  let ?port = "if replyPort ?e \<noteq> 0 \<and> ((case pPacket ?e of Some fr \<Rightarrow> hdr_msgType fr | None \<Rightarrow> 0) = TRDP_MSG_MP \<or>
      (case pPacket ?e of Some fr \<Rightarrow> hdr_msgType fr | None \<Rightarrow> 0) = TRDP_MSG_MQ) then replyPort ?e else udpPort (mdDefault s)"
  obtain res e' s1 where p: "trdp_mdSendPacket (sock (md_sock s (m_socketIdx ?e))) ?port ?e s = (res, e', s1)" by (metis prod_cases3)
  have "md_out (snd (md_transmit w q i st s)) = md_out s1"
    unfolding md_transmit_def Let_def p prod.case by (simp add: md_getTime_def split_beta)
  then have "md_out s' = md_out s1" using t by simp
  then show ?thesis using sent_more_packet [OF p] by (simp add: sent_more_def)
qed

lemma sent_more_one: "md_send_one w q i r s = (r', s') \<Longrightarrow> sent_more s s'"
proof -
  assume a: "md_send_one w q i r s = (r', s')"
  have same: "md_out s' = md_out s \<Longrightarrow> ?thesis" by (simp add: sent_more_def)
  let ?e = "md_q q s ! i"
  show ?thesis
  proof (cases "\<exists>st fr. tx_state (stateEle ?e) = Some st \<and> pPacket ?e = Some fr \<and> m_socketIdx ?e \<noteq> TRDP_INVALID_SOCKET_INDEX \<and>
      \<not> bit (m_privFlags ?e) TRDP_REDUNDANT \<and> sock_index_ok s (m_socketIdx ?e)")
    case False
    then have "md_out s' = md_out s" using a by (auto simp: md_send_one_def Let_def split: option.splits if_splits)
    then show ?thesis by (rule same)
  next
    case True
    then obtain st fr where st: "tx_state (stateEle ?e) = Some st" "pPacket ?e = Some fr" "m_socketIdx ?e \<noteq> TRDP_INVALID_SOCKET_INDEX"
      "\<not> bit (m_privFlags ?e) TRDP_REDUNDANT" "sock_index_ok s (m_socketIdx ?e)" by blast
    obtain go s1 where c: "md_connect w q i (upd_at q i (\<lambda>e. e\<lparr>pPacket := Some (trdp_mdUpdatePacket fr)\<rparr>) s) = (go, s1)" by fastforce
    have o: "md_out s1 = md_out s" using md_out_connect [OF c] by simp
    have "md_out s' = md_out s1 \<or> md_transmit w q i st s1 = (r', s')"
      using a st by (auto simp: md_send_one_def c Let_def split: if_splits)
    then show ?thesis using o sent_more_transmit [of w q i st s1 r' s'] by (auto simp: sent_more_def)
  qed
qed

lemma md_out_close_queue: "md_out (snd (close_queue w rel es s)) = md_out s"
  by (induction w rel es s rule: close_queue.induct) (simp_all add: Let_def split_beta)

lemma md_out_closeSessions [simp]: "md_out (trdp_mdCloseSessions w i fd b s) = md_out s"
  by (simp add: trdp_mdCloseSessions_def Let_def md_out_close_queue split_beta)

lemma sent_more_fold: "sent_more s (snd (foldl (\<lambda>(r, s) i. md_send_one w q i r s) (r, s) is))"
proof (induction "is" arbitrary: r s)
  case Nil
  then show ?case by (simp add: sent_more_def)
next
  case (Cons i "is")
  obtain r' s' where o: "md_send_one w q i r s = (r', s')" by fastforce
  show ?case using Cons.IH [of s' r'] sent_more_one [OF o] o by (simp add: sent_more_trans)
qed

lemma fold_idle:
  assumes "\<forall>i \<in> set is. tx_state (stateEle (md_q q s ! i)) = None"
  shows "foldl (\<lambda>(r, s) i. md_send_one w q i r s) (r, s) is = (r, s)"
  using assms by (induction "is") (auto simp: md_send_one_def)

lemma upd_at_simps [simp]:
  "i < length (md_q q s) \<Longrightarrow> md_q q (upd_at q i f s) = (md_q q s)[i := f (md_q q s ! i)]"
  "sock_index_ok (upd_at q i f s) j = sock_index_ok s j" "md_sock (upd_at q i f s) j = md_sock s j"
  "net_sendto (upd_at q i f s) = net_sendto s" "mdDefault (upd_at q i f s) = mdDefault s"
  by (simp_all add: upd_at_def upd_q_def md_q_def sock_index_ok_def md_sock_def split: md_queue.splits)

text \<open>The port a datagram goes to: replies go where the request came from.\<close>

definition send_port :: "MD_ELE_T \<Rightarrow> u16 \<Rightarrow> MD_SESSION_T \<Rightarrow> u16" where
  "send_port e mt s = (if replyPort e \<noteq> 0 \<and> (mt = TRDP_MSG_MP \<or> mt = TRDP_MSG_MQ) then replyPort e else udpPort (mdDefault s))"

lemma send_step:
  assumes "md_q q s ! i = e" and "i < length (md_q q s)" and "armed e s" and "tx_state (stateEle e) = Some st" and "pPacket e = Some fr"
    and "net_sendto s = Inr k # as" and "length fr \<le> k" and "116 \<le> length fr"
  shows "\<exists>r' s'. md_send_one w q i r s = (r', s') \<and> md_out s' = md_out s @
     [\<lparr>out_fd = sock (md_sock s (m_socketIdx e)), out_dest = Some (destIpAddr (m_addr e), send_port e (hdr_msgType fr) s),
       out_bytes = trdp_mdUpdatePacket fr\<rparr>]"
proof -
  let ?s = "upd_at q i (\<lambda>e. e\<lparr>pPacket := Some (trdp_mdUpdatePacket fr)\<rparr>) s"
  let ?e = "e\<lparr>pPacket := Some (trdp_mdUpdatePacket fr)\<rparr>"
  note u = mdUpdate_frame [OF assms(8)]
  note a = assms(3) [unfolded armed_def]
  have len: "length fr = unat (m_grossSize e)" using a assms(5) by auto
  have e: "md_q q ?s ! i = ?e" using assms(1,2) by simp
  have c: "md_connect w q i ?s = (True, ?s)" using a e by (simp add: md_connect_def Let_def)
  have one: "md_send_one w q i r s = md_transmit w q i st ?s"
    using assms(1,4,5) a by (simp add: md_send_one_def Let_def c)
  let ?port = "send_port e (hdr_msgType fr) s" and ?fd = "sock (md_sock s (m_socketIdx e))"
  have p: "trdp_mdSendPacket ?fd ?port ?e ?s = (TRDP_NO_ERR, ?e\<lparr>m_sendSize := m_grossSize e\<rparr>,
      ?s\<lparr>net_sendto := as, md_out := md_out s @ [\<lparr>out_fd = ?fd, out_dest = Some (destIpAddr (m_addr e), ?port), out_bytes = trdp_mdUpdatePacket fr\<rparr>]\<rparr>)"
    using a assms(6,7) len u(1) by (simp add: trdp_mdSendPacket_def vos_sockSendUDP_def Let_def min_def)
  have port: "(if replyPort ?e \<noteq> 0 \<and> ((case pPacket ?e of Some fr \<Rightarrow> hdr_msgType fr | None \<Rightarrow> 0) = TRDP_MSG_MP \<or>
      (case pPacket ?e of Some fr \<Rightarrow> hdr_msgType fr | None \<Rightarrow> 0) = TRDP_MSG_MQ) then replyPort ?e else udpPort (mdDefault ?s)) = ?port"
    using u(6) [of 6] by (simp add: send_port_def)
  have k: "sock (md_sock ?s (m_socketIdx ?e)) = ?fd" by simp
  have "md_out (snd (md_transmit w q i st ?s)) = md_out s @
     [\<lparr>out_fd = ?fd, out_dest = Some (destIpAddr (m_addr e), ?port), out_bytes = trdp_mdUpdatePacket fr\<rparr>]"
    unfolding md_transmit_def Let_def e port k p prod.case by (simp add: md_getTime_def split_beta)
  then show ?thesis using one by (metis prod.collapse)
qed

lemma send_first:
  assumes "pMDSndQueue s = e # es" and "armed e s" and "tx_state (stateEle e) = Some st" and "pPacket e = Some fr"
    and "net_sendto s = Inr k # as" and "length fr \<le> k" and "116 \<le> length fr"
  shows "\<exists>r s' more. trdp_mdSend w s = (r, s') \<and> md_out s' = md_out s @
     \<lparr>out_fd = sock (md_sock s (m_socketIdx e)), out_dest = Some (destIpAddr (m_addr e), send_port e (hdr_msgType fr) s),
       out_bytes = trdp_mdUpdatePacket fr\<rparr> # more"
proof -
  have h: "md_q SndQ s ! 0 = e" "0 < length (md_q SndQ s)" using assms(1) by (simp_all add: md_q_def)
  from send_step [OF h assms(2-7)] obtain r' s1 where
    o: "md_send_one w SndQ 0 TRDP_NO_ERR s = (r', s1)" and out: "md_out s1 = md_out s @
     [\<lparr>out_fd = sock (md_sock s (m_socketIdx e)), out_dest = Some (destIpAddr (m_addr e), send_port e (hdr_msgType fr) s),
       out_bytes = trdp_mdUpdatePacket fr\<rparr>]" by blast
  have l: "[0..<length (pMDSndQueue s)] = 0 # [1..<length (pMDSndQueue s)]" using upt_conv_Cons [of 0 "length (pMDSndQueue s)"] assms(1) by simp
  let ?f = "\<lambda>q. \<lambda>(r, s) i. md_send_one w q i r s"
  obtain r2 s2 where f: "foldl (?f SndQ) (r', s1) [1..<length (pMDSndQueue s)] = (r2, s2)" by fastforce
  obtain r3 s3 where g: "foldl (?f RcvQ) (r2, s2) [0..<length (pMDRcvQueue s2)] = (r3, s3)" by fastforce
  have "sent_more s1 s3"
    using sent_more_fold [of s1 w SndQ r' "[1..<length (pMDSndQueue s)]"] sent_more_fold [of s2 w RcvQ r2 "[0..<length (pMDRcvQueue s2)]"]
    unfolding f g by (auto intro: sent_more_trans)
  then obtain more where "md_out s3 = md_out s1 @ more" by (auto simp: sent_more_def)
  moreover have "trdp_mdSend w s = (r3, trdp_mdCloseSessions w TRDP_INVALID_SOCKET_INDEX VOS_INVALID_SOCKET True s3)"
    using o f g by (simp add: trdp_mdSend_def l)
  ultimately show ?thesis using out by auto
qed

lemma send_reply:
  assumes "\<forall>e \<in> set (pMDSndQueue s). tx_state (stateEle e) = None" and "i < length (pMDRcvQueue s)"
    and "\<forall>j < length (pMDRcvQueue s). j \<noteq> i \<longrightarrow> tx_state (stateEle (pMDRcvQueue s ! j)) = None"
    and "pMDRcvQueue s ! i = e" and "armed e s" and "tx_state (stateEle e) = Some st" and "pPacket e = Some fr"
    and "net_sendto s = Inr k # as" and "length fr \<le> k" and "116 \<le> length fr"
  shows "\<exists>r s' more. trdp_mdSend w s = (r, s') \<and> md_out s' = md_out s @
     \<lparr>out_fd = sock (md_sock s (m_socketIdx e)), out_dest = Some (destIpAddr (m_addr e), send_port e (hdr_msgType fr) s),
       out_bytes = trdp_mdUpdatePacket fr\<rparr> # more"
proof -
  let ?f = "\<lambda>q. \<lambda>(r, s) i. md_send_one w q i r s"
  have f1: "foldl (?f SndQ) (TRDP_NO_ERR, s) [0..<length (pMDSndQueue s)] = (TRDP_NO_ERR, s)"
    using assms(1) by (intro fold_idle) (simp add: md_q_def)
  have f2: "foldl (?f RcvQ) (TRDP_NO_ERR, s) [0..<i] = (TRDP_NO_ERR, s)"
    using assms(2,3) by (intro fold_idle) (simp add: md_q_def)
  have h: "md_q RcvQ s ! i = e" "i < length (md_q RcvQ s)" using assms(2,4) by (simp_all add: md_q_def)
  from send_step [OF h assms(5-10)] obtain r' s1 where
    o: "md_send_one w RcvQ i TRDP_NO_ERR s = (r', s1)" and out: "md_out s1 = md_out s @
     [\<lparr>out_fd = sock (md_sock s (m_socketIdx e)), out_dest = Some (destIpAddr (m_addr e), send_port e (hdr_msgType fr) s),
       out_bytes = trdp_mdUpdatePacket fr\<rparr>]" by blast
  have l: "[0..<length (pMDRcvQueue s)] = [0..<i] @ i # [Suc i..<length (pMDRcvQueue s)]"
    using assms(2) by (metis less_imp_le_nat upt_add_eq_append upt_conv_Cons zero_le le_add_diff_inverse plus_nat.add_0)
  obtain r3 s3 where g: "foldl (?f RcvQ) (r', s1) [Suc i..<length (pMDRcvQueue s)] = (r3, s3)" by fastforce
  have "sent_more s1 s3" using sent_more_fold [of s1 w RcvQ r' "[Suc i..<length (pMDRcvQueue s)]"] unfolding g by simp
  then obtain more where "md_out s3 = md_out s1 @ more" by (auto simp: sent_more_def)
  moreover have "trdp_mdSend w s = (r3, trdp_mdCloseSessions w TRDP_INVALID_SOCKET_INDEX VOS_INVALID_SOCKET True s3)"
    using o g f1 f2 by (simp add: trdp_mdSend_def l)
  ultimately show ?thesis using out by auto
qed

section \<open>Receiving\<close>

text \<open>The receive element is free or has a buffer of the minimal size.\<close>

definition rcv_ready :: "MD_SESSION_T \<Rightarrow> bool" where
  "rcv_ready s \<longleftrightarrow> (case pMDRcvEle s of None \<Rightarrow> True | Some e \<Rightarrow> (case pPacket e of None \<Rightarrow> True | Some b \<Rightarrow> 1480 \<le> length b))"

lemma clear_tcp: "\<not> bit (x AND NOT (push_bit TRDP_FLAGS_TCP 1) :: u8) TRDP_FLAGS_TCP"
  by (simp add: bit_and_iff bit_not_iff bit_push_bit_iff del: push_bit_of_1 push_bit_numeral)

lemma get_buffer_ready:
  assumes "rcv_ready s" and "\<forall>i. env_alloc w i" and "sock_type (iface (socks s) ! k) \<noteq> TRDP_SOCK_MD_TCP"
  shows "\<exists>e b m. get_buffer w k s = (True, s\<lparr>pMDRcvEle := Some e, md_allocs := m\<rparr>) \<and> pPacket e = Some b \<and> 1480 \<le> length b \<and> \<not> is_tcp e"
proof -
  define f where "f e = e\<lparr>m_pktFlags := m_pktFlags e AND NOT (push_bit TRDP_FLAGS_TCP 1)\<rparr>" for e :: MD_ELE_T
  define e0 where "e0 = (case pMDRcvEle s of Some e \<Rightarrow> e | None \<Rightarrow> zero_md_ele\<lparr>m_pktFlags := md_flags (mdDefault s)\<rparr>)"
  define m where "m = (if pMDRcvEle s = None then Suc (md_allocs s) else md_allocs s)"
  have tcp: "\<not> is_tcp (f e)" "\<not> is_tcp ((f e)\<lparr>pPacket := p\<rparr>)" for e p using clear_tcp by (simp_all add: f_def)
  have g: "get_buffer w k s =
      (if pPacket (f e0) \<noteq> None then (True, s\<lparr>pMDRcvEle := Some (f e0), md_allocs := m\<rparr>)
       else (True, s\<lparr>pMDRcvEle := Some ((f e0)\<lparr>pPacket := Some (replicate 1480 0)\<rparr>), md_allocs := Suc m\<rparr>))"
    using assms(2,3) by (simp add: get_buffer_def md_malloc_def Let_def m_def e0_def f_def split: option.splits)
  show ?thesis
  proof (cases "pPacket (f e0)")
    case None
    then show ?thesis using g tcp(2) by (intro exI [of _ "(f e0)\<lparr>pPacket := Some (replicate 1480 0)\<rparr>"]) auto
  next
    case (Some b)
    then have "1480 \<le> length b" using assms(1) by (auto simp: e0_def f_def rcv_ready_def zero_md_ele_def split: option.splits)
    then show ?thesis using g tcp(1) Some by (intro exI [of _ "f e0"]) auto
  qed
qed

text \<open>A datagram with a message is read in two steps, the header and then all of it.\<close>

definition got_datagram :: "in_datagram \<Rightarrow> MD_SESSION_T \<Rightarrow> MD_ELE_T \<Rightarrow> bool" where
  "got_datagram d s e \<longleftrightarrow> m_grossSize e = of_nat (length (in_bytes d)) \<and> \<not> is_tcp e \<and>
     (\<exists>b. pPacket e = Some b \<and> take (length (in_bytes d)) b = in_bytes d \<and> length (in_bytes d) \<le> length b) \<and>
     srcIpAddr (m_addr e) = in_src d \<and> destIpAddr (m_addr e) = (case in_dest d of Some a \<Rightarrow> a | None \<Rightarrow> realIP s) \<and> replyPort e = in_port d"

lemma peek_datagram:
  assumes "net_udp s fd = Inr d # as" and "in_bytes d \<noteq> []" and "fd \<noteq> VOS_INVALID_SOCKET"
  shows "vos_sockReceiveUDP fd True s = (TRDP_NO_ERR, Some d, s)"
    and "vos_sockReceiveUDP fd False s = (TRDP_NO_ERR, Some d, s\<lparr>net_udp := (net_udp s)(fd := as)\<rparr>)"
proof -
  have "(net_udp s)(fd := Inr d # as) = net_udp s" using assms(1) by (simp add: fun_upd_idem)
  then show "vos_sockReceiveUDP fd True s = (TRDP_NO_ERR, Some d, s)"
    using assms by (simp add: vos_sockReceiveUDP_def)
  show "vos_sockReceiveUDP fd False s = (TRDP_NO_ERR, Some d, s\<lparr>net_udp := (net_udp s)(fd := as)\<rparr>)"
    using assms by (simp add: vos_sockReceiveUDP_def)
qed

lemma recv_udp:
  assumes "pMDRcvEle s = Some e" and "pPacket e = Some b0" and "1480 \<le> length b0" and "\<not> is_tcp e"
    and d: "net_udp s fd = Inr d # as" "in_bytes d = trdp_mdUpdatePacket fr" "says fr c" and "fd \<noteq> VOS_INVALID_SOCKET" and "\<forall>i. env_alloc w i"
  shows "\<exists>e' m. trdp_mdRecvUDPPacket w fd s = (TRDP_NO_ERR, s\<lparr>pMDRcvEle := Some e', net_udp := (net_udp s)(fd := as), md_allocs := m\<rparr>) \<and>
     got_datagram d s e'"
proof -
  let ?b = "trdp_mdUpdatePacket fr" let ?n = "hdr_datasetLength fr" let ?g = "trdp_packetSizeMD ?n"
  note h = d(3) [unfolded says_def md_header_ok_def]
  have hok: "md_header_ok fr" using d(3) by (simp add: says_def)
  have l: "116 \<le> length fr" and n: "?n \<le> 65388" and G: "length fr = unat ?g" using h by simp_all
  note u = mdUpdate_frame [OF l]
  have bn: "?b \<noteq> []" "length ?b = unat ?g" "hdr_datasetLength ?b = ?n" using l u(1) u(5) [of 20] G by auto
  have room: "116 \<le> unat ?g" "unat ?g \<le> 65504" using packetSizeMD_room [OF n] by simp_all
  define a where "a = (m_addr e)\<lparr>srcIpAddr := in_src d, destIpAddr := (case in_dest d of Some a \<Rightarrow> a | None \<Rightarrow> realIP s)\<rparr>"
  define e1 where "e1 = e\<lparr>m_addr := a, replyPort := in_port d, pPacket := Some (overwrite 0 (take 116 ?b) b0)\<rparr>"
  have ln: "length (take 116 ?b) = 116" using l u(1) by simp
  have s1: "take_datagram 116 (Some d) (upd_rcv (\<lambda>e. e\<lparr>m_addr := (m_addr e)\<lparr>srcIpAddr := 0, destIpAddr := realIP s\<rparr>\<rparr>) s) =
      (116, s\<lparr>pMDRcvEle := Some e1\<rparr>)"
    using assms(1-3) ln d(2)
    by (simp add: take_datagram_def fill_buf_def upd_rcv_def rcv_ele_def rcv_buf_def Let_def e1_def a_def split: option.splits)
  let ?s0 = "upd_rcv (\<lambda>e. e\<lparr>m_addr := (m_addr e)\<lparr>srcIpAddr := 0, destIpAddr := realIP s\<rparr>\<rparr>) s"
  have pk: "vos_sockReceiveUDP fd True ?s0 = (TRDP_NO_ERR, Some d, ?s0)"
    using d(1,2) bn(1) assms(8) by (intro peek_datagram) (simp_all add: upd_rcv_def)
  let ?s1 = "s\<lparr>pMDRcvEle := Some e1\<rparr>"
  have b1: "rcv_buf ?s1 = overwrite 0 (take 116 ?b) b0" "rcv_ele ?s1 = e1" by (simp_all add: rcv_buf_def rcv_ele_def e1_def)
  have t1: "take 116 (overwrite 0 (take 116 ?b) b0) = take 116 ?b" using ln by (simp add: overwrite_def)
  have chk: "trdp_mdCheck ?s1 (rcv_buf ?s1) 116 True = TRDP_NO_ERR"
    unfolding b1 mdCheck_header [OF t1] by (rule updated_header_accepted [OF hok]) simp_all
  have len1: "hdr_datasetLength (rcv_buf ?s1) = ?n"
    unfolding b1 using get32_cong [OF t1, of 20] bn(3) by simp
  let ?big = "?g > cMinimumMDSize"
  define m where "m = (if ?big then Suc (md_allocs s) else md_allocs s)"
  define b2 where "b2 = (if ?big then replicate (unat ?g) 0 else overwrite 0 (take 116 ?b) b0)"
  define e2 where "e2 = e1\<lparr>m_dataSize := ?n, m_grossSize := ?g, pPacket := Some b2\<rparr>"
  have l2: "unat ?g \<le> length b2" using assms(3) ln by (simp add: b2_def word_less_nat_alt)
  let ?s2 = "s\<lparr>pMDRcvEle := Some e2, md_allocs := m\<rparr>"
  have pk2: "vos_sockReceiveUDP fd False ?s2 = (TRDP_NO_ERR, Some d, ?s2\<lparr>net_udp := (net_udp s)(fd := as)\<rparr>)"
    using peek_datagram(2) [of ?s2 fd d as] d(1,2) bn(1) assms(8) by simp
  define e3 where "e3 = e2\<lparr>pPacket := Some (overwrite 0 ?b b2)\<rparr>"
  have tk: "take (unat ?g) ?b = ?b" using bn(2) by simp
  have s3: "take_datagram ?g (Some d) (?s2\<lparr>net_udp := (net_udp s)(fd := as)\<rparr>) =
      (of_nat (length ?b), s\<lparr>pMDRcvEle := Some e3, net_udp := (net_udp s)(fd := as), md_allocs := m\<rparr>)"
    using l2 d(2) bn(2) tk
    by (simp add: take_datagram_def fill_buf_def upd_rcv_def rcv_ele_def rcv_buf_def Let_def e3_def e2_def e1_def a_def split: option.splits)
  have "trdp_mdRecvUDPPacket w fd s = (TRDP_NO_ERR, s\<lparr>pMDRcvEle := Some e3, net_udp := (net_udp s)(fd := as), md_allocs := m\<rparr>)"
  proof (cases ?big)
    case True
    have "upd_rcv (\<lambda>e. e\<lparr>pPacket := Some (replicate (unat ?g) 0)\<rparr>)
        ((upd_rcv (\<lambda>e. e\<lparr>m_dataSize := ?n, m_grossSize := ?g\<rparr>) ?s1)\<lparr>md_allocs := Suc (md_allocs s)\<rparr>) = ?s2"
      using True by (simp add: upd_rcv_def rcv_ele_def e2_def b2_def m_def)
    moreover have "md_allocs (upd_rcv (\<lambda>e. e\<lparr>m_dataSize := ?n, m_grossSize := ?g\<rparr>) ?s1) = md_allocs s" by (simp add: upd_rcv_def)
    ultimately show ?thesis
      unfolding trdp_mdRecvUDPPacket_def Let_def pk prod.case s1 len1 using chk True assms(9) pk2 s3 by (simp add: md_malloc_def)
  next
    case False
    have "upd_rcv (\<lambda>e. e\<lparr>m_dataSize := ?n, m_grossSize := ?g\<rparr>) ?s1 = ?s2"
      using False by (simp add: upd_rcv_def rcv_ele_def e2_def b2_def m_def e1_def)
    then show ?thesis
      unfolding trdp_mdRecvUDPPacket_def Let_def pk prod.case s1 len1 using chk False pk2 s3 by simp
  qed
  moreover have "got_datagram d s e3"
    using d(2) bn(2) l2 assms(4) room
    by (simp add: got_datagram_def e3_def e2_def e1_def a_def overwrite_def)
  ultimately show ?thesis by blast
qed

text \<open>What the buffer of a received message says, with whatever is behind the message.\<close>

lemma buffer_says:
  assumes "says fr c" and "take (length fr) b = trdp_mdUpdatePacket fr"
  shows "hdr_msgType b = c_type c" "hdr_sequenceCounter b = c_seq c" "hdr_comId b = c_comId c" "md_replyStatus b = c_status c"
    "md_replyTimeout b = c_timeout c" "md_sessionID b = c_session c" "takeWhile (\<lambda>x. x \<noteq> 0) (md_destinationURI b) = c_destURI c"
    "unat (hdr_datasetLength b) = length (c_data c)" "take (length (c_data c)) (md_data b) = c_data c"
    "trdp_mdCheck s b (of_nat (length fr)) h = TRDP_NO_ERR"
proof -
  let ?u = "trdp_mdUpdatePacket fr"
  have hok: "md_header_ok fr" and G: "length fr = unat (trdp_packetSizeMD (hdr_datasetLength fr))"
    using assms(1) by (simp_all add: says_def)
  then have n: "hdr_datasetLength fr \<le> 65388" and L: "116 \<le> length fr" by (simp_all add: md_header_ok_def)
  have lu: "length ?u = length fr" using mdUpdate_frame(1) [OF L] .
  have t: "take (length fr) b = take (length fr) ?u" using assms(2) lu by simp
  have u: "says ?u c" by (rule says_update [OF assms(1)])
  have g: "off + 4 \<le> 116 \<Longrightarrow> get32 off b = get32 off ?u" "off' + 2 \<le> 116 \<Longrightarrow> get16 off' b = get16 off' ?u"
    "off + m \<le> length fr \<Longrightarrow> slice off m b = slice off m ?u" for off off' m
    using get32_cong [OF t] get16_cong [OF t] slice_cong [OF t] L by auto
  have len: "unat (hdr_datasetLength fr) = length (c_data c)" using assms(1) by (simp add: says_def)
  have nl: "116 + length (c_data c) \<le> length fr" using packetSizeMD_room(1) [OF n] G len by simp
  show "hdr_msgType b = c_type c" "hdr_sequenceCounter b = c_seq c" "hdr_comId b = c_comId c" "md_replyStatus b = c_status c"
    "md_replyTimeout b = c_timeout c" "md_sessionID b = c_session c" "takeWhile (\<lambda>x. x \<noteq> 0) (md_destinationURI b) = c_destURI c"
    "unat (hdr_datasetLength b) = length (c_data c)"
    using u g L by (simp_all add: says_def)
  have "slice 116 (length (c_data c)) b = c_data c" using u g(3) [OF nl] by (simp add: says_def)
  then show "take (length (c_data c)) (md_data b) = c_data c" by (simp add: slice_def)
  have "take 116 b = take 116 ?u" using arg_cong [OF t, of "take 116"] L by simp
  moreover have "trdp_mdCheck s ?u (of_nat (length fr)) h = TRDP_NO_ERR"
  proof (rule updated_header_accepted [OF hok])
    have "(of_nat (length fr) :: u32) = trdp_packetSizeMD (hdr_datasetLength fr)" using G by simp
    moreover have "116 \<le> unat (trdp_packetSizeMD (hdr_datasetLength fr))" "unat (trdp_packetSizeMD (hdr_datasetLength fr)) \<le> 65504"
      "unat (116 + hdr_datasetLength fr) \<le> unat (trdp_packetSizeMD (hdr_datasetLength fr))"
      using packetSizeMD_room [OF n] n by (simp_all add: unat_word_ariths word_le_nat_alt)
    ultimately show "116 \<le> (of_nat (length fr) :: u32)" "(of_nat (length fr) :: u32) \<le> 65504" "h \<or> 116 + hdr_datasetLength fr \<le> (of_nat (length fr) :: u32)"
      by (simp_all add: word_le_nat_alt)
  qed
  ultimately show "trdp_mdCheck s b (of_nat (length fr)) h = TRDP_NO_ERR" using mdCheck_header [of b ?u] by simp
qed

text \<open>The whole of receiving up to the protocol: only the receive element, the socket and the statistics change.\<close>

lemma recv_message:
  assumes "rcv_ready s" and alloc: "\<forall>i. env_alloc w i" and t: "sock_type (iface (socks s) ! k) \<noteq> TRDP_SOCK_MD_TCP"
    and fd: "sock (iface (socks s) ! k) = fd" "fd \<noteq> VOS_INVALID_SOCKET" and n: "net_udp s fd = Inr d # as"
    and b: "in_bytes d = trdp_mdUpdatePacket fr" "says fr c"
  shows "\<exists>s0 e b st u m. get_buffer w k s = (True, s0) \<and> sock (iface (socks s0) ! k) = fd \<and>
     trdp_mdRecvPacket w fd s0 = (TRDP_NO_ERR, s\<lparr>pMDRcvEle := Some e, net_udp := u, md_allocs := m, stats := st\<rparr>) \<and>
     pPacket e = Some b \<and> take (length fr) b = trdp_mdUpdatePacket fr \<and> srcIpAddr (m_addr e) = in_src d \<and>
     destIpAddr (m_addr e) = (case in_dest d of Some a \<Rightarrow> a | None \<Rightarrow> realIP s) \<and> replyPort e = in_port d"
proof -
  from get_buffer_ready [OF assms(1) alloc t] obtain e0 b0 m0 where g: "get_buffer w k s = (True, s\<lparr>pMDRcvEle := Some e0, md_allocs := m0\<rparr>)"
    "pPacket e0 = Some b0" "1480 \<le> length b0" "\<not> is_tcp e0" by blast
  let ?s0 = "s\<lparr>pMDRcvEle := Some e0, md_allocs := m0\<rparr>"
  have n0: "net_udp ?s0 fd = Inr d # as" "pMDRcvEle ?s0 = Some e0" using n by simp_all
  from recv_udp [OF n0(2) g(2-4) n0(1) b fd(2) alloc] obtain e m where
    r: "trdp_mdRecvUDPPacket w fd ?s0 = (TRDP_NO_ERR, ?s0\<lparr>pMDRcvEle := Some e, net_udp := (net_udp ?s0)(fd := as), md_allocs := m\<rparr>)"
    and e: "got_datagram d ?s0 e" by blast
  have "116 \<le> length fr" using b(2) by (simp add: says_def md_header_ok_def)
  then have L: "length (in_bytes d) = length fr" using b(1) by (simp add: mdUpdate_frame)
  then obtain bb where bb: "pPacket e = Some bb" "take (length fr) bb = trdp_mdUpdatePacket fr" using e b(1) by (auto simp: got_datagram_def)
  let ?s1 = "?s0\<lparr>pMDRcvEle := Some e, net_udp := (net_udp ?s0)(fd := as), md_allocs := m\<rparr>"
  have "trdp_mdCheck ?s1 (rcv_buf ?s1) (m_grossSize (rcv_ele ?s1)) False = TRDP_NO_ERR"
    using buffer_says(10) [OF b(2) bb(2)] bb(1) e L by (simp add: rcv_buf_def rcv_ele_def got_datagram_def)
  moreover have "\<not> is_tcp (rcv_ele ?s0)" using g(4) by (simp add: rcv_ele_def)
  ultimately have "\<exists>st. trdp_mdRecvPacket w fd ?s0 = (TRDP_NO_ERR, ?s1\<lparr>stats := st\<rparr>)"
    using r by (simp add: trdp_mdRecvPacket_def upd_md_stats_def upd_udpMd_def Let_def) blast
  then obtain st where "trdp_mdRecvPacket w fd ?s0 = (TRDP_NO_ERR, ?s1\<lparr>stats := st\<rparr>)" by blast
  then show ?thesis
    using g(1) bb e fd(1)
    by (intro exI [of _ ?s0] exI [of _ e] exI [of _ bb] exI [of _ st] exI [of _ "(net_udp s)(fd := as)"] exI [of _ m])
       (simp add: got_datagram_def split: option.splits)
qed

section \<open>A request reaches its listener\<close>

text \<open>A listener that a message to an address is for; the topography counters always fit in this build.\<close>

definition wants :: "md_content \<Rightarrow> u32 \<Rightarrow> MD_LIS_ELE_T \<Rightarrow> bool" where
  "wants c destIp l \<longleftrightarrow> (mcGroup (l_addr l) = 0 \<or> mcGroup (l_addr l) = destIp) \<and>
     (if hd (l_destURI l) = 0 then c_comId c = comId (l_addr l)
      else map to_lower (takeWhile (\<lambda>x. x \<noteq> 0) (take 32 (l_destURI l))) = map to_lower (c_destURI c))"

lemma listens_wants:
  assumes "hdr_comId b = c_comId c" and "takeWhile (\<lambda>x. x \<noteq> 0) (md_destinationURI b) = c_destURI c"
  shows "listens False b ip l = wants c ip l"
proof -
  have "take 32 (md_destinationURI b) = md_destinationURI b" by (simp add: slice_def)
  then show ?thesis
    using assms by (auto simp: listens_def wants_def vos_strnicmp_def outdated_def trdp_validTopoCounters_def)
qed

lemma no_session:
  "\<forall>e \<in> set es. \<exists>fr. pPacket e = Some fr \<and> md_sessionID fr \<noteq> sid \<Longrightarrow> find_session i sid es = Inr None"
  by (induction es arbitrary: i) auto

text \<open>The callback for a message: what it is told.\<close>

definition told :: "MD_ELE_T \<Rightarrow> u8 list \<Rightarrow> TRDP_MD_INFO_T \<Rightarrow> bool" where
  "told e b m \<longleftrightarrow> i_srcIpAddr m = srcIpAddr (m_addr e) \<and> i_destIpAddr m = destIpAddr (m_addr e) \<and> i_msgType m = hdr_msgType b \<and>
     i_seqCount m = hdr_sequenceCounter b \<and> i_comId m = hdr_comId b \<and> i_sessionId m = md_sessionID b \<and> i_pUserRef m = m_pUserRef e \<and>
     i_replyTimeout m = md_replyTimeout b \<and> i_resultCode m = TRDP_NO_ERR \<and> i_aboutToDie m = m_morituri e \<and>
     (0 \<le> sint (md_replyStatus b) \<longrightarrow> i_userStatus m = ucast (md_replyStatus b) \<and> i_replyStatus m = TRDP_REPLY_OK)"

lemma callback_told:
  assumes "pPacket e = Some b"
  shows "\<exists>m. trdp_mdInvokeCallback e TRDP_NO_ERR s = s\<lparr>md_calls := md_calls s @ [(m, Some (md_data b), hdr_datasetLength b)]\<rparr> \<and> told e b m"
  using assms unfolding trdp_mdInvokeCallback_def Let_def
  by (intro exI [of _ "fst (last (md_calls (trdp_mdInvokeCallback e TRDP_NO_ERR s)))"])
     (simp add: told_def trdp_mdInvokeCallback_def Let_def)

text \<open>A request nobody has seen, for a listener there is: a new session and one call of the user.\<close>

lemma request_handled:
  assumes "pMDRcvEle s = Some e" and "pPacket e = Some b" and ty: "hdr_msgType b = TRDP_MSG_MR"
    and "\<forall>x \<in> set (pMDRcvQueue s). \<exists>fr. pPacket x = Some fr \<and> md_sessionID fr \<noteq> md_sessionID b"
    and "length (pMDRcvQueue s) < unat (maxNumSessions (mdDefault s))"
    and "find_listener 0 (listens False b (destIpAddr (m_addr e))) (pMDListenQueue s) = Some j"
    and cb: "l_pfCbFunction (pMDListenQueue s ! j)"
  shows "\<exists>x m s1. trdp_mdHandleRequest w False k b TRDP_ST_RX_REQ_W4AP_REPLY s = (TRDP_NO_ERR, True, s1) \<and>
     pMDRcvQueue (inform_user b (Some (RcvQ, 0)) s1) = x # pMDRcvQueue s \<and> sessionID x = md_sessionID b \<and>
     stateEle x = TRDP_ST_RX_REQ_W4AP_REPLY \<and> pPacket x = Some b \<and> m_addr x = (m_addr e)\<lparr>etbTopoCnt := etbTopoCnt (l_addr (pMDListenQueue s ! j)),
       opTrnTopoCnt := opTrnTopoCnt (l_addr (pMDListenQueue s ! j))\<rparr> \<and> replyPort x = replyPort e \<and>
     m_pUserRef x = l_pUserRef (pMDListenQueue s ! j) \<and>
     md_calls (inform_user b (Some (RcvQ, 0)) s1) = md_calls s @ [(m, Some (md_data b), hdr_datasetLength b)] \<and> told x b m \<and>
     md_fault (inform_user b (Some (RcvQ, 0)) s1) = md_fault s"
proof -
  have r: "rcv_ele s = e" "rcv_ele (s\<lparr>pMDListenQueue := q\<rparr>) = e" for q using assms(1) by (simp_all add: rcv_ele_def)
  let ?s1 = "new_session w k b TRDP_ST_RX_REQ_W4AP_REPLY j s"
  have h: "trdp_mdHandleRequest w False k b TRDP_ST_RX_REQ_W4AP_REPLY s = (TRDP_NO_ERR, True, ?s1)"
    using assms(5,6) no_session [OF assms(4)] by (simp add: trdp_mdHandleRequest_def r)
  define x where "x = hd (pMDRcvQueue ?s1)"
  have x: "pMDRcvQueue ?s1 = x # pMDRcvQueue s" "sessionID x = md_sessionID b" "stateEle x = TRDP_ST_RX_REQ_W4AP_REPLY" "pPacket x = Some b"
    "m_addr x = (m_addr e)\<lparr>etbTopoCnt := etbTopoCnt (l_addr (pMDListenQueue s ! j)), opTrnTopoCnt := opTrnTopoCnt (l_addr (pMDListenQueue s ! j))\<rparr>"
    "replyPort x = replyPort e" "m_pUserRef x = l_pUserRef (pMDListenQueue s ! j)" "m_pfCbFunction x"
    "md_calls ?s1 = md_calls s" "md_fault ?s1 = md_fault s"
    using assms(2) cb by (simp_all add: x_def new_session_def Let_def md_getTime_def r trdp_MDqueueInsFirst_def)
  from callback_told [OF x(4), of ?s1] obtain m where
    c: "trdp_mdInvokeCallback x TRDP_NO_ERR ?s1 = ?s1\<lparr>md_calls := md_calls ?s1 @ [(m, Some (md_data b), hdr_datasetLength b)]\<rparr>" "told x b m" by blast
  have i: "inform_user b (Some (RcvQ, 0)) ?s1 = ?s1\<lparr>md_calls := md_calls s @ [(m, Some (md_data b), hdr_datasetLength b)]\<rparr>"
    using x(1,3,8,9) c(1) ty by (simp add: inform_user_def md_q_def Let_def)
  show ?thesis
    using h x c(2) by (intro exI [of _ x] exI [of _ m] exI [of _ ?s1]) (simp add: i)
qed

lemma recv_request:
  assumes "rcv_ready r" and alloc: "\<forall>i. env_alloc w i" and t: "sock_type (iface (socks r) ! k) \<noteq> TRDP_SOCK_MD_TCP"
    and fd: "sock (iface (socks r) ! k) = fd" "fd \<noteq> VOS_INVALID_SOCKET" and n: "net_udp r fd = Inr d # as"
    and b: "in_bytes d = trdp_mdUpdatePacket fr" "says fr c" and ty: "c_type c = TRDP_MSG_MR"
    and "\<forall>x \<in> set (pMDRcvQueue r). \<exists>fr. pPacket x = Some fr \<and> md_sessionID fr \<noteq> c_session c"
    and "length (pMDRcvQueue r) < unat (maxNumSessions (mdDefault r))"
    and "find_listener 0 (wants c (case in_dest d of Some a \<Rightarrow> a | None \<Rightarrow> realIP r)) (pMDListenQueue r) = Some j"
    and cb: "l_pfCbFunction (pMDListenQueue r ! j)"
  shows "\<exists>r' x b m. trdp_mdRecv w k r = (TRDP_NO_ERR, r') \<and> pMDRcvQueue r' = x # pMDRcvQueue r \<and> sessionID x = c_session c \<and>
     stateEle x = TRDP_ST_RX_REQ_W4AP_REPLY \<and> pPacket x = Some b \<and> take (length fr) b = trdp_mdUpdatePacket fr \<and>
     srcIpAddr (m_addr x) = in_src d \<and> replyPort x = in_port d \<and> m_pUserRef x = l_pUserRef (pMDListenQueue r ! j) \<and>
     md_calls r' = md_calls r @ [(m, Some (md_data b), hdr_datasetLength b)] \<and> told x b m \<and> md_fault r' = md_fault r"
proof -
  from recv_message [OF assms(1) alloc t fd n b] obtain s0 e bb st u m where
    g: "get_buffer w k r = (True, s0)" "sock (iface (socks s0) ! k) = fd" and
    p: "trdp_mdRecvPacket w fd s0 = (TRDP_NO_ERR, r\<lparr>pMDRcvEle := Some e, net_udp := u, md_allocs := m, stats := st\<rparr>)" and
    e: "pPacket e = Some bb" "take (length fr) bb = trdp_mdUpdatePacket fr" "srcIpAddr (m_addr e) = in_src d"
      "destIpAddr (m_addr e) = (case in_dest d of Some a \<Rightarrow> a | None \<Rightarrow> realIP r)" "replyPort e = in_port d" by (elim exE conjE)
  note says = buffer_says [OF b(2) e(2)]
  let ?s = "r\<lparr>pMDRcvEle := Some e, net_udp := u, md_allocs := m, stats := st\<rparr>"
  have buf: "rcv_buf ?s = bb" using e(1) by (simp add: rcv_buf_def rcv_ele_def)
  have l: "listens False bb ip = wants c ip" for ip using listens_wants [OF says(3,7)] by (intro ext)
  have h: "pMDRcvEle ?s = Some e" "hdr_msgType bb = TRDP_MSG_MR"
    "\<forall>x \<in> set (pMDRcvQueue ?s). \<exists>fr. pPacket x = Some fr \<and> md_sessionID fr \<noteq> md_sessionID bb"
    "length (pMDRcvQueue ?s) < unat (maxNumSessions (mdDefault ?s))"
    "find_listener 0 (listens False bb (destIpAddr (m_addr e))) (pMDListenQueue ?s) = Some j" "l_pfCbFunction (pMDListenQueue ?s ! j)"
    using ty says assms(10-12) cb e(4) by (simp_all add: l)
  from request_handled [OF h(1) e(1) h(2-6), of w k] obtain x i s1 where
    q: "trdp_mdHandleRequest w False k bb TRDP_ST_RX_REQ_W4AP_REPLY ?s = (TRDP_NO_ERR, True, s1)" and
    x: "pMDRcvQueue (inform_user bb (Some (RcvQ, 0)) s1) = x # pMDRcvQueue ?s" "sessionID x = md_sessionID bb"
      "stateEle x = TRDP_ST_RX_REQ_W4AP_REPLY" "pPacket x = Some bb" "m_addr x = (m_addr e)\<lparr>etbTopoCnt := etbTopoCnt (l_addr (pMDListenQueue ?s ! j)),
       opTrnTopoCnt := opTrnTopoCnt (l_addr (pMDListenQueue ?s ! j))\<rparr>" "replyPort x = replyPort e"
      "m_pUserRef x = l_pUserRef (pMDListenQueue ?s ! j)"
      "md_calls (inform_user bb (Some (RcvQ, 0)) s1) = md_calls ?s @ [(i, Some (md_data bb), hdr_datasetLength bb)]" "told x bb i"
      "md_fault (inform_user bb (Some (RcvQ, 0)) s1) = md_fault ?s" by (elim exE conjE)
  have "trdp_mdRecv w k r = (TRDP_NO_ERR, inform_user bb (Some (RcvQ, 0)) s1)"
    using t g p h(2) q by (simp add: trdp_mdRecv_def Let_def buf)
  then show ?thesis
    using x e says(6)
    by (intro exI [of _ "inform_user bb (Some (RcvQ, 0)) s1"] exI [of _ x] exI [of _ bb] exI [of _ i]) simp
qed

text \<open>A request that was accepted is the first message to leave.\<close>

lemma request_sent:
  assumes "tlm_request w a (Some s) = (TRDP_NO_ERR, Some sid, Some s1)" and "md_fault s1 = None"
    and "\<not> bit (call_flags a s) TRDP_FLAGS_TCP" and "bit (call_flags a s) TRDP_FLAGS_MARSHALL \<longrightarrow> env_marshall w = None"
    and "\<forall>n. length (env_uuid w n) = 16" and "pool_ok (socks s)" and "opens (env_io w)"
    and "net_sendto s = Inr n # as" and "unat (trdp_packetSizeMD (a_dataSize a)) \<le> n"
  shows "\<exists>res s2 d more fr c. trdp_mdSend w s1 = (res, s2) \<and> md_out s2 = md_out s1 @ d # more \<and>
     out_dest d = Some (a_destIpAddr a, udpPort (mdDefault s)) \<and> out_bytes d = trdp_mdUpdatePacket fr \<and> says fr c \<and>
     unat (a_dataSize a) = length (c_data c) \<and> c_type c = TRDP_MSG_MR \<and> c_session c = sid \<and> c_comId c = a_comId a \<and>
     c_destURI c = uri_text (a_destURI a) \<and> c_data c = (case a_data a of None \<Rightarrow> [] | Some bs \<Rightarrow> take (unat (a_dataSize a)) bs)"
proof -
  define a' where "a' = a\<lparr>a_replyTimeout := (if a_replyTimeout a = 0 then confirmTimeout (mdDefault s)
     else if a_replyTimeout a = 0xffffffff then 0 else a_replyTimeout a)\<rparr>"
  have a': "a_data a' = a_data a" "a_dataSize a' = a_dataSize a" "a_destIpAddr a' = a_destIpAddr a" "call_flags a' s = call_flags a s" "a_comId a' = a_comId a"
    "a_destURI a' = a_destURI a"
    by (simp_all add: a'_def call_flags_def)
  have size: "\<not> data_refused (a_data a') (a_dataSize a')" and call: "trdp_mdCall w TRDP_MSG_MR TRDP_REPLY_OK a' s = (TRDP_NO_ERR, Some sid, s1)"
    using assms(1) by (auto simp: tlm_request_def Let_def a'_def trdp_validTopoCounters_def split: if_splits prod.splits)
  let ?c = "call_content TRDP_MSG_MR TRDP_REPLY_OK a' sid"
  have fl: "\<not> bit (call_flags a' s) TRDP_FLAGS_TCP" "bit (call_flags a' s) TRDP_FLAGS_MARSHALL \<longrightarrow> env_marshall w = None"
    using assms(3,4) a'(4) by simp_all
  from call_queues [OF call assms(2) fl assms(5) size assms(6,7)] obtain e fr p t m u where
    s1: "s1 = s\<lparr>socks := p, time_reads := t, md_allocs := m, md_uuids := u, pMDSndQueue := e # pMDSndQueue s\<rparr>" and
    e: "armed e s1" "pPacket e = Some fr" "says fr ?c" "stateEle e = stateEle (trdp_mdFillStateElement TRDP_MSG_MR e)"
      "destIpAddr (m_addr e) = a_destIpAddr a'" "replyPort e = 0" "hdr_datasetLength fr = a_dataSize a'" by (elim exE conjE)
  have G: "length fr = unat (trdp_packetSizeMD (a_dataSize a))" "116 \<le> length fr" "unat (a_dataSize a) = length (c_data ?c)"
    using e(3,7) a'(2) by (auto simp: says_def md_header_ok_def)
  have sn: "pMDSndQueue s1 = e # pMDSndQueue s" "net_sendto s1 = Inr n # as" "length fr \<le> n" "mdDefault s1 = mdDefault s"
    "tx_state (stateEle e) = Some TRDP_ST_TX_REQUEST_W4REPLY"
    using assms(8,9) G(1) e(4) by (simp_all add: s1) (simp add: trdp_mdFillStateElement_def tx_state_def)
  let ?d = "\<lparr>out_fd = sock (md_sock s1 (m_socketIdx e)), out_dest = Some (destIpAddr (m_addr e), send_port e (hdr_msgType fr) s1),
       out_bytes = trdp_mdUpdatePacket fr\<rparr>"
  from send_first [OF sn(1) e(1) sn(5) e(2) sn(2,3) G(2), of w] obtain res s2 more where
    snd: "trdp_mdSend w s1 = (res, s2)" "md_out s2 = md_out s1 @ ?d # more" by blast
  have od: "out_dest ?d = Some (a_destIpAddr a, udpPort (mdDefault s))" using e(5,6) a'(3) sn(4) by (simp add: send_port_def)
  have c: "c_type ?c = TRDP_MSG_MR" "c_session ?c = sid" "c_comId ?c = a_comId a" "c_destURI ?c = uri_text (a_destURI a)"
    "c_data ?c = (case a_data a of None \<Rightarrow> [] | Some bs \<Rightarrow> take (unat (a_dataSize a)) bs)"
    by (simp_all add: call_content_def a' cong: option.case_cong)
  show ?thesis using snd od e(3) G(3) c
    by (intro exI [of _ res] exI [of _ s2] exI [of _ ?d] exI [of _ more] exI [of _ fr] exI [of _ ?c]) simp
qed

text \<open>
  C39 (request_reaches_listener): a request over UDP that \<open>tlm_request\<close> accepts, without a fault and
  without marshalling, is told to the listener. It is the first datagram the next \<open>trdp_mdSend\<close>
  hands to a kernel that takes the whole of it, whatever else is queued, and it goes to the UDP
  port of the session. A receiver that reads it from a UDP socket where it is all there is, with
  memory for it, whose sessions all hold a message and have other identifiers, that has room for one
  more and a listener with a callback that wants it, opens a session with the identifier the caller got, which waits for the reply of the application,
  and calls the user of the listener exactly once, with the bytes and the \<open>comId\<close> of the request.
  The sender's pool is well formed, sockets open, and the identifiers made have 16 bytes.
\<close>

theorem request_reaches_listener:
  assumes "tlm_request w a (Some s) = (TRDP_NO_ERR, Some sid, Some s1)" and "md_fault s1 = None"
    and "\<not> bit (call_flags a s) TRDP_FLAGS_TCP" and "bit (call_flags a s) TRDP_FLAGS_MARSHALL \<longrightarrow> env_marshall w = None"
    and "\<forall>n. length (env_uuid w n) = 16" and "pool_ok (socks s)" and "opens (env_io w)"
    and "net_sendto s = Inr n # as" and "unat (trdp_packetSizeMD (a_dataSize a)) \<le> n"
    and "rcv_ready r" and "\<forall>i. env_alloc w' i" and "sock_type (iface (socks r) ! k) \<noteq> TRDP_SOCK_MD_TCP"
    and "sock (iface (socks r) ! k) = fd" and "fd \<noteq> VOS_INVALID_SOCKET"
    and "\<forall>x \<in> set (pMDRcvQueue r). \<exists>fr. pPacket x = Some fr \<and> md_sessionID fr \<noteq> sid"
    and "length (pMDRcvQueue r) < unat (maxNumSessions (mdDefault r))"
    and "find_listener 0 (wants (call_content TRDP_MSG_MR TRDP_REPLY_OK a sid) dst) (pMDListenQueue r) = Some j"
    and "l_pfCbFunction (pMDListenQueue r ! j)"
  shows "\<exists>res s2 d more r' x info data.
     trdp_mdSend w s1 = (res, s2) \<and> md_out s2 = md_out s1 @ d # more \<and> out_dest d = Some (a_destIpAddr a, udpPort (mdDefault s)) \<and>
     trdp_mdRecv w' k (r\<lparr>net_udp := (net_udp r)(fd := [Inr \<lparr>in_bytes = out_bytes d, in_src = src, in_port = port, in_dest = Some dst\<rparr>])\<rparr>) =
       (TRDP_NO_ERR, r') \<and>
     pMDRcvQueue r' = x # pMDRcvQueue r \<and> sessionID x = sid \<and> stateEle x = TRDP_ST_RX_REQ_W4AP_REPLY \<and>
     md_calls r' = md_calls r @ [(info, Some data, a_dataSize a)] \<and>
     take (unat (a_dataSize a)) data = (case a_data a of None \<Rightarrow> [] | Some bs \<Rightarrow> take (unat (a_dataSize a)) bs) \<and>
     i_sessionId info = sid \<and> i_comId info = a_comId a \<and> i_srcIpAddr info = src \<and> i_pUserRef info = l_pUserRef (pMDListenQueue r ! j)"
proof -
  from request_sent [OF assms(1-9)] obtain res s2 d more fr c where
    snd: "trdp_mdSend w s1 = (res, s2)" "md_out s2 = md_out s1 @ d # more" "out_dest d = Some (a_destIpAddr a, udpPort (mdDefault s))"
      "out_bytes d = trdp_mdUpdatePacket fr" and
    c: "says fr c" "unat (a_dataSize a) = length (c_data c)" "c_type c = TRDP_MSG_MR" "c_session c = sid" "c_comId c = a_comId a"
      "c_destURI c = uri_text (a_destURI a)" "c_data c = (case a_data a of None \<Rightarrow> [] | Some bs \<Rightarrow> take (unat (a_dataSize a)) bs)"
    by (elim exE conjE)
  let ?i = "\<lparr>in_bytes = out_bytes d, in_src = src, in_port = port, in_dest = Some dst\<rparr>"
  let ?r = "r\<lparr>net_udp := (net_udp r)(fd := [Inr ?i])\<rparr>"
  have wn: "wants c = wants (call_content TRDP_MSG_MR TRDP_REPLY_OK a sid)"
    using c(5,6) by (intro ext) (simp add: wants_def call_content_def)
  have rr: "rcv_ready ?r" "sock_type (iface (socks ?r) ! k) \<noteq> TRDP_SOCK_MD_TCP" "sock (iface (socks ?r) ! k) = fd" "net_udp ?r fd = [Inr ?i]"
    "in_bytes ?i = trdp_mdUpdatePacket fr" "\<forall>x \<in> set (pMDRcvQueue ?r). \<exists>fr. pPacket x = Some fr \<and> md_sessionID fr \<noteq> c_session c"
    "length (pMDRcvQueue ?r) < unat (maxNumSessions (mdDefault ?r))"
    "find_listener 0 (wants c (case in_dest ?i of Some a \<Rightarrow> a | None \<Rightarrow> realIP ?r)) (pMDListenQueue ?r) = Some j" "l_pfCbFunction (pMDListenQueue ?r ! j)"
    using assms(10,12,13,15-18) c(4) snd(4) by (simp_all add: rcv_ready_def wn)
  from recv_request [OF rr(1) assms(11) rr(2,3) assms(14) rr(4,5) c(1,3) rr(6-9)] obtain r' x b i where
    rv: "trdp_mdRecv w' k ?r = (TRDP_NO_ERR, r')" "pMDRcvQueue r' = x # pMDRcvQueue ?r" "sessionID x = c_session c"
      "stateEle x = TRDP_ST_RX_REQ_W4AP_REPLY" "pPacket x = Some b" "take (length fr) b = trdp_mdUpdatePacket fr"
      "srcIpAddr (m_addr x) = in_src ?i" "m_pUserRef x = l_pUserRef (pMDListenQueue ?r ! j)"
      "md_calls r' = md_calls ?r @ [(i, Some (md_data b), hdr_datasetLength b)]" "told x b i" by (elim exE conjE)
  note bs = buffer_says [OF c(1) rv(6)]
  have "hdr_datasetLength b = a_dataSize a" using bs(8) c(2) by (metis unsigned_word_eqI)
  then show ?thesis
    using snd(1-3) rv bs c(2-7) unfolding told_def
    by (intro exI [of _ res] exI [of _ s2] exI [of _ d] exI [of _ more] exI [of _ r'] exI [of _ x] exI [of _ i] exI [of _ "md_data b"]) simp
qed

section \<open>A reply reaches its caller\<close>

lemma lookup_found:
  "trdp_mdLookupElement k es st sid = Some i \<Longrightarrow> k \<le> i \<and> i - k < length es \<and> stateEle (es ! (i - k)) = st \<and> sessionID (es ! (i - k)) = sid"
proof (induction es arbitrary: k)
  case (Cons e es)
  show ?case
  proof (cases "stateEle e = st \<and> sessionID e = sid")
    case False
    with Cons.prems have "trdp_mdLookupElement (Suc k) es st sid = Some i" by auto
    note h = Cons.IH [OF this]
    then have "i - k = Suc (i - Suc k)" by linarith
    then show ?thesis using h by simp
  qed (use Cons.prems in auto)
qed simp

definition reply_content :: "md_reply_args \<Rightarrow> u8 list \<Rightarrow> MD_ELE_T \<Rightarrow> u32 \<Rightarrow> md_content" where
  "reply_content a sid x cnt =
     \<lparr>c_type = TRDP_MSG_MP, c_seq = cnt, c_comId = r_comId a, c_status = r_status a, c_timeout = 0,
      c_session = sid, c_destURI = uri_text (Some (m_srcURI x)),
      c_data = (case r_data a of None \<Rightarrow> [] | Some d \<Rightarrow> take (unat (r_dataSize a)) d)\<rparr>"

text \<open>A session that waits for the reply of the application, on a socket of its own.\<close>

definition md_waiting :: "MD_SESSION_T \<Rightarrow> MD_ELE_T \<Rightarrow> bool" where
  "md_waiting s x \<longleftrightarrow> \<not> is_tcp x \<and> length (sessionID x) = 16 \<and> sessionID x \<noteq> replicate 16 0 \<and> sock_index_ok s (m_socketIdx x) \<and>
     sock (md_sock s (m_socketIdx x)) \<noteq> VOS_INVALID_SOCKET"

lemma reply_queues:
  assumes "tlm_reply w (Some sid) a (Some s) = (TRDP_NO_ERR, Some s')" and f: "md_fault s' = None"
    and lk: "trdp_mdLookupElement 0 (pMDRcvQueue s) TRDP_ST_RX_REQ_W4AP_REPLY sid = Some i"
    and p0: "pPacket (pMDRcvQueue s ! i) = Some fr0" and wt: "md_waiting s (pMDRcvQueue s ! i)"
    and mar: "bit (m_pktFlags (pMDRcvQueue s ! i)) TRDP_FLAGS_MARSHALL \<longrightarrow> env_marshall w = None"
  defines "x \<equiv> pMDRcvQueue s ! i"
  shows "\<exists>y fr m. s' = s\<lparr>md_allocs := m, pMDRcvQueue := (pMDRcvQueue s)[i := y]\<rparr> \<and> armed y s' \<and> pPacket y = Some fr \<and>
     says fr (reply_content a sid x (hdr_sequenceCounter fr0)) \<and> stateEle y = TRDP_ST_TX_REPLY_ARM \<and>
     destIpAddr (m_addr y) = srcIpAddr (m_addr x) \<and> replyPort y = replyPort x \<and> m_socketIdx y = m_socketIdx x \<and>
     hdr_datasetLength fr = r_dataSize a"
proof -
  let ?a = "a\<lparr>r_timeout := 0\<rparr>"
  have size: "\<not> data_refused (r_data a) (r_dataSize a)" and call: "trdp_mdReply w TRDP_MSG_MP (Some sid) ?a s = (TRDP_NO_ERR, s')"
    using assms(1) by (auto simp: tlm_reply_def Let_def split: if_splits prod.splits)
  note w = wt [folded x_def, unfolded md_waiting_def]
  have sid: "sessionID x = sid" "i < length (pMDRcvQueue s)" using lookup_found [OF lk] by (simp_all add: x_def)
  define y0 where "y0 = trdp_mdFillStateElement TRDP_MSG_MP (x\<lparr>m_addr := cross_over (m_addr x) (r_comId a), m_privFlags := 0,
     m_dataSize := r_dataSize a, m_grossSize := trdp_packetSizeMD (r_dataSize a), m_sendSize := 0, numReplies := 0, m_morituri := False\<rparr>)"
  have y0: "\<not> is_tcp y0" "sessionID y0 = sid" "m_dataSize y0 = r_dataSize a" "m_grossSize y0 = trdp_packetSizeMD (r_dataSize a)"
    "m_pktFlags y0 = m_pktFlags x" "comId (m_addr y0) = r_comId a" "destIpAddr (m_addr y0) = srcIpAddr (m_addr x)" "m_destURI y0 = m_destURI x"
    "m_srcURI y0 = m_srcURI x" "replyPort y0 = replyPort x" "m_socketIdx y0 = m_socketIdx x" "m_privFlags y0 = 0" "\<not> m_morituri y0"
    "stateEle y0 = TRDP_ST_TX_REPLY_ARM"
    using w sid(1) by (simp_all add: y0_def trdp_mdFillStateElement_def cross_over_def)
  have ms: "trdp_mdManageSessionId w y0 s = (y0, s)" using w sid(1) y0(2) by (simp add: trdp_mdManageSessionId_def)
  have cs: "trdp_mdConnectSocket w sp src dst False y0 s = (TRDP_NO_ERR, y0, s)" for sp src dst
    using y0(1) by (simp add: trdp_mdConnectSocket_def)
  have sa: "send_again w RcvQ i TRDP_MSG_MP (r_status a) 0 (hdr_sequenceCounter fr0) (r_data a) (r_dataSize a) y0 s = (TRDP_NO_ERR, s')"
    using call p0 unfolding trdp_mdReply_def by (simp add: lk x_def [symmetric] Let_def y0_def [symmetric] ms cs)
  let ?y = "y0\<lparr>pPacket := Some (replicate (unat (m_grossSize y0)) 0)\<rparr>"
  obtain g y where d: "trdp_mdDetailSenderPacket w TRDP_MSG_MP (r_status a) 0 (hdr_sequenceCounter fr0) (r_data a) (r_dataSize a)
      (Some (m_destURI y0)) (Some (m_srcURI y0)) ?y = (g, y)" by fastforce
  have s': "s' = note_fault g (upd_at RcvQ i (\<lambda>_. y) (s\<lparr>md_allocs := Suc (md_allocs s)\<rparr>))"
    using sa by (auto simp: send_again_def md_malloc_def d Let_def split: if_splits)
  have g: "g = None" using f s' by (cases g) (auto simp: note_fault_def md_fail_def split: if_splits)
  have prem: "pPacket ?y = Some (replicate (unat (trdp_packetSizeMD (m_dataSize ?y))) 0)" "m_dataSize ?y \<le> TRDP_MAX_MD_DATA_SIZE"
    "length (sessionID ?y) = 16" "md_type_ok TRDP_MSG_MP" "bit (m_pktFlags ?y) TRDP_FLAGS_MARSHALL \<longrightarrow> env_marshall w = None"
    "r_data a = None \<longrightarrow> m_dataSize ?y = 0" "m_dataSize ?y = r_dataSize a" "sessionID ?y = sid" "comId (m_addr ?y) = r_comId a"
    using y0 size w sid mar [folded x_def] by (auto simp: md_type_ok_def data_refused_def not_less)
  have dd: "trdp_mdDetailSenderPacket w TRDP_MSG_MP (r_status a) 0 (hdr_sequenceCounter fr0) (r_data a) (m_dataSize ?y)
      (Some (m_destURI y0)) (Some (m_srcURI y0)) ?y = (None, y)"
    unfolding prem(7) using d g by simp
  obtain fr where fr: "y = ?y\<lparr>pPacket := Some fr\<rparr>" "says fr (reply_content a sid x (hdr_sequenceCounter fr0))"
    using detail_says [OF dd prem(1-6)] unfolding prem(7-9) reply_content_def y0(8,9) by auto
  have "unat (hdr_datasetLength fr) = unat (r_dataSize a)"
    using fr(2) d g prem(5,6,7) y0
    by (auto simp: says_def reply_content_def trdp_mdDetailSenderPacket_def Let_def split: option.splits if_splits)
  then have len: "hdr_datasetLength fr = r_dataSize a" by (rule unsigned_word_eqI)
  then have lfr: "length fr = unat (trdp_packetSizeMD (r_dataSize a))" using fr(2) by (simp add: says_def)
  have s'': "s' = s\<lparr>md_allocs := Suc (md_allocs s), pMDRcvQueue := (pMDRcvQueue s)[i := y]\<rparr>"
    using s' g by (simp add: note_fault_def upd_at_def upd_q_def)
  moreover have "armed y s'"
    using fr(1) y0 w lfr unfolding s'' by (simp add: armed_def sock_index_ok_def md_sock_def)
  ultimately show ?thesis
    using fr y0 len by (intro exI [of _ y] exI [of _ fr] exI [of _ "Suc (md_allocs s)"]) simp
qed

lemma match_found:
  assumes "\<forall>x \<in> set q1. \<exists>fr. pPacket x = Some fr \<and> md_sessionID fr \<noteq> md_sessionID b" and "pPacket e = Some fe" and "md_sessionID fe = md_sessionID b"
  shows "match_session i b (q1 @ e # q2) = Inr (Some (i + length q1))"
  using assms by (induction q1 arbitrary: i) (auto simp: outdated_def trdp_validTopoCounters_def)

text \<open>The reply that ends a session with one replier.\<close>

lemma accept_last:
  fixes now :: vos_timeval and r :: MD_ELE_T
  assumes "hdr_msgType b = TRDP_MSG_MP" and "numExpReplies e = 1"
  defines "x \<equiv> accept_reply now b r e"
  shows "pPacket x = pPacket r" "m_morituri x" "stateEle x = TRDP_ST_TX_REPLY_RECEIVED" "numReplies x = numReplies e + 1" "m_pUserRef x = m_pUserRef e"
    "sessionID x = sessionID e" "srcIpAddr (m_addr x) = srcIpAddr (m_addr r)" "m_pfCbFunction x = m_pfCbFunction e"
  using assms(1,2) unfolding x_def by (simp_all add: accept_reply_def Let_def replies_complete_def)

lemma recv_reply:
  assumes "rcv_ready s" and alloc: "\<forall>i. env_alloc w i" and t: "sock_type (iface (socks s) ! k) \<noteq> TRDP_SOCK_MD_TCP"
    and fd: "sock (iface (socks s) ! k) = fd" "fd \<noteq> VOS_INVALID_SOCKET" and n: "net_udp s fd = Inr d # as"
    and b: "in_bytes d = trdp_mdUpdatePacket fr" "says fr c" and ty: "c_type c = TRDP_MSG_MP"
    and q: "pMDSndQueue s = q1 @ e # q2" and "\<forall>x \<in> set q1. \<exists>fr. pPacket x = Some fr \<and> md_sessionID fr \<noteq> c_session c"
    and "pPacket e = Some fe" and "md_sessionID fe = c_session c" and "numExpReplies e = 1" and cb: "m_pfCbFunction e"
  shows "\<exists>s' x b m. trdp_mdRecv w k s = (TRDP_NO_ERR, s') \<and> pMDSndQueue s' = q1 @ x # q2 \<and> m_morituri x \<and> stateEle x = TRDP_ST_TX_REPLY_RECEIVED \<and>
     numReplies x = numReplies e + 1 \<and> m_pUserRef x = m_pUserRef e \<and> srcIpAddr (m_addr x) = in_src d \<and> take (length fr) b = trdp_mdUpdatePacket fr \<and>
     md_calls s' = md_calls s @ [(m, Some (md_data b), hdr_datasetLength b)] \<and> told x b m \<and> md_fault s' = md_fault s"
proof -
  from recv_message [OF assms(1) alloc t fd n b] obtain s0 r bb st u m where
    g: "get_buffer w k s = (True, s0)" "sock (iface (socks s0) ! k) = fd" and
    p: "trdp_mdRecvPacket w fd s0 = (TRDP_NO_ERR, s\<lparr>pMDRcvEle := Some r, net_udp := u, md_allocs := m, stats := st\<rparr>)" and
    r: "pPacket r = Some bb" "take (length fr) bb = trdp_mdUpdatePacket fr" "srcIpAddr (m_addr r) = in_src d" by (elim exE conjE)
  note says = buffer_says [OF b(2) r(2)]
  let ?s = "s\<lparr>pMDRcvEle := Some r, net_udp := u, md_allocs := m, stats := st\<rparr>"
  have buf: "rcv_buf ?s = bb" "rcv_ele ?s = r" using r(1) by (simp_all add: rcv_buf_def rcv_ele_def)
  have mt: "hdr_msgType bb = TRDP_MSG_MP" using says(1) ty by simp
  have "md_sessionID bb = c_session c" using says(6) .
  then have ms: "match_session 0 bb (pMDSndQueue ?s) = Inr (Some (length q1))"
    using match_found [of q1 bb e fe 0 q2] assms(11-13) q by simp
  define x where "x = accept_reply vos_clearTime bb r e"
  note x = accept_last [OF mt assms(14), of vos_clearTime r, folded x_def]
  let ?s1 = "upd_rcv (\<lambda>e. e\<lparr>pPacket := None\<rparr>) (upd_at SndQ (length q1) (accept_reply vos_clearTime bb r) ?s)"
  have hc: "trdp_mdHandleConfirmReply w bb ?s = (Some (SndQ, length q1), ?s1)"
    unfolding trdp_mdHandleConfirmReply_def using mt ms by (simp add: reply_queue_def md_q_def buf(2))
  have s1: "pMDSndQueue ?s1 = q1 @ x # q2" "md_calls ?s1 = md_calls s" "md_fault ?s1 = md_fault s"
    using q by (simp_all add: upd_rcv_def upd_at_def upd_q_def x_def list_update_append)
  have px: "pPacket x = Some bb" using x(1) r(1) by simp
  from callback_told [OF px, of ?s1] obtain i where
    c: "trdp_mdInvokeCallback x TRDP_NO_ERR ?s1 = ?s1\<lparr>md_calls := md_calls ?s1 @ [(i, Some (md_data bb), hdr_datasetLength bb)]\<rparr>" "told x bb i" by blast
  let ?s2 = "?s1\<lparr>md_calls := md_calls s @ [(i, Some (md_data bb), hdr_datasetLength bb)]\<rparr>"
  have mq: "md_q SndQ ?s1 ! length q1 = x" using s1(1) by (simp add: md_q_def)
  have inf: "inform_user bb (Some (SndQ, length q1)) ?s1 = ?s2"
    unfolding inform_user_def Let_def option.case prod.case mq using x(3,8) cb c(1) s1(2) mt by simp
  have "trdp_mdRecv w k s = (TRDP_NO_ERR, ?s2)"
    using t g p mt by (simp add: trdp_mdRecv_def Let_def buf hc inf)
  then show ?thesis
    using s1 x r c(2) by (intro exI [of _ ?s2] exI [of _ x] exI [of _ bb] exI [of _ i]) simp
qed

text \<open>
  C40 (reply_reaches_caller): a reply over UDP that an application gives with \<open>tlm_reply\<close> to the session
  it was asked in, without a fault and without marshalling, is the first datagram the next
  \<open>trdp_mdSend\<close> hands to a kernel that takes the whole of it when nothing else waits to be sent; it
  goes to the address and port the request came from. A caller that reads it from a UDP socket
  where it is all there is, with memory for it, whose session with this identifier holds a message,
  as do those before it, which have other identifiers, expects one reply and has a callback, ends
  that session: its user is called exactly once, with the bytes, the user status, which is not
  negative, and the session of the reply, and is told that the session is about to die.
\<close>

theorem reply_reaches_caller:
  assumes "tlm_reply w (Some sid) a (Some r) = (TRDP_NO_ERR, Some r1)" and "md_fault r1 = None"
    and "trdp_mdLookupElement 0 (pMDRcvQueue r) TRDP_ST_RX_REQ_W4AP_REPLY sid = Some i"
    and "pPacket (pMDRcvQueue r ! i) = Some fr0" and "md_waiting r (pMDRcvQueue r ! i)"
    and "bit (m_pktFlags (pMDRcvQueue r ! i)) TRDP_FLAGS_MARSHALL \<longrightarrow> env_marshall w = None" and "replyPort (pMDRcvQueue r ! i) \<noteq> 0"
    and "\<forall>e \<in> set (pMDSndQueue r). tx_state (stateEle e) = None"
    and "\<forall>j < length (pMDRcvQueue r). j \<noteq> i \<longrightarrow> tx_state (stateEle (pMDRcvQueue r ! j)) = None"
    and "net_sendto r = Inr n # as" and "unat (trdp_packetSizeMD (r_dataSize a)) \<le> n"
    and "rcv_ready s" and "\<forall>i. env_alloc w' i" and "sock_type (iface (socks s) ! k) \<noteq> TRDP_SOCK_MD_TCP"
    and "sock (iface (socks s) ! k) = fd" and "fd \<noteq> VOS_INVALID_SOCKET"
    and "pMDSndQueue s = q1 @ e # q2" and "\<forall>x \<in> set q1. \<exists>fr. pPacket x = Some fr \<and> md_sessionID fr \<noteq> sid"
    and "pPacket e = Some fe" and "md_sessionID fe = sid" and "numExpReplies e = 1" and "m_pfCbFunction e" and "0 \<le> sint (r_status a)"
  shows "\<exists>res r2 d more s' x info data.
     trdp_mdSend w r1 = (res, r2) \<and> md_out r2 = md_out r1 @ d # more \<and>
     out_dest d = Some (srcIpAddr (m_addr (pMDRcvQueue r ! i)), replyPort (pMDRcvQueue r ! i)) \<and>
     trdp_mdRecv w' k (s\<lparr>net_udp := (net_udp s)(fd := [Inr \<lparr>in_bytes = out_bytes d, in_src = src, in_port = port, in_dest = dst\<rparr>])\<rparr>) =
       (TRDP_NO_ERR, s') \<and>
     pMDSndQueue s' = q1 @ x # q2 \<and> m_morituri x \<and> numReplies x = numReplies e + 1 \<and>
     md_calls s' = md_calls s @ [(info, Some data, r_dataSize a)] \<and>
     take (unat (r_dataSize a)) data = (case r_data a of None \<Rightarrow> [] | Some bs \<Rightarrow> take (unat (r_dataSize a)) bs) \<and>
     i_sessionId info = sid \<and> i_comId info = r_comId a \<and> i_userStatus info = ucast (r_status a) \<and> i_aboutToDie info \<and>
     i_srcIpAddr info = src \<and> i_pUserRef info = m_pUserRef e"
proof -
  let ?x = "pMDRcvQueue r ! i"
  let ?c = "reply_content a sid ?x (hdr_sequenceCounter fr0)"
  from reply_queues [OF assms(1-6)] obtain y fr m where
    r1: "r1 = r\<lparr>md_allocs := m, pMDRcvQueue := (pMDRcvQueue r)[i := y]\<rparr>" and
    y: "armed y r1" "pPacket y = Some fr" "says fr ?c" "stateEle y = TRDP_ST_TX_REPLY_ARM" "destIpAddr (m_addr y) = srcIpAddr (m_addr ?x)"
      "replyPort y = replyPort ?x" "hdr_datasetLength fr = r_dataSize a" by (elim exE conjE)
  have i: "i < length (pMDRcvQueue r)" using lookup_found [OF assms(3)] by simp
  have G: "length fr = unat (trdp_packetSizeMD (r_dataSize a))" "116 \<le> length fr" "unat (r_dataSize a) = length (c_data ?c)"
    using y(3,7) by (auto simp: says_def md_header_ok_def)
  have ty: "hdr_msgType fr = TRDP_MSG_MP" using y(3) by (simp add: says_def reply_content_def)
  have sn: "\<forall>e \<in> set (pMDSndQueue r1). tx_state (stateEle e) = None" "i < length (pMDRcvQueue r1)"
    "\<forall>j < length (pMDRcvQueue r1). j \<noteq> i \<longrightarrow> tx_state (stateEle (pMDRcvQueue r1 ! j)) = None" "pMDRcvQueue r1 ! i = y"
    "tx_state (stateEle y) = Some TRDP_ST_NONE" "net_sendto r1 = Inr n # as" "length fr \<le> n"
    using assms(8-11) i y(4) G(1) by (simp_all add: r1 tx_state_def)
  let ?d = "\<lparr>out_fd = sock (md_sock r1 (m_socketIdx y)), out_dest = Some (destIpAddr (m_addr y), send_port y (hdr_msgType fr) r1),
       out_bytes = trdp_mdUpdatePacket fr\<rparr>"
  from send_reply [OF sn(1-4) y(1) sn(5) y(2) sn(6,7) G(2), of w] obtain res r2 more where
    snd: "trdp_mdSend w r1 = (res, r2)" "md_out r2 = md_out r1 @ ?d # more" by blast
  have od: "out_dest ?d = Some (srcIpAddr (m_addr ?x), replyPort ?x)" using y(5,6) ty assms(7) by (simp add: send_port_def)
  let ?i = "\<lparr>in_bytes = out_bytes ?d, in_src = src, in_port = port, in_dest = dst\<rparr>"
  let ?s = "s\<lparr>net_udp := (net_udp s)(fd := [Inr ?i])\<rparr>"
  have c: "c_type ?c = TRDP_MSG_MP" "c_session ?c = sid" "c_comId ?c = r_comId a" "c_status ?c = r_status a"
    "c_data ?c = (case r_data a of None \<Rightarrow> [] | Some bs \<Rightarrow> take (unat (r_dataSize a)) bs)"
    by (simp_all add: reply_content_def)
  have ss: "rcv_ready ?s" "sock_type (iface (socks ?s) ! k) \<noteq> TRDP_SOCK_MD_TCP" "sock (iface (socks ?s) ! k) = fd" "net_udp ?s fd = [Inr ?i]"
    "in_bytes ?i = trdp_mdUpdatePacket fr" "pMDSndQueue ?s = q1 @ e # q2"
    "\<forall>x \<in> set q1. \<exists>fr. pPacket x = Some fr \<and> md_sessionID fr \<noteq> c_session ?c" "md_sessionID fe = c_session ?c"
    using assms(12,14,15,17,18,20) c(2) by (simp_all add: rcv_ready_def)
  from recv_reply [OF ss(1) assms(13) ss(2,3) assms(16) ss(4,5) y(3) c(1) ss(6,7) assms(19) ss(8) assms(21,22)] obtain s' x b info where
    rv: "trdp_mdRecv w' k ?s = (TRDP_NO_ERR, s')" "pMDSndQueue s' = q1 @ x # q2" "m_morituri x" "numReplies x = numReplies e + 1"
      "m_pUserRef x = m_pUserRef e" "srcIpAddr (m_addr x) = in_src ?i" "take (length fr) b = trdp_mdUpdatePacket fr"
      "md_calls s' = md_calls ?s @ [(info, Some (md_data b), hdr_datasetLength b)]" "told x b info" by (elim exE conjE)
  note bs = buffer_says [OF y(3) rv(7)]
  have "hdr_datasetLength b = r_dataSize a" using bs(8) G(3) by (metis unsigned_word_eqI)
  then show ?thesis
    using snd od rv bs c G(3) assms(23) unfolding told_def
    by (intro exI [of _ res] exI [of _ r2] exI [of _ ?d] exI [of _ more] exI [of _ s'] exI [of _ x] exI [of _ info] exI [of _ "md_data b"]) simp
qed

section \<open>Examples\<close>

definition demo_call :: md_call_args where
  "demo_call = \<lparr>a_pUserRef = Some 9, a_callback = True, a_comId = 1000, a_etbTopoCnt = 0, a_opTrnTopoCnt = 0, a_srcIpAddr = 0,
     a_destIpAddr = 0x0A000002, a_pktFlags = 0, a_numExpReplies = 1, a_replyTimeout = 1000000, a_sendParam = None,
     a_data = Some [1, 2, 3, 4], a_dataSize = 4, a_srcURI = None, a_destURI = None\<rparr>"

definition demo_caller :: MD_SESSION_T where
  "demo_caller = (md_demo TRDP_SOCK_MD_UDP)\<lparr>net_sendto := [Inr 1480]\<rparr>"

definition demo_listener :: MD_SESSION_T where
  "demo_listener = (md_demo TRDP_SOCK_MD_UDP)\<lparr>pMDListenQueue := [\<lparr>l_id = 1, l_addr = zero_addr\<lparr>comId := 1000\<rparr>, l_privFlags = 0, l_pktFlags = 1,
     l_pUserRef = 5, l_destURI = replicate 33 0, l_socketIdx = 0, l_pfCbFunction = True, numSessions = 0\<rparr>]\<rparr>"

lemma md_demo_fields [simp]:
  "iface (socks (md_demo t)) = md_sock_of 7 t 1 # replicate 79 (demo_place (- 1) 0)" "pMDRcvEle (md_demo t) = None" "pMDRcvQueue (md_demo t) = []"
  "pMDSndQueue (md_demo t) = []" "realIP (md_demo t) = 0x0A000001" "sCurrentMaxSocketCnt (socks (md_demo t)) = 1"
  "md_pfCbFunction (mdDefault (md_demo t)) = False" "md_flags (mdDefault (md_demo t)) = 1" "maxNumSessions (mdDefault (md_demo t)) = 1000" "md_fault (md_demo t) = None"
  by (simp_all add: md_demo_def TRDP_SESSION_T.defs MD_SESSION_T.defs demo_session_def)

lemma md_sock_of_fields [simp]: "sock (md_sock_of fd t n) = fd" "sock_type (md_sock_of fd t n) = t" "usage (md_sock_of fd t n) = n"
  by (simp_all add: md_sock_of_def demo_place_def)

lemma md_demo_pool: "pool_ok (socks (md_demo t))"
  unfolding pool_ok_def by (auto simp: refs_def nth_Cons' demo_place_def)

lemma md_demo_env_ok: "\<forall>n. length (env_uuid md_demo_env n) = 16" "opens (env_io md_demo_env)" "\<forall>i. env_alloc md_demo_env i" "env_marshall md_demo_env = None"
  by (simp_all add: md_demo_env_def opens_def demo_io_def)

theorem request_reaches_listener_witness:
  "\<exists>s1 s2 res d more r' x info data.
     tlm_request md_demo_env demo_call (Some demo_caller) = (TRDP_NO_ERR, Some (replicate 15 7 @ [0]), Some s1) \<and>
     trdp_mdSend md_demo_env s1 = (res, s2) \<and> md_out s2 = md_out s1 @ d # more \<and>
     trdp_mdRecv md_demo_env 0 (demo_listener\<lparr>net_udp := (net_udp demo_listener)(7 := [Inr \<lparr>in_bytes = out_bytes d, in_src = 0x0A000001,
       in_port = 17225, in_dest = Some 0x0A000002\<rparr>])\<rparr>) = (TRDP_NO_ERR, r') \<and>
     pMDRcvQueue r' = [x] \<and> md_calls r' = md_calls demo_listener @ [(info, Some data, 4)] \<and> take 4 data = [1, 2, 3, 4] \<and> i_comId info = 1000"
proof -
  let ?sid = "replicate 15 7 @ [0 :: u8]"
  have "(case tlm_request md_demo_env demo_call (Some demo_caller) of (e, sid, s) \<Rightarrow> (e, sid, map_option md_fault s)) =
      (TRDP_NO_ERR, Some ?sid, Some None)" by code_simp
  then obtain s1 where q: "tlm_request md_demo_env demo_call (Some demo_caller) = (TRDP_NO_ERR, Some ?sid, Some s1)" "md_fault s1 = None"
    by (auto split: prod.splits)
  have f: "\<not> bit (call_flags demo_call demo_caller) TRDP_FLAGS_TCP"
    by (simp add: call_flags_def demo_call_def demo_caller_def)
  have p: "pool_ok (socks demo_caller)" using md_demo_pool by (simp add: demo_caller_def)
  have n: "net_sendto demo_caller = [Inr 1480]" "unat (trdp_packetSizeMD (a_dataSize demo_call)) \<le> 1480"
    by (simp_all add: demo_caller_def demo_call_def trdp_packetSizeMD_def padded_size_def)
  have r: "rcv_ready demo_listener" "sock_type (iface (socks demo_listener) ! 0) \<noteq> TRDP_SOCK_MD_TCP" "sock (iface (socks demo_listener) ! 0) = 7"
    "(7 :: int) \<noteq> VOS_INVALID_SOCKET"
    "\<forall>x \<in> set (pMDRcvQueue demo_listener). \<exists>fr. pPacket x = Some fr \<and> md_sessionID fr \<noteq> ?sid"
    "length (pMDRcvQueue demo_listener) < unat (maxNumSessions (mdDefault demo_listener))"
    "find_listener 0 (wants (call_content TRDP_MSG_MR TRDP_REPLY_OK demo_call ?sid) 0x0A000002) (pMDListenQueue demo_listener) = Some 0"
    "l_pfCbFunction (pMDListenQueue demo_listener ! 0)"
    by (simp_all add: demo_listener_def rcv_ready_def wants_def call_content_def demo_call_def zero_addr_def)
  from request_reaches_listener [OF q f _ md_demo_env_ok(1) p md_demo_env_ok(2) n r(1) md_demo_env_ok(3) r(2-8), of "0x0A000001" 17225] md_demo_env_ok(4)
  obtain res s2 d more r' x info data where
    "trdp_mdSend md_demo_env s1 = (res, s2)" "md_out s2 = md_out s1 @ d # more"
    "trdp_mdRecv md_demo_env 0 (demo_listener\<lparr>net_udp := (net_udp demo_listener)(7 := [Inr \<lparr>in_bytes = out_bytes d, in_src = 0x0A000001,
       in_port = 17225, in_dest = Some 0x0A000002\<rparr>])\<rparr>) = (TRDP_NO_ERR, r')"
    "pMDRcvQueue r' = x # pMDRcvQueue demo_listener" "md_calls r' = md_calls demo_listener @ [(info, Some data, a_dataSize demo_call)]"
    "take (unat (a_dataSize demo_call)) data = (case a_data demo_call of None \<Rightarrow> [] | Some bs \<Rightarrow> take (unat (a_dataSize demo_call)) bs)"
    "i_comId info = a_comId demo_call" by blast
  moreover have "pMDRcvQueue demo_listener = []" "a_dataSize demo_call = 4" "a_comId demo_call = 1000"
    "(case a_data demo_call of None \<Rightarrow> [] | Some bs \<Rightarrow> take (unat (a_dataSize demo_call)) bs) = [1, 2, 3, 4]"
    by (simp_all add: demo_listener_def demo_call_def)
  ultimately show ?thesis using q(1)
    by (intro exI [of _ s1] exI [of _ s2] exI [of _ res] exI [of _ d] exI [of _ more] exI [of _ r'] exI [of _ x] exI [of _ info] exI [of _ data]) simp
qed

definition demo_reply :: md_reply_args where
  "demo_reply = \<lparr>r_comId = 1001, r_timeout = 0, r_status = 3, r_sendParam = None, r_data = Some [5, 6], r_dataSize = 2\<rparr>"

definition demo_replier :: MD_SESSION_T where
  "demo_replier = (md_demo TRDP_SOCK_MD_UDP)\<lparr>net_sendto := [Inr 1480],
     pMDRcvQueue := [zero_md_ele\<lparr>stateEle := TRDP_ST_RX_REQ_W4AP_REPLY, sessionID := replicate 16 7, replyPort := 17225,
       m_addr := zero_addr\<lparr>srcIpAddr := 0x0A000001\<rparr>, pPacket := Some (replicate 120 0)\<rparr>]\<rparr>"

definition demo_asker :: MD_SESSION_T where
  "demo_asker = (md_demo TRDP_SOCK_MD_UDP)\<lparr>pMDSndQueue := [zero_md_ele\<lparr>stateEle := TRDP_ST_TX_REQUEST_W4REPLY, numExpReplies := 1,
     m_pfCbFunction := True, m_pUserRef := 9, pPacket := Some (replicate 28 0 @ replicate 16 7 @ replicate 76 0)\<rparr>]\<rparr>"

theorem reply_reaches_caller_witness:
  "\<exists>r1 r2 res d more s' info data.
     tlm_reply md_demo_env (Some (replicate 16 7)) demo_reply (Some demo_replier) = (TRDP_NO_ERR, Some r1) \<and>
     trdp_mdSend md_demo_env r1 = (res, r2) \<and> md_out r2 = md_out r1 @ d # more \<and> out_dest d = Some (0x0A000001, 17225) \<and>
     trdp_mdRecv md_demo_env 0 (demo_asker\<lparr>net_udp := (net_udp demo_asker)(7 := [Inr \<lparr>in_bytes = out_bytes d, in_src = 0x0A000002,
       in_port = 17225, in_dest = None\<rparr>])\<rparr>) = (TRDP_NO_ERR, s') \<and>
     md_calls s' = md_calls demo_asker @ [(info, Some data, 2)] \<and> take 2 data = [5, 6] \<and> i_userStatus info = 3 \<and> i_aboutToDie info"
proof -
  let ?sid = "replicate 16 7 :: u8 list"
  let ?x = "pMDRcvQueue demo_replier ! 0"
  let ?e = "hd (pMDSndQueue demo_asker)"
  let ?q = "tlm_reply md_demo_env (Some ?sid) demo_reply (Some demo_replier)"
  have "map_option md_fault (snd ?q) = Some None \<and> fst ?q = TRDP_NO_ERR"
    by (simp add: tlm_reply_def demo_reply_def demo_replier_def data_refused_def trdp_mdReply_def zero_md_ele_def trdp_mdFillStateElement_def
      cross_over_def trdp_mdManageSessionId_def trdp_mdConnectSocket_def send_again_def md_malloc_def md_demo_env_def trdp_packetSizeMD_def
      padded_size_def trdp_mdDetailSenderPacket_def uri_fits_def md_header_def put_uri_def upd_at_def upd_q_def note_fault_def)
  then obtain r1 where q: "?q = (TRDP_NO_ERR, Some r1)" "md_fault r1 = None" by (cases ?q) auto
  have x: "trdp_mdLookupElement 0 (pMDRcvQueue demo_replier) TRDP_ST_RX_REQ_W4AP_REPLY ?sid = Some 0" "pPacket ?x = Some (replicate 120 0)"
    "md_waiting demo_replier ?x" "replyPort ?x \<noteq> 0" "\<forall>e \<in> set (pMDSndQueue demo_replier). tx_state (stateEle e) = None"
    "\<forall>j < length (pMDRcvQueue demo_replier). j \<noteq> 0 \<longrightarrow> tx_state (stateEle (pMDRcvQueue demo_replier ! j)) = None"
    "net_sendto demo_replier = [Inr 1480]" "unat (trdp_packetSizeMD (r_dataSize demo_reply)) \<le> 1480"
    by (simp_all add: demo_replier_def zero_md_ele_def md_waiting_def sock_index_ok_def md_sock_def demo_reply_def trdp_packetSizeMD_def padded_size_def)
  have k: "rcv_ready demo_asker" "sock_type (iface (socks demo_asker) ! 0) \<noteq> TRDP_SOCK_MD_TCP" "sock (iface (socks demo_asker) ! 0) = 7"
    "(7 :: int) \<noteq> VOS_INVALID_SOCKET" "pMDSndQueue demo_asker = [] @ ?e # []" "\<forall>x \<in> set []. \<exists>fr. pPacket x = Some fr \<and> md_sessionID fr \<noteq> ?sid"
    "pPacket ?e = Some (replicate 28 0 @ replicate 16 7 @ replicate 76 0)" "md_sessionID (replicate 28 0 @ replicate 16 7 @ replicate 76 0) = ?sid"
    "numExpReplies ?e = 1" "m_pfCbFunction ?e" "0 \<le> sint (r_status demo_reply)"
    by (simp_all add: demo_asker_def rcv_ready_def slice_def demo_reply_def)
  from reply_reaches_caller [OF q x(1-3) _ x(4-8) k(1) md_demo_env_ok(3) k(2-11), of "0x0A000002" 17225 None] md_demo_env_ok(4)
  obtain res r2 d more s' info data where
    "trdp_mdSend md_demo_env r1 = (res, r2)" "md_out r2 = md_out r1 @ d # more" "out_dest d = Some (srcIpAddr (m_addr ?x), replyPort ?x)"
    "trdp_mdRecv md_demo_env 0 (demo_asker\<lparr>net_udp := (net_udp demo_asker)(7 := [Inr \<lparr>in_bytes = out_bytes d, in_src = 0x0A000002,
       in_port = 17225, in_dest = None\<rparr>])\<rparr>) = (TRDP_NO_ERR, s')"
    "md_calls s' = md_calls demo_asker @ [(info, Some data, r_dataSize demo_reply)]"
    "take (unat (r_dataSize demo_reply)) data = (case r_data demo_reply of None \<Rightarrow> [] | Some bs \<Rightarrow> take (unat (r_dataSize demo_reply)) bs)"
    "i_userStatus info = ucast (r_status demo_reply)" "i_aboutToDie info" by blast
  moreover have "r_dataSize demo_reply = 2" "r_status demo_reply = 3" "srcIpAddr (m_addr ?x) = 0x0A000001" "replyPort ?x = 17225"
    "(case r_data demo_reply of None \<Rightarrow> [] | Some bs \<Rightarrow> take (unat (r_dataSize demo_reply)) bs) = [5, 6]"
    by (simp_all add: demo_replier_def demo_reply_def)
  ultimately show ?thesis using q(1)
    by (intro exI [of _ r1] exI [of _ r2] exI [of _ res] exI [of _ d] exI [of _ more] exI [of _ s'] exI [of _ info] exI [of _ data]) simp
qed

end
