(* ===== verification/Trdp_Md_Limits.thy ===== *)
theory Trdp_Md_Limits
  imports Trdp_Md_Delivery
begin

text \<open>
  Time-outs and retries of message data (\<^verbatim>\<open>app/trdp/tcnopen/trdp_mdcom.c\<close>), and what the code does at the
  limits of what it expects: an empty datagram stays, a late session has others reported, a
  time-out that is not to come has come at once, and a replier is not aborted while something is sent.
\<close>

section \<open>Retries\<close>

text \<open>A new sequence counter leaves the rest of a message as it is.\<close>

lemma says_recount: "says fr c \<Longrightarrow> says (put32 0 v fr) (c\<lparr>c_seq := v\<rparr>)"
  by (auto simp: says_def md_header_ok_def slice_put_other)

text \<open>The session is late and the request is sent again, over and over.\<close>

fun repeats :: "nat \<Rightarrow> MD_ELE_T \<Rightarrow> MD_SESSION_T \<Rightarrow> MD_ELE_T \<times> MD_SESSION_T" where
  "repeats 0 e s = (e, s)"
| "repeats (Suc n) e s =
     (case trdp_mdTimeOutStateHandler e s of (late, err, e, s) \<Rightarrow> repeats n (after_send TRDP_ST_TX_REQUEST_W4REPLY e) s)"

definition asking :: "MD_ELE_T \<Rightarrow> md_content \<Rightarrow> bool" where
  "asking e c \<longleftrightarrow> stateEle e = TRDP_ST_TX_REQUEST_W4REPLY \<and> \<not> is_tcp e \<and> \<not> m_morituri e \<and> numExpReplies e = 1 \<and> numRepliesQuery e = 0 \<and>
     (\<exists>fr. pPacket e = Some fr \<and> says fr c \<and> md_frameCheckSum fr = le_bytes32 (vos_crc32 INITFCS (take 112 fr)))"

lemma handler_restarts:
  assumes "asking e c" and "numRetries e < numRetriesMax e"
  shows "\<exists>e' s'. trdp_mdTimeOutStateHandler e s = (False, TRDP_UNKNOWN_ERR, e', s') \<and> stateEle e' = TRDP_ST_TX_REQUEST_ARM \<and>
     asking (after_send TRDP_ST_TX_REQUEST_W4REPLY e') (c\<lparr>c_seq := c_seq c + 1\<rparr>) \<and>
     numRetries (after_send TRDP_ST_TX_REQUEST_W4REPLY e') = numRetries e + 1 \<and>
     numRetriesMax (after_send TRDP_ST_TX_REQUEST_W4REPLY e') = numRetriesMax e"
proof -
  obtain fr where fr: "pPacket e = Some fr" "says fr c" using assms(1) by (auto simp: asking_def)
  have l: "116 \<le> length fr" "hdr_sequenceCounter fr = c_seq c" using fr(2) by (auto simp: says_def md_header_ok_def)
  let ?fr = "put32 0 (hdr_sequenceCounter fr + 1) fr"
  have l': "116 \<le> length ?fr" using l by simp
  have s: "says (trdp_mdUpdatePacket ?fr) (c\<lparr>c_seq := c_seq c + 1\<rparr>)"
    using says_update [OF says_recount [OF fr(2)]] l(2) by simp
  have w: "wait_reply_timeout e = (False, TRDP_UNKNOWN_ERR, restart_request fr e)"
    using assms fr(1) by (simp add: wait_reply_timeout_def asking_def restart_request_def Let_def)
  show ?thesis
    using assms(1) w s mdUpdate_frame(4) [OF l']
    by (simp add: asking_def trdp_mdTimeOutStateHandler_def restart_request_def after_send_def)
qed

lemma handler_gives_up:
  assumes "asking e c" and "\<not> numRetries e < numRetriesMax e"
  shows "\<exists>s'. trdp_mdTimeOutStateHandler e s = (True, TRDP_REPLYTO_ERR, e\<lparr>m_morituri := True\<rparr>, s')"
  using assms by (auto simp: asking_def trdp_mdTimeOutStateHandler_def wait_reply_timeout_def Let_def)

lemma unat32_less: "unat (x :: u32) < 4294967296"
proof -
  have "unat x < 2 ^ LENGTH(32)" by (rule unsigned_less)
  then show ?thesis by simp
qed

lemma repeats_steps:
  assumes "asking e c" and "unat (numRetries e) + n \<le> unat (numRetriesMax e)"
  shows "asking (fst (repeats n e s)) (c\<lparr>c_seq := c_seq c + of_nat n\<rparr>) \<and>
     numRetries (fst (repeats n e s)) = numRetries e + of_nat n \<and> numRetriesMax (fst (repeats n e s)) = numRetriesMax e"
  using assms
proof (induction n arbitrary: e c s)
  case (Suc n)
  then have lt: "numRetries e < numRetriesMax e" by (simp add: word_less_nat_alt)
  from handler_restarts [OF Suc.prems(1) lt, of s] obtain e' s' where
    h: "trdp_mdTimeOutStateHandler e s = (False, TRDP_UNKNOWN_ERR, e', s')" and
    a: "asking (after_send TRDP_ST_TX_REQUEST_W4REPLY e') (c\<lparr>c_seq := c_seq c + 1\<rparr>)"
      "numRetries (after_send TRDP_ST_TX_REQUEST_W4REPLY e') = numRetries e + 1"
      "numRetriesMax (after_send TRDP_ST_TX_REQUEST_W4REPLY e') = numRetriesMax e" by blast
  have "unat (numRetries e + 1) = unat (numRetries e) + 1"
    using lt unat32_less [of "numRetriesMax e"] by (simp add: unat_word_ariths word_less_nat_alt)
  then have "unat (numRetries (after_send TRDP_ST_TX_REQUEST_W4REPLY e')) + n \<le> unat (numRetriesMax (after_send TRDP_ST_TX_REQUEST_W4REPLY e'))"
    using Suc.prems(2) a(2,3) by simp
  from Suc.IH [OF a(1) this, of s'] show ?case using h a(2,3) by (simp add: add.assoc)
qed (simp add: asking_def)

text \<open>
  A request to one replier that nobody answers is armed again exactly as often as its parameters
  say. Each time it is late before, it is armed as it was, with the next sequence counter and a valid
  check sum; the next time the handler ends the session with the error that there was no reply.
\<close>

theorem request_repeated_then_given_up:
  assumes "stateEle e = TRDP_ST_TX_REQUEST_W4REPLY" and "\<not> is_tcp e" and "\<not> m_morituri e" and "numExpReplies e = 1" and "numRepliesQuery e = 0"
    and "pPacket e = Some (trdp_mdUpdatePacket fr)" and "says fr c" and "numRetries e \<le> numRetriesMax e"
  defines "n \<equiv> unat (numRetriesMax e) - unat (numRetries e)"
  shows "(\<forall>k \<le> n. \<exists>f. pPacket (fst (repeats k e s)) = Some f \<and> says f (c\<lparr>c_seq := c_seq c + of_nat k\<rparr>) \<and> \<not> m_morituri (fst (repeats k e s)) \<and>
       md_frameCheckSum f = le_bytes32 (vos_crc32 INITFCS (take 112 f)) \<and>
       (k < n \<longrightarrow> (\<exists>e' s'. trdp_mdTimeOutStateHandler (fst (repeats k e s)) t = (False, TRDP_UNKNOWN_ERR, e', s') \<and>
          stateEle e' = TRDP_ST_TX_REQUEST_ARM))) \<and>
     (\<exists>s'. trdp_mdTimeOutStateHandler (fst (repeats n e s)) t = (True, TRDP_REPLYTO_ERR, (fst (repeats n e s))\<lparr>m_morituri := True\<rparr>, s'))"
proof -
  have "116 \<le> length fr" using assms(7) by (simp add: says_def md_header_ok_def)
  then have a: "asking e c" using assms(1-7) says_update [OF assms(7)] mdUpdate_frame(4) by (simp add: asking_def)
  have n: "unat (numRetries e) + n = unat (numRetriesMax e)" using assms(8) by (simp add: n_def word_le_nat_alt)
  have st: "asking (fst (repeats k e s)) (c\<lparr>c_seq := c_seq c + of_nat k\<rparr>)" "unat (numRetries (fst (repeats k e s))) = unat (numRetries e) + k"
    "numRetriesMax (fst (repeats k e s)) = numRetriesMax e" if "k \<le> n" for k
  proof -
    have le: "unat (numRetries e) + k \<le> unat (numRetriesMax e)" using that n by simp
    note r = repeats_steps [OF a le, of s]
    have "unat (numRetries e) + k < 4294967296" using le unat32_less [of "numRetriesMax e"] by simp
    then have "unat (numRetries e + of_nat k) = unat (numRetries e) + k"
      by (simp add: unat_word_ariths unsigned_of_nat take_bit_nat_eq_self)
    then show "asking (fst (repeats k e s)) (c\<lparr>c_seq := c_seq c + of_nat k\<rparr>)" "unat (numRetries (fst (repeats k e s))) = unat (numRetries e) + k"
      "numRetriesMax (fst (repeats k e s)) = numRetriesMax e" using r by simp_all
  qed
  have "\<exists>e' s'. trdp_mdTimeOutStateHandler (fst (repeats k e s)) t = (False, TRDP_UNKNOWN_ERR, e', s') \<and> stateEle e' = TRDP_ST_TX_REQUEST_ARM"
    if k: "k < n" for k
  proof -
    have "numRetries (fst (repeats k e s)) < numRetriesMax (fst (repeats k e s))"
      using st(2,3) [of k] k n by (simp add: word_less_nat_alt)
    from handler_restarts [OF st(1) this, of t] k show ?thesis
      by auto
  qed
  moreover have "\<not> numRetries (fst (repeats n e s)) < numRetriesMax (fst (repeats n e s))"
    using st(2,3) [of n] n by (simp add: word_less_nat_alt)
  from handler_gives_up [OF st(1) [of n] this] have "\<exists>s'. trdp_mdTimeOutStateHandler (fst (repeats n e s)) t =
      (True, TRDP_REPLYTO_ERR, (fst (repeats n e s))\<lparr>m_morituri := True\<rparr>, s')" by simp
  ultimately show ?thesis using st(1) unfolding asking_def by blast
qed

definition demo_asking :: MD_ELE_T where
  "demo_asking = zero_md_ele\<lparr>stateEle := TRDP_ST_TX_REQUEST_W4REPLY, numExpReplies := 1, numRetriesMax := 2, pPacket := Some md_demo_frame\<rparr>"

theorem request_repeated_then_given_up_witness:
  "(\<exists>f. pPacket (fst (repeats 2 demo_asking demo_reader)) = Some f \<and> hdr_sequenceCounter f = 2 \<and> slice 116 4 f = [1, 2, 3, 4]) \<and>
   (\<exists>s'. trdp_mdTimeOutStateHandler (fst (repeats 2 demo_asking demo_reader)) demo_reader =
      (True, TRDP_REPLYTO_ERR, (fst (repeats 2 demo_asking demo_reader))\<lparr>m_morituri := True\<rparr>, s'))"
proof -
  let ?h = "[0, 0, 0, 0, 1, 0, 0x4D, 0x6E, 0, 0, 0x03, 0xE8, 0, 0, 0, 0, 0, 0, 0, 0, 0, 0, 0, 4] @ replicate 92 0 @ [1, 2, 3, 4 :: u8]"
  let ?c = "\<lparr>c_type = TRDP_MSG_MN, c_seq = 0, c_comId = 1000, c_status = 0, c_timeout = 0, c_session = replicate 16 0, c_destURI = [],
     c_data = [1, 2, 3, 4]\<rparr>"
  have zeros: "replicate 4 (0 :: u8) = [0, 0, 0, 0]" by (simp add: numeral_eq_Suc)
  have f: "hdr_datasetLength ?h = 4" "hdr_protocolVersion ?h = 0x0100" "hdr_msgType ?h = TRDP_MSG_MN" "hdr_sequenceCounter ?h = 0"
    "hdr_comId ?h = 1000" "md_replyStatus ?h = 0" "md_replyTimeout ?h = 0" "md_sessionID ?h = replicate 16 0"
    "md_destinationURI ?h = replicate 32 0" "slice 116 4 ?h = [1, 2, 3, 4]"
    using zeros by (simp_all add: get32_def get16_def slice_def ntohl_def)
  have four: "(4 :: nat) = Suc (Suc (Suc (Suc 0)))" by simp
  note f10 = f(10) [unfolded four, simplified]
  have s: "says ?h ?c" unfolding says_def md_header_ok_def f by (simp add: f f10 trdp_packetSizeMD_def padded_size_def)
  have e: "stateEle demo_asking = TRDP_ST_TX_REQUEST_W4REPLY" "\<not> is_tcp demo_asking" "\<not> m_morituri demo_asking" "numExpReplies demo_asking = 1"
    "numRepliesQuery demo_asking = 0" "pPacket demo_asking = Some (trdp_mdUpdatePacket ?h)" "numRetries demo_asking \<le> numRetriesMax demo_asking"
    by (simp_all add: demo_asking_def zero_md_ele_def md_demo_frame_def)
  have n: "unat (numRetriesMax demo_asking) - unat (numRetries demo_asking) = 2" by (simp add: demo_asking_def zero_md_ele_def)
  from request_repeated_then_given_up [OF e(1-6) s e(7), of demo_reader demo_reader] show ?thesis
    unfolding n by (auto simp: says_def four dest!: spec [of _ 2])
qed

section \<open>Limits\<close>

text \<open>An empty datagram is looked at, over and over, and never taken.\<close>

lemma empty_datagram_stays:
  assumes "net_udp s fd = Inr d # as" and "in_bytes d = []" and "fd \<noteq> VOS_INVALID_SOCKET"
  shows "fst (trdp_mdRecvUDPPacket w fd s) = TRDP_NODATA_ERR" "net_udp (snd (trdp_mdRecvUDPPacket w fd s)) fd = net_udp s fd"
proof -
  let ?s = "upd_rcv (\<lambda>e. e\<lparr>m_addr := (m_addr e)\<lparr>srcIpAddr := 0, destIpAddr := realIP s\<rparr>\<rparr>) s"
  have "(net_udp s)(fd := Inr d # as) = net_udp s" using assms(1) by (simp add: fun_upd_idem)
  then have "vos_sockReceiveUDP fd True ?s = (TRDP_NODATA_ERR, Some d, ?s)"
    using assms by (simp add: vos_sockReceiveUDP_def upd_rcv_def)
  then show "fst (trdp_mdRecvUDPPacket w fd s) = TRDP_NODATA_ERR" "net_udp (snd (trdp_mdRecvUDPPacket w fd s)) fd = net_udp s fd"
    by (simp_all add: trdp_mdRecvUDPPacket_def Let_def take_datagram_def assms(2) fill_buf_def upd_rcv_def split_beta)
qed

text \<open>A late element leaves the flag set for those after it, whose users then hear of an unknown error.\<close>

lemma healthy_session_reported:
  assumes "\<not> vos_cmpTime (m_timeToGo (md_q q s ! i)) (env_clock w (time_reads s)) < 0" and "m_pfCbFunction (md_q q s ! i)"
  shows "\<exists>s1. md_check_one w q i True s = (True, trdp_mdInvokeCallback (md_q q s ! i) TRDP_UNKNOWN_ERR s1)"
proof -
  have "md_q q (s\<lparr>time_reads := Suc (time_reads s)\<rparr>) = md_q q s" by (simp add: md_q_def split: md_queue.splits)
  then show ?thesis using assms by (auto simp: md_check_one_def md_getTime_def Let_def)
qed

text \<open>A time-out that is never to come has come at once.\<close>

lemma infinite_timeout_is_late:
  assumes "0 < tv_sec now"
  shows "m_timeToGo (fst (trdp_mdSetSessionTimeout w (e\<lparr>m_interval := vos_clearTime\<rparr>) s)) = vos_clearTime"
    "vos_cmpTime vos_clearTime now < 0"
  using assms by (simp_all add: trdp_mdSetSessionTimeout_def md_getTime_def vos_cmpTime_def timer_gt_def timer_lt_def vos_clearTime_def)

text \<open>A session that replies cannot be aborted while anything is queued to be sent.\<close>

lemma replier_not_aborted:
  assumes "pMDSndQueue s \<noteq> []"
  shows "\<exists>s'. snd (tlm_abortSession (Some sid) (Some s)) = Some s' \<and> pMDRcvQueue s' = pMDRcvQueue s"
  using assms by (simp add: tlm_abortSession_def upd_q_def)

end
