(* ===== verification/Tau_Marshall.thy ===== *)
theory Tau_Marshall
  imports Trdp_Session
begin

text \<open>
  Marshalling of datasets, \<^verbatim>\<open>app/trdp/tcnopen/tau_marshall.c\<close>: converting the memory image of a
  structure to the packed big-endian form on the wire and back, driven by a description of the
  dataset.

  The host is little-endian with natural alignment (the branch of the source without
  \<open>__BIG_ENDIAN__\<close>). A buffer is a base address with its bytes and pointers are addresses, so that
  alignment is that of the machine. The source takes the bytes of a value apart with shifts, from
  the highest down, and puts them together the same way; in memory that is reversing the bytes
  of the value. Every access is checked against the buffer.

  The pointer to a dataset that an element caches is what the search for its identifier gives
  while the tables stay, so the model searches each time.
\<close>

abbreviation (input) TRDP_TYPE_MAX :: u32 where "TRDP_TYPE_MAX \<equiv> 30"
abbreviation (input) TDRP_VAR_SIZE :: u32 where "TDRP_VAR_SIZE \<equiv> 0"
abbreviation (input) TAU_MAX_DS_LEVEL :: nat where "TAU_MAX_DS_LEVEL \<equiv> 5"

section \<open>Tables\<close>

record TRDP_DATASET_ELEMENT_T =
  el_type :: u32
  el_size :: u32

record TRDP_DATASET_T =
  ds_id :: u32
  pElement :: "TRDP_DATASET_ELEMENT_T list"

record TRDP_COMID_DSID_MAP_T =
  map_comId :: u32
  map_datasetId :: u32

record marshall_tables =
  sComIdDsIdMap :: "TRDP_COMID_DSID_MAP_T list"
  sDataSets :: "TRDP_DATASET_T list"

text \<open>On a sorted table with distinct keys the binary search of the C library finds the one entry with the key.\<close>

definition vos_bsearch :: "('a \<Rightarrow> u32) \<Rightarrow> u32 \<Rightarrow> 'a list \<Rightarrow> 'a option" where
  "vos_bsearch key k xs = List.find (\<lambda>x. key x = k) xs"

definition findDs :: "marshall_tables \<Rightarrow> u32 \<Rightarrow> TRDP_DATASET_T option" where
  "findDs db datasetId = vos_bsearch ds_id datasetId (sDataSets db)"

definition findDSFromComId :: "marshall_tables \<Rightarrow> u32 \<Rightarrow> TRDP_DATASET_T option" where
  "findDSFromComId db c =
     (case vos_bsearch map_comId c (sComIdDsIdMap db) of
        None \<Rightarrow> None
      | Some m \<Rightarrow> vos_bsearch ds_id (map_datasetId m) (sDataSets db))"

definition tau_initMarshall ::
  "TRDP_COMID_DSID_MAP_T list option \<Rightarrow> TRDP_DATASET_T list option \<Rightarrow> marshall_tables \<Rightarrow> TRDP_ERR_T \<times> marshall_tables" where
  "tau_initMarshall pMap pDataset db =
     (case (pMap, pDataset) of
        (Some m, Some d) \<Rightarrow>
          if d = [] \<or> m = [] then (TRDP_PARAM_ERR, db)
          else (TRDP_NO_ERR, \<lparr>sComIdDsIdMap = sort_key map_comId m, sDataSets = sort_key ds_id d\<rparr>)
      | _ \<Rightarrow> (TRDP_PARAM_ERR, db))"

section \<open>Buffers\<close>

record buffer =
  buf_base :: nat
  cells :: "u8 list"

definition load :: "nat \<Rightarrow> buffer \<Rightarrow> nat \<Rightarrow> u8 list checked" where
  "load n b p =
     (if buf_base b \<le> p \<and> p + n \<le> buf_base b + length (cells b) then Inr (slice (p - buf_base b) n (cells b))
      else Inl OutOfBounds)"

definition store :: "u8 list \<Rightarrow> buffer \<Rightarrow> nat \<Rightarrow> buffer checked" where
  "store bs b p =
     (if buf_base b \<le> p \<and> p + length bs \<le> buf_base b + length (cells b)
      then Inr (b\<lparr>cells := overwrite (p - buf_base b) bs (cells b)\<rparr>)
      else Inl OutOfBounds)"

definition host_val :: "u8 list \<Rightarrow> u32" where
  "host_val bs = of_nat (be_val (rev bs))"

definition alignePtr :: "nat \<Rightarrow> nat \<Rightarrow> nat" where
  "alignePtr p a = (p + (a - 1)) div a * a"

text \<open>Convert \<open>n\<close> values of \<open>w\<close> bytes, in either direction: the source, the destination and the two pointers after it.\<close>

fun swap_items :: "nat \<Rightarrow> nat \<Rightarrow> buffer \<Rightarrow> nat \<Rightarrow> buffer \<Rightarrow> nat \<Rightarrow> (nat \<times> buffer \<times> nat) checked" where
  "swap_items w 0 src p dst q = Inr (p, dst, q)"
| "swap_items w (Suc n) src p dst q =
     (case load w src p of
        Inl f \<Rightarrow> Inl f
      | Inr bs \<Rightarrow>
          (case store (rev bs) dst q of
             Inl f \<Rightarrow> Inl f
           | Inr dst \<Rightarrow> swap_items w n src (p + w) dst (q + w)))"

section \<open>The walk over a dataset\<close>

record TAU_MARSHALL_INFO_T =
  src_mem :: buffer
  pSrc :: nat
  pSrcEnd :: nat
  dst_mem :: buffer
  pDst :: nat
  pDstEnd :: nat

type_synonym ds_result = "(TRDP_ERR_T \<times> TAU_MARSHALL_INFO_T) checked"

text \<open>
  The loops of \<open>marshallDs\<close>, \<open>unmarshallDs\<close> and \<open>size_unmarshall\<close>, which differ only in what they do
  with an element of a basic type: \<open>simple t n v i\<close> handles \<open>n\<close> items of type \<open>t\<close> and gives a result
  code and the variable size for the elements that follow.
\<close>

fun sub_sets :: "(TRDP_DATASET_T \<Rightarrow> TAU_MARSHALL_INFO_T \<Rightarrow> ds_result) \<Rightarrow> marshall_tables \<Rightarrow> nat \<Rightarrow> u32 \<Rightarrow> TAU_MARSHALL_INFO_T \<Rightarrow> ds_result" where
  "sub_sets sub db 0 t i = Inr (TRDP_NO_ERR, i)"
| "sub_sets sub db (Suc n) t i =
     (case findDs db t of
        None \<Rightarrow> Inr (TRDP_COMID_ERR, i)
      | Some ds \<Rightarrow>
          (case sub ds i of
             Inl f \<Rightarrow> Inl f
           | Inr (err, i) \<Rightarrow> if err \<noteq> TRDP_NO_ERR then Inr (err, i) else sub_sets sub db n t i))"

fun ds_elements ::
  "(u32 \<Rightarrow> u32 \<Rightarrow> u32 \<Rightarrow> TAU_MARSHALL_INFO_T \<Rightarrow> (TRDP_ERR_T \<times> u32 \<times> TAU_MARSHALL_INFO_T) checked) \<Rightarrow>
   (TRDP_DATASET_T \<Rightarrow> TAU_MARSHALL_INFO_T \<Rightarrow> ds_result) \<Rightarrow> marshall_tables \<Rightarrow> TRDP_DATASET_ELEMENT_T list \<Rightarrow> u32 \<Rightarrow>
   TAU_MARSHALL_INFO_T \<Rightarrow> ds_result" where
  "ds_elements simple sub db [] var_size i = Inr (TRDP_NO_ERR, i)"
| "ds_elements simple sub db (e # es) var_size i =
     (if \<not> pSrcEnd i > pSrc i then Inr (TRDP_NO_ERR, i)
      else
        let noOfItems = (if el_size e = TDRP_VAR_SIZE then var_size else el_size e)
        in if el_type e > TRDP_TYPE_MAX
           then (case sub_sets sub db (unat noOfItems) (el_type e) i of
                   Inl f \<Rightarrow> Inl f
                 | Inr (err, i) \<Rightarrow> if err \<noteq> TRDP_NO_ERR then Inr (err, i) else ds_elements simple sub db es var_size i)
           else (case simple (el_type e) noOfItems var_size i of
                   Inl f \<Rightarrow> Inl f
                 | Inr (err, var_size, i) \<Rightarrow>
                     if err \<noteq> TRDP_NO_ERR then Inr (err, i) else ds_elements simple sub db es var_size i))"

text \<open>
  The first argument is how many levels of recursion are left. The source counts them up to
  \<open>TAU_MAX_DS_LEVEL\<close>; after an error the count is not read again.
\<close>

primrec walkDs ::
  "nat \<Rightarrow> (u32 \<Rightarrow> u32 \<Rightarrow> u32 \<Rightarrow> TAU_MARSHALL_INFO_T \<Rightarrow> (TRDP_ERR_T \<times> u32 \<times> TAU_MARSHALL_INFO_T) checked) \<Rightarrow>
   marshall_tables \<Rightarrow> TRDP_DATASET_T \<Rightarrow> TAU_MARSHALL_INFO_T \<Rightarrow> ds_result" where
  "walkDs 0 simple db ds i = Inr (TRDP_STATE_ERR, i)"
| "walkDs (Suc levels) simple db ds i =
     (case ds_elements simple (walkDs levels simple db) db (pElement ds) 0 i of
        Inl f \<Rightarrow> Inl f
      | Inr (err, i) \<Rightarrow>
          if err \<noteq> TRDP_NO_ERR then Inr (err, i)
          else if pSrc i > pSrcEnd i then Inr (TRDP_MARSHALLING_ERR, i)
          else Inr (TRDP_NO_ERR, i))"

section \<open>Basic types\<close>

definition is_8bit :: "u32 \<Rightarrow> bool" where
  "is_8bit t \<longleftrightarrow> t \<in> {1, 2, 4, 8}"

definition is_16bit :: "u32 \<Rightarrow> bool" where
  "is_16bit t \<longleftrightarrow> t \<in> {3, 5, 9}"

definition is_32bit :: "u32 \<Rightarrow> bool" where
  "is_32bit t \<longleftrightarrow> t \<in> {6, 10, 12, 14}"

definition is_64bit :: "u32 \<Rightarrow> bool" where
  "is_64bit t \<longleftrightarrow> t \<in> {7, 11, 13}"

abbreviation (input) TRDP_TIMEDATE48 :: u32 where "TRDP_TIMEDATE48 \<equiv> 15"
abbreviation (input) TRDP_TIMEDATE64 :: u32 where "TRDP_TIMEDATE64 \<equiv> 16"

text \<open>The 48-bit times: four and two bytes of a structure of eight, on the side of the host.\<close>

fun marshall48 :: "nat \<Rightarrow> buffer \<Rightarrow> nat \<Rightarrow> buffer \<Rightarrow> nat \<Rightarrow> (nat \<times> buffer \<times> nat) checked" where
  "marshall48 0 src p dst q = Inr (p, dst, q)"
| "marshall48 (Suc n) src p dst q =
     (case swap_items 4 1 src (alignePtr p 4) dst q of
        Inl f \<Rightarrow> Inl f
      | Inr (p, dst, q) \<Rightarrow>
          (case swap_items 2 1 src (alignePtr p 2) dst q of
             Inl f \<Rightarrow> Inl f
           | Inr (_, dst, q) \<Rightarrow> marshall48 n src (p + 4) dst q))"

fun unmarshall48 :: "nat \<Rightarrow> buffer \<Rightarrow> nat \<Rightarrow> buffer \<Rightarrow> nat \<Rightarrow> (nat \<times> buffer \<times> nat) checked" where
  "unmarshall48 0 src p dst q = Inr (p, dst, q)"
| "unmarshall48 (Suc n) src p dst q =
     (case swap_items 4 1 src p dst (alignePtr q 4) of
        Inl f \<Rightarrow> Inl f
      | Inr (p, dst, q) \<Rightarrow>
          (case swap_items 2 1 src p dst (alignePtr q 2) of
             Inl f \<Rightarrow> Inl f
           | Inr (p, dst, _) \<Rightarrow> unmarshall48 n src p dst (q + 4)))"

text \<open>Every 64-bit time is written at the place the first one is: the pointer is not advanced in the loop.\<close>

fun unmarshall64 :: "nat \<Rightarrow> buffer \<Rightarrow> nat \<Rightarrow> buffer \<Rightarrow> nat \<Rightarrow> nat \<Rightarrow> (nat \<times> buffer \<times> nat) checked" where
  "unmarshall64 0 src p dst q q' = Inr (p, dst, q')"
| "unmarshall64 (Suc n) src p dst q q' =
     (case swap_items 4 2 src p dst (alignePtr q 4) of
        Inl f \<Rightarrow> Inl f
      | Inr (p, dst, q') \<Rightarrow> unmarshall64 n src p dst q q')"

text \<open>What a conversion leaves; a failed one leaves the pointers as they were.\<close>

definition converted ::
  "u32 \<Rightarrow> TAU_MARSHALL_INFO_T \<Rightarrow> (nat \<times> buffer \<times> nat) checked \<Rightarrow> (TRDP_ERR_T \<times> u32 \<times> TAU_MARSHALL_INFO_T) checked" where
  "converted v i r =
     (case r of
        Inl f \<Rightarrow> Inl f
      | Inr (p, dst, q) \<Rightarrow> Inr (TRDP_NO_ERR, v, i\<lparr>pSrc := p, dst_mem := dst, pDst := q\<rparr>))"

text \<open>
  Elements on the way to the wire. The first item is the size of a variable array that follows.
  The product of the number of items and their size is one of 32 bits.
\<close>

definition marshall_values :: "nat \<Rightarrow> u32 \<Rightarrow> TAU_MARSHALL_INFO_T \<Rightarrow> (TRDP_ERR_T \<times> u32 \<times> TAU_MARSHALL_INFO_T) checked" where
  "marshall_values w n i =
     (let p = alignePtr (pSrc i) w
      in case load w (src_mem i) p of
           Inl f \<Rightarrow> Inl f
         | Inr bs \<Rightarrow>
             if pDst i + unat (n * of_nat w) > pDstEnd i then Inr (TRDP_PARAM_ERR, host_val bs, i)
             else converted (host_val bs) i (swap_items w (unat n) (src_mem i) p (dst_mem i) (pDst i)))"

definition marshall_simple :: "u32 \<Rightarrow> u32 \<Rightarrow> u32 \<Rightarrow> TAU_MARSHALL_INFO_T \<Rightarrow> (TRDP_ERR_T \<times> u32 \<times> TAU_MARSHALL_INFO_T) checked" where
  "marshall_simple t n v i =
     (if is_8bit t then marshall_values 1 n i
      else if is_16bit t then marshall_values 2 n i
      else if is_32bit t then marshall_values 4 n i
      else if t = TRDP_TIMEDATE64 then
        (if pDst i + unat (n * 8) > pDstEnd i then Inr (TRDP_PARAM_ERR, v, i)
         else converted v i (swap_items 4 (2 * unat n) (src_mem i) (alignePtr (pSrc i) 4) (dst_mem i) (pDst i)))
      else if t = TRDP_TIMEDATE48 then
        (if pDst i + unat (n * 6) > pDstEnd i then Inr (TRDP_PARAM_ERR, v, i)
         else converted v i (marshall48 (unat n) (src_mem i) (pSrc i) (dst_mem i) (pDst i)))
      else if is_64bit t then
        (if pDst i + unat (n * 8) > pDstEnd i then Inr (TRDP_PARAM_ERR, v, i)
         else converted v i (swap_items 8 (unat n) (src_mem i) (alignePtr (pSrc i) 8) (dst_mem i) (pDst i)))
      else Inr (TRDP_NO_ERR, v, i))"

text \<open>Elements on the way from the wire. The last item is the size of a variable array that follows.\<close>

definition unmarshall_values :: "nat \<Rightarrow> u32 \<Rightarrow> u32 \<Rightarrow> TAU_MARSHALL_INFO_T \<Rightarrow> (TRDP_ERR_T \<times> u32 \<times> TAU_MARSHALL_INFO_T) checked" where
  "unmarshall_values w n v i =
     (if pDst i + unat (n * of_nat w) > pDstEnd i then Inr (TRDP_PARAM_ERR, v, i)
      else
        case swap_items w (unat n) (src_mem i) (pSrc i) (dst_mem i) (alignePtr (pDst i) w) of
          Inl f \<Rightarrow> Inl f
        | Inr (p, dst, q) \<Rightarrow>
            (case (if n = 0 then Inr v else map_sum id (\<lambda>bs. host_val (rev bs)) (load w (src_mem i) (p - w))) of
               Inl f \<Rightarrow> Inl f
             | Inr v \<Rightarrow> converted v i (Inr (p, dst, q))))"

definition unmarshall_simple :: "u32 \<Rightarrow> u32 \<Rightarrow> u32 \<Rightarrow> TAU_MARSHALL_INFO_T \<Rightarrow> (TRDP_ERR_T \<times> u32 \<times> TAU_MARSHALL_INFO_T) checked" where
  "unmarshall_simple t n v i =
     (if is_8bit t then unmarshall_values 1 n v i
      else if is_16bit t then unmarshall_values 2 n v i
      else if is_32bit t then unmarshall_values 4 n v i
      else if t = TRDP_TIMEDATE48 then
        (if pDst i + unat (n * 6) > pDstEnd i then Inr (TRDP_PARAM_ERR, v, i)
         else converted v i (unmarshall48 (unat n) (src_mem i) (pSrc i) (dst_mem i) (pDst i)))
      else if t = TRDP_TIMEDATE64 then
        (if pDst i + unat (n * 8) > pDstEnd i then Inr (TRDP_PARAM_ERR, v, i)
         else converted v i (unmarshall64 (unat n) (src_mem i) (pSrc i) (dst_mem i) (pDst i) (pDst i)))
      else if is_64bit t then
        (if pDst i + unat (n * 8) > pDstEnd i then Inr (TRDP_PARAM_ERR, v, i)
         else converted v i (swap_items 8 (unat n) (src_mem i) (pSrc i) (dst_mem i) (alignePtr (pDst i) 8)))
      else Inr (TRDP_NO_ERR, v, i))"

text \<open>The size an element takes in memory. The variable size is read in the byte order of the host.\<close>

fun align_times :: "nat \<Rightarrow> nat \<Rightarrow> nat \<Rightarrow> nat \<Rightarrow> nat" where
  "align_times 0 a w q = q"
| "align_times (Suc n) a w q = align_times n a w (alignePtr q a + w)"

definition size_values :: "nat \<Rightarrow> u32 \<Rightarrow> TAU_MARSHALL_INFO_T \<Rightarrow> (TRDP_ERR_T \<times> u32 \<times> TAU_MARSHALL_INFO_T) checked" where
  "size_values w n i =
     (case load w (src_mem i) (pSrc i) of
        Inl f \<Rightarrow> Inl f
      | Inr bs \<Rightarrow> Inr (TRDP_NO_ERR, host_val bs, i\<lparr>pSrc := pSrc i + w * unat n, pDst := alignePtr (pDst i) w + w * unat n\<rparr>))"

definition size_simple :: "u32 \<Rightarrow> u32 \<Rightarrow> u32 \<Rightarrow> TAU_MARSHALL_INFO_T \<Rightarrow> (TRDP_ERR_T \<times> u32 \<times> TAU_MARSHALL_INFO_T) checked" where
  "size_simple t n v i =
     (if is_8bit t then size_values 1 n i
      else if is_16bit t then size_values 2 n i
      else if is_32bit t then size_values 4 n i
      else if t = TRDP_TIMEDATE48
      then Inr (TRDP_NO_ERR, v, i\<lparr>pSrc := pSrc i + 6 * unat n, pDst := align_times (unat n) 4 6 (pDst i)\<rparr>)
      else if t = TRDP_TIMEDATE64
      then Inr (TRDP_NO_ERR, v, i\<lparr>pSrc := pSrc i + 8 * unat n, pDst := align_times (unat n) 4 4 (pDst i)\<rparr>)
      else if is_64bit t
      then Inr (TRDP_NO_ERR, v, i\<lparr>pSrc := pSrc i + 8 * unat n, pDst := align_times (unat n) 8 8 (pDst i)\<rparr>)
      else Inr (TRDP_NO_ERR, v, i))"

definition marshallDs :: "marshall_tables \<Rightarrow> TRDP_DATASET_T \<Rightarrow> TAU_MARSHALL_INFO_T \<Rightarrow> ds_result" where
  "marshallDs db = walkDs TAU_MAX_DS_LEVEL marshall_simple db"

definition unmarshallDs :: "marshall_tables \<Rightarrow> TRDP_DATASET_T \<Rightarrow> TAU_MARSHALL_INFO_T \<Rightarrow> ds_result" where
  "unmarshallDs db = walkDs TAU_MAX_DS_LEVEL unmarshall_simple db"

definition size_unmarshall :: "marshall_tables \<Rightarrow> TRDP_DATASET_T \<Rightarrow> TAU_MARSHALL_INFO_T \<Rightarrow> ds_result" where
  "size_unmarshall db = walkDs TAU_MAX_DS_LEVEL size_simple db"

section \<open>The interface\<close>

text \<open>
  What the four conversion functions share. Null pointers are \<open>None\<close>; the buffers are given by
  pointers to their first bytes. The result has the destination buffer, the number of bytes
  written and the cached dataset.
\<close>

definition cached_ds :: "(u32 \<Rightarrow> TRDP_DATASET_T option) \<Rightarrow> u32 \<Rightarrow> TRDP_DATASET_T option option \<Rightarrow> TRDP_DATASET_T option \<times> TRDP_DATASET_T option option" where
  "cached_ds look ident ppDS =
     (case ppDS of
        None \<Rightarrow> (look ident, None)
      | Some None \<Rightarrow> (look ident, Some (look ident))
      | Some (Some ds) \<Rightarrow> (Some ds, Some (Some ds)))"

definition tau_convert ::
  "(u32 \<Rightarrow> TRDP_DATASET_T option) \<Rightarrow> (TRDP_DATASET_T \<Rightarrow> TAU_MARSHALL_INFO_T \<Rightarrow> ds_result) \<Rightarrow> u32 \<Rightarrow> buffer option \<Rightarrow> u32 \<Rightarrow>
   buffer option \<Rightarrow> u32 option \<Rightarrow> TRDP_DATASET_T option option \<Rightarrow>
   (TRDP_ERR_T \<times> buffer option \<times> u32 option \<times> TRDP_DATASET_T option option) checked" where
  "tau_convert look conv ident src srcSize dest pDestSize ppDS =
     (case (src, dest, pDestSize) of
        (Some s, Some d, Some n) \<Rightarrow>
          if ident = 0 \<or> n = 0 then Inr (TRDP_PARAM_ERR, dest, pDestSize, ppDS)
          else
            (case cached_ds look ident ppDS of
               (None, pp) \<Rightarrow> Inr (TRDP_COMID_ERR, dest, pDestSize, pp)
             | (Some ds, pp) \<Rightarrow>
                 (case conv ds \<lparr>src_mem = s, pSrc = buf_base s, pSrcEnd = buf_base s + unat srcSize,
                                dst_mem = d, pDst = buf_base d, pDstEnd = buf_base d + unat n\<rparr> of
                    Inl f \<Rightarrow> Inl f
                  | Inr (err, i) \<Rightarrow> Inr (err, Some (dst_mem i), Some (of_nat (pDst i - buf_base d)), pp)))
      | _ \<Rightarrow> Inr (TRDP_PARAM_ERR, dest, pDestSize, ppDS))"

definition tau_marshall ::
  "marshall_tables \<Rightarrow> u32 \<Rightarrow> buffer option \<Rightarrow> u32 \<Rightarrow> buffer option \<Rightarrow> u32 option \<Rightarrow> TRDP_DATASET_T option option \<Rightarrow>
   (TRDP_ERR_T \<times> buffer option \<times> u32 option \<times> TRDP_DATASET_T option option) checked" where
  "tau_marshall db = tau_convert (findDSFromComId db) (marshallDs db)"

definition tau_unmarshall ::
  "marshall_tables \<Rightarrow> u32 \<Rightarrow> buffer option \<Rightarrow> u32 \<Rightarrow> buffer option \<Rightarrow> u32 option \<Rightarrow> TRDP_DATASET_T option option \<Rightarrow>
   (TRDP_ERR_T \<times> buffer option \<times> u32 option \<times> TRDP_DATASET_T option option) checked" where
  "tau_unmarshall db = tau_convert (findDSFromComId db) (unmarshallDs db)"

definition tau_marshallDs ::
  "marshall_tables \<Rightarrow> u32 \<Rightarrow> buffer option \<Rightarrow> u32 \<Rightarrow> buffer option \<Rightarrow> u32 option \<Rightarrow> TRDP_DATASET_T option option \<Rightarrow>
   (TRDP_ERR_T \<times> buffer option \<times> u32 option \<times> TRDP_DATASET_T option option) checked" where
  "tau_marshallDs db = tau_convert (findDs db) (marshallDs db)"

definition tau_unmarshallDs ::
  "marshall_tables \<Rightarrow> u32 \<Rightarrow> buffer option \<Rightarrow> u32 \<Rightarrow> buffer option \<Rightarrow> u32 option \<Rightarrow> TRDP_DATASET_T option option \<Rightarrow>
   (TRDP_ERR_T \<times> buffer option \<times> u32 option \<times> TRDP_DATASET_T option option) checked" where
  "tau_unmarshallDs db = tau_convert (findDs db) (unmarshallDs db)"

text \<open>The size in memory, with the destination pointer counting from zero.\<close>

definition tau_size ::
  "(u32 \<Rightarrow> TRDP_DATASET_T option) \<Rightarrow> marshall_tables \<Rightarrow> u32 \<Rightarrow> buffer option \<Rightarrow> u32 \<Rightarrow> TRDP_DATASET_T option option \<Rightarrow>
   (TRDP_ERR_T \<times> u32 option \<times> TRDP_DATASET_T option option) checked" where
  "tau_size look db ident src srcSize ppDS =
     (case src of
        Some s \<Rightarrow>
          if ident = 0 then Inr (TRDP_PARAM_ERR, None, ppDS)
          else
            (case cached_ds look ident ppDS of
               (None, pp) \<Rightarrow> Inr (TRDP_COMID_ERR, None, pp)
             | (Some ds, pp) \<Rightarrow>
                 (case size_unmarshall db ds \<lparr>src_mem = s, pSrc = buf_base s, pSrcEnd = buf_base s + unat srcSize,
                                dst_mem = \<lparr>buf_base = 0, cells = []\<rparr>, pDst = 0, pDstEnd = 0\<rparr> of
                    Inl f \<Rightarrow> Inl f
                  | Inr (err, i) \<Rightarrow> Inr (err, Some (of_nat (pDst i)), pp)))
      | None \<Rightarrow> Inr (TRDP_PARAM_ERR, None, ppDS))"

definition tau_calcDatasetSize ::
  "marshall_tables \<Rightarrow> u32 \<Rightarrow> buffer option \<Rightarrow> u32 \<Rightarrow> TRDP_DATASET_T option option \<Rightarrow>
   (TRDP_ERR_T \<times> u32 option \<times> TRDP_DATASET_T option option) checked" where
  "tau_calcDatasetSize db = tau_size (findDs db) db"

definition tau_calcDatasetSizeByComId ::
  "marshall_tables \<Rightarrow> u32 \<Rightarrow> buffer option \<Rightarrow> u32 \<Rightarrow> TRDP_DATASET_T option option \<Rightarrow>
   (TRDP_ERR_T \<times> u32 option \<times> TRDP_DATASET_T option option) checked" where
  "tau_calcDatasetSizeByComId db = tau_size (findDSFromComId db) db"

end
