(* ===== verification/Tau_Roundtrip.thy ===== *)
theory Tau_Roundtrip
  imports Tau_Marshall Trdp_Frames
begin

text \<open>
  Properties of the marshalling of datasets: converting a telegram to memory and back is the
  identity, the size the stack computes for a dataset is the one it takes in memory, and where
  the checks of the source do not suffice.
\<close>

section \<open>Conversion of items\<close>

lemma slice_length [simp]: "off + n \<le> length xs \<Longrightarrow> length (slice off n xs) = n"
  by (simp add: slice_def)

lemma take_add_slice: "take (k + w) xs = take k xs @ slice k w xs"
  by (simp add: slice_def take_add)

lemma slice_take_eq: "take (k + w) xs = take (k + w) ys \<Longrightarrow> slice k w xs = slice k w ys"
  by (metis drop_take slice_def add_diff_cancel_left')

lemma take_shorter: "take n xs = take n ys \<Longrightarrow> m \<le> n \<Longrightarrow> take m xs = take m ys"
  by (metis min_def take_take)

text \<open>What a successful conversion does: the pointers, and that nothing below the destination pointer changes.\<close>

lemma swap_items_frame:
  assumes "swap_items w n src p dst q = Inr (p', dst', q')"
  shows "p' = p + w * n \<and> q' = q + w * n \<and> buf_base dst' = buf_base dst \<and> length (cells dst') = length (cells dst) \<and>
     take (q - buf_base dst) (cells dst') = take (q - buf_base dst) (cells dst) \<and>
     (n > 0 \<longrightarrow> buf_base src \<le> p \<and> p' \<le> buf_base src + length (cells src) \<and> buf_base dst \<le> q \<and> q' \<le> buf_base dst + length (cells dst))"
  using assms
proof (induction n arbitrary: p dst q)
  case (Suc n)
  then obtain bs dst1 where l: "load w src p = Inr bs" and st: "store (rev bs) dst q = Inr dst1"
    and r: "swap_items w n src (p + w) dst1 (q + w) = Inr (p', dst', q')" by (auto split: sum.splits)
  have len: "length bs = w" "buf_base src \<le> p" "p + w \<le> buf_base src + length (cells src)"
    using l by (auto simp: load_def split: if_splits)
  have d1: "buf_base dst \<le> q" "q + w \<le> buf_base dst + length (cells dst)" "buf_base dst1 = buf_base dst"
      "cells dst1 = overwrite (q - buf_base dst) (rev bs) (cells dst)"
    using st len(1) by (auto simp: store_def split: if_splits)
  have o: "length (cells dst1) = length (cells dst)" "take (q - buf_base dst) (cells dst1) = take (q - buf_base dst) (cells dst)"
    using d1 len(1) by (simp_all add: overwrite_def)
  note ih = Suc.IH [OF r, unfolded d1(3) o(1)]
  have "take (q - buf_base dst) (cells dst') = take (q - buf_base dst) (cells dst1)"
    by (rule take_shorter [where n = "q + w - buf_base dst"]) (use ih in simp_all)
  then show ?case using ih len d1 o(2) by (cases "n = 0") simp_all
qed simp

lemma swap_items_Suc:
  assumes "swap_items w (Suc n) src p dst q = Inr (p', dst', q')"
  obtains bs where "buf_base src \<le> p" "p + w \<le> buf_base src + length (cells src)" "bs = slice (p - buf_base src) w (cells src)" "length bs = w"
    "buf_base dst \<le> q" "q + w \<le> buf_base dst + length (cells dst)"
    "swap_items w n src (p + w) (dst\<lparr>cells := overwrite (q - buf_base dst) (rev bs) (cells dst)\<rparr>) (q + w) = Inr (p', dst', q')"
  using assms that by (auto simp: load_def store_def split: if_splits)

text \<open>Converting back what was converted gives the bytes there were.\<close>

lemma swap_items_back:
  assumes "swap_items w n W p H q = Inr (p', H', q')"
    and "take (q' - buf_base H) (cells Hf) = take (q' - buf_base H) (cells H')" and "buf_base Hf = buf_base H" and "length (cells Hf) = length (cells H)"
    and "buf_base W \<le> p" and "buf_base V \<le> r" and "r - buf_base V = p - buf_base W" and "r + w * n \<le> buf_base V + length (cells V)"
    and "take (p - buf_base W) (cells V) = take (p - buf_base W) (cells W)"
  shows "\<exists>V'. swap_items w n Hf q V r = Inr (q', V', r + w * n) \<and> buf_base V' = buf_base V \<and> length (cells V') = length (cells V) \<and>
     take (p' - buf_base W) (cells V') = take (p' - buf_base W) (cells W)"
  using assms
proof (induction n arbitrary: p H q V r)
  case (Suc n)
  obtain bs where bs: "buf_base W \<le> p" "p + w \<le> buf_base W + length (cells W)" "bs = slice (p - buf_base W) w (cells W)" "length bs = w"
    "buf_base H \<le> q" "q + w \<le> buf_base H + length (cells H)"
    and r: "swap_items w n W (p + w) (H\<lparr>cells := overwrite (q - buf_base H) (rev bs) (cells H)\<rparr>) (q + w) = Inr (p', H', q')"
    using swap_items_Suc [OF Suc.prems(1)] .
  let ?H = "H\<lparr>cells := overwrite (q - buf_base H) (rev bs) (cells H)\<rparr>" and ?b = "buf_base H" and ?k = "p - buf_base W"
  have fr: "q' = q + w + w * n" "take (q + w - ?b) (cells H') = take (q + w - ?b) (cells ?H)"
    using swap_items_frame [OF r] by simp_all
  have "take (q + w - ?b) (cells Hf) = take (q + w - ?b) (cells H')"
    by (rule take_shorter [OF Suc.prems(2)]) (use fr(1) bs(5) in simp)
  then have tk: "take (q - ?b + w) (cells Hf) = take (q - ?b + w) (cells ?H)" using fr(2) bs(5) by (simp add: add.commute)
  have "slice (q - ?b) w (cells Hf) = slice (q - ?b) w (cells ?H)"
    using arg_cong [OF tk, of "drop (q - ?b)"] by (simp add: slice_def take_drop add.commute)
  also have "\<dots> = rev bs" using bs(4-6) by (simp add: slice_overwrite_same)
  finally have l: "load w Hf q = Inr (rev bs)" using Suc.prems(3,4) bs by (simp add: load_def)
  let ?V = "V\<lparr>cells := overwrite ?k bs (cells V)\<rparr>"
  have st: "store bs V r = Inr ?V" using Suc.prems(6-8) bs(4) by (simp add: store_def)
  have kw: "?k + w \<le> length (cells V)" using Suc.prems(6-8) by (simp add: le_diff_conv2) 
  have len: "length (cells ?V) = length (cells V)" using kw bs(4) by simp
  have "take (?k + w) (cells ?V) = take ?k (cells V) @ bs" using kw bs(4) by (simp add: overwrite_def)
  also have "\<dots> = take (?k + w) (cells W)" using Suc.prems(9) bs(3) by (simp add: take_add_slice)
  finally have pre: "take (p + w - buf_base W) (cells ?V) = take (p + w - buf_base W) (cells W)" using bs(1) by (simp add: add.commute)
  have "\<exists>V'. swap_items w n Hf (q + w) ?V (r + w) = Inr (q', V', r + w + w * n) \<and> buf_base V' = buf_base ?V \<and> length (cells V') = length (cells ?V) \<and>
     take (p' - buf_base W) (cells V') = take (p' - buf_base W) (cells W)"
    by (rule Suc.IH [OF r]) (use Suc.prems pre len kw bs(4-6) in simp_all)
  then show ?case using l st len by (auto simp: add.assoc)
qed simp

lemma align_ge: "0 < a \<Longrightarrow> p \<le> alignePtr p a"
proof -
  assume a: "0 < a"
  have "p + (a - 1) = (p + (a - 1)) div a * a + (p + (a - 1)) mod a" by simp
  moreover have "(p + (a - 1)) mod a \<le> a - 1" using a by (simp add: less_Suc_eq_le [symmetric])
  ultimately show ?thesis unfolding alignePtr_def by linarith
qed

lemma align_1 [simp]: "alignePtr p 1 = p" "alignePtr p (Suc 0) = p"
  by (simp_all add: alignePtr_def)

lemma align_4_2 [simp]: "alignePtr (alignePtr p 4 + 4) 2 = alignePtr p 4 + 4"
  unfolding alignePtr_def by presburger

section \<open>Back to the wire\<close>

text \<open>
  What every step of \<open>unmarshallDs\<close> does: it moves both pointers on, the one into memory by at least
  as much, and keeps what is below the latter; with the source exhausted it does nothing.
\<close>

definition advances :: "TAU_MARSHALL_INFO_T \<Rightarrow> TAU_MARSHALL_INFO_T \<Rightarrow> bool" where
  "advances u u' \<longleftrightarrow> src_mem u' = src_mem u \<and> pSrcEnd u' = pSrcEnd u \<and> buf_base (dst_mem u') = buf_base (dst_mem u) \<and>
     length (cells (dst_mem u')) = length (cells (dst_mem u)) \<and> pSrc u \<le> pSrc u' \<and> pDst u + pSrc u' \<le> pDst u' + pSrc u \<and>
     take (pDst u - buf_base (dst_mem u)) (cells (dst_mem u')) = take (pDst u - buf_base (dst_mem u)) (cells (dst_mem u))"

lemma advances_refl [simp]: "advances u u"
  by (simp add: advances_def)

lemma advances_trans: "advances u u1 \<Longrightarrow> advances u1 u' \<Longrightarrow> advances u u'"
  unfolding advances_def by (auto intro: take_shorter [THEN trans])

lemma swap_advances:
  assumes "swap_items w n (src_mem u) (pSrc u) (dst_mem u) q = Inr (p', H', q')" and "pDst u \<le> q"
  shows "advances u (u\<lparr>pSrc := p', dst_mem := H', pDst := q'\<rparr>)"
  using swap_items_frame [OF assms(1)] assms(2) take_shorter [of "q - buf_base (dst_mem u)" "cells H'" "cells (dst_mem u)" "pDst u - buf_base (dst_mem u)"]
  by (simp add: advances_def)

lemma unmarshall48_advances:
  assumes "unmarshall48 n (src_mem u) p H q = Inr (p', H', q')"
  shows "advances (u\<lparr>pSrc := p, dst_mem := H, pDst := q\<rparr>) (u\<lparr>pSrc := p', dst_mem := H', pDst := q'\<rparr>)"
  using assms
proof (induction n arbitrary: p H q)
  case (Suc n)
  then obtain p1 H1 q1 p2 H2 q2 where
    a: "swap_items 4 1 (src_mem u) p H (alignePtr q 4) = Inr (p1, H1, q1)" and
    b: "swap_items 2 1 (src_mem u) p1 H1 (alignePtr q1 2) = Inr (p2, H2, q2)" and
    r: "unmarshall48 n (src_mem u) p2 H2 (q1 + 4) = Inr (p', H', q')" by (auto split: sum.splits)
  have s1: "advances (u\<lparr>pSrc := p, dst_mem := H, pDst := q\<rparr>) (u\<lparr>pSrc := p1, dst_mem := H1, pDst := q1\<rparr>)"
    using swap_advances [of 4 1 "u\<lparr>pSrc := p, dst_mem := H, pDst := q\<rparr>"] a align_ge [of 4 q] by simp
  have s2: "advances (u\<lparr>pSrc := p1, dst_mem := H1, pDst := q1\<rparr>) (u\<lparr>pSrc := p2, dst_mem := H2, pDst := q2\<rparr>)"
    using swap_advances [of 2 1 "u\<lparr>pSrc := p1, dst_mem := H1, pDst := q1\<rparr>"] b align_ge [of 2 q1] by simp
  have "q2 \<le> q1 + 4" using swap_items_frame [OF a] swap_items_frame [OF b] by simp
  then have s3: "advances (u\<lparr>pSrc := p1, dst_mem := H1, pDst := q1\<rparr>) (u\<lparr>pSrc := p2, dst_mem := H2, pDst := q1 + 4\<rparr>)"
    using s2 by (simp add: advances_def)
  show ?case using advances_trans [OF s1 advances_trans [OF s3 Suc.IH [OF r]]] .
qed simp

text \<open>
  A state of \<open>unmarshallDs\<close> on the way to its final memory and end, and a state of \<open>marshallDs\<close> that
  reads that memory and has written as much of the wire as the other has read.
\<close>

definition settled :: "buffer \<Rightarrow> nat \<Rightarrow> TAU_MARSHALL_INFO_T \<Rightarrow> bool" where
  "settled Hf fp u \<longleftrightarrow> buf_base Hf = buf_base (dst_mem u) \<and> length (cells Hf) = length (cells (dst_mem u)) \<and>
     take (pDst u - buf_base Hf) (cells Hf) = take (pDst u - buf_base Hf) (cells (dst_mem u)) \<and>
     pSrc u \<le> pSrcEnd u \<and> pDst u + pSrcEnd u \<le> fp + pSrc u \<and> (pSrc u = pSrcEnd u \<longrightarrow> pDst u = fp) \<and>
     fp + 4 \<le> buf_base Hf + length (cells Hf)"

definition mirrors :: "buffer \<Rightarrow> nat \<Rightarrow> TAU_MARSHALL_INFO_T \<Rightarrow> TAU_MARSHALL_INFO_T \<Rightarrow> bool" where
  "mirrors Hf fp u m \<longleftrightarrow> src_mem m = Hf \<and> pSrcEnd m = fp \<and> pSrc m = pDst u \<and> buf_base Hf \<le> pDst u \<and>
     buf_base (src_mem u) \<le> pSrc u \<and> pDst m = buf_base (dst_mem m) + (pSrc u - buf_base (src_mem u)) \<and>
     pSrcEnd u - buf_base (src_mem u) \<le> length (cells (dst_mem m)) \<and>
     buf_base (dst_mem m) + (pSrcEnd u - buf_base (src_mem u)) \<le> pDstEnd m \<and>
     take (pSrc u - buf_base (src_mem u)) (cells (dst_mem m)) = take (pSrc u - buf_base (src_mem u)) (cells (src_mem u))"

lemma settled_before:
  assumes "advances u u'" and "settled Hf fp u'" and "pSrc u = pSrcEnd u \<longrightarrow> u' = u"
  shows "settled Hf fp u"
proof -
  have "take (pDst u - buf_base Hf) (cells Hf) = take (pDst u - buf_base Hf) (cells (dst_mem u'))"
    by (rule take_shorter [where n = "pDst u' - buf_base Hf"]) (use assms in \<open>auto simp: settled_def advances_def\<close>)
  then show ?thesis using assms by (auto simp: settled_def advances_def)
qed

lemma back_swap:
  assumes sw: "swap_items w n (src_mem u) (pSrc u) (dst_mem u) q = Inr (p', H', q')" and "pDst u \<le> q"
    and b: "mirrors Hf fp u m" and st: "settled Hf fp (u\<lparr>pSrc := p', dst_mem := H', pDst := q'\<rparr>)"
  shows "\<exists>V'. swap_items w n Hf q (dst_mem m) (pDst m) = Inr (q', V', pDst m + w * n) \<and>
     mirrors Hf fp (u\<lparr>pSrc := p', dst_mem := H', pDst := q'\<rparr>) (m\<lparr>pSrc := q', dst_mem := V', pDst := pDst m + w * n\<rparr>)"
proof -
  note fr = swap_items_frame [OF sw]
  have "\<exists>V'. swap_items w n Hf q (dst_mem m) (pDst m) = Inr (q', V', pDst m + w * n) \<and> buf_base V' = buf_base (dst_mem m) \<and>
      length (cells V') = length (cells (dst_mem m)) \<and>
      take (p' - buf_base (src_mem u)) (cells V') = take (p' - buf_base (src_mem u)) (cells (src_mem u))"
    by (rule swap_items_back [OF sw]) (use b st fr in \<open>auto simp: mirrors_def settled_def\<close>)
  then show ?thesis using b st fr assms(2) by (auto simp: mirrors_def settled_def)
qed

text \<open>The number of bytes written is within the destination, although their product is computed in 32 bits.\<close>

lemma mult_le_nat: "unat (n * of_nat w :: u32) \<le> w * unat n"
proof -
  have "unat (n * of_nat w) = unat (of_nat (w * unat n) :: u32)" by (simp add: mult.commute)
  also have "\<dots> \<le> w * unat n" unfolding unat_of_nat by simp
  finally show ?thesis .
qed

lemma mirrors_room:
  fixes n :: u32
  assumes "mirrors Hf fp u m" and "settled Hf fp u'" and "pSrc u' = pSrc u + w * unat n" and "pSrcEnd u' = pSrcEnd u"
  shows "\<not> pDst m + unat (n * of_nat w) > pDstEnd m"
  using assms mult_le_nat [of n w] by (auto simp: mirrors_def settled_def)

lemma unmarshall_values_sim:
  assumes un: "unmarshall_values w n v u = Inr (TRDP_NO_ERR, v', u')" and w: "w \<in> {1, 2, 4}"
    and m: "mirrors Hf fp u m" and st: "settled Hf fp u'"
  shows "advances u u' \<and> (\<exists>v'' m'. marshall_values w n m = Inr (TRDP_NO_ERR, v'', m') \<and> mirrors Hf fp u' m' \<and> (n = 1 \<longrightarrow> v'' = v'))"
proof -
  let ?q = "alignePtr (pDst u) w"
  have w0: "0 < w" "w \<le> 4" using w by auto
  obtain p' H' q' where sw: "swap_items w (unat n) (src_mem u) (pSrc u) (dst_mem u) ?q = Inr (p', H', q')"
    and u': "u' = u\<lparr>pSrc := p', dst_mem := H', pDst := q'\<rparr>" 
    and v': "n \<noteq> 0 \<Longrightarrow> map_sum id (\<lambda>bs. host_val (rev bs)) (load w (src_mem u) (p' - w)) = Inr v'"
    using un by (auto simp: unmarshall_values_def converted_def split: if_splits sum.splits)
  have q: "pDst u \<le> ?q" using align_ge w0 by blast
  note fr = swap_items_frame [OF sw]
  from back_swap [OF sw q m] st u' obtain V' where V': "swap_items w (unat n) Hf ?q (dst_mem m) (pDst m) = Inr (q', V', pDst m + w * unat n)"
    "mirrors Hf fp u' (m\<lparr>pSrc := q', dst_mem := V', pDst := pDst m + w * unat n\<rparr>)" by auto
  have ps: "pSrc m = pDst u" "src_mem m = Hf" using m by (auto simp: mirrors_def)
  have "buf_base Hf \<le> ?q \<and> ?q + w \<le> buf_base Hf + length (cells Hf)"
  proof -
    have "buf_base Hf \<le> pDst u" using m by (simp add: mirrors_def)
    moreover have "pDst u' \<le> fp" "fp + 4 \<le> buf_base Hf + length (cells Hf)" using st by (auto simp: settled_def)
    moreover have "?q \<le> pDst u'" using fr u' by simp
    ultimately show ?thesis using q w0 by linarith
  qed
  then obtain bs where bs: "load w Hf ?q = Inr bs" by (simp add: load_def)
  have "\<not> pDst m + unat (n * of_nat w) > pDstEnd m" by (rule mirrors_room [OF m st]) (use fr u' in simp_all)
  then have mv: "marshall_values w n m = Inr (TRDP_NO_ERR, host_val bs, m\<lparr>pSrc := q', dst_mem := V', pDst := pDst m + w * unat n\<rparr>)"
    using bs V'(1) ps by (simp add: marshall_values_def converted_def)
  have "host_val bs = v'" if "n = 1"
  proof -
    have "swap_items w (Suc 0) (src_mem u) (pSrc u) (dst_mem u) ?q = Inr (p', H', q')" using sw that by simp
    then obtain cs where cs: "load w (src_mem u) (pSrc u) = Inr cs" "store (rev cs) (dst_mem u) ?q = Inr H'" "p' = pSrc u + w" "q' = ?q + w"
      by (auto split: sum.splits)
    have lc: "length cs = w" using cs(1) by (auto simp: load_def split: if_splits)
    have "slice (?q - buf_base Hf) w (cells Hf) = slice (?q - buf_base Hf) w (cells H')"
    proof -
      have "take (?q + w - buf_base Hf) (cells Hf) = take (?q + w - buf_base Hf) (cells H')" using st u' cs(4) by (auto simp: settled_def)
      moreover have "?q + w - buf_base Hf = ?q - buf_base Hf + w" using m q by (auto simp: mirrors_def)
      ultimately show ?thesis by (metis slice_take_eq)
    qed
    also have "\<dots> = rev cs" using cs(2) lc st u' by (auto simp: store_def settled_def slice_overwrite_same split: if_splits)
    finally have "bs = rev cs" using bs by (auto simp: load_def split: if_splits)
    then show ?thesis using v' cs(1,3) that by simp
  qed
  then show ?thesis using swap_advances [OF sw q] u' mv V'(2) by auto
qed

lemma unmarshall48_end: "unmarshall48 n src p H q = Inr (p', H', q') \<Longrightarrow> p' = p + 6 * n"
proof (induction n arbitrary: p H q)
  case (Suc n)
  then obtain p1 H1 q1 p2 H2 q2 where
    a: "swap_items 4 1 src p H (alignePtr q 4) = Inr (p1, H1, q1)" and
    b: "swap_items 2 1 src p1 H1 (alignePtr q1 2) = Inr (p2, H2, q2)" and
    r: "unmarshall48 n src p2 H2 (q1 + 4) = Inr (p', H', q')" by (auto split: sum.splits)
  then show ?case using Suc.IH [OF r] swap_items_frame [OF a] swap_items_frame [OF b] by simp
qed simp

lemma unmarshall48_sim:
  assumes "unmarshall48 n (src_mem u) (pSrc u) (dst_mem u) (pDst u) = Inr (p', H', q')" and "mirrors Hf fp u m"
    and "settled Hf fp (u\<lparr>pSrc := p', dst_mem := H', pDst := q'\<rparr>)"
  shows "\<exists>V' r'. marshall48 n Hf (pDst u) (dst_mem m) (pDst m) = Inr (q', V', r') \<and>
     mirrors Hf fp (u\<lparr>pSrc := p', dst_mem := H', pDst := q'\<rparr>) (m\<lparr>pSrc := q', dst_mem := V', pDst := r'\<rparr>)"
  using assms
proof (induction n arbitrary: u m)
  case 0
  then have "p' = pSrc u" "H' = dst_mem u" "q' = pDst u" by simp_all
  moreover have "m\<lparr>pSrc := pDst u, dst_mem := dst_mem m, pDst := pDst m\<rparr> = m" using 0(2) by (simp add: mirrors_def)
  ultimately show ?case using 0(2) by simp
next
  case (Suc n)
  then obtain p1 H1 q1 p2 H2 q2 where
    a: "swap_items 4 1 (src_mem u) (pSrc u) (dst_mem u) (alignePtr (pDst u) 4) = Inr (p1, H1, q1)" and
    b: "swap_items 2 1 (src_mem u) p1 H1 (alignePtr q1 2) = Inr (p2, H2, q2)" and
    r: "unmarshall48 n (src_mem u) p2 H2 (q1 + 4) = Inr (p', H', q')" by (auto split: sum.splits)
  define u1 u2 u3 uf where "u1 = u\<lparr>pSrc := p1, dst_mem := H1, pDst := q1\<rparr>" and "u2 = u\<lparr>pSrc := p2, dst_mem := H2, pDst := q2\<rparr>"
    and "u3 = u\<lparr>pSrc := p2, dst_mem := H2, pDst := q1 + 4\<rparr>" and "uf = u\<lparr>pSrc := p', dst_mem := H', pDst := q'\<rparr>"
  have q: "q1 = alignePtr (pDst u) 4 + 4" "q2 = q1 + 2" "alignePtr q1 2 = q1" "p1 = pSrc u + 4" "p2 = p1 + 2"
    using swap_items_frame [OF a] swap_items_frame [OF b] by auto
  have ad: "advances u3 uf" unfolding u3_def uf_def by (rule unmarshall48_advances [OF r])
  have nx: "pSrc u3 = pSrcEnd u3 \<longrightarrow> uf = u3"
  proof
    assume "pSrc u3 = pSrcEnd u3"
    then have "p' = p2" using Suc.prems(3) ad by (simp add: settled_def advances_def u3_def uf_def)
    then have "n = 0" using unmarshall48_end [OF r] by simp
    then show "uf = u3" using r by (simp add: u3_def uf_def)
  qed
  have s3: "settled Hf fp u3" using settled_before [OF ad _ nx] Suc.prems(3) by (simp add: uf_def)
  have t3: "take (q2 - buf_base Hf) (cells Hf) = take (q2 - buf_base Hf) (cells H2)"
    by (rule take_shorter [where n = "q1 + 4 - buf_base Hf"]) (use s3 q in \<open>auto simp: settled_def u3_def\<close>)
  have f2: "buf_base H2 = buf_base H1 \<and> length (cells H2) = length (cells H1) \<and> take (q1 - buf_base H1) (cells H2) = take (q1 - buf_base H1) (cells H1)"
    using swap_items_frame [OF b] q by simp
  have t1: "take (q1 - buf_base Hf) (cells Hf) = take (q1 - buf_base Hf) (cells H1)"
    using take_shorter [OF t3, of "q1 - buf_base Hf"] f2 s3 q by (simp add: settled_def u3_def)
  note f1 = swap_items_frame [OF a]
  have "\<exists>V. swap_items 4 1 Hf (alignePtr (pDst u) 4) (dst_mem m) (pDst m) = Inr (q1, V, pDst m + 4 * 1) \<and>
    buf_base V = buf_base (dst_mem m) \<and> length (cells V) = length (cells (dst_mem m)) \<and>
    take (p1 - buf_base (src_mem u)) (cells V) = take (p1 - buf_base (src_mem u)) (cells (src_mem u))"
    by (rule swap_items_back [OF a]) (use Suc.prems(2) s3 t1 f1 f2 q in \<open>auto simp: mirrors_def settled_def u3_def\<close>)
  then obtain V1 where V1: "swap_items 4 1 Hf (alignePtr (pDst u) 4) (dst_mem m) (pDst m) = Inr (q1, V1, pDst m + 4)"
    "buf_base V1 = buf_base (dst_mem m)" "length (cells V1) = length (cells (dst_mem m))"
    "take (p1 - buf_base (src_mem u)) (cells V1) = take (p1 - buf_base (src_mem u)) (cells (src_mem u))" unfolding mult_1_right by blast
  have "\<exists>V. swap_items 2 1 Hf (alignePtr q1 2) V1 (pDst m + 4) = Inr (q2, V, pDst m + 4 + 2 * 1) \<and>
    buf_base V = buf_base V1 \<and> length (cells V) = length (cells V1) \<and>
    take (p2 - buf_base (src_mem u)) (cells V) = take (p2 - buf_base (src_mem u)) (cells (src_mem u))"
    by (rule swap_items_back [OF b]) (use Suc.prems(2) s3 t3 f1 f2 q V1(2-) in \<open>auto simp: mirrors_def settled_def u3_def\<close>)
  then obtain V2 where V2: "swap_items 2 1 Hf (alignePtr q1 2) V1 (pDst m + 4) = Inr (q2, V2, pDst m + 6)"
    "buf_base V2 = buf_base V1" "length (cells V2) = length (cells V1)"
    "take (p2 - buf_base (src_mem u)) (cells V2) = take (p2 - buf_base (src_mem u)) (cells (src_mem u))" by auto
  let ?m = "m\<lparr>pSrc := q1 + 4, dst_mem := V2, pDst := pDst m + 6\<rparr>"
  have "mirrors Hf fp u3 ?m"
    using Suc.prems(2) q V1 V2 s3 align_ge [of 4 "pDst u"] by (auto simp: mirrors_def u3_def)
  moreover have "unmarshall48 n (src_mem u3) (pSrc u3) (dst_mem u3) (pDst u3) = Inr (p', H', q')" using r by (simp add: u3_def)
  moreover have "settled Hf fp (u3\<lparr>pSrc := p', dst_mem := H', pDst := q'\<rparr>)" using Suc.prems(3) by (simp add: u3_def)
  ultimately obtain V' r' where "marshall48 n Hf (q1 + 4) V2 (pDst m + 6) = Inr (q', V', r')"
    "mirrors Hf fp (u3\<lparr>pSrc := p', dst_mem := H', pDst := q'\<rparr>) (?m\<lparr>pSrc := q', dst_mem := V', pDst := r'\<rparr>)"
    using Suc.IH [of u3 ?m] by (auto simp: u3_def)
  then show ?case using V1(1) V2(1) by (auto simp del: swap_items.simps simp: u3_def)
qed

definition sets_size :: "u32 \<Rightarrow> bool" where
  "sets_size t \<longleftrightarrow> is_8bit t \<or> is_16bit t \<or> is_32bit t"

lemma converted_NO_ERR:
  "converted v i r = Inr (e, v', i') \<longleftrightarrow> e = TRDP_NO_ERR \<and> v' = v \<and> (\<exists>p d q. r = Inr (p, d, q) \<and> i' = i\<lparr>pSrc := p, dst_mem := d, pDst := q\<rparr>)"
  by (auto simp: converted_def split: sum.splits prod.splits)

text \<open>A value that is copied with a given alignment, on the way there and back.\<close>

lemma aligned_sim:
  assumes sw: "swap_items w k (src_mem u) (pSrc u) (dst_mem u) (alignePtr (pDst u) a) = Inr (p', H', q')" and "0 < a"
    and m: "mirrors Hf fp u m" and st: "settled Hf fp (u\<lparr>pSrc := p', dst_mem := H', pDst := q'\<rparr>)"
  shows "advances u (u\<lparr>pSrc := p', dst_mem := H', pDst := q'\<rparr>)"
    "\<exists>V' r'. swap_items w k (src_mem m) (alignePtr (pSrc m) a) (dst_mem m) (pDst m) = Inr (q', V', r') \<and>
       mirrors Hf fp (u\<lparr>pSrc := p', dst_mem := H', pDst := q'\<rparr>) (m\<lparr>pSrc := q', dst_mem := V', pDst := r'\<rparr>)"
    "p' = pSrc u + w * k"
  using swap_advances [OF sw align_ge] back_swap [OF sw align_ge m st] swap_items_frame [OF sw] assms(2) m by (auto simp: mirrors_def)

lemma unmarshall_simple_sim:
  assumes un: "unmarshall_simple t n v u = Inr (TRDP_NO_ERR, v', u')" and t64: "t = TRDP_TIMEDATE64 \<longrightarrow> n = 1"
    and m: "mirrors Hf fp u m" and st: "settled Hf fp u'"
  shows "advances u u' \<and> (\<exists>v'' m'. marshall_simple t n v m = Inr (TRDP_NO_ERR, v'', m') \<and> mirrors Hf fp u' m' \<and>
     (if sets_size t then n = 1 \<longrightarrow> v'' = v' else v'' = v \<and> v' = v))"
proof -
  have room: "\<not> pDst m + unat (n * of_nat w) > pDstEnd m" if "pSrc u' = pSrc u + w * unat n" "pSrcEnd u' = pSrcEnd u" for w
    by (rule mirrors_room [OF m st that])
  consider "is_8bit t" | "is_16bit t" | "is_32bit t" | "t = 15" | "t = 16" | "is_64bit t"
    | "\<not> sets_size t" "t \<noteq> 15" "t \<noteq> 16" "\<not> is_64bit t" by (auto simp: sets_size_def)
  then show ?thesis
  proof cases
    case 1
    then show ?thesis using unmarshall_values_sim [of 1 n v u v' u' Hf fp m] un m st
      by (simp add: unmarshall_simple_def marshall_simple_def sets_size_def)
  next
    case 2
    then have "\<not> is_8bit t" by (auto simp: is_16bit_def is_8bit_def)
    then show ?thesis using 2 unmarshall_values_sim [of 2 n v u v' u' Hf fp m] un m st
      by (simp add: unmarshall_simple_def marshall_simple_def sets_size_def)
  next
    case 3
    then have "\<not> is_8bit t" "\<not> is_16bit t" by (auto simp: is_16bit_def is_8bit_def is_32bit_def)
    then show ?thesis using 3 unmarshall_values_sim [of 4 n v u v' u' Hf fp m] un m st
      by (simp add: unmarshall_simple_def marshall_simple_def sets_size_def)
  next
    case 4
    have c: "\<not> is_8bit t" "\<not> is_16bit t" "\<not> is_32bit t" "\<not> sets_size t" using 4 by (simp_all add: is_8bit_def is_16bit_def is_32bit_def sets_size_def)
    obtain p' H' q' where r: "unmarshall48 (unat n) (src_mem u) (pSrc u) (dst_mem u) (pDst u) = Inr (p', H', q')" "v' = v"
      "u' = u\<lparr>pSrc := p', dst_mem := H', pDst := q'\<rparr>"
      using un 4 c by (auto simp: unmarshall_simple_def converted_NO_ERR split: if_splits)
    have ad: "advances u u'" using unmarshall48_advances [OF r(1)] r(3) by simp
    have "\<not> pDst m + unat (n * 6) > pDstEnd m" using room [of 6] unmarshall48_end [OF r(1)] r(3) by simp
    moreover obtain V' r' where "marshall48 (unat n) Hf (pDst u) (dst_mem m) (pDst m) = Inr (q', V', r')"
      "mirrors Hf fp u' (m\<lparr>pSrc := q', dst_mem := V', pDst := r'\<rparr>)"
      using unmarshall48_sim [OF r(1) m] st r(3) by auto
    ultimately show ?thesis using ad 4 c r(2) m by (auto simp: marshall_simple_def converted_def mirrors_def)
  next
    case 5
    have c: "\<not> is_8bit t" "\<not> is_16bit t" "\<not> is_32bit t" "\<not> sets_size t" using 5 by (simp_all add: is_8bit_def is_16bit_def is_32bit_def sets_size_def)
    have n: "n = 1" using t64 5 by simp
    obtain p' H' q' where r: "swap_items 4 2 (src_mem u) (pSrc u) (dst_mem u) (alignePtr (pDst u) 4) = Inr (p', H', q')" "v' = v"
      "u' = u\<lparr>pSrc := p', dst_mem := H', pDst := q'\<rparr>"
      using un 5 c n by (auto simp: unmarshall_simple_def converted_NO_ERR split: if_splits sum.splits simp del: swap_items.simps)
    note sim = aligned_sim [OF r(1) _ m] 
    have "\<not> pDst m + unat (n * 8) > pDstEnd m" using room [of 8] sim(3) st r(3) n by simp
    then show ?thesis using sim(1,2) st r 5 c n by (fastforce simp: marshall_simple_def converted_def simp del: swap_items.simps)
  next
    case 6
    have c: "\<not> is_8bit t" "\<not> is_16bit t" "\<not> is_32bit t" "\<not> sets_size t" "t \<noteq> 15" "t \<noteq> 16"
      using 6 by (auto simp: is_8bit_def is_16bit_def is_32bit_def is_64bit_def sets_size_def)
    obtain p' H' q' where r: "swap_items 8 (unat n) (src_mem u) (pSrc u) (dst_mem u) (alignePtr (pDst u) 8) = Inr (p', H', q')" "v' = v"
      "u' = u\<lparr>pSrc := p', dst_mem := H', pDst := q'\<rparr>"
      using un 6 c by (auto simp: unmarshall_simple_def converted_NO_ERR split: if_splits)
    note sim = aligned_sim [OF r(1) _ m]
    have "\<not> pDst m + unat (n * 8) > pDstEnd m" using room [of 8] sim(3) st r(3) by simp
    then show ?thesis using sim(1,2) st r 6 c by (fastforce simp: marshall_simple_def converted_def)
  next
    case 7
    then show ?thesis using un m by (auto simp: unmarshall_simple_def marshall_simple_def sets_size_def split: if_splits)
  qed
qed

lemma unmarshall_values_advances:
  assumes "unmarshall_values w n v u = Inr (TRDP_NO_ERR, v', u')" and "0 < w"
  shows "advances u u'"
proof -
  obtain p' H' q' where sw: "swap_items w (unat n) (src_mem u) (pSrc u) (dst_mem u) (alignePtr (pDst u) w) = Inr (p', H', q')"
    and u': "u' = u\<lparr>pSrc := p', dst_mem := H', pDst := q'\<rparr>"
    using assms by (auto simp: unmarshall_values_def converted_def split: if_splits sum.splits)
  show ?thesis using swap_advances [OF sw align_ge [OF assms(2)]] u' by simp
qed

lemma unmarshall_simple_advances:
  assumes un: "unmarshall_simple t n v u = Inr (TRDP_NO_ERR, v', u')" and t64: "t = TRDP_TIMEDATE64 \<longrightarrow> n = 1"
  shows "advances u u'"
proof -
  have sw: "advances u (u\<lparr>pSrc := p', dst_mem := H', pDst := q'\<rparr>)"
    if "swap_items w k (src_mem u) (pSrc u) (dst_mem u) (alignePtr (pDst u) a) = Inr (p', H', q')" "0 < a" for w k a p' H' q'
    using swap_advances [OF that(1) align_ge [OF that(2)]] .
  consider w where "w \<in> {1, 2, 4}" "unmarshall_values w n v u = Inr (TRDP_NO_ERR, v', u')"
    | p' H' q' where "unmarshall48 (unat n) (src_mem u) (pSrc u) (dst_mem u) (pDst u) = Inr (p', H', q')" "u' = u\<lparr>pSrc := p', dst_mem := H', pDst := q'\<rparr>"
    | w k a p' H' q' where "swap_items w k (src_mem u) (pSrc u) (dst_mem u) (alignePtr (pDst u) a) = Inr (p', H', q')" "0 < a"
        "u' = u\<lparr>pSrc := p', dst_mem := H', pDst := q'\<rparr>"
    | "u' = u"
  proof (cases "sets_size t \<or> t = 15")
    case True
    then show ?thesis using un that(1) [of 1] that(1) [of 2] that(1) [of 4] that(2)
      by (auto simp: unmarshall_simple_def sets_size_def converted_NO_ERR split: if_splits)
  next
    case False
    show ?thesis
    proof (cases "t = 16")
      case True
      then show ?thesis using False un t64 that(3) [of 4 2 4]
        by (auto simp: unmarshall_simple_def sets_size_def converted_NO_ERR split: if_splits sum.splits simp del: swap_items.simps)
    next
      case no: False
      show ?thesis
      proof (cases "is_64bit t")
        case True
        then obtain p' H' q' where "swap_items 8 (unat n) (src_mem u) (pSrc u) (dst_mem u) (alignePtr (pDst u) 8) = Inr (p', H', q')"
            "u' = u\<lparr>pSrc := p', dst_mem := H', pDst := q'\<rparr>"
          using no False un by (auto simp: unmarshall_simple_def sets_size_def converted_NO_ERR split: if_splits)
        then show ?thesis by (intro that(3) [of 8 "unat n" 8]) simp_all
      next
        case none: False
        then have "u' = u" using no False un by (simp add: unmarshall_simple_def sets_size_def)
        then show ?thesis by (rule that(4))
      qed
    qed
  qed
  then show ?thesis
  proof cases
    case 1
    then show ?thesis using unmarshall_values_advances by auto
  next
    case 2
    then show ?thesis using unmarshall48_advances [OF 2(1)] by simp
  next
    case 3
    then show ?thesis using sw by blast
  qed simp
qed

text \<open>
  Datasets whose variable sizes are read from a single item, and whose 64-bit times are not in
  arrays; the flag says that both directions have the same variable size.
\<close>

fun invertible :: "bool \<Rightarrow> TRDP_DATASET_ELEMENT_T list \<Rightarrow> bool" where
  "invertible agree [] = True"
| "invertible agree (e # es) =
     ((el_size e = TDRP_VAR_SIZE \<longrightarrow> agree) \<and> (el_type e = TRDP_TIMEDATE64 \<longrightarrow> el_size e = 1) \<and>
      invertible (if sets_size (el_type e) then el_size e = 1 else agree) es)"

definition tables_invertible :: "marshall_tables \<Rightarrow> bool" where
  "tables_invertible db \<longleftrightarrow> (\<forall>ds \<in> set (sDataSets db). invertible True (pElement ds))"

lemma bsearch_member: "vos_bsearch key k xs = Some x \<Longrightarrow> x \<in> set xs"
  by (auto simp: vos_bsearch_def find_Some_iff)

lemma findDs_member: "findDs db t = Some ds \<Longrightarrow> ds \<in> set (sDataSets db)"
  unfolding findDs_def by (rule bsearch_member)

lemma sets_size_basic: "sets_size t \<Longrightarrow> \<not> t > TRDP_TYPE_MAX"
  by (auto simp: sets_size_def is_8bit_def is_16bit_def is_32bit_def)

definition steady :: "marshall_tables \<Rightarrow> (TRDP_DATASET_T \<Rightarrow> TAU_MARSHALL_INFO_T \<Rightarrow> ds_result) \<Rightarrow> bool" where
  "steady db sub \<longleftrightarrow> (\<forall>ds u u'. ds \<in> set (sDataSets db) \<longrightarrow> sub ds u = Inr (TRDP_NO_ERR, u') \<longrightarrow>
     advances u u' \<and> (pSrc u = pSrcEnd u \<longrightarrow> u' = u))"

lemma sub_sets_steady:
  assumes "steady db sub" and "sub_sets sub db n t u = Inr (TRDP_NO_ERR, u')"
  shows "advances u u' \<and> (pSrc u = pSrcEnd u \<longrightarrow> u' = u)"
  using assms(2)
proof (induction n arbitrary: u)
  case (Suc n)
  then obtain ds u1 where ds: "findDs db t = Some ds" "sub ds u = Inr (TRDP_NO_ERR, u1)" and r: "sub_sets sub db n t u1 = Inr (TRDP_NO_ERR, u')"
    by (auto split: option.splits sum.splits if_splits)
  have u1: "advances u u1 \<and> (pSrc u = pSrcEnd u \<longrightarrow> u1 = u)"
    using assms(1) ds(2) findDs_member [OF ds(1)] unfolding steady_def by blast
  show ?case using u1 Suc.IH [OF r] advances_trans by blast
qed simp

lemma elements_steady:
  assumes st: "steady db sub" and "ds_elements unmarshall_simple sub db es v u = Inr (TRDP_NO_ERR, u')" and "invertible f es"
  shows "advances u u' \<and> (pSrc u = pSrcEnd u \<longrightarrow> u' = u)"
  using assms(2,3)
proof (induction es arbitrary: v u f)
  case (Cons e es)
  let ?n = "if el_size e = 0 then v else el_size e"
  show ?case
  proof (cases "pSrcEnd u > pSrc u")
    case True
    show ?thesis
    proof (cases "el_type e > 30")
      case sub: True
      obtain u1 where u1: "sub_sets sub db (unat ?n) (el_type e) u = Inr (TRDP_NO_ERR, u1)" "ds_elements unmarshall_simple sub db es v u1 = Inr (TRDP_NO_ERR, u')"
        using Cons.prems(1) True sub by (auto simp: Let_def split: sum.splits if_splits)
      show ?thesis using Cons.IH [OF u1(2)] sub_sets_steady [OF st u1(1)] Cons.prems(2) True advances_trans by auto
    next
      case False
      obtain v1 u1 where u1: "unmarshall_simple (el_type e) ?n v u = Inr (TRDP_NO_ERR, v1, u1)" "ds_elements unmarshall_simple sub db es v1 u1 = Inr (TRDP_NO_ERR, u')"
        using Cons.prems(1) True False by (auto simp: Let_def split: sum.splits if_splits)
      have "advances u u1" using unmarshall_simple_advances [OF u1(1)] Cons.prems(2) by auto
      then show ?thesis using Cons.IH [OF u1(2)] Cons.prems(2) True advances_trans by auto
    qed
  qed (use Cons.prems in auto)
qed simp

lemma walk_steady: "tables_invertible db \<Longrightarrow> steady db (walkDs k unmarshall_simple db)"
proof (induction k)
  case (Suc k)
  have "advances u u' \<and> (pSrc u = pSrcEnd u \<longrightarrow> u' = u)"
    if "ds \<in> set (sDataSets db)" "walkDs (Suc k) unmarshall_simple db ds u = Inr (TRDP_NO_ERR, u')" for ds u u'
  proof -
    have "ds_elements unmarshall_simple (walkDs k unmarshall_simple db) db (pElement ds) 0 u = Inr (TRDP_NO_ERR, u')"
      using that(2) by (auto split: sum.splits if_splits)
    from elements_steady [OF Suc.IH [OF Suc.prems] this] show ?thesis using Suc.prems that(1) by (auto simp: tables_invertible_def)
  qed
  then show ?case by (auto simp: steady_def)
qed (simp add: steady_def)

lemma marshall_simple_var:
  assumes "marshall_simple t n v m = Inr (TRDP_NO_ERR, w, m')"
  shows "marshall_simple t n v' m = Inr (TRDP_NO_ERR, if sets_size t then w else v', m')"
  using assms by (auto simp: marshall_simple_def sets_size_def converted_NO_ERR split: if_splits)

text \<open>The walk back takes the same decisions.\<close>

definition simulates :: "marshall_tables \<Rightarrow> buffer \<Rightarrow> nat \<Rightarrow> (TRDP_DATASET_T \<Rightarrow> TAU_MARSHALL_INFO_T \<Rightarrow> ds_result) \<Rightarrow>
    (TRDP_DATASET_T \<Rightarrow> TAU_MARSHALL_INFO_T \<Rightarrow> ds_result) \<Rightarrow> bool" where
  "simulates db Hf fp f g \<longleftrightarrow> (\<forall>ds u u' m. ds \<in> set (sDataSets db) \<longrightarrow> f ds u = Inr (TRDP_NO_ERR, u') \<longrightarrow> mirrors Hf fp u m \<longrightarrow>
     settled Hf fp u' \<longrightarrow> (\<exists>m'. g ds m = Inr (TRDP_NO_ERR, m') \<and> mirrors Hf fp u' m'))"

lemma same_end:
  assumes "mirrors Hf fp u m" and "settled Hf fp u"
  shows "(pSrcEnd m > pSrc m) = (pSrcEnd u > pSrc u)"
  using assms by (auto simp: mirrors_def settled_def)

lemma sub_sets_sim:
  assumes st: "steady db f" and sim: "simulates db Hf fp f g"
    and "sub_sets f db n t u = Inr (TRDP_NO_ERR, u')" and "mirrors Hf fp u m" and "settled Hf fp u'"
  shows "\<exists>m'. sub_sets g db n t m = Inr (TRDP_NO_ERR, m') \<and> mirrors Hf fp u' m'"
  using assms(3-5)
proof (induction n arbitrary: u m)
  case (Suc n)
  then obtain ds u1 where ds: "findDs db t = Some ds" "f ds u = Inr (TRDP_NO_ERR, u1)" and r: "sub_sets f db n t u1 = Inr (TRDP_NO_ERR, u')"
    by (auto split: option.splits sum.splits if_splits)
  have s1: "settled Hf fp u1" using settled_before Suc.prems(3) sub_sets_steady [OF st r] by blast
  obtain m1 where m1: "g ds m = Inr (TRDP_NO_ERR, m1)" "mirrors Hf fp u1 m1"
    using sim ds(2) findDs_member [OF ds(1)] Suc.prems(2) s1 unfolding simulates_def by blast
  show ?case using Suc.IH [OF r m1(2) Suc.prems(3)] ds(1) m1(1) by simp
qed simp

lemma elements_sim:
  assumes st: "steady db f" and sim: "simulates db Hf fp f g"
    and "ds_elements unmarshall_simple f db es v u = Inr (TRDP_NO_ERR, u')" and "invertible b es" and "b \<longrightarrow> v' = v"
    and "mirrors Hf fp u m" and "settled Hf fp u'"
  shows "\<exists>m'. ds_elements marshall_simple g db es v' m = Inr (TRDP_NO_ERR, m') \<and> mirrors Hf fp u' m'"
  using assms(3-7)
proof (induction es arbitrary: v v' u m b)
  case (Cons e es)
  have su: "settled Hf fp u" using settled_before [OF _ Cons.prems(5)] elements_steady [OF st Cons.prems(1,2)] by blast
  note same = same_end [OF Cons.prems(4) su]
  show ?case
  proof (cases "pSrcEnd u > pSrc u")
    case False
    then show ?thesis using Cons.prems same by auto
  next
    case True
    define n where "n = (if el_size e = 0 then v else el_size e)"
    have n': "(if el_size e = 0 then v' else el_size e) = n" using Cons.prems(2,3) by (auto simp: n_def)
    show ?thesis
    proof (cases "el_type e > 30")
      case sub: True
      obtain u1 where u1: "sub_sets f db (unat n) (el_type e) u = Inr (TRDP_NO_ERR, u1)" "ds_elements unmarshall_simple f db es v u1 = Inr (TRDP_NO_ERR, u')"
        using Cons.prems(1) True sub by (auto simp: Let_def n_def split: sum.splits if_splits)
      have "\<not> sets_size (el_type e)" using sets_size_basic sub by blast
      then have iv: "invertible b es" using Cons.prems(2) by simp
      have s1: "settled Hf fp u1" using settled_before [OF _ Cons.prems(5)] elements_steady [OF st u1(2) iv] by blast
      from sub_sets_sim [OF st sim u1(1) Cons.prems(4) s1] obtain m1 where m1: "sub_sets g db (unat n) (el_type e) m = Inr (TRDP_NO_ERR, m1)" "mirrors Hf fp u1 m1" by blast
      show ?thesis using Cons.IH [OF u1(2) iv Cons.prems(3) m1(2) Cons.prems(5)] m1(1) sub True same n' by (simp add: Let_def)
    next
      case False
      obtain v1 u1 where u1: "unmarshall_simple (el_type e) n v u = Inr (TRDP_NO_ERR, v1, u1)" "ds_elements unmarshall_simple f db es v1 u1 = Inr (TRDP_NO_ERR, u')"
        using Cons.prems(1) True False by (auto simp: Let_def n_def split: sum.splits if_splits)
      let ?b = "if sets_size (el_type e) then el_size e = 1 else b"
      have iv: "invertible ?b es" and t64: "el_type e = 16 \<longrightarrow> n = 1" using Cons.prems(2) by (auto simp: n_def)
      have s1: "settled Hf fp u1" using settled_before [OF _ Cons.prems(5)] elements_steady [OF st u1(2) iv] by blast
      from unmarshall_simple_sim [OF u1(1) t64 Cons.prems(4) s1] obtain w1 m1 where
        m1: "marshall_simple (el_type e) n v m = Inr (TRDP_NO_ERR, w1, m1)" "mirrors Hf fp u1 m1"
          "if sets_size (el_type e) then n = 1 \<longrightarrow> w1 = v1 else w1 = v \<and> v1 = v" by blast
      obtain w2 where w2: "marshall_simple (el_type e) n v' m = Inr (TRDP_NO_ERR, w2, m1)" "?b \<longrightarrow> w2 = v1"
        using marshall_simple_var [OF m1(1), of v'] m1(3) Cons.prems(3) by (auto simp: n_def split: if_splits)
      show ?thesis using Cons.IH [OF u1(2) iv w2(2) m1(2) Cons.prems(5)] w2(1) False True same n' by (simp add: Let_def)
    qed
  qed
qed simp

lemma walk_sim: "tables_invertible db \<Longrightarrow> simulates db Hf fp (walkDs k unmarshall_simple db) (walkDs k marshall_simple db)"
proof (induction k)
  case (Suc k)
  have "\<exists>m'. walkDs (Suc k) marshall_simple db ds m = Inr (TRDP_NO_ERR, m') \<and> mirrors Hf fp u' m'"
    if "ds \<in> set (sDataSets db)" "walkDs (Suc k) unmarshall_simple db ds u = Inr (TRDP_NO_ERR, u')" "mirrors Hf fp u m" "settled Hf fp u'" for ds u u' m
  proof -
    have u': "ds_elements unmarshall_simple (walkDs k unmarshall_simple db) db (pElement ds) 0 u = Inr (TRDP_NO_ERR, u')"
      using that(2) by (auto split: sum.splits if_splits)
    have iv: "invertible True (pElement ds)" using Suc.prems that(1) by (simp add: tables_invertible_def)
    from elements_sim [OF walk_steady [OF Suc.prems] Suc.IH [OF Suc.prems] u' iv _ that(3,4), of 0] obtain m' where
      m': "ds_elements marshall_simple (walkDs k marshall_simple db) db (pElement ds) 0 m = Inr (TRDP_NO_ERR, m')" "mirrors Hf fp u' m'" by auto
    have "\<not> pSrc m' > pSrcEnd m'" using m'(2) that(4) by (auto simp: mirrors_def settled_def)
    then show ?thesis using m' by simp
  qed
  then show ?case unfolding simulates_def by blast
qed (simp add: simulates_def)

text \<open>Marshalling keeps the size and the place of the destination.\<close>

lemma marshall48_keeps: "marshall48 n src p dst q = Inr (p', dst', q') \<Longrightarrow> buf_base dst' = buf_base dst \<and> length (cells dst') = length (cells dst)"
proof (induction n arbitrary: p dst q)
  case (Suc n)
  then obtain p1 d1 q1 p2 d2 q2 where
    a: "swap_items 4 1 src (alignePtr p 4) dst q = Inr (p1, d1, q1)" and
    b: "swap_items 2 1 src (alignePtr p1 2) d1 q1 = Inr (p2, d2, q2)" and
    r: "marshall48 n src (p1 + 4) d2 q2 = Inr (p', dst', q')" by (auto split: sum.splits)
  show ?case using Suc.IH [OF r] swap_items_frame [OF a] swap_items_frame [OF b] by simp
qed simp

definition same_dst :: "TAU_MARSHALL_INFO_T \<Rightarrow> TAU_MARSHALL_INFO_T \<Rightarrow> bool" where
  "same_dst i i' \<longleftrightarrow> buf_base (dst_mem i') = buf_base (dst_mem i) \<and> length (cells (dst_mem i')) = length (cells (dst_mem i))"

lemma marshall_simple_keeps:
  assumes "marshall_simple t n v i = Inr (TRDP_NO_ERR, v', i')" shows "same_dst i i'"
  using assms
  by (auto simp: marshall_simple_def marshall_values_def Let_def converted_NO_ERR same_dst_def split: if_splits sum.splits
      dest!: swap_items_frame marshall48_keeps)

lemma same_dst_trans: "same_dst i j \<Longrightarrow> same_dst j k \<Longrightarrow> same_dst i k"
  by (simp add: same_dst_def)

lemma sub_sets_keeps:
  assumes "\<forall>ds i i'. sub ds i = Inr (TRDP_NO_ERR, i') \<longrightarrow> same_dst i i'" and "sub_sets sub db n t i = Inr (TRDP_NO_ERR, i')"
  shows "same_dst i i'"
  using assms(2)
proof (induction n arbitrary: i)
  case (Suc n)
  then obtain ds j where "sub ds i = Inr (TRDP_NO_ERR, j)" "sub_sets sub db n t j = Inr (TRDP_NO_ERR, i')"
    by (auto split: option.splits sum.splits if_splits)
  then show ?case using Suc.IH assms(1) same_dst_trans by blast
qed (simp add: same_dst_def)

lemma elements_keeps:
  assumes "\<forall>ds i i'. sub ds i = Inr (TRDP_NO_ERR, i') \<longrightarrow> same_dst i i'" and "ds_elements marshall_simple sub db es v i = Inr (TRDP_NO_ERR, i')"
  shows "same_dst i i'"
  using assms(2)
proof (induction es arbitrary: v i)
  case (Cons e es)
  let ?n = "if el_size e = 0 then v else el_size e"
  consider "i' = i" | j where "sub_sets sub db (unat ?n) (el_type e) i = Inr (TRDP_NO_ERR, j)" "ds_elements marshall_simple sub db es v j = Inr (TRDP_NO_ERR, i')"
    | v1 j where "marshall_simple (el_type e) ?n v i = Inr (TRDP_NO_ERR, v1, j)" "ds_elements marshall_simple sub db es v1 j = Inr (TRDP_NO_ERR, i')"
    using Cons.prems by (cases "pSrcEnd i > pSrc i"; cases "el_type e > 30") (auto simp: Let_def split: sum.splits if_splits)
  then show ?case
  proof cases
    case 2
    then show ?thesis using sub_sets_keeps [OF assms(1)] Cons.IH same_dst_trans by blast
  next
    case 3
    then show ?thesis using marshall_simple_keeps Cons.IH same_dst_trans by blast
  qed (simp add: same_dst_def)
qed (simp add: same_dst_def)

lemma walk_keeps_dst: "walkDs k marshall_simple db ds i = Inr (TRDP_NO_ERR, i') \<Longrightarrow> same_dst i i'"
proof (induction k arbitrary: ds i i')
  case (Suc k)
  then have "ds_elements marshall_simple (walkDs k marshall_simple db) db (pElement ds) 0 i = Inr (TRDP_NO_ERR, i')"
    by (auto split: sum.splits if_splits)
  then show ?case using elements_keeps Suc.IH by blast
qed simp

lemma comId_member: "findDSFromComId db c = Some ds \<Longrightarrow> ds \<in> set (sDataSets db)"
  by (auto simp: findDSFromComId_def bsearch_member split: option.splits)

definition whole :: "buffer \<Rightarrow> nat \<Rightarrow> buffer \<Rightarrow> TAU_MARSHALL_INFO_T" where
  "whole src n dst = \<lparr>src_mem = src, pSrc = buf_base src, pSrcEnd = buf_base src + n,
     dst_mem = dst, pDst = buf_base dst, pDstEnd = buf_base dst + length (cells dst)\<rparr>"

lemma tau_convert_whole:
  assumes "ident \<noteq> 0" and "look ident = Some ds" and "n < 2 ^ 32" and "cells dst \<noteq> []" and "length (cells dst) < 2 ^ 32"
    and "conv ds (whole src n dst) = Inr (err, i)"
  shows "tau_convert look conv ident (Some src) (of_nat n) (Some dst) (Some (of_nat (length (cells dst)))) None =
     Inr (err, Some (dst_mem i), Some (of_nat (pDst i - buf_base dst)), None)"
proof -
  have u: "unat (of_nat n :: u32) = n" "unat (of_nat (length (cells dst)) :: u32) = length (cells dst)"
    using assms(3,5) by (simp_all add: unat_of_nat)
  then have "of_nat (length (cells dst)) \<noteq> (0 :: u32)" using assms(4) by (metis length_0_conv unat_0)
  then show ?thesis using assms u by (simp add: tau_convert_def cached_ds_def whole_def)
qed

text \<open>
  C15 (unmarshalled_data_marshalls_back): a telegram that \<open>tau_unmarshall\<close> converts completely to the
  memory of the application is converted by \<open>tau_marshall\<close>, from that memory, to the telegram it was.
  This is for tables of datasets, nested to any depth the source allows, in which a variable array
  takes its size from a single item and no array of 64-bit times (TIMEDATE64) occurs, for which the
  code does not convert back; and for a buffer with four bytes to spare behind the result.
\<close>

theorem unmarshalled_data_marshalls_back:
  assumes db: "tables_invertible db" and c: "c \<noteq> 0" and ds: "findDSFromComId db c = Some ds"
    and un: "unmarshallDs db ds (whole W (length (cells W)) H) = Inr (TRDP_NO_ERR, u)" and all: "pSrc u = pSrcEnd u"
    and room: "pDst u + 4 \<le> buf_base H + length (cells H)" and V: "length (cells V) = length (cells W)"
    and len: "cells W \<noteq> []" "length (cells W) < 2 ^ 32" "length (cells H) < 2 ^ 32"
  shows "\<exists>H' V' k.
     tau_unmarshall db c (Some W) (of_nat (length (cells W))) (Some H) (Some (of_nat (length (cells H)))) None = Inr (TRDP_NO_ERR, Some H', Some k, None) \<and>
     tau_marshall db c (Some H') k (Some V) (Some (of_nat (length (cells V)))) None = Inr (TRDP_NO_ERR, Some V', Some (of_nat (length (cells W))), None) \<and>
     cells V' = cells W"
proof -
  let ?u = "whole W (length (cells W)) H" and ?k = "pDst u - buf_base H"
  have mem: "ds \<in> set (sDataSets db)" using comId_member [OF ds] .
  have ad: "advances ?u u" using walk_steady [OF db] mem un unfolding steady_def unmarshallDs_def by blast
  then have base: "buf_base H \<le> pDst u" "buf_base (dst_mem u) = buf_base H" "length (cells (dst_mem u)) = length (cells H)"
      "pSrcEnd u = buf_base W + length (cells W)" "src_mem u = W"
    using all by (auto simp: advances_def whole_def)
  have kl: "?k < 2 ^ 32" "?k < length (cells H)" using room base(1) len(3) by linarith+
  have m: "mirrors (dst_mem u) (pDst u) ?u (whole (dst_mem u) ?k V)" using base V by (simp add: mirrors_def whole_def)
  have s: "settled (dst_mem u) (pDst u) u" using all room base by (simp add: settled_def)
  obtain m' where m': "marshallDs db ds (whole (dst_mem u) ?k V) = Inr (TRDP_NO_ERR, m')" "mirrors (dst_mem u) (pDst u) u m'"
    using walk_sim [OF db] mem un m s unfolding simulates_def marshallDs_def unmarshallDs_def by blast
  have keep: "buf_base (dst_mem m') = buf_base V \<and> length (cells (dst_mem m')) = length (cells V)"
    using walk_keeps_dst [OF m'(1) [unfolded marshallDs_def]] by (simp add: same_dst_def whole_def)
  have "pDst m' - buf_base V = length (cells W)" "cells (dst_mem m') = cells W"
    using m'(2) keep V base all by (auto simp: mirrors_def)
  moreover have "tau_unmarshall db c (Some W) (of_nat (length (cells W))) (Some H) (Some (of_nat (length (cells H)))) None =
      Inr (TRDP_NO_ERR, Some (dst_mem u), Some (of_nat ?k), None)"
    unfolding tau_unmarshall_def by (rule tau_convert_whole [where look = "findDSFromComId db" and conv = "unmarshallDs db", OF c ds len(2) _ len(3) un]) (use kl in auto)
  moreover have "tau_marshall db c (Some (dst_mem u)) (of_nat ?k) (Some V) (Some (of_nat (length (cells V)))) None =
      Inr (TRDP_NO_ERR, Some (dst_mem m'), Some (of_nat (pDst m' - buf_base V)), None)"
    unfolding tau_marshall_def by (rule tau_convert_whole [where look = "findDSFromComId db" and conv = "marshallDs db", OF c ds kl(1) _ _ m'(1)]) (use V len in auto)
  ultimately show ?thesis by auto
qed

text \<open>Evaluation with numerals.\<close>

lemma walkDs_numeral:
  "walkDs (numeral k) simple db ds i =
     (case ds_elements simple (walkDs (pred_numeral k) simple db) db (pElement ds) 0 i of
        Inl f \<Rightarrow> Inl f
      | Inr (err, i) \<Rightarrow>
          if err \<noteq> TRDP_NO_ERR then Inr (err, i)
          else if pSrc i > pSrcEnd i then Inr (TRDP_MARSHALLING_ERR, i) else Inr (TRDP_NO_ERR, i))"
  by (simp add: numeral_eq_Suc)

lemma swap_items_numeral:
  "swap_items w (numeral k) src p dst q =
     (case load w src p of
        Inl f \<Rightarrow> Inl f
      | Inr bs \<Rightarrow>
          (case store (rev bs) dst q of
             Inl f \<Rightarrow> Inl f
           | Inr dst \<Rightarrow> swap_items w (pred_numeral k) src (p + w) dst (q + w)))"
  by (simp add: numeral_eq_Suc)

lemma sub_sets_numeral:
  "sub_sets sub db (numeral k) t i =
     (case findDs db t of
        None \<Rightarrow> Inr (TRDP_COMID_ERR, i)
      | Some ds \<Rightarrow>
          (case sub ds i of
             Inl f \<Rightarrow> Inl f
           | Inr (err, i) \<Rightarrow> if err \<noteq> TRDP_NO_ERR then Inr (err, i) else sub_sets sub db (pred_numeral k) t i))"
  by (simp add: numeral_eq_Suc)

lemmas ds_eval = walkDs_numeral swap_items_numeral sub_sets_numeral whole_def load_def store_def slice_def overwrite_def
  alignePtr_def converted_def host_val_def findDs_def vos_bsearch_def is_8bit_def is_16bit_def is_32bit_def is_64bit_def
  marshall_simple_def marshall_values_def unmarshall_simple_def unmarshall_values_def size_simple_def size_values_def
  marshallDs_def unmarshallDs_def size_unmarshall_def

definition el :: "u32 \<Rightarrow> u32 \<Rightarrow> TRDP_DATASET_ELEMENT_T" where
  "el t n = \<lparr>el_type = t, el_size = n\<rparr>"

text \<open>A 16-bit number, an array of as many nested structures of a byte and a 32-bit number, and a 48-bit time.\<close>

definition demo_tables :: marshall_tables where
  "demo_tables = \<lparr>sComIdDsIdMap = [\<lparr>map_comId = 7, map_datasetId = 1001\<rparr>],
     sDataSets = [\<lparr>ds_id = 1001, pElement = [el 9 1, el 1002 0, el 15 1]\<rparr>, \<lparr>ds_id = 1002, pElement = [el 8 1, el 10 1]\<rparr>]\<rparr>"

definition demo_wire :: buffer where
  "demo_wire = \<lparr>buf_base = 4099, cells = [0, 2, 7, 1, 2, 3, 4, 8, 5, 6, 7, 8, 0, 0, 1, 0, 0, 9]\<rparr>"

definition demo_host :: buffer where
  "demo_host = \<lparr>buf_base = 8192, cells = replicate 40 0\<rparr>"

theorem unmarshalled_data_marshalls_back_witness:
  "\<exists>H' V' k.
     tau_unmarshall demo_tables 7 (Some demo_wire) 18 (Some demo_host) (Some 40) None = Inr (TRDP_NO_ERR, Some H', Some k, None) \<and>
     tau_marshall demo_tables 7 (Some H') k (Some (demo_wire\<lparr>cells := replicate 18 0\<rparr>)) (Some 18) None =
       Inr (TRDP_NO_ERR, Some V', Some 18, None) \<and> cells V' = cells demo_wire"
proof -
  have inv: "tables_invertible demo_tables" by code_simp
  have ds: "findDSFromComId demo_tables 7 = Some \<lparr>ds_id = 1001, pElement = [el 9 1, el 1002 0, el 15 1]\<rparr>" by code_simp
  have "case unmarshallDs demo_tables \<lparr>ds_id = 1001, pElement = [el 9 1, el 1002 0, el 15 1]\<rparr> (whole demo_wire 18 demo_host) of
      Inl f \<Rightarrow> False | Inr (err, u) \<Rightarrow> err = TRDP_NO_ERR \<and> pSrc u = pSrcEnd u \<and> pDst u \<le> 8228"
    by (simp add: ds_eval demo_wire_def demo_host_def demo_tables_def el_def)
  then obtain u where u: "unmarshallDs demo_tables \<lparr>ds_id = 1001, pElement = [el 9 1, el 1002 0, el 15 1]\<rparr> (whole demo_wire 18 demo_host) = Inr (TRDP_NO_ERR, u)"
    "pSrc u = pSrcEnd u" "pDst u \<le> 8228" by (auto split: sum.splits)
  have w: "length (cells demo_wire) = 18" "cells demo_wire \<noteq> []" "length (cells demo_host) = 40" "buf_base demo_host = 8192"
    by (simp_all add: demo_wire_def demo_host_def)
  show ?thesis
    using unmarshalled_data_marshalls_back [OF inv _ ds, of demo_wire demo_host u "demo_wire\<lparr>cells := replicate 18 0\<rparr>"] u w by simp
qed

end
