(* ===== verification/Tau_Size.thy ===== *)
theory Tau_Size
  imports Tau_Roundtrip
begin

text \<open>
  The size that \<open>tau_calcDatasetSize\<close> computes for a dataset, and where the checks of
  \<open>unmarshallDs\<close> do not suffice.
\<close>

section \<open>The size of a dataset in memory\<close>

text \<open>Datasets with fixed numbers of items and without structured times.\<close>

definition plain_element :: "TRDP_DATASET_ELEMENT_T \<Rightarrow> bool" where
  "plain_element e \<longleftrightarrow> el_size e \<noteq> TDRP_VAR_SIZE \<and> el_type e \<noteq> TRDP_TIMEDATE48 \<and> el_type e \<noteq> TRDP_TIMEDATE64"

definition tables_plain :: "marshall_tables \<Rightarrow> bool" where
  "tables_plain db \<longleftrightarrow> (\<forall>ds \<in> set (sDataSets db). list_all plain_element (pElement ds))"

text \<open>The state of \<open>size_unmarshall\<close> beside that of \<open>unmarshallDs\<close>.\<close>

definition sized :: "nat \<Rightarrow> TAU_MARSHALL_INFO_T \<Rightarrow> TAU_MARSHALL_INFO_T \<Rightarrow> bool" where
  "sized b u s \<longleftrightarrow> src_mem s = src_mem u \<and> pSrc s = pSrc u \<and> pSrcEnd s = pSrcEnd u \<and> pDst u = b + pDst s"

lemma align_shift:
  assumes "8 dvd b" and "a \<in> {1, 2, 4, 8}"
  shows "alignePtr (b + q) a = b + alignePtr q a"
proof -
  obtain k where b: "b = 8 * k" using assms(1) by blast
  have "a dvd 8" using assms(2) by auto
  then obtain c where c: "8 = a * c" by blast
  have a: "a \<noteq> 0" using assms(2) by auto
  have "b + q + (a - 1) = a * (c * k) + (q + (a - 1))" using b c by (simp add: mult.assoc)
  then have "(b + q + (a - 1)) div a = c * k + (q + (a - 1)) div a" using a by (metis div_mult_self4)
  moreover have "c * k * a = b" using b c by (metis mult.assoc mult.commute)
  ultimately show ?thesis by (simp add: alignePtr_def distrib_right)
qed

lemma align_idem: "alignePtr (alignePtr q 8 + 8 * k) 8 = alignePtr q 8 + 8 * k"
proof -
  have "alignePtr q 8 + 8 * k = 8 * ((q + 7) div 8 + k)" by (simp add: alignePtr_def)
  moreover have "alignePtr (8 * m) 8 = 8 * m" for m by (simp add: alignePtr_def)
  ultimately show ?thesis by metis
qed

lemma align_times_8: "align_times (Suc n) 8 8 q = alignePtr q 8 + 8 * Suc n"
proof (induction n arbitrary: q)
  case (Suc n)
  have "align_times (Suc (Suc n)) 8 8 q = align_times (Suc n) 8 8 (alignePtr q 8 + 8)" by simp
  also have "\<dots> = alignePtr (alignePtr q 8 + 8 * 1) 8 + 8 * Suc n" unfolding Suc.IH by simp
  finally show ?case unfolding align_idem by simp
qed simp

lemma size_values_sim:
  assumes un: "unmarshall_values w n v u = Inr (TRDP_NO_ERR, v', u')" and n: "n \<noteq> 0" and w: "w \<in> {1, 2, 4}"
    and s: "sized b u s" and b: "8 dvd b"
  shows "\<exists>v'' s'. size_values w n s = Inr (TRDP_NO_ERR, v'', s') \<and> sized b u' s'"
proof -
  obtain p' H' q' where sw: "swap_items w (unat n) (src_mem u) (pSrc u) (dst_mem u) (alignePtr (pDst u) w) = Inr (p', H', q')"
    and u': "u' = u\<lparr>pSrc := p', dst_mem := H', pDst := q'\<rparr>"
    using un by (auto simp: unmarshall_values_def converted_def split: if_splits sum.splits)
  have n0: "unat n > 0" using n by (simp add: unat_gt_0)
  note fr = swap_items_frame [OF sw]
  have "w \<le> w * unat n" using n0 by simp
  moreover have "buf_base (src_mem u) \<le> pSrc u" "pSrc u + w * unat n \<le> buf_base (src_mem u) + length (cells (src_mem u))"
    using fr n0 by auto
  ultimately have "buf_base (src_mem u) \<le> pSrc u" "pSrc u + w \<le> buf_base (src_mem u) + length (cells (src_mem u))" by linarith+
  then have "\<exists>bs. load w (src_mem s) (pSrc s) = Inr bs" using s by (simp add: load_def sized_def)
  moreover have "alignePtr (pDst u) w = b + alignePtr (pDst s) w" using s align_shift [OF b] w by (auto simp: sized_def)
  ultimately show ?thesis using fr u' s by (auto simp: size_values_def sized_def)
qed

lemma size_simple_sim:
  assumes un: "unmarshall_simple t n v u = Inr (TRDP_NO_ERR, v', u')" and n: "n \<noteq> 0" and t: "t \<noteq> 15" "t \<noteq> 16"
    and s: "sized b u s" and b: "8 dvd b"
  shows "\<exists>v'' s'. size_simple t n x s = Inr (TRDP_NO_ERR, v'', s') \<and> sized b u' s'"
proof (cases "sets_size t \<or> \<not> is_64bit t")
  case True
  then show ?thesis
    using un t s size_values_sim [of 1 n v u v' u' b s] size_values_sim [of 2 n v u v' u' b s] size_values_sim [of 4 n v u v' u' b s] n b
    by (auto simp: unmarshall_simple_def size_simple_def sets_size_def split: if_splits)
next
  case False
  then obtain p' H' q' where sw: "swap_items 8 (unat n) (src_mem u) (pSrc u) (dst_mem u) (alignePtr (pDst u) 8) = Inr (p', H', q')"
      and u': "u' = u\<lparr>pSrc := p', dst_mem := H', pDst := q'\<rparr>"
    using t un by (auto simp: unmarshall_simple_def sets_size_def converted_NO_ERR split: if_splits)
  obtain k where k: "unat n = Suc k" using n by (metis unat_eq_zero old.nat.exhaust)
  have "alignePtr (pDst u) 8 = b + alignePtr (pDst s) 8" using s align_shift [OF b] by (auto simp: sized_def)
  then show ?thesis using swap_items_frame [OF sw] u' s t False k
    by (simp add: size_simple_def sets_size_def sized_def align_times_8 del: align_times.simps)
qed

definition sizes :: "marshall_tables \<Rightarrow> nat \<Rightarrow> (TRDP_DATASET_T \<Rightarrow> TAU_MARSHALL_INFO_T \<Rightarrow> ds_result) \<Rightarrow>
    (TRDP_DATASET_T \<Rightarrow> TAU_MARSHALL_INFO_T \<Rightarrow> ds_result) \<Rightarrow> bool" where
  "sizes db b f g \<longleftrightarrow> (\<forall>ds u u' s. ds \<in> set (sDataSets db) \<longrightarrow> f ds u = Inr (TRDP_NO_ERR, u') \<longrightarrow> sized b u s \<longrightarrow>
     (\<exists>s'. g ds s = Inr (TRDP_NO_ERR, s') \<and> sized b u' s'))"

lemma sub_sets_sizes:
  assumes "sizes db b f g" and "sub_sets f db n t u = Inr (TRDP_NO_ERR, u')" and "sized b u s"
  shows "\<exists>s'. sub_sets g db n t s = Inr (TRDP_NO_ERR, s') \<and> sized b u' s'"
  using assms(2,3)
proof (induction n arbitrary: u s)
  case (Suc n)
  then obtain ds u1 where ds: "findDs db t = Some ds" "f ds u = Inr (TRDP_NO_ERR, u1)" and r: "sub_sets f db n t u1 = Inr (TRDP_NO_ERR, u')"
    by (auto split: option.splits sum.splits if_splits)
  obtain s1 where s1: "g ds s = Inr (TRDP_NO_ERR, s1)" "sized b u1 s1"
    using assms(1) ds(2) findDs_member [OF ds(1)] Suc.prems(2) unfolding sizes_def by blast
  show ?case using Suc.IH [OF r s1(2)] ds(1) s1(1) by simp
qed simp

lemma elements_sizes:
  assumes sz: "sizes db b f g" and b: "8 dvd b" and "ds_elements unmarshall_simple f db es v u = Inr (TRDP_NO_ERR, u')"
    and "list_all plain_element es" and "sized b u s"
  shows "\<exists>s'. ds_elements size_simple g db es x s = Inr (TRDP_NO_ERR, s') \<and> sized b u' s'"
  using assms(3-5)
proof (induction es arbitrary: v x u s)
  case (Cons e es)
  have e: "el_size e \<noteq> 0" "el_type e \<noteq> 15" "el_type e \<noteq> 16" and es: "list_all plain_element es"
    using Cons.prems(2) by (simp_all add: plain_element_def [of e])
  have same: "(pSrcEnd s > pSrc s) = (pSrcEnd u > pSrc u)" using Cons.prems(3) by (simp add: sized_def)
  show ?case
  proof (cases "pSrcEnd u > pSrc u")
    case True
    show ?thesis
    proof (cases "el_type e > 30")
      case sub: True
      obtain u1 where u1: "sub_sets f db (unat (el_size e)) (el_type e) u = Inr (TRDP_NO_ERR, u1)" "ds_elements unmarshall_simple f db es v u1 = Inr (TRDP_NO_ERR, u')"
        using Cons.prems(1) True sub e by (auto simp: Let_def split: sum.splits if_splits)
      from sub_sets_sizes [OF sz u1(1) Cons.prems(3)] obtain s1 where s1: "sub_sets g db (unat (el_size e)) (el_type e) s = Inr (TRDP_NO_ERR, s1)" "sized b u1 s1" by blast
      show ?thesis using Cons.IH [OF u1(2) es s1(2)] s1(1) sub True same e by (simp add: Let_def)
    next
      case False
      obtain v1 u1 where u1: "unmarshall_simple (el_type e) (el_size e) v u = Inr (TRDP_NO_ERR, v1, u1)" "ds_elements unmarshall_simple f db es v1 u1 = Inr (TRDP_NO_ERR, u')"
        using Cons.prems(1) True False e by (auto simp: Let_def split: sum.splits if_splits)
      from size_simple_sim [OF u1(1) e Cons.prems(3) b, of x] obtain x1 s1 where
        s1: "size_simple (el_type e) (el_size e) x s = Inr (TRDP_NO_ERR, x1, s1)" "sized b u1 s1" by blast
      show ?thesis using Cons.IH [OF u1(2) es s1(2), of x1] s1(1) False True same e by (simp add: Let_def)
    qed
  qed (use Cons.prems same in auto)
qed simp

lemma walk_sizes: "tables_plain db \<Longrightarrow> 8 dvd b \<Longrightarrow> sizes db b (walkDs k unmarshall_simple db) (walkDs k size_simple db)"
proof (induction k)
  case (Suc k)
  have "\<exists>s'. walkDs (Suc k) size_simple db ds s = Inr (TRDP_NO_ERR, s') \<and> sized b u' s'"
    if "ds \<in> set (sDataSets db)" "walkDs (Suc k) unmarshall_simple db ds u = Inr (TRDP_NO_ERR, u')" "sized b u s" for ds u u' s
  proof -
    have u': "ds_elements unmarshall_simple (walkDs k unmarshall_simple db) db (pElement ds) 0 u = Inr (TRDP_NO_ERR, u')" "\<not> pSrc u' > pSrcEnd u'"
      using that(2) by (auto split: sum.splits if_splits)
    have "list_all plain_element (pElement ds)" using Suc.prems that(1) by (simp add: tables_plain_def)
    from elements_sizes [OF Suc.IH [OF Suc.prems] Suc.prems(2) u'(1) this that(3), of 0] u'(2) show ?thesis by (auto simp: sized_def)
  qed
  then show ?case unfolding sizes_def by blast
qed (simp add: sizes_def)

text \<open>
  C16 (calculated_size_is_used): for datasets with fixed numbers of items and without 48- and 64-bit
  times, the size that \<open>tau_calcDatasetSizeByComId\<close> computes from a telegram is the number of bytes
  that \<open>tau_unmarshall\<close> writes to a buffer aligned for them.
\<close>

theorem calculated_size_is_used:
  assumes db: "tables_plain db" and c: "c \<noteq> 0" and ds: "findDSFromComId db c = Some ds" and b: "8 dvd buf_base H"
    and un: "tau_unmarshall db c (Some W) n (Some H) (Some k) None = Inr (TRDP_NO_ERR, Some H', Some k', None)"
  shows "tau_calcDatasetSizeByComId db c (Some W) n None = Inr (TRDP_NO_ERR, Some k', None)"
proof -
  let ?u = "\<lparr>src_mem = W, pSrc = buf_base W, pSrcEnd = buf_base W + unat n, dst_mem = H, pDst = buf_base H, pDstEnd = buf_base H + unat k\<rparr>"
  let ?s = "\<lparr>src_mem = W, pSrc = buf_base W, pSrcEnd = buf_base W + unat n, dst_mem = \<lparr>buf_base = 0, cells = []\<rparr>, pDst = 0, pDstEnd = 0\<rparr>"
  obtain u where u: "unmarshallDs db ds ?u = Inr (TRDP_NO_ERR, u)" and k': "k' = of_nat (pDst u - buf_base H)"
    using un c ds by (auto simp: tau_unmarshall_def tau_convert_def cached_ds_def split: sum.splits if_splits)
  have "sized (buf_base H) ?u ?s" by (simp add: sized_def)
  then obtain s where "size_unmarshall db ds ?s = Inr (TRDP_NO_ERR, s)" "sized (buf_base H) u s"
    using walk_sizes [OF db b] comId_member [OF ds] u unfolding sizes_def unmarshallDs_def size_unmarshall_def by blast
  then show ?thesis using c ds k' by (simp add: tau_calcDatasetSizeByComId_def tau_size_def cached_ds_def sized_def)
qed

definition plain_tables :: marshall_tables where
  "plain_tables = \<lparr>sComIdDsIdMap = [\<lparr>map_comId = 7, map_datasetId = 1001\<rparr>],
     sDataSets = [\<lparr>ds_id = 1001, pElement = [el 9 1, el 1002 1, el 10 1]\<rparr>, \<lparr>ds_id = 1002, pElement = [el 8 1, el 10 1]\<rparr>]\<rparr>"

definition plain_wire :: buffer where
  "plain_wire = \<lparr>buf_base = 4099, cells = [0, 2, 7, 1, 2, 3, 4, 5, 6, 7, 8]\<rparr>"

theorem calculated_size_is_used_witness:
  "tau_calcDatasetSizeByComId plain_tables 7 (Some plain_wire) 11 None = Inr (TRDP_NO_ERR, Some 12, None)"
proof -
  have db: "tables_plain plain_tables" by (simp add: tables_plain_def plain_element_def plain_tables_def el_def)
  have ds: "findDSFromComId plain_tables 7 = Some \<lparr>ds_id = 1001, pElement = [el 9 1, el 1002 1, el 10 1]\<rparr>"
    by (simp add: findDSFromComId_def vos_bsearch_def plain_tables_def el_def)
  have "case tau_unmarshall plain_tables 7 (Some plain_wire) 11 (Some demo_host) (Some 40) None of
      Inl f \<Rightarrow> False | Inr (err, H', k, c) \<Rightarrow> err = TRDP_NO_ERR \<and> H' \<noteq> None \<and> k = Some 12 \<and> c = None"
    by (simp add: tau_unmarshall_def tau_convert_def cached_ds_def findDSFromComId_def ds_eval plain_wire_def demo_host_def plain_tables_def el_def)
  then obtain H' where "tau_unmarshall plain_tables 7 (Some plain_wire) 11 (Some demo_host) (Some 40) None = Inr (TRDP_NO_ERR, Some H', Some 12, None)"
    by (auto split: sum.splits)
  from calculated_size_is_used [OF db _ ds _ this] show ?thesis by (simp add: demo_host_def)
qed

section \<open>Where the check of the destination does not suffice\<close>

lemma swap_items_fault: "swap_items w n src p dst q = Inl f \<Longrightarrow> f = OutOfBounds"
  by (induction n arbitrary: p dst q) (auto simp: load_def store_def split: if_splits sum.splits)

lemma swap_items_overrun:
  assumes "0 < w" and "length (cells dst) < w * n"
  shows "swap_items w n src p dst q = Inl OutOfBounds"
proof (cases "swap_items w n src p dst q")
  case (Inl f)
  then show ?thesis using swap_items_fault by blast
next
  case (Inr r)
  moreover obtain p' d q' where "r = (p', d, q')" by (metis prod_cases3)
  ultimately show ?thesis using swap_items_frame [of w n src p dst q p' d q'] assms by (cases "n = 0") auto
qed

text \<open>
  a dataset of a count and an array of as many 32-bit numbers. The check of
  \<open>unmarshallDs\<close> compares a product of 32 bits with the space that is left; a telegram that
  announces \<open>2 ^ 30\<close> numbers makes it zero, whatever follows, and the loop runs out of the buffer.
\<close>

theorem count_check_wraps:
  assumes ds: "findDSFromComId db c = Some ds" "pElement ds = [el 10 1, el 10 0]" and c: "c \<noteq> 0"
    and W: "cells W = [64, 0, 0, 0] @ x # xs" "length (cells W) < 2 ^ 32"
    and H: "8 \<le> length (cells H)" "length (cells H) < 2 ^ 32" "4 dvd buf_base H"
  shows "tau_unmarshall db c (Some W) (of_nat (length (cells W))) (Some H) (Some (of_nat (length (cells H)))) None = Inl OutOfBounds"
proof -
  obtain k where k: "buf_base H = 4 * k" using H(3) by blast
  have u: "unat (of_nat (length (cells W)) :: u32) = length (cells W)" "unat (of_nat (length (cells H)) :: u32) = length (cells H)"
    using W(2) H(2) by (simp_all add: unat_of_nat)
  have n0: "of_nat (length (cells H)) \<noteq> (0 :: u32)" using u(2) H(1) by (metis le_zero_eq unat_0 zero_neq_numeral)
  have al: "alignePtr (buf_base H) 4 = buf_base H" "alignePtr (buf_base H + 4) 4 = buf_base H + 4" using k by (simp_all add: alignePtr_def)
  let ?i = "\<lparr>src_mem = W, pSrc = buf_base W, pSrcEnd = buf_base W + length (cells W), dst_mem = H, pDst = buf_base H, pDstEnd = buf_base H + length (cells H)\<rparr>"
  let ?H = "H\<lparr>cells := overwrite 0 [0, 0, 0, 64] (cells H)\<rparr>"
  have ld: "load 4 W (buf_base W) = Inr [64, 0, 0, 0]" using W(1) by (simp add: load_def slice_def)
  have st: "store [0, 0, 0, 64] H (buf_base H) = Inr ?H" using H(1) by (simp add: store_def)
  have first: "unmarshall_simple 10 1 0 ?i = Inr (TRDP_NO_ERR, 0x40000000, ?i\<lparr>pSrc := buf_base W + 4, dst_mem := ?H, pDst := buf_base H + 4\<rparr>)"
    using ld st al H(1) by (simp add: unmarshall_simple_def unmarshall_values_def is_8bit_def is_16bit_def is_32bit_def converted_def host_val_def)
  have over: "swap_items 4 (unat (0x40000000 :: u32)) W (buf_base W + 4) ?H (buf_base H + 4) = Inl OutOfBounds"
    by (rule swap_items_overrun) (use H(2) in \<open>simp_all add: overwrite_def\<close>)
  have "unmarshall_simple 10 0x40000000 0x40000000 (?i\<lparr>pSrc := buf_base W + 4, dst_mem := ?H, pDst := buf_base H + 4\<rparr>) = Inl OutOfBounds"
    using over al H(1) by (simp add: unmarshall_simple_def unmarshall_values_def is_8bit_def is_16bit_def is_32bit_def)
  then have "unmarshallDs db ds ?i = Inl OutOfBounds"
    using first ds(2) W(1) by (simp add: unmarshallDs_def walkDs_numeral el_def)
  then show ?thesis using ds(1) c u n0 by (simp add: tau_unmarshall_def tau_convert_def cached_ds_def)
qed

theorem count_check_wraps_witness:
  "tau_unmarshall (plain_tables\<lparr>sDataSets := [\<lparr>ds_id = 1001, pElement = [el 10 1, el 10 0]\<rparr>]\<rparr>) 7
     (Some (plain_wire\<lparr>cells := [64, 0, 0, 0, 1, 2, 3, 4]\<rparr>)) 8 (Some demo_host) (Some 40) None = Inl OutOfBounds"
  using count_check_wraps [of "plain_tables\<lparr>sDataSets := [\<lparr>ds_id = 1001, pElement = [el 10 1, el 10 0]\<rparr>]\<rparr>" 7
      "\<lparr>ds_id = 1001, pElement = [el 10 1, el 10 0]\<rparr>" "plain_wire\<lparr>cells := [64, 0, 0, 0, 1, 2, 3, 4]\<rparr>" 1 "[2, 3, 4]" demo_host]
  by (simp add: findDSFromComId_def vos_bsearch_def plain_tables_def demo_host_def)

end
