(* ===== verification/Ptp_Clock.thy ===== *)
theory Ptp_Clock
  imports Axienet
begin

text \<open>
  The hardware clock, \<^verbatim>\<open>driver/xilinx/xilinx_tsn_ptp_clock.c\<close>: setting, adjusting and reading the
  real-time clock through its registers, and the pulse per second.

  The helpers of the kernel on \<open>timespec64\<close> are an argument, with what their documentation says of
  them as a predicate. The registers with the current time are set by the hardware: what they show
  for given offset registers is an argument, with the law of the clock as a predicate.
\<close>

section \<open>State\<close>

record timespec64 =
  tv_sec :: int
  tv_nsec :: int

definition ts_ns :: "timespec64 \<Rightarrow> int" where
  "ts_ns t = tv_sec t * 1000000000 + tv_nsec t"

definition ts_norm :: "timespec64 \<Rightarrow> bool" where
  "ts_norm t \<longleftrightarrow> 0 \<le> tv_nsec t \<and> tv_nsec t < 1000000000"

record time64_ops =
  ns_to_timespec64 :: "int \<Rightarrow> timespec64"
  timespec64_add :: "timespec64 \<Rightarrow> timespec64 \<Rightarrow> timespec64"
  timespec64_sub :: "timespec64 \<Rightarrow> timespec64 \<Rightarrow> timespec64"

text \<open>The helpers give the sum or the difference with the nanoseconds between zero and a second.\<close>

definition time64_ok :: "time64_ops \<Rightarrow> bool" where
  "time64_ok ops \<longleftrightarrow>
     (\<forall>n. ts_norm (ns_to_timespec64 ops n) \<and> ts_ns (ns_to_timespec64 ops n) = n) \<and>
     (\<forall>a b. ts_norm (timespec64_add ops a b) \<and> ts_ns (timespec64_add ops a b) = ts_ns a + ts_ns b) \<and>
     (\<forall>a b. ts_norm (timespec64_sub ops a b) \<and> ts_ns (timespec64_sub ops a b) = ts_ns a - ts_ns b)"

abbreviation (input) XTIMER1588_RTC_OFFSET_NS :: u32 where "XTIMER1588_RTC_OFFSET_NS \<equiv> 0x00000"
abbreviation (input) XTIMER1588_RTC_OFFSET_SEC_L :: u32 where "XTIMER1588_RTC_OFFSET_SEC_L \<equiv> 0x00008"
abbreviation (input) XTIMER1588_RTC_OFFSET_SEC_H :: u32 where "XTIMER1588_RTC_OFFSET_SEC_H \<equiv> 0x0000C"
abbreviation (input) XTIMER1588_RTC_INCREMENT :: u32 where "XTIMER1588_RTC_INCREMENT \<equiv> 0x00010"
abbreviation (input) XTIMER1588_INTERRUPT :: u32 where "XTIMER1588_INTERRUPT \<equiv> 0x00020"
abbreviation (input) PULSESIN1PPS :: nat where "PULSESIN1PPS \<equiv> 128"

text \<open>
  \<open>rtc\<close> is what the two registers of the current time, seconds and nanoseconds, show for the contents
  of the others. \<open>pps_events\<close> counts the events given to the PTP subsystem.
\<close>

record xlnx_ptp_timer =
  tm_regs :: "u32 \<Rightarrow> u32"
  rtc :: "(u32 \<Rightarrow> u32) \<Rightarrow> u32 \<times> u32"
  ptp_clock :: bool
  pps_enable :: bool
  countpulse :: nat
  pps_events :: nat

definition timer_out :: "u32 \<Rightarrow> u32 \<Rightarrow> xlnx_ptp_timer \<Rightarrow> xlnx_ptp_timer" where
  "timer_out a v t = t\<lparr>tm_regs := (tm_regs t)(a := v)\<rparr>"

section \<open>Operations\<close>

definition xlnx_tod_read :: "xlnx_ptp_timer \<Rightarrow> timespec64" where
  "xlnx_tod_read t = (case rtc t (tm_regs t) of (sec, nsec) \<Rightarrow> \<lparr>tv_sec = uint sec, tv_nsec = uint nsec\<rparr>)"

definition xlnx_rtc_offset_write :: "xlnx_ptp_timer \<Rightarrow> timespec64 \<Rightarrow> xlnx_ptp_timer" where
  "xlnx_rtc_offset_write t ts =
     (let t = timer_out XTIMER1588_RTC_OFFSET_SEC_H 0 t;
          t = timer_out XTIMER1588_RTC_OFFSET_SEC_L (word_of_int (tv_sec ts)) t
      in timer_out XTIMER1588_RTC_OFFSET_NS (word_of_int (tv_nsec ts)) t)"

definition xlnx_rtc_offset_read :: "xlnx_ptp_timer \<Rightarrow> timespec64" where
  "xlnx_rtc_offset_read t =
     \<lparr>tv_sec = uint (tm_regs t XTIMER1588_RTC_OFFSET_SEC_L), tv_nsec = uint (tm_regs t XTIMER1588_RTC_OFFSET_NS)\<rparr>"

text \<open>The product is one of 64 bits; the subsystem keeps \<open>ppb\<close> within \<open>max_adj\<close>.\<close>

definition xlnx_ptp_adjfreq :: "xlnx_ptp_timer \<Rightarrow> s32 \<Rightarrow> int \<times> xlnx_ptp_timer" where
  "xlnx_ptp_adjfreq t ppb =
     (let incval = 0x800000 :: u32;
          neg_adj = (sint ppb < 0);
          ppb = (if neg_adj then - ppb else ppb);
          freq = ucast incval * scast ppb :: u64;
          diff = ucast (freq div 1000000000) :: u32;
          incval = (if neg_adj then incval - diff else incval + diff)
      in (0, timer_out XTIMER1588_RTC_INCREMENT incval t))"

definition xlnx_ptp_adjtime :: "time64_ops \<Rightarrow> xlnx_ptp_timer \<Rightarrow> int \<Rightarrow> int \<times> xlnx_ptp_timer" where
  "xlnx_ptp_adjtime ops t delta =
     (let step = ns_to_timespec64 ops delta;
          now = xlnx_rtc_offset_read t;
          now = timespec64_add ops now step
      in (0, xlnx_rtc_offset_write t now))"

definition xlnx_ptp_gettime :: "xlnx_ptp_timer \<Rightarrow> int \<times> timespec64" where
  "xlnx_ptp_gettime t = (0, xlnx_tod_read t)"

definition xlnx_ptp_settime :: "time64_ops \<Rightarrow> xlnx_ptp_timer \<Rightarrow> timespec64 \<Rightarrow> int \<times> xlnx_ptp_timer" where
  "xlnx_ptp_settime ops t ts =
     (let t = xlnx_rtc_offset_write t \<lparr>tv_sec = 0, tv_nsec = 0\<rparr>;
          tod = xlnx_tod_read t;
          delta = timespec64_sub ops ts tod;
          delta = (if tv_sec delta \<le> 0
                   then delta\<lparr>tv_sec := 0, tv_nsec := (if tv_nsec delta < 0 then 0 else tv_nsec delta)\<rparr>
                   else delta)
      in (0, xlnx_rtc_offset_write t delta))"

datatype ptp_request = PTP_CLK_REQ_EXTTS | PTP_CLK_REQ_PEROUT | PTP_CLK_REQ_PPS

definition xlnx_ptp_enable :: "xlnx_ptp_timer \<Rightarrow> ptp_request \<Rightarrow> bool \<Rightarrow> int \<times> xlnx_ptp_timer" where
  "xlnx_ptp_enable t rq on =
     (if rq = PTP_CLK_REQ_PPS then (0, t\<lparr>pps_enable := True\<rparr>) else (- EOPNOTSUPP, t))"

definition xlnx_ptp_timer_isr :: "xlnx_ptp_timer \<Rightarrow> xlnx_ptp_timer" where
  "xlnx_ptp_timer_isr t =
     (let t = t\<lparr>countpulse := countpulse t + 1\<rparr>;
          t = (if countpulse t \<ge> PULSESIN1PPS
               then let t = t\<lparr>countpulse := 0\<rparr>
                    in if ptp_clock t \<and> pps_enable t then t\<lparr>pps_events := pps_events t + 1\<rparr> else t
               else t)
      in timer_out XTIMER1588_INTERRUPT 1 t)"

definition axienet_get_phc_index :: "int \<Rightarrow> xlnx_ptp_timer \<Rightarrow> int" where
  "axienet_get_phc_index index t = (if ptp_clock t then index else - 1)"

text \<open>
  What the kernel answers while the clock is probed: memory, the two names of the interrupt, the
  registration, the index of the clock, the time, and the request of the interrupt.
\<close>

record probe_env =
  kzalloc_ok :: bool
  irq_timer :: int
  irq_rtc :: int
  register_ok :: bool
  clock_index :: int
  real_time :: timespec64
  request_irq_ok :: bool

text \<open>The result is the timer and the global \<open>axienet_phc_index\<close>.\<close>

definition axienet_ptp_timer_probe ::
  "time64_ops \<Rightarrow> probe_env \<Rightarrow> (u32 \<Rightarrow> u32) \<Rightarrow> ((u32 \<Rightarrow> u32) \<Rightarrow> u32 \<times> u32) \<Rightarrow> int \<Rightarrow> xlnx_ptp_timer option \<times> int" where
  "axienet_ptp_timer_probe ops env r clk phc =
     (if \<not> kzalloc_ok env then (None, phc)
      else if irq_timer env < 0 \<and> \<not> irq_rtc env > 0 then (None, phc)
      else if \<not> register_ok env then (None, phc)
      else
        let t = \<lparr>tm_regs = r, rtc = clk, ptp_clock = True, pps_enable = False, countpulse = 0, pps_events = 0\<rparr>;
            t = snd (xlnx_ptp_settime ops t (real_time env))
        in if request_irq_ok env then (Some t, clock_index env) else (None, clock_index env))"

definition axienet_ptp_timer_remove :: "xlnx_ptp_timer \<Rightarrow> int \<times> int" where
  "axienet_ptp_timer_remove t = (0, - 1)"

section \<open>The clock shows what it was set to\<close>

definition offset_ns :: "(u32 \<Rightarrow> u32) \<Rightarrow> int" where
  "offset_ns r = uint (r XTIMER1588_RTC_OFFSET_SEC_L) * 1000000000 + uint (r XTIMER1588_RTC_OFFSET_NS)"

text \<open>
  The law of the clock, over a time in which its counter stands at \<open>counter\<close> nanoseconds: it shows the
  sum of the counter and the offset, while that has no more than 32 bits of seconds.
\<close>

definition rtc_law :: "int \<Rightarrow> ((u32 \<Rightarrow> u32) \<Rightarrow> u32 \<times> u32) \<Rightarrow> bool" where
  "rtc_law counter clk \<longleftrightarrow> 0 \<le> counter \<and>
     (\<forall>r. uint (r XTIMER1588_RTC_OFFSET_NS) < 1000000000 \<longrightarrow> counter + offset_ns r < 4294967296 * 1000000000 \<longrightarrow>
        (case clk r of (sec, nsec) \<Rightarrow> uint nsec < 1000000000 \<and> uint sec * 1000000000 + uint nsec = counter + offset_ns r))"

definition clock_ns :: "xlnx_ptp_timer \<Rightarrow> int" where
  "clock_ns t = ts_ns (snd (xlnx_ptp_gettime t))"

lemma timer_out_frame [simp]:
  "rtc (timer_out a v t) = rtc t" "ptp_clock (timer_out a v t) = ptp_clock t" "pps_enable (timer_out a v t) = pps_enable t"
  "countpulse (timer_out a v t) = countpulse t" "pps_events (timer_out a v t) = pps_events t"
  "tm_regs (timer_out a v t) = (tm_regs t)(a := v)"
  by (simp_all add: timer_out_def)

lemma uint_word_of_int_small: "0 \<le> x \<Longrightarrow> x < 4294967296 \<Longrightarrow> uint (word_of_int x :: u32) = x"
  by (simp add: unsigned_of_int take_bit_int_eq_self)

lemma uint_word_of_int_small64: "0 \<le> x \<Longrightarrow> x < 2 ^ 64 \<Longrightarrow> uint (word_of_int x :: u64) = x"
  by (simp add: unsigned_of_int take_bit_int_eq_self)

lemma offset_write:
  assumes "ts_norm ts" and "0 \<le> tv_sec ts" and "tv_sec ts < 4294967296"
  shows "offset_ns (tm_regs (xlnx_rtc_offset_write t ts)) = ts_ns ts"
    and "uint (tm_regs (xlnx_rtc_offset_write t ts) XTIMER1588_RTC_OFFSET_NS) < 1000000000"
    and "rtc (xlnx_rtc_offset_write t ts) = rtc t"
  using assms by (simp_all add: offset_ns_def xlnx_rtc_offset_write_def ts_norm_def ts_ns_def uint_word_of_int_small)

definition offset_valid :: "xlnx_ptp_timer \<Rightarrow> bool" where
  "offset_valid t \<longleftrightarrow> uint (tm_regs t XTIMER1588_RTC_OFFSET_NS) < 1000000000"

lemma clock_is_sum:
  "rtc_law counter (rtc t) \<Longrightarrow> offset_valid t \<Longrightarrow> counter + offset_ns (tm_regs t) < 4294967296 * 1000000000 \<Longrightarrow>
   clock_ns t = counter + offset_ns (tm_regs t)"
  by (auto simp: rtc_law_def offset_valid_def clock_ns_def xlnx_ptp_gettime_def xlnx_tod_read_def ts_ns_def split: prod.splits)

lemma clock_after_write:
  assumes law: "rtc_law counter (rtc t)" and ts: "ts_norm ts" "0 \<le> tv_sec ts" and lim: "counter + ts_ns ts < 4294967296 * 1000000000"
  shows "clock_ns (xlnx_rtc_offset_write t ts) = counter + ts_ns ts"
proof -
  have "tv_sec ts < 4294967296" using law lim ts by (auto simp: rtc_law_def ts_ns_def ts_norm_def)
  note w = offset_write [OF ts this, of t]
  show ?thesis using clock_is_sum [of counter "xlnx_rtc_offset_write t ts"] w law lim by (simp add: offset_valid_def)
qed

lemma norm_sec: "ts_norm t \<Longrightarrow> tv_sec t = ts_ns t div 1000000000" "ts_norm t \<Longrightarrow> tv_nsec t = ts_ns t mod 1000000000"
  by (simp_all add: ts_norm_def ts_ns_def)

text \<open>Setting the clock: to a time before its counter it cannot be set.\<close>

lemma settime_offset:
  assumes ops: "time64_ok ops" and law: "rtc_law counter (rtc t)"
    and lim: "ts_ns ts < 4294967295 * 1000000000" "counter < 4294967295 * 1000000000"
  shows "offset_valid (snd (xlnx_ptp_settime ops t ts))" and "rtc (snd (xlnx_ptp_settime ops t ts)) = rtc t"
    and "counter + offset_ns (tm_regs (snd (xlnx_ptp_settime ops t ts))) =
      (if counter \<le> ts_ns ts then ts_ns ts else counter + (ts_ns ts - counter) mod 1000000000)"
proof -
  let ?z = "\<lparr>tv_sec = 0, tv_nsec = 0\<rparr>" and ?t = "xlnx_rtc_offset_write t \<lparr>tv_sec = 0, tv_nsec = 0\<rparr>"
  let ?d = "timespec64_sub ops ts (xlnx_tod_read ?t)"
  define w where "w = (if tv_sec ?d \<le> 0 then \<lparr>tv_sec = 0, tv_nsec = tv_nsec ?d\<rparr> else ?d)"
  have tod: "ts_ns (xlnx_tod_read ?t) = counter"
    using clock_after_write [OF law, of ?z] lim by (simp add: clock_ns_def xlnx_ptp_gettime_def ts_norm_def ts_ns_def)
  have d: "ts_norm ?d" "ts_ns ?d = ts_ns ts - counter" using ops tod by (simp_all add: time64_ok_def)
  have c0: "0 \<le> counter" using law by (simp add: rtc_law_def)
  have st: "snd (xlnx_ptp_settime ops t ts) = xlnx_rtc_offset_write ?t w"
    using d(1) by (cases ?d) (auto simp: xlnx_ptp_settime_def Let_def w_def ts_norm_def)
  have w: "ts_norm w" "0 \<le> tv_sec w" "tv_sec w < 4294967296"
    using d lim c0 by (auto simp: w_def ts_norm_def ts_ns_def)
  have "ts_ns w = (if counter \<le> ts_ns ts then ts_ns ts - counter else (ts_ns ts - counter) mod 1000000000)"
  proof (cases "0 < tv_sec ?d")
    case True
    then show ?thesis using d by (simp add: w_def ts_ns_def ts_norm_def)
  next
    case False
    moreover have "tv_nsec ?d = (ts_ns ts - counter) mod 1000000000" using norm_sec [OF d(1)] d(2) by simp
    moreover have "tv_nsec ?d = ts_ns ts - counter" if "counter \<le> ts_ns ts"
    proof -
      have "0 \<le> tv_sec ?d" using that d norm_sec(1) [OF d(1)] by (simp add: pos_imp_zdiv_nonneg_iff)
      then have "tv_sec ?d = 0" using False by simp
      then show ?thesis using d(2) unfolding ts_ns_def by simp
    qed
    ultimately show ?thesis by (simp add: w_def ts_ns_def)
  qed
  with offset_write [OF w, of ?t] st show "offset_valid (snd (xlnx_ptp_settime ops t ts))" "rtc (snd (xlnx_ptp_settime ops t ts)) = rtc t"
    "counter + offset_ns (tm_regs (snd (xlnx_ptp_settime ops t ts))) =
      (if counter \<le> ts_ns ts then ts_ns ts else counter + (ts_ns ts - counter) mod 1000000000)"
    by (simp_all add: offset_valid_def xlnx_rtc_offset_write_def)
qed

text \<open>Adjusting it: the offset is moved by \<open>delta\<close>, while it stays positive.\<close>

lemma adjtime_moves_offset:
  assumes ops: "time64_ok ops" and nn: "0 \<le> offset_ns (tm_regs t) + delta" "offset_ns (tm_regs t) + delta < 4294967296 * 1000000000"
  shows "offset_ns (tm_regs (snd (xlnx_ptp_adjtime ops t delta))) = offset_ns (tm_regs t) + delta"
    and "offset_valid (snd (xlnx_ptp_adjtime ops t delta))" and "rtc (snd (xlnx_ptp_adjtime ops t delta)) = rtc t"
proof -
  let ?n = "timespec64_add ops (xlnx_rtc_offset_read t) (ns_to_timespec64 ops delta)"
  have n: "ts_norm ?n" "ts_ns ?n = offset_ns (tm_regs t) + delta"
    using ops by (simp_all add: time64_ok_def xlnx_rtc_offset_read_def offset_ns_def ts_ns_def)
  then have "0 \<le> tv_sec ?n" "tv_sec ?n < 4294967296" using nn norm_sec [OF n(1)]
    by (simp_all add: pos_imp_zdiv_nonneg_iff div_less_iff_less_mult)
  from offset_write [OF n(1) this, of t] n(2)
  show "offset_ns (tm_regs (snd (xlnx_ptp_adjtime ops t delta))) = offset_ns (tm_regs t) + delta"
    "offset_valid (snd (xlnx_ptp_adjtime ops t delta))" "rtc (snd (xlnx_ptp_adjtime ops t delta)) = rtc t"
    by (simp_all add: xlnx_ptp_adjtime_def offset_valid_def)
qed

lemma clock_ns_bounds: "0 \<le> offset_ns r"
  by (simp add: offset_ns_def)

definition adjtimes :: "time64_ops \<Rightarrow> int list \<Rightarrow> xlnx_ptp_timer \<Rightarrow> xlnx_ptp_timer" where
  "adjtimes ops ds t = foldl (\<lambda>t d. snd (xlnx_ptp_adjtime ops t d)) t ds"

text \<open>Every partial sum of the adjustments keeps the clock between its counter and the end of its range.\<close>

definition adjustable :: "int \<Rightarrow> int \<Rightarrow> int list \<Rightarrow> bool" where
  "adjustable counter start ds \<longleftrightarrow>
     (\<forall>k\<le>length ds. counter \<le> start + sum_list (take k ds) \<and> start + sum_list (take k ds) < 4294967295 * 1000000000)"

lemma all_le_Suc_split: "(\<forall>k\<le>Suc n. P k) \<longleftrightarrow> P 0 \<and> (\<forall>k\<le>n. P (Suc k))"
  by (metis Suc_le_mono le0 old.nat.exhaust)

lemma adjustable_Cons: "adjustable c s (d # ds) \<longleftrightarrow> c \<le> s \<and> s < 4294967295 * 1000000000 \<and> adjustable c (s + d) ds"
proof -
  have "adjustable c s (d # ds) \<longleftrightarrow> (\<forall>k\<le>Suc (length ds). c \<le> s + sum_list (take k (d # ds)) \<and> s + sum_list (take k (d # ds)) < 4294967295 * 1000000000)"
    by (simp add: adjustable_def)
  also have "\<dots> \<longleftrightarrow> c \<le> s \<and> s < 4294967295 * 1000000000 \<and> (\<forall>k\<le>length ds. c \<le> s + sum_list (take (Suc k) (d # ds)) \<and> s + sum_list (take (Suc k) (d # ds)) < 4294967295 * 1000000000)"
    by (subst all_le_Suc_split) simp
  finally show ?thesis by (simp add: adjustable_def add.assoc)
qed

lemma adjtimes_clock:
  assumes "time64_ok ops" and "rtc_law counter (rtc t)" and "offset_valid t" and "adjustable counter (counter + offset_ns (tm_regs t)) ds"
  shows "clock_ns (adjtimes ops ds t) = counter + offset_ns (tm_regs t) + sum_list ds"
  using assms(2-4)
proof (induction ds arbitrary: t)
  case Nil
  then show ?case using clock_is_sum [of counter t] by (simp add: adjtimes_def adjustable_def)
next
  case (Cons d ds)
  let ?t = "snd (xlnx_ptp_adjtime ops t d)"
  have a: "adjustable counter (counter + offset_ns (tm_regs t) + d) ds" using Cons.prems(3) by (simp add: adjustable_Cons)
  then have "counter \<le> counter + offset_ns (tm_regs t) + d \<and> counter + offset_ns (tm_regs t) + d < 4294967295 * 1000000000"
    unfolding adjustable_def by (metis add.right_neutral le0 sum_list.Nil take0)
  moreover have "0 \<le> counter" using Cons.prems(1) by (simp add: rtc_law_def)
  ultimately have nn: "0 \<le> offset_ns (tm_regs t) + d" "offset_ns (tm_regs t) + d < 4294967296 * 1000000000" by linarith+
  note m = adjtime_moves_offset [OF assms(1) nn]
  show ?case using Cons.IH [of ?t] m Cons.prems(1) a by (simp add: adjtimes_def add.assoc)
qed

text \<open>
  C25 (clock_follows_settings): a clock that is set to a time not before its counter, and adjusted any
  number of times within its range, shows the time it was set to plus the adjustments.
\<close>

theorem clock_follows_settings:
  assumes ops: "time64_ok ops" and law: "rtc_law counter (rtc t)" and set: "counter \<le> ts_ns ts"
    and ds: "adjustable counter (ts_ns ts) ds"
  shows "ts_ns (snd (xlnx_ptp_gettime (adjtimes ops ds (snd (xlnx_ptp_settime ops t ts))))) = ts_ns ts + sum_list ds"
proof -
  let ?t = "snd (xlnx_ptp_settime ops t ts)"
  have lim: "ts_ns ts < 4294967295 * 1000000000" using ds unfolding adjustable_def by (metis add.right_neutral le0 sum_list.Nil take0)
  have t: "offset_valid ?t" "rtc ?t = rtc t" "counter + offset_ns (tm_regs ?t) = ts_ns ts"
    using settime_offset [OF ops law] set lim by simp_all
  show ?thesis using adjtimes_clock [OF ops _ t(1), of counter ds] t(2,3) law ds by (simp add: clock_ns_def)
qed

text \<open>The helpers and a clock, for evaluation.\<close>

definition demo_ops :: time64_ops where
  "demo_ops = \<lparr>ns_to_timespec64 = (\<lambda>n. \<lparr>tv_sec = n div 1000000000, tv_nsec = n mod 1000000000\<rparr>),
     timespec64_add = (\<lambda>a b. \<lparr>tv_sec = (ts_ns a + ts_ns b) div 1000000000, tv_nsec = (ts_ns a + ts_ns b) mod 1000000000\<rparr>),
     timespec64_sub = (\<lambda>a b. \<lparr>tv_sec = (ts_ns a - ts_ns b) div 1000000000, tv_nsec = (ts_ns a - ts_ns b) mod 1000000000\<rparr>)\<rparr>"

definition demo_rtc :: "int \<Rightarrow> (u32 \<Rightarrow> u32) \<Rightarrow> u32 \<times> u32" where
  "demo_rtc counter r = (word_of_int ((counter + offset_ns r) div 1000000000), word_of_int ((counter + offset_ns r) mod 1000000000))"

definition demo_timer :: xlnx_ptp_timer where
  "demo_timer = \<lparr>tm_regs = (\<lambda>_. 0), rtc = demo_rtc 5000000700, ptp_clock = True, pps_enable = True, countpulse = 0, pps_events = 0\<rparr>"

lemma demo_ops_ok: "time64_ok demo_ops"
  by (simp add: time64_ok_def demo_ops_def ts_norm_def ts_ns_def)

lemma demo_rtc_law: "0 \<le> c \<Longrightarrow> rtc_law c (demo_rtc c)"
  by (auto simp: rtc_law_def demo_rtc_def uint_word_of_int_small clock_ns_bounds pos_imp_zdiv_nonneg_iff div_less_iff_less_mult)

theorem clock_follows_settings_witness:
  "ts_ns (snd (xlnx_ptp_gettime (adjtimes demo_ops [- 200000000, 300000000]
     (snd (xlnx_ptp_settime demo_ops demo_timer \<lparr>tv_sec = 1700000000, tv_nsec = 100\<rparr>))))) = 1700000000100000100"
proof -
  have "adjustable 5000000700 (ts_ns \<lparr>tv_sec = 1700000000, tv_nsec = 100\<rparr>) [- 200000000, 300000000]"
    by (simp add: adjustable_Cons ts_ns_def) (simp add: adjustable_def)
  moreover have "rtc_law 5000000700 (rtc demo_timer)" using demo_rtc_law by (simp add: demo_timer_def)
  ultimately show ?thesis
    using clock_follows_settings [OF demo_ops_ok, of 5000000700 demo_timer "\<lparr>tv_sec = 1700000000, tv_nsec = 100\<rparr>" "[- 200000000, 300000000]"]
    by (simp add: ts_ns_def)
qed

text \<open>Setting the clock back may put it forward, by the part of a second that the difference leaves.\<close>

lemma set_back_goes_forward:
  assumes "time64_ok ops" and "rtc_law counter (rtc t)" and "ts_ns ts < counter" and "counter < 4294967294 * 1000000000"
  shows "clock_ns (snd (xlnx_ptp_settime ops t ts)) = counter + (ts_ns ts - counter) mod 1000000000"
proof -
  have lim: "ts_ns ts < 4294967295 * 1000000000" "counter < 4294967295 * 1000000000" using assms(3,4) by linarith+
  note s = settime_offset [OF assms(1,2) lim]
  have "(ts_ns ts - counter) mod 1000000000 < 1000000000" by simp
  then show ?thesis using clock_is_sum [of counter "snd (xlnx_ptp_settime ops t ts)"] s assms by simp
qed

section \<open>The rate\<close>

lemma abs_word:
  assumes "\<bar>sint ppb\<bar> \<le> 999999999"
  shows "(if sint ppb < 0 then - ppb else ppb) = (word_of_int \<bar>sint ppb\<bar> :: s32)"
proof -
  have "ppb = word_of_int (sint ppb)" by simp
  then have "- ppb = word_of_int (- sint ppb)" by (metis of_int_minus)
  then show ?thesis by simp
qed

lemma freq_word:
  assumes "0 \<le> a" and "a \<le> 999999999"
  shows "ucast ((ucast (0x800000 :: u32) * scast (word_of_int a :: s32) :: u64) div 1000000000) = (word_of_int (0x800000 * a div 1000000000) :: u32)"
proof -
  have "sint (word_of_int a :: s32) = a" using assms by (simp add: signed_of_int signed_take_bit_int_eq_self)
  then have "scast (word_of_int a :: s32) = (word_of_int a :: u64)" by (metis of_int_sint)
  then have "ucast (0x800000 :: u32) * scast (word_of_int a :: s32) = (word_of_int (0x800000 * a) :: u64)" by simp
  moreover have "uint (word_of_int (0x800000 * a) :: u64) = 0x800000 * a"
    by (subst uint_word_of_int_small64) (use assms in simp_all)
  ultimately have "uint (ucast (0x800000 :: u32) * scast (word_of_int a :: s32) div 1000000000 :: u64) = 0x800000 * a div 1000000000"
    by (simp add: uint_div_distrib)
  then show ?thesis by (metis word_of_int_uint of_int_uint)
qed

text \<open>
  C26 (rate_is_accurate): for every adjustment that the PTP subsystem lets through (less than one
  in either direction) the increment of the clock is positive, does not wrap, and is off the
  nominal one by the requested parts per billion up to less than one unit.
\<close>

theorem rate_is_accurate:
  assumes "\<bar>sint ppb\<bar> \<le> 999999999"
  shows "0 < tm_regs (snd (xlnx_ptp_adjfreq t ppb)) XTIMER1588_RTC_INCREMENT \<and>
    \<bar>uint (tm_regs (snd (xlnx_ptp_adjfreq t ppb)) XTIMER1588_RTC_INCREMENT) * 1000000000 - 0x800000 * (1000000000 + sint ppb)\<bar> < 1000000000"
proof -
  define a where "a = \<bar>sint ppb\<bar>"
  define q where "q = 0x800000 * a div 1000000000"
  have a: "0 \<le> a" "a \<le> 999999999" using assms by (simp_all add: a_def)
  have q: "0 \<le> q" "q < 0x800000" using a by (auto simp: q_def pos_imp_zdiv_nonneg_iff div_less_iff_less_mult)
  have diff: "ucast ((ucast (0x800000 :: u32) * scast (if sint ppb < 0 then - ppb else ppb) :: u64) div 1000000000) = (word_of_int q :: u32)"
    using freq_word [OF a] abs_word [OF assms] by (simp add: a_def q_def)
  define v where "v = (if sint ppb < 0 then 0x800000 - q else 0x800000 + q)"
  have v: "0 < v" "v < 4294967296" using q by (simp_all add: v_def)
  have reg: "tm_regs (snd (xlnx_ptp_adjfreq t ppb)) XTIMER1588_RTC_INCREMENT = word_of_int v"
    using diff by (cases "sint ppb < 0") (simp_all add: xlnx_ptp_adjfreq_def Let_def v_def)
  then have u: "uint (tm_regs (snd (xlnx_ptp_adjfreq t ppb)) XTIMER1588_RTC_INCREMENT) = v"
    using v by (simp add: uint_word_of_int_small)
  have r: "q * 1000000000 \<le> 0x800000 * a" "0x800000 * a < q * 1000000000 + 1000000000"
    using div_mult_mod_eq [of "0x800000 * a" 1000000000] pos_mod_bound [of 1000000000 "0x800000 * a"] pos_mod_sign [of 1000000000 "0x800000 * a"]
    unfolding q_def by linarith+
  have "\<bar>v * 1000000000 - 0x800000 * (1000000000 + sint ppb)\<bar> < 1000000000"
  proof (cases "sint ppb < 0")
    case True
    then have "sint ppb = - a" by (simp add: a_def)
    then show ?thesis using True r by (simp add: v_def)
  next
    case False
    then have "sint ppb = a" by (simp add: a_def)
    then show ?thesis using False r by (simp add: v_def)
  qed
  then show ?thesis using u v by (simp add: word_less_def)
qed

theorem rate_is_accurate_witness:
  "0 < tm_regs (snd (xlnx_ptp_adjfreq demo_timer (- 20000))) XTIMER1588_RTC_INCREMENT \<and>
    \<bar>uint (tm_regs (snd (xlnx_ptp_adjfreq demo_timer (- 20000))) XTIMER1588_RTC_INCREMENT) * 1000000000 - 0x800000 * (1000000000 + sint (- 20000 :: s32))\<bar> < 1000000000"
  by (rule rate_is_accurate) simp

section \<open>The pulse per second\<close>

lemma isr_count:
  assumes "countpulse t < PULSESIN1PPS" and "ptp_clock t" and "pps_enable t"
  shows "countpulse ((xlnx_ptp_timer_isr ^^ n) t) = (countpulse t + n) mod PULSESIN1PPS \<and>
    pps_events ((xlnx_ptp_timer_isr ^^ n) t) = pps_events t + (countpulse t + n) div PULSESIN1PPS \<and>
    ptp_clock ((xlnx_ptp_timer_isr ^^ n) t) \<and> pps_enable ((xlnx_ptp_timer_isr ^^ n) t)"
proof (induction n)
  case (Suc n)
  then show ?case
    by (auto simp: xlnx_ptp_timer_isr_def Let_def mod_Suc div_Suc)
qed (use assms in simp)

end
