(* ===== verification/Ptp_Xmit.thy ===== *)
theory Ptp_Xmit
  imports Tadma_Xmit Axienet
begin

text \<open>
  Sending and receiving PTP frames through the buffers of the MAC,
  \<^verbatim>\<open>driver/xilinx/xilinx_tsn_ptp_xmit.c\<close>: eight buffers of 256 bytes to send and sixteen to receive,
  with the time stamps that the hardware leaves in them.
\<close>

section \<open>State\<close>

text \<open>The parts of a packet the code uses: the frame, the buffer it was put in, the flags of its time stamp.\<close>

record ptp_skb =
  ptp_frame :: "u8 list"
  cb0 :: u8
  SKBTX_HW_TSTAMP :: bool
  SKBTX_IN_PROGRESS :: bool

datatype hwtstamp_tx = HWTSTAMP_TX_OFF | HWTSTAMP_TX_ON | HWTSTAMP_TX_ONESTEP_SYNC

record ptp_local =
  ptp_mac :: axienet_local
  ptp_ts_type :: hwtstamp_tx
  ptp_rx_hw_pointer :: u8
  ptp_rx_sw_pointer :: u8
  ptp_txq :: "ptp_skb list"
  queue_stopped :: bool
  ptp_tx_packets :: nat
  ptp_tx_bytes :: nat
  ptp_rx_packets :: nat
  ptp_rx_bytes :: nat

abbreviation (input) ETH_HLEN :: nat where "ETH_HLEN \<equiv> 14"
abbreviation (input) PTP_TX_CONTROL_OFFSET :: u32 where "PTP_TX_CONTROL_OFFSET \<equiv> 0x00012000"
abbreviation (input) PTP_RX_CONTROL_OFFSET :: u32 where "PTP_RX_CONTROL_OFFSET \<equiv> 0x00012004"
abbreviation (input) PTP_RX_BASE_OFFSET :: u32 where "PTP_RX_BASE_OFFSET \<equiv> 0x00010000"
abbreviation (input) PTP_RX_HWBUF_SIZE :: u32 where "PTP_RX_HWBUF_SIZE \<equiv> 256"
abbreviation (input) PTP_RX_FRAME_SIZE :: nat where "PTP_RX_FRAME_SIZE \<equiv> 252"
abbreviation (input) PTP_HW_TSTAMP_OFFSET :: u32 where "PTP_HW_TSTAMP_OFFSET \<equiv> 248"

definition PTP_TX_BUFFER_OFFSET :: "u8 \<Rightarrow> u32" where
  "PTP_TX_BUFFER_OFFSET index = 0x00011000 + ucast index * 0x100"

section \<open>Copying to and from the buffers\<close>



function memcpy_fromio_32 :: "axienet_local \<Rightarrow> u32 \<Rightarrow> nat \<Rightarrow> u8 list" where
  "memcpy_fromio_32 lp offset n =
     (if n \<ge> 4 then le_bytes32 (axienet_ior lp offset) @ memcpy_fromio_32 lp (offset + 4) (n - 4)
      else take n (le_bytes32 (axienet_ior lp offset)))"
  by pat_completeness auto

termination memcpy_fromio_32
  by (relation "measure (\<lambda>(lp, offset, n). n)") auto

declare memcpy_fromio_32.simps [simp del]

section \<open>Sending\<close>






text \<open>A time stamp in nanoseconds, from the two words the hardware captured.\<close>

definition axienet_set_timestamp :: "axienet_local \<Rightarrow> u32 \<Rightarrow> int" where
  "axienet_set_timestamp lp offset =
     (let captured_ns = axienet_ior lp (offset + 4); captured_sec = axienet_ior lp offset
      in uint captured_sec * 1000000000 + uint captured_ns)"

text \<open>The packets that were sent, each with its time stamp if it asked for one; a packet still waiting goes to the end of the queue.\<close>

fun tstamp_loop :: "axienet_local \<Rightarrow> u8 \<Rightarrow> ptp_skb list \<Rightarrow> ptp_skb list \<times> (ptp_skb \<times> int option) list" where
  "tstamp_loop lp tx_packet [] = ([], [])"
| "tstamp_loop lp tx_packet (skb # q) =
     (if cb0 skb > tx_packet then (q @ [skb], [])
      else
        let ts = (if SKBTX_IN_PROGRESS skb
                  then Some (axienet_set_timestamp lp (PTP_TX_BUFFER_OFFSET (cb0 skb) + PTP_HW_TSTAMP_OFFSET)) else None);
            (q, sent) = tstamp_loop lp tx_packet q
        in (q, (skb, ts) # sent))"

definition axienet_tx_tstamp :: "ptp_local \<Rightarrow> ptp_local \<times> (ptp_skb \<times> int option) list" where
  "axienet_tx_tstamp l =
     (let tx_packet = ucast (drop_bit 16 (axienet_ior (ptp_mac l) PTP_TX_CONTROL_OFFSET AND 0x00070000));
          (q, sent) = tstamp_loop (ptp_mac l) tx_packet (ptp_txq l)
      in (l\<lparr>ptp_txq := q, ptp_tx_packets := ptp_tx_packets l + length sent,
            ptp_tx_bytes := ptp_tx_bytes l + sum_list (map (length \<circ> ptp_frame \<circ> fst) sent)\<rparr>, sent))"

text \<open>The interrupt wakes the queue; the work it schedules is \<open>axienet_tx_tstamp\<close>.\<close>

definition axienet_ptp_tx_irq :: "ptp_local \<Rightarrow> ptp_local" where
  "axienet_ptp_tx_irq l = l\<lparr>queue_stopped := False\<rparr>"

section \<open>Receiving\<close>

text \<open>
  The frame in a buffer, its length from the header, with the time stamp of an event message.
  A length beyond the packet that was allocated is a fault.
\<close>

definition rx_slot :: "axienet_local \<Rightarrow> u8 \<Rightarrow> (u8 list \<times> int option) checked" where
  "rx_slot lp sw_pointer =
     (let base = PTP_RX_BASE_OFFSET + ucast (sw_pointer AND 0xf) * PTP_RX_HWBUF_SIZE;
          data = memcpy_fromio_32 lp base PTP_RX_FRAME_SIZE;
          msg_type = data ! ETH_HLEN AND 0xf;
          n = be_val [data ! (ETH_HLEN + 2), data ! (ETH_HLEN + 3)] + ETH_HLEN
      in if n > PTP_RX_FRAME_SIZE then Inl OutOfBounds
         else Inr (take n data, if bit msg_type 3 then None else Some (axienet_set_timestamp lp (base + PTP_HW_TSTAMP_OFFSET))))"

lemma uint_and_f: "uint (x AND 0xf) = uint x mod 16" for x :: u8
proof -
  have "x AND 0xf = take_bit 4 x" by (simp add: take_bit_eq_mask mask_eq_exp_minus_1)
  then have "uint (x AND 0xf) = take_bit 4 (uint x)" by (simp only: unsigned_take_bit_eq)
  then show ?thesis by (simp add: take_bit_eq_mod)
qed

definition rx_pending :: "u8 \<Rightarrow> u8 \<Rightarrow> nat" where
  "rx_pending hw sw = nat ((uint hw - uint sw) mod 16)"

lemma rx_pending_zero: "rx_pending hw sw = 0 \<longleftrightarrow> hw AND 0xf = sw AND 0xf"
proof -
  have "hw AND 0xf = sw AND 0xf \<longleftrightarrow> uint hw mod 16 = uint sw mod 16" by (simp add: word_uint_eq_iff uint_and_f)
  also have "\<dots> \<longleftrightarrow> (uint hw - uint sw) mod 16 = 0" by (simp add: mod_eq_dvd_iff dvd_eq_mod_eq_0)
  moreover have "0 \<le> (uint hw - uint sw) mod 16" by simp
  ultimately show ?thesis by (auto simp: rx_pending_def)
qed

lemma rx_pending_step:
  assumes "hw AND 0xf \<noteq> sw AND 0xf" shows "rx_pending hw sw = Suc (rx_pending hw (sw + 1))"
proof -
  let ?d = "(uint hw - uint sw) mod 16"
  have "?d \<noteq> 0" using assms rx_pending_zero [of hw sw] by (auto simp: rx_pending_def)
  moreover have "0 \<le> ?d" "?d < 16" by simp_all
  ultimately have d: "1 \<le> ?d" "?d < 16" by linarith+
  have "uint (sw + 1) = (uint sw + 1) mod 256" by (simp add: uint_word_ariths)
  then have "(uint hw - uint (sw + 1)) mod 16 = (uint hw - (uint sw + 1) mod 256 mod 16) mod 16" by (simp add: mod_diff_right_eq)
  also have "\<dots> = (uint hw - (uint sw + 1)) mod 16" by (simp add: mod_mod_cancel mod_diff_right_eq)
  also have "\<dots> = (?d - 1) mod 16" by (simp add: mod_diff_left_eq diff_diff_eq)
  also have "\<dots> = ?d - 1" using d by simp
  finally show ?thesis using d by (simp add: rx_pending_def nat_diff_distrib)
qed

text \<open>\<open>alloc i\<close> says whether the \<open>i\<close>-th packet can be allocated; the source does not ask.\<close>

function ptp_recv_loop :: "(nat \<Rightarrow> bool) \<Rightarrow> axienet_local \<Rightarrow> u8 \<Rightarrow> u8 \<Rightarrow> nat \<Rightarrow> (u8 \<times> (u8 list \<times> int option) list) checked" where
  "ptp_recv_loop alloc lp hw sw i =
     (if hw AND 0xf = sw AND 0xf then Inr (sw, [])
      else if \<not> alloc i then Inl NullPointer
      else
        (case rx_slot lp (sw + 1) of
           Inl f \<Rightarrow> Inl f
         | Inr m \<Rightarrow>
             (case ptp_recv_loop alloc lp hw (sw + 1) (Suc i) of
                Inl f \<Rightarrow> Inl f
              | Inr (sw, ms) \<Rightarrow> Inr (sw, m # ms))))"
  by pat_completeness auto

termination ptp_recv_loop
  by (relation "measure (\<lambda>(alloc, lp, hw, sw, i). rx_pending hw sw)") (auto simp: rx_pending_step)

declare ptp_recv_loop.simps [simp del]

text \<open>The packets are given to the network stack in this order.\<close>

definition axienet_ptp_recv :: "(nat \<Rightarrow> bool) \<Rightarrow> ptp_local \<Rightarrow> (ptp_local \<times> (u8 list \<times> int option) list) checked" where
  "axienet_ptp_recv alloc l =
     (case ptp_recv_loop alloc (ptp_mac l) (ptp_rx_hw_pointer l) (ptp_rx_sw_pointer l) 0 of
        Inl f \<Rightarrow> Inl f
      | Inr (sw, ms) \<Rightarrow>
          Inr (l\<lparr>ptp_rx_sw_pointer := sw, ptp_rx_packets := ptp_rx_packets l + length ms,
                 ptp_rx_bytes := ptp_rx_bytes l + sum_list (map (length \<circ> fst) ms)\<rparr>, ms))"

definition axienet_ptp_rx_irq :: "(nat \<Rightarrow> bool) \<Rightarrow> ptp_local \<Rightarrow> (ptp_local \<times> (u8 list \<times> int option) list) checked" where
  "axienet_ptp_rx_irq alloc l =
     axienet_ptp_recv alloc (l\<lparr>ptp_rx_hw_pointer := ucast (drop_bit 8 (axienet_ior (ptp_mac l) PTP_RX_CONTROL_OFFSET AND 0x00000F00))\<rparr>)"

section \<open>The copies are inverse\<close>




definition io_words :: "u32 \<Rightarrow> nat \<Rightarrow> u32 set" where
  "io_words off n = (\<lambda>k. off + 4 * of_nat k) ` {k. 4 * k < n}"

lemma io_words_head: "0 < n \<Longrightarrow> off \<in> io_words off n"
  by (auto simp: io_words_def intro: image_eqI [where x = 0])

lemma io_words_tail: "io_words (off + 4) n \<subseteq> io_words off (n + 4)"
proof
  fix a assume "a \<in> io_words (off + 4) n"
  then obtain k where "a = off + 4 + 4 * of_nat k" "4 * k < n" by (auto simp: io_words_def)
  then have "a = off + 4 * of_nat (Suc k)" "4 * Suc k < n + 4" by simp_all
  then show "a \<in> io_words off (n + 4)" unfolding io_words_def by blast
qed






section \<open>A frame goes to a free buffer\<close>
















definition demo_ptp :: ptp_local where
  "demo_ptp = \<lparr>ptp_mac = \<lparr>num_tc = 3, regs = (\<lambda>a. if a = 0x12000 then 0x0100 else if a = 0x12004 then 0x0200 else 0), qbv_regs = (\<lambda>_. 0)\<rparr>,
     ptp_ts_type = HWTSTAMP_TX_ON, ptp_rx_hw_pointer = 0, ptp_rx_sw_pointer = 0, ptp_txq = [], queue_stopped = False,
     ptp_tx_packets = 0, ptp_tx_bytes = 0, ptp_rx_packets = 0, ptp_rx_bytes = 0\<rparr>"




section \<open>The interrupt delivers what is pending\<close>

lemma recv_loop_delivers:
  assumes "\<forall>i. alloc i" and "\<forall>k<rx_pending hw sw. \<exists>m. rx_slot lp (sw + of_nat (Suc k)) = Inr m"
  shows "\<exists>sw' ms. ptp_recv_loop alloc lp hw sw i = Inr (sw', ms) \<and> length ms = rx_pending hw sw \<and> rx_pending hw sw' = 0 \<and>
    (\<forall>k<length ms. rx_slot lp (sw + of_nat (Suc k)) = Inr (ms ! k))"
  using assms(2)
proof (induction "rx_pending hw sw" arbitrary: sw i)
  case 0
  then show ?case by (subst ptp_recv_loop.simps) (simp add: rx_pending_zero flip: rx_pending_zero)
next
  case (Suc n)
  have ne: "hw AND 0xf \<noteq> sw AND 0xf" using Suc.hyps(2) rx_pending_zero [of hw sw] by auto
  have p: "rx_pending hw sw = Suc (rx_pending hw (sw + 1))" by (rule rx_pending_step [OF ne])
  then have n: "n = rx_pending hw (sw + 1)" using Suc.hyps(2) by simp
  obtain m where m: "rx_slot lp (sw + 1) = Inr m" using Suc.prems p by (metis One_nat_def of_nat_1 zero_less_Suc)
  have shift: "sw + 1 + of_nat (Suc k) = sw + of_nat (Suc (Suc k))" for k by simp
  have "\<forall>k<rx_pending hw (sw + 1). \<exists>m. rx_slot lp (sw + 1 + of_nat (Suc k)) = Inr m"
    using Suc.prems p unfolding shift by auto
  from Suc.hyps(1) [OF n this, of "Suc i"] obtain sw' ms where r: "ptp_recv_loop alloc lp hw (sw + 1) (Suc i) = Inr (sw', ms)"
    "length ms = rx_pending hw (sw + 1)" "rx_pending hw sw' = 0" "\<forall>k<length ms. rx_slot lp (sw + 1 + of_nat (Suc k)) = Inr (ms ! k)" by blast
  have "ptp_recv_loop alloc lp hw sw i = Inr (sw', m # ms)" using ne m r(1) assms(1) by (subst ptp_recv_loop.simps) simp
  moreover have "\<forall>k<length (m # ms). rx_slot lp (sw + of_nat (Suc k)) = Inr ((m # ms) ! k)"
    using r(4) m unfolding shift by (auto simp: less_Suc_eq_0_disj)
  ultimately show ?case using r p by auto
qed

text \<open>
  C28 (ptp_interrupt_delivers_pending): when packets can be allocated and every pending buffer has a
  frame that fits, the receive interrupt gives the frames of exactly these buffers to the network
  stack, in order and with their time stamps, and leaves nothing pending.
\<close>

theorem ptp_interrupt_delivers_pending:
  fixes l defines "hw \<equiv> ucast (drop_bit 8 (axienet_ior (ptp_mac l) PTP_RX_CONTROL_OFFSET AND 0x00000F00))"
  assumes "\<forall>i. alloc i" and "\<forall>k<rx_pending hw (ptp_rx_sw_pointer l). \<exists>m. rx_slot (ptp_mac l) (ptp_rx_sw_pointer l + of_nat (Suc k)) = Inr m"
  shows "\<exists>l' ms. axienet_ptp_rx_irq alloc l = Inr (l', ms) \<and> length ms = rx_pending hw (ptp_rx_sw_pointer l) \<and>
    (\<forall>k<length ms. rx_slot (ptp_mac l) (ptp_rx_sw_pointer l + of_nat (Suc k)) = Inr (ms ! k)) \<and>
    ptp_rx_packets l' = ptp_rx_packets l + length ms \<and> axienet_ptp_rx_irq alloc l' = Inr (l', [])"
proof -
  from recv_loop_delivers [OF assms(2,3), of 0] obtain sw' ms where r: "ptp_recv_loop alloc (ptp_mac l) hw (ptp_rx_sw_pointer l) 0 = Inr (sw', ms)"
    "length ms = rx_pending hw (ptp_rx_sw_pointer l)" "rx_pending hw sw' = 0"
    "\<forall>k<length ms. rx_slot (ptp_mac l) (ptp_rx_sw_pointer l + of_nat (Suc k)) = Inr (ms ! k)" by blast
  have again: "ptp_recv_loop alloc (ptp_mac l) hw sw' 0 = Inr (sw', [])"
    using r(3) rx_pending_zero [of hw sw'] by (subst ptp_recv_loop.simps) simp
  let ?l = "l\<lparr>ptp_rx_hw_pointer := hw, ptp_rx_sw_pointer := sw', ptp_rx_packets := ptp_rx_packets l + length ms, ptp_rx_bytes := ptp_rx_bytes l + sum_list (map (length \<circ> fst) ms)\<rparr>"
  have "axienet_ptp_rx_irq alloc l = Inr (?l, ms)" using r(1) by (simp add: axienet_ptp_rx_irq_def axienet_ptp_recv_def hw_def)
  moreover have "axienet_ptp_rx_irq alloc ?l = Inr (?l, [])" using again by (simp add: axienet_ptp_rx_irq_def axienet_ptp_recv_def hw_def)
  ultimately show ?thesis using r(2,4) by (intro exI [of _ ?l] exI [of _ ms]) simp
qed

lemma fromio_zero: "(\<forall>a\<in>io_words off n. axienet_ior lp a = 0) \<Longrightarrow> memcpy_fromio_32 lp off n = replicate n 0"
proof (induction n arbitrary: off rule: less_induct)
  case (less n)
  have le0: "le_bytes32 0 = replicate 4 0" by (simp add: le_bytes32_def eval_nat_numeral)
  show ?case
  proof (cases "4 \<le> n")
    case True
    have "io_words (off + 4) (n - 4) \<subseteq> io_words off n" using io_words_tail [of off "n - 4"] True by simp
    then have "memcpy_fromio_32 lp (off + 4) (n - 4) = replicate (n - 4) 0" using less.prems True by (intro less.IH) auto
    then show ?thesis using True less.prems io_words_head [of n off] le0
      by (subst memcpy_fromio_32.simps) (auto simp: replicate_add [symmetric])
  next
    case False
    then show ?thesis using less.prems io_words_head [of n off] le0
      by (cases "n = 0") (auto simp: memcpy_fromio_32.simps min_def)
  qed
qed

lemma demo_ptp_slot: "n < 16 \<Longrightarrow> \<exists>m. rx_slot (ptp_mac demo_ptp) (of_nat n) = Inr m"
proof -
  assume n: "n < 16"
  have "uint (of_nat n AND 0xf :: u8) = int n" using n by (subst uint_and_f) (simp add: uint_nat unat_of_nat)
  then have w: "ucast (of_nat n AND 0xf :: u8) = (of_nat n :: u32)" by (metis of_int_of_nat_eq of_int_uint)
  have zero: "axienet_ior (ptp_mac demo_ptp) a = 0" if a: "a \<in> io_words (0x10000 + of_nat n * 256) 252" for a
  proof -
    obtain k where k: "4 * k < 252" "a = 0x10000 + of_nat n * 256 + 4 * of_nat k" using a by (auto simp: io_words_def)
    then have "a = of_nat (0x10000 + 256 * n + 4 * k)" by (simp add: mult.commute)
    then have "unat a = 0x10000 + 256 * n + 4 * k" using n k by (simp only: unat_of_nat) simp
    then have "a < 0x12000" using n k by (simp add: word_less_nat_alt)
    then have "a \<noteq> 0x12000" "a \<noteq> 0x12004" by (auto simp: word_less_nat_alt)
    then show ?thesis by (simp add: demo_ptp_def axienet_ior_def)
  qed
  have "memcpy_fromio_32 (ptp_mac demo_ptp) (0x10000 + of_nat n * 256) 252 = replicate 252 0"
    by (rule fromio_zero) (use zero in blast)
  then show ?thesis unfolding rx_slot_def Let_def w by simp
qed

theorem ptp_interrupt_delivers_pending_witness:
  "\<exists>l' ms. axienet_ptp_rx_irq (\<lambda>_. True) demo_ptp = Inr (l', ms) \<and> length ms = 2 \<and> axienet_ptp_rx_irq (\<lambda>_. True) l' = Inr (l', [])"
proof -
  have d: "ptp_rx_sw_pointer demo_ptp = 0" "ucast (drop_bit 8 (axienet_ior (ptp_mac demo_ptp) PTP_RX_CONTROL_OFFSET AND 0x00000F00)) = (2 :: u8)"
    by (simp_all add: demo_ptp_def axienet_ior_def)
  have p: "rx_pending 2 0 = 2" by (simp add: rx_pending_def)
  have "\<exists>m. rx_slot (ptp_mac demo_ptp) (0 + of_nat (Suc k)) = Inr m" if "k < 2" for k
    using demo_ptp_slot [of "Suc k"] that by simp
  then show ?thesis using ptp_interrupt_delivers_pending [of "\<lambda>_. True" demo_ptp] unfolding d p by auto
qed

section \<open>Time stamps of sent frames\<close>

lemma tstamp_loop_result:
  "map fst (snd (tstamp_loop lp n q)) = takeWhile (\<lambda>s. cb0 s \<le> n) q \<and>
   fst (tstamp_loop lp n q) = (case dropWhile (\<lambda>s. cb0 s \<le> n) q of [] \<Rightarrow> [] | s # r \<Rightarrow> r @ [s])"
  by (induction q) (auto simp: Let_def not_le split: prod.splits)

text \<open>
  The first packet still to be sent goes behind the ones that were queued after it: with two or more
  left, the queue is no longer in the order of the buffers, and the next interrupt looks at a later
  buffer first and stamps nothing.
\<close>

lemma tstamp_reorders:
  assumes "cb0 a = 1" and "cb0 b = 2"
  shows "fst (tstamp_loop lp 0 [a, b]) = [b, a]" and "tstamp_loop lp 1 [b, a] = ([a, b], [])"
  using assms by (simp_all add: word_less_nat_alt)

end
