(* ===== verification/Mcdma.thy ===== *)
theory Mcdma
  imports Tadma Ring
begin

text \<open>
  The data path over the multi-channel DMA: \<open>axienet_queue_xmit\<close>, \<open>axienet_start_xmit_done\<close> and
  \<open>axienet_recv\<close> of \<^verbatim>\<open>driver/xilinx/xilinx_axienet_main.c\<close> and the set-up of the rings and the
  interrupts of \<^verbatim>\<open>driver/xilinx/xilinx_axienet_mcdma.c\<close>, in the build with TSN and MCDMA and without
  time stamps in the data path.
\<close>

abbreviation (input) TX_BD_NUM :: nat where "TX_BD_NUM \<equiv> 64"
abbreviation (input) RX_BD_NUM :: nat where "RX_BD_NUM \<equiv> 128"
abbreviation (input) XAE_MAX_PKT_LEN :: nat where "XAE_MAX_PKT_LEN \<equiv> 8192"
abbreviation (input) XXV_MAC_MIN_PKT_LEN :: u32 where "XXV_MAC_MIN_PKT_LEN \<equiv> 64"
abbreviation (input) XMCDMA_BD_CTRL_TXSOF_MASK :: u32 where "XMCDMA_BD_CTRL_TXSOF_MASK \<equiv> 0x80000000"
abbreviation (input) XMCDMA_BD_CTRL_TXEOF_MASK :: u32 where "XMCDMA_BD_CTRL_TXEOF_MASK \<equiv> 0x40000000"
abbreviation (input) XMCDMA_BD_STS_ALL_MASK :: u32 where "XMCDMA_BD_STS_ALL_MASK \<equiv> 0xF0000000"
abbreviation (input) XAXIDMA_BD_STS_ACTUAL_LEN_MASK :: u32 where "XAXIDMA_BD_STS_ACTUAL_LEN_MASK \<equiv> 0x007FFFFF"
abbreviation (input) XAXIDMA_BD_CTRL_LENGTH_MASK :: u32 where "XAXIDMA_BD_CTRL_LENGTH_MASK \<equiv> 0x007FFFFF"
abbreviation (input) XMCDMA_BD_SD_STS_ALL_MASK :: u32 where "XMCDMA_BD_SD_STS_ALL_MASK \<equiv> 0x00000030"

section \<open>Data\<close>

record aximcdma_bd =
  b_next :: u64
  b_phys :: u64
  b_cntrl :: u32
  b_status :: u32
  sband_stats :: u32
  b_app0 :: u32
  b_app1 :: u32
  b_app2 :: u32
  b_app3 :: u32
  b_app4 :: u32
  sw_id_offset :: u64
  b_tx_skb :: u64
  b_mapping :: desc_mapping

datatype chan_flags = MCDMA_DATA_CHAN | MCDMA_MGMT_CHAN | MCDMA_EP_EX_CHAN

text \<open>The registers with addresses of descriptors, which may have 64 bits, are kept apart from the others.\<close>

record axienet_dma_q =
  dma_regs :: "u32 \<Rightarrow> u32"
  dma_bd_regs :: "u32 \<Rightarrow> u64"
  txq_bd_v :: "nat \<Rightarrow> aximcdma_bd"
  rxq_bd_v :: "nat \<Rightarrow> aximcdma_bd"
  tx_bd_p :: u64
  rx_bd_p :: u64
  tx_bufs_dma :: u64
  eth_hasdre :: bool
  q_tx_ci :: nat
  q_rx_ci :: nat
  q_tx_tail :: nat
  q_flags :: chan_flags
  chan_id :: u16
  rx_offset :: u32
  q_tx_packets :: u64
  q_tx_bytes :: u64
  q_rx_packets :: u64
  q_rx_bytes :: u64

datatype axienet_ip_type = XAXIENET_1G | XAXIENET_2_5G | XAXIENET_LEGACY_10G | XAXIENET_10G_25G

record mac_cfg =
  mactype :: axienet_ip_type
  eth_hasnobuf :: bool
  features :: u32
  max_frm_size :: u32
  coalesce_count_rx :: u32
  coalesce_count_tx :: u32
  num_rx_queues :: nat
  abl_eponly :: bool

datatype ip_summed = CHECKSUM_NONE | CHECKSUM_UNNECESSARY | CHECKSUM_COMPLETE | CHECKSUM_PARTIAL

record mc_skb = sk_buff +
  skb_data :: u64
  skb_ip_summed :: ip_summed
  transport_offset :: u32
  csum_offset :: u32

definition skb_pagelen :: "mc_skb \<Rightarrow> u32" where
  "skb_pagelen skb = skb_headlen skb + sum_list (map fst (skb_frags skb))"

definition XMCDMA_CHAN_CR_OFFSET :: "u16 \<Rightarrow> u32" where "XMCDMA_CHAN_CR_OFFSET c = 0x40 + (ucast c - 1) * 0x40"
definition XMCDMA_CHAN_SR_OFFSET :: "u16 \<Rightarrow> u32" where "XMCDMA_CHAN_SR_OFFSET c = 0x44 + (ucast c - 1) * 0x40"
definition XMCDMA_CHAN_CURDESC_OFFSET :: "u16 \<Rightarrow> u32" where "XMCDMA_CHAN_CURDESC_OFFSET c = 0x48 + (ucast c - 1) * 0x40"
definition XMCDMA_CHAN_TAILDESC_OFFSET :: "u16 \<Rightarrow> u32" where "XMCDMA_CHAN_TAILDESC_OFFSET c = 0x50 + (ucast c - 1) * 0x40"

definition dma_out :: "axienet_dma_q \<Rightarrow> u32 \<Rightarrow> u32 \<Rightarrow> axienet_dma_q" where
  "dma_out q a v = q\<lparr>dma_regs := (dma_regs q)(a := v)\<rparr>"

definition dma_bdout :: "axienet_dma_q \<Rightarrow> u32 \<Rightarrow> u64 \<Rightarrow> axienet_dma_q" where
  "dma_bdout q a v = q\<lparr>dma_bd_regs := (dma_bd_regs q)(a := v)\<rparr>"

definition upd_tx :: "nat \<Rightarrow> (aximcdma_bd \<Rightarrow> aximcdma_bd) \<Rightarrow> axienet_dma_q \<Rightarrow> axienet_dma_q" where
  "upd_tx i f q = q\<lparr>txq_bd_v := (txq_bd_v q)(i := f (txq_bd_v q i))\<rparr>"

definition upd_rx :: "nat \<Rightarrow> (aximcdma_bd \<Rightarrow> aximcdma_bd) \<Rightarrow> axienet_dma_q \<Rightarrow> axienet_dma_q" where
  "upd_rx i f q = q\<lparr>rxq_bd_v := (rxq_bd_v q)(i := f (rxq_bd_v q i))\<rparr>"

section \<open>Sending\<close>

text \<open>\<open>CIRC_SPACE\<close> of the kernel for indices below the size.\<close>

definition circ_space :: "nat \<Rightarrow> nat \<Rightarrow> nat \<Rightarrow> nat" where
  "circ_space head tail n = (tail + n - (head + 1)) mod n"

definition axienet_check_tx_bd_space :: "axienet_dma_q \<Rightarrow> nat \<Rightarrow> bool" where
  "axienet_check_tx_bd_space q nfrag \<longleftrightarrow>
     circ_space (q_tx_tail q) (q_tx_ci q) TX_BD_NUM < nfrag + 1 \<or>
     sband_stats (txq_bd_v q ((q_tx_tail q + nfrag) mod TX_BD_NUM)) AND XMCDMA_BD_STS_ALL_MASK \<noteq> 0"

definition set_tx_csum :: "mac_cfg \<Rightarrow> mc_skb \<Rightarrow> aximcdma_bd \<Rightarrow> aximcdma_bd" where
  "set_tx_csum cfg skb bd =
     (if skb_ip_summed skb = CHECKSUM_PARTIAL \<and> \<not> eth_hasnobuf cfg \<and> mactype cfg = XAXIENET_1G
      then if bit (features cfg) 3 then bd\<lparr>b_app0 := b_app0 bd OR 2\<rparr>
           else if bit (features cfg) 0
           then bd\<lparr>b_app0 := b_app0 bd OR 1,
                   b_app1 := push_bit 16 (transport_offset skb) OR (transport_offset skb + csum_offset skb)\<rparr>
           else bd
      else if skb_ip_summed skb = CHECKSUM_UNNECESSARY \<and> \<not> eth_hasnobuf cfg \<and> mactype cfg = XAXIENET_1G
      then bd\<lparr>b_app0 := b_app0 bd OR 2\<rparr>
      else bd)"

text \<open>An address the kernel could not map is used as it is, all ones.\<close>

definition mapped :: "u64 option \<Rightarrow> u64" where
  "mapped a = (case a of Some p \<Rightarrow> p | None \<Rightarrow> - 1)"

fun xmit_frags_mc :: "u32 \<Rightarrow> (u32 \<times> u64) list \<Rightarrow> axienet_dma_q \<Rightarrow> axienet_dma_q" where
  "xmit_frags_mc pad [] q = q"
| "xmit_frags_mc pad ((n, a) # fs) q =
     (let q = q\<lparr>q_tx_tail := (q_tx_tail q + 1) mod TX_BD_NUM\<rparr>;
          q = upd_tx (q_tx_tail q) (\<lambda>bd. bd\<lparr>b_phys := a, b_cntrl := (if fs = [] then n + pad else n), b_mapping := DESC_DMA_MAP_PAGE\<rparr>) q
      in xmit_frags_mc pad fs q)"

text \<open>
  The queue, and whether the subqueue is stopped. Without the realignment engine a packet that is not
  aligned or has fragments is copied to the buffer of its descriptor.
\<close>

definition axienet_queue_xmit :: "mac_cfg \<Rightarrow> mc_skb \<Rightarrow> axienet_dma_q \<times> bool \<Rightarrow> netdev_tx \<times> axienet_dma_q \<times> bool" where
  "axienet_queue_xmit cfg skb s =
     (case s of (q, stopped) \<Rightarrow>
        let nfrag = length (skb_frags skb)
        in if axienet_check_tx_bd_space q nfrag then (NETDEV_TX_BUSY, q, True)
           else
             let pad = (if skb_pagelen skb < XXV_MAC_MIN_PKT_LEN \<and> mactype cfg = XAXIENET_10G_25G
                        then XXV_MAC_MIN_PKT_LEN - skb_pagelen skb else 0);
                 q = upd_tx (q_tx_tail q) (set_tx_csum cfg skb) q;
                 q = (if \<not> eth_hasdre q \<and> (skb_data skb AND 3 \<noteq> 0 \<or> nfrag > 0)
                      then upd_tx (q_tx_tail q) (\<lambda>bd. bd\<lparr>b_phys := tx_bufs_dma q + of_nat (q_tx_tail q * XAE_MAX_PKT_LEN),
                             b_cntrl := skb_pagelen skb OR XMCDMA_BD_CTRL_TXSOF_MASK\<rparr>) q
                      else xmit_frags_mc pad (skb_frags skb)
                             (upd_tx (q_tx_tail q) (\<lambda>bd. bd\<lparr>b_phys := mapped (skb_dma skb),
                                b_cntrl := (if nfrag = 0 then (skb_headlen skb OR XMCDMA_BD_CTRL_TXSOF_MASK) + pad
                                            else skb_headlen skb OR XMCDMA_BD_CTRL_TXSOF_MASK),
                                b_mapping := DESC_DMA_MAP_SINGLE\<rparr>) q));
                 q = upd_tx (q_tx_tail q) (\<lambda>bd. bd\<lparr>b_cntrl := b_cntrl bd OR XMCDMA_BD_CTRL_TXEOF_MASK, b_tx_skb := skb_addr skb\<rparr>) q;
                 q = dma_bdout q (XMCDMA_CHAN_TAILDESC_OFFSET (chan_id q)) (tx_bd_p q + of_nat (128 * q_tx_tail q));
                 q = q\<lparr>q_tx_tail := (q_tx_tail q + 1) mod TX_BD_NUM\<rparr>
             in (NETDEV_TX_OK, q, stopped))"

text \<open>What the completion does for a descriptor: the buffer it unmaps and the packet it frees.\<close>

datatype mc_event = McUnmapPage u64 u32 | McUnmapSingle u64 u32 | McKfreeSkb u64

definition done_events :: "aximcdma_bd \<Rightarrow> mc_event list" where
  "done_events bd =
     (if b_mapping bd = DESC_DMA_MAP_PAGE then McUnmapPage (b_phys bd) (b_cntrl bd AND XAXIDMA_BD_CTRL_LENGTH_MASK)
      else McUnmapSingle (b_phys bd) (b_cntrl bd AND XAXIDMA_BD_CTRL_LENGTH_MASK)) #
     (if b_tx_skb bd \<noteq> 0 then [McKfreeSkb (b_tx_skb bd)] else [])"

definition clear_tx_bd :: "aximcdma_bd \<Rightarrow> aximcdma_bd" where
  "clear_tx_bd bd = bd\<lparr>b_app0 := 0, b_app1 := 0, b_app2 := 0, b_app4 := 0, b_status := 0, b_tx_skb := 0, sband_stats := 0\<rparr>"

definition tx_complete :: "aximcdma_bd \<Rightarrow> bool" where
  "tx_complete bd \<longleftrightarrow> bit (sband_stats bd) 31"

definition release_tx :: "axienet_dma_q \<Rightarrow> axienet_dma_q" where
  "release_tx q = (upd_tx (q_tx_ci q) clear_tx_bd q)\<lparr>q_tx_ci := (q_tx_ci q + 1) mod TX_BD_NUM\<rparr>"

definition complete_left :: "axienet_dma_q \<Rightarrow> nat" where
  "complete_left q = card {i. i < TX_BD_NUM \<and> tx_complete (txq_bd_v q i)}"

lemma complete_left_less:
  "q_tx_ci q < TX_BD_NUM \<Longrightarrow> tx_complete (txq_bd_v q (q_tx_ci q)) \<Longrightarrow> complete_left (release_tx q) < complete_left q"
  unfolding complete_left_def
  by (rule psubset_card_mono) (auto simp: release_tx_def upd_tx_def clear_tx_bd_def tx_complete_def split: if_splits)

text \<open>
  The loop follows the descriptors as long as they are complete; it does not look at the tail. An
  index beyond the ring is a fault. The events come with the number of bytes.
\<close>

function xmit_done_mc :: "axienet_dma_q \<Rightarrow> (axienet_dma_q \<times> mc_event list \<times> nat \<times> u32) checked" where
  "xmit_done_mc q =
     (if \<not> q_tx_ci q < TX_BD_NUM then Inl OutOfBounds
      else if \<not> tx_complete (txq_bd_v q (q_tx_ci q)) then Inr (q, [], 0, 0)
      else
        (case xmit_done_mc (release_tx q) of
           Inl f \<Rightarrow> Inl f
         | Inr (q', es, packets, bytes) \<Rightarrow>
             Inr (q', done_events (txq_bd_v q (q_tx_ci q)) @ es, packets + 1,
                  (sband_stats (txq_bd_v q (q_tx_ci q)) AND XAXIDMA_BD_STS_ACTUAL_LEN_MASK) + bytes)))"
  by pat_completeness auto

termination xmit_done_mc
  by (relation "measure complete_left") (auto simp: complete_left_less)

declare xmit_done_mc.simps [simp del]

definition axienet_start_xmit_done :: "axienet_dma_q \<times> bool \<Rightarrow> (axienet_dma_q \<times> bool \<times> mc_event list) checked" where
  "axienet_start_xmit_done s =
     (case s of (q, stopped) \<Rightarrow>
        (case xmit_done_mc q of
           Inl f \<Rightarrow> Inl f
         | Inr (q, es, packets, bytes) \<Rightarrow>
             Inr (q\<lparr>q_tx_packets := q_tx_packets q + of_nat packets, q_tx_bytes := q_tx_bytes q + ucast bytes\<rparr>, False, es)))"

section \<open>Receiving\<close>

text \<open>The devices a packet may go to: the two ports, the endpoint and the extended endpoint.\<close>

datatype rx_dev = SLAVE0 | SLAVE1 | EP | EX_EP

record rx_env =
  dev_running :: "rx_dev \<Rightarrow> bool"
  has_ex_ep :: bool
  rx_is_ip :: "u64 \<Rightarrow> bool"
  rx_alloc :: "nat \<Rightarrow> (u64 \<times> u64) option"

datatype rx_event = Receive rx_dev u64 u32 ip_summed | RxDrop u64

definition rx_length :: "mac_cfg \<Rightarrow> aximcdma_bd \<Rightarrow> u32" where
  "rx_length cfg bd =
     (if eth_hasnobuf cfg \<or> mactype cfg \<noteq> XAXIENET_1G then b_status bd AND XAXIDMA_BD_STS_ACTUAL_LEN_MASK
      else b_app4 bd AND 0x0000FFFF)"

definition rx_csum :: "mac_cfg \<Rightarrow> rx_env \<Rightarrow> aximcdma_bd \<Rightarrow> ip_summed" where
  "rx_csum cfg env bd =
     (if bit (features cfg) 2 \<and> mactype cfg = XAXIENET_1G \<and> \<not> eth_hasnobuf cfg
      then let csumstatus = drop_bit 3 (b_app2 bd AND 0x38)
           in if csumstatus = 2 \<or> csumstatus = 3 then CHECKSUM_UNNECESSARY else CHECKSUM_NONE
      else if bit (features cfg) 0 \<and> rx_is_ip env (sw_id_offset bd) \<and> rx_length cfg bd > 78 \<and> \<not> eth_hasnobuf cfg \<and>
        mactype cfg = XAXIENET_1G then CHECKSUM_COMPLETE
      else CHECKSUM_NONE)"

text \<open>
  The device of a packet on the management channel, from the side band status; what it is not changes
  nothing, so the one of the packet before may stay.
\<close>

definition mgmt_dev :: "rx_env \<Rightarrow> u32 \<Rightarrow> rx_dev option \<Rightarrow> rx_dev option" where
  "mgmt_dev env sband_status temp_ndev =
     (let port = sband_status AND XMCDMA_BD_SD_STS_ALL_MASK
      in if port = 0x10 then Some SLAVE0
         else if port = 0x20 then Some SLAVE1
         else if port = 0 then Some EP
         else if has_ex_ep env \<and> port = 0x30 then Some EX_EP
         else temp_ndev)"

definition pass_up :: "mac_cfg \<Rightarrow> rx_env \<Rightarrow> rx_dev option \<Rightarrow> aximcdma_bd \<Rightarrow> rx_event" where
  "pass_up cfg env dev bd =
     (case dev of
        Some d \<Rightarrow> if dev_running env d then Receive d (sw_id_offset bd) (rx_length cfg bd) (rx_csum cfg env bd) else RxDrop (sw_id_offset bd)
      | None \<Rightarrow> RxDrop (sw_id_offset bd))"

definition rx_target :: "rx_env \<Rightarrow> chan_flags \<Rightarrow> u32 \<Rightarrow> rx_dev option \<Rightarrow> rx_dev option" where
  "rx_target env flags sband_status temp_ndev =
     (case flags of
        MCDMA_MGMT_CHAN \<Rightarrow> mgmt_dev env sband_status temp_ndev
      | MCDMA_EP_EX_CHAN \<Rightarrow> if has_ex_ep env then Some EX_EP else None
      | MCDMA_DATA_CHAN \<Rightarrow> temp_ndev)"

definition deliver :: "mac_cfg \<Rightarrow> rx_env \<Rightarrow> chan_flags \<Rightarrow> rx_dev option \<Rightarrow> aximcdma_bd \<Rightarrow> rx_event" where
  "deliver cfg env flags dev bd =
     (case flags of
        MCDMA_DATA_CHAN \<Rightarrow> Receive EP (sw_id_offset bd) (rx_length cfg bd) (rx_csum cfg env bd)
      | _ \<Rightarrow> pass_up cfg env dev bd)"

definition rx_complete :: "aximcdma_bd \<Rightarrow> bool" where
  "rx_complete bd \<longleftrightarrow> bit (b_status bd) 31"

definition refill :: "mac_cfg \<Rightarrow> u64 \<times> u64 \<Rightarrow> axienet_dma_q \<Rightarrow> axienet_dma_q" where
  "refill cfg skb q =
     (upd_rx (q_rx_ci q) (\<lambda>bd. bd\<lparr>b_phys := snd skb, b_cntrl := max_frm_size cfg, b_status := 0, sw_id_offset := fst skb\<rparr>) q)
       \<lparr>q_rx_ci := (q_rx_ci q + 1) mod RX_BD_NUM\<rparr>"

text \<open>
  The loop, with what is left of the budget. The side band status is that of the descriptor the loop
  started with. When no new packet can be allocated the loop ends after the old one was passed on
  and before its descriptor gets another. A length beyond the buffer is a fault. The result has the
  address for the tail register, if any, and how many descriptors were freed.
\<close>

fun recv_loop ::
  "mac_cfg \<Rightarrow> rx_env \<Rightarrow> u32 \<Rightarrow> nat \<Rightarrow> nat \<Rightarrow> rx_dev option \<Rightarrow> u64 \<Rightarrow> axienet_dma_q \<Rightarrow>
   (axienet_dma_q \<times> rx_event list \<times> u64 \<times> nat \<times> u32) checked" where
  "recv_loop cfg env sband_status 0 i temp_ndev tail_p q = Inr (q, [], tail_p, 0, 0)"
| "recv_loop cfg env sband_status (Suc budget) i temp_ndev tail_p q =
     (if \<not> q_rx_ci q < RX_BD_NUM then Inl OutOfBounds
      else
        let bd = rxq_bd_v q (q_rx_ci q)
        in if \<not> rx_complete bd then Inr (q, [], tail_p, 0, 0)
           else if rx_length cfg bd > max_frm_size cfg then Inl OutOfBounds
           else
             let tail_p = rx_bd_p q + of_nat (128 * q_rx_ci q);
                 temp_ndev = rx_target env (q_flags q) sband_status temp_ndev;
                 ev = deliver cfg env (q_flags q) temp_ndev bd
             in case rx_alloc env i of
                  None \<Rightarrow> Inr (q, [ev], tail_p, 0, rx_length cfg bd)
                | Some skb \<Rightarrow>
                    (case recv_loop cfg env sband_status budget (Suc i) temp_ndev tail_p (refill cfg skb q) of
                       Inl f \<Rightarrow> Inl f
                     | Inr (q', evs, tail_p, n, bytes) \<Rightarrow> Inr (q', ev # evs, tail_p, Suc n, rx_length cfg bd + bytes)))"

definition axienet_recv :: "mac_cfg \<Rightarrow> rx_env \<Rightarrow> nat \<Rightarrow> axienet_dma_q \<Rightarrow> (nat \<times> axienet_dma_q \<times> rx_event list) checked" where
  "axienet_recv cfg env budget q =
     (if \<not> q_rx_ci q < RX_BD_NUM then Inl OutOfBounds
      else
        case recv_loop cfg env (sband_stats (rxq_bd_v q (q_rx_ci q))) budget 0 None 0 q of
          Inl f \<Rightarrow> Inl f
        | Inr (q, evs, tail_p, n, bytes) \<Rightarrow>
            let q = q\<lparr>q_rx_packets := q_rx_packets q + of_nat (length evs), q_rx_bytes := q_rx_bytes q + ucast bytes\<rparr>
            in Inr (n, if tail_p \<noteq> 0 then dma_bdout q (XMCDMA_CHAN_TAILDESC_OFFSET (chan_id q) + rx_offset q) tail_p else q, evs))"

section \<open>Setting up the rings\<close>

abbreviation (input) XMCDMA_CR_OFFSET :: u32 where "XMCDMA_CR_OFFSET \<equiv> 0x00"
abbreviation (input) XMCDMA_CHEN_OFFSET :: u32 where "XMCDMA_CHEN_OFFSET \<equiv> 0x08"
abbreviation (input) XMCDMA_CHAN_RX_OFFSET :: u32 where "XMCDMA_CHAN_RX_OFFSET \<equiv> 0x500"
abbreviation (input) XMCDMA_IRQ_ALL_MASK :: u32 where "XMCDMA_IRQ_ALL_MASK \<equiv> 0xE0"
abbreviation (input) XMCDMA_IRQ_ERR_MASK :: u32 where "XMCDMA_IRQ_ERR_MASK \<equiv> 0x80"
abbreviation (input) XMCDMA_IRQ_DONE_MASK :: u32 where "XMCDMA_IRQ_DONE_MASK \<equiv> 0x60"

definition zero_bd :: aximcdma_bd where
  "zero_bd = \<lparr>b_next = 0, b_phys = 0, b_cntrl = 0, b_status = 0, sband_stats = 0, b_app0 = 0, b_app1 = 0, b_app2 = 0, b_app3 = 0,
     b_app4 = 0, sw_id_offset = 0, b_tx_skb = 0, b_mapping = DESC_DMA_MAP_SINGLE\<rparr>"

definition ring_bd :: "u64 \<Rightarrow> nat \<Rightarrow> nat \<Rightarrow> aximcdma_bd" where
  "ring_bd p n i = zero_bd\<lparr>b_next := p + of_nat (128 * ((i + 1) mod n))\<rparr>"

text \<open>The count and the delay after which an interrupt is raised, and all interrupts enabled.\<close>

definition chan_cr :: "u32 \<Rightarrow> u32 \<Rightarrow> u32" where
  "chan_cr count cr =
     (let cr = (cr AND NOT 0x00FF0000) OR push_bit 16 count;
          cr = (cr AND NOT 0xFF000000) OR push_bit 24 254
      in cr OR XMCDMA_IRQ_ALL_MASK)"

definition dma_set :: "u32 \<Rightarrow> (u32 \<Rightarrow> u32) \<Rightarrow> axienet_dma_q \<Rightarrow> axienet_dma_q" where
  "dma_set a f q = dma_out q a (f (dma_regs q a))"

definition run_channel :: "u32 \<Rightarrow> axienet_dma_q \<Rightarrow> axienet_dma_q" where
  "run_channel off q =
     (let q = dma_set (XMCDMA_CR_OFFSET + off) (\<lambda>cr. cr OR 1) q
      in dma_set (XMCDMA_CHAN_CR_OFFSET (chan_id q) + off) (\<lambda>cr. cr OR 1) q)"

definition enable_channel :: "u32 \<Rightarrow> axienet_dma_q \<Rightarrow> axienet_dma_q" where
  "enable_channel off q = dma_set (XMCDMA_CHEN_OFFSET + off) (\<lambda>en. en OR push_bit (unat (chan_id q) - 1) 1) q"

text \<open>
  The arguments are what the allocations give. After a failure the source releases the rings of all queues.
\<close>

definition axienet_mcdma_tx_q_init :: "mac_cfg \<Rightarrow> u64 option \<Rightarrow> u64 option \<Rightarrow> axienet_dma_q \<Rightarrow> int \<times> axienet_dma_q" where
  "axienet_mcdma_tx_q_init cfg bds bufs q =
     (let q = q\<lparr>q_tx_ci := 0, q_tx_tail := 0\<rparr>
      in case bds of
           None \<Rightarrow> (- ENOMEM, q)
         | Some p \<Rightarrow>
             if \<not> eth_hasdre q \<and> bufs = None then (- ENOMEM, q\<lparr>tx_bd_p := p\<rparr>)
             else
               let q = q\<lparr>tx_bd_p := p, txq_bd_v := ring_bd p TX_BD_NUM, tx_bufs_dma := (if eth_hasdre q then tx_bufs_dma q else the bufs)\<rparr>;
                   q = dma_set (XMCDMA_CHAN_CR_OFFSET (chan_id q)) (chan_cr (coalesce_count_tx cfg)) q;
                   q = dma_bdout q (XMCDMA_CHAN_CURDESC_OFFSET (chan_id q)) p;
                   q = run_channel 0 q
               in (0, enable_channel 0 q))"

definition rx_chan_flags :: "mac_cfg \<Rightarrow> u16 \<Rightarrow> chan_flags \<Rightarrow> chan_flags" where
  "rx_chan_flags cfg c fl =
     (if num_rx_queues cfg = 7 \<and> (c = 5 \<or> c = 6 \<or> c = 7) then MCDMA_EP_EX_CHAN
      else if num_rx_queues cfg = 5 \<and> (c = 4 \<or> c = 5) then MCDMA_EP_EX_CHAN
      else if \<not> abl_eponly cfg \<and> c = 3 then MCDMA_MGMT_CHAN
      else fl)"

text \<open>
  Every descriptor gets a packet and the address it is mapped to; \<open>None\<close> for the address when mapping
  fails. When the ring itself cannot be allocated, the release that follows goes through the
  descriptors of a null pointer.
\<close>

definition axienet_mcdma_rx_q_init ::
  "mac_cfg \<Rightarrow> u64 option \<Rightarrow> (nat \<Rightarrow> (u64 \<times> u64 option) option) \<Rightarrow> axienet_dma_q \<Rightarrow> (int \<times> axienet_dma_q) checked" where
  "axienet_mcdma_rx_q_init cfg bds skbs q =
     (let q = q\<lparr>q_rx_ci := 0, rx_offset := XMCDMA_CHAN_RX_OFFSET\<rparr>
      in case bds of
           None \<Rightarrow> Inl NullPointer
         | Some p \<Rightarrow>
             if \<not> (\<forall>i<RX_BD_NUM. \<exists>a m. skbs i = Some (a, Some m)) then Inr (- ENOMEM, q\<lparr>rx_bd_p := p\<rparr>)
             else
               let q = q\<lparr>rx_bd_p := p,
                         rxq_bd_v := (\<lambda>i. (ring_bd p RX_BD_NUM i)\<lparr>sw_id_offset := fst (the (skbs i)), b_phys := the (snd (the (skbs i))),
                                                  b_cntrl := max_frm_size cfg\<rparr>),
                         q_flags := rx_chan_flags cfg (chan_id q) (q_flags q)\<rparr>;
                   q = dma_set (XMCDMA_CHAN_CR_OFFSET (chan_id q) + rx_offset q) (chan_cr (coalesce_count_rx cfg)) q;
                   q = dma_bdout q (XMCDMA_CHAN_CURDESC_OFFSET (chan_id q) + rx_offset q) p;
                   q = run_channel (rx_offset q) q;
                   q = dma_bdout q (XMCDMA_CHAN_TAILDESC_OFFSET (chan_id q) + rx_offset q) (p + of_nat (128 * (RX_BD_NUM - 1)))
               in Inr (0, enable_channel (rx_offset q) q))"

section \<open>Interrupts\<close>

record mcdma_lp =
  dq :: "axienet_dma_q list"
  chan_num :: "nat list"
  qnum :: "nat list"
  tx_stopped :: bool

datatype irqreturn = IRQ_NONE | IRQ_HANDLED

text \<open>The lowest channel in the mask of pending ones, none when its top bit is set.\<close>

definition pending_chan :: "u32 \<Rightarrow> nat option" where
  "pending_chan chan_sermask =
     (if bit chan_sermask 31 then None else map_option Suc (List.find (\<lambda>i. bit chan_sermask i) [0..<31]))"

definition map_dma_q_txirq :: "mcdma_lp \<Rightarrow> nat option" where
  "map_dma_q_txirq lp = pending_chan (dma_regs (dq lp ! 0) 0x28)"

definition map_dma_q_rxirq :: "mcdma_lp \<Rightarrow> nat option" where
  "map_dma_q_rxirq lp = pending_chan (dma_regs (dq lp ! 0) (0x20 + rx_offset (dq lp ! 0)))"

definition get_mcdma_q :: "mcdma_lp \<Rightarrow> nat \<Rightarrow> nat option" where
  "get_mcdma_q lp c = map_option (\<lambda>i. qnum lp ! i) (List.find (\<lambda>i. chan_num lp ! i = c) [0..<length (chan_num lp)])"

text \<open>Both interrupts of the channel off; the error is acknowledged on the receive side.\<close>

definition err_irq_off :: "u32 \<Rightarrow> axienet_dma_q \<Rightarrow> axienet_dma_q" where
  "err_irq_off status q =
     (let q = dma_set (XMCDMA_CHAN_CR_OFFSET (chan_id q)) (\<lambda>cr. cr AND NOT XMCDMA_IRQ_ALL_MASK) q;
          q = dma_set (XMCDMA_CHAN_CR_OFFSET (chan_id q) + rx_offset q) (\<lambda>cr. cr AND NOT XMCDMA_IRQ_ALL_MASK) q
      in dma_out q (XMCDMA_CHAN_SR_OFFSET (chan_id q) + rx_offset q) status)"

text \<open>
  The result has the packets freed and whether the error tasklet was scheduled. A channel that no
  queue has gives a negative index into the queues.
\<close>

definition axienet_mcdma_tx_irq :: "mcdma_lp \<Rightarrow> (irqreturn \<times> mcdma_lp \<times> mc_event list \<times> bool) checked" where
  "axienet_mcdma_tx_irq lp =
     (case map_dma_q_txirq lp of
        None \<Rightarrow> Inr (IRQ_NONE, lp, [], False)
      | Some j \<Rightarrow>
          (case get_mcdma_q lp j of
             None \<Rightarrow> Inl OutOfBounds
           | Some i \<Rightarrow>
               if \<not> i < length (dq lp) then Inl OutOfBounds
               else
                 let q = dq lp ! i; status = dma_regs q (XMCDMA_CHAN_SR_OFFSET (chan_id q))
                 in if status AND XMCDMA_IRQ_DONE_MASK \<noteq> 0
                    then (case axienet_start_xmit_done (dma_out q (XMCDMA_CHAN_SR_OFFSET (chan_id q)) status, tx_stopped lp) of
                            Inl f \<Rightarrow> Inl f
                          | Inr (q, st, es) \<Rightarrow> Inr (IRQ_HANDLED, lp\<lparr>dq := (dq lp)[i := q], tx_stopped := st\<rparr>, es, False))
                    else if status AND XMCDMA_IRQ_ALL_MASK = 0 then Inr (IRQ_NONE, lp, [], False)
                    else if status AND XMCDMA_IRQ_ERR_MASK \<noteq> 0
                    then Inr (IRQ_HANDLED, lp\<lparr>dq := (dq lp)[i := err_irq_off status q]\<rparr>, [], True)
                    else Inr (IRQ_HANDLED, lp, [], False)))"

text \<open>The result says whether polling and whether the error tasklet was scheduled.\<close>

definition axienet_mcdma_rx_irq :: "mcdma_lp \<Rightarrow> (irqreturn \<times> mcdma_lp \<times> bool \<times> bool) checked" where
  "axienet_mcdma_rx_irq lp =
     (case map_dma_q_rxirq lp of
        None \<Rightarrow> Inr (IRQ_NONE, lp, False, False)
      | Some j \<Rightarrow>
          (case get_mcdma_q lp j of
             None \<Rightarrow> Inl OutOfBounds
           | Some i \<Rightarrow>
               if \<not> i < length (dq lp) then Inl OutOfBounds
               else
                 let q = dq lp ! i;
                     status = dma_regs q (XMCDMA_CHAN_SR_OFFSET (chan_id q) + rx_offset q);
                     napi = (status AND XMCDMA_IRQ_DONE_MASK \<noteq> 0);
                     q = (if napi then dma_set (XMCDMA_CHAN_CR_OFFSET (chan_id q) + rx_offset q) (\<lambda>cr. cr AND NOT XMCDMA_IRQ_DONE_MASK) q else q)
                 in if status AND XMCDMA_IRQ_ALL_MASK = 0 then Inr (IRQ_NONE, lp\<lparr>dq := (dq lp)[i := q]\<rparr>, napi, False)
                    else if status AND XMCDMA_IRQ_ERR_MASK \<noteq> 0
                    then Inr (IRQ_HANDLED, lp\<lparr>dq := (dq lp)[i := err_irq_off status q]\<rparr>, napi, True)
                    else Inr (IRQ_HANDLED, lp\<lparr>dq := (dq lp)[i := q]\<rparr>, napi, False)))"

text \<open>
  What the error tasklet does to the rings. The side band status, where a transmit descriptor shows
  that it is complete, is not among the fields it clears.
\<close>

definition err_clear_rings :: "axienet_dma_q \<Rightarrow> axienet_dma_q" where
  "err_clear_rings q =
     q\<lparr>txq_bd_v := (\<lambda>i. (txq_bd_v q i)\<lparr>b_phys := 0, b_cntrl := 0, b_status := 0, b_app0 := 0, b_app1 := 0, b_app2 := 0, b_app3 := 0,
          b_app4 := 0, sw_id_offset := 0, b_tx_skb := 0\<rparr>),
       rxq_bd_v := (\<lambda>i. (rxq_bd_v q i)\<lparr>b_status := 0, b_app0 := 0, b_app1 := 0, b_app2 := 0, b_app3 := 0, b_app4 := 0\<rparr>),
       q_tx_ci := 0, q_tx_tail := 0, q_rx_ci := 0\<rparr>"

end
