(* ===== verification/Mcdma_Ring.thy ===== *)
theory Mcdma_Ring
  imports Mcdma
begin

text \<open>
  The transmit ring of the multi-channel DMA implements a bounded queue of descriptors: a packet is
  appended, completed descriptors leave at the front. The receive ring passes on completed
  descriptors in order.
\<close>

section \<open>The transmit ring as a queue\<close>

definition in_flight :: "axienet_dma_q \<Rightarrow> nat list" where
  "in_flight q = ring_idx (q_tx_ci q) (q_tx_tail q) TX_BD_NUM"

definition tx_contents :: "axienet_dma_q \<Rightarrow> aximcdma_bd list" where
  "tx_contents q = map (txq_bd_v q) (in_flight q)"

definition idle_bd :: "aximcdma_bd \<Rightarrow> bool" where
  "idle_bd bd \<longleftrightarrow> b_tx_skb bd = 0 \<and> sband_stats bd = 0 \<and> b_app0 bd = 0 \<and> b_app1 bd = 0"

text \<open>The indices are within the ring and the descriptors that are not in flight are cleared.\<close>

definition mc_ok :: "axienet_dma_q \<Rightarrow> bool" where
  "mc_ok q \<longleftrightarrow> q_tx_ci q < TX_BD_NUM \<and> q_tx_tail q < TX_BD_NUM \<and>
     (\<forall>i<TX_BD_NUM. i \<notin> set (in_flight q) \<longrightarrow> idle_bd (txq_bd_v q i))"

definition push_mc :: "aximcdma_bd \<Rightarrow> axienet_dma_q \<Rightarrow> axienet_dma_q" where
  "push_mc bd q = (upd_tx (q_tx_tail q) (\<lambda>_. bd) q)\<lparr>q_tx_tail := (q_tx_tail q + 1) mod TX_BD_NUM\<rparr>"

definition tx_indices_ok :: "axienet_dma_q \<Rightarrow> bool" where
  "tx_indices_ok q \<longleftrightarrow> q_tx_ci q < TX_BD_NUM \<and> q_tx_tail q < TX_BD_NUM"

lemma push_mc_fields [simp]:
  "q_tx_ci (push_mc bd q) = q_tx_ci q" "q_tx_tail (push_mc bd q) = (q_tx_tail q + 1) mod TX_BD_NUM"
  "txq_bd_v (push_mc bd q) = (txq_bd_v q)(q_tx_tail q := bd)"
  by (simp_all add: push_mc_def upd_tx_def)

lemma release_tx_fields [simp]:
  "q_tx_tail (release_tx q) = q_tx_tail q" "q_tx_ci (release_tx q) = (q_tx_ci q + 1) mod TX_BD_NUM"
  "txq_bd_v (release_tx q) = (txq_bd_v q)(q_tx_ci q := clear_tx_bd (txq_bd_v q (q_tx_ci q)))"
  by (simp_all add: release_tx_def upd_tx_def)

lemma length_in_flight: "tx_indices_ok q \<Longrightarrow> length (in_flight q) < TX_BD_NUM"
  unfolding in_flight_def tx_indices_ok_def by (rule length_ring_idx) simp

lemma not_full: "tx_indices_ok q \<Longrightarrow> Suc (length (in_flight q)) < TX_BD_NUM \<Longrightarrow> (q_tx_tail q + 1) mod TX_BD_NUM \<noteq> q_tx_ci q"
  by (auto simp: in_flight_def tx_indices_ok_def ring_idx_def ring_used mod_Suc split: if_splits)

lemma in_flight_push:
  assumes "tx_indices_ok q" and "Suc (length (in_flight q)) < TX_BD_NUM"
  shows "in_flight (push_mc bd q) = in_flight q @ [q_tx_tail q]"
  using ring_idx_push [OF _ _ not_full [OF assms]] assms(1) by (simp add: in_flight_def tx_indices_ok_def)

lemma tail_not_in_flight: "tx_indices_ok q \<Longrightarrow> q_tx_tail q \<notin> set (in_flight q)"
  unfolding in_flight_def tx_indices_ok_def by (rule ring_idx_notin) simp_all

lemma tx_contents_push:
  assumes "tx_indices_ok q" and "Suc (length (tx_contents q)) < TX_BD_NUM"
  shows "tx_contents (push_mc bd q) = tx_contents q @ [bd]"
  using in_flight_push [OF assms(1)] assms(2) tail_not_in_flight [OF assms(1)]
  by (auto simp: tx_contents_def)

lemma in_flight_release:
  assumes "tx_indices_ok q" and "in_flight q \<noteq> []"
  shows "in_flight q = q_tx_ci q # in_flight (release_tx q)"
proof -
  have "q_tx_tail q \<noteq> q_tx_ci q" using assms by (auto simp: in_flight_def tx_indices_ok_def ring_idx_empty_iff)
  then show ?thesis using ring_idx_pop [of "q_tx_ci q" TX_BD_NUM "q_tx_tail q"] assms(1) by (simp add: in_flight_def tx_indices_ok_def)
qed

lemma distinct_ring_idx: "distinct (ring_idx t h n)"
proof (cases "n = 0")
  case False
  have *: "i = j" if "i \<le> j" "j < n" "(t + i) mod n = (t + j) mod n" for i j
  proof -
    have "n dvd (t + j) - (t + i)" using that by (metis add_left_mono mod_eq_dvd_iff_nat)
    then have "n dvd j - i" by simp
    then show "i = j" using that by (auto dest: dvd_imp_le)
  qed
  have "inj_on (\<lambda>i. (t + i) mod n) {0..<(h + n - t) mod n}"
  proof (intro linorder_inj_onI)
    fix x y assume "x < y" "y \<in> {0..<(h + n - t) mod n}" "x \<in> {0..<(h + n - t) mod n}"
    moreover have "(h + n - t) mod n < n" using False by simp
    ultimately have "y < n" by simp
    then show "(t + x) mod n \<noteq> (t + y) mod n" using * [of x y] \<open>x < y\<close> by auto
  qed auto
  then show ?thesis by (simp add: ring_idx_def distinct_map)
qed (simp add: ring_idx_def distinct_map inj_on_def)

lemma distinct_in_flight: "distinct (in_flight q)"
  by (simp add: in_flight_def distinct_ring_idx)

lemma tx_contents_release:
  assumes "tx_indices_ok q" and "tx_contents q \<noteq> []"
  shows "tx_contents (release_tx q) = tl (tx_contents q)"
proof -
  have e: "in_flight q = q_tx_ci q # in_flight (release_tx q)" using in_flight_release assms by (simp add: tx_contents_def)
  then have "q_tx_ci q \<notin> set (in_flight (release_tx q))" using distinct_in_flight [of q] by (metis distinct.simps(2))
  then show ?thesis using e by (simp add: tx_contents_def)
qed

interpretation mc_ring: bounded_queue tx_contents tx_indices_ok "\<lambda>_. TX_BD_NUM" push_mc release_tx
proof
  fix d :: axienet_dma_q and x
  show "tx_indices_ok d \<Longrightarrow> Suc (length (tx_contents d)) < TX_BD_NUM \<Longrightarrow> tx_contents (push_mc x d) = tx_contents d @ [x]"
    by (rule tx_contents_push)
  show "tx_indices_ok d \<Longrightarrow> tx_contents d \<noteq> [] \<Longrightarrow> tx_contents (release_tx d) = tl (tx_contents d)"
    by (rule tx_contents_release)
  show "tx_indices_ok d \<Longrightarrow> length (tx_contents d) < TX_BD_NUM"
    using length_in_flight by (simp add: tx_contents_def)
  show "tx_indices_ok d \<Longrightarrow> tx_indices_ok (push_mc x d)" "tx_indices_ok d \<Longrightarrow> tx_indices_ok (release_tx d)"
    by (simp_all add: tx_indices_ok_def)
qed simp_all

section \<open>Queueing a packet\<close>

definition bd_view :: "aximcdma_bd \<Rightarrow> u64 \<times> u32 \<times> u64" where
  "bd_view b = (b_phys b, b_cntrl b, b_tx_skb b)"

text \<open>The address, the control word and the packet of every descriptor of a packet: only the last one owns it.\<close>

fun frag_view :: "u32 \<Rightarrow> u64 \<Rightarrow> (u32 \<times> u64) list \<Rightarrow> u64 \<Rightarrow> u32 \<Rightarrow> (u64 \<times> u32 \<times> u64) list" where
  "frag_view pad skb [] p c = [(p, c OR XMCDMA_BD_CTRL_TXEOF_MASK, skb)]"
| "frag_view pad skb ((n, a) # fs) p c = (p, c, 0) # frag_view pad skb fs a (if fs = [] then n + pad else n)"

definition packet_view :: "mac_cfg \<Rightarrow> axienet_dma_q \<Rightarrow> mc_skb \<Rightarrow> (u64 \<times> u32 \<times> u64) list" where
  "packet_view cfg q skb =
     (let pad = (if skb_pagelen skb < 64 \<and> mactype cfg = XAXIENET_10G_25G then 64 - skb_pagelen skb else 0)
      in if \<not> eth_hasdre q \<and> (skb_data skb AND 3 \<noteq> 0 \<or> length (skb_frags skb) > 0)
         then frag_view 0 (skb_addr skb) [] (tx_bufs_dma q + of_nat (q_tx_tail q * XAE_MAX_PKT_LEN)) (skb_pagelen skb OR XMCDMA_BD_CTRL_TXSOF_MASK)
         else frag_view pad (skb_addr skb) (skb_frags skb) (mapped (skb_dma skb))
                (if length (skb_frags skb) = 0 then (skb_headlen skb OR XMCDMA_BD_CTRL_TXSOF_MASK) + pad
                 else skb_headlen skb OR XMCDMA_BD_CTRL_TXSOF_MASK))"

lemma in_flight_cong: "q_tx_ci q = q_tx_ci r \<Longrightarrow> q_tx_tail q = q_tx_tail r \<Longrightarrow> in_flight q = in_flight r"
  by (simp add: in_flight_def)

lemma upd_tx_fields [simp]:
  "q_tx_ci (upd_tx i f q) = q_tx_ci q" "q_tx_tail (upd_tx i f q) = q_tx_tail q"
  "txq_bd_v (upd_tx i f q) = (txq_bd_v q)(i := f (txq_bd_v q i))" "eth_hasdre (upd_tx i f q) = eth_hasdre q"
  "tx_bufs_dma (upd_tx i f q) = tx_bufs_dma q" "in_flight (upd_tx i f q) = in_flight q" "tx_indices_ok (upd_tx i f q) = tx_indices_ok q"
  by (simp_all add: upd_tx_def in_flight_def tx_indices_ok_def)

lemma tx_contents_upd_tail [simp]: "tx_indices_ok q \<Longrightarrow> tx_contents (upd_tx (q_tx_tail q) f q) = tx_contents q"
  using tail_not_in_flight [of q] by (auto simp: tx_contents_def)

definition idle_behind :: "axienet_dma_q \<Rightarrow> bool" where
  "idle_behind q \<longleftrightarrow> (\<forall>i<TX_BD_NUM. i \<notin> set (in_flight q) \<longrightarrow> i \<noteq> q_tx_tail q \<longrightarrow> idle_bd (txq_bd_v q i))"

definition commit :: "u64 \<Rightarrow> axienet_dma_q \<Rightarrow> axienet_dma_q" where
  "commit skb q = (upd_tx (q_tx_tail q) (\<lambda>bd. bd\<lparr>b_cntrl := b_cntrl bd OR XMCDMA_BD_CTRL_TXEOF_MASK, b_tx_skb := skb\<rparr>) q)
     \<lparr>q_tx_tail := (q_tx_tail q + 1) mod TX_BD_NUM\<rparr>"

lemma commit_push: "commit skb q = push_mc ((txq_bd_v q (q_tx_tail q))\<lparr>b_cntrl := b_cntrl (txq_bd_v q (q_tx_tail q)) OR XMCDMA_BD_CTRL_TXEOF_MASK, b_tx_skb := skb\<rparr>) q"
  by (simp add: commit_def push_mc_def upd_tx_def)

lemma mc_ok_push: "tx_indices_ok q \<Longrightarrow> idle_behind q \<Longrightarrow> Suc (length (in_flight q)) < TX_BD_NUM \<Longrightarrow> mc_ok (push_mc bd q)"
  by (auto simp: mc_ok_def idle_behind_def in_flight_push tx_indices_ok_def)

lemma advance_push: "q\<lparr>q_tx_tail := (q_tx_tail q + 1) mod TX_BD_NUM\<rparr> = push_mc (txq_bd_v q (q_tx_tail q)) q"
  by (simp add: push_mc_def upd_tx_def)

lemma idle_behind_push: "tx_indices_ok q \<Longrightarrow> idle_behind q \<Longrightarrow> Suc (length (in_flight q)) < TX_BD_NUM \<Longrightarrow> i < TX_BD_NUM \<Longrightarrow>
   i \<notin> set (in_flight (push_mc bd q)) \<Longrightarrow> idle_bd (txq_bd_v (push_mc bd q) i)"
  using mc_ok_push [of q bd] by (simp add: mc_ok_def)

lemma frags_append:
  assumes "tx_indices_ok q" and "idle_behind q" and "length (in_flight q) + length fs + 1 < TX_BD_NUM" and "b_tx_skb (txq_bd_v q (q_tx_tail q)) = 0"
  shows "\<exists>bs. tx_contents (commit skb (xmit_frags_mc pad fs q)) = tx_contents q @ bs \<and>
     map bd_view bs = frag_view pad skb fs (b_phys (txq_bd_v q (q_tx_tail q))) (b_cntrl (txq_bd_v q (q_tx_tail q))) \<and>
     mc_ok (commit skb (xmit_frags_mc pad fs q))"
  using assms
proof (induction fs arbitrary: q)
  case Nil
  then show ?case by (simp add: commit_push tx_contents_push mc_ok_push bd_view_def tx_contents_def [of q])
next
  case (Cons f fs)
  obtain n a where f: "f = (n, a)" by force
  define q1 where "q1 = push_mc (txq_bd_v q (q_tx_tail q)) q"
  define q2 where "q2 = upd_tx (q_tx_tail q1) (\<lambda>bd. bd\<lparr>b_phys := a, b_cntrl := (if fs = [] then n + pad else n), b_mapping := DESC_DMA_MAP_PAGE\<rparr>) q1"
  have room: "Suc (length (in_flight q)) < TX_BD_NUM" using Cons.prems(3) by simp
  have ok1: "tx_indices_ok q1" using Cons.prems(1) by (simp add: q1_def tx_indices_ok_def)
  have adv: "q\<lparr>q_tx_tail := Suc (q_tx_tail q) mod 64\<rparr> = q1" using advance_push [of q] by (simp add: q1_def)
  then have "q_tx_tail q1 = Suc (q_tx_tail q) mod 64" by auto
  then have step: "xmit_frags_mc pad (f # fs) q = xmit_frags_mc pad fs q2" using adv by (simp add: f q2_def Let_def)
  have fl: "in_flight q2 = in_flight q @ [q_tx_tail q]" by (simp add: q2_def q1_def in_flight_push [OF Cons.prems(1) room])
  have c2: "tx_contents q2 = tx_contents q @ [txq_bd_v q (q_tx_tail q)]"
  proof -
    have "tx_contents q1 = tx_contents q @ [txq_bd_v q (q_tx_tail q)]"
      unfolding q1_def using room by (intro tx_contents_push [OF Cons.prems(1)]) (simp add: tx_contents_def)
    then show ?thesis using ok1 by (simp add: q2_def)
  qed
  have tail1: "q_tx_tail q1 < TX_BD_NUM" "q_tx_tail q1 \<notin> set (in_flight q1)" using ok1 tail_not_in_flight [OF ok1] by (simp_all add: tx_indices_ok_def)
  have idle1: "i < TX_BD_NUM \<Longrightarrow> i \<notin> set (in_flight q1) \<Longrightarrow> idle_bd (txq_bd_v q1 i)" for i
    unfolding q1_def by (rule idle_behind_push [OF Cons.prems(1,2) room])
  then have p2: "tx_indices_ok q2" "idle_behind q2" "b_tx_skb (txq_bd_v q2 (q_tx_tail q2)) = 0"
    using ok1 tail1 idle1 by (auto simp: q2_def idle_behind_def idle_bd_def)
  from Cons.IH [OF p2(1,2) _ p2(3)] fl Cons.prems(3) obtain bs where
    bs: "tx_contents (commit skb (xmit_frags_mc pad fs q2)) = tx_contents q2 @ bs"
      "map bd_view bs = frag_view pad skb fs (b_phys (txq_bd_v q2 (q_tx_tail q2))) (b_cntrl (txq_bd_v q2 (q_tx_tail q2)))"
      "mc_ok (commit skb (xmit_frags_mc pad fs q2))" by auto
  then show ?case unfolding step using c2 Cons.prems(4)
    by (intro exI [of _ "txq_bd_v q (q_tx_tail q) # bs"]) (cases "fs = []"; simp add: f q2_def bd_view_def [of "txq_bd_v q (q_tx_tail q)"])
qed

lemma busy_iff:
  assumes "mc_ok q"
  shows "axienet_check_tx_bd_space q n \<longleftrightarrow> TX_BD_NUM \<le> length (tx_contents q) + n + 1"
proof -
  let ?k = "length (tx_contents q)"
  have i: "q_tx_ci q < 64" "q_tx_tail q < 64" using assms by (simp_all add: mc_ok_def)
  have sp: "circ_space (q_tx_tail q) (q_tx_ci q) TX_BD_NUM = 63 - ?k"
  proof (cases "q_tx_ci q \<le> q_tx_tail q")
    case True
    then have "q_tx_ci q + 64 - (q_tx_tail q + 1) = 63 - (q_tx_tail q - q_tx_ci q)" using i by simp
    then show ?thesis using True i by (simp add: circ_space_def tx_contents_def in_flight_def ring_idx_def ring_used)
  next
    case False
    then have "q_tx_ci q + 64 - (q_tx_tail q + 1) = (q_tx_ci q - (q_tx_tail q + 1)) + 64" by simp
    then have "(q_tx_ci q + 64 - (q_tx_tail q + 1)) mod 64 = (q_tx_ci q - (q_tx_tail q + 1)) mod 64" by (simp only: mod_add_self2)
    then show ?thesis using False i by (simp add: circ_space_def tx_contents_def in_flight_def ring_idx_def ring_used)
  qed
  show ?thesis
  proof (cases "64 \<le> ?k + n + 1")
    case False
    let ?j = "(q_tx_tail q + n) mod 64"
    have "?j \<notin> set (in_flight q)"
    proof
      assume "?j \<in> set (in_flight q)"
      then obtain m where m: "m < ?k" "?j = (q_tx_ci q + m) mod 64" by (auto simp: in_flight_def ring_idx_def tx_contents_def)
      have t: "q_tx_tail q = (q_tx_ci q + ?k) mod 64" using i by (auto simp: tx_contents_def in_flight_def ring_idx_def ring_used)
      then have "?j = (q_tx_ci q + (?k + n)) mod 64" by (simp add: mod_simps add.assoc)
      then have "(q_tx_ci q + (?k + n)) mod 64 = (q_tx_ci q + m) mod 64" using m(2) by simp
      then have "64 dvd (q_tx_ci q + (?k + n)) - (q_tx_ci q + m)" using m(1) by (subst (asm) mod_eq_dvd_iff_nat) auto
      then have "64 dvd ?k + n - m" by simp
      then show False using m(1) False by (auto dest: dvd_imp_le)
    qed
    then have "sband_stats (txq_bd_v q ?j) = 0" using assms by (simp add: mc_ok_def idle_bd_def)
    then show ?thesis using False sp by (simp add: axienet_check_tx_bd_space_def)
  next
    case True
    then have "63 - ?k < n + 1" by linarith
    then show ?thesis using True sp by (simp add: axienet_check_tx_bd_space_def)
  qed
qed

lemma tx_contents_bdout [simp]: "tx_contents (dma_bdout q a v\<lparr>q_tx_tail := t\<rparr>) = tx_contents (q\<lparr>q_tx_tail := t\<rparr>)"
    "mc_ok (dma_bdout q a v\<lparr>q_tx_tail := t\<rparr>) = mc_ok (q\<lparr>q_tx_tail := t\<rparr>)"
  by (simp_all add: dma_bdout_def tx_contents_def in_flight_def mc_ok_def)

text \<open>
  C29 (mcdma_xmit_appends): \<open>axienet_queue_xmit\<close> refuses a packet exactly when the ring has no room for its
  descriptors, without changing the ring; otherwise it appends them behind the ones in flight, with
  the packet on the last descriptor only, and keeps the ring well formed.
\<close>

theorem mcdma_xmit_appends:
  assumes ok: "mc_ok q"
  shows "\<exists>r q' st'. axienet_queue_xmit cfg skb (q, st) = (r, q', st') \<and>
    (if TX_BD_NUM \<le> length (tx_contents q) + length (skb_frags skb) + 1 then r = NETDEV_TX_BUSY \<and> q' = q \<and> st'
     else r = NETDEV_TX_OK \<and> st' = st \<and> mc_ok q' \<and>
       (\<exists>bs. tx_contents q' = tx_contents q @ bs \<and> map bd_view bs = packet_view cfg q skb))"
proof (cases "TX_BD_NUM \<le> length (tx_contents q) + length (skb_frags skb) + 1")
  case True
  then show ?thesis using busy_iff [OF ok] by (auto simp: axienet_queue_xmit_def)
next
  case False
  then have free: "\<not> axienet_check_tx_bd_space q (length (skb_frags skb))" using busy_iff [OF ok] by simp
  have ix: "tx_indices_ok q" using ok by (simp add: mc_ok_def tx_indices_ok_def)
  have idle: "idle_bd (txq_bd_v q (q_tx_tail q))" using ok tail_not_in_flight [OF ix] by (simp add: mc_ok_def)
  define pad where "pad = (if skb_pagelen skb < 64 \<and> mactype cfg = XAXIENET_10G_25G then 64 - skb_pagelen skb else 0)"
  define cp where "cp \<longleftrightarrow> \<not> eth_hasdre q \<and> (skb_data skb AND 3 \<noteq> 0 \<or> length (skb_frags skb) > 0)"
  define fs where "fs = (if cp then [] else skb_frags skb)"
  define head :: "aximcdma_bd \<Rightarrow> aximcdma_bd" where "head = (\<lambda>bd. if cp then bd\<lparr>b_phys := tx_bufs_dma q + of_nat (q_tx_tail q * XAE_MAX_PKT_LEN), b_cntrl := skb_pagelen skb OR XMCDMA_BD_CTRL_TXSOF_MASK\<rparr>
      else bd\<lparr>b_phys := mapped (skb_dma skb), b_cntrl := (if length (skb_frags skb) = 0 then (skb_headlen skb OR XMCDMA_BD_CTRL_TXSOF_MASK) + pad
         else skb_headlen skb OR XMCDMA_BD_CTRL_TXSOF_MASK), b_mapping := DESC_DMA_MAP_SINGLE\<rparr>)"
  define q1 where "q1 = upd_tx (q_tx_tail q) head (upd_tx (q_tx_tail q) (set_tx_csum cfg skb) q)"
  have q1: "tx_indices_ok q1" "tx_contents q1 = tx_contents q" "in_flight q1 = in_flight q" "q_tx_tail q1 = q_tx_tail q"
    using ix tx_contents_upd_tail [of "upd_tx (q_tx_tail q) (set_tx_csum cfg skb) q" head] by (simp_all add: q1_def)
  have skb0: "b_tx_skb (txq_bd_v q1 (q_tx_tail q1)) = 0" using idle by (simp add: q1_def head_def set_tx_csum_def idle_bd_def)
  have beh: "idle_behind q1" using ok by (auto simp: idle_behind_def q1_def mc_ok_def)
  have room: "length (in_flight q1) + length fs + 1 < TX_BD_NUM" using False by (simp add: q1 fs_def tx_contents_def)
  from frags_append [OF q1(1) beh room skb0, of "skb_addr skb" pad] obtain bs where
    bs: "tx_contents (commit (skb_addr skb) (xmit_frags_mc pad fs q1)) = tx_contents q1 @ bs"
      "map bd_view bs = frag_view pad (skb_addr skb) fs (b_phys (txq_bd_v q1 (q_tx_tail q1))) (b_cntrl (txq_bd_v q1 (q_tx_tail q1)))"
      "mc_ok (commit (skb_addr skb) (xmit_frags_mc pad fs q1))" by blast
  define x where "x = upd_tx (q_tx_tail (xmit_frags_mc pad fs q1)) (\<lambda>bd. bd\<lparr>b_cntrl := b_cntrl bd OR XMCDMA_BD_CTRL_TXEOF_MASK, b_tx_skb := skb_addr skb\<rparr>) (xmit_frags_mc pad fs q1)"
  define y where "y = dma_bdout x (XMCDMA_CHAN_TAILDESC_OFFSET (chan_id x)) (tx_bd_p x + of_nat (128 * q_tx_tail x))"
  have run: "axienet_queue_xmit cfg skb (q, st) = (NETDEV_TX_OK, y\<lparr>q_tx_tail := (q_tx_tail y + 1) mod TX_BD_NUM\<rparr>, st)"
    using free unfolding y_def x_def q1_def head_def fs_def cp_def pad_def
    by (cases "eth_hasdre q") (simp_all add: axienet_queue_xmit_def Let_def)
  have "commit (skb_addr skb) (xmit_frags_mc pad fs q1) = x\<lparr>q_tx_tail := (q_tx_tail x + 1) mod TX_BD_NUM\<rparr>"
    by (simp add: commit_def x_def)
  moreover have "q_tx_tail y = q_tx_tail x" by (simp add: y_def dma_bdout_def)
  ultimately have fin: "tx_contents (y\<lparr>q_tx_tail := (q_tx_tail y + 1) mod TX_BD_NUM\<rparr>) = tx_contents q @ bs" "mc_ok (y\<lparr>q_tx_tail := (q_tx_tail y + 1) mod TX_BD_NUM\<rparr>)"
    using bs(1,3) by (simp_all add: y_def q1(2))
  have "map bd_view bs = packet_view cfg q skb" unfolding bs(2) by (simp add: packet_view_def q1_def head_def fs_def cp_def pad_def)
  then show ?thesis using run fin False by auto
qed

section \<open>Completing packets\<close>

lemma release_contents:
  assumes ok: "mc_ok q" and c: "tx_complete (txq_bd_v q (q_tx_ci q))"
  shows "tx_contents q = txq_bd_v q (q_tx_ci q) # tx_contents (release_tx q)" and "mc_ok (release_tx q)"
proof -
  have ix: "tx_indices_ok q" using ok by (simp add: mc_ok_def tx_indices_ok_def)
  have "q_tx_ci q \<in> set (in_flight q)" using ok c by (auto simp: mc_ok_def idle_bd_def tx_complete_def)
  then have ne: "in_flight q \<noteq> []" by auto
  note e = in_flight_release [OF ix ne]
  have "txq_bd_v q (q_tx_ci q) = hd (tx_contents q)" unfolding tx_contents_def e by simp
  then show "tx_contents q = txq_bd_v q (q_tx_ci q) # tx_contents (release_tx q)"
    using mc_ring.contents_deq [OF ix] ne by (simp add: tx_contents_def)
  show "mc_ok (release_tx q)"
    using ok e by (auto simp: mc_ok_def clear_tx_bd_def idle_bd_def)
qed

lemma done_loop_frame: "xmit_done_mc q = Inr (q', es, n, bytes) \<Longrightarrow> q_tx_packets q' = q_tx_packets q"
proof (induction "complete_left q" arbitrary: q es n bytes rule: less_induct)
  case less
  show ?case
  proof (cases "q_tx_ci q < TX_BD_NUM \<and> tx_complete (txq_bd_v q (q_tx_ci q))")
    case True
    then obtain es' n' bytes' where "xmit_done_mc (release_tx q) = Inr (q', es', n', bytes')"
      using less.prems by (subst (asm) xmit_done_mc.simps) (auto split: sum.splits prod.splits)
    then have "q_tx_packets q' = q_tx_packets (release_tx q)" using less.hyps complete_left_less True by blast
    then show ?thesis by (simp add: release_tx_def upd_tx_def)
  next
    case False
    then show ?thesis using less.prems by (subst (asm) xmit_done_mc.simps) (auto split: if_splits)
  qed
qed

lemma done_loop_result:
  "mc_ok q \<Longrightarrow> \<exists>q' bytes. xmit_done_mc q = Inr (q', concat (map done_events (takeWhile tx_complete (tx_contents q))),
     length (takeWhile tx_complete (tx_contents q)), bytes) \<and> tx_contents q' = dropWhile tx_complete (tx_contents q) \<and> mc_ok q'"
proof (induction "complete_left q" arbitrary: q rule: less_induct)
  case less
  have ci: "q_tx_ci q < TX_BD_NUM" using less.prems by (simp add: mc_ok_def)
  show ?case
  proof (cases "tx_complete (txq_bd_v q (q_tx_ci q))")
    case True
    note r = release_contents [OF less.prems True]
    from less.hyps [OF complete_left_less [OF ci True] r(2)] obtain q' bytes where
      "xmit_done_mc (release_tx q) = Inr (q', concat (map done_events (takeWhile tx_complete (tx_contents (release_tx q)))),
         length (takeWhile tx_complete (tx_contents (release_tx q))), bytes)"
      "tx_contents q' = dropWhile tx_complete (tx_contents (release_tx q))" "mc_ok q'" by blast
    then show ?thesis using r(1) True ci by (subst xmit_done_mc.simps) simp
  next
    case False
    have "tx_contents q = [] \<or> hd (tx_contents q) = txq_bd_v q (q_tx_ci q)"
      using in_flight_release [of q] less.prems by (cases "in_flight q = []") (auto simp: tx_contents_def mc_ok_def tx_indices_ok_def)
    then have "takeWhile tx_complete (tx_contents q) = []" "dropWhile tx_complete (tx_contents q) = tx_contents q"
      using False by (cases "tx_contents q"; simp)+
    then show ?thesis using False ci less.prems by (subst xmit_done_mc.simps) simp
  qed
qed

text \<open>
  C30 (mcdma_done_reclaims): the completion interrupt takes the completed descriptors off the front of
  the ring, and no others; it unmaps every one of them, frees every packet they end, in order,
  counts them, and lets the stack send again.
\<close>

theorem mcdma_done_reclaims:
  assumes ok: "mc_ok q"
  shows "\<exists>q'. axienet_start_xmit_done (q, st) = Inr (q', False, concat (map done_events (takeWhile tx_complete (tx_contents q)))) \<and>
    tx_contents q' = dropWhile tx_complete (tx_contents q) \<and> mc_ok q' \<and>
    q_tx_packets q' = q_tx_packets q + of_nat (length (takeWhile tx_complete (tx_contents q)))"
proof -
  obtain q' bytes where r: "xmit_done_mc q = Inr (q', concat (map done_events (takeWhile tx_complete (tx_contents q))),
      length (takeWhile tx_complete (tx_contents q)), bytes)" "tx_contents q' = dropWhile tx_complete (tx_contents q)" "mc_ok q'"
    using done_loop_result [OF ok] by blast
  have "q_tx_packets q' = q_tx_packets q" using done_loop_frame [OF r(1)] .
  then show ?thesis using r by (simp add: axienet_start_xmit_done_def tx_contents_def in_flight_def mc_ok_def)
qed

section \<open>Receiving\<close>

definition rx_at :: "axienet_dma_q \<Rightarrow> nat \<Rightarrow> nat" where
  "rx_at q j = (q_rx_ci q + j) mod RX_BD_NUM"

lemma refill_fields [simp]:
  "q_flags (refill cfg skb q) = q_flags q" "rx_bd_p (refill cfg skb q) = rx_bd_p q" "q_rx_ci (refill cfg skb q) = (q_rx_ci q + 1) mod RX_BD_NUM"
  "rxq_bd_v (refill cfg skb q) = (rxq_bd_v q)(q_rx_ci q := (rxq_bd_v q (q_rx_ci q))\<lparr>b_phys := snd skb, b_cntrl := max_frm_size cfg, b_status := 0, sw_id_offset := fst skb\<rparr>)"
  by (simp_all add: refill_def upd_rx_def)

lemma rx_target_idem: "rx_target env fl sb (rx_target env fl sb d) = rx_target env fl sb d"
  by (simp add: rx_target_def mgmt_dev_def Let_def split: chan_flags.splits)

lemma rx_at_Suc: "rx_at (refill cfg skb q) j = rx_at q (Suc j)"
  by (simp add: rx_at_def mod_simps)

lemma rx_at_ne: "Suc j < RX_BD_NUM \<Longrightarrow> q_rx_ci q < RX_BD_NUM \<Longrightarrow> rx_at q (Suc j) \<noteq> q_rx_ci q"
  by (auto simp: rx_at_def mod_if split: if_splits)

text \<open>The descriptors are complete for \<open>n\<close> places from the current one and no further, and their frames fit.\<close>

definition rx_ready :: "mac_cfg \<Rightarrow> axienet_dma_q \<Rightarrow> nat \<Rightarrow> bool" where
  "rx_ready cfg q n \<longleftrightarrow> q_rx_ci q < RX_BD_NUM \<and> n < RX_BD_NUM \<and> \<not> rx_complete (rxq_bd_v q (rx_at q n)) \<and>
     (\<forall>j<n. rx_complete (rxq_bd_v q (rx_at q j)) \<and> rx_length cfg (rxq_bd_v q (rx_at q j)) \<le> max_frm_size cfg)"

lemma rx_ready_refill:
  assumes "rx_ready cfg q (Suc n)" shows "rx_ready cfg (refill cfg skb q) n"
proof -
  have ne: "j \<le> n \<Longrightarrow> rx_at q (Suc j) \<noteq> q_rx_ci q" for j using rx_at_ne assms by (simp add: rx_ready_def)
  have "rxq_bd_v (refill cfg skb q) (rx_at (refill cfg skb q) j) = rxq_bd_v q (rx_at q (Suc j))" if "j \<le> n" for j
    using ne [OF that] by (simp add: rx_at_Suc)
  then show ?thesis using assms by (auto simp: rx_ready_def)
qed

lemma recv_loop_result:
  assumes "rx_ready cfg q n" and "\<forall>i. rx_alloc env i \<noteq> None" and "d = rx_target env (q_flags q) sb None \<or> d = None"
  shows "\<exists>q' t b. recv_loop cfg env sb budget i d tp q = Inr (q',
       map (\<lambda>j. deliver cfg env (q_flags q) (rx_target env (q_flags q) sb None) (rxq_bd_v q (rx_at q j))) [0..<min budget n], t, min budget n, b) \<and>
     q_rx_ci q' = rx_at q (min budget n) \<and>
     (\<forall>j<min budget n. b_status (rxq_bd_v q' (rx_at q j)) = 0 \<and> sw_id_offset (rxq_bd_v q' (rx_at q j)) = fst (the (rx_alloc env (i + j)))) \<and>
     (\<forall>x. (\<forall>j<min budget n. x \<noteq> rx_at q j) \<longrightarrow> rxq_bd_v q' x = rxq_bd_v q x)"
  using assms(1,3)
proof (induction budget arbitrary: i d tp q n)
  case 0
  then show ?case by (simp add: rx_ready_def rx_at_def)
next
  case (Suc budget)
  have ci: "q_rx_ci q < RX_BD_NUM" "rx_at q 0 = q_rx_ci q" using Suc.prems(1) by (simp_all add: rx_ready_def rx_at_def)
  show ?case
  proof (cases n)
    case 0
    then show ?thesis using Suc.prems(1) ci by (simp add: rx_ready_def Let_def)
  next
    case n: (Suc m)
    let ?T = "rx_target env (q_flags q) sb None" and ?k = "min budget m"
    obtain skb where skb: "rx_alloc env i = Some skb" using assms(2) by blast
    let ?q = "refill cfg skb q"
    have bd: "rx_complete (rxq_bd_v q (q_rx_ci q))" "\<not> rx_length cfg (rxq_bd_v q (q_rx_ci q)) > max_frm_size cfg"
      using Suc.prems(1) ci(2) n by (auto simp: rx_ready_def not_less dest: spec [of _ 0])
    have T: "rx_target env (q_flags q) sb d = ?T" using Suc.prems(2) rx_target_idem by auto
    have same: "j < ?k \<Longrightarrow> rxq_bd_v ?q (rx_at ?q j) = rxq_bd_v q (rx_at q (Suc j))" for j
      using rx_at_ne [OF _ ci(1)] Suc.prems(1) n by (auto simp: rx_at_Suc rx_ready_def)
    obtain q' t b where r: "recv_loop cfg env sb budget (Suc i) ?T (rx_bd_p q + of_nat (128 * q_rx_ci q)) ?q =
        Inr (q', map (\<lambda>j. deliver cfg env (q_flags q) ?T (rxq_bd_v ?q (rx_at ?q j))) [0..<?k], t, ?k, b)"
      and ci': "q_rx_ci q' = rx_at q (Suc ?k)"
      and new: "\<forall>j<?k. b_status (rxq_bd_v q' (rx_at q (Suc j))) = 0 \<and> sw_id_offset (rxq_bd_v q' (rx_at q (Suc j))) = fst (the (rx_alloc env (Suc i + j)))"
      and old: "\<forall>x. (\<forall>j<?k. x \<noteq> rx_at q (Suc j)) \<longrightarrow> rxq_bd_v q' x = rxq_bd_v ?q x"
      using Suc.IH [OF rx_ready_refill [of cfg q m skb], of ?T "Suc i" "rx_bd_p q + of_nat (128 * q_rx_ci q)"] Suc.prems(1) n
      unfolding rx_at_Suc refill_fields(1) by auto
    have "recv_loop cfg env sb (Suc budget) i d tp q = Inr (q', map (\<lambda>j. deliver cfg env (q_flags q) ?T (rxq_bd_v q (rx_at q j))) [0..<Suc ?k], t, Suc ?k,
        rx_length cfg (rxq_bd_v q (q_rx_ci q)) + b)"
      using ci bd skb T r same by (simp add: Let_def map_upt_Suc del: upt_Suc)
    moreover have "rxq_bd_v q' (q_rx_ci q) = rxq_bd_v ?q (q_rx_ci q)"
    proof -
      have "q_rx_ci q \<noteq> rx_at q (Suc j)" if "j < ?k" for j using rx_at_ne [OF _ ci(1), of j] that Suc.prems(1) n by (auto simp: rx_ready_def)
      then show ?thesis using old by blast
    qed
    moreover have "min (Suc budget) n = Suc ?k" using n by simp
    moreover have "rxq_bd_v q' x = rxq_bd_v q x" if "\<forall>j<Suc ?k. x \<noteq> rx_at q j" for x
      using that old ci(2) by (auto simp: All_less_Suc2)
    ultimately show ?thesis using ci' new ci(2) skb
      by (intro exI [of _ q'] exI) (auto simp: All_less_Suc2)
  qed
qed

text \<open>
  C31 (mcdma_recv_in_order): with memory for new packets, \<open>axienet_recv\<close> passes on the packets of the
  completed descriptors, as many as the budget allows and in order, gives each of these
  descriptors a new packet and stops behind them. The port of a packet on the management channel is
  that of the first descriptor of the call.
\<close>

theorem mcdma_recv_in_order:
  assumes ready: "rx_ready cfg q n" and mem: "\<forall>i. rx_alloc env i \<noteq> None"
  shows "\<exists>q'. axienet_recv cfg env budget q = Inr (min budget n, q',
      map (\<lambda>j. deliver cfg env (q_flags q) (rx_target env (q_flags q) (sband_stats (rxq_bd_v q (q_rx_ci q))) None) (rxq_bd_v q (rx_at q j))) [0..<min budget n]) \<and>
    q_rx_ci q' = rx_at q (min budget n) \<and>
    (\<forall>j<min budget n. b_status (rxq_bd_v q' (rx_at q j)) = 0 \<and> sw_id_offset (rxq_bd_v q' (rx_at q j)) = fst (the (rx_alloc env j))) \<and>
    (\<forall>x. (\<forall>j<min budget n. x \<noteq> rx_at q j) \<longrightarrow> rxq_bd_v q' x = rxq_bd_v q x)"
proof -
  have ci: "q_rx_ci q < RX_BD_NUM" using ready by (simp add: rx_ready_def)
  from recv_loop_result [OF ready mem, of None "sband_stats (rxq_bd_v q (q_rx_ci q))" budget 0 0] obtain q1 t b where
    r: "recv_loop cfg env (sband_stats (rxq_bd_v q (q_rx_ci q))) budget 0 None 0 q = Inr (q1,
       map (\<lambda>j. deliver cfg env (q_flags q) (rx_target env (q_flags q) (sband_stats (rxq_bd_v q (q_rx_ci q))) None) (rxq_bd_v q (rx_at q j))) [0..<min budget n], t, min budget n, b)"
    and p: "q_rx_ci q1 = rx_at q (min budget n)"
      "\<forall>j<min budget n. b_status (rxq_bd_v q1 (rx_at q j)) = 0 \<and> sw_id_offset (rxq_bd_v q1 (rx_at q j)) = fst (the (rx_alloc env j))"
      "\<forall>x. (\<forall>j<min budget n. x \<noteq> rx_at q j) \<longrightarrow> rxq_bd_v q1 x = rxq_bd_v q x" by auto
  show ?thesis using ci r p by (simp add: axienet_recv_def Let_def dma_bdout_def)
qed

text \<open>
  Without memory the descriptor keeps the packet that was passed on: the next call passes it on again.
\<close>

lemma recv_passes_packet_twice:
  assumes "rx_ready cfg q (Suc n)" and "rx_alloc env 0 = None"
  shows "\<exists>q' ev. axienet_recv cfg env (Suc b) q = Inr (0, q', [ev]) \<and> ev = deliver cfg env (q_flags q) (rx_target env (q_flags q) (sband_stats (rxq_bd_v q (q_rx_ci q))) None) (rxq_bd_v q (q_rx_ci q)) \<and>
    rxq_bd_v q' = rxq_bd_v q \<and> q_rx_ci q' = q_rx_ci q"
proof -
  have "q_rx_ci q < RX_BD_NUM" "rx_at q 0 = q_rx_ci q" using assms(1) by (auto simp: rx_ready_def rx_at_def)
  moreover have "rx_complete (rxq_bd_v q (rx_at q 0))" "\<not> rx_length cfg (rxq_bd_v q (rx_at q 0)) > max_frm_size cfg"
    using assms(1) by (auto simp: rx_ready_def not_less dest: spec [of _ 0])
  ultimately show ?thesis using assms(2) by (simp add: axienet_recv_def Let_def dma_bdout_def)
qed

section \<open>The rings after initialisation and after an error\<close>

lemma tx_init_ok:
  assumes "axienet_mcdma_tx_q_init cfg bds bufs q = (0, q')" shows "mc_ok q'" and "tx_contents q' = []"
proof -
  obtain p where p: "bds = Some p" using assms by (auto simp: axienet_mcdma_tx_q_init_def Let_def split: option.splits)
  have f: "q_tx_ci q' = 0" "q_tx_tail q' = 0" "txq_bd_v q' = ring_bd p TX_BD_NUM"
    using assms p by (auto simp: axienet_mcdma_tx_q_init_def Let_def enable_channel_def run_channel_def dma_set_def dma_out_def dma_bdout_def split: if_splits)
  then have e: "in_flight q' = []" by (simp add: in_flight_def ring_idx_empty_iff)
  then show "tx_contents q' = []" by (simp add: tx_contents_def)
  show "mc_ok q'" using f e by (simp add: mc_ok_def idle_bd_def ring_bd_def zero_bd_def)
qed

text \<open>
  A descriptor that was complete when the error came is still complete on the cleared ring: the next
  completion takes descriptors off an empty ring, and the ring seems full from then on.
\<close>

lemma error_leaves_completion:
  assumes "tx_complete (txq_bd_v q 0)" and "\<not> tx_complete (txq_bd_v q 1)"
  shows "\<exists>q' es. axienet_start_xmit_done (err_clear_rings q, st) = Inr (q', False, es) \<and> q_tx_ci q' = 1 \<and> q_tx_tail q' = 0 \<and> length (tx_contents q') = 63"
proof -
  let ?q = "err_clear_rings q"
  have c: "tx_complete (txq_bd_v ?q 0)" "\<not> tx_complete (txq_bd_v (release_tx ?q) 1)" "q_tx_ci ?q = 0" "q_tx_tail ?q = 0"
    using assms by (simp_all add: err_clear_rings_def tx_complete_def)
  have "xmit_done_mc (release_tx ?q) = Inr (release_tx ?q, [], 0, 0)" using c by (subst xmit_done_mc.simps) simp
  then have "\<exists>es b. xmit_done_mc ?q = Inr (release_tx ?q, es, 1, b)" using c by (subst xmit_done_mc.simps) simp
  then show ?thesis using c by (auto simp: axienet_start_xmit_done_def tx_contents_def in_flight_def ring_idx_def)
qed

section \<open>Evaluation\<close>

definition demo_q :: axienet_dma_q where
  "demo_q = \<lparr>dma_regs = (\<lambda>_. 0), dma_bd_regs = (\<lambda>_. 0), txq_bd_v = (\<lambda>_. zero_bd), rxq_bd_v = (\<lambda>i. if i = 127 \<or> i = 0 then zero_bd\<lparr>b_status := 0x8000003C, sw_id_offset := of_nat (0x1000 + i)\<rparr> else zero_bd),
     tx_bd_p = 0x10000, rx_bd_p = 0x20000, tx_bufs_dma = 0, eth_hasdre = True, q_tx_ci = 63, q_rx_ci = 127, q_tx_tail = 63, q_flags = MCDMA_DATA_CHAN,
     chan_id = 1, rx_offset = 0x500, q_tx_packets = 0, q_tx_bytes = 0, q_rx_packets = 0, q_rx_bytes = 0\<rparr>"

definition demo_mac :: mac_cfg where
  "demo_mac = \<lparr>mactype = XAXIENET_1G, eth_hasnobuf = True, features = 0, max_frm_size = 1522, coalesce_count_rx = 1, coalesce_count_tx = 1,
     num_rx_queues = 3, abl_eponly = False\<rparr>"

definition demo_mc_skb :: mc_skb where
  "demo_mc_skb = \<lparr>skb_addr = 0xABC0, skb_headlen = 100, skb_dma = Some 0x5000, skb_frags = [(200, 0x6000), (300, 0x7000)], skb_daddr = [], skb_comId = [],
     skb_data = 0x5000, skb_ip_summed = CHECKSUM_NONE, transport_offset = 0, csum_offset = 0\<rparr>"

definition demo_rx_env :: rx_env where
  "demo_rx_env = \<lparr>dev_running = (\<lambda>_. True), has_ex_ep = False, rx_is_ip = (\<lambda>_. True), rx_alloc = (\<lambda>i. Some (of_nat (0x2000 + i), of_nat (0x3000 + i)))\<rparr>"

lemma demo_q_ok: "mc_ok demo_q" "tx_contents demo_q = []"
proof -
  have "in_flight demo_q = []" by (simp add: in_flight_def demo_q_def ring_idx_empty_iff)
  then show "mc_ok demo_q" "tx_contents demo_q = []" by (simp_all add: mc_ok_def tx_contents_def demo_q_def idle_bd_def zero_bd_def)
qed

lemma demo_packet_view:
  "packet_view demo_mac demo_q demo_mc_skb = [(0x5000, 0x80000064, 0), (0x6000, 200, 0), (0x7000, 0x4000012C, 0xABC0)]"
  by (simp add: packet_view_def demo_mac_def demo_q_def demo_mc_skb_def mapped_def Let_def)

theorem mcdma_xmit_appends_witness:
  "\<exists>q' bs. axienet_queue_xmit demo_mac demo_mc_skb (demo_q, False) = (NETDEV_TX_OK, q', False) \<and> mc_ok q' \<and> tx_contents q' = bs \<and>
     map bd_view bs = [(0x5000, 0x80000064, 0), (0x6000, 200, 0), (0x7000, 0x4000012C, 0xABC0)]"
  using mcdma_xmit_appends [OF demo_q_ok(1), of demo_mac demo_mc_skb False] demo_q_ok(2) demo_packet_view
  by (auto simp: demo_mc_skb_def)

definition demo_done_q :: axienet_dma_q where
  "demo_done_q = push_mc (zero_bd\<lparr>b_phys := 0x7000, b_cntrl := 0x4000003C, b_tx_skb := 0xABC0, sband_stats := 0x8000003C\<rparr>) demo_q"

lemma demo_done_ok: "mc_ok demo_done_q" "tx_contents demo_done_q = [zero_bd\<lparr>b_phys := 0x7000, b_cntrl := 0x4000003C, b_tx_skb := 0xABC0, sband_stats := 0x8000003C\<rparr>]"
proof -
  have i: "tx_indices_ok demo_q" "idle_behind demo_q" "in_flight demo_q = []"
    using demo_q_ok by (auto simp: tx_indices_ok_def mc_ok_def idle_behind_def tx_contents_def)
  then show "mc_ok demo_done_q" unfolding demo_done_q_def by (intro mc_ok_push) simp_all
  show "tx_contents demo_done_q = [zero_bd\<lparr>b_phys := 0x7000, b_cntrl := 0x4000003C, b_tx_skb := 0xABC0, sband_stats := 0x8000003C\<rparr>]"
    unfolding demo_done_q_def using tx_contents_push [OF i(1)] demo_q_ok(2) by simp
qed

theorem mcdma_done_reclaims_witness:
  "\<exists>q'. axienet_start_xmit_done (demo_done_q, True) = Inr (q', False, [McUnmapSingle 0x7000 0x3C, McKfreeSkb 0xABC0]) \<and> tx_contents q' = [] \<and> mc_ok q'"
  using mcdma_done_reclaims [OF demo_done_ok(1), of True] unfolding demo_done_ok(2)
  by (auto simp: tx_complete_def done_events_def zero_bd_def)

theorem mcdma_recv_in_order_witness:
  "\<exists>q'. axienet_recv demo_mac demo_rx_env 64 demo_q = Inr (2, q', [Receive EP 0x107F 60 CHECKSUM_NONE, Receive EP 0x1000 60 CHECKSUM_NONE]) \<and> q_rx_ci q' = 1"
proof -
  have two: "(\<forall>j<2. P j) \<longleftrightarrow> P 0 \<and> P 1" for P :: "nat \<Rightarrow> bool" by (auto simp: less_2_cases_iff)
  have "rx_ready demo_mac demo_q 2"
    by (simp add: rx_ready_def two rx_at_def demo_q_def demo_mac_def rx_complete_def rx_length_def zero_bd_def)
  moreover have "\<forall>i. rx_alloc demo_rx_env i \<noteq> None" by (simp add: demo_rx_env_def)
  ultimately obtain q' where "axienet_recv demo_mac demo_rx_env 64 demo_q = Inr (min 64 2, q',
      map (\<lambda>j. deliver demo_mac demo_rx_env (q_flags demo_q) (rx_target demo_rx_env (q_flags demo_q) (sband_stats (rxq_bd_v demo_q (q_rx_ci demo_q))) None) (rxq_bd_v demo_q (rx_at demo_q j))) [0..<min 64 2])"
      "q_rx_ci q' = rx_at demo_q (min 64 2)"
    using mcdma_recv_in_order [of demo_mac demo_q 2 demo_rx_env 64] by blast
  then show ?thesis
    by (simp add: rx_at_def demo_q_def deliver_def rx_length_def rx_csum_def demo_mac_def zero_bd_def upt_rec numeral_2_eq_2)
qed

end
