(* ===== verification/Mac.thy ===== *)
theory Mac
  imports Mcdma Axienet
begin

text \<open>
  Setting up a MAC, \<^verbatim>\<open>driver/xilinx/xilinx_axienet_main.c\<close>: its address, the multicast table, the table
  of options, the reset, the speed of the link, time stamps, the frame size and the flow control.
\<close>

section \<open>State\<close>

abbreviation (input) XAE_IS_OFFSET :: u32 where "XAE_IS_OFFSET \<equiv> 0x0000000C"
abbreviation (input) XAE_IP_OFFSET :: u32 where "XAE_IP_OFFSET \<equiv> 0x00000010"
abbreviation (input) XAE_IE_OFFSET :: u32 where "XAE_IE_OFFSET \<equiv> 0x00000014"
abbreviation (input) XAE_RCW1_OFFSET :: u32 where "XAE_RCW1_OFFSET \<equiv> 0x00000404"
abbreviation (input) XAE_TC_OFFSET :: u32 where "XAE_TC_OFFSET \<equiv> 0x00000408"
abbreviation (input) XAE_FCC_OFFSET :: u32 where "XAE_FCC_OFFSET \<equiv> 0x0000040C"
abbreviation (input) XAE_EMMC_OFFSET :: u32 where "XAE_EMMC_OFFSET \<equiv> 0x00000410"
abbreviation (input) XAE_UAW0_OFFSET :: u32 where "XAE_UAW0_OFFSET \<equiv> 0x00000700"
abbreviation (input) XAE_UAW1_OFFSET :: u32 where "XAE_UAW1_OFFSET \<equiv> 0x00000704"
abbreviation (input) XAE_FMC_OFFSET :: u32 where "XAE_FMC_OFFSET \<equiv> 0x00000708"
abbreviation (input) XAE_AF0_OFFSET :: u32 where "XAE_AF0_OFFSET \<equiv> 0x00000710"
abbreviation (input) XAE_AF1_OFFSET :: u32 where "XAE_AF1_OFFSET \<equiv> 0x00000714"
abbreviation (input) XAE_AF2_OFFSET :: u32 where "XAE_AF2_OFFSET \<equiv> 0x0000071C"
abbreviation (input) XAE_FMC_PM_MASK :: u32 where "XAE_FMC_PM_MASK \<equiv> 0x80000000"
abbreviation (input) XAE_FMC_IND_MASK :: u32 where "XAE_FMC_IND_MASK \<equiv> 0x00000003"
abbreviation (input) XAE_UAW1_UNICASTADDR_MASK :: u32 where "XAE_UAW1_UNICASTADDR_MASK \<equiv> 0x0000FFFF"
abbreviation (input) XAE_MULTICAST_CAM_TABLE_NUM :: nat where "XAE_MULTICAST_CAM_TABLE_NUM \<equiv> 4"

abbreviation (input) XAE_OPTION_PROMISC :: u32 where "XAE_OPTION_PROMISC \<equiv> 0x1"
abbreviation (input) XAE_OPTION_JUMBO :: u32 where "XAE_OPTION_JUMBO \<equiv> 0x2"
abbreviation (input) XAE_OPTION_VLAN :: u32 where "XAE_OPTION_VLAN \<equiv> 0x4"
abbreviation (input) XAE_OPTION_FLOW_CONTROL :: u32 where "XAE_OPTION_FLOW_CONTROL \<equiv> 0x10"
abbreviation (input) XAE_OPTION_FCS_STRIP :: u32 where "XAE_OPTION_FCS_STRIP \<equiv> 0x20"
abbreviation (input) XAE_OPTION_FCS_INSERT :: u32 where "XAE_OPTION_FCS_INSERT \<equiv> 0x40"
abbreviation (input) XAE_OPTION_LENTYPE_ERR :: u32 where "XAE_OPTION_LENTYPE_ERR \<equiv> 0x80"
abbreviation (input) XAE_OPTION_TXEN :: u32 where "XAE_OPTION_TXEN \<equiv> 0x800"
abbreviation (input) XAE_OPTION_RXEN :: u32 where "XAE_OPTION_RXEN \<equiv> 0x1000"

abbreviation (input) XAE_RCW1_INBAND1588_MASK :: u32 where "XAE_RCW1_INBAND1588_MASK \<equiv> 0x00400000"
abbreviation (input) XAE_RCW1_JUM_MASK :: u32 where "XAE_RCW1_JUM_MASK \<equiv> 0x40000000"
abbreviation (input) XAE_RCW1_FCS_MASK :: u32 where "XAE_RCW1_FCS_MASK \<equiv> 0x20000000"
abbreviation (input) XAE_RCW1_RX_MASK :: u32 where "XAE_RCW1_RX_MASK \<equiv> 0x10000000"
abbreviation (input) XAE_RCW1_VLAN_MASK :: u32 where "XAE_RCW1_VLAN_MASK \<equiv> 0x08000000"
abbreviation (input) XAE_RCW1_LT_DIS_MASK :: u32 where "XAE_RCW1_LT_DIS_MASK \<equiv> 0x02000000"
abbreviation (input) XAE_TC_INBAND1588_MASK :: u32 where "XAE_TC_INBAND1588_MASK \<equiv> 0x00400000"
abbreviation (input) XAE_TC_JUM_MASK :: u32 where "XAE_TC_JUM_MASK \<equiv> 0x40000000"
abbreviation (input) XAE_TC_FCS_MASK :: u32 where "XAE_TC_FCS_MASK \<equiv> 0x20000000"
abbreviation (input) XAE_TC_TX_MASK :: u32 where "XAE_TC_TX_MASK \<equiv> 0x10000000"
abbreviation (input) XAE_TC_VLAN_MASK :: u32 where "XAE_TC_VLAN_MASK \<equiv> 0x08000000"
abbreviation (input) XAE_FCC_FCRX_MASK :: u32 where "XAE_FCC_FCRX_MASK \<equiv> 0x20000000"
abbreviation (input) XAE_FCC_FCTX_MASK :: u32 where "XAE_FCC_FCTX_MASK \<equiv> 0x40000000"

abbreviation (input) XAE_INT_RXRJECT_MASK :: u32 where "XAE_INT_RXRJECT_MASK \<equiv> 0x00000008"
abbreviation (input) XAE_INT_RECV_ERROR_MASK :: u32 where "XAE_INT_RECV_ERROR_MASK \<equiv> 0x00000018"
abbreviation (input) XAE_EMMC_LINKSPEED_MASK :: u32 where "XAE_EMMC_LINKSPEED_MASK \<equiv> 0xC0000000"
abbreviation (input) XAE_EMMC_LINKSPD_100 :: u32 where "XAE_EMMC_LINKSPD_100 \<equiv> 0x40000000"
abbreviation (input) XAE_EMMC_LINKSPD_1000 :: u32 where "XAE_EMMC_LINKSPD_1000 \<equiv> 0x80000000"
abbreviation (input) XAE_EMMC_LINKSPD_2500 :: u32 where "XAE_EMMC_LINKSPD_2500 \<equiv> 0x80000000"
abbreviation (input) XAE_EMMC_LINKSPD_10 :: u32 where "XAE_EMMC_LINKSPD_10 \<equiv> 0x00000000"
abbreviation (input) XAE_MTU :: u32 where "XAE_MTU \<equiv> 1500"
abbreviation (input) XAE_JUMBO_MTU :: u32 where "XAE_JUMBO_MTU \<equiv> 9000"
abbreviation (input) XAE_TRL_SIZE :: u32 where "XAE_TRL_SIZE \<equiv> 4"
abbreviation (input) XAE_MAX_VLAN_FRAME_SIZE :: u32 where "XAE_MAX_VLAN_FRAME_SIZE \<equiv> 1522"
abbreviation (input) VLAN_ETH_HLEN :: u32 where "VLAN_ETH_HLEN \<equiv> 18"

abbreviation (input) XXV_GT_RESET_OFFSET :: u32 where "XXV_GT_RESET_OFFSET \<equiv> 0x00000000"
abbreviation (input) XXV_TC_OFFSET :: u32 where "XXV_TC_OFFSET \<equiv> 0x0000000C"
abbreviation (input) XXV_RCW1_OFFSET :: u32 where "XXV_RCW1_OFFSET \<equiv> 0x00000014"
abbreviation (input) XXV_GT_RESET_MASK :: u32 where "XXV_GT_RESET_MASK \<equiv> 0x1"
abbreviation (input) XXV_TC_TX_MASK :: u32 where "XXV_TC_TX_MASK \<equiv> 0x1"
abbreviation (input) XXV_RCW1_RX_MASK :: u32 where "XXV_RCW1_RX_MASK \<equiv> 0x1"
abbreviation (input) XXV_RCW1_FCS_MASK :: u32 where "XXV_RCW1_FCS_MASK \<equiv> 0x2"
abbreviation (input) XXV_TC_FCS_MASK :: u32 where "XXV_TC_FCS_MASK \<equiv> 0x2"

text \<open>The numbers of the kernel's interface for time stamps that the code distinguishes.\<close>

abbreviation (input) HWTSTAMP_TX_OFF :: int where "HWTSTAMP_TX_OFF \<equiv> 0"
abbreviation (input) HWTSTAMP_TX_ON :: int where "HWTSTAMP_TX_ON \<equiv> 1"
abbreviation (input) HWTSTAMP_TX_ONESTEP_SYNC :: int where "HWTSTAMP_TX_ONESTEP_SYNC \<equiv> 2"
abbreviation (input) HWTSTAMP_FILTER_NONE :: int where "HWTSTAMP_FILTER_NONE \<equiv> 0"
abbreviation (input) HWTSTAMP_FILTER_ALL :: int where "HWTSTAMP_FILTER_ALL \<equiv> 1"
abbreviation (input) HWTSTAMP_FILTER_PTP_V2_L4_EVENT :: int where "HWTSTAMP_FILTER_PTP_V2_L4_EVENT \<equiv> 6"
abbreviation (input) HWTSTAMP_FILTER_PTP_V2_L2_EVENT :: int where "HWTSTAMP_FILTER_PTP_V2_L2_EVENT \<equiv> 9"

abbreviation (input) EBUSY :: int where "EBUSY \<equiv> 16"
abbreviation (input) ERANGE :: int where "ERANGE \<equiv> 34"

record hwtstamp_config =
  ts_flags :: int
  tx_type :: int
  rx_filter :: int

datatype phy_interface = PHY_INTERFACE_MODE_MII | PHY_INTERFACE_MODE_1000BASEX | PHY_INTERFACE_MODE_OTHER

text \<open>
  The device. The multicast table is reached through a window: a write of an address filter
  register goes to the entry whose number is in the low bits of the filter control register.
\<close>

record mac_dev =
  mac :: axienet_local
  mac_cam :: "u32 \<Rightarrow> u32 \<times> u32"
  mac_conf :: mac_cfg
  options :: u32
  is_tsn :: bool
  rxmem :: u32
  phy_mode :: phy_interface
  last_link :: u32
  dev_addr :: "u8 list"
  iff_promisc :: bool
  iff_allmulti :: bool
  mc_addrs :: "u8 list list"
  mtu :: u32
  net_running :: bool
  ts_type :: int
  tstamp_config :: hwtstamp_config
  current_rx_filter :: int
  flag_ptp_v2_udp :: bool

definition mac_ior :: "mac_dev \<Rightarrow> u32 \<Rightarrow> u32" where
  "mac_ior d off = axienet_ior (mac d) off"

definition mac_iow :: "mac_dev \<Rightarrow> u32 \<Rightarrow> u32 \<Rightarrow> mac_dev" where
  "mac_iow d off v =
     (let i = mac_ior d XAE_FMC_OFFSET AND XAE_FMC_IND_MASK;
          d = d\<lparr>mac := axienet_iow (mac d) off v\<rparr>
      in if off = XAE_AF0_OFFSET then d\<lparr>mac_cam := (mac_cam d)(i := (v, snd (mac_cam d i)))\<rparr>
         else if off = XAE_AF1_OFFSET then d\<lparr>mac_cam := (mac_cam d)(i := (fst (mac_cam d i), v))\<rparr>
         else d)"

section \<open>Addresses\<close>

definition addr_low :: "u8 list \<Rightarrow> u32" where
  "addr_low a = ucast (a ! 0) OR push_bit 8 (ucast (a ! 1)) OR push_bit 16 (ucast (a ! 2)) OR push_bit 24 (ucast (a ! 3))"

definition addr_high :: "u8 list \<Rightarrow> u32" where
  "addr_high a = ucast (a ! 4) OR push_bit 8 (ucast (a ! 5))"

text \<open>\<open>is_valid_ether_addr\<close> of the kernel: not a group address and not zero.\<close>

definition is_valid_ether_addr :: "u8 list \<Rightarrow> bool" where
  "is_valid_ether_addr a \<longleftrightarrow> \<not> bit (a ! 0) 0 \<and> a \<noteq> replicate 6 0"

text \<open>\<open>random\<close> is the address the kernel would choose; \<open>address\<close> is \<open>None\<close> for a null pointer.\<close>

definition axienet_set_mac_address :: "u8 list \<Rightarrow> u8 list option \<Rightarrow> mac_dev \<Rightarrow> mac_dev" where
  "axienet_set_mac_address random address d =
     (let d = (case address of Some a \<Rightarrow> d\<lparr>dev_addr := a\<rparr> | None \<Rightarrow> d);
          d = (if is_valid_ether_addr (dev_addr d) then d else d\<lparr>dev_addr := random\<rparr>)
      in if mactype (mac_conf d) \<noteq> XAXIENET_1G \<and> mactype (mac_conf d) \<noteq> XAXIENET_2_5G then d
         else
           let d = mac_iow d XAE_UAW0_OFFSET (addr_low (dev_addr d))
           in mac_iow d XAE_UAW1_OFFSET
                ((mac_ior d XAE_UAW1_OFFSET AND NOT XAE_UAW1_UNICASTADDR_MASK) OR addr_high (dev_addr d)))"

definition netdev_set_mac_address :: "u8 list \<Rightarrow> u8 list \<Rightarrow> mac_dev \<Rightarrow> int \<times> mac_dev" where
  "netdev_set_mac_address random sa_data d = (0, axienet_set_mac_address random (Some sa_data) d)"

text \<open>Entry \<open>i\<close> of the table gets two words.\<close>

definition set_cam_entry :: "nat \<Rightarrow> u32 \<Rightarrow> u32 \<Rightarrow> mac_dev \<Rightarrow> mac_dev" where
  "set_cam_entry i af0reg af1reg d =
     (let reg = (mac_ior d XAE_FMC_OFFSET AND 0xFFFFFF00) OR of_nat i;
          d = mac_iow d XAE_FMC_OFFSET reg;
          d = mac_iow d XAE_AF0_OFFSET af0reg
      in mac_iow d XAE_AF1_OFFSET af1reg)"

fun load_cam :: "nat \<Rightarrow> u8 list list \<Rightarrow> mac_dev \<Rightarrow> mac_dev" where
  "load_cam i [] d = d"
| "load_cam i (a # as) d =
     (if i \<ge> XAE_MULTICAST_CAM_TABLE_NUM then d
      else load_cam (Suc i) as (set_cam_entry i (addr_low a) (addr_high a) d))"

definition axienet_set_multicast_list :: "mac_dev \<Rightarrow> mac_dev" where
  "axienet_set_multicast_list d =
     (if mactype (mac_conf d) \<noteq> XAXIENET_1G \<or> eth_hasnobuf (mac_conf d) then d
      else if iff_allmulti d \<or> iff_promisc d \<or> length (mc_addrs d) > XAE_MULTICAST_CAM_TABLE_NUM
      then let d = d\<lparr>iff_promisc := True\<rparr>
           in mac_iow d XAE_FMC_OFFSET (mac_ior d XAE_FMC_OFFSET OR XAE_FMC_PM_MASK)
      else if mc_addrs d \<noteq> [] then load_cam 0 (mc_addrs d) d
      else let d = mac_iow d XAE_FMC_OFFSET (mac_ior d XAE_FMC_OFFSET AND NOT XAE_FMC_PM_MASK)
           in foldl (\<lambda>d i. set_cam_entry i 0 0 d) d [0..<XAE_MULTICAST_CAM_TABLE_NUM])"

section \<open>Options\<close>

text \<open>An option, the register with its bits, and the bits.\<close>

type_synonym axienet_option = "u32 \<times> u32 \<times> u32"

definition axienet_options :: "axienet_option list" where
  "axienet_options =
     [(XAE_OPTION_JUMBO, XAE_TC_OFFSET, XAE_TC_JUM_MASK),
      (XAE_OPTION_JUMBO, XAE_RCW1_OFFSET, XAE_RCW1_JUM_MASK),
      (XAE_OPTION_VLAN, XAE_TC_OFFSET, XAE_TC_VLAN_MASK),
      (XAE_OPTION_VLAN, XAE_RCW1_OFFSET, XAE_RCW1_VLAN_MASK),
      (XAE_OPTION_FCS_STRIP, XAE_RCW1_OFFSET, XAE_RCW1_FCS_MASK),
      (XAE_OPTION_FCS_INSERT, XAE_TC_OFFSET, XAE_TC_FCS_MASK),
      (XAE_OPTION_LENTYPE_ERR, XAE_RCW1_OFFSET, XAE_RCW1_LT_DIS_MASK),
      (XAE_OPTION_FLOW_CONTROL, XAE_FCC_OFFSET, XAE_FCC_FCRX_MASK),
      (XAE_OPTION_FLOW_CONTROL, XAE_FCC_OFFSET, XAE_FCC_FCTX_MASK),
      (XAE_OPTION_PROMISC, XAE_FMC_OFFSET, XAE_FMC_PM_MASK),
      (XAE_OPTION_TXEN, XAE_TC_OFFSET, XAE_TC_TX_MASK),
      (XAE_OPTION_RXEN, XAE_RCW1_OFFSET, XAE_RCW1_RX_MASK)]"

definition xxvenet_options :: "axienet_option list" where
  "xxvenet_options =
     [(XAE_OPTION_FCS_STRIP, XXV_RCW1_OFFSET, XXV_RCW1_FCS_MASK),
      (XAE_OPTION_FCS_INSERT, XXV_TC_OFFSET, XXV_TC_FCS_MASK),
      (XAE_OPTION_TXEN, XXV_TC_OFFSET, XXV_TC_TX_MASK),
      (XAE_OPTION_RXEN, XXV_RCW1_OFFSET, XXV_RCW1_RX_MASK)]"

definition set_option :: "u32 \<Rightarrow> mac_dev \<Rightarrow> axienet_option \<Rightarrow> mac_dev" where
  "set_option opts d tp =
     (case tp of (opt, r, m_or) \<Rightarrow>
        let reg = mac_ior d r AND NOT m_or;
            reg = (if opts AND opt \<noteq> 0 then reg OR m_or else reg)
        in mac_iow d r reg)"

definition axienet_setoptions :: "u32 \<Rightarrow> mac_dev \<Rightarrow> mac_dev" where
  "axienet_setoptions opts d =
     (let d = foldl (set_option opts) d axienet_options in d\<lparr>options := options d OR opts\<rparr>)"

definition xxvenet_setoptions :: "u32 \<Rightarrow> mac_dev \<Rightarrow> mac_dev" where
  "xxvenet_setoptions opts d =
     (let d = foldl (set_option opts) d xxvenet_options in d\<lparr>options := options d OR opts\<rparr>)"

text \<open>Which of the two the configuration of a device names.\<close>

definition setoptions :: "u32 \<Rightarrow> mac_dev \<Rightarrow> mac_dev" where
  "setoptions opts d =
     (if mactype (mac_conf d) = XAXIENET_10G_25G then xxvenet_setoptions opts d else axienet_setoptions opts d)"

section \<open>Reset\<close>

text \<open>
  \<open>axienet_device_reset\<close> on a device of the TSN subsystem, which has no DMA queues of its own
  to reset. The wait for the lock of a 10G MAC only prints a message.
\<close>

definition reset_gt :: "mac_dev \<Rightarrow> mac_dev" where
  "reset_gt d =
     (if mactype (mac_conf d) = XAXIENET_10G_25G
      then let d = mac_iow d XXV_GT_RESET_OFFSET (mac_ior d XXV_GT_RESET_OFFSET OR XXV_GT_RESET_MASK)
           in mac_iow d XXV_GT_RESET_OFFSET (mac_ior d XXV_GT_RESET_OFFSET AND NOT XXV_GT_RESET_MASK)
      else d)"

definition set_frame_size :: "mac_dev \<Rightarrow> mac_dev" where
  "set_frame_size d =
     (let xxv = (mactype (mac_conf d) = XAXIENET_10G_25G);
          d = d\<lparr>mac_conf := (mac_conf d)\<lparr>max_frm_size := XAE_MAX_VLAN_FRAME_SIZE\<rparr>\<rparr>;
          d = (if \<not> xxv then d\<lparr>options := (options d OR XAE_OPTION_VLAN) AND NOT XAE_OPTION_JUMBO\<rparr> else d)
      in if mtu d > XAE_MTU \<and> mtu d \<le> XAE_JUMBO_MTU
         then let n = mtu d + VLAN_ETH_HLEN + XAE_TRL_SIZE;
                  d = d\<lparr>mac_conf := (mac_conf d)\<lparr>max_frm_size := n\<rparr>\<rparr>
              in if n \<le> rxmem d \<and> \<not> xxv then d\<lparr>options := options d OR XAE_OPTION_JUMBO\<rparr> else d
         else d)"

definition reset_registers :: "mac_dev \<Rightarrow> mac_dev" where
  "reset_registers d =
     (let xxv = (mactype (mac_conf d) = XAXIENET_10G_25G);
          d = (if \<not> xxv then mac_iow d XAE_RCW1_OFFSET (mac_ior d XAE_RCW1_OFFSET AND NOT XAE_RCW1_RX_MASK) else d);
          d = (if mactype (mac_conf d) = XAXIENET_1G \<and> \<not> eth_hasnobuf (mac_conf d)
               then let d = (if mac_ior d XAE_IP_OFFSET AND XAE_INT_RXRJECT_MASK \<noteq> 0
                             then mac_iow d XAE_IS_OFFSET XAE_INT_RXRJECT_MASK else d)
                    in mac_iow d XAE_IE_OFFSET XAE_INT_RECV_ERROR_MASK
               else d)
      in if xxv then d\<lparr>options := (options d OR XAE_OPTION_FCS_STRIP) OR XAE_OPTION_FCS_INSERT\<rparr>
         else mac_iow d XAE_FCC_OFFSET XAE_FCC_FCRX_MASK)"

definition axienet_device_reset :: "u8 list \<Rightarrow> mac_dev \<Rightarrow> mac_dev" where
  "axienet_device_reset random d =
     (let d = reset_registers (set_frame_size (reset_gt d));
          d = setoptions (options d AND NOT (XAE_OPTION_TXEN OR XAE_OPTION_RXEN)) d;
          d = axienet_set_mac_address random None d;
          d = axienet_set_multicast_list d
      in setoptions (options d) d)"

section \<open>Link speed\<close>

definition speed_bits :: "int \<Rightarrow> u32" where
  "speed_bits speed =
     (if speed = 2500 then XAE_EMMC_LINKSPD_2500 else if speed = 1000 then XAE_EMMC_LINKSPD_1000
      else if speed = 100 then XAE_EMMC_LINKSPD_100 else if speed = 10 then XAE_EMMC_LINKSPD_10 else 0)"

definition axienet_adjust_link :: "int \<Rightarrow> int \<Rightarrow> int \<Rightarrow> mac_dev \<Rightarrow> mac_dev" where
  "axienet_adjust_link speed duplex link d =
     (let link_state = (word_of_int speed OR push_bit 1 (word_of_int duplex)) OR word_of_int link
      in if last_link d = link_state then d
         else
           let setspeed = (if speed = 10 \<or> speed = 100 then phy_mode d \<noteq> PHY_INTERFACE_MODE_1000BASEX
                           else \<not> (speed = 1000 \<and> phy_mode d = PHY_INTERFACE_MODE_MII));
               d = (if setspeed
                    then mac_iow d XAE_EMMC_OFFSET
                           ((mac_ior d XAE_EMMC_OFFSET AND NOT XAE_EMMC_LINKSPEED_MASK) OR speed_bits speed)
                    else d)
           in d\<lparr>last_link := link_state\<rparr>)"

section \<open>Frame size and flow control\<close>

definition axienet_change_mtu :: "u32 \<Rightarrow> mac_dev \<Rightarrow> int \<times> mac_dev" where
  "axienet_change_mtu new_mtu d =
     (if net_running d then (- EBUSY, d)
      else if new_mtu + VLAN_ETH_HLEN + XAE_TRL_SIZE > rxmem d then (- EINVAL, d)
      else (0, d\<lparr>mtu := new_mtu\<rparr>))"

text \<open>The settings for sending and for receiving.\<close>

definition axienet_ethtools_get_pauseparam :: "mac_dev \<Rightarrow> u32 \<times> u32" where
  "axienet_ethtools_get_pauseparam d =
     (let regval = mac_ior d XAE_FCC_OFFSET in (regval AND XAE_FCC_FCTX_MASK, regval AND XAE_FCC_FCRX_MASK))"

definition axienet_ethtools_set_pauseparam :: "u32 \<times> u32 \<Rightarrow> mac_dev \<Rightarrow> int \<times> mac_dev" where
  "axienet_ethtools_set_pauseparam p d =
     (case p of (tx_pause, rx_pause) \<Rightarrow>
        if net_running d then (- EFAULT, d)
        else
          let regval = mac_ior d XAE_FCC_OFFSET;
              regval = (if tx_pause \<noteq> 0 then regval OR XAE_FCC_FCTX_MASK else regval AND NOT XAE_FCC_FCTX_MASK);
              regval = (if rx_pause \<noteq> 0 then regval OR XAE_FCC_FCRX_MASK else regval AND NOT XAE_FCC_FCRX_MASK)
          in (0, mac_iow d XAE_FCC_OFFSET regval))"

section \<open>Time stamps\<close>

text \<open>The configuration is returned because the function changes it.\<close>

definition axienet_set_timestamp_mode :: "hwtstamp_config \<Rightarrow> mac_dev \<Rightarrow> int \<times> hwtstamp_config \<times> mac_dev" where
  "axienet_set_timestamp_mode config d =
     (if ts_flags config \<noteq> 0 then (- EINVAL, config, d)
      else if is_tsn d
      then if tx_type config < HWTSTAMP_TX_OFF \<or> tx_type config > HWTSTAMP_TX_ONESTEP_SYNC then (- ERANGE, config, d)
           else let d = d\<lparr>ts_type := tx_type config\<rparr>;
                    config = (if rx_filter config = HWTSTAMP_FILTER_NONE then config
                              else config\<lparr>rx_filter := current_rx_filter d\<rparr>)
                in (0, config, d)
      else
        let regval = mac_ior d XAE_TC_OFFSET
        in if \<not> (tx_type config = HWTSTAMP_TX_OFF \<or> tx_type config = HWTSTAMP_TX_ON \<or>
                 tx_type config = HWTSTAMP_TX_ONESTEP_SYNC) then (- ERANGE, config, d)
           else
             let xxv = (mactype (mac_conf d) = XAXIENET_10G_25G);
                 regval = (if tx_type config = HWTSTAMP_TX_OFF then regval AND NOT XAE_TC_INBAND1588_MASK
                           else regval OR XAE_TC_INBAND1588_MASK);
                 d = (if \<not> xxv then mac_iow d XAE_TC_OFFSET regval else d);
                 regval = mac_ior d XAE_RCW1_OFFSET;
                 none = (rx_filter config = HWTSTAMP_FILTER_NONE);
                 regval = (if none then regval AND NOT XAE_RCW1_INBAND1588_MASK
                           else regval OR XAE_RCW1_INBAND1588_MASK);
                 config = (if none then config else config\<lparr>rx_filter := HWTSTAMP_FILTER_ALL\<rparr>);
                 d = (if \<not> xxv then mac_iow d XAE_RCW1_OFFSET regval else d)
             in (0, config, d))"

definition write_all :: "(u32 \<times> u32) list \<Rightarrow> mac_dev \<Rightarrow> mac_dev" where
  "write_all ws d = foldl (\<lambda>d (a, v). mac_iow d a v) d ws"

definition change_filter_values_to_udp :: "mac_dev \<Rightarrow> mac_dev" where
  "change_filter_values_to_udp =
     write_all [(0x708, 0x100), (XAE_AF2_OFFSET, 0x00000008), (0x724, 0x11000000), (0x734, 0x00003f01),
       (0x738, 0x02000000), (0x750, 0), (0x754, 0), (0x764, 0xff000000), (0x774, 0x0000ffff), (0x778, 0xff000000)]"

definition change_filter_values_to_gptp :: "mac_dev \<Rightarrow> mac_dev" where
  "change_filter_values_to_gptp =
     write_all [(XAE_AF2_OFFSET, 0x0000F788), (0x750, 0xffffffff), (0x754, 0x0000ffff), (0x764, 0), (0x774, 0), (0x778, 0)]"

text \<open>\<open>user\<close> is \<open>None\<close> when the configuration cannot be copied from the user; the result has what is copied back.\<close>

definition axienet_set_ts_config ::
  "hwtstamp_config option \<Rightarrow> bool \<Rightarrow> mac_dev \<Rightarrow> int \<times> hwtstamp_config option \<times> mac_dev" where
  "axienet_set_ts_config user copy_ok d =
     (case user of
        None \<Rightarrow> (- EFAULT, None, d)
      | Some config \<Rightarrow>
          let d = (if rx_filter config = HWTSTAMP_FILTER_PTP_V2_L2_EVENT \<and>
                      current_rx_filter d = HWTSTAMP_FILTER_PTP_V2_L4_EVENT
                   then change_filter_values_to_gptp
                          (d\<lparr>current_rx_filter := HWTSTAMP_FILTER_PTP_V2_L2_EVENT, flag_ptp_v2_udp := False\<rparr>)
                   else d);
              d = (if rx_filter config = HWTSTAMP_FILTER_PTP_V2_L4_EVENT \<and>
                      current_rx_filter d = HWTSTAMP_FILTER_PTP_V2_L2_EVENT
                   then change_filter_values_to_udp
                          (d\<lparr>current_rx_filter := HWTSTAMP_FILTER_PTP_V2_L4_EVENT, flag_ptp_v2_udp := True\<rparr>)
                   else d)
          in (case axienet_set_timestamp_mode config d of (err, config, d) \<Rightarrow>
                if err \<noteq> 0 then (err, None, d)
                else let d = d\<lparr>tstamp_config := config\<rparr>
                     in if copy_ok then (0, Some config, d) else (- EFAULT, None, d)))"

definition axienet_get_ts_config :: "bool \<Rightarrow> mac_dev \<Rightarrow> int \<times> hwtstamp_config option" where
  "axienet_get_ts_config copy_ok d = (if copy_ok then (0, Some (tstamp_config d)) else (- EFAULT, None))"

end
