(* ===== verification/Mac_Ioctl.thy ===== *)
theory Mac_Ioctl
  imports Mac Endpoint Preemption
begin

text \<open>
  The requests of a MAC port, \<open>axienet_ioctl\<close> of \<^verbatim>\<open>driver/xilinx/xilinx_axienet_main.c\<close>: which of the
  parts of the driver gets a request, in the build with the TSN features.
\<close>

text \<open>
  The requests it shares with the endpoint carry the endpoint's type. The answer of the kernel to
  a request for the PHY is part of the request, \<open>None\<close> when there is no PHY.
\<close>

datatype mac_cmd =
    SIOCxMII "int option"
  | SIOCSHWTSTAMP "hwtstamp_config option" bool
  | SIOCGHWTSTAMP bool
  | SIOC_TSN ep_cmd
  | SIOC_PREEMPTION_CFG "u8 option"
  | SIOC_PREEMPTION_CTRL "preempt_ctrl_sts option"
  | SIOC_PREEMPTION_STS bool
  | SIOC_PREEMPTION_RECEIVE
  | SIOC_PREEMPTION_COUNTER bool
  | SIOC_QBU_USER_OVERRIDE "(qbu_prog_override \<times> u8) option"
  | SIOC_QBU_STS bool

datatype mac_reply =
    NoReply
  | TsReply hwtstamp_config
  | SchedReply qbv_info
  | StsReply preempt_status
  | CounterReply emac_pmac_stats
  | QbuReply "(bool \<times> bool \<times> u16 \<times> u8) \<times> qbu_core_status"

record mac_port =
  port_dev :: mac_dev
  port_tadma :: tadma_local
  port_has_qbv :: bool

type_synonym mac_result = "(int \<times> mac_reply \<times> mac_port) checked"

definition reply_with :: "('a \<Rightarrow> mac_reply) \<Rightarrow> 'a option \<Rightarrow> mac_reply" where
  "reply_with f r = (case r of None \<Rightarrow> NoReply | Some x \<Rightarrow> f x)"

definition upd_local :: "mac_port \<Rightarrow> axienet_local \<Rightarrow> mac_port" where
  "upd_local p lp = p\<lparr>port_dev := (port_dev p)\<lparr>mac := lp\<rparr>\<rparr>"

definition on_local :: "mac_port \<Rightarrow> int \<times> axienet_local \<Rightarrow> mac_result" where
  "on_local p r = (case r of (v, lp) \<Rightarrow> Inr (v, NoReply, upd_local p lp))"

definition on_port_tadma :: "mac_port \<Rightarrow> (int \<times> tadma_local) checked \<Rightarrow> mac_result" where
  "on_port_tadma p r =
     (if \<not> abl_eponly (mac_conf (port_dev p)) then Inr (- ENOENT, NoReply, p)
      else case r of Inl f \<Rightarrow> Inl f | Inr (v, d) \<Rightarrow> Inr (v, NoReply, p\<lparr>port_tadma := d\<rparr>))"

definition tsn_ioctl ::
  "(u64 \<Rightarrow> u8 \<Rightarrow> u32) \<Rightarrow> bool \<Rightarrow> ep_cmd \<Rightarrow> mac_port \<Rightarrow> mac_result" where
  "tsn_ioctl h alloc_ok cmd p =
     (case cmd of
        SIOCCHIOCTL arg \<Rightarrow>
          if port_has_qbv p
          then (case axienet_set_schedule alloc_ok arg (mac (port_dev p)) of
                  Inl f \<Rightarrow> Inl f
                | Inr r \<Rightarrow> on_local p r)
          else Inr (- EINVAL, NoReply, p)
      | SIOC_GET_SCHED arg copy_ok \<Rightarrow>
          if port_has_qbv p
          then (case axienet_get_schedule alloc_ok arg copy_ok (mac (port_dev p)) of
                  Inl f \<Rightarrow> Inl f
                | Inr (v, q) \<Rightarrow> Inr (v, reply_with SchedReply q, p))
          else Inr (- EINVAL, NoReply, p)
      | SIOC_TADMA_OFF \<Rightarrow> on_port_tadma p (Inr (axienet_tadma_off (port_tadma p)))
      | SIOC_TADMA_STR_ADD arg \<Rightarrow> on_port_tadma p (axienet_tadma_add_stream h arg alloc_ok (port_tadma p))
      | SIOC_TADMA_PROG_ALL \<Rightarrow> on_port_tadma p (axienet_tadma_program (port_tadma p))
      | SIOC_TADMA_STR_FLUSH \<Rightarrow> on_port_tadma p (axienet_tadma_flush_stream (port_tadma p))
      | SIOC_OTHER n \<Rightarrow> Inr (- EOPNOTSUPP, NoReply, p))"

definition axienet_ioctl ::
  "(u64 \<Rightarrow> u8 \<Rightarrow> u32) \<Rightarrow> bool \<Rightarrow> mac_cmd \<Rightarrow> mac_port \<Rightarrow> mac_result" where
  "axienet_ioctl h alloc_ok cmd p =
     (let lp = mac (port_dev p)
      in if \<not> net_running (port_dev p) then Inr (- EINVAL, NoReply, p)
         else case cmd of
           SIOCxMII phy \<Rightarrow> (case phy of None \<Rightarrow> Inr (- EOPNOTSUPP, NoReply, p) | Some v \<Rightarrow> Inr (v, NoReply, p))
         | SIOCSHWTSTAMP user copy_ok \<Rightarrow>
             (case axienet_set_ts_config user copy_ok (port_dev p) of
                (v, r, d) \<Rightarrow> Inr (v, reply_with TsReply r, p\<lparr>port_dev := d\<rparr>))
         | SIOCGHWTSTAMP copy_ok \<Rightarrow>
             (case axienet_get_ts_config copy_ok (port_dev p) of (v, r) \<Rightarrow> Inr (v, reply_with TsReply r, p))
         | SIOC_TSN c \<Rightarrow> tsn_ioctl h alloc_ok c p
         | SIOC_PREEMPTION_CFG user \<Rightarrow> on_local p (axienet_preemption user lp)
         | SIOC_PREEMPTION_CTRL user \<Rightarrow> on_local p (axienet_preemption_ctrl user lp)
         | SIOC_PREEMPTION_STS copy_ok \<Rightarrow>
             (case axienet_preemption_sts copy_ok lp of (v, r) \<Rightarrow> Inr (v, reply_with StsReply r, p))
         | SIOC_PREEMPTION_RECEIVE \<Rightarrow> on_local p (axienet_preemption_receive lp)
         | SIOC_PREEMPTION_COUNTER copy_ok \<Rightarrow>
             (case axienet_preemption_cnt copy_ok lp of (v, r) \<Rightarrow> Inr (v, reply_with CounterReply r, p))
         | SIOC_QBU_USER_OVERRIDE user \<Rightarrow> on_local p (axienet_qbu_user_override user lp)
         | SIOC_QBU_STS copy_ok \<Rightarrow>
             (case axienet_qbu_sts copy_ok lp of (v, r) \<Rightarrow> Inr (v, reply_with QbuReply r, p)))"

end
