(* ===== verification/Qbv_Sched.thy ===== *)
theory Qbv_Sched
  imports Mac_Ioctl "HOL-Library.Signed_Division"
begin

text \<open>
  The configuration tool of the gate schedules, \<^verbatim>\<open>app/misc-utils/qbv_sched.c\<close>: its command line, the
  step from the settings of a file to a schedule, and the requests to the ports. Reading the file
  (libconfig) is an argument that gives the settings of each port; \<open>getopt\<close> is that of the GNU
  library, which steps over arguments that are no options.
\<close>

abbreviation (input) MAX_CYCLE_TIME :: u32 where "MAX_CYCLE_TIME \<equiv> 1000000000"
abbreviation (input) MAX_ENTRIES :: nat where "MAX_ENTRIES \<equiv> 256"

section \<open>Command line\<close>

definition qbv_get_interface :: "string \<Rightarrow> int" where
  "qbv_get_interface a =
     (if a = ''eth1'' then 1 else if a = ''eth2'' then 2 else if a = ''ep'' then 0 else - 1)"

definition port_names :: "string list" where
  "port_names = [''ep'', ''temac1'', ''temac2'']"

datatype sched_opt = Opt char string | Flag char | BadOpt

text \<open>
  \<open>getopt\<close> for \<open>s:g:c:f\<close>: the letters of one argument and the arguments behind it. An option
  takes its value from the rest of its argument or from the next one.
\<close>

function getopts :: "string option \<Rightarrow> string list \<Rightarrow> sched_opt list" where
  "getopts None [] = []"
| "getopts None (a # as) =
     (if a = ''--'' then []
      else if length a < 2 \<or> hd a \<noteq> CHR ''-'' then getopts None as
      else getopts (Some (tl a)) as)"
| "getopts (Some []) as = getopts None as"
| "getopts (Some (c # cs)) as =
     (if c = CHR ''f'' then Flag c # getopts (Some cs) as
      else if c = CHR ''s'' \<or> c = CHR ''g'' \<or> c = CHR ''c''
      then if cs \<noteq> [] then Opt c cs # getopts None as
           else (case as of [] \<Rightarrow> [BadOpt] | v # as \<Rightarrow> Opt c v # getopts None as)
      else BadOpt # getopts (Some cs) as)"
  by pat_completeness auto
termination
  by (relation "measures [\<lambda>(c, as). length as, \<lambda>(c, as). case c of None \<Rightarrow> 0 | Some cs \<Rightarrow> Suc (length cs)]")
    (auto split: list.splits)

record sched_opts =
  opt_port :: int
  opt_ifname :: string
  set_qbv :: bool
  file_path :: bool
  opt_force :: u8
  opt_off :: bool

datatype sched_run = RunUsage | RunQuit | RunGet int string | RunSet sched_opts

text \<open>The loop over the options.\<close>

fun scan_opts :: "sched_opt list \<Rightarrow> sched_opts \<Rightarrow> sched_run" where
  "scan_opts [] s = RunSet s"
| "scan_opts (Flag c # opts) s = scan_opts opts (s\<lparr>opt_force := 1\<rparr>)"
| "scan_opts (Opt c a # opts) s =
     (let i = qbv_get_interface a
      in if i < 0 then RunUsage
         else if c = CHR ''g'' then RunGet i a
         else let s = s\<lparr>opt_port := i, opt_ifname := a, set_qbv := True\<rparr>;
                  s = (if c = CHR ''c'' then s\<lparr>file_path := True\<rparr> else s)
              in scan_opts opts s)"
| "scan_opts (BadOpt # opts) s = RunQuit"

text \<open>The arguments behind the name of the program.\<close>

definition sched_args :: "string list \<Rightarrow> sched_run" where
  "sched_args args =
     (let argc = length args + 1
      in if argc < 2 \<or> argc > 5 then RunUsage
         else
           let i = qbv_get_interface (args ! 0)
           in if i \<ge> 0
              then RunSet \<lparr>opt_port = i, opt_ifname = args ! 0, set_qbv = True, file_path = False, opt_force = 0,
                     opt_off = (argc = 3 \<and> args ! 1 = ''off'')\<rparr>
              else if argc = 2 then RunUsage
              else scan_opts (getopts None args)
                     \<lparr>opt_port = i, opt_ifname = [], set_qbv = False, file_path = False, opt_force = 0, opt_off = False\<rparr>)"

section \<open>Settings\<close>

text \<open>A setting that the file does not have is \<open>None\<close>.\<close>

record gate_setting =
  gate_state :: "s32 option"
  gate_time :: "s32 option"

record port_settings =
  cfg_cycle_time :: "s32 option"
  cfg_start_sec :: "u64 option"
  cfg_start_ns :: "s32 option"
  cfg_gate_list :: "gate_setting list option"

text \<open>The time of an entry in ticks of 8 ns; the division of C rounds towards zero.\<close>

definition gate_ticks :: "s32 \<Rightarrow> u32" where
  "gate_ticks t = word_of_int (sint t sdiv 8)"

text \<open>
  What the tool prints on its standard output, a line or a group of lines each. The clock device
  that cannot be opened and a cycle that is cut are reported and do not stop it.
\<close>

datatype sched_msg =
    UsageMsg
  | NoClock
  | CannotRead string
  | Setting string
  | CycleTime u32
  | OpeningGates
  | CycleCut
  | StartTime u64 u32
  | GateLine nat u32 s32
  | InvalidList
  | ProgFailed bool
  | GetFailed
  | NotScheduled
  | Shown u32 u32 u64 u32 "(u32 \<times> u32) list"

text \<open>The \<open>j\<close>-th state and time; a missing one leaves what the local variable holds, \<open>junk j\<close>.\<close>

definition gate_value :: "(nat \<Rightarrow> s32 \<times> s32) \<Rightarrow> gate_setting list \<Rightarrow> nat \<Rightarrow> s32 \<times> s32" where
  "gate_value junk gs j =
     (case gate_state (gs ! j) of Some s \<Rightarrow> s | None \<Rightarrow> fst (junk j),
      case gate_time (gs ! j) of Some t \<Rightarrow> t | None \<Rightarrow> snd (junk j))"

definition fill_gates :: "(nat \<Rightarrow> s32 \<times> s32) \<Rightarrow> gate_setting list \<Rightarrow> qbv_info \<Rightarrow> qbv_info" where
  "fill_gates junk gs prog =
     prog\<lparr>list_length := of_nat (length gs),
          acl_gate_state := (\<lambda>j. if j < length gs then fst (gate_value junk gs j) else acl_gate_state prog j),
          acl_gate_time := (\<lambda>j. if j < length gs then gate_ticks (snd (gate_value junk gs j)) else acl_gate_time prog j)\<rparr>"

text \<open>The entries are printed as they are read, unless the gates are to be opened.\<close>

definition gate_lines :: "(nat \<Rightarrow> s32 \<times> s32) \<Rightarrow> gate_setting list \<Rightarrow> qbv_info \<Rightarrow> sched_msg list" where
  "gate_lines junk gs prog =
     (if cycle_time prog \<noteq> 0
      then map (\<lambda>j. GateLine j (fst (gate_value junk gs j)) (snd (gate_value junk gs j))) [0..<length gs] else [])"

datatype sched_step = TooLong | NoList | Program qbv_info

text \<open>
  From the settings to the schedule, with what is printed on the way. \<open>prog\<close> is the structure with
  its contents before, \<open>now\<close> the second of the PTP clock. A numeric setting that is missing is a
  null pointer to the library.
\<close>

definition build_schedule ::
  "(nat \<Rightarrow> s32 \<times> s32) \<Rightarrow> u64 \<Rightarrow> sched_opts \<Rightarrow> port_settings \<Rightarrow> qbv_info \<Rightarrow> (sched_msg list \<times> sched_step) checked" where
  "build_schedule junk now s cfg prog =
     (case (if opt_off s then Some 0 else cfg_cycle_time cfg) of
        None \<Rightarrow> Inl NullPointer
      | Some cycle \<Rightarrow>
          let out = [Setting (port_names ! nat (opt_port s)), CycleTime cycle] @ (if cycle = 0 then [OpeningGates] else []) @
                (if cycle > MAX_CYCLE_TIME then [CycleCut] else []);
              cycle = (if cycle > MAX_CYCLE_TIME then MAX_CYCLE_TIME else cycle);
              prog = prog\<lparr>force := opt_force s, cycle_time := cycle, qbv_port := word_of_int (opt_port s)\<rparr>
          in (case (cfg_start_sec cfg, cfg_start_ns cfg) of
                (Some sec, Some ns) \<Rightarrow>
                  let prog = (if sec = 0 then prog\<lparr>ptp_time_sec := now + 1, ptp_time_ns := 0\<rparr>
                              else prog\<lparr>ptp_time_sec := sec, ptp_time_ns := ns\<rparr>);
                      out = out @ [StartTime (ptp_time_sec prog) (ptp_time_ns prog)]
                  in (case cfg_gate_list cfg of
                        None \<Rightarrow> Inr (out, NoList)
                      | Some gs \<Rightarrow>
                          if length gs > MAX_ENTRIES then Inr (out @ [InvalidList], TooLong)
                          else Inr (out @ gate_lines junk gs prog, Program (fill_gates junk gs prog)))
              | _ \<Rightarrow> Inl NullPointer))"

section \<open>Requests\<close>

text \<open>The network interfaces by name: MAC ports and the endpoint.\<close>

record sched_host =
  host_ports :: "string \<Rightarrow> mac_port option"
  host_ep :: "(ep_cfg \<times> ep_dev) option"

text \<open>A request to an interface that does not exist fails in the kernel.\<close>

definition if_ioctl ::
  "(u64 \<Rightarrow> u8 \<Rightarrow> u32) \<Rightarrow> bool \<Rightarrow> string \<Rightarrow> ep_cmd \<Rightarrow> sched_host \<Rightarrow> (int \<times> qbv_info option \<times> sched_host) checked" where
  "if_ioctl h alloc ifname cmd w =
     (if ifname = ''ep''
      then (case host_ep w of
              None \<Rightarrow> Inr (- ENODEV, None, w)
            | Some (cfg, e) \<Rightarrow>
                (case tsn_ep_ioctl h cfg alloc cmd e of
                   Inl f \<Rightarrow> Inl f
                 | Inr (v, q, e) \<Rightarrow> Inr (v, q, w\<lparr>host_ep := Some (cfg, e)\<rparr>)))
      else (case host_ports w ifname of
              None \<Rightarrow> Inr (- ENODEV, None, w)
            | Some p \<Rightarrow>
                (case axienet_ioctl h alloc (SIOC_TSN cmd) p of
                   Inl f \<Rightarrow> Inl f
                 | Inr (v, r, p) \<Rightarrow>
                     Inr (v, case r of SchedReply q \<Rightarrow> Some q | _ \<Rightarrow> None,
                          w\<lparr>host_ports := (host_ports w)(ifname \<mapsto> p)\<rparr>))))"

definition set_schedule ::
  "(u64 \<Rightarrow> u8 \<Rightarrow> u32) \<Rightarrow> bool \<Rightarrow> qbv_info \<Rightarrow> string \<Rightarrow> sched_host \<Rightarrow> (sched_msg list \<times> sched_host) checked" where
  "set_schedule h alloc prog ifname w =
     (case if_ioctl h alloc ifname (SIOCCHIOCTL (Some prog)) w of
        Inl f \<Rightarrow> Inl f
      | Inr (v, q, w) \<Rightarrow> Inr (if v < 0 then [ProgFailed (v = - EALREADY)] else [], w))"

definition get_schedule ::
  "(u64 \<Rightarrow> u8 \<Rightarrow> u32) \<Rightarrow> bool \<Rightarrow> qbv_info \<Rightarrow> string \<Rightarrow> sched_host \<Rightarrow> (sched_msg list \<times> sched_host) checked" where
  "get_schedule h alloc qbv ifname w =
     (case if_ioctl h alloc ifname (SIOC_GET_SCHED (Some qbv) True) w of
        Inl f \<Rightarrow> Inl f
      | Inr (v, r, w) \<Rightarrow>
          if v < 0 then Inr ([GetFailed], w)
          else let qbv = (case r of Some q \<Rightarrow> q | None \<Rightarrow> qbv)
               in if cycle_time qbv = 0 then Inr ([NotScheduled], w)
                  else if unat (list_length qbv) > MAX_ENTRIES then Inl OutOfBounds
                  else Inr ([Shown (list_length qbv) (cycle_time qbv) (ptp_time_sec qbv) (ptp_time_ns qbv)
                       (map (\<lambda>i. (acl_gate_state qbv i, acl_gate_time qbv i * 8)) [0..<unat (list_length qbv)])], w))"

text \<open>
  \<open>main\<close> of the tool. The third argument, when there is one, is taken for the path whatever it is.
  \<open>clock_ok\<close> says whether the clock device can be opened; the number of arguments is looked at
  before. What \<open>getopt\<close> itself reports is left out.
\<close>

definition qbv_sched_main ::
  "(u64 \<Rightarrow> u8 \<Rightarrow> u32) \<Rightarrow> bool \<Rightarrow> bool \<Rightarrow> (nat \<Rightarrow> s32 \<times> s32) \<Rightarrow> qbv_info \<Rightarrow> u64 \<Rightarrow>
   (string \<Rightarrow> (string \<Rightarrow> port_settings) option) \<Rightarrow> string list \<Rightarrow> sched_host \<Rightarrow> (sched_msg list \<times> sched_host) checked"
where
  "qbv_sched_main h alloc clock_ok junk prog now read_file args w =
     (let argc = length args + 1;
          out = (if 2 \<le> argc \<and> argc \<le> 5 \<and> \<not> clock_ok then [NoClock] else []);
          after = (\<lambda>out r. case r of Inl f \<Rightarrow> Inl f | Inr (ms, w) \<Rightarrow> Inr (out @ ms, w))
      in case sched_args args of
           RunUsage \<Rightarrow> Inr (out @ [UsageMsg], w)
         | RunQuit \<Rightarrow> Inr (out, w)
         | RunGet i ifname \<Rightarrow> after out (get_schedule h alloc (prog\<lparr>qbv_port := word_of_int i\<rparr>) ifname w)
         | RunSet s \<Rightarrow>
             let path = (if length args \<ge> 3 then args ! 2 else [])
             in if file_path s \<and> path = [] then Inr (out, w)
                else
                  let path = (if file_path s then path else ''/etc/qbv.cfg'')
                  in (case read_file path of
                        None \<Rightarrow> Inr (out @ [CannotRead path], w)
                      | Some settings \<Rightarrow>
                          if \<not> set_qbv s then Inr (out, w)
                          else (case build_schedule junk now s (settings (port_names ! nat (opt_port s))) prog of
                                  Inl f \<Rightarrow> Inl f
                                | Inr (ms, Program prog) \<Rightarrow> after (out @ ms) (set_schedule h alloc prog (opt_ifname s) w)
                                | Inr (ms, _) \<Rightarrow> Inr (out @ ms, w))))"

end
