(* ===== verification/Mac_Setup.thy ===== *)
theory Mac_Setup
  imports Mac
begin

text \<open>
  Properties of the set-up of a MAC: the multicast filter, the options, the reset, time stamps
  and flow control.
\<close>

section \<open>Registers and the table behind the window\<close>

lemma mac_ior_iow: "mac_ior (mac_iow d a v) b = (if a = b then v else mac_ior d b)"
  by (simp add: mac_ior_def mac_iow_def Let_def mac_reg.ior_iow)

interpretation mac_dev_reg: register_file mac_ior mac_iow
  by unfold_locales (simp_all add: mac_ior_iow)

lemma mac_iow_frame [simp]:
  "mac_conf (mac_iow d a v) = mac_conf d" "options (mac_iow d a v) = options d"
  "dev_addr (mac_iow d a v) = dev_addr d" "mc_addrs (mac_iow d a v) = mc_addrs d"
  "iff_promisc (mac_iow d a v) = iff_promisc d" "iff_allmulti (mac_iow d a v) = iff_allmulti d"
  "mtu (mac_iow d a v) = mtu d" "rxmem (mac_iow d a v) = rxmem d" "is_tsn (mac_iow d a v) = is_tsn d"
  "net_running (mac_iow d a v) = net_running d" "current_rx_filter (mac_iow d a v) = current_rx_filter d"
  by (simp_all add: mac_iow_def Let_def)

lemma mac_ior_settings [simp]:
  "mac_ior (d\<lparr>dev_addr := a\<rparr>) = mac_ior d" "mac_ior (d\<lparr>options := opts\<rparr>) = mac_ior d"
  "mac_ior (d\<lparr>iff_promisc := b\<rparr>) = mac_ior d" "mac_ior (d\<lparr>mac_conf := c\<rparr>) = mac_ior d"
  "mac_ior (d\<lparr>current_rx_filter := n, flag_ptp_v2_udp := b\<rparr>) = mac_ior d" "mac_ior (d\<lparr>ts_type := n\<rparr>) = mac_ior d"
  "mac_ior (d\<lparr>tstamp_config := k\<rparr>) = mac_ior d"
  by (simp_all add: mac_ior_def fun_eq_iff)

lemma mac_cam_iow:
  "a \<noteq> XAE_AF0_OFFSET \<Longrightarrow> a \<noteq> XAE_AF1_OFFSET \<Longrightarrow> mac_cam (mac_iow d a v) = mac_cam d"
  "mac_cam (mac_iow d XAE_AF0_OFFSET v) =
     (mac_cam d)(mac_ior d XAE_FMC_OFFSET AND XAE_FMC_IND_MASK :=
        (v, snd (mac_cam d (mac_ior d XAE_FMC_OFFSET AND XAE_FMC_IND_MASK))))"
  "mac_cam (mac_iow d XAE_AF1_OFFSET v) =
     (mac_cam d)(mac_ior d XAE_FMC_OFFSET AND XAE_FMC_IND_MASK :=
        (fst (mac_cam d (mac_ior d XAE_FMC_OFFSET AND XAE_FMC_IND_MASK)), v))"
  by (simp_all add: mac_iow_def Let_def)

lemma cam_index:
  fixes x :: u32
  assumes "i < 4"
  shows "((x AND 0xFFFFFF00) OR of_nat i) AND XAE_FMC_IND_MASK = of_nat i"
    and "((x AND 0xFFFFFF00) OR of_nat i) AND XAE_FMC_PM_MASK = x AND XAE_FMC_PM_MASK"
proof -
  have "\<forall>i<4. ((x AND 0xFFFFFF00) OR of_nat i) AND 3 = of_nat i \<and>
      ((x AND 0xFFFFFF00) OR of_nat i) AND 0x80000000 = x AND 0x80000000"
    unfolding all_less_4 by (simp add: bit.conj_disj_distrib2 and.assoc)
  with assms show "((x AND 0xFFFFFF00) OR of_nat i) AND XAE_FMC_IND_MASK = of_nat i"
    and "((x AND 0xFFFFFF00) OR of_nat i) AND XAE_FMC_PM_MASK = x AND XAE_FMC_PM_MASK" by auto
qed

lemma set_cam_entry_cam:
  "i < 4 \<Longrightarrow> mac_cam (set_cam_entry i a b d) = (mac_cam d)(of_nat i := (a, b))"
  by (simp add: set_cam_entry_def Let_def mac_cam_iow mac_ior_iow cam_index)

lemma set_cam_entry_pm:
  "i < 4 \<Longrightarrow> mac_ior (set_cam_entry i a b d) XAE_FMC_OFFSET AND XAE_FMC_PM_MASK =
     mac_ior d XAE_FMC_OFFSET AND XAE_FMC_PM_MASK"
  by (simp add: set_cam_entry_def Let_def mac_ior_iow cam_index)

text \<open>What the operations on the table leave alone: the settings, and the registers outside the window.\<close>

definition same_settings :: "mac_dev \<Rightarrow> mac_dev \<Rightarrow> bool" where
  "same_settings d d' \<longleftrightarrow> mac_conf d' = mac_conf d \<and> options d' = options d \<and> dev_addr d' = dev_addr d \<and>
     (\<forall>r. r \<noteq> XAE_FMC_OFFSET \<and> r \<noteq> XAE_AF0_OFFSET \<and> r \<noteq> XAE_AF1_OFFSET \<longrightarrow> mac_ior d' r = mac_ior d r)"

lemma same_settings_trans: "same_settings d d' \<Longrightarrow> same_settings d' d'' \<Longrightarrow> same_settings d d''"
  by (simp add: same_settings_def)

lemma same_settings_iow:
  "r = XAE_FMC_OFFSET \<or> r = XAE_AF0_OFFSET \<or> r = XAE_AF1_OFFSET \<Longrightarrow> same_settings d (mac_iow d r v)"
  by (auto simp: same_settings_def mac_ior_iow)

lemma same_settings_entry: "same_settings d (set_cam_entry i a b d)"
  unfolding set_cam_entry_def Let_def
  by (rule same_settings_trans [OF same_settings_iow same_settings_trans [OF same_settings_iow same_settings_iow]]) simp_all

lemma load_cam_ok:
  "i + length as \<le> 4 \<Longrightarrow>
     (\<forall>j<length as. mac_cam (load_cam i as d) (of_nat (i + j)) = (addr_low (as ! j), addr_high (as ! j))) \<and>
     (\<forall>k<i. mac_cam (load_cam i as d) (of_nat k) = mac_cam d (of_nat k)) \<and>
     mac_ior (load_cam i as d) XAE_FMC_OFFSET AND XAE_FMC_PM_MASK = mac_ior d XAE_FMC_OFFSET AND XAE_FMC_PM_MASK \<and>
     same_settings d (load_cam i as d)"
proof (induction as arbitrary: i d)
  case Nil
  then show ?case by (simp add: same_settings_def)
next
  case (Cons a as)
  let ?d = "set_cam_entry i (addr_low a) (addr_high a) d"
  have i: "i < 4" using Cons.prems by simp
  have e: "load_cam i (a # as) d = load_cam (Suc i) as ?d" using i by simp
  note IH = Cons.IH [of "Suc i" ?d]
  have ne: "of_nat k = (of_nat i :: u32) \<longleftrightarrow> k = i" if "k < 4" for k
    using that i by (simp add: word_unat_eq_iff unat_of_nat)
  have "mac_cam (load_cam i (a # as) d) (of_nat (i + j)) = (addr_low ((a # as) ! j), addr_high ((a # as) ! j))"
    if j: "j < length (a # as)" for j
  proof (cases j)
    case 0
    then show ?thesis using IH Cons.prems i unfolding e by (simp add: set_cam_entry_cam)
  next
    case (Suc k)
    then show ?thesis using IH Cons.prems j unfolding e by simp
  qed
  moreover have "mac_cam (load_cam i (a # as) d) (of_nat k) = mac_cam d (of_nat k)" if "k < i" for k
    using IH Cons.prems that i ne [of k] unfolding e by (simp add: set_cam_entry_cam)
  moreover have "same_settings d (load_cam i (a # as) d)"
    unfolding e by (rule same_settings_trans [OF same_settings_entry [of d i "addr_low a" "addr_high a"]]) (use IH Cons.prems in simp)
  ultimately show ?case
    using IH Cons.prems set_cam_entry_pm [OF i] unfolding e by simp
qed

lemma clear_cam_ok:
  "n \<le> 4 \<Longrightarrow> (let d' = foldl (\<lambda>d i. set_cam_entry i 0 0 d) d [0..<n]
     in (\<forall>i<n. mac_cam d' (of_nat i) = (0, 0)) \<and>
        mac_ior d' XAE_FMC_OFFSET AND XAE_FMC_PM_MASK = mac_ior d XAE_FMC_OFFSET AND XAE_FMC_PM_MASK \<and>
        same_settings d d')"
proof (induction n)
  case 0
  then show ?case by (simp add: same_settings_def)
next
  case (Suc n)
  have ne: "of_nat i = (of_nat n :: u32) \<longleftrightarrow> i = n" if "i < 4" for i
    using that Suc.prems by (simp add: word_unat_eq_iff unat_of_nat)
  have n: "n < 4" using Suc.prems by simp
  show ?case
    using Suc.IH Suc.prems same_settings_trans [OF _ same_settings_entry] set_cam_entry_pm [OF n]
    by (auto simp: Let_def set_cam_entry_cam [OF n] less_Suc_eq ne)
qed

text \<open>A frame to a group address is accepted in promiscuous mode or when its address is in the table.\<close>

definition accepts :: "mac_dev \<Rightarrow> u8 list \<Rightarrow> bool" where
  "accepts d a \<longleftrightarrow> mac_ior d XAE_FMC_OFFSET AND XAE_FMC_PM_MASK \<noteq> 0 \<or>
     (\<exists>i<4. mac_cam d (of_nat i) = (addr_low a, addr_high a))"

lemma multicast_same_settings: "same_settings d (axienet_set_multicast_list d)"
proof -
  have "same_settings d (d\<lparr>iff_promisc := True\<rparr>)" by (simp add: same_settings_def mac_ior_def)
  moreover have "same_settings d d" by (simp add: same_settings_def)
  ultimately show ?thesis
    unfolding axienet_set_multicast_list_def Let_def
    using load_cam_ok [of 0 "mc_addrs d" d]
      clear_cam_ok [of 4 "mac_iow d XAE_FMC_OFFSET (mac_ior d XAE_FMC_OFFSET AND NOT XAE_FMC_PM_MASK)"]
      same_settings_iow [of XAE_FMC_OFFSET]
    by (auto simp: Let_def intro: same_settings_trans)
qed

text \<open>
  C32 (subscribed_addresses_accepted): after the multicast list of a MAC with the table was
  set, every address of the list is accepted, even when there are more than the table holds; the
  wish to receive everything is granted, and with no wishes at all promiscuous mode is off and the
  table empty. Nothing but the filter is changed.
\<close>

theorem subscribed_addresses_accepted:
  assumes "mactype (mac_conf d) = XAXIENET_1G" and "\<not> eth_hasnobuf (mac_conf d)"
  defines "d' \<equiv> axienet_set_multicast_list d"
  shows "(\<forall>a\<in>set (mc_addrs d). accepts d' a) \<and>
     (iff_promisc d \<or> iff_allmulti d \<longrightarrow> (\<forall>a. accepts d' a)) \<and>
     (\<not> iff_promisc d \<and> \<not> iff_allmulti d \<and> mc_addrs d = [] \<longrightarrow>
        mac_ior d' XAE_FMC_OFFSET AND XAE_FMC_PM_MASK = 0 \<and> (\<forall>i<4. mac_cam d' (of_nat i) = (0, 0))) \<and>
     same_settings d d'"
proof -
  have pm: "(x OR 0x80000000) AND 0x80000000 \<noteq> 0" for x :: u32 by (simp add: bit.conj_disj_distrib2)
  consider (all) "iff_allmulti d \<or> iff_promisc d \<or> length (mc_addrs d) > 4"
    | (some) "\<not> iff_allmulti d" "\<not> iff_promisc d" "length (mc_addrs d) \<le> 4" "mc_addrs d \<noteq> []"
    | (none) "\<not> iff_allmulti d" "\<not> iff_promisc d" "mc_addrs d = []" by fastforce
  then show ?thesis
  proof cases
    case all
    then have "d' = (let d = d\<lparr>iff_promisc := True\<rparr> in mac_iow d XAE_FMC_OFFSET (mac_ior d XAE_FMC_OFFSET OR XAE_FMC_PM_MASK))"
      using assms(1,2) by (simp add: d'_def axienet_set_multicast_list_def)
    then have "accepts d' a" for a using pm by (simp add: accepts_def Let_def mac_ior_iow)
    then show ?thesis using all multicast_same_settings [of d] by (auto simp: d'_def)
  next
    case some
    then have "d' = load_cam 0 (mc_addrs d) d"
      using assms(1,2) by (simp add: d'_def axienet_set_multicast_list_def)
    then have "\<exists>i<4. mac_cam d' (of_nat i) = (addr_low a, addr_high a)" if "a \<in> set (mc_addrs d)" for a
      using that some(3) load_cam_ok [of 0 "mc_addrs d" d] by (auto simp: in_set_conv_nth) (meson less_le_trans)
    then show ?thesis using some multicast_same_settings [of d] by (auto simp: d'_def accepts_def)
  next
    case none
    then have "d' = foldl (\<lambda>d i. set_cam_entry i 0 0 d)
        (mac_iow d XAE_FMC_OFFSET (mac_ior d XAE_FMC_OFFSET AND NOT XAE_FMC_PM_MASK)) [0..<4]"
      using assms(1,2) by (simp add: d'_def axienet_set_multicast_list_def)
    then show ?thesis
      using none clear_cam_ok [of 4 "mac_iow d XAE_FMC_OFFSET (mac_ior d XAE_FMC_OFFSET AND NOT XAE_FMC_PM_MASK)"]
        multicast_same_settings [of d]
      by (simp add: Let_def mac_ior_iow and.assoc d'_def)
  qed
qed

text \<open>Going from promiscuous mode to a list of addresses leaves promiscuous mode on.\<close>

lemma promiscuous_mode_sticks:
  assumes "mactype (mac_conf d) = XAXIENET_1G" and "\<not> eth_hasnobuf (mac_conf d)" and "\<not> iff_promisc d"
    and "\<not> iff_allmulti d" and "mc_addrs d \<noteq> []" and "length (mc_addrs d) \<le> 4"
  shows "mac_ior (axienet_set_multicast_list d) XAE_FMC_OFFSET AND XAE_FMC_PM_MASK =
     mac_ior d XAE_FMC_OFFSET AND XAE_FMC_PM_MASK"
  using assms load_cam_ok [of 0 "mc_addrs d" d] by (simp add: axienet_set_multicast_list_def)

section \<open>Options\<close>

text \<open>No two options share a bit of a register.\<close>

definition disjoint_masks :: "axienet_option list \<Rightarrow> bool" where
  "disjoint_masks = sorted_wrt (\<lambda>(o1, r1, m1) (o2, r2, m2). r1 = r2 \<longrightarrow> m2 AND m1 = 0)"

lemma set_option_frame [simp]:
  "mac_conf (set_option opts d tp) = mac_conf d" "options (set_option opts d tp) = options d"
  "dev_addr (set_option opts d tp) = dev_addr d"
  by (simp_all add: set_option_def Let_def split: prod.splits)

lemma foldl_set_option_frame [simp]:
  "mac_conf (foldl (set_option opts) d tab) = mac_conf d" "options (foldl (set_option opts) d tab) = options d"
  "dev_addr (foldl (set_option opts) d tab) = dev_addr d"
  by (rule foldl_frame, simp)+

lemma set_option_same:
  "mac_ior (set_option opts d (opt, r, m)) r AND m = (if opts AND opt \<noteq> 0 then m else 0)"
  by (simp add: set_option_def Let_def mac_ior_iow bit.conj_disj_distrib2 and.assoc)

lemma set_option_other:
  "(r' = r \<longrightarrow> m' AND m = 0) \<Longrightarrow> mac_ior (set_option opts d (opt, r', m')) r AND m = mac_ior d r AND m"
proof -
  assume d: "r' = r \<longrightarrow> m' AND m = 0"
  have "(x AND NOT m') AND m = x AND m" if "m' AND m = 0" for x :: u32
  proof (rule bit_word_eqI)
    fix n
    show "bit ((x AND NOT m') AND m) n = bit (x AND m) n"
      using arg_cong [OF that, of "\<lambda>w. bit w n"] by (auto simp: bit_simps dest: bit_imp_le_length)
  qed
  with d show ?thesis
    by (auto simp: set_option_def Let_def mac_ior_iow bit.conj_disj_distrib2)
qed

lemma foldl_set_option_other:
  "(\<forall>(o', r', m')\<in>set tab. r' = r \<longrightarrow> m' AND m = 0) \<Longrightarrow>
     mac_ior (foldl (set_option opts) d tab) r AND m = mac_ior d r AND m"
  by (induction tab arbitrary: d) (auto simp: set_option_other)

lemma foldl_set_option:
  "disjoint_masks tab \<Longrightarrow> (opt, r, m) \<in> set tab \<Longrightarrow>
     mac_ior (foldl (set_option opts) d tab) r AND m = (if opts AND opt \<noteq> 0 then m else 0)"
proof (induction tab arbitrary: d)
  case (Cons tp tab)
  show ?case
  proof (cases "tp = (opt, r, m)")
    case True
    then have "\<forall>(o', r', m')\<in>set tab. r' = r \<longrightarrow> m' AND m = 0"
      using Cons.prems(1) by (auto simp: disjoint_masks_def)
    then show ?thesis using True by (simp add: foldl_set_option_other set_option_same)
  next
    case False
    with Cons show ?thesis by (auto simp: disjoint_masks_def)
  qed
qed simp

lemma foldl_set_option_untouched:
  "r \<notin> (fst \<circ> snd) ` set tab \<Longrightarrow> mac_ior (foldl (set_option opts) d tab) r = mac_ior d r"
  by (induction tab arbitrary: d) (auto simp: set_option_def Let_def mac_ior_iow split: prod.splits)

lemma axienet_options_disjoint: "disjoint_masks axienet_options"
  by (simp add: disjoint_masks_def axienet_options_def)

lemma options_spare_address:
  "r = XAE_UAW0_OFFSET \<or> r = XAE_UAW1_OFFSET \<Longrightarrow> mac_ior (foldl (set_option opts) d axienet_options) r = mac_ior d r"
  by (rule foldl_set_option_untouched) (auto simp: axienet_options_def)

section \<open>Reset\<close>

lemma reset_gt_1g: "mactype (mac_conf d) \<noteq> XAXIENET_10G_25G \<Longrightarrow> reset_gt d = d"
  by (simp add: reset_gt_def)

lemma set_mac_address_regs:
  fixes random :: "u8 list"
  assumes "mactype (mac_conf d) = XAXIENET_1G \<or> mactype (mac_conf d) = XAXIENET_2_5G"
  defines "d' \<equiv> axienet_set_mac_address random None d"
  shows "dev_addr d' = (if is_valid_ether_addr (dev_addr d) then dev_addr d else random)"
    and "mac_ior d' XAE_UAW0_OFFSET = addr_low (dev_addr d')"
    and "mac_ior d' XAE_UAW1_OFFSET = (mac_ior d XAE_UAW1_OFFSET AND NOT 0xFFFF) OR addr_high (dev_addr d')"
    and "options d' = options d" and "mac_conf d' = mac_conf d"
  using assms(1) by (auto simp: d'_def axienet_set_mac_address_def Let_def mac_ior_iow)

lemma addr_high_bits: "addr_high a AND 0xFFFF = addr_high a"
  and "(x AND NOT 0xFFFF) AND 0xFFFF = 0" for x :: u32
proof -
  have m: "(0xFFFF :: u32) = field_mask 16 0" by (simp add: field_mask_def mask_eq_exp_minus_1)
  have "bit (ucast b :: u32) i \<Longrightarrow> i < 8" for b :: u8 and i by (auto simp: bit_simps dest: bit_imp_le_length)
  then show "addr_high a AND 0xFFFF = addr_high a" unfolding m addr_high_def
    by (intro bit_word_eqI) (fastforce simp: bit_simps)
  show "(x AND NOT 0xFFFF) AND 0xFFFF = 0" by (simp add: and.assoc)
qed

definition jumbo_fits :: "mac_dev \<Rightarrow> bool" where
  "jumbo_fits d \<longleftrightarrow> mtu d > XAE_MTU \<and> mtu d \<le> XAE_JUMBO_MTU \<and> mtu d + VLAN_ETH_HLEN + XAE_TRL_SIZE \<le> rxmem d"

definition reset_options :: "mac_dev \<Rightarrow> u32" where
  "reset_options d =
     ((options d OR XAE_OPTION_VLAN) AND NOT XAE_OPTION_JUMBO) OR (if jumbo_fits d then XAE_OPTION_JUMBO else 0)"

lemma set_frame_size_options:
  "mactype (mac_conf d) \<noteq> XAXIENET_10G_25G \<Longrightarrow> options (set_frame_size d) = reset_options d \<and>
     mactype (mac_conf (set_frame_size d)) = mactype (mac_conf d) \<and> dev_addr (set_frame_size d) = dev_addr d"
  by (simp add: set_frame_size_def Let_def reset_options_def jumbo_fits_def)

lemma reset_registers_frame:
  "mactype (mac_conf d) \<noteq> XAXIENET_10G_25G \<Longrightarrow> options (reset_registers d) = options d \<and>
     mac_conf (reset_registers d) = mac_conf d \<and> dev_addr (reset_registers d) = dev_addr d"
  by (simp add: reset_registers_def Let_def)

lemma or_subset: "(x AND NOT y) OR x = x" "x OR x AND NOT y = x" for x y :: u32
  by (rule bit_word_eqI, auto simp: bit_simps)+

text \<open>The reset ends with setting the options on a device \<open>d4\<close> with the address set on \<open>d3\<close>.\<close>

lemma reset_stages:
  fixes random :: "u8 list"
  assumes "mactype (mac_conf d) = XAXIENET_1G \<or> mactype (mac_conf d) = XAXIENET_2_5G"
  defines "d' \<equiv> axienet_device_reset random d"
  obtains d2 d4 where
    "mac_ior d' = mac_ior (foldl (set_option (reset_options d)) d4 axienet_options)"
    and "options d' = reset_options d" and "dev_addr d' = dev_addr (axienet_set_mac_address random None d2)"
    and "same_settings (axienet_set_mac_address random None d2) d4"
    and "mactype (mac_conf d2) = mactype (mac_conf d)" and "dev_addr d2 = dev_addr d"
proof
  have t: "mactype (mac_conf d) \<noteq> XAXIENET_10G_25G" using assms(1) by auto
  define d1 where "d1 = reset_registers (set_frame_size d)"
  have 1: "options d1 = reset_options d" "mactype (mac_conf d1) = mactype (mac_conf d)" "dev_addr d1 = dev_addr d"
    using set_frame_size_options [OF t] reset_registers_frame [of "set_frame_size d"] t by (auto simp: d1_def)
  define d2 where "d2 = setoptions (options d1 AND NOT (XAE_OPTION_TXEN OR XAE_OPTION_RXEN)) d1"
  show 2: "mactype (mac_conf d2) = mactype (mac_conf d)" "dev_addr d2 = dev_addr d"
    using 1 t by (simp_all add: d2_def setoptions_def axienet_setoptions_def Let_def)
  have o2: "options d2 = reset_options d"
    using 1 t or_subset(2) [of "reset_options d" "NOT (XAE_OPTION_TXEN OR XAE_OPTION_RXEN)"]
    by (simp add: d2_def setoptions_def axienet_setoptions_def Let_def)
  define d3 where "d3 = axienet_set_mac_address random None d2"
  have "mactype (mac_conf d2) = XAXIENET_1G \<or> mactype (mac_conf d2) = XAXIENET_2_5G"
    using 2(1) assms(1) by simp
  note 3 = set_mac_address_regs [OF this, of random, folded d3_def]
  define d4 where "d4 = axienet_set_multicast_list d3"
  show 4: "same_settings (axienet_set_mac_address random None d2) d4"
    unfolding d4_def d3_def by (rule multicast_same_settings)
  have "options d4 = reset_options d" "mactype (mac_conf d4) \<noteq> XAXIENET_10G_25G" "dev_addr d4 = dev_addr d3"
    using 4 3 2 o2 t by (auto simp: same_settings_def d3_def)
  moreover have "d' = setoptions (options d4) d4"
    using t by (simp add: d'_def axienet_device_reset_def Let_def reset_gt_1g d1_def d2_def d3_def d4_def)
  ultimately have e: "d' = (foldl (set_option (reset_options d)) d4 axienet_options)\<lparr>options := reset_options d\<rparr>"
    by (simp add: setoptions_def axienet_setoptions_def Let_def)
  show "mac_ior d' = mac_ior (foldl (set_option (reset_options d)) d4 axienet_options)"
    and "options d' = reset_options d" and "dev_addr d' = dev_addr (axienet_set_mac_address random None d2)"
    unfolding e using \<open>dev_addr d4 = dev_addr d3\<close> by (simp_all add: mac_ior_def fun_eq_iff d3_def)
qed

lemma reset_sets_options:
  assumes "mactype (mac_conf d) = XAXIENET_1G \<or> mactype (mac_conf d) = XAXIENET_2_5G"
    and "(opt, r, m) \<in> set axienet_options"
  shows "mac_ior (axienet_device_reset random d) r AND m = (if reset_options d AND opt \<noteq> 0 then m else 0)"
  by (rule reset_stages [OF assms(1), of random]) (simp add: foldl_set_option [OF axienet_options_disjoint assms(2)])

text \<open>
  C33 (reset_configures_mac): after the reset of a 1G or 2.5G MAC every option of the table is
  on in its register exactly when it is among the device's options; these are the old ones with
  VLAN frames on, and jumbo frames on exactly when the frame size asks for them and fits the memory;
  the address registers hold the device's address, which was kept if it was valid and chosen by the
  kernel if not.
\<close>

theorem reset_configures_mac:
  fixes random :: "u8 list"
  assumes "mactype (mac_conf d) = XAXIENET_1G \<or> mactype (mac_conf d) = XAXIENET_2_5G"
  defines "d' \<equiv> axienet_device_reset random d"
  shows "options d' = reset_options d \<and>
     (\<forall>(opt, r, m)\<in>set axienet_options. mac_ior d' r AND m = (if options d' AND opt \<noteq> 0 then m else 0)) \<and>
     dev_addr d' = (if is_valid_ether_addr (dev_addr d) then dev_addr d else random) \<and>
     mac_ior d' XAE_UAW0_OFFSET = addr_low (dev_addr d') \<and>
     mac_ior d' XAE_UAW1_OFFSET AND 0xFFFF = addr_high (dev_addr d')"
proof -
  obtain d2 d4 where s:
    "mac_ior d' = mac_ior (foldl (set_option (reset_options d)) d4 axienet_options)" "options d' = reset_options d"
    "dev_addr d' = dev_addr (axienet_set_mac_address random None d2)"
    "same_settings (axienet_set_mac_address random None d2) d4"
    "mactype (mac_conf d2) = mactype (mac_conf d)" "dev_addr d2 = dev_addr d"
    using reset_stages [OF assms(1), of random] unfolding d'_def by blast
  note 3 = set_mac_address_regs [of d2 random, unfolded s(5), OF assms(1)]
  have u: "mac_ior d' r = mac_ior (axienet_set_mac_address random None d2) r"
    if "r = XAE_UAW0_OFFSET \<or> r = XAE_UAW1_OFFSET" for r
    unfolding s(1) options_spare_address [OF that] using s(4) that by (auto simp: same_settings_def)
  note u = u [OF disjI1 [OF refl]] u [OF disjI2 [OF refl]]
  have "mac_ior d' XAE_UAW1_OFFSET AND 0xFFFF = addr_high (dev_addr d')"
    by (simp add: u 3(3) s(3) bit.conj_disj_distrib2 addr_high_bits and.assoc)
  moreover have "mac_ior d' XAE_UAW0_OFFSET = addr_low (dev_addr d')"
    by (simp only: u 3(2) s(3))
  ultimately show ?thesis
    using s(2,3,6) 3(1) reset_sets_options [OF assms(1), of _ _ _ random] by (auto simp: d'_def)
qed

text \<open>The last setting of the options takes back the promiscuous mode that the multicast list asked for.\<close>

lemma reset_drops_promiscuous_mode:
  assumes "mactype (mac_conf d) = XAXIENET_1G" and "options d AND XAE_OPTION_PROMISC = 0"
  shows "mac_ior (axienet_device_reset random d) XAE_FMC_OFFSET AND XAE_FMC_PM_MASK = 0"
proof -
  have "(XAE_OPTION_PROMISC, XAE_FMC_OFFSET, XAE_FMC_PM_MASK) \<in> set axienet_options"
    by (simp add: axienet_options_def)
  moreover have "reset_options d AND XAE_OPTION_PROMISC = 0"
    using assms(2) by (simp add: reset_options_def bit.conj_disj_distrib2 and.assoc)
  ultimately show ?thesis
    using reset_sets_options [of d XAE_OPTION_PROMISC XAE_FMC_OFFSET XAE_FMC_PM_MASK random] assms(1) by simp
qed

section \<open>Time stamps and flow control\<close>

text \<open>
  A refused configuration changes the filter all the same: the check of the flags comes after
  the change.
\<close>

lemma refused_config_changes_filter:
  assumes "current_rx_filter d = HWTSTAMP_FILTER_PTP_V2_L4_EVENT" and "ts_flags c \<noteq> 0"
    and "rx_filter c = HWTSTAMP_FILTER_PTP_V2_L2_EVENT"
  shows "\<exists>d'. axienet_set_ts_config (Some c) True d = (- EINVAL, None, d') \<and>
     current_rx_filter d' = HWTSTAMP_FILTER_PTP_V2_L2_EVENT \<and> mac_ior d' XAE_AF2_OFFSET = 0xF788"
  using assms
  by (simp add: axienet_set_ts_config_def axienet_set_timestamp_mode_def change_filter_values_to_gptp_def
      write_all_def mac_ior_iow)

text \<open>On a device of the TSN subsystem an accepted configuration is stored and reported.\<close>

lemma ts_config_stored:
  assumes "is_tsn d" and "axienet_set_ts_config (Some c) True d = (0, Some c', d')"
  shows "tx_type c' = tx_type c \<and> ts_type d' = tx_type c \<and> axienet_get_ts_config True d' = (0, Some c') \<and>
     (rx_filter c' = HWTSTAMP_FILTER_NONE \<or> rx_filter c' = current_rx_filter d')"
proof -
  have "is_tsn (write_all ws d) = is_tsn d" for ws d
    unfolding write_all_def by (rule foldl_frame) (simp split: prod.splits)
  with assms show ?thesis
    by (auto simp: axienet_set_ts_config_def axienet_set_timestamp_mode_def axienet_get_ts_config_def Let_def
        change_filter_values_to_gptp_def change_filter_values_to_udp_def split: if_splits prod.splits)
qed

text \<open>The filter for UDP also clears promiscuous mode, which shares its first register.\<close>

lemma udp_filter_drops_promiscuous_mode:
  "mac_ior (change_filter_values_to_udp d) XAE_FMC_OFFSET AND XAE_FMC_PM_MASK = 0"
  by (simp add: change_filter_values_to_udp_def write_all_def mac_ior_iow)

lemma pauseparam_roundtrip:
  assumes "\<not> net_running d"
  shows "\<exists>d'. axienet_ethtools_set_pauseparam (tx, rx) d = (0, d') \<and>
     axienet_ethtools_get_pauseparam d' =
       (if tx \<noteq> 0 then XAE_FCC_FCTX_MASK else 0, if rx \<noteq> 0 then XAE_FCC_FCRX_MASK else 0)"
  using assms
  by (simp add: axienet_ethtools_set_pauseparam_def axienet_ethtools_get_pauseparam_def Let_def mac_ior_iow
      bit.conj_disj_distrib2 bit.conj_disj_distrib and.assoc)

section \<open>Witnesses\<close>

definition demo_mac_dev :: mac_dev where
  "demo_mac_dev = \<lparr>mac = \<lparr>num_tc = 3, regs = (\<lambda>_. 0), qbv_regs = (\<lambda>_. 0)\<rparr>, mac_cam = (\<lambda>_. (0, 0)),
     mac_conf = \<lparr>mactype = XAXIENET_1G, eth_hasnobuf = False, features = 0, max_frm_size = 0,
       coalesce_count_rx = 1, coalesce_count_tx = 1, num_rx_queues = 2, abl_eponly = False\<rparr>,
     options = 0x1810, is_tsn = True, rxmem = 16384, phy_mode = PHY_INTERFACE_MODE_OTHER, last_link = 0,
     dev_addr = [2, 0, 0, 0, 0, 1], iff_promisc = False, iff_allmulti = False,
     mc_addrs = [[1, 0x80, 0xC2, 0, 0, 0xE]], mtu = 4000, net_running = True, ts_type = 0,
     tstamp_config = \<lparr>ts_flags = 0, tx_type = 0, rx_filter = 0\<rparr>, current_rx_filter = 9, flag_ptp_v2_udp = False\<rparr>"

theorem subscribed_addresses_accepted_witness:
  "accepts (axienet_set_multicast_list demo_mac_dev) [1, 0x80, 0xC2, 0, 0, 0xE]"
  using subscribed_addresses_accepted [of demo_mac_dev] by (simp add: demo_mac_dev_def)

theorem reset_configures_mac_witness:
  "options (axienet_device_reset [] demo_mac_dev) = 0x1816 \<and>
   mac_ior (axienet_device_reset [] demo_mac_dev) XAE_UAW0_OFFSET = 2"
proof -
  have "is_valid_ether_addr (dev_addr demo_mac_dev)" by code_simp
  then show ?thesis using reset_configures_mac [of demo_mac_dev "[]"]
  by (simp add: demo_mac_dev_def reset_options_def jumbo_fits_def addr_low_def word_less_nat_alt word_le_nat_alt)
qed

end
