(* ===== verification/Qbv_Config.thy ===== *)
theory Qbv_Config
  imports Qbv_Sched Shaper_Schedule Tadma_Table Mac_Setup
begin

text \<open>
  Properties of the configuration tool of the gate schedules together with the driver: what is in
  the file is what the tool shows again once the hardware has taken it over.
\<close>

section \<open>Command line\<close>

definition plain_arg :: "string \<Rightarrow> bool" where
  "plain_arg a \<longleftrightarrow> a \<noteq> [] \<and> hd a \<noteq> CHR ''-''"

lemma getopts_plain: "plain_arg a \<Longrightarrow> getopts None (a # as) = getopts None as"
  by (auto simp: plain_arg_def)

definition config_args :: "bool \<Rightarrow> string \<Rightarrow> string \<Rightarrow> string list" where
  "config_args frc ifname path = [''-c'', ifname, path] @ (if frc then [''-f''] else [])"

lemma sched_args_config:
  assumes "plain_arg path" and "qbv_get_interface ifname = i" and "0 \<le> i"
  shows "sched_args (config_args frc ifname path) =
     RunSet \<lparr>opt_port = i, opt_ifname = ifname, set_qbv = True, file_path = True,
       opt_force = (if frc then 1 else 0), opt_off = False\<rparr>"
  using assms
  by (cases path) (auto simp: sched_args_def config_args_def Let_def plain_arg_def qbv_get_interface_def [of "''-c''"])

lemma sched_args_get:
  assumes "qbv_get_interface ifname = i" and "0 \<le> i"
  shows "sched_args [''-g'', ifname] = RunGet i ifname"
  using assms by (simp add: sched_args_def Let_def qbv_get_interface_def [of "''-g''"])

text \<open>The word \<open>off\<close> counts only as the last of two arguments: with \<open>-f\<close> behind it the file is programmed.\<close>

lemma off_needs_two_arguments:
  "sched_args [''eth1'', ''off'', ''-f''] = sched_args [''eth1'']"
  "sched_args [''-s'', ''eth1'', ''off''] = sched_args [''-s'', ''eth1'']"
  by (simp_all add: sched_args_def Let_def qbv_get_interface_def)

section \<open>From the file to the schedule\<close>

definition complete_settings :: "port_settings \<Rightarrow> bool" where
  "complete_settings cfg \<longleftrightarrow> cfg_cycle_time cfg \<noteq> None \<and> cfg_start_sec cfg \<noteq> None \<and> cfg_start_ns cfg \<noteq> None \<and>
     (\<exists>gs. cfg_gate_list cfg = Some gs \<and> length gs \<le> MAX_ENTRIES \<and>
        (\<forall>g\<in>set gs. gate_state g \<noteq> None \<and> gate_time g \<noteq> None))"

text \<open>The bounds that the sample file names: a second of cycle and 8 ms of interval.\<close>

definition settings_in_range :: "port_settings \<Rightarrow> bool" where
  "settings_in_range cfg \<longleftrightarrow> the (cfg_cycle_time cfg) \<noteq> 0 \<and> the (cfg_cycle_time cfg) \<le> MAX_CYCLE_TIME \<and>
     the (cfg_start_sec cfg) \<noteq> 0 \<and> (\<forall>g\<in>set (the (cfg_gate_list cfg)). unat (the (gate_time g)) \<le> 8000000)"

lemma gate_ticks_small:
  assumes "unat t \<le> 8000000"
  shows "gate_ticks t AND 0xFFFFF = t div 8"
proof -
  have "sint t = int (unat t)" using assms by (intro sint_small) simp
  then have "gate_ticks t = word_of_int (int (unat t) div 8)" by (simp add: gate_ticks_def signed_divide_int_def)
  also have "int (unat t) div 8 = int (unat t div 8)" by (simp only: of_nat_div of_nat_numeral)
  also have "word_of_int (int (unat t div 8)) = (of_nat (unat t div 8) :: u32)" by (rule of_int_of_nat_eq)
  also have "\<dots> = t div 8" by (simp add: word_arith_nat_div)
  finally have g: "gate_ticks t = t div 8" .
  have "unat (t div 8) < 2 ^ 20" using assms by (simp add: unat_div)
  then have "(t div 8) AND mask 20 = t div 8" by (rule and_mask_id)
  then show ?thesis by (simp add: g mask_eq_exp_minus_1)
qed

text \<open>What the tool is expected to show of a port's settings.\<close>

definition shown :: "u16 \<Rightarrow> port_settings \<Rightarrow> sched_msg" where
  "shown tc cfg =
     (let gs = the (cfg_gate_list cfg)
      in Shown (of_nat (length gs)) (the (cfg_cycle_time cfg)) (take_bit 48 (the (cfg_start_sec cfg)))
           (the (cfg_start_ns cfg) AND OPER_BASE_TIME_NS_MASK)
           (map (\<lambda>g. (read_back_gs tc (the (gate_state g)), the (gate_time g) div 8 * 8)) gs))"

definition file_schedule :: "(nat \<Rightarrow> s32 \<times> s32) \<Rightarrow> sched_opts \<Rightarrow> port_settings \<Rightarrow> qbv_info \<Rightarrow> qbv_info" where
  "file_schedule junk s cfg prog = fill_gates junk (the (cfg_gate_list cfg))
     (prog\<lparr>force := opt_force s, cycle_time := the (cfg_cycle_time cfg), qbv_port := word_of_int (opt_port s),
           ptp_time_sec := the (cfg_start_sec cfg), ptp_time_ns := the (cfg_start_ns cfg)\<rparr>)"

text \<open>What the tool prints while it reads the settings: the file's values as they stand there.\<close>

definition announced :: "string \<Rightarrow> port_settings \<Rightarrow> sched_msg list" where
  "announced port cfg =
     (let gs = the (cfg_gate_list cfg)
      in [Setting port, CycleTime (the (cfg_cycle_time cfg)),
          StartTime (the (cfg_start_sec cfg)) (the (cfg_start_ns cfg))] @
         map (\<lambda>j. GateLine j (the (gate_state (gs ! j))) (the (gate_time (gs ! j)))) [0..<length gs])"

lemma gate_value_given:
  assumes "complete_settings cfg" and "j < length (the (cfg_gate_list cfg))"
  shows "gate_value junk (the (cfg_gate_list cfg)) j =
     (the (gate_state (the (cfg_gate_list cfg) ! j)), the (gate_time (the (cfg_gate_list cfg) ! j)))"
proof -
  have "the (cfg_gate_list cfg) ! j \<in> set (the (cfg_gate_list cfg))" using assms(2) by simp
  then have "gate_state (the (cfg_gate_list cfg) ! j) \<noteq> None" "gate_time (the (cfg_gate_list cfg) ! j) \<noteq> None"
    using assms(1) by (auto simp: complete_settings_def)
  then show ?thesis by (auto simp: gate_value_def)
qed

lemma build_schedule_file:
  assumes "complete_settings cfg" and "settings_in_range cfg" and "\<not> opt_off s"
  shows "build_schedule junk now s cfg prog =
     Inr (announced (port_names ! nat (opt_port s)) cfg, Program (file_schedule junk s cfg prog))"
proof -
  have "gate_lines junk (the (cfg_gate_list cfg)) q =
      map (\<lambda>j. GateLine j (the (gate_state (the (cfg_gate_list cfg) ! j))) (the (gate_time (the (cfg_gate_list cfg) ! j))))
        [0..<length (the (cfg_gate_list cfg))]" if "cycle_time q \<noteq> 0" for q
    using that gate_value_given [OF assms(1), of _ junk] by (auto simp: gate_lines_def intro!: map_cong)
  then show ?thesis
    using assms
    by (auto simp: complete_settings_def settings_in_range_def build_schedule_def file_schedule_def announced_def Let_def)
qed

lemma file_schedule_fields:
  fixes junk :: "nat \<Rightarrow> s32 \<times> s32" and s :: sched_opts and prog :: qbv_info
  assumes "complete_settings cfg" and "settings_in_range cfg"
  defines "q \<equiv> file_schedule junk s cfg prog" and "gs \<equiv> the (cfg_gate_list cfg)"
  shows "force q = opt_force s" "cycle_time q = the (cfg_cycle_time cfg)" "ptp_time_sec q = the (cfg_start_sec cfg)"
    "ptp_time_ns q = the (cfg_start_ns cfg)" "unat (list_length q) = length gs" "list_length q = of_nat (length gs)"
    "\<And>j. j < length gs \<Longrightarrow> acl_gate_state q j = the (gate_state (gs ! j))"
    "\<And>j. j < length gs \<Longrightarrow> acl_gate_time q j AND 0xFFFFF = the (gate_time (gs ! j)) div 8"
proof -
  have l: "length gs \<le> 256" using assms(1) by (auto simp: complete_settings_def gs_def)
  show "unat (list_length q) = length gs"
    using l by (simp add: q_def file_schedule_def fill_gates_def Let_def gs_def unat_of_nat)
  have all: "gate_state (gs ! j) \<noteq> None" "gate_time (gs ! j) \<noteq> None" "unat (the (gate_time (gs ! j))) \<le> 8000000"
    if "j < length gs" for j
    using assms(1,2) that by (auto simp: complete_settings_def settings_in_range_def gs_def)
  show "acl_gate_state q j = the (gate_state (gs ! j))" if "j < length gs" for j
    using gate_value_given [OF assms(1), of j junk] that by (auto simp: q_def file_schedule_def fill_gates_def gs_def)
  show "acl_gate_time q j AND 0xFFFFF = the (gate_time (gs ! j)) div 8" if "j < length gs" for j
    using gate_value_given [OF assms(1), of j junk] gate_ticks_small [OF all(3) [OF that]] that
    by (auto simp: q_def file_schedule_def fill_gates_def gs_def)
qed (simp_all add: q_def file_schedule_def fill_gates_def Let_def gs_def)

section \<open>Through the driver\<close>

definition qbv_ready :: "mac_port \<Rightarrow> bool" where
  "qbv_ready p \<longleftrightarrow> net_running (port_dev p) \<and> port_has_qbv p \<and>
     (num_tc (mac (port_dev p)) = 2 \<or> num_tc (mac (port_dev p)) = 3)"

lemma if_ioctl_port:
  assumes "ifname \<noteq> ''ep''" and "host_ports w ifname = Some p" and "qbv_ready p"
  shows "axienet_set_schedule alloc (Some q) (mac (port_dev p)) = Inr (v, lp) \<Longrightarrow>
      if_ioctl h alloc ifname (SIOCCHIOCTL (Some q)) w =
        Inr (v, None, w\<lparr>host_ports := (host_ports w)(ifname \<mapsto> upd_local p lp)\<rparr>)"
    and "axienet_get_schedule alloc (Some u) True (mac (port_dev p)) = Inr (v', Some r) \<Longrightarrow>
      if_ioctl h alloc ifname (SIOC_GET_SCHED (Some u) True) w =
        Inr (v', Some r, w\<lparr>host_ports := (host_ports w)(ifname \<mapsto> p)\<rparr>)"
  using assms
  by (simp_all add: if_ioctl_def axienet_ioctl_def tsn_ioctl_def on_local_def qbv_ready_def Let_def reply_with_def)

lemma port_interface: "ifname = ''eth1'' \<or> ifname = ''eth2'' \<Longrightarrow> 0 \<le> qbv_get_interface ifname \<and> ifname \<noteq> ''ep''"
  by (auto simp: qbv_get_interface_def)

lemma upd_local_twice [simp]: "upd_local (upd_local p lp) lp' = upd_local p lp'" "mac (port_dev (upd_local p lp)) = lp"
  by (simp_all add: upd_local_def)

text \<open>What the tool shows of a port that has taken over the schedule of a file.\<close>

lemma schedule_shown:
  fixes junk :: "nat \<Rightarrow> s32 \<times> s32" and s :: sched_opts and prog :: qbv_info
  assumes "complete_settings cfg" and "settings_in_range cfg" and "ifname \<noteq> ''ep''" and "qbv_ready p"
    and "runnable (file_schedule junk s cfg prog) (mac (port_dev p))"
    and "axienet_set_schedule True (Some (file_schedule junk s cfg prog)) (mac (port_dev p)) = Inr (0, lp1)"
    and "latched lp1 lp" and "host_ports w ifname = Some (upd_local p lp)"
  shows "\<exists>w'. get_schedule h True u ifname w = Inr ([shown (num_tc (mac (port_dev p))) cfg], w')"
proof -
  define q where "q = file_schedule junk s cfg prog"
  note f = file_schedule_fields [OF assms(1,2), where junk = junk and s = s and prog = prog, folded q_def]
  let ?lp = "mac (port_dev p)" and ?gs = "the (cfg_gate_list cfg)"
  have n: "length ?gs \<le> 256" using assms(1) by (auto simp: complete_settings_def)
  have tc: "num_tc ?lp = 2 \<or> num_tc ?lp = 3" using assms(4) by (simp add: qbv_ready_def)
  obtain q' where get: "axienet_get_schedule True (Some u) True lp = Inr (0, Some q')"
    and q': "list_length q' = list_length q" "cycle_time q' = cycle_time q AND CYCLE_TIME_DENOMINATOR_MASK"
      "ptp_time_ns q' = ptp_time_ns q AND OPER_BASE_TIME_NS_MASK" "ptp_time_sec q' = take_bit 48 (ptp_time_sec q)"
    and e: "\<And>k. k < unat (list_length q) \<Longrightarrow> acl_gate_state q' k = read_back_gs (num_tc ?lp) (acl_gate_state q k) \<and>
      acl_gate_time q' k = acl_gate_time q k AND 0xFFFFF"
    using read_back [OF assms(5) tc assms(6,7), of u] by (auto simp: q_def)
  have "num_tc lp = num_tc lp1" using assms(7) by (simp add: latched_def)
  moreover have "num_tc lp1 = num_tc ?lp" using programs [OF assms(5)] assms(6) by auto
  ultimately have r: "qbv_ready (upd_local p lp)" using assms(4) by (simp add: qbv_ready_def upd_local_def)
  have c: "cycle_time q AND 0x3FFFFFFF = cycle_time q"
    using and_mask_id [of "cycle_time q" 30] assms(2) f(2)
    by (simp add: mask_eq_exp_minus_1 settings_in_range_def word_le_nat_alt)
  have "map (\<lambda>k. (acl_gate_state q' k, acl_gate_time q' k * 8)) [0..<length ?gs] =
      map (\<lambda>g. (read_back_gs (num_tc ?lp) (the (gate_state g)), the (gate_time g) div 8 * 8)) ?gs"
    using e f(5,7,8) by (intro nth_equalityI) simp_all
  moreover have "cycle_time q \<noteq> 0" using f(2) assms(2) by (simp add: settings_in_range_def)
  moreover have "if_ioctl h True ifname (SIOC_GET_SCHED (Some u) True) w =
      Inr (0, Some q', w\<lparr>host_ports := (host_ports w)(ifname \<mapsto> upd_local p lp)\<rparr>)"
    by (rule if_ioctl_port(2) [OF assms(3,8) r]) (simp add: get)
  ultimately show ?thesis using q' f n c by (simp add: get_schedule_def shown_def Let_def)
qed

text \<open>
  C34 (file_schedule_shown): programming a MAC port from a file with all its settings in range
  prints the settings as they stand in the file and nothing else (no failure), and asks the
  hardware to change to the schedule; once the hardware has taken it over, asking for it shows
  the cycle, the low 48 bits of the start's seconds and the low 30 of its nanoseconds, and for
  every entry the time rounded down to the 8 ns ticks of the hardware and the gates as the
  hardware has them: with three queues the low three bits of the state, with two queues the gates
  of the best-effort and the scheduled queue, where both open are shown as 3 and not as 5. A
  schedule the port is still changing to must be forced.
\<close>

theorem file_schedule_shown:
  assumes "ifname = ''eth1'' \<or> ifname = ''eth2''" and "plain_arg path" and "read_file path = Some settings"
    and "complete_settings cfg" and "settings_in_range cfg"
    and "cfg = settings (port_names ! nat (qbv_get_interface ifname))"
    and "host_ports w ifname = Some p" and "qbv_ready p"
    and "frc \<or> axienet_qbv_ior (mac (port_dev p)) PORT_STATUS AND 1 = 0"
  shows "\<exists>w1 p1. qbv_sched_main h True True junk prog now read_file (config_args frc ifname path) w =
       Inr (announced (port_names ! nat (qbv_get_interface ifname)) cfg, w1) \<and>
     host_ports w1 ifname = Some p1 \<and>
     sched_started (axienet_qbv_ior (mac (port_dev p1)) CONFIG_CHANGE) (of_nat (length (the (cfg_gate_list cfg)))) \<and>
     (\<forall>lp w2. latched (mac (port_dev p1)) lp \<and> host_ports w2 ifname = Some (upd_local p1 lp) \<longrightarrow>
        (\<exists>w3. qbv_sched_main h True True junk prog now read_file [''-g'', ifname] w2 =
           Inr ([shown (num_tc (mac (port_dev p))) cfg], w3)))"
proof -
  note i = port_interface [OF assms(1)]
  define s where "s = \<lparr>opt_port = qbv_get_interface ifname, opt_ifname = ifname, set_qbv = True, file_path = True,
       opt_force = (if frc then 1 else 0), opt_off = False\<rparr>"
  have a: "sched_args (config_args frc ifname path) = RunSet s"
    unfolding s_def by (rule sched_args_config [OF assms(2) refl]) (use i in simp)
  have g: "sched_args [''-g'', ifname] = RunGet (qbv_get_interface ifname) ifname"
    by (rule sched_args_get [OF refl]) (use i in simp)
  let ?q = "file_schedule junk s cfg prog"
  have "length (the (cfg_gate_list cfg)) \<le> 256" using assms(4) by (auto simp: complete_settings_def)
  then have r: "runnable ?q (mac (port_dev p))"
    using assms(5,9) file_schedule_fields [OF assms(4,5), where junk = junk and s = s and prog = prog]
    by (auto simp: runnable_def settings_in_range_def s_def word_le_nat_alt)
  obtain lp1 where set: "axienet_set_schedule True (Some ?q) (mac (port_dev p)) = Inr (0, lp1)"
    and st: "sched_started (axienet_qbv_ior lp1 CONFIG_CHANGE) (list_length ?q)"
    using programs [OF r] by auto
  define w1 where "w1 = w\<lparr>host_ports := (host_ports w)(ifname \<mapsto> upd_local p lp1)\<rparr>"
  have "build_schedule junk now s cfg prog = Inr (announced (port_names ! nat (opt_port s)) cfg, Program ?q)"
    by (rule build_schedule_file [OF assms(4,5)]) (simp add: s_def)
  moreover have "set_schedule h True ?q ifname w = Inr ([], w1)"
    using if_ioctl_port(1) [OF conjunct2 [OF i] assms(7,8) set, of h] by (simp add: set_schedule_def w1_def)
  ultimately have main: "qbv_sched_main h True True junk prog now read_file (config_args frc ifname path) w =
      Inr (announced (port_names ! nat (qbv_get_interface ifname)) cfg, w1)"
    using a assms(2,3,6) by (simp add: qbv_sched_main_def Let_def s_def config_args_def plain_arg_def)
  have "\<exists>w3. qbv_sched_main h True True junk prog now read_file [''-g'', ifname] w2 =
      Inr ([shown (num_tc (mac (port_dev p))) cfg], w3)"
    if l: "latched lp1 lp" "host_ports w2 ifname = Some (upd_local p lp)" for lp w2
  proof -
    obtain w3 where "get_schedule h True (prog\<lparr>qbv_port := word_of_int (qbv_get_interface ifname)\<rparr>) ifname w2 =
        Inr ([shown (num_tc (mac (port_dev p))) cfg], w3)"
      using schedule_shown [OF assms(4,5) conjunct2 [OF i] assms(8) r set l] by blast
    then show ?thesis using g by (simp add: qbv_sched_main_def)
  qed
  with main st file_schedule_fields(6) [OF assms(4,5), where junk = junk and s = s and prog = prog] show ?thesis
    by (intro exI [of _ w1] exI [of _ "upd_local p lp1"]) (auto simp: w1_def)
qed

text \<open>A port switched off has its gates open.\<close>

lemma off_opens_gates:
  assumes "ifname = ''eth1'' \<or> ifname = ''eth2''" and "read_file ''/etc/qbv.cfg'' = Some settings"
    and "complete_settings (settings (port_names ! nat (qbv_get_interface ifname)))"
    and "host_ports w ifname = Some p" and "qbv_ready p"
  shows "\<exists>out. qbv_sched_main h True True junk prog now read_file [ifname, ''off''] w =
     Inr (out, w\<lparr>host_ports := (host_ports w)(ifname \<mapsto>
       upd_local p (axienet_qbv_iow (mac (port_dev p)) CONFIG_CHANGE 7))\<rparr>)"
proof -
  note i = port_interface [OF assms(1)]
  let ?cfg = "settings (port_names ! nat (qbv_get_interface ifname))"
  obtain s where a: "sched_args [ifname, ''off''] = RunSet s" "opt_off s" "\<not> file_path s" "set_qbv s"
    "opt_ifname s = ifname" "opt_port s = qbv_get_interface ifname"
    using i by (auto simp: sched_args_def Let_def)
  obtain q out where "build_schedule junk now s ?cfg prog = Inr (out, Program q)" "cycle_time q = 0"
    using assms(3) a(2) by (auto simp: complete_settings_def build_schedule_def Let_def fill_gates_def)
  moreover have "axienet_set_schedule True (Some q) (mac (port_dev p)) =
      Inr (0, axienet_qbv_iow (mac (port_dev p)) CONFIG_CHANGE 7)" if "cycle_time q = 0" for q
    using that by (simp add: axienet_set_schedule_def axienet_set_schedule_body_def)
  ultimately show ?thesis
    using a assms(2) if_ioctl_port(1) [OF conjunct2 [OF i] assms(4,5), of True q 0 _ h]
    by (simp add: qbv_sched_main_def Let_def set_schedule_def)
qed

section \<open>Witness\<close>

definition demo_settings :: port_settings where
  "demo_settings = \<lparr>cfg_cycle_time = Some 10000000, cfg_start_sec = Some 5, cfg_start_ns = Some 0,
     cfg_gate_list = Some [\<lparr>gate_state = Some 7, gate_time = Some 2000003\<rparr>,
                           \<lparr>gate_state = Some 4, gate_time = Some 8000000\<rparr>]\<rparr>"

definition demo_port :: mac_port where
  "demo_port = \<lparr>port_dev = demo_mac_dev, port_tadma = demo_dev, port_has_qbv = True\<rparr>"

definition demo_sched_host :: sched_host where
  "demo_sched_host = \<lparr>host_ports = (\<lambda>_. Some demo_port), host_ep = None\<rparr>"

theorem file_schedule_shown_witness:
  "\<exists>w1 w2 w3. qbv_sched_main demo_hash True True (\<lambda>_. (0, 0)) demo_qbv 0 (\<lambda>_. Some (\<lambda>_. demo_settings))
       [''-c'', ''eth1'', ''/tmp/q''] demo_sched_host =
       Inr ([Setting ''temac1'', CycleTime 10000000, StartTime 5 0, GateLine 0 7 2000003, GateLine 1 4 8000000], w1) \<and>
     qbv_sched_main demo_hash True True (\<lambda>_. (0, 0)) demo_qbv 0 (\<lambda>_. Some (\<lambda>_. demo_settings)) [''-g'', ''eth1''] w2 =
       Inr ([Shown 2 10000000 5 0 [(7, 2000000), (4, 8000000)]], w3)"
proof -
  have "complete_settings demo_settings" "settings_in_range demo_settings"
    by (simp_all add: complete_settings_def settings_in_range_def demo_settings_def word_le_nat_alt)
  then obtain w1 p1 where w1: "qbv_sched_main demo_hash True True (\<lambda>_. (0, 0)) demo_qbv 0 (\<lambda>_. Some (\<lambda>_. demo_settings))
       [''-c'', ''eth1'', ''/tmp/q''] demo_sched_host =
         Inr (announced (port_names ! nat (qbv_get_interface ''eth1'')) demo_settings, w1)"
    and st: "sched_started (axienet_qbv_ior (mac (port_dev p1)) CONFIG_CHANGE) (of_nat (length (the (cfg_gate_list demo_settings))))"
    and sh: "\<forall>lp w2. latched (mac (port_dev p1)) lp \<and> host_ports w2 ''eth1'' = Some (upd_local p1 lp) \<longrightarrow>
      (\<exists>w3. qbv_sched_main demo_hash True True (\<lambda>_. (0, 0)) demo_qbv 0 (\<lambda>_. Some (\<lambda>_. demo_settings)) [''-g'', ''eth1''] w2 =
        Inr ([shown (num_tc (mac (port_dev demo_port))) demo_settings], w3))"
    using file_schedule_shown [of "''eth1''" "''/tmp/q''" "\<lambda>_. Some (\<lambda>_. demo_settings)" "\<lambda>_. demo_settings"
        demo_settings demo_sched_host demo_port False demo_hash "\<lambda>_. (0, 0)" demo_qbv 0]
    by (simp add: plain_arg_def demo_port_def qbv_ready_def axienet_qbv_ior_def config_args_def demo_mac_dev_def
        demo_sched_host_def) blast
  let ?lp = "oper_copy (mac (port_dev p1))"
  have "latched (mac (port_dev p1)) ?lp" by (rule latched_oper_copy) (use st in \<open>simp add: sched_started_def\<close>)
  then obtain w3 where "qbv_sched_main demo_hash True True (\<lambda>_. (0, 0)) demo_qbv 0 (\<lambda>_. Some (\<lambda>_. demo_settings)) [''-g'', ''eth1'']
        \<lparr>host_ports = (\<lambda>_. Some (upd_local p1 ?lp)), host_ep = None\<rparr> =
      Inr ([shown (num_tc (mac (port_dev demo_port))) demo_settings], w3)"
    using sh by fastforce
  moreover have "shown (num_tc (mac (port_dev demo_port))) demo_settings =
      Shown 2 10000000 5 0 [(7, 2000000), (4, 8000000)]"
    by (simp add: shown_def demo_port_def demo_mac_dev_def demo_settings_def read_back_gs_def Let_def take_bit_eq_mod)
  moreover have "announced (port_names ! nat (qbv_get_interface ''eth1'')) demo_settings =
      [Setting ''temac1'', CycleTime 10000000, StartTime 5 0, GateLine 0 7 2000003, GateLine 1 4 8000000]"
    by (simp add: announced_def port_names_def qbv_get_interface_def demo_settings_def Let_def upt_rec)
  ultimately show ?thesis using w1 by auto
qed

end
