(* ===== verification/Ptp_Bmc.thy ===== *)
theory Ptp_Bmc
  imports Prelude
begin

text \<open>
  The best master clock algorithm and the port state machines of the PTP daemon,
  \<^verbatim>\<open>app/linuxptp-3.0\<close>: \<^verbatim>\<open>bmc.c\<close>, \<^verbatim>\<open>telecom.c\<close>, \<^verbatim>\<open>fsm.c\<close>, \<^verbatim>\<open>designated_fsm.c\<close>, the foreign masters
  and the state of a port in \<^verbatim>\<open>port.c\<close>, and the state decision event of \<^verbatim>\<open>clock.c\<close>.
\<close>

section \<open>Data sets and their comparison\<close>

record PortIdentity =
  clockIdentity :: "u8 list"
  portNumber :: u16

record ClockQuality =
  clockClass :: u8
  clockAccuracy :: u8
  offsetScaledLogVariance :: u16

record dataset =
  priority1 :: u8
  identity :: "u8 list"
  quality :: ClockQuality
  priority2 :: u8
  localPriority :: u8
  stepsRemoved :: u16
  sender :: PortIdentity
  receiver :: PortIdentity

abbreviation (input) A_BETTER_TOPO :: int where "A_BETTER_TOPO \<equiv> 2"
abbreviation (input) A_BETTER :: int where "A_BETTER \<equiv> 1"
abbreviation (input) B_BETTER :: int where "B_BETTER \<equiv> - 1"
abbreviation (input) B_BETTER_TOPO :: int where "B_BETTER_TOPO \<equiv> - 2"

text \<open>\<open>memcmp\<close> on blocks of the same size, and the bytes of a port identity in memory.\<close>

fun memcmp :: "u8 list \<Rightarrow> u8 list \<Rightarrow> int" where
  "memcmp (a # as) (b # bs) = (if a < b then - 1 else if a > b then 1 else memcmp as bs)"
| "memcmp _ _ = 0"

definition pid_bytes :: "PortIdentity \<Rightarrow> u8 list" where
  "pid_bytes p = clockIdentity p @ [ucast (portNumber p), ucast (drop_bit 8 (portNumber p))]"

definition dscmp2 :: "dataset \<Rightarrow> dataset \<Rightarrow> int" where
  "dscmp2 a b =
     (let A = unat (stepsRemoved a); B = unat (stepsRemoved b)
      in if A + 1 < B then A_BETTER
         else if B + 1 < A then B_BETTER
         else if A < B
         then let diff = memcmp (pid_bytes (receiver b)) (pid_bytes (sender b))
              in if diff < 0 then A_BETTER else if diff > 0 then A_BETTER_TOPO else 0
         else if A > B
         then let diff = memcmp (pid_bytes (receiver a)) (pid_bytes (sender a))
              in if diff < 0 then B_BETTER else if diff > 0 then B_BETTER_TOPO else 0
         else
           let diff = memcmp (pid_bytes (sender a)) (pid_bytes (sender b))
           in if diff < 0 then A_BETTER_TOPO
              else if diff > 0 then B_BETTER_TOPO
              else if portNumber (receiver a) < portNumber (receiver b) then A_BETTER_TOPO
              else if portNumber (receiver a) > portNumber (receiver b) then B_BETTER_TOPO
              else 0)"

text \<open>A null pointer is \<open>None\<close>; the test for the same pointer makes a difference only for two of them.\<close>

definition cmp_then :: "'a::linorder \<Rightarrow> 'a \<Rightarrow> int \<Rightarrow> int" where
  "cmp_then x y r = (if x < y then A_BETTER else if x > y then B_BETTER else r)"

definition dscmp_ds :: "dataset \<Rightarrow> dataset \<Rightarrow> int" where
  "dscmp_ds a b =
     (let diff = memcmp (identity a) (identity b)
      in if diff = 0 then dscmp2 a b
         else
           cmp_then (priority1 a) (priority1 b)
            (cmp_then (clockClass (quality a)) (clockClass (quality b))
             (cmp_then (clockAccuracy (quality a)) (clockAccuracy (quality b))
              (cmp_then (offsetScaledLogVariance (quality a)) (offsetScaledLogVariance (quality b))
               (cmp_then (priority2 a) (priority2 b)
                (if diff < 0 then A_BETTER else B_BETTER))))))"

definition telecom_dscmp_ds :: "dataset \<Rightarrow> dataset \<Rightarrow> int" where
  "telecom_dscmp_ds a b =
     cmp_then (clockClass (quality a)) (clockClass (quality b))
      (cmp_then (clockAccuracy (quality a)) (clockAccuracy (quality b))
       (cmp_then (offsetScaledLogVariance (quality a)) (offsetScaledLogVariance (quality b))
        (cmp_then (priority2 a) (priority2 b)
         (cmp_then (localPriority a) (localPriority b)
          (if clockClass (quality a) \<le> 127 then dscmp2 a b
           else let diff = memcmp (identity a) (identity b)
                in if diff = 0 then dscmp2 a b else if diff < 0 then A_BETTER else B_BETTER)))))"

definition null_cmp :: "(dataset \<Rightarrow> dataset \<Rightarrow> int) \<Rightarrow> dataset option \<Rightarrow> dataset option \<Rightarrow> int" where
  "null_cmp f a b =
     (case (a, b) of
        (None, None) \<Rightarrow> 0
      | (Some a, None) \<Rightarrow> A_BETTER
      | (None, Some b) \<Rightarrow> B_BETTER
      | (Some a, Some b) \<Rightarrow> f a b)"

definition dscmp :: "dataset option \<Rightarrow> dataset option \<Rightarrow> int" where
  "dscmp = null_cmp dscmp_ds"

definition telecom_dscmp :: "dataset option \<Rightarrow> dataset option \<Rightarrow> int" where
  "telecom_dscmp = null_cmp telecom_dscmp_ds"

section \<open>State machines\<close>

datatype port_state =
    PS_INITIALIZING | PS_FAULTY | PS_DISABLED | PS_LISTENING | PS_PRE_MASTER | PS_MASTER | PS_PASSIVE
  | PS_UNCALIBRATED | PS_SLAVE | PS_GRAND_MASTER

datatype fsm_event =
    EV_NONE | EV_POWERUP | EV_INITIALIZE | EV_DESIGNATED_ENABLED | EV_DESIGNATED_DISABLED | EV_FAULT_CLEARED
  | EV_FAULT_DETECTED | EV_STATE_DECISION_EVENT | EV_QUALIFICATION_TIMEOUT_EXPIRES
  | EV_ANNOUNCE_RECEIPT_TIMEOUT_EXPIRES | EV_SYNCHRONIZATION_FAULT | EV_MASTER_CLOCK_SELECTED
  | EV_INIT_COMPLETE | EV_RS_MASTER | EV_RS_GRAND_MASTER | EV_RS_SLAVE | EV_RS_PASSIVE

definition ptp_fsm :: "port_state \<Rightarrow> fsm_event \<Rightarrow> bool \<Rightarrow> port_state" where
  "ptp_fsm state event mdiff =
     (if event = EV_INITIALIZE \<or> event = EV_POWERUP then PS_INITIALIZING
      else case state of
        PS_INITIALIZING \<Rightarrow>
          (case event of EV_FAULT_DETECTED \<Rightarrow> PS_FAULTY | EV_INIT_COMPLETE \<Rightarrow> PS_LISTENING | _ \<Rightarrow> state)
      | PS_FAULTY \<Rightarrow>
          (case event of EV_DESIGNATED_DISABLED \<Rightarrow> PS_DISABLED | EV_FAULT_CLEARED \<Rightarrow> PS_INITIALIZING | _ \<Rightarrow> state)
      | PS_DISABLED \<Rightarrow> (if event = EV_DESIGNATED_ENABLED then PS_INITIALIZING else state)
      | PS_LISTENING \<Rightarrow>
          (case event of
             EV_DESIGNATED_DISABLED \<Rightarrow> PS_DISABLED | EV_FAULT_DETECTED \<Rightarrow> PS_FAULTY
           | EV_ANNOUNCE_RECEIPT_TIMEOUT_EXPIRES \<Rightarrow> PS_MASTER | EV_RS_MASTER \<Rightarrow> PS_PRE_MASTER
           | EV_RS_GRAND_MASTER \<Rightarrow> PS_GRAND_MASTER | EV_RS_SLAVE \<Rightarrow> PS_UNCALIBRATED
           | EV_RS_PASSIVE \<Rightarrow> PS_PASSIVE | _ \<Rightarrow> state)
      | PS_PRE_MASTER \<Rightarrow>
          (case event of
             EV_DESIGNATED_DISABLED \<Rightarrow> PS_DISABLED | EV_FAULT_DETECTED \<Rightarrow> PS_FAULTY
           | EV_QUALIFICATION_TIMEOUT_EXPIRES \<Rightarrow> PS_MASTER | EV_RS_SLAVE \<Rightarrow> PS_UNCALIBRATED
           | EV_RS_PASSIVE \<Rightarrow> PS_PASSIVE | _ \<Rightarrow> state)
      | PS_MASTER \<Rightarrow>
          (case event of
             EV_DESIGNATED_DISABLED \<Rightarrow> PS_DISABLED | EV_FAULT_DETECTED \<Rightarrow> PS_FAULTY
           | EV_RS_SLAVE \<Rightarrow> PS_UNCALIBRATED | EV_RS_PASSIVE \<Rightarrow> PS_PASSIVE | _ \<Rightarrow> state)
      | PS_GRAND_MASTER \<Rightarrow>
          (case event of
             EV_DESIGNATED_DISABLED \<Rightarrow> PS_DISABLED | EV_FAULT_DETECTED \<Rightarrow> PS_FAULTY
           | EV_RS_SLAVE \<Rightarrow> PS_UNCALIBRATED | EV_RS_PASSIVE \<Rightarrow> PS_PASSIVE | _ \<Rightarrow> state)
      | PS_PASSIVE \<Rightarrow>
          (case event of
             EV_DESIGNATED_DISABLED \<Rightarrow> PS_DISABLED | EV_FAULT_DETECTED \<Rightarrow> PS_FAULTY
           | EV_ANNOUNCE_RECEIPT_TIMEOUT_EXPIRES \<Rightarrow> PS_MASTER | EV_RS_MASTER \<Rightarrow> PS_PRE_MASTER
           | EV_RS_GRAND_MASTER \<Rightarrow> PS_GRAND_MASTER | EV_RS_SLAVE \<Rightarrow> PS_UNCALIBRATED | _ \<Rightarrow> state)
      | PS_UNCALIBRATED \<Rightarrow>
          (case event of
             EV_DESIGNATED_DISABLED \<Rightarrow> PS_DISABLED | EV_FAULT_DETECTED \<Rightarrow> PS_FAULTY
           | EV_ANNOUNCE_RECEIPT_TIMEOUT_EXPIRES \<Rightarrow> PS_MASTER | EV_MASTER_CLOCK_SELECTED \<Rightarrow> PS_SLAVE
           | EV_RS_MASTER \<Rightarrow> PS_PRE_MASTER | EV_RS_GRAND_MASTER \<Rightarrow> PS_GRAND_MASTER
           | EV_RS_SLAVE \<Rightarrow> PS_UNCALIBRATED | EV_RS_PASSIVE \<Rightarrow> PS_PASSIVE | _ \<Rightarrow> state)
      | PS_SLAVE \<Rightarrow>
          (case event of
             EV_DESIGNATED_DISABLED \<Rightarrow> PS_DISABLED | EV_FAULT_DETECTED \<Rightarrow> PS_FAULTY
           | EV_ANNOUNCE_RECEIPT_TIMEOUT_EXPIRES \<Rightarrow> PS_MASTER | EV_SYNCHRONIZATION_FAULT \<Rightarrow> PS_UNCALIBRATED
           | EV_RS_MASTER \<Rightarrow> PS_PRE_MASTER | EV_RS_GRAND_MASTER \<Rightarrow> PS_GRAND_MASTER
           | EV_RS_SLAVE \<Rightarrow> (if mdiff then PS_UNCALIBRATED else state) | EV_RS_PASSIVE \<Rightarrow> PS_PASSIVE
           | _ \<Rightarrow> state))"

definition ptp_slave_fsm :: "port_state \<Rightarrow> fsm_event \<Rightarrow> bool \<Rightarrow> port_state" where
  "ptp_slave_fsm state event mdiff =
     (if event = EV_INITIALIZE \<or> event = EV_POWERUP then PS_INITIALIZING
      else case state of
        PS_INITIALIZING \<Rightarrow>
          (case event of EV_FAULT_DETECTED \<Rightarrow> PS_FAULTY | EV_INIT_COMPLETE \<Rightarrow> PS_LISTENING | _ \<Rightarrow> state)
      | PS_FAULTY \<Rightarrow>
          (case event of EV_DESIGNATED_DISABLED \<Rightarrow> PS_DISABLED | EV_FAULT_CLEARED \<Rightarrow> PS_INITIALIZING | _ \<Rightarrow> state)
      | PS_DISABLED \<Rightarrow> (if event = EV_DESIGNATED_ENABLED then PS_INITIALIZING else state)
      | PS_LISTENING \<Rightarrow>
          (case event of
             EV_DESIGNATED_DISABLED \<Rightarrow> PS_DISABLED | EV_FAULT_DETECTED \<Rightarrow> PS_FAULTY
           | EV_ANNOUNCE_RECEIPT_TIMEOUT_EXPIRES \<Rightarrow> PS_LISTENING | EV_RS_MASTER \<Rightarrow> PS_LISTENING
           | EV_RS_GRAND_MASTER \<Rightarrow> PS_LISTENING | EV_RS_PASSIVE \<Rightarrow> PS_LISTENING
           | EV_RS_SLAVE \<Rightarrow> PS_UNCALIBRATED | _ \<Rightarrow> state)
      | PS_UNCALIBRATED \<Rightarrow>
          (case event of
             EV_DESIGNATED_DISABLED \<Rightarrow> PS_DISABLED | EV_FAULT_DETECTED \<Rightarrow> PS_FAULTY
           | EV_ANNOUNCE_RECEIPT_TIMEOUT_EXPIRES \<Rightarrow> PS_LISTENING | EV_RS_MASTER \<Rightarrow> PS_LISTENING
           | EV_RS_GRAND_MASTER \<Rightarrow> PS_LISTENING | EV_RS_PASSIVE \<Rightarrow> PS_LISTENING
           | EV_MASTER_CLOCK_SELECTED \<Rightarrow> PS_SLAVE | _ \<Rightarrow> state)
      | PS_SLAVE \<Rightarrow>
          (case event of
             EV_DESIGNATED_DISABLED \<Rightarrow> PS_DISABLED | EV_FAULT_DETECTED \<Rightarrow> PS_FAULTY
           | EV_ANNOUNCE_RECEIPT_TIMEOUT_EXPIRES \<Rightarrow> PS_LISTENING | EV_RS_MASTER \<Rightarrow> PS_LISTENING
           | EV_RS_GRAND_MASTER \<Rightarrow> PS_LISTENING | EV_RS_PASSIVE \<Rightarrow> PS_LISTENING
           | EV_SYNCHRONIZATION_FAULT \<Rightarrow> PS_UNCALIBRATED
           | EV_RS_SLAVE \<Rightarrow> (if mdiff then PS_UNCALIBRATED else state) | _ \<Rightarrow> state)
      | _ \<Rightarrow> state)"

definition designated_master_fsm :: "port_state \<Rightarrow> fsm_event \<Rightarrow> bool \<Rightarrow> port_state" where
  "designated_master_fsm state event mdiff =
     (if event = EV_INITIALIZE \<or> event = EV_POWERUP then PS_INITIALIZING
      else case state of
        PS_INITIALIZING \<Rightarrow>
          (case event of EV_FAULT_DETECTED \<Rightarrow> PS_FAULTY | EV_INIT_COMPLETE \<Rightarrow> PS_MASTER | _ \<Rightarrow> state)
      | PS_FAULTY \<Rightarrow> (if event = EV_FAULT_CLEARED then PS_INITIALIZING else state)
      | PS_MASTER \<Rightarrow> (if event = EV_FAULT_DETECTED then PS_FAULTY else state)
      | _ \<Rightarrow> state)"

definition designated_slave_fsm :: "port_state \<Rightarrow> fsm_event \<Rightarrow> bool \<Rightarrow> port_state" where
  "designated_slave_fsm state event mdiff =
     (if event = EV_INITIALIZE \<or> event = EV_POWERUP then PS_INITIALIZING
      else case state of
        PS_INITIALIZING \<Rightarrow>
          (case event of EV_FAULT_DETECTED \<Rightarrow> PS_FAULTY | EV_INIT_COMPLETE \<Rightarrow> PS_SLAVE | _ \<Rightarrow> state)
      | PS_FAULTY \<Rightarrow> (if event = EV_FAULT_CLEARED then PS_INITIALIZING else state)
      | PS_SLAVE \<Rightarrow> (if event = EV_FAULT_DETECTED then PS_FAULTY else state)
      | _ \<Rightarrow> state)"

section \<open>Foreign masters\<close>

text \<open>An announce message: what it says, who sent it, when it came and at which interval they come.\<close>

record announce =
  grandmasterPriority1 :: u8
  grandmasterClockQuality :: ClockQuality
  grandmasterPriority2 :: u8
  grandmasterIdentity :: "u8 list"
  ann_stepsRemoved :: u16
  sourcePortIdentity :: PortIdentity
  ts_host :: int
  logMessageInterval :: int
  ann_utc_offset :: int
  ann_flags :: u8
  ann_timeSource :: u8

text \<open>The messages are in the order of the list, newest first; their number is its length.\<close>

record foreign_clock =
  fc_messages :: "announce list"
  fc_sender :: PortIdentity
  fc_dataset :: dataset

abbreviation (input) FOREIGN_MASTER_THRESHOLD :: nat where "FOREIGN_MASTER_THRESHOLD \<equiv> 2"
abbreviation (input) NSEC2SEC :: int where "NSEC2SEC \<equiv> 1000000000"

definition msg_current :: "int \<Rightarrow> announce \<Rightarrow> bool" where
  "msg_current now m =
     (let l = logMessageInterval m;
          tmo = (if l \<le> - 31 then 0
                 else if l \<ge> 31 then 9223372036854775807
                 else if l < 0 then 4 * NSEC2SEC div 2 ^ nat (- l)
                 else 4 * 2 ^ nat l * NSEC2SEC)
      in now - ts_host m < tmo)"

definition announce_compare :: "announce \<Rightarrow> announce \<Rightarrow> bool" where
  "announce_compare m1 m2 \<longleftrightarrow>
     grandmasterPriority1 m1 \<noteq> grandmasterPriority1 m2 \<or> grandmasterClockQuality m1 \<noteq> grandmasterClockQuality m2 \<or>
     grandmasterPriority2 m1 \<noteq> grandmasterPriority2 m2 \<or> grandmasterIdentity m1 \<noteq> grandmasterIdentity m2 \<or>
     ann_stepsRemoved m1 \<noteq> ann_stepsRemoved m2"

definition fc_clear :: "foreign_clock \<Rightarrow> foreign_clock" where
  "fc_clear fc = fc\<lparr>fc_messages := []\<rparr>"

definition fc_prune :: "int \<Rightarrow> foreign_clock \<Rightarrow> foreign_clock" where
  "fc_prune now fc =
     fc\<lparr>fc_messages := rev (dropWhile (\<lambda>m. \<not> msg_current now m) (rev (take FOREIGN_MASTER_THRESHOLD (fc_messages fc))))\<rparr>"

section \<open>Ports\<close>

text \<open>A pointer to a foreign master of the port is the identity of its sender, which is different for each.\<close>

record ptp_port =
  p_state :: port_state
  portIdentity :: PortIdentity
  p_localPriority :: u8
  master_only :: bool
  bmca_noop :: bool
  slave_only :: bool
  jbod :: bool
  foreign_masters :: "foreign_clock list"
  p_best :: "PortIdentity option"

definition find_fc :: "PortIdentity \<Rightarrow> ptp_port \<Rightarrow> foreign_clock option" where
  "find_fc s p = List.find (\<lambda>fc. fc_sender fc = s) (foreign_masters p)"

definition port_best_foreign :: "ptp_port \<Rightarrow> dataset option" where
  "port_best_foreign p = Option.bind (p_best p) (\<lambda>s. map_option fc_dataset (find_fc s p))"

text \<open>Put a message in front of those of one master; the other masters stay.\<close>

definition upd_fc :: "PortIdentity \<Rightarrow> (foreign_clock \<Rightarrow> foreign_clock) \<Rightarrow> ptp_port \<Rightarrow> ptp_port" where
  "upd_fc s f p = p\<lparr>foreign_masters := map (\<lambda>fc. if fc_sender fc = s then f fc else fc) (foreign_masters p)\<rparr>"

definition add_message :: "announce \<Rightarrow> foreign_clock \<Rightarrow> foreign_clock" where
  "add_message m fc = fc\<lparr>fc_messages := m # fc_messages fc\<rparr>"

definition add_foreign_master :: "bool \<Rightarrow> int \<Rightarrow> announce \<Rightarrow> ptp_port \<Rightarrow> bool \<times> ptp_port" where
  "add_foreign_master malloc_ok now m p =
     (case find_fc (sourcePortIdentity m) p of
        None \<Rightarrow>
          if \<not> malloc_ok then (False, p)
          else (False, p\<lparr>foreign_masters :=
                 \<lparr>fc_messages = [], fc_sender = sourcePortIdentity m,
                  fc_dataset = \<lparr>priority1 = 0, identity = replicate 8 0,
                    quality = \<lparr>clockClass = 0, clockAccuracy = 0, offsetScaledLogVariance = 0\<rparr>, priority2 = 0,
                    localPriority = 0, stepsRemoved = 0, sender = sourcePortIdentity m,
                    receiver = \<lparr>clockIdentity = replicate 8 0, portNumber = 0\<rparr>\<rparr>\<rparr> # foreign_masters p\<rparr>)
      | Some fc \<Rightarrow>
          let fc = fc_prune now fc;
              broke_threshold = (length (fc_messages fc) = FOREIGN_MASTER_THRESHOLD - 1);
              diff = (case fc_messages fc of [] \<Rightarrow> False | tmp # _ \<Rightarrow> announce_compare m tmp)
          in (broke_threshold \<or> diff, upd_fc (sourcePortIdentity m) (\<lambda>fc. add_message m (fc_prune now fc)) p))"

text \<open>
  The sender is compared with that of \<open>p->best\<close> without a test for a null pointer: a port that
  follows or is passive without a best master faults.
\<close>

definition update_current_master :: "bool \<Rightarrow> int \<Rightarrow> announce \<Rightarrow> ptp_port \<Rightarrow> (bool \<times> ptp_port) checked" where
  "update_current_master malloc_ok now m p =
     (case p_best p of
        None \<Rightarrow> Inl NullPointer
      | Some s \<Rightarrow>
          (case find_fc s p of
             None \<Rightarrow> Inl DanglingPointer
           | Some fc \<Rightarrow>
               if fc_sender fc = sourcePortIdentity m
               then let fc = fc_prune now fc
                    in Inr (case fc_messages fc of [] \<Rightarrow> False | tmp # _ \<Rightarrow> announce_compare m tmp,
                            upd_fc (fc_sender fc) (\<lambda>fc. add_message m (fc_prune now fc)) p)
               else Inr (add_foreign_master malloc_ok now m p)))"

definition process_announce :: "u8 \<Rightarrow> bool \<Rightarrow> int \<Rightarrow> announce \<Rightarrow> ptp_port \<Rightarrow> (bool \<times> ptp_port) checked" where
  "process_announce max_steps malloc_ok now m p =
     (if ann_stepsRemoved m \<ge> ucast max_steps then Inr (False, p)
      else if p_state p \<in> {PS_INITIALIZING, PS_FAULTY, PS_DISABLED} then Inr (False, p)
      else if p_state p \<in> {PS_LISTENING, PS_PRE_MASTER, PS_MASTER, PS_GRAND_MASTER}
      then Inr (add_foreign_master malloc_ok now m p)
      else update_current_master malloc_ok now m p)"

definition announce_to_dataset :: "announce \<Rightarrow> ptp_port \<Rightarrow> dataset" where
  "announce_to_dataset m p =
     \<lparr>priority1 = grandmasterPriority1 m, identity = grandmasterIdentity m, quality = grandmasterClockQuality m,
      priority2 = grandmasterPriority2 m, localPriority = p_localPriority p, stepsRemoved = ann_stepsRemoved m,
      sender = sourcePortIdentity m, receiver = portIdentity p\<rparr>"

text \<open>The loop over the foreign masters, with the best of those before.\<close>

fun best_loop ::
  "(dataset option \<Rightarrow> dataset option \<Rightarrow> int) \<Rightarrow> int \<Rightarrow> ptp_port \<Rightarrow> foreign_clock list \<Rightarrow> foreign_clock option \<Rightarrow>
   foreign_clock option \<times> foreign_clock list"
where
  "best_loop cmp now p [] best = (best, [])"
| "best_loop cmp now p (fc # fcs) best =
     (case fc_messages fc of
        [] \<Rightarrow> let (best, fcs) = best_loop cmp now p fcs best in (best, fc # fcs)
      | m # _ \<Rightarrow>
          let fc = fc_prune now (fc\<lparr>fc_dataset := announce_to_dataset m p\<rparr>)
          in if length (fc_messages fc) < FOREIGN_MASTER_THRESHOLD
             then let (best, fcs) = best_loop cmp now p fcs best in (best, fc # fcs)
             else if best = None \<or> cmp (Some (fc_dataset fc)) (map_option fc_dataset best) > 0
             then let (best, fcs) = best_loop cmp now p fcs (Some fc) in (best, fc # fcs)
             else let (best, fcs) = best_loop cmp now p fcs best in (best, fc_clear fc # fcs))"

definition port_compute_best ::
  "(dataset option \<Rightarrow> dataset option \<Rightarrow> int) \<Rightarrow> int \<Rightarrow> ptp_port \<Rightarrow> foreign_clock option \<times> ptp_port" where
  "port_compute_best cmp now p =
     (if master_only p then (None, p\<lparr>p_best := None\<rparr>)
      else let (best, fcs) = best_loop cmp now p (foreign_masters p) None
           in (best, p\<lparr>foreign_masters := fcs, p_best := map_option fc_sender best\<rparr>))"

section \<open>The state of a port\<close>

definition port_is_enabled :: "ptp_port \<Rightarrow> bool" where
  "port_is_enabled p \<longleftrightarrow> p_state p \<notin> {PS_INITIALIZING, PS_FAULTY, PS_DISABLED}"

text \<open>Closing a port, as far as this model has its state: the foreign masters are freed.\<close>

definition port_disable :: "ptp_port \<Rightarrow> ptp_port" where
  "port_disable p = p\<lparr>p_best := None, foreign_masters := []\<rparr>"

datatype fault_interval = FTMO_LINEAR_SECONDS int | FTMO_LOG2_SECONDS int | FTMO_CNT

definition clear_fault_asap :: "fault_interval \<Rightarrow> bool" where
  "clear_fault_asap i = (case i of FTMO_LINEAR_SECONDS v \<Rightarrow> v = 0 | FTMO_LOG2_SECONDS v \<Rightarrow> v = - 128 | FTMO_CNT \<Rightarrow> False)"

text \<open>
  What the surroundings decide: how long a fault lasts, whether opening the port again works and
  whether the clock can be switched to the port's hardware clock.
\<close>

record port_env =
  env_fault :: fault_interval
  env_init_fails :: bool
  env_switch_fails :: bool

definition state_machine :: "ptp_port \<Rightarrow> port_state \<Rightarrow> fsm_event \<Rightarrow> bool \<Rightarrow> port_state" where
  "state_machine p =
     (if bmca_noop p then (if master_only p then designated_master_fsm else designated_slave_fsm)
      else if slave_only p then ptp_slave_fsm else ptp_fsm)"

definition port_state_update :: "port_env \<Rightarrow> fsm_event \<Rightarrow> bool \<Rightarrow> ptp_port \<Rightarrow> bool \<times> ptp_port" where
  "port_state_update env event mdiff p =
     (let next_state = state_machine p (p_state p) event mdiff;
          next_state = (if next_state = PS_FAULTY \<and> clear_fault_asap (env_fault env)
                        then state_machine p next_state EV_FAULT_CLEARED False else next_state);
          again = (next_state = PS_INITIALIZING);
          p' = (if again \<and> port_is_enabled p then port_disable p else p);
          next_state = (if again
                        then state_machine p next_state
                               (if env_init_fails env then EV_FAULT_DETECTED else EV_INIT_COMPLETE) False
                        else next_state)
      in if next_state \<noteq> p_state p then (True, p'\<lparr>p_state := next_state\<rparr>) else (False, p'))"

text \<open>The transitions only set timers, except that a port that stops is closed.\<close>

definition port_transition :: "ptp_port \<Rightarrow> ptp_port" where
  "port_transition p = (if p_state p = PS_FAULTY \<or> p_state p = PS_DISABLED then port_disable p else p)"

definition port_step :: "port_env \<Rightarrow> fsm_event \<Rightarrow> bool \<Rightarrow> ptp_port \<Rightarrow> bool \<times> ptp_port" where
  "port_step env event mdiff p =
     (let (changed, p) = port_state_update env event mdiff p
      in if changed then (True, port_transition p) else (False, p))"

text \<open>
  The call for a failed switch does not switch again: no fault leads to \<open>PS_UNCALIBRATED\<close>.
\<close>

definition bc_dispatch :: "port_env \<Rightarrow> fsm_event \<Rightarrow> bool \<Rightarrow> ptp_port \<Rightarrow> ptp_port" where
  "bc_dispatch env event mdiff p =
     (let (changed, p) = port_step env event mdiff p
      in if changed \<and> jbod p \<and> p_state p = PS_UNCALIBRATED \<and> env_switch_fails env
         then snd (port_step env EV_FAULT_DETECTED False p)
         else p)"

text \<open>When its announce or sync timer runs out a port drops the messages of its best master.\<close>

definition port_expire :: "ptp_port \<Rightarrow> ptp_port" where
  "port_expire p = (case p_best p of None \<Rightarrow> p | Some s \<Rightarrow> upd_fc s fc_clear p)"

section \<open>The clock\<close>

record timePropertiesDS =
  currentUtcOffset :: int
  tds_flags :: u8
  timeSource :: u8

abbreviation (input) UTC_OFF_VALID :: u8 where "UTC_OFF_VALID \<equiv> 4"
abbreviation (input) TIME_TRACEABLE :: u8 where "TIME_TRACEABLE \<equiv> 16"

definition announced_tds :: "announce \<Rightarrow> timePropertiesDS" where
  "announced_tds m = \<lparr>currentUtcOffset = ann_utc_offset m, tds_flags = ann_flags m, timeSource = ann_timeSource m\<rparr>"

record ptp_clock =
  dds_priority1 :: u8
  dds_quality :: ClockQuality
  dds_priority2 :: u8
  dds_identity :: "u8 list"
  dds_localPriority :: u8
  telecom :: bool
  ports :: "ptp_port list"
  clk_best :: "(nat \<times> foreign_clock) option"
  best_id :: "u8 list"
  cur_stepsRemoved :: u16
  parentPortIdentity :: PortIdentity
  pds_grandmaster :: "u8 \<times> ClockQuality \<times> u8 \<times> u8 list"
  tds :: timePropertiesDS
  utc_offset :: int
  time_flags :: u8
  time_source :: u8

definition clock_dscmp :: "ptp_clock \<Rightarrow> dataset option \<Rightarrow> dataset option \<Rightarrow> int" where
  "clock_dscmp c = (if telecom c then telecom_dscmp else dscmp)"

definition clock_default_ds :: "ptp_clock \<Rightarrow> dataset" where
  "clock_default_ds c =
     (let pid = \<lparr>clockIdentity = dds_identity c, portNumber = 0\<rparr>
      in \<lparr>priority1 = dds_priority1 c, identity = dds_identity c, quality = dds_quality c, priority2 = dds_priority2 c,
          localPriority = dds_localPriority c, stepsRemoved = 0, sender = pid, receiver = pid\<rparr>)"

definition clock_best_foreign :: "ptp_clock \<Rightarrow> dataset option" where
  "clock_best_foreign c = map_option (\<lambda>(i, fc). fc_dataset fc) (clk_best c)"

definition clock_best_port :: "ptp_clock \<Rightarrow> nat option" where
  "clock_best_port c = map_option fst (clk_best c)"

text \<open>
  \<open>c->best\<close> points to a foreign master of a port, which frees its foreign masters when it is
  closed. The data are kept beside the port's number; a use of the pointer asks whether the port
  still has this foreign master.
\<close>

definition best_alive :: "ptp_clock \<Rightarrow> bool" where
  "best_alive c = (case clk_best c of
     None \<Rightarrow> True
   | Some (i, fc) \<Rightarrow> i < length (ports c) \<and> find_fc (fc_sender fc) (ports c ! i) \<noteq> None)"

text \<open>The decision for port \<open>r\<close>, the \<open>i\<close>-th of the clock.\<close>

definition bmc_state_decision :: "ptp_clock \<Rightarrow> nat \<Rightarrow> ptp_port \<Rightarrow> port_state checked" where
  "bmc_state_decision c i r =
     (let compare = clock_dscmp c; clock_ds = Some (clock_default_ds c); port_best = port_best_foreign r; ps = p_state r
      in if port_best = None \<and> bmca_noop r then Inr ps
         else if port_best = None \<and> ps = PS_LISTENING then Inr ps
         else if clockClass (dds_quality c) \<le> 127
         then Inr (if compare clock_ds port_best > 0 then PS_GRAND_MASTER else PS_PASSIVE)
         else if \<not> best_alive c then Inl DanglingPointer
         else Inr (if compare clock_ds (clock_best_foreign c) > 0 then PS_GRAND_MASTER
                   else if clock_best_port c = Some i then PS_SLAVE
                   else if compare (clock_best_foreign c) port_best = A_BETTER_TOPO then PS_PASSIVE
                   else PS_MASTER))"

definition clock_update_grandmaster :: "ptp_clock \<Rightarrow> ptp_clock" where
  "clock_update_grandmaster c =
     c\<lparr>cur_stepsRemoved := 0, parentPortIdentity := \<lparr>clockIdentity = dds_identity c, portNumber = 0\<rparr>,
       pds_grandmaster := (dds_priority1 c, dds_quality c, dds_priority2 c, dds_identity c),
       tds := \<lparr>currentUtcOffset = utc_offset c, tds_flags = time_flags c, timeSource = time_source c\<rparr>\<rparr>"

definition clock_update_slave :: "ptp_clock \<Rightarrow> ptp_clock checked" where
  "clock_update_slave c =
     (case clk_best c of
        None \<Rightarrow> Inr c
      | Some (i, fc) \<Rightarrow>
          if \<not> best_alive c then Inl DanglingPointer
          else
            (case fc_messages fc of
               [] \<Rightarrow> Inl NullPointer
             | msg # _ \<Rightarrow>
                 let t = announced_tds msg;
                     c = (if (tds_flags t AND UTC_OFF_VALID) \<noteq> 0 \<and> (tds_flags t AND TIME_TRACEABLE) \<noteq> 0 \<or>
                             currentUtcOffset t > utc_offset c
                          then c\<lparr>utc_offset := currentUtcOffset t\<rparr> else c)
                 in Inr (c\<lparr>tds := t, cur_stepsRemoved := 1 + stepsRemoved (fc_dataset fc),
                      parentPortIdentity := sender (fc_dataset fc),
                      pds_grandmaster := (grandmasterPriority1 msg, grandmasterClockQuality msg,
                        grandmasterPriority2 msg, grandmasterIdentity msg)\<rparr>)))"

text \<open>The first loop: the ports compute their best masters, and the best of these is the clock's.\<close>

fun best_of_ports ::
  "(dataset option \<Rightarrow> dataset option \<Rightarrow> int) \<Rightarrow> int \<Rightarrow> nat \<Rightarrow> ptp_port list \<Rightarrow> (nat \<times> foreign_clock) option \<Rightarrow>
   (nat \<times> foreign_clock) option \<times> ptp_port list"
where
  "best_of_ports cmp now i [] best = (best, [])"
| "best_of_ports cmp now i (p # ps) best =
     (let (fc, p) = port_compute_best cmp now p;
          best = (case fc of
                    None \<Rightarrow> best
                  | Some fc \<Rightarrow> if best = None \<or> cmp (Some (fc_dataset fc)) (map_option (\<lambda>(i, fc). fc_dataset fc) best) > 0
                               then Some (i, fc) else best);
          (best, ps) = best_of_ports cmp now (Suc i) ps best
      in (best, p # ps))"

text \<open>The second loop, for one port and for all.\<close>

definition decide_port :: "port_env \<Rightarrow> bool \<Rightarrow> nat \<Rightarrow> ptp_clock \<Rightarrow> ptp_clock checked" where
  "decide_port env fresh_best i c =
     (let p = ports c ! i;
          dispatch = (\<lambda>event c. Inr (c\<lparr>ports := (ports c)[i := bc_dispatch env event fresh_best p]\<rparr>))
      in case bmc_state_decision c i p of
           Inl f \<Rightarrow> Inl f
         | Inr ps \<Rightarrow>
             (case ps of
                PS_LISTENING \<Rightarrow> dispatch EV_NONE c
              | PS_GRAND_MASTER \<Rightarrow> dispatch EV_RS_GRAND_MASTER (clock_update_grandmaster c)
              | PS_MASTER \<Rightarrow> dispatch EV_RS_MASTER c
              | PS_PASSIVE \<Rightarrow> dispatch EV_RS_PASSIVE c
              | PS_SLAVE \<Rightarrow> (case clock_update_slave c of Inl f \<Rightarrow> Inl f | Inr c \<Rightarrow> dispatch EV_RS_SLAVE c)
              | _ \<Rightarrow> dispatch EV_FAULT_DETECTED c))"

fun decide_ports :: "(nat \<Rightarrow> port_env) \<Rightarrow> bool \<Rightarrow> nat list \<Rightarrow> ptp_clock \<Rightarrow> ptp_clock checked" where
  "decide_ports env fresh_best [] c = Inr c"
| "decide_ports env fresh_best (i # is) c =
     (case decide_port (env i) fresh_best i c of
        Inl f \<Rightarrow> Inl f
      | Inr c \<Rightarrow> decide_ports env fresh_best is c)"

text \<open>The state decision event: the best master is chosen, then the ports decide on their states.\<close>

definition select_best :: "int \<Rightarrow> ptp_clock \<Rightarrow> bool \<times> ptp_clock" where
  "select_best now c =
     (let (best, ps) = best_of_ports (clock_dscmp c) now 0 (ports c) None;
          best_id' = (case best of None \<Rightarrow> dds_identity c | Some (i, fc) \<Rightarrow> identity (fc_dataset fc))
      in (best_id' \<noteq> best_id c, c\<lparr>ports := ps, clk_best := best, best_id := best_id'\<rparr>))"

definition handle_state_decision_event :: "(nat \<Rightarrow> port_env) \<Rightarrow> int \<Rightarrow> ptp_clock \<Rightarrow> ptp_clock checked" where
  "handle_state_decision_event env now c =
     (let (fresh_best, c) = select_best now c
      in decide_ports env fresh_best [0..<length (ports c)] c)"

section \<open>Steps of the daemon\<close>

definition upd_port :: "nat \<Rightarrow> (ptp_port \<Rightarrow> ptp_port) \<Rightarrow> ptp_clock \<Rightarrow> ptp_clock" where
  "upd_port i f c = c\<lparr>ports := (ports c)[i := f (ports c ! i)]\<rparr>"

definition clock_update_time_properties :: "nat \<Rightarrow> u8 \<Rightarrow> announce \<Rightarrow> ptp_clock \<Rightarrow> ptp_clock" where
  "clock_update_time_properties i max_steps m c =
     (let p = ports c ! i
      in if ann_stepsRemoved m < ucast max_steps \<and> p_state p \<in> {PS_UNCALIBRATED, PS_SLAVE} \<and>
            p_best p = Some (sourcePortIdentity m) \<and> find_fc (sourcePortIdentity m) p \<noteq> None
         then c\<lparr>tds := announced_tds m\<rparr> else c)"

text \<open>An announce message of port \<open>i\<close>; one from the master it follows also brings the time properties.\<close>

definition port_announce :: "nat \<Rightarrow> u8 \<Rightarrow> bool \<Rightarrow> int \<Rightarrow> announce \<Rightarrow> ptp_clock \<Rightarrow> ptp_clock checked" where
  "port_announce i max_steps malloc_ok now m c =
     (case process_announce max_steps malloc_ok now m (ports c ! i) of
        Inl f \<Rightarrow> Inl f
      | Inr (changed, p) \<Rightarrow> Inr (upd_port i (\<lambda>_. p) (clock_update_time_properties i max_steps m c)))"

definition decision_events :: "fsm_event set" where
  "decision_events = {EV_RS_MASTER, EV_RS_GRAND_MASTER, EV_RS_SLAVE, EV_RS_PASSIVE}"

text \<open>
  One step of \<open>clock_poll\<close>: a port takes an announce message, a timer of a port runs out, an event
  of a port is dispatched, or the state decision event is handled. The events of the decision come
  from nowhere else. A step that faults has no successor.
\<close>

inductive ptp_step :: "ptp_clock \<Rightarrow> ptp_clock \<Rightarrow> bool" where
  announced: "i < length (ports c) \<Longrightarrow> port_announce i mx ok now m c = Inr c' \<Longrightarrow> ptp_step c c'"
| expired: "i < length (ports c) \<Longrightarrow> event \<notin> decision_events \<Longrightarrow>
    ptp_step c (upd_port i (\<lambda>p. bc_dispatch env event False (port_expire p)) c)"
| dispatched: "i < length (ports c) \<Longrightarrow> event \<notin> decision_events \<Longrightarrow>
    ptp_step c (upd_port i (bc_dispatch env event False) c)"
| decided: "handle_state_decision_event envs now c = Inr c' \<Longrightarrow> ptp_step c c'"

end
