(* ===== verification/Ptp_Select.thy ===== *)
theory Ptp_Select
  imports Ptp_Bmc "HOL-Library.List_Lexorder"
begin

text \<open>
  The comparison of data sets is the comparison of ranks, so that the state decision event finds
  the best master; and at no time are two ports of a clock slaves.
\<close>

section \<open>Ranks\<close>

lemma memcmp_rank:
  "length as = length bs \<Longrightarrow> (memcmp as bs < 0 \<longleftrightarrow> map unat as < map unat bs) \<and> (memcmp as bs = 0 \<longleftrightarrow> as = bs) \<and>
     (0 < memcmp as bs \<longleftrightarrow> map unat bs < map unat as)"
  by (induction as bs rule: memcmp.induct) (auto simp: word_less_nat_alt word_unat_eq_iff)

lemma append_less: "length as = length bs \<Longrightarrow> as @ xs < bs @ ys \<longleftrightarrow> as < bs \<or> as = bs \<and> xs < ys"
  for as bs xs ys :: "nat list"
  by (induction as bs rule: list_induct2) auto

text \<open>Smaller is better: the properties of the grandmaster, its identity, and the way to it.\<close>

definition path_rank :: "dataset \<Rightarrow> nat list" where
  "path_rank d = [unat (stepsRemoved d)] @ map unat (pid_bytes (sender d)) @ [unat (portNumber (receiver d))]"

definition clock_rank :: "dataset \<Rightarrow> nat list" where
  "clock_rank d =
     [unat (priority1 d), unat (clockClass (quality d)), unat (clockAccuracy (quality d)),
      unat (offsetScaledLogVariance (quality d)), unat (priority2 d)] @ map unat (identity d)"

definition rank :: "dataset \<Rightarrow> nat list" where
  "rank d = clock_rank d @ path_rank d"

text \<open>
  A data set from the network: identities have eight bytes and the port has not received its own
  message. Two that name the same grandmaster agree on its properties.
\<close>

definition ds_ok :: "dataset \<Rightarrow> bool" where
  "ds_ok d \<longleftrightarrow> length (identity d) = 8 \<and> length (clockIdentity (sender d)) = 8 \<and>
     length (clockIdentity (receiver d)) = 8 \<and> pid_bytes (receiver d) \<noteq> pid_bytes (sender d)"

definition agree :: "dataset \<Rightarrow> dataset \<Rightarrow> bool" where
  "agree a b \<longleftrightarrow> (identity a = identity b \<longrightarrow>
     priority1 a = priority1 b \<and> quality a = quality b \<and> priority2 a = priority2 b)"

lemma length_pid [simp]: "length (pid_bytes p) = length (clockIdentity p) + 2"
  by (simp add: pid_bytes_def)

lemma dscmp2_rank:
  assumes "ds_ok a" and "ds_ok b"
  shows "(0 < dscmp2 a b \<longleftrightarrow> path_rank a < path_rank b) \<and> (dscmp2 a b = 0 \<longleftrightarrow> path_rank a = path_rank b)"
proof -
  have own: "memcmp (pid_bytes (receiver d)) (pid_bytes (sender d)) \<noteq> 0" if "ds_ok d" for d
    using that memcmp_rank [of "pid_bytes (receiver d)" "pid_bytes (sender d)"] by (simp add: ds_ok_def)
  have l: "length (pid_bytes (sender a)) = length (pid_bytes (sender b))" using assms by (simp add: ds_ok_def)
  then show ?thesis
    using own [OF assms(1)] own [OF assms(2)] memcmp_rank [OF l]
    by (auto simp: dscmp2_def path_rank_def Let_def append_less word_less_nat_alt not_less word_unat_eq_iff)
qed

lemma dscmp_rank:
  assumes "ds_ok a" and "ds_ok b" and "agree a b"
  shows "(0 < dscmp_ds a b \<longleftrightarrow> rank a < rank b) \<and> (dscmp_ds a b = 0 \<longleftrightarrow> rank a = rank b)"
proof -
  have l: "length (identity a) = length (identity b)" "length (clock_rank a) = length (clock_rank b)"
    using assms by (simp_all add: ds_ok_def clock_rank_def)
  have e: "dscmp_ds a b = dscmp2 a b \<and> clock_rank a = clock_rank b" if "identity a = identity b"
    using that assms(3) memcmp_rank [OF l(1)] by (simp add: dscmp_ds_def agree_def clock_rank_def)
  have n: "(0 < dscmp_ds a b \<longleftrightarrow> clock_rank a < clock_rank b) \<and> dscmp_ds a b \<noteq> 0 \<and> clock_rank a \<noteq> clock_rank b"
    if "identity a \<noteq> identity b"
    using that memcmp_rank [OF l(1)]
    by (auto simp: dscmp_ds_def cmp_then_def Let_def clock_rank_def word_less_nat_alt word_unat_eq_iff)
  show ?thesis
    using e n dscmp2_rank [OF assms(1,2)] l(2)
    by (cases "identity a = identity b") (simp_all add: rank_def append_less)
qed

text \<open>
  C37 (dscmp_ranks): the data set comparison of the standard profile is the lexicographic
  comparison of priority 1, clock class, accuracy, variance, priority 2 and identity of the
  grandmaster, and then of the steps, the sender and the receiving port, for data sets from the
  network that agree about their grandmaster; exchanging the two changes only the sign.
\<close>

theorem dscmp_ranks:
  assumes "ds_ok a" and "ds_ok b" and "agree a b"
  shows "(0 < dscmp (Some a) (Some b) \<longleftrightarrow> rank a < rank b) \<and> (dscmp (Some a) (Some b) < 0 \<longleftrightarrow> rank b < rank a) \<and>
     (dscmp (Some a) (Some b) = 0 \<longleftrightarrow> rank a = rank b)"
proof -
  have "dscmp (Some a) (Some b) < 0 \<longleftrightarrow> rank b < rank a"
    using dscmp_rank [OF assms] by (auto simp: dscmp_def null_cmp_def)
  then show ?thesis using dscmp_rank [OF assms] by (simp add: dscmp_def null_cmp_def)
qed

lemma replicate8: "replicate 8 x = [x, x, x, x, x, x, x, x]"
  by (simp add: numeral_eq_Suc)

theorem dscmp_ranks_witness:
  "let pid = \<lambda>n. \<lparr>clockIdentity = replicate 8 n, portNumber = 1\<rparr>;
       d = \<lambda>n prio. \<lparr>priority1 = prio, identity = replicate 8 n, quality =
             \<lparr>clockClass = 248, clockAccuracy = 0xfe, offsetScaledLogVariance = 0xffff\<rparr>, priority2 = 128,
             localPriority = 128, stepsRemoved = 0, sender = pid n, receiver = pid 9\<rparr>
   in 0 < dscmp (Some (d 1 127)) (Some (d 2 128)) \<and> dscmp (Some (d 2 128)) (Some (d 1 128)) < 0"
proof -
  let ?pid = "\<lambda>n. \<lparr>clockIdentity = replicate 8 n, portNumber = 1\<rparr>"
  let ?d = "\<lambda>n prio. \<lparr>priority1 = prio, identity = replicate 8 n, quality =
     \<lparr>clockClass = 248, clockAccuracy = 0xfe, offsetScaledLogVariance = 0xffff\<rparr>, priority2 = 128,
     localPriority = 128, stepsRemoved = 0, sender = ?pid n, receiver = ?pid 9\<rparr>"
  have ok: "ds_ok (?d 1 127)" "ds_ok (?d 2 128)" "ds_ok (?d 1 128)"
    "agree (?d 1 127) (?d 2 128)" "agree (?d 2 128) (?d 1 128)"
    by (simp_all add: ds_ok_def agree_def pid_bytes_def replicate8)
  have r: "rank (?d 1 127) < rank (?d 2 128)" "rank (?d 1 128) < rank (?d 2 128)"
    by (simp_all add: rank_def clock_rank_def replicate8)
  show ?thesis
    using dscmp_ranks [OF ok(1,2,4)] dscmp_ranks [OF ok(2,3,5)] r by (simp only: Let_def)
qed

section \<open>The best master\<close>

text \<open>The foreign masters a port takes part in the selection with, as the loop sees them.\<close>

definition candidate :: "int \<Rightarrow> ptp_port \<Rightarrow> foreign_clock \<Rightarrow> dataset option" where
  "candidate now p fc =
     (case fc_messages fc of
        [] \<Rightarrow> None
      | m # _ \<Rightarrow> if length (fc_messages (fc_prune now fc)) < FOREIGN_MASTER_THRESHOLD then None
                 else Some (announce_to_dataset m p))"

definition candidates :: "int \<Rightarrow> ptp_port \<Rightarrow> dataset set" where
  "candidates now p = (if master_only p then {} else {d. \<exists>fc\<in>set (foreign_masters p). candidate now p fc = Some d})"

text \<open>All candidates of a set of ports can be compared.\<close>

definition comparable :: "dataset set \<Rightarrow> bool" where
  "comparable ds \<longleftrightarrow> (\<forall>a\<in>ds. ds_ok a) \<and> (\<forall>a\<in>ds. \<forall>b\<in>ds. agree a b)"

text \<open>\<open>best\<close> is the best of \<open>ds\<close>: none if there are none.\<close>

definition is_best :: "dataset option \<Rightarrow> dataset set \<Rightarrow> bool" where
  "is_best best ds \<longleftrightarrow> (case best of None \<Rightarrow> ds = {} | Some b \<Rightarrow> b \<in> ds \<and> (\<forall>d\<in>ds. rank b \<le> rank d))"

lemma fc_prune_frame [simp]:
  "fc_dataset (fc_prune now fc) = fc_dataset fc" "fc_sender (fc_prune now fc) = fc_sender fc"
  "fc_messages (fc_prune now (fc\<lparr>fc_dataset := d\<rparr>)) = fc_messages (fc_prune now fc)"
  by (simp_all add: fc_prune_def)

lemma is_best_insert:
  assumes "is_best best ds" and "comparable (insert d ds)"
  shows "is_best (if best = None \<or> 0 < dscmp (Some d) best then Some d else best) (insert d ds)"
proof (cases best)
  case (Some b)
  then have b: "b \<in> ds" "\<forall>d\<in>ds. rank b \<le> rank d" using assms(1) by (auto simp: is_best_def)
  then have "0 < dscmp (Some d) best \<longleftrightarrow> rank d < rank b"
    using assms(2) dscmp_rank [of d b] Some by (auto simp: comparable_def dscmp_def null_cmp_def)
  then show ?thesis using b Some by (auto simp: is_best_def)
qed (use assms in \<open>auto simp: is_best_def\<close>)

lemma best_loop_best:
  "is_best (map_option fc_dataset best) ds \<Longrightarrow>
   comparable (ds \<union> {d. \<exists>fc\<in>set fcs. candidate now p fc = Some d}) \<Longrightarrow>
   is_best (map_option fc_dataset (fst (best_loop dscmp now p fcs best))) (ds \<union> {d. \<exists>fc\<in>set fcs. candidate now p fc = Some d})"
proof (induction fcs arbitrary: best ds)
  case (Cons fc fcs)
  let ?C = "{d. \<exists>fc\<in>set fcs. candidate now p fc = Some d}"
  show ?case
  proof (cases "candidate now p fc")
    case None
    then have "{d. \<exists>fc\<in>set (fc # fcs). candidate now p fc = Some d} = ?C" by auto
    moreover obtain b fcs' where "best_loop dscmp now p fcs best = (b, fcs')" by fastforce
    then have "fst (best_loop dscmp now p (fc # fcs) best) = fst (best_loop dscmp now p fcs best)"
      using None by (simp add: candidate_def Let_def split: list.splits if_splits)
    ultimately show ?thesis using Cons.IH [OF Cons.prems(1)] Cons.prems(2) by simp
  next
    case (Some d)
    then obtain m ms where m: "fc_messages fc = m # ms" "d = announce_to_dataset m p"
      "\<not> length (fc_messages (fc_prune now fc)) < 2"
      by (auto simp: candidate_def split: list.splits if_splits)
    let ?fc = "fc_prune now (fc\<lparr>fc_dataset := d\<rparr>)"
    let ?best = "if best = None \<or> 0 < dscmp (Some d) (map_option fc_dataset best) then Some ?fc else best"
    have u: "ds \<union> {d. \<exists>fc\<in>set (fc # fcs). candidate now p fc = Some d} = insert d ds \<union> ?C" using Some by auto
    have "comparable (insert d ds)" using Cons.prems(2) unfolding u by (auto simp: comparable_def)
    from is_best_insert [OF Cons.prems(1) this]
    have b: "is_best (map_option fc_dataset ?best) (insert d ds)"
      by (cases best) (auto split: if_splits)
    have "fst (best_loop dscmp now p (fc # fcs) best) = fst (best_loop dscmp now p fcs ?best)"
      using m by (auto simp: Let_def split: prod.splits)
    then show ?thesis using Cons.IH [OF b] Cons.prems(2) unfolding u by simp
  qed
qed simp

lemma port_best:
  assumes "comparable (candidates now p)"
  shows "is_best (map_option fc_dataset (fst (port_compute_best dscmp now p))) (candidates now p)"
proof (cases "master_only p")
  case False
  then have "candidates now p = {} \<union> {d. \<exists>fc\<in>set (foreign_masters p). candidate now p fc = Some d}"
    by (simp add: candidates_def)
  moreover obtain b fcs where "best_loop dscmp now p (foreign_masters p) None = (b, fcs)" by fastforce
  moreover have "is_best (map_option fc_dataset None) {}" by (simp add: is_best_def)
  ultimately show ?thesis
    using best_loop_best [of None "{}" "foreign_masters p" now p] assms False
    by (simp add: port_compute_best_def)
qed (simp add: port_compute_best_def candidates_def is_best_def)

lemma is_best_union:
  assumes "is_best best ds" and "is_best best' ds'" and "comparable (ds \<union> ds')"
  shows "is_best (case best' of None \<Rightarrow> best | Some d \<Rightarrow> if best = None \<or> 0 < dscmp (Some d) best then Some d else best)
    (ds \<union> ds')"
proof (cases best')
  case (Some d)
  then have d: "d \<in> ds'" "\<forall>x\<in>ds'. rank d \<le> rank x" using assms(2) by (auto simp: is_best_def)
  have "comparable (insert d ds)" using assms(3) d(1) by (auto simp: comparable_def)
  from is_best_insert [OF assms(1) this] show ?thesis
    using d Some by (auto simp: is_best_def split: option.splits if_splits intro: order_trans)
qed (use assms in \<open>auto simp: is_best_def\<close>)

lemma best_of_ports_best:
  "is_best (map_option (\<lambda>(i, fc). fc_dataset fc) best) ds \<Longrightarrow> comparable (ds \<union> (\<Union>p\<in>set ps. candidates now p)) \<Longrightarrow>
   is_best (map_option (\<lambda>(i, fc). fc_dataset fc) (fst (best_of_ports dscmp now i ps best))) (ds \<union> (\<Union>p\<in>set ps. candidates now p))"
proof (induction ps arbitrary: i best ds)
  case (Cons p ps)
  let ?C = "candidates now p"
  obtain fc p' where pc: "port_compute_best dscmp now p = (fc, p')" by fastforce
  let ?best = "case fc of None \<Rightarrow> best
     | Some fc \<Rightarrow> if best = None \<or> dscmp (Some (fc_dataset fc)) (map_option (\<lambda>(i, fc). fc_dataset fc) best) > 0
                  then Some (i, fc) else best"
  have c: "comparable ?C" "comparable (ds \<union> ?C)" using Cons.prems(2) by (auto simp: comparable_def)
  have "is_best (map_option (\<lambda>(i, fc). fc_dataset fc) ?best) (ds \<union> ?C)"
    using is_best_union [OF Cons.prems(1) port_best [OF c(1)] c(2)] pc by (cases fc) (auto split: if_splits)
  note IH = Cons.IH [OF this, of "Suc i"]
  have "fst (best_of_ports dscmp now i (p # ps) best) = fst (best_of_ports dscmp now (Suc i) ps ?best)"
    by (simp add: pc split: prod.splits)
  moreover have "ds \<union> (\<Union>p\<in>set (p # ps). candidates now p) = ds \<union> ?C \<union> (\<Union>p\<in>set ps. candidates now p)" by auto
  ultimately show ?case using IH Cons.prems(2) by simp
qed simp

section \<open>The second loop\<close>

lemma update_slave_frame:
  assumes "clock_update_slave c = Inr c'"
  shows "clk_best c' = clk_best c" "best_id c' = best_id c" "ports c' = ports c"
  using assms by (auto simp: clock_update_slave_def Let_def split: option.splits list.splits if_splits prod.splits)

text \<open>What a turn of the loop does: some event is dispatched to the port, chosen by the decision.\<close>

lemma decide_port_dispatch:
  assumes "decide_port env fresh i c = Inr c'"
  obtains ps event where "bmc_state_decision c i (ports c ! i) = Inr ps"
    "ports c' = (ports c)[i := bc_dispatch env event fresh (ports c ! i)]"
    "clk_best c' = clk_best c" "best_id c' = best_id c"
    "ps = PS_LISTENING \<Longrightarrow> event = EV_NONE" "ps = PS_GRAND_MASTER \<Longrightarrow> event = EV_RS_GRAND_MASTER"
    "ps = PS_MASTER \<Longrightarrow> event = EV_RS_MASTER" "ps = PS_PASSIVE \<Longrightarrow> event = EV_RS_PASSIVE"
    "ps = PS_SLAVE \<Longrightarrow> event = EV_RS_SLAVE"
proof -
  obtain ps where ps: "bmc_state_decision c i (ports c ! i) = Inr ps"
    using assms by (cases "bmc_state_decision c i (ports c ! i)") (auto simp: decide_port_def Let_def)
  let ?ev = "case ps of PS_LISTENING \<Rightarrow> EV_NONE | PS_GRAND_MASTER \<Rightarrow> EV_RS_GRAND_MASTER | PS_MASTER \<Rightarrow> EV_RS_MASTER
    | PS_PASSIVE \<Rightarrow> EV_RS_PASSIVE | PS_SLAVE \<Rightarrow> EV_RS_SLAVE | _ \<Rightarrow> EV_FAULT_DETECTED"
  have "ports c' = (ports c)[i := bc_dispatch env ?ev fresh (ports c ! i)] \<and> clk_best c' = clk_best c \<and> best_id c' = best_id c"
    using assms ps
    by (cases ps) (auto simp: decide_port_def Let_def clock_update_grandmaster_def
        dest: update_slave_frame split: sum.splits)
  with ps show thesis by (intro that [of ps ?ev]) auto
qed

lemma decide_port_frame:
  assumes "decide_port env fresh i c = Inr c'"
  shows "clk_best c' = clk_best c" "best_id c' = best_id c" "length (ports c') = length (ports c)"
    "j \<noteq> i \<Longrightarrow> ports c' ! j = ports c ! j"
  using assms by (auto elim!: decide_port_dispatch)

lemma decide_ports_frame:
  "decide_ports env fresh is c = Inr c' \<Longrightarrow> clk_best c' = clk_best c \<and> best_id c' = best_id c"
  by (induction "is" arbitrary: c) (auto split: sum.splits dest: decide_port_frame)

text \<open>A decision other than for a fault leaves the foreign masters of the port alone.\<close>

lemma fsm_decision:
  assumes "event \<in> decision_events" and "state_machine p s event mdiff = PS_FAULTY \<or>
     state_machine p s event mdiff = PS_DISABLED \<or> state_machine p s event mdiff = PS_INITIALIZING"
  shows "state_machine p s event mdiff = s"
  using assms
  by (auto simp: state_machine_def ptp_fsm_def ptp_slave_fsm_def designated_master_fsm_def designated_slave_fsm_def
      decision_events_def split: port_state.splits fsm_event.splits if_splits)

lemma fsm_restart:
  "state_machine p PS_FAULTY EV_FAULT_CLEARED False = PS_INITIALIZING"
  "state_machine p PS_INITIALIZING EV_INIT_COMPLETE False \<notin> {PS_FAULTY, PS_DISABLED}"
  by (auto simp: state_machine_def ptp_fsm_def ptp_slave_fsm_def designated_master_fsm_def designated_slave_fsm_def)

lemma decision_keeps_masters:
  assumes "event \<in> decision_events" and "\<not> env_init_fails env" and "\<not> env_switch_fails env"
  shows "foreign_masters (bc_dispatch env event mdiff p) = foreign_masters p"
proof -
  let ?n = "state_machine p (p_state p) event mdiff"
  have f: "?n = p_state p" if "?n \<in> {PS_FAULTY, PS_DISABLED, PS_INITIALIZING}"
    using fsm_decision [OF assms(1)] that by auto
  have "foreign_masters (snd (port_step env event mdiff p)) = foreign_masters p"
    using f fsm_restart [of p] assms(2)
    by (auto simp: port_step_def port_state_update_def port_transition_def port_disable_def port_is_enabled_def Let_def
        split: if_splits)
  then show ?thesis using assms(3) by (auto simp: bc_dispatch_def split: prod.splits)
qed

text \<open>The clock's best master is one its port holds, with messages.\<close>

definition best_held :: "ptp_clock \<Rightarrow> bool" where
  "best_held c \<longleftrightarrow> best_alive c \<and> (case clk_best c of None \<Rightarrow> True | Some (i, fc) \<Rightarrow> fc_messages fc \<noteq> [])"

lemma held_update_slave: "best_held c \<Longrightarrow> \<exists>c'. clock_update_slave c = Inr c'"
  by (auto simp: best_held_def clock_update_slave_def Let_def split: option.splits list.splits)

lemma decide_port_held:
  assumes "best_held c" and "i < length (ports c)" and "\<not> env_init_fails env" and "\<not> env_switch_fails env"
    and "clock_best_port c = Some i \<Longrightarrow> port_best_foreign (ports c ! i) \<noteq> None"
  shows "\<exists>c'. decide_port env fresh i c = Inr c' \<and> best_held c'"
proof -
  have alive: "best_alive c" using assms(1) by (simp add: best_held_def)
  then have "\<exists>ps. bmc_state_decision c i (ports c ! i) = Inr ps"
    by (simp add: bmc_state_decision_def Let_def)
  then obtain ps where ps: "bmc_state_decision c i (ports c ! i) = Inr ps" by blast
  obtain c1 where c1: "clock_update_slave c = Inr c1" using held_update_slave [OF assms(1)] by blast
  then obtain c' where c': "decide_port env fresh i c = Inr c'"
    using ps by (cases ps) (auto simp: decide_port_def Let_def)
  from c' obtain ps' event where d: "bmc_state_decision c i (ports c ! i) = Inr ps'"
      "ports c' = (ports c)[i := bc_dispatch env event fresh (ports c ! i)]" "clk_best c' = clk_best c"
    and ev: "ps' = PS_GRAND_MASTER \<Longrightarrow> event = EV_RS_GRAND_MASTER" "ps' = PS_MASTER \<Longrightarrow> event = EV_RS_MASTER"
      "ps' = PS_PASSIVE \<Longrightarrow> event = EV_RS_PASSIVE" "ps' = PS_SLAVE \<Longrightarrow> event = EV_RS_SLAVE"
    by (rule decide_port_dispatch) blast
  have "event \<in> decision_events" if "clock_best_port c = Some i"
  proof -
    have "ps' \<in> {PS_GRAND_MASTER, PS_MASTER, PS_PASSIVE, PS_SLAVE}"
      using d(1) assms(5) [OF that] by (auto simp: bmc_state_decision_def Let_def split: if_splits)
    then show ?thesis using ev by (auto simp: decision_events_def)
  qed
  then have k: "clock_best_port c = Some i \<Longrightarrow> foreign_masters (ports c' ! i) = foreign_masters (ports c ! i)"
    using decision_keeps_masters [OF _ assms(3,4)] d(2) assms(2) by simp
  have "foreign_masters (ports c' ! j) = foreign_masters (ports c ! j)" if "clock_best_port c = Some j" for j
    using k that d(2) by (cases "j = i") auto
  then have "best_held c'"
    using assms(1) d(2,3)
    by (auto simp: best_held_def best_alive_def find_fc_def clock_best_port_def split: option.splits)
  then show ?thesis using c' by blast
qed

lemma decide_ports_run:
  assumes "best_held c" and "k + n = length (ports c)"
    and "\<forall>i. \<not> env_init_fails (env i) \<and> \<not> env_switch_fails (env i)"
    and "\<forall>i\<ge>k. clock_best_port c = Some i \<longrightarrow> port_best_foreign (ports c ! i) \<noteq> None"
  shows "\<exists>c'. decide_ports env fresh [k..<k + n] c = Inr c'"
  using assms
proof (induction n arbitrary: k c)
  case (Suc n)
  have u: "[k..<k + Suc n] = k # [Suc k..<Suc k + n]" by (simp add: upt_conv_Cons)
  obtain c1 where c1: "decide_port (env k) fresh k c = Inr c1" "best_held c1"
    using decide_port_held [OF Suc.prems(1), of k "env k" fresh] Suc.prems(2-4) by auto
  note f = decide_port_frame [OF c1(1)]
  have "\<forall>i\<ge>Suc k. clock_best_port c1 = Some i \<longrightarrow> port_best_foreign (ports c1 ! i) \<noteq> None"
    using Suc.prems(4) f by (auto simp: clock_best_port_def)
  moreover have "Suc k + n = length (ports c1)" using Suc.prems(2) f(3) by simp
  ultimately have "\<exists>c'. decide_ports env fresh [Suc k..<Suc k + n] c1 = Inr c'"
    using Suc.IH [OF c1(2) _ Suc.prems(3)] by blast
  then show ?case unfolding u using c1(1) by simp
qed simp

text \<open>The first loop chooses a master that its port holds.\<close>

lemma best_loop_holds:
  "best_loop cmp now p fcs best = (b, fcs') \<Longrightarrow>
   b = best \<or> (\<exists>fc\<in>set fcs'. b = Some fc \<and> fc_messages fc \<noteq> [])"
  by (induction fcs arbitrary: best fcs')
    (fastforce simp: Let_def split: list.splits prod.splits if_splits)+

lemma compute_best_holds:
  assumes "port_compute_best cmp now p = (Some fc, p')"
  shows "fc_messages fc \<noteq> [] \<and> find_fc (fc_sender fc) p' \<noteq> None \<and> port_best_foreign p' \<noteq> None"
proof -
  obtain fcs where l: "best_loop cmp now p (foreign_masters p) None = (Some fc, fcs)"
    "p' = p\<lparr>foreign_masters := fcs, p_best := Some (fc_sender fc)\<rparr>"
    using assms by (auto simp: port_compute_best_def split: if_splits prod.splits)
  then have "fc \<in> set fcs" "fc_messages fc \<noteq> []" using best_loop_holds [OF l(1)] by auto
  then have "find_fc (fc_sender fc) p' \<noteq> None" using l(2) by (auto simp: find_fc_def find_None_iff)
  then show ?thesis using l(2) \<open>fc_messages fc \<noteq> []\<close> by (auto simp: port_best_foreign_def)
qed

lemma best_of_ports_holds:
  "best_of_ports cmp now k ps best = (b, ps') \<Longrightarrow> length ps' = length ps \<and>
   (b = best \<or> (\<exists>i fc. b = Some (k + i, fc) \<and> i < length ps' \<and> fc_messages fc \<noteq> [] \<and>
      find_fc (fc_sender fc) (ps' ! i) \<noteq> None \<and> port_best_foreign (ps' ! i) \<noteq> None))"
proof (induction ps arbitrary: k best ps')
  case (Cons p ps)
  obtain fc p1 where pc: "port_compute_best cmp now p = (fc, p1)" by fastforce
  let ?best = "case fc of None \<Rightarrow> best
     | Some fc \<Rightarrow> if best = None \<or> cmp (Some (fc_dataset fc)) (map_option (\<lambda>(i, fc). fc_dataset fc) best) > 0
                  then Some (k, fc) else best"
  obtain ps1 where l: "best_of_ports cmp now (Suc k) ps ?best = (b, ps1)" "ps' = p1 # ps1"
    using Cons.prems pc by (auto split: prod.splits)
  from Cons.IH [OF l(1)] have IH: "length ps1 = length ps" "b = ?best \<or> (\<exists>i fc. b = Some (Suc k + i, fc) \<and> i < length ps1 \<and>
      fc_messages fc \<noteq> [] \<and> find_fc (fc_sender fc) (ps1 ! i) \<noteq> None \<and> port_best_foreign (ps1 ! i) \<noteq> None)" by auto
  have "b = best \<or> (\<exists>i fc. b = Some (k + i, fc) \<and> i < length ps' \<and> fc_messages fc \<noteq> [] \<and>
      find_fc (fc_sender fc) (ps' ! i) \<noteq> None \<and> port_best_foreign (ps' ! i) \<noteq> None)"
    using IH(2)
  proof
    assume b: "b = ?best"
    show ?thesis
    proof (cases "b = best")
      case False
      then obtain f where "fc = Some f" "b = Some (k, f)" using b by (auto split: option.splits if_splits)
      then show ?thesis using compute_best_holds [of cmp now p f p1] pc l(2)
        by (intro disjI2 exI [of _ 0] exI [of _ f]) simp
    qed simp
  next
    assume "\<exists>i fc. b = Some (Suc k + i, fc) \<and> i < length ps1 \<and> fc_messages fc \<noteq> [] \<and>
      find_fc (fc_sender fc) (ps1 ! i) \<noteq> None \<and> port_best_foreign (ps1 ! i) \<noteq> None"
    then obtain i f where "b = Some (Suc k + i, f)" "i < length ps1" "fc_messages f \<noteq> []"
      "find_fc (fc_sender f) (ps1 ! i) \<noteq> None" "port_best_foreign (ps1 ! i) \<noteq> None" by blast
    then show ?thesis using l(2) by (intro disjI2 exI [of _ "Suc i"] exI [of _ f]) simp
  qed
  then show ?case using IH(1) l(2) by simp
qed simp

lemma select_best_held:
  assumes "select_best now c = (fresh, c1)"
  shows "best_held c1" and "clock_best_port c1 = Some i \<Longrightarrow> port_best_foreign (ports c1 ! i) \<noteq> None"
proof -
  obtain b ps where b: "best_of_ports (clock_dscmp c) now 0 (ports c) None = (b, ps)" by fastforce
  then have c1: "clk_best c1 = b" "ports c1 = ps" using assms by (auto simp: select_best_def Let_def)
  show "best_held c1" and "clock_best_port c1 = Some i \<Longrightarrow> port_best_foreign (ports c1 ! i) \<noteq> None"
    using best_of_ports_holds [OF b] c1 by (auto simp: best_held_def best_alive_def clock_best_port_def)
qed

text \<open>
  C36 (best_master_selected): the state decision event of a clock with the standard comparison
  makes the best of all qualified foreign masters of its ports the clock's best master, and no one
  when there is none; the clock records its grandmaster, or itself. When no port fails to open or
  to switch the hardware clock the event runs through and leaves this choice.
\<close>

theorem best_master_selected:
  fixes env :: "nat \<Rightarrow> port_env" and now :: int and c :: ptp_clock
  assumes "\<not> telecom c" and "comparable (\<Union>p\<in>set (ports c). candidates now p)"
  defines "c1 \<equiv> snd (select_best now c)"
  shows "is_best (clock_best_foreign c1) (\<Union>p\<in>set (ports c). candidates now p) \<and>
     best_id c1 = (case clock_best_foreign c1 of None \<Rightarrow> dds_identity c | Some d \<Rightarrow> identity d) \<and>
     (\<forall>c'. handle_state_decision_event env now c = Inr c' \<longrightarrow>
        clock_best_foreign c' = clock_best_foreign c1 \<and> best_id c' = best_id c1) \<and>
     ((\<forall>i. \<not> env_init_fails (env i) \<and> \<not> env_switch_fails (env i)) \<longrightarrow>
        (\<exists>c'. handle_state_decision_event env now c = Inr c'))"
proof -
  obtain best ps where b: "best_of_ports dscmp now 0 (ports c) None = (best, ps)" by fastforce
  obtain fresh where s: "select_best now c = (fresh, c1)" unfolding c1_def by (metis prod.collapse)
  have "clk_best c1 = best \<and> best_id c1 = (case best of None \<Rightarrow> dds_identity c | Some (i, fc) \<Rightarrow> identity (fc_dataset fc))"
    using assms(1) b s by (auto simp: select_best_def Let_def clock_dscmp_def)
  moreover have "is_best (map_option (\<lambda>(i, fc). fc_dataset fc) None) {}" by (simp add: is_best_def)
  ultimately have "is_best (clock_best_foreign c1) (\<Union>p\<in>set (ports c). candidates now p) \<and>
     best_id c1 = (case clock_best_foreign c1 of None \<Rightarrow> dds_identity c | Some d \<Rightarrow> identity d)"
    using best_of_ports_best [of None "{}" now "ports c" 0] assms(2) b
    by (auto simp: clock_best_foreign_def split: option.splits)
  moreover have "clock_best_foreign c' = clock_best_foreign c1 \<and> best_id c' = best_id c1"
    if "handle_state_decision_event env now c = Inr c'" for c'
    using that s decide_ports_frame [of env fresh _ c1 c']
    by (simp add: handle_state_decision_event_def clock_best_foreign_def)
  moreover have "\<exists>c'. handle_state_decision_event env now c = Inr c'"
    if "\<forall>i. \<not> env_init_fails (env i) \<and> \<not> env_switch_fails (env i)"
    using decide_ports_run [OF select_best_held(1) [OF s], of 0 _ env fresh] select_best_held(2) [OF s] that s
    by (simp add: handle_state_decision_event_def)
  ultimately show ?thesis by blast
qed

text \<open>A port with a qualified foreign master, and a clock with it.\<close>

definition ex_announce :: announce where
  "ex_announce =
     \<lparr>grandmasterPriority1 = 128, grandmasterClockQuality =
        \<lparr>clockClass = 6, clockAccuracy = 0x21, offsetScaledLogVariance = 0x4e5d\<rparr>, grandmasterPriority2 = 128,
      grandmasterIdentity = replicate 8 1, ann_stepsRemoved = 0,
      sourcePortIdentity = \<lparr>clockIdentity = replicate 8 1, portNumber = 1\<rparr>, ts_host = 0, logMessageInterval = 0,
      ann_utc_offset = 37, ann_flags = 0, ann_timeSource = 0x20\<rparr>"

definition ex_ds :: dataset where
  "ex_ds =
     \<lparr>priority1 = 128, identity = replicate 8 1,
      quality = \<lparr>clockClass = 6, clockAccuracy = 0x21, offsetScaledLogVariance = 0x4e5d\<rparr>, priority2 = 128,
      localPriority = 128, stepsRemoved = 0, sender = \<lparr>clockIdentity = replicate 8 1, portNumber = 1\<rparr>,
      receiver = \<lparr>clockIdentity = replicate 8 9, portNumber = 1\<rparr>\<rparr>"

definition ex_fc :: "announce list \<Rightarrow> foreign_clock" where
  "ex_fc ms =
     \<lparr>fc_messages = ms, fc_sender = \<lparr>clockIdentity = replicate 8 1, portNumber = 1\<rparr>,
      fc_dataset = ex_ds\<rparr>"

definition ex_port :: ptp_port where
  "ex_port =
     \<lparr>p_state = PS_INITIALIZING, portIdentity = \<lparr>clockIdentity = replicate 8 9, portNumber = 1\<rparr>, p_localPriority = 128,
      master_only = False, bmca_noop = False, slave_only = False, jbod = False, foreign_masters = [ex_fc [ex_announce, ex_announce]],
      p_best = None\<rparr>"

definition ex_clock :: "ptp_port list \<Rightarrow> ptp_clock" where
  "ex_clock ps =
     \<lparr>dds_priority1 = 128, dds_quality = \<lparr>clockClass = 248, clockAccuracy = 0xfe, offsetScaledLogVariance = 0xffff\<rparr>,
      dds_priority2 = 128, dds_identity = replicate 8 9, dds_localPriority = 128, telecom = False, ports = ps,
      clk_best = None, best_id = replicate 8 9, cur_stepsRemoved = 0,
      parentPortIdentity = \<lparr>clockIdentity = replicate 8 9, portNumber = 0\<rparr>,
      pds_grandmaster = (128, \<lparr>clockClass = 248, clockAccuracy = 0xfe, offsetScaledLogVariance = 0xffff\<rparr>, 128,
        replicate 8 9),
      tds = \<lparr>currentUtcOffset = 37, tds_flags = 0, timeSource = 0xa0\<rparr>, utc_offset = 37, time_flags = 0,
      time_source = 0xa0\<rparr>"

definition ex_env :: port_env where
  "ex_env = \<lparr>env_fault = FTMO_LOG2_SECONDS 4, env_init_fails = False, env_switch_fails = False\<rparr>"

lemma ex_selectors [simp]:
  "ports (ex_clock ps) = ps" "telecom (ex_clock ps) = False" "fc_messages (ex_fc ms) = ms"
  "foreign_masters ex_port = [ex_fc [ex_announce, ex_announce]]" "master_only ex_port = False"
  "bmca_noop ex_port = False" "p_state ex_port = PS_INITIALIZING"
  by (simp_all add: ex_clock_def ex_fc_def ex_port_def)

theorem best_master_selected_witness:
  "\<exists>c'. handle_state_decision_event (\<lambda>_. ex_env) 0 (ex_clock [ex_port]) = Inr c' \<and> clock_best_foreign c' = Some ex_ds"
proof -
  have p: "fc_prune 0 (ex_fc [ex_announce, ex_announce]) = ex_fc [ex_announce, ex_announce]"
    by (simp add: fc_prune_def ex_fc_def msg_current_def ex_announce_def Let_def)
  have d: "announce_to_dataset ex_announce ex_port = ex_ds"
    by (simp add: announce_to_dataset_def ex_announce_def ex_port_def ex_ds_def)
  have c: "(\<Union>p\<in>set (ports (ex_clock [ex_port])). candidates 0 p) = {ex_ds}"
    by (simp add: candidates_def candidate_def p d)
  have "comparable {ex_ds}"
    by (simp add: comparable_def agree_def ds_ok_def ex_ds_def pid_bytes_def replicate8)
  have e: "\<not> env_init_fails ex_env" "\<not> env_switch_fails ex_env" by (simp_all add: ex_env_def)
  note w = best_master_selected [of "ex_clock [ex_port]" 0 "\<lambda>_. ex_env", unfolded c]
  have "is_best (clock_best_foreign (snd (select_best 0 (ex_clock [ex_port])))) {ex_ds}"
    using w \<open>comparable {ex_ds}\<close> by simp
  then have "clock_best_foreign (snd (select_best 0 (ex_clock [ex_port]))) = Some ex_ds"
    by (auto simp: is_best_def split: option.splits)
  moreover obtain c' where "handle_state_decision_event (\<lambda>_. ex_env) 0 (ex_clock [ex_port]) = Inr c'"
    using w \<open>comparable {ex_ds}\<close> e by auto
  ultimately show ?thesis using w \<open>comparable {ex_ds}\<close> by auto
qed

section \<open>One slave\<close>

text \<open>The states in which a port follows a master.\<close>

definition following :: "port_state set" where
  "following = {PS_UNCALIBRATED, PS_SLAVE}"

text \<open>Only the decision for a slave makes a port follow; the other decisions end it.\<close>

lemma fsm_follows:
  assumes "\<not> bmca_noop p"
  shows "event \<noteq> EV_RS_SLAVE \<Longrightarrow> state_machine p s event mdiff \<in> following \<Longrightarrow> s \<in> following"
    and "event \<in> decision_events \<Longrightarrow> event \<noteq> EV_RS_SLAVE \<Longrightarrow> state_machine p s event mdiff \<notin> following"
  using assms
  by (auto simp: state_machine_def ptp_fsm_def ptp_slave_fsm_def following_def decision_events_def
      split: port_state.splits fsm_event.splits if_splits)

lemma port_config_step:
  assumes "port_step env event mdiff p = (ch, p')"
  shows "bmca_noop p' = bmca_noop p"
  using assms
  by (auto simp: port_step_def port_state_update_def port_transition_def port_disable_def Let_def split: if_splits)

lemma port_step_state:
  assumes "port_step env event mdiff p = (ch, p')" and "\<not> bmca_noop p"
  shows "event \<noteq> EV_RS_SLAVE \<Longrightarrow> p_state p' \<in> following \<Longrightarrow> p_state p \<in> following"
    and "event \<in> decision_events \<Longrightarrow> event \<noteq> EV_RS_SLAVE \<Longrightarrow> p_state p' \<notin> following"
proof -
  have r: "state_machine p s (if env_init_fails env then EV_FAULT_DETECTED else EV_INIT_COMPLETE) False \<notin> following"
    if "s = PS_INITIALIZING" for s
    using that assms(2) by (auto simp: state_machine_def ptp_fsm_def ptp_slave_fsm_def following_def)
  have f: "state_machine p PS_FAULTY EV_FAULT_CLEARED False = PS_INITIALIZING"
    using assms(2) by (simp add: state_machine_def ptp_fsm_def ptp_slave_fsm_def)
  have n: "PS_INITIALIZING \<notin> following" "PS_FAULTY \<notin> following" by (simp_all add: following_def)
  have "p_state p' \<in> following \<longrightarrow> p_state p' = state_machine p (p_state p) event mdiff"
    using assms(1) r f n
    by (auto simp: port_step_def port_state_update_def port_transition_def port_disable_def Let_def split: if_splits)
  then show "event \<noteq> EV_RS_SLAVE \<Longrightarrow> p_state p' \<in> following \<Longrightarrow> p_state p \<in> following"
    and "event \<in> decision_events \<Longrightarrow> event \<noteq> EV_RS_SLAVE \<Longrightarrow> p_state p' \<notin> following"
    using fsm_follows [OF assms(2)] by metis+
qed

lemma dispatch_follows:
  assumes "\<not> bmca_noop p"
  shows "\<not> bmca_noop (bc_dispatch env event mdiff p)"
    and "event \<noteq> EV_RS_SLAVE \<Longrightarrow> p_state (bc_dispatch env event mdiff p) \<in> following \<Longrightarrow> p_state p \<in> following"
    and "event \<in> decision_events \<Longrightarrow> event \<noteq> EV_RS_SLAVE \<Longrightarrow> p_state (bc_dispatch env event mdiff p) \<notin> following"
proof -
  obtain ch p1 where 1: "port_step env event mdiff p = (ch, p1)" by fastforce
  obtain ch' p2 where 2: "port_step env EV_FAULT_DETECTED False p1 = (ch', p2)" by fastforce
  have d: "bc_dispatch env event mdiff p = p1 \<or> bc_dispatch env event mdiff p = p2"
    using 1 2 by (simp add: bc_dispatch_def)
  have n: "\<not> bmca_noop p1" using port_config_step [OF 1] assms by simp
  then show "\<not> bmca_noop (bc_dispatch env event mdiff p)" using d port_config_step [OF 2] by auto
  note s1 = port_step_state [OF 1 assms] and s2 = port_step_state(1) [OF 2 n, simplified]
  show "event \<noteq> EV_RS_SLAVE \<Longrightarrow> p_state (bc_dispatch env event mdiff p) \<in> following \<Longrightarrow> p_state p \<in> following"
    and "event \<in> decision_events \<Longrightarrow> event \<noteq> EV_RS_SLAVE \<Longrightarrow> p_state (bc_dispatch env event mdiff p) \<notin> following"
    using d s1 s2 by metis+
qed

lemma announce_keeps:
  "process_announce mx ok now m p = Inr (ch, p') \<Longrightarrow> p_state p' = p_state p \<and> bmca_noop p' = bmca_noop p"
  by (auto simp: process_announce_def add_foreign_master_def update_current_master_def upd_fc_def Let_def
      split: option.splits list.splits if_splits)

lemma expire_keeps: "p_state (port_expire p) = p_state p" "bmca_noop (port_expire p) = bmca_noop p"
  by (simp_all add: port_expire_def upd_fc_def split: option.splits)

lemma compute_best_keeps:
  assumes "port_compute_best cmp now p = (fc, p')"
  shows "p_state p' = p_state p \<and> bmca_noop p' = bmca_noop p"
  using assms by (auto simp: port_compute_best_def split: if_splits prod.splits)

lemma best_of_ports_keeps:
  "best_of_ports cmp now i ps best = (b, ps') \<Longrightarrow>
   map p_state ps' = map p_state ps \<and> map bmca_noop ps' = map bmca_noop ps"
  by (induction ps arbitrary: i best ps')
    (auto split: prod.splits dest: compute_best_keeps)

lemma decision_cases:
  assumes "\<not> bmca_noop p" and "bmc_state_decision c i p = Inr ps"
  shows "ps \<in> {PS_GRAND_MASTER, PS_MASTER, PS_PASSIVE} \<or> ps = PS_LISTENING \<and> p_state p = PS_LISTENING \<or>
     ps = PS_SLAVE \<and> clock_best_port c = Some i"
  using assms unfolding bmc_state_decision_def Let_def by (simp split: if_splits)

text \<open>One turn of the second loop: only the port of the best master may follow afterwards.\<close>

lemma decide_port_follows:
  assumes "decide_port env fresh i c = Inr c'" and "i < length (ports c)" and "\<not> bmca_noop (ports c ! i)"
  shows "\<not> bmca_noop (ports c' ! i)" and "p_state (ports c' ! i) \<in> following \<Longrightarrow> clock_best_port c = Some i"
proof -
  from assms(1) obtain ps event where d: "bmc_state_decision c i (ports c ! i) = Inr ps"
      "ports c' = (ports c)[i := bc_dispatch env event fresh (ports c ! i)]"
    and ev: "ps = PS_LISTENING \<Longrightarrow> event = EV_NONE" "ps = PS_GRAND_MASTER \<Longrightarrow> event = EV_RS_GRAND_MASTER"
      "ps = PS_MASTER \<Longrightarrow> event = EV_RS_MASTER" "ps = PS_PASSIVE \<Longrightarrow> event = EV_RS_PASSIVE"
      "ps = PS_SLAVE \<Longrightarrow> event = EV_RS_SLAVE"
    by (rule decide_port_dispatch) blast
  have p: "ports c' ! i = bc_dispatch env event fresh (ports c ! i)" using d(2) assms(2) by simp
  have e: "event \<in> decision_events \<or> event = EV_NONE \<and> p_state (ports c ! i) = PS_LISTENING"
    "event = EV_RS_SLAVE \<longrightarrow> clock_best_port c = Some i"
    using decision_cases [OF assms(3) d(1)] ev by (auto simp: decision_events_def)
  show "\<not> bmca_noop (ports c' ! i)" using p dispatch_follows(1) [OF assms(3)] by simp
  show "clock_best_port c = Some i" if "p_state (ports c' ! i) \<in> following"
    using that p e dispatch_follows(2,3) [OF assms(3), of event env fresh] by (auto simp: following_def)
qed

text \<open>The ports take part in the algorithm, and at most one of them follows a master.\<close>

definition one_slave :: "ptp_clock \<Rightarrow> bool" where
  "one_slave c \<longleftrightarrow> (\<forall>p\<in>set (ports c). \<not> bmca_noop p) \<and>
     (\<exists>b. \<forall>i<length (ports c). p_state (ports c ! i) \<in> following \<longrightarrow> i = b)"

lemma decide_all_follows:
  assumes "decide_ports env fresh is c = Inr c'" and "\<forall>p\<in>set (ports c). \<not> bmca_noop p"
    and "set is \<subseteq> {..<length (ports c)}"
    and "\<forall>i<length (ports c). i \<notin> set is \<longrightarrow> p_state (ports c ! i) \<in> following \<longrightarrow> clock_best_port c = Some i"
  shows "(\<forall>p\<in>set (ports c'). \<not> bmca_noop p) \<and> length (ports c') = length (ports c) \<and>
     (\<forall>i<length (ports c'). p_state (ports c' ! i) \<in> following \<longrightarrow> clock_best_port c = Some i)"
  using assms
proof (induction "is" arbitrary: c)
  case (Cons k ks)
  obtain c1 where c1: "decide_port (env k) fresh k c = Inr c1" "decide_ports env fresh ks c1 = Inr c'"
    using Cons.prems(1) by (auto split: sum.splits)
  note f = decide_port_frame [OF c1(1)]
  have k: "k < length (ports c)" "\<not> bmca_noop (ports c ! k)" using Cons.prems(2,3) by auto
  note d = decide_port_follows [OF c1(1) k]
  have b: "clock_best_port c1 = clock_best_port c" using f(1) by (simp add: clock_best_port_def)
  have "\<not> bmca_noop (ports c1 ! i)" if "i < length (ports c1)" for i
    using that d(1) f(3,4) Cons.prems(2) by (cases "i = k") auto
  then have 1: "\<forall>p\<in>set (ports c1). \<not> bmca_noop p" by (auto simp: in_set_conv_nth)
  have "\<forall>i<length (ports c1). i \<notin> set ks \<longrightarrow> p_state (ports c1 ! i) \<in> following \<longrightarrow> clock_best_port c1 = Some i"
  proof (intro allI impI)
    fix i assume i: "i < length (ports c1)" "i \<notin> set ks" "p_state (ports c1 ! i) \<in> following"
    then show "clock_best_port c1 = Some i"
      using d(2) f(3,4) Cons.prems(4) b by (cases "i = k") auto
  qed
  then show ?case using Cons.IH [OF c1(2) 1] Cons.prems(3) f(3) b by auto
qed auto

lemma decided_one_slave:
  assumes "handle_state_decision_event env now c = Inr c'" and "\<forall>p\<in>set (ports c). \<not> bmca_noop p"
  shows "one_slave c'"
proof -
  obtain best ps where b: "best_of_ports (clock_dscmp c) now 0 (ports c) None = (best, ps)" by fastforce
  from best_of_ports_keeps [OF b] have m: "map bmca_noop ps = map bmca_noop (ports c)" by simp
  then have "set (map bmca_noop ps) = set (map bmca_noop (ports c))" by simp
  with assms(2) have n: "\<forall>p\<in>set ps. \<not> bmca_noop p" by auto
  obtain fresh c1 where c1: "select_best now c = (fresh, c1)" "ports c1 = ps"
    using b by (auto simp: select_best_def Let_def)
  have "decide_ports env fresh [0..<length (ports c1)] c1 = Inr c'"
    using assms(1) c1(1) by (simp add: handle_state_decision_event_def)
  from decide_all_follows [OF this] have "(\<forall>p\<in>set (ports c'). \<not> bmca_noop p) \<and> length (ports c') = length (ports c1) \<and>
     (\<forall>i<length (ports c'). p_state (ports c' ! i) \<in> following \<longrightarrow> clock_best_port c1 = Some i)"
    using n c1(2) by (force simp: atLeast0LessThan)
  then show ?thesis unfolding one_slave_def by (auto intro!: exI [of _ "the (clock_best_port c1)"])
qed

lemma upd_port_one_slave:
  assumes "one_slave c" and "i < length (ports c)" and "\<not> bmca_noop (f (ports c ! i))"
    and "p_state (f (ports c ! i)) \<in> following \<Longrightarrow> p_state (ports c ! i) \<in> following"
  shows "one_slave (upd_port i f c)"
proof -
  obtain b where b: "\<forall>i<length (ports c). p_state (ports c ! i) \<in> following \<longrightarrow> i = b"
    using assms(1) by (auto simp: one_slave_def)
  have "\<forall>j<length (ports c). p_state (ports (upd_port i f c) ! j) \<in> following \<longrightarrow> j = b"
    using b assms(2,4) by (simp add: upd_port_def nth_list_update)
  then show ?thesis
    using assms(1,3) by (auto simp: one_slave_def upd_port_def dest: set_update_subset_insert [THEN subsetD])
qed

lemma ptp_step_one_slave: "ptp_step c c' \<Longrightarrow> one_slave c \<Longrightarrow> one_slave c'"
proof (induction rule: ptp_step.induct)
  case (announced i c mx ok now m c')
  obtain ch p where p: "process_announce mx ok now m (ports c ! i) = Inr (ch, p)"
    "c' = upd_port i (\<lambda>_. p) (clock_update_time_properties i mx m c)"
    using announced.hyps(2) by (auto simp: port_announce_def split: sum.splits)
  have t: "ports (clock_update_time_properties i mx m c) = ports c" by (simp add: clock_update_time_properties_def Let_def)
  then have "one_slave (clock_update_time_properties i mx m c)" using announced.prems by (simp add: one_slave_def)
  then show ?case
    unfolding p(2) using announced.hyps(1) announced.prems announce_keeps [OF p(1)] t
    by (intro upd_port_one_slave) (auto simp: one_slave_def)
next
  case (expired i c event env)
  let ?p = "port_expire (ports c ! i)"
  have n: "\<not> bmca_noop ?p" "event \<noteq> EV_RS_SLAVE"
    using expired by (auto simp: one_slave_def decision_events_def expire_keeps)
  show ?case
    using expired n dispatch_follows [OF n(1)] by (intro upd_port_one_slave) (auto simp: expire_keeps)
next
  case (dispatched i c event env)
  then have n: "\<not> bmca_noop (ports c ! i)" "event \<noteq> EV_RS_SLAVE" by (auto simp: one_slave_def decision_events_def)
  then show ?case
    using dispatched dispatch_follows [OF n(1)] by (intro upd_port_one_slave) auto
next
  case (decided envs now c c')
  then show ?case using decided_one_slave by (simp add: one_slave_def)
qed

text \<open>
  C35 (one_slave_port): if none of a clock's ports has the algorithm switched off (BMCA noop),
  then at every moment of its life up to a memory fault, whatever announce messages, timeouts,
  faults of ports and decisions came in which order, at most one of its ports follows a master
  (is uncalibrated or slave). Ports with the algorithm switched off are left out because each
  designated slave port becomes a slave when it is initialised; and a run can end in a memory
  fault, when the port of the best master is closed while the others still decide.
\<close>

theorem one_slave_port:
  assumes "\<forall>p\<in>set (ports c0). \<not> bmca_noop p \<and> p_state p = PS_INITIALIZING" and "ptp_step\<^sup>*\<^sup>* c0 c"
    and "i < length (ports c)" and "p_state (ports c ! i) = PS_SLAVE \<or> p_state (ports c ! i) = PS_UNCALIBRATED"
    and "j < length (ports c)" and "p_state (ports c ! j) = PS_SLAVE \<or> p_state (ports c ! j) = PS_UNCALIBRATED"
  shows "i = j"
proof -
  have "one_slave c0" using assms(1) by (auto simp: one_slave_def following_def)
  with assms(2) have "one_slave c" by (induction rule: rtranclp_induct) (auto intro: ptp_step_one_slave)
  then show ?thesis using assms(3-) by (auto simp: one_slave_def following_def)
qed



text \<open>Two designated slave ports are slaves together as soon as they are initialised.\<close>

lemma designated_slaves:
  assumes "bmca_noop p" and "\<not> master_only p" and "p_state p = PS_INITIALIZING" and "\<not> env_init_fails env"
  shows "p_state (bc_dispatch env EV_INITIALIZE False p) = PS_SLAVE"
proof -
  have m: "state_machine p = designated_slave_fsm" using assms(1,2) by (simp add: state_machine_def)
  have s: "designated_slave_fsm PS_INITIALIZING EV_INITIALIZE False = PS_INITIALIZING"
    "designated_slave_fsm PS_INITIALIZING EV_INIT_COMPLETE False = PS_SLAVE"
    by (simp_all add: designated_slave_fsm_def)
  show ?thesis
    using assms(3,4) by (simp add: bc_dispatch_def port_step_def port_state_update_def port_transition_def Let_def m s)
qed

text \<open>A designated slave without a best master dereferences a null pointer at the next announce message.\<close>

lemma designated_slave_faults:
  assumes "p_state p = PS_SLAVE" and "p_best p = None" and "ann_stepsRemoved m < ucast max_steps"
  shows "process_announce max_steps ok now m p = Inl NullPointer"
  using assms by (simp add: process_announce_def update_current_master_def not_le [symmetric])

section \<open>A clock with one port, and with two\<close>

text \<open>A listening port selects its master and decides to follow it.\<close>

lemma ex_selected:
  fixes j :: bool
  defines "p \<equiv> ex_port\<lparr>p_state := PS_LISTENING, jbod := j\<rparr>"
  shows "port_compute_best dscmp 0 p =
     (Some (ex_fc [ex_announce, ex_announce]), p\<lparr>p_best := Some (fc_sender (ex_fc [ex_announce, ex_announce]))\<rparr>)"
proof -
  have f: "fc_prune 0 (ex_fc [ex_announce, ex_announce]) = ex_fc [ex_announce, ex_announce]"
    by (simp add: fc_prune_def ex_fc_def msg_current_def ex_announce_def Let_def)
  have d: "announce_to_dataset ex_announce p = ex_ds"
    by (simp add: announce_to_dataset_def ex_announce_def p_def ex_port_def ex_ds_def)
  have e: "(ex_fc [ex_announce, ex_announce])\<lparr>fc_dataset := ex_ds\<rparr> = ex_fc [ex_announce, ex_announce]"
    by (simp add: ex_fc_def)
  have m: "master_only p = False" "foreign_masters p = [ex_fc [ex_announce, ex_announce]]" by (simp_all add: p_def)
  show ?thesis by (simp add: port_compute_best_def m f d e Let_def)
qed

lemma ex_decides:
  fixes j :: bool and rest :: "ptp_port list"
  defines "p \<equiv> ex_port\<lparr>p_state := PS_LISTENING, jbod := j, p_best := Some (fc_sender (ex_fc [ex_announce, ex_announce]))\<rparr>"
  defines "c \<equiv> (ex_clock rest)\<lparr>ports := p # rest, clk_best := Some (0, ex_fc [ex_announce, ex_announce]),
     best_id := identity ex_ds\<rparr>"
  shows "bmc_state_decision c 0 p = Inr PS_SLAVE" and "\<exists>c'. clock_update_slave c = Inr c'" and "best_alive c"
proof -
  have q: "port_best_foreign p = Some ex_ds" "find_fc (fc_sender (ex_fc [ex_announce, ex_announce])) p \<noteq> None"
    by (simp_all add: port_best_foreign_def find_fc_def p_def ex_port_def ex_fc_def)
  show a: "best_alive c" using q(2) by (simp add: best_alive_def c_def)
  have w: "clock_dscmp c (Some (clock_default_ds c)) (Some ex_ds) = B_BETTER"
    by (simp add: clock_dscmp_def c_def)
      (simp add: dscmp_def null_cmp_def dscmp_ds_def clock_default_ds_def ex_clock_def ex_ds_def replicate8 cmp_then_def Let_def)
  have k: "clockClass (dds_quality c) = 248" by (simp add: ex_clock_def c_def)
  have x: "clock_best_foreign c = Some ex_ds" "clock_best_port c = Some 0"
    by (simp_all add: clock_best_foreign_def clock_best_port_def ex_fc_def c_def)
  show "bmc_state_decision c 0 p = Inr PS_SLAVE"
    using a by (simp add: bmc_state_decision_def Let_def q k w x)
  have "best_held c" using a by (simp add: best_held_def c_def)
  then show "\<exists>c'. clock_update_slave c = Inr c'" by (rule held_update_slave)
qed

text \<open>From the start to a port that follows: it is initialised, and the decision finds its master.\<close>

lemma ex_run:
  "\<exists>c. ptp_step\<^sup>*\<^sup>* (ex_clock [ex_port]) c \<and> length (ports c) = 1 \<and> p_state (ports c ! 0) = PS_UNCALIBRATED"
proof -
  let ?p = "ex_port\<lparr>p_state := PS_LISTENING, jbod := False\<rparr>"
  have "bc_dispatch ex_env EV_INITIALIZE False ex_port = ?p"
    by (simp add: bc_dispatch_def port_step_def port_state_update_def Let_def state_machine_def ptp_fsm_def
        ex_env_def clear_fault_asap_def port_is_enabled_def port_transition_def) 
      (simp add: ex_port_def)
  then have "upd_port 0 (bc_dispatch ex_env EV_INITIALIZE False) (ex_clock [ex_port]) = ex_clock [?p]"
    by (simp add: upd_port_def) (simp add: ex_clock_def)
  then have s1: "ptp_step (ex_clock [ex_port]) (ex_clock [?p])"
    using dispatched [of 0 "ex_clock [ex_port]" EV_INITIALIZE ex_env] by (simp add: decision_events_def)
  let ?fc = "ex_fc [ex_announce, ex_announce]"
  let ?q = "?p\<lparr>p_best := Some (fc_sender ?fc)\<rparr>"
  let ?c = "(ex_clock [])\<lparr>ports := [?q], clk_best := Some (0, ?fc), best_id := identity ex_ds\<rparr>"
  have fresh: "identity ex_ds \<noteq> best_id (ex_clock [?p])" by (simp add: ex_ds_def ex_clock_def replicate8)
  have f: "fc_dataset ?fc = ex_ds" by (simp add: ex_fc_def)
  have u: "(ex_clock [?p])\<lparr>ports := x, clk_best := b, best_id := d\<rparr> =
      (ex_clock [])\<lparr>ports := x, clk_best := b, best_id := d\<rparr>" for x b d
    by (simp add: ex_clock_def)
  have sel: "select_best 0 (ex_clock [?p]) = (True, ?c)"
    using ex_selected [of False] fresh u by (simp add: select_best_def clock_dscmp_def Let_def f)
  have t: "bc_dispatch ex_env EV_RS_SLAVE True ?q = ?q\<lparr>p_state := PS_UNCALIBRATED\<rparr>"
    by (simp add: bc_dispatch_def port_step_def port_state_update_def Let_def state_machine_def ptp_fsm_def
        port_transition_def ex_port_def)
  obtain c1 where c1: "clock_update_slave ?c = Inr c1" using ex_decides(2) [of False "[]"] by auto
  then have "ports c1 = [?q]" by (auto dest: update_slave_frame)
  then have d: "decide_port ex_env True 0 ?c = Inr (c1\<lparr>ports := [?q\<lparr>p_state := PS_UNCALIBRATED\<rparr>]\<rparr>)"
    using ex_decides(1) [of False "[]"] c1 t by (simp add: decide_port_def Let_def)
  then have "handle_state_decision_event (\<lambda>_. ex_env) 0 (ex_clock [?p]) =
      Inr (c1\<lparr>ports := [?q\<lparr>p_state := PS_UNCALIBRATED\<rparr>]\<rparr>)"
    by (simp add: handle_state_decision_event_def sel)
  then have "ptp_step (ex_clock [?p]) (c1\<lparr>ports := [?q\<lparr>p_state := PS_UNCALIBRATED\<rparr>]\<rparr>)" by (rule decided)
  with s1 have "ptp_step\<^sup>*\<^sup>* (ex_clock [ex_port]) (c1\<lparr>ports := [?q\<lparr>p_state := PS_UNCALIBRATED\<rparr>]\<rparr>)"
    by (meson converse_rtranclp_into_rtranclp r_into_rtranclp)
  then show ?thesis by (intro exI conjI) auto
qed

theorem one_slave_port_witness:
  "\<exists>c. ptp_step\<^sup>*\<^sup>* (ex_clock [ex_port]) c \<and> p_state (ports c ! 0) = PS_UNCALIBRATED \<and>
     (\<forall>i<length (ports c). p_state (ports c ! i) = PS_UNCALIBRATED \<longrightarrow> i = 0)"
proof -
  obtain c where c: "ptp_step\<^sup>*\<^sup>* (ex_clock [ex_port]) c" "length (ports c) = 1" "p_state (ports c ! 0) = PS_UNCALIBRATED"
    using ex_run by blast
  with one_slave_port [OF _ c(1), of _ 0] show ?thesis by (intro exI [of _ c]) auto
qed

text \<open>
  When the switch to the hardware clock of the best master's port fails, the port is closed, and
  the decision for the next port reads the foreign master that was freed.
\<close>

lemma closed_best_port_dangles:
  fixes x :: ptp_port
  defines "p \<equiv> ex_port\<lparr>p_state := PS_LISTENING, jbod := True\<rparr>"
    and "x \<equiv> ex_port\<lparr>p_state := PS_MASTER, foreign_masters := []\<rparr>"
  shows "handle_state_decision_event (\<lambda>_. ex_env\<lparr>env_switch_fails := True\<rparr>) 0 (ex_clock [p, x]) = Inl DanglingPointer"
proof -
  let ?e = "ex_env\<lparr>env_switch_fails := True\<rparr>"
  let ?fc = "ex_fc [ex_announce, ex_announce]"
  let ?q = "p\<lparr>p_best := Some (fc_sender ?fc)\<rparr>"
  let ?c = "(ex_clock [x])\<lparr>ports := [?q, x], clk_best := Some (0, ?fc), best_id := identity ex_ds\<rparr>"
  have fresh: "identity ex_ds \<noteq> best_id (ex_clock [p, x])" by (simp add: ex_ds_def ex_clock_def replicate8)
  have f: "fc_dataset ?fc = ex_ds" by (simp add: ex_fc_def)
  have xb: "port_compute_best dscmp 0 x = (None, x)" by (simp add: port_compute_best_def x_def ex_port_def)
  have u: "(ex_clock [p, x])\<lparr>ports := y, clk_best := b, best_id := d\<rparr> =
      (ex_clock [x])\<lparr>ports := y, clk_best := b, best_id := d\<rparr>" for y b d
    by (simp add: ex_clock_def)
  have sel: "select_best 0 (ex_clock [p, x]) = (True, ?c)"
    using ex_selected [of True, folded p_def] fresh u xb by (simp add: select_best_def clock_dscmp_def Let_def f)
  have t: "bc_dispatch ?e EV_RS_SLAVE True ?q = ?q\<lparr>p_state := PS_FAULTY, p_best := None, foreign_masters := []\<rparr>"
    by (simp add: bc_dispatch_def port_step_def port_state_update_def Let_def state_machine_def ptp_fsm_def
        port_transition_def port_disable_def clear_fault_asap_def p_def ex_port_def ex_env_def)
  note ex = ex_decides [of True "[x]"]
  have pq: "ex_port\<lparr>p_state := PS_LISTENING, jbod := True, p_best := b\<rparr> = p\<lparr>p_best := b\<rparr>" for b
    by (simp add: p_def)
  obtain c1 where c1: "clock_update_slave ?c = Inr c1" using ex(2) pq by auto
  note k = update_slave_frame [OF c1]
  let ?c2 = "c1\<lparr>ports := [?q\<lparr>p_state := PS_FAULTY, p_best := None, foreign_masters := []\<rparr>, x]\<rparr>"
  have d: "decide_port ?e True 0 ?c = Inr ?c2"
    using ex(1) pq c1 t k(3) by (simp add: decide_port_def Let_def)
  have "\<not> best_alive ?c2" using k(1) by (simp add: best_alive_def find_fc_def)
  moreover have "dds_quality c1 = dds_quality ?c"
    using c1 by (auto simp: clock_update_slave_def Let_def split: option.splits list.splits if_splits prod.splits)
  then have "clockClass (dds_quality ?c2) = 248" by (simp add: ex_clock_def)
  moreover have "port_best_foreign x = None" "\<not> bmca_noop x" "p_state x = PS_MASTER"
    by (simp_all add: port_best_foreign_def x_def ex_port_def)
  ultimately have "decide_port ?e True 1 ?c2 = Inl DanglingPointer"
    by (simp add: decide_port_def bmc_state_decision_def Let_def)
  then show ?thesis using d by (simp add: handle_state_decision_event_def sel upt_rec)
qed

end
