(* ===== verification/Spec2Isabelle.thy ===== *)
theory Spec2Isabelle
  imports Prelude Tadma_Table Tadma_Transmit Tadma_Config Shaper_Schedule Preemption Switch_Config
    Trdp_Timing Trdp_Calls Trdp_Md_Limits Tau_Size Ptp_Clock Ptp_Xmit Mcdma_Ring Qbv_Config Ptp_Select
begin

text \<open>
  A verification development for the TSN project: a driver for the Xilinx TSN subsystem
  (\<^verbatim>\<open>driver/xilinx\<close>), its configuration tools (\<^verbatim>\<open>app/misc-utils\<close>), the TRDP train protocol stack
  (\<^verbatim>\<open>app/trdp/tcnopen\<close>) and a PTP daemon (\<^verbatim>\<open>app/linuxptp-3.0\<close>).

  \<^bold>\<open>The parts and how they interact.\<close> A TRDP application publishes process data. The stack builds
  telegrams and sends them at their times through a socket. The endpoint driver chooses a queue
  for each packet; a packet that belongs to a configured stream goes to the time-aware DMA
  (TADMA), which fetches it at the time its schedule gives, all others go to the multi-channel
  DMA. The gate scheduler, frame preemption, policing and frame replication of the MACs and of
  the switch are set up through ioctls. The tools read a configuration file and make these requests. PTP frames
  have buffers of their own in the MAC; the daemon chooses a master with the best master
  clock algorithm and sets the hardware clock, by which all the schedules run.

  \<^bold>\<open>Foundations.\<close> \<open>Prelude\<close> has the machine types, bit fields of registers, byte orders, the locale
  of a register file and the outcomes by which a definition says that the C code would fault.
  \<open>Axienet\<close> is the state of a MAC (\<open>struct axienet_local\<close>) as its register parts see it: a register the
  driver polls is a sequence of answers. \<open>Ring\<close> has the locale \<open>bounded_queue\<close> of a bounded queue and
  the index arithmetic of rings.

  \<^bold>\<open>Time-aware DMA\<close> (\<^verbatim>\<open>xilinx_tsn_tadma.c\<close>, \<^verbatim>\<open>tadma_prog.c\<close>). \<open>Tadma\<close> models the stream table and the
  fetch memory, \<open>Tadma_Xmit\<close> the descriptor rings and the interrupt, \<open>Tadma_Prog\<close> the tool.
  \<open>Tadma_Table\<close> shows that the table stays well formed, that an added stream is found by its packets,
  and that programming gives every stream its slot. \<open>Tadma_Ring\<close> and \<open>Tadma_Transmit\<close> show that the transmit
  path refines a queue as long as there is room, which the code does not check. \<open>Tadma_Config\<close> composes tool and driver: the
  streams that the tool sends take effect, and reading the addresses of a stream overruns an array.

  \<^bold>\<open>Other parts of the driver.\<close> \<open>Shaper\<close>, \<open>Shaper_Schedule\<close>: the gate scheduler (\<^verbatim>\<open>xilinx_tsn_shaper.c\<close>), its round
  trip and its refusals. \<open>Preemption\<close>: \<^verbatim>\<open>xilinx_tsn_preemption.c\<close>. \<open>Qci_Cb\<close>: \<^verbatim>\<open>xilinx_tsn_qci.c\<close> and
  \<^verbatim>\<open>xilinx_tsn_cb.c\<close>. \<open>Switch\<close>, \<open>Switch_Config\<close>: \<^verbatim>\<open>xilinx_tsn_switch.c\<close>. \<open>Endpoint\<close>: the dispatch of
  \<^verbatim>\<open>xilinx_tsn_ep.c\<close>. \<open>Ptp_Clock\<close>, \<open>Ptp_Xmit\<close>: the hardware clock and the PTP buffers. \<open>Mcdma\<close>, \<open>Mcdma_Ring\<close>:
  the multi-channel data path of \<^verbatim>\<open>xilinx_axienet_main.c\<close> and \<^verbatim>\<open>xilinx_axienet_mcdma.c\<close>, again
  as a refinement of the queue. \<open>Mac\<close>, \<open>Mac_Setup\<close>, \<open>Mac_Ioctl\<close>: setting up a MAC and its requests.
  \<open>Qbv_Sched\<close>, \<open>Qbv_Config\<close>: the tool \<^verbatim>\<open>qbv_sched.c\<close> together with the driver.

  \<^bold>\<open>TRDP.\<close> \<open>Vos_Crc\<close> and \<open>Vos_Time\<close> are check sums and time arithmetic. \<open>Trdp_Utils\<close>,
  \<open>Trdp_Sockets\<close>, \<open>Trdp_Session\<close>, \<open>Trdp_Stats\<close>, \<open>Trdp_Pd\<close> and \<open>Trdp_If\<close> model \<^verbatim>\<open>trdp_utils.c\<close>, \<^verbatim>\<open>trdp_private.h\<close>,
  \<^verbatim>\<open>trdp_stats.c\<close>, \<^verbatim>\<open>trdp_pdcom.c\<close> and \<^verbatim>\<open>trdp_if.c\<close> as far as process data goes. \<open>Tau_Marshall\<close>
  models \<^verbatim>\<open>tau_marshall.c\<close>. \<open>Trdp_Seq\<close>, \<open>Trdp_Frames\<close>, \<open>Trdp_Link\<close>, \<open>Trdp_Delivery\<close>, \<open>Trdp_Timing\<close> and
  \<open>Trdp_Pool\<close> show delivery of what was published, rejection of damaged telegrams, times and
  the counting of sockets; \<open>Trdp_Safety\<close> and \<open>Trdp_Calls\<close> that no sequence of admissible calls
  faults; \<open>Tau_Roundtrip\<close> and \<open>Tau_Size\<close> the round trip of marshalling and its sizes.

  \<^bold>\<open>Message data\<close> (\<^verbatim>\<open>trdp_mdcom.c\<close>, the socket calls of \<^verbatim>\<open>vos_sock.c\<close>, the \<open>tlm_\<close> calls of \<^verbatim>\<open>trdp_if.c\<close>). \<open>Trdp_Md\<close>
  has the session and the side that sends, \<open>Trdp_Md_Send\<close> the socket calls and sending, \<open>Trdp_Md_Recv\<close>
  datagrams and streams, \<open>Trdp_Md_Proc\<close> listeners and sessions, \<open>Trdp_Md_Check\<close> time-outs and connections,
  \<open>Trdp_Md_If\<close> the interface. A session of message data extends that of process data; it holds the answers
  of the kernel that have not been used yet and the first fault. \<open>Trdp_Md_Stream\<close> shows that a message is put
  together from the pieces of a stream, \<open>Trdp_Md_Delivery\<close> over the frames of \<open>Trdp_Md_Frames\<close> that a
  request reaches its listener and a reply its caller, \<open>Trdp_Md_Limits\<close> retries and what goes wrong.

  \<^bold>\<open>PTP daemon.\<close> \<open>Ptp_Bmc\<close> models \<^verbatim>\<open>bmc.c\<close>, \<^verbatim>\<open>telecom.c\<close>, \<^verbatim>\<open>fsm.c\<close>, \<^verbatim>\<open>designated_fsm.c\<close> and the parts of
  \<^verbatim>\<open>port.c\<close> and \<^verbatim>\<open>clock.c\<close> that carry the algorithm. \<open>Ptp_Select\<close> shows that the best master is selected
  and that, with the algorithm on at every port, at most one port follows a master in every reachable
  state; \<open>designated_slave_faults\<close> and \<open>closed_best_port_dangles\<close> are the accesses to absent and to freed
  memory that the model makes faults.

  \<^bold>\<open>Conventions.\<close> Structures are records, in which only the fields that are used occur. A C call is one function of its
  state; locks have no counterpart, since a call is one step. A null pointer is \<open>None\<close>.
  Machine integers are words where they are stored or can wrap, and integers where the
  source has \<open>long\<close> or \<open>int\<close> values that stay in range. What the hardware, the kernel, libconfig, \<open>qsort\<close>, sockets and clocks
  answer are arguments of the definitions, with documented laws as named hypotheses
  (\<open>qsort_ok\<close>, \<open>time64_ok\<close>, \<open>rtc_law\<close>, \<open>obeys_commands\<close>, \<open>writes_keep_entries\<close>), each instantiated in a witness. Reading or writing outside of an array is a fault.

  \<^bold>\<open>Bounds.\<close> Loops over lists recurse on the list. A polling loop ends after 20000
  busy answers, as in the source (\<open>control_writes_wait\<close>), except for the one loop of the source without a bound, which
  is shown to end exactly when the hardware releases the register. A gate list has at most 256 entries, the TADMA
  fetch memory at most 512, with 128 streams at most; a list of sequence counters stays below 32768 senders; the socket
  pool has 80 places; datasets nest up to five levels, the bound of the source, which serves as fuel; the rings
  have 64 and 128 descriptors; PTP has 8 buffers to send and 16 to receive; the
  multicast table has 4 entries. Where the source has no check for such a bound the property has it as a hypothesis.

  \<^bold>\<open>Not modelled.\<close> Registration with the kernel (probing, clocks, net devices, MDIO), which is calls into the kernel
  only; the single-channel DMA and the drivers of other cores, alternatives that this subsystem does not use;
  the XML configuration and train services of TRDP, clients of the calls modelled here;
  opening sockets and threads; in the daemon the servos, which compute in floating
  point, transports, command line programs and the configuration. Publication and subscription addresses
  whose topography counters the source leaves uninitialised have zeros in the model. Log messages have no counterpart, except the output of \<^verbatim>\<open>qbv_sched.c\<close>.
\<close>

end
